(* ===== verification/Vxg_Prelude.thy ===== *)
theory Vxg_Prelude
  imports Main "HOL-Library.Word"
begin

text \<open>
  Shared vocabulary of the development: the machine types the sources use, the
  collections the component proofs are driven by, and the generic facts on lists and
  words that more than one component needs.
\<close>

section \<open>Machine types\<close>

text \<open>\<open>uint8_t\<close>, \<open>int8_t\<close> and \<open>char\<close> are all one byte; \<open>sint\<close> and \<open>unat\<close> choose the reading.\<close>

type_synonym byte = "8 word"

text \<open>The result of an operation that can fail: \<open>Inl\<close> is the failure.\<close>

type_synonym ('e, 'a) result = "'e + 'a"

section \<open>Collections\<close>

named_theorems packbits_simps \<open>decoding of single PackBits packets\<close>
named_theorems period_simps \<open>unfolding of the period predicates\<close>
named_theorems seg_frame \<open>fields a segmenter operation leaves alone\<close>
named_theorems queue_inv \<open>operations that keep the media queue well-formed\<close>
named_theorems json_rt \<open>round trips of JSON field codecs\<close>

section \<open>Sequencing of fallible steps\<close>

text \<open>Run a fallible step over a list, stopping at the first failure.\<close>

fun fold_result :: "('s \<Rightarrow> 'a \<Rightarrow> ('e, 's) result) \<Rightarrow> 's \<Rightarrow> 'a list \<Rightarrow> ('e, 's) result" where
  "fold_result f s [] = Inr s"
| "fold_result f s (x # xs) =
     (case f s x of Inl e \<Rightarrow> Inl e | Inr s' \<Rightarrow> fold_result f s' xs)"

lemma fold_result_append:
  "fold_result f s (xs @ ys) =
     (case fold_result f s xs of Inl e \<Rightarrow> Inl e | Inr s' \<Rightarrow> fold_result f s' ys)"
  by (induction xs arbitrary: s) (auto split: sum.splits)

text \<open>
  A step that succeeds and keeps an invariant of the state and the input read so far does so
  over the whole list.
\<close>

lemma fold_result_invariant:
  assumes "P s []"
    and "\<And>s ps x. P s ps \<Longrightarrow> \<exists>s'. f s x = Inr s' \<and> P s' (ps @ [x])"
  shows "\<exists>s'. fold_result f s xs = Inr s' \<and> P s' xs"
proof (induction xs rule: rev_induct)
  case Nil
  then show ?case using assms(1) by simp
next
  case (snoc x xs)
  then obtain t where "fold_result f s xs = Inr t" and "P t xs" by blast
  with assms(2) [of t xs x] show ?case
    by (auto simp: fold_result_append)
qed

section \<open>Lists\<close>

lemma replicate_snoc: "replicate n x @ [x] = replicate (Suc n) x"
  by (simp add: replicate_append_same)

lemma drop_snoc_le: "k \<le> length xs \<Longrightarrow> drop k (xs @ [x]) = drop k xs @ [x]"
  by simp

lemma take_snoc_le: "k \<le> length xs \<Longrightarrow> take k (xs @ [x]) = take k xs"
  by simp

section \<open>Bytes\<close>

lemma unat_byte_less [simp]: "unat (b :: byte) < 256"
  using unsigned_less [of b] by simp

lemma sint_byte_small: "n < 128 \<Longrightarrow> sint (of_nat n :: byte) = int n"
  by (simp add: sint_uint signed_take_bit_int_eq_self unsigned_of_nat take_bit_nat_eq_self)

lemma sint_byte_neg: "0 < n \<Longrightarrow> n < 128 \<Longrightarrow> sint (- of_nat n :: byte) = - int n"
proof -
  assume "0 < n" "n < 128"
  have "(- of_nat n :: byte) = of_int (- int n)" by simp
  also have "sint \<dots> = - int n"
    using \<open>n < 128\<close> by (simp only: signed_of_int) (simp add: signed_take_bit_int_eq_self)
  finally show ?thesis .
qed

end
