(* ===== verification/Packbits.thy ===== *)
theory Packbits
  imports Vxg_Prelude
begin

text \<open>
  \<^verbatim>\<open>src/src/utils/packbits.c\<close>: the PackBits run-length coder that packs motion grids.
\<close>

section \<open>The encoder\<close>

datatype pack_mode = DUMP | RUN

definition MINRUN :: nat where "MINRUN = 3"
definition MAXRUN :: nat where "MAXRUN = 128"
definition MAXDAT :: nat where "MAXDAT = 128"

datatype pack_error =
    PackEmpty        \<comment> \<open>\<open>size\<close> is not positive: the loop counter runs below zero\<close>
  | PackBufOverflow  \<comment> \<open>a store past the end of \<open>buf\<close>\<close>

text \<open>
  The locals of \<open>packbits\<close>. \<open>buf\<close> holds \<open>buf[0..nbuf)\<close>, so that \<open>nbuf\<close> is its length: the
  C code stores only at \<open>buf[nbuf++]\<close> and restarts with \<open>buf[0] = c; nbuf = 1\<close>. \<open>dest\<close> is what
  was written through the destination pointer.
\<close>

record pack_state =
  buf :: "byte list"
  lastc :: byte
  mode :: pack_mode
  rstart :: nat
  dest :: "byte list"
  putsize :: nat

definition pack_init :: "byte \<Rightarrow> pack_state" where
  "pack_init c = \<lparr>buf = [c], lastc = c, mode = DUMP, rstart = 0, dest = [], putsize = 0\<rparr>"

text \<open>One iteration of the \<open>for\<close> loop on the source byte \<open>c\<close>.\<close>

definition pack_step :: "pack_state \<Rightarrow> byte \<Rightarrow> (pack_error, pack_state) result" where
  "pack_step s c =
     (if length (buf s) \<ge> 2 * MAXDAT then Inl PackBufOverflow
      else let b = buf s @ [c]; nbuf = length b; r = rstart s in
      case mode s of
        DUMP \<Rightarrow>
          (if nbuf > MAXDAT then
             Inr (s\<lparr>dest := dest s @ [of_nat (nbuf - 2)] @ take (nbuf - 1) b,
                    putsize := putsize s + nbuf, buf := [c], rstart := 0, lastc := c\<rparr>)
           else if c = lastc s then
             (if nbuf - r \<ge> MINRUN then
                (if r > 0 then
                   Inr (s\<lparr>dest := dest s @ [of_nat (r - 1)] @ take r b,
                          putsize := putsize s + (r + 1), buf := b, mode := RUN, lastc := c\<rparr>)
                 else Inr (s\<lparr>buf := b, mode := RUN, lastc := c\<rparr>))
              else if r = 0 then Inr (s\<lparr>buf := b, mode := RUN, lastc := c\<rparr>)
              else Inr (s\<lparr>buf := b, lastc := c\<rparr>))
           else Inr (s\<lparr>buf := b, rstart := nbuf - 1, lastc := c\<rparr>))
      | RUN \<Rightarrow>
          (if c \<noteq> lastc s \<or> nbuf - r > MAXRUN then
             Inr (s\<lparr>dest := dest s @ [- of_nat (nbuf - r - 2), lastc s],
                    putsize := putsize s + 2, buf := [c], rstart := 0, mode := DUMP, lastc := c\<rparr>)
           else Inr (s\<lparr>buf := b, lastc := c\<rparr>)))"

text \<open>The \<open>switch\<close> after the loop.\<close>

definition pack_flush :: "pack_state \<Rightarrow> byte list \<times> nat" where
  "pack_flush s =
     (let nbuf = length (buf s) in
      case mode s of
        DUMP \<Rightarrow> (dest s @ [of_nat (nbuf - 1)] @ buf s, putsize s + (nbuf + 1))
      | RUN \<Rightarrow> (dest s @ [- of_nat (nbuf - rstart s - 1), lastc s], putsize s + 2))"

text \<open>
  \<open>packbits(source, dest, size)\<close> with \<open>size\<close> the length of the source: the bytes written and
  the returned count. With \<open>size = 0\<close> the C code reads \<open>*source\<close> and counts down from \<open>-1\<close>.
\<close>

definition packbits :: "byte list \<Rightarrow> (pack_error, byte list \<times> nat) result" where
  "packbits source =
     (case source of
        [] \<Rightarrow> Inl PackEmpty
      | c # cs \<Rightarrow>
          (case fold_result pack_step (pack_init c) cs of
             Inl e \<Rightarrow> Inl e
           | Inr s \<Rightarrow> Inr (pack_flush s)))"

section \<open>The decoder\<close>

text \<open>
  What a call of \<open>unpackbits\<close> leaves behind: the bytes stored through \<open>destp\<close>, and the source at
  the returned pointer, \<open>NULL\<close> when a packet is longer than the room left, or a read past the end
  of the packed data.
\<close>

datatype unpack_result =
    UnpackOk "byte list" "byte list"
  | UnpackNull "byte list"
  | UnpackReadPast "byte list"

text \<open>The loop of \<open>unpackbits\<close>; \<open>out\<close> is what was stored so far.\<close>

function unpackbits :: "byte list \<Rightarrow> byte list \<Rightarrow> int \<Rightarrow> unpack_result" where
  "unpackbits src out destcount =
     (if destcount > 0 then
        (case src of
           [] \<Rightarrow> UnpackReadPast out
         | h # src' \<Rightarrow>
             let runlength = sint h in
             if runlength = -128 then unpackbits src' out destcount
             else if runlength < 0 then
               (let n = (- runlength) + 1 in
                if n > destcount then UnpackNull out
                else (case src' of
                        [] \<Rightarrow> UnpackReadPast out
                      | v # src'' \<Rightarrow>
                          unpackbits src'' (out @ replicate (nat n) v) (destcount - n)))
             else
               (let n = runlength + 1 in
                if n > destcount then UnpackNull out
                else if length src' < nat n then UnpackReadPast out
                else unpackbits (drop (nat n) src') (out @ take (nat n) src') (destcount - n)))
      else if destcount = 0 then UnpackOk out src else UnpackNull out)"
  by pat_completeness auto
termination
  by (relation "measure (\<lambda>(src, out, n). length src)") auto

declare unpackbits.simps [simp del]

section \<open>The encoder's loop invariant\<close>

lemma pack_consts [simp]: "MINRUN = 3" "MAXRUN = 128" "MAXDAT = 128"
  by (simp_all add: MINRUN_def MAXRUN_def MAXDAT_def)

lemma unpackbits_literal:
  assumes "sint h = int (length xs) - 1" and "xs \<noteq> []" and "int (length xs) \<le> n"
  shows "unpackbits (h # xs @ rest) out n = unpackbits rest (out @ xs) (n - int (length xs))"
proof -
  from assms have "0 < n" by (cases xs) auto
  with assms show ?thesis by (subst unpackbits.simps) (simp add: Let_def)
qed

lemma unpackbits_run:
  assumes "sint h = 1 - int k" and "2 \<le> k" and "k \<le> 128" and "int k \<le> n"
  shows "unpackbits (h # v # rest) out n =
    unpackbits rest (out @ replicate k v) (n - int k)"
  using assms by (subst unpackbits.simps) (simp add: Let_def)

text \<open>\<open>decodes enc data\<close>: the decoder turns \<open>enc\<close> into \<open>data\<close>, whatever follows it.\<close>

definition decodes :: "byte list \<Rightarrow> byte list \<Rightarrow> bool" where
  "decodes enc data \<longleftrightarrow>
     (\<forall>rest out n. int (length data) \<le> n \<longrightarrow>
        unpackbits (enc @ rest) out n = unpackbits rest (out @ data) (n - int (length data)))"

lemma decodes_Nil [simp]: "decodes [] []"
  by (simp add: decodes_def)

lemma decodes_append: "decodes e1 d1 \<Longrightarrow> decodes e2 d2 \<Longrightarrow> decodes (e1 @ e2) (d1 @ d2)"
  unfolding decodes_def by (simp add: algebra_simps)

lemma decodes_literal:
  assumes "xs \<noteq> []" and "length xs \<le> 128"
  shows "decodes (of_nat (length xs - 1) # xs) xs"
proof -
  have "sint (of_nat (length xs - 1) :: byte) = int (length xs) - 1"
    using assms by (subst sint_byte_small) (auto simp: Suc_le_eq of_nat_diff)
  with assms show ?thesis
    by (simp add: decodes_def unpackbits_literal)
qed

lemma decodes_run:
  assumes "2 \<le> k" and "k \<le> 128"
  shows "decodes [- of_nat (k - 1), v] (replicate k v)"
proof -
  have "sint (- of_nat (k - 1) :: byte) = 1 - int k"
    using assms by (subst sint_byte_neg) (auto simp: of_nat_diff)
  with assms show ?thesis
    by (simp add: decodes_def unpackbits_run)
qed


text \<open>
  The loop invariant: the input read so far is \<open>data @ pend\<close>, \<open>data\<close> is what the bytes written
  decode to and \<open>pend\<close> is what the buffer still owes. \<open>full\<close> counts the dumps of a full buffer,
  the only packets that may cost a byte more than they carry.
\<close>

definition pack_inv :: "pack_state \<Rightarrow> byte list \<Rightarrow> byte list \<Rightarrow> nat \<Rightarrow> bool" where
  "pack_inv s data pend full \<longleftrightarrow>
     decodes (dest s) data \<and> putsize s = length (dest s) \<and> 128 * full \<le> length data \<and>
     rstart s < length (buf s) \<and>
     drop (rstart s) (buf s) = replicate (length (buf s) - rstart s) (lastc s) \<and>
     (case mode s of
        DUMP \<Rightarrow> pend = buf s \<and> length (buf s) \<le> 128 \<and> length (buf s) \<le> rstart s + 2 \<and>
          (rstart s = 0 \<longrightarrow> length (buf s) = 1) \<and> length (dest s) \<le> length data + full
      | RUN \<Rightarrow> pend = replicate (length (buf s) - rstart s) (lastc s) \<and>
          rstart s \<le> 125 \<and> rstart s + 2 \<le> length (buf s) \<and> length (buf s) \<le> rstart s + 128 \<and>
          (if rstart s = 0 then length (dest s) \<le> length data + full
           else rstart s + 3 \<le> length (buf s) \<and> length (dest s) \<le> length data + full + 1))"

lemma pack_init_inv: "pack_inv (pack_init c) [] [c] 0"
  by (simp add: pack_inv_def pack_init_def)

lemma pack_step_dump:
  assumes inv: "pack_inv s data pend full" and m: "mode s = DUMP"
  shows "\<exists>s' d p f. pack_step s c = Inr s' \<and> pack_inv s' d p f \<and> d @ p = data @ pend @ [c]"
proof -
  let ?n = "length (buf s)" and ?r = "rstart s"
  from inv m have D: "decodes (dest s) data" "putsize s = length (dest s)"
      "128 * full \<le> length data" "?r < ?n" "drop ?r (buf s) = replicate (?n - ?r) (lastc s)"
      "pend = buf s" "?n \<le> 128" "?n \<le> ?r + 2" "?r = 0 \<longrightarrow> ?n = 1"
      "length (dest s) \<le> length data + full"
    by (auto simp: pack_inv_def)
  consider (full) "?n = 128" | (same3) "?n < 128" "c = lastc s" "?n + 1 \<ge> ?r + 3"
    | (same0) "?n < 128" "c = lastc s" "?n + 1 < ?r + 3" "?r = 0"
    | (same) "?n < 128" "c = lastc s" "?n + 1 < ?r + 3" "?r > 0"
    | (diff) "?n < 128" "c \<noteq> lastc s"
    using D(7) by linarith
  then show ?thesis
  proof cases
    case full
    let ?s = "s\<lparr>dest := dest s @ of_nat 127 # buf s, putsize := putsize s + 129,
        buf := [c], rstart := 0, lastc := c\<rparr>"
    have "decodes (of_nat (?n - 1) # buf s) (buf s)"
      using full by (intro decodes_literal) auto
    with D full m have "pack_inv ?s (data @ buf s) [c] (Suc full)"
      by (auto simp: pack_inv_def intro!: decodes_append)
    moreover have "pack_step s c = Inr ?s"
      using full m by (simp add: pack_step_def Let_def)
    ultimately show ?thesis using D(6) by fastforce
  next
    case same3
    then have r: "?r > 0" "?n = ?r + 2" using D by auto
    let ?s = "s\<lparr>dest := dest s @ of_nat (?r - 1) # take ?r (buf s),
        putsize := putsize s + (?r + 1), buf := buf s @ [c], mode := RUN, lastc := c\<rparr>"
    have "decodes (of_nat (?r - 1) # take ?r (buf s)) (take ?r (buf s))"
      using decodes_literal [of "take ?r (buf s)"] r same3 by (cases "buf s") auto
    with D r same3 have "pack_inv ?s (data @ take ?r (buf s)) (replicate 3 c) full"
      by (auto simp: pack_inv_def replicate_snoc intro!: decodes_append)
    moreover have "pack_step s c = Inr ?s"
      using same3 r m by (simp add: pack_step_def Let_def)
    moreover have "take ?r (buf s) @ replicate 3 c = buf s @ [c]"
    proof -
      have "take ?r (buf s) @ drop ?r (buf s) @ [c] = buf s @ [c]" by simp
      with D(5) r same3 show ?thesis by (simp add: numeral_eq_Suc)
    qed
    ultimately show ?thesis using D(6) by (metis append.assoc)
  next
    case same0
    then have "buf s = [c]" using D by (auto simp: length_Suc_conv)
    let ?s = "s\<lparr>buf := buf s @ [c], mode := RUN, lastc := c\<rparr>"
    from D same0 \<open>buf s = [c]\<close> have "pack_inv ?s data [c, c] full"
      by (auto simp: pack_inv_def numeral_eq_Suc)
    moreover have "pack_step s c = Inr ?s"
      using same0 m by (simp add: pack_step_def Let_def)
    ultimately show ?thesis using D(6) \<open>buf s = [c]\<close> by fastforce
  next
    case same
    let ?s = "s\<lparr>buf := buf s @ [c], lastc := c\<rparr>"
    from D same m have "pack_inv ?s data (buf s @ [c]) full"
      by (auto simp: pack_inv_def replicate_snoc Suc_diff_le)
    moreover have "pack_step s c = Inr ?s"
      using same m by (simp add: pack_step_def Let_def)
    ultimately show ?thesis using D(6) by fastforce
  next
    case diff
    let ?s = "s\<lparr>buf := buf s @ [c], rstart := ?n, lastc := c\<rparr>"
    from D diff m have "pack_inv ?s data (buf s @ [c]) full"
      by (auto simp: pack_inv_def)
    moreover have "pack_step s c = Inr ?s"
      using diff m by (simp add: pack_step_def Let_def)
    ultimately show ?thesis using D(6) by fastforce
  qed
qed

lemma pack_step_run:
  assumes inv: "pack_inv s data pend full" and m: "mode s = RUN"
  shows "\<exists>s' d p f. pack_step s c = Inr s' \<and> pack_inv s' d p f \<and> d @ p = data @ pend @ [c]"
proof -
  let ?n = "length (buf s)" and ?r = "rstart s"
  from inv m have D: "decodes (dest s) data" "putsize s = length (dest s)"
      "128 * full \<le> length data" "drop ?r (buf s) = replicate (?n - ?r) (lastc s)"
      "pend = replicate (?n - ?r) (lastc s)" "?r \<le> 125" "?r + 2 \<le> ?n" "?n \<le> ?r + 128"
      "if ?r = 0 then length (dest s) \<le> length data + full
       else ?r + 3 \<le> ?n \<and> length (dest s) \<le> length data + full + 1"
    by (auto simp: pack_inv_def)
  show ?thesis
  proof (cases "c \<noteq> lastc s \<or> ?n + 1 - ?r > 128")
    case True
    let ?s = "s\<lparr>dest := dest s @ [- of_nat (?n - ?r - 1), lastc s], putsize := putsize s + 2,
        buf := [c], rstart := 0, mode := DUMP, lastc := c\<rparr>"
    have "decodes [- of_nat (?n - ?r - 1), lastc s] pend"
      unfolding D(5) using D by (intro decodes_run) auto
    with D have "pack_inv ?s (data @ pend) [c] full"
      by (auto simp: pack_inv_def intro!: decodes_append split: if_splits)
    moreover have "pack_step s c = Inr ?s"
      using True m D by (auto simp: pack_step_def Let_def)
    ultimately show ?thesis by fastforce
  next
    case False
    let ?s = "s\<lparr>buf := buf s @ [c], lastc := c\<rparr>"
    from D False m have "pack_inv ?s data (pend @ [c]) full"
      by (auto simp: pack_inv_def replicate_snoc Suc_diff_le split: if_splits)
    moreover have "pack_step s c = Inr ?s"
      using False m D by (auto simp: pack_step_def Let_def)
    ultimately show ?thesis by fastforce
  qed
qed

lemma pack_step_ok:
  assumes "pack_inv s data pend full"
  shows "\<exists>s' d p f. pack_step s c = Inr s' \<and> pack_inv s' d p f \<and> d @ p = data @ pend @ [c]"
proof (cases "mode s")
  case DUMP
  with assms show ?thesis by (rule pack_step_dump)
next
  case RUN
  with assms show ?thesis by (rule pack_step_run)
qed

lemma pack_flush_ok:
  assumes "pack_inv s data pend full"
  obtains enc where "pack_flush s = (enc, length enc)" and "decodes enc (data @ pend)"
    and "length enc \<le> length (data @ pend) + full + 1" and "pend \<noteq> []"
proof (cases "mode s")
  case DUMP
  with assms have "buf s \<noteq> []" "length (buf s) \<le> 128" and p: "pend = buf s" "pend \<noteq> []"
    by (auto simp: pack_inv_def)
  from decodes_literal [OF this(1,2)] p show ?thesis
    using assms DUMP
    by (intro that [of "dest s @ of_nat (length (buf s) - 1) # buf s"])
      (auto simp: pack_flush_def pack_inv_def Let_def intro: decodes_append)
next
  case RUN
  let ?k = "length (buf s) - rstart s"
  from assms RUN have k: "2 \<le> ?k" "?k \<le> 128" and p: "pend = replicate ?k (lastc s)"
    by (auto simp: pack_inv_def)
  then have "pend \<noteq> []" by auto
  with decodes_run [OF k, of "lastc s"] show ?thesis
    unfolding p
    using assms RUN
    by (intro that [of "dest s @ [- of_nat (?k - 1), lastc s]"])
      (auto simp: pack_flush_def pack_inv_def Let_def intro: decodes_append split: if_splits)
qed

text \<open>Everything the encoder guarantees, in one statement the properties read off.\<close>

lemma packbits_correct:
  assumes "xs \<noteq> []"
  obtains enc where "packbits xs = Inr (enc, length enc)" and "decodes enc xs"
    and "length enc \<le> length xs + (length xs - 1) div 128 + 1"
proof -
  from assms obtain c cs where xs: "xs = c # cs" by (cases xs) auto
  let ?P = "\<lambda>s ps. \<exists>d p f. pack_inv s d p f \<and> d @ p = c # ps"
  have "\<exists>s. fold_result pack_step (pack_init c) cs = Inr s \<and> ?P s cs"
  proof (rule fold_result_invariant [where P = ?P])
    show "?P (pack_init c) []" using pack_init_inv by fastforce
  next
    fix s ps x assume "?P s ps"
    then obtain d p f where "pack_inv s d p f" and e: "d @ p = c # ps" by blast
    from \<open>pack_inv s d p f\<close>
    have "\<exists>s' d' p' f'. pack_step s x = Inr s' \<and> pack_inv s' d' p' f' \<and> d' @ p' = d @ p @ [x]"
      by (rule pack_step_ok)
    with e show "\<exists>s'. pack_step s x = Inr s' \<and> ?P s' (ps @ [x])"
      by (metis append_Cons append.assoc)
  qed
  then obtain s d p f where run: "fold_result pack_step (pack_init c) cs = Inr s"
    and inv: "pack_inv s d p f" and dp: "d @ p = xs" unfolding xs by blast
  from inv obtain enc where enc: "pack_flush s = (enc, length enc)" "decodes enc xs"
      "length enc \<le> length xs + f + 1" "p \<noteq> []"
    using dp by (auto elim: pack_flush_ok)
  have "128 * f \<le> length d" using inv by (simp add: pack_inv_def)
  moreover have "length d + 1 \<le> length xs" using dp enc(4) by (cases p) auto
  ultimately have "f \<le> (length xs - 1) div 128" by linarith
  with enc run xs show ?thesis by (intro that [of enc]) (auto simp: packbits_def)
qed

section \<open>The decoder never writes past the room it was given\<close>

definition unpack_within :: "nat \<Rightarrow> int \<Rightarrow> unpack_result \<Rightarrow> bool" where
  "unpack_within k n res =
     (case res of
        UnpackOk r rest \<Rightarrow> int (length r) = int k + n
      | UnpackNull r \<Rightarrow> int (length r) < int k + n
      | UnpackReadPast r \<Rightarrow> int (length r) < int k + n)"

lemma unpackbits_within:
  assumes "0 \<le> n"
  shows "unpack_within (length out) n (unpackbits src out n)"
  using assms
proof (induction "length src" arbitrary: src out n rule: less_induct)
  case less
  show ?case
  proof (cases "n > 0 \<and> src \<noteq> []")
    case False
    with less.prems show ?thesis
      by (subst unpackbits.simps) (auto simp: unpack_within_def split: list.splits)
  next
    case True
    then obtain h src' where src: "src = h # src'" and n: "n > 0" by (cases src) auto
    have step: "unpack_within (length out) n (unpackbits s (out @ new) (n - int (length new)))"
      if "length s < length src" "int (length new) \<le> n" for s new
      using less.hyps [of s "n - int (length new)" "out @ new"] that
      by (simp add: unpack_within_def split: unpack_result.splits)
    consider "sint h = -128" | "sint h < 0" "sint h \<noteq> -128" | "sint h \<ge> 0" by linarith
    then show ?thesis
    proof cases
      case 1
      with n step [of src' "[]"] show ?thesis
        by (subst unpackbits.simps) (simp add: src)
    next
      case 2
      let ?m = "nat (1 - sint h)"
      show ?thesis
      proof (cases "1 - sint h > n \<or> src' = []")
        case True
        with 2 n show ?thesis
          by (subst unpackbits.simps) (auto simp: src unpack_within_def Let_def)
      next
        case False
        then obtain v s where s: "src' = v # s" by (cases src') auto
        with False 2 n step [of s "replicate ?m v"] show ?thesis
          by (subst unpackbits.simps) (simp add: src Let_def)
      qed
    next
      case 3
      let ?m = "nat (sint h + 1)"
      show ?thesis
      proof (cases "sint h + 1 > n \<or> length src' < ?m")
        case True
        with 3 n show ?thesis
          by (subst unpackbits.simps) (auto simp: src unpack_within_def Let_def)
      next
        case False
        with 3 have len: "int (length (take ?m src')) = sint h + 1" by simp
        have "unpack_within (length out) n
          (unpackbits (drop ?m src') (out @ take ?m src') (n - (sint h + 1)))"
          using step [of "drop ?m src'" "take ?m src'"] False unfolding len by (simp add: src)
        with False 3 n show ?thesis
          by (subst unpackbits.simps) (simp add: src Let_def)
      qed
    qed
  qed
qed

section \<open>The worst case\<close>

text \<open>
  Without two equal neighbours the packer never leaves \<open>DUMP\<close>, and pays one header byte for each
  128 bytes.
\<close>

definition dump_only :: "pack_state \<Rightarrow> nat \<Rightarrow> bool" where
  "dump_only s n \<longleftrightarrow> mode s = DUMP \<and> buf s \<noteq> [] \<and> rstart s = length (buf s) - 1 \<and>
     length (buf s) + 128 * ((n - 1) div 128) = n \<and> 
     length (dest s) + length (buf s) = n + (n - 1) div 128"

lemma dump_only_step:
  assumes d: "dump_only s (Suc m)" and c: "c \<noteq> lastc s"
  shows "\<exists>s'. pack_step s c = Inr s' \<and> dump_only s' (Suc (Suc m)) \<and> lastc s' = c"
proof -
  have "length (buf s) + 128 * (m div 128) = Suc m" using d by (simp add: dump_only_def)
  with mult_div_mod_eq [of 128 m] have l: "length (buf s) = Suc (m mod 128)" by linarith
  have h: "mode s = DUMP" "rstart s = m mod 128" "buf s \<noteq> []"
    "length (dest s) + m mod 128 = m + m div 128"
    using d l unfolding dump_only_def by auto
  show ?thesis
  proof (cases "m mod 128 = 127")
    case True
    then have m: "Suc m div 128 = Suc (m div 128)" "m = 128 * (m div 128) + 127"
      using mult_div_mod_eq [of 128 m] by (simp_all add: div_Suc mod_Suc)
    with True l h c show ?thesis
      by (auto simp: pack_step_def dump_only_def Let_def)
  next
    case False
    then have m: "Suc m div 128 = m div 128" "m mod 128 < 127"
      using mod_less_divisor [of 128 m] by (auto simp: div_Suc mod_Suc)
    show ?thesis
      using l h c m by (simp add: pack_step_def Let_def) (auto simp: dump_only_def)
  qed
qed

lemma dump_only_fold:
  assumes "dump_only s (Suc m)" "distinct_adj (lastc s # xs)"
  shows "\<exists>s'. fold_result pack_step s xs = Inr s' \<and> dump_only s' (Suc m + length xs)"
  using assms
proof (induction xs arbitrary: s m)
  case (Cons c xs)
  then obtain s' where "pack_step s c = Inr s'" "dump_only s' (Suc (Suc m))" "lastc s' = c"
    using dump_only_step [of s m c] by auto
  with Cons.IH [of s' "Suc m"] Cons.prems show ?case by auto
qed simp

lemma packbits_worst_case:
  assumes "xs \<noteq> []" "distinct_adj xs"
  shows "\<exists>enc. packbits xs = Inr (enc, length enc) \<and> length enc = length xs + (length xs - 1) div 128 + 1"
proof -
  obtain c cs where xs: "xs = c # cs" using assms(1) by (cases xs) auto
  have "dump_only (pack_init c) (Suc 0)" by (simp add: dump_only_def pack_init_def)
  then obtain s where s: "fold_result pack_step (pack_init c) cs = Inr s" "dump_only s (1 + length cs)"
    using dump_only_fold [of "pack_init c" 0 cs] assms(2) xs by (auto simp: pack_init_def)
  obtain enc where "packbits xs = Inr (enc, length enc)"
    using packbits_correct [OF assms(1)] by blast
  with s show ?thesis
    by (auto simp: xs packbits_def pack_flush_def Let_def dump_only_def)
qed

section \<open>Properties\<close>

text \<open>
  C10: packing succeeds on every non-empty input without storing past its buffer, the returned size is
  the number of bytes stored and is at most one header per 128 bytes above the input, and unpacking
  the packed bytes with the original length gives the input back and consumes all of them.
\<close>

theorem packbits_roundtrip:
  assumes "xs \<noteq> []"
  shows "\<exists>enc. packbits xs = Inr (enc, length enc) \<and>
    length enc \<le> length xs + (length xs - 1) div 128 + 1 \<and>
    unpackbits enc [] (int (length xs)) = UnpackOk xs []"
proof -
  obtain enc where enc: "packbits xs = Inr (enc, length enc)" "decodes enc xs"
    "length enc \<le> length xs + (length xs - 1) div 128 + 1"
    using packbits_correct [OF assms] by blast
  have "unpackbits (enc @ []) [] (int (length xs)) = unpackbits [] ([] @ xs) (int (length xs) - int (length xs))"
    using enc(2) unfolding decodes_def by blast
  then have "unpackbits enc [] (int (length xs)) = UnpackOk xs []"
    by (simp add: unpackbits.simps)
  with enc show ?thesis by blast
qed

theorem packbits_roundtrip_witness:
  "\<exists>enc. packbits [7, 7, 7, 1, 2] = Inr (enc, length enc) \<and> unpackbits enc [] 5 = UnpackOk [7, 7, 7, 1, 2] []"
  using packbits_roundtrip [of "[7, 7, 7, 1, 2]"] by auto

text \<open>
  Unpacking any bytes, packed or garbage, into a buffer of \<open>n\<close> bytes never stores more than \<open>n\<close>
  bytes; it reports success exactly when all \<open>n\<close> were stored.
\<close>

theorem unpackbits_bounded:
  assumes "0 \<le> n"
  shows "case unpackbits src [] n of
      UnpackOk r rest \<Rightarrow> int (length r) = n
    | UnpackNull r \<Rightarrow> int (length r) < n
    | UnpackReadPast r \<Rightarrow> int (length r) < n"
  using unpackbits_within [OF assms, of "[]" src] by (simp add: unpack_within_def split: unpack_result.splits)

theorem unpackbits_bounded_witness:
  "case unpackbits [0xFE, 9, 0xFD, 1] [] 5 of UnpackNull r \<Rightarrow> int (length r) < 5 | _ \<Rightarrow> False"
proof -
  have "unpackbits [0xFE, 9, 0xFD, 1] [] 5 = UnpackNull [9, 9, 9]"
    by (simp add: unpackbits.simps numeral_eq_Suc)
  then show ?thesis using unpackbits_bounded [of 5 "[0xFE, 9, 0xFD, 1]"] by simp
qed

end
