(* ===== verification/Base64.thy ===== *)
theory Base64
  imports Vxg_Prelude
begin

unbundle bit_operations_syntax

text \<open>
  \<^verbatim>\<open>src/src/utils/base64.cc\<close>: the encoder, the decoder that accepts both alphabets, and the
  line-breaking variants. A \<open>std::string\<close> that holds text is a \<^typ>\<open>string\<close>, one that holds
  binary data a list of bytes. The index computations are those of the code, on promoted
  integers that never exceed 255.
\<close>

section \<open>Alphabets\<close>

definition base64_chars :: "bool \<Rightarrow> string" where
  "base64_chars url =
     ''ABCDEFGHIJKLMNOPQRSTUVWXYZabcdefghijklmnopqrstuvwxyz0123456789'' @
     (if url then ''-_'' else ''+/'')"

datatype base64_error =
    BadChar      \<comment> \<open>\<open>pos_of_char\<close> throws\<close>
  | OutOfString  \<comment> \<open>\<open>operator[]\<close> past the terminating zero\<close>

definition pos_of_char :: "char \<Rightarrow> (base64_error, nat) result" where
  "pos_of_char chr =
     (let c = of_char chr :: nat in
      if 65 \<le> c \<and> c \<le> 90 then Inr (c - 65)
      else if 97 \<le> c \<and> c \<le> 122 then Inr (c - 97 + (90 - 65) + 1)
      else if 48 \<le> c \<and> c \<le> 57 then Inr (c - 48 + (90 - 65) + (122 - 97) + 2)
      else if chr = CHR ''+'' \<or> chr = CHR ''-'' then Inr 62
      else if chr = CHR ''/'' \<or> chr = CHR ''_'' then Inr 63
      else Inl BadChar)"

section \<open>Encoding\<close>

definition trailing_char :: "bool \<Rightarrow> char" where
  "trailing_char url = (if url then CHR ''.'' else CHR ''='')"

fun base64_encode :: "bool \<Rightarrow> byte list \<Rightarrow> string" where
  "base64_encode url [] = []"
| "base64_encode url [a] =
     [base64_chars url ! drop_bit 2 (unat a AND 0xfc),
      base64_chars url ! push_bit 4 (unat a AND 0x03),
      trailing_char url, trailing_char url]"
| "base64_encode url [a, b] =
     [base64_chars url ! drop_bit 2 (unat a AND 0xfc),
      base64_chars url ! (push_bit 4 (unat a AND 0x03) + drop_bit 4 (unat b AND 0xf0)),
      base64_chars url ! push_bit 2 (unat b AND 0x0f),
      trailing_char url]"
| "base64_encode url (a # b # c # rest) =
     [base64_chars url ! drop_bit 2 (unat a AND 0xfc),
      base64_chars url ! (push_bit 4 (unat a AND 0x03) + drop_bit 4 (unat b AND 0xf0)),
      base64_chars url ! (push_bit 2 (unat b AND 0x0f) + drop_bit 6 (unat c AND 0xc0)),
      base64_chars url ! (unat c AND 0x3f)] @ base64_encode url rest"

text \<open>\<open>insert_linebreaks\<close>: a newline after every \<open>distance\<close> characters that more text follows.
  With \<open>distance = 0\<close> the loop of the code never ends, which is the value \<open>None\<close>.\<close>

partial_function (option) linebreaks_from :: "string \<Rightarrow> nat \<Rightarrow> nat \<Rightarrow> string option" where
  "linebreaks_from str pos distance =
     (if pos < length str
      then linebreaks_from (take pos str @ [CHR 0x0A] @ drop pos str) (pos + distance + 1) distance
      else Some str)"

definition insert_linebreaks :: "string \<Rightarrow> nat \<Rightarrow> string option" where
  "insert_linebreaks str distance =
     (if str = [] then Some [] else linebreaks_from str distance distance)"

definition base64_encode_pem :: "byte list \<Rightarrow> string option" where
  "base64_encode_pem s = insert_linebreaks (base64_encode False s) 64"

definition base64_encode_mime :: "byte list \<Rightarrow> string option" where
  "base64_encode_mime s = insert_linebreaks (base64_encode False s) 76"

section \<open>Decoding\<close>

text \<open>\<open>s[i]\<close> of a \<open>std::string\<close>: the index equal to the length reads the terminating zero.\<close>

definition string_at :: "string \<Rightarrow> nat \<Rightarrow> (base64_error, char) result" where
  "string_at s i =
     (if i < length s then Inr (s ! i) else if i = length s then Inr (CHR 0x00) else Inl OutOfString)"

definition pos_at :: "string \<Rightarrow> nat \<Rightarrow> (base64_error, nat) result" where
  "pos_at s i = (case string_at s i of Inl e \<Rightarrow> Inl e | Inr c \<Rightarrow> pos_of_char c)"

definition is_padding :: "char \<Rightarrow> bool" where
  "is_padding c \<longleftrightarrow> c = CHR ''='' \<or> c = CHR ''.''"

text \<open>One iteration of the decoding loop, at the part of the string from \<open>pos\<close> on.\<close>

definition decode_group :: "string \<Rightarrow> (base64_error, byte list) result" where
  "decode_group s =
     (case pos_at s 1 of Inl e \<Rightarrow> Inl e | Inr p1 \<Rightarrow>
      case pos_at s 0 of Inl e \<Rightarrow> Inl e | Inr p0 \<Rightarrow>
      let c0 = of_nat (push_bit 2 p0 + drop_bit 4 (p1 AND 0x30)) in
      case string_at s 2 of Inl e \<Rightarrow> Inl e | Inr s2 \<Rightarrow>
      if is_padding s2 then Inr [c0]
      else case pos_of_char s2 of Inl e \<Rightarrow> Inl e | Inr p2 \<Rightarrow>
      let c1 = of_nat (push_bit 4 (p1 AND 0x0f) + drop_bit 2 (p2 AND 0x3c)) in
      case string_at s 3 of Inl e \<Rightarrow> Inl e | Inr s3 \<Rightarrow>
      if is_padding s3 then Inr [c0, c1]
      else case pos_of_char s3 of Inl e \<Rightarrow> Inl e | Inr p3 \<Rightarrow>
      Inr [c0, c1, of_nat (push_bit 6 (p2 AND 0x03) + p3)])"

function decode_loop :: "string \<Rightarrow> (base64_error, byte list) result" where
  "decode_loop s =
     (if s = [] then Inr []
      else case decode_group s of Inl e \<Rightarrow> Inl e | Inr g \<Rightarrow>
      case decode_loop (drop 4 s) of Inl e \<Rightarrow> Inl e | Inr r \<Rightarrow> Inr (g @ r))"
  by pat_completeness auto
termination
  by (relation "measure length") auto

declare decode_loop.simps [simp del]

definition base64_decode :: "string \<Rightarrow> bool \<Rightarrow> (base64_error, byte list) result" where
  "base64_decode s remove_linebreaks =
     (if remove_linebreaks then decode_loop (filter (\<lambda>c. c \<noteq> CHR 0x0A) s) else decode_loop s)"

section \<open>Round trip\<close>

lemma length_base64_chars [simp]: "length (base64_chars url) = 64"
  by (simp add: base64_chars_def)

text \<open>Every sextet is a character whose position is that sextet, in either alphabet.\<close>

lemma alphabet_positions: "map pos_of_char (base64_chars url) = map Inr [0..<64]"
  by (cases url) (simp_all add: base64_chars_def pos_of_char_def upt_rec)

lemma alphabet_clean: "list_all (\<lambda>c. \<not> is_padding c \<and> c \<noteq> CHR 0x0A) (base64_chars url)"
  by (cases url) (simp_all add: base64_chars_def is_padding_def)

lemma alphabet:
  assumes "i < 64"
  shows "pos_of_char (base64_chars url ! i) = Inr i"
    and "\<not> is_padding (base64_chars url ! i)"
    and "base64_chars url ! i \<noteq> CHR 0x0A"
proof -
  have "map pos_of_char (base64_chars url) ! i = map Inr [0..<64] ! i"
    by (simp only: alphabet_positions)
  with assms show "pos_of_char (base64_chars url ! i) = Inr i" by simp
qed (use assms alphabet_clean [of url] in \<open>auto simp: list_all_length\<close>)

lemma trailing_is_padding [simp]: "is_padding (trailing_char url)"
  by (simp add: is_padding_def trailing_char_def)

text \<open>The masks and shifts of the code as division and remainder.\<close>

lemma nat_low_bits:
  fixes n :: nat
  shows "n AND 0x03 = n mod 4" "n AND 0x0f = n mod 16" "n AND 0x3f = n mod 64"
  using take_bit_eq_mask [of 2 n] take_bit_eq_mask [of 4 n] take_bit_eq_mask [of 6 n]
  by (simp_all add: mask_eq_exp_minus_1 take_bit_eq_mod)

lemma nat_high_bits:
  fixes n :: nat
  shows "drop_bit 2 (n AND 0xfc) = n div 4 mod 64" "drop_bit 4 (n AND 0xf0) = n div 16 mod 16"
    "drop_bit 6 (n AND 0xc0) = n div 64 mod 4" "drop_bit 4 (n AND 0x30) = n div 16 mod 4"
    "drop_bit 2 (n AND 0x3c) = n div 4 mod 16"
  by (simp_all only: drop_bit_and) (simp_all add: nat_low_bits, simp_all add: drop_bit_eq_div)

lemma nat_high_bits_div:
  fixes n :: nat
  shows "(n AND 0xfc) div 4 = n div 4 mod 64" "(n AND 0xf0) div 16 = n div 16 mod 16"
    "(n AND 0xc0) div 64 = n div 64 mod 4" "(n AND 0x30) div 16 = n div 16 mod 4"
    "(n AND 0x3c) div 4 = n div 4 mod 16"
  using nat_high_bits [of n] by (simp_all add: drop_bit_eq_div del: drop_bit_and)

lemmas base64_bits = nat_low_bits nat_high_bits_div push_bit_eq_mult drop_bit_eq_div

text \<open>The sextets the encoder cuts a byte into recombine to that byte.\<close>

lemma recombine:
  fixes x :: byte
  shows "of_nat (unat x div 4 mod 64 * 4 + unat x mod 4) = x"
    and "of_nat (unat x div 16 mod 16 * 16 + unat x mod 16) = x"
    and "of_nat (unat x div 64 mod 4 * 64 + unat x mod 64) = x"
proof -
  have "unat x div 4 mod 64 = unat x div 4" "unat x div 16 mod 16 = unat x div 16"
    "unat x div 64 mod 4 = unat x div 64"
    using unat_byte_less [of x] by (auto simp: less_mult_imp_div_less)
  then show "of_nat (unat x div 4 mod 64 * 4 + unat x mod 4) = x"
    "of_nat (unat x div 16 mod 16 * 16 + unat x mod 16) = x"
    "of_nat (unat x div 64 mod 4 * 64 + unat x mod 64) = x"
    by (simp_all only: div_mult_mod_eq) simp_all
qed

lemma sextets_less:
  "x mod 4 * 16 < (64::nat)" "x mod 16 * 4 < (64::nat)"
  "x mod 4 * 16 + y div 16 mod 16 < (64::nat)" "x mod 16 * 4 + y div 64 mod 4 < (64::nat)"
  by linarith+

lemma decode_group_full:
  "decode_group (base64_encode url (a # b # c # rest)) = Inr [a, b, c]"
  by (simp add: decode_group_def pos_at_def string_at_def base64_bits alphabet sextets_less recombine
    del: of_nat_add of_nat_mult)

lemma decode_group_two: "decode_group (base64_encode url [a, b]) = Inr [a, b]"
  by (simp add: decode_group_def pos_at_def string_at_def base64_bits alphabet sextets_less recombine
    del: of_nat_add of_nat_mult)

lemma decode_group_one: "decode_group (base64_encode url [a]) = Inr [a]"
  by (simp add: decode_group_def pos_at_def string_at_def base64_bits alphabet sextets_less recombine
    del: of_nat_add of_nat_mult)


lemma length_base64_encode: "length (base64_encode url xs) = (length xs + 2) div 3 * 4"
  by (induction url xs rule: base64_encode.induct) (simp_all, presburger)

lemma decode_loop_encode: "decode_loop (base64_encode url xs) = Inr xs"
proof (induction url xs rule: base64_encode.induct)
  case (1 url)
  show ?case by (simp add: decode_loop.simps)
next
  case (2 url a)
  have "drop 4 (base64_encode url [a]) = []" by (simp add: length_base64_encode)
  then show ?case by (subst decode_loop.simps) (simp only: decode_group_one, simp add: decode_loop.simps)
next
  case (3 url a b)
  have "drop 4 (base64_encode url [a, b]) = []" by (simp add: length_base64_encode)
  then show ?case by (subst decode_loop.simps) (simp only: decode_group_two, simp add: decode_loop.simps)
next
  case (4 url a b c rest)
  then show ?case by (subst decode_loop.simps) (simp only: decode_group_full, simp)
qed

lemma encode_no_newline: "CHR 0x0A \<notin> set (base64_encode url xs)"
proof -
  have "trailing_char url \<noteq> CHR 0x0A" for url by (simp add: trailing_char_def)
  then show ?thesis
    by (induction url xs rule: base64_encode.induct)
      (simp_all add: base64_bits sextets_less alphabet(3) [THEN not_sym] not_sym)
qed

text \<open>Line breaks only insert newlines, and the loop ends as soon as \<open>distance\<close> is positive.\<close>

lemma linebreaks_from_ok:
  assumes "0 < distance"
  shows "\<exists>r. linebreaks_from str pos distance = Some r \<and>
    filter (\<lambda>c. c \<noteq> CHR 0x0A) r = filter (\<lambda>c. c \<noteq> CHR 0x0A) str"
proof (induction "length str - pos" arbitrary: str pos rule: less_induct)
  case less
  show ?case
  proof (cases "pos < length str")
    case True
    let ?s = "take pos str @ [CHR 0x0A] @ drop pos str"
    have "length ?s - (pos + distance + 1) < length str - pos" using True assms by simp
    from less [OF this]
    have "\<exists>r. linebreaks_from ?s (pos + distance + 1) distance = Some r \<and>
      filter (\<lambda>c. c \<noteq> CHR 0x0A) r = filter (\<lambda>c. c \<noteq> CHR 0x0A) ?s" .
    moreover have "filter (\<lambda>c. c \<noteq> CHR 0x0A) ?s = filter (\<lambda>c. c \<noteq> CHR 0x0A) str"
      by simp (metis append_take_drop_id filter_append)
    ultimately show ?thesis using True by (subst linebreaks_from.simps) auto
  next
    case False
    then show ?thesis by (subst linebreaks_from.simps) auto
  qed
qed

lemma insert_linebreaks_ok:
  assumes "0 < distance"
  shows "\<exists>r. insert_linebreaks str distance = Some r \<and>
    filter (\<lambda>c. c \<noteq> CHR 0x0A) r = filter (\<lambda>c. c \<noteq> CHR 0x0A) str"
  using linebreaks_from_ok [OF assms] by (auto simp: insert_linebreaks_def)

lemma decode_of_linebroken:
  assumes "0 < distance"
  shows "\<exists>r. insert_linebreaks (base64_encode url xs) distance = Some r \<and> base64_decode r True = Inr xs"
proof -
  have "filter (\<lambda>c. c \<noteq> CHR 0x0A) (base64_encode url xs) = base64_encode url xs"
    using encode_no_newline [of url xs] by (auto simp: filter_id_conv)
  with insert_linebreaks_ok [OF assms, of "base64_encode url xs"] show ?thesis
    by (auto simp: base64_decode_def decode_loop_encode)
qed

text \<open>The decoder never indexes behind the terminating zero.\<close>

lemma pos_of_char_zero: "pos_of_char (CHR 0x00) = Inl BadChar"
  by (simp add: pos_of_char_def)

lemma pos_of_char_no_range: "pos_of_char c \<noteq> Inl OutOfString"
  by (simp add: pos_of_char_def Let_def)

lemma decode_group_in_range: "s \<noteq> [] \<Longrightarrow> decode_group s \<noteq> Inl OutOfString"
proof -
  assume "s \<noteq> []"
  then have "1 \<le> length s" by (simp add: Suc_le_eq)
  then consider "length s = 1" | "length s = 2" | "length s = 3" | "4 \<le> length s"
    by linarith
  then show ?thesis
    by cases (auto simp: decode_group_def pos_at_def string_at_def pos_of_char_zero Let_def is_padding_def
      pos_of_char_no_range split: sum.splits)
qed

lemma decode_loop_in_range: "decode_loop s \<noteq> Inl OutOfString"
proof (induction s rule: decode_loop.induct)
  case (1 s)
  then show ?case
    using decode_group_in_range [of s] by (subst decode_loop.simps) (auto split: sum.splits)
qed

section \<open>Properties\<close>

text \<open>
  decoding an encoded byte string gives it back, for both alphabets; the encoding has four
  characters for each started group of three bytes.
\<close>

theorem base64_roundtrip:
  "base64_decode (base64_encode url xs) False = Inr xs \<and>
   length (base64_encode url xs) = (length xs + 2) div 3 * 4"
  by (simp add: base64_decode_def decode_loop_encode length_base64_encode)

text \<open>
  the line-breaking encoders return, and decoding their output with line breaks removed gives the
  bytes back.
\<close>

theorem base64_lines_roundtrip:
  "(\<exists>r. base64_encode_pem xs = Some r \<and> base64_decode r True = Inr xs) \<and>
   (\<exists>r. base64_encode_mime xs = Some r \<and> base64_decode r True = Inr xs)"
  by (simp add: base64_encode_pem_def base64_encode_mime_def decode_of_linebroken)

text \<open>on no input does the decoder read behind the string's terminating zero.\<close>

theorem base64_decode_in_bounds: "base64_decode s lb \<noteq> Inl OutOfString"
  by (simp add: base64_decode_def decode_loop_in_range)

end
