(* ===== verification/Motion_Map.thy ===== *)
theory Motion_Map
  imports Packbits Base64
begin

text \<open>
  \<^verbatim>\<open>motion::map::pack\<close> and \<^verbatim>\<open>motion::map::unpack\<close> of \<^verbatim>\<open>src/src/utils/utils.cc\<close>: a motion grid
  is packed with PackBits and then encoded with Base64.
\<close>

section \<open>The two operations\<close>

datatype motion_error =
    PackFailed pack_error      \<comment> \<open>undefined behaviour inside \<open>packbits\<close>\<close>
  | HeapOverflow nat           \<comment> \<open>\<open>packbits\<close> stores that many bytes into a shorter buffer\<close>
  | DecodeThrows base64_error  \<comment> \<open>\<open>base64_decode\<close> throws\<close>
  | UnpackReadsPast            \<comment> \<open>\<open>unpackbits\<close> reads behind the packed string\<close>

definition map_pack :: "byte list \<Rightarrow> (motion_error, string) result" where
  "map_pack unpackedGrid =
     (let capacity = length unpackedGrid + 1 in
      case packbits unpackedGrid of
        Inl e \<Rightarrow> Inl (PackFailed e)
      | Inr (stored, packedLen) \<Rightarrow>
          if length stored > capacity then Inl (HeapOverflow (length stored))
          else
            let packedBits = stored @ replicate (capacity - length stored) 0 in
            if packedLen > 0 then Inr (base64_encode False (take packedLen packedBits)) else Inr [])"

text \<open>
  \<open>packedBits.c_str()\<close> ends with a zero byte, which \<open>unpackbits\<close> may read. The returned pointer
  is ignored: after \<open>NULL\<close> the buffer holds what was stored before, and zeros.
\<close>

definition map_unpack :: "string \<Rightarrow> nat \<Rightarrow> (motion_error, byte list) result" where
  "map_unpack packedGrid outputLen =
     (case base64_decode packedGrid False of
        Inl e \<Rightarrow> Inl (DecodeThrows e)
      | Inr packedBits \<Rightarrow>
          (case unpackbits (packedBits @ [0]) [] (int outputLen) of
             UnpackReadPast _ \<Rightarrow> Inl UnpackReadsPast
           | UnpackNull r \<Rightarrow> Inr ((r @ replicate (outputLen + 1 - length r) 0)[outputLen := 0])
           | UnpackOk r _ \<Rightarrow> Inr ((r @ replicate (outputLen + 1 - length r) 0)[outputLen := 0])))"

section \<open>Facts about them\<close>

lemma map_pack_small:
  assumes "xs \<noteq> []" and "length xs \<le> 128"
  obtains enc where "map_pack xs = Inr (base64_encode False enc)" and "decodes enc xs"
proof -
  from assms(1) obtain enc where enc: "packbits xs = Inr (enc, length enc)" "decodes enc xs"
      "length enc \<le> length xs + (length xs - 1) div 128 + 1"
    by (rule packbits_correct)
  moreover have "(length xs - 1) div 128 = 0" using assms by (cases xs) auto
  moreover have "enc \<noteq> []"
  proof
    assume "enc = []"
    with enc(2) have "unpackbits [] [] (int (length xs)) = unpackbits [] xs 0"
      unfolding decodes_def by (metis append_Nil diff_self order_refl)
    with assms(1) show False by (simp add: unpackbits.simps)
  qed
  ultimately show ?thesis
    by (intro that [of enc]) (auto simp: map_pack_def Let_def)
qed

lemma map_unpack_of_decodes:
  assumes "decodes enc xs"
  shows "map_unpack (base64_encode url enc) (length xs) = Inr (xs @ [0])"
proof -
  have "unpackbits (enc @ [0]) [] (int (length xs)) = unpackbits [0] xs 0"
    using assms unfolding decodes_def by (metis append_Nil diff_self order_refl)
  also have "\<dots> = UnpackOk xs [0]" by (simp add: unpackbits.simps)
  finally show ?thesis
    by (simp add: map_unpack_def base64_decode_def decode_loop_encode)
qed

lemma map_unpack_length:
  assumes "map_unpack s n = Inr r"
  shows "length r = n + 1"
proof -
  from assms obtain p where p: "base64_decode s False = Inr p" by (auto simp: map_unpack_def split: sum.splits)
  have "unpack_within 0 (int n) (unpackbits (p @ [0]) [] (int n))"
    using unpackbits_within [of "int n" "[]"] by simp
  with assms p show ?thesis
    by (auto simp: map_unpack_def unpack_within_def split: unpack_result.splits)
qed

lemma map_pack_overflow:
  assumes "distinct_adj xs" "128 < length xs"
  shows "map_pack xs = Inl (HeapOverflow (length xs + (length xs - 1) div 128 + 1))"
proof -
  have "0 < (length xs - 1) div 128" using assms(2) by (simp add: div_greater_zero_iff)
  moreover have "xs \<noteq> []" using assms(2) by auto
  ultimately show ?thesis
    using packbits_worst_case [OF _ assms(1)] by (auto simp: map_pack_def Let_def)
qed

section \<open>Properties\<close>

text \<open>
  a motion grid of 1 to 128 bytes survives packing and unpacking; what \<open>unpack\<close> returns is the
  grid followed by the zero byte that the comment in the code says is removed.
\<close>

theorem motion_map_roundtrip:
  assumes "xs \<noteq> []" and "length xs \<le> 128"
  shows "\<exists>s. map_pack xs = Inr s \<and> map_unpack s (length xs) = Inr (xs @ [0])"
  using map_pack_small [OF assms] map_unpack_of_decodes by metis

theorem motion_map_roundtrip_witness:
  "\<exists>s. map_pack [0, 0, 0, 3] = Inr s \<and> map_unpack s 4 = Inr [0, 0, 0, 3, 0]"
  using motion_map_roundtrip [of "[0, 0, 0, 3]"] by (simp add: numeral_eq_Suc)

text \<open>
  \<open>pack\<close> reserves one byte more than the grid has, which is too little for every grid of more than
  128 bytes without two equal neighbours: the packer stores behind the buffer.
\<close>

theorem motion_map_overflows:
  assumes "distinct_adj xs" and "128 < length xs"
  shows "map_pack xs = Inl (HeapOverflow (length xs + (length xs - 1) div 128 + 1))"
  using assms by (rule map_pack_overflow)

theorem motion_map_overflows_witness:
  "map_pack (map of_nat [0..<129]) = Inl (HeapOverflow 131)"
proof -
  have "distinct_adj (map of_nat [0..<129] :: byte list)" by code_simp
  then show ?thesis using motion_map_overflows [of "map of_nat [0..<129]"] by simp
qed

end
