(* ===== verification/Time_Period.thy ===== *)
theory Time_Period
  imports Vxg_Prelude
begin

text \<open>
  Time points, durations and periods: \<^verbatim>\<open>vxg::cloud::time\<close> of \<^verbatim>\<open>src/src/utils/utils.h\<close> and
  \<^verbatim>\<open>struct period\<close> of \<^verbatim>\<open>src/src/agent/timeline.h\<close>.

  A time point counts nanoseconds from the epoch in a signed 64-bit integer. Here it is an
  \<^typ>\<open>int\<close>; the largest representable value, which the code uses as \<^emph>\<open>no end\<close>, is kept as it is.
\<close>

section \<open>Time points\<close>

type_synonym time = int
type_synonym duration = int

definition time_null :: time where
  "time_null = 0"

definition time_max :: time where
  "time_max = 2 ^ 63 - 1"

definition milliseconds :: "int \<Rightarrow> duration" where
  "milliseconds n = n * 1000000"

definition seconds :: "int \<Rightarrow> duration" where
  "seconds n = n * 1000000000"

text \<open>\<open>duration_cast\<close> to a coarser unit truncates toward zero.\<close>

definition to_milliseconds :: "duration \<Rightarrow> int" where
  "to_milliseconds d = (if d < 0 then - ((- d) div 1000000) else d div 1000000)"

definition to_microseconds :: "duration \<Rightarrow> int" where
  "to_microseconds d = (if d < 0 then - ((- d) div 1000) else d div 1000)"

section \<open>Periods\<close>

record period =
  p_begin :: time
  p_end :: time

text \<open>The constructor: a null end becomes the largest time point.\<close>

definition make_period :: "time \<Rightarrow> time \<Rightarrow> period" where
  "make_period b e = \<lparr>p_begin = b, p_end = (if e = time_null then time_max else e)\<rparr>"

definition period_is_open :: "'a period_scheme \<Rightarrow> bool" where
  "period_is_open p \<longleftrightarrow> p_end p = time_null"

definition period_is_null :: "'a period_scheme \<Rightarrow> bool" where
  "period_is_null p \<longleftrightarrow> p_begin p = time_null"

definition period_is_valid :: "'a period_scheme \<Rightarrow> bool" where
  "period_is_valid p \<longleftrightarrow> p_begin p \<noteq> time_null \<and> p_begin p \<noteq> time_max \<and>
     p_end p \<noteq> time_null \<and> p_end p \<noteq> time_max"

definition period_intersects :: "'a period_scheme \<Rightarrow> 'b period_scheme \<Rightarrow> bool" where
  "period_intersects p r =
     (let b1 = p_begin p; b2 = p_begin r;
          e1 = (if p_end p \<noteq> time_null then p_end p else time_max);
          e2 = (if p_end r \<noteq> time_null then p_end r else time_max)
      in if b1 < e2 \<and> e1 > b2 then True else False)"

definition period_clear :: "'a period_scheme \<Rightarrow> 'a period_scheme" where
  "period_clear p = p\<lparr>p_begin := time_null, p_end := time_null\<rparr>"

definition period_duration :: "'a period_scheme \<Rightarrow> duration" where
  "period_duration p = p_end p - p_begin p"

definition period_less :: "'a period_scheme \<Rightarrow> 'b period_scheme \<Rightarrow> bool" where
  "period_less p r \<longleftrightarrow> p_begin p < p_begin r"

lemmas period_defs [period_simps] =
  make_period_def period_is_open_def period_is_null_def period_is_valid_def
  period_intersects_def period_clear_def period_duration_def period_less_def

lemma time_max_pos [simp]: "0 < time_max" "time_null < time_max" "time_max \<noteq> time_null"
  by (simp_all add: time_max_def time_null_def)

lemma make_period_begin [simp]: "p_begin (make_period b e) = b"
  by (simp add: make_period_def)

lemma make_period_end: "e \<noteq> time_null \<Longrightarrow> p_end (make_period b e) = e"
  by (simp add: make_period_def)

text \<open>A period built by the constructor is never open, so the test never fires on one.\<close>

lemma make_period_not_open [simp]: "\<not> period_is_open (make_period b e)"
  by (simp add: period_simps)

lemma make_period_eta: "p_end p \<noteq> time_null \<Longrightarrow> make_period (p_begin p) (p_end p) = p"
  by (simp add: make_period_def)

lemma period_intersects_sym: "period_intersects p r \<longleftrightarrow> period_intersects r p"
  by (auto simp: period_simps Let_def)

end
