(* ===== verification/Timeline.thy ===== *)
theory Timeline
  imports Time_Period "HOL-Library.Multiset"
begin

text \<open>
  \<^verbatim>\<open>src/src/agent/timeline.h\<close>: storage items, the merging of recorded periods into slices, the
  file-system storage and the cloud storage.
\<close>

section \<open>Storage items\<close>

record item = period +
  i_data :: "byte list"

definition make_item :: "period \<Rightarrow> byte list \<Rightarrow> item" where
  "make_item p d = period.extend p \<lparr>i_data = d\<rparr>"

definition item_clear :: "item \<Rightarrow> item" where
  "item_clear i = (period_clear i)\<lparr>i_data := []\<rparr>"

definition item_empty :: "item \<Rightarrow> bool" where
  "item_empty i \<longleftrightarrow> i_data i = []"

text \<open>\<open>set_data\<close> assigns its parameter to itself: the member of the same name is hidden.\<close>

definition item_set_data :: "item \<Rightarrow> byte list \<Rightarrow> item" where
  "item_set_data i data = i"

section \<open>Merging periods\<close>

text \<open>The \<open>while\<close> loop of \<open>_squash_periods\<close>, on the sorted list behind the first item.\<close>

fun squash_loop :: "period \<Rightarrow> item list \<Rightarrow> period list" where
  "squash_loop current [] = [current]"
| "squash_loop current (it # its) =
     (if p_end current \<ge> p_begin it
      then squash_loop (current\<lparr>p_end := max (p_end current) (p_end it)\<rparr>) its
      else current # squash_loop (make_period (p_begin it) (p_end it)) its)"

fun squash_sorted :: "item list \<Rightarrow> period list" where
  "squash_sorted [] = []"
| "squash_sorted (it # its) = squash_loop (make_period (p_begin it) (p_end it)) its"

text \<open>\<open>std::sort\<close> with the items' \<open>operator<\<close>; the order of equal begins is its choice.\<close>

definition squash_periods :: "item list \<Rightarrow> period list" where
  "squash_periods periods = squash_sorted (sort_key p_begin periods)"

text \<open>
  Reading of the result: \<open>coverage\<close> is the set of covered instants in half nanoseconds, so that a
  gap of one nanosecond is visible; \<open>separated\<close> is a list of disjoint periods in order.
\<close>

definition coverage :: "'a period_scheme list \<Rightarrow> int set" where
  "coverage ps = {t. \<exists>p \<in> set ps. 2 * p_begin p \<le> t \<and> t \<le> 2 * p_end p}"

definition separated :: "'a period_scheme list \<Rightarrow> bool" where
  "separated ps \<longleftrightarrow>
     sorted_wrt (\<lambda>p q. p_end p < p_begin q) ps \<and> (\<forall>p \<in> set ps. p_begin p \<le> p_end p)"

definition item_wf :: "'a period_scheme \<Rightarrow> bool" where
  "item_wf i \<longleftrightarrow> p_begin i \<le> p_end i \<and> p_end i \<noteq> time_null"

lemma coverage_Nil [simp]: "coverage [] = {}"
  by (simp add: coverage_def)

lemma coverage_Cons: "coverage (p # ps) = {2 * p_begin p .. 2 * p_end p} \<union> coverage ps"
  by (auto simp: coverage_def)

lemma coverage_mset: "mset ps = mset qs \<Longrightarrow> coverage ps = coverage qs"
  unfolding coverage_def by (drule mset_eq_setD) simp

lemma squash_loop_cover:
  assumes "p_begin cur \<le> p_end cur" and "sorted (map p_begin its)"
    and "\<forall>i \<in> set its. item_wf i \<and> p_begin cur \<le> p_begin i"
  shows "coverage (squash_loop cur its) = {2 * p_begin cur .. 2 * p_end cur} \<union> coverage its \<and>
    separated (squash_loop cur its) \<and> (\<forall>p \<in> set (squash_loop cur its). p_begin cur \<le> p_begin p)"
  using assms
proof (induction cur its rule: squash_loop.induct)
  case (1 cur)
  then show ?case by (simp add: coverage_Cons separated_def)
next
  case (2 cur it its)
  show ?case
  proof (cases "p_end cur \<ge> p_begin it")
    case True
    let ?cur = "cur\<lparr>p_end := max (p_end cur) (p_end it)\<rparr>"
    have "{2 * p_begin cur .. 2 * max (p_end cur) (p_end it)} =
        {2 * p_begin cur .. 2 * p_end cur} \<union> {2 * p_begin it .. 2 * p_end it}"
      using True 2(3-5) by (auto simp: max_def)
    with True 2(1) [OF True] 2(3-5) show ?thesis
      by (auto simp: coverage_Cons)
  next
    case False
    have m: "p_end (make_period (p_begin it) (p_end it)) = p_end it"
      using 2(5) by (simp add: make_period_end item_wf_def)
    have IH: "coverage (squash_loop (make_period (p_begin it) (p_end it)) its) =
          {2 * p_begin it .. 2 * p_end it} \<union> coverage its"
        "separated (squash_loop (make_period (p_begin it) (p_end it)) its)"
        "\<forall>p \<in> set (squash_loop (make_period (p_begin it) (p_end it)) its). p_begin it \<le> p_begin p"
      using 2(2) [OF False] 2(3-5) m by (auto simp: item_wf_def)
    with False 2(3-5) show ?thesis
      by (fastforce simp: coverage_Cons separated_def)
  qed
qed

lemma squash_sorted_correct:
  assumes "sorted (map p_begin its)" and "\<forall>i \<in> set its. item_wf i"
  shows "coverage (squash_sorted its) = coverage its" and "separated (squash_sorted its)"
proof -
  have "coverage (squash_sorted its) = coverage its \<and> separated (squash_sorted its)"
  proof (cases its)
    case Nil
    then show ?thesis by (simp add: separated_def)
  next
    case (Cons it its')
    have "p_end (make_period (p_begin it) (p_end it)) = p_end it"
      using assms Cons by (simp add: make_period_end item_wf_def)
    with squash_loop_cover [of "make_period (p_begin it) (p_end it)" its'] assms Cons
    show ?thesis by (auto simp: coverage_Cons item_wf_def)
  qed
  then show "coverage (squash_sorted its) = coverage its" "separated (squash_sorted its)" by auto
qed

text \<open>Disjoint ordered periods are determined by what they cover.\<close>

lemma separated_begin_Min:
  assumes "separated (p # ps)" and "t \<in> coverage (p # ps)"
  shows "2 * p_begin p \<le> t"
  using assms by (fastforce simp: separated_def coverage_def)

lemma separated_gap:
  assumes "separated (p # ps)"
  shows "2 * p_end p + 1 \<notin> coverage (p # ps)"
  using assms by (fastforce simp: separated_def coverage_def)

lemma separated_first_end:
  assumes "separated (p # ps)" and "separated (q # qs)"
    and "coverage (p # ps) = coverage (q # qs)" and "p_begin p = p_begin q"
  shows "p_end q \<le> p_end p"
proof (rule ccontr)
  assume "\<not> p_end q \<le> p_end p"
  moreover have "p_begin p \<le> p_end p" using assms(1) by (simp add: separated_def)
  ultimately have "2 * p_end p + 1 \<in> coverage (q # qs)"
    using assms(4) by (auto simp: coverage_Cons)
  with separated_gap [OF assms(1)] assms(3) show False by simp
qed

lemma separated_unique:
  fixes ps qs :: "period list"
  assumes "separated ps" and "separated qs" and "coverage ps = coverage qs"
  shows "ps = qs"
  using assms
proof (induction ps arbitrary: qs)
  case Nil
  then show ?case by (cases qs) (auto simp: coverage_Cons separated_def)
next
  case (Cons p ps)
  then obtain q qs' where qs: "qs = q # qs'"
    by (cases qs) (auto simp: coverage_Cons separated_def)
  note sp = Cons.prems(1) and sq = Cons.prems(2) [unfolded qs] and cov = Cons.prems(3) [unfolded qs]
  have ne: "p_begin p \<le> p_end p" "p_begin q \<le> p_end q" using sp sq by (auto simp: separated_def)
  have "2 * p_begin p \<in> coverage (p # ps)" "2 * p_begin q \<in> coverage (q # qs')"
    using ne by (simp_all add: coverage_Cons)
  then have b: "p_begin p = p_begin q"
    using separated_begin_Min [OF sp] separated_begin_Min [OF sq] cov by fastforce
  have e: "p_end p = p_end q"
    using separated_first_end [OF sp sq cov b] separated_first_end [OF sq sp cov [symmetric] b [symmetric]]
    by simp
  have "coverage ps = coverage (p # ps) - {2 * p_begin p .. 2 * p_end p}"
    "coverage qs' = coverage (q # qs') - {2 * p_begin q .. 2 * p_end q}"
    using sp sq by (fastforce simp: coverage_Cons separated_def coverage_def)+
  then have "coverage ps = coverage qs'" using cov b e by simp
  moreover have "separated ps" "separated qs'" using sp sq by (auto simp: separated_def)
  ultimately have "ps = qs'" using Cons.IH by blast
  moreover have "p = q" using b e by (cases p; cases q) simp
  ultimately show ?case using qs by simp
qed

section \<open>The sort that merging relies on\<close>

text \<open>
  What \<open>std::sort\<close> promises: some permutation of the items that is ordered by begin. Everything
  the client needs follows from that, so the result does not depend on how ties are ordered.
\<close>

locale item_sort =
  fixes srt :: "item list \<Rightarrow> item list"
  assumes srt_mset: "mset (srt its) = mset its"
    and srt_sorted: "sorted (map p_begin (srt its))"
begin

lemma squash_srt:
  assumes "\<forall>i \<in> set its. item_wf i"
  shows "coverage (squash_sorted (srt its)) = coverage its"
    and "separated (squash_sorted (srt its))"
proof -
  have "set (srt its) = set its" using srt_mset by (rule mset_eq_setD)
  with assms have "\<forall>i \<in> set (srt its). item_wf i" by simp
  note * = squash_sorted_correct [OF srt_sorted this]
  from *(1) show "coverage (squash_sorted (srt its)) = coverage its"
    using coverage_mset [OF srt_mset [of its]] by simp
  from *(2) show "separated (squash_sorted (srt its))" .
qed

lemma squash_srt_unique:
  assumes "\<forall>i \<in> set its. item_wf i" and "separated ps" and "coverage ps = coverage its"
  shows "squash_sorted (srt its) = ps"
  using squash_srt [OF assms(1)] assms(2,3) by (intro separated_unique) auto

end

interpretation stable: item_sort "sort_key p_begin"
  by unfold_locales simp_all

text \<open>Any other sort gives the same slices.\<close>

lemma squash_any_sort:
  assumes "item_sort srt" and "\<forall>i \<in> set its. item_wf i"
  shows "squash_sorted (srt its) = squash_periods its"
  unfolding squash_periods_def
  using item_sort.squash_srt [OF assms] by (intro stable.squash_srt_unique [OF assms(2), symmetric]) auto

section \<open>Properties\<close>

text \<open>
  C9: squashing a list of well-formed items gives periods in order, with a gap between any two, that
  cover exactly the times the items cover; it is the only such list, and any sorting of the items by
  their beginning, stable or not, leads to it.
\<close>

theorem squash_canonical:
  assumes "\<forall>i \<in> set its. item_wf i"
  shows "separated (squash_periods its) \<and> coverage (squash_periods its) = coverage its \<and>
    (\<forall>ps. separated ps \<and> coverage ps = coverage its \<longrightarrow> ps = squash_periods its) \<and>
    (\<forall>srt. item_sort srt \<longrightarrow> squash_sorted (srt its) = squash_periods its)"
  using stable.squash_srt [OF assms] squash_any_sort [OF _ assms] separated_unique
  unfolding squash_periods_def by blast

theorem squash_canonical_witness:
  "squash_periods [make_item (make_period 5 9) [], make_item (make_period 1 5) [],
     make_item (make_period 20 30) []] = [make_period 1 9, make_period 20 30] \<and>
   coverage (squash_periods [make_item (make_period 5 9) [], make_item (make_period 1 5) [],
     make_item (make_period 20 30) []]) = {2..18} \<union> {40..60}"
proof -
  let ?its = "[make_item (make_period 5 9) [], make_item (make_period 1 5) [], make_item (make_period 20 30) []]"
  have "squash_periods ?its = [make_period 1 9, make_period 20 30]"
    by (simp add: squash_periods_def make_item_def make_period_def time_null_def period.defs)
  moreover have "\<forall>i \<in> set ?its. item_wf i"
    by (simp add: item_wf_def make_item_def make_period_def time_null_def period.defs)
  ultimately show ?thesis
    using squash_canonical [of ?its]
    by (auto simp: coverage_Cons make_period_def time_null_def)
qed

end
