(* ===== verification/Storage.thy ===== *)
theory Storage
  imports Timeline Strings_Util "HOL-Library.AList"
begin

text \<open>
  The two storages of \<^verbatim>\<open>src/src/agent/timeline.h\<close>, \<^verbatim>\<open>vfs_storage\<close> and \<^verbatim>\<open>cloud_storage\<close>, the
  documents of \<^verbatim>\<open>src/src/cloud/cloud_api_v2.h\<close> and \<^verbatim>\<open>cloud_api_v4.h\<close> they exchange, and the
  timeline on top of them. The HTTP transport, the JSON library and the date library are arguments.
\<close>

section \<open>File-system storage\<close>

text \<open>
  The directory of a \<open>vfs_storage\<close>: its files in the order the directory iterator yields them.
  \<open>from_iso\<close> and \<open>to_iso\<close> are the date library's parser and printer, arguments of the model.
\<close>

type_synonym vfs = "(string \<times> byte list) list"

definition period_from_filename :: "(string \<Rightarrow> time) \<Rightarrow> string \<Rightarrow> period option" where
  "period_from_filename from_iso filename =
     (let timestamps = string_split filename CHR ''_'';
          (b, e) = (if length timestamps = 2
                    then (from_iso (timestamps ! 0), from_iso (timestamps ! 1))
                    else (time_null, time_null))
      in if b = time_null \<or> e = time_null then None else Some \<lparr>p_begin = b, p_end = e\<rparr>)"

definition filename_from_period :: "(time \<Rightarrow> string) \<Rightarrow> period \<Rightarrow> string option" where
  "filename_from_period to_iso p =
     (if period_is_null p \<or> period_is_open p then None
      else Some (to_iso (p_begin p) @ ''_'' @ to_iso (p_end p)))"

definition vfs_list :: "(string \<Rightarrow> time) \<Rightarrow> vfs \<Rightarrow> time \<Rightarrow> time \<Rightarrow> item list" where
  "vfs_list from_iso fs start stop =
     concat (map (\<lambda>(filename, _).
       (case period_from_filename from_iso filename of
          None \<Rightarrow> []
        | Some p \<Rightarrow> if period_intersects p (make_period start stop) then [make_item p []] else [])) fs)"

text \<open>\<open>load\<close>: on failure the item keeps its data.\<close>

definition vfs_load :: "(time \<Rightarrow> string) \<Rightarrow> vfs \<Rightarrow> item \<Rightarrow> bool \<times> item" where
  "vfs_load to_iso fs it =
     (case filename_from_period to_iso (make_period (p_begin it) (p_end it)) of
        None \<Rightarrow> (False, it)
      | Some filename \<Rightarrow>
          (case map_of fs filename of
             None \<Rightarrow> (False, it)
           | Some d \<Rightarrow> (True, it\<lparr>i_data := d\<rparr>)))"

text \<open>\<open>store\<close>: \<open>writable\<close> says for which names the stream opens.\<close>

definition vfs_store :: "(time \<Rightarrow> string) \<Rightarrow> (string \<Rightarrow> bool) \<Rightarrow> vfs \<Rightarrow> item \<Rightarrow> bool \<times> vfs" where
  "vfs_store to_iso writable fs it =
     (case filename_from_period to_iso (make_period (p_begin it) (p_end it)) of
        None \<Rightarrow> (False, fs)
      | Some filename \<Rightarrow>
          if writable filename then (True, AList.update filename (i_data it) fs) else (False, fs))"

definition vfs_erase :: "vfs \<Rightarrow> item \<Rightarrow> vfs" where
  "vfs_erase fs it = fs"

section \<open>Cloud storage\<close>

text \<open>A request, the transport's answer to it, and the two answer documents of the storage API.\<close>

record http_request =
  hr_url :: string
  hr_method :: string
  hr_headers :: "(string \<times> string) list"
  hr_body :: "byte list"

record http_reply =
  rp_sent :: bool        \<comment> \<open>what \<open>make_blocked\<close> returns\<close>
  rp_code :: int
  rp_body :: "byte list"

definition unset_string :: string where
  "unset_string = ''__unset__''"

record meta_object =
  mo_expire :: time
  mo_limit :: int
  mo_next :: string
  mo_offset :: int
  mo_previous :: string
  mo_total_count :: int

record object_object =
  oo_camid :: int
  oo_start :: time
  oo_end :: time
  oo_id :: int
  oo_size :: int
  oo_url :: string

record data_response =
  dr_meta :: meta_object
  dr_objects :: "object_object list"

definition UnsetInt :: int where
  "UnsetInt = - (2 ^ 31)"

definition empty_response :: data_response where
  "empty_response = \<lparr>dr_meta = \<lparr>mo_expire = 0, mo_limit = UnsetInt, mo_next = unset_string,
     mo_offset = UnsetInt, mo_previous = unset_string, mo_total_count = UnsetInt\<rparr>, dr_objects = []\<rparr>"

record upload_request =
  ur_duration :: int
  ur_size :: int
  ur_time :: time

record upload_response =
  us_expire :: time
  us_urls :: "string list"

text \<open>
  What the storage is built over: the token, the printers of the date and JSON libraries and the
  network. \<open>ce_net n\<close> answers the \<open>n\<close>-th request. A parser yields \<open>None\<close> where \<open>json::parse\<close> or a
  conversion throws.
\<close>

record cloud_env =
  ce_api_uri :: string
  ce_token :: string
  ce_packed_token :: string
  ce_to_iso2 :: "time \<Rightarrow> string"
  ce_parse_data :: "byte list \<Rightarrow> data_response option"
  ce_parse_upload :: "byte list \<Rightarrow> upload_response option"
  ce_dump :: "upload_request list \<Rightarrow> byte list"
  ce_net :: "nat \<Rightarrow> http_request \<Rightarrow> http_reply"

definition data_endpoint :: string where
  "data_endpoint = ''/api/v2/storage/data/?''"

definition upload_endpoint :: string where
  "upload_endpoint = ''/api/v4/storage/records/upload/''"

definition get_request :: "string \<Rightarrow> http_request" where
  "get_request url = \<lparr>hr_url = url, hr_method = ''GET'', hr_headers = [], hr_body = []\<rparr>"

definition query_url :: "cloud_env \<Rightarrow> time \<Rightarrow> time \<Rightarrow> string" where
  "query_url ce start stop =
     ce_api_uri ce @ data_endpoint @ ''token='' @ ce_token ce @
     ''&start='' @ ce_to_iso2 ce start @ ''&end='' @ ce_to_iso2 ce stop"

text \<open>A request succeeded: it was sent and answered with 200.\<close>

definition http_ok :: "http_reply \<Rightarrow> bool" where
  "http_ok rp \<longleftrightarrow> rp_sent rp \<and> rp_code rp = 200"

definition next_url :: "cloud_env \<Rightarrow> time \<Rightarrow> time \<Rightarrow> data_response \<Rightarrow> string" where
  "next_url ce start stop r =
     (if mo_next (dr_meta r) \<noteq> unset_string then ce_api_uri ce @ mo_next (dr_meta r)
      else query_url ce start stop)"

definition page_items :: "data_response \<Rightarrow> item list" where
  "page_items r = map (\<lambda>ob. make_item (make_period (oo_start ob) (oo_end ob)) []) (dr_objects r)"

datatype storage_error = JsonThrows

text \<open>
  The \<open>do ... while\<close> loop of \<open>list\<close>: \<open>r\<close> is the last page read, \<open>n\<close> counts requests. A failed
  request leaves \<open>r\<close> as it was, so the loop goes on as long as the last page named a next one;
  \<open>None\<close> is the loop that never ends.
\<close>

partial_function (option) cloud_list_loop ::
  "cloud_env \<Rightarrow> time \<Rightarrow> time \<Rightarrow> data_response \<Rightarrow> item list \<Rightarrow> nat \<Rightarrow>
   (storage_error, item list \<times> nat) result option" where
  "cloud_list_loop ce start stop r res n =
     (let rp = ce_net ce n (get_request (next_url ce start stop r)) in
      if http_ok rp then
        (case ce_parse_data ce (rp_body rp) of
           None \<Rightarrow> Some (Inl JsonThrows)
         | Some r' \<Rightarrow>
             let res' = res @ page_items r' in
             if mo_next (dr_meta r') \<noteq> unset_string
             then cloud_list_loop ce start stop r' res' (Suc n)
             else Some (Inr (res', Suc n)))
      else if mo_next (dr_meta r) \<noteq> unset_string
           then cloud_list_loop ce start stop r res (Suc n)
           else Some (Inr (res, Suc n)))"

definition cloud_list ::
  "cloud_env \<Rightarrow> time \<Rightarrow> time \<Rightarrow> nat \<Rightarrow> (storage_error, item list \<times> nat) result option" where
  "cloud_list ce start stop n = cloud_list_loop ce start stop empty_response [] n"

text \<open>\<open>load\<close>: the last object of the answer is downloaded into the item.\<close>

definition cloud_load :: "cloud_env \<Rightarrow> item \<Rightarrow> nat \<Rightarrow> (storage_error, bool \<times> item \<times> nat) result" where
  "cloud_load ce it n =
     (let rp = ce_net ce n (get_request (query_url ce (p_begin it) (p_end it))) in
      if http_ok rp then
        (case ce_parse_data ce (rp_body rp) of
           None \<Rightarrow> Inl JsonThrows
         | Some r \<Rightarrow>
             if dr_objects r \<noteq> [] then
               let ob = last (dr_objects r);
                   it' = item_clear it;
                   rp' = ce_net ce (Suc n) (get_request (oo_url ob)) in
               if http_ok rp'
               then Inr (True, (item_clear it')\<lparr>p_begin := oo_start ob, p_end := oo_end ob,
                            i_data := i_data (item_clear it') @ rp_body rp'\<rparr>, Suc (Suc n))
               else Inr (False, it', Suc (Suc n))
             else Inr (False, it, Suc n))
      else Inr (False, it, Suc n))"

text \<open>A store into a 32-bit \<open>int\<close> keeps the low 32 bits.\<close>

definition to_int32 :: "int \<Rightarrow> int" where
  "to_int32 k = sint (of_int k :: 32 word)"

text \<open>\<open>store\<close>: ask for an upload address, then put the data there.\<close>

definition upload_of_item :: "item \<Rightarrow> upload_request" where
  "upload_of_item it = \<lparr>ur_duration = to_int32 (p_end it - p_begin it),
     ur_size = to_int32 (int (length (i_data it))), ur_time = p_begin it\<rparr>"

definition store_request :: "cloud_env \<Rightarrow> item \<Rightarrow> http_request" where
  "store_request ce it =
     \<lparr>hr_url = ce_api_uri ce @ upload_endpoint, hr_method = ''POST'',
      hr_headers = [(''Authorization'', ''Acc '' @ ce_packed_token ce)],
      hr_body = ce_dump ce [upload_of_item it]\<rparr>"

definition cloud_store :: "cloud_env \<Rightarrow> item \<Rightarrow> nat \<Rightarrow> (storage_error, bool \<times> nat) result" where
  "cloud_store ce it n =
     (if period_is_null it \<or> period_is_open it \<or> i_data it = [] then Inr (False, n)
      else
        let rp = ce_net ce n (store_request ce it) in
        if http_ok rp then
          (case ce_parse_upload ce (rp_body rp) of
             None \<Rightarrow> Inl JsonThrows
           | Some r \<Rightarrow>
               (case us_urls r of
                  [] \<Rightarrow> Inr (False, Suc n)
                | url # _ \<Rightarrow>
                    let rp' = ce_net ce (Suc n) \<lparr>hr_url = url, hr_method = ''PUT'',
                        hr_headers = [(''Content-Type'', ''video/mp4'')], hr_body = i_data it\<rparr> in
                    Inr (http_ok rp', Suc (Suc n))))
        else Inr (False, Suc n))"

definition cloud_erase :: "item \<Rightarrow> item" where
  "cloud_erase it = it"

section \<open>The timeline over a storage\<close>

definition vfs_slices :: "(string \<Rightarrow> time) \<Rightarrow> vfs \<Rightarrow> time \<Rightarrow> time \<Rightarrow> period list" where
  "vfs_slices from_iso fs start stop = squash_periods (vfs_list from_iso fs start stop)"

definition cloud_slices ::
  "cloud_env \<Rightarrow> time \<Rightarrow> time \<Rightarrow> nat \<Rightarrow> (storage_error, period list \<times> nat) result option" where
  "cloud_slices ce start stop n =
     map_option (map_sum id (map_prod squash_periods id)) (cloud_list ce start stop n)"

section \<open>Facts about the file-system storage\<close>

text \<open>What the storage relies on of the date library, for the time points it stores.\<close>

definition iso_roundtrip :: "(time \<Rightarrow> string) \<Rightarrow> (string \<Rightarrow> time) \<Rightarrow> time \<Rightarrow> bool" where
  "iso_roundtrip to_iso from_iso t \<longleftrightarrow>
     from_iso (to_iso t) = t \<and> to_iso t \<noteq> [] \<and> CHR ''_'' \<notin> set (to_iso t)"

lemma filename_roundtrip:
  assumes "iso_roundtrip to_iso from_iso (p_begin p)" and "iso_roundtrip to_iso from_iso (p_end p)"
    and "filename_from_period to_iso p = Some f"
  shows "period_from_filename from_iso f = Some p"
proof -
  have "string_split f CHR ''_'' = [to_iso (p_begin p), to_iso (p_end p)]"
    using assms split_join2 [of "CHR ''_''" "to_iso (p_begin p)" "to_iso (p_end p)"]
    by (auto simp: filename_from_period_def iso_roundtrip_def split: if_splits)
  with assms show ?thesis
    by (auto simp: period_from_filename_def iso_roundtrip_def filename_from_period_def period_simps
      split: if_splits)
qed

lemma vfs_list_intersects:
  assumes "it \<in> set (vfs_list from_iso fs start stop)"
  shows "period_intersects it (make_period start stop)" and "p_end it \<noteq> time_null"
    and "p_begin it \<noteq> time_null"
  using assms
  by (auto simp: vfs_list_def make_item_def period_from_filename_def Let_def period.defs period_intersects_def
    split: option.splits if_splits)

lemma vfs_store_load:
  assumes "vfs_store to_iso w fs it = (True, fs')"
  shows "vfs_load to_iso fs' it = (True, it)"
  using assms
  by (auto simp: vfs_store_def vfs_load_def update_conv' split: option.splits if_splits)

lemma vfs_store_list:
  assumes "vfs_store to_iso w fs it = (True, fs')" and "p_end it \<noteq> time_null"
    and "iso_roundtrip to_iso from_iso (p_begin it)" and "iso_roundtrip to_iso from_iso (p_end it)"
    and "period_intersects it (make_period start stop)"
  shows "make_item (make_period (p_begin it) (p_end it)) [] \<in> set (vfs_list from_iso fs' start stop)"
proof -
  let ?p = "make_period (p_begin it) (p_end it)"
  from assms(1) obtain f where f: "filename_from_period to_iso ?p = Some f"
    and fs': "fs' = AList.update f (i_data it) fs"
    by (auto simp: vfs_store_def split: option.splits if_splits)
  have "map_of fs' f = Some (i_data it)" unfolding fs' by (simp add: update_conv')
  then have mem: "(f, i_data it) \<in> set fs'" by (rule map_of_SomeD)
  have "period_from_filename from_iso f = Some ?p"
    using assms(2-4) f by (intro filename_roundtrip) (auto simp: make_period_end)
  moreover have "period_intersects ?p (make_period start stop)"
    using assms(2,5) by (simp add: period_intersects_def make_period_end)
  ultimately show ?thesis
    using mem by (force simp: vfs_list_def)
qed

text \<open>Storing one period leaves every other file alone.\<close>

lemma vfs_store_frame:
  assumes "vfs_store to_iso w fs it = (ok, fs')"
    and "filename_from_period to_iso (make_period (p_begin it) (p_end it)) \<noteq> Some g"
  shows "map_of fs' g = map_of fs g"
  using assms by (auto simp: vfs_store_def update_conv' split: option.splits if_splits)

section \<open>Facts about the cloud storage\<close>

text \<open>A failed request after a page that named a next one is retried.\<close>

lemma cloud_list_retry:
  assumes "\<not> http_ok (ce_net ce n (get_request (next_url ce start stop r)))"
    and "mo_next (dr_meta r) \<noteq> unset_string"
  shows "cloud_list_loop ce start stop r res n = cloud_list_loop ce start stop r res (Suc n)"
  using assms by (subst cloud_list_loop.simps) (simp add: Let_def)

text \<open>
  \<open>serves ce start stop r n pages\<close>: from request \<open>n\<close> on, having read page \<open>r\<close>, the server answers
  with \<open>pages\<close>, each but the last naming a next page.
\<close>

fun serves :: "cloud_env \<Rightarrow> time \<Rightarrow> time \<Rightarrow> data_response \<Rightarrow> nat \<Rightarrow> data_response list \<Rightarrow> bool" where
  "serves ce start stop r n [] = False"
| "serves ce start stop r n (p # ps) =
     (let rp = ce_net ce n (get_request (next_url ce start stop r)) in
      http_ok rp \<and> ce_parse_data ce (rp_body rp) = Some p \<and>
      (if ps = [] then mo_next (dr_meta p) = unset_string
       else mo_next (dr_meta p) \<noteq> unset_string \<and> serves ce start stop p (Suc n) ps))"

lemma cloud_list_loop_pages:
  assumes "serves ce start stop r n pages"
  shows "cloud_list_loop ce start stop r res n =
    Some (Inr (res @ concat (map page_items pages), n + length pages))"
  using assms
proof (induction pages arbitrary: r res n)
  case Nil
  then show ?case by simp
next
  case (Cons p ps)
  then show ?case
    by (subst cloud_list_loop.simps) (cases "ps = []", simp_all add: Let_def)
qed

text \<open>Once the network fails for good behind a page that named a next one, the loop never ends.\<close>

lemma cloud_list_loop_stuck:
  assumes "mo_next (dr_meta r) \<noteq> unset_string"
    and "\<forall>m \<ge> n. \<not> http_ok (ce_net ce m (get_request (next_url ce start stop r)))"
  shows "cloud_list_loop ce start stop r res n = None"
proof (rule ccontr)
  let ?P = "\<lambda>ce start stop r (res :: item list) n (y :: (storage_error, item list \<times> nat) result).
    mo_next (dr_meta r) = unset_string \<or>
    (\<exists>m \<ge> n. http_ok (ce_net ce m (get_request (next_url ce start stop r))))"
  assume "cloud_list_loop ce start stop r res n \<noteq> None"
  then obtain y where ret: "cloud_list_loop ce start stop r res n = Some y" by auto
  have "?P ce start stop r res n y"
    by (rule cloud_list_loop.raw_induct [where P = ?P, OF _ ret])
      (auto simp: Let_def split: if_splits option.splits, meson Suc_leD)
  with assms show False by blast
qed

lemma page_items_ends: "it \<in> set (page_items r) \<Longrightarrow> p_end it \<noteq> time_null"
  by (auto simp: page_items_def make_item_def period.defs make_period_def split: if_splits)

text \<open>No listed item is open.\<close>

definition closed_items :: "item list \<Rightarrow> bool" where
  "closed_items its \<longleftrightarrow> (\<forall>i \<in> set its. p_end i \<noteq> time_null)"

fun closed_result :: "(storage_error, item list \<times> nat) result \<Rightarrow> bool" where
  "closed_result (Inl e) = True"
| "closed_result (Inr (its, n)) = closed_items its"

lemma closed_items_page [simp]: "closed_items (res @ page_items r) = closed_items res"
  using page_items_ends by (auto simp: closed_items_def)

lemma cloud_list_loop_ends:
  assumes "cloud_list_loop ce start stop r res n = Some y" and "closed_items res"
  shows "closed_result y"
proof -
  let ?P = "\<lambda>(ce :: cloud_env) (start :: time) (stop :: time) (r :: data_response) res (n :: nat) y.
    closed_items res \<longrightarrow> closed_result y"
  have "?P ce start stop r res n y"
    by (rule cloud_list_loop.raw_induct [where P = ?P, OF _ assms(1)])
      (auto simp: Let_def split: if_splits option.splits)
  with assms(2) show ?thesis by simp
qed

lemma cloud_list_ends:
  "cloud_list ce start stop n = Some (Inr (its, m)) \<Longrightarrow> it \<in> set its \<Longrightarrow> p_end it \<noteq> time_null"
  using cloud_list_loop_ends [of ce start stop empty_response "[]" n "Inr (its, m)"]
  by (simp add: cloud_list_def closed_items_def)

section \<open>The listing interface the timeline relies on\<close>

text \<open>
  \<open>timeline\<close> only lists. What it needs of a storage is that no listed item is open; the merging of
  what was listed is then correct as soon as the items are periods at all.
\<close>

locale timed_listing =
  fixes listing :: "time \<Rightarrow> time \<Rightarrow> item list"
  assumes listing_closed: "it \<in> set (listing start stop) \<Longrightarrow> p_end it \<noteq> time_null"
begin

lemma slices_correct:
  assumes "\<forall>it \<in> set (listing start stop). p_begin it \<le> p_end it"
  shows "separated (squash_periods (listing start stop))"
    and "coverage (squash_periods (listing start stop)) = coverage (listing start stop)"
  using stable.squash_srt [of "listing start stop"] assms listing_closed
  by (auto simp: squash_periods_def item_wf_def)

end

interpretation vfs: timed_listing "vfs_list from_iso fs" for from_iso fs
  by unfold_locales (rule vfs_list_intersects(2))

definition cloud_listed :: "cloud_env \<Rightarrow> nat \<Rightarrow> time \<Rightarrow> time \<Rightarrow> item list" where
  "cloud_listed ce n start stop =
     (case cloud_list ce start stop n of Some (Inr (its, _)) \<Rightarrow> its | _ \<Rightarrow> [])"

interpretation cloud: timed_listing "cloud_listed ce n" for ce n
  by unfold_locales
    (auto simp: cloud_listed_def dest: cloud_list_ends [OF sym] split: option.splits sum.splits)

section \<open>Properties\<close>


text \<open>Stand-ins for the date library and the network: a time is written in unary, one page is served.\<close>

definition unary_iso :: "time \<Rightarrow> string" where
  "unary_iso t = replicate (nat t) CHR ''x''"

definition from_unary :: "string \<Rightarrow> time" where
  "from_unary s = int (length s)"

definition demo_page :: "string \<Rightarrow> time \<Rightarrow> data_response" where
  "demo_page nxt b = empty_response\<lparr>dr_meta := (dr_meta empty_response)\<lparr>mo_next := nxt\<rparr>,
     dr_objects := [\<lparr>oo_camid = 1, oo_start = b, oo_end = b + 2, oo_id = 7, oo_size = 1, oo_url = ''u''\<rparr>]\<rparr>"

definition demo_cloud :: "(nat \<Rightarrow> bool) \<Rightarrow> cloud_env" where
  "demo_cloud up = \<lparr>ce_api_uri = ''h'', ce_token = ''t'', ce_packed_token = ''p'', ce_to_iso2 = unary_iso,
     ce_parse_data = (\<lambda>b. Some (if b = [0] then demo_page ''/n'' 1 else demo_page unset_string 3)),
     ce_parse_upload = (\<lambda>b. None), ce_dump = (\<lambda>us. []),
     ce_net = (\<lambda>n rq. \<lparr>rp_sent = up n, rp_code = 200, rp_body = (if n = 0 then [0] else [1])\<rparr>)\<rparr>"

lemmas demo_cloud_simps = demo_cloud_def demo_page_def empty_response_def http_ok_def Let_def
  unset_string_def

lemma demo_serves:
  "serves (demo_cloud (\<lambda>_. True)) 1 9 empty_response 0 [demo_page ''/n'' 1, demo_page unset_string 3]"
  by (simp add: demo_cloud_simps)

definition demo_vfs :: vfs where
  "demo_vfs = [(unary_iso 1 @ ''_'' @ unary_iso 3, [])]"

lemma demo_vfs_list: "vfs_list from_unary demo_vfs 1 9 = [make_item \<lparr>p_begin = 1, p_end = 3\<rparr> []]"
  by code_simp

lemma demo_cloud_list:
  "cloud_list (demo_cloud (\<lambda>_. True)) 1 9 0 = Some (Inr
     (concat (map page_items [demo_page ''/n'' 1, demo_page unset_string 3]), 2))"
  using cloud_list_loop_pages [OF demo_serves] by (simp add: cloud_list_def)


text \<open>
  what is stored in the file-system storage is loaded back unchanged, is listed for every period
  it intersects, and leaves the files of all other periods alone; the date library's printer and
  parser must agree on its two ends.
\<close>

theorem vfs_roundtrip:
  assumes "vfs_store to_iso writable fs it = (True, fs')" and "p_end it \<noteq> time_null"
    and "iso_roundtrip to_iso from_iso (p_begin it)" and "iso_roundtrip to_iso from_iso (p_end it)"
  shows "vfs_load to_iso fs' it = (True, it) \<and>
    (\<forall>start stop. period_intersects it (make_period start stop) \<longrightarrow>
       make_item (make_period (p_begin it) (p_end it)) [] \<in> set (vfs_list from_iso fs' start stop)) \<and>
    (\<forall>g. filename_from_period to_iso (make_period (p_begin it) (p_end it)) \<noteq> Some g \<longrightarrow>
       map_of fs' g = map_of fs g)"
  using vfs_store_load [OF assms(1)] vfs_store_list [OF assms(1,2,3,4)] vfs_store_frame [OF assms(1)]
  by blast

theorem vfs_roundtrip_witness:
  "vfs_load unary_iso (snd (vfs_store unary_iso (\<lambda>_. True) [] (make_item (make_period 2 5) [9])))
     (make_item (make_period 2 5) [9]) = (True, make_item (make_period 2 5) [9])"
proof -
  let ?it = "make_item (make_period 2 5) [9]"
  have "vfs_store unary_iso (\<lambda>_. True) [] ?it = (True, snd (vfs_store unary_iso (\<lambda>_. True) [] ?it))"
    by code_simp
  moreover have "p_end ?it \<noteq> time_null" "iso_roundtrip unary_iso from_unary (p_begin ?it)"
    "iso_roundtrip unary_iso from_unary (p_end ?it)"
    by code_simp+
  ultimately show ?thesis using vfs_roundtrip by blast
qed

text \<open>
  listing a cloud period whose pages are all served returns the items of all pages, in order, and
  asks for each page once.
\<close>

theorem cloud_list_all_pages:
  assumes "serves ce start stop empty_response n pages"
  shows "cloud_list ce start stop n = Some (Inr (concat (map page_items pages), n + length pages))"
  using cloud_list_loop_pages [OF assms] by (simp add: cloud_list_def)

theorem cloud_list_all_pages_witness:
  "cloud_list (demo_cloud (\<lambda>_. True)) 1 9 0 =
     Some (Inr (concat (map page_items [demo_page ''/n'' 1, demo_page unset_string 3]), 2))"
  using cloud_list_all_pages [OF demo_serves] by simp

text \<open>
  when the first page is served and the requests for the next one fail from then on, listing never
  returns: the loop keeps asking for the same page.
\<close>

theorem cloud_list_diverges:
  assumes "http_ok (ce_net ce n (get_request (query_url ce start stop)))"
    and "ce_parse_data ce (rp_body (ce_net ce n (get_request (query_url ce start stop)))) = Some r"
    and "mo_next (dr_meta r) \<noteq> unset_string"
    and "\<forall>m > n. \<not> http_ok (ce_net ce m (get_request (ce_api_uri ce @ mo_next (dr_meta r))))"
  shows "cloud_list ce start stop n = None"
proof -
  have "next_url ce start stop empty_response = query_url ce start stop"
    by (simp add: next_url_def empty_response_def)
  moreover have "next_url ce start stop r = ce_api_uri ce @ mo_next (dr_meta r)"
    using assms(3) by (simp add: next_url_def)
  ultimately show ?thesis
    using assms cloud_list_loop_stuck [OF assms(3), of "Suc n" ce start stop "[] @ page_items r"]
    unfolding cloud_list_def by (subst cloud_list_loop.simps) (simp add: Let_def)
qed

theorem cloud_list_diverges_witness: "cloud_list (demo_cloud (\<lambda>n. n = 0)) 1 9 0 = None"
  by (rule cloud_list_diverges [where r = "demo_page ''/n'' 1"]) (simp_all add: demo_cloud_simps)

text \<open>
  the duration sent with an upload is the item's length in nanoseconds cut to 32 bits: it is the
  true length exactly for items shorter than about 2.1 seconds.
\<close>

theorem cloud_store_duration:
  assumes "0 \<le> p_end it - p_begin it"
  shows "ur_duration (upload_of_item it) = p_end it - p_begin it \<longleftrightarrow> p_end it - p_begin it < 2 ^ 31"
proof
  let ?d = "p_end it - p_begin it"
  show "?d < 2 ^ 31" if "ur_duration (upload_of_item it) = ?d"
    using that sint_less [of "of_int ?d :: 32 word"] by (simp add: upload_of_item_def to_int32_def)
  show "ur_duration (upload_of_item it) = ?d" if "?d < 2 ^ 31"
    using that assms unfolding upload_of_item_def to_int32_def signed_of_int
    by (simp add: signed_take_bit_int_eq_self)
qed

theorem cloud_store_duration_witness:
  "ur_duration (upload_of_item (make_item (make_period 1 3000000001) [])) \<noteq> 3000000000"
  using cloud_store_duration [of "make_item (make_period 1 3000000001) []"]
  by (simp add: make_item_def make_period_def period.defs time_null_def)

end
