(* ===== verification/Json_Codec.thy ===== *)
theory Json_Codec
  imports Storage
begin

text \<open>
  The reflection of protocol objects to JSON: the unset values of
  \<^verbatim>\<open>src/src/agent-proto/command/unset-helper.h\<close> and the macros of \<^verbatim>\<open>command/utils.h\<close>. A JSON document
  is a value of the data model that nlohmann::json documents; its arithmetic conversions are an
  argument \<open>num\<close>. A reflected type is the list of its fields in the order of the macro's arguments,
  and the two functions the macro generates are folds over that list.
\<close>

section \<open>JSON values\<close>

text \<open>A \<open>double\<close> is its 64-bit pattern; nothing here computes with one.\<close>

type_synonym double = "64 word"

datatype json =
    JNull
  | JBool bool
  | JInt int
  | JFloat double
  | JStr string
  | JArr "json list"
  | JObj "(string \<times> json) list"

text \<open>
  \<open>j.at(key)\<close> (\<open>None\<close> is the exception), \<open>j[key] = x\<close>, which turns null into an object, and
  \<open>j.erase(key)\<close>.
\<close>

fun json_at :: "string \<Rightarrow> json \<Rightarrow> json option" where
  "json_at k (JObj kvs) = map_of kvs k"
| "json_at k j = None"

fun json_set :: "string \<Rightarrow> json \<Rightarrow> json \<Rightarrow> json" where
  "json_set k x (JObj kvs) = JObj (AList.update k x kvs)"
| "json_set k x j = JObj [(k, x)]"

fun json_erase :: "string \<Rightarrow> json \<Rightarrow> json" where
  "json_erase k (JObj kvs) = JObj (AList.delete k kvs)"
| "json_erase k j = j"

text \<open>What \<open>get\<close> does for the arithmetic types; \<open>None\<close> is \<open>type_error\<close>.\<close>

record json_num =
  as_int :: "json \<Rightarrow> int option"
  as_int64 :: "json \<Rightarrow> int option"
  as_uint64 :: "json \<Rightarrow> int option"
  as_double :: "json \<Rightarrow> double option"

definition int_ok :: "int \<Rightarrow> bool" where
  "int_ok i \<longleftrightarrow> - (2 ^ 31) \<le> i \<and> i < 2 ^ 31"

definition int64_ok :: "int \<Rightarrow> bool" where
  "int64_ok i \<longleftrightarrow> - (2 ^ 63) \<le> i \<and> i < 2 ^ 63"

definition uint64_ok :: "int \<Rightarrow> bool" where
  "uint64_ok i \<longleftrightarrow> 0 \<le> i \<and> i < 2 ^ 64"

text \<open>The library's documented behaviour that is relied on: a number of the type's range reads back.\<close>

definition num_ok :: "json_num \<Rightarrow> bool" where
  "num_ok num \<longleftrightarrow> (\<forall>i. int_ok i \<longrightarrow> as_int num (JInt i) = Some i) \<and>
     (\<forall>i. int64_ok i \<longrightarrow> as_int64 num (JInt i) = Some i) \<and>
     (\<forall>i. uint64_ok i \<longrightarrow> as_uint64 num (JInt i) = Some i) \<and>
     (\<forall>d. as_double num (JFloat d) = Some d)"

section \<open>Unset values\<close>

text \<open>\<open>numeric_limits<double>::min()\<close>, the smallest normal number.\<close>

definition UnsetDouble :: double where
  "UnsetDouble = 0x0010000000000000"

definition UnsetUInt64 :: int where "UnsetUInt64 = 0"

definition UnsetInt64 :: int where "UnsetInt64 = - (2 ^ 63)"

fun json_unset :: "json \<Rightarrow> bool" where
  "json_unset JNull = True"
| "json_unset (JArr xs) = (xs = [])"
| "json_unset j = False"

datatype alter_bool = B_FALSE | B_TRUE | B_INVALID

definition alter_bool_of :: "bool \<Rightarrow> alter_bool" where
  "alter_bool_of v = (if v then B_TRUE else B_FALSE)"

definition bool_of_alter :: "alter_bool \<Rightarrow> bool" where
  "bool_of_alter c = (if c = B_TRUE then True else False)"

fun alter_bool_from_json :: "json \<Rightarrow> alter_bool" where
  "alter_bool_from_json (JBool b) = (if b then B_TRUE else B_FALSE)"
| "alter_bool_from_json j = B_INVALID"

definition alter_bool_to_json :: "alter_bool \<Rightarrow> json" where
  "alter_bool_to_json c = (if c = B_TRUE then JBool True else JBool False)"

section \<open>Reflected types\<close>

text \<open>
  A field of a reflected type \<open>'t\<close>: its name, what \<open>MY_JSON_TO\<close> writes for it (\<open>None\<close> when the value is
  unset) and what \<open>get_to\<close> makes of the object (itself, when it throws).
\<close>

record 't field =
  f_key :: string
  f_put :: "'t \<Rightarrow> json option"
  f_get :: "json \<Rightarrow> 't \<Rightarrow> 't"

text \<open>\<open>MY_JSON_TO\<close> and \<open>MY_JSON_FROM\<close>\<close>

definition my_json_to :: "'t \<Rightarrow> 't field \<Rightarrow> json \<Rightarrow> json" where
  "my_json_to t f j =
     (case f_put f t of
        None \<Rightarrow> j
      | Some x \<Rightarrow>
          let j1 = json_set (f_key f) x j in
          if json_at (f_key f) j1 = Some JNull then json_erase (f_key f) j1 else j1)"

definition my_json_from :: "json \<Rightarrow> 't field \<Rightarrow> 't \<Rightarrow> 't" where
  "my_json_from j f t = (case json_at (f_key f) j of None \<Rightarrow> t | Some x \<Rightarrow> f_get f x t)"

text \<open>The functions \<open>JSON_DEFINE_TYPE_INTRUSIVE\<close> defines.\<close>

definition struct_to_json :: "'t field list \<Rightarrow> 't \<Rightarrow> json" where
  "struct_to_json fs t = fold (my_json_to t) fs JNull"

definition struct_from_json :: "'t field list \<Rightarrow> json \<Rightarrow> 't \<Rightarrow> 't" where
  "struct_from_json fs j t = fold (my_json_from j) fs t"

text \<open>
  A field from its type's codec: \<open>un\<close> is \<open>__is_unset\<close>, \<open>enc\<close> the conversion to JSON, \<open>dec\<close> the one from
  JSON into the old value.
\<close>

definition fld :: "string \<Rightarrow> ('a \<Rightarrow> bool) \<Rightarrow> ('a \<Rightarrow> json) \<Rightarrow> (json \<Rightarrow> 'a \<Rightarrow> 'a option) \<Rightarrow>
    ('t \<Rightarrow> 'a) \<Rightarrow> (('a \<Rightarrow> 'a) \<Rightarrow> 't \<Rightarrow> 't) \<Rightarrow> 't field" where
  "fld k un enc dec g u =
     \<lparr>f_key = k, f_put = (\<lambda>t. if un (g t) then None else Some (enc (g t))),
      f_get = (\<lambda>x t. case dec x (g t) of None \<Rightarrow> t | Some v \<Rightarrow> u (\<lambda>_. v) t)\<rparr>"

text \<open>The fields of a base class or a member object seen as fields of the whole.\<close>

definition lift_field :: "('t \<Rightarrow> 'a) \<Rightarrow> (('a \<Rightarrow> 'a) \<Rightarrow> 't \<Rightarrow> 't) \<Rightarrow> 'a field \<Rightarrow> 't field" where
  "lift_field g u f =
     \<lparr>f_key = f_key f, f_put = (\<lambda>t. f_put f (g t)), f_get = (\<lambda>x t. u (f_get f x) t)\<rparr>"

subsection \<open>Codecs of the field types\<close>

definition never :: "'a \<Rightarrow> bool" where "never a = False"

fun dec_str :: "json \<Rightarrow> string option" where
  "dec_str (JStr s) = Some s"
| "dec_str j = None"

fun dec_bool :: "json \<Rightarrow> bool option" where
  "dec_bool (JBool b) = Some b"
| "dec_bool j = None"

fun dec_list :: "(json \<Rightarrow> 'a option) \<Rightarrow> json \<Rightarrow> 'a list option" where
  "dec_list dec (JArr xs) = those (map dec xs)"
| "dec_list dec j = None"

definition enc_list :: "('a \<Rightarrow> json) \<Rightarrow> 'a list \<Rightarrow> json" where
  "enc_list enc xs = JArr (map enc xs)"

fun dec_pair :: "(json \<Rightarrow> 'a option) \<Rightarrow> (json \<Rightarrow> 'b option) \<Rightarrow> json \<Rightarrow> ('a \<times> 'b) option" where
  "dec_pair da db (JArr (x # y # _)) =
     (case da x of None \<Rightarrow> None | Some a \<Rightarrow> (case db y of None \<Rightarrow> None | Some b \<Rightarrow> Some (a, b)))"
| "dec_pair da db j = None"

definition enc_pair :: "('a \<Rightarrow> json) \<Rightarrow> ('b \<Rightarrow> json) \<Rightarrow> 'a \<times> 'b \<Rightarrow> json" where
  "enc_pair ea eb p = JArr [ea (fst p), eb (snd p)]"

fun dec_triple :: "(json \<Rightarrow> 'a option) \<Rightarrow> json \<Rightarrow> ('a \<times> 'a \<times> 'a) option" where
  "dec_triple d (JArr (x # y # z # _)) =
     (case d x of None \<Rightarrow> None | Some a \<Rightarrow> (case d y of None \<Rightarrow> None | Some b \<Rightarrow>
      (case d z of None \<Rightarrow> None | Some c \<Rightarrow> Some (a, b, c))))"
| "dec_triple d j = None"

definition enc_triple :: "('a \<Rightarrow> json) \<Rightarrow> 'a \<times> 'a \<times> 'a \<Rightarrow> json" where
  "enc_triple e p = (case p of (a, b, c) \<Rightarrow> JArr [e a, e b, e c])"

fun dec_str_map :: "json \<Rightarrow> (string \<times> string) list option" where
  "dec_str_map (JObj kvs) = those (map (\<lambda>(k, x). map_option (Pair k) (dec_str x)) kvs)"
| "dec_str_map j = None"

definition enc_str_map :: "(string \<times> string) list \<Rightarrow> json" where
  "enc_str_map m = JObj (map (\<lambda>(k, v). (k, JStr v)) m)"

text \<open>
  \<open>NLOHMANN_JSON_SERIALIZE_ENUM\<close>: the first entry of the table with the value, or the first entry of
  all, in both directions.
\<close>

definition enum_to :: "('e \<times> json) list \<Rightarrow> 'e \<Rightarrow> json" where
  "enum_to tab e = (case find (\<lambda>p. fst p = e) tab of Some p \<Rightarrow> snd p | None \<Rightarrow> snd (hd tab))"

definition enum_from :: "('e \<times> json) list \<Rightarrow> json \<Rightarrow> 'e" where
  "enum_from tab j = (case find (\<lambda>p. snd p = j) tab of Some p \<Rightarrow> fst p | None \<Rightarrow> fst (hd tab))"

subsection \<open>Fields by type\<close>

definition str_field :: "string \<Rightarrow> ('t \<Rightarrow> string) \<Rightarrow> ((string \<Rightarrow> string) \<Rightarrow> 't \<Rightarrow> 't) \<Rightarrow> 't field" where
  "str_field k g u = fld k (\<lambda>s. s = unset_string) JStr (\<lambda>x _. dec_str x) g u"

definition int_field :: "json_num \<Rightarrow> string \<Rightarrow> ('t \<Rightarrow> int) \<Rightarrow> ((int \<Rightarrow> int) \<Rightarrow> 't \<Rightarrow> 't) \<Rightarrow> 't field" where
  "int_field num k g u = fld k (\<lambda>i. i = UnsetInt) JInt (\<lambda>x _. as_int num x) g u"

definition int64_field :: "json_num \<Rightarrow> string \<Rightarrow> ('t \<Rightarrow> int) \<Rightarrow> ((int \<Rightarrow> int) \<Rightarrow> 't \<Rightarrow> 't) \<Rightarrow> 't field" where
  "int64_field num k g u = fld k never JInt (\<lambda>x _. as_int64 num x) g u"

definition uint64_field :: "json_num \<Rightarrow> string \<Rightarrow> ('t \<Rightarrow> int) \<Rightarrow> ((int \<Rightarrow> int) \<Rightarrow> 't \<Rightarrow> 't) \<Rightarrow> 't field" where
  "uint64_field num k g u = fld k never JInt (\<lambda>x _. as_uint64 num x) g u"

definition double_field ::
  "json_num \<Rightarrow> string \<Rightarrow> ('t \<Rightarrow> double) \<Rightarrow> ((double \<Rightarrow> double) \<Rightarrow> 't \<Rightarrow> 't) \<Rightarrow> 't field" where
  "double_field num k g u = fld k (\<lambda>d. d = UnsetDouble) JFloat (\<lambda>x _. as_double num x) g u"

definition bool_field :: "string \<Rightarrow> ('t \<Rightarrow> bool) \<Rightarrow> ((bool \<Rightarrow> bool) \<Rightarrow> 't \<Rightarrow> 't) \<Rightarrow> 't field" where
  "bool_field k g u = fld k never JBool (\<lambda>x _. dec_bool x) g u"

definition alter_field ::
  "string \<Rightarrow> ('t \<Rightarrow> alter_bool) \<Rightarrow> ((alter_bool \<Rightarrow> alter_bool) \<Rightarrow> 't \<Rightarrow> 't) \<Rightarrow> 't field" where
  "alter_field k g u =
     fld k (\<lambda>c. c = B_INVALID) alter_bool_to_json (\<lambda>x _. Some (alter_bool_from_json x)) g u"

definition enum_field ::
  "('e \<times> json) list \<Rightarrow> string \<Rightarrow> ('t \<Rightarrow> 'e) \<Rightarrow> (('e \<Rightarrow> 'e) \<Rightarrow> 't \<Rightarrow> 't) \<Rightarrow> 't field" where
  "enum_field tab k g u = fld k never (enum_to tab) (\<lambda>x _. Some (enum_from tab x)) g u"

definition json_field :: "string \<Rightarrow> ('t \<Rightarrow> json) \<Rightarrow> ((json \<Rightarrow> json) \<Rightarrow> 't \<Rightarrow> 't) \<Rightarrow> 't field" where
  "json_field k g u = fld k json_unset id (\<lambda>x _. Some x) g u"

definition val_field :: "('a \<Rightarrow> json) \<Rightarrow> (json \<Rightarrow> 'a option) \<Rightarrow> string \<Rightarrow> ('t \<Rightarrow> 'a) \<Rightarrow>
    (('a \<Rightarrow> 'a) \<Rightarrow> 't \<Rightarrow> 't) \<Rightarrow> 't field" where
  "val_field enc dec k g u = fld k never enc (\<lambda>x _. dec x) g u"

definition struct_field :: "'a field list \<Rightarrow> string \<Rightarrow> ('t \<Rightarrow> 'a) \<Rightarrow> (('a \<Rightarrow> 'a) \<Rightarrow> 't \<Rightarrow> 't) \<Rightarrow> 't field" where
  "struct_field fs k g u =
     fld k never (struct_to_json fs) (\<lambda>x a. Some (struct_from_json fs x a)) g u"

definition dec_struct :: "'a field list \<Rightarrow> 'a \<Rightarrow> json \<Rightarrow> 'a option" where
  "dec_struct fs dflt x = Some (struct_from_json fs x dflt)"

section \<open>Encoding, then decoding\<close>

lemma json_at_set [simp]: "json_at k (json_set k' x j) = (if k = k' then Some x else json_at k j)"
  by (cases j) (auto simp: update_conv')

lemma json_at_erase [simp]: "json_at k (json_erase k' j) = (if k = k' then None else json_at k j)"
  by (cases j) (auto simp: delete_conv')

text \<open>What a field writes, with null counted as nothing.\<close>

definition field_out :: "'t field \<Rightarrow> 't \<Rightarrow> json option" where
  "field_out f t = (case f_put f t of None \<Rightarrow> None | Some x \<Rightarrow> if x = JNull then None else Some x)"

lemma json_at_my_json_to:
  "json_at k (my_json_to t f j) =
     (if k = f_key f then (case f_put f t of None \<Rightarrow> json_at k j | Some _ \<Rightarrow> field_out f t) else json_at k j)"
  by (auto simp: my_json_to_def field_out_def Let_def split: option.splits)

lemma json_at_fold_other:
  "k \<notin> f_key ` set fs \<Longrightarrow> json_at k (fold (my_json_to t) fs j) = json_at k j"
  by (induction fs arbitrary: j) (simp_all add: json_at_my_json_to)

lemma json_at_fold:
  assumes "distinct (map f_key fs)" "f \<in> set fs" "json_at (f_key f) j = None"
  shows "json_at (f_key f) (fold (my_json_to t) fs j) = field_out f t"
  using assms
proof (induction fs arbitrary: j)
  case (Cons h fs)
  show ?case
  proof (cases "f = h")
    case True
    with Cons.prems show ?thesis
      by (auto simp: json_at_fold_other json_at_my_json_to field_out_def split: option.splits)
  next
    case False
    with Cons.prems have f: "f \<in> set fs" by simp
    then have "f_key f \<in> f_key ` set fs" by simp
    with Cons.prems have "f_key f \<noteq> f_key h" by auto
    with f Cons show ?thesis by (simp add: json_at_my_json_to)
  qed
qed simp

lemma json_at_struct:
  "distinct (map f_key fs) \<Longrightarrow> f \<in> set fs \<Longrightarrow> json_at (f_key f) (struct_to_json fs t) = field_out f t"
  by (simp add: struct_to_json_def json_at_fold)

lemma json_at_struct_other: "k \<notin> f_key ` set fs \<Longrightarrow> json_at k (struct_to_json fs t) = None"
  by (simp add: struct_to_json_def json_at_fold_other)

text \<open>Decoding what was encoded, field by field: the document is gone from the right-hand side.\<close>

definition own_take :: "'t \<Rightarrow> 't field \<Rightarrow> 't \<Rightarrow> 't" where
  "own_take t f x = (case field_out f t of None \<Rightarrow> x | Some j \<Rightarrow> f_get f j x)"

lemma struct_from_to:
  assumes "distinct (map f_key fs)"
  shows "struct_from_json fs (struct_to_json fs t) d = fold (own_take t) fs d"
proof -
  have "my_json_from (struct_to_json fs t) f x = own_take t f x" if "f \<in> set fs" for f x
    by (simp add: my_json_from_def own_take_def json_at_struct [OF assms that])
  then show ?thesis
    unfolding struct_from_json_def by (intro fold_cong) auto
qed

text \<open>
  A field restores its value when the value it starts from is the one that is not written, which is
  what the default constructors set.
\<close>

lemma own_take_fld:
  assumes "un (g t) \<or> enc (g t) = JNull \<Longrightarrow> g x = g t"
    and "\<not> un (g t) \<Longrightarrow> enc (g t) \<noteq> JNull \<Longrightarrow> dec (enc (g t)) (g x) = Some (g t)"
    and "u (\<lambda>_. g x) x = x"
  shows "own_take t (fld k un enc dec g u) x = u (\<lambda>_. g t) x"
  using assms by (auto simp: own_take_def field_out_def fld_def)

lemma own_take_str [json_rt]:
  "g x = unset_string \<or> g t \<noteq> unset_string \<Longrightarrow> u (\<lambda>_. g x) x = x \<Longrightarrow>
     own_take t (str_field k g u) x = u (\<lambda>_. g t) x"
  unfolding str_field_def by (rule own_take_fld) auto

lemma num_okD:
  assumes "num_ok num"
  shows "int_ok i \<Longrightarrow> as_int num (JInt i) = Some i" "int64_ok i \<Longrightarrow> as_int64 num (JInt i) = Some i"
    "uint64_ok i \<Longrightarrow> as_uint64 num (JInt i) = Some i" "as_double num (JFloat d) = Some d"
  using assms by (simp_all add: num_ok_def)

lemma own_take_int [json_rt]:
  "num_ok num \<Longrightarrow> int_ok (g t) \<Longrightarrow> g x = UnsetInt \<or> g t \<noteq> UnsetInt \<Longrightarrow> u (\<lambda>_. g x) x = x \<Longrightarrow>
     own_take t (int_field num k g u) x = u (\<lambda>_. g t) x"
  unfolding int_field_def by (rule own_take_fld) (auto simp: num_okD)

lemma own_take_int64 [json_rt]:
  "num_ok num \<Longrightarrow> int64_ok (g t) \<Longrightarrow> u (\<lambda>_. g x) x = x \<Longrightarrow>
     own_take t (int64_field num k g u) x = u (\<lambda>_. g t) x"
  unfolding int64_field_def by (rule own_take_fld) (auto simp: num_okD never_def)

lemma own_take_uint64 [json_rt]:
  "num_ok num \<Longrightarrow> uint64_ok (g t) \<Longrightarrow> u (\<lambda>_. g x) x = x \<Longrightarrow>
     own_take t (uint64_field num k g u) x = u (\<lambda>_. g t) x"
  unfolding uint64_field_def by (rule own_take_fld) (auto simp: num_okD never_def)

lemma own_take_double [json_rt]:
  "num_ok num \<Longrightarrow> g x = UnsetDouble \<or> g t \<noteq> UnsetDouble \<Longrightarrow> u (\<lambda>_. g x) x = x \<Longrightarrow>
     own_take t (double_field num k g u) x = u (\<lambda>_. g t) x"
  unfolding double_field_def by (rule own_take_fld) (auto simp: num_okD)

lemma own_take_bool [json_rt]:
  "u (\<lambda>_. g x) x = x \<Longrightarrow> own_take t (bool_field k g u) x = u (\<lambda>_. g t) x"
  unfolding bool_field_def by (rule own_take_fld) (auto simp: never_def)

lemma own_take_alter [json_rt]:
  "g x = B_INVALID \<Longrightarrow> u (\<lambda>_. g x) x = x \<Longrightarrow> own_take t (alter_field k g u) x = u (\<lambda>_. g t) x"
  unfolding alter_field_def
  by (rule own_take_fld) (cases "g t"; simp add: alter_bool_to_json_def)+

text \<open>An enumeration's value survives when the table lists it and its text first.\<close>

definition enum_ok :: "('e \<times> json) list \<Rightarrow> 'e \<Rightarrow> bool" where
  "enum_ok tab e \<longleftrightarrow> enum_from tab (enum_to tab e) = e"

lemma own_take_enum [json_rt]:
  "enum_ok tab (g t) \<Longrightarrow> (enum_to tab (g t) = JNull \<longrightarrow> g x = g t) \<Longrightarrow> u (\<lambda>_. g x) x = x \<Longrightarrow>
     own_take t (enum_field tab k g u) x = u (\<lambda>_. g t) x"
  unfolding enum_field_def by (rule own_take_fld) (auto simp: never_def enum_ok_def)

lemma own_take_json [json_rt]:
  "g x = JNull \<Longrightarrow> g t \<noteq> JArr [] \<Longrightarrow> u (\<lambda>_. g x) x = x \<Longrightarrow> own_take t (json_field k g u) x = u (\<lambda>_. g t) x"
  unfolding json_field_def by (rule own_take_fld) (cases "g t"; auto)+

lemma own_take_val [json_rt]:
  "dec (enc (g t)) = Some (g t) \<Longrightarrow> enc (g t) \<noteq> JNull \<Longrightarrow> u (\<lambda>_. g x) x = x \<Longrightarrow>
     own_take t (val_field enc dec k g u) x = u (\<lambda>_. g t) x"
  unfolding val_field_def by (rule own_take_fld) (auto simp: never_def)

lemma own_take_lift:
  "own_take t (lift_field g u f) x = (case field_out f (g t) of None \<Rightarrow> x | Some j \<Rightarrow> u (f_get f j) x)"
  by (simp add: own_take_def field_out_def lift_field_def split: option.splits)

text \<open>A base or member object inside a larger one; \<open>u\<close> is the update of the member \<open>g\<close>.\<close>

lemma fold_own_take_lift:
  assumes "\<And>a. u (\<lambda>x. x) a = a" "\<And>f h a. u f (u h a) = u (\<lambda>x. f (h x)) a"
  shows "fold (own_take t) (map (lift_field g u) fs) x = u (fold (own_take (g t)) fs) x"
proof (induction fs arbitrary: x)
  case Nil
  then show ?case using assms(1) by (simp add: id_def)
next
  case (Cons f fs)
  have "own_take t (lift_field g u f) x = u (own_take (g t) f) x"
    unfolding own_take_lift using assms(1) [of x]
    by (cases "field_out f (g t)") (simp_all add: own_take_def [abs_def])
  with Cons show ?case by (simp add: assms(2) comp_def)
qed

text \<open>A document that is not an object changes nothing.\<close>

lemma struct_from_json_absent:
  assumes "\<forall>f \<in> set fs. json_at (f_key f) j = None"
  shows "struct_from_json fs j t = t"
  using assms unfolding struct_from_json_def
  by (induction fs arbitrary: t) (simp_all add: my_json_from_def)

lemma struct_from_json_null [simp]: "struct_from_json fs JNull t = t"
  by (rule struct_from_json_absent) simp

lemmas field_defs = str_field_def int_field_def int64_field_def uint64_field_def double_field_def
  bool_field_def alter_field_def enum_field_def json_field_def val_field_def struct_field_def fld_def
  lift_field_def

lemma f_key_simps [simp]:
  "f_key (str_field k g1 u1) = k" "f_key (int_field num k g2 u2) = k" "f_key (int64_field num k g3 u3) = k"
  "f_key (uint64_field num k g4 u4) = k" "f_key (double_field num k g5 u5) = k"
  "f_key (bool_field k g6 u6) = k" "f_key (alter_field k g7 u7) = k" "f_key (enum_field tab k g8 u8) = k"
  "f_key (json_field k g9 u9) = k" "f_key (val_field e d k g10 u10) = k"
  "f_key (struct_field fs k g11 u11) = k" "f_key (lift_field g12 u12 f) = f_key f"
  by (simp_all add: field_defs)

section \<open>The interface of a reflected type\<close>

locale struct_codec =
  fixes fs :: "'t field list" and dflt :: 't and wf :: "'t \<Rightarrow> bool"
  assumes keys: "distinct (map f_key fs)"
    and restores: "wf t \<Longrightarrow> fold (own_take t) fs dflt = t"
begin

lemma roundtrip: "wf t \<Longrightarrow> struct_from_json fs (struct_to_json fs t) dflt = t"
  by (simp add: struct_from_to [OF keys] restores)

lemma roundtrip_dec: "wf t \<Longrightarrow> dec_struct fs dflt (struct_to_json fs t) = Some t"
  by (simp add: dec_struct_def roundtrip)

lemma null_is_default: "wf t \<Longrightarrow> struct_to_json fs t = JNull \<Longrightarrow> t = dflt"
  using roundtrip [of t] by simp

lemma roundtrip_list: "list_all wf ts \<Longrightarrow> dec_list (dec_struct fs dflt) (enc_list (struct_to_json fs) ts) = Some ts"
  by (induction ts) (simp_all add: enc_list_def roundtrip_dec)

lemma own_take_struct:
  assumes "wf (g t)" "g x = dflt" "u (\<lambda>_. g x) x = x"
  shows "own_take t (struct_field fs k g u) x = u (\<lambda>_. g t) x"
  unfolding struct_field_def using assms
  by (intro own_take_fld) (auto simp: never_def roundtrip dest: null_is_default)

end

lemma dec_list_rt [json_rt]:
  "\<forall>x \<in> set xs. dec (enc x) = Some x \<Longrightarrow> dec_list dec (enc_list enc xs) = Some xs"
  by (induction xs) (simp_all add: enc_list_def)

lemma enc_list_not_null [simp]: "enc_list enc xs \<noteq> JNull"
  by (simp add: enc_list_def)

lemma dec_pair_rt [json_rt]:
  "da (ea (fst p)) = Some (fst p) \<Longrightarrow> db (eb (snd p)) = Some (snd p) \<Longrightarrow> dec_pair da db (enc_pair ea eb p) = Some p"
  by (simp add: enc_pair_def)

lemma enc_pair_not_null [simp]: "enc_pair ea eb p \<noteq> JNull"
  by (simp add: enc_pair_def)

lemma dec_triple_rt [json_rt]:
  "d (e a) = Some a \<Longrightarrow> d (e b) = Some b \<Longrightarrow> d (e c) = Some c \<Longrightarrow> dec_triple d (enc_triple e (a, b, c)) = Some (a, b, c)"
  by (simp add: enc_triple_def)

lemma enc_triple_not_null [simp]: "enc_triple e p \<noteq> JNull"
  by (simp add: enc_triple_def split: prod.splits)

lemma dec_str_map_rt [json_rt]: "dec_str_map (enc_str_map m) = Some m"
  by (induction m) (auto simp: enc_str_map_def)

lemma enc_str_map_not_null [simp]: "enc_str_map m \<noteq> JNull"
  by (simp add: enc_str_map_def)

section \<open>Documents from other versions\<close>

text \<open>A member the type does not reflect is ignored.\<close>

lemma struct_from_json_unknown:
  assumes "k \<notin> f_key ` set fs"
  shows "struct_from_json fs (json_set k x (JObj kvs)) t = struct_from_json fs (JObj kvs) t"
proof -
  have "my_json_from (json_set k x (JObj kvs)) f = my_json_from (JObj kvs) f" if "f \<in> set fs" for f
    using assms that by (auto simp: my_json_from_def fun_eq_iff simp del: json_set.simps)
  then show ?thesis unfolding struct_from_json_def by (intro fold_cong) auto
qed

text \<open>No member that is written is null.\<close>

lemma my_json_to_no_null:
  "json_at k j \<noteq> Some JNull \<Longrightarrow> json_at k (my_json_to t f j) \<noteq> Some JNull"
  by (auto simp: json_at_my_json_to field_out_def split: option.splits)

lemma struct_to_json_no_null: "json_at k (struct_to_json fs t) \<noteq> Some JNull"
proof -
  have "json_at k j \<noteq> Some JNull \<Longrightarrow> json_at k (fold (my_json_to t) fs j) \<noteq> Some JNull" for j
    by (induction fs arbitrary: j) (simp_all add: my_json_to_no_null)
  then show ?thesis by (simp add: struct_to_json_def)
qed

end
