(* ===== verification/Proto_Caps.thy ===== *)
theory Proto_Caps
  imports Json_Codec
begin

text \<open>
  The capability objects of \<^verbatim>\<open>src/src/agent-proto/objects/caps.h\<close>: enumerations with their JSON
  tables and the reflected structures, each with its default values, its fields in the order of the
  reflection macro and the values for which encoding loses nothing.
\<close>

datatype cam_mode =
    M_OFF
  | M_ON
  | M_AUTO
  | M_INVALID

definition cam_mode_table :: "(cam_mode \<times> json) list" where
  "cam_mode_table =
     [(M_INVALID, JNull),
      (M_OFF, JStr ''off''),
      (M_ON, JStr ''on''),
      (M_AUTO, JStr ''auto'')]"

lemma cam_mode_enum [json_rt, simp]:
  "enum_ok cam_mode_table e" "enum_to cam_mode_table e = JNull \<longleftrightarrow> e = M_INVALID"
  "enum_from cam_mode_table (enum_to cam_mode_table e) = e"
  by (cases e; simp add: enum_ok_def enum_to_def enum_from_def cam_mode_table_def)+

datatype stream_reason =
    SR_RECORD
  | SR_RECORD_BY_EVENT
  | SR_SERVER_BY_EVENT
  | SR_LIVE
  | SR_RECORD_DIRECT
  | SR_INVALID

definition stream_reason_table :: "(stream_reason \<times> json) list" where
  "stream_reason_table =
     [(SR_INVALID, JNull),
      (SR_RECORD, JStr ''record''),
      (SR_RECORD_BY_EVENT, JStr ''record_by_event''),
      (SR_RECORD_BY_EVENT, JStr ''server_by_event''),
      (SR_LIVE, JStr ''live''),
      (SR_RECORD_DIRECT, JStr ''storage_direct_recording'')]"

datatype video_format =
    VF_H264
  | VF_H265
  | VF_MJPEG
  | VF_INVALID

definition video_format_table :: "(video_format \<times> json) list" where
  "video_format_table =
     [(VF_INVALID, JNull),
      (VF_H264, JStr ''H.264''),
      (VF_H265, JStr ''H.265''),
      (VF_MJPEG, JStr ''MJPEG'')]"

lemma video_format_enum [json_rt, simp]:
  "enum_ok video_format_table e" "enum_to video_format_table e = JNull \<longleftrightarrow> e = VF_INVALID"
  "enum_from video_format_table (enum_to video_format_table e) = e"
  by (cases e; simp add: enum_ok_def enum_to_def enum_from_def video_format_table_def)+

datatype audio_format =
    AF_G711A
  | AF_G711U
  | AF_RAW
  | AF_ADPCM
  | AF_MP3
  | AF_NELLY8
  | AF_NELLY16
  | AF_NELLY
  | AF_OPUS
  | AF_AAC
  | AF_SPEEX
  | AF_INVALID

definition audio_format_table :: "(audio_format \<times> json) list" where
  "audio_format_table =
     [(AF_INVALID, JNull),
      (AF_RAW, JStr ''RAW''),
      (AF_ADPCM, JStr ''ADPCM''),
      (AF_MP3, JStr ''MP3''),
      (AF_NELLY8, JStr ''NELLY8''),
      (AF_NELLY16, JStr ''NELLY16''),
      (AF_NELLY, JStr ''NELLY''),
      (AF_SPEEX, JStr ''SPEEX''),
      (AF_OPUS, JStr ''OPUS''),
      (AF_G711U, JStr ''G711U''),
      (AF_G711A, JStr ''G711A''),
      (AF_AAC, JStr ''AAC'')]"

lemma audio_format_enum [json_rt, simp]:
  "enum_ok audio_format_table e" "enum_to audio_format_table e = JNull \<longleftrightarrow> e = AF_INVALID"
  "enum_from audio_format_table (enum_to audio_format_table e) = e"
  by (cases e; simp add: enum_ok_def enum_to_def enum_from_def audio_format_table_def)+

datatype audio_file_format =
    AFF_AU_G711U
  | AFF_MP3
  | AFF_WAV_PCM
  | AFF_INVALID

definition audio_file_format_table :: "(audio_file_format \<times> json) list" where
  "audio_file_format_table =
     [(AFF_INVALID, JNull),
      (AFF_AU_G711U, JStr ''AU_G711U''),
      (AFF_MP3, JStr ''MP3''),
      (AFF_WAV_PCM, JStr ''WAV_PCM'')]"

lemma audio_file_format_enum [json_rt, simp]:
  "enum_ok audio_file_format_table e" "enum_to audio_file_format_table e = JNull \<longleftrightarrow> e = AFF_INVALID"
  "enum_from audio_file_format_table (enum_to audio_file_format_table e) = e"
  by (cases e; simp add: enum_ok_def enum_to_def enum_from_def audio_file_format_table_def)+

record caps_video_object =
  cvo_streams :: "string list"
  cvo_formats :: "video_format list"
  cvo_profiles :: "(video_format \<times> string) list"
  cvo_resolutions :: "(int \<times> int) list"
  cvo_fps :: "double list"
  cvo_vbr :: bool
  cvo_quality :: "int \<times> int"
  cvo_gop :: "int list"
  cvo_brt :: "int list"
  cvo_vbr_brt :: "int list"
  cvo_smoothing :: bool

definition caps_video_object_default :: "caps_video_object" where
  "caps_video_object_default = \<lparr>cvo_streams = [],
     cvo_formats = [],
     cvo_profiles = [],
     cvo_resolutions = [],
     cvo_fps = [],
     cvo_vbr = False,
     cvo_quality = (0, 0),
     cvo_gop = [],
     cvo_brt = [],
     cvo_vbr_brt = [],
     cvo_smoothing = False\<rparr>"

definition caps_video_object_fields :: "json_num \<Rightarrow> 'a caps_video_object_scheme field list" where
  "caps_video_object_fields num =
     [val_field (enc_list JStr) (dec_list dec_str) ''streams'' cvo_streams cvo_streams_update,
      val_field (enc_list (enum_to video_format_table)) (dec_list (\<lambda>x. Some (enum_from video_format_table x))) ''formats'' cvo_formats cvo_formats_update,
      val_field (enc_list (enc_pair (enum_to video_format_table) JStr)) (dec_list (dec_pair (\<lambda>x. Some (enum_from video_format_table x)) dec_str)) ''profiles'' cvo_profiles cvo_profiles_update,
      val_field (enc_list (enc_pair JInt JInt)) (dec_list (dec_pair (as_int num) (as_int num))) ''resolutions'' cvo_resolutions cvo_resolutions_update,
      val_field (enc_list JFloat) (dec_list (as_double num)) ''fps'' cvo_fps cvo_fps_update,
      bool_field ''vbr'' cvo_vbr cvo_vbr_update,
      val_field (enc_pair JInt JInt) (dec_pair (as_int num) (as_int num)) ''quality'' cvo_quality cvo_quality_update,
      val_field (enc_list JInt) (dec_list (as_int num)) ''gop'' cvo_gop cvo_gop_update,
      val_field (enc_list JInt) (dec_list (as_int num)) ''brt'' cvo_brt cvo_brt_update,
      val_field (enc_list JInt) (dec_list (as_int num)) ''vbr_brt'' cvo_vbr_brt cvo_vbr_brt_update,
      bool_field ''smoothing'' cvo_smoothing cvo_smoothing_update]"

definition caps_video_object_wf :: "'a caps_video_object_scheme \<Rightarrow> bool" where
  "caps_video_object_wf t \<longleftrightarrow> list_all (\<lambda>y. int_ok ((fst y)) \<and> int_ok ((snd y))) ((cvo_resolutions t)) \<and>
     int_ok ((fst ((cvo_quality t)))) \<and> int_ok ((snd ((cvo_quality t)))) \<and>
     list_all (\<lambda>y. int_ok y) ((cvo_gop t)) \<and>
     list_all (\<lambda>y. int_ok y) ((cvo_brt t)) \<and>
     list_all (\<lambda>y. int_ok y) ((cvo_vbr_brt t))"

interpretation caps_video_object: struct_codec "caps_video_object_fields num" caps_video_object_default "\<lambda>t. num_ok num \<and> caps_video_object_wf t" for num
  by unfold_locales
    (auto simp: caps_video_object_fields_def caps_video_object_default_def caps_video_object_wf_def
      json_rt num_okD list_all_iff intro!: caps_video_object.equality)

record caps_audio_object =
  cao_streams :: "string list"
  cao_formats :: "audio_format list"
  cao_brt :: "int list"
  cao_srt :: "double list"

definition caps_audio_object_default :: "caps_audio_object" where
  "caps_audio_object_default = \<lparr>cao_streams = [],
     cao_formats = [],
     cao_brt = [],
     cao_srt = []\<rparr>"

definition caps_audio_object_fields :: "json_num \<Rightarrow> 'a caps_audio_object_scheme field list" where
  "caps_audio_object_fields num =
     [val_field (enc_list JStr) (dec_list dec_str) ''streams'' cao_streams cao_streams_update,
      val_field (enc_list (enum_to audio_format_table)) (dec_list (\<lambda>x. Some (enum_from audio_format_table x))) ''formats'' cao_formats cao_formats_update,
      val_field (enc_list JInt) (dec_list (as_int num)) ''brt'' cao_brt cao_brt_update,
      val_field (enc_list JFloat) (dec_list (as_double num)) ''srt'' cao_srt cao_srt_update]"

definition caps_audio_object_wf :: "'a caps_audio_object_scheme \<Rightarrow> bool" where
  "caps_audio_object_wf t \<longleftrightarrow> list_all (\<lambda>y. int_ok y) ((cao_brt t))"

interpretation caps_audio_object: struct_codec "caps_audio_object_fields num" caps_audio_object_default "\<lambda>t. num_ok num \<and> caps_audio_object_wf t" for num
  by unfold_locales
    (auto simp: caps_audio_object_fields_def caps_audio_object_default_def caps_audio_object_wf_def
      json_rt num_okD list_all_iff intro!: caps_audio_object.equality)

record stream_caps =
  sc_caps_video :: "caps_video_object list"
  sc_caps_audio :: "caps_audio_object list"

definition stream_caps_default :: "stream_caps" where
  "stream_caps_default = \<lparr>sc_caps_video = [],
     sc_caps_audio = []\<rparr>"

definition stream_caps_fields :: "json_num \<Rightarrow> 'a stream_caps_scheme field list" where
  "stream_caps_fields num =
     [val_field (enc_list (struct_to_json (caps_video_object_fields num))) (dec_list (dec_struct (caps_video_object_fields num) caps_video_object_default)) ''caps_video'' sc_caps_video sc_caps_video_update,
      val_field (enc_list (struct_to_json (caps_audio_object_fields num))) (dec_list (dec_struct (caps_audio_object_fields num) caps_audio_object_default)) ''caps_audio'' sc_caps_audio sc_caps_audio_update]"

definition stream_caps_wf :: "'a stream_caps_scheme \<Rightarrow> bool" where
  "stream_caps_wf t \<longleftrightarrow> list_all (\<lambda>y. caps_video_object_wf y) ((sc_caps_video t)) \<and>
     list_all (\<lambda>y. caps_audio_object_wf y) ((sc_caps_audio t))"

interpretation stream_caps: struct_codec "stream_caps_fields num" stream_caps_default "\<lambda>t. num_ok num \<and> stream_caps_wf t" for num
  by unfold_locales
    (auto simp: stream_caps_fields_def stream_caps_default_def stream_caps_wf_def
      caps_video_object.roundtrip_list caps_audio_object.roundtrip_list json_rt num_okD list_all_iff
      intro!: stream_caps.equality)

datatype motion_sensitivity =
    MS_REGION
  | MS_FRAME
  | MS_INVALID

definition motion_sensitivity_table :: "(motion_sensitivity \<times> json) list" where
  "motion_sensitivity_table =
     [(MS_INVALID, JNull),
      (MS_FRAME, JStr ''frame''),
      (MS_REGION, JStr ''region'')]"

lemma motion_sensitivity_enum [json_rt, simp]:
  "enum_ok motion_sensitivity_table e" "enum_to motion_sensitivity_table e = JNull \<longleftrightarrow> e = MS_INVALID"
  "enum_from motion_sensitivity_table (enum_to motion_sensitivity_table e) = e"
  by (cases e; simp add: enum_ok_def enum_to_def enum_from_def motion_sensitivity_table_def)+

datatype motion_region_shape =
    MR_RECTANGLE
  | MR_ANY
  | MR_INVALID

definition motion_region_shape_table :: "(motion_region_shape \<times> json) list" where
  "motion_region_shape_table =
     [(MR_INVALID, JNull),
      (MR_RECTANGLE, JStr ''rect''),
      (MR_ANY, JStr ''any'')]"

lemma motion_region_shape_enum [json_rt, simp]:
  "enum_ok motion_region_shape_table e" "enum_to motion_region_shape_table e = JNull \<longleftrightarrow> e = MR_INVALID"
  "enum_from motion_region_shape_table (enum_to motion_region_shape_table e) = e"
  by (cases e; simp add: enum_ok_def enum_to_def enum_from_def motion_region_shape_table_def)+

record motion_detection_caps =
  mdc_max_regions :: int
  mdc_sensitivity :: motion_sensitivity
  mdc_region_shape :: motion_region_shape

definition motion_detection_caps_default :: "motion_detection_caps" where
  "motion_detection_caps_default = \<lparr>mdc_max_regions = 0,
     mdc_sensitivity = MS_INVALID,
     mdc_region_shape = MR_INVALID\<rparr>"

definition motion_detection_caps_fields :: "json_num \<Rightarrow> 'a motion_detection_caps_scheme field list" where
  "motion_detection_caps_fields num =
     [uint64_field num ''max_regions'' mdc_max_regions mdc_max_regions_update,
      enum_field motion_sensitivity_table ''sensitivity'' mdc_sensitivity mdc_sensitivity_update,
      enum_field motion_region_shape_table ''region_shape'' mdc_region_shape mdc_region_shape_update]"

definition motion_detection_caps_wf :: "'a motion_detection_caps_scheme \<Rightarrow> bool" where
  "motion_detection_caps_wf t \<longleftrightarrow> uint64_ok (mdc_max_regions t)"

interpretation motion_detection_caps: struct_codec "motion_detection_caps_fields num" motion_detection_caps_default "\<lambda>t. num_ok num \<and> motion_detection_caps_wf t" for num
  by unfold_locales
    (auto simp: motion_detection_caps_fields_def motion_detection_caps_default_def
      motion_detection_caps_wf_def json_rt num_okD list_all_iff intro!:
      motion_detection_caps.equality)

record video_caps =
  vc_vert_flip :: "cam_mode list"
  vc_horz_flip :: "cam_mode list"
  vc_tdn :: "string list"
  vc_ir_light :: "cam_mode list"
  vc_brightness :: bool
  vc_contrast :: bool
  vc_saturation :: bool
  vc_sharpness :: bool
  vc_nr_type :: "string list"
  vc_nr_level :: bool
  vc_wb_type :: "string list"
  vc_pwr_frequency :: bool

definition video_caps_default :: "video_caps" where
  "video_caps_default = \<lparr>vc_vert_flip = [],
     vc_horz_flip = [],
     vc_tdn = [],
     vc_ir_light = [],
     vc_brightness = False,
     vc_contrast = False,
     vc_saturation = False,
     vc_sharpness = False,
     vc_nr_type = [],
     vc_nr_level = False,
     vc_wb_type = [],
     vc_pwr_frequency = False\<rparr>"

definition video_caps_fields :: "json_num \<Rightarrow> 'a video_caps_scheme field list" where
  "video_caps_fields num =
     [val_field (enc_list (enum_to cam_mode_table)) (dec_list (\<lambda>x. Some (enum_from cam_mode_table x))) ''vert_flip'' vc_vert_flip vc_vert_flip_update,
      val_field (enc_list (enum_to cam_mode_table)) (dec_list (\<lambda>x. Some (enum_from cam_mode_table x))) ''horz_flip'' vc_horz_flip vc_horz_flip_update,
      val_field (enc_list JStr) (dec_list dec_str) ''tdn'' vc_tdn vc_tdn_update,
      val_field (enc_list (enum_to cam_mode_table)) (dec_list (\<lambda>x. Some (enum_from cam_mode_table x))) ''ir_light'' vc_ir_light vc_ir_light_update,
      bool_field ''brightness'' vc_brightness vc_brightness_update,
      bool_field ''contrast'' vc_contrast vc_contrast_update,
      bool_field ''saturation'' vc_saturation vc_saturation_update,
      bool_field ''sharpness'' vc_sharpness vc_sharpness_update,
      val_field (enc_list JStr) (dec_list dec_str) ''nr_type'' vc_nr_type vc_nr_type_update,
      bool_field ''nr_level'' vc_nr_level vc_nr_level_update,
      val_field (enc_list JStr) (dec_list dec_str) ''wb_type'' vc_wb_type vc_wb_type_update,
      bool_field ''pwr_frequency'' vc_pwr_frequency vc_pwr_frequency_update]"

definition video_caps_wf :: "'a video_caps_scheme \<Rightarrow> bool" where
  "video_caps_wf t \<longleftrightarrow> True"

interpretation video_caps: struct_codec "video_caps_fields num" video_caps_default "\<lambda>t. num_ok num \<and> video_caps_wf t" for num
  by unfold_locales
    (auto simp: video_caps_fields_def video_caps_default_def video_caps_wf_def json_rt num_okD
      list_all_iff intro!: video_caps.equality)

record event_caps =
  ec_stream :: bool
  ec_snapshot :: bool
  ec_periodic :: bool
  ec_trigger :: bool
  ec_statefull :: bool
  ec_internal_hidden :: bool

definition event_caps_default :: "event_caps" where
  "event_caps_default = \<lparr>ec_stream = False,
     ec_snapshot = False,
     ec_periodic = False,
     ec_trigger = False,
     ec_statefull = False,
     ec_internal_hidden = False\<rparr>"

definition event_caps_fields :: "json_num \<Rightarrow> 'a event_caps_scheme field list" where
  "event_caps_fields num =
     [bool_field ''stream'' ec_stream ec_stream_update,
      bool_field ''snapshot'' ec_snapshot ec_snapshot_update,
      bool_field ''periodic'' ec_periodic ec_periodic_update,
      bool_field ''trigger'' ec_trigger ec_trigger_update]"

definition event_caps_wf :: "'a event_caps_scheme \<Rightarrow> bool" where
  "event_caps_wf t \<longleftrightarrow> ec_statefull t = False \<and>
     ec_internal_hidden t = False"

interpretation event_caps: struct_codec "event_caps_fields num" event_caps_default "\<lambda>t. num_ok num \<and> event_caps_wf t" for num
  by unfold_locales
    (auto simp: event_caps_fields_def event_caps_default_def event_caps_wf_def json_rt num_okD
      list_all_iff intro!: event_caps.equality)

record audio_caps =
  ac_mic :: alter_bool
  ac_spkr :: alter_bool
  ac_echo_cancel :: "cam_mode list"
  ac_backward :: alter_bool
  ac_backward_formats :: "audio_format list"
  ac_audio_file_formats :: "audio_file_format list"

definition audio_caps_default :: "audio_caps" where
  "audio_caps_default = \<lparr>ac_mic = B_INVALID,
     ac_spkr = B_INVALID,
     ac_echo_cancel = [],
     ac_backward = B_INVALID,
     ac_backward_formats = [],
     ac_audio_file_formats = []\<rparr>"

definition audio_caps_fields :: "json_num \<Rightarrow> 'a audio_caps_scheme field list" where
  "audio_caps_fields num =
     [alter_field ''mic'' ac_mic ac_mic_update,
      alter_field ''spkr'' ac_spkr ac_spkr_update,
      val_field (enc_list (enum_to cam_mode_table)) (dec_list (\<lambda>x. Some (enum_from cam_mode_table x))) ''echo_cancel'' ac_echo_cancel ac_echo_cancel_update,
      alter_field ''backward'' ac_backward ac_backward_update,
      val_field (enc_list (enum_to audio_format_table)) (dec_list (\<lambda>x. Some (enum_from audio_format_table x))) ''backward_formats'' ac_backward_formats ac_backward_formats_update,
      val_field (enc_list (enum_to audio_file_format_table)) (dec_list (\<lambda>x. Some (enum_from audio_file_format_table x))) ''audio_file_formats'' ac_audio_file_formats ac_audio_file_formats_update]"

definition audio_caps_wf :: "'a audio_caps_scheme \<Rightarrow> bool" where
  "audio_caps_wf t \<longleftrightarrow> True"

interpretation audio_caps: struct_codec "audio_caps_fields num" audio_caps_default "\<lambda>t. num_ok num \<and> audio_caps_wf t" for num
  by unfold_locales
    (auto simp: audio_caps_fields_def audio_caps_default_def audio_caps_wf_def json_rt num_okD
      list_all_iff intro!: audio_caps.equality)

datatype ptz_action =
    A_LEFT
  | A_RIGHT
  | A_TOP
  | A_BOTTOM
  | A_ZOOM_IN
  | A_ZOOM_OUT
  | A_STOP
  | A_INVALID

definition ptz_action_table :: "(ptz_action \<times> json) list" where
  "ptz_action_table =
     [(A_INVALID, JNull),
      (A_LEFT, JStr ''left''),
      (A_RIGHT, JStr ''right''),
      (A_TOP, JStr ''top''),
      (A_BOTTOM, JStr ''bottom''),
      (A_ZOOM_IN, JStr ''zoom_in''),
      (A_ZOOM_OUT, JStr ''zoom_out''),
      (A_STOP, JStr ''stop'')]"

lemma ptz_action_enum [json_rt, simp]:
  "enum_ok ptz_action_table e" "enum_to ptz_action_table e = JNull \<longleftrightarrow> e = A_INVALID"
  "enum_from ptz_action_table (enum_to ptz_action_table e) = e"
  by (cases e; simp add: enum_ok_def enum_to_def enum_from_def ptz_action_table_def)+

datatype ptz_preset_action =
    PA_CREATE
  | PA_DELETE
  | PA_GOTO
  | PA_UPDATE
  | PA_INVALID

definition ptz_preset_action_table :: "(ptz_preset_action \<times> json) list" where
  "ptz_preset_action_table =
     [(PA_INVALID, JNull),
      (PA_CREATE, JStr ''create''),
      (PA_DELETE, JStr ''delete''),
      (PA_GOTO, JStr ''goto''),
      (PA_UPDATE, JStr ''update'')]"

lemma ptz_preset_action_enum [json_rt, simp]:
  "enum_ok ptz_preset_action_table e" "enum_to ptz_preset_action_table e = JNull \<longleftrightarrow> e = PA_INVALID"
  "enum_from ptz_preset_action_table (enum_to ptz_preset_action_table e) = e"
  by (cases e; simp add: enum_ok_def enum_to_def enum_from_def ptz_preset_action_table_def)+

datatype time_format_n =
    TF_12H
  | TF_24H
  | TF_INVALID

definition time_format_n_table :: "(time_format_n \<times> json) list" where
  "time_format_n_table =
     [(TF_INVALID, JNull),
      (TF_12H, JStr ''12h''),
      (TF_24H, JStr ''24h'')]"

lemma time_format_n_enum [json_rt, simp]:
  "enum_ok time_format_n_table e" "enum_to time_format_n_table e = JNull \<longleftrightarrow> e = TF_INVALID"
  "enum_from time_format_n_table (enum_to time_format_n_table e) = e"
  by (cases e; simp add: enum_ok_def enum_to_def enum_from_def time_format_n_table_def)+

record osd_caps =
  oc_system_id :: bool
  oc_system_id_text :: bool
  oc_time :: bool
  oc_time_format :: "time_format_n list"
  oc_date :: bool
  oc_date_format :: "string list"
  oc_font_size :: "string list"
  oc_font_color :: "(string \<times> string) list"
  oc_bkg_color :: "(string \<times> string) list"
  oc_bkg_transp :: bool
  oc_alignment :: "string list"

definition osd_caps_default :: "osd_caps" where
  "osd_caps_default = \<lparr>oc_system_id = False,
     oc_system_id_text = False,
     oc_time = False,
     oc_time_format = [],
     oc_date = False,
     oc_date_format = [],
     oc_font_size = [],
     oc_font_color = [],
     oc_bkg_color = [],
     oc_bkg_transp = False,
     oc_alignment = []\<rparr>"

definition osd_caps_fields :: "json_num \<Rightarrow> 'a osd_caps_scheme field list" where
  "osd_caps_fields num =
     [bool_field ''system_id'' oc_system_id oc_system_id_update,
      bool_field ''system_id_text'' oc_system_id_text oc_system_id_text_update,
      bool_field ''time'' oc_time oc_time_update,
      val_field (enc_list (enum_to time_format_n_table)) (dec_list (\<lambda>x. Some (enum_from time_format_n_table x))) ''time_format'' oc_time_format oc_time_format_update,
      bool_field ''date'' oc_date oc_date_update,
      val_field (enc_list JStr) (dec_list dec_str) ''date_format'' oc_date_format oc_date_format_update,
      val_field (enc_list JStr) (dec_list dec_str) ''font_size'' oc_font_size oc_font_size_update,
      val_field (enc_list (enc_pair JStr JStr)) (dec_list (dec_pair dec_str dec_str)) ''font_color'' oc_font_color oc_font_color_update,
      val_field (enc_list (enc_pair JStr JStr)) (dec_list (dec_pair dec_str dec_str)) ''bkg_color'' oc_bkg_color oc_bkg_color_update,
      bool_field ''bkg_transp'' oc_bkg_transp oc_bkg_transp_update,
      val_field (enc_list JStr) (dec_list dec_str) ''alignment'' oc_alignment oc_alignment_update]"

definition osd_caps_wf :: "'a osd_caps_scheme \<Rightarrow> bool" where
  "osd_caps_wf t \<longleftrightarrow> True"

interpretation osd_caps: struct_codec "osd_caps_fields num" osd_caps_default "\<lambda>t. num_ok num \<and> osd_caps_wf t" for num
  by unfold_locales
    (auto simp: osd_caps_fields_def osd_caps_default_def osd_caps_wf_def json_rt num_okD
      list_all_iff intro!: osd_caps.equality)

end
