(* ===== verification/Proto_Config.thy ===== *)
theory Proto_Config
  imports Proto_Caps
begin

text \<open>
  The configuration objects of \<^verbatim>\<open>src/src/agent-proto/objects/config.h\<close> that are reflected by macro,
  in the same form as the capabilities.
\<close>

record video_stream_config =
  vsc_stream :: string
  vsc_format :: video_format
  vsc_profile :: string
  vsc_horz :: int
  vsc_vert :: int
  vsc_fps :: double
  vsc_vbr :: bool
  vsc_gop :: int
  vsc_brt :: int
  vsc_vbr_brt :: int
  vsc_quality :: int
  vsc_smoothing :: int

definition video_stream_config_default :: "video_stream_config" where
  "video_stream_config_default = \<lparr>vsc_stream = unset_string,
     vsc_format = VF_INVALID,
     vsc_profile = unset_string,
     vsc_horz = UnsetInt,
     vsc_vert = UnsetInt,
     vsc_fps = UnsetDouble,
     vsc_vbr = False,
     vsc_gop = UnsetInt,
     vsc_brt = UnsetInt,
     vsc_vbr_brt = UnsetInt,
     vsc_quality = UnsetInt,
     vsc_smoothing = UnsetInt\<rparr>"

definition video_stream_config_fields :: "json_num \<Rightarrow> 'a video_stream_config_scheme field list" where
  "video_stream_config_fields num =
     [str_field ''stream'' vsc_stream vsc_stream_update,
      enum_field video_format_table ''format'' vsc_format vsc_format_update,
      str_field ''profile'' vsc_profile vsc_profile_update,
      int_field num ''horz'' vsc_horz vsc_horz_update,
      int_field num ''vert'' vsc_vert vsc_vert_update,
      double_field num ''fps'' vsc_fps vsc_fps_update,
      bool_field ''vbr'' vsc_vbr vsc_vbr_update,
      int_field num ''quality'' vsc_quality vsc_quality_update,
      int_field num ''gop'' vsc_gop vsc_gop_update,
      int_field num ''brt'' vsc_brt vsc_brt_update,
      int_field num ''vbr_brt'' vsc_vbr_brt vsc_vbr_brt_update,
      int_field num ''smoothing'' vsc_smoothing vsc_smoothing_update]"

definition video_stream_config_wf :: "'a video_stream_config_scheme \<Rightarrow> bool" where
  "video_stream_config_wf t \<longleftrightarrow> int_ok (vsc_horz t) \<and>
     int_ok (vsc_vert t) \<and>
     int_ok (vsc_gop t) \<and>
     int_ok (vsc_brt t) \<and>
     int_ok (vsc_vbr_brt t) \<and>
     int_ok (vsc_quality t) \<and>
     int_ok (vsc_smoothing t)"

interpretation video_stream_config: struct_codec "video_stream_config_fields num" video_stream_config_default "\<lambda>t. num_ok num \<and> video_stream_config_wf t" for num
  by unfold_locales
    (auto simp: video_stream_config_fields_def video_stream_config_default_def
      video_stream_config_wf_def json_rt num_okD list_all_iff intro!: video_stream_config.equality)

record audio_stream_config =
  asc_stream :: string
  asc_format :: audio_format
  asc_brt :: int
  asc_srt :: double

definition audio_stream_config_default :: "audio_stream_config" where
  "audio_stream_config_default = \<lparr>asc_stream = unset_string,
     asc_format = AF_INVALID,
     asc_brt = UnsetInt,
     asc_srt = UnsetDouble\<rparr>"

definition audio_stream_config_fields :: "json_num \<Rightarrow> 'a audio_stream_config_scheme field list" where
  "audio_stream_config_fields num =
     [str_field ''stream'' asc_stream asc_stream_update,
      enum_field audio_format_table ''format'' asc_format asc_format_update,
      int_field num ''brt'' asc_brt asc_brt_update,
      double_field num ''srt'' asc_srt asc_srt_update]"

definition audio_stream_config_wf :: "'a audio_stream_config_scheme \<Rightarrow> bool" where
  "audio_stream_config_wf t \<longleftrightarrow> int_ok (asc_brt t)"

interpretation audio_stream_config: struct_codec "audio_stream_config_fields num" audio_stream_config_default "\<lambda>t. num_ok num \<and> audio_stream_config_wf t" for num
  by unfold_locales
    (auto simp: audio_stream_config_fields_def audio_stream_config_default_def
      audio_stream_config_wf_def json_rt num_okD list_all_iff intro!: audio_stream_config.equality)

record stream_config =
  sc2_video :: "video_stream_config list"
  sc2_audio :: "audio_stream_config list"

definition stream_config_default :: "stream_config" where
  "stream_config_default = \<lparr>sc2_video = [],
     sc2_audio = []\<rparr>"

definition stream_config_fields :: "json_num \<Rightarrow> 'a stream_config_scheme field list" where
  "stream_config_fields num =
     [val_field (enc_list (struct_to_json (video_stream_config_fields num))) (dec_list (dec_struct (video_stream_config_fields num) video_stream_config_default)) ''video'' sc2_video sc2_video_update,
      val_field (enc_list (struct_to_json (audio_stream_config_fields num))) (dec_list (dec_struct (audio_stream_config_fields num) audio_stream_config_default)) ''audio'' sc2_audio sc2_audio_update]"

definition stream_config_wf :: "'a stream_config_scheme \<Rightarrow> bool" where
  "stream_config_wf t \<longleftrightarrow> list_all (\<lambda>y. video_stream_config_wf y) ((sc2_video t)) \<and>
     list_all (\<lambda>y. audio_stream_config_wf y) ((sc2_audio t))"

interpretation stream_config: struct_codec "stream_config_fields num" stream_config_default "\<lambda>t. num_ok num \<and> stream_config_wf t" for num
  by unfold_locales
    (auto simp: stream_config_fields_def stream_config_default_def stream_config_wf_def
      video_stream_config.roundtrip_list audio_stream_config.roundtrip_list json_rt num_okD
      list_all_iff intro!: stream_config.equality)

record motion_region =
  mr_region :: string
  mr_map :: string
  mr_sensitivity :: int
  mr_enabled :: bool

definition motion_region_default :: "motion_region" where
  "motion_region_default = \<lparr>mr_region = unset_string,
     mr_map = unset_string,
     mr_sensitivity = 0,
     mr_enabled = False\<rparr>"

definition motion_region_fields :: "json_num \<Rightarrow> 'a motion_region_scheme field list" where
  "motion_region_fields num =
     [str_field ''region'' mr_region mr_region_update,
      str_field ''map'' mr_map mr_map_update,
      uint64_field num ''sensitivity'' mr_sensitivity mr_sensitivity_update,
      bool_field ''enabled'' mr_enabled mr_enabled_update]"

definition motion_region_wf :: "'a motion_region_scheme \<Rightarrow> bool" where
  "motion_region_wf t \<longleftrightarrow> uint64_ok (mr_sensitivity t)"

interpretation motion_region: struct_codec "motion_region_fields num" motion_region_default "\<lambda>t. num_ok num \<and> motion_region_wf t" for num
  by unfold_locales
    (auto simp: motion_region_fields_def motion_region_default_def motion_region_wf_def json_rt
      num_okD list_all_iff intro!: motion_region.equality)

record motion_detection_config =
  mdc2_columns :: int
  mdc2_rows :: int
  mdc2_caps :: motion_detection_caps
  mdc2_regions :: "motion_region list"

definition motion_detection_config_default :: "motion_detection_config" where
  "motion_detection_config_default = \<lparr>mdc2_columns = UnsetInt,
     mdc2_rows = UnsetInt,
     mdc2_caps = motion_detection_caps_default,
     mdc2_regions = []\<rparr>"

definition motion_detection_config_fields :: "json_num \<Rightarrow> 'a motion_detection_config_scheme field list" where
  "motion_detection_config_fields num =
     [int_field num ''columns'' mdc2_columns mdc2_columns_update,
      int_field num ''rows'' mdc2_rows mdc2_rows_update,
      struct_field (motion_detection_caps_fields num) ''caps'' mdc2_caps mdc2_caps_update,
      val_field (enc_list (struct_to_json (motion_region_fields num))) (dec_list (dec_struct (motion_region_fields num) motion_region_default)) ''regions'' mdc2_regions mdc2_regions_update]"

definition motion_detection_config_wf :: "'a motion_detection_config_scheme \<Rightarrow> bool" where
  "motion_detection_config_wf t \<longleftrightarrow> int_ok (mdc2_columns t) \<and>
     int_ok (mdc2_rows t) \<and>
     motion_detection_caps_wf ((mdc2_caps t)) \<and>
     list_all (\<lambda>y. motion_region_wf y) ((mdc2_regions t))"

interpretation motion_detection_config: struct_codec "motion_detection_config_fields num" motion_detection_config_default "\<lambda>t. num_ok num \<and> motion_detection_config_wf t" for num
  by unfold_locales
    (auto simp: motion_detection_config_fields_def motion_detection_config_default_def
      motion_detection_config_wf_def motion_detection_caps.own_take_struct
      motion_region.roundtrip_list json_rt num_okD list_all_iff intro!:
      motion_detection_config.equality)

record video_config =
  vc2_vert_flip :: string
  vc2_horz_flip :: string
  vc2_tdn :: string
  vc2_ir_light :: string
  vc2_brightness :: int
  vc2_contrast :: int
  vc2_saturation :: int
  vc2_sharpness :: int
  vc2_nr_type :: string
  vc2_nr_level :: int
  vc2_wb_type :: string
  vc2_pwr_frequency :: int
  vc2_caps :: video_caps

definition video_config_default :: "video_config" where
  "video_config_default = \<lparr>vc2_vert_flip = unset_string,
     vc2_horz_flip = unset_string,
     vc2_tdn = unset_string,
     vc2_ir_light = unset_string,
     vc2_brightness = UnsetInt,
     vc2_contrast = UnsetInt,
     vc2_saturation = UnsetInt,
     vc2_sharpness = UnsetInt,
     vc2_nr_type = unset_string,
     vc2_nr_level = UnsetInt,
     vc2_wb_type = unset_string,
     vc2_pwr_frequency = UnsetInt,
     vc2_caps = video_caps_default\<rparr>"

definition video_config_fields :: "json_num \<Rightarrow> 'a video_config_scheme field list" where
  "video_config_fields num =
     [str_field ''vert_flip'' vc2_vert_flip vc2_vert_flip_update,
      str_field ''horz_flip'' vc2_horz_flip vc2_horz_flip_update,
      str_field ''tdn'' vc2_tdn vc2_tdn_update,
      str_field ''ir_light'' vc2_ir_light vc2_ir_light_update,
      int_field num ''brightness'' vc2_brightness vc2_brightness_update,
      int_field num ''contrast'' vc2_contrast vc2_contrast_update,
      int_field num ''saturation'' vc2_saturation vc2_saturation_update,
      int_field num ''sharpness'' vc2_sharpness vc2_sharpness_update,
      str_field ''nr_type'' vc2_nr_type vc2_nr_type_update,
      int_field num ''nr_level'' vc2_nr_level vc2_nr_level_update,
      str_field ''wb_type'' vc2_wb_type vc2_wb_type_update,
      int_field num ''pwr_frequency'' vc2_pwr_frequency vc2_pwr_frequency_update,
      struct_field (video_caps_fields num) ''caps'' vc2_caps vc2_caps_update]"

definition video_config_wf :: "'a video_config_scheme \<Rightarrow> bool" where
  "video_config_wf t \<longleftrightarrow> int_ok (vc2_brightness t) \<and>
     int_ok (vc2_contrast t) \<and>
     int_ok (vc2_saturation t) \<and>
     int_ok (vc2_sharpness t) \<and>
     int_ok (vc2_nr_level t) \<and>
     int_ok (vc2_pwr_frequency t) \<and>
     video_caps_wf ((vc2_caps t))"

interpretation video_config: struct_codec "video_config_fields num" video_config_default "\<lambda>t. num_ok num \<and> video_config_wf t" for num
  by unfold_locales
    (auto simp: video_config_fields_def video_config_default_def video_config_wf_def
      video_caps.own_take_struct json_rt num_okD list_all_iff intro!: video_config.equality)

datatype event_status =
    ES_OK
  | ES_ERROR
  | ES_INVALID

definition event_status_table :: "(event_status \<times> json) list" where
  "event_status_table =
     [(ES_INVALID, JNull),
      (ES_OK, JStr ''OK''),
      (ES_ERROR, JStr ''ERROR'')]"

lemma event_status_enum [json_rt, simp]:
  "enum_ok event_status_table e" "enum_to event_status_table e = JNull \<longleftrightarrow> e = ES_INVALID"
  "enum_from event_status_table (enum_to event_status_table e) = e"
  by (cases e; simp add: enum_ok_def enum_to_def enum_from_def event_status_table_def)+

datatype event_type =
    ET_MOTION
  | ET_SOUND
  | ET_NET
  | ET_RECORD
  | ET_MEMORYCARD
  | ET_WIFI
  | ET_CUSTOM
  | ET_INVALID

definition event_type_table :: "(event_type \<times> json) list" where
  "event_type_table =
     [(ET_INVALID, JNull),
      (ET_MOTION, JStr ''motion''),
      (ET_SOUND, JStr ''sound''),
      (ET_NET, JStr ''net''),
      (ET_RECORD, JStr ''record''),
      (ET_MEMORYCARD, JStr ''memorycard''),
      (ET_WIFI, JStr ''wifi''),
      (ET_CUSTOM, JStr ''custom'')]"

lemma event_type_enum [json_rt, simp]:
  "enum_ok event_type_table e" "enum_to event_type_table e = JNull \<longleftrightarrow> e = ET_INVALID"
  "enum_from event_type_table (enum_to event_type_table e) = e"
  by (cases e; simp add: enum_ok_def enum_to_def enum_from_def event_type_table_def)+

datatype memorycard_status =
    MCS_NONE
  | MCS_NORMAL
  | MCS_NEED_FORMAT
  | MCS_FORMATTING
  | MCS_INITIALIZATION
  | MCS_INVALID

definition memorycard_status_table :: "(memorycard_status \<times> json) list" where
  "memorycard_status_table =
     [(MCS_INVALID, JNull),
      (MCS_NONE, JStr ''none''),
      (MCS_NORMAL, JStr ''normal''),
      (MCS_NEED_FORMAT, JStr ''need-format''),
      (MCS_FORMATTING, JStr ''formatting''),
      (MCS_INITIALIZATION, JStr ''initialization'')]"

lemma memorycard_status_enum [json_rt, simp]:
  "enum_ok memorycard_status_table e" "enum_to memorycard_status_table e = JNull \<longleftrightarrow> e = MCS_INVALID"
  "enum_from memorycard_status_table (enum_to memorycard_status_table e) = e"
  by (cases e; simp add: enum_ok_def enum_to_def enum_from_def memorycard_status_table_def)+

datatype wifi_encryption =
    WFE_OPEN
  | WFE_WEP
  | WFE_WPA
  | WFE_WPA2
  | WFE_WPA_ENTERPRISE
  | WFE_WPA2_ENTERPRISE
  | WFE_INVALID

definition wifi_encryption_table :: "(wifi_encryption \<times> json) list" where
  "wifi_encryption_table =
     [(WFE_INVALID, JNull),
      (WFE_OPEN, JStr ''open''),
      (WFE_WEP, JStr ''WEP''),
      (WFE_WPA, JStr ''WPA''),
      (WFE_WPA2, JStr ''WPA2''),
      (WFE_WPA_ENTERPRISE, JStr ''WPA_enterprise''),
      (WFE_WPA2_ENTERPRISE, JStr ''WPA2_enterprise'')]"

lemma wifi_encryption_enum [json_rt, simp]:
  "enum_ok wifi_encryption_table e" "enum_to wifi_encryption_table e = JNull \<longleftrightarrow> e = WFE_INVALID"
  "enum_from wifi_encryption_table (enum_to wifi_encryption_table e) = e"
  by (cases e; simp add: enum_ok_def enum_to_def enum_from_def wifi_encryption_table_def)+

record wifi_network =
  wn_ssid :: string
  wn_signal :: int
  wn_mac :: string
  wn_encryption_caps :: "wifi_encryption list"
  wn_encryption :: wifi_encryption
  wn_password :: string

definition wifi_network_default :: "wifi_network" where
  "wifi_network_default = \<lparr>wn_ssid = unset_string,
     wn_signal = UnsetInt,
     wn_mac = unset_string,
     wn_encryption_caps = [],
     wn_encryption = WFE_INVALID,
     wn_password = unset_string\<rparr>"

definition wifi_network_fields :: "json_num \<Rightarrow> 'a wifi_network_scheme field list" where
  "wifi_network_fields num =
     [str_field ''ssid'' wn_ssid wn_ssid_update,
      int_field num ''signal'' wn_signal wn_signal_update,
      str_field ''mac'' wn_mac wn_mac_update,
      val_field (enc_list (enum_to wifi_encryption_table)) (dec_list (\<lambda>x. Some (enum_from wifi_encryption_table x))) ''encryption_caps'' wn_encryption_caps wn_encryption_caps_update,
      enum_field wifi_encryption_table ''encryption'' wn_encryption wn_encryption_update,
      str_field ''password'' wn_password wn_password_update]"

definition wifi_network_wf :: "'a wifi_network_scheme \<Rightarrow> bool" where
  "wifi_network_wf t \<longleftrightarrow> int_ok (wn_signal t)"

interpretation wifi_network: struct_codec "wifi_network_fields num" wifi_network_default "\<lambda>t. num_ok num \<and> wifi_network_wf t" for num
  by unfold_locales
    (auto simp: wifi_network_fields_def wifi_network_default_def wifi_network_wf_def json_rt num_okD
      list_all_iff intro!: wifi_network.equality)

record wifi_config =
  wc_networks :: "wifi_network list"

definition wifi_config_default :: "wifi_config" where
  "wifi_config_default = \<lparr>wc_networks = []\<rparr>"

definition wifi_config_fields :: "json_num \<Rightarrow> 'a wifi_config_scheme field list" where
  "wifi_config_fields num =
     [val_field (enc_list (struct_to_json (wifi_network_fields num))) (dec_list (dec_struct (wifi_network_fields num) wifi_network_default)) ''networks'' wc_networks wc_networks_update]"

definition wifi_config_wf :: "'a wifi_config_scheme \<Rightarrow> bool" where
  "wifi_config_wf t \<longleftrightarrow> list_all (\<lambda>y. wifi_network_wf y) ((wc_networks t))"

interpretation wifi_config: struct_codec "wifi_config_fields num" wifi_config_default "\<lambda>t. num_ok num \<and> wifi_config_wf t" for num
  by unfold_locales
    (auto simp: wifi_config_fields_def wifi_config_default_def wifi_config_wf_def
      wifi_network.roundtrip_list json_rt num_okD list_all_iff intro!: wifi_config.equality)

datatype wifi_network_state =
    WNS_UNKNOWN
  | WNS_INITIALIZE_0
  | WNS_INITIALIZE_1
  | WNS_TRY_CONNECT
  | WNS_RECEIVING_IP
  | WNS_CONNECTED
  | WNS_INVALID

definition wifi_network_state_table :: "(wifi_network_state \<times> json) list" where
  "wifi_network_state_table =
     [(WNS_UNKNOWN, JStr ''unknown''),
      (WNS_INITIALIZE_0, JStr ''initialize_0''),
      (WNS_INITIALIZE_1, JStr ''initialize_1''),
      (WNS_TRY_CONNECT, JStr ''try_connect''),
      (WNS_RECEIVING_IP, JStr ''receiving_ip''),
      (WNS_CONNECTED, JStr ''connected''),
      (WNS_INVALID, JNull)]"

lemma wifi_network_state_enum [json_rt, simp]:
  "enum_ok wifi_network_state_table e" "enum_to wifi_network_state_table e = JNull \<longleftrightarrow> e = WNS_INVALID"
  "enum_from wifi_network_state_table (enum_to wifi_network_state_table e) = e"
  by (cases e; simp add: enum_ok_def enum_to_def enum_from_def wifi_network_state_table_def)+

record snapshot_info_object =
  sio_image_time :: string
  sio_width :: int
  sio_height :: int
  sio_size :: int
  sio_image_data :: "byte list"

definition snapshot_info_object_default :: "snapshot_info_object" where
  "snapshot_info_object_default = \<lparr>sio_image_time = unset_string,
     sio_width = UnsetInt,
     sio_height = UnsetInt,
     sio_size = UnsetInt,
     sio_image_data = []\<rparr>"

definition snapshot_info_object_fields :: "json_num \<Rightarrow> 'a snapshot_info_object_scheme field list" where
  "snapshot_info_object_fields num =
     [str_field ''image_time'' sio_image_time sio_image_time_update,
      int_field num ''width'' sio_width sio_width_update,
      int_field num ''height'' sio_height sio_height_update,
      int_field num ''size'' sio_size sio_size_update]"

definition snapshot_info_object_wf :: "'a snapshot_info_object_scheme \<Rightarrow> bool" where
  "snapshot_info_object_wf t \<longleftrightarrow> int_ok (sio_width t) \<and>
     int_ok (sio_height t) \<and>
     int_ok (sio_size t) \<and>
     sio_image_data t = []"

interpretation snapshot_info_object: struct_codec "snapshot_info_object_fields num" snapshot_info_object_default "\<lambda>t. num_ok num \<and> snapshot_info_object_wf t" for num
  by unfold_locales
    (auto simp: snapshot_info_object_fields_def snapshot_info_object_default_def
      snapshot_info_object_wf_def json_rt num_okD list_all_iff intro!: snapshot_info_object.equality)

record motion_info_object =
  mio_map :: string
  mio_regions :: "string list"

definition motion_info_object_default :: "motion_info_object" where
  "motion_info_object_default = \<lparr>mio_map = unset_string,
     mio_regions = []\<rparr>"

definition motion_info_object_fields :: "json_num \<Rightarrow> 'a motion_info_object_scheme field list" where
  "motion_info_object_fields num =
     [str_field ''map'' mio_map mio_map_update,
      val_field (enc_list JStr) (dec_list dec_str) ''regions'' mio_regions mio_regions_update]"

definition motion_info_object_wf :: "'a motion_info_object_scheme \<Rightarrow> bool" where
  "motion_info_object_wf t \<longleftrightarrow> True"

interpretation motion_info_object: struct_codec "motion_info_object_fields num" motion_info_object_default "\<lambda>t. num_ok num \<and> motion_info_object_wf t" for num
  by unfold_locales
    (auto simp: motion_info_object_fields_def motion_info_object_default_def
      motion_info_object_wf_def json_rt num_okD list_all_iff intro!: motion_info_object.equality)

record record_info_object =
  rio_on :: alter_bool
  rio_stream_id :: string

definition record_info_object_default :: "record_info_object" where
  "record_info_object_default = \<lparr>rio_on = B_INVALID,
     rio_stream_id = []\<rparr>"

definition record_info_object_fields :: "json_num \<Rightarrow> 'a record_info_object_scheme field list" where
  "record_info_object_fields num =
     [alter_field ''on'' rio_on rio_on_update,
      str_field ''stream_id'' rio_stream_id rio_stream_id_update]"

definition record_info_object_wf :: "'a record_info_object_scheme \<Rightarrow> bool" where
  "record_info_object_wf t \<longleftrightarrow> (rio_stream_id t) \<noteq> unset_string"

interpretation record_info_object: struct_codec "record_info_object_fields num" record_info_object_default "\<lambda>t. num_ok num \<and> record_info_object_wf t" for num
  by unfold_locales
    (auto simp: record_info_object_fields_def record_info_object_default_def
      record_info_object_wf_def json_rt num_okD list_all_iff intro!: record_info_object.equality)

record memorycard_info_object =
  mio2_status :: memorycard_status
  mio2_size :: int
  mio2_free :: int
  mio2_max_sync_duration :: int
  mio2_recording_status :: alter_bool

definition memorycard_info_object_default :: "memorycard_info_object" where
  "memorycard_info_object_default = \<lparr>mio2_status = MCS_INVALID,
     mio2_size = UnsetUInt64,
     mio2_free = UnsetUInt64,
     mio2_max_sync_duration = UnsetInt,
     mio2_recording_status = B_INVALID\<rparr>"

definition memorycard_info_object_fields :: "json_num \<Rightarrow> 'a memorycard_info_object_scheme field list" where
  "memorycard_info_object_fields num =
     [enum_field memorycard_status_table ''status'' mio2_status mio2_status_update,
      uint64_field num ''size'' mio2_size mio2_size_update,
      uint64_field num ''free'' mio2_free mio2_free_update,
      int_field num ''max_sync_duration'' mio2_max_sync_duration mio2_max_sync_duration_update,
      alter_field ''recording_status'' mio2_recording_status mio2_recording_status_update]"

definition memorycard_info_object_wf :: "'a memorycard_info_object_scheme \<Rightarrow> bool" where
  "memorycard_info_object_wf t \<longleftrightarrow> uint64_ok (mio2_size t) \<and>
     uint64_ok (mio2_free t) \<and>
     int_ok (mio2_max_sync_duration t)"

interpretation memorycard_info_object: struct_codec "memorycard_info_object_fields num" memorycard_info_object_default "\<lambda>t. num_ok num \<and> memorycard_info_object_wf t" for num
  by unfold_locales
    (auto simp: memorycard_info_object_fields_def memorycard_info_object_default_def
      memorycard_info_object_wf_def json_rt num_okD list_all_iff intro!:
      memorycard_info_object.equality)

record file_meta_info_object =
  fmio_size :: int
  fmio_data :: string

definition file_meta_info_object_default :: "file_meta_info_object" where
  "file_meta_info_object_default = \<lparr>fmio_size = UnsetInt,
     fmio_data = []\<rparr>"

definition file_meta_info_object_fields :: "json_num \<Rightarrow> 'a file_meta_info_object_scheme field list" where
  "file_meta_info_object_fields num =
     [int_field num ''size'' fmio_size fmio_size_update]"

definition file_meta_info_object_wf :: "'a file_meta_info_object_scheme \<Rightarrow> bool" where
  "file_meta_info_object_wf t \<longleftrightarrow> int_ok (fmio_size t) \<and>
     fmio_data t = []"

interpretation file_meta_info_object: struct_codec "file_meta_info_object_fields num" file_meta_info_object_default "\<lambda>t. num_ok num \<and> file_meta_info_object_wf t" for num
  by unfold_locales
    (auto simp: file_meta_info_object_fields_def file_meta_info_object_default_def
      file_meta_info_object_wf_def json_rt num_okD list_all_iff intro!:
      file_meta_info_object.equality)

record wifi_info_object = wifi_network +
  wio_state :: wifi_network_state

definition wifi_info_object_default :: "wifi_info_object" where
  "wifi_info_object_default = wifi_network.extend (wifi_network_default)
     \<lparr>wio_state = WNS_INVALID\<rparr>"

definition wifi_info_object_fields :: "json_num \<Rightarrow> 'a wifi_info_object_scheme field list" where
  "wifi_info_object_fields num =
     wifi_network_fields num @
     [enum_field wifi_network_state_table ''state'' wio_state wio_state_update]"

definition wifi_info_object_wf :: "'a wifi_info_object_scheme \<Rightarrow> bool" where
  "wifi_info_object_wf t \<longleftrightarrow> wifi_network_wf t"

interpretation wifi_info_object: struct_codec "wifi_info_object_fields num" wifi_info_object_default "\<lambda>t. num_ok num \<and> wifi_info_object_wf t" for num
  by unfold_locales
    (auto simp: wifi_info_object_fields_def wifi_network_fields_def wifi_info_object_default_def
      wifi_network_default_def wifi_info_object_wf_def wifi_network_wf_def wifi_network.defs json_rt
      num_okD list_all_iff intro!: wifi_info_object.equality)

record audio_config =
  ac2_mic_gain :: int
  ac2_mic_mute :: alter_bool
  ac2_spkr_vol :: int
  ac2_spkr_mute :: alter_bool
  ac2_echo_cancel :: cam_mode
  ac2_caps :: audio_caps

definition audio_config_default :: "audio_config" where
  "audio_config_default = \<lparr>ac2_mic_gain = UnsetInt,
     ac2_mic_mute = B_INVALID,
     ac2_spkr_vol = UnsetInt,
     ac2_spkr_mute = B_INVALID,
     ac2_echo_cancel = M_INVALID,
     ac2_caps = audio_caps_default\<rparr>"

definition audio_config_fields :: "json_num \<Rightarrow> 'a audio_config_scheme field list" where
  "audio_config_fields num =
     [int_field num ''mic_gain'' ac2_mic_gain ac2_mic_gain_update,
      alter_field ''mic_mute'' ac2_mic_mute ac2_mic_mute_update,
      int_field num ''spkr_vol'' ac2_spkr_vol ac2_spkr_vol_update,
      alter_field ''spkr_mute'' ac2_spkr_mute ac2_spkr_mute_update,
      enum_field cam_mode_table ''echo_cancel'' ac2_echo_cancel ac2_echo_cancel_update,
      struct_field (audio_caps_fields num) ''caps'' ac2_caps ac2_caps_update]"

definition audio_config_wf :: "'a audio_config_scheme \<Rightarrow> bool" where
  "audio_config_wf t \<longleftrightarrow> int_ok (ac2_mic_gain t) \<and>
     int_ok (ac2_spkr_vol t) \<and>
     audio_caps_wf ((ac2_caps t))"

interpretation audio_config: struct_codec "audio_config_fields num" audio_config_default "\<lambda>t. num_ok num \<and> audio_config_wf t" for num
  by unfold_locales
    (auto simp: audio_config_fields_def audio_config_default_def audio_config_wf_def
      audio_caps.own_take_struct json_rt num_okD list_all_iff intro!: audio_config.equality)

record ptz_preset =
  pp_token :: string
  pp_name :: string
  pp_action :: ptz_preset_action

definition ptz_preset_default :: "ptz_preset" where
  "ptz_preset_default = \<lparr>pp_token = unset_string,
     pp_name = unset_string,
     pp_action = PA_INVALID\<rparr>"

definition ptz_preset_fields :: "json_num \<Rightarrow> 'a ptz_preset_scheme field list" where
  "ptz_preset_fields num =
     [str_field ''token'' pp_token pp_token_update,
      str_field ''name'' pp_name pp_name_update,
      enum_field ptz_preset_action_table ''action'' pp_action pp_action_update]"

definition ptz_preset_wf :: "'a ptz_preset_scheme \<Rightarrow> bool" where
  "ptz_preset_wf t \<longleftrightarrow> True"

interpretation ptz_preset: struct_codec "ptz_preset_fields num" ptz_preset_default "\<lambda>t. num_ok num \<and> ptz_preset_wf t" for num
  by unfold_locales
    (auto simp: ptz_preset_fields_def ptz_preset_default_def ptz_preset_wf_def json_rt num_okD
      list_all_iff intro!: ptz_preset.equality)

record ptz_config =
  pc_actions :: "ptz_action list"
  pc_maximum_number_of_presets :: int
  pc_presets :: "ptz_preset list"

definition ptz_config_default :: "ptz_config" where
  "ptz_config_default = \<lparr>pc_actions = [],
     pc_maximum_number_of_presets = UnsetInt,
     pc_presets = []\<rparr>"

definition ptz_config_fields :: "json_num \<Rightarrow> 'a ptz_config_scheme field list" where
  "ptz_config_fields num =
     [val_field (enc_list (enum_to ptz_action_table)) (dec_list (\<lambda>x. Some (enum_from ptz_action_table x))) ''actions'' pc_actions pc_actions_update,
      int_field num ''maximum_number_of_presets'' pc_maximum_number_of_presets pc_maximum_number_of_presets_update,
      val_field (enc_list (struct_to_json (ptz_preset_fields num))) (dec_list (dec_struct (ptz_preset_fields num) ptz_preset_default)) ''presets'' pc_presets pc_presets_update]"

definition ptz_config_wf :: "'a ptz_config_scheme \<Rightarrow> bool" where
  "ptz_config_wf t \<longleftrightarrow> int_ok (pc_maximum_number_of_presets t) \<and>
     list_all (\<lambda>y. ptz_preset_wf y) ((pc_presets t))"

interpretation ptz_config: struct_codec "ptz_config_fields num" ptz_config_default "\<lambda>t. num_ok num \<and> ptz_config_wf t" for num
  by unfold_locales
    (auto simp: ptz_config_fields_def ptz_config_default_def ptz_config_wf_def
      ptz_preset.roundtrip_list json_rt num_okD list_all_iff intro!: ptz_config.equality)

record ptz_command =
  pc2_action :: ptz_action
  pc2_tm :: int

definition ptz_command_default :: "ptz_command" where
  "ptz_command_default = \<lparr>pc2_action = A_INVALID,
     pc2_tm = UnsetInt\<rparr>"

definition ptz_command_fields :: "json_num \<Rightarrow> 'a ptz_command_scheme field list" where
  "ptz_command_fields num =
     [enum_field ptz_action_table ''action'' pc2_action pc2_action_update,
      int_field num ''tm'' pc2_tm pc2_tm_update]"

definition ptz_command_wf :: "'a ptz_command_scheme \<Rightarrow> bool" where
  "ptz_command_wf t \<longleftrightarrow> int_ok (pc2_tm t)"

interpretation ptz_command: struct_codec "ptz_command_fields num" ptz_command_default "\<lambda>t. num_ok num \<and> ptz_command_wf t" for num
  by unfold_locales
    (auto simp: ptz_command_fields_def ptz_command_default_def ptz_command_wf_def json_rt num_okD
      list_all_iff intro!: ptz_command.equality)

record osd_config =
  oc2_system_id :: bool
  oc2_system_id_text :: string
  oc2_time :: bool
  oc2_time_format :: time_format_n
  oc2_date :: bool
  oc2_date_format :: string
  oc2_font_size :: string
  oc2_font_color :: string
  oc2_bkg_color :: string
  oc2_bkg_transp :: bool
  oc2_alignment :: string
  oc2_caps :: osd_caps

definition osd_config_default :: "osd_config" where
  "osd_config_default = \<lparr>oc2_system_id = False,
     oc2_system_id_text = unset_string,
     oc2_time = False,
     oc2_time_format = TF_INVALID,
     oc2_date = False,
     oc2_date_format = unset_string,
     oc2_font_size = unset_string,
     oc2_font_color = unset_string,
     oc2_bkg_color = unset_string,
     oc2_bkg_transp = False,
     oc2_alignment = unset_string,
     oc2_caps = osd_caps_default\<rparr>"

definition osd_config_fields :: "json_num \<Rightarrow> 'a osd_config_scheme field list" where
  "osd_config_fields num =
     [bool_field ''system_id'' oc2_system_id oc2_system_id_update,
      str_field ''system_id_text'' oc2_system_id_text oc2_system_id_text_update,
      bool_field ''time'' oc2_time oc2_time_update,
      enum_field time_format_n_table ''time_format'' oc2_time_format oc2_time_format_update,
      bool_field ''date'' oc2_date oc2_date_update,
      str_field ''date_format'' oc2_date_format oc2_date_format_update,
      str_field ''font_size'' oc2_font_size oc2_font_size_update,
      str_field ''font_color'' oc2_font_color oc2_font_color_update,
      str_field ''bkg_color'' oc2_bkg_color oc2_bkg_color_update,
      bool_field ''bkg_transp'' oc2_bkg_transp oc2_bkg_transp_update,
      str_field ''alignment'' oc2_alignment oc2_alignment_update,
      struct_field (osd_caps_fields num) ''caps'' oc2_caps oc2_caps_update]"

definition osd_config_wf :: "'a osd_config_scheme \<Rightarrow> bool" where
  "osd_config_wf t \<longleftrightarrow> osd_caps_wf ((oc2_caps t))"

interpretation osd_config: struct_codec "osd_config_fields num" osd_config_default "\<lambda>t. num_ok num \<and> osd_config_wf t" for num
  by unfold_locales
    (auto simp: osd_config_fields_def osd_config_default_def osd_config_wf_def
      osd_caps.own_take_struct json_rt num_okD list_all_iff intro!: osd_config.equality)

record proxy_config =
  pc3_socks4 :: string
  pc3_socks5 :: string

definition proxy_config_default :: "proxy_config" where
  "proxy_config_default = \<lparr>pc3_socks4 = unset_string,
     pc3_socks5 = unset_string\<rparr>"

definition proxy_config_fields :: "json_num \<Rightarrow> 'a proxy_config_scheme field list" where
  "proxy_config_fields num =
     [str_field ''socks4'' pc3_socks4 pc3_socks4_update,
      str_field ''socks5'' pc3_socks5 pc3_socks5_update]"

definition proxy_config_wf :: "'a proxy_config_scheme \<Rightarrow> bool" where
  "proxy_config_wf t \<longleftrightarrow> True"

interpretation proxy_config: struct_codec "proxy_config_fields num" proxy_config_default "\<lambda>t. num_ok num \<and> proxy_config_wf t" for num
  by unfold_locales
    (auto simp: proxy_config_fields_def proxy_config_default_def proxy_config_wf_def json_rt num_okD
      list_all_iff intro!: proxy_config.equality)

record access_token =
  at_token :: string
  at_camid :: int
  at_cmngrid :: int
  at_access :: string
  at_api :: string
  at_api_p :: int
  at_api_sp :: int
  at_cam :: string
  at_cam_p :: int
  at_cam_sp :: int
  at_svcp :: string
  at_proxy :: proxy_config
  at_packed :: string

definition access_token_default :: "access_token" where
  "access_token_default = \<lparr>at_token = unset_string,
     at_camid = UnsetInt,
     at_cmngrid = UnsetInt,
     at_access = unset_string,
     at_api = unset_string,
     at_api_p = UnsetInt,
     at_api_sp = UnsetInt,
     at_cam = unset_string,
     at_cam_p = UnsetInt,
     at_cam_sp = UnsetInt,
     at_svcp = unset_string,
     at_proxy = proxy_config_default,
     at_packed = unset_string\<rparr>"

definition access_token_fields :: "json_num \<Rightarrow> 'a access_token_scheme field list" where
  "access_token_fields num =
     [str_field ''token'' at_token at_token_update,
      int_field num ''camid'' at_camid at_camid_update,
      int_field num ''cmngrid'' at_cmngrid at_cmngrid_update,
      str_field ''access'' at_access at_access_update,
      int_field num ''api_p'' at_api_p at_api_p_update,
      int_field num ''api_sp'' at_api_sp at_api_sp_update,
      str_field ''cam'' at_cam at_cam_update,
      int_field num ''cam_p'' at_cam_p at_cam_p_update,
      int_field num ''cam_sp'' at_cam_sp at_cam_sp_update,
      str_field ''svcp'' at_svcp at_svcp_update,
      str_field ''api'' at_api at_api_update,
      struct_field (proxy_config_fields num) ''proxy'' at_proxy at_proxy_update]"

definition access_token_wf :: "'a access_token_scheme \<Rightarrow> bool" where
  "access_token_wf t \<longleftrightarrow> int_ok (at_camid t) \<and>
     int_ok (at_cmngrid t) \<and>
     int_ok (at_api_p t) \<and>
     int_ok (at_api_sp t) \<and>
     int_ok (at_cam_p t) \<and>
     int_ok (at_cam_sp t) \<and>
     proxy_config_wf ((at_proxy t)) \<and>
     at_packed t = unset_string"

interpretation access_token: struct_codec "access_token_fields num" access_token_default "\<lambda>t. num_ok num \<and> access_token_wf t" for num
  by unfold_locales
    (auto simp: access_token_fields_def access_token_default_def access_token_wf_def
      proxy_config.own_take_struct json_rt num_okD list_all_iff intro!: access_token.equality)

record supported_stream_config =
  ssc_id :: string
  ssc_video :: string
  ssc_audio :: string

definition supported_stream_config_default :: "supported_stream_config" where
  "supported_stream_config_default = \<lparr>ssc_id = unset_string,
     ssc_video = unset_string,
     ssc_audio = unset_string\<rparr>"

definition supported_stream_config_fields :: "json_num \<Rightarrow> 'a supported_stream_config_scheme field list" where
  "supported_stream_config_fields num =
     [str_field ''id'' ssc_id ssc_id_update,
      str_field ''video'' ssc_video ssc_video_update,
      str_field ''audio'' ssc_audio ssc_audio_update]"

definition supported_stream_config_wf :: "'a supported_stream_config_scheme \<Rightarrow> bool" where
  "supported_stream_config_wf t \<longleftrightarrow> True"

interpretation supported_stream_config: struct_codec "supported_stream_config_fields num" supported_stream_config_default "\<lambda>t. num_ok num \<and> supported_stream_config_wf t" for num
  by unfold_locales
    (auto simp: supported_stream_config_fields_def supported_stream_config_default_def
      supported_stream_config_wf_def json_rt num_okD list_all_iff intro!:
      supported_stream_config.equality)

record supported_streams_config =
  ssc2_streams :: "supported_stream_config list"
  ssc2_video_es :: "string list"
  ssc2_audio_es :: "string list"

definition supported_streams_config_default :: "supported_streams_config" where
  "supported_streams_config_default = \<lparr>ssc2_streams = [],
     ssc2_video_es = [],
     ssc2_audio_es = []\<rparr>"

definition supported_streams_config_fields :: "json_num \<Rightarrow> 'a supported_streams_config_scheme field list" where
  "supported_streams_config_fields num =
     [val_field (enc_list (struct_to_json (supported_stream_config_fields num))) (dec_list (dec_struct (supported_stream_config_fields num) supported_stream_config_default)) ''streams'' ssc2_streams ssc2_streams_update,
      val_field (enc_list JStr) (dec_list dec_str) ''video_es'' ssc2_video_es ssc2_video_es_update,
      val_field (enc_list JStr) (dec_list dec_str) ''audio_es'' ssc2_audio_es ssc2_audio_es_update]"

definition supported_streams_config_wf :: "'a supported_streams_config_scheme \<Rightarrow> bool" where
  "supported_streams_config_wf t \<longleftrightarrow> list_all (\<lambda>y. supported_stream_config_wf y) ((ssc2_streams t))"

interpretation supported_streams_config: struct_codec "supported_streams_config_fields num" supported_streams_config_default "\<lambda>t. num_ok num \<and> supported_streams_config_wf t" for num
  by unfold_locales
    (auto simp: supported_streams_config_fields_def supported_streams_config_default_def
      supported_streams_config_wf_def supported_stream_config.roundtrip_list json_rt num_okD
      list_all_iff intro!: supported_streams_config.equality)

record stream_by_event_caps =
  sbec_pre_event_max :: int
  sbec_post_event_max :: int

definition stream_by_event_caps_default :: "stream_by_event_caps" where
  "stream_by_event_caps_default = \<lparr>sbec_pre_event_max = UnsetInt,
     sbec_post_event_max = UnsetInt\<rparr>"

definition stream_by_event_caps_fields :: "json_num \<Rightarrow> 'a stream_by_event_caps_scheme field list" where
  "stream_by_event_caps_fields num =
     [int_field num ''pre_event_max'' sbec_pre_event_max sbec_pre_event_max_update,
      int_field num ''post_event_max'' sbec_post_event_max sbec_post_event_max_update]"

definition stream_by_event_caps_wf :: "'a stream_by_event_caps_scheme \<Rightarrow> bool" where
  "stream_by_event_caps_wf t \<longleftrightarrow> int_ok (sbec_pre_event_max t) \<and>
     int_ok (sbec_post_event_max t)"

interpretation stream_by_event_caps: struct_codec "stream_by_event_caps_fields num" stream_by_event_caps_default "\<lambda>t. num_ok num \<and> stream_by_event_caps_wf t" for num
  by unfold_locales
    (auto simp: stream_by_event_caps_fields_def stream_by_event_caps_default_def
      stream_by_event_caps_wf_def json_rt num_okD list_all_iff intro!: stream_by_event_caps.equality)

record stream_by_event_config =
  sbec2_stream_id :: string
  sbec2_pre_event :: int
  sbec2_post_event :: int
  sbec2_caps :: stream_by_event_caps

definition stream_by_event_config_default :: "stream_by_event_config" where
  "stream_by_event_config_default = \<lparr>sbec2_stream_id = unset_string,
     sbec2_pre_event = UnsetInt64,
     sbec2_post_event = UnsetInt64,
     sbec2_caps = stream_by_event_caps_default\<rparr>"

definition stream_by_event_config_fields :: "json_num \<Rightarrow> 'a stream_by_event_config_scheme field list" where
  "stream_by_event_config_fields num =
     [str_field ''stream_id'' sbec2_stream_id sbec2_stream_id_update,
      int64_field num ''pre_event'' sbec2_pre_event sbec2_pre_event_update,
      int64_field num ''post_event'' sbec2_post_event sbec2_post_event_update,
      struct_field (stream_by_event_caps_fields num) ''caps'' sbec2_caps sbec2_caps_update]"

definition stream_by_event_config_wf :: "'a stream_by_event_config_scheme \<Rightarrow> bool" where
  "stream_by_event_config_wf t \<longleftrightarrow> int64_ok (sbec2_pre_event t) \<and>
     int64_ok (sbec2_post_event t) \<and>
     stream_by_event_caps_wf ((sbec2_caps t))"

interpretation stream_by_event_config: struct_codec "stream_by_event_config_fields num" stream_by_event_config_default "\<lambda>t. num_ok num \<and> stream_by_event_config_wf t" for num
  by unfold_locales
    (auto simp: stream_by_event_config_fields_def stream_by_event_config_default_def
      stream_by_event_config_wf_def stream_by_event_caps.own_take_struct json_rt num_okD
      list_all_iff intro!: stream_by_event_config.equality)

record audio_detection_conf_caps =
  adcc_level :: "int \<times> int \<times> int"

definition audio_detection_conf_caps_default :: "audio_detection_conf_caps" where
  "audio_detection_conf_caps_default = \<lparr>adcc_level = (0, 0, 0)\<rparr>"

definition audio_detection_conf_caps_fields :: "json_num \<Rightarrow> 'a audio_detection_conf_caps_scheme field list" where
  "audio_detection_conf_caps_fields num =
     [val_field (enc_triple JInt) (dec_triple (as_int num)) ''level'' adcc_level adcc_level_update]"

definition audio_detection_conf_caps_wf :: "'a audio_detection_conf_caps_scheme \<Rightarrow> bool" where
  "audio_detection_conf_caps_wf t \<longleftrightarrow> (case (adcc_level t) of (a, b, c) \<Rightarrow> int_ok a \<and> int_ok b \<and> int_ok c)"

interpretation audio_detection_conf_caps: struct_codec "audio_detection_conf_caps_fields num" audio_detection_conf_caps_default "\<lambda>t. num_ok num \<and> audio_detection_conf_caps_wf t" for num
  by unfold_locales
    (auto simp: audio_detection_conf_caps_fields_def audio_detection_conf_caps_default_def
      audio_detection_conf_caps_wf_def json_rt num_okD list_all_iff intro!:
      audio_detection_conf_caps.equality)

record audio_detection_config =
  adc_level :: int
  adc_length :: int
  adc_caps :: audio_detection_conf_caps

definition audio_detection_config_default :: "audio_detection_config" where
  "audio_detection_config_default = \<lparr>adc_level = UnsetInt,
     adc_length = UnsetInt,
     adc_caps = audio_detection_conf_caps_default\<rparr>"

definition audio_detection_config_fields :: "json_num \<Rightarrow> 'a audio_detection_config_scheme field list" where
  "audio_detection_config_fields num =
     [int_field num ''level'' adc_level adc_level_update,
      int_field num ''length'' adc_length adc_length_update,
      struct_field (audio_detection_conf_caps_fields num) ''caps'' adc_caps adc_caps_update]"

definition audio_detection_config_wf :: "'a audio_detection_config_scheme \<Rightarrow> bool" where
  "audio_detection_config_wf t \<longleftrightarrow> int_ok (adc_level t) \<and>
     int_ok (adc_length t) \<and>
     audio_detection_conf_caps_wf ((adc_caps t))"

interpretation audio_detection_config: struct_codec "audio_detection_config_fields num" audio_detection_config_default "\<lambda>t. num_ok num \<and> audio_detection_config_wf t" for num
  by unfold_locales
    (auto simp: audio_detection_config_fields_def audio_detection_config_default_def
      audio_detection_config_wf_def audio_detection_conf_caps.own_take_struct json_rt num_okD
      list_all_iff intro!: audio_detection_config.equality)

end
