(* ===== verification/Proto_Events.thy ===== *)
theory Proto_Events
  imports Proto_Config Base64
begin

text \<open>
  The objects of \<^verbatim>\<open>src/src/agent-proto/objects/config.h\<close> with hand-written JSON functions,
  \<^verbatim>\<open>event_object\<close> and \<^verbatim>\<open>event_config\<close>, the lookup of an event's configuration, the comparison of
  stream settings and the packed form of \<^verbatim>\<open>access_token\<close>.
\<close>

section \<open>Events\<close>

record event_object =
  eo_snapshot_info :: snapshot_info_object
  eo_motion_info :: motion_info_object
  eo_record_info :: record_info_object
  eo_file_meta_info :: file_meta_info_object
  eo_memorycard_info :: memorycard_info_object
  eo_wifi_info :: wifi_info_object
  eo_event :: event_type
  eo_custom_event_name :: string
  eo_time :: double
  eo_mediatm :: int
  eo_status :: event_status
  eo_meta :: json
  eo_active :: bool
  eo_time_end :: double
  eo_upload_token :: string
  eo_upload_canceler :: bool
  eo_meta_file :: string
  eo_state_dummy :: bool

definition event_object_default :: event_object where
  "event_object_default =
     \<lparr>eo_snapshot_info = snapshot_info_object_default, eo_motion_info = motion_info_object_default,
      eo_record_info = record_info_object_default, eo_file_meta_info = file_meta_info_object_default,
      eo_memorycard_info = memorycard_info_object_default, eo_wifi_info = wifi_info_object_default,
      eo_event = ET_INVALID, eo_custom_event_name = unset_string, eo_time = UnsetDouble,
      eo_mediatm = UnsetUInt64, eo_status = ES_INVALID, eo_meta = JNull, eo_active = False,
      eo_time_end = UnsetDouble, eo_upload_token = [], eo_upload_canceler = False,
      eo_meta_file = unset_string, eo_state_dummy = False\<rparr>"

text \<open>\<open>if (b) j.update({{k, x}});\<close>\<close>

definition update_if :: "bool \<Rightarrow> string \<Rightarrow> json \<Rightarrow> json \<Rightarrow> json" where
  "update_if b k x j = (if b then json_set k x j else j)"

text \<open>
  \<open>to_json\<close> updates the document it is given; \<open>__is_unset\<close> is false for every enumeration and for
  \<open>uint64_t\<close>, so those tests never hold.
\<close>

definition event_object_to_json :: "json_num \<Rightarrow> event_object \<Rightarrow> json \<Rightarrow> json" where
  "event_object_to_json num c j =
     (let j = json_set ''time'' (JFloat (eo_time c)) j;
          j = json_set ''mediatm'' (JInt (eo_mediatm c)) j;
          j = json_set ''status'' (enum_to event_status_table (eo_status c)) j;
          j = update_if (\<not> json_unset (eo_meta c)) ''meta'' (eo_meta c) j;
          j = update_if (sio_image_time (eo_snapshot_info c) \<noteq> unset_string) ''snapshot_info''
                (struct_to_json (snapshot_info_object_fields num) (eo_snapshot_info c)) j;
          j = update_if (fmio_size (eo_file_meta_info c) \<noteq> UnsetInt) ''file_meta_info''
                (struct_to_json (file_meta_info_object_fields num) (eo_file_meta_info c)) j;
          j = json_set ''event'' (enum_to event_type_table (eo_event c)) j
      in case eo_event c of
           ET_MOTION \<Rightarrow> json_set ''motion_info''
             (struct_to_json (motion_info_object_fields num) (eo_motion_info c)) j
         | ET_MEMORYCARD \<Rightarrow> json_set ''memorycard_info''
             (struct_to_json (memorycard_info_object_fields num) (eo_memorycard_info c)) j
         | ET_RECORD \<Rightarrow> update_if (rio_on (eo_record_info c) \<noteq> B_INVALID) ''record_info''
             (struct_to_json (record_info_object_fields num) (eo_record_info c)) j
         | ET_WIFI \<Rightarrow> json_set ''wifi_info''
             (struct_to_json (wifi_info_object_fields num) (eo_wifi_info c)) j
         | ET_CUSTOM \<Rightarrow> json_set ''event'' (JStr (eo_custom_event_name c)) j
         | _ \<Rightarrow> j)"

text \<open>The event's type from its name; a name the table does not have is a custom event's.\<close>

definition event_from_json :: "json \<Rightarrow> event_object \<Rightarrow> event_object" where
  "event_from_json j c =
     (let c = my_json_from j (enum_field event_type_table ''event'' eo_event eo_event_update) c in
      if eo_event c = ET_INVALID
      then my_json_from j (str_field ''event'' eo_custom_event_name eo_custom_event_name_update)
             (c\<lparr>eo_event := ET_CUSTOM\<rparr>)
      else c)"

definition event_object_rest :: "json_num \<Rightarrow> event_object field list" where
  "event_object_rest num =
     [double_field num ''time'' eo_time eo_time_update,
      enum_field event_status_table ''status'' eo_status eo_status_update,
      json_field ''meta'' eo_meta eo_meta_update,
      uint64_field num ''mediatm'' eo_mediatm eo_mediatm_update,
      struct_field (snapshot_info_object_fields num) ''snapshot_info'' eo_snapshot_info eo_snapshot_info_update,
      struct_field (motion_info_object_fields num) ''motion_info'' eo_motion_info eo_motion_info_update,
      struct_field (record_info_object_fields num) ''record_info'' eo_record_info eo_record_info_update,
      struct_field (file_meta_info_object_fields num) ''file_meta_info'' eo_file_meta_info eo_file_meta_info_update,
      struct_field (wifi_info_object_fields num) ''wifi_info'' eo_wifi_info eo_wifi_info_update,
      struct_field (memorycard_info_object_fields num) ''memorycard_info'' eo_memorycard_info
        eo_memorycard_info_update,
      struct_field (record_info_object_fields num) ''record_info'' eo_record_info eo_record_info_update]"

definition event_object_from_json :: "json_num \<Rightarrow> json \<Rightarrow> event_object \<Rightarrow> event_object" where
  "event_object_from_json num j c = struct_from_json (event_object_rest num) j (event_from_json j c)"

text \<open>\<open>event_object::name\<close>; \<open>None\<close> is the exception of converting null to a string.\<close>

definition event_name :: "event_object \<Rightarrow> string option" where
  "event_name c =
     (if eo_event c = ET_CUSTOM then Some (eo_custom_event_name c)
      else dec_str (enum_to event_type_table (eo_event c)))"

section \<open>Event configurations\<close>

record event_config =
  evc_event :: event_type
  evc_custom_event_name :: string
  evc_active :: bool
  evc_stream :: bool
  evc_snapshot :: bool
  evc_period :: int
  evc_caps :: event_caps

definition event_config_default :: event_config where
  "event_config_default =
     \<lparr>evc_event = ET_INVALID, evc_custom_event_name = unset_string, evc_active = False,
      evc_stream = False, evc_snapshot = False, evc_period = UnsetInt, evc_caps = event_caps_default\<rparr>"

definition name_eq :: "event_config \<Rightarrow> event_config \<Rightarrow> bool" where
  "name_eq c r \<longleftrightarrow> evc_event c = evc_event r \<and> evc_custom_event_name c = evc_custom_event_name r"

definition caps_eq :: "event_config \<Rightarrow> event_config \<Rightarrow> bool" where
  "caps_eq c r \<longleftrightarrow> evc_event c = evc_event r \<and> evc_custom_event_name c = evc_custom_event_name r"

definition config_name :: "event_config \<Rightarrow> string option" where
  "config_name c =
     (if evc_event c = ET_CUSTOM then Some (evc_custom_event_name c)
      else dec_str (enum_to event_type_table (evc_event c)))"

definition event_config_to_json :: "json_num \<Rightarrow> event_config \<Rightarrow> json" where
  "event_config_to_json num c =
     (let j = (if evc_event c = ET_CUSTOM then JObj [(''event'', JStr (evc_custom_event_name c))]
               else JObj [(''event'', enum_to event_type_table (evc_event c))]);
          j = json_set ''active'' (JBool (evc_active c)) j;
          j = json_set ''stream'' (JBool (evc_stream c)) j;
          j = json_set ''snapshot'' (JBool (evc_snapshot c)) j;
          j = update_if (evc_period c \<noteq> UnsetInt) ''period'' (JInt (evc_period c)) j
      in json_set ''caps'' (struct_to_json (event_caps_fields num) (evc_caps c)) j)"

definition event_config_rest :: "json_num \<Rightarrow> event_config field list" where
  "event_config_rest num =
     [bool_field ''active'' evc_active evc_active_update,
      bool_field ''stream'' evc_stream evc_stream_update,
      bool_field ''snapshot'' evc_snapshot evc_snapshot_update,
      int_field num ''period'' evc_period evc_period_update,
      struct_field (event_caps_fields num) ''caps'' evc_caps evc_caps_update]"

definition event_config_from_json :: "json_num \<Rightarrow> json \<Rightarrow> event_config \<Rightarrow> event_config" where
  "event_config_from_json num j c =
     (let c = my_json_from j (enum_field event_type_table ''event'' evc_event evc_event_update) c;
          c = (if evc_event c = ET_INVALID
               then my_json_from j (str_field ''event'' evc_custom_event_name evc_custom_event_name_update)
                      (c\<lparr>evc_event := ET_CUSTOM\<rparr>)
               else c)
      in struct_from_json (event_config_rest num) j c)"

section \<open>The list of event configurations\<close>

record events_config =
  esc_enabled :: bool
  esc_events :: "event_config list"

definition events_config_default :: events_config where
  "events_config_default = \<lparr>esc_enabled = False, esc_events = []\<rparr>"

definition dec_event_config :: "json_num \<Rightarrow> json \<Rightarrow> event_config option" where
  "dec_event_config num x = Some (event_config_from_json num x event_config_default)"

definition events_config_fields :: "json_num \<Rightarrow> 'a events_config_scheme field list" where
  "events_config_fields num =
     [bool_field ''enabled'' esc_enabled esc_enabled_update,
      val_field (enc_list (event_config_to_json num)) (dec_list (dec_event_config num)) ''events''
        esc_events esc_events_update]"

text \<open>\<open>get_event_config\<close>: the result, or none when nothing is found.\<close>

fun get_event_config :: "event_object \<Rightarrow> event_config list \<Rightarrow> event_config option" where
  "get_event_config e [] = None"
| "get_event_config e (c # cs) =
     (if eo_event e = ET_CUSTOM then
        (if evc_custom_event_name c = eo_custom_event_name e then Some c else get_event_config e cs)
      else if evc_event c = eo_event e then Some c
      else get_event_config e cs)"

section \<open>Stream settings\<close>

text \<open>\<open>operator==\<close>: equal in every field that both sides set.\<close>

definition video_config_eq :: "video_stream_config \<Rightarrow> video_stream_config \<Rightarrow> bool" where
  "video_config_eq l r \<longleftrightarrow>
     (vsc_stream l = vsc_stream r \<or> vsc_stream l = unset_string \<or> vsc_stream r = unset_string) \<and>
     (vsc_profile l = vsc_profile r \<or> vsc_profile l = unset_string \<or> vsc_profile r = unset_string) \<and>
     (vsc_brt l = vsc_brt r \<or> vsc_brt l = UnsetInt \<or> vsc_brt r = UnsetInt) \<and>
     vsc_format l = vsc_format r \<and>
     (vsc_fps l = vsc_fps r \<or> vsc_fps l = UnsetDouble \<or> vsc_fps r = UnsetDouble) \<and>
     (vsc_gop l = vsc_gop r \<or> vsc_gop l = UnsetInt \<or> vsc_gop r = UnsetInt) \<and>
     (vsc_horz l = vsc_horz r \<or> vsc_horz l = UnsetInt \<or> vsc_horz r = UnsetInt) \<and>
     (vsc_vert l = vsc_vert r \<or> vsc_vert l = UnsetInt \<or> vsc_vert r = UnsetInt) \<and>
     vsc_vbr l = vsc_vbr r \<and>
     (vsc_vbr_brt l = vsc_vbr_brt r \<or> vsc_vbr_brt l = UnsetInt \<or> vsc_vbr_brt r = UnsetInt)"

definition audio_config_eq :: "audio_stream_config \<Rightarrow> audio_stream_config \<Rightarrow> bool" where
  "audio_config_eq l r \<longleftrightarrow>
     (asc_stream l = asc_stream r \<or> asc_stream l = unset_string \<or> asc_stream r = unset_string) \<and>
     asc_format l = asc_format r \<and>
     (asc_brt l = asc_brt r \<or> asc_brt l = UnsetInt \<or> asc_brt r = UnsetInt) \<and>
     (asc_srt l = asc_srt r \<or> asc_srt l = UnsetDouble \<or> asc_srt r = UnsetDouble)"

section \<open>The access token\<close>

text \<open>\<open>printf("%d")\<close>\<close>

fun nat_string :: "nat \<Rightarrow> string" where
  "nat_string n = (if n < 10 then [char_of (48 + n)] else nat_string (n div 10) @ [char_of (48 + n mod 10)])"

definition int_string :: "int \<Rightarrow> string" where
  "int_string i = (if i < 0 then CHR ''-'' # nat_string (nat (- i)) else nat_string (nat i))"

definition api_uri :: "access_token \<Rightarrow> bool \<Rightarrow> string" where
  "api_uri t secure =
     (let proto = (if secure then ''https'' else ''http'');
          port = (if secure then at_api_sp t else at_api_p t)
      in proto @ ''://'' @ at_api t @ '':'' @ int_string port)"

text \<open>\<open>dump\<close> and \<open>parse\<close> are the JSON library's; \<open>None\<close> is an exception, which \<open>parse\<close> turns into null.\<close>

definition token_pack :: "json_num \<Rightarrow> (json \<Rightarrow> byte list) \<Rightarrow> access_token \<Rightarrow> string" where
  "token_pack num dump t = base64_encode False (dump (struct_to_json (access_token_fields num) t))"

definition token_parse ::
  "json_num \<Rightarrow> (byte list \<Rightarrow> json option) \<Rightarrow> string \<Rightarrow> access_token option" where
  "token_parse num parse packed_token =
     (case base64_decode packed_token False of
        Inl _ \<Rightarrow> None
      | Inr decoded_token \<Rightarrow>
          (case parse decoded_token of
             None \<Rightarrow> None
           | Some j \<Rightarrow> Some (struct_from_json (access_token_fields num) j access_token_default)))"

section \<open>Facts about them\<close>

lemma json_at_update_if [simp]:
  "json_at k (update_if b k' x j) = (if k = k' \<and> b then Some x else json_at k j)"
  by (simp add: update_if_def)

lemma event_type_not_invalid:
  "e \<noteq> ET_INVALID \<Longrightarrow> \<exists>s. enum_to event_type_table e = JStr s"
  by (cases e) (simp_all add: enum_to_def event_type_table_def)

definition builtin_event_names :: "string list" where
  "builtin_event_names = [''motion'', ''sound'', ''net'', ''record'', ''memorycard'', ''wifi'', ''custom'']"

lemma enum_from_custom:
  "s \<notin> set builtin_event_names \<Longrightarrow> enum_from event_type_table (JStr s) = ET_INVALID"
  by (auto simp: enum_from_def event_type_table_def builtin_event_names_def)

definition event_named :: "event_type \<Rightarrow> string \<Rightarrow> bool" where
  "event_named e s \<longleftrightarrow>
     (if e = ET_CUSTOM then s \<notin> set builtin_event_names else e \<noteq> ET_INVALID \<and> s = unset_string)"

definition event_config_wf :: "event_config \<Rightarrow> bool" where
  "event_config_wf c \<longleftrightarrow> event_named (evc_event c) (evc_custom_event_name c) \<and> int_ok (evc_period c) \<and>
     event_caps_wf (evc_caps c)"

lemma event_config_roundtrip:
  assumes "num_ok num" "event_config_wf c"
  shows "event_config_from_json num (event_config_to_json num c) event_config_default = c"
proof -
  have caps: "struct_from_json (event_caps_fields num) (struct_to_json (event_caps_fields num) (evc_caps c))
      event_caps_default = evc_caps c"
    using event_caps.roundtrip assms by (auto simp: event_config_wf_def)
  have ev: "my_json_from (event_config_to_json num c)
       (enum_field event_type_table ''event'' evc_event evc_event_update) event_config_default =
     event_config_default\<lparr>evc_event := (if evc_event c = ET_CUSTOM then ET_INVALID else evc_event c)\<rparr>"
    using assms(2)
    by (auto simp: my_json_from_def event_config_to_json_def Let_def field_defs enum_from_custom
        event_config_wf_def event_named_def simp del: json_set.simps)
  show ?thesis
    using assms ev caps
    by (cases c) (auto simp: event_config_from_json_def struct_from_json_def event_config_rest_def
        my_json_from_def event_config_to_json_def Let_def field_defs event_config_wf_def event_named_def
        event_config_default_def num_okD never_def simp del: json_set.simps)
qed

lemma dec_event_config_rt:
  "num_ok num \<Longrightarrow> event_config_wf c \<Longrightarrow> dec_event_config num (event_config_to_json num c) = Some c"
  by (simp add: dec_event_config_def event_config_roundtrip)

definition events_config_wf :: "'a events_config_scheme \<Rightarrow> bool" where
  "events_config_wf t \<longleftrightarrow> list_all event_config_wf (esc_events t)"

interpretation events_config: struct_codec "events_config_fields num" events_config_default
  "\<lambda>t. num_ok num \<and> events_config_wf t" for num
  by unfold_locales
    (auto simp: events_config_fields_def events_config_default_def events_config_wf_def json_rt
      list_all_iff dec_event_config_rt intro!: events_config.equality)

text \<open>
  What an event carries over the wire: the info object of its own kind, a snapshot that has a time, a
  meta file that has a size, and none of the members that are local to the agent.
\<close>

definition event_object_wf :: "event_object \<Rightarrow> bool" where
  "event_object_wf c \<longleftrightarrow>
     event_named (eo_event c) (eo_custom_event_name c) \<and> uint64_ok (eo_mediatm c) \<and>
     eo_meta c \<noteq> JArr [] \<and>
     snapshot_info_object_wf (eo_snapshot_info c) \<and>
     (sio_image_time (eo_snapshot_info c) = unset_string \<longrightarrow> eo_snapshot_info c = snapshot_info_object_default) \<and>
     file_meta_info_object_wf (eo_file_meta_info c) \<and>
     (fmio_size (eo_file_meta_info c) = UnsetInt \<longrightarrow> eo_file_meta_info c = file_meta_info_object_default) \<and>
     (if eo_event c = ET_MOTION then motion_info_object_wf (eo_motion_info c)
      else eo_motion_info c = motion_info_object_default) \<and>
     (if eo_event c = ET_MEMORYCARD then memorycard_info_object_wf (eo_memorycard_info c)
      else eo_memorycard_info c = memorycard_info_object_default) \<and>
     (if eo_event c = ET_RECORD \<and> rio_on (eo_record_info c) \<noteq> B_INVALID
      then record_info_object_wf (eo_record_info c)
      else eo_record_info c = record_info_object_default) \<and>
     (if eo_event c = ET_WIFI then wifi_info_object_wf (eo_wifi_info c)
      else eo_wifi_info c = wifi_info_object_default) \<and>
     \<not> eo_active c \<and> eo_time_end c = UnsetDouble \<and> eo_upload_token c = [] \<and> \<not> eo_upload_canceler c \<and>
     eo_meta_file c = unset_string \<and> \<not> eo_state_dummy c"

text \<open>The members the info objects are found under, whatever document they are written into.\<close>

definition event_keys :: "string list" where
  "event_keys = [''time'', ''mediatm'', ''status'', ''meta'', ''snapshot_info'', ''file_meta_info'', ''event'',
     ''motion_info'', ''memorycard_info'', ''record_info'', ''wifi_info'']"

definition member :: "bool \<Rightarrow> json \<Rightarrow> json option" where
  "member b x = (if b then Some x else None)"

lemma event_object_members:
  fixes num c
  assumes "\<forall>k \<in> set event_keys. json_at k j = None"
  defines "J \<equiv> event_object_to_json num c j"
  shows "json_at ''time'' J = Some (JFloat (eo_time c))"
    "json_at ''mediatm'' J = Some (JInt (eo_mediatm c))"
    "json_at ''status'' J = Some (enum_to event_status_table (eo_status c))"
    "json_at ''meta'' J = member (\<not> json_unset (eo_meta c)) (eo_meta c)"
    "json_at ''snapshot_info'' J = member (sio_image_time (eo_snapshot_info c) \<noteq> unset_string)
       (struct_to_json (snapshot_info_object_fields num) (eo_snapshot_info c))"
    "json_at ''file_meta_info'' J = member (fmio_size (eo_file_meta_info c) \<noteq> UnsetInt)
       (struct_to_json (file_meta_info_object_fields num) (eo_file_meta_info c))"
    "json_at ''event'' J = Some (if eo_event c = ET_CUSTOM then JStr (eo_custom_event_name c)
       else enum_to event_type_table (eo_event c))"
    "json_at ''motion_info'' J = member (eo_event c = ET_MOTION)
       (struct_to_json (motion_info_object_fields num) (eo_motion_info c))"
    "json_at ''memorycard_info'' J = member (eo_event c = ET_MEMORYCARD)
       (struct_to_json (memorycard_info_object_fields num) (eo_memorycard_info c))"
    "json_at ''record_info'' J = member (eo_event c = ET_RECORD \<and> rio_on (eo_record_info c) \<noteq> B_INVALID)
       (struct_to_json (record_info_object_fields num) (eo_record_info c))"
    "json_at ''wifi_info'' J = member (eo_event c = ET_WIFI)
       (struct_to_json (wifi_info_object_fields num) (eo_wifi_info c))"
  using assms(1) unfolding J_def event_object_to_json_def Let_def member_def event_keys_def
  by (simp_all del: json_set.simps split: event_type.split)

lemma event_from_members:
  assumes "json_at ''event'' J = Some (if eo_event c = ET_CUSTOM then JStr (eo_custom_event_name c)
       else enum_to event_type_table (eo_event c))"
    and "event_named (eo_event c) (eo_custom_event_name c)"
    and "eo_event d = ET_INVALID" "eo_custom_event_name d = unset_string"
  shows "event_from_json J d = d\<lparr>eo_event := eo_event c, eo_custom_event_name := eo_custom_event_name c\<rparr>"
  using assms
  by (cases "eo_event c = ET_CUSTOM"; cases d)
     (auto simp: event_from_json_def my_json_from_def field_defs event_named_def enum_from_custom Let_def)

lemma record_info_again:
  "struct_from_json (record_info_object_fields num) (struct_to_json (record_info_object_fields num) t) t =
     (t :: record_info_object)"
proof -
  have "fold (own_take t) (record_info_object_fields num) t = t"
    by (cases "rio_on t") (simp_all add: record_info_object_fields_def own_take_def field_out_def field_defs
        alter_bool_to_json_def)
  then show ?thesis by (simp add: struct_from_to [OF record_info_object.keys])
qed

text \<open>Each member of the decoder restores its field.\<close>

lemma take_struct_member:
  assumes "json_at k J = member b (struct_to_json fs v)"
    and "b \<Longrightarrow> struct_from_json fs (struct_to_json fs v) (g x) = v"
    and "\<not> b \<Longrightarrow> v = g x" and "u (\<lambda>_. g x) x = x"
  shows "my_json_from J (struct_field fs k g u) x = u (\<lambda>_. v) x"
  using assms by (simp add: my_json_from_def member_def struct_field_def fld_def)

lemma event_object_takes:
  fixes num c
  assumes num: "num_ok num" and wf: "event_object_wf c"
    and j: "\<forall>k \<in> set event_keys. json_at k j = None"
  defines "J \<equiv> event_object_to_json num c j"
  shows "my_json_from J (double_field num ''time'' eo_time eo_time_update) x = x\<lparr>eo_time := eo_time c\<rparr>"
    "my_json_from J (enum_field event_status_table ''status'' eo_status eo_status_update) x =
       x\<lparr>eo_status := eo_status c\<rparr>"
    "eo_meta x = JNull \<Longrightarrow> my_json_from J (json_field ''meta'' eo_meta eo_meta_update) x = x\<lparr>eo_meta := eo_meta c\<rparr>"
    "my_json_from J (uint64_field num ''mediatm'' eo_mediatm eo_mediatm_update) x = x\<lparr>eo_mediatm := eo_mediatm c\<rparr>"
    "eo_snapshot_info x = snapshot_info_object_default \<Longrightarrow> my_json_from J
       (struct_field (snapshot_info_object_fields num) ''snapshot_info'' eo_snapshot_info eo_snapshot_info_update) x =
       x\<lparr>eo_snapshot_info := eo_snapshot_info c\<rparr>"
    "eo_motion_info x = motion_info_object_default \<Longrightarrow> my_json_from J
       (struct_field (motion_info_object_fields num) ''motion_info'' eo_motion_info eo_motion_info_update) x =
       x\<lparr>eo_motion_info := eo_motion_info c\<rparr>"
    "eo_record_info x = record_info_object_default \<or> eo_record_info x = eo_record_info c \<Longrightarrow> my_json_from J
       (struct_field (record_info_object_fields num) ''record_info'' eo_record_info eo_record_info_update) x =
       x\<lparr>eo_record_info := eo_record_info c\<rparr>"
    "eo_file_meta_info x = file_meta_info_object_default \<Longrightarrow> my_json_from J
       (struct_field (file_meta_info_object_fields num) ''file_meta_info'' eo_file_meta_info eo_file_meta_info_update) x =
       x\<lparr>eo_file_meta_info := eo_file_meta_info c\<rparr>"
    "eo_wifi_info x = wifi_info_object_default \<Longrightarrow> my_json_from J
       (struct_field (wifi_info_object_fields num) ''wifi_info'' eo_wifi_info eo_wifi_info_update) x =
       x\<lparr>eo_wifi_info := eo_wifi_info c\<rparr>"
    "eo_memorycard_info x = memorycard_info_object_default \<Longrightarrow> my_json_from J
       (struct_field (memorycard_info_object_fields num) ''memorycard_info'' eo_memorycard_info
          eo_memorycard_info_update) x = x\<lparr>eo_memorycard_info := eo_memorycard_info c\<rparr>"
proof -
  note m = event_object_members [OF j, of num c, folded J_def]
  note w = wf [unfolded event_object_wf_def]
  show "my_json_from J (double_field num ''time'' eo_time eo_time_update) x = x\<lparr>eo_time := eo_time c\<rparr>"
    "my_json_from J (enum_field event_status_table ''status'' eo_status eo_status_update) x =
       x\<lparr>eo_status := eo_status c\<rparr>"
    "my_json_from J (uint64_field num ''mediatm'' eo_mediatm eo_mediatm_update) x = x\<lparr>eo_mediatm := eo_mediatm c\<rparr>"
    using num w by (simp_all add: my_json_from_def m field_defs num_okD)
  show "my_json_from J (json_field ''meta'' eo_meta eo_meta_update) x = x\<lparr>eo_meta := eo_meta c\<rparr>"
    if "eo_meta x = JNull"
    using that w by (cases "eo_meta c") (auto simp: my_json_from_def m field_defs member_def)
  show "my_json_from J
       (struct_field (snapshot_info_object_fields num) ''snapshot_info'' eo_snapshot_info eo_snapshot_info_update) x =
       x\<lparr>eo_snapshot_info := eo_snapshot_info c\<rparr>" if "eo_snapshot_info x = snapshot_info_object_default"
    using that w num snapshot_info_object.roundtrip [of num "eo_snapshot_info c"]
    by (intro take_struct_member [OF m(5)]) auto
  show "my_json_from J
       (struct_field (motion_info_object_fields num) ''motion_info'' eo_motion_info eo_motion_info_update) x =
       x\<lparr>eo_motion_info := eo_motion_info c\<rparr>" if "eo_motion_info x = motion_info_object_default"
    using that w num motion_info_object.roundtrip [of num "eo_motion_info c"]
    by (intro take_struct_member [OF m(8)]) auto
  show "my_json_from J
       (struct_field (record_info_object_fields num) ''record_info'' eo_record_info eo_record_info_update) x =
       x\<lparr>eo_record_info := eo_record_info c\<rparr>"
    if "eo_record_info x = record_info_object_default \<or> eo_record_info x = eo_record_info c"
    using that w num record_info_object.roundtrip [of num "eo_record_info c"] record_info_again [of num "eo_record_info c"]
    by (intro take_struct_member [OF m(10)]) (auto split: if_splits)
  show "my_json_from J
       (struct_field (file_meta_info_object_fields num) ''file_meta_info'' eo_file_meta_info eo_file_meta_info_update) x =
       x\<lparr>eo_file_meta_info := eo_file_meta_info c\<rparr>" if "eo_file_meta_info x = file_meta_info_object_default"
    using that w num file_meta_info_object.roundtrip [of num "eo_file_meta_info c"]
    by (intro take_struct_member [OF m(6)]) auto
  show "my_json_from J
       (struct_field (wifi_info_object_fields num) ''wifi_info'' eo_wifi_info eo_wifi_info_update) x =
       x\<lparr>eo_wifi_info := eo_wifi_info c\<rparr>" if "eo_wifi_info x = wifi_info_object_default"
    using that w num wifi_info_object.roundtrip [of num "eo_wifi_info c"]
    by (intro take_struct_member [OF m(11)]) auto
  show "my_json_from J
       (struct_field (memorycard_info_object_fields num) ''memorycard_info'' eo_memorycard_info
          eo_memorycard_info_update) x = x\<lparr>eo_memorycard_info := eo_memorycard_info c\<rparr>"
    if "eo_memorycard_info x = memorycard_info_object_default"
    using that w num memorycard_info_object.roundtrip [of num "eo_memorycard_info c"]
    by (intro take_struct_member [OF m(9)]) auto
qed

lemma event_object_roundtrip_in:
  assumes num: "num_ok num" and wf: "event_object_wf c"
    and j: "\<forall>k \<in> set event_keys. json_at k j = None"
  shows "event_object_from_json num (event_object_to_json num c j) event_object_default = c"
proof -
  have ev: "event_from_json (event_object_to_json num c j) event_object_default =
      event_object_default\<lparr>eo_event := eo_event c, eo_custom_event_name := eo_custom_event_name c\<rparr>"
    using wf by (intro event_from_members event_object_members(7) [OF j])
      (simp_all add: event_object_wf_def event_object_default_def)
  show ?thesis
    unfolding event_object_from_json_def ev struct_from_json_def event_object_rest_def
    using wf by (simp add: event_object_takes [OF num wf j] event_object_default_def)
      (simp add: event_object_wf_def)
qed

lemma fold_preserves:
  "(\<And>f x. f \<in> set fs \<Longrightarrow> P (h f x) = P x) \<Longrightarrow> P (fold h fs x) = P x"
  by (induction fs arbitrary: x) auto

section \<open>Properties\<close>

text \<open>A library that converts a number to a type only when it is of the matching kind and in range.\<close>

fun strict_int :: "(int \<Rightarrow> bool) \<Rightarrow> json \<Rightarrow> int option" where
  "strict_int ok (JInt i) = (if ok i then Some i else None)"
| "strict_int ok j = None"

fun strict_double :: "json \<Rightarrow> double option" where
  "strict_double (JFloat d) = Some d"
| "strict_double j = None"

definition strict_num :: json_num where
  "strict_num = \<lparr>as_int = strict_int int_ok, as_int64 = strict_int int64_ok,
     as_uint64 = strict_int uint64_ok, as_double = strict_double\<rparr>"

lemma strict_num_ok: "num_ok strict_num"
  by (simp add: num_ok_def strict_num_def)

text \<open>
  an event written to JSON, into an empty document or into one that has none of its members, is
  read back unchanged, provided it carries the data of its own kind only and a custom name is none of
  the predefined ones.
\<close>

theorem event_roundtrip:
  assumes "num_ok num" and "event_object_wf c" and "\<forall>k \<in> set event_keys. json_at k j = None"
  shows "event_object_from_json num (event_object_to_json num c j) event_object_default = c"
  using assms by (rule event_object_roundtrip_in)

definition demo_event :: event_object where
  "demo_event = event_object_default\<lparr>eo_event := ET_CUSTOM, eo_custom_event_name := ''door'', eo_time := 7\<rparr>"

theorem event_roundtrip_witness:
  "event_object_from_json strict_num (event_object_to_json strict_num demo_event JNull) event_object_default =
     demo_event"
  by (rule event_roundtrip [OF strict_num_ok])
     (simp_all add: demo_event_def event_object_wf_def event_object_default_def event_named_def
      builtin_event_names_def uint64_ok_def UnsetUInt64_def snapshot_info_object_wf_def
      snapshot_info_object_default_def file_meta_info_object_wf_def file_meta_info_object_default_def
      int_ok_def UnsetInt_def)

text \<open>
  a custom event that bears the name of a predefined one is not read back as itself: the reader
  takes it for the predefined event.
\<close>

theorem custom_name_captured:
  assumes "s \<in> set builtin_event_names"
    and "eo_event c = ET_CUSTOM" and "eo_custom_event_name c = s"
  shows "eo_custom_event_name
      (event_object_from_json num (event_object_to_json num c JNull) event_object_default) = unset_string"
proof -
  let ?J = "event_object_to_json num c JNull"
  have e: "json_at ''event'' ?J = Some (JStr s)"
    using event_object_members(7) [of JNull num c] assms by simp
  have "enum_from event_type_table (JStr s) \<noteq> ET_INVALID"
    using assms(1) by (auto simp: enum_from_def event_type_table_def builtin_event_names_def)
  then have "eo_custom_event_name (event_from_json ?J event_object_default) = unset_string"
    by (simp add: event_from_json_def my_json_from_def e field_defs Let_def event_object_default_def)
  moreover have "eo_custom_event_name (my_json_from ?J f x) = eo_custom_event_name x"
    if "f \<in> set (event_object_rest num)" for f x
    using that by (auto simp: event_object_rest_def my_json_from_def field_defs split: option.split)
  ultimately show ?thesis
    by (simp add: event_object_from_json_def struct_from_json_def fold_preserves)
qed

theorem custom_name_captured_witness:
  "eo_custom_event_name (event_object_from_json strict_num (event_object_to_json strict_num
     (demo_event\<lparr>eo_custom_event_name := ''motion''\<rparr>) JNull) event_object_default) = unset_string"
  by (rule custom_name_captured [where s = "''motion''"])
     (simp_all add: builtin_event_names_def demo_event_def)

text \<open>
  a packed access token parses back to itself, given that the JSON parser reads what the JSON
  printer writes.
\<close>

theorem token_roundtrip:
  assumes "num_ok num" and "access_token_wf t"
    and "parse (dump (struct_to_json (access_token_fields num) t)) =
      Some (struct_to_json (access_token_fields num) t)"
  shows "token_parse num parse (token_pack num dump t) = Some t"
  using access_token.roundtrip [of num t] assms
  by (simp add: token_parse_def token_pack_def base64_decode_def decode_loop_encode)

definition demo_token :: access_token where
  "demo_token = access_token_default\<lparr>at_token := ''k'', at_camid := 5, at_api := ''api.host'', at_api_sp := 443\<rparr>"

theorem token_roundtrip_witness:
  "token_parse strict_num (\<lambda>b. if b = [1] then Some (struct_to_json (access_token_fields strict_num) demo_token) else None)
     (token_pack strict_num (\<lambda>j. [1]) demo_token) = Some demo_token"
  by (rule token_roundtrip [OF strict_num_ok])
     (simp_all add: demo_token_def access_token_wf_def access_token_default_def int_ok_def UnsetInt_def
      proxy_config_wf_def)

end
