(* ===== verification/Ordered_Map.thy ===== *)
theory Ordered_Map
  imports Vxg_Prelude "HOL-Library.Char_ord" "HOL-Library.List_Lexorder"
begin

text \<open>\<^verbatim>\<open>std::map\<close> with string keys, as the agent's classes use it.\<close>

text \<open>A \<^verbatim>\<open>std::map\<close> with string keys is a list in the order of the keys; assigning inserts there.\<close>

fun map_put :: "string \<Rightarrow> 'v \<Rightarrow> (string \<times> 'v) list \<Rightarrow> (string \<times> 'v) list" where
  "map_put k v [] = [(k, v)]"
| "map_put k v ((k', v') # xs) =
     (if k = k' then (k, v) # xs else if k < k' then (k, v) # (k', v') # xs else (k', v') # map_put k v xs)"

lemma map_of_map_put [simp]: "map_of (map_put k v xs) = (map_of xs)(k \<mapsto> v)"
  by (induction k v xs rule: map_put.induct) (auto simp: fun_eq_iff)

lemma sorted_map_put: "sorted_wrt (<) (map fst xs) \<Longrightarrow> sorted_wrt (<) (map fst (map_put k v xs))"
proof (induction k v xs rule: map_put.induct)
  case (2 k v k' v' xs)
  have "fst ` set (map_put k v xs) = insert k (fst ` set xs)"
    by (induction k v xs rule: map_put.induct) auto
  with 2 show ?case by (auto dest: order.strict_trans)
qed simp

end
