(* ===== verification/Http.thy ===== *)
theory Http
  imports Proto_Events Ordered_Map
begin

text \<open>
  The HTTP client of \<^verbatim>\<open>src/src/net/http.cc\<close> and \<^verbatim>\<open>http.h\<close>: requests are queued from any thread, opened
  by the service thread and driven by the callbacks of libwebsockets, whose functions are the record
  \<open>hlib\<close>. A request is a number; \<open>h_responses\<close> are the calls of the response callbacks, \<open>h_written\<close> what was
  written for each request, with the flag of the final write.
\<close>

section \<open>Requests\<close>

datatype auth_type = AUTH_NONE | AUTH_BASIC | AUTH_DIGEST | AUTH_ANY

record auth_context =
  ac_type :: auth_type
  ac_username :: string
  ac_password :: string

definition auth_type_string :: "auth_context \<Rightarrow> string" where
  "auth_type_string a =
     (case ac_type a of AUTH_NONE \<Rightarrow> ''none'' | AUTH_BASIC \<Rightarrow> ''basic'' | AUTH_DIGEST \<Rightarrow> ''digest'' | AUTH_ANY \<Rightarrow> ''any'')"

record hreq =
  hq_headers :: "(string \<times> string) list"
  hq_url :: string
  hq_method :: string
  hq_multipart :: bool
  hq_form_field :: string
  hq_filename :: string
  hq_content_type :: string
  hq_response_body :: "byte list"
  hq_request_body :: "byte list"
  hq_response_headers :: "(string \<times> string) list"
  hq_send_pos :: nat
  hq_time_start :: time
  hq_time_stop :: time
  hq_time_now :: time
  hq_download_speed :: nat
  hq_upload_speed :: nat
  hq_max_upload_speed :: nat
  hq_close_connection :: bool
  hq_timeout :: nat
  hq_status :: int
  hq_bad :: bool
  hq_auth :: auth_context

definition hreq_new :: "string \<Rightarrow> string \<Rightarrow> byte list \<Rightarrow> nat \<Rightarrow> hreq" where
  "hreq_new url method body tmo =
     \<lparr>hq_headers = [], hq_url = url, hq_method = method, hq_multipart = False, hq_form_field = ''file'',
      hq_filename = ''file'', hq_content_type = ''application/octet-stream'', hq_response_body = [],
      hq_request_body = body, hq_response_headers = [], hq_send_pos = 0, hq_time_start = 0, hq_time_stop = 0,
      hq_time_now = 0, hq_download_speed = 0, hq_upload_speed = 0, hq_max_upload_speed = 0,
      hq_close_connection = False, hq_timeout = tmo, hq_status = -1, hq_bad = False,
      hq_auth = \<lparr>ac_type = AUTH_NONE, ac_username = [], ac_password = []\<rparr>\<rparr>"

definition set_header :: "string \<Rightarrow> string \<Rightarrow> hreq \<Rightarrow> hreq" where
  "set_header k v r = r\<lparr>hq_headers := map_put (k @ '':'') v (hq_headers r)\<rparr>"

text \<open>
  A speed is bytes per full second, at least one; a clock that was set back gives a negative count, which
  the unsigned division reads modulo \<open>2 ^ 64\<close>.
\<close>

definition request_seconds :: "time \<Rightarrow> time \<Rightarrow> nat" where
  "request_seconds t0 t =
     (let d = t - t0; s = (if d < 0 then - ((- d) div 1000000000) else d div 1000000000)
      in if s = 0 then 1 else nat (s mod 2 ^ 64))"

definition stats_update :: "time \<Rightarrow> hreq \<Rightarrow> hreq" where
  "stats_update now r =
     (let r = r\<lparr>hq_time_now := now\<rparr>; s = request_seconds (hq_time_start r) now;
          r = (if hq_request_body r \<noteq> [] then r\<lparr>hq_upload_speed := hq_send_pos r div s\<rparr> else r)
      in if hq_response_body r \<noteq> [] then r\<lparr>hq_download_speed := hq_send_pos r div s\<rparr> else r)"

definition stats_finalize :: "time \<Rightarrow> hreq \<Rightarrow> hreq" where
  "stats_finalize now r =
     (let r = r\<lparr>hq_time_stop := now\<rparr>; s = request_seconds (hq_time_start r) now;
          r = (if hq_request_body r \<noteq> [] then r\<lparr>hq_upload_speed := length (hq_request_body r) div s\<rparr> else r)
      in if hq_response_body r \<noteq> [] then r\<lparr>hq_download_speed := length (hq_response_body r) div s\<rparr> else r)"

section \<open>The library\<close>

record connect_info =
  ci_port :: int
  ci_address :: string
  ci_path :: string
  ci_method :: string
  ci_auth :: "(string \<times> string) option"
  ci_use_ssl :: bool
  ci_insecure :: bool
  ci_multipart :: bool
  ci_no_cache_control :: bool

text \<open>The connection is being made, or it failed: then the error callback may already have run.\<close>

datatype connect_result = Connecting | Connect_Failed bool

record hlib =
  hl_pre :: nat
  hl_parse_uri :: "string \<Rightarrow> (string option \<times> string option \<times> int \<times> string option) option"
  hl_connect :: "connect_info \<Rightarrow> connect_result"
  hl_basic_auth :: "string \<Rightarrow> string \<Rightarrow> string option"
  hl_add_header :: "(string \<times> string) list \<Rightarrow> string \<times> string \<Rightarrow> bool"
  hl_multipart :: "(string \<times> string \<times> string) option \<Rightarrow> byte list"
  hl_write :: "byte list \<Rightarrow> int"

section \<open>State\<close>

record http_state =
  h_context :: bool
  h_running :: bool
  h_allow_invalid_ssl :: bool
  h_ssl :: bool
  h_host :: string
  h_port :: int
  h_path :: string
  h_reqs :: "nat \<Rightarrow> hreq"
  h_queue :: "nat list"
  h_conns :: "nat list"
  h_responses :: "(nat \<times> byte list \<times> int) list"
  h_headers_sent :: "(nat \<times> (string \<times> string) list) list"
  h_written :: "(nat \<times> byte list \<times> bool) list"

definition upd_req :: "nat \<Rightarrow> (hreq \<Rightarrow> hreq) \<Rightarrow> http_state \<Rightarrow> http_state" where
  "upd_req i f s = s\<lparr>h_reqs := (h_reqs s)(i := f (h_reqs s i))\<rparr>"

definition respond :: "nat \<Rightarrow> http_state \<Rightarrow> http_state" where
  "respond i s =
     s\<lparr>h_responses := h_responses s @ [(i, hq_response_body (h_reqs s i), hq_status (h_reqs s i))]\<rparr>"

section \<open>Opening a request\<close>

definition request_connect_info :: "http_state \<Rightarrow> hreq \<Rightarrow> connect_info" where
  "request_connect_info s r =
     \<lparr>ci_port = h_port s, ci_address = h_host s, ci_path = h_path s, ci_method = hq_method r,
      ci_auth = (if ac_type (hq_auth r) \<noteq> AUTH_NONE then Some (ac_username (hq_auth r), ac_password (hq_auth r)) else None),
      ci_use_ssl = h_ssl s, ci_insecure = (h_ssl s \<and> h_allow_invalid_ssl s),
      ci_multipart = (hq_method r = ''POST'' \<and> hq_multipart r), ci_no_cache_control = (hq_method r \<noteq> ''GET'')\<rparr>"

definition set_target :: "string option \<Rightarrow> string option \<Rightarrow> int \<Rightarrow> string option \<Rightarrow> http_state \<Rightarrow> http_state" where
  "set_target prot address port path s =
     s\<lparr>h_ssl := (case prot of None \<Rightarrow> False | Some p \<Rightarrow> string_find p ''https'' 0 \<noteq> None),
       h_host := (case address of None \<Rightarrow> h_host s | Some a \<Rightarrow> a),
       h_port := port mod 2 ^ 16,
       h_path := ''/'' @ (case path of None \<Rightarrow> [] | Some p \<Rightarrow> p)\<rparr>"

text \<open>\<open>LWS_CALLBACK_CLIENT_CONNECTION_ERROR\<close>\<close>

definition on_connection_error :: "time \<Rightarrow> nat \<Rightarrow> http_state \<Rightarrow> http_state" where
  "on_connection_error now i s =
     upd_req i (\<lambda>r. r\<lparr>hq_close_connection := True, hq_status := -1\<rparr>) (respond i (upd_req i (stats_finalize now) s))"

definition do_request :: "hlib \<Rightarrow> time \<Rightarrow> nat \<Rightarrow> http_state \<Rightarrow> bool \<times> http_state" where
  "do_request hl now i s =
     (let r = h_reqs s i in
      if length (hq_url r) \<ge> 4096 then (False, s)
      else case hl_parse_uri hl (hq_url r) of
        None \<Rightarrow> (False, s)
      | Some (prot, address, port, path) \<Rightarrow>
          let s = set_target prot address port path s;
              s = upd_req i (\<lambda>r. r\<lparr>hq_close_connection := False, hq_time_start := now\<rparr>) s
          in (case hl_connect hl (request_connect_info s r) of
                Connecting \<Rightarrow> (True, s\<lparr>h_conns := i # h_conns s\<rparr>)
              | Connect_Failed called \<Rightarrow> (False, if called then on_connection_error now i s else s)))"

text \<open>\<open>LWS_CALLBACK_EVENT_WAIT_CANCELLED\<close>: every queued request is opened.\<close>

definition request_failed :: "nat \<Rightarrow> http_state \<Rightarrow> http_state" where
  "request_failed i s = respond i (upd_req i (\<lambda>r. r\<lparr>hq_bad := True, hq_status := -2, hq_close_connection := True\<rparr>) s)"

fun open_queued :: "hlib \<Rightarrow> time \<Rightarrow> nat list \<Rightarrow> http_state \<Rightarrow> http_state" where
  "open_queued hl now [] s = s"
| "open_queued hl now (i # is) s =
     (let (ok, s) = do_request hl now i s;
          s = (if ok then s else request_failed i s)
      in open_queued hl now is (s\<lparr>h_queue := is\<rparr>))"

definition on_wait_cancelled :: "hlib \<Rightarrow> time \<Rightarrow> http_state \<Rightarrow> http_state" where
  "on_wait_cancelled hl now s = open_queued hl now (h_queue s) s"

section \<open>The headers\<close>

definition send_buffer :: "hlib \<Rightarrow> nat" where
  "send_buffer hl = 32 * 1024 - hl_pre hl - 1"

text \<open>\<open>lws_client_http_multipart\<close> into a buffer of \<open>n\<close> bytes; \<open>None\<close> when it does not fit.\<close>

definition multipart_into :: "hlib \<Rightarrow> (string \<times> string \<times> string) option \<Rightarrow> nat \<Rightarrow> byte list option" where
  "multipart_into hl part n = (if length (hl_multipart hl part) \<le> n then Some (hl_multipart hl part) else None)"

definition multipart_head :: "hreq \<Rightarrow> (string \<times> string \<times> string) option" where
  "multipart_head r = Some (hq_form_field r, hq_filename r, hq_content_type r)"

definition content_length :: "hlib \<Rightarrow> hreq \<Rightarrow> nat option" where
  "content_length hl r =
     (if \<not> hq_multipart r then Some (length (hq_request_body r))
      else
        case multipart_into hl (multipart_head r) (send_buffer hl) of
          None \<Rightarrow> None
        | Some a \<Rightarrow>
            (case multipart_into hl None (send_buffer hl - length a) of
               None \<Rightarrow> None
             | Some b \<Rightarrow> Some (length a + length b + length (hq_request_body r))))"

fun add_headers :: "hlib \<Rightarrow> (string \<times> string) list \<Rightarrow> (string \<times> string) list \<Rightarrow> (string \<times> string) list option" where
  "add_headers hl acc [] = Some acc"
| "add_headers hl acc (h # hs) = (if hl_add_header hl acc h then add_headers hl (acc @ [h]) hs else None)"

definition auth_header :: "hlib \<Rightarrow> hreq \<Rightarrow> (string \<times> string) list" where
  "auth_header hl r =
     (if ac_type (hq_auth r) \<in> {AUTH_ANY, AUTH_BASIC} then
        case hl_basic_auth hl (ac_username (hq_auth r)) (ac_password (hq_auth r)) of
          None \<Rightarrow> [] | Some b \<Rightarrow> [(''authorization:'', b)]
      else [])"

definition handshake_headers :: "hlib \<Rightarrow> hreq \<Rightarrow> (string \<times> string) list option" where
  "handshake_headers hl r =
     (case add_headers hl [] (auth_header hl r) of
        None \<Rightarrow> None
      | Some hs \<Rightarrow>
          (case (if hq_request_body r = [] then Some []
                 else map_option (\<lambda>n. [(''content-length:'', int_string (int n))]) (content_length hl r)) of
             None \<Rightarrow> None
           | Some cl \<Rightarrow> add_headers hl hs (cl @ hq_headers r)))"

section \<open>Writing the body\<close>

definition too_fast :: "hreq \<Rightarrow> bool" where
  "too_fast r \<longleftrightarrow> hq_max_upload_speed r > 0 \<and> hq_upload_speed r > hq_max_upload_speed r"

definition chunk_head :: "hlib \<Rightarrow> hreq \<Rightarrow> byte list option" where
  "chunk_head hl r =
     (if hq_multipart r \<and> hq_send_pos r = 0 then multipart_into hl (multipart_head r) (send_buffer hl) else Some [])"

text \<open>
  \<open>LWS_CALLBACK_CLIENT_HTTP_WRITEABLE\<close> of a request that was not redirected: one chunk is put together and
  written, or the write is put off because the upload is too fast. \<open>False\<close> is the return of \<open>-1\<close>.
\<close>

definition on_writeable :: "hlib \<Rightarrow> time \<Rightarrow> nat \<Rightarrow> http_state \<Rightarrow> bool \<times> http_state" where
  "on_writeable hl now i s =
     (let s = upd_req i (stats_update now) s; r = h_reqs s i in
      if too_fast r then (True, s)
      else
        case chunk_head hl r of
          None \<Rightarrow> (False, s)
        | Some front \<Rightarrow>
            let body = hq_request_body r;
                len = min (length body - hq_send_pos r) (send_buffer hl - length front);
                chunk = front @ take len (drop (hq_send_pos r) body);
                s = upd_req i (\<lambda>r. r\<lparr>hq_send_pos := hq_send_pos r + len\<rparr>) s;
                final = (length body \<le> hq_send_pos r + len)
            in (case (if final \<and> hq_multipart r then multipart_into hl None (send_buffer hl - length chunk) else Some []) of
                  None \<Rightarrow> (False, s)
                | Some back \<Rightarrow>
                    let data = chunk @ back in
                    (hl_write hl data = int (length data), s\<lparr>h_written := h_written s @ [(i, data, final)]\<rparr>)))"

section \<open>The callback\<close>

text \<open>The reasons that concern one request, with what the library answers.\<close>

datatype http_reason =
    H_VERIFY_CERTS
  | H_ESTABLISHED int
  | H_APPEND_HANDSHAKE_HEADER bool
  | H_RECEIVE_READ "byte list"
  | H_RECEIVE bool
  | H_COMPLETED "string option" "string option" "string option"
  | H_CLOSED
  | H_CONNECTION_ERROR
  | H_WRITEABLE bool
  | H_WSI_DESTROY
  | H_CERT_VERIFICATION
  | H_OTHER

datatype http_ret = Ret int | Dummy

definition put_header :: "string \<Rightarrow> string option \<Rightarrow> (string \<times> string) list \<Rightarrow> (string \<times> string) list" where
  "put_header k v hs = (case v of None \<Rightarrow> hs | Some x \<Rightarrow> map_put k x hs)"

text \<open>What follows the switch: a request that is done ends its connection.\<close>

definition after_switch :: "nat \<Rightarrow> http_state \<Rightarrow> http_ret \<times> http_state" where
  "after_switch i s = (if hq_close_connection (h_reqs s i) then Ret (-1) else Dummy, s)"

fun http_callback :: "hlib \<Rightarrow> time \<Rightarrow> nat \<Rightarrow> http_reason \<Rightarrow> http_state \<Rightarrow> http_ret \<times> http_state" where
  "http_callback hl now i H_VERIFY_CERTS s = (Ret 0, s)"
| "http_callback hl now i (H_ESTABLISHED code) s = after_switch i (upd_req i (\<lambda>r. r\<lparr>hq_status := code\<rparr>) s)"
| "http_callback hl now i (H_APPEND_HANDSHAKE_HEADER redirected) s =
     (case handshake_headers hl (h_reqs s i) of
        None \<Rightarrow> (Ret (-1), s)
      | Some hs \<Rightarrow>
          let s = s\<lparr>h_headers_sent := h_headers_sent s @ [(i, hs)]\<rparr>
          in after_switch i
               (if hq_request_body (h_reqs s i) \<noteq> [] \<and> \<not> redirected then upd_req i (\<lambda>r. r\<lparr>hq_send_pos := 0\<rparr>) s else s))"
| "http_callback hl now i (H_RECEIVE_READ bs) s =
     (Ret 0, upd_req i (\<lambda>r. r\<lparr>hq_response_body := hq_response_body r @ bs\<rparr>) s)"
| "http_callback hl now i (H_RECEIVE ok) s = (if ok then Ret 0 else Ret (-1), s)"
| "http_callback hl now i (H_COMPLETED len typ auth) s =
     after_switch i (upd_req i (\<lambda>r. r\<lparr>hq_bad := hq_status r \<noteq> 200,
       hq_response_headers := put_header ''www-authenticate'' auth (put_header ''content-type'' typ
         (put_header ''content-length'' len (hq_response_headers r))), hq_close_connection := True\<rparr>) s)"
| "http_callback hl now i H_CLOSED s =
     after_switch i
       (upd_req i (\<lambda>r. r\<lparr>hq_close_connection := True\<rparr>)
         (respond i (upd_req i (\<lambda>r. stats_finalize now (r\<lparr>hq_bad := hq_status r \<noteq> 200\<rparr>)) s)))"
| "http_callback hl now i H_CONNECTION_ERROR s = after_switch i (on_connection_error now i s)"
| "http_callback hl now i (H_WRITEABLE redirected) s =
     (if redirected then after_switch i s
      else case on_writeable hl now i s of (ok, s) \<Rightarrow> (if ok then Ret 0 else Ret (-1), s))"
| "http_callback hl now i H_WSI_DESTROY s = (Ret 1, s\<lparr>h_conns := remove1 i (h_conns s)\<rparr>)"
| "http_callback hl now i H_CERT_VERIFICATION s = (Ret 0, s)"
| "http_callback hl now i H_OTHER s = after_switch i s"

section \<open>The client's side\<close>

definition http_start :: "bool \<Rightarrow> http_state \<Rightarrow> bool \<times> http_state" where
  "http_start created s =
     (if h_running s then (False, s)
      else if \<not> created then (False, s\<lparr>h_context := False\<rparr>)
      else (True, s\<lparr>h_context := True, h_running := True\<rparr>))"

definition http_stop :: "http_state \<Rightarrow> bool \<times> http_state" where
  "http_stop s = (True, s\<lparr>h_running := False, h_context := False\<rparr>)"

definition make :: "nat \<Rightarrow> http_state \<Rightarrow> bool \<times> http_state" where
  "make i s = (True, s\<lparr>h_queue := h_queue s @ [i]\<rparr>)"

text \<open>
  \<open>make_blocked\<close> up to the wait and after it: \<open>woken\<close> is the state in which the wait ended, which is the
  state before it when the request is already closed then.
\<close>

definition make_blocked_enter :: "nat \<Rightarrow> http_state \<Rightarrow> http_state" where
  "make_blocked_enter i s = snd (make i (upd_req i (\<lambda>r. r\<lparr>hq_response_headers := [], hq_response_body := []\<rparr>) s))"

definition make_blocked_leave :: "nat \<Rightarrow> http_state \<Rightarrow> bool \<times> http_state" where
  "make_blocked_leave i s =
     (if hq_close_connection (h_reqs s i) then (True, s)
      else (False, upd_req i (\<lambda>r. r\<lparr>hq_close_connection := True\<rparr>) s))"

definition http_get :: "nat \<Rightarrow> http_state \<Rightarrow> http_state" where
  "http_get i s = make_blocked_enter i (upd_req i (\<lambda>r. r\<lparr>hq_method := ''GET''\<rparr>) s)"

definition http_post :: "nat \<Rightarrow> http_state \<Rightarrow> http_state" where
  "http_post i s = make_blocked_enter i (upd_req i (\<lambda>r. r\<lparr>hq_method := ''POST''\<rparr>) s)"


section \<open>Runs of the client\<close>

text \<open>
  What the library promises: the callback comes with requests that have a connection, and the end of a
  connection is reported exactly once before the connection is destroyed; \<open>es\<close> are the requests whose end it
  has reported.
\<close>

definition responded :: "http_state \<Rightarrow> nat set" where
  "responded s = fst ` set (h_responses s)"

definition reports_end :: "http_reason \<Rightarrow> bool" where
  "reports_end reason \<longleftrightarrow> reason = H_CLOSED \<or> reason = H_CONNECTION_ERROR"

definition lws_allows :: "nat \<Rightarrow> http_reason \<Rightarrow> nat set \<Rightarrow> nat set \<Rightarrow> bool" where
  "lws_allows i reason conns es \<longleftrightarrow> i \<in> conns \<and> (reports_end reason \<longrightarrow> i \<notin> es) \<and> (reason = H_WSI_DESTROY \<longrightarrow> i \<in> es)"

inductive http_run :: "hlib \<Rightarrow> nat list \<Rightarrow> nat set \<Rightarrow> http_state \<Rightarrow> bool" for hl where
  run_init: "h_queue s = [] \<Longrightarrow> h_conns s = [] \<Longrightarrow> h_responses s = [] \<Longrightarrow> http_run hl [] {} s"
| run_make: "http_run hl ms es s \<Longrightarrow> i \<notin> set ms \<Longrightarrow> http_run hl (i # ms) es (snd (make i (upd_req i f s)))"
| run_open: "http_run hl ms es s \<Longrightarrow> http_run hl ms es (on_wait_cancelled hl now s)"
| run_event: "http_run hl ms es s \<Longrightarrow> lws_allows i reason (set (h_conns s)) es \<Longrightarrow>
    http_run hl ms (if reports_end reason then insert i es else es) (snd (http_callback hl now i reason s))"
| run_start: "http_run hl ms es s \<Longrightarrow> http_run hl ms es (snd (http_start b s))"

definition http_inv :: "nat list \<Rightarrow> nat set \<Rightarrow> http_state \<Rightarrow> bool" where
  "http_inv ms es s \<longleftrightarrow> distinct (map fst (h_responses s)) \<and> distinct (h_queue s) \<and> distinct (h_conns s) \<and>
     set ms = set (h_queue s) \<union> set (h_conns s) \<union> responded s \<and>
     set (h_queue s) \<inter> (set (h_conns s) \<union> responded s) = {} \<and>
     es \<subseteq> responded s \<and> set (h_conns s) \<inter> responded s \<subseteq> es"

lemma upd_req_frame [simp]:
  "h_queue (upd_req i f s) = h_queue s" "h_conns (upd_req i f s) = h_conns s" "h_responses (upd_req i f s) = h_responses s"
  "h_written (upd_req i f s) = h_written s" "h_reqs (upd_req i f s) j = (if j = i then f (h_reqs s i) else h_reqs s j)"
  by (simp_all add: upd_req_def)

lemma respond_frame [simp]:
  "h_queue (respond i s) = h_queue s" "h_conns (respond i s) = h_conns s" "h_reqs (respond i s) = h_reqs s"
  "map fst (h_responses (respond i s)) = map fst (h_responses s) @ [i]" "responded (respond i s) = insert i (responded s)"
  by (simp_all add: respond_def responded_def)

lemma set_target_frame [simp]:
  "h_queue (set_target a b c p s) = h_queue s" "h_conns (set_target a b c p s) = h_conns s"
  "h_responses (set_target a b c p s) = h_responses s" "h_reqs (set_target a b c p s) = h_reqs s"
  by (simp_all add: set_target_def)

lemma http_inv_cong:
  "h_queue s' = h_queue s \<Longrightarrow> h_conns s' = h_conns s \<Longrightarrow> h_responses s' = h_responses s \<Longrightarrow> http_inv ms es s' = http_inv ms es s"
  by (simp add: http_inv_def responded_def)

lemma http_inv_upd [simp]: "http_inv ms es (upd_req i f s) = http_inv ms es s"
  by (simp add: http_inv_def responded_def)

lemma responded_upd [simp]: "responded (upd_req i f s) = responded s"
  by (simp add: responded_def)

lemma respond_inv: "http_inv ms es s \<Longrightarrow> i \<in> set (h_conns s) \<Longrightarrow> i \<notin> es \<Longrightarrow> http_inv ms (insert i es) (respond i s)"
  by (auto simp: http_inv_def responded_def respond_def)

text \<open>Opening the first request of the queue connects it or reports it.\<close>

lemma open_step_inv:
  assumes "http_inv ms es s" "h_queue s = i # is" "\<And>c. hl_connect hl c \<noteq> Connect_Failed True"
    and "do_request hl now i s = (ok, s')"
  shows "http_inv ms es ((if ok then s' else request_failed i s')\<lparr>h_queue := is\<rparr>)"
proof -
  have "if ok then h_conns s' = i # h_conns s \<and> h_responses s' = h_responses s else h_conns s' = h_conns s \<and> h_responses s' = h_responses s"
    using assms(3,4) by (auto simp: do_request_def Let_def split: if_splits option.splits prod.splits connect_result.splits)
  with assms(1,2) show ?thesis
    by (auto simp: http_inv_def responded_def request_failed_def respond_def split: if_splits)
qed

lemma do_request_queue [simp]: "h_queue (snd (do_request hl now i s)) = h_queue s"
  by (auto simp: do_request_def on_connection_error_def Let_def split: option.split connect_result.split)

lemma open_queued_inv:
  "http_inv ms es s \<Longrightarrow> h_queue s = is \<Longrightarrow> (\<And>c. hl_connect hl c \<noteq> Connect_Failed True) \<Longrightarrow> http_inv ms es (open_queued hl now is s)"
proof (induction "is" arbitrary: s)
  case (Cons i "is")
  obtain ok s' where d: "do_request hl now i s = (ok, s')" by fastforce
  have "http_inv ms es ((if ok then s' else request_failed i s')\<lparr>h_queue := is\<rparr>)"
    using open_step_inv Cons.prems d by blast
  then show ?case using Cons.IH [of "(if ok then s' else request_failed i s')\<lparr>h_queue := is\<rparr>"] Cons.prems d by simp
qed simp

lemma on_writeable_frame [simp]:
  "h_queue (snd (on_writeable hl now i s)) = h_queue s" "h_conns (snd (on_writeable hl now i s)) = h_conns s"
  "h_responses (snd (on_writeable hl now i s)) = h_responses s"
  by (auto simp: on_writeable_def Let_def split: option.split)

lemma event_inv:
  assumes inv: "http_inv ms es s" and a: "lws_allows i reason (set (h_conns s)) es"
  shows "http_inv ms (if reports_end reason then insert i es else es) (snd (http_callback hl now i reason s))"
proof -
  have r: "http_inv ms (insert i es) (respond i (upd_req i f s))" if "i \<notin> es" for f
    using that inv a by (intro respond_inv) (simp_all add: lws_allows_def)
  have hs: "http_inv ms es (s\<lparr>h_headers_sent := x\<rparr>) = http_inv ms es s" for x by (rule http_inv_cong) simp_all
  have w: "http_inv ms es (snd (on_writeable hl now i s)) = http_inv ms es s" by (rule http_inv_cong) simp_all
  show ?thesis
  proof (cases reason)
    case H_WSI_DESTROY
    then show ?thesis using inv a by (auto simp: http_inv_def lws_allows_def responded_def reports_end_def)
  qed (use inv a r in \<open>simp_all add: after_switch_def on_connection_error_def lws_allows_def reports_end_def hs w Let_def
      split_beta split: option.split\<close>)
qed

lemma http_run_inv: "http_run hl ms es s \<Longrightarrow> (\<And>c. hl_connect hl c \<noteq> Connect_Failed True) \<Longrightarrow> http_inv ms es s"
proof (induction rule: http_run.induct)
  case (run_init s)
  then show ?case by (simp add: http_inv_def responded_def)
next
  case (run_make ms es s i f)
  then show ?case by (auto simp: http_inv_def make_def responded_def)
next
  case (run_open ms es s now)
  then show ?case by (simp add: on_wait_cancelled_def open_queued_inv)
next
  case (run_event ms es s i reason now)
  then show ?case by (simp add: event_inv)
next
  case (run_start ms es s b)
  then show ?case by (simp add: http_start_def http_inv_def responded_def)
qed

section \<open>The body\<close>

text \<open>The chunks a body is cut into.\<close>

definition body_chunk :: "nat \<Rightarrow> byte list \<Rightarrow> nat \<Rightarrow> byte list" where
  "body_chunk cap body k = take cap (drop (k * cap) body)"

lemma concat_chunks: "concat (map (body_chunk cap body) [0..<n]) = take (n * cap) body"
proof (induction n)
  case (Suc n)
  then show ?case by (simp add: body_chunk_def take_add [symmetric] add.commute)
qed simp

definition plain_request :: "hreq \<Rightarrow> bool" where
  "plain_request r \<longleftrightarrow> \<not> hq_multipart r \<and> hq_max_upload_speed r = 0"

lemma stats_update_frame [simp]:
  "hq_request_body (stats_update now r) = hq_request_body r" "hq_send_pos (stats_update now r) = hq_send_pos r"
  "hq_multipart (stats_update now r) = hq_multipart r" "hq_max_upload_speed (stats_update now r) = hq_max_upload_speed r"
  by (simp_all add: stats_update_def Let_def)

lemma on_writeable_plain:
  fixes hl now i s
  defines "r \<equiv> h_reqs s i" and "s' \<equiv> snd (on_writeable hl now i s)"
  assumes "plain_request r" "hq_send_pos r = k * send_buffer hl" "k * send_buffer hl < length (hq_request_body r)"
    and "\<And>d. hl_write hl d = int (length d)"
  shows "fst (on_writeable hl now i s)" "plain_request (h_reqs s' i)" "hq_request_body (h_reqs s' i) = hq_request_body r"
    "hq_send_pos (h_reqs s' i) = min (Suc k * send_buffer hl) (length (hq_request_body r))"
    "h_written s' = h_written s @ [(i, body_chunk (send_buffer hl) (hq_request_body r) k,
       length (hq_request_body r) \<le> Suc k * send_buffer hl)]"
  using assms(3-6) unfolding r_def s'_def
  by (auto simp: on_writeable_def plain_request_def too_fast_def chunk_head_def body_chunk_def Let_def min_def)

text \<open>The library calls back for as long as there is more to write.\<close>

definition write_calls :: "hlib \<Rightarrow> nat \<Rightarrow> time list \<Rightarrow> http_state \<Rightarrow> http_state" where
  "write_calls hl i ts s = fold (\<lambda>now s. snd (on_writeable hl now i s)) ts s"

lemma write_calls_from:
  assumes "plain_request (h_reqs s i)" "hq_send_pos (h_reqs s i) = k * send_buffer hl"
    and "(k + length ts - 1) * send_buffer hl < length (hq_request_body (h_reqs s i))"
    and "\<And>d. hl_write hl d = int (length d)"
  shows "h_written (write_calls hl i ts s) = h_written s @
    map (\<lambda>k. (i, body_chunk (send_buffer hl) (hq_request_body (h_reqs s i)) k,
      length (hq_request_body (h_reqs s i)) \<le> Suc k * send_buffer hl)) [k..<k + length ts]"
  using assms(1-3)
proof (induction ts arbitrary: s k)
  case (Cons t ts)
  let ?b = "hq_request_body (h_reqs s i)" and ?s = "snd (on_writeable hl t i s)" and ?c = "send_buffer hl"
  have "k * ?c \<le> (k + length (t # ts) - 1) * ?c" by (rule mult_le_mono1) simp
  then have k: "k * ?c < length ?b" using Cons.prems(3) by linarith
  note w = on_writeable_plain [OF Cons.prems(1,2) k assms(4), of t]
  show ?case
  proof (cases ts)
    case Nil
    then show ?thesis using w by (simp add: write_calls_def)
  next
    case (Cons t' ts')
    have "Suc k * ?c \<le> (k + length (t # ts) - 1) * ?c" using Cons by (intro mult_le_mono1) simp
    then have "hq_send_pos (h_reqs ?s i) = Suc k * ?c" using w(4) Cons.prems(3) by simp
    then have "h_written (write_calls hl i ts ?s) = h_written ?s @
      map (\<lambda>k. (i, body_chunk ?c ?b k, length ?b \<le> Suc k * ?c)) [Suc k..<Suc k + length ts]"
      using Cons.IH [of ?s "Suc k"] w Cons.prems(3) by simp
    moreover have "[k..<k + length (t # ts)] = k # [Suc k..<Suc k + length ts]"
      by (simp add: upt_conv_Cons del: upt_Suc)
    ultimately show ?thesis using w(5) by (simp only: list.map) (simp add: write_calls_def del: upt_Suc)
  qed
qed (simp add: write_calls_def)

section \<open>Properties\<close>

definition write_count :: "nat \<Rightarrow> byte list \<Rightarrow> nat" where
  "write_count cap body = (length body + cap - 1) div cap"

lemma write_count_bounds:
  assumes "0 < cap" "body \<noteq> []"
  shows "0 < write_count cap body" "(write_count cap body - 1) * cap < length body" "length body \<le> write_count cap body * cap"
proof -
  define n where "n = write_count cap body"
  have l: "0 < length body" using assms(2) by simp
  have "n * cap \<le> length body + cap - 1" by (simp add: n_def write_count_def)
  moreover have u: "length body + cap - 1 < Suc n * cap"
    using assms(1) unfolding n_def write_count_def by (metis dividend_less_div_times mult_Suc)
  moreover show p: "0 < write_count cap body"
    using l assms(1) unfolding write_count_def by (intro div_greater_zero_iff [THEN iffD2] conjI) linarith+
  moreover have "(n - 1) * cap = n * cap - cap" "Suc n * cap = n * cap + cap" by (simp_all add: diff_mult_distrib)
  ultimately show "(write_count cap body - 1) * cap < length body" "length body \<le> write_count cap body * cap"
    using assms(1) l unfolding n_def [symmetric] by linarith+
qed


definition demo_hlib :: "bool \<Rightarrow> hlib" where
  "demo_hlib early = \<lparr>hl_pre = 16, hl_parse_uri = (\<lambda>_. Some (Some ''http'', Some ''h'', 80, None)),
     hl_connect = (\<lambda>_. if early then Connect_Failed True else Connecting), hl_basic_auth = (\<lambda>_ _. None), hl_add_header = (\<lambda>_ _. True),
     hl_multipart = (\<lambda>p. case p of None \<Rightarrow> [1, 2] | Some _ \<Rightarrow> [3]), hl_write = (\<lambda>d. int (length d))\<rparr>"

definition demo_http :: "hreq \<Rightarrow> http_state" where
  "demo_http r = \<lparr>h_context = True, h_running = True, h_allow_invalid_ssl = False, h_ssl = False, h_host = [], h_port = 0,
     h_path = [], h_reqs = (\<lambda>_. r), h_queue = [], h_conns = [], h_responses = [], h_headers_sent = [], h_written = []\<rparr>"


text \<open>
  C19: as long as the library does not report an error before it refuses a connection, every request gets
  its response exactly once: no request is answered twice, and one that is neither queued nor connected any
  more has been answered.
\<close>

theorem http_responds_once:
  assumes "http_run hl ms es s" "\<And>c. hl_connect hl c \<noteq> Connect_Failed True"
  shows "distinct (map fst (h_responses s)) \<and> fst ` set (h_responses s) \<subseteq> set ms \<and>
    (h_queue s = [] \<and> h_conns s = [] \<longrightarrow> fst ` set (h_responses s) = set ms)"
  using http_run_inv [OF assms] by (auto simp: http_inv_def responded_def)

theorem http_responds_once_witness:
  "\<exists>s. http_run (demo_hlib False) [0] {0} s \<and> h_responses s = [(0, [], 200)] \<and> distinct (map fst (h_responses s))"
proof -
  let ?hl = "demo_hlib False" and ?r = "hreq_new ''u'' ''PUT'' [7, 8] 30"
  let ?s = "on_wait_cancelled ?hl 1 (snd (make 0 (upd_req 0 id (demo_http ?r))))"
  let ?s1 = "snd (http_callback ?hl 2 0 (H_ESTABLISHED 200) ?s)"
  let ?s2 = "snd (http_callback ?hl 3 0 H_CLOSED ?s1)"
  have "http_run ?hl [] {} (demo_http ?r)" by (rule run_init) (simp_all add: demo_http_def)
  then have 1: "http_run ?hl [0] {} ?s" by (intro run_open run_make) simp_all
  have s: "h_conns ?s = [0]" "h_responses ?s = []" "hq_response_body (h_reqs ?s 0) = []"
    by (simp_all add: on_wait_cancelled_def make_def demo_http_def do_request_def demo_hlib_def hreq_new_def Let_def)
  have 2: "http_run ?hl [0] {} ?s1"
    using run_event [OF 1, of 0 "H_ESTABLISHED 200" 2] s by (simp add: lws_allows_def reports_end_def)
  have "http_run ?hl [0] {0} ?s2"
    using run_event [OF 2, of 0 H_CLOSED 3] s by (simp add: lws_allows_def reports_end_def after_switch_def)
  moreover have "h_responses ?s2 = [(0, [], 200)]"
    using s by (simp add: after_switch_def respond_def stats_finalize_def Let_def)
  moreover have "hl_connect ?hl c \<noteq> Connect_Failed True" for c by (simp add: demo_hlib_def)
  ultimately show ?thesis using http_responds_once by blast
qed

text \<open>
  a library that calls the error callback before it refuses a connection makes the client answer the
  request twice, first with the old status and then with \<open>-2\<close>.
\<close>

theorem refused_connection_answered_twice:
  assumes "h_queue s = [i]" "length (hq_url (h_reqs s i)) < 4096" "hl_parse_uri hl (hq_url (h_reqs s i)) \<noteq> None"
    and "\<And>c. hl_connect hl c = Connect_Failed True"
  shows "\<exists>b. h_responses (on_wait_cancelled hl now s) =
    h_responses s @ [(i, b, hq_status (h_reqs s i)), (i, b, -2)]"
  using assms by (auto simp: on_wait_cancelled_def do_request_def on_connection_error_def request_failed_def respond_def
      stats_finalize_def Let_def)

theorem refused_connection_answered_twice_witness:
  "\<exists>b. h_responses (on_wait_cancelled (demo_hlib True) 1 ((demo_http (hreq_new ''u'' ''PUT'' [7, 8] 30))\<lparr>h_queue := [0]\<rparr>)) =
    [(0, b, -1), (0, b, -2)]"
  using refused_connection_answered_twice [of "(demo_http (hreq_new ''u'' ''PUT'' [7, 8] 30))\<lparr>h_queue := [0]\<rparr>" 0 "demo_hlib True" 1]
  by (simp add: demo_http_def hreq_new_def demo_hlib_def)

text \<open>
  a multipart upload whose head and body fill the buffer so that its end does not fit is broken off, although
  its length was announced.
\<close>

theorem multipart_end_does_not_fit:
  assumes "hq_multipart (h_reqs s i)" "hq_send_pos (h_reqs s i) = 0" "hq_max_upload_speed (h_reqs s i) = 0"
    and "length (hl_multipart hl (multipart_head (h_reqs s i))) + length (hl_multipart hl None) \<le> send_buffer hl"
    and "length (hl_multipart hl (multipart_head (h_reqs s i))) + length (hq_request_body (h_reqs s i)) \<le> send_buffer hl"
    and "send_buffer hl < length (hl_multipart hl (multipart_head (h_reqs s i))) + length (hq_request_body (h_reqs s i)) +
      length (hl_multipart hl None)"
  shows "content_length hl (h_reqs s i) \<noteq> None \<and> \<not> fst (on_writeable hl now i s)"
proof -
  have h: "multipart_head (stats_update now r) = multipart_head r" for r
    by (simp add: multipart_head_def stats_update_def Let_def)
  show ?thesis
    using assms by (auto simp: content_length_def multipart_into_def on_writeable_def too_fast_def chunk_head_def h Let_def)
qed

end
