(* ===== verification/Media_Queue.thy ===== *)
theory Media_Queue
  imports Vxg_Prelude "HOL-Library.Sublist"
begin

text \<open>
  The queue between the thread of a media source and the thread of a sink: the template \<^verbatim>\<open>Queue\<close> and the
  class \<^verbatim>\<open>MediaFrameQueue\<close> of \<^verbatim>\<open>src/src/streamer/base_streamer.h\<close>, with the media frames. The methods hold the
  mutex of the queue, so each is one step, except that a wait on the condition variable lets other threads in:
  a pusher first looks at the flushing flag and then waits, and the two are separate steps of \<open>qstep\<close>.
\<close>

section \<open>Media frames\<close>

datatype drop_direction = DROP_FRONT | DROP_BACK

datatype stream_error = E_NONE | E_FATAL | E_EOS

datatype frame_type =
    UKNOWN | VIDEO | VIDEO_AVC_SPS | VIDEO_AVC_PPS | VIDEO_SEQ_HDR | AUDIO | AUDIO_SEQ_HDR | FLV | DATA

record media_frame =
  mf_data :: "byte list"
  mf_len :: nat
  mf_pts :: int
  mf_dts :: int
  mf_duration :: int
  mf_is_key :: bool
  mf_type :: frame_type
  mf_timescale :: "int \<times> int"
  mf_time_realtime :: int

definition NO_PTS :: int where
  "NO_PTS = - (2 ^ 63)"

section \<open>The queue\<close>

text \<open>An item is a pointer, \<open>None\<close> the null pointer. The last two fields count the frames the queue dropped.\<close>

record 'a mqueue =
  q_items :: "'a option list"
  q_wait_video_key :: bool
  q_drop :: bool
  q_drop_direction :: drop_direction
  q_flushing :: bool
  q_eos :: bool
  q_video_dropped :: nat
  q_audio_dropped :: nat

text \<open>The virtual method \<open>_can_drop\<close>; it may change the flags of the queue.\<close>

type_synonym 'a can_drop = "bool \<Rightarrow> 'a option \<Rightarrow> 'a mqueue \<Rightarrow> bool \<times> 'a mqueue"

definition queue_new :: "bool \<Rightarrow> drop_direction \<Rightarrow> 'a mqueue" where
  "queue_new drp dir = \<lparr>q_items = [], q_wait_video_key = False, q_drop = drp, q_drop_direction = dir,
     q_flushing = False, q_eos = False, q_video_dropped = 0, q_audio_dropped = 0\<rparr>"

definition max_items :: nat where
  "max_items = 90"

definition queue_full :: "'a mqueue \<Rightarrow> bool" where
  "queue_full q \<longleftrightarrow> length (q_items q) \<ge> max_items"

definition queue_size :: "'a mqueue \<Rightarrow> nat" where
  "queue_size q = length (q_items q)"

definition queue_front :: "'a mqueue \<Rightarrow> 'a option option" where
  "queue_front q = (case q_items q of [] \<Rightarrow> None | x # _ \<Rightarrow> Some x)"

text \<open>\<open>pop\<close>: the condition it waits for, and what it does then.\<close>

definition pop_ready :: "'a mqueue \<Rightarrow> bool" where
  "pop_ready q \<longleftrightarrow> q_items q \<noteq> [] \<or> q_flushing q \<or> q_eos q"

definition queue_pop :: "'a mqueue \<Rightarrow> 'a option \<times> 'a mqueue" where
  "queue_pop q = (case q_items q of [] \<Rightarrow> (None, q) | x # xs \<Rightarrow> (x, q\<lparr>q_items := xs\<rparr>))"

text \<open>The overload that returns through a reference waits and answers differently.\<close>

definition pop_into_ready :: "'a mqueue \<Rightarrow> bool" where
  "pop_into_ready q \<longleftrightarrow> q_items q \<noteq> [] \<or> q_flushing q"

definition queue_pop_into :: "'a mqueue \<Rightarrow> 'a option \<times> 'a mqueue" where
  "queue_pop_into q =
     (case q_items q of x # xs \<Rightarrow> if q_flushing q then (None, q) else (x, q\<lparr>q_items := xs\<rparr>) | [] \<Rightarrow> (None, q))"

text \<open>The loop of \<open>push\<close> that drops from the front; \<open>full\<close> is asked again each time.\<close>

fun drop_old :: "'a can_drop \<Rightarrow> 'a option list \<Rightarrow> 'a mqueue \<Rightarrow> 'a mqueue" where
  "drop_old cd [] q = q\<lparr>q_items := []\<rparr>"
| "drop_old cd (x # xs) q =
     (case cd (length (x # xs) \<ge> max_items) x q of (d, q) \<Rightarrow>
        if d then drop_old cd xs (q\<lparr>q_items := xs\<rparr>) else q\<lparr>q_items := x # xs\<rparr>)"

definition push_ready :: "'a mqueue \<Rightarrow> bool" where
  "push_ready q \<longleftrightarrow> \<not> queue_full q \<or> q_drop q"

definition push_item :: "'a can_drop \<Rightarrow> 'a option \<Rightarrow> 'a mqueue \<Rightarrow> 'a mqueue" where
  "push_item cd x q =
     (case q_drop_direction q of
        DROP_BACK \<Rightarrow> (case cd (queue_full q) x q of (d, q) \<Rightarrow> if d then q else q\<lparr>q_items := q_items q @ [x]\<rparr>)
      | DROP_FRONT \<Rightarrow> (let q = drop_old cd (q_items q) q in q\<lparr>q_items := q_items q @ [x]\<rparr>))"

text \<open>\<open>push\<close> of a constant reference in one go; \<open>None\<close> when it has to wait.\<close>

definition queue_push :: "'a can_drop \<Rightarrow> 'a option \<Rightarrow> 'a mqueue \<Rightarrow> 'a mqueue option" where
  "queue_push cd x q = (if q_flushing q then Some q else if push_ready q then Some (push_item cd x q) else None)"

text \<open>
  \<open>push\<close> of a temporary: \<open>full\<close> is a local copy that the wait condition holds fixed, the condition is the
  opposite one, and the drop directions are exchanged.
\<close>

fun drop_old_move :: "'a can_drop \<Rightarrow> bool \<Rightarrow> 'a option list \<Rightarrow> 'a mqueue \<Rightarrow> 'a mqueue" where
  "drop_old_move cd full [] q = q\<lparr>q_items := []\<rparr>"
| "drop_old_move cd full (x # xs) q =
     (case cd full x q of (d, q) \<Rightarrow>
        if d then drop_old_move cd False xs (q\<lparr>q_items := xs\<rparr>) else q\<lparr>q_items := x # xs\<rparr>)"

definition queue_push_move :: "'a can_drop \<Rightarrow> 'a option \<Rightarrow> 'a mqueue \<Rightarrow> 'a mqueue option" where
  "queue_push_move cd x q =
     (if q_flushing q then Some q
      else if queue_full q \<and> \<not> q_drop q then
        Some (case q_drop_direction q of
            DROP_FRONT \<Rightarrow> (case cd (queue_full q) x q of (d, q) \<Rightarrow> if d then q else q\<lparr>q_items := q_items q @ [x]\<rparr>)
          | DROP_BACK \<Rightarrow> (let q = drop_old_move cd (queue_full q) (q_items q) q in q\<lparr>q_items := q_items q @ [x]\<rparr>))
      else None)"

definition queue_flush :: "'a mqueue \<Rightarrow> 'a mqueue" where
  "queue_flush q = q\<lparr>q_flushing := True, q_items := []\<rparr>"

definition queue_flush_stop :: "'a mqueue \<Rightarrow> 'a mqueue" where
  "queue_flush_stop q = q\<lparr>q_flushing := False\<rparr>"

definition queue_set_eos :: "bool \<Rightarrow> 'a mqueue \<Rightarrow> 'a mqueue" where
  "queue_set_eos b q = q\<lparr>q_eos := b\<rparr>"

text \<open>\<open>Queue::_can_drop\<close> and \<open>MediaFrameQueue::_can_drop\<close>.\<close>

definition never_drop :: "'a can_drop" where
  "never_drop full x q = (False, q)"

definition is_video :: "media_frame option \<Rightarrow> bool" where
  "is_video x = (case x of None \<Rightarrow> False | Some f \<Rightarrow> mf_type f \<in> {VIDEO_AVC_SPS, VIDEO_SEQ_HDR, VIDEO})"

definition is_key :: "media_frame option \<Rightarrow> bool" where
  "is_key x = (case x of None \<Rightarrow> False | Some f \<Rightarrow> mf_is_key f)"

definition frame_can_drop :: "media_frame can_drop" where
  "frame_can_drop full x q =
     (if q_drop q \<and> (full \<or> is_video x \<and> q_wait_video_key q) then
        if is_video x then
          let (w, d) = (if \<not> full then (\<not> is_key x, \<not> is_key x) else (True, True))
          in (d, q\<lparr>q_wait_video_key := w, q_video_dropped := q_video_dropped q + (if d then 1 else 0)\<rparr>)
        else if full then (True, q\<lparr>q_audio_dropped := q_audio_dropped q + 1\<rparr>)
        else (False, q)
      else (False, q))"

section \<open>Policies of dropping\<close>

text \<open>What the queue relies on: the method leaves the items and the settings alone and drops only if allowed.\<close>

locale drop_policy =
  fixes cd :: "'a can_drop"
  assumes cd_items [simp]: "q_items (snd (cd full x q)) = q_items q"
    and cd_drop [simp]: "q_drop (snd (cd full x q)) = q_drop q"
    and cd_direction [simp]: "q_drop_direction (snd (cd full x q)) = q_drop_direction q"
    and cd_flushing [simp]: "q_flushing (snd (cd full x q)) = q_flushing q"
    and cd_allowed: "fst (cd full x q) \<Longrightarrow> q_drop q"
begin

lemma drop_old_suffix: "suffix (q_items (drop_old cd xs q)) xs"
proof (induction xs arbitrary: q)
  case (Cons x xs)
  then show ?case by (auto simp: suffix_ConsI split: prod.split)
qed simp

lemma drop_old_frame [simp]:
  "q_drop (drop_old cd xs q) = q_drop q" "q_drop_direction (drop_old cd xs q) = q_drop_direction q"
  "q_flushing (drop_old cd xs q) = q_flushing q"
  by (induction xs arbitrary: q) (simp_all add: split_beta)

lemma drop_old_kept: "\<not> q_drop q \<Longrightarrow> q_items (drop_old cd xs q) = xs"
proof (cases xs)
  case (Cons x ys)
  assume "\<not> q_drop q"
  then have "\<not> fst (cd (length xs \<ge> max_items) x q)" using cd_allowed by blast
  then show ?thesis using Cons by (auto split: prod.split)
qed simp

text \<open>Pushing keeps the order: it removes items and appends the new one, or nothing.\<close>

lemma push_subseq: "subseq (q_items (push_item cd x q)) (q_items q @ [x])"
proof (cases "q_drop_direction q")
  case DROP_FRONT
  then show ?thesis
    using drop_old_suffix [of "q_items q" q] by (simp add: push_item_def Let_def suffix_imp_subseq)
next
  case DROP_BACK
  show ?thesis
    using DROP_BACK by (simp add: push_item_def split_beta subseq_rev_drop_many)
qed

lemma push_settings [simp]:
  "q_drop (push_item cd x q) = q_drop q" "q_drop_direction (push_item cd x q) = q_drop_direction q"
  "q_flushing (push_item cd x q) = q_flushing q"
  by (simp_all add: push_item_def Let_def split_beta split: drop_direction.split)

lemma push_kept: "\<not> q_drop q \<Longrightarrow> q_items (push_item cd x q) = q_items q @ [x]"
  using cd_allowed [of "queue_full q" x q]
  by (auto simp: push_item_def Let_def drop_old_kept split_beta split: drop_direction.split)

end

text \<open>A policy that gives way whenever the queue is full.\<close>

locale bounding_policy = drop_policy +
  assumes cd_full: "q_drop q \<Longrightarrow> fst (cd True x q)"
begin

lemma drop_old_room: "q_drop q \<Longrightarrow> length (q_items (drop_old cd xs q)) < max_items"
proof (induction xs arbitrary: q)
  case Nil
  then show ?case by (simp add: max_items_def)
next
  case (Cons x xs)
  then show ?case using cd_full [of q x] by (cases "length (x # xs) \<ge> max_items") (auto simp: split_beta)
qed

lemma push_bounded:
  assumes "push_ready q" "length (q_items q) \<le> max_items"
  shows "length (q_items (push_item cd x q)) \<le> max_items"
proof (cases "q_drop q")
  case True
  then show ?thesis
    using assms cd_full [of q x] drop_old_room [OF True, of "q_items q"]
    by (cases "queue_full q") (auto simp: push_item_def Let_def split_beta queue_full_def split: drop_direction.split)
next
  case False
  then show ?thesis using assms by (simp add: push_kept push_ready_def queue_full_def)
qed

end

text \<open>A policy that counts what it drops.\<close>

definition q_dropped :: "'a mqueue \<Rightarrow> nat" where
  "q_dropped q = q_video_dropped q + q_audio_dropped q"

lemma q_dropped_items [simp]: "q_dropped (q\<lparr>q_items := xs\<rparr>) = q_dropped q"
  by (simp add: q_dropped_def)

locale counting_policy = drop_policy +
  assumes cd_counts: "q_dropped (snd (cd full x q)) = q_dropped q + (if fst (cd full x q) then 1 else 0)"
begin

lemma drop_old_counts: "length (q_items (drop_old cd xs q)) + q_dropped (drop_old cd xs q) = length xs + q_dropped q"
  by (induction xs arbitrary: q) (auto simp: split_beta cd_counts)

lemma push_counts:
  "length (q_items (push_item cd x q)) + q_dropped (push_item cd x q) = length (q_items q) + q_dropped q + 1"
  using drop_old_counts [of "q_items q" q]
  by (auto simp: push_item_def Let_def split_beta cd_counts split: drop_direction.split)

end

interpretation plain: counting_policy never_drop
  by unfold_locales (simp_all add: never_drop_def)

interpretation frames: bounding_policy frame_can_drop
  by unfold_locales (auto simp: frame_can_drop_def Let_def split: if_splits)

interpretation frames: counting_policy frame_can_drop
  by unfold_locales (auto simp: frame_can_drop_def q_dropped_def Let_def split: if_splits)

section \<open>Threads on a queue\<close>

text \<open>
  Any number of threads that push, pop, flush and end the stream: \<open>qs_waiting\<close> are the items whose pushers have
  passed the test of the flushing flag, \<open>qs_pushed\<close> the items in the order in which they were put in, \<open>qs_popped\<close>
  what was taken out, \<open>qs_flushed\<close> how many items were flushed.
\<close>

record 'a qsys =
  qs_queue :: "'a mqueue"
  qs_waiting :: "'a option list"
  qs_pushed :: "'a option list"
  qs_popped :: "'a option list"
  qs_flushed :: nat

inductive qstep :: "'a can_drop \<Rightarrow> 'a qsys \<Rightarrow> 'a qsys \<Rightarrow> bool" for cd where
  push_enter: "\<not> q_flushing (qs_queue s) \<Longrightarrow> qstep cd s (s\<lparr>qs_waiting := x # qs_waiting s\<rparr>)"
| push_done: "x \<in> set (qs_waiting s) \<Longrightarrow> push_ready (qs_queue s) \<Longrightarrow>
    qstep cd s (s\<lparr>qs_queue := push_item cd x (qs_queue s), qs_waiting := remove1 x (qs_waiting s),
      qs_pushed := qs_pushed s @ [x]\<rparr>)"
| pop: "q_items (qs_queue s) \<noteq> [] \<Longrightarrow>
    qstep cd s (s\<lparr>qs_queue := snd (queue_pop (qs_queue s)), qs_popped := qs_popped s @ [fst (queue_pop (qs_queue s))]\<rparr>)"
| flush: "qstep cd s (s\<lparr>qs_queue := queue_flush (qs_queue s), qs_flushed := qs_flushed s + queue_size (qs_queue s)\<rparr>)"
| flush_stop: "qstep cd s (s\<lparr>qs_queue := queue_flush_stop (qs_queue s)\<rparr>)"
| set_eos: "qstep cd s (s\<lparr>qs_queue := queue_set_eos b (qs_queue s)\<rparr>)"

definition qsys_new :: "bool \<Rightarrow> drop_direction \<Rightarrow> 'a qsys" where
  "qsys_new drp dir = \<lparr>qs_queue = queue_new drp dir, qs_waiting = [], qs_pushed = [], qs_popped = [], qs_flushed = 0\<rparr>"

context drop_policy
begin

text \<open>What came out and what is still in the queue is, in order, part of what was put in.\<close>

lemma qstep_order:
  assumes "qstep cd s s'" "subseq (qs_popped s @ q_items (qs_queue s)) (qs_pushed s)"
  shows "subseq (qs_popped s' @ q_items (qs_queue s')) (qs_pushed s')"
  using assms
proof cases
  case (push_done x)
  have "subseq (qs_popped s @ q_items (push_item cd x (qs_queue s))) (qs_popped s @ q_items (qs_queue s) @ [x])"
    by (intro list_emb_append_mono push_subseq) simp
  also have "subseq \<dots> (qs_pushed s @ [x])" using list_emb_append_mono [OF assms(2), of "[x]" "[x]"] by simp
  finally show ?thesis using push_done by simp
next
  case flush
  then show ?thesis
    using subseq_order.trans [OF _ assms(2), of "qs_popped s"] by (simp add: queue_flush_def subseq_rev_drop_many)
qed (use assms(2) in \<open>auto simp: queue_pop_def queue_flush_stop_def queue_set_eos_def neq_Nil_conv\<close>)

lemma qsteps_order:
  assumes "(qstep cd)\<^sup>*\<^sup>* (qsys_new drp dir) s"
  shows "subseq (qs_popped s @ q_items (qs_queue s)) (qs_pushed s)"
  using assms by (induction rule: rtranclp_induct) (auto simp: qsys_new_def queue_new_def qstep_order)

lemma qstep_settings:
  assumes "qstep cd s s'"
  shows "q_drop (qs_queue s') = q_drop (qs_queue s)"
  using assms by cases (auto simp: queue_pop_def queue_flush_def queue_flush_stop_def queue_set_eos_def split: list.split)

end

context bounding_policy
begin

lemma qsteps_bounded:
  assumes "(qstep cd)\<^sup>*\<^sup>* (qsys_new drp dir) s"
  shows "length (q_items (qs_queue s)) \<le> max_items"
  using assms
proof (induction rule: rtranclp_induct)
  case (step s s')
  from step(2,3) show ?case
    by cases (auto simp: push_bounded queue_pop_def queue_flush_def queue_flush_stop_def queue_set_eos_def split: list.split)
qed (simp add: qsys_new_def queue_new_def)

end

context counting_policy
begin

lemma qsteps_counted:
  assumes "(qstep cd)\<^sup>*\<^sup>* (qsys_new drp dir) s"
  shows "length (qs_pushed s) =
    length (qs_popped s) + length (q_items (qs_queue s)) + q_dropped (qs_queue s) + qs_flushed s"
  using assms
proof (induction rule: rtranclp_induct)
  case (step s s')
  from step(2,3) show ?case
  proof cases
    case (push_done x)
    then show ?thesis using step(3) push_counts [of x "qs_queue s"] by simp
  qed (use step(3) in \<open>auto simp: queue_pop_def queue_flush_def queue_flush_stop_def queue_set_eos_def queue_size_def
      q_dropped_def neq_Nil_conv\<close>)
qed (simp add: qsys_new_def queue_new_def q_dropped_def)

lemma qstep_keeps:
  assumes "qstep cd s s'" "\<not> q_drop (qs_queue s)"
  shows "q_dropped (qs_queue s') = q_dropped (qs_queue s)"
  using assms
proof cases
  case (push_done x)
  then show ?thesis using assms(2) push_counts [of x "qs_queue s"] push_kept [of "qs_queue s" x] by simp
qed (auto simp: queue_pop_def queue_flush_def queue_flush_stop_def queue_set_eos_def q_dropped_def split: list.split)

lemma qsteps_keep:
  assumes "(qstep cd)\<^sup>*\<^sup>* (qsys_new False dir) s"
  shows "\<not> q_drop (qs_queue s) \<and> q_dropped (qs_queue s) = 0"
  using assms
proof (induction rule: rtranclp_induct)
  case base
  then show ?case by (simp add: qsys_new_def queue_new_def q_dropped_def)
next
  case (step s s')
  then show ?case by (simp add: qstep_settings qstep_keeps)
qed

end

section \<open>The frame queue\<close>

text \<open>
  C13: whatever threads do with a frame queue, it holds at most \<open>max_items\<close> frames, its frames come out in the
  order in which they went in, every frame that went in came out, is still there, was counted as dropped or was
  flushed, and a queue that may not drop and was not flushed loses none.
\<close>

theorem frame_queue_delivers:
  assumes "(qstep frame_can_drop)\<^sup>*\<^sup>* (qsys_new drp dir) s"
  shows "length (q_items (qs_queue s)) \<le> max_items \<and>
    subseq (qs_popped s @ q_items (qs_queue s)) (qs_pushed s) \<and>
    length (qs_pushed s) = length (qs_popped s) + length (q_items (qs_queue s)) +
      q_video_dropped (qs_queue s) + q_audio_dropped (qs_queue s) + qs_flushed s \<and>
    (\<not> drp \<and> qs_flushed s = 0 \<longrightarrow> qs_popped s @ q_items (qs_queue s) = qs_pushed s)"
proof -
  have o: "subseq (qs_popped s @ q_items (qs_queue s)) (qs_pushed s)" by (rule frames.qsteps_order [OF assms])
  have n: "length (qs_pushed s) = length (qs_popped s) + length (q_items (qs_queue s)) + q_dropped (qs_queue s) + qs_flushed s"
    by (rule frames.qsteps_counted [OF assms])
  have "qs_popped s @ q_items (qs_queue s) = qs_pushed s" if "\<not> drp" "qs_flushed s = 0"
    using frames.qsteps_keep [of dir s] assms that n o by (intro subseq_same_length) auto
  then show ?thesis using frames.qsteps_bounded [OF assms] o n by (simp add: q_dropped_def)
qed

text \<open>Runs are built step by step; pushing without waiting and popping are two of them.\<close>

lemma qrun_push:
  assumes "(qstep cd)\<^sup>*\<^sup>* s0 s" "\<not> q_flushing (qs_queue s)" "push_ready (qs_queue s)" "qs_waiting s = []"
  shows "(qstep cd)\<^sup>*\<^sup>* s0 (s\<lparr>qs_queue := push_item cd x (qs_queue s), qs_pushed := qs_pushed s @ [x]\<rparr>)"
proof -
  let ?t = "s\<lparr>qs_waiting := [x]\<rparr>"
  have "qstep cd s ?t" using push_enter [of s cd x] assms by simp
  moreover have "qstep cd ?t (?t\<lparr>qs_queue := push_item cd x (qs_queue s), qs_waiting := [], qs_pushed := qs_pushed s @ [x]\<rparr>)"
    using push_done [of x ?t cd] assms by simp
  moreover have "?t\<lparr>qs_queue := push_item cd x (qs_queue s), qs_waiting := [], qs_pushed := qs_pushed s @ [x]\<rparr> =
      s\<lparr>qs_queue := push_item cd x (qs_queue s), qs_pushed := qs_pushed s @ [x]\<rparr>"
    using assms(4) by simp
  ultimately show ?thesis using assms(1) by (metis (no_types, lifting) rtranclp.rtrancl_into_rtrancl)
qed

theorem frame_queue_delivers_witness:
  "\<exists>s. (qstep frame_can_drop)\<^sup>*\<^sup>* (qsys_new False DROP_FRONT) s \<and> qs_popped s @ q_items (qs_queue s) = [None, None] \<and>
     qs_pushed s = [None, None]"
proof -
  let ?s0 = "qsys_new False DROP_FRONT :: media_frame qsys"
  let ?p = "\<lambda>s. s\<lparr>qs_queue := push_item frame_can_drop None (qs_queue s), qs_pushed := qs_pushed s @ [None]\<rparr>"
  have q: "qs_waiting (?p ?s0) = []" "\<not> q_flushing (qs_queue (?p ?s0))" "push_ready (qs_queue (?p ?s0))" "push_ready (qs_queue ?s0)"
    by (simp_all add: qsys_new_def queue_new_def push_ready_def queue_full_def max_items_def push_item_def)
  have 1: "(qstep frame_can_drop)\<^sup>*\<^sup>* ?s0 (?p ?s0)"
    by (rule qrun_push) (use q in \<open>simp_all add: qsys_new_def queue_new_def\<close>)
  have 2: "(qstep frame_can_drop)\<^sup>*\<^sup>* ?s0 (?p (?p ?s0))" by (rule qrun_push [OF 1]) (use q in simp_all)
  have "qs_pushed (?p (?p ?s0)) = [None, None]" "qs_flushed (?p (?p ?s0)) = 0" by (simp_all add: qsys_new_def)
  then show ?thesis using 2 frame_queue_delivers [OF 2] by metis
qed

text \<open>What dropping from the front leaves, in closed form.\<close>

definition not_resumable :: "media_frame option \<Rightarrow> bool" where
  "not_resumable x \<longleftrightarrow> is_video x \<and> \<not> is_key x"

definition frames_after_push :: "media_frame option list \<Rightarrow> bool \<Rightarrow> media_frame option list" where
  "frames_after_push xs waiting =
     (let full = (length xs \<ge> max_items); rest = (if full then tl xs else xs)
      in if waiting \<or> full \<and> is_video (hd xs) then dropWhile not_resumable rest else rest)"

lemma frame_can_drop_room:
  "q_drop q \<Longrightarrow> frame_can_drop False x q =
     (q_wait_video_key q \<and> not_resumable x, q\<lparr>q_wait_video_key := q_wait_video_key q \<and> (is_video x \<longrightarrow> \<not> is_key x),
        q_video_dropped := q_video_dropped q + (if q_wait_video_key q \<and> not_resumable x then 1 else 0)\<rparr>)"
  by (auto simp: frame_can_drop_def not_resumable_def Let_def)

lemma drop_old_frames_room:
  assumes "q_drop q" "length xs < max_items"
  shows "q_items (drop_old frame_can_drop xs q) = (if q_wait_video_key q then dropWhile not_resumable xs else xs)"
  using assms
proof (induction xs arbitrary: q)
  case (Cons x xs)
  then have "not_resumable x \<Longrightarrow> is_video x \<and> \<not> is_key x" "\<not> max_items \<le> Suc (length xs)"
    by (simp_all add: not_resumable_def)
  with Cons show ?case by (auto simp: frame_can_drop_room)
qed simp

lemma push_frames:
  assumes "q_drop q" "q_drop_direction q = DROP_FRONT" "length (q_items q) \<le> max_items"
  shows "q_items (push_item frame_can_drop x q) = frames_after_push (q_items q) (q_wait_video_key q) @ [x]"
proof (cases "length (q_items q) \<ge> max_items")
  case True
  then obtain y ys where i: "q_items q = y # ys" by (cases "q_items q") (auto simp: max_items_def)
  let ?q = "snd (frame_can_drop True y q)\<lparr>q_items := ys\<rparr>"
  have "q_items (drop_old frame_can_drop ys ?q) = (if q_wait_video_key ?q then dropWhile not_resumable ys else ys)"
    by (rule drop_old_frames_room) (use assms True i in simp_all)
  moreover have "q_wait_video_key ?q \<longleftrightarrow> q_wait_video_key q \<or> is_video y" using assms(1) by (auto simp: frame_can_drop_def Let_def)
  ultimately show ?thesis
    using True assms i frames.cd_full [OF assms(1), of y] by (simp add: push_item_def frames_after_push_def Let_def split_beta)
next
  case False
  then show ?thesis
    using assms drop_old_frames_room [OF assms(1), of "q_items q"] by (simp add: push_item_def frames_after_push_def Let_def)
qed

text \<open>
  C14: in a queue that drops its oldest frames, putting in a frame removes exactly this: the front if the queue
  is full, and then, if a video frame was lost and no key frame has been seen since, the video frames up to
  the next key frame or the next frame that is not video.
\<close>

theorem push_drops_to_key:
  assumes "q_drop q" "q_drop_direction q = DROP_FRONT" "length (q_items q) \<le> max_items"
  shows "q_items (push_item frame_can_drop x q) = frames_after_push (q_items q) (q_wait_video_key q) @ [x]"
  by (rule push_frames [OF assms])

definition demo_frame :: "bool \<Rightarrow> frame_type \<Rightarrow> media_frame" where
  "demo_frame key ty = \<lparr>mf_data = [1], mf_len = 1, mf_pts = 10, mf_dts = 10, mf_duration = 1, mf_is_key = key, mf_type = ty,
     mf_timescale = (1, 1000), mf_time_realtime = 0\<rparr>"

theorem push_drops_to_key_witness:
  "q_items (push_item frame_can_drop (Some (demo_frame False VIDEO))
     ((queue_new True DROP_FRONT)\<lparr>q_items := replicate 89 (Some (demo_frame False VIDEO)) @ [Some (demo_frame True VIDEO)]\<rparr>)) =
   [Some (demo_frame True VIDEO), Some (demo_frame False VIDEO)]"
proof -
  let ?v = "Some (demo_frame False VIDEO)" and ?k = "Some (demo_frame True VIDEO)"
  have n: "not_resumable ?v" "\<not> not_resumable ?k" "is_video ?v"
    by (simp_all add: not_resumable_def is_video_def is_key_def demo_frame_def)
  have "frames_after_push (replicate 89 ?v @ [?k]) False = [?k]"
    using n by (simp add: frames_after_push_def max_items_def numeral_eq_Suc dropWhile_append)
  then show ?thesis
    using push_drops_to_key [of "(queue_new True DROP_FRONT)\<lparr>q_items := replicate 89 ?v @ [?k]\<rparr>" ?v]
    by (simp add: queue_new_def max_items_def)
qed

text \<open>
  An audio frame ends the dropping: the sink then gets video frames that depend on the frame that was lost.
\<close>

lemma audio_ends_dropping:
  assumes "q_drop q" "q_drop_direction q = DROP_FRONT" "q_items q = v # a # xs" "length xs + 2 = max_items"
    and "is_video v" "\<not> is_video a"
  shows "q_items (push_item frame_can_drop x q) = a # xs @ [x]"
  using push_frames [of q x] assms by (simp add: frames_after_push_def not_resumable_def)

text \<open>
  pushing a temporary never returns unless the queue is full and may not drop, and then it makes the queue
  longer than its bound; unless, in either case, the queue is being flushed.
\<close>

theorem push_move_waits:
  "(queue_push_move cd x q \<noteq> None \<longleftrightarrow> q_flushing q \<or> queue_full q \<and> \<not> q_drop q) \<and>
   (queue_push_move frame_can_drop y r = Some r' \<and> \<not> q_flushing r \<longrightarrow> length (q_items r') > max_items)"
proof -
  have k: "q_items (drop_old_move frame_can_drop b xs r) = xs" if "\<not> q_drop r" for b xs
    using that by (cases xs) (simp_all add: frame_can_drop_def)
  have d: "frame_can_drop b z r = (False, r)" if "\<not> q_drop r" for b z using that by (simp add: frame_can_drop_def)
  show ?thesis
    by (auto simp: queue_push_move_def Let_def k d queue_full_def split: if_splits drop_direction.splits)
qed

end
