(* ===== verification/Media_Graph.thy ===== *)
theory Media_Graph
  imports Media_Queue
begin

text \<open>
  Sources and sinks of \<^verbatim>\<open>src/src/streamer/base_streamer.h\<close> (\<^verbatim>\<open>ISource\<close>, \<^verbatim>\<open>ISink\<close>) and the media stream of
  \<^verbatim>\<open>src/src/streamer/stream.h\<close>. The thread of the source and the threads of the sinks are program counters in
  the state and run in any order; an operation of the controlling thread that can block is split at the points
  where it waits. The virtual methods are transformers of the state \<open>'d\<close> of the application.
\<close>

section \<open>Descriptions of streams\<close>

datatype stream_type = ST_UNKNOWN | ST_VIDEO | ST_AUDIO | ST_DATA | ST_ANY

datatype video_codec = VC_UNKNOWN | VC_H264

datatype audio_codec = AC_UNKNOWN | AC_AAC | AC_G711_U | AC_G711_A | AC_LPCM | AC_G726 | AC_OPUS

record video_info =
  vi_codec :: video_codec
  vi_width :: int
  vi_height :: int
  vi_framerate :: "int \<times> int"
  vi_bitrate :: int
  vi_timebase :: "int \<times> int"
  vi_extradata :: "byte list"

record audio_info =
  ai_codec :: audio_codec
  ai_channels :: int
  ai_samplerate :: int
  ai_bitrate :: int
  ai_timebase :: "int \<times> int"
  ai_extradata :: "byte list"

record stream_info =
  si_type :: stream_type
  si_video :: video_info
  si_audio :: audio_info

section \<open>The virtual methods\<close>

datatype source_mode = PULL | PUSH

text \<open>\<open>so_error\<close> tells whether the sink marks the end of the stream in its queue, as \<^verbatim>\<open>ffmpeg::Sink\<close> does.\<close>

record 'd sink_ops =
  so_name :: string
  so_init :: "string \<Rightarrow> 'd \<Rightarrow> bool \<times> 'd"
  so_finit :: "'d \<Rightarrow> bool \<times> 'd"
  so_process :: "media_frame \<Rightarrow> 'd \<Rightarrow> bool \<times> 'd"
  so_droppable :: bool
  so_negotiate :: "stream_info list \<Rightarrow> 'd \<Rightarrow> bool \<times> 'd"
  so_error :: "stream_error \<Rightarrow> 'd \<Rightarrow> bool \<times> 'd"
  so_eos_cb :: "('d \<Rightarrow> 'd) option"

record 'd source_ops =
  sr_mode :: source_mode
  sr_init :: "string \<Rightarrow> 'd \<Rightarrow> bool \<times> 'd"
  sr_finit :: "'d \<Rightarrow> 'd"
  sr_negotiate :: "'d \<Rightarrow> stream_info list \<times> 'd"
  sr_pull :: "'d \<Rightarrow> media_frame option \<times> 'd"

record 'd media_ops =
  mo_source :: "'d source_ops"
  mo_sink :: "nat \<Rightarrow> 'd sink_ops"

section \<open>State\<close>

text \<open>
  A thread is not there, is at the head of its loop, inside it, or has ended and can be joined. The source
  inside \<open>S_Push\<close> and \<open>S_Wait\<close> holds the lock of the queues; the list is what remains of its loop over them.
\<close>

datatype src_pc = S_None | S_Loop | S_Have media_frame | S_Push media_frame "(nat \<times> nat) list"
  | S_Wait media_frame nat nat "(nat \<times> nat) list" | S_Ended

datatype sink_pc = K_None | K_Loop | K_Pop | K_Process media_frame | K_Ended

record sink_state =
  k_running :: bool
  k_queue :: "nat option"
  k_thread :: sink_pc
  k_thread_started :: bool

text \<open>
  Queues are objects: \<open>g_links\<close> is the map of the source from sinks to queues. \<open>g_pulled\<close> are the frames the source
  produced, \<open>g_processed\<close> the frames each sink was given. \<open>g_terminated\<close>: a thread object that has a thread was
  assigned another one, which ends the program.
\<close>

record 'd graph =
  g_world :: 'd
  g_running :: bool
  g_thread :: src_pc
  g_thread_started :: bool
  g_links :: "(nat \<times> nat) list"
  g_queues :: "nat \<Rightarrow> media_frame mqueue"
  g_next :: nat
  g_sinks :: "nat \<Rightarrow> sink_state"
  g_live_queue :: nat
  g_pulled :: "media_frame list"
  g_processed :: "nat \<Rightarrow> media_frame list"
  g_terminated :: bool

definition sink_new :: sink_state where
  "sink_new = \<lparr>k_running = False, k_queue = None, k_thread = K_None, k_thread_started = False\<rparr>"

definition graph_new :: "'d \<Rightarrow> 'd graph" where
  "graph_new d = \<lparr>g_world = d, g_running = False, g_thread = S_None, g_thread_started = False, g_links = [],
     g_queues = (\<lambda>_. queue_new False DROP_FRONT), g_next = 0, g_sinks = (\<lambda>_. sink_new), g_live_queue = 0, g_pulled = [],
     g_processed = (\<lambda>_. []), g_terminated = False\<rparr>"

definition upd_sink :: "nat \<Rightarrow> (sink_state \<Rightarrow> sink_state) \<Rightarrow> 'd graph \<Rightarrow> 'd graph" where
  "upd_sink k f g = g\<lparr>g_sinks := (g_sinks g)(k := f (g_sinks g k))\<rparr>"

definition upd_queue :: "nat \<Rightarrow> (media_frame mqueue \<Rightarrow> media_frame mqueue) \<Rightarrow> 'd graph \<Rightarrow> 'd graph" where
  "upd_queue i f g = g\<lparr>g_queues := (g_queues g)(i := f (g_queues g i))\<rparr>"

definition locked :: "'d graph \<Rightarrow> bool" where
  "locked g \<longleftrightarrow> (case g_thread g of S_Push _ _ \<Rightarrow> True | S_Wait _ _ _ _ \<Rightarrow> True | _ \<Rightarrow> False)"

section \<open>Sinks\<close>

definition sink_error :: "'d media_ops \<Rightarrow> nat \<Rightarrow> stream_error \<Rightarrow> 'd graph \<Rightarrow> 'd graph" where
  "sink_error w k e g =
     (let (eos, d) = so_error (mo_sink w k) e (g_world g); g = g\<lparr>g_world := d\<rparr>
      in case k_queue (g_sinks g k) of Some i \<Rightarrow> if eos then upd_queue i (queue_set_eos True) g else g | None \<Rightarrow> g)"

text \<open>One step of \<open>_sink_routine\<close>; \<open>None\<close> when the thread waits or is not there.\<close>

definition sink_routine :: "'d media_ops \<Rightarrow> nat \<Rightarrow> 'd graph \<Rightarrow> 'd graph option" where
  "sink_routine w k g =
     (case k_thread (g_sinks g k) of
        K_Loop \<Rightarrow> Some (upd_sink k (\<lambda>s. s\<lparr>k_thread := if k_running s then K_Pop else K_Ended\<rparr>) g)
      | K_Pop \<Rightarrow>
          (case k_queue (g_sinks g k) of
             None \<Rightarrow> None
           | Some i \<Rightarrow>
               if pop_ready (g_queues g i) then
                 (case queue_pop (g_queues g i) of
                    (Some f, q) \<Rightarrow> Some (upd_sink k (\<lambda>s. s\<lparr>k_thread := K_Process f\<rparr>) (upd_queue i (\<lambda>_. q) g))
                  | (None, q) \<Rightarrow>
                      (let g = upd_sink k (\<lambda>s. s\<lparr>k_thread := K_Ended\<rparr>) (upd_queue i (\<lambda>_. q) g)
                       in Some (case so_eos_cb (mo_sink w k) of None \<Rightarrow> g | Some cb \<Rightarrow> g\<lparr>g_world := cb (g_world g)\<rparr>)))
               else None)
      | K_Process f \<Rightarrow>
          (let (ok, d) = so_process (mo_sink w k) f (g_world g);
               g = upd_sink k (\<lambda>s. s\<lparr>k_thread := K_Loop\<rparr>)
                     (g\<lparr>g_world := d, g_processed := (g_processed g)(k := g_processed g k @ [f])\<rparr>)
           in Some (if ok then g else sink_error w k E_FATAL g))
      | _ \<Rightarrow> None)"

definition sink_start :: "nat \<Rightarrow> 'd graph \<Rightarrow> bool \<times> 'd graph" where
  "sink_start k g =
     (if k_running (g_sinks g k) then (False, g)
      else if k_thread (g_sinks g k) \<noteq> K_None then (False, g\<lparr>g_terminated := True\<rparr>)
      else (True, upd_sink k (\<lambda>s. s\<lparr>k_running := k_queue s \<noteq> None, k_thread := K_Loop, k_thread_started := True\<rparr>) g))"

text \<open>\<open>ISink::stop\<close> from another thread, before and after it joins the thread of the sink.\<close>

definition sink_stop_begin :: "nat \<Rightarrow> 'd graph \<Rightarrow> 'd graph" where
  "sink_stop_begin k g =
     (let g = upd_sink k (\<lambda>s. s\<lparr>k_running := False\<rparr>) g
      in case k_queue (g_sinks g k) of None \<Rightarrow> g | Some i \<Rightarrow> upd_queue i queue_flush g)"

definition sink_stop_join :: "nat \<Rightarrow> 'd graph \<Rightarrow> 'd graph option" where
  "sink_stop_join k g =
     (if \<not> k_thread_started (g_sinks g k) then Some g
      else if k_thread (g_sinks g k) = K_Ended
      then Some (upd_sink k (\<lambda>s. s\<lparr>k_thread := K_None, k_thread_started := False\<rparr>) g) else None)"

section \<open>The source\<close>

definition update_sink_queue_stats :: "'d media_ops \<Rightarrow> nat \<Rightarrow> 'd graph \<Rightarrow> 'd graph" where
  "update_sink_queue_stats w k g =
     (if so_name (mo_sink w k) = ''rtmp-sink'' then
        case k_queue (g_sinks g k) of Some i \<Rightarrow> g\<lparr>g_live_queue := queue_size (g_queues g i)\<rparr> | None \<Rightarrow> g
      else g)"

text \<open>
  One step of \<open>_source_routine\<close> with \<open>_pushFrameAll\<close>; \<open>None\<close> when the thread waits or is not there. The push of a frame
  looks at the flushing flag first and waits for room then.
\<close>

definition source_routine :: "'d media_ops \<Rightarrow> 'd graph \<Rightarrow> 'd graph option" where
  "source_routine w g =
     (case g_thread g of
        S_Loop \<Rightarrow>
          if g_running g then
            (case sr_pull (mo_source w) (g_world g) of
               (Some f, d) \<Rightarrow> Some (g\<lparr>g_world := d, g_thread := S_Have f, g_pulled := g_pulled g @ [f]\<rparr>)
             | (None, d) \<Rightarrow> Some (g\<lparr>g_world := d\<rparr>))
          else Some (g\<lparr>g_thread := S_Ended\<rparr>)
      | S_Have f \<Rightarrow> Some (g\<lparr>g_thread := S_Push f (g_links g)\<rparr>)
      | S_Push f [] \<Rightarrow> Some (g\<lparr>g_thread := S_Loop\<rparr>)
      | S_Push f ((k, i) # rest) \<Rightarrow>
          Some (if q_flushing (g_queues g i) then update_sink_queue_stats w k (g\<lparr>g_thread := S_Push f rest\<rparr>)
                else g\<lparr>g_thread := S_Wait f k i rest\<rparr>)
      | S_Wait f k i rest \<Rightarrow>
          if push_ready (g_queues g i) then
            Some (update_sink_queue_stats w k
                   (upd_queue i (push_item frame_can_drop (Some f)) (g\<lparr>g_thread := S_Push f rest\<rparr>)))
          else None
      | _ \<Rightarrow> None)"

text \<open>\<open>ISource::error\<close>, which the implementation calls.\<close>

definition source_error :: "'d media_ops \<Rightarrow> stream_error \<Rightarrow> 'd graph \<Rightarrow> 'd graph" where
  "source_error w e g =
     (if e = E_NONE then g else (fold (\<lambda>(k, _). sink_error w k e) (g_links g) g)\<lparr>g_running := False\<rparr>)"

definition source_start :: "'d media_ops \<Rightarrow> 'd graph \<Rightarrow> bool \<times> 'd graph" where
  "source_start w g =
     (if g_running g then (False, g)
      else if sr_mode (mo_source w) = PULL then
        if g_thread g \<noteq> S_None then (False, g\<lparr>g_terminated := True\<rparr>)
        else (True, g\<lparr>g_running := True, g_thread := S_Loop, g_thread_started := True\<rparr>)
      else (g_thread_started g, g\<lparr>g_running := True\<rparr>))"

definition source_stop_begin :: "'d graph \<Rightarrow> 'd graph" where
  "source_stop_begin g = g\<lparr>g_running := False\<rparr>"

definition flush_link :: "'d media_ops \<Rightarrow> nat \<times> nat \<Rightarrow> 'd graph \<Rightarrow> 'd graph" where
  "flush_link w l g = update_sink_queue_stats w (fst l) (upd_queue (snd l) queue_flush g)"

definition flush_all :: "'d media_ops \<Rightarrow> 'd graph \<Rightarrow> 'd graph" where
  "flush_all w g = fold (flush_link w) (g_links g) g"

definition source_flush :: "'d media_ops \<Rightarrow> 'd graph \<Rightarrow> 'd graph option" where
  "source_flush w g = (if locked g then None else Some (flush_all w g))"

definition source_stop_join :: "'d graph \<Rightarrow> 'd graph option" where
  "source_stop_join g = (if g_thread g \<in> {S_None, S_Ended} then Some (g\<lparr>g_thread := S_None\<rparr>) else None)"

text \<open>\<open>_pushFrameAll\<close> of a caller that holds no lock, and \<open>pushFrame\<close>; \<open>None\<close> when the call does not return.\<close>

definition lock_mutex :: "bool \<Rightarrow> bool option" where
  "lock_mutex held = (if held then None else Some True)"

fun push_links :: "'d media_ops \<Rightarrow> media_frame \<Rightarrow> (nat \<times> nat) list \<Rightarrow> 'd graph \<Rightarrow> 'd graph option" where
  "push_links w f [] g = Some g"
| "push_links w f ((k, i) # rest) g =
     (case queue_push frame_can_drop (Some f) (g_queues g i) of
        None \<Rightarrow> None
      | Some q \<Rightarrow> push_links w f rest (update_sink_queue_stats w k (upd_queue i (\<lambda>_. q) g)))"

definition push_frame_all :: "'d media_ops \<Rightarrow> bool \<Rightarrow> media_frame \<Rightarrow> 'd graph \<Rightarrow> 'd graph option" where
  "push_frame_all w held f g = (case lock_mutex held of None \<Rightarrow> None | Some _ \<Rightarrow> push_links w f (g_links g) g)"

definition push_frame :: "'d media_ops \<Rightarrow> bool \<Rightarrow> media_frame \<Rightarrow> 'd graph \<Rightarrow> 'd graph option" where
  "push_frame w held f g = (case lock_mutex held of None \<Rightarrow> None | Some held \<Rightarrow> push_frame_all w held f g)"

lemma push_frame_blocks: "push_frame w held f g = None"
  by (simp add: push_frame_def push_frame_all_def lock_mutex_def)

fun link_put :: "nat \<Rightarrow> nat \<Rightarrow> (nat \<times> nat) list \<Rightarrow> (nat \<times> nat) list" where
  "link_put k i [] = [(k, i)]"
| "link_put k i ((k', i') # xs) =
     (if k = k' then (k, i) # xs else if k < k' then (k, i) # (k', i') # xs else (k', i') # link_put k i xs)"

definition link_sink :: "'d media_ops \<Rightarrow> nat \<Rightarrow> 'd graph \<Rightarrow> (bool \<times> 'd graph) option" where
  "link_sink w k g =
     (if locked g then None
      else let (infos, d) = sr_negotiate (mo_source w) (g_world g);
               (ok, d) = so_negotiate (mo_sink w k) infos d;
               g = g\<lparr>g_world := d\<rparr>; i = g_next g
           in Some (if \<not> ok then (False, g)
                    else (True, upd_sink k (\<lambda>s. s\<lparr>k_queue := Some i\<rparr>)
                      (upd_queue i (\<lambda>_. queue_new (so_droppable (mo_sink w k)) DROP_FRONT)
                        (g\<lparr>g_links := link_put k i (g_links g), g_next := Suc i\<rparr>)))))"

definition unlink_sink :: "nat \<Rightarrow> 'd graph \<Rightarrow> 'd graph option" where
  "unlink_sink k g = (if locked g then None else Some (g\<lparr>g_links := filter (\<lambda>(j, _). j \<noteq> k) (g_links g)\<rparr>))"

section \<open>Runs\<close>

text \<open>
  Steps of the threads and of the parts of the operations; \<open>g_world_step\<close> is anything the application does.
\<close>

inductive gstep :: "'d media_ops \<Rightarrow> 'd graph \<Rightarrow> 'd graph \<Rightarrow> bool" for w where
  g_source: "source_routine w g = Some g' \<Longrightarrow> gstep w g g'"
| g_sink: "sink_routine w k g = Some g' \<Longrightarrow> gstep w g g'"
| g_error: "gstep w g (source_error w e g)"
| g_sink_error: "gstep w g (sink_error w k e g)"
| g_start: "gstep w g (snd (source_start w g))"
| g_stop: "gstep w g (source_stop_begin g)"
| g_flush: "source_flush w g = Some g' \<Longrightarrow> gstep w g g'"
| g_join: "source_stop_join g = Some g' \<Longrightarrow> gstep w g g'"
| g_sink_start: "gstep w g (snd (sink_start k g))"
| g_sink_stop: "gstep w g (sink_stop_begin k g)"
| g_sink_join: "sink_stop_join k g = Some g' \<Longrightarrow> gstep w g g'"
| g_world_step: "gstep w g (g\<lparr>g_world := d\<rparr>)"

inductive graph_reachable :: "'d media_ops \<Rightarrow> 'd graph \<Rightarrow> bool" for w where
  reach_new: "graph_reachable w (graph_new d)"
| reach_step: "graph_reachable w g \<Longrightarrow> gstep w g g' \<Longrightarrow> graph_reachable w g'"
| reach_link: "graph_reachable w g \<Longrightarrow> link_sink w k g = Some (b, g') \<Longrightarrow> graph_reachable w g'"
| reach_unlink: "graph_reachable w g \<Longrightarrow> unlink_sink k g = Some g' \<Longrightarrow> graph_reachable w g'"

section \<open>The way of a frame\<close>

text \<open>Where the frames of a sink are: in its hand, in its queue, or with the source that has not pushed them yet.\<close>

definition in_hand :: "sink_pc \<Rightarrow> media_frame list" where
  "in_hand pc = (case pc of K_Process f \<Rightarrow> [f] | _ \<Rightarrow> [])"

definition queued :: "(nat \<Rightarrow> media_frame mqueue) \<Rightarrow> nat option \<Rightarrow> media_frame option list" where
  "queued qs i = (case i of None \<Rightarrow> [] | Some i \<Rightarrow> q_items (qs i))"

definition in_transit :: "src_pc \<Rightarrow> nat option \<Rightarrow> media_frame list" where
  "in_transit pc i =
     (case pc of
        S_Have f \<Rightarrow> [f]
      | S_Push f rest \<Rightarrow> if i \<in> (Some \<circ> snd) ` set rest then [f] else []
      | S_Wait f k j rest \<Rightarrow> if i \<in> (Some \<circ> snd) ` set ((k, j) # rest) then [f] else []
      | _ \<Rightarrow> [])"

definition way :: "'d graph \<Rightarrow> nat \<Rightarrow> media_frame option list" where
  "way g k = map Some (g_processed g k @ in_hand (k_thread (g_sinks g k))) @ queued (g_queues g) (k_queue (g_sinks g k)) @
     map Some (in_transit (g_thread g) (k_queue (g_sinks g k)))"

definition remaining :: "src_pc \<Rightarrow> (nat \<times> nat) list" where
  "remaining pc = (case pc of S_Push f rest \<Rightarrow> rest | S_Wait f k i rest \<Rightarrow> (k, i) # rest | _ \<Rightarrow> [])"

definition links_inv :: "'d graph \<Rightarrow> bool" where
  "links_inv g \<longleftrightarrow> sorted_wrt (<) (map fst (g_links g)) \<and> suffix (remaining (g_thread g)) (g_links g) \<and>
     (\<forall>(k, i) \<in> set (g_links g). k_queue (g_sinks g k) = Some i) \<and>
     (\<forall>k i. k_queue (g_sinks g k) = Some i \<longrightarrow> i < g_next g) \<and>
     (\<forall>k k' i. k_queue (g_sinks g k) = Some i \<and> k_queue (g_sinks g k') = Some i \<longrightarrow> k = k')"

definition graph_inv :: "'d graph \<Rightarrow> bool" where
  "graph_inv g \<longleftrightarrow> links_inv g \<and> (\<forall>k. subseq (way g k) (map Some (g_pulled g))) \<and>
     (\<forall>i. length (q_items (g_queues g i)) \<le> max_items)"

text \<open>An operation that leaves the places of the frames alone, or takes frames away, keeps the invariant.\<close>

lemma graph_inv_shrink:
  assumes "graph_inv g" "g_links g' = g_links g" "remaining (g_thread g') = remaining (g_thread g)"
    and "\<And>k. k_queue (g_sinks g' k) = k_queue (g_sinks g k)" "g_next g' = g_next g" "g_pulled g' = g_pulled g"
    and "\<And>k. subseq (way g' k) (way g k)" "\<And>i. length (q_items (g_queues g' i)) \<le> length (q_items (g_queues g i))"
  shows "graph_inv g'"
proof -
  have "links_inv g" using assms(1) by (simp add: graph_inv_def)
  then have "links_inv g'" using assms(2-5) by (simp add: links_inv_def)
  moreover have "subseq (way g' k) (map Some (g_pulled g'))" for k
    using assms(1) subseq_order.trans [OF assms(7) [of k]] by (simp add: graph_inv_def assms(6))
  moreover have "length (q_items (g_queues g' i)) \<le> max_items" for i
    using assms(1) order_trans [OF assms(8) [of i]] by (simp add: graph_inv_def)
  ultimately show ?thesis by (simp add: graph_inv_def)
qed

lemma upd_sink_simps [simp]:
  "g_sinks (upd_sink k f g) j = (if j = k then f (g_sinks g k) else g_sinks g j)" "g_links (upd_sink k f g) = g_links g"
  "g_thread (upd_sink k f g) = g_thread g" "g_queues (upd_sink k f g) = g_queues g" "g_next (upd_sink k f g) = g_next g"
  "g_pulled (upd_sink k f g) = g_pulled g" "g_processed (upd_sink k f g) = g_processed g"
  "g_running (upd_sink k f g) = g_running g" "g_world (upd_sink k f g) = g_world g" "g_terminated (upd_sink k f g) = g_terminated g"
  by (simp_all add: upd_sink_def)

lemma upd_queue_simps [simp]:
  "g_queues (upd_queue i f g) j = (if j = i then f (g_queues g i) else g_queues g j)" "g_links (upd_queue i f g) = g_links g"
  "g_thread (upd_queue i f g) = g_thread g" "g_sinks (upd_queue i f g) = g_sinks g" "g_next (upd_queue i f g) = g_next g"
  "g_pulled (upd_queue i f g) = g_pulled g" "g_processed (upd_queue i f g) = g_processed g"
  "g_running (upd_queue i f g) = g_running g" "g_world (upd_queue i f g) = g_world g" "g_terminated (upd_queue i f g) = g_terminated g"
  by (simp_all add: upd_queue_def)

lemma stats_simps [simp]:
  "g_queues (update_sink_queue_stats w k g) = g_queues g" "g_links (update_sink_queue_stats w k g) = g_links g"
  "g_thread (update_sink_queue_stats w k g) = g_thread g" "g_sinks (update_sink_queue_stats w k g) = g_sinks g"
  "g_next (update_sink_queue_stats w k g) = g_next g" "g_pulled (update_sink_queue_stats w k g) = g_pulled g"
  "g_processed (update_sink_queue_stats w k g) = g_processed g" "g_running (update_sink_queue_stats w k g) = g_running g"
  "g_world (update_sink_queue_stats w k g) = g_world g" "g_terminated (update_sink_queue_stats w k g) = g_terminated g"
  by (simp_all add: update_sink_queue_stats_def split: option.split)

text \<open>The sinks.\<close>

lemma queued_mono: "(\<And>i. subseq (q_items (qs' i)) (q_items (qs i))) \<Longrightarrow> subseq (queued qs' i) (queued qs i)"
  by (simp add: queued_def split: option.split)

lemma graph_inv_frame:
  assumes "graph_inv g" "g_links g' = g_links g" "g_thread g' = g_thread g" "g_next g' = g_next g" "g_pulled g' = g_pulled g"
    and "g_processed g' = g_processed g" "\<And>k. k_queue (g_sinks g' k) = k_queue (g_sinks g k)"
    and "\<And>k. subseq (in_hand (k_thread (g_sinks g' k))) (in_hand (k_thread (g_sinks g k)))"
    and "\<And>i. subseq (q_items (g_queues g' i)) (q_items (g_queues g i))"
  shows "graph_inv g'"
proof (rule graph_inv_shrink [OF assms(1)])
  show "subseq (way g' k) (way g k)" for k
    unfolding way_def using assms(3,6,7,8,9) by (simp add: list_emb_append_mono queued_mono subseq_map)
  show "length (q_items (g_queues g' i)) \<le> length (q_items (g_queues g i))" for i using assms(9) list_emb_length by blast
qed (use assms in simp_all)

lemma sink_error_inv: "graph_inv g \<Longrightarrow> graph_inv (sink_error w k e g)"
  by (rule graph_inv_frame, assumption)
    (auto simp: sink_error_def queue_set_eos_def split_beta Let_def split: option.split)

lemma source_error_inv: "graph_inv (g :: 'a graph) \<Longrightarrow> graph_inv (source_error w e g)"
proof -
  have "graph_inv (fold (\<lambda>(k, _). sink_error w k e) ls g)" if "graph_inv g" for ls :: "(nat \<times> nat) list" and g :: "'a graph"
    using that by (induction ls arbitrary: g) (auto simp: sink_error_inv)
  moreover have "graph_inv g \<Longrightarrow> graph_inv (g\<lparr>g_running := b\<rparr>)" for g :: "'a graph" and b
    by (rule graph_inv_frame, assumption) simp_all
  ultimately show "graph_inv g \<Longrightarrow> ?thesis" by (simp add: source_error_def)
qed

lemma flush_all_inv: "graph_inv g \<Longrightarrow> graph_inv (flush_all w g)"
proof -
  have "graph_inv (flush_link w l g)" if "graph_inv g" for l g
    unfolding flush_link_def by (rule graph_inv_frame [OF that]) (simp_all add: queue_flush_def)
  then have "graph_inv (fold (flush_link w) ls g)" if "graph_inv g" for ls g
    using that by (induction ls arbitrary: g) simp_all
  then show "graph_inv g \<Longrightarrow> ?thesis" by (simp add: flush_all_def)
qed

lemma sink_routine_inv:
  assumes "graph_inv g" "sink_routine w k g = Some g'"
  shows "graph_inv g'"
proof (cases "k_thread (g_sinks g k)")
  case K_Loop
  then show ?thesis
    using assms by (intro graph_inv_frame [OF assms(1)]) (auto simp: sink_routine_def in_hand_def)
next
  case K_Pop
  then obtain i where i: "k_queue (g_sinks g k) = Some i" using assms(2) by (auto simp: sink_routine_def split: option.splits)
  show ?thesis
  proof (cases "q_items (g_queues g i)")
    case Nil
    then show ?thesis
      using assms(2) K_Pop i by (intro graph_inv_frame [OF assms(1)])
        (auto simp: sink_routine_def queue_pop_def in_hand_def Let_def split: if_splits option.splits)
  next
    case (Cons x xs)
    then have g': "g_links g' = g_links g" "g_thread g' = g_thread g" "g_next g' = g_next g" "g_pulled g' = g_pulled g"
        "g_processed g' = g_processed g" "k_queue (g_sinks g' j) = k_queue (g_sinks g j)"
        "q_items (g_queues g' j) = (if j = i then xs else q_items (g_queues g j))"
        "k_thread (g_sinks g' j) = (if j = k then case x of None \<Rightarrow> K_Ended | Some f \<Rightarrow> K_Process f else k_thread (g_sinks g j))" for j
      using assms(2) K_Pop i
      by (auto simp: sink_routine_def queue_pop_def pop_ready_def Let_def split: if_splits option.splits)
    have q: "queued (g_queues g') (k_queue (g_sinks g' j)) = (if j = k then xs else queued (g_queues g) (k_queue (g_sinks g j)))" for j
      using assms(1) i g' unfolding queued_def graph_inv_def links_inv_def by (auto split: option.split)
    show ?thesis
    proof (rule graph_inv_shrink [OF assms(1)])
      show "subseq (way g' j) (way g j)" for j
        using K_Pop i Cons g' q unfolding way_def
        by (auto simp: in_hand_def queued_def subseq_append' split: option.split)
      show "length (q_items (g_queues g' j)) \<le> length (q_items (g_queues g j))" for j using g' Cons by simp
    qed (use g' in simp_all)
  qed
next
  case (K_Process f)
  let ?g = "upd_sink k (\<lambda>s. s\<lparr>k_thread := K_Loop\<rparr>) (g\<lparr>g_world := snd (so_process (mo_sink w k) f (g_world g)),
    g_processed := (g_processed g)(k := g_processed g k @ [f])\<rparr>)"
  have "graph_inv ?g"
    by (rule graph_inv_shrink [OF assms(1)])
      (use K_Process in \<open>auto simp: way_def in_hand_def queued_def split: option.split\<close>)
  then show ?thesis
    using assms(2) K_Process sink_error_inv by (auto simp: sink_routine_def split_beta Let_def split: if_splits)
qed (use assms in \<open>auto simp: sink_routine_def\<close>)

text \<open>The source.\<close>

lemma links_queue_distinct:
  assumes "links_inv g"
  shows "distinct (map snd (g_links g))"
proof -
  have "k = k'" if "(k, i) \<in> set (g_links g)" "(k', i) \<in> set (g_links g)" for k k' i
    using assms that unfolding links_inv_def by blast
  moreover have "distinct (g_links g)" using assms by (simp add: links_inv_def strict_sorted_iff distinct_map)
  ultimately show ?thesis by (auto simp: distinct_map inj_on_def)
qed

text \<open>The source moves one frame on: it is put at the end of one queue, or passed by.\<close>

lemma push_step_inv:
  assumes inv: "graph_inv g" and pc: "g_thread g = S_Wait f k i rest" and ready: "push_ready (g_queues g i)"
    and g': "g_links g' = g_links g" "g_thread g' = S_Push f rest" "g_sinks g' = g_sinks g" "g_next g' = g_next g"
      "g_pulled g' = g_pulled g" "g_processed g' = g_processed g"
      "g_queues g' = (g_queues g)(i := push_item frame_can_drop (Some f) (g_queues g i))"
  shows "graph_inv g'"
proof -
  have l: "links_inv g" "suffix ((k, i) # rest) (g_links g)" using inv pc by (simp_all add: graph_inv_def links_inv_def remaining_def)
  then have d: "i \<notin> snd ` set rest"
    using links_queue_distinct [OF l(1)] by (force simp: suffix_def)
  have "subseq (way g' j) (way g j)" for j
  proof (cases "k_queue (g_sinks g j) = Some i")
    case True
    then have "queued (g_queues g') (k_queue (g_sinks g' j)) = q_items (push_item frame_can_drop (Some f) (g_queues g i))" "queued (g_queues g) (k_queue (g_sinks g j)) = q_items (g_queues g i)"
      by (simp_all add: queued_def g')
    moreover have "in_transit (S_Push f rest) (Some i) = []" using d by (auto simp: in_transit_def)
    ultimately show ?thesis
      using True frames.push_subseq [of "Some f" "g_queues g i"]
      by (simp add: way_def g' pc subseq_append') (simp add: in_transit_def)
  next
    case False
    then have "queued (g_queues g') (k_queue (g_sinks g' j)) = queued (g_queues g) (k_queue (g_sinks g j))" by (auto simp: queued_def g' split: option.split)
    then show ?thesis using False by (auto simp: way_def g' pc in_transit_def subseq_append' subseq_rev_drop_many)
  qed
  then have "subseq (way g' j) (map Some (g_pulled g'))" for j
    using inv subseq_order.trans g'(5) unfolding graph_inv_def by metis
  moreover have "length (q_items (g_queues g' j)) \<le> max_items" for j
    using inv ready frames.push_bounded [of "g_queues g i" "Some f"] by (simp add: graph_inv_def g')
  moreover have "links_inv g'"
    using l suffix_ConsD [OF l(2)] by (simp add: links_inv_def g' remaining_def)
  ultimately show ?thesis by (simp add: graph_inv_def)
qed

lemma source_pc_inv:
  assumes "graph_inv g" "g' = g\<lparr>g_thread := pc\<rparr>" "suffix (remaining pc) (g_links g)"
    and "\<And>i. subseq (in_transit pc i) (in_transit (g_thread g) i)"
  shows "graph_inv g'"
proof -
  have "subseq (way g' k) (way g k)" for k
    using assms(4) [of "k_queue (g_sinks g k)"] by (simp add: assms(2) way_def queued_def subseq_append' subseq_map)
  then have "subseq (way g' k) (map Some (g_pulled g))" for k
    using assms(1) subseq_order.trans unfolding graph_inv_def by blast
  then show ?thesis using assms(1,3) by (simp add: assms(2) graph_inv_def links_inv_def)
qed

lemma stats_inv [simp]: "graph_inv (update_sink_queue_stats w k g) = graph_inv g"
  by (simp add: graph_inv_def links_inv_def way_def queued_def)

lemma source_routine_inv:
  assumes inv: "graph_inv g" and step: "source_routine w g = Some g'"
  shows "graph_inv g'"
proof (cases "g_thread g")
  case S_Loop
  show ?thesis
  proof (cases "g_running g")
    case True
    obtain r d where r: "sr_pull (mo_source w) (g_world g) = (r, d)" by fastforce
    show ?thesis
    proof (cases r)
      case None
      then show ?thesis
        using S_Loop True r step by (intro graph_inv_frame [OF inv]) (auto simp: source_routine_def)
    next
      case (Some f)
      then have g': "g' = g\<lparr>g_world := d, g_thread := S_Have f, g_pulled := g_pulled g @ [f]\<rparr>"
        using S_Loop True r step by (simp add: source_routine_def)
      have "way g' k = way g k @ [Some f]" for k using S_Loop by (simp add: g' way_def queued_def in_transit_def)
      then show ?thesis
        using inv S_Loop by (simp add: graph_inv_def links_inv_def g' remaining_def)
    qed
  next
    case False
    then show ?thesis
      using S_Loop step by (intro source_pc_inv [OF inv, where pc = S_Ended]) (auto simp: source_routine_def remaining_def in_transit_def)
  qed
next
  case (S_Have f)
  then show ?thesis
    using step by (intro source_pc_inv [OF inv, where pc = "S_Push f (g_links g)"])
      (auto simp: source_routine_def remaining_def in_transit_def)
next
  case (S_Push f ls)
  have ls: "suffix ls (g_links g)" using inv S_Push by (simp add: graph_inv_def links_inv_def remaining_def)
  show ?thesis
  proof (cases ls)
    case Nil
    then show ?thesis
      using S_Push step by (intro source_pc_inv [OF inv, where pc = S_Loop]) (auto simp: source_routine_def remaining_def in_transit_def)
  next
    case (Cons l rest)
    obtain k i where l: "l = (k, i)" by fastforce
    have "graph_inv (g\<lparr>g_thread := S_Push f rest\<rparr>)"
      by (rule source_pc_inv [OF inv refl]) (use S_Push Cons l ls suffix_ConsD in \<open>auto simp: remaining_def in_transit_def\<close>)
    moreover have "graph_inv (g\<lparr>g_thread := S_Wait f k i rest\<rparr>)"
      by (rule source_pc_inv [OF inv refl]) (use S_Push Cons l ls in \<open>auto simp: remaining_def in_transit_def\<close>)
    ultimately show ?thesis using S_Push Cons l step by (auto simp: source_routine_def split: if_splits)
  qed
next
  case (S_Wait f k i rest)
  then show ?thesis
    using step by (intro push_step_inv [OF inv S_Wait]) (auto simp: source_routine_def upd_queue_def fun_eq_iff split: if_splits)
qed (use step in \<open>auto simp: source_routine_def\<close>)

section \<open>Delivery\<close>

lemma gstep_inv: "gstep w g g' \<Longrightarrow> graph_inv g \<Longrightarrow> graph_inv g'"
proof (induction rule: gstep.induct)
  case (g_start g)
  have "graph_inv (g\<lparr>g_running := True, g_thread := S_Loop, g_thread_started := True\<rparr>)" if "g_thread g = S_None"
    by (rule graph_inv_shrink [OF g_start]) (simp_all add: that remaining_def way_def in_transit_def queued_def)
  moreover have "graph_inv (g\<lparr>g_terminated := b\<rparr>)" "graph_inv (g\<lparr>g_running := b\<rparr>)" for b
    by (rule graph_inv_frame [OF g_start]; simp)+
  ultimately show ?case using g_start by (simp add: source_start_def)
next
  case (g_stop g)
  then show ?case unfolding source_stop_begin_def by (rule graph_inv_frame) simp_all
next
  case (g_flush g g')
  then show ?case by (auto simp: source_flush_def flush_all_inv split: if_splits)
next
  case (g_join g g')
  show ?case
    by (rule source_pc_inv [OF g_join(2), where pc = S_None])
      (use g_join(1) in \<open>auto simp: source_stop_join_def remaining_def in_transit_def split: if_splits\<close>)
next
  case (g_sink_start g k)
  then show ?case by (rule graph_inv_frame) (simp_all add: sink_start_def in_hand_def)
next
  case (g_sink_stop g k)
  then show ?case by (rule graph_inv_frame) (simp_all add: sink_stop_begin_def Let_def queue_flush_def split: option.split)
next
  case (g_sink_join k g g')
  then show ?case by (intro graph_inv_frame [OF g_sink_join(2)]) (auto simp: sink_stop_join_def in_hand_def split: if_splits)
next
  case (g_world_step g d)
  then show ?case by (rule graph_inv_frame) simp_all
qed (erule (1) source_routine_inv [rotated] sink_routine_inv [rotated] | erule source_error_inv sink_error_inv)+

lemma link_put_sorted:
  "sorted_wrt (<) (map fst ls) \<Longrightarrow> sorted_wrt (<) (map fst (link_put k i ls)) \<and>
     set (link_put k i ls) = insert (k, i) {l \<in> set ls. fst l \<noteq> k}"
  by (induction ls rule: link_put.induct [of _ k i]) (auto simp: image_iff)

lemma link_sink_inv:
  assumes "graph_inv g" "link_sink w k g = Some (b, g')"
  shows "graph_inv g'"
proof -
  obtain infos d where n: "sr_negotiate (mo_source w) (g_world g) = (infos, d)" by fastforce
  obtain ok d' where m: "so_negotiate (mo_sink w k) infos d = (ok, d')" by fastforce
  have free: "\<not> locked g" using assms(2) by (simp add: link_sink_def split: if_splits)
  let ?i = "g_next g"
  let ?g = "upd_sink k (\<lambda>s. s\<lparr>k_queue := Some ?i\<rparr>) (upd_queue ?i (\<lambda>_. queue_new (so_droppable (mo_sink w k)) DROP_FRONT)
      (g\<lparr>g_world := d', g_links := link_put k ?i (g_links g), g_next := Suc ?i\<rparr>))"
  have r: "remaining (g_thread g) = []" and t: "in_transit (g_thread g) i = in_transit (g_thread g) j" for i j
    using free by (auto simp: remaining_def in_transit_def locked_def split: src_pc.splits)
  have l: "links_inv g" using assms(1) by (simp add: graph_inv_def)
  then have f: "k_queue (g_sinks g j) \<noteq> Some ?i" for j unfolding links_inv_def by (metis less_irrefl)
  have "links_inv ?g"
    using l r link_put_sorted [of "g_links g" k ?i] unfolding links_inv_def
    by (auto simp: less_Suc_eq split: if_splits)
  moreover have "subseq (way ?g j) (way g j)" for j
    using f [of j] t [of "Some ?i" "k_queue (g_sinks g k)"]
    by (auto simp: way_def queued_def queue_new_def subseq_append' subseq_drop_many split: option.split)
  moreover have "length (q_items (g_queues ?g i)) \<le> max_items" for i
    using assms(1) by (simp add: graph_inv_def queue_new_def)
  moreover have "g_pulled ?g = g_pulled g" by simp
  ultimately have "graph_inv ?g" using assms(1) unfolding graph_inv_def by (metis subseq_order.trans)
  moreover have "graph_inv (g\<lparr>g_world := d'\<rparr>)" by (rule graph_inv_frame [OF assms(1)]) simp_all
  ultimately show ?thesis using assms(2) free n m by (auto simp: link_sink_def Let_def split: if_splits)
qed

lemma unlink_sink_inv:
  assumes "graph_inv g" "unlink_sink k g = Some g'"
  shows "graph_inv g'"
proof -
  have g': "g' = g\<lparr>g_links := filter (\<lambda>(j, _). j \<noteq> k) (g_links g)\<rparr>" and r: "remaining (g_thread g) = []"
    using assms(2) by (auto simp: unlink_sink_def locked_def remaining_def split: if_splits src_pc.splits)
  have "sorted_wrt (<) (map fst (filter P (g_links g)))" for P
    using assms(1) by (simp add: graph_inv_def links_inv_def sorted_wrt_map sorted_wrt_filter)
  then show ?thesis
    using assms(1) r by (auto simp: graph_inv_def links_inv_def g' way_def)
qed

lemma graph_reachable_inv: "graph_reachable w g \<Longrightarrow> graph_inv g"
proof (induction rule: graph_reachable.induct)
  case (reach_new d)
  show ?case
    by (simp add: graph_new_def sink_new_def graph_inv_def links_inv_def remaining_def way_def in_hand_def in_transit_def
        queued_def queue_new_def)
qed (blast intro: gstep_inv link_sink_inv unlink_sink_inv)+

lemma processed_in_order:
  assumes "graph_inv g"
  shows "subseq (g_processed g k) (g_pulled g)"
proof -
  have "subseq (map Some (g_processed g k)) (way g k)" by (simp add: way_def subseq_rev_drop_many)
  then have "subseq (map Some (g_processed g k)) (map Some (g_pulled g))"
    using assms subseq_order.trans unfolding graph_inv_def by blast
  then have "subseq (map the (map Some (g_processed g k))) (map the (map Some (g_pulled g)))" by (rule subseq_map)
  then show ?thesis by (simp add: comp_def)
qed

text \<open>
  C15: in every state that the threads of a source and its sinks and the operations on them can reach, in
  whatever order they run, a sink has processed frames the source produced, in the order in which it produced
  them and none twice, and no queue holds more than \<open>max_items\<close> frames.
\<close>

theorem frames_delivered_in_order:
  assumes "graph_reachable w g"
  shows "subseq (g_processed g k) (g_pulled g) \<and> length (q_items (g_queues g i)) \<le> max_items"
  using graph_reachable_inv [OF assms] processed_in_order by (simp add: graph_inv_def)

section \<open>Concrete runs\<close>

text \<open>A schedule of steps; \<open>None\<close> when one of them has to wait.\<close>

datatype graph_act = Do_Source | Do_Sink nat | Do_Start | Do_Sink_Start nat | Do_Link nat | Do_Stop | Do_Flush | Do_Join

definition do_act :: "'d media_ops \<Rightarrow> graph_act \<Rightarrow> 'd graph \<Rightarrow> 'd graph option" where
  "do_act w a g =
     (case a of
        Do_Source \<Rightarrow> source_routine w g
      | Do_Sink k \<Rightarrow> sink_routine w k g
      | Do_Start \<Rightarrow> Some (snd (source_start w g))
      | Do_Sink_Start k \<Rightarrow> Some (snd (sink_start k g))
      | Do_Link k \<Rightarrow> map_option snd (link_sink w k g)
      | Do_Stop \<Rightarrow> Some (source_stop_begin g)
      | Do_Flush \<Rightarrow> source_flush w g
      | Do_Join \<Rightarrow> source_stop_join g)"

fun schedule :: "'d media_ops \<Rightarrow> graph_act list \<Rightarrow> 'd graph \<Rightarrow> 'd graph option" where
  "schedule w [] g = Some g"
| "schedule w (a # as) g = (case do_act w a g of None \<Rightarrow> None | Some g \<Rightarrow> schedule w as g)"

lemma do_act_reachable: "graph_reachable w g \<Longrightarrow> do_act w a g = Some g' \<Longrightarrow> graph_reachable w g'"
  by (cases a) (auto simp: do_act_def intro: reach_step reach_link gstep.intros)

lemma schedule_reachable: "graph_reachable w g \<Longrightarrow> schedule w as g = Some g' \<Longrightarrow> graph_reachable w g'"
  by (induction as arbitrary: g) (auto intro: do_act_reachable split: option.splits)

text \<open>A source that hands out the frames of a list and a sink that takes them.\<close>

definition demo_media :: "source_mode \<Rightarrow> media_frame list media_ops" where
  "demo_media m = \<lparr>mo_source = \<lparr>sr_mode = m, sr_init = (\<lambda>_ d. (True, d)), sr_finit = id, sr_negotiate = (\<lambda>d. ([], d)),
       sr_pull = (\<lambda>d. case d of [] \<Rightarrow> (None, []) | f # fs \<Rightarrow> (Some f, fs))\<rparr>,
     mo_sink = (\<lambda>_. \<lparr>so_name = ''demo'', so_init = (\<lambda>_ d. (True, d)), so_finit = (\<lambda>d. (True, d)), so_process = (\<lambda>_ d. (True, d)),
       so_droppable = False, so_negotiate = (\<lambda>_ d. (True, d)), so_error = (\<lambda>_ d. (True, d)), so_eos_cb = None\<rparr>)\<rparr>"

lemmas run_simps = do_act_def source_routine_def sink_routine_def source_start_def sink_start_def link_sink_def
  source_stop_begin_def source_flush_def flush_link_def flush_all_def source_stop_join_def update_sink_queue_stats_def upd_sink_def upd_queue_def
  graph_new_def sink_new_def demo_media_def locked_def queue_new_def queue_flush_def queue_pop_def pop_ready_def push_ready_def
  queue_full_def max_items_def push_item_def frame_can_drop_def Let_def

definition demo_acts :: "graph_act list" where
  "demo_acts = [Do_Link 0, Do_Sink_Start 0, Do_Start, Do_Source, Do_Source, Do_Source, Do_Source, Do_Source, Do_Sink 0, Do_Sink 0, Do_Sink 0]"

lemma demo_run:
  "\<exists>g. schedule (demo_media PULL) demo_acts (graph_new [demo_frame True VIDEO]) = Some g \<and>
     g_processed g 0 = [demo_frame True VIDEO] \<and> g_pulled g = [demo_frame True VIDEO] \<and> g_links g = [(0, 0)] \<and>
     g_thread g = S_Loop \<and> g_sinks g 0 = \<lparr>k_running = True, k_queue = Some 0, k_thread = K_Loop, k_thread_started = True\<rparr> \<and>
     q_items (g_queues g 0) = []"
  by (simp add: demo_acts_def run_simps)

theorem frames_delivered_in_order_witness:
  "\<exists>g. graph_reachable (demo_media PULL) g \<and> g_processed g 0 = [demo_frame True VIDEO] \<and> subseq (g_processed g 0) (g_pulled g)"
proof -
  obtain g where g: "schedule (demo_media PULL) demo_acts (graph_new [demo_frame True VIDEO]) = Some g"
      "g_processed g 0 = [demo_frame True VIDEO]"
    using demo_run by blast
  have r: "graph_reachable (demo_media PULL) g" by (rule schedule_reachable [OF reach_new g(1)])
  show ?thesis using r g(2) frames_delivered_in_order [OF r, of 0] by blast
qed

section \<open>Stopping and stalling\<close>

text \<open>A queue that was flushed while nobody was pushing into it stays empty.\<close>

definition starved :: "nat \<Rightarrow> nat \<Rightarrow> media_frame list \<Rightarrow> 'd graph \<Rightarrow> bool" where
  "starved k i ps g \<longleftrightarrow> k_queue (g_sinks g k) = Some i \<and> q_flushing (g_queues g i) \<and> q_items (g_queues g i) = [] \<and>
     (\<forall>f j rest. g_thread g \<noteq> S_Wait f j i rest) \<and> g_processed g k @ in_hand (k_thread (g_sinks g k)) = ps"

lemma starved_cong:
  assumes "starved k i ps g" "k_queue (g_sinks g' k) = k_queue (g_sinks g k)" "g_thread g' = g_thread g"
    and "q_flushing (g_queues g' i)" "q_items (g_queues g' i) = []"
    and "g_processed g' k = g_processed g k" "in_hand (k_thread (g_sinks g' k)) = in_hand (k_thread (g_sinks g k))"
  shows "starved k i ps g'"
  using assms by (simp add: starved_def)

lemma starved_error: "starved k i ps g \<Longrightarrow> starved k i ps (sink_error w j e g)"
  by (rule starved_cong, assumption)
    (auto simp: sink_error_def queue_set_eos_def split_beta Let_def starved_def split: option.split)

lemma starved_source_error: "starved k i ps g \<Longrightarrow> starved k i ps (source_error w e g)"
proof -
  have "starved k i ps (fold (\<lambda>(k, _). sink_error w k e) ls g)" if "starved k i ps g" for ls :: "(nat \<times> nat) list" and g :: "'a graph"
    using that by (induction ls arbitrary: g) (auto simp: starved_error)
  then show "starved k i ps (g :: 'a graph) \<Longrightarrow> ?thesis" by (auto simp: source_error_def starved_def)
qed

lemma starved_flush: "starved k i ps g \<Longrightarrow> starved k i ps (flush_all w g)"
proof -
  have "starved k i ps (fold (flush_link w) ls g)" if "starved k i ps g" for ls g
    using that by (induction ls arbitrary: g) (auto simp: starved_def flush_link_def queue_flush_def)
  then show "starved k i ps g \<Longrightarrow> ?thesis" by (simp add: flush_all_def)
qed

lemma starved_sink:
  assumes st: "starved k i ps g" and step: "sink_routine w j g = Some g'"
  shows "starved k i ps g'"
proof (cases "k_thread (g_sinks g j)")
  case (K_Process f)
  have "starved k i ps (upd_sink j (\<lambda>s. s\<lparr>k_thread := K_Loop\<rparr>)
      (g\<lparr>g_world := d, g_processed := (g_processed g)(j := g_processed g j @ [f])\<rparr>))" for d
    using st K_Process by (auto simp: starved_def in_hand_def)
  then show ?thesis
    using step K_Process by (auto simp: sink_routine_def split_beta Let_def intro: starved_error split: if_splits)
next
  case K_Loop
  then show ?thesis using st step by (auto simp: sink_routine_def starved_def in_hand_def)
next
  case K_Pop
  then obtain l where l: "k_queue (g_sinks g j) = Some l" using step by (auto simp: sink_routine_def split: option.splits)
  obtain x q where p: "queue_pop (g_queues g l) = (x, q)" by fastforce
  have g': "g_thread g' = g_thread g" "g_processed g' = g_processed g" "k_queue (g_sinks g' m) = k_queue (g_sinks g m)"
      "g_queues g' m = (if m = l then q else g_queues g m)"
      "k_thread (g_sinks g' m) = (if m = j then case x of None \<Rightarrow> K_Ended | Some f \<Rightarrow> K_Process f else k_thread (g_sinks g m))" for m
    using step K_Pop l p by (auto simp: sink_routine_def Let_def split: if_splits option.splits)
  have i: "l = i \<Longrightarrow> q = g_queues g i \<and> x = None" using st p by (auto simp: starved_def queue_pop_def)
  have "in_hand (k_thread (g_sinks g' k)) = in_hand (k_thread (g_sinks g k))"
    using K_Pop l i st by (cases "j = k") (auto simp: g' in_hand_def starved_def)
  then show ?thesis using st i by (intro starved_cong [OF st]) (auto simp: g' starved_def)
qed (use step in \<open>simp_all add: sink_routine_def\<close>)

lemma starved_source:
  assumes st: "starved k i ps g" and step: "source_routine w g = Some g'"
  shows "starved k i ps g'"
proof (cases "g_thread g")
  case (S_Push f ls)
  then show ?thesis
    using st step by (cases ls) (auto simp: source_routine_def starved_def split: if_splits prod.splits)
next
  case (S_Wait f j l rest)
  then show ?thesis
    using st step by (auto simp: source_routine_def starved_def split: if_splits)
qed (use st step in \<open>auto simp: source_routine_def starved_def split: if_splits prod.splits option.splits\<close>)

lemma starved_step: "gstep w g g' \<Longrightarrow> starved k i ps g \<Longrightarrow> starved k i ps g'"
proof (induction rule: gstep.induct)
  case (g_source g g')
  then show ?case by (blast intro: starved_source)
next
  case (g_sink j g g')
  then show ?case by (blast intro: starved_sink)
next
  case (g_start g)
  then show ?case by (simp add: source_start_def starved_def)
next
  case (g_stop g)
  then show ?case by (simp add: source_stop_begin_def starved_def)
next
  case (g_flush g g')
  then show ?case by (auto simp: source_flush_def starved_flush split: if_splits)
next
  case (g_join g g')
  then show ?case by (auto simp: source_stop_join_def starved_def split: if_splits)
next
  case (g_sink_start g j)
  then show ?case by (auto simp: sink_start_def starved_def in_hand_def)
next
  case (g_sink_stop g j)
  then show ?case by (auto simp: sink_stop_begin_def Let_def queue_flush_def starved_def split: option.split)
next
  case (g_sink_join j g g')
  then show ?case by (auto simp: sink_stop_join_def starved_def in_hand_def split: if_splits)
next
  case (g_world_step g d)
  then show ?case by (simp add: starved_def)
qed (simp_all add: starved_error starved_source_error)

lemma flush_links_frame:
  "g_thread (fold (flush_link w) ls g) = g_thread g" "g_sinks (fold (flush_link w) ls g) = g_sinks g"
  "g_processed (fold (flush_link w) ls g) = g_processed g"
  by (induction ls arbitrary: g) (simp_all add: flush_link_def)

lemma flush_links_empty:
  "q_flushing (g_queues g i) \<and> q_items (g_queues g i) = [] \<or> i \<in> snd ` set ls \<Longrightarrow>
     q_flushing (g_queues (fold (flush_link w) ls g) i) \<and> q_items (g_queues (fold (flush_link w) ls g) i) = []"
  by (induction ls arbitrary: g) (auto simp: flush_link_def queue_flush_def)

lemma flush_all_starves:
  assumes "(k, i) \<in> set (g_links g)" "k_queue (g_sinks g k) = Some i" "\<not> locked g"
  shows "starved k i (g_processed g k @ in_hand (k_thread (g_sinks g k))) (flush_all w g)"
proof -
  have "i \<in> snd ` set (g_links g)" using assms(1) by force
  then show ?thesis
    using assms(2,3) flush_links_empty [of g i "g_links g" w]
    by (auto simp: flush_all_def flush_links_frame starved_def locked_def)
qed

text \<open>
  stopping a source leaves the queues of the sinks that stay linked flushing for good: whatever the source
  and its sinks do afterwards, restarting the source included, such a sink gets no frame any more but the one
  it has in its hand.
\<close>

theorem stopped_source_starves_sink:
  assumes "graph_reachable w g" "(k, i) \<in> set (g_links g)" "source_flush w g = Some g1" "(gstep w)\<^sup>*\<^sup>* g1 g2"
  shows "q_items (g_queues g2 i) = [] \<and> length (g_processed g2 k) \<le> length (g_processed g k) + 1"
proof -
  have inv: "graph_inv g" by (rule graph_reachable_inv [OF assms(1)])
  then have "k_queue (g_sinks g k) = Some i" using assms(2) by (auto simp: graph_inv_def links_inv_def)
  then have "starved k i (g_processed g k @ in_hand (k_thread (g_sinks g k))) g1"
    using assms(2,3) flush_all_starves by (auto simp: source_flush_def split: if_splits)
  with assms(4) have "starved k i (g_processed g k @ in_hand (k_thread (g_sinks g k))) g2"
    by (induction rule: rtranclp_induct) (auto intro: starved_step)
  then have i: "q_items (g_queues g2 i) = []" and
      l: "g_processed g2 k @ in_hand (k_thread (g_sinks g2 k)) = g_processed g k @ in_hand (k_thread (g_sinks g k))"
    by (simp_all add: starved_def)
  have "length (in_hand (k_thread (g_sinks g k))) \<le> 1" by (simp add: in_hand_def split: sink_pc.split)
  moreover have "length (g_processed g2 k) + length (in_hand (k_thread (g_sinks g2 k))) =
      length (g_processed g k) + length (in_hand (k_thread (g_sinks g k)))"
    using arg_cong [OF l, of length] by simp
  ultimately show ?thesis using i by simp
qed

theorem stopped_source_starves_sink_witness:
  "\<exists>g g1 g2. graph_reachable (demo_media PULL) g \<and> g_links g = [(0, 0)] \<and> source_flush (demo_media PULL) g = Some g1 \<and>
     (gstep (demo_media PULL))\<^sup>*\<^sup>* g1 g2 \<and> g_running g2 \<and> q_items (g_queues g2 0) = []"
proof -
  let ?w = "demo_media PULL"
  obtain g where g: "schedule ?w demo_acts (graph_new [demo_frame True VIDEO]) = Some g" "g_links g = [(0, 0)]" "g_thread g = S_Loop"
    using demo_run by blast
  have r: "graph_reachable ?w g" by (rule schedule_reachable [OF reach_new g(1)])
  have f: "source_flush ?w g = Some (flush_all ?w g)" using g(3) by (simp add: source_flush_def locked_def)
  let ?g = "source_stop_begin (flush_all ?w g)"
  have t: "g_thread (flush_all ?w g) = S_Loop" using g by (simp add: flush_all_def flush_link_def)
  have "source_routine ?w ?g = Some (?g\<lparr>g_thread := S_Ended\<rparr>)" using t by (simp add: source_routine_def source_stop_begin_def)
  then have 1: "(gstep ?w)\<^sup>*\<^sup>* (flush_all ?w g) (?g\<lparr>g_thread := S_Ended\<rparr>)"
    by (meson converse_rtranclp_into_rtranclp g_source g_stop rtranclp.rtrancl_refl)
  have "source_stop_join (?g\<lparr>g_thread := S_Ended\<rparr>) = Some (?g\<lparr>g_thread := S_None\<rparr>)" by (simp add: source_stop_join_def)
  then have 2: "(gstep ?w)\<^sup>*\<^sup>* (flush_all ?w g) (?g\<lparr>g_thread := S_None\<rparr>)" by (rule rtranclp.rtrancl_into_rtrancl [OF 1 g_join])
  have 3: "(gstep ?w)\<^sup>*\<^sup>* (flush_all ?w g) (snd (source_start ?w (?g\<lparr>g_thread := S_None\<rparr>)))"
    by (rule rtranclp.rtrancl_into_rtrancl [OF 2 g_start])
  have "g_running (snd (source_start ?w (?g\<lparr>g_thread := S_None\<rparr>)))"
    by (simp add: source_start_def source_stop_begin_def demo_media_def)
  then show ?thesis using r g(2) f 3 stopped_source_starves_sink [OF r _ f 3, of 0 0] by auto
qed

end
