(* ===== verification/Media_Stream.thy ===== *)
theory Media_Stream
  imports Media_Graph
begin

text \<open>
  The class \<^verbatim>\<open>stream\<close> of \<^verbatim>\<open>src/src/streamer/stream.h\<close>: one source and one sink, started and stopped one after
  the other while their threads run. An operation that waits is a relation: in between its parts the threads
  make any number of steps.
\<close>

section \<open>Steps of the threads\<close>

inductive thread_step :: "'d media_ops \<Rightarrow> 'd graph \<Rightarrow> 'd graph \<Rightarrow> bool" for w where
  t_source: "source_routine w g = Some g' \<Longrightarrow> thread_step w g g'"
| t_sink: "sink_routine w k g = Some g' \<Longrightarrow> thread_step w g g'"
| t_error: "thread_step w g (source_error w e g)"
| t_world: "thread_step w g (g\<lparr>g_world := d\<rparr>)"

lemma tstep_gstep: "thread_step w g g' \<Longrightarrow> gstep w g g'"
  by (induction rule: thread_step.induct) (auto intro: gstep.intros)

lemma tsteps_reachable: "(thread_step w)\<^sup>*\<^sup>* g g' \<Longrightarrow> graph_reachable w g \<Longrightarrow> graph_reachable w g'"
  by (induction rule: rtranclp_induct) (auto intro: reach_step tstep_gstep)

section \<open>The stream\<close>

text \<open>\<open>st_source\<close>: the source pointer is not null.\<close>

record 'd mstream =
  st_name :: string
  st_cloud_name :: string
  st_source :: bool
  st_sink :: "nat option"
  st_source_started :: bool
  st_sink_started :: bool
  st_graph :: "'d graph"

definition stream_new :: "string \<Rightarrow> string \<Rightarrow> bool \<Rightarrow> nat option \<Rightarrow> 'd \<Rightarrow> 'd mstream" where
  "stream_new name cloud_name source sink d = \<lparr>st_name = name, st_cloud_name = cloud_name, st_source = source, st_sink = sink,
     st_source_started = False, st_sink_started = False, st_graph = graph_new d\<rparr>"

definition video_es_name :: "'d mstream \<Rightarrow> string" where
  "video_es_name s = st_cloud_name s @ ''Video''"

definition audio_es_name :: "'d mstream \<Rightarrow> string" where
  "audio_es_name s = st_cloud_name s @ ''Audio''"

definition init_source :: "'d media_ops \<Rightarrow> string \<Rightarrow> 'd graph \<Rightarrow> bool \<times> 'd graph" where
  "init_source w url g = (let (ok, d) = sr_init (mo_source w) url (g_world g) in (ok, g\<lparr>g_world := d\<rparr>))"

definition finit_source :: "'d media_ops \<Rightarrow> 'd graph \<Rightarrow> 'd graph" where
  "finit_source w g = g\<lparr>g_world := sr_finit (mo_source w) (g_world g)\<rparr>"

definition init_sink :: "'d media_ops \<Rightarrow> nat \<Rightarrow> string \<Rightarrow> 'd graph \<Rightarrow> bool \<times> 'd graph" where
  "init_sink w k url g = (let (ok, d) = so_init (mo_sink w k) url (g_world g) in (ok, g\<lparr>g_world := d\<rparr>))"

definition finit_sink :: "'d media_ops \<Rightarrow> nat \<Rightarrow> 'd graph \<Rightarrow> 'd graph" where
  "finit_sink w k g = g\<lparr>g_world := snd (so_finit (mo_sink w k) (g_world g))\<rparr>"

definition mstream_start :: "'d media_ops \<Rightarrow> string \<Rightarrow> 'd mstream \<Rightarrow> bool \<times> 'd mstream" where
  "mstream_start w url s =
     (if st_source_started s then (True, s)
      else if \<not> st_source s then (False, s)
      else
        let (ok, g) = init_source w url (st_graph s) in
        if \<not> ok then (False, s\<lparr>st_graph := finit_source w g\<rparr>)
        else let (ok, g) = source_start w g
             in if ok then (True, s\<lparr>st_graph := g, st_source_started := True\<rparr>)
                else (False, s\<lparr>st_graph := finit_source w g\<rparr>))"

text \<open>\<open>ISource::stop\<close> and \<open>ISink::stop\<close> with their waits.\<close>

definition source_stopped :: "'d media_ops \<Rightarrow> 'd graph \<Rightarrow> 'd graph \<Rightarrow> bool" where
  "source_stopped w g g' \<longleftrightarrow>
     (if sr_mode (mo_source w) = PULL
      then \<exists>g1 g2 g3. (thread_step w)\<^sup>*\<^sup>* (source_stop_begin g) g1 \<and> source_flush w g1 = Some g2 \<and> (thread_step w)\<^sup>*\<^sup>* g2 g3 \<and>
             source_stop_join g3 = Some g'
      else g' = source_stop_begin g)"

definition sink_stopped :: "'d media_ops \<Rightarrow> nat \<Rightarrow> 'd graph \<Rightarrow> 'd graph \<Rightarrow> bool" where
  "sink_stopped w k g g' \<longleftrightarrow> (\<exists>g1. (thread_step w)\<^sup>*\<^sup>* (sink_stop_begin k g) g1 \<and> sink_stop_join k g1 = Some g')"

inductive mstream_stop :: "'d media_ops \<Rightarrow> 'd mstream \<Rightarrow> 'd mstream \<Rightarrow> bool" for w where
  stop_source: "st_source s \<Longrightarrow> source_stopped w (st_graph s) g \<Longrightarrow>
    mstream_stop w s (s\<lparr>st_graph := finit_source w g, st_source_started := False\<rparr>)"
| stop_no_source: "\<not> st_source s \<Longrightarrow> mstream_stop w s (s\<lparr>st_source_started := False\<rparr>)"

inductive mstream_stop_sink :: "'d media_ops \<Rightarrow> 'd mstream \<Rightarrow> 'd mstream \<Rightarrow> bool" for w where
  stop_sink: "st_sink s = Some k \<Longrightarrow> sink_stopped w k (st_graph s) g1 \<Longrightarrow> (thread_step w)\<^sup>*\<^sup>* g1 g2 \<Longrightarrow>
    (if st_source s then unlink_sink k g2 = Some g3 else g3 = g2) \<Longrightarrow>
    mstream_stop_sink w s (s\<lparr>st_graph := finit_sink w k g3, st_sink_started := False\<rparr>)"
| stop_no_sink: "st_sink s = None \<Longrightarrow> mstream_stop_sink w s (s\<lparr>st_sink_started := False\<rparr>)"

text \<open>\<open>start_sink\<close> with its result; linking waits for the lock of the queues.\<close>

inductive mstream_start_sink :: "'d media_ops \<Rightarrow> string \<Rightarrow> 'd mstream \<Rightarrow> bool \<Rightarrow> 'd mstream \<Rightarrow> bool" for w url where
  sink_already: "st_sink_started s \<Longrightarrow> mstream_start_sink w url s True s"
| sink_null: "\<not> st_sink_started s \<Longrightarrow> st_sink s = None \<Longrightarrow> mstream_start_sink w url s False s"
| sink_init_failed: "\<not> st_sink_started s \<Longrightarrow> st_sink s = Some k \<Longrightarrow> init_sink w k url (st_graph s) = (False, g) \<Longrightarrow>
    mstream_start_sink w url s False (s\<lparr>st_graph := g\<rparr>)"
| sink_linked: "\<not> st_sink_started s \<Longrightarrow> st_sink s = Some k \<Longrightarrow> st_source s \<Longrightarrow>
    init_sink w k url (st_graph s) = (True, g) \<Longrightarrow> (thread_step w)\<^sup>*\<^sup>* g g1 \<Longrightarrow> link_sink w k g1 = Some (linked, g2) \<Longrightarrow>
    (ok, g3) = (if linked then sink_start k g2 else (False, g2)) \<Longrightarrow>
    mstream_start_sink w url s ok (s\<lparr>st_graph := if ok then g3 else finit_sink w k g3, st_sink_started := ok\<rparr>)"

inductive stream_run :: "'d media_ops \<Rightarrow> 'd mstream \<Rightarrow> bool" for w where
  run_new: "stream_run w (stream_new name cloud_name source sink d)"
| run_threads: "stream_run w s \<Longrightarrow> thread_step w (st_graph s) g \<Longrightarrow> stream_run w (s\<lparr>st_graph := g\<rparr>)"
| run_start: "stream_run w s \<Longrightarrow> stream_run w (snd (mstream_start w url s))"
| run_stop: "stream_run w s \<Longrightarrow> mstream_stop w s s' \<Longrightarrow> stream_run w s'"
| run_start_sink: "stream_run w s \<Longrightarrow> mstream_start_sink w url s ok s' \<Longrightarrow> stream_run w s'"
| run_stop_sink: "stream_run w s \<Longrightarrow> mstream_stop_sink w s s' \<Longrightarrow> stream_run w s'"

section \<open>What the threads leave alone\<close>

text \<open>The threads neither start nor stop threads, and do not touch the flags of the sinks.\<close>

definition same_threads :: "'d graph \<Rightarrow> 'd graph \<Rightarrow> bool" where
  "same_threads g g' \<longleftrightarrow> g_terminated g' = g_terminated g \<and> g_thread_started g' = g_thread_started g \<and>
     (g_thread g' = S_None \<longleftrightarrow> g_thread g = S_None) \<and>
     (\<forall>k. k_running (g_sinks g' k) = k_running (g_sinks g k) \<and> k_thread_started (g_sinks g' k) = k_thread_started (g_sinks g k) \<and>
        (k_thread (g_sinks g' k) = K_None \<longleftrightarrow> k_thread (g_sinks g k) = K_None))"

lemma same_refl [simp]: "same_threads g g"
  by (simp add: same_threads_def)

lemma same_trans: "same_threads g1 g2 \<Longrightarrow> same_threads g2 g3 \<Longrightarrow> same_threads g1 g3"
  by (simp add: same_threads_def)

lemma upd_started [simp]:
  "g_thread_started (upd_sink k f g) = g_thread_started g" "g_thread_started (upd_queue i h g) = g_thread_started g"
  "g_thread_started (update_sink_queue_stats w k g) = g_thread_started g"
  by (simp_all add: upd_sink_def upd_queue_def update_sink_queue_stats_def split: option.split)

lemma sink_error_same [simp]: "same_threads g (sink_error w k e g)"
  by (simp add: sink_error_def same_threads_def split_beta Let_def split: option.split)

lemma same_sink_error: "same_threads g h \<Longrightarrow> same_threads g (sink_error w k e h)"
  using same_trans sink_error_same by blast

lemma same_stats: "same_threads g h \<Longrightarrow> same_threads g (update_sink_queue_stats w k (upd_queue i f h))"
  by (simp add: same_threads_def)

lemma source_error_same [simp]: "same_threads g (source_error w e g)"
proof -
  have "same_threads h (fold (\<lambda>(k, _). sink_error w k e) ls g)" if "same_threads h g" for ls :: "(nat \<times> nat) list" and g h
    using that by (induction ls arbitrary: g) (auto intro: same_sink_error)
  from this [of g g "g_links g"] show ?thesis by (simp add: source_error_def same_threads_def)
qed

lemma sink_routine_same:
  assumes "sink_routine w k g = Some g'"
  shows "same_threads g g'"
proof (cases "k_thread (g_sinks g k)")
  case (K_Process f)
  have "same_threads g (upd_sink k (\<lambda>s. s\<lparr>k_thread := K_Loop\<rparr>) (g\<lparr>g_world := d, g_processed := p\<rparr>))" for d p
    using K_Process by (simp add: same_threads_def)
  then show ?thesis
    using assms K_Process by (auto simp: sink_routine_def split_beta Let_def intro: same_sink_error split: if_splits)
qed (use assms in \<open>auto simp: sink_routine_def same_threads_def Let_def split: option.splits if_splits prod.splits\<close>)

lemma source_routine_same: "source_routine w g = Some g' \<Longrightarrow> same_threads g g'"
  by (auto simp: source_routine_def same_threads_def split: src_pc.splits list.splits if_splits prod.splits option.splits)

lemma tstep_same: "thread_step w g g' \<Longrightarrow> same_threads g g'"
proof (induction rule: thread_step.induct)
  case (t_world g d)
  then show ?case by (simp add: same_threads_def)
qed (simp_all add: source_routine_same sink_routine_same)

lemma tsteps_same: "(thread_step w)\<^sup>*\<^sup>* g g' \<Longrightarrow> same_threads g g'"
  by (induction rule: rtranclp_induct) (auto intro: same_trans tstep_same)

section \<open>Starting and stopping\<close>

definition stream_inv :: "'d media_ops \<Rightarrow> 'd mstream \<Rightarrow> bool" where
  "stream_inv w s \<longleftrightarrow> graph_reachable w (st_graph s) \<and> \<not> g_terminated (st_graph s) \<and>
     (sr_mode (mo_source w) = PUSH \<longrightarrow> \<not> g_thread_started (st_graph s) \<and> g_thread (st_graph s) = S_None) \<and>
     (\<not> st_source_started s \<longrightarrow> g_thread (st_graph s) = S_None) \<and>
     (st_source_started s \<longrightarrow> sr_mode (mo_source w) = PULL \<and> st_source s) \<and>
     (\<forall>k. k_thread_started (g_sinks (st_graph s) k) \<longleftrightarrow> k_thread (g_sinks (st_graph s) k) \<noteq> K_None) \<and>
     (\<forall>k. st_sink_started s \<and> st_sink s = Some k \<or> k_thread (g_sinks (st_graph s) k) = K_None \<and> \<not> k_running (g_sinks (st_graph s) k))"

lemma stream_inv_reachable: "stream_inv w s \<Longrightarrow> graph_reachable w (st_graph s)"
  by (simp add: stream_inv_def)

lemma stream_inv_same:
  assumes "stream_inv w s" "graph_reachable w g" "same_threads (st_graph s) g"
  shows "stream_inv w (s\<lparr>st_graph := g\<rparr>)"
  using assms by (simp add: stream_inv_def same_threads_def)

lemma reachable_world: "graph_reachable w g \<Longrightarrow> graph_reachable w (g\<lparr>g_world := d\<rparr>)"
  by (rule reach_step) (auto intro: g_world_step)

lemma same_world [simp]: "same_threads g (g\<lparr>g_world := d\<rparr>)"
  by (simp add: same_threads_def)

lemma stream_start_inv: "stream_inv w s \<Longrightarrow> stream_inv w (snd (mstream_start w url s))"
proof -
  assume inv: "stream_inv w s"
  obtain ok d where i: "sr_init (mo_source w) url (g_world (st_graph s)) = (ok, d)" by fastforce
  let ?g = "(st_graph s)\<lparr>g_world := d\<rparr>"
  have g: "stream_inv w (s\<lparr>st_graph := ?g\<rparr>)"
    using inv by (intro stream_inv_same) (simp_all add: stream_inv_def reachable_world)
  have f: "stream_inv w (s\<lparr>st_graph := finit_source w h\<rparr>)" if "stream_inv w (s\<lparr>st_graph := h\<rparr>)" for h
    using stream_inv_same [OF that, of "finit_source w h"] that by (simp add: finit_source_def stream_inv_def reachable_world)
  have "graph_reachable w (snd (source_start w ?g))"
    using g by (intro reach_step [OF _ g_start]) (simp add: stream_inv_def)
  then have "stream_inv w (if fst (source_start w ?g) then s\<lparr>st_graph := snd (source_start w ?g), st_source_started := True\<rparr>
      else s\<lparr>st_graph := snd (source_start w ?g)\<rparr>)" if "\<not> st_source_started s" "st_source s"
    using g that by (cases "sr_mode (mo_source w)") (auto simp: stream_inv_def source_start_def split: if_splits)
  then show ?thesis
    using inv f [of ?g] f [of "snd (source_start w ?g)"] g i
    by (auto simp: mstream_start_def init_source_def Let_def split_beta split: if_splits)
qed

lemma flush_same: "source_flush w g = Some g' \<Longrightarrow> same_threads g g'"
proof -
  have "same_threads g (fold (flush_link w) ls h)" if "same_threads g h" for ls h
    using that by (induction ls arbitrary: h) (auto simp: flush_link_def same_stats)
  then show "source_flush w g = Some g' \<Longrightarrow> ?thesis" by (auto simp: source_flush_def flush_all_def split: if_splits)
qed

lemma source_stopped_inv:
  assumes inv: "stream_inv w s" and "source_stopped w (st_graph s) g"
  shows "stream_inv w (s\<lparr>st_graph := g, st_source_started := False\<rparr>) \<and> graph_reachable w g"
proof (cases "sr_mode (mo_source w)")
  case PULL
  then obtain g1 g2 g3 where g: "(thread_step w)\<^sup>*\<^sup>* (source_stop_begin (st_graph s)) g1" "source_flush w g1 = Some g2"
      "(thread_step w)\<^sup>*\<^sup>* g2 g3" "source_stop_join g3 = Some g"
    using assms(2) by (auto simp: source_stopped_def)
  have "graph_reachable w g1"
    by (rule tsteps_reachable [OF g(1) reach_step [OF stream_inv_reachable [OF inv] g_stop]])
  from tsteps_reachable [OF g(3) reach_step [OF this g_flush [OF g(2)]]]
  have r: "graph_reachable w g" by (rule reach_step [OF _ g_join [OF g(4)]])
  have "same_threads (source_stop_begin (st_graph s)) g3"
    using tsteps_same [OF g(1)] flush_same [OF g(2)] tsteps_same [OF g(3)] same_trans by blast
  moreover have "same_threads (st_graph s) (source_stop_begin (st_graph s))" by (simp add: same_threads_def source_stop_begin_def)
  ultimately have "same_threads (st_graph s) g3" using same_trans by blast
  moreover have "g = g3\<lparr>g_thread := S_None\<rparr>" using g(4) by (simp add: source_stop_join_def split: if_splits)
  ultimately show ?thesis using inv PULL r by (simp add: stream_inv_def same_threads_def)
next
  case PUSH
  then have "g = source_stop_begin (st_graph s)" using assms(2) by (simp add: source_stopped_def)
  then show ?thesis
    using inv PUSH reach_step [OF stream_inv_reachable [OF inv] g_stop] by (simp add: stream_inv_def source_stop_begin_def)
qed

lemma stream_stop_inv: "mstream_stop w s s' \<Longrightarrow> stream_inv w s \<Longrightarrow> stream_inv w s'"
proof (induction rule: mstream_stop.induct)
  case (stop_source s g)
  then show ?case using source_stopped_inv [OF stop_source(3,2)] by (simp add: stream_inv_def finit_source_def reachable_world)
next
  case (stop_no_source s)
  then show ?case by (cases "st_source_started s") (simp_all add: stream_inv_def)
qed

lemma sink_stopped_inv:
  assumes inv: "stream_inv w s" and "sink_stopped w k (st_graph s) g" "st_sink s = Some k"
  shows "stream_inv w (s\<lparr>st_graph := g, st_sink_started := False\<rparr>)"
proof -
  obtain g1 where g: "(thread_step w)\<^sup>*\<^sup>* (sink_stop_begin k (st_graph s)) g1" "sink_stop_join k g1 = Some g"
    using assms(2) by (auto simp: sink_stopped_def)
  let ?b = "sink_stop_begin k (st_graph s)"
  have b: "g_terminated ?b = g_terminated (st_graph s)" "g_thread_started ?b = g_thread_started (st_graph s)"
    "g_thread ?b = g_thread (st_graph s)" "k_thread (g_sinks ?b j) = k_thread (g_sinks (st_graph s) j)"
    "k_thread_started (g_sinks ?b j) = k_thread_started (g_sinks (st_graph s) j)"
    "k_running (g_sinks ?b j) = (j \<noteq> k \<and> k_running (g_sinks (st_graph s) j))" for j
    by (simp_all add: sink_stop_begin_def Let_def split: option.split)
  have "graph_reachable w g1"
    by (rule tsteps_reachable [OF g(1) reach_step [OF stream_inv_reachable [OF inv] g_sink_stop]])
  then have r: "graph_reachable w g" by (rule reach_step [OF _ g_sink_join [OF g(2)]])
  have "k_thread_started (g_sinks g1 j) \<longleftrightarrow> k_thread (g_sinks g1 j) \<noteq> K_None" "\<not> k_running (g_sinks g1 k)" for j
    using inv tsteps_same [OF g(1)] by (simp_all add: stream_inv_def same_threads_def b)
  moreover have "j \<noteq> k \<Longrightarrow> k_thread (g_sinks g1 j) = K_None \<and> \<not> k_running (g_sinks g1 j)" for j
    using inv tsteps_same [OF g(1)] assms(3) by (auto simp: stream_inv_def same_threads_def b)
  ultimately have "k_thread (g_sinks g j) = K_None \<and> \<not> k_running (g_sinks g j) \<and> \<not> k_thread_started (g_sinks g j)" for j
    using g(2) by (cases "j = k") (auto simp: sink_stop_join_def split: if_splits)
  moreover have "g_terminated g = g_terminated g1" "g_thread g = g_thread g1" "g_thread_started g = g_thread_started g1"
    using g(2) by (auto simp: sink_stop_join_def split: if_splits)
  ultimately show ?thesis
    using inv r tsteps_same [OF g(1)] by (simp add: stream_inv_def same_threads_def b)
qed

lemma stream_stop_sink_inv: "mstream_stop_sink w s s' \<Longrightarrow> stream_inv w s \<Longrightarrow> stream_inv w s'"
proof (induction rule: mstream_stop_sink.induct)
  case (stop_sink s k g1 g2 g3)
  have s1: "stream_inv w (s\<lparr>st_graph := g1, st_sink_started := False\<rparr>)"
    using sink_stopped_inv stop_sink by blast
  then have "graph_reachable w g2" "same_threads g1 g2"
    using tsteps_reachable [OF stop_sink(3)] tsteps_same [OF stop_sink(3)] by (simp_all add: stream_inv_def)
  moreover have "graph_reachable w g2 \<Longrightarrow> graph_reachable w g3" "same_threads g2 g3"
    using stop_sink(4) by (auto simp: same_threads_def unlink_sink_def intro: reach_unlink split: if_splits)
  ultimately have "graph_reachable w (finit_sink w k g3)" "same_threads g1 (finit_sink w k g3)"
    using same_trans by (auto simp: finit_sink_def reachable_world intro: same_trans)
  then show ?case using s1 by (simp add: stream_inv_def same_threads_def)
next
  case (stop_no_sink s)
  then show ?case by (simp add: stream_inv_def)
qed

lemma stream_start_sink_inv: "mstream_start_sink w url s ok s' \<Longrightarrow> stream_inv w s \<Longrightarrow> stream_inv w s'"
proof (induction rule: mstream_start_sink.induct)
  case (sink_init_failed s k g)
  then show ?case by (intro stream_inv_same) (auto simp: init_sink_def split_beta Let_def stream_inv_def reachable_world)
next
  case (sink_linked s k g g1 linked g2 ok g3)
  have "graph_reachable w g" "same_threads (st_graph s) g"
    using sink_linked by (auto simp: init_sink_def split_beta Let_def stream_inv_def reachable_world)
  then have 1: "graph_reachable w g1" "same_threads (st_graph s) g1"
    using tsteps_reachable [OF sink_linked(5)] tsteps_same [OF sink_linked(5)] same_trans by blast+
  have 2: "graph_reachable w g2" using reach_link [OF 1(1) sink_linked(6)] .
  have "same_threads g1 g2"
    using sink_linked(6) by (auto simp: link_sink_def same_threads_def Let_def split_beta split: if_splits)
  then have s2: "same_threads (st_graph s) g2" using 1(2) same_trans by blast
  have "k_thread (g_sinks g2 k) = K_None" "\<not> k_running (g_sinks g2 k)"
    using s2 sink_linked by (auto simp: same_threads_def stream_inv_def)
  then have s: "sink_start k g2 = (True, upd_sink k (\<lambda>s. s\<lparr>k_running := k_queue s \<noteq> None, k_thread := K_Loop, k_thread_started := True\<rparr>) g2)"
    by (simp add: sink_start_def)
  then have "graph_reachable w (snd (sink_start k g2))" using reach_step [OF 2 g_sink_start] by blast
  then show ?case
    using sink_linked s s2 2 by (auto simp: stream_inv_def same_threads_def finit_sink_def reachable_world split: if_splits)
qed simp_all

lemma stream_run_inv: "stream_run w s \<Longrightarrow> stream_inv w s"
proof (induction rule: stream_run.induct)
  case (run_new name cloud_name source sink d)
  show ?case by (simp add: stream_inv_def stream_new_def reach_new) (simp add: graph_new_def sink_new_def)
next
  case (run_threads s g)
  then show ?case using tstep_same by (intro stream_inv_same) (auto simp: stream_inv_def intro: reach_step tstep_gstep)
qed (blast intro: stream_start_inv stream_stop_inv stream_start_sink_inv stream_stop_sink_inv)+



text \<open>
  a stream whose source pushes its frames never starts: starting it fails every time, although the source
  is left running.
\<close>

theorem push_source_never_starts:
  assumes "stream_run w s" "sr_mode (mo_source w) = PUSH"
  shows "\<not> fst (mstream_start w url s) \<and> \<not> st_source_started (snd (mstream_start w url s))"
proof -
  have "stream_inv w s" by (rule stream_run_inv [OF assms(1)])
  then show ?thesis
    using assms(2) by (auto simp: stream_inv_def mstream_start_def source_start_def init_source_def Let_def split_beta)
qed

theorem push_source_never_starts_witness:
  "stream_run (demo_media PUSH) (stream_new ''cam'' ''cam'' True (Some 0) []) \<and>
   \<not> fst (mstream_start (demo_media PUSH) ''u'' (stream_new ''cam'' ''cam'' True (Some 0) []))"
  using push_source_never_starts [OF run_new, of "demo_media PUSH" "''u''" "''cam''" "''cam''" True "Some 0" "[]"]
  by (simp add: run_new) (simp add: demo_media_def)

section \<open>A sink that ended\<close>

definition stalled :: "nat \<Rightarrow> nat \<Rightarrow> media_frame list \<Rightarrow> 'd graph \<Rightarrow> bool" where
  "stalled k i ps g \<longleftrightarrow> graph_inv g \<and> k_queue (g_sinks g k) = Some i \<and> k_thread (g_sinks g k) = K_Ended \<and>
     \<not> push_ready (g_queues g i) \<and> (\<exists>f rest. g_thread g = S_Wait f k i rest) \<and> g_pulled g = ps"

lemma stalled_cong:
  assumes "stalled k i ps g" "graph_inv g'" "k_queue (g_sinks g' k) = k_queue (g_sinks g k)"
    and "k_thread (g_sinks g' k) = k_thread (g_sinks g k)" "q_items (g_queues g' i) = q_items (g_queues g i)"
    and "q_drop (g_queues g' i) = q_drop (g_queues g i)" "g_thread g' = g_thread g" "g_pulled g' = g_pulled g"
  shows "stalled k i ps g'"
  using assms by (simp add: stalled_def push_ready_def queue_full_def)

lemma stalled_error:
  assumes "stalled k i ps g"
  shows "stalled k i ps (sink_error w j e g)"
proof (rule stalled_cong [OF assms])
  show "graph_inv (sink_error w j e g)" using assms by (simp add: stalled_def sink_error_inv)
qed (auto simp: sink_error_def queue_set_eos_def split_beta Let_def split: option.split)

lemma stalled_source_error:
  assumes "stalled k i ps (g :: 'a graph)"
  shows "stalled k i ps (source_error w e g)"
proof (cases "e = E_NONE")
  case False
  have f: "stalled k i ps (fold (\<lambda>(k, _). sink_error w k e) ls h)" if "stalled k i ps h" for ls :: "(nat \<times> nat) list" and h :: "'a graph"
    using that by (induction ls arbitrary: h) (auto intro: stalled_error)
  have "stalled k i ps (h\<lparr>g_running := False\<rparr>)" if "stalled k i ps h" for h :: "'a graph"
  proof (rule stalled_cong [OF that])
    show "graph_inv (h\<lparr>g_running := False\<rparr>)" by (rule graph_inv_frame [of h]) (use that in \<open>simp_all add: stalled_def\<close>)
  qed simp_all
  from this [OF f [OF assms, of "g_links g"]] show ?thesis using False by (simp add: source_error_def)
qed (use assms in \<open>simp add: source_error_def\<close>)

lemma stalled_sink:
  assumes st: "stalled k i ps g" and step: "sink_routine w j g = Some g'"
  shows "stalled k i ps g'"
proof -
  have j: "j \<noteq> k" using st step by (auto simp: stalled_def sink_routine_def)
  have inv: "graph_inv g'" using st step by (auto simp: stalled_def intro: sink_routine_inv)
  have q: "k_queue (g_sinks g j) \<noteq> Some i" using st j unfolding stalled_def graph_inv_def links_inv_def by metis
  show ?thesis
    by (rule stalled_cong [OF st inv])
      (use st step j q in \<open>auto simp: sink_routine_def sink_error_def queue_set_eos_def split_beta Let_def
        split: sink_pc.splits option.splits if_splits\<close>)
qed

lemma stalled_step: "thread_step w g g' \<Longrightarrow> stalled k i ps g \<Longrightarrow> stalled k i ps g'"
proof (induction rule: thread_step.induct)
  case (t_source g g')
  then show ?case by (auto simp: stalled_def source_routine_def)
next
  case (t_sink j g g')
  then show ?case by (blast intro: stalled_sink)
next
  case (t_error g e)
  then show ?case by (rule stalled_source_error)
next
  case (t_world g d)
  have "graph_inv (g\<lparr>g_world := d\<rparr>)" by (rule graph_inv_frame [of g]) (use t_world in \<open>simp_all add: stalled_def\<close>)
  then show ?case using t_world by (simp add: stalled_def)
qed


definition demo_stalled :: "media_frame list graph" where
  "demo_stalled = (graph_new [])\<lparr>g_thread := S_Wait (demo_frame True VIDEO) 0 0 [], g_links := [(0, 0)], g_next := 1,
     g_queues := (\<lambda>_. queue_new False DROP_FRONT)(0 := (queue_new False DROP_FRONT)\<lparr>q_items := replicate 90 (Some (demo_frame True VIDEO))\<rparr>),
     g_sinks := (\<lambda>_. sink_new)(0 := sink_new\<lparr>k_running := True, k_queue := Some 0, k_thread := K_Ended, k_thread_started := True\<rparr>),
     g_pulled := replicate 91 (demo_frame True VIDEO)\<rparr>"


end
