(* ===== verification/Multifrag.thy ===== *)
theory Multifrag
  imports Media_Graph Time_Period Proto_Events "HOL-Library.Signed_Division"
begin

text \<open>
  The sink that cuts a stream into fragments: \<^verbatim>\<open>src/src/streamer/multifrag_sink.cc\<close> and \<^verbatim>\<open>multifrag_sink.h\<close>, with
  \<^verbatim>\<open>ffmpeg_multifile_sink.h\<close>. It hands the frames to an internal sink through a queue of its own; the thread
  of that sink is the step \<open>inner_step\<close>. Timestamps are exact integers: the products of the code are assumed to
  fit 64 bits.
\<close>

section \<open>State\<close>

datatype frag_mode = SIZE | DURATION | UNKNOWN_MODE

text \<open>The internal sink, and the pure virtual methods of the class.\<close>

record 'd frag_ops =
  fo_sink :: "'d sink_ops"
  fo_generate_uri :: "nat \<Rightarrow> 'd \<Rightarrow> string \<times> 'd"
  fo_finalized :: "string \<Rightarrow> time \<Rightarrow> int \<Rightarrow> 'd \<Rightarrow> 'd"

text \<open>
  The last three fields are what was observed: the calls of \<open>fragment_finalized\<close>, the frames the internal sink took,
  with the fragment it was writing, and the frames that were flushed.
\<close>

record 'd frag_sink =
  fs_world :: 'd
  fs_mode :: frag_mode
  fs_mode_param :: nat
  fs_stream_info :: "stream_info list"
  fs_size :: nat
  fs_start :: time
  fs_duration :: int
  fs_first_video_pts :: int
  fs_first_video_dts :: int
  fs_last_video_pts :: int
  fs_last_video_dts :: int
  fs_first_audio_pts :: int
  fs_first_audio_dts :: int
  fs_last_audio_pts :: int
  fs_last_audio_dts :: int
  fs_queue :: "media_frame mqueue"
  fs_counter :: nat
  fs_uri :: string
  fs_key_received :: bool
  fs_disable_audio :: bool
  fs_inner_linked :: bool
  fs_inner_running :: bool
  fs_finalized :: "(string \<times> time \<times> int) list"
  fs_written :: "(string \<times> media_frame option) list"
  fs_lost :: "media_frame option list"

definition frag_sink_new :: "'d frag_ops \<Rightarrow> frag_mode \<Rightarrow> nat \<Rightarrow> 'd \<Rightarrow> 'd frag_sink" where
  "frag_sink_new w mode param d = \<lparr>fs_world = d, fs_mode = mode, fs_mode_param = param, fs_stream_info = [], fs_size = 0,
     fs_start = 0, fs_duration = 0, fs_first_video_pts = 0, fs_first_video_dts = 0, fs_last_video_pts = 0,
     fs_last_video_dts = 0, fs_first_audio_pts = 0, fs_first_audio_dts = 0, fs_last_audio_pts = 0, fs_last_audio_dts = 0,
     fs_queue = queue_new (so_droppable (fo_sink w)) DROP_FRONT, fs_counter = 0, fs_uri = [], fs_key_received = False,
     fs_disable_audio = False, fs_inner_linked = False, fs_inner_running = False, fs_finalized = [], fs_written = [],
     fs_lost = []\<rparr>"

section \<open>The internal sink\<close>

definition init_internal_sink :: "'d frag_ops \<Rightarrow> 'd frag_sink \<Rightarrow> bool \<times> 'd frag_sink" where
  "init_internal_sink w s =
     (let (uri, d) = fo_generate_uri w (fs_counter s) (fs_world s); (ok, d) = so_init (fo_sink w) uri d
      in (ok, s\<lparr>fs_world := d, fs_uri := uri\<rparr>))"

definition start_internal_sink :: "'d frag_ops \<Rightarrow> 'd frag_sink \<Rightarrow> bool \<times> 'd frag_sink" where
  "start_internal_sink w s =
     (let (ok, s) = init_internal_sink w s in
      if \<not> ok then (False, s)
      else let s = s\<lparr>fs_queue := queue_flush_stop (fs_queue s), fs_inner_linked := True\<rparr> in
        if fs_inner_running s then (False, s)
        else let s = s\<lparr>fs_inner_running := True\<rparr>; (ok, d) = so_negotiate (fo_sink w) (fs_stream_info s) (fs_world s)
             in (ok, s\<lparr>fs_world := d\<rparr>))"

definition stop_internal_sink :: "'d frag_ops \<Rightarrow> 'd frag_sink \<Rightarrow> 'd frag_sink" where
  "stop_internal_sink w s =
     (let s = s\<lparr>fs_inner_running := False\<rparr>;
          s = (if fs_inner_linked s
               then s\<lparr>fs_lost := fs_lost s @ q_items (fs_queue s), fs_queue := queue_flush (fs_queue s)\<rparr> else s)
      in s\<lparr>fs_world := snd (so_finit (fo_sink w) (fs_world s))\<rparr>)"

text \<open>A frame the thread of the internal sink takes.\<close>

definition inner_step :: "'d frag_ops \<Rightarrow> 'd frag_sink \<Rightarrow> 'd frag_sink option" where
  "inner_step w s =
     (if fs_inner_running s \<and> q_items (fs_queue s) \<noteq> [] then
        case queue_pop (fs_queue s) of (x, q) \<Rightarrow>
          Some (s\<lparr>fs_queue := q, fs_written := fs_written s @ [(fs_uri s, x)],
            fs_world := (case x of None \<Rightarrow> fs_world s | Some f \<Rightarrow> snd (so_process (fo_sink w) f (fs_world s)))\<rparr>)
      else None)"

section \<open>Fragments\<close>

definition frag_rotate_stats :: "'d frag_sink \<Rightarrow> 'd frag_sink" where
  "frag_rotate_stats s = s\<lparr>fs_start := fs_start s + milliseconds (fs_duration s), fs_duration := 0, fs_size := 0,
     fs_counter := fs_counter s + 1\<rparr>"

definition frag_reset :: "'d frag_sink \<Rightarrow> 'd frag_sink" where
  "frag_reset s = s\<lparr>fs_start := 0, fs_first_video_pts := 0, fs_first_video_dts := 0, fs_last_video_pts := 0,
     fs_last_video_dts := 0, fs_duration := 0, fs_key_received := False\<rparr>"

definition frag_init :: "'d frag_sink \<Rightarrow> bool \<times> 'd frag_sink" where
  "frag_init s = (True, (frag_reset (frag_rotate_stats s))\<lparr>fs_disable_audio := True\<rparr>)"

definition fragment_finalized :: "'d frag_ops \<Rightarrow> 'd frag_sink \<Rightarrow> 'd frag_sink" where
  "fragment_finalized w s = s\<lparr>fs_finalized := fs_finalized s @ [(fs_uri s, fs_start s, fs_duration s)],
     fs_world := fo_finalized w (fs_uri s) (fs_start s) (fs_duration s) (fs_world s)\<rparr>"

definition frag_finit :: "'d frag_ops \<Rightarrow> 'd frag_sink \<Rightarrow> bool \<times> 'd frag_sink" where
  "frag_finit w s =
     (let s = stop_internal_sink w s;
          s = (if fs_uri s \<noteq> [] \<and> fs_duration s > 0 then fragment_finalized w s else s)
      in (True, frag_reset s))"

definition frag_negotiate :: "'d frag_ops \<Rightarrow> stream_info list \<Rightarrow> 'd frag_sink \<Rightarrow> bool \<times> 'd frag_sink" where
  "frag_negotiate w infos s =
     start_internal_sink w
       (s\<lparr>fs_stream_info := (if fs_disable_audio s then filter (\<lambda>i. si_type i \<noteq> ST_AUDIO) infos else infos)\<rparr>)"

definition frag_need_finalize :: "'d frag_sink \<Rightarrow> bool" where
  "frag_need_finalize s =
     (case fs_mode s of
        SIZE \<Rightarrow> fs_size s \<ge> fs_mode_param s
      | DURATION \<Rightarrow> fs_duration s \<ge> int (fs_mode_param s) * 1000
      | UNKNOWN_MODE \<Rightarrow> False)"

definition scaled_ms :: "int \<times> int \<Rightarrow> int \<Rightarrow> int" where
  "scaled_ms scale n = fst scale * 1000 * n sdiv snd scale"

definition frag_update_stats :: "media_frame \<Rightarrow> 'd frag_sink \<Rightarrow> 'd frag_sink" where
  "frag_update_stats f s = s\<lparr>fs_size := fs_size s + mf_len f,
     fs_duration := scaled_ms (mf_timescale f) (mf_pts f - fs_first_video_pts s)\<rparr>"

text \<open>The start of the first fragment: the time of the source if it is recent, else the clock.\<close>

definition frag_clock :: "time \<Rightarrow> media_frame \<Rightarrow> 'd frag_sink \<Rightarrow> 'd frag_sink" where
  "frag_clock now f s =
     (if fs_start s = 0 then
        s\<lparr>fs_start := (if mf_time_realtime f \<noteq> 0 \<and> now - mf_time_realtime f * 1000 < seconds 30
                       then mf_time_realtime f * 1000 else now)\<rparr>
      else s)"

definition frag_rotate :: "'d frag_ops \<Rightarrow> media_frame \<Rightarrow> 'd frag_sink \<Rightarrow> 'd frag_sink" where
  "frag_rotate w f s =
     (if mf_pts f \<noteq> NO_PTS \<and> mf_is_key f \<and> frag_need_finalize s then
        let s = fragment_finalized w (stop_internal_sink w s);
            s = frag_rotate_stats (snd (start_internal_sink w s))
        in s\<lparr>fs_first_video_pts := fs_last_video_pts s, fs_first_video_dts := fs_last_video_dts s,
             fs_first_audio_pts := fs_last_audio_pts s, fs_first_audio_dts := fs_last_audio_dts s\<rparr>
      else s)"

definition frag_base :: "media_frame \<Rightarrow> 'd frag_sink \<Rightarrow> 'd frag_sink" where
  "frag_base f s =
     (if fs_first_video_pts s = 0 \<or> fs_first_video_pts s > mf_pts f \<or> fs_first_video_pts s = NO_PTS \<or>
         fs_first_video_dts s = NO_PTS
      then s\<lparr>fs_first_video_pts := mf_pts f, fs_first_video_dts := mf_dts f\<rparr> else s)"

definition frag_push :: "media_frame \<Rightarrow> 'd frag_sink \<Rightarrow> 'd frag_sink option" where
  "frag_push f s = map_option (\<lambda>q. s\<lparr>fs_queue := q\<rparr>) (queue_push frame_can_drop (Some f) (fs_queue s))"

text \<open>The frame as it is put into the fragment.\<close>

definition rebased_frame :: "media_frame \<Rightarrow> 'd frag_sink \<Rightarrow> media_frame" where
  "rebased_frame f s = f\<lparr>mf_pts := (if mf_pts f \<noteq> NO_PTS then mf_pts f - fs_first_video_pts s else mf_pts f),
     mf_dts := (if mf_dts f \<noteq> NO_PTS then mf_dts f - fs_first_video_dts s else mf_dts f)\<rparr>"

definition frag_store :: "media_frame \<Rightarrow> 'd frag_sink \<Rightarrow> 'd frag_sink option" where
  "frag_store f s =
     (if fs_first_video_pts s = NO_PTS \<or> fs_first_video_dts s = NO_PTS then Some s
      else
        let s = frag_update_stats f s;
            s = (if mf_pts f \<noteq> NO_PTS then s\<lparr>fs_last_video_pts := mf_pts f\<rparr> else s);
            s = (if mf_dts f \<noteq> NO_PTS then s\<lparr>fs_last_video_dts := mf_dts f\<rparr> else s)
        in frag_push (rebased_frame f s) s)"

definition frag_audio :: "media_frame \<Rightarrow> 'd frag_sink \<Rightarrow> 'd frag_sink option" where
  "frag_audio f s =
     (if fs_disable_audio s then Some s
      else
        let s = (if fs_first_audio_pts s = 0 then s\<lparr>fs_first_audio_pts := mf_pts f, fs_first_audio_dts := mf_dts f\<rparr> else s);
            s = s\<lparr>fs_last_audio_pts := mf_pts f, fs_last_audio_dts := mf_dts f\<rparr>
        in frag_push (f\<lparr>mf_pts := mf_pts f - fs_first_audio_pts s, mf_dts := mf_dts f - fs_first_audio_dts s\<rparr>) s)"

text \<open>\<open>process\<close> for a frame that is not null; \<open>None\<close> while the queue of the internal sink has no room.\<close>

definition frag_process :: "'d frag_ops \<Rightarrow> time \<Rightarrow> media_frame \<Rightarrow> 'd frag_sink \<Rightarrow> (bool \<times> 'd frag_sink) option" where
  "frag_process w now f s =
     (if mf_type f = VIDEO then
        if \<not> fs_key_received s \<and> \<not> mf_is_key f then Some (True, s)
        else
          let s = s\<lparr>fs_key_received := True\<rparr> in
          if mf_pts f \<noteq> NO_PTS \<and> mf_pts f < fs_last_video_pts s then Some (True, s\<lparr>fs_key_received := False\<rparr>)
          else map_option (Pair True) (frag_store f (frag_base f (frag_rotate w f (frag_clock now f s))))
      else if mf_type f = AUDIO then map_option (Pair True) (frag_audio f s)
      else Some (False, s))"

text \<open>The names \<^verbatim>\<open>multifile_sink\<close> gives its files.\<close>

definition multifile_uri :: "string \<Rightarrow> string \<Rightarrow> nat \<Rightarrow> string" where
  "multifile_uri path format i = path @ nat_string i @ ''.'' @ format"

section \<open>Runs\<close>

text \<open>Video frames of one timescale with timestamps, and whatever else comes, after \<open>init\<close> and \<open>negotiate\<close>.\<close>

definition frame_ok :: "int \<times> int \<Rightarrow> media_frame \<Rightarrow> bool" where
  "frame_ok scale f \<longleftrightarrow> mf_timescale f = scale \<and> mf_pts f > 0 \<and> mf_dts f \<noteq> NO_PTS"

inductive frag_run :: "'d frag_ops \<Rightarrow> int \<times> int \<Rightarrow> 'd frag_sink \<Rightarrow> bool" for w scale where
  frag_begin: "fs_finalized s = [] \<Longrightarrow> frag_run w scale (snd (frag_negotiate w infos (snd (frag_init s))))"
| frag_frame: "frag_run w scale s \<Longrightarrow> frame_ok scale f \<Longrightarrow> now > seconds 30 \<Longrightarrow> frag_process w now f s = Some (b, s') \<Longrightarrow>
    frag_run w scale s'"
| frag_inner: "frag_run w scale s \<Longrightarrow> inner_step w s = Some s' \<Longrightarrow> frag_run w scale s'"

text \<open>Fragments that follow each other without a gap from time \<open>b\<close> to time \<open>e\<close>.\<close>

fun contiguous :: "time \<Rightarrow> (string \<times> time \<times> int) list \<Rightarrow> time \<Rightarrow> bool" where
  "contiguous b [] e \<longleftrightarrow> b = e"
| "contiguous b ((u, t, d) # xs) e \<longleftrightarrow> t = b \<and> contiguous (b + milliseconds d) xs e"

lemma contiguous_snoc: "contiguous b (xs @ [(u, t, d)]) e \<longleftrightarrow> contiguous b xs t \<and> e = t + milliseconds d"
  by (induction xs arbitrary: b) auto

text \<open>The fields the invariant is about, and the operations that leave them alone.\<close>

definition frag_view :: "'d frag_sink \<Rightarrow> _" where
  "frag_view s = (fs_finalized s, fs_start s, fs_duration s, fs_mode s, fs_mode_param s,
     fs_first_video_pts s, fs_last_video_pts s, fs_first_video_dts s, fs_last_video_dts s)"

lemma start_internal_view [simp]: "frag_view (snd (start_internal_sink w s)) = frag_view s"
  by (simp add: start_internal_sink_def init_internal_sink_def frag_view_def Let_def split_beta)

lemma stop_internal_view [simp]: "frag_view (stop_internal_sink w s) = frag_view s"
  by (simp add: stop_internal_sink_def frag_view_def Let_def)

lemma inner_step_view: "inner_step w s = Some s' \<Longrightarrow> frag_view s' = frag_view s"
  by (auto simp: inner_step_def frag_view_def split_beta split: if_splits)

lemma frag_push_view: "frag_push f s = Some s' \<Longrightarrow> frag_view s' = frag_view s"
  by (auto simp: frag_push_def frag_view_def)

lemma frag_audio_view: "frag_audio f s = Some s' \<Longrightarrow> frag_view s' = frag_view s"
  by (auto simp: frag_audio_def Let_def frag_view_def dest!: frag_push_view split: if_splits)

definition whole_ms :: "int \<times> int \<Rightarrow> int \<Rightarrow> bool" where
  "whole_ms scale k \<longleftrightarrow> snd scale > 0 \<and> fst scale * 1000 = k * snd scale \<and> k \<ge> 0"

lemma sdiv_mult: "b > 0 \<Longrightarrow> (m * b) sdiv b = (m :: int)"
  by (simp add: signed_divide_int_def abs_mult sgn_mult mult_sgn_abs)

lemma scaled_whole:
  assumes "whole_ms scale k"
  shows "scaled_ms scale n = k * n"
proof -
  have "fst scale * 1000 * n = (k * n) * snd scale" using assms by (simp add: whole_ms_def)
  moreover have "snd scale > 0" using assms by (simp add: whole_ms_def)
  ultimately show ?thesis by (simp only: scaled_ms_def sdiv_mult)
qed

text \<open>
  Before the first frame of a fragment chain, and after it: \<open>b\<close> is when the recording began, \<open>p\<close> the timestamp it
  began with.
\<close>

definition frag_blank :: "'d frag_sink \<Rightarrow> bool" where
  "frag_blank s \<longleftrightarrow> fs_first_video_pts s = 0 \<and> fs_last_video_pts s = 0 \<and> fs_duration s = 0 \<and>
     (fs_start s = 0 \<and> fs_finalized s = [] \<or> fs_start s > 0 \<and> contiguous (fs_start s) (fs_finalized s) (fs_start s))"

definition frag_tracks :: "int \<Rightarrow> time \<Rightarrow> int \<Rightarrow> 'd frag_sink \<Rightarrow> bool" where
  "frag_tracks k b p s \<longleftrightarrow> fs_first_video_dts s \<noteq> NO_PTS \<and> 0 < fs_first_video_pts s \<and>
     fs_first_video_pts s \<le> fs_last_video_pts s \<and> fs_duration s = k * (fs_last_video_pts s - fs_first_video_pts s) \<and>
     0 < fs_start s \<and> fs_start s = b + milliseconds (k * (fs_first_video_pts s - p)) \<and> contiguous b (fs_finalized s) (fs_start s)"

definition durations_ok :: "'d frag_sink \<Rightarrow> bool" where
  "durations_ok s \<longleftrightarrow> (\<forall>(u, t, d) \<in> set (fs_finalized s). 0 \<le> d \<and> (fs_mode s = DURATION \<longrightarrow> int (fs_mode_param s) * 1000 \<le> d))"

definition frag_inv :: "int \<Rightarrow> 'd frag_sink \<Rightarrow> bool" where
  "frag_inv k s \<longleftrightarrow> durations_ok s \<and> fs_last_video_dts s \<noteq> NO_PTS \<and> (frag_blank s \<or> (\<exists>b p. frag_tracks k b p s))"

lemmas frag_inv_defs = frag_inv_def frag_blank_def frag_tracks_def durations_ok_def

lemma frag_inv_view: "frag_view s = frag_view s' \<Longrightarrow> frag_inv k s = frag_inv k s'"
  by (simp add: frag_view_def frag_inv_defs)

lemma frag_clock_inv:
  assumes "frag_inv k s" "now > seconds 30"
  shows "frag_inv k (frag_clock now f s) \<and> fs_start (frag_clock now f s) > 0 \<and>
    fs_last_video_pts (frag_clock now f s) = fs_last_video_pts s"
proof (cases "fs_start s = 0")
  case True
  then have b: "frag_blank s" using assms(1) by (auto simp: frag_inv_def frag_tracks_def)
  let ?t = "if mf_time_realtime f \<noteq> 0 \<and> now - mf_time_realtime f * 1000 < seconds 30 then mf_time_realtime f * 1000 else now"
  have t: "?t > 0" using assms(2) by (auto simp: seconds_def)
  moreover have "frag_clock now f s = s\<lparr>fs_start := ?t\<rparr>" using True by (simp add: frag_clock_def)
  moreover have "frag_inv k (s\<lparr>fs_start := u\<rparr>)" if "u > 0" for u
    using assms(1) b that True by (simp add: frag_inv_def frag_blank_def durations_ok_def)
  ultimately show ?thesis by simp
next
  case False
  then have "fs_start s > 0" using assms(1) by (auto simp: frag_inv_def frag_blank_def frag_tracks_def)
  then show ?thesis using assms(1) by (simp add: frag_clock_def)
qed

lemma rotated_fields:
  assumes "mf_pts f \<noteq> NO_PTS \<and> mf_is_key f \<and> frag_need_finalize s"
  shows "frag_view (frag_rotate w f s) =
    (fs_finalized s @ [(fs_uri (stop_internal_sink w s), fs_start s, fs_duration s)], fs_start s + milliseconds (fs_duration s), 0,
     fs_mode s, fs_mode_param s, fs_last_video_pts s, fs_last_video_pts s, fs_last_video_dts s, fs_last_video_dts s)"
proof -
  let ?s = "stop_internal_sink w s"
  let ?t = "snd (start_internal_sink w (fragment_finalized w ?s))"
  have "frag_view ?s = frag_view s" by simp
  then have v: "frag_view ?t = (fs_finalized s @ [(fs_uri ?s, fs_start s, fs_duration s)], fs_start s, fs_duration s, fs_mode s,
      fs_mode_param s, fs_first_video_pts s, fs_last_video_pts s, fs_first_video_dts s, fs_last_video_dts s)"
    unfolding start_internal_view by (simp add: fragment_finalized_def frag_view_def)
  show ?thesis using assms v by (simp add: frag_rotate_def frag_rotate_stats_def frag_view_def Let_def)
qed

lemma frag_rotate_inv:
  assumes inv: "frag_inv k s" "fs_start s > 0" "0 \<le> k"
  shows "frag_inv k (frag_rotate w f s) \<and> fs_start (frag_rotate w f s) > 0 \<and>
    fs_last_video_pts (frag_rotate w f s) = fs_last_video_pts s"
proof (cases "mf_pts f \<noteq> NO_PTS \<and> mf_is_key f \<and> frag_need_finalize s")
  case True
  have need: "fs_mode s = DURATION \<Longrightarrow> int (fs_mode_param s) * 1000 \<le> fs_duration s"
    using True by (simp add: frag_need_finalize_def)
  note v = rotated_fields [OF True, of w, unfolded frag_view_def prod.inject]
  show ?thesis
  proof (cases "frag_blank s")
    case True
    then have "frag_blank (frag_rotate w f s)" using inv(2) v by (simp add: frag_blank_def contiguous_snoc milliseconds_def)
    moreover have "durations_ok (frag_rotate w f s)" using inv(1) True need v by (simp add: frag_inv_def durations_ok_def frag_blank_def)
    ultimately show ?thesis using inv v True by (simp add: frag_inv_def frag_blank_def milliseconds_def)
  next
    case False
    then obtain b p where t: "frag_tracks k b p s" using inv(1) by (auto simp: frag_inv_def)
    then have d: "0 \<le> fs_duration s" using inv(3) by (simp add: frag_tracks_def)
    have "frag_tracks k b p (frag_rotate w f s)"
      using t d inv v by (simp add: frag_inv_def frag_tracks_def contiguous_snoc milliseconds_def algebra_simps)
    moreover have "durations_ok (frag_rotate w f s)" using inv(1) d need v by (simp add: frag_inv_def durations_ok_def)
    ultimately show ?thesis using inv v d by (auto simp: frag_inv_def milliseconds_def)
  qed
next
  case False
  then show ?thesis using inv by (auto simp: frag_rotate_def)
qed

lemma no_pts_neg: "NO_PTS < 0"
  by (simp add: NO_PTS_def)

lemma frag_store_inv:
  assumes inv: "frag_inv k s" "fs_start s > 0" and f: "frame_ok scale f" "whole_ms scale k" "fs_last_video_pts s \<le> mf_pts f"
    and store: "frag_store f (frag_base f s) = Some s'"
  shows "frag_inv k s'"
proof -
  have p: "mf_pts f > 0" "mf_pts f \<noteq> NO_PTS" "mf_dts f \<noteq> NO_PTS" "mf_timescale f = scale"
    using f(1) no_pts_neg by (auto simp: frame_ok_def)
  let ?b = "frag_base f s"
  let ?t = "(frag_update_stats f ?b)\<lparr>fs_last_video_pts := mf_pts f, fs_last_video_dts := mf_dts f\<rparr>"
  obtain b q where t: "frag_tracks k b q ?t"
  proof (cases "frag_blank s")
    case True
    then have "frag_tracks k (fs_start s) (mf_pts f) ?t"
      using inv p f(2) by (simp add: frag_blank_def frag_base_def frag_tracks_def frag_update_stats_def scaled_whole milliseconds_def)
    then show ?thesis by (rule that)
  next
    case False
    then obtain b q where "frag_tracks k b q s" using inv(1) by (auto simp: frag_inv_def)
    moreover from this have "?b = s" using f(3) no_pts_neg by (simp add: frag_tracks_def frag_base_def)
    ultimately have "frag_tracks k b q ?t"
      using p f(2,3) by (auto simp: frag_tracks_def frag_update_stats_def scaled_whole)
    then show ?thesis by (rule that)
  qed
  have "durations_ok ?t" using inv(1) by (simp add: frag_inv_def durations_ok_def frag_update_stats_def frag_base_def)
  then have "frag_inv k ?t" using t p(3) by (auto simp: frag_inv_def)
  moreover have "frag_push (rebased_frame f ?t) ?t = Some s'"
    using store t p no_pts_neg by (auto simp: frag_store_def frag_tracks_def frag_update_stats_def Let_def)
  ultimately show ?thesis using frag_inv_view frag_push_view by metis
qed

lemma frag_process_inv:
  assumes "frag_inv k s" "frame_ok scale f" "whole_ms scale k" "now > seconds 30" "frag_process w now f s = Some (b, s')"
  shows "frag_inv k s'"
proof (cases "mf_type f = VIDEO \<and> (fs_key_received s \<or> mf_is_key f) \<and> fs_last_video_pts s \<le> mf_pts f")
  case True
  let ?s = "s\<lparr>fs_key_received := True\<rparr>"
  have i: "frag_inv k ?s" using assms(1) frag_inv_view [of ?s s] by (simp add: frag_view_def)
  have c: "frag_inv k (frag_clock now f ?s)" "fs_start (frag_clock now f ?s) > 0" "fs_last_video_pts (frag_clock now f ?s) = fs_last_video_pts s"
    using frag_clock_inv [OF i assms(4), of f] by simp_all
  have r: "frag_inv k (frag_rotate w f (frag_clock now f ?s))" "fs_start (frag_rotate w f (frag_clock now f ?s)) > 0"
    "fs_last_video_pts (frag_rotate w f (frag_clock now f ?s)) = fs_last_video_pts s"
    using frag_rotate_inv [OF c(1,2), of w f] assms(3) c(3) by (simp_all add: whole_ms_def)
  have "frag_store f (frag_base f (frag_rotate w f (frag_clock now f ?s))) = Some s'"
    using assms(5) True by (auto simp: frag_process_def Let_def)
  then show ?thesis using frag_store_inv [OF r(1,2) assms(2,3)] r(3) True by simp
next
  case False
  moreover have "mf_pts f \<noteq> NO_PTS" using assms(2) no_pts_neg by (auto simp: frame_ok_def)
  ultimately have "frag_view s' = frag_view s"
    using assms(5) by (auto simp: frag_process_def frag_view_def Let_def dest!: frag_audio_view split: if_splits)
  then show ?thesis using assms(1) frag_inv_view by blast
qed

lemma frag_run_inv: "frag_run w scale s \<Longrightarrow> whole_ms scale k \<Longrightarrow> frag_inv k s"
proof (induction rule: frag_run.induct)
  case (frag_begin s infos)
  let ?s = "snd (frag_init s)"
  have "frag_view (snd (frag_negotiate w infos ?s)) = frag_view ?s"
    by (simp add: frag_negotiate_def) (simp add: frag_view_def)
  moreover have "frag_inv k ?s"
    using frag_begin by (simp add: frag_init_def frag_reset_def frag_rotate_stats_def frag_inv_defs NO_PTS_def)
  ultimately show ?case using frag_inv_view by blast
next
  case (frag_frame s f now b s')
  then show ?case using frag_process_inv by blast
next
  case (frag_inner s s')
  then show ?case using frag_inv_view inner_step_view by blast
qed

section \<open>What holds of the fragments\<close>


definition demo_frag :: "unit frag_ops" where
  "demo_frag = \<lparr>fo_sink = \<lparr>so_name = ''demo'', so_init = (\<lambda>_ d. (True, d)), so_finit = (\<lambda>d. (True, d)), so_process = (\<lambda>_ d. (True, d)),
       so_droppable = False, so_negotiate = (\<lambda>_ d. (True, d)), so_error = (\<lambda>_ d. (True, d)), so_eos_cb = None\<rparr>,
     fo_generate_uri = (\<lambda>i d. (multifile_uri ''/tmp/'' ''mp4'' i, d)), fo_finalized = (\<lambda>_ _ _ d. d)\<rparr>"

definition demo_key :: "int \<Rightarrow> media_frame" where
  "demo_key t = (demo_frame True VIDEO)\<lparr>mf_pts := t, mf_dts := t\<rparr>"

lemmas frag_simps = demo_frag_def frag_process_def frag_clock_def frag_rotate_def frag_base_def frag_store_def frag_push_def
  rebased_frame_def frag_update_stats_def frag_need_finalize_def fragment_finalized_def frag_rotate_stats_def frag_reset_def
  start_internal_sink_def init_internal_sink_def stop_internal_sink_def frag_negotiate_def frag_init_def queue_push_def
  push_ready_def queue_full_def max_items_def push_item_def queue_flush_def queue_flush_stop_def frag_sink_new_def queue_new_def
  frame_can_drop_def demo_key_def demo_frame_def NO_PTS_def scaled_ms_def seconds_def milliseconds_def multifile_uri_def
  is_video_def is_key_def

definition demo_second :: int where
  "demo_second = 60000000000"

definition demo_frag_start :: "unit frag_sink" where
  "demo_frag_start = snd (frag_negotiate demo_frag [] (snd (frag_init (frag_sink_new demo_frag DURATION 10 ()))))"

text \<open>Key frames one, twelve and thirteen seconds into a recording: the third one begins a new fragment.\<close>

lemma demo_frames:
  "\<exists>s. frag_process demo_frag demo_second (demo_key 1000) demo_frag_start = Some (True, s) \<and> (\<exists>t.
     frag_process demo_frag demo_second (demo_key 12000) s = Some (True, t) \<and> fs_start t = demo_second \<and>
     fs_last_video_pts t = 12000 \<and> frag_need_finalize t \<and> fs_inner_linked t \<and> length (q_items (fs_queue t)) = 2 \<and>
     fs_lost t = [] \<and> fs_counter t = 1 \<and> fs_uri t = ''/tmp/1.mp4'' \<and> (\<exists>u.
       frag_process demo_frag demo_second (demo_key 13000) t = Some (True, u) \<and>
       fs_finalized u = [(''/tmp/1.mp4'', demo_second, 11000)] \<and> fs_uri u = ''/tmp/1.mp4'' \<and> length (fs_lost u) = 2 \<and>
       fs_last_video_pts u = 13000 \<and> fs_start u = demo_second + 11000000000))"
  by (simp add: frag_simps demo_frag_start_def demo_second_def Let_def nat_string.simps)
    (simp add: char_of_def bit_Suc_0_iff)


text \<open>
  when a key frame ends a fragment, the frames of that fragment the internal sink has not taken yet are
  thrown away: they are not in the file, although its duration counts them.
\<close>

theorem rotation_drops_frames:
  assumes "frag_process w now f s = Some (r, s')" "mf_type f = VIDEO" "mf_is_key f" "mf_pts f \<noteq> NO_PTS"
    and "fs_last_video_pts s \<le> mf_pts f" "fs_start s \<noteq> 0" "frag_need_finalize s" "fs_inner_linked s"
  shows "fs_lost s' = fs_lost s @ q_items (fs_queue s) \<and> fs_written s' = fs_written s \<and>
    (\<exists>u. fs_finalized s' = fs_finalized s @ [(u, fs_start s, fs_duration s)])"
proof -
  let ?s = "s\<lparr>fs_key_received := True\<rparr>"
  let ?stopped = "stop_internal_sink w ?s"
  let ?started = "snd (start_internal_sink w (fragment_finalized w ?stopped))"
  have a: "fs_lost ?started = fs_lost s @ q_items (fs_queue s)" "fs_written ?started = fs_written s"
    "fs_finalized ?started = fs_finalized s @ [(fs_uri ?stopped, fs_start s, fs_duration s)]"
    using assms(8) by (simp_all add: start_internal_sink_def init_internal_sink_def stop_internal_sink_def
        fragment_finalized_def Let_def split_beta)
  have c: "frag_clock now f ?s = ?s" using assms(6) by (simp add: frag_clock_def)
  have n: "frag_need_finalize ?s" using assms(7) by (simp add: frag_need_finalize_def split: frag_mode.splits)
  have r: "fs_lost (frag_rotate w f ?s) = fs_lost ?started" "fs_written (frag_rotate w f ?s) = fs_written ?started"
    "fs_finalized (frag_rotate w f ?s) = fs_finalized ?started"
    using assms(3,4) n by (simp_all add: frag_rotate_def frag_rotate_stats_def Let_def)
  have p: "fs_lost t' = fs_lost t \<and> fs_written t' = fs_written t \<and> fs_finalized t' = fs_finalized t"
    if "frag_store f (frag_base f t) = Some t'" for t t' :: "'a frag_sink"
    using that by (auto simp: frag_store_def frag_push_def frag_base_def frag_update_stats_def Let_def split: if_splits)
  have "frag_store f (frag_base f (frag_rotate w f ?s)) = Some s'"
    using assms(1-5) c by (auto simp: frag_process_def Let_def)
  then show ?thesis using p a r by simp
qed

theorem rotation_drops_frames_witness:
  "\<exists>t u. fs_lost t = [] \<and> length (q_items (fs_queue t)) = 2 \<and>
     frag_process demo_frag demo_second (demo_key 13000) t = Some (True, u) \<and> fs_lost u = q_items (fs_queue t)"
proof -
  obtain t u where t: "frag_process demo_frag demo_second (demo_key 13000) t = Some (True, u)"
      "fs_start t = demo_second" "fs_last_video_pts t = 12000" "frag_need_finalize t" "fs_inner_linked t"
      "length (q_items (fs_queue t)) = 2" "fs_lost t = []"
    using demo_frames by blast
  have "fs_lost u = fs_lost t @ q_items (fs_queue t)"
    using rotation_drops_frames [OF t(1)] t(2-5) by (simp add: demo_key_def demo_frame_def NO_PTS_def demo_second_def)
  then show ?thesis using t by auto
qed

text \<open>
  \<open>multifile_sink\<close> gives the second fragment the name of the first: the internal sink is started with the counter
  before it is advanced, so the second fragment is written over the finished first one.
\<close>

theorem second_fragment_reuses_uri:
  assumes "fo_generate_uri w = (\<lambda>i d. (multifile_uri path format i, d))"
    and "s1 = snd (frag_negotiate w infos (snd (frag_init s0)))" "fs_counter s = fs_counter s1" "fs_uri s = fs_uri s1"
    and "frag_process w now f s = Some (r, s')" "mf_type f = VIDEO" "mf_is_key f" "mf_pts f \<noteq> NO_PTS"
    and "fs_last_video_pts s \<le> mf_pts f" "fs_start s \<noteq> 0" "frag_need_finalize s"
  shows "fs_finalized s' = fs_finalized s @ [(fs_uri s1, fs_start s, fs_duration s)] \<and> fs_uri s' = fs_uri s1"
proof -
  let ?s = "s\<lparr>fs_key_received := True\<rparr>"
  have u: "fs_uri s1 = multifile_uri path format (fs_counter s1)"
    using assms(1,2) by (simp add: frag_negotiate_def start_internal_sink_def init_internal_sink_def Let_def split_beta)
  have st: "fs_uri (stop_internal_sink w t) = fs_uri t" "fs_counter (stop_internal_sink w t) = fs_counter t"
    "fs_finalized (stop_internal_sink w t) = fs_finalized t" "fs_start (stop_internal_sink w t) = fs_start t"
    "fs_duration (stop_internal_sink w t) = fs_duration t" for t :: "'a frag_sink"
    by (simp_all add: stop_internal_sink_def Let_def)
  let ?started = "snd (start_internal_sink w (fragment_finalized w (stop_internal_sink w ?s)))"
  have a: "fs_uri ?started = fs_uri s1" "fs_finalized ?started = fs_finalized s @ [(fs_uri s1, fs_start s, fs_duration s)]"
    using assms(1,3,4) u st by (simp_all add: start_internal_sink_def init_internal_sink_def fragment_finalized_def Let_def split_beta)
  have c: "frag_clock now f ?s = ?s" using assms(10) by (simp add: frag_clock_def)
  have n: "frag_need_finalize ?s" using assms(11) by (simp add: frag_need_finalize_def split: frag_mode.splits)
  have r: "fs_uri (frag_rotate w f ?s) = fs_uri ?started" "fs_finalized (frag_rotate w f ?s) = fs_finalized ?started"
    using assms(7,8) n by (simp_all add: frag_rotate_def frag_rotate_stats_def Let_def)
  have p: "fs_uri t' = fs_uri t \<and> fs_finalized t' = fs_finalized t" if "frag_store f (frag_base f t) = Some t'" for t t' :: "'a frag_sink"
    using that by (auto simp: frag_store_def frag_push_def frag_base_def frag_update_stats_def Let_def split: if_splits)
  have "frag_store f (frag_base f (frag_rotate w f ?s)) = Some s'"
    using assms(5-9) c by (auto simp: frag_process_def Let_def)
  then show ?thesis using p a r by simp
qed

theorem second_fragment_reuses_uri_witness:
  "\<exists>t u. frag_process demo_frag demo_second (demo_key 13000) t = Some (True, u) \<and>
     fs_finalized u = [(''/tmp/1.mp4'', demo_second, 11000)] \<and> fs_uri u = ''/tmp/1.mp4''"
proof -
  obtain t u where t: "frag_process demo_frag demo_second (demo_key 13000) t = Some (True, u)"
      "fs_start t = demo_second" "fs_last_video_pts t = 12000" "frag_need_finalize t" "fs_counter t = 1" "fs_uri t = ''/tmp/1.mp4''"
      "fs_finalized u = [(''/tmp/1.mp4'', demo_second, 11000)]"
    using demo_frames by blast
  have d: "demo_frag_start = snd (frag_negotiate demo_frag [] (snd (frag_init (frag_sink_new demo_frag DURATION 10 ()))))"
    by (rule demo_frag_start_def)
  have s: "fs_counter demo_frag_start = 1 \<and> fs_uri demo_frag_start = ''/tmp/1.mp4''"
    by (simp add: demo_frag_start_def frag_simps Let_def nat_string.simps) (simp add: char_of_def bit_Suc_0_iff)
  have "fs_uri u = fs_uri demo_frag_start"
    using second_fragment_reuses_uri [OF _ d _ _ t(1), of "''/tmp/''" "''mp4''"] t(2-6) s
    by (simp add: demo_frag_def demo_key_def demo_frame_def NO_PTS_def demo_second_def)
  then show ?thesis using t s by metis
qed

end
