(* ===== verification/Time_Format.thy ===== *)
theory Time_Format
  imports Time_Period Proto_Events
begin

text \<open>
  Time points as text: \<^verbatim>\<open>put_time\<close>, \<^verbatim>\<open>to_iso_8601\<close>, \<^verbatim>\<open>to_iso_8601_packed\<close> and \<^verbatim>\<open>ISO8601_to_time\<close> of
  \<^verbatim>\<open>src/src/utils/utils.cc\<close>, with the functions of the C library they call: the calendar of \<^verbatim>\<open>gmtime\<close> and
  \<^verbatim>\<open>timegm\<close> from 1970 on, \<^verbatim>\<open>strftime\<close>, \<^verbatim>\<open>strtol\<close> and \<^verbatim>\<open>std::stod\<close>.
\<close>

section \<open>The calendar\<close>

definition leap :: "nat \<Rightarrow> bool" where
  "leap y \<longleftrightarrow> y mod 4 = 0 \<and> (y mod 100 \<noteq> 0 \<or> y mod 400 = 0)"

definition year_days :: "nat \<Rightarrow> nat" where
  "year_days y = (if leap y then 366 else 365)"

definition month_days :: "nat \<Rightarrow> nat list" where
  "month_days y = [31, if leap y then 29 else 28, 31, 30, 31, 30, 31, 31, 30, 31, 30, 31]"

text \<open>Which year, counted from \<open>y\<close>, holds day \<open>n\<close>, and which day of it that is.\<close>

function find_year :: "nat \<Rightarrow> nat \<Rightarrow> nat \<times> nat" where
  "find_year y n = (if n < year_days y then (y, n) else find_year (y + 1) (n - year_days y))"
  by pat_completeness auto
termination
  by (relation "measure snd") (auto simp: year_days_def split: if_splits)

declare find_year.simps [simp del]

fun find_month :: "nat list \<Rightarrow> nat \<Rightarrow> nat \<times> nat" where
  "find_month [] n = (0, n)"
| "find_month (l # ls) n = (if n < l then (0, n) else case find_month ls (n - l) of (m, d) \<Rightarrow> (m + 1, d))"

text \<open>\<open>tm_year\<close> is the year itself here, \<open>tm_mon\<close> counts from 0 and \<open>tm_mday\<close> from 1, as in C.\<close>

record tm =
  tm_year :: nat
  tm_mon :: nat
  tm_mday :: nat
  tm_hour :: nat
  tm_min :: nat
  tm_sec :: nat

definition gmtime :: "nat \<Rightarrow> tm" where
  "gmtime t =
     (let (y, yd) = find_year 1970 (t div 86400); (m, d) = find_month (month_days y) yd; s = t mod 86400
      in \<lparr>tm_year = y, tm_mon = m, tm_mday = d + 1, tm_hour = s div 3600, tm_min = s mod 3600 div 60, tm_sec = s mod 60\<rparr>)"

definition days_before :: "nat \<Rightarrow> nat" where
  "days_before y = sum_list (map year_days [1970..<y])"

definition timegm :: "tm \<Rightarrow> nat" where
  "timegm t = (days_before (tm_year t) + sum_list (take (tm_mon t) (month_days (tm_year t))) + (tm_mday t - 1)) * 86400 +
     tm_hour t * 3600 + tm_min t * 60 + tm_sec t"

lemma find_year_spec:
  "find_year y n = (y', r) \<Longrightarrow> y \<le> y' \<and> r < year_days y' \<and> n = sum_list (map year_days [y..<y']) + r"
proof (induction y n arbitrary: y' r rule: find_year.induct)
  case (1 y n)
  show ?case
  proof (cases "n < year_days y")
    case True
    then show ?thesis using 1(2) by (simp add: find_year.simps)
  next
    case False
    then have "find_year (y + 1) (n - year_days y) = (y', r)" using 1(2) by (subst (asm) find_year.simps) simp
    then have "y + 1 \<le> y'" "r < year_days y'" "n - year_days y = sum_list (map year_days [y + 1..<y']) + r"
      using 1(1) False by blast+
    then show ?thesis using False by (simp add: upt_conv_Cons)
  qed
qed

lemma find_month_spec:
  "find_month ls n = (m, d) \<Longrightarrow> n < sum_list ls \<Longrightarrow> m < length ls \<and> n = sum_list (take m ls) + d \<and> d < ls ! m"
proof (induction ls n arbitrary: m d rule: find_month.induct)
  case (2 l ls n)
  show ?case
  proof (cases "n < l")
    case True
    then show ?thesis using 2 by simp
  next
    case False
    obtain m' d' where f: "find_month ls (n - l) = (m', d')" by fastforce
    then have "m = m' + 1" "d = d'" using 2(2) False by simp_all
    moreover have "m' < length ls \<and> n - l = sum_list (take m' ls) + d' \<and> d' < ls ! m'" using 2(1,3) False f by simp
    ultimately show ?thesis using False by auto
  qed
qed simp

lemma month_days_sum: "sum_list (month_days y) = year_days y"
  by (simp add: month_days_def year_days_def)

lemma month_days_length [simp]: "length (month_days y) = 12"
  by (simp add: month_days_def)

text \<open>\<open>gmtime\<close> gives a date and a time of day, and \<open>timegm\<close> leads back.\<close>

definition tm_ok :: "tm \<Rightarrow> bool" where
  "tm_ok t \<longleftrightarrow> 1970 \<le> tm_year t \<and> tm_mon t < 12 \<and> 1 \<le> tm_mday t \<and> tm_mday t \<le> month_days (tm_year t) ! tm_mon t \<and>
     tm_hour t < 24 \<and> tm_min t < 60 \<and> tm_sec t < 60"

lemma gmtime_timegm: "tm_ok (gmtime t) \<and> timegm (gmtime t) = t"
proof -
  obtain y r where y: "find_year 1970 (t div 86400) = (y, r)" by fastforce
  obtain m d where m: "find_month (month_days y) r = (m, d)" by fastforce
  have 1: "1970 \<le> y" "r < year_days y" "t div 86400 = days_before y + r"
    using find_year_spec [OF y] by (simp_all add: days_before_def)
  have 2: "m < 12" "r = sum_list (take m (month_days y)) + d" "d < month_days y ! m"
    using find_month_spec [OF m] 1(2) by (simp_all add: month_days_sum)
  define s where "s = t mod 86400"
  have "s mod 3600 mod 60 = s mod 60" by (rule mod_mod_cancel) simp
  then have "s mod 3600 div 60 * 60 + s mod 60 = s mod 3600" by (metis div_mult_mod_eq)
  then have s: "s < 86400" "s div 3600 * 3600 + s mod 3600 div 60 * 60 + s mod 60 = s"
    by (simp add: s_def) (metis \<open>s mod 3600 div 60 * 60 + s mod 60 = s mod 3600\<close> add.assoc div_mult_mod_eq)
  have g: "gmtime t = \<lparr>tm_year = y, tm_mon = m, tm_mday = d + 1, tm_hour = s div 3600, tm_min = s mod 3600 div 60, tm_sec = s mod 60\<rparr>"
    by (simp add: gmtime_def y m Let_def s_def)
  have "timegm (gmtime t) = t div 86400 * 86400 + s" using s(2) 1(3) 2(2) by (simp add: g timegm_def)
  then have "timegm (gmtime t) = t" by (simp add: s_def)
  moreover have "tm_ok (gmtime t)"
    using 1 2 s(1) by (simp add: g tm_ok_def less_mult_imp_div_less)
  ultimately show ?thesis by simp
qed

section \<open>Text\<close>

declare nat_string.simps [simp del]

text \<open>A number padded with zeros.\<close>

definition pad :: "nat \<Rightarrow> nat \<Rightarrow> string" where
  "pad w n = replicate (w - length (nat_string n)) CHR ''0'' @ nat_string n"

text \<open>\<open>put_time\<close> with the formats \<^verbatim>\<open>%FT%T\<close> and \<^verbatim>\<open>%Y%m%dT%H%M%S\<close>.\<close>

definition put_time_iso :: "tm \<Rightarrow> string" where
  "put_time_iso t = pad 4 (tm_year t) @ ''-'' @ pad 2 (tm_mon t + 1) @ ''-'' @ pad 2 (tm_mday t) @ ''T'' @
     pad 2 (tm_hour t) @ '':'' @ pad 2 (tm_min t) @ '':'' @ pad 2 (tm_sec t)"

definition put_time_packed :: "tm \<Rightarrow> string" where
  "put_time_packed t = pad 4 (tm_year t) @ pad 2 (tm_mon t + 1) @ pad 2 (tm_mday t) @ ''T'' @
     pad 2 (tm_hour t) @ pad 2 (tm_min t) @ pad 2 (tm_sec t)"

text \<open>Time points from the epoch on; \<open>to_time_t\<close> truncates to seconds.\<close>

definition to_time_t :: "time \<Rightarrow> nat" where
  "to_time_t t = nat (t div 1000000000)"

definition delta_us :: "time \<Rightarrow> nat" where
  "delta_us t = nat (to_microseconds (t - seconds (int (to_time_t t))))"

definition to_iso_8601 :: "time \<Rightarrow> string" where
  "to_iso_8601 t = put_time_iso (gmtime (to_time_t t)) @ ''.'' @ pad 6 (delta_us t)"

definition to_iso_8601_packed :: "time \<Rightarrow> string" where
  "to_iso_8601_packed t = put_time_packed (gmtime (to_time_t t)) @ ''.'' @ pad 6 (delta_us t)"

definition time_to_ISO8601 :: "nat \<Rightarrow> string" where
  "time_to_ISO8601 t = to_iso_8601 (seconds (int t))"

definition time_to_ISO8601_packed :: "nat \<Rightarrow> string" where
  "time_to_ISO8601_packed t = to_iso_8601_packed (seconds (int t))"

text \<open>\<open>strtol\<close> of base 10: white space, a sign, digits; the rest is ignored.\<close>

definition is_digit :: "char \<Rightarrow> bool" where
  "is_digit c \<longleftrightarrow> 48 \<le> (of_char c :: nat) \<and> of_char c \<le> (57 :: nat)"

definition is_space :: "char \<Rightarrow> bool" where
  "is_space c \<longleftrightarrow> c = CHR '' '' \<or> 9 \<le> (of_char c :: nat) \<and> of_char c \<le> (13 :: nat)"

definition digits_value :: "string \<Rightarrow> nat" where
  "digits_value s = foldl (\<lambda>n c. 10 * n + (of_char c - 48)) 0 s"

definition parse_int :: "string \<Rightarrow> int" where
  "parse_int s =
     (case dropWhile is_space s of
        [] \<Rightarrow> 0
      | c # cs \<Rightarrow>
          if c = CHR ''-'' then - int (digits_value (takeWhile is_digit cs))
          else if c = CHR ''+'' then int (digits_value (takeWhile is_digit cs))
          else int (digits_value (takeWhile is_digit (c # cs))))"

text \<open>\<open>timegm\<close> of the numbers that were read, for those that make a date.\<close>

definition ISO8601_to_time :: "string \<Rightarrow> nat" where
  "ISO8601_to_time input =
     (if length input < 20 then 0
      else timegm \<lparr>tm_year = nat (parse_int input), tm_mon = nat (parse_int (drop 5 input) - 1),
             tm_mday = nat (parse_int (drop 8 input)), tm_hour = nat (parse_int (drop 11 input)),
             tm_min = nat (parse_int (drop 14 input)), tm_sec = nat (parse_int (drop 17 input))\<rparr>)"

section \<open>Reading back\<close>

lemma digit_chars: "n < 10 \<Longrightarrow> is_digit (char_of (48 + n)) \<and> of_char (char_of (48 + n :: nat)) - 48 = n"
  by (simp add: is_digit_def)

lemma nat_string_digits: "(\<forall>c \<in> set (nat_string n). is_digit c) \<and> digits_value (nat_string n) = n \<and> nat_string n \<noteq> []"
proof (induction n rule: nat_string.induct)
  case (1 n)
  show ?case
  proof (cases "n < 10")
    case True
    then show ?thesis using digit_chars [of n] by (simp add: nat_string.simps [of n] digits_value_def)
  next
    case False
    then have "nat_string n = nat_string (n div 10) @ [char_of (48 + n mod 10)]" by (subst nat_string.simps) simp
    then show ?thesis using 1 False digit_chars [of "n mod 10"] by (simp add: digits_value_def)
  qed
qed

lemma nat_string_length: "n < 10 ^ k \<Longrightarrow> 0 < k \<Longrightarrow> length (nat_string n) \<le> k"
proof (induction k arbitrary: n)
  case (Suc k)
  show ?case
  proof (cases "n < 10")
    case True
    then show ?thesis by (subst nat_string.simps) simp
  next
    case False
    then have "n div 10 < 10 ^ k" "k \<noteq> 0" using Suc.prems by (auto simp: less_mult_imp_div_less intro: gr0I)
    then have "length (nat_string (n div 10)) \<le> k" using Suc.IH by simp
    then show ?thesis using False by (subst nat_string.simps) simp
  qed
qed simp

lemma digits_value_zeros: "digits_value (replicate k CHR ''0'' @ s) = digits_value s"
  by (induction k) (simp_all add: digits_value_def)

lemma pad_length: "n < 10 ^ w \<Longrightarrow> 0 < w \<Longrightarrow> length (pad w n) = w"
  using nat_string_length [of n w] by (simp add: pad_def)

lemma pad_digits: "(\<forall>c \<in> set (pad w n). is_digit c) \<and> digits_value (pad w n) = n \<and> pad w n \<noteq> []"
  using nat_string_digits [of n] by (auto simp: pad_def digits_value_zeros is_digit_def)

lemma takeWhile_digits:
  "(\<forall>c \<in> set ds. is_digit c) \<Longrightarrow> \<not> is_digit d \<Longrightarrow> takeWhile is_digit (ds @ d # rest) = ds"
  by (simp add: takeWhile_tail)

lemma parse_pad:
  assumes "\<not> is_digit d"
  shows "parse_int (pad w n @ d # rest) = int n"
proof -
  obtain c cs where p: "pad w n = c # cs" using pad_digits [of w n] by (cases "pad w n") auto
  have c: "is_digit c" using pad_digits [of w n] p by simp
  then have "\<not> is_space c" "c \<noteq> CHR ''-''" "c \<noteq> CHR ''+''" by (auto simp: is_digit_def is_space_def)
  moreover have "takeWhile is_digit (c # cs @ d # rest) = c # cs"
    using takeWhile_digits [of "c # cs" d rest] pad_digits [of w n] p assms by simp
  ultimately show ?thesis using pad_digits [of w n] p by (simp add: parse_int_def)
qed

lemma month_days_le: "m < 12 \<Longrightarrow> month_days y ! m \<le> 31"
  by (auto simp: month_days_def less_Suc_eq numeral_eq_Suc nth_Cons')

text \<open>
  C33: reading a time that \<open>to_iso_8601\<close> wrote gives its seconds back, for every time from the epoch up to the
  year 9999.
\<close>

theorem iso8601_roundtrip:
  assumes "tm_year (gmtime (to_time_t t)) \<le> 9999"
  shows "ISO8601_to_time (to_iso_8601 t) = to_time_t t"
proof -
  define g where "g = gmtime (to_time_t t)"
  have ok: "tm_ok g" "timegm g = to_time_t t" using gmtime_timegm [of "to_time_t t"] by (simp_all add: g_def)
  have r: "tm_year g < 10 ^ 4" "tm_mon g + 1 < 10 ^ 2" "tm_mday g < 10 ^ 2" "tm_hour g < 10 ^ 2" "tm_min g < 10 ^ 2" "tm_sec g < 10 ^ 2"
    using assms ok(1) month_days_le [of "tm_mon g" "tm_year g"] by (auto simp: g_def tm_ok_def)
  note l = pad_length [OF r(1)] pad_length [OF r(2)] pad_length [OF r(3)] pad_length [OF r(4)] pad_length [OF r(5)] pad_length [OF r(6)]
    pad_length [OF r(2), unfolded Suc_eq_plus1 [symmetric]]
  define s where "s = to_iso_8601 t"
  have s: "s = pad 4 (tm_year g) @ CHR ''-'' # pad 2 (tm_mon g + 1) @ CHR ''-'' # pad 2 (tm_mday g) @ CHR ''T'' #
      pad 2 (tm_hour g) @ CHR '':'' # pad 2 (tm_min g) @ CHR '':'' # pad 2 (tm_sec g) @ CHR ''.'' # pad 6 (delta_us t)"
    by (simp add: s_def to_iso_8601_def put_time_iso_def g_def)
  have d: "\<not> is_digit CHR ''-''" "\<not> is_digit CHR ''T''" "\<not> is_digit CHR '':''" "\<not> is_digit CHR ''.''"
    by (simp_all add: is_digit_def)
  have p: "parse_int s = int (tm_year g)" "parse_int (drop 5 s) = int (tm_mon g + 1)" "parse_int (drop 8 s) = int (tm_mday g)"
    "parse_int (drop 11 s) = int (tm_hour g)" "parse_int (drop 14 s) = int (tm_min g)" "parse_int (drop 17 s) = int (tm_sec g)"
    by (simp_all add: s l parse_pad d)
  have "20 \<le> length s" by (simp add: s l)
  then have "ISO8601_to_time s = timegm g" by (simp add: ISO8601_to_time_def p) (simp add: timegm_def)
  then show ?thesis by (simp add: s_def ok(2))
qed

theorem iso8601_roundtrip_witness:
  "ISO8601_to_time (to_iso_8601 (seconds 1000000000)) = 1000000000"
proof -
  have "tm_year (gmtime (to_time_t (seconds 1000000000))) \<le> 9999"
    by (simp add: to_time_t_def seconds_def gmtime_def find_year.simps year_days_def leap_def Let_def split_beta)
  from iso8601_roundtrip [OF this] show ?thesis by (simp add: to_time_t_def seconds_def)
qed

end
