(* ===== verification/Recording.thy ===== *)
theory Recording
  imports Time_Format Strings_Util
begin

text \<open>
  The recorders of \<^verbatim>\<open>src/src/streamer/recroding_stream.h\<close>: \<^verbatim>\<open>mp4_recorder_sink\<close>, which turns finished fragments into
  recordings, and the two recording streams, which keep a list of recordings of their own. Every file lies in the
  storage directory and is known by its name; the directory is the list of the names.
\<close>

section \<open>Numbers in file names\<close>

text \<open>
  \<open>std::stod\<close> and \<open>from_double\<close>: white space, a sign, digits with a point, an exponent; the rest is ignored and no
  digit at all throws. The result is cut to microseconds; the rounding of \<^verbatim>\<open>double\<close>, hexadecimal numbers and the
  words for infinity are left out.
\<close>

definition exponent_of :: "string \<Rightarrow> int" where
  "exponent_of s =
     (case s of
        c # d # cs \<Rightarrow>
          if c \<in> {CHR ''e'', CHR ''E''} \<and>
             (is_digit d \<or> d \<in> {CHR ''+'', CHR ''-''} \<and> takeWhile is_digit cs \<noteq> []) then parse_int (d # cs) else 0
      | _ \<Rightarrow> 0)"

definition unsigned_us :: "string \<Rightarrow> nat option" where
  "unsigned_us s =
     (let ip = takeWhile is_digit s; r = dropWhile is_digit s;
          (fp, r) = (case r of
              c # cs \<Rightarrow> if c = CHR ''.'' then (takeWhile is_digit cs, dropWhile is_digit cs) else ([], r)
            | [] \<Rightarrow> ([], r));
          e = exponent_of r - int (length fp) + 6; m = digits_value (ip @ fp)
      in if ip @ fp = [] then None
         else Some (if 0 \<le> e then m * 10 ^ nat e else m div 10 ^ nat (- e)))"

definition stod_time :: "string \<Rightarrow> time option" where
  "stod_time s =
     (case dropWhile is_space s of
        [] \<Rightarrow> None
      | c # cs \<Rightarrow>
          if c = CHR ''-'' then map_option (\<lambda>n. - int n * 1000) (unsigned_us cs)
          else map_option (\<lambda>n. int n * 1000) (unsigned_us (if c = CHR ''+'' then cs else c # cs)))"

section \<open>State\<close>

record recording_file =
  rg_name :: string
  rg_begin :: time
  rg_end :: time

text \<open>\<open>rc_checks\<close> distinguishes the sink, which looks at the length of a recording and catches exceptions.\<close>

record recorder =
  rc_checks :: bool
  rc_files :: "string list"
  rc_recordings :: "recording_file list"
  rc_retention :: duration
  rc_segment :: duration
  rc_started :: bool

definition mp4_recorder_sink_new :: "int \<Rightarrow> recorder" where
  "mp4_recorder_sink_new segment = \<lparr>rc_checks = True, rc_files = [], rc_recordings = [], rc_retention = seconds (15 * 60),
     rc_segment = seconds segment, rc_started = False\<rparr>"

definition rtsp_mp4_recording_stream_new :: recorder where
  "rtsp_mp4_recording_stream_new = \<lparr>rc_checks = False, rc_files = [], rc_recordings = [], rc_retention = seconds (2 * 3600),
     rc_segment = 0, rc_started = False\<rparr>"

definition rtsp_segmented_mp4_recording_stream_new :: recorder where
  "rtsp_segmented_mp4_recording_stream_new = \<lparr>rc_checks = False, rc_files = [], rc_recordings = [],
     rc_retention = seconds (15 * 60), rc_segment = 0, rc_started = False\<rparr>"

section \<open>The list of recordings\<close>

text \<open>The period in a file name; the outer \<open>None\<close> is an exception, the inner one a name of another form.\<close>

definition get_period_from_filename :: "bool \<Rightarrow> string \<Rightarrow> (time \<times> time) option option" where
  "get_period_from_filename catches name =
     (case string_split name CHR ''_'' of
        [a, b] \<Rightarrow>
          (case (stod_time a, stod_time b) of
             (Some t, Some u) \<Rightarrow> Some (if t = time_null \<or> u = time_null then None else Some (t, u))
           | _ \<Rightarrow> if catches then Some None else None)
      | _ \<Rightarrow> Some None)"

definition expired :: "time \<Rightarrow> recorder \<Rightarrow> recording_file \<Rightarrow> bool" where
  "expired now s r \<longleftrightarrow> now - rg_end r > rc_retention s"

definition rotate_recordings :: "time \<Rightarrow> recorder \<Rightarrow> recorder" where
  "rotate_recordings now s =
     s\<lparr>rc_recordings := filter (\<lambda>r. \<not> expired now s r) (rc_recordings s),
       rc_files := filter (\<lambda>n. n \<notin> rg_name ` set (filter (expired now s) (rc_recordings s))) (rc_files s)\<rparr>"

definition add_recording :: "time \<Rightarrow> recording_file \<Rightarrow> recorder \<Rightarrow> bool \<times> recorder" where
  "add_recording now r s =
     (if rc_checks s \<and> rg_end r - rg_begin r > rc_segment s * 2 then (False, s)
      else (True, rotate_recordings now (s\<lparr>rc_recordings := rc_recordings s @ [r]\<rparr>)))"

text \<open>Loading goes through the names the directory held at first; \<open>None\<close> when an exception leaves it.\<close>

definition drop_part :: "string \<Rightarrow> recorder \<Rightarrow> recorder" where
  "drop_part n s = (if string_endswith n ''.part'' then s\<lparr>rc_files := removeAll n (rc_files s)\<rparr> else s)"

definition load_file :: "time \<Rightarrow> string \<Rightarrow> recorder \<Rightarrow> recorder option" where
  "load_file now n s =
     (case get_period_from_filename (rc_checks s) n of
        None \<Rightarrow> None
      | Some (Some (b, e)) \<Rightarrow>
          Some (if \<not> rc_checks s \<or> e - b < rc_segment s * 2
                then snd (add_recording now \<lparr>rg_name = n, rg_begin = b, rg_end = e\<rparr> s) else drop_part n s)
      | Some None \<Rightarrow> Some (drop_part n s))"

fun load_files :: "time \<Rightarrow> string list \<Rightarrow> recorder \<Rightarrow> recorder option" where
  "load_files now [] s = Some s"
| "load_files now (n # ns) s = (case load_file now n s of None \<Rightarrow> None | Some s \<Rightarrow> load_files now ns s)"

definition load_recordings :: "time \<Rightarrow> recorder \<Rightarrow> recorder option" where
  "load_recordings now s = load_files now (rc_files s) s"

definition recording_name :: "time \<Rightarrow> time \<Rightarrow> string" where
  "recording_name b e = to_iso_8601_packed b @ ''_'' @ to_iso_8601_packed e"

text \<open>
  A finished fragment. \<open>fragment_duration\<close> is the member of the base class at that time; a rename of a file that is not
  there throws, which the sink catches and the streams do not.
\<close>

definition on_new_recording :: "time \<Rightarrow> int \<Rightarrow> string \<Rightarrow> time \<Rightarrow> int \<Rightarrow> recorder \<Rightarrow> recorder option" where
  "on_new_recording now fragment_duration file b ms s =
     (let name = recording_name b (b + milliseconds ms) in
      if rc_checks s \<and> ms > fragment_duration * 2 then Some (s\<lparr>rc_files := removeAll file (rc_files s)\<rparr>)
      else if file \<notin> set (rc_files s) then (if rc_checks s then Some s else None)
      else Some (snd (add_recording now \<lparr>rg_name = name, rg_begin = b, rg_end = b + milliseconds ms\<rparr>
             (s\<lparr>rc_files := name # removeAll name (removeAll file (rc_files s))\<rparr>))))"

text \<open>The export of the sink, and that of the streams.\<close>

definition sink_export_recordings :: "time \<Rightarrow> time \<Rightarrow> recorder \<Rightarrow> recording_file list" where
  "sink_export_recordings b e s = filter (\<lambda>r. b < rg_end r \<and> e > rg_begin r) (rc_recordings s)"

definition stream_export_recordings :: "time \<Rightarrow> time \<Rightarrow> recorder \<Rightarrow> recording_file list" where
  "stream_export_recordings b e s =
     filter (\<lambda>r. b \<ge> rg_begin r \<and> b < rg_end r \<or> e > rg_begin r \<and> e \<le> rg_end r) (rc_recordings s)"

text \<open>
  Starting and stopping. \<open>source\<close> and \<open>sink\<close> are the results of \<open>stream::start\<close> and \<open>stream::start_sink\<close>, which the
  streams inherit; the last component lists the inherited methods that were called.
\<close>

datatype stream_call = Call_Start | Call_Start_Sink | Call_Stop_Sink | Call_Stop

definition recorder_init :: "time \<Rightarrow> bool \<Rightarrow> recorder \<Rightarrow> bool \<times> recorder option" where
  "recorder_init now is_dir s = (if is_dir then (True, load_recordings now s) else (False, Some s))"

definition start_inherited :: "bool \<Rightarrow> bool \<Rightarrow> recorder \<Rightarrow> bool \<times> recorder \<times> stream_call list" where
  "start_inherited source sink s =
     (let ok = source \<and> sink
      in (ok, s\<lparr>rc_started := ok\<rparr>,
          Call_Start # (if source then [Call_Start_Sink] else []) @ (if ok then [] else [Call_Stop_Sink, Call_Stop])))"

definition recording_start :: "time \<Rightarrow> bool \<Rightarrow> bool \<Rightarrow> bool \<Rightarrow> recorder \<Rightarrow> (bool \<times> recorder \<times> stream_call list) option" where
  "recording_start now is_dir source sink s =
     (if rc_started s then Some (True, s, [])
      else if \<not> is_dir then Some (False, s, [])
      else map_option (start_inherited source sink) (load_recordings now s))"

text \<open>The segmented stream does not look whether it is started.\<close>

definition segmented_start :: "time \<Rightarrow> bool \<Rightarrow> bool \<Rightarrow> bool \<Rightarrow> recorder \<Rightarrow> (bool \<times> recorder \<times> stream_call list) option" where
  "segmented_start now is_dir source sink s =
     (if \<not> is_dir then Some (False, s, []) else map_option (start_inherited source sink) (load_recordings now s))"

definition recording_stop :: "recorder \<Rightarrow> recorder \<times> stream_call list" where
  "recording_stop s = (s\<lparr>rc_started := False\<rparr>, if rc_started s then [Call_Stop_Sink, Call_Stop] else [])"

section \<open>Exporting\<close>

text \<open>Recordings that follow each other without a gap.\<close>

fun gapless :: "time \<Rightarrow> recording_file list \<Rightarrow> time \<Rightarrow> bool" where
  "gapless b [] e \<longleftrightarrow> b = e"
| "gapless b (r # rs) e \<longleftrightarrow> rg_begin r = b \<and> b < rg_end r \<and> gapless (rg_end r) rs e"

lemma gapless_covers: "gapless b rs e \<Longrightarrow> b \<le> x \<Longrightarrow> x < e \<Longrightarrow> \<exists>r \<in> set rs. rg_begin r \<le> x \<and> x < rg_end r"
proof (induction rs arbitrary: b)
  case (Cons r rs)
  then show ?case by (cases "x < rg_end r") auto
qed simp

text \<open>
  the sink exports for a window of time that its recordings span without a gap recordings that cover every
  moment of it, and none that lies outside.
\<close>

theorem sink_export_covers:
  assumes "gapless b (rc_recordings s) e" "b \<le> f" "t \<le> e" "f \<le> x" "x < t"
  shows "(\<exists>r \<in> set (sink_export_recordings f t s). rg_begin r \<le> x \<and> x < rg_end r) \<and>
    list_all (\<lambda>r. f < rg_end r \<and> rg_begin r < t) (sink_export_recordings f t s)"
proof -
  obtain r where "r \<in> set (rc_recordings s)" "rg_begin r \<le> x" "x < rg_end r"
    using gapless_covers [OF assms(1), of x] assms(2-5) by auto
  then show ?thesis using assms(4,5) by (auto simp: sink_export_recordings_def list_all_iff)
qed

definition demo_recorder :: recorder where
  "demo_recorder = (mp4_recorder_sink_new 10)\<lparr>rc_recordings :=
     [\<lparr>rg_name = ''a'', rg_begin = 0, rg_end = 10\<rparr>, \<lparr>rg_name = ''b'', rg_begin = 10, rg_end = 20\<rparr>, \<lparr>rg_name = ''c'', rg_begin = 20, rg_end = 30\<rparr>]\<rparr>"

theorem sink_export_covers_witness:
  "map rg_name (sink_export_recordings 5 25 demo_recorder) = [''a'', ''b'', ''c''] \<and>
   (\<exists>r \<in> set (sink_export_recordings 5 25 demo_recorder). rg_begin r \<le> 15 \<and> 15 < rg_end r)"
  using sink_export_covers [of 0 demo_recorder 30 5 25 15]
  by (simp add: demo_recorder_def sink_export_recordings_def)

text \<open>
  the streams leave out every recording that lies inside the window they are asked for, which the sink
  exports; they export only recordings in which the window begins or ends.
\<close>

theorem stream_export_misses_inner:
  assumes "r \<in> set (rc_recordings s)" "f < rg_begin r" "rg_end r < t" "rg_begin r \<le> rg_end r"
  shows "r \<notin> set (stream_export_recordings f t s) \<and> r \<in> set (sink_export_recordings f t s)"
  using assms by (simp add: stream_export_recordings_def sink_export_recordings_def)

theorem stream_export_misses_inner_witness:
  "map rg_name (stream_export_recordings 5 25 demo_recorder) = [''a'', ''c'']"
  using stream_export_misses_inner [of "\<lparr>rg_name = ''b'', rg_begin = 10, rg_end = 20\<rparr>" demo_recorder 5 25]
  by (simp add: demo_recorder_def stream_export_recordings_def)

section \<open>Restarting\<close>

text \<open>What \<open>stod\<close> makes of a packed time: its date, as a number of seconds.\<close>

definition packed_date :: "time \<Rightarrow> nat" where
  "packed_date t = (let g = gmtime (to_time_t t) in tm_year g * 10000 + (tm_mon g + 1) * 100 + tm_mday g)"

lemma digits_value_append:
  "digits_value (xs @ ys) = digits_value xs * 10 ^ length ys + digits_value ys"
proof (induction ys rule: rev_induct)
  case (snoc y ys)
  have "digits_value (zs @ [y]) = 10 * digits_value zs + (of_char y - 48)" for zs by (simp add: digits_value_def)
  then show ?case using snoc by (simp flip: append_assoc add: algebra_simps)
qed (simp add: digits_value_def)

lemma date_digits:
  assumes "tm_year g \<le> 9999" "tm_ok g"
  shows "digits_value (pad 4 (tm_year g) @ pad 2 (tm_mon g + 1) @ pad 2 (tm_mday g)) =
    tm_year g * 10000 + (tm_mon g + 1) * 100 + tm_mday g"
proof -
  have "tm_mon g + 1 < 10 ^ 2" "tm_mday g < 10 ^ 2"
    using assms month_days_le [of "tm_mon g" "tm_year g"] by (auto simp: tm_ok_def)
  then have "length (pad 2 (tm_mon g + 1)) = 2" "length (pad 2 (tm_mday g)) = 2" by (simp_all add: pad_length)
  then show ?thesis using pad_digits by (simp add: digits_value_append)
qed

lemma unsigned_us_digits:
  assumes "\<forall>c \<in> set ds. is_digit c" "ds \<noteq> []"
  shows "unsigned_us (ds @ CHR ''T'' # rest) = Some (digits_value ds * 1000000)"
proof -
  have t: "\<not> is_digit CHR ''T''" by (simp add: is_digit_def)
  have "takeWhile is_digit (ds @ CHR ''T'' # rest) = ds" "dropWhile is_digit (ds @ CHR ''T'' # rest) = CHR ''T'' # rest"
    using assms(1) t by (simp_all add: takeWhile_tail dropWhile_append3)
  moreover have "exponent_of (CHR ''T'' # rest) = 0" by (simp add: exponent_of_def split: list.split)
  ultimately show ?thesis using assms(2) by (simp add: unsigned_us_def Let_def)
qed

lemma stod_packed:
  assumes "tm_year (gmtime (to_time_t t)) \<le> 9999"
  shows "stod_time (to_iso_8601_packed t) = Some (seconds (int (packed_date t)))"
proof -
  define g where "g = gmtime (to_time_t t)"
  define ds where "ds = pad 4 (tm_year g) @ pad 2 (tm_mon g + 1) @ pad 2 (tm_mday g)"
  obtain rest where s: "to_iso_8601_packed t = ds @ CHR ''T'' # rest"
    by (auto simp: to_iso_8601_packed_def put_time_packed_def g_def ds_def)
  have ds: "\<forall>c \<in> set ds. is_digit c" "ds \<noteq> []" using pad_digits by (auto simp: ds_def)
  then obtain c cs where c: "ds = c # cs" "is_digit c" by (cases ds) auto
  then have n: "\<not> is_space c" "c \<noteq> CHR ''-''" "c \<noteq> CHR ''+''" by (auto simp: is_digit_def is_space_def)
  have "digits_value ds = packed_date t"
    using date_digits [of g] assms gmtime_timegm [of "to_time_t t"] by (simp add: ds_def packed_date_def g_def Let_def)
  then have "unsigned_us (c # cs @ CHR ''T'' # rest) = Some (packed_date t * 1000000)"
    using unsigned_us_digits [OF ds, of rest] c(1) by simp
  then show ?thesis using n c(1) s by (simp add: stod_time_def seconds_def)
qed

lemma packed_no_underscore: "CHR ''_'' \<notin> set (to_iso_8601_packed t)"
proof -
  have "CHR ''_'' \<notin> set (pad w n)" for w n using pad_digits [of w n] by (auto simp: is_digit_def)
  then show ?thesis by (simp add: to_iso_8601_packed_def put_time_packed_def)
qed

lemma split_recording_name: "string_split (recording_name b e) CHR ''_'' = [to_iso_8601_packed b, to_iso_8601_packed e]"
proof -
  have n: "to_iso_8601_packed t \<noteq> []" for t by (simp add: to_iso_8601_packed_def)
  have t: "takeWhile (\<lambda>c. c \<noteq> CHR ''_'') (to_iso_8601_packed x @ ys) = to_iso_8601_packed x @ takeWhile (\<lambda>c. c \<noteq> CHR ''_'') ys"
    "dropWhile (\<lambda>c. c \<noteq> CHR ''_'') (to_iso_8601_packed x @ ys) = dropWhile (\<lambda>c. c \<noteq> CHR ''_'') ys" for x ys
    using packed_no_underscore [of x] by (auto intro: takeWhile_append2 dropWhile_append2)
  have w: "takeWhile (\<lambda>c. c \<noteq> CHR ''_'') (to_iso_8601_packed e) = to_iso_8601_packed e"
    "dropWhile (\<lambda>c. c \<noteq> CHR ''_'') (to_iso_8601_packed e) = []"
    using packed_no_underscore [of e] by (auto simp: takeWhile_eq_all_conv dropWhile_eq_Nil_conv)
  have e: "string_split (to_iso_8601_packed e) CHR ''_'' = [to_iso_8601_packed e]"
    using n [of e] by (simp add: string_split.simps [of "to_iso_8601_packed e"] string_split.simps [of "[]"] w)
  show ?thesis
    using n [of b] e by (simp add: string_split.simps [of "recording_name b e"]) (simp add: recording_name_def t)
qed

lemma recording_name_period:
  assumes "tm_year (gmtime (to_time_t b)) \<le> 9999" "tm_year (gmtime (to_time_t e)) \<le> 9999"
  shows "get_period_from_filename c (recording_name b e) =
    Some (Some (seconds (int (packed_date b)), seconds (int (packed_date e))))"
proof -
  have "packed_date t > 0" for t using gmtime_timegm [of "to_time_t t"] by (simp add: packed_date_def tm_ok_def Let_def)
  then show ?thesis
    by (simp add: get_period_from_filename_def split_recording_name stod_packed assms seconds_def time_null_def)
qed

lemma rotate_frame [simp]:
  "rc_checks (rotate_recordings now s) = rc_checks s" "rc_retention (rotate_recordings now s) = rc_retention s"
  "rc_segment (rotate_recordings now s) = rc_segment s"
  by (simp_all add: rotate_recordings_def)

lemma add_frame [simp]:
  "rc_checks (snd (add_recording now r s)) = rc_checks s" "rc_retention (snd (add_recording now r s)) = rc_retention s"
  "rc_segment (snd (add_recording now r s)) = rc_segment s"
  by (simp_all add: add_recording_def)

definition forgotten :: "string \<Rightarrow> recorder \<Rightarrow> bool" where
  "forgotten n s \<longleftrightarrow> n \<notin> rg_name ` set (rc_recordings s)"

lemma add_forgotten: "forgotten n s \<Longrightarrow> rg_name r \<noteq> n \<Longrightarrow> forgotten n (snd (add_recording now r s))"
  by (auto simp: forgotten_def add_recording_def rotate_recordings_def)

lemma add_files: "n \<notin> set (rc_files s) \<Longrightarrow> n \<notin> set (rc_files (snd (add_recording now r s)))"
  by (simp add: add_recording_def rotate_recordings_def)

lemma load_file_other:
  assumes "load_file now m s = Some s1" "m \<noteq> n" "forgotten n s"
  shows "forgotten n s1 \<and> (n \<notin> set (rc_files s) \<longrightarrow> n \<notin> set (rc_files s1)) \<and> rc_checks s1 = rc_checks s \<and>
    rc_segment s1 = rc_segment s \<and> rc_retention s1 = rc_retention s"
proof -
  have "forgotten n (drop_part m s) \<and> (n \<notin> set (rc_files s) \<longrightarrow> n \<notin> set (rc_files (drop_part m s))) \<and>
      rc_checks (drop_part m s) = rc_checks s \<and> rc_segment (drop_part m s) = rc_segment s \<and> rc_retention (drop_part m s) = rc_retention s"
    using assms(3) by (simp add: drop_part_def forgotten_def)
  then show ?thesis
    using assms add_forgotten [of n s] add_files [of n s]
    by (auto simp: load_file_def split: option.splits prod.splits if_splits)
qed

lemma load_others:
  "load_files now ns s = Some s' \<Longrightarrow> n \<notin> set ns \<Longrightarrow> forgotten n s \<Longrightarrow>
     forgotten n s' \<and> (n \<notin> set (rc_files s) \<longrightarrow> n \<notin> set (rc_files s'))"
proof (induction ns arbitrary: s)
  case (Cons m ns)
  then obtain s1 where s1: "load_file now m s = Some s1" "load_files now ns s1 = Some s'" by (auto split: option.splits)
  then show ?case using Cons.IH [OF s1(2)] Cons.prems load_file_other [OF s1(1), of n] by auto
qed simp

lemma load_removes:
  assumes "load_files now ns s = Some s'" "distinct ns" "n \<in> set ns" "forgotten n s" "rc_checks s"
    and "get_period_from_filename True n = Some (Some (b, e))" "e - b < rc_segment s * 2" "now - e > rc_retention s"
  shows "forgotten n s' \<and> n \<notin> set (rc_files s')"
  using assms(1-5,7,8)
proof (induction ns arbitrary: s)
  case (Cons m ns)
  then obtain s1 where s1: "load_file now m s = Some s1" "load_files now ns s1 = Some s'" by (auto split: option.splits)
  show ?case
  proof (cases "m = n")
    case True
    then have "s1 = snd (add_recording now \<lparr>rg_name = n, rg_begin = b, rg_end = e\<rparr> s)"
      using s1(1) Cons.prems assms(6) by (simp add: load_file_def)
    then have "forgotten n s1" "n \<notin> set (rc_files s1)"
      using Cons.prems by (auto simp: add_recording_def rotate_recordings_def forgotten_def expired_def)
    then show ?thesis using load_others [OF s1(2)] Cons.prems(2) True by auto
  next
    case False
    then show ?thesis using Cons.IH [OF s1(2)] Cons.prems load_file_other [OF s1(1) False] by auto
  qed
qed simp

text \<open>
  C39: the recorder writes the times of a recording into its file name as dates, but reads them back as numbers of
  seconds: after a restart a recording that begins and ends on one day is taken for one of 1970, deleted from the
  disk and forgotten.
\<close>

theorem restart_deletes_recordings:
  assumes "rc_checks s" "rc_recordings s = []" "distinct (rc_files s)" "recording_name b e \<in> set (rc_files s)"
    and "packed_date b = packed_date e" "tm_year (gmtime (to_time_t b)) \<le> 9999" "tm_year (gmtime (to_time_t e)) \<le> 9999"
    and "0 < rc_segment s" "now > seconds 99991231 + rc_retention s" "load_recordings now s = Some s'"
  shows "recording_name b e \<notin> set (rc_files s') \<and> recording_name b e \<notin> rg_name ` set (rc_recordings s')"
proof -
  let ?d = "seconds (int (packed_date e))"
  have p: "get_period_from_filename True (recording_name b e) = Some (Some (?d, ?d))"
    using recording_name_period [OF assms(6,7)] assms(5) by simp
  have "packed_date e \<le> 99991231"
    using assms(7) gmtime_timegm [of "to_time_t e"] month_days_le [of "tm_mon (gmtime (to_time_t e))" "tm_year (gmtime (to_time_t e))"]
    by (auto simp: packed_date_def tm_ok_def Let_def)
  then have "now - ?d > rc_retention s" using assms(9) by (simp add: seconds_def)
  then have "forgotten (recording_name b e) s' \<and> recording_name b e \<notin> set (rc_files s')"
    using load_removes [OF _ assms(3,4) _ assms(1) p] assms(2,8,10) by (simp add: load_recordings_def forgotten_def)
  then show ?thesis by (simp add: forgotten_def)
qed

theorem restart_deletes_recordings_witness:
  "\<exists>s'. load_recordings (seconds 1000000100) ((mp4_recorder_sink_new 10)\<lparr>rc_files := [recording_name (seconds 1000000000) (seconds 1000000010)]\<rparr>) =
      Some s' \<and> recording_name (seconds 1000000000) (seconds 1000000010) \<notin> set (rc_files s')"
proof -
  let ?n = "recording_name (seconds 1000000000) (seconds 1000000010)"
  let ?s = "(mp4_recorder_sink_new 10)\<lparr>rc_files := [?n]\<rparr>"
  have g: "tm_year (gmtime (to_time_t (seconds 1000000000))) = 2001" "packed_date (seconds 1000000000) = 20010909"
    "tm_year (gmtime (to_time_t (seconds 1000000010))) = 2001" "packed_date (seconds 1000000010) = 20010909"
    by (simp_all add: packed_date_def to_time_t_def seconds_def gmtime_def find_year.simps year_days_def leap_def month_days_def
        Let_def split_beta)
  have "get_period_from_filename True ?n = Some (Some (seconds 20010909, seconds 20010909))"
    using recording_name_period [of "seconds 1000000000" "seconds 1000000010" True] g by simp
  then obtain s' where "load_recordings (seconds 1000000100) ?s = Some s'"
    by (simp add: load_recordings_def load_file_def mp4_recorder_sink_new_def)
  then show ?thesis
    using restart_deletes_recordings [of ?s "seconds 1000000000" "seconds 1000000010" "seconds 1000000100" s'] g
    by (simp add: mp4_recorder_sink_new_def seconds_def)
qed

end
