(* ===== verification/Onvif_Events.thy ===== *)
theory Onvif_Events
  imports Proto_Events Media_Queue Ordered_Map Time_Period
begin

text \<open>
  \<^verbatim>\<open>src/src/streamer/onvif_metadata_sink.h\<close> and \<^verbatim>\<open>src/src/streamer/rtsp_onvif_metadata_event_stream.h\<close>: the sink that
  collects the packets of an ONVIF metadata track until they are a complete XML document, and the event stream that
  translates the notification in it to an event of the cloud. The XML parser and the media stream are parameters.
\<close>

section \<open>Collecting packets\<close>

text \<open>
  The XML library: \<open>xl_parse\<close> is \<open>parse<0>\<close> and \<open>xl_valid\<close> says whether \<open>parse<parse_non_destructive>\<close> returns;
  \<open>xl_first\<close> takes the name and the name space the source passes. \<open>xl_from_iso\<close> is the reader of the date library.
\<close>

record 'n xml_lib =
  xl_parse :: "string \<Rightarrow> 'n option"
  xl_valid :: "string \<Rightarrow> bool"
  xl_first :: "'n \<Rightarrow> string \<Rightarrow> string option \<Rightarrow> 'n option"
  xl_children :: "'n \<Rightarrow> 'n list"
  xl_attribute :: "'n \<Rightarrow> string \<Rightarrow> string option"
  xl_value :: "'n \<Rightarrow> string"
  xl_from_iso :: "string \<Rightarrow> time"

record simple_item =
  si_name :: string
  si_value :: string

record onvif_event =
  oe_raw_body :: string
  oe_topic :: string
  oe_time :: time
  oe_prop_op :: string
  oe_source_items :: "simple_item list"
  oe_data_items :: "simple_item list"

record metadata_sink =
  ms_aggregated :: string
  ms_packets :: nat

definition max_aggregated_packets :: nat where
  "max_aggregated_packets = 3"

text \<open>What escapes from \<open>process\<close>: an exception of the parser, or the null pointer of a message without a topic.\<close>

datatype onvif_fault = Parse_Throws | Null_Topic

definition parse_simple_items :: "'n xml_lib \<Rightarrow> 'n option \<Rightarrow> simple_item list \<Rightarrow> bool \<times> simple_item list" where
  "parse_simple_items x inst items =
     (case inst of
        None \<Rightarrow> (False, items)
      | Some n \<Rightarrow>
          (True, items @ map (\<lambda>i. \<lparr>si_name = (case xl_attribute x i ''Name'' of None \<Rightarrow> [] | Some v \<Rightarrow> v),
                                   si_value = (case xl_attribute x i ''Value'' of None \<Rightarrow> [] | Some v \<Rightarrow> v)\<rparr>)
                           (xl_children x n)))"

definition onvif_schema :: string where
  "onvif_schema = ''http://www.onvif.org/ver10/schema''"

definition wsn_schema :: string where
  "wsn_schema = ''http://docs.oasis-open.org/wsn/b-2''"

definition empty_onvif_event :: onvif_event where
  "empty_onvif_event = \<lparr>oe_raw_body = [], oe_topic = [], oe_time = 0, oe_prop_op = [], oe_source_items = [], oe_data_items = []\<rparr>"

text \<open>The inner \<open>Message\<close> element of a notification.\<close>

definition parse_message :: "'n xml_lib \<Rightarrow> 'n \<Rightarrow> onvif_event \<Rightarrow> onvif_event" where
  "parse_message x node ev =
     (case Option.bind (xl_first x node ''Message'' None) (\<lambda>m. xl_first x m ''Message'' (Some onvif_schema)) of
        None \<Rightarrow> ev
      | Some m \<Rightarrow>
          (let ev = (case xl_attribute x m ''UtcTime'' of None \<Rightarrow> ev | Some v \<Rightarrow> ev\<lparr>oe_time := xl_from_iso x v\<rparr>);
               ev = (case xl_attribute x m ''PropertyOperation'' of None \<Rightarrow> ev | Some v \<Rightarrow> ev\<lparr>oe_prop_op := v\<rparr>);
               ev = ev\<lparr>oe_source_items := snd (parse_simple_items x (xl_first x m ''Source'' None) (oe_source_items ev))\<rparr>
           in ev\<lparr>oe_data_items := snd (parse_simple_items x (xl_first x m ''Data'' None) (oe_data_items ev))\<rparr>))"

definition parse_aggregated_event :: "'n xml_lib \<Rightarrow> metadata_sink \<Rightarrow> (onvif_fault, onvif_event) result" where
  "parse_aggregated_event x s =
     (let ev = empty_onvif_event\<lparr>oe_raw_body := ms_aggregated s\<rparr> in
      case xl_parse x (ms_aggregated s) of
        None \<Rightarrow> Inl Parse_Throws
      | Some doc \<Rightarrow>
          (case Option.bind (xl_first x doc ''MetadataStream'' (Some onvif_schema)) (\<lambda>n.
                  Option.bind (xl_first x n ''Event'' None) (\<lambda>n. xl_first x n ''NotificationMessage'' (Some wsn_schema))) of
             None \<Rightarrow> Inr ev
           | Some node \<Rightarrow>
               (case xl_first x node ''Topic'' None of
                  None \<Rightarrow> Inl Null_Topic
                | Some topic \<Rightarrow> Inr (parse_message x node (ev\<lparr>oe_topic := xl_value x topic\<rparr>)))))"

definition add_aggregated :: "string \<Rightarrow> metadata_sink \<Rightarrow> metadata_sink" where
  "add_aggregated data s = s\<lparr>ms_aggregated := ms_aggregated s @ data, ms_packets := ms_packets s + 1\<rparr>"

definition clear_aggregated :: "metadata_sink \<Rightarrow> metadata_sink" where
  "clear_aggregated s = s\<lparr>ms_packets := 0, ms_aggregated := []\<rparr>"

definition validate_aggregated :: "'n xml_lib \<Rightarrow> metadata_sink \<Rightarrow> bool \<times> metadata_sink" where
  "validate_aggregated x s =
     (if xl_valid x (ms_aggregated s) then (True, s)
      else (False, if ms_packets s > max_aggregated_packets then clear_aggregated s else s))"

definition aggregate_check_data :: "'n xml_lib \<Rightarrow> string \<Rightarrow> metadata_sink \<Rightarrow> bool \<times> metadata_sink" where
  "aggregate_check_data x new_data s = validate_aggregated x (add_aggregated new_data s)"

definition frame_text :: "media_frame \<Rightarrow> string" where
  "frame_text f = map (\<lambda>b. char_of (unat b)) (mf_data f)"

text \<open>\<open>process\<close>, which always returns true; \<open>cb\<close> says whether there is a callback, the event is what it is given.\<close>

definition metadata_process ::
  "'n xml_lib \<Rightarrow> bool \<Rightarrow> media_frame \<Rightarrow> metadata_sink \<Rightarrow> (onvif_fault, onvif_event option \<times> metadata_sink) result" where
  "metadata_process x cb f s =
     (if mf_type f = DATA then
        (let (complete, s) = aggregate_check_data x (frame_text f) s in
         if complete \<and> cb then
           (case parse_aggregated_event x s of
              Inl e \<Rightarrow> Inl e
            | Inr ev \<Rightarrow> Inr (Some ev, clear_aggregated s))
         else Inr (None, s))
      else Inr (None, s))"

definition metadata_init :: "metadata_sink \<Rightarrow> metadata_sink" where
  "metadata_init s = clear_aggregated s"

section \<open>From notifications to events\<close>

text \<open>
  \<open>om_ext\<close> is the callback of the application that may change the event and says whether to send it. The entries of
  \<open>os_map\<close> are ordered by their keys.
\<close>

record onvif_mapping =
  om_topic :: string
  om_min_interval :: duration
  om_state_item :: string
  om_active_value :: string
  om_config :: event_config
  om_ext :: "(event_object \<Rightarrow> onvif_event \<Rightarrow> bool \<times> event_object) option"

text \<open>
  \<open>os_stream\<close> is the media stream, if allocated; \<open>os_restarts\<close> are the threads that restart it, each with what it has
  still to do; \<open>os_fault\<close>: a thread used a null pointer.
\<close>

datatype restart_action = R_Stop_Sink | R_Stop | R_Start | R_Start_Sink

record 'm onvif_stream =
  os_url :: string
  os_map :: "(string \<times> onvif_mapping) list"
  os_last :: "(string \<times> time) list"
  os_trigger :: bool
  os_stream :: "'m option"
  os_restarts :: "restart_action list list"
  os_fault :: bool

definition onvif_stream_new :: "string \<Rightarrow> (string \<times> onvif_mapping) list \<Rightarrow> 'm onvif_stream" where
  "onvif_stream_new url m = \<lparr>os_url = url, os_map = m, os_last = [], os_trigger = False, os_stream = None,
     os_restarts = [], os_fault = False\<rparr>"

definition get_events :: "'m onvif_stream \<Rightarrow> event_config list \<Rightarrow> event_config list" where
  "get_events s configs = configs @ map (\<lambda>(_, m). om_config m) (os_map s)"

text \<open>\<open>events_map_[k].vxg_event_config = ec\<close> of a key that is there.\<close>

definition put_config :: "string \<Rightarrow> event_config \<Rightarrow> (string \<times> onvif_mapping) list \<Rightarrow> (string \<times> onvif_mapping) list" where
  "put_config k ec ms = map (\<lambda>(k', m). (k', if k' = k then m\<lparr>om_config := ec\<rparr> else m)) ms"

text \<open>\<open>False\<close> is the exception of a name that is not a string.\<close>

fun set_events_loop :: "json_num \<Rightarrow> event_config list \<Rightarrow> (string \<times> onvif_mapping) list \<Rightarrow> bool \<times> (string \<times> onvif_mapping) list" where
  "set_events_loop num [] ms = (True, ms)"
| "set_events_loop num (ec # cs) ms =
     (case Option.bind (json_at ''event'' (event_config_to_json num ec)) dec_str of
        None \<Rightarrow> (False, ms)
      | Some k \<Rightarrow> set_events_loop num cs (if k \<in> fst ` set ms then put_config k ec ms else ms))"

definition set_events :: "json_num \<Rightarrow> event_config list \<Rightarrow> 'm onvif_stream \<Rightarrow> bool \<times> 'm onvif_stream" where
  "set_events num cs s = (let (ok, ms) = set_events_loop num cs (os_map s) in (ok, s\<lparr>os_map := ms\<rparr>))"

definition find_mapping_by_topic :: "string \<Rightarrow> (string \<times> onvif_mapping) list \<Rightarrow> onvif_mapping option" where
  "find_mapping_by_topic topic ms =
     (case find (\<lambda>(_, m). topic = om_topic m) ms of
        Some (_, m) \<Rightarrow> Some m
      | None \<Rightarrow> (case find (\<lambda>(_, m). om_topic m = ''*'') ms of Some (_, m) \<Rightarrow> Some m | None \<Rightarrow> None))"

definition put_item :: "simple_item \<Rightarrow> event_object \<Rightarrow> event_object" where
  "put_item i ev = ev\<lparr>eo_meta := json_set (si_name i) (JStr (si_value i)) (eo_meta ev)\<rparr>"

definition put_data_item :: "onvif_mapping \<Rightarrow> simple_item \<Rightarrow> event_object \<Rightarrow> event_object" where
  "put_data_item m i ev =
     (put_item i ev)\<lparr>eo_active := (si_name i = om_state_item m \<and> om_active_value m = si_value i)\<rparr>"

text \<open>The event made of a notification.\<close>

definition event_of_onvif :: "(time \<Rightarrow> double) \<Rightarrow> onvif_mapping \<Rightarrow> onvif_event \<Rightarrow> event_object" where
  "event_of_onvif to_double m oe =
     (let ev = event_object_default\<lparr>eo_time := to_double (oe_time oe), eo_event := evc_event (om_config m),
                 eo_custom_event_name := evc_custom_event_name (om_config m)\<rparr>;
          ev = ev\<lparr>eo_meta := json_set ''onvif-event-topic'' (JStr (oe_topic oe)) (eo_meta ev)\<rparr>;
          ev = fold put_item (oe_source_items oe) ev;
          ev = fold (put_data_item m) (oe_data_items oe) ev
      in ev\<lparr>eo_meta_file := oe_raw_body oe\<rparr>)"

text \<open>\<open>last_onvif_event_time_[topic]\<close>, which makes an entry of the null time when there is none.\<close>

definition last_time :: "string \<Rightarrow> (string \<times> time) list \<Rightarrow> time" where
  "last_time topic ls = (case map_of ls topic of None \<Rightarrow> 0 | Some t \<Rightarrow> t)"

text \<open>\<open>on_onvif_event\<close>: the event passed to \<open>notify\<close>, if any.\<close>

definition on_onvif_event ::
  "(time \<Rightarrow> double) \<Rightarrow> onvif_event \<Rightarrow> 'm onvif_stream \<Rightarrow> event_object option \<times> 'm onvif_stream" where
  "on_onvif_event to_double oe s =
     (if oe_topic oe \<noteq> [] \<and> oe_time oe \<noteq> time_null then
        (case find_mapping_by_topic (oe_topic oe) (os_map s) of
           None \<Rightarrow> (None, s)
         | Some m \<Rightarrow>
             (let ev = event_of_onvif to_double m oe;
                  topic = oe_topic oe
              in if eo_active ev \<and> om_min_interval m \<noteq> 0 \<and> oe_time oe - last_time topic (os_last s) < om_min_interval m
                 then (None, s\<lparr>os_last := map_put topic (last_time topic (os_last s)) (os_last s)\<rparr>)
                 else
                   (let s = (if eo_active ev then s\<lparr>os_last := map_put topic (oe_time oe) (os_last s)\<rparr> else s) in
                    case om_ext m of
                      None \<Rightarrow> (Some ev, s)
                    | Some f \<Rightarrow> (let (ok, ev) = f ev oe in (if ok then Some ev else None, s)))))
      else (None, s))"

definition set_trigger_recording :: "bool \<Rightarrow> 'm onvif_stream \<Rightarrow> bool \<times> 'm onvif_stream" where
  "set_trigger_recording enabled s = (True, s\<lparr>os_trigger := enabled\<rparr>)"

section \<open>Starting, stopping and restarting\<close>

text \<open>The media stream: \<open>stream\<close> of \<open>Media_Stream\<close> with an RTSP source and the metadata sink.\<close>

record 'm stream_api =
  sa_new :: 'm
  sa_start :: "string \<Rightarrow> 'm \<Rightarrow> bool \<times> 'm"
  sa_start_sink :: "'m \<Rightarrow> bool \<times> 'm"
  sa_stop_sink :: "'m \<Rightarrow> 'm"
  sa_stop :: "'m \<Rightarrow> 'm"

definition onvif_init :: "'m stream_api \<Rightarrow> 'm onvif_stream \<Rightarrow> bool \<times> 'm onvif_stream" where
  "onvif_init a s = (case os_stream s of Some _ \<Rightarrow> (True, s) | None \<Rightarrow> (True, s\<lparr>os_stream := Some (sa_new a)\<rparr>))"

definition onvif_finit :: "'m onvif_stream \<Rightarrow> 'm onvif_stream" where
  "onvif_finit s = (case os_stream s of None \<Rightarrow> s | Some _ \<Rightarrow> s\<lparr>os_stream := None\<rparr>)"

definition onvif_start :: "'m stream_api \<Rightarrow> 'm onvif_stream \<Rightarrow> bool \<times> 'm onvif_stream" where
  "onvif_start a s =
     (let (_, s) = onvif_init a s in
      case os_stream s of
        None \<Rightarrow> (False, s)
      | Some m \<Rightarrow>
          (let (ok, m) = sa_start a (os_url s) m in
           if \<not> ok then (False, s\<lparr>os_stream := Some m\<rparr>)
           else let (ok, m) = sa_start_sink a m in (ok, s\<lparr>os_stream := Some m\<rparr>)))"

definition onvif_stop :: "'m stream_api \<Rightarrow> 'm onvif_stream \<Rightarrow> 'm onvif_stream" where
  "onvif_stop a s =
     onvif_finit (case os_stream s of
        None \<Rightarrow> s
      | Some m \<Rightarrow> s\<lparr>os_stream := Some (sa_stop a (sa_stop_sink a m))\<rparr>)"

text \<open>The callback for errors of the media stream starts a detached thread.\<close>

definition on_stream_error :: "stream_error \<Rightarrow> 'm onvif_stream \<Rightarrow> 'm onvif_stream" where
  "on_stream_error e s =
     (if e \<noteq> E_EOS \<and> os_stream s \<noteq> None
      then s\<lparr>os_restarts := os_restarts s @ [[R_Stop_Sink, R_Stop, R_Start, R_Start_Sink]]\<rparr> else s)"

fun restart_act :: "'m stream_api \<Rightarrow> string \<Rightarrow> restart_action \<Rightarrow> 'm \<Rightarrow> 'm" where
  "restart_act a url R_Stop_Sink m = sa_stop_sink a m"
| "restart_act a url R_Stop m = sa_stop a m"
| "restart_act a url R_Start m = snd (sa_start a url m)"
| "restart_act a url R_Start_Sink m = snd (sa_start_sink a m)"

text \<open>One call of the \<open>i\<close>-th of these threads.\<close>

definition restart_thread :: "'m stream_api \<Rightarrow> nat \<Rightarrow> 'm onvif_stream \<Rightarrow> 'm onvif_stream" where
  "restart_thread a i s =
     (if i < length (os_restarts s) then
        (case os_restarts s ! i of
           [] \<Rightarrow> s
         | act # rest \<Rightarrow>
             (let s = s\<lparr>os_restarts := (os_restarts s)[i := rest]\<rparr> in
              case os_stream s of
                None \<Rightarrow> s\<lparr>os_fault := True\<rparr>
              | Some m \<Rightarrow> s\<lparr>os_stream := Some (restart_act a (os_url s) act m)\<rparr>))
      else s)"


section \<open>The sink as a whole\<close>

text \<open>A run of frames: the events given to the callback, in order.\<close>

fun sink_run :: "'n xml_lib \<Rightarrow> media_frame list \<Rightarrow> metadata_sink \<Rightarrow> (onvif_fault, onvif_event list \<times> metadata_sink) result" where
  "sink_run x [] s = Inr ([], s)"
| "sink_run x (f # fs) s =
     (case metadata_process x True f s of
        Inl e \<Rightarrow> Inl e
      | Inr (ev, s) \<Rightarrow>
          (case sink_run x fs s of
             Inl e \<Rightarrow> Inl e
           | Inr (evs, s) \<Rightarrow> Inr ((case ev of None \<Rightarrow> evs | Some e \<Rightarrow> e # evs), s)))"

definition data_frames :: "media_frame list \<Rightarrow> media_frame list" where
  "data_frames fs = filter (\<lambda>f. mf_type f = DATA) fs"

definition text_of :: "media_frame list \<Rightarrow> string" where
  "text_of fs = concat (map frame_text fs)"

definition prepend_event :: "onvif_event \<Rightarrow> (onvif_fault, onvif_event list \<times> metadata_sink) result \<Rightarrow>
    (onvif_fault, onvif_event list \<times> metadata_sink) result" where
  "prepend_event e r = (case r of Inl f \<Rightarrow> Inl f | Inr (evs, s) \<Rightarrow> Inr (e # evs, s))"

lemma sink_run_data: "sink_run x fs s = sink_run x (data_frames fs) s"
  by (induction fs arbitrary: s)
     (auto simp: data_frames_def metadata_process_def Let_def split: sum.splits prod.splits option.splits)

lemma data_frames_append [simp]: "data_frames (fs @ gs) = data_frames fs @ data_frames gs"
  by (simp add: data_frames_def)

lemma text_of_simps [simp]: "text_of [] = []" "text_of (f # fs) = frame_text f @ text_of fs"
  by (simp_all add: text_of_def)

lemmas sink_defs = metadata_process_def aggregate_check_data_def validate_aggregated_def add_aggregated_def
  clear_aggregated_def

text \<open>A document in at most four packets, part of it already collected.\<close>

lemma sink_run_document:
  assumes "\<forall>f\<in>set fs. mf_type f = DATA" and "fs \<noteq> []" and "ms_packets s + length fs \<le> 4"
    and "\<And>n. 0 < n \<Longrightarrow> n < length fs \<Longrightarrow> \<not> xl_valid x (ms_aggregated s @ text_of (take n fs))"
    and "xl_valid x (ms_aggregated s @ text_of fs)"
    and "parse_aggregated_event x \<lparr>ms_aggregated = ms_aggregated s @ text_of fs, ms_packets = ms_packets s + length fs\<rparr> = Inr ev"
  shows "sink_run x (fs @ gs) s = prepend_event ev (sink_run x gs \<lparr>ms_aggregated = [], ms_packets = 0\<rparr>)"
  using assms
proof (induction fs arbitrary: s)
  case (Cons f fs)
  show ?case
  proof (cases fs)
    case Nil
    from Cons.prems Nil show ?thesis
      by (cases s) (simp add: sink_defs prepend_event_def split: sum.splits prod.splits)
  next
    case (Cons g fs')
    let ?s = "\<lparr>ms_aggregated = ms_aggregated s @ frame_text f, ms_packets = Suc (ms_packets s)\<rparr>"
    have "\<not> xl_valid x (ms_aggregated s @ frame_text f)"
      using Cons.prems(4)[of 1] Cons by simp
    moreover have "ms_packets s + 1 \<le> max_aggregated_packets"
      using Cons.prems(3) Cons by (simp add: max_aggregated_packets_def)
    ultimately have "metadata_process x True f s = Inr (None, ?s)"
      using Cons.prems(1) by (simp add: sink_defs)
    moreover have "sink_run x (fs @ gs) ?s = prepend_event ev (sink_run x gs \<lparr>ms_aggregated = [], ms_packets = 0\<rparr>)"
    proof (rule Cons.IH)
      show "\<And>n. 0 < n \<Longrightarrow> n < length fs \<Longrightarrow> \<not> xl_valid x (ms_aggregated ?s @ text_of (take n fs))"
        using Cons.prems(4)[of "Suc n" for n] by simp
    qed (use Cons.prems Cons in simp_all)
    ultimately show ?thesis by (auto simp: prepend_event_def split: sum.splits prod.splits)
  qed
qed simp

text \<open>Packets without a complete document among their beginnings, the last of which is the fourth.\<close>

lemma sink_run_lost:
  assumes "\<forall>f\<in>set fs. mf_type f = DATA" and "fs \<noteq> []" and "ms_packets s + length fs = 4"
    and "\<And>n. 0 < n \<Longrightarrow> n \<le> length fs \<Longrightarrow> \<not> xl_valid x (ms_aggregated s @ text_of (take n fs))"
  shows "sink_run x (fs @ gs) s = sink_run x gs \<lparr>ms_aggregated = [], ms_packets = 0\<rparr>"
  using assms
proof (induction fs arbitrary: s)
  case (Cons f fs)
  have bad: "\<not> xl_valid x (ms_aggregated s @ frame_text f)"
    using Cons.prems(4)[of 1] by simp
  show ?case
  proof (cases fs)
    case Nil
    with Cons.prems bad show ?thesis
      by (cases s) (simp add: sink_defs max_aggregated_packets_def split: sum.splits prod.splits)
  next
    case (Cons g fs')
    let ?s = "\<lparr>ms_aggregated = ms_aggregated s @ frame_text f, ms_packets = Suc (ms_packets s)\<rparr>"
    have "metadata_process x True f s = Inr (None, ?s)"
      using Cons.prems(1,3) Cons bad by (simp add: sink_defs max_aggregated_packets_def)
    moreover have "sink_run x (fs @ gs) ?s = sink_run x gs \<lparr>ms_aggregated = [], ms_packets = 0\<rparr>"
    proof (rule Cons.IH)
      show "\<And>n. 0 < n \<Longrightarrow> n \<le> length fs \<Longrightarrow> \<not> xl_valid x (ms_aggregated ?s @ text_of (take n fs))"
        using Cons.prems(4)[of "Suc n" for n] by simp
    qed (use Cons.prems Cons in simp_all)
    ultimately show ?thesis by (auto split: sum.splits prod.splits)
  qed
qed simp

lemma metadata_packets:
  "metadata_process x True f s = Inr (ev, s') \<Longrightarrow> ms_packets s \<le> max_aggregated_packets \<Longrightarrow>
     ms_packets s' \<le> max_aggregated_packets"
  by (auto simp: sink_defs max_aggregated_packets_def Let_def split: if_splits sum.splits)

section \<open>Facts about the translation\<close>

text \<open>What does not change when settings do: the topic, the interval and the state item of a rule.\<close>

definition same_rule :: "onvif_mapping \<Rightarrow> onvif_mapping \<Rightarrow> bool" where
  "same_rule m m' \<longleftrightarrow> om_topic m' = om_topic m \<and> om_min_interval m' = om_min_interval m \<and>
     om_state_item m' = om_state_item m \<and> om_active_value m' = om_active_value m"

definition active_of :: "onvif_mapping \<Rightarrow> onvif_event \<Rightarrow> bool" where
  "active_of m oe \<longleftrightarrow> oe_data_items oe \<noteq> [] \<and>
     si_name (last (oe_data_items oe)) = om_state_item m \<and> si_value (last (oe_data_items oe)) = om_active_value m"

lemma active_put_item: "eo_active (fold put_item is ev) = eo_active ev"
  by (induction "is" arbitrary: ev) (simp_all add: put_item_def)

lemma active_put_data:
  "eo_active (fold (put_data_item m) is ev) =
     (if is = [] then eo_active ev else si_name (last is) = om_state_item m \<and> si_value (last is) = om_active_value m)"
  by (induction "is" arbitrary: ev) (auto simp: put_data_item_def)

lemma event_active: "eo_active (event_of_onvif d m oe) = active_of m oe"
  by (auto simp: event_of_onvif_def Let_def active_put_data active_put_item active_of_def event_object_default_def)

lemma active_same_rule: "same_rule m m' \<Longrightarrow> active_of m' oe = active_of m oe"
  by (simp add: same_rule_def active_of_def)

lemma find_put_config:
  assumes "\<And>m m'. same_rule m m' \<Longrightarrow> P m' = P m"
  shows "rel_option (\<lambda>p q. same_rule (snd p) (snd q)) (find (\<lambda>(_, m). P m) ms) (find (\<lambda>(_, m). P m) (put_config k ec ms))"
proof (induction ms)
  case (Cons p ms)
  have "same_rule m (m\<lparr>om_config := ec\<rparr>)" "same_rule m m" for m by (simp_all add: same_rule_def)
  with Cons show ?case by (cases p) (auto simp: put_config_def dest: assms)
qed (simp add: put_config_def)

lemma find_mapping_put_config:
  "rel_option same_rule (find_mapping_by_topic t ms) (find_mapping_by_topic t (put_config k ec ms))"
proof -
  have P: "same_rule m m' \<Longrightarrow> (t = om_topic m') = (t = om_topic m)"
    and Q: "same_rule m m' \<Longrightarrow> (om_topic m' = ''*'') = (om_topic m = ''*'')" for m m'
    by (simp_all add: same_rule_def)
  show ?thesis
    using find_put_config[of "\<lambda>m. t = om_topic m" ms k ec, OF P]
      find_put_config[of "\<lambda>m. om_topic m = ''*''" ms k ec, OF Q]
    by (auto simp: find_mapping_by_topic_def option_rel_Some1 option_rel_Some2 split: option.splits)
qed

lemma same_rule_refl [simp]: "same_rule m m" by (simp add: same_rule_def)

lemma same_rule_trans: "same_rule a b \<Longrightarrow> same_rule b c \<Longrightarrow> same_rule a c" by (simp add: same_rule_def)

lemma same_rules_trans: "rel_option same_rule a b \<Longrightarrow> rel_option same_rule b c \<Longrightarrow> rel_option same_rule a c"
  by (cases a; cases b; cases c) (auto intro: same_rule_trans)

lemma find_mapping_set_events:
  "rel_option same_rule (find_mapping_by_topic t ms) (find_mapping_by_topic t (snd (set_events_loop num cs ms)))"
proof (induction num cs ms rule: set_events_loop.induct)
  case (1 num ms)
  show ?case by (simp add: option.rel_refl)
next
  case (2 num ec cs ms)
  have "rel_option same_rule (find_mapping_by_topic t ms)
      (find_mapping_by_topic t (if k \<in> fst ` set ms then put_config k ec ms else ms))" for k
    by (simp add: find_mapping_put_config option.rel_refl)
  from same_rules_trans[OF this] 2 show ?case
    by (cases "Option.bind (json_at ''event'' (event_config_to_json num ec)) dec_str") (simp_all add: option.rel_refl)
qed

section \<open>Runs of the event stream\<close>

datatype onvif_op = Notification onvif_event | Settings "event_config list"

text \<open>A run of notifications and settings: the notifications that became events, with these.\<close>

fun stream_run ::
  "json_num \<Rightarrow> (time \<Rightarrow> double) \<Rightarrow> onvif_op list \<Rightarrow> 'm onvif_stream \<Rightarrow> (onvif_event \<times> event_object) list \<times> 'm onvif_stream" where
  "stream_run num d [] s = ([], s)"
| "stream_run num d (Notification oe # ops) s =
     (let (ev, s) = on_onvif_event d oe s; (out, s) = stream_run num d ops s
      in (case ev of None \<Rightarrow> out | Some e \<Rightarrow> (oe, e) # out, s))"
| "stream_run num d (Settings cs # ops) s = stream_run num d ops (snd (set_events num cs s))"

text \<open>The times of the active notifications of a topic that became events.\<close>

definition active_times :: "onvif_mapping \<Rightarrow> string \<Rightarrow> (onvif_event \<times> event_object) list \<Rightarrow> time list" where
  "active_times m topic out = map (\<lambda>(oe, _). oe_time oe) (filter (\<lambda>(oe, _). oe_topic oe = topic \<and> active_of m oe) out)"

lemma last_time_put [simp]: "last_time t (map_put t' x ls) = (if t = t' then x else last_time t ls)"
  by (simp add: last_time_def)

text \<open>What one notification does to the time of the last active one of a topic.\<close>

lemma on_onvif_event_last:
  assumes "find_mapping_by_topic t (os_map s) = Some m" "om_min_interval m > 0" "on_onvif_event d oe s = (r, s')"
  shows "os_map s' = os_map s \<and> last_time t (os_last s) \<le> last_time t (os_last s') \<and>
     (r \<noteq> None \<longrightarrow> oe_topic oe = t \<longrightarrow> active_of m oe \<longrightarrow>
        last_time t (os_last s) + om_min_interval m \<le> oe_time oe \<and> last_time t (os_last s') = oe_time oe)"
  using assms(2,3)
  by (cases "oe_topic oe = t")
     (auto simp: on_onvif_event_def Let_def event_active assms(1) split: option.splits if_splits prod.splits)

lemma run_spaced:
  assumes "find_mapping_by_topic t (os_map s) = Some m" "om_min_interval m > 0"
  shows "\<forall>x\<in>set (active_times m t (fst (stream_run num d ops s))). last_time t (os_last s) + om_min_interval m \<le> x"
    and "sorted_wrt (\<lambda>a b. a + om_min_interval m \<le> b) (active_times m t (fst (stream_run num d ops s)))"
  using assms
proof (induction num d ops s arbitrary: m rule: stream_run.induct)
  case (2 num d oe ops s)
  {
    case 1
    obtain r s' where ev: "on_onvif_event d oe s = (r, s')" by fastforce
    note l = on_onvif_event_last[OF 1 ev]
    show ?case
      using "2.IH"(1)[OF ev[symmetric] refl, of m] l 1
      by (fastforce simp: ev active_times_def split: prod.splits option.splits)
  next
    case 2
    obtain r s' where ev: "on_onvif_event d oe s = (r, s')" by fastforce
    note l = on_onvif_event_last[OF 2 ev]
    show ?case
      using "2.IH"(1)[OF ev[symmetric] refl, of m] "2.IH"(2)[OF ev[symmetric] refl, of m] l 2
      by (auto simp: ev active_times_def split: prod.splits option.splits) blast
  }
next
  case (3 num d cs ops s)
  let ?s = "snd (set_events num cs s)"
  have map': "os_map ?s = snd (set_events_loop num cs (os_map s))" "os_last ?s = os_last s"
    by (simp_all add: set_events_def split: prod.splits)
  {
    case 1
    obtain m' where m': "find_mapping_by_topic t (os_map ?s) = Some m'" "same_rule m m'"
      using find_mapping_set_events[of t "os_map s" num cs] 1(1) map' by (auto simp: option_rel_Some1)
    then have "om_min_interval m' = om_min_interval m" "active_times m' = active_times m"
      by (auto simp: same_rule_def active_times_def active_same_rule[OF m'(2)] fun_eq_iff)
    then show ?case using "3.IH"(1)[OF m'(1)] 1(2) map' by simp
  next
    case 2
    obtain m' where m': "find_mapping_by_topic t (os_map ?s) = Some m'" "same_rule m m'"
      using find_mapping_set_events[of t "os_map s" num cs] 2(1) map' by (auto simp: option_rel_Some1)
    then have "om_min_interval m' = om_min_interval m" "active_times m' = active_times m"
      by (auto simp: same_rule_def active_times_def active_same_rule[OF m'(2)] fun_eq_iff)
    then show ?case using "3.IH"(2)[OF m'(1)] 2(2) map' by simp
  }
qed (simp_all add: active_times_def)

section \<open>Settings\<close>

definition settings_name :: "json_num \<Rightarrow> event_config \<Rightarrow> string option" where
  "settings_name num ec = Option.bind (json_at ''event'' (event_config_to_json num ec)) dec_str"

lemma settings_name_eq: "settings_name num ec = config_name ec"
  by (simp add: settings_name_def event_config_to_json_def config_name_def Let_def)

text \<open>The last setting of a name.\<close>

definition last_setting :: "json_num \<Rightarrow> event_config list \<Rightarrow> string \<Rightarrow> event_config option" where
  "last_setting num cs k = find (\<lambda>ec. settings_name num ec = Some k) (rev cs)"

definition configured :: "json_num \<Rightarrow> event_config list \<Rightarrow> (string \<times> onvif_mapping) list \<Rightarrow> (string \<times> onvif_mapping) list" where
  "configured num cs ms = map (\<lambda>(k, m). (k, case last_setting num cs k of None \<Rightarrow> m | Some ec \<Rightarrow> m\<lparr>om_config := ec\<rparr>)) ms"

lemma find_append: "find P (xs @ ys) = (case find P xs of None \<Rightarrow> find P ys | Some x \<Rightarrow> Some x)"
  by (induction xs) auto

lemma put_config_unknown: "k \<notin> fst ` set ms \<Longrightarrow> put_config k ec ms = ms"
  by (induction ms) (auto simp: put_config_def)

lemma configured_Cons:
  "settings_name num ec = Some k \<Longrightarrow> configured num (ec # cs) ms = configured num cs (put_config k ec ms)"
  by (auto simp: configured_def put_config_def last_setting_def find_append split: option.splits)

lemma set_events_loop_spec:
  "list_all (\<lambda>ec. settings_name num ec \<noteq> None) cs \<Longrightarrow> set_events_loop num cs ms = (True, configured num cs ms)"
proof (induction num cs ms rule: set_events_loop.induct)
  case (1 num ms)
  show ?case by (simp add: configured_def last_setting_def)
next
  case (2 num ec cs ms)
  then obtain k where k: "settings_name num ec = Some k" by auto
  have "(if k \<in> fst ` set ms then put_config k ec ms else ms) = put_config k ec ms"
    by (simp add: put_config_unknown)
  with 2 k show ?case
    by (simp add: configured_Cons[OF k] settings_name_def)
qed

section \<open>Concrete data\<close>

text \<open>A document is complete when it ends in \<^verbatim>\<open>>\<close>; its nodes are numbered from the root on.\<close>

definition demo_xml :: "nat xml_lib" where
  "demo_xml = \<lparr>xl_parse = (\<lambda>s. Some 0), xl_valid = (\<lambda>s. s = ''<m/>''),
     xl_first = (\<lambda>n name ns. if n = 3 \<and> name = ''Topic'' then Some 4
        else if n = 3 \<and> name = ''Message'' then Some 5 else if n = 5 then Some 6 else if n < 3 then Some (Suc n) else None),
     xl_children = (\<lambda>_. []), xl_attribute = (\<lambda>_ _. None), xl_value = (\<lambda>_. ''Motion''), xl_from_iso = (\<lambda>_. 0)\<rparr>"

definition demo_packet :: "string \<Rightarrow> media_frame" where
  "demo_packet s = \<lparr>mf_data = map (\<lambda>c. of_nat (of_char c)) s, mf_len = length s, mf_pts = 0, mf_dts = 0, mf_duration = 0,
     mf_is_key = False, mf_type = DATA, mf_timescale = (1, 1), mf_time_realtime = 0\<rparr>"

lemma demo_packet_text [simp]: "frame_text (demo_packet s) = s" "mf_type (demo_packet s) = DATA"
  by (simp_all add: frame_text_def demo_packet_def comp_def unsigned_of_nat take_bit_nat_eq_self)

definition demo_mapping :: onvif_mapping where
  "demo_mapping = \<lparr>om_topic = ''Motion'', om_min_interval = seconds 2, om_state_item = ''IsMotion'',
     om_active_value = ''true'', om_config = event_config_default\<lparr>evc_event := ET_MOTION\<rparr>, om_ext = None\<rparr>"

definition demo_notification :: "time \<Rightarrow> onvif_event" where
  "demo_notification t = \<lparr>oe_raw_body = [], oe_topic = ''Motion'', oe_time = t, oe_prop_op = [], oe_source_items = [],
     oe_data_items = [\<lparr>si_name = ''IsMotion'', si_value = ''true''\<rparr>]\<rparr>"

definition demo_api :: "nat stream_api" where
  "demo_api = \<lparr>sa_new = 0, sa_start = (\<lambda>_ m. (True, m + 1)), sa_start_sink = (\<lambda>m. (True, m)), sa_stop_sink = (\<lambda>m. m),
     sa_stop = (\<lambda>m. m - 1)\<rparr>"

lemma demo_step:
  assumes "find_mapping_by_topic ''Motion'' (os_map s) = Some m" "same_rule demo_mapping m" "om_ext m = None" "t \<noteq> 0"
  shows "on_onvif_event d (demo_notification t) s =
    (if t - last_time ''Motion'' (os_last s) < seconds 2
     then (None, s\<lparr>os_last := map_put ''Motion'' (last_time ''Motion'' (os_last s)) (os_last s)\<rparr>)
     else (Some (event_of_onvif d m (demo_notification t)), s\<lparr>os_last := map_put ''Motion'' t (os_last s)\<rparr>))"
proof -
  have "active_of m (demo_notification t)" "om_min_interval m = seconds 2" "oe_topic (demo_notification t) = ''Motion''"
    "oe_time (demo_notification t) = t"
    using assms(2) by (simp_all add: active_of_def same_rule_def demo_mapping_def demo_notification_def)
  with assms show ?thesis
    by (simp add: on_onvif_event_def event_active Let_def time_null_def seconds_def)
qed

section \<open>Properties\<close>

text \<open>
  a document that arrives in at most four packets, none of whose beginnings is a document itself, is given to the
  callback once it is complete, whole and once, and the sink is empty again for what follows, whatever other frames
  come in between.
\<close>

theorem document_reassembled:
  fixes x :: "'n xml_lib"
  assumes "data_frames fs \<noteq> []" and "length (data_frames fs) \<le> 4"
    and "\<And>n. 0 < n \<Longrightarrow> n < length (data_frames fs) \<Longrightarrow> \<not> xl_valid x (text_of (take n (data_frames fs)))"
    and "xl_valid x (text_of (data_frames fs))"
    and "parse_aggregated_event x \<lparr>ms_aggregated = text_of (data_frames fs), ms_packets = length (data_frames fs)\<rparr> = Inr ev"
  shows "sink_run x (fs @ gs) (metadata_init s) = prepend_event ev (sink_run x gs (metadata_init s)) \<and>
    oe_raw_body ev = text_of (data_frames fs)"
proof
  have "sink_run x (data_frames fs @ data_frames gs) \<lparr>ms_aggregated = [], ms_packets = 0\<rparr> =
      prepend_event ev (sink_run x (data_frames gs) \<lparr>ms_aggregated = [], ms_packets = 0\<rparr>)"
    using assms by (intro sink_run_document) (auto simp: data_frames_def)
  moreover have "metadata_init s = \<lparr>ms_aggregated = [], ms_packets = 0\<rparr>"
    by (simp add: metadata_init_def clear_aggregated_def)
  ultimately show "sink_run x (fs @ gs) (metadata_init s) = prepend_event ev (sink_run x gs (metadata_init s))"
    by (metis sink_run_data data_frames_append)
  show "oe_raw_body ev = text_of (data_frames fs)"
    using assms(5) by (auto simp: parse_aggregated_event_def parse_message_def Let_def split: option.splits)
qed

theorem document_reassembled_witness:
  "sink_run demo_xml [demo_packet ''<m'', demo_packet ''/>'', demo_packet ''<''] (metadata_init \<lparr>ms_aggregated = ''x'', ms_packets = 1\<rparr>) =
     Inr ([empty_onvif_event\<lparr>oe_raw_body := ''<m/>'', oe_topic := ''Motion''\<rparr>], \<lparr>ms_aggregated = ''<'', ms_packets = 1\<rparr>)"
proof -
  have "\<not> xl_valid demo_xml (text_of (take n (data_frames [demo_packet ''<m'', demo_packet ''/>''])))"
    if "0 < n" "n < length (data_frames [demo_packet ''<m'', demo_packet ''/>''])" for n
    using that by (cases n) (auto simp: data_frames_def demo_xml_def take_Cons')
  from document_reassembled[OF _ _ this, where gs = "[demo_packet ''<'']" and s = "\<lparr>ms_aggregated = ''x'', ms_packets = 1\<rparr>"
      and ev = "empty_onvif_event\<lparr>oe_raw_body := ''<m/>'', oe_topic := ''Motion''\<rparr>"]
  show ?thesis
    by (simp add: data_frames_def demo_xml_def parse_aggregated_event_def parse_message_def parse_simple_items_def
        empty_onvif_event_def metadata_init_def sink_defs max_aggregated_packets_def prepend_event_def)
qed

text \<open>
  after four packets no beginning of which is a document all of them are dropped, also a whole document that came
  among them: one damaged packet costs the next three.
\<close>

theorem four_packets_dropped:
  fixes x :: "'n xml_lib"
  assumes "length (data_frames fs) = 4"
    and "\<And>n. 0 < n \<Longrightarrow> n \<le> 4 \<Longrightarrow> \<not> xl_valid x (text_of (take n (data_frames fs)))"
  shows "sink_run x (fs @ gs) (metadata_init s) = sink_run x gs (metadata_init s)"
proof -
  have "sink_run x (data_frames fs @ data_frames gs) \<lparr>ms_aggregated = [], ms_packets = 0\<rparr> =
      sink_run x (data_frames gs) \<lparr>ms_aggregated = [], ms_packets = 0\<rparr>"
    using assms by (intro sink_run_lost) (auto simp: data_frames_def)
  then show ?thesis
    by (metis sink_run_data data_frames_append metadata_init_def clear_aggregated_def metadata_sink.cases
        metadata_sink.update_convs)
qed

theorem four_packets_dropped_witness:
  "sink_run demo_xml ([demo_packet ''x'', demo_packet ''<m/>'', demo_packet ''<m/>'', demo_packet ''<m/>''] @ [demo_packet ''<m/>''])
       \<lparr>ms_aggregated = [], ms_packets = 0\<rparr> =
     Inr ([empty_onvif_event\<lparr>oe_raw_body := ''<m/>'', oe_topic := ''Motion''\<rparr>], \<lparr>ms_aggregated = [], ms_packets = 0\<rparr>)"
proof -
  let ?fs = "[demo_packet ''x'', demo_packet ''<m/>'', demo_packet ''<m/>'', demo_packet ''<m/>'']"
  have d: "data_frames ?fs = ?fs" by (simp add: data_frames_def)
  have "\<not> xl_valid demo_xml (text_of (take n (data_frames ?fs)))" if "0 < n" "n \<le> 4" for n
    unfolding d using that by (cases n) (auto simp: demo_xml_def)
  from four_packets_dropped[OF _ this, of "[demo_packet ''<m/>'']" "\<lparr>ms_aggregated = [], ms_packets = 0\<rparr>"]
  show ?thesis
    by (simp add: d metadata_init_def sink_defs)
       (simp add: demo_xml_def parse_aggregated_event_def parse_message_def parse_simple_items_def
        empty_onvif_event_def metadata_init_def sink_defs max_aggregated_packets_def prepend_event_def)
qed

text \<open>
  C34: whatever notifications and settings come, the active notifications of a topic that become events of the cloud
  are at least the minimal interval of its rule apart, in the order they are sent.
\<close>

theorem active_events_spaced:
  assumes "find_mapping_by_topic topic (os_map s) = Some m" and "0 < om_min_interval m"
  shows "sorted_wrt (\<lambda>t1 t2. t1 + om_min_interval m \<le> t2) (active_times m topic (fst (stream_run num to_double ops s)))"
  using run_spaced(2)[OF assms] .

theorem active_events_spaced_witness:
  "active_times demo_mapping ''Motion'' (fst (stream_run strict_num (\<lambda>_. 0)
       [Notification (demo_notification (seconds 5)), Notification (demo_notification (seconds 6)),
        Settings [event_config_default\<lparr>evc_event := ET_MOTION, evc_active := True\<rparr>],
        Notification (demo_notification (seconds 8))] (onvif_stream_new [] [(''motion'', demo_mapping)] :: nat onvif_stream)))
     = [seconds 5, seconds 8] \<and>
   sorted_wrt (\<lambda>t1 t2. t1 + seconds 2 \<le> t2) (active_times demo_mapping ''Motion'' (fst (stream_run strict_num (\<lambda>_. 0)
       [Notification (demo_notification (seconds 5)), Notification (demo_notification (seconds 6)),
        Settings [event_config_default\<lparr>evc_event := ET_MOTION, evc_active := True\<rparr>],
        Notification (demo_notification (seconds 8))] (onvif_stream_new [] [(''motion'', demo_mapping)] :: nat onvif_stream))))"
proof -
  have m: "find_mapping_by_topic ''Motion'' (os_map (onvif_stream_new [] [(''motion'', demo_mapping)] :: nat onvif_stream)) =
      Some demo_mapping" "0 < om_min_interval demo_mapping" "om_min_interval demo_mapping = seconds 2"
    by (simp_all add: find_mapping_by_topic_def onvif_stream_new_def demo_mapping_def seconds_def)
  let ?ec = "event_config_default\<lparr>evc_event := ET_MOTION, evc_active := True\<rparr>"
  have "settings_name strict_num ?ec = Some ''motion''"
    by (simp add: settings_name_eq config_name_def enum_to_def event_type_table_def)
  then have set: "os_map (snd (set_events strict_num [?ec] s)) = put_config ''motion'' ?ec [(''motion'', demo_mapping)]"
      "os_last (snd (set_events strict_num [?ec] s)) = os_last s"
    if "os_map s = [(''motion'', demo_mapping)]" for s :: "nat onvif_stream"
    using that by (simp_all add: set_events_def settings_name_def)
  have find: "find_mapping_by_topic ''Motion'' [(''motion'', demo_mapping)] = Some demo_mapping"
      "find_mapping_by_topic ''Motion'' (put_config ''motion'' ?ec [(''motion'', demo_mapping)]) = Some (demo_mapping\<lparr>om_config := ?ec\<rparr>)"
    by (simp_all add: find_mapping_by_topic_def demo_mapping_def put_config_def)
  have same: "same_rule demo_mapping (demo_mapping\<lparr>om_config := ?ec\<rparr>)" "om_ext demo_mapping = None"
    by (simp_all add: same_rule_def demo_mapping_def)
  have act: "active_of demo_mapping (demo_notification t)" for t
    by (simp add: active_of_def demo_mapping_def demo_notification_def)
  have "active_times demo_mapping ''Motion'' (fst (stream_run strict_num (\<lambda>_. 0)
       [Notification (demo_notification (seconds 5)), Notification (demo_notification (seconds 6)), Settings [?ec],
        Notification (demo_notification (seconds 8))] (onvif_stream_new [] [(''motion'', demo_mapping)] :: nat onvif_stream)))
     = [seconds 5, seconds 8]"
    by (simp add: demo_step[where m = demo_mapping] demo_step[where m = "demo_mapping\<lparr>om_config := ?ec\<rparr>"] same find set
        seconds_def onvif_stream_new_def last_time_def active_times_def act)
       (simp add: demo_notification_def)
  then show ?thesis
    using active_events_spaced[OF m(1,2), unfolded m(3)] by blast
qed

text \<open>
  new settings are taken over for every event the stream provides, the last one of a name counts, and nothing
  else changes; they are what is reported from then on.
\<close>

theorem settings_taken_over:
  assumes "list_all (\<lambda>ec. config_name ec \<noteq> None) cs"
  shows "set_events num cs s = (True, s\<lparr>os_map := configured num cs (os_map s)\<rparr>) \<and>
    get_events (s\<lparr>os_map := configured num cs (os_map s)\<rparr>) [] =
      map (\<lambda>(k, m). case last_setting num cs k of None \<Rightarrow> om_config m | Some ec \<Rightarrow> ec) (os_map s)"
  using assms
  by (auto simp: set_events_def set_events_loop_spec settings_name_eq get_events_def configured_def split: option.splits)

theorem settings_taken_over_witness:
  "get_events (snd (set_events strict_num [event_config_default\<lparr>evc_event := ET_MOTION\<rparr>,
       event_config_default\<lparr>evc_event := ET_MOTION, evc_active := True\<rparr>]
       (onvif_stream_new [] [(''motion'', demo_mapping)] :: nat onvif_stream))) [] =
     [event_config_default\<lparr>evc_event := ET_MOTION, evc_active := True\<rparr>]"
proof -
  let ?cs = "[event_config_default\<lparr>evc_event := ET_MOTION\<rparr>, event_config_default\<lparr>evc_event := ET_MOTION, evc_active := True\<rparr>]"
  have names: "config_name (event_config_default\<lparr>evc_event := ET_MOTION\<rparr>) = Some ''motion''"
      "config_name (event_config_default\<lparr>evc_event := ET_MOTION, evc_active := True\<rparr>) = Some ''motion''"
    by (simp_all add: config_name_def enum_to_def event_type_table_def)
  then have ok: "list_all (\<lambda>ec. config_name ec \<noteq> None) ?cs" by simp
  have "last_setting strict_num ?cs ''motion'' = Some (event_config_default\<lparr>evc_event := ET_MOTION, evc_active := True\<rparr>)"
    by (simp add: last_setting_def settings_name_eq names)
  with settings_taken_over[OF ok, of strict_num "onvif_stream_new [] [(''motion'', demo_mapping)] :: nat onvif_stream"]
  show ?thesis by (simp add: onvif_stream_new_def)
qed

text \<open>
  the thread that restarts the stream after an error uses a null pointer when the stream is stopped before the
  last of its four calls; stopping later is safe.
\<close>

theorem restart_outlives_stop:
  assumes "os_stream s = Some m" and "os_restarts s = []" and "\<not> os_fault s" and "e \<noteq> E_EOS"
  shows "os_fault (restart_thread a 0 (onvif_stop a ((restart_thread a 0 ^^ k) (on_stream_error e s)))) \<longleftrightarrow> k < 4"
proof -
  define as where "as = [R_Stop_Sink, R_Stop, R_Start, R_Start_Sink]"
  have "\<exists>m. os_stream ((restart_thread a 0 ^^ k) (on_stream_error e s)) = Some m \<and>
      os_restarts ((restart_thread a 0 ^^ k) (on_stream_error e s)) = [drop k as] \<and>
      \<not> os_fault ((restart_thread a 0 ^^ k) (on_stream_error e s))"
  proof (induction k)
    case 0
    with assms show ?case by (auto simp: on_stream_error_def as_def)
  next
    case (Suc k)
    then obtain m where m: "os_stream ((restart_thread a 0 ^^ k) (on_stream_error e s)) = Some m"
      "os_restarts ((restart_thread a 0 ^^ k) (on_stream_error e s)) = [drop k as]"
      "\<not> os_fault ((restart_thread a 0 ^^ k) (on_stream_error e s))"
      by blast
    have "drop (Suc k) as = tl (drop k as)" by (simp add: drop_Suc tl_drop)
    with m show ?case
      by (cases "drop k as") (simp_all add: restart_thread_def[of a 0 "(restart_thread a 0 ^^ k) (on_stream_error e s)"] Let_def)
  qed
  moreover define z where "z = (restart_thread a 0 ^^ k) (on_stream_error e s)"
  ultimately obtain m where m: "os_stream z = Some m" "os_restarts z = [drop k as]" "\<not> os_fault z"
    by auto
  have "drop k as = [] \<longleftrightarrow> \<not> k < 4" by (auto simp: as_def)
  with m show ?thesis
    unfolding z_def[symmetric] by (cases "drop k as") (simp_all add: restart_thread_def onvif_stop_def onvif_finit_def Let_def)
qed

theorem restart_outlives_stop_witness:
  "os_fault (restart_thread demo_api 0 (onvif_stop demo_api ((restart_thread demo_api 0 ^^ 1)
     (on_stream_error E_FATAL (snd (onvif_start demo_api (onvif_stream_new ''u'' []))))))) \<longleftrightarrow> 1 < (4 :: nat)"
  by (rule restart_outlives_stop[where m = 1])
     (simp_all add: onvif_start_def onvif_init_def onvif_stream_new_def demo_api_def)

end
