(* ===== verification/Ssh_Forward.thy ===== *)
theory Ssh_Forward
  imports Vxg_Prelude
begin

text \<open>
  \<^verbatim>\<open>src/src/platform/tunnel-service.h\<close>, first part: the text form of public keys (\<^verbatim>\<open>openssl::rsa_keygen\<close>) and the
  tunnel that forwards connections of an SSH server to a local one (\<^verbatim>\<open>libssh2::reverse_tunnel\<close>). The sockets and
  libssh2 are the record \<open>net\<close> over the state \<open>'w\<close> of the world.
\<close>

section \<open>Public keys\<close>

text \<open>\<open>_ssh_encode_buffer\<close>: the bytes it puts into its buffer; \<open>buf\<close> is not empty.\<close>

definition be32 :: "nat \<Rightarrow> byte list" where
  "be32 n = [of_nat (n div 2 ^ 24), of_nat (n div 2 ^ 16), of_nat (n div 2 ^ 8), of_nat n]"

definition high_bit :: "byte list \<Rightarrow> bool" where
  "high_bit buf \<longleftrightarrow> and (hd buf) 0x80 \<noteq> 0"

definition ssh_encode_buffer :: "byte list \<Rightarrow> byte list" where
  "ssh_encode_buffer buf =
     (let adj_len = (if high_bit buf then length buf + 1 else length buf)
      in be32 adj_len @ (if high_bit buf then [0] else []) @ buf)"

definition ssh_header :: "byte list" where
  "ssh_header = [0x00, 0x00, 0x00, 0x07, 0x73, 0x73, 0x68, 0x2D, 0x72, 0x73, 0x61]"

text \<open>The size of the buffer allocated for a key, and what is written to it.\<close>

definition enc_len :: "byte list \<Rightarrow> byte list \<Rightarrow> nat" where
  "enc_len e n = 11 + 4 + length e + 4 + length n + (if high_bit e then 1 else 0) + (if high_bit n then 1 else 0)"

definition public_key_blob :: "byte list \<Rightarrow> byte list \<Rightarrow> byte list" where
  "public_key_blob e n = ssh_header @ ssh_encode_buffer e @ ssh_encode_buffer n"

section \<open>The tunnel\<close>

datatype tunnel_status = TS_IDLE | TS_OK | TS_SSH_CONN_FAILED | TS_SSH_TUNN_FAILED | TS_CLOSED | TS_EXPIRED | TS_INVALID

record tunnel_params =
  tp_ssh_server :: string
  tp_ssh_server_port :: int
  tp_ssh_server_username :: string
  tp_ssh_private_key :: string
  tp_ssh_public_key :: string
  tp_local_dest_ip :: string
  tp_local_dest_port :: int
  tp_remote_listen_host :: string
  tp_remote_listen_port :: int
  tp_timeout :: int

text \<open>
  A connection being forwarded. The last four fields are histories the source does not have: all bytes received from
  the local connection, written to the SSH channel, read from it, and sent to the local connection.
\<close>

record ssh_channel =
  ch_id :: nat
  ch_rx :: "byte list"
  ch_tx :: "byte list"
  ch_from_local :: "byte list"
  ch_to_ssh :: "byte list"
  ch_from_ssh :: "byte list"
  ch_to_local :: "byte list"

definition channel_new :: "nat \<Rightarrow> ssh_channel" where
  "channel_new i = \<lparr>ch_id = i, ch_rx = [], ch_tx = [], ch_from_local = [], ch_to_ssh = [], ch_from_ssh = [], ch_to_local = []\<rparr>"

text \<open>
  \<open>rt_channels\<close> is a map in the order of the descriptors; \<open>rt_closes\<close> is a history: the descriptors passed to
  \<^verbatim>\<open>close\<close>. \<open>rt_thread\<close>: there is a thread to join.
\<close>

record reverse_tunnel =
  rt_params :: tunnel_params
  rt_running :: bool
  rt_thread :: bool
  rt_sock :: int
  rt_session :: bool
  rt_listener :: bool
  rt_channels :: "(int \<times> ssh_channel) list"
  rt_private_key :: string
  rt_public_key :: string
  rt_status :: tunnel_status
  rt_closes :: "int list"

text \<open>
  The functions of the operating system and of libssh2. \<open>nt_recv\<close> gives \<open>None\<close> where \<^verbatim>\<open>recv\<close> returns zero or less;
  \<open>nt_read\<close> gives the code and the bytes; \<open>nt_select\<close> the code and the descriptors that can be read and written; \<open>nt_block_directions\<close> whether the session waits for
  input and for output; \<open>nt_select_session\<close> selects on its socket, for reading and for writing, for a millisecond.
\<close>

record 'w net =
  nt_socket :: "'w \<Rightarrow> int \<times> 'w"
  nt_inet_addr :: "string \<Rightarrow> bool"
  nt_connect :: "int \<Rightarrow> string \<Rightarrow> int \<Rightarrow> 'w \<Rightarrow> int \<times> 'w"
  nt_session_init :: "'w \<Rightarrow> bool \<times> 'w"
  nt_handshake :: "int \<Rightarrow> 'w \<Rightarrow> int \<times> 'w"
  nt_userauth :: "string \<Rightarrow> string \<Rightarrow> 'w \<Rightarrow> int \<times> 'w"
  nt_listen :: "string \<Rightarrow> int \<Rightarrow> 'w \<Rightarrow> bool \<times> int \<times> 'w"
  nt_block_directions :: "'w \<Rightarrow> bool \<times> bool \<times> 'w"
  nt_select_session :: "bool \<Rightarrow> bool \<Rightarrow> 'w \<Rightarrow> int \<times> 'w"
  nt_accept :: "'w \<Rightarrow> nat option \<times> 'w"
  nt_select :: "int list \<Rightarrow> 'w \<Rightarrow> int \<times> (int \<Rightarrow> bool) \<times> (int \<Rightarrow> bool) \<times> 'w"
  nt_getfl :: "int \<Rightarrow> 'w \<Rightarrow> int \<times> 'w"
  nt_setfl :: "int \<Rightarrow> int \<Rightarrow> 'w \<Rightarrow> int \<times> 'w"
  nt_recv :: "int \<Rightarrow> 'w \<Rightarrow> byte list option \<times> 'w"
  nt_send :: "int \<Rightarrow> byte list \<Rightarrow> 'w \<Rightarrow> int \<times> 'w"
  nt_write :: "nat \<Rightarrow> byte list \<Rightarrow> 'w \<Rightarrow> int \<times> 'w"
  nt_read :: "nat \<Rightarrow> 'w \<Rightarrow> int \<times> byte list \<times> 'w"
  nt_eof :: "nat \<Rightarrow> 'w \<Rightarrow> bool \<times> 'w"

definition LIBSSH2_ERROR_EAGAIN :: int where
  "LIBSSH2_ERROR_EAGAIN = - 37"

text \<open>\<open>_wait_socket\<close>, which is always called with a session.\<close>

definition wait_socket :: "'w net \<Rightarrow> 'w \<Rightarrow> int \<times> 'w" where
  "wait_socket n w =
     (let (inbound, outbound, w) = nt_block_directions n w
      in nt_select_session n inbound outbound w)"

definition O_NONBLOCK :: int where
  "O_NONBLOCK = 0x800"

definition set_nonblocking :: "'w net \<Rightarrow> int \<Rightarrow> bool \<Rightarrow> 'w \<Rightarrow> bool \<times> 'w" where
  "set_nonblocking n fd blocking w =
     (let (flags, w) = nt_getfl n fd w in
      if flags = - 1 then (False, w)
      else
        (let flags = (if blocking then and flags (not O_NONBLOCK) else or flags O_NONBLOCK);
             (rc, w) = nt_setfl n fd flags w
         in (rc = 0, w)))"

definition log_close :: "int \<Rightarrow> reverse_tunnel \<Rightarrow> reverse_tunnel" where
  "log_close fd t = t\<lparr>rt_closes := rt_closes t @ [fd]\<rparr>"

text \<open>The constructor; the keys are those generated when none is given.\<close>

definition tunnel_new :: "string \<times> string \<Rightarrow> tunnel_params \<Rightarrow> reverse_tunnel" where
  "tunnel_new keypair p =
     (let gen = tp_ssh_private_key p = []
      in \<lparr>rt_params = p, rt_running = False, rt_thread = False, rt_sock = - 1, rt_session = False, rt_listener = False,
          rt_channels = [], rt_private_key = (if gen then fst keypair else []),
          rt_public_key = (if gen then snd keypair else []), rt_status = TS_IDLE, rt_closes = []\<rparr>)"

text \<open>\<open>_connect\<close>: the connected socket or \<open>-1\<close>, and the descriptors it closed.\<close>

definition tunnel_connect :: "'w net \<Rightarrow> string \<Rightarrow> int \<Rightarrow> 'w \<Rightarrow> int \<times> int list \<times> 'w" where
  "tunnel_connect n addr port w =
     (let (s, w) = nt_socket n w in
      if s = - 1 then (- 1, [], w)
      else if \<not> nt_inet_addr n addr then (- 1, [s], w)
      else let (rc, w) = nt_connect n s addr port w in
           if rc \<noteq> 0 then (- 1, [s], w) else (s, [], w))"

text \<open>The end of \<open>_create_ssh_session\<close> that all its failures share.\<close>

definition session_failed :: "reverse_tunnel \<Rightarrow> reverse_tunnel" where
  "session_failed t = (let t = (if rt_sock t \<noteq> - 1 then log_close (rt_sock t) t else t) in t\<lparr>rt_session := False\<rparr>)"

definition create_ssh_session :: "'w net \<Rightarrow> reverse_tunnel \<Rightarrow> 'w \<Rightarrow> bool \<times> reverse_tunnel \<times> 'w" where
  "create_ssh_session n t w =
     (let p = rt_params t;
          (s, cl, w) = tunnel_connect n (tp_ssh_server p) (tp_ssh_server_port p) w;
          t = t\<lparr>rt_sock := s, rt_closes := rt_closes t @ cl\<rparr>
      in if s = - 1 then (False, session_failed t, w)
         else
           (let (ok, w) = nt_session_init n w; t = t\<lparr>rt_session := ok\<rparr> in
            if \<not> ok then (False, session_failed t, w)
            else
              (let (rc, w) = nt_handshake n s w in
               if rc \<noteq> 0 then (False, session_failed t, w)
               else
                 (let key = (if tp_ssh_private_key p \<noteq> [] then tp_ssh_private_key p else rt_private_key t);
                      (rc, w) = nt_userauth n (tp_ssh_server_username p) key w
                  in if rc \<noteq> 0 then (False, session_failed t, w) else (True, t, w)))))"

definition channel_forward_remote_listen :: "'w net \<Rightarrow> int \<Rightarrow> reverse_tunnel \<Rightarrow> 'w \<Rightarrow> bool \<times> int \<times> reverse_tunnel \<times> 'w" where
  "channel_forward_remote_listen n want_port t w =
     (let (ok, bound_port, w) = nt_listen n (tp_remote_listen_host (rt_params t)) want_port w
      in (ok, bound_port, t\<lparr>rt_listener := ok\<rparr>, w))"

definition bind_remote_forward_port :: "'w net \<Rightarrow> reverse_tunnel \<Rightarrow> 'w \<Rightarrow> bool \<times> int \<times> reverse_tunnel \<times> 'w" where
  "bind_remote_forward_port n t w =
     (let (ok, bound_port, t, w) = channel_forward_remote_listen n (tp_remote_listen_port (rt_params t)) t w
      in (ok, if ok then bound_port else - 1, t, w))"

definition tunnel_start :: "'w net \<Rightarrow> reverse_tunnel \<Rightarrow> 'w \<Rightarrow> bool \<times> reverse_tunnel \<times> 'w" where
  "tunnel_start n t w =
     (let (ok, t, w) = create_ssh_session n t w in
      if \<not> ok then (False, t\<lparr>rt_status := TS_SSH_CONN_FAILED\<rparr>, w)
      else
        (let (ok, dyn_port, t, w) = bind_remote_forward_port n t w in
         if \<not> ok then (False, t\<lparr>rt_status := TS_SSH_TUNN_FAILED\<rparr>, w)
         else (True, t\<lparr>rt_status := TS_OK, rt_running := True, rt_thread := True\<rparr>, w)))"

text \<open>
  \<open>stop\<close>, called by another thread than the tunnel's own; joining it waits for the end of its turn. The channels are
  closed in the order of their descriptors.
\<close>

definition tunnel_stop :: "reverse_tunnel \<Rightarrow> reverse_tunnel" where
  "tunnel_stop t =
     (let t = t\<lparr>rt_running := False, rt_thread := False, rt_listener := False\<rparr>;
          t = t\<lparr>rt_closes := rt_closes t @ map fst (rt_channels t), rt_channels := []\<rparr>;
          t = t\<lparr>rt_session := False\<rparr>
      in if rt_sock t > 0 then log_close (rt_sock t) t else t)"

text \<open>The destructor.\<close>

definition tunnel_destroy :: "reverse_tunnel \<Rightarrow> reverse_tunnel" where
  "tunnel_destroy t = tunnel_stop t"

section \<open>Forwarding\<close>

fun fd_put :: "int \<Rightarrow> 'c \<Rightarrow> (int \<times> 'c) list \<Rightarrow> (int \<times> 'c) list" where
  "fd_put fd c [] = [(fd, c)]"
| "fd_put fd c ((fd', c') # cs) =
     (if fd = fd' then (fd, c) # cs else if fd < fd' then (fd, c) # (fd', c') # cs else (fd', c') # fd_put fd c cs)"

definition open_channel :: "'w net \<Rightarrow> reverse_tunnel \<Rightarrow> 'w \<Rightarrow> reverse_tunnel \<times> 'w" where
  "open_channel n t w =
     (let (channel, w) = nt_accept n w in
      case channel of
        None \<Rightarrow> (t, w)
      | Some i \<Rightarrow>
          (let (s, cl, w) = tunnel_connect n (tp_local_dest_ip (rt_params t)) (tp_local_dest_port (rt_params t)) w;
               t = t\<lparr>rt_closes := rt_closes t @ cl\<rparr>
           in if s > 0 then (t\<lparr>rt_channels := fd_put s (channel_new i) (rt_channels t)\<rparr>, snd (set_nonblocking n s True w))
              else (t, w)))"

text \<open>
  The loop that writes to the SSH channel. It ends with a write that takes something; \<open>None\<close> is a loop that does not.
\<close>

partial_function (option) write_loop :: "'w net \<Rightarrow> nat \<Rightarrow> byte list \<Rightarrow> int \<Rightarrow> 'w \<Rightarrow> (int \<times> byte list \<times> 'w) option" where
  "write_loop n c rx i w =
     (if rx = [] then Some (i, rx, w)
      else
        (let (i, w) = nt_write n c rx w in
         if i = LIBSSH2_ERROR_EAGAIN then write_loop n c rx i (snd (wait_socket n w))
         else if i > 0 then Some (i, drop (nat i) rx, w)
         else write_loop n c rx i w))"

text \<open>What becomes of a channel: it stays, or it was closed with what it still held.\<close>

datatype chan_next = Keep ssh_channel | Closed ssh_channel

definition max_rx :: nat where
  "max_rx = 1024 * 1024"

text \<open>The four parts of an iteration; \<open>i\<close> is the variable they share.\<close>

definition read_local :: "'w net \<Rightarrow> bool \<Rightarrow> int \<Rightarrow> ssh_channel \<Rightarrow> 'w \<Rightarrow> chan_next \<times> int \<times> 'w" where
  "read_local n can_read fd c w =
     (if can_read \<and> length (ch_rx c) < max_rx then
        (let (d, w) = nt_recv n fd w in
         case d of
           None \<Rightarrow> (Closed c, 0, w)
         | Some d \<Rightarrow> (Keep (c\<lparr>ch_rx := ch_rx c @ d, ch_from_local := ch_from_local c @ d\<rparr>), int (length d), w))
      else (Keep c, 0, w))"

definition write_local :: "'w net \<Rightarrow> bool \<Rightarrow> int \<Rightarrow> ssh_channel \<Rightarrow> int \<Rightarrow> 'w \<Rightarrow> chan_next \<times> int \<times> 'w" where
  "write_local n can_write fd c i w =
     (if can_write \<and> ch_tx c \<noteq> [] then
        (let (i, w) = nt_send n fd (ch_tx c) w in
         if i > 0 then
           (Keep (c\<lparr>ch_tx := drop (nat i) (ch_tx c), ch_to_local := ch_to_local c @ take (nat i) (ch_tx c)\<rparr>), i, w)
         else if i < 0 then (Closed c, i, w)
         else (Keep c, i, w))
      else (Keep c, i, w))"

definition write_ssh :: "'w net \<Rightarrow> ssh_channel \<Rightarrow> int \<Rightarrow> 'w \<Rightarrow> (chan_next \<times> int \<times> 'w) option" where
  "write_ssh n c i w =
     (case write_loop n (ch_id c) (ch_rx c) i w of
        None \<Rightarrow> None
      | Some (i, rest, w) \<Rightarrow>
          (let c = c\<lparr>ch_rx := rest, ch_to_ssh := ch_to_ssh c @ take (length (ch_rx c) - length rest) (ch_rx c)\<rparr>
           in Some (if i < 0 \<and> i \<noteq> LIBSSH2_ERROR_EAGAIN then (Closed c, i, w) else (Keep c, i, w))))"

definition read_ssh :: "'w net \<Rightarrow> ssh_channel \<Rightarrow> 'w \<Rightarrow> chan_next \<times> 'w" where
  "read_ssh n c w =
     (let (i, d, w) = nt_read n (ch_id c) w in
      if i < 0 \<and> i \<noteq> LIBSSH2_ERROR_EAGAIN then (Closed c, w)
      else
        (let c = (if i > 0 then c\<lparr>ch_tx := ch_tx c @ d, ch_from_ssh := ch_from_ssh c @ d\<rparr> else c);
             (eof, w) = nt_eof n (ch_id c) w
         in (if eof then Closed c else Keep c, w)))"

text \<open>One iteration of \<open>channels_loop\<close> over a channel.\<close>

definition forward_channel :: "'w net \<Rightarrow> bool \<Rightarrow> bool \<Rightarrow> int \<Rightarrow> ssh_channel \<Rightarrow> 'w \<Rightarrow> (chan_next \<times> 'w) option" where
  "forward_channel n can_read can_write fd c w =
     (case read_local n can_read fd c w of
        (Closed c, _, w) \<Rightarrow> Some (Closed c, w)
      | (Keep c, i, w) \<Rightarrow>
          (case write_local n can_write fd c i w of
             (Closed c, _, w) \<Rightarrow> Some (Closed c, w)
           | (Keep c, i, w) \<Rightarrow>
               (let (ssh_rc, w) = wait_socket n w in
                if ssh_rc = LIBSSH2_ERROR_EAGAIN then Some (Keep c, w)
                else
                  (case write_ssh n c i w of
                     None \<Rightarrow> None
                   | Some (Closed c, _, w) \<Rightarrow> Some (Closed c, w)
                   | Some (Keep c, _, w) \<Rightarrow> Some (read_ssh n c w)))))"

text \<open>The channels that stay, those that were closed, by their descriptors.\<close>

fun forward_channels :: "'w net \<Rightarrow> (int \<Rightarrow> bool) \<Rightarrow> (int \<Rightarrow> bool) \<Rightarrow> (int \<times> ssh_channel) list \<Rightarrow> 'w \<Rightarrow>
    ((int \<times> ssh_channel) list \<times> (int \<times> ssh_channel) list \<times> 'w) option" where
  "forward_channels n rd wr [] w = Some ([], [], w)"
| "forward_channels n rd wr ((fd, c) # cs) w =
     (case forward_channel n (rd fd) (wr fd) fd c w of
        None \<Rightarrow> None
      | Some (r, w) \<Rightarrow>
          (case forward_channels n rd wr cs w of
             None \<Rightarrow> None
           | Some (kept, closed, w) \<Rightarrow>
               Some (case r of Keep c \<Rightarrow> ((fd, c) # kept, closed, w) | Closed c \<Rightarrow> (kept, (fd, c) # closed, w))))"

text \<open>\<open>channels_loop\<close>, also with the channels it closed.\<close>

definition channels_loop :: "'w net \<Rightarrow> reverse_tunnel \<Rightarrow> 'w \<Rightarrow> (reverse_tunnel \<times> (int \<times> ssh_channel) list \<times> 'w) option" where
  "channels_loop n t w =
     (let (rc, rd, wr, w) = nt_select n (map fst (rt_channels t)) w in
      if rc > 0 then
        (case forward_channels n rd wr (rt_channels t) w of
           None \<Rightarrow> None
         | Some (kept, closed, w) \<Rightarrow> Some (t\<lparr>rt_channels := kept, rt_closes := rt_closes t @ map fst closed\<rparr>, closed, w))
      else Some (t, [], w))"

text \<open>One turn of the thread; the flag says whether it goes on.\<close>

definition acceptor_turn :: "'w net \<Rightarrow> reverse_tunnel \<Rightarrow> 'w \<Rightarrow> (bool \<times> reverse_tunnel \<times> (int \<times> ssh_channel) list \<times> 'w) option" where
  "acceptor_turn n t w =
     (if \<not> rt_running t then Some (False, t, [], w)
      else
        (let (rc, w) = wait_socket n w in
         if rc < 0 then Some (False, t\<lparr>rt_status := TS_CLOSED\<rparr>, [], w)
         else
           (let (t, w) = (if rc \<noteq> LIBSSH2_ERROR_EAGAIN then open_channel n t w else (t, w)) in
            case channels_loop n t w of
              None \<Rightarrow> None
            | Some (t, closed, w) \<Rightarrow> Some (True, t, closed, w))))"


section \<open>The form of keys\<close>

text \<open>Big-endian numbers, and the signed ones of SSH's \<^verbatim>\<open>mpint\<close>.\<close>

definition be_value :: "byte list \<Rightarrow> nat" where
  "be_value bs = foldl (\<lambda>a b. a * 256 + unat b) 0 bs"

definition mpint_value :: "byte list \<Rightarrow> int" where
  "mpint_value bs = (if bs \<noteq> [] \<and> high_bit bs then int (be_value bs) - 2 ^ (8 * length bs) else int (be_value bs))"

lemma be_value_zero [simp]: "be_value (0 # bs) = be_value bs"
  by (simp add: be_value_def)

lemma be32_value:
  assumes "n < 2 ^ 32"
  shows "be_value (be32 n) = n"
proof -
  define d1 d2 d3 where d: "d1 = n div 256" "d2 = d1 div 256" "d3 = d2 div 256"
  have "n div 2 ^ 8 = d1" "n div 2 ^ 16 = d2" "n div 2 ^ 24 = d3" by (simp_all add: d flip: div_mult2_eq)
  then have "be_value (be32 n) = (((d3 mod 256) * 256 + d2 mod 256) * 256 + d1 mod 256) * 256 + n mod 256"
    by (simp add: be_value_def be32_def unsigned_of_nat take_bit_eq_mod)
  moreover have "d3 < 256" using assms by (simp add: d flip: div_mult2_eq)
  moreover have "n = 256 * d1 + n mod 256" "d1 = 256 * d2 + d1 mod 256" "d2 = 256 * d3 + d2 mod 256" by (simp_all add: d)
  ultimately show ?thesis by simp
qed

lemma mpint_of_encoding:
  assumes "buf \<noteq> []" "length buf < 2 ^ 31"
  shows "be_value (take 4 (ssh_encode_buffer buf)) = length (drop 4 (ssh_encode_buffer buf)) \<and>
    mpint_value (drop 4 (ssh_encode_buffer buf)) = int (be_value buf)"
proof -
  have "length (be32 k) = 4" for k by (simp add: be32_def)
  then show ?thesis
    using assms by (auto simp: ssh_encode_buffer_def Let_def be32_value mpint_value_def high_bit_def)
qed

section \<open>Facts about the loops\<close>

lemma write_loop_rest:
  fixes n :: "'w net"
  shows "write_loop n c rx i w = Some (i', rest, w') \<Longrightarrow> \<exists>k. rest = drop k rx"
proof -
  let ?P = "\<lambda>(n :: 'w net) (c :: nat) rx (i :: int) (w :: 'w) (y :: int \<times> byte list \<times> 'w). \<exists>k. fst (snd y) = drop k rx"
  assume "write_loop n c rx i w = Some (i', rest, w')"
  then have "?P n c rx i w (i', rest, w')"
    by (rule write_loop.raw_induct[where P = ?P, rotated])
      (auto simp: Let_def split: if_splits prod.splits intro: exI[of _ 0] exI[of _ "length _"])
  then show ?thesis by simp
qed

text \<open>The worlds of the successive writes.\<close>

fun write_world :: "'w net \<Rightarrow> nat \<Rightarrow> byte list \<Rightarrow> nat \<Rightarrow> 'w \<Rightarrow> 'w" where
  "write_world n c rx 0 w = w"
| "write_world n c rx (Suc k) w =
     (let (i, w) = nt_write n c rx w
      in write_world n c rx k (if i = LIBSSH2_ERROR_EAGAIN then snd (wait_socket n w) else w))"

lemma write_loop_stuck:
  fixes n :: "'w net"
  assumes "\<And>k. fst (nt_write n c rx (write_world n c rx k w)) \<le> 0" "rx \<noteq> []"
  shows "write_loop n c rx i w = None"
proof -
  let ?P = "\<lambda>(n :: 'w net) c rx (i :: int) w (y :: int \<times> byte list \<times> 'w).
    rx = [] \<or> (\<exists>k. fst (nt_write n c rx (write_world n c rx k w)) > 0)"
  have "?P n c rx i w y" if "write_loop n c rx i w = Some y" for y
  proof (rule write_loop.raw_induct[where P = ?P, OF _ that])
    fix write_loop n c rx i w y
    assume IH: "\<And>n c rx i w y. write_loop n c rx i w = Some y \<Longrightarrow> ?P n c rx i w y"
      and y: "(if rx = [] then Some (i, rx, w)
          else let (i, w) = nt_write n c rx w
               in if i = LIBSSH2_ERROR_EAGAIN then write_loop n c rx i (snd (wait_socket n w))
                  else if 0 < i then Some (i, drop (nat i) rx, w) else write_loop n c rx i w) = Some y"
    obtain j w1 where w1: "nt_write n c rx w = (j, w1)" by fastforce
    show "?P n c rx i w y"
    proof (cases "rx = [] \<or> j > 0")
      case True
      with w1 show ?thesis by (auto intro: exI[of _ 0])
    next
      case False
      then obtain k where "fst (nt_write n c rx (write_world n c rx k
          (if j = LIBSSH2_ERROR_EAGAIN then snd (wait_socket n w1) else w1))) > 0"
        using y w1 by (auto simp: LIBSSH2_ERROR_EAGAIN_def split: if_splits dest!: IH)
      with w1 show ?thesis by (auto intro!: exI[of _ "Suc k"] simp: Let_def)
    qed
  qed
  with assms show ?thesis by (cases "write_loop n c rx i w") (auto simp: not_less[symmetric])
qed

lemma write_loop_some:
  "rx \<noteq> [] \<Longrightarrow> fst (nt_write n c rx (write_world n c rx k w)) > 0 \<Longrightarrow> \<exists>r. write_loop n c rx i w = Some r"
proof (induction k arbitrary: i w)
  case 0
  then show ?case by (subst write_loop.simps) (auto simp: LIBSSH2_ERROR_EAGAIN_def split: prod.splits)
next
  case (Suc k)
  obtain j w1 where w1: "nt_write n c rx w = (j, w1)" by fastforce
  show ?case
  proof (cases "j > 0")
    case True
    with w1 Suc.prems show ?thesis by (subst write_loop.simps) (simp add: LIBSSH2_ERROR_EAGAIN_def)
  next
    case False
    with w1 Suc show ?thesis by (subst write_loop.simps) (auto simp: Let_def)
  qed
qed

section \<open>The bytes of a channel\<close>

definition max_recv :: nat where
  "max_recv = 1024 * 64"

text \<open>What a channel has received and not passed on is in its buffers, and the one towards the server is bounded.\<close>

definition chan_ok :: "ssh_channel \<Rightarrow> bool" where
  "chan_ok c \<longleftrightarrow> ch_from_local c = ch_to_ssh c @ ch_rx c \<and> ch_from_ssh c = ch_to_local c @ ch_tx c \<and>
     length (ch_rx c) < max_rx + max_recv"

definition recv_fits :: "'w net \<Rightarrow> bool" where
  "recv_fits n \<longleftrightarrow> (\<forall>fd w d w'. nt_recv n fd w = (Some d, w') \<longrightarrow> length d \<le> max_recv)"

fun next_chan :: "chan_next \<Rightarrow> ssh_channel" where
  "next_chan (Keep c) = c"
| "next_chan (Closed c) = c"

lemma chan_ok_new [simp]: "chan_ok (channel_new i)"
  by (simp add: chan_ok_def channel_new_def max_rx_def)

lemma read_local_ok: "recv_fits n \<Longrightarrow> chan_ok c \<Longrightarrow> read_local n b fd c w = (r, i, w') \<Longrightarrow> chan_ok (next_chan r)"
  by (auto simp: read_local_def chan_ok_def recv_fits_def max_recv_def split: if_splits prod.splits option.splits)
     (metis add_less_le_mono)

lemma write_local_ok: "chan_ok c \<Longrightarrow> write_local n b fd c i w = (r, i', w') \<Longrightarrow> chan_ok (next_chan r)"
  by (auto simp: write_local_def chan_ok_def split: if_splits prod.splits)

lemma write_ssh_ok:
  assumes "chan_ok c" "write_ssh n c i w = Some (r, i', w')"
  shows "chan_ok (next_chan r)"
proof -
  obtain j rest w1 where l: "write_loop n (ch_id c) (ch_rx c) i w = Some (j, rest, w1)"
    using assms(2) by (auto simp: write_ssh_def split: option.splits)
  then obtain k where k: "rest = drop k (ch_rx c)" by (blast dest: write_loop_rest)
  have "take (length (ch_rx c) - length rest) (ch_rx c) @ rest = ch_rx c"
    unfolding k by (cases "k \<le> length (ch_rx c)") simp_all
  then have "chan_ok (c\<lparr>ch_rx := rest, ch_to_ssh := ch_to_ssh c @ take (length (ch_rx c) - length rest) (ch_rx c)\<rparr>)"
    using assms(1) k by (auto simp: chan_ok_def intro: le_less_trans[OF diff_le_self])
  with assms(2) l show ?thesis by (auto simp: write_ssh_def Let_def split: if_splits)
qed

lemma read_ssh_ok: "chan_ok c \<Longrightarrow> read_ssh n c w = (r, w') \<Longrightarrow> chan_ok (next_chan r)"
  by (auto simp: read_ssh_def chan_ok_def Let_def split: if_splits prod.splits)

lemma forward_channel_ok:
  "recv_fits n \<Longrightarrow> chan_ok c \<Longrightarrow> forward_channel n rd wr fd c w = Some (r, w') \<Longrightarrow> chan_ok (next_chan r)"
proof -
  assume n: "recv_fits n" and c: "chan_ok c" and f: "forward_channel n rd wr fd c w = Some (r, w')"
  obtain r1 i1 w1 where r1: "read_local n rd fd c w = (r1, i1, w1)" by (metis prod_cases3)
  note ok1 = read_local_ok[OF n c r1]
  show ?thesis
  proof (cases r1)
    case (Keep c1)
    obtain r2 i2 w2 where r2: "write_local n wr fd c1 i1 w1 = (r2, i2, w2)" by (metis prod_cases3)
    have ok2: "chan_ok (next_chan r2)" using ok1 Keep r2 by (auto dest: write_local_ok)
    show ?thesis
    proof (cases r2)
      case (Keep c2)
      obtain rc w3 where w3: "wait_socket n w2 = (rc, w3)" by fastforce
      show ?thesis
      proof (cases "rc = LIBSSH2_ERROR_EAGAIN")
        case True
        with f r1 r2 w3 \<open>r1 = Keep c1\<close> Keep ok2 show ?thesis by (simp add: forward_channel_def)
      next
        case False
        then obtain r4 i4 w4 where r4: "write_ssh n c2 i2 w3 = Some (r4, i4, w4)"
          using f r1 r2 w3 \<open>r1 = Keep c1\<close> Keep by (auto simp: forward_channel_def split: option.splits)
        have "chan_ok (next_chan r4)" using ok2 Keep r4 by (auto dest: write_ssh_ok)
        then show ?thesis
          using f r1 r2 w3 r4 \<open>r1 = Keep c1\<close> Keep False
          by (cases r4) (auto simp: forward_channel_def dest: read_ssh_ok)
      qed
    qed (use f r1 r2 Keep ok2 in \<open>simp add: forward_channel_def\<close>)
  qed (use f r1 ok1 in \<open>simp add: forward_channel_def\<close>)
qed

definition chans_ok :: "(int \<times> ssh_channel) list \<Rightarrow> bool" where
  "chans_ok cs \<longleftrightarrow> (\<forall>(fd, c)\<in>set cs. chan_ok c)"

lemma chans_ok_simps [simp]:
  "chans_ok []" "chans_ok ((fd, c) # cs) \<longleftrightarrow> chan_ok c \<and> chans_ok cs" "chans_ok (cs @ ds) \<longleftrightarrow> chans_ok cs \<and> chans_ok ds"
  by (auto simp: chans_ok_def)

lemma chans_ok_put: "chans_ok cs \<Longrightarrow> chan_ok c \<Longrightarrow> chans_ok (fd_put fd c cs)"
  by (induction fd c cs rule: fd_put.induct) auto

lemma forward_channels_ok:
  "recv_fits n \<Longrightarrow> chans_ok cs \<Longrightarrow> forward_channels n rd wr cs w = Some (kept, closed, w') \<Longrightarrow> chans_ok kept \<and> chans_ok closed"
proof (induction n rd wr cs w arbitrary: kept closed w' rule: forward_channels.induct)
  case (2 n rd wr fd c cs w)
  obtain r w1 where r: "forward_channel n (rd fd) (wr fd) fd c w = Some (r, w1)"
    using "2.prems"(3) by (auto split: option.splits)
  have "chan_ok (next_chan r)" using "2.prems" r by (auto dest: forward_channel_ok)
  moreover obtain k1 c1 where k1: "forward_channels n rd wr cs w1 = Some (k1, c1, w')"
    using "2.prems"(3) r by (auto split: option.splits chan_next.splits)
  moreover have "chans_ok k1 \<and> chans_ok c1" using "2.IH"[OF r refl _ _ k1] "2.prems" by simp
  ultimately show ?case using "2.prems"(3) r by (cases r) auto
qed simp

lemma open_channel_ok:
  "chans_ok (rt_channels t) \<Longrightarrow> open_channel n t w = (t', w') \<Longrightarrow>
     chans_ok (rt_channels t') \<and> rt_sock t' = rt_sock t \<and> (\<exists>cl. rt_closes t' = rt_closes t @ cl)"
  by (auto simp: open_channel_def Let_def chans_ok_put split: option.splits prod.splits if_splits)

lemma acceptor_turn_ok:
  assumes "recv_fits n" "chans_ok (rt_channels t)" "acceptor_turn n t w = Some (go, t', closed, w')"
  shows "chans_ok (rt_channels t') \<and> chans_ok closed \<and> rt_sock t' = rt_sock t"
proof -
  have loop: "chans_ok (rt_channels t2) \<and> chans_ok cl \<and> rt_sock t2 = rt_sock t1"
    if "channels_loop n t1 w1 = Some (t2, cl, w2)" "chans_ok (rt_channels t1)" for t1 t2 w1 w2 cl
    using that by (auto simp: channels_loop_def split: if_splits prod.splits option.splits dest: forward_channels_ok[OF assms(1)])
  obtain rc w1 where rc: "wait_socket n w = (rc, w1)" by fastforce
  obtain t1 w2 where t1: "(if rc \<noteq> LIBSSH2_ERROR_EAGAIN then open_channel n t w1 else (t, w1)) = (t1, w2)" by fastforce
  have "chans_ok (rt_channels t1) \<and> rt_sock t1 = rt_sock t"
    using t1 assms(2) by (auto split: if_splits dest: open_channel_ok)
  with assms(2,3) rc t1 show ?thesis
    by (auto simp: acceptor_turn_def split: if_splits option.splits dest!: loop)
qed

text \<open>Turns of the thread until it ends, or \<open>k\<close> of them, with all channels closed on the way.\<close>

fun tunnel_turns :: "'w net \<Rightarrow> nat \<Rightarrow> reverse_tunnel \<Rightarrow> 'w \<Rightarrow> (reverse_tunnel \<times> (int \<times> ssh_channel) list \<times> 'w) option" where
  "tunnel_turns n 0 t w = Some (t, [], w)"
| "tunnel_turns n (Suc k) t w =
     (case acceptor_turn n t w of
        None \<Rightarrow> None
      | Some (go, t, closed, w) \<Rightarrow>
          (if \<not> go then Some (t, closed, w)
           else (case tunnel_turns n k t w of None \<Rightarrow> None | Some (t, closed', w) \<Rightarrow> Some (t, closed @ closed', w))))"

lemma tunnel_turns_ok:
  "recv_fits n \<Longrightarrow> chans_ok (rt_channels t) \<Longrightarrow> tunnel_turns n k t w = Some (t', closed, w') \<Longrightarrow>
     chans_ok (rt_channels t') \<and> chans_ok closed \<and> rt_sock t' = rt_sock t"
proof (induction k arbitrary: t w t' closed w')
  case (Suc k)
  obtain go t1 c1 w1 where a: "acceptor_turn n t w = Some (go, t1, c1, w1)"
    using Suc.prems(3) by (auto split: option.splits)
  note ok = acceptor_turn_ok[OF Suc.prems(1,2) a]
  show ?case
  proof (cases go)
    case True
    then obtain c2 where c2: "tunnel_turns n k t1 w1 = Some (t', c2, w')" "closed = c1 @ c2"
      using Suc.prems(3) by (cases "tunnel_turns n k t1 w1") (auto simp: a)
    with Suc.IH[OF Suc.prems(1) conjunct1[OF ok] c2(1)] ok show ?thesis by simp
  next
    case False
    with Suc.prems(3) have "t' = t1" "closed = c1" by (simp_all add: a)
    with ok show ?thesis by simp
  qed
qed simp

definition session_result :: "reverse_tunnel \<Rightarrow> bool \<Rightarrow> reverse_tunnel \<Rightarrow> bool" where
  "session_result t ok t' \<longleftrightarrow> rt_channels t' = rt_channels t \<and>
     (ok \<or> rt_session t' = False \<and> (rt_sock t' \<noteq> - 1 \<longrightarrow> last (rt_closes t') = rt_sock t' \<and> rt_closes t' \<noteq> []))"

lemma create_ssh_session_result: "create_ssh_session n t w = (ok, t', w') \<Longrightarrow> session_result t ok t'"
  unfolding create_ssh_session_def Let_def
  by (simp split: if_splits prod.splits) (auto simp: session_result_def session_failed_def log_close_def Let_def)

lemma tunnel_start_result:
  assumes "tunnel_start n t w = (ok, t', w')"
  shows "rt_channels t' = rt_channels t"
    and "rt_status t' = TS_SSH_CONN_FAILED \<Longrightarrow> rt_sock t' \<noteq> - 1 \<Longrightarrow> last (rt_closes t') = rt_sock t' \<and> rt_closes t' \<noteq> []"
proof -
  obtain ok1 t1 w1 where c: "create_ssh_session n t w = (ok1, t1, w1)" by (metis prod_cases3)
  note r = create_ssh_session_result[OF c]
  show "rt_channels t' = rt_channels t"
    using assms r by (auto simp: tunnel_start_def c session_result_def bind_remote_forward_port_def
        channel_forward_remote_listen_def split: if_splits prod.splits)
  show "rt_status t' = TS_SSH_CONN_FAILED \<Longrightarrow> rt_sock t' \<noteq> - 1 \<Longrightarrow> last (rt_closes t') = rt_sock t' \<and> rt_closes t' \<noteq> []"
    using assms r by (auto simp: tunnel_start_def c session_result_def bind_remote_forward_port_def
        channel_forward_remote_listen_def split: if_splits prod.splits)
qed

section \<open>Concrete data\<close>

text \<open>A network whose sockets are numbered from five on, with one client that echoes and never closes.\<close>

definition demo_net :: "nat net" where
  "demo_net = \<lparr>nt_socket = (\<lambda>w. (5 + int w, w + 1)), nt_inet_addr = (\<lambda>_. True), nt_connect = (\<lambda>_ _ _ w. (0, w)),
     nt_session_init = (\<lambda>w. (True, w)), nt_handshake = (\<lambda>_ w. (0, w)), nt_userauth = (\<lambda>_ _ w. (0, w)),
     nt_listen = (\<lambda>_ _ w. (True, 9000, w)), nt_block_directions = (\<lambda>w. (True, False, w)), nt_select_session = (\<lambda>_ _ w. (1, w)),
     nt_accept = (\<lambda>w. (if w = 1 then Some 3 else None, w)), nt_select = (\<lambda>_ w. (1, \<lambda>_. True, \<lambda>_. True, w)),
     nt_getfl = (\<lambda>_ w. (0, w)), nt_setfl = (\<lambda>_ _ w. (0, w)),
     nt_recv = (\<lambda>_ w. (Some [1, 2], w)), nt_send = (\<lambda>_ d w. (int (length d), w)), nt_write = (\<lambda>_ d w. (int (length d), w)),
     nt_read = (\<lambda>_ w. (1, [7], w)), nt_eof = (\<lambda>_ w. (False, w))\<rparr>"

definition demo_params :: tunnel_params where
  "demo_params = \<lparr>tp_ssh_server = ''1.2.3.4'', tp_ssh_server_port = 22, tp_ssh_server_username = ''u'', tp_ssh_private_key = ''k'',
     tp_ssh_public_key = [], tp_local_dest_ip = ''127.0.0.1'', tp_local_dest_port = 80, tp_remote_listen_host = ''0.0.0.0'',
     tp_remote_listen_port = 9000, tp_timeout = 60\<rparr>"

definition demo_tunnel :: reverse_tunnel where
  "demo_tunnel = \<lparr>rt_params = demo_params, rt_running = True, rt_thread = True, rt_sock = 5, rt_session = True, rt_listener = True,
     rt_channels = [], rt_private_key = [], rt_public_key = [], rt_status = TS_OK, rt_closes = []\<rparr>"

lemma demo_start: "tunnel_start demo_net (tunnel_new ([], []) demo_params) 0 = (True, demo_tunnel, 1)"
  by (simp add: tunnel_start_def create_ssh_session_def tunnel_connect_def bind_remote_forward_port_def
      channel_forward_remote_listen_def tunnel_new_def demo_net_def demo_params_def demo_tunnel_def)

definition demo_channel :: ssh_channel where
  "demo_channel = \<lparr>ch_id = 3, ch_rx = [], ch_tx = [7], ch_from_local = [1, 2], ch_to_ssh = [1, 2], ch_from_ssh = [7], ch_to_local = []\<rparr>"

lemma demo_turn: "tunnel_turns demo_net 1 demo_tunnel 1 = Some (demo_tunnel\<lparr>rt_channels := [(6, demo_channel)]\<rparr>, [], 2)"
  by (simp add: demo_tunnel_def acceptor_turn_def open_channel_def tunnel_connect_def channels_loop_def demo_net_def
      forward_channel_def read_local_def write_local_def write_ssh_def read_ssh_def channel_new_def max_rx_def
      LIBSSH2_ERROR_EAGAIN_def demo_channel_def write_loop.simps wait_socket_def set_nonblocking_def)

lemma demo_recv_fits: "recv_fits demo_net"
  by (simp add: recv_fits_def demo_net_def max_recv_def)

lemma started_empty: "tunnel_start n (tunnel_new keypair p) w = (ok, t, w1) \<Longrightarrow> rt_channels t = []"
  by (drule tunnel_start_result(1)) (simp add: tunnel_new_def Let_def)

section \<open>Properties\<close>

text \<open>
  the text form of a public key fills the buffer allocated for it exactly, and its fields are the exponent and the
  modulus as numbers of SSH: each is preceded by its length and read as a signed number it is the value of the key.
\<close>

theorem public_key_fields:
  assumes "e \<noteq> []" "n \<noteq> []" "length e < 2 ^ 31" "length n < 2 ^ 31"
  shows "length (public_key_blob e n) = enc_len e n \<and>
    (\<exists>fe fn. public_key_blob e n = ssh_header @ fe @ fn \<and>
       be_value (take 4 fe) = length (drop 4 fe) \<and> mpint_value (drop 4 fe) = int (be_value e) \<and>
       be_value (take 4 fn) = length (drop 4 fn) \<and> mpint_value (drop 4 fn) = int (be_value n))"
proof
  show "length (public_key_blob e n) = enc_len e n"
    by (simp add: public_key_blob_def enc_len_def ssh_header_def ssh_encode_buffer_def be32_def Let_def)
  show "\<exists>fe fn. public_key_blob e n = ssh_header @ fe @ fn \<and>
       be_value (take 4 fe) = length (drop 4 fe) \<and> mpint_value (drop 4 fe) = int (be_value e) \<and>
       be_value (take 4 fn) = length (drop 4 fn) \<and> mpint_value (drop 4 fn) = int (be_value n)"
    using mpint_of_encoding[OF assms(1,3)] mpint_of_encoding[OF assms(2,4)] unfolding public_key_blob_def by blast
qed

theorem public_key_fields_witness:
  "public_key_blob [1, 0, 1] [0xC1, 7] =
     ssh_header @ [0, 0, 0, 3, 1, 0, 1] @ [0, 0, 0, 3, 0, 0xC1, 7] \<and>
   length (public_key_blob [1, 0, 1] [0xC1, 7]) = enc_len [1, 0, 1] [0xC1, 7]"
  using public_key_fields[of "[1, 0, 1]" "[0xC1, 7]"]
  by (simp add: public_key_blob_def ssh_encode_buffer_def be32_def high_bit_def)



text \<open>
  C40: the loop that writes to the SSH channel returns exactly if one of the writes takes something. An error is not
  told from a full window: when a channel is broken the forwarding of all connections of the tunnel stands still.
\<close>

theorem write_loop_returns:
  assumes "rx \<noteq> []"
  shows "write_loop n c rx i w \<noteq> None \<longleftrightarrow> (\<exists>k. 0 < fst (nt_write n c rx (write_world n c rx k w)))"
proof
  show "\<exists>k. 0 < fst (nt_write n c rx (write_world n c rx k w))" if "write_loop n c rx i w \<noteq> None"
    using that write_loop_stuck[OF _ assms, of n c w i] by (meson linorder_not_less)
qed (use write_loop_some[OF assms] in fastforce)

theorem write_loop_returns_witness:
  "write_loop (demo_net\<lparr>nt_write := \<lambda>_ _ w. (- 26, w)\<rparr>) 3 [1, 2] 0 0 = None"
proof -
  have "fst (nt_write (demo_net\<lparr>nt_write := \<lambda>_ _ w. (- 26, w)\<rparr>) 3 [1, 2] w) = - 26" for w by simp
  then show ?thesis using write_loop_returns[of "[1, 2]" "demo_net\<lparr>nt_write := \<lambda>_ _ w. (- 26, w)\<rparr>" 3 0 0] by (simp del: not_None_eq)
qed

text \<open>
  when the server ends its stream, what was read last and what waited for the local connection is dropped.
\<close>

theorem eof_drops_tail:
  assumes "ch_rx c = []" and "wait_socket n w = (rc, w1)" and "rc \<noteq> LIBSSH2_ERROR_EAGAIN"
    and "nt_read n (ch_id c) w1 = (i, d, w2)" and "0 < i" and "nt_eof n (ch_id c) w2 = (True, w3)"
  shows "\<exists>c'. forward_channel n False False fd c w = Some (Closed c', w3) \<and>
    ch_tx c' = ch_tx c @ d \<and> ch_to_local c' = ch_to_local c"
  using assms
  by (simp add: forward_channel_def read_local_def write_local_def write_ssh_def read_ssh_def LIBSSH2_ERROR_EAGAIN_def
      write_loop.simps)

theorem eof_drops_tail_witness:
  "\<exists>c'. forward_channel (demo_net\<lparr>nt_eof := \<lambda>_ w. (True, w)\<rparr>) False False 6 demo_channel 2 = Some (Closed c', 2) \<and>
    ch_tx c' = [7, 7] \<and> ch_to_local c' = []"
  using eof_drops_tail[of demo_channel "demo_net\<lparr>nt_eof := \<lambda>_ w. (True, w)\<rparr>" 2 1 2 1 "[7]" 2 2 6]
  by (simp add: demo_channel_def demo_net_def LIBSSH2_ERROR_EAGAIN_def wait_socket_def)

text \<open>
  stopping a tunnel and dropping it, as the service does, closes its socket twice.
\<close>

theorem socket_closed_twice:
  assumes "recv_fits n" and "tunnel_start n (tunnel_new keypair p) w = (True, t, w1)" and "0 < rt_sock t"
    and "tunnel_turns n k t w1 = Some (t', closed, w2)"
  shows "rt_closes (tunnel_destroy (tunnel_stop t')) =
    rt_closes t' @ map fst (rt_channels t') @ [rt_sock t, rt_sock t]"
proof -
  have "rt_channels t = []" by (rule started_empty[OF assms(2)])
  then have "rt_sock t' = rt_sock t" using tunnel_turns_ok[OF assms(1) _ assms(4)] by simp
  with assms(3) show ?thesis by (simp add: tunnel_destroy_def tunnel_stop_def log_close_def Let_def)
qed

theorem socket_closed_twice_witness:
  "rt_closes (tunnel_destroy (tunnel_stop (demo_tunnel\<lparr>rt_channels := [(6, demo_channel)]\<rparr>))) = [6, 5, 5]"
  using socket_closed_twice[OF demo_recv_fits demo_start _ demo_turn] by (simp add: demo_tunnel_def)

text \<open>
  also a tunnel that connected but could not open its session closes its socket twice.
\<close>

theorem failed_start_closes_twice:
  assumes "tunnel_start n (tunnel_new keypair p) w = (ok, t, w1)" and "rt_status t = TS_SSH_CONN_FAILED" and "0 < rt_sock t"
  shows "\<exists>cl. rt_closes (tunnel_destroy t) = cl @ [rt_sock t, rt_sock t]"
proof -
  have "rt_channels t = []" by (rule started_empty[OF assms(1)])
  moreover have "rt_closes t = butlast (rt_closes t) @ [rt_sock t]"
    using tunnel_start_result(2)[OF assms(1,2)] assms(3) by (metis append_butlast_last_id less_numeral_extra(3) neg_0_less_iff_less
        not_one_less_zero order_less_asym)
  ultimately show ?thesis
    using assms(3) by (simp add: tunnel_destroy_def tunnel_stop_def log_close_def Let_def) (metis append.assoc append_Cons append_Nil)
qed

theorem failed_start_closes_twice_witness:
  "\<exists>cl. rt_closes (tunnel_destroy (fst (snd (tunnel_start (demo_net\<lparr>nt_userauth := \<lambda>_ _ w. (- 18, w)\<rparr>)
     (tunnel_new ([], []) demo_params) 0)))) = cl @ [5, 5]"
proof -
  let ?n = "demo_net\<lparr>nt_userauth := \<lambda>_ _ w. (- 18, w)\<rparr>"
  obtain ok t w where t: "tunnel_start ?n (tunnel_new ([], []) demo_params) 0 = (ok, t, w)" by (metis prod_cases3)
  then have "rt_sock t = 5" "rt_status t = TS_SSH_CONN_FAILED"
    by (auto simp: tunnel_start_def create_ssh_session_def tunnel_connect_def tunnel_new_def demo_net_def demo_params_def
        session_failed_def log_close_def)
  with failed_start_closes_twice[OF t] t show ?thesis by simp
qed

end
