(* ===== verification/Reverse_Tunnel.thy ===== *)
theory Reverse_Tunnel
  imports Ssh_Forward Proto_Events Ordered_Map Time_Period
begin

text \<open>
  \<^verbatim>\<open>src/src/platform/tunnel-service.h\<close>, second part: the messages that ask for tunnels and the service that keeps
  them (\<^verbatim>\<open>reverse_tunneling\<close>). The tunnels themselves are those of \<open>Ssh_Forward\<close>.
\<close>

section \<open>Messages\<close>

datatype port_forward_cmd = PF_GET_KEY | PF_CREATE_TUNNEL | PF_DELETE_TUNNEL | PF_INVALID

definition port_forward_cmd_table :: "(port_forward_cmd \<times> json) list" where
  "port_forward_cmd_table =
     [(PF_GET_KEY, JStr ''get_key''),
      (PF_CREATE_TUNNEL, JStr ''create_tunnel''),
      (PF_DELETE_TUNNEL, JStr ''delete_tunnel''),
      (PF_INVALID, JNull)]"

datatype port_forward_status = PFS_OK | PFS_ERROR | PFS_NOT_ALLOWED | PFS_INVALID

definition port_forward_status_table :: "(port_forward_status \<times> json) list" where
  "port_forward_status_table =
     [(PFS_OK, JStr ''Ok''), (PFS_ERROR, JStr ''Error''), (PFS_NOT_ALLOWED, JStr ''Not allowed''), (PFS_INVALID, JNull)]"

definition tunnel_status_table :: "(tunnel_status \<times> json) list" where
  "tunnel_status_table =
     [(TS_IDLE, JStr ''Tunnel is not started yet''),
      (TS_OK, JStr ''Tunnel Opened''),
      (TS_SSH_CONN_FAILED, JStr ''Failed to connect to ssh server.''),
      (TS_SSH_TUNN_FAILED, JStr ''Tunnel creation failed.''),
      (TS_CLOSED, JStr ''Tunnel closed by server.''),
      (TS_EXPIRED, JStr ''Tunnel timed out.''),
      (TS_INVALID, JNull)]"

record port_forward_params =
  pp_cam_ip :: string
  pp_cam_port :: int
  pp_port_out :: int
  pp_user :: string
  pp_host :: string
  pp_timeout :: int

text \<open>The numbers are not initialised: \<open>junk\<close>.\<close>

definition port_forward_params_new :: "int \<Rightarrow> port_forward_params" where
  "port_forward_params_new junk = \<lparr>pp_cam_ip = [], pp_cam_port = junk, pp_port_out = junk, pp_user = [], pp_host = [], pp_timeout = junk\<rparr>"

definition port_forward_params_fields :: "json_num \<Rightarrow> port_forward_params field list" where
  "port_forward_params_fields num =
     [str_field ''cam_ip'' pp_cam_ip pp_cam_ip_update,
      int_field num ''cam_port'' pp_cam_port pp_cam_port_update,
      int_field num ''port_out'' pp_port_out pp_port_out_update,
      str_field ''user'' pp_user pp_user_update,
      str_field ''host'' pp_host pp_host_update,
      int_field num ''timeout'' pp_timeout pp_timeout_update]"

record port_forward_message =
  pm_cmd :: port_forward_cmd
  pm_msgid :: int
  pm_refid :: int
  pm_status :: port_forward_status
  pm_text :: string
  pm_key :: string
  pm_data :: json

definition port_forward_message_new :: "int \<Rightarrow> port_forward_message" where
  "port_forward_message_new i = \<lparr>pm_cmd = PF_INVALID, pm_msgid = i, pm_refid = UnsetInt, pm_status = PFS_INVALID,
     pm_text = unset_string, pm_key = unset_string, pm_data = JNull\<rparr>"

definition port_forward_message_fields :: "json_num \<Rightarrow> port_forward_message field list" where
  "port_forward_message_fields num =
     [enum_field port_forward_cmd_table ''cmd'' pm_cmd pm_cmd_update,
      int_field num ''msgid'' pm_msgid pm_msgid_update,
      int_field num ''refid'' pm_refid pm_refid_update,
      enum_field port_forward_status_table ''status'' pm_status pm_status_update,
      str_field ''text'' pm_text pm_text_update,
      str_field ''key'' pm_key pm_key_update,
      json_field ''data'' pm_data pm_data_update]"

section \<open>The service\<close>

text \<open>\<open>tn_hung\<close>: the tunnel's thread does not return from its turn, so it cannot be joined.\<close>

record tunnel =
  tn_client :: string
  tn_ssh :: reverse_tunnel
  tn_creation :: time
  tn_timeout :: duration
  tn_hung :: bool

text \<open>
  \<open>rs_msgid\<close> is the counter of messages; \<open>rs_fault\<close>: a null pointer was used; \<open>rs_gone\<close> is a history: the tunnels
  that were destroyed.
\<close>

record tunneling =
  rs_keypairs :: "(string \<times> (string \<times> string)) list"
  rs_tunnels :: "(string \<times> tunnel) list"
  rs_msgid :: int
  rs_fault :: bool
  rs_gone :: "reverse_tunnel list"

definition tunneling_new :: tunneling where
  "tunneling_new = \<lparr>rs_keypairs = [], rs_tunnels = [], rs_msgid = 1, rs_fault = False, rs_gone = []\<rparr>"

text \<open>The JSON library, the key generator, the clock, and whether \<open>libssh2_init\<close> succeeds.\<close>

record 'w tunnel_env =
  te_net :: "'w net"
  te_num :: json_num
  te_parse :: "string \<Rightarrow> json option"
  te_dump :: "json \<Rightarrow> string"
  te_keygen :: "'w \<Rightarrow> (string \<times> string) \<times> 'w"
  te_pem2ssh :: "string \<Rightarrow> 'w \<Rightarrow> string \<times> 'w"
  te_now :: "'w \<Rightarrow> time \<times> 'w"
  te_init :: bool
  te_junk :: int

definition map_erase :: "string \<Rightarrow> (string \<times> 'v) list \<Rightarrow> (string \<times> 'v) list" where
  "map_erase k xs = filter (\<lambda>(k', _). k' \<noteq> k) xs"

definition tunnel_key :: "port_forward_params \<Rightarrow> string" where
  "tunnel_key p = pp_cam_ip p @ '':'' @ int_string (pp_cam_port p)"

definition tunnel_expired :: "time \<Rightarrow> tunnel \<Rightarrow> bool" where
  "tunnel_expired now t \<longleftrightarrow> now - tn_creation t > tn_timeout t"

text \<open>Stopping a tunnel and dropping the last pointer to it; \<open>None\<close> is a thread that is waited for for ever.\<close>

definition drop_tunnel :: "tunnel \<Rightarrow> reverse_tunnel option" where
  "drop_tunnel t = (if tn_hung t then None else Some (tunnel_destroy (tunnel_stop (tn_ssh t))))"

text \<open>One round of \<open>_gc\<close>.\<close>

fun gc_loop :: "'w tunnel_env \<Rightarrow> (string \<times> tunnel) list \<Rightarrow> 'w \<Rightarrow> ((string \<times> tunnel) list \<times> reverse_tunnel list \<times> 'w) option" where
  "gc_loop e [] w = Some ([], [], w)"
| "gc_loop e ((k, t) # ts) w =
     (let (now, w) = te_now e w in
      if tunnel_expired now t then
        (case drop_tunnel t of
           None \<Rightarrow> None
         | Some r \<Rightarrow> (case gc_loop e ts w of None \<Rightarrow> None | Some (kept, gone, w) \<Rightarrow> Some (kept, r # gone, w)))
      else (case gc_loop e ts w of None \<Rightarrow> None | Some (kept, gone, w) \<Rightarrow> Some ((k, t) # kept, gone, w)))"

definition tunnel_gc :: "'w tunnel_env \<Rightarrow> tunneling \<Rightarrow> 'w \<Rightarrow> (tunneling \<times> 'w) option" where
  "tunnel_gc e s w =
     (case gc_loop e (rs_tunnels s) w of
        None \<Rightarrow> None
      | Some (kept, gone, w) \<Rightarrow> Some (s\<lparr>rs_tunnels := kept, rs_gone := rs_gone s @ gone\<rparr>, w))"

text \<open>What a command was, for the statements about runs.\<close>

datatype tunnel_outcome = Unparsed | Key_Made | Attempted string bool | Refused | Tunnel_Closed | Unknown_Command

definition get_key :: "'w tunnel_env \<Rightarrow> string \<Rightarrow> port_forward_message \<Rightarrow> tunneling \<Rightarrow> 'w \<Rightarrow> port_forward_message \<times> tunneling \<times> 'w" where
  "get_key e client reply s w =
     (let (kp, w) = te_keygen e w;
          s = s\<lparr>rs_keypairs := map_put client kp (rs_keypairs s)\<rparr>;
          (key, w) = te_pem2ssh e (snd kp) w
      in (reply\<lparr>pm_key := key, pm_status := PFS_OK\<rparr>, s, w))"

definition params_of :: "port_forward_params \<Rightarrow> string \<times> string \<Rightarrow> tunnel_params" where
  "params_of p kp =
     \<lparr>tp_ssh_server = pp_host p, tp_ssh_server_port = 22, tp_ssh_server_username = pp_user p,
      tp_ssh_private_key = fst kp, tp_ssh_public_key = snd kp, tp_local_dest_ip = pp_cam_ip p,
      tp_local_dest_port = pp_cam_port p mod 2 ^ 16, tp_remote_listen_host = ''0.0.0.0'',
      tp_remote_listen_port = pp_port_out p mod 2 ^ 16, tp_timeout = pp_timeout p\<rparr>"

definition create_tunnel ::
  "'w tunnel_env \<Rightarrow> string \<Rightarrow> port_forward_message \<Rightarrow> port_forward_message \<Rightarrow> tunneling \<Rightarrow> 'w \<Rightarrow>
     tunnel_outcome \<times> port_forward_message \<times> tunneling \<times> 'w" where
  "create_tunnel e client m reply s w =
     (let p = struct_from_json (port_forward_params_fields (te_num e)) (pm_data m) (port_forward_params_new (te_junk e));
          key = tunnel_key p
      in if map_of (rs_tunnels s) key \<noteq> None then
           (Refused, reply\<lparr>pm_status := PFS_ERROR, pm_text := ''Tunnel '' @ key @ '' already exists.''\<rparr>, s, w)
         else
           (case map_of (rs_keypairs s) client of
              None \<Rightarrow> (Refused, reply\<lparr>pm_status := PFS_ERROR, pm_text := ''Server should request key first''\<rparr>, s, w)
            | Some kp \<Rightarrow>
                (let tp = params_of p kp;
                     s = s\<lparr>rs_keypairs := map_erase client (rs_keypairs s)\<rparr>
                 in if \<not> te_init e then (Attempted key False, reply, s\<lparr>rs_fault := True\<rparr>, w)
                    else
                      (let (gen, w) = (if tp_ssh_private_key tp = [] then te_keygen e w else (([], []), w));
                           (now, w) = te_now e w;
                           (ok, ssh, w) = tunnel_start (te_net e) (tunnel_new gen tp) w;
                           t = \<lparr>tn_client = client, tn_ssh = ssh, tn_creation = now, tn_timeout = seconds (pp_timeout p), tn_hung = False\<rparr>;
                           (reply, s) =
                             (if ok then (reply\<lparr>pm_status := PFS_OK\<rparr>, s\<lparr>rs_tunnels := map_put key t (rs_tunnels s)\<rparr>)
                              else (reply\<lparr>pm_status := PFS_ERROR\<rparr>, s\<lparr>rs_gone := rs_gone s @ [tunnel_destroy ssh]\<rparr>))
                       in (Attempted key ok, reply\<lparr>pm_text := te_dump e (enum_to tunnel_status_table (rt_status ssh))\<rparr>, s, w)))))"

definition delete_tunnel ::
  "'w tunnel_env \<Rightarrow> port_forward_message \<Rightarrow> port_forward_message \<Rightarrow> tunneling \<Rightarrow>
     (tunnel_outcome \<times> port_forward_message \<times> tunneling) option" where
  "delete_tunnel e m reply s =
     (if pm_data m \<noteq> JNull then
        (let p = struct_from_json (port_forward_params_fields (te_num e)) (pm_data m) (port_forward_params_new (te_junk e));
             victim = tunnel_key p
         in case map_of (rs_tunnels s) victim of
              None \<Rightarrow> Some (Refused, reply\<lparr>pm_status := PFS_ERROR, pm_text := ''Tunnel '' @ victim @ '' not found''\<rparr>, s)
            | Some t \<Rightarrow>
                (case drop_tunnel t of
                   None \<Rightarrow> None
                 | Some r \<Rightarrow>
                     Some (Tunnel_Closed, reply\<lparr>pm_status := PFS_OK, pm_text := ''Tunnel closed''\<rparr>,
                       s\<lparr>rs_tunnels := map_erase victim (rs_tunnels s), rs_gone := rs_gone s @ [r]\<rparr>)))
      else Some (Refused, reply\<lparr>pm_status := PFS_ERROR, pm_text := ''Unable to parse data field!''\<rparr>, s))"

text \<open>
  \<open>handle\<close>: the message and the reply take a number each, the conversion of the parsed document another one. The
  string is the argument after the call.
\<close>

definition tunnel_handle ::
  "'w tunnel_env \<Rightarrow> string \<Rightarrow> string \<Rightarrow> tunneling \<Rightarrow> 'w \<Rightarrow> (bool \<times> string \<times> tunnel_outcome \<times> tunneling \<times> 'w) option" where
  "tunnel_handle e client data s w =
     (let i = rs_msgid s; s = s\<lparr>rs_msgid := i + 2\<rparr> in
      case te_parse e data of
        None \<Rightarrow> Some (False, data, Unparsed, s, w)
      | Some j \<Rightarrow>
          (let s = s\<lparr>rs_msgid := i + 3\<rparr>;
               m = struct_from_json (port_forward_message_fields (te_num e)) j (port_forward_message_new (i + 2));
               reply = (port_forward_message_new (i + 1))\<lparr>pm_refid := pm_msgid m\<rparr>;
               done = (\<lambda>out reply s w. (True, te_dump e (struct_to_json (port_forward_message_fields (te_num e)) reply), out, s, w))
           in case pm_cmd m of
                PF_GET_KEY \<Rightarrow> (let (reply, s, w) = get_key e client reply s w in Some (done Key_Made reply s w))
              | PF_CREATE_TUNNEL \<Rightarrow> (let (out, reply, s, w) = create_tunnel e client m reply s w in Some (done out reply s w))
              | PF_DELETE_TUNNEL \<Rightarrow>
                  (case delete_tunnel e m reply s of None \<Rightarrow> None | Some (out, reply, s) \<Rightarrow> Some (done out reply s w))
              | PF_INVALID \<Rightarrow> Some (done Unknown_Command reply s w)))"

text \<open>A turn of the thread of the tunnel with the given key.\<close>

definition tunnel_thread :: "'w tunnel_env \<Rightarrow> string \<Rightarrow> tunneling \<Rightarrow> 'w \<Rightarrow> tunneling \<times> 'w" where
  "tunnel_thread e k s w =
     (case map_of (rs_tunnels s) k of
        None \<Rightarrow> (s, w)
      | Some t \<Rightarrow>
          (if tn_hung t then (s, w)
           else
             (case acceptor_turn (te_net e) (tn_ssh t) w of
                None \<Rightarrow> (s\<lparr>rs_tunnels := map_put k (t\<lparr>tn_hung := True\<rparr>) (rs_tunnels s)\<rparr>, w)
              | Some (_, ssh, _, w) \<Rightarrow> (s\<lparr>rs_tunnels := map_put k (t\<lparr>tn_ssh := ssh\<rparr>) (rs_tunnels s)\<rparr>, w))))"


section \<open>The messages as a reflected type\<close>

lemma port_forward_enums [json_rt, simp]:
  "enum_ok port_forward_cmd_table c" "enum_to port_forward_cmd_table c = JNull \<longleftrightarrow> c = PF_INVALID"
  "enum_ok port_forward_status_table st" "enum_to port_forward_status_table st = JNull \<longleftrightarrow> st = PFS_INVALID"
  by (cases c; simp add: enum_ok_def enum_to_def enum_from_def port_forward_cmd_table_def)
     (cases c; cases st; simp add: enum_ok_def enum_to_def enum_from_def port_forward_cmd_table_def port_forward_status_table_def)+

definition port_forward_message_wf :: "port_forward_message \<Rightarrow> bool" where
  "port_forward_message_wf m \<longleftrightarrow> int_ok (pm_msgid m) \<and> pm_msgid m \<noteq> UnsetInt \<and> int_ok (pm_refid m) \<and> pm_data m \<noteq> JArr []"

interpretation port_forward_message: struct_codec "port_forward_message_fields num" "port_forward_message_new i"
    "\<lambda>t. num_ok num \<and> port_forward_message_wf t" for num i
  by unfold_locales
    (auto simp: port_forward_message_fields_def port_forward_message_new_def port_forward_message_wf_def json_rt
      num_okD intro!: port_forward_message.equality)

definition port_forward_params_wf :: "port_forward_params \<Rightarrow> bool" where
  "port_forward_params_wf p \<longleftrightarrow> int_ok (pp_cam_port p) \<and> int_ok (pp_port_out p) \<and> int_ok (pp_timeout p) \<and>
     pp_cam_port p \<noteq> UnsetInt \<and> pp_port_out p \<noteq> UnsetInt \<and> pp_timeout p \<noteq> UnsetInt \<and>
     pp_cam_ip p \<noteq> unset_string \<and> pp_user p \<noteq> unset_string \<and> pp_host p \<noteq> unset_string"

interpretation port_forward_params: struct_codec "port_forward_params_fields num" "port_forward_params_new junk"
    "\<lambda>t. num_ok num \<and> port_forward_params_wf t" for num junk
  by unfold_locales
    (auto simp: port_forward_params_fields_def port_forward_params_new_def port_forward_params_wf_def json_rt
      num_okD intro!: port_forward_params.equality)

section \<open>Runs of the service\<close>

datatype service_op = Request string string | Collect | Run_Thread string

text \<open>A step of the service, with the client and the outcome of a request.\<close>

fun service_step :: "'w tunnel_env \<Rightarrow> service_op \<Rightarrow> tunneling \<Rightarrow> 'w \<Rightarrow> ((string \<times> tunnel_outcome) list \<times> tunneling \<times> 'w) option" where
  "service_step e (Request client data) s w =
     (case tunnel_handle e client data s w of None \<Rightarrow> None | Some (_, _, out, s, w) \<Rightarrow> Some ([(client, out)], s, w))"
| "service_step e Collect s w = (case tunnel_gc e s w of None \<Rightarrow> None | Some (s, w) \<Rightarrow> Some ([], s, w))"
| "service_step e (Run_Thread k) s w = Some ([], tunnel_thread e k s w)"

fun service_run :: "'w tunnel_env \<Rightarrow> service_op list \<Rightarrow> tunneling \<Rightarrow> 'w \<Rightarrow> ((string \<times> tunnel_outcome) list \<times> tunneling \<times> 'w) option" where
  "service_run e [] s w = Some ([], s, w)"
| "service_run e (op # ops) s w =
     (case service_step e op s w of
        None \<Rightarrow> None
      | Some (l, s, w) \<Rightarrow> (case service_run e ops s w of None \<Rightarrow> None | Some (l', s, w) \<Rightarrow> Some (l @ l', s, w)))"

fun is_attempt :: "tunnel_outcome \<Rightarrow> bool" where
  "is_attempt (Attempted k ok) = True"
| "is_attempt out = False"

definition attempts :: "string \<Rightarrow> (string \<times> tunnel_outcome) list \<Rightarrow> nat" where
  "attempts client l = length (filter (\<lambda>(c, out). c = client \<and> is_attempt out) l)"

definition all_attempts :: "(string \<times> tunnel_outcome) list \<Rightarrow> nat" where
  "all_attempts l = length (filter (\<lambda>(c, out). is_attempt out) l)"

definition keys_made :: "string \<Rightarrow> (string \<times> tunnel_outcome) list \<Rightarrow> nat" where
  "keys_made client l = length (filter (\<lambda>(c, out). c = client \<and> out = Key_Made) l)"

lemma count_simps [simp]:
  "attempts c [] = 0" "attempts c (l @ l') = attempts c l + attempts c l'"
  "keys_made c [] = 0" "keys_made c (l @ l') = keys_made c l + keys_made c l'"
  "all_attempts [] = 0" "all_attempts (l @ l') = all_attempts l + all_attempts l'"
  "attempts c [(c', out)] = (if c' = c \<and> is_attempt out then 1 else 0)"
  "keys_made c [(c', out)] = (if c' = c \<and> out = Key_Made then 1 else 0)"
  "all_attempts [(c', out)] = (if is_attempt out then 1 else 0)"
  by (simp_all add: attempts_def keys_made_def all_attempts_def)

section \<open>Maps\<close>

lemma map_of_map_erase [simp]: "map_of (map_erase k xs) = (map_of xs)(k := None)"
  by (induction xs) (auto simp: map_erase_def)

lemma length_map_put:
  "sorted_wrt (<) (map fst xs) \<Longrightarrow> length (map_put k v xs) = (if map_of xs k = None then Suc (length xs) else length xs)"
proof (induction k v xs rule: map_put.induct)
  case (2 k v k' v' xs)
  have "k < k' \<Longrightarrow> map_of xs k = None"
    using 2(2) by (auto simp: map_of_eq_None_iff dest: order.strict_trans)
  with 2 show ?case by auto
qed simp

lemma map_erase_sorted: "sorted_wrt (<) (map fst xs) \<Longrightarrow> sorted_wrt (<) (map fst (map_erase k xs))"
  by (auto simp: map_erase_def sorted_wrt_map sorted_wrt_filter)

lemma length_map_erase:
  "sorted_wrt (<) (map fst xs) \<Longrightarrow> map_of xs k \<noteq> None \<Longrightarrow> Suc (length (map_erase k xs)) = length xs"
proof (induction xs)
  case (Cons p xs)
  obtain k' v where p: "p = (k', v)" by fastforce
  show ?case
  proof (cases "k' = k")
    case True
    have "k \<notin> fst ` set xs" using Cons.prems(1) p True by auto
    then have "filter (\<lambda>(k', _). k' \<noteq> k) xs = xs" by (force simp: filter_id_conv)
    with p True show ?thesis by (simp add: map_erase_def)
  next
    case False
    with Cons p show ?thesis by (simp add: map_erase_def)
  qed
qed simp

section \<open>The accounts of the service\<close>

definition stopped :: "reverse_tunnel \<Rightarrow> bool" where
  "stopped t \<longleftrightarrow> \<not> rt_running t \<and> \<not> rt_thread t \<and> rt_channels t = [] \<and> \<not> rt_session t \<and> \<not> rt_listener t"

definition service_inv :: "tunneling \<Rightarrow> bool" where
  "service_inv s \<longleftrightarrow> sorted_wrt (<) (map fst (rs_tunnels s)) \<and> list_all stopped (rs_gone s)"

lemma stopped_destroy [simp]: "stopped (tunnel_destroy t)" "stopped (tunnel_stop t)"
  by (simp_all add: stopped_def tunnel_destroy_def tunnel_stop_def log_close_def Let_def)

lemma drop_stopped: "drop_tunnel t = Some r \<Longrightarrow> stopped r"
  by (auto simp: drop_tunnel_def split: if_splits)

lemma gc_loop_inv:
  "gc_loop e ts w = Some (kept, gone, w') \<Longrightarrow>
     list_all stopped gone \<and> length kept + length gone = length ts \<and> set kept \<subseteq> set ts \<and>
     (sorted_wrt (<) (map fst ts) \<longrightarrow> sorted_wrt (<) (map fst kept))"
proof (induction e ts w arbitrary: kept gone w' rule: gc_loop.induct)
  case (2 e k t ts w)
  obtain now w1 where now: "te_now e w = (now, w1)" by fastforce
  show ?case
  proof (cases "tunnel_expired now t")
    case True
    with 2(3) now obtain r k1 g1 where "drop_tunnel t = Some r" "gc_loop e ts w1 = Some (k1, g1, w')" "kept = k1" "gone = r # g1"
      by (auto split: option.splits)
    with 2(1)[OF now[symmetric] refl True, of r] show ?thesis by (auto dest: drop_stopped)
  next
    case False
    with 2(3) now obtain k1 where "gc_loop e ts w1 = Some (k1, gone, w')" "kept = (k, t) # k1"
      by (auto split: option.splits)
    with 2(2)[OF now[symmetric] refl False] show ?thesis by (auto simp: subset_iff) 
  qed
qed simp

text \<open>What each part of \<open>handle\<close> does to the accounts.\<close>

definition accounts :: "string \<Rightarrow> tunnel_outcome \<Rightarrow> tunneling \<Rightarrow> tunneling \<Rightarrow> bool" where
  "accounts client out s s' \<longleftrightarrow> service_inv s' \<and>
     length (rs_tunnels s') + length (rs_gone s') = length (rs_tunnels s) + length (rs_gone s) + (if is_attempt out then 1 else 0) \<and>
     (\<forall>c. (if is_attempt out \<and> c = client then map_of (rs_keypairs s) c \<noteq> None \<and> map_of (rs_keypairs s') c = None
           else out = Key_Made \<and> c = client \<or> map_of (rs_keypairs s') c = map_of (rs_keypairs s) c))"

lemma get_key_accounts:
  "service_inv s \<Longrightarrow> get_key e client reply s w = (reply', s', w') \<Longrightarrow> accounts client Key_Made s s'"
  by (auto simp: get_key_def accounts_def service_inv_def Let_def split: prod.splits if_splits)

lemma accounts_same: "service_inv s \<Longrightarrow> \<not> is_attempt out \<Longrightarrow> out \<noteq> Key_Made \<Longrightarrow> accounts c out s s"
  by (simp add: accounts_def)

definition create_params :: "'w tunnel_env \<Rightarrow> port_forward_message \<Rightarrow> port_forward_params" where
  "create_params e m = struct_from_json (port_forward_params_fields (te_num e)) (pm_data m) (port_forward_params_new (te_junk e))"

definition same_ids :: "port_forward_message \<Rightarrow> port_forward_message \<Rightarrow> bool" where
  "same_ids r r' \<longleftrightarrow> pm_msgid r' = pm_msgid r \<and> pm_refid r' = pm_refid r"

lemma same_ids_upd [simp]:
  "same_ids r r" "same_ids r (r\<lparr>pm_status := st\<rparr>)" "same_ids r (r\<lparr>pm_text := t\<rparr>)" "same_ids r (r\<lparr>pm_status := st, pm_text := t\<rparr>)"
  by (simp_all add: same_ids_def)

lemma create_refused:
  assumes "map_of (rs_tunnels s) (tunnel_key (create_params e m)) \<noteq> None \<or> map_of (rs_keypairs s) client = None"
  shows "\<exists>reply'. create_tunnel e client m reply s w = (Refused, reply', s, w) \<and> same_ids reply reply'"
proof (cases "map_of (rs_tunnels s) (tunnel_key (create_params e m))")
  case None
  with assms have "map_of (rs_keypairs s) client = None" by simp
  with None show ?thesis unfolding create_tunnel_def create_params_def Let_def by (simp only: option.case refl simp_thms if_False prod.inject) (rule exI conjI refl same_ids_upd)+
next
  case (Some t)
  then show ?thesis unfolding create_tunnel_def create_params_def Let_def by (simp only: option.case refl simp_thms if_True option.distinct prod.inject) (rule exI conjI refl same_ids_upd)+
qed

lemma create_attempted:
  assumes p: "p = create_params e m" and new: "map_of (rs_tunnels s) (tunnel_key p) = None"
    and kp: "map_of (rs_keypairs s) client = Some kp" and "te_init e"
    and gen: "(if tp_ssh_private_key (params_of p kp) = [] then te_keygen e w else (([], []), w)) = (gen, w1)"
    and now: "te_now e w1 = (now, w2)" and start: "tunnel_start (te_net e) (tunnel_new gen (params_of p kp)) w2 = (ok, ssh, w3)"
  shows "\<exists>reply'. create_tunnel e client m reply s w = (Attempted (tunnel_key p) ok, reply',
      (if ok then s\<lparr>rs_keypairs := map_erase client (rs_keypairs s), rs_tunnels := map_put (tunnel_key p)
           \<lparr>tn_client = client, tn_ssh = ssh, tn_creation = now, tn_timeout = seconds (pp_timeout p), tn_hung = False\<rparr> (rs_tunnels s)\<rparr>
       else s\<lparr>rs_keypairs := map_erase client (rs_keypairs s), rs_gone := rs_gone s @ [tunnel_destroy ssh]\<rparr>), w3) \<and> same_ids reply reply'"
  unfolding create_tunnel_def Let_def create_params_def[symmetric] p[symmetric] gen prod.case now start new kp option.case
  using \<open>te_init e\<close> by (cases ok) simp_all

lemma create_fault:
  assumes "map_of (rs_tunnels s) (tunnel_key (create_params e m)) = None" "map_of (rs_keypairs s) client = Some kp" "\<not> te_init e"
  shows "create_tunnel e client m reply s w = (Attempted (tunnel_key (create_params e m)) False, reply,
    s\<lparr>rs_keypairs := map_erase client (rs_keypairs s), rs_fault := True\<rparr>, w)"
  unfolding create_tunnel_def Let_def create_params_def[symmetric] assms(1,2) option.case using assms(3) by simp

lemma create_cases:
  obtains (refused) "map_of (rs_tunnels s) (tunnel_key (create_params e m)) \<noteq> None \<or> map_of (rs_keypairs s) client = None"
  | (attempted) kp where "map_of (rs_tunnels s) (tunnel_key (create_params e m)) = None" "map_of (rs_keypairs s) client = Some kp"
  by (cases "map_of (rs_tunnels s) (tunnel_key (create_params e m))"; cases "map_of (rs_keypairs s) client") auto

lemma create_reply:
  assumes "create_tunnel e client m reply s w = (out, reply', s', w')"
  shows "same_ids reply reply' \<and> rs_msgid s' = rs_msgid s"
proof (cases rule: create_cases[of s e m client])
  case refused
  from create_refused[OF this, of reply w] assms show ?thesis by auto
next
  case (attempted kp)
  show ?thesis
  proof (cases "te_init e")
    case True
    define p where "p = create_params e m"
    obtain gen w1 where 1: "(if tp_ssh_private_key (params_of p kp) = [] then te_keygen e w else (([], []), w)) = (gen, w1)" by fastforce
    obtain now w2 where 2: "te_now e w1 = (now, w2)" by fastforce
    obtain ok ssh w3 where 3: "tunnel_start (te_net e) (tunnel_new gen (params_of p kp)) w2 = (ok, ssh, w3)" by (metis prod_cases3)
    from create_attempted[OF p_def attempted(1)[folded p_def] attempted(2) True 1 2 3, of reply] assms show ?thesis
      by (cases ok) auto
  next
    case False
    from create_fault[OF attempted this, of reply w] assms show ?thesis by simp
  qed
qed

lemma create_tunnel_accounts:
  assumes "service_inv s" "te_init e" "create_tunnel e client m reply s w = (out, reply', s', w')"
  shows "accounts client out s s'"
proof (cases "map_of (rs_tunnels s) (tunnel_key (create_params e m)) = None \<and> map_of (rs_keypairs s) client \<noteq> None")
  case False
  then have "map_of (rs_tunnels s) (tunnel_key (create_params e m)) \<noteq> None \<or> map_of (rs_keypairs s) client = None" unfolding de_Morgan_conj not_not .
  from create_refused[OF this, of reply w] assms(3) have "s' = s" "out = Refused" by auto
  with assms(1) show ?thesis by (simp add: accounts_same)
next
  case True
  define p where "p = create_params e m"
  from True obtain kp where kp: "map_of (rs_keypairs s) client = Some kp" by blast
  have new: "map_of (rs_tunnels s) (tunnel_key p) = None" using True by (simp add: p_def)
  have put: "length (map_put (tunnel_key p) t (rs_tunnels s)) = Suc (length (rs_tunnels s))"
    and sorted: "sorted_wrt (<) (map fst (map_put (tunnel_key p) t (rs_tunnels s)))" for t
    using assms(1) new by (simp_all add: service_inv_def length_map_put sorted_map_put)
  obtain gen w1 where 1: "(if tp_ssh_private_key (params_of p kp) = [] then te_keygen e w else (([], []), w)) = (gen, w1)" by fastforce
  obtain now w2 where 2: "te_now e w1 = (now, w2)" by fastforce
  obtain ok ssh w3 where 3: "tunnel_start (te_net e) (tunnel_new gen (params_of p kp)) w2 = (ok, ssh, w3)" by (metis prod_cases3)
  show ?thesis
    using create_attempted[OF p_def new kp assms(2) 1 2 3, of reply] assms(1,3) put sorted kp
    by (cases ok) (auto simp: accounts_def service_inv_def)
qed

lemma delete_tunnel_accounts:
  assumes "service_inv s" "delete_tunnel e m reply s = Some (out, reply', s')"
  shows "accounts client out s s'"
proof -
  have "Suc (length (map_erase k (rs_tunnels s))) = length (rs_tunnels s)" if "map_of (rs_tunnels s) k = Some t" for k t
    using assms(1) that by (simp add: service_inv_def length_map_erase)
  with assms show ?thesis
    by (fastforce simp: delete_tunnel_def accounts_def service_inv_def Let_def map_erase_sorted
        split: if_splits option.splits dest: drop_stopped)
qed

lemma service_inv_msgid [simp]: "service_inv (s\<lparr>rs_msgid := i\<rparr>) = service_inv s"
  by (simp add: service_inv_def)

lemma accounts_msgid: "accounts c out (s\<lparr>rs_msgid := i\<rparr>) s' = accounts c out s s'"
  by (simp add: accounts_def)

lemma handle_accounts:
  assumes "service_inv s" "te_init e" "tunnel_handle e client data s w = Some (ok, data', out, s', w')"
  shows "accounts client out s s'"
proof (cases "te_parse e data")
  case None
  with assms show ?thesis by (auto simp: tunnel_handle_def accounts_def Let_def service_inv_def)
next
  case (Some j)
  let ?s = "s\<lparr>rs_msgid := rs_msgid s + 3\<rparr>"
  have inv: "service_inv ?s" using assms(1) by simp
  show ?thesis
  proof (cases "pm_cmd (struct_from_json (port_forward_message_fields (te_num e)) j (port_forward_message_new (rs_msgid s + 2)))")
    case PF_GET_KEY
    with Some assms(3) show ?thesis
      by (auto simp: tunnel_handle_def Let_def accounts_msgid split: prod.splits dest!: get_key_accounts[OF inv])
  next
    case PF_CREATE_TUNNEL
    with Some assms(3) show ?thesis
      by (auto simp: tunnel_handle_def Let_def accounts_msgid split: prod.splits dest!: create_tunnel_accounts[OF inv assms(2)])
  next
    case PF_DELETE_TUNNEL
    with Some assms(3) obtain r s1 where "delete_tunnel e
        (struct_from_json (port_forward_message_fields (te_num e)) j (port_forward_message_new (rs_msgid s + 2)))
        ((port_forward_message_new (rs_msgid s + 1))\<lparr>pm_refid := pm_msgid (struct_from_json (port_forward_message_fields (te_num e)) j
            (port_forward_message_new (rs_msgid s + 2)))\<rparr>) ?s = Some (out, r, s')"
      by (auto simp: tunnel_handle_def Let_def split: option.splits)
    from delete_tunnel_accounts[OF inv this, of client] show ?thesis by (simp add: accounts_msgid)
  next
    case PF_INVALID
    with Some assms show ?thesis
      by (auto simp: tunnel_handle_def Let_def accounts_def service_inv_def)
  qed
qed

lemma map_put_present:
  "sorted_wrt (<) (map fst xs) \<Longrightarrow> map_of xs k = Some v \<Longrightarrow> length (map_put k v' xs) = length xs"
  by (simp add: length_map_put)

lemma thread_frame:
  assumes "service_inv s" "tunnel_thread e k s w = (s', w')"
  shows "service_inv s' \<and> length (rs_tunnels s') = length (rs_tunnels s) \<and> rs_gone s' = rs_gone s \<and> rs_keypairs s' = rs_keypairs s"
proof (cases "map_of (rs_tunnels s) k")
  case (Some t)
  have "length (map_put k t' (rs_tunnels s)) = length (rs_tunnels s)" "sorted_wrt (<) (map fst (map_put k t' (rs_tunnels s)))" for t'
    using assms(1) Some by (simp_all add: service_inv_def map_put_present sorted_map_put)
  with assms Some show ?thesis
    by (auto simp: tunnel_thread_def service_inv_def split: if_splits option.splits)
qed (use assms in \<open>simp add: tunnel_thread_def\<close>)

text \<open>One step of the service: the accounts of tunnels, and of keys for each client.\<close>

lemma service_step_accounts:
  assumes "service_inv s" "te_init e" "service_step e op s w = Some (l, s', w')"
  shows "service_inv s' \<and>
    length (rs_tunnels s') + length (rs_gone s') = length (rs_tunnels s) + length (rs_gone s) + all_attempts l \<and>
    attempts c l + (if map_of (rs_keypairs s') c = None then 0 else 1) \<le>
      keys_made c l + (if map_of (rs_keypairs s) c = None then 0 else 1)"
proof (cases op)
  case (Request client data)
  with assms(3) obtain ok d out where h: "tunnel_handle e client data s w = Some (ok, d, out, s', w')" "l = [(client, out)]"
    by (auto split: option.splits)
  have a: "accounts client out s s'" using handle_accounts[OF assms(1,2) h(1)] .
  show ?thesis
  proof (cases "is_attempt out \<and> c = client")
    case True
    with a h(2) show ?thesis by (auto simp: accounts_def split: if_splits)
  next
    case False
    with a have "out = Key_Made \<and> c = client \<or> map_of (rs_keypairs s') c = map_of (rs_keypairs s) c"
      by (auto simp: accounts_def split: if_splits)
    moreover have "service_inv s'" "length (rs_tunnels s') + length (rs_gone s') =
        length (rs_tunnels s) + length (rs_gone s) + (if is_attempt out then 1 else 0)"
      using a by (simp_all add: accounts_def)
    ultimately show ?thesis using h(2) False by (cases "map_of (rs_keypairs s) c") auto
  qed
next
  case Collect
  with assms(3) obtain kept gone where "gc_loop e (rs_tunnels s) w = Some (kept, gone, w')"
      "s' = s\<lparr>rs_tunnels := kept, rs_gone := rs_gone s @ gone\<rparr>" "l = []"
    by (auto simp: tunnel_gc_def split: option.splits)
  with gc_loop_inv[of e "rs_tunnels s" w kept gone w'] assms(1) show ?thesis
    by (auto simp: service_inv_def)
next
  case (Run_Thread k)
  with thread_frame[OF assms(1), of e k w s' w'] assms(3) show ?thesis by auto
qed

lemma service_run_accounts:
  assumes "service_inv s" "te_init e" "service_run e ops s w = Some (l, s', w')"
  shows "service_inv s' \<and>
    length (rs_tunnels s') + length (rs_gone s') = length (rs_tunnels s) + length (rs_gone s) + all_attempts l \<and>
    attempts c l + (if map_of (rs_keypairs s') c = None then 0 else 1) \<le>
      keys_made c l + (if map_of (rs_keypairs s) c = None then 0 else 1)"
  using assms
proof (induction ops arbitrary: s w l)
  case (Cons op ops)
  obtain l1 s1 w1 where 1: "service_step e op s w = Some (l1, s1, w1)"
    using Cons.prems(3) by (auto split: option.splits)
  then obtain l2 where 2: "service_run e ops s1 w1 = Some (l2, s', w')" "l = l1 @ l2"
    using Cons.prems(3) by (cases "service_run e ops s1 w1") auto
  note a = service_step_accounts[OF Cons.prems(1,2) 1, of c]
  from Cons.IH[OF conjunct1[OF a] Cons.prems(2) 2(1)] a 2(2) show ?case by simp
qed simp

section \<open>Concrete data\<close>

definition demo_request :: "string \<Rightarrow> json" where
  "demo_request c = JObj [(''cmd'', JStr c), (''msgid'', JInt 7),
     (''data'', JObj [(''cam_ip'', JStr ''10.0.0.2''), (''cam_port'', JInt 80), (''port_out'', JInt 9000),
        (''user'', JStr ''u''), (''host'', JStr ''1.2.3.4''), (''timeout'', JInt 60)])]"

definition demo_tenv :: "nat tunnel_env" where
  "demo_tenv = \<lparr>te_net = demo_net, te_num = strict_num, te_parse = (\<lambda>s. Some (demo_request s)), te_dump = (\<lambda>_. []),
     te_keygen = (\<lambda>w. ((''priv'', ''pub''), w)), te_pem2ssh = (\<lambda>_ w. (''ssh-rsa'', w)), te_now = (\<lambda>w. (seconds 100, w)),
     te_init = True, te_junk = 0\<rparr>"

definition demo_message :: "string \<Rightarrow> int \<Rightarrow> port_forward_message" where
  "demo_message c i = struct_from_json (port_forward_message_fields strict_num) (demo_request c) (port_forward_message_new i)"

lemma demo_init: "te_init demo_tenv"
  by (simp add: demo_tenv_def)

lemma demo_message_cmd:
  "pm_cmd (demo_message c i) = enum_from port_forward_cmd_table (JStr c)"
  "pm_msgid (demo_message c i) = 7"
  by (simp_all add: demo_message_def struct_from_json_def port_forward_message_fields_def demo_request_def my_json_from_def
      field_defs port_forward_message_new_def strict_num_def int_ok_def)

lemma demo_cmds:
  "enum_from port_forward_cmd_table (JStr ''get_key'') = PF_GET_KEY"
  "enum_from port_forward_cmd_table (JStr ''create_tunnel'') = PF_CREATE_TUNNEL"
  "enum_from port_forward_cmd_table (JStr ''reboot'') = PF_GET_KEY"
  by (simp_all add: enum_from_def port_forward_cmd_table_def)

lemma demo_key: "service_step demo_tenv (Request ''c'' ''get_key'') tunneling_new 0 =
    Some ([(''c'', Key_Made)], tunneling_new\<lparr>rs_msgid := 4, rs_keypairs := [(''c'', (''priv'', ''pub''))]\<rparr>, 0)"
proof -
  have "tunnel_handle demo_tenv ''c'' ''get_key'' tunneling_new 0 =
      Some (True, [], Key_Made, tunneling_new\<lparr>rs_msgid := 4, rs_keypairs := [(''c'', (''priv'', ''pub''))]\<rparr>, 0)"
    using demo_message_cmd[of "''get_key''" 3]
    by (simp add: tunnel_handle_def demo_tenv_def Let_def tunneling_new_def demo_message_def demo_cmds get_key_def)
  then show ?thesis by simp
qed

text \<open>Collecting, when no time passes meanwhile.\<close>

lemma gc_spec:
  assumes "te_now e w = (now, w)"
  shows "tunnel_gc e s w =
    (if \<exists>(k, t)\<in>set (rs_tunnels s). tunnel_expired now t \<and> tn_hung t then None
     else Some (s\<lparr>rs_tunnels := filter (\<lambda>(k, t). \<not> tunnel_expired now t) (rs_tunnels s),
                  rs_gone := rs_gone s @ map (\<lambda>(k, t). tunnel_destroy (tunnel_stop (tn_ssh t)))
                     (filter (\<lambda>(k, t). tunnel_expired now t) (rs_tunnels s))\<rparr>, w))"
proof -
  have "gc_loop e ts w =
    (if \<exists>(k, t)\<in>set ts. tunnel_expired now t \<and> tn_hung t then None
     else Some (filter (\<lambda>(k, t). \<not> tunnel_expired now t) ts,
                map (\<lambda>(k, t). tunnel_destroy (tunnel_stop (tn_ssh t))) (filter (\<lambda>(k, t). tunnel_expired now t) ts), w))" for ts
  proof (induction ts)
    case (Cons p ts)
    obtain k t where "p = (k, t)" by fastforce
    with Cons show ?case by (auto simp: assms drop_tunnel_def)
  qed simp
  then show ?thesis by (simp add: tunnel_gc_def)
qed

text \<open>The other fields of a message leave its command alone.\<close>

lemma cmd_kept:
  "pm_cmd (my_json_from j (int_field num k pm_msgid pm_msgid_update) m) = pm_cmd m"
  "pm_cmd (my_json_from j (int_field num k pm_refid pm_refid_update) m) = pm_cmd m"
  "pm_cmd (my_json_from j (enum_field tab k pm_status pm_status_update) m) = pm_cmd m"
  "pm_cmd (my_json_from j (str_field k pm_text pm_text_update) m) = pm_cmd m"
  "pm_cmd (my_json_from j (str_field k pm_key pm_key_update) m) = pm_cmd m"
  "pm_cmd (my_json_from j (json_field k pm_data pm_data_update) m) = pm_cmd m"
  by (simp_all add: my_json_from_def field_defs split: option.splits)

section \<open>Properties\<close>





text \<open>
  collecting removes exactly the tunnels that are older than their timeout, and stops each of them; it does not
  return if the thread of one of them does not.
\<close>

theorem gc_removes_expired:
  assumes "te_now e w = (now, w)"
  shows "tunnel_gc e s w =
    (if \<exists>(k, t)\<in>set (rs_tunnels s). tunnel_expired now t \<and> tn_hung t then None
     else Some (s\<lparr>rs_tunnels := filter (\<lambda>(k, t). \<not> tunnel_expired now t) (rs_tunnels s),
                  rs_gone := rs_gone s @ map (\<lambda>(k, t). tunnel_destroy (tunnel_stop (tn_ssh t)))
                     (filter (\<lambda>(k, t). tunnel_expired now t) (rs_tunnels s))\<rparr>, w))"
  by (rule gc_spec[OF assms])

theorem gc_removes_expired_witness:
  "rs_tunnels (fst (the (tunnel_gc demo_tenv (tunneling_new\<lparr>rs_tunnels :=
     [(''a'', \<lparr>tn_client = [], tn_ssh = demo_tunnel, tn_creation = 0, tn_timeout = seconds 60, tn_hung = False\<rparr>)]\<rparr>) 0))) = []"
  using gc_removes_expired[of demo_tenv 0 "seconds 100" "tunneling_new\<lparr>rs_tunnels :=
     [(''a'', \<lparr>tn_client = [], tn_ssh = demo_tunnel, tn_creation = 0, tn_timeout = seconds 60, tn_hung = False\<rparr>)]\<rparr>"]
  by (simp add: demo_tenv_def tunnel_expired_def seconds_def)

text \<open>
  a command that can be parsed and whose handling returns is answered with a message of its own number that refers
  to the command.
\<close>

theorem tunnel_replies_addressed:
  assumes "te_parse e data = Some j" and "tunnel_handle e client data s w = Some (ok, data', out, s', w')"
  shows "\<exists>r. ok \<and> data' = te_dump e (struct_to_json (port_forward_message_fields (te_num e)) r) \<and> pm_msgid r = rs_msgid s + 1 \<and>
    pm_refid r = pm_msgid (struct_from_json (port_forward_message_fields (te_num e)) j (port_forward_message_new (rs_msgid s + 2))) \<and>
    rs_msgid s' = rs_msgid s + 3"
proof -
  have new: "pm_msgid (port_forward_message_new i) = i" for i by (simp add: port_forward_message_new_def)
  have key: "pm_msgid r' = pm_msgid r \<and> pm_refid r' = pm_refid r \<and> rs_msgid s2 = rs_msgid s1"
    if "get_key e client r s1 w1 = (r', s2, w2)" for r r' s1 s2 w1 w2
    using that by (auto simp: get_key_def split: prod.splits)
  have create: "pm_msgid r' = pm_msgid r \<and> pm_refid r' = pm_refid r \<and> rs_msgid s2 = rs_msgid s1"
    if "create_tunnel e client m r s1 w1 = (o2, r', s2, w2)" for m r r' s1 s2 w1 w2 o2
    using create_reply[OF that] by (simp add: same_ids_def)
  have delete: "pm_msgid r' = pm_msgid r \<and> pm_refid r' = pm_refid r \<and> rs_msgid s2 = rs_msgid s1"
    if "delete_tunnel e m r s1 = Some (o2, r', s2)" for m r r' s1 s2 o2
    using that by (auto simp: delete_tunnel_def Let_def split: if_splits option.splits)
  show ?thesis
    using assms
    by (auto simp: tunnel_handle_def Let_def new split: prod.splits port_forward_cmd.splits option.splits
        dest!: key create delete)
qed

theorem tunnel_replies_addressed_witness:
  "\<exists>r. pm_msgid r = 2 \<and> pm_refid r = 7 \<and>
     (\<exists>out s w. tunnel_handle demo_tenv ''c'' ''get_key'' tunneling_new 0 =
        Some (True, te_dump demo_tenv (struct_to_json (port_forward_message_fields strict_num) r), out, s, w))"
proof -
  obtain ok d out s w where h: "tunnel_handle demo_tenv ''c'' ''get_key'' tunneling_new 0 = Some (ok, d, out, s, w)"
    using demo_key by (auto split: option.splits)
  have p: "te_parse demo_tenv ''get_key'' = Some (demo_request ''get_key'')" by (simp add: demo_tenv_def)
  have "te_num demo_tenv = strict_num" "rs_msgid tunneling_new = 1" by (simp_all add: demo_tenv_def tunneling_new_def)
  with tunnel_replies_addressed[OF p h] h demo_message_cmd(2)[of "''get_key''" 3] show ?thesis
    by (auto simp: demo_message_def)
qed

text \<open>
  a command the service does not know is taken for \<open>get_key\<close>: it replaces the client's key pair.
\<close>

theorem unknown_command_makes_key:
  assumes "te_parse e data = Some (JObj kvs)" and "map_of kvs ''cmd'' = Some x"
    and "x \<notin> snd ` set port_forward_cmd_table" and "te_keygen e w = (kp, w1)"
  shows "\<exists>d s' w2. tunnel_handle e client data s w = Some (True, d, Key_Made, s', w2) \<and> map_of (rs_keypairs s') client = Some kp"
proof -
  have "find (\<lambda>p. snd p = x) port_forward_cmd_table = None" using assms(3) by (force simp: find_None_iff)
  then have f: "enum_from port_forward_cmd_table x = PF_GET_KEY" by (simp add: enum_from_def) (simp add: port_forward_cmd_table_def)
  have "pm_cmd (struct_from_json (port_forward_message_fields (te_num e)) (JObj kvs) m) = PF_GET_KEY" for m
    using assms(2) f by (simp add: struct_from_json_def port_forward_message_fields_def cmd_kept)
       (simp add: my_json_from_def field_defs)
  note cmd = this
  obtain key w2 where "te_pem2ssh e (snd kp) w1 = (key, w2)" by fastforce
  then have g: "get_key e client r t w = (r\<lparr>pm_key := key, pm_status := PFS_OK\<rparr>, t\<lparr>rs_keypairs := map_put client kp (rs_keypairs t)\<rparr>, w2)" for r t
    by (simp add: get_key_def assms(4))
  show ?thesis
    unfolding tunnel_handle_def Let_def assms(1) option.case cmd port_forward_cmd.case g prod.case
    by (rule exI conjI refl)+ simp
qed

theorem unknown_command_makes_key_witness:
  "\<exists>d s' w2. tunnel_handle demo_tenv ''c'' ''reboot'' tunneling_new 0 = Some (True, d, Key_Made, s', w2) \<and>
     map_of (rs_keypairs s') ''c'' = Some (''priv'', ''pub'')"
  by (rule unknown_command_makes_key[where x = "JStr ''reboot''" and kvs = "case demo_request ''reboot'' of JObj kvs \<Rightarrow> kvs"])
     (auto simp: demo_tenv_def demo_request_def port_forward_cmd_table_def)

text \<open>
  when the thread of a tunnel does not return from its turn, neither collecting it, once it has expired, nor
  deleting it ever returns; both hold the lock of the service.
\<close>

theorem hung_tunnel_blocks:
  assumes "map_of (rs_tunnels s) k = Some t" and "acceptor_turn (te_net e) (tn_ssh t) w = None"
    and "tunnel_thread e k s w = (s', w')" and "te_now e w' = (now, w')" and "tunnel_expired now t"
    and "pm_data m \<noteq> JNull" and "k = tunnel_key (create_params e m)"
  shows "tunnel_gc e s' w' = None \<and> delete_tunnel e m reply s' = None"
proof -
  obtain t' where t': "map_of (rs_tunnels s') k = Some t'" "tn_hung t'" "tunnel_expired now t'"
    using assms(1,2,3,5) by (cases "tn_hung t") (auto simp: tunnel_thread_def tunnel_expired_def)
  then have "(k, t') \<in> set (rs_tunnels s')" by (simp add: map_of_SomeD)
  with t' have "tunnel_gc e s' w' = None"
    unfolding gc_spec[OF assms(4)] by (auto intro!: bexI)
  moreover have "delete_tunnel e m reply s' = None"
    using t'(1,2) assms(6) unfolding assms(7) create_params_def by (simp add: delete_tunnel_def Let_def drop_tunnel_def)
  ultimately show ?thesis ..
qed

end
