(* ===== verification/Sshd.thy ===== *)
theory Sshd
  imports Vxg_Prelude
begin

text \<open>
  \<^verbatim>\<open>src/src/net/lws-sshd.c\<close>, the SSH server for maintenance: the operations it gives to the SSH plugin of
  libwebsockets. The plugin, the rings of bytes, the processes and their descriptors are parameters.
\<close>

section \<open>The library\<close>

text \<open>
  A ring: the number of bytes waiting; inserting gives how many were taken; consuming gives at most as many bytes as
  asked; the free bytes in one piece at the head (\<open>None\<close>: the call fails); putting bytes there and moving the head.
\<close>

record 'r ring_lib =
  rg_create :: "'r option"
  rg_waiting :: "'r \<Rightarrow> nat"
  rg_insert :: "byte list \<Rightarrow> 'r \<Rightarrow> nat \<times> 'r"
  rg_consume :: "nat \<Rightarrow> 'r \<Rightarrow> byte list \<times> 'r"
  rg_range :: "'r \<Rightarrow> nat option"
  rg_put :: "byte list \<Rightarrow> 'r \<Rightarrow> 'r"

definition LWS_STDIN :: int where "LWS_STDIN = 0"
definition LWS_STDOUT :: int where "LWS_STDOUT = 1"
definition LWS_STDERR :: int where "LWS_STDERR = 2"

text \<open>What an operation asks of libwebsockets and of the system.\<close>

datatype sshd_effect =
    Flow_Control nat bool
  | Ask_Writable
  | Write_Stdin "byte list"
  | Spawn_Shell "string list" "(string \<times> string) list"

section \<open>A channel\<close>

text \<open>The connections of the process' output are numbers; the environment has the latest entry first.\<close>

record 'r sshd_priv =
  sp_env :: "(string \<times> string) list"
  sp_stdout :: 'r
  sp_stderr :: 'r
  sp_wsi_stdout :: "nat option"
  sp_wsi_stderr :: "nat option"
  sp_bloat :: bool
  sp_echo :: bool
  sp_cr_to_nl :: bool
  sp_insert_lf :: bool

text \<open>The first argument says whether \<^verbatim>\<open>malloc\<close> succeeds; the code is that of the function.\<close>

definition channel_create :: "bool \<Rightarrow> 'r ring_lib \<Rightarrow> int \<times> 'r sshd_priv option" where
  "channel_create mem x =
     (if \<not> mem then (1, None)
      else (case rg_create x of
              None \<Rightarrow> (1, None)
            | Some out \<Rightarrow>
                (case rg_create x of
                   None \<Rightarrow> (1, None)
                 | Some err \<Rightarrow>
                     (0, Some \<lparr>sp_env = [], sp_stdout = out, sp_stderr = err, sp_wsi_stdout = None, sp_wsi_stderr = None,
                        sp_bloat = False, sp_echo = False, sp_cr_to_nl = False, sp_insert_lf = False\<rparr>))))"

text \<open>\<open>ssh_ops_channel_destroy\<close>: the entries of the environment it frees, one after the other, and the rings.\<close>

fun free_env :: "(string \<times> string) list \<Rightarrow> string list" where
  "free_env [] = []"
| "free_env ((name, v) # pvo) = name # v # free_env pvo"

definition channel_destroy :: "'r sshd_priv \<Rightarrow> int \<times> string list \<times> 'r list" where
  "channel_destroy p = (0, free_env (sp_env p), [sp_stdout p, sp_stderr p])"

definition tx_waiting :: "'r ring_lib \<Rightarrow> 'r sshd_priv \<Rightarrow> bool \<times> bool" where
  "tx_waiting x p = (rg_waiting x (sp_stdout p) \<noteq> 0, rg_waiting x (sp_stderr p) \<noteq> 0)"

definition ssh_tx :: "'r ring_lib \<Rightarrow> int \<Rightarrow> nat \<Rightarrow> 'r sshd_priv \<Rightarrow> byte list \<times> sshd_effect list \<times> 'r sshd_priv" where
  "ssh_tx x stdch len p =
     (let out = (stdch = LWS_STDOUT);
          wsi = (if out then sp_wsi_stdout p else sp_wsi_stderr p);
          (d, r) = rg_consume x len (if out then sp_stdout p else sp_stderr p)
      in (d, if d \<noteq> [] then (case wsi of None \<Rightarrow> [] | Some i \<Rightarrow> [Flow_Control i True]) else [],
          if out then p\<lparr>sp_stdout := r\<rparr> else p\<lparr>sp_stderr := r\<rparr>))"

definition echo_to :: "'r ring_lib \<Rightarrow> byte list \<Rightarrow> 'r sshd_priv \<Rightarrow> sshd_effect list \<times> 'r sshd_priv" where
  "echo_to x bs p =
     (if sp_echo p then ([Ask_Writable], p\<lparr>sp_stdout := snd (rg_insert x bs (sp_stdout p))\<rparr>) else ([], p))"

text \<open>
  \<open>ssh_ops_rx\<close>: \<open>stdin\<close> says whether there is a connection to the process, \<open>write\<close> how many bytes it takes. \<open>buf\<close> is
  not empty.
\<close>

definition ssh_rx :: "'r ring_lib \<Rightarrow> bool \<Rightarrow> (byte list \<Rightarrow> int) \<Rightarrow> byte list \<Rightarrow> 'r sshd_priv \<Rightarrow> int \<times> sshd_effect list \<times> 'r sshd_priv" where
  "ssh_rx x stdin write buf p =
     (if \<not> stdin then (- 1, [], p)
      else if hd buf \<noteq> 0x0d then
        (if write buf \<noteq> int (length buf) then (- 1, [Write_Stdin buf], p)
         else let (es, p) = echo_to x [hd buf] p in (0, Write_Stdin buf # es, p))
      else
        (if write [0x0a] \<noteq> 1 then (- 1, [Write_Stdin [0x0a]], p)
         else let (es, p) = echo_to x [0x0d, 0x0a] p in (0, Write_Stdin [0x0a] # es, p)))"

section \<open>Authorization\<close>

definition authorized_key :: string where
  "authorized_key =
     ''ssh-rsa AAAAB3NzaC1yc2EAAAADAQABAAACAQCnWiP+c+kSD6Lk+C6NA9KruApa45sbt'' @
     ''94/dxT0bCITlAA/+PBk6mR1lwWgXYozOMdrHrqx34piqDyXnc4HabqCaOm/FrYhkCPL8z'' @
     ''a26PMYqteSosuwKv//5iT6ZWhNnsMwExBwtV6MIq0MxAeWqxRnYNWpNM8iN6sFzkdG/YF'' @
     ''dyHrIBTgwzM77NLCMl6GEkJErRCFppC2SwYxGa3BRrgUwX3LkV8HpMIaYHFo1Qgj7Scqm'' @
     ''HwS2R75SOqi2aOWDpKjznARg9JgzDWSQi4seBMV2oL0BTwJANSDf+p0sQLsaKGJhpVpBQ'' @
     ''yS2wUeyuGyytupWzEluQrajMZq52iotcogv5BfeulfTTFbJP4kuHOsSP0lsQ2lpMDQANS'' @
     ''HEvXxzHJLDLXM9gXJzwJ+ZiRt6R+bfmP1nfN3MiWtxcIbBanWwQK6xTCKBe4wPaKta5EU'' @
     ''6wsLPeakOIVzoeaOu/HsbtPZlwX0Mu/oUFcfKyKAhlkU15MOAIEfUPo8Yh52bWMlIlpZa'' @
     ''4xWbLMGw3GrsrPPdcsAauyqvY4/NjjWQbWhP1SuUfvv5709PIiOUjVKK2HUwmR1ouch6X'' @
     ''MQGXfMR1h1Wjvc+bkNs17gCIrQnFilAZLC3Sm3Opiz/4LO99Hw448G0RM2vQn0mJE46w'' @
     ''Eu/B10U6Jf4Efojhh1dk85BD1LTIb+N3Q== ssh-test-key@lws''"

text \<open>
  \<open>ssh_ops_is_pubkey_authorized\<close>: zero is yes. \<open>b64\<close> is the decoder of the library with the size of its buffer; the
  flags say whether the two calls of \<^verbatim>\<open>malloc\<close> succeed.
\<close>

definition is_pubkey_authorized ::
  "bool \<Rightarrow> bool \<Rightarrow> (string \<Rightarrow> nat \<Rightarrow> byte list option) \<Rightarrow> string \<Rightarrow> string \<Rightarrow> byte list \<Rightarrow> int" where
  "is_pubkey_authorized mem1 mem2 b64 key type peer =
     (if \<not> mem1 then 1
      else if type \<noteq> ''ssh-rsa'' then 1
      else if take (length type) key \<noteq> type then 1
      else if take 1 (drop (length type) key) \<noteq> '' '' then 1
      else if \<not> mem2 then 2
      else (case b64 (drop (length type + 1) key) 2048 of
              None \<Rightarrow> 2
            | Some ps \<Rightarrow>
                if length peer > length ps then 2
                else if peer \<noteq> take (length peer) ps then 2
                else 0))"

section \<open>Environment and terminal\<close>

definition env_add :: "bool \<Rightarrow> string \<Rightarrow> string \<Rightarrow> 'r sshd_priv \<Rightarrow> int \<times> 'r sshd_priv" where
  "env_add mem name v p = (if \<not> mem then (1, p) else (0, p\<lparr>sp_env := (name, v) # sp_env p\<rparr>))"

definition set_env :: "bool \<Rightarrow> string \<Rightarrow> string \<Rightarrow> 'r sshd_priv \<Rightarrow> int \<times> 'r sshd_priv" where
  "set_env mem name v p = env_add mem name v p"

definition SSHMO_ICRNL :: byte where "SSHMO_ICRNL = 36"
definition SSHMO_ECHO :: byte where "SSHMO_ECHO = 53"
definition SSHMO_ONLCR :: byte where "SSHMO_ONLCR = 72"

definition mode_arg :: "byte \<Rightarrow> byte \<Rightarrow> byte \<Rightarrow> byte \<Rightarrow> 32 word" where
  "mode_arg a b c d = or (or (or (push_bit 24 (ucast a)) (push_bit 16 (ucast b))) (push_bit 8 (ucast c))) (ucast d)"

definition set_mode :: "byte \<Rightarrow> 32 word \<Rightarrow> 'r sshd_priv \<Rightarrow> 'r sshd_priv" where
  "set_mode opc arg p =
     (if opc = SSHMO_ICRNL then p\<lparr>sp_cr_to_nl := (arg \<noteq> 0)\<rparr>
      else if opc = SSHMO_ONLCR then p\<lparr>sp_bloat := (arg \<noteq> 0)\<rparr>
      else p)"

text \<open>The loop over the encoded modes; \<open>None\<close> is a read behind their end.\<close>

fun pty_modes :: "byte list \<Rightarrow> 'r sshd_priv \<Rightarrow> 'r sshd_priv option" where
  "pty_modes [] p = Some p"
| "pty_modes (opc # rest) p =
     (if unat opc \<ge> 160 \<or> opc = 0 then Some p
      else (case rest of
              a # b # c # d # rest' \<Rightarrow> pty_modes rest' (set_mode opc (mode_arg a b c d) p)
            | _ \<Rightarrow> None))"

definition pty_req :: "bool \<Rightarrow> string \<Rightarrow> byte list \<Rightarrow> 'r sshd_priv \<Rightarrow> (int \<times> 'r sshd_priv) option" where
  "pty_req mem term modes p =
     (case pty_modes modes (snd (env_add mem ''TERM'' term p)) of None \<Rightarrow> None | Some p \<Rightarrow> Some (0, p))"

section \<open>Output of the process\<close>

text \<open>How many bytes are read from the process when line ends are translated: at most half of the room.\<close>

definition bloat_count :: "nat \<Rightarrow> nat" where
  "bloat_count bytes = min 256 (if bytes \<noteq> 1 then bytes div 2 else 1)"

text \<open>The loop over the bytes read: what it puts into the ring, and the flag afterwards.\<close>

fun bloat_loop :: "bool \<Rightarrow> byte list \<Rightarrow> byte list \<times> bool" where
  "bloat_loop ins [] = ([], ins)"
| "bloat_loop ins (b # bs) =
     (let (out, ins') = bloat_loop (b = 0x0a) bs in ((if ins then [0x0d, b] else [b]) @ out, ins'))"

definition bloat :: "nat \<Rightarrow> bool \<Rightarrow> byte list \<Rightarrow> byte list \<times> bool" where
  "bloat bytes ins d =
     (let (out, ins) = bloat_loop ins d
      in if length out < bytes \<and> ins then (out @ [0x0d], False) else (out, ins))"

text \<open>
  \<open>ssh_ops_child_process_io\<close>: \<open>wsi\<close> gives the connections of the process; \<open>fd\<close> says whether the one of the channel
  has a descriptor, \<open>read\<close> what reading at most so many bytes from it gives, \<open>None\<close> for an error.
\<close>

definition child_process_io ::
  "'r ring_lib \<Rightarrow> (int \<Rightarrow> nat option) \<Rightarrow> int \<Rightarrow> bool \<Rightarrow> (nat \<Rightarrow> byte list option) \<Rightarrow> 'r sshd_priv \<Rightarrow>
     int \<times> sshd_effect list \<times> 'r sshd_priv" where
  "child_process_io x wsi ch fd read p =
     (let p = p\<lparr>sp_wsi_stdout := wsi LWS_STDOUT, sp_wsi_stderr := wsi LWS_STDERR\<rparr>;
          err = (ch = LWS_STDERR);
          r = (if err then sp_stderr p else sp_stdout p);
          put = (\<lambda>out p. if err then p\<lparr>sp_stderr := rg_put x out r\<rparr> else p\<lparr>sp_stdout := rg_put x out r\<rparr>);
          done = (\<lambda>out p. (0, (case wsi ch of None \<Rightarrow> [] | Some i \<Rightarrow> [Flow_Control i False]) @ [Ask_Writable], put out p))
      in if ch \<noteq> LWS_STDOUT \<and> ch \<noteq> LWS_STDERR then (0, [], p)
         else
           (case rg_range x r of
              None \<Rightarrow> (0, [], p)
            | Some bytes \<Rightarrow>
                if bytes < 1 then (0, [], p)
                else if sp_bloat p then
                  (let n = bloat_count bytes in
                   if n = 0 then (0, [], p)
                   else if \<not> fd then (- 1, [], p)
                   else (case read n of
                           None \<Rightarrow> (- 1, [], p)
                         | Some d \<Rightarrow>
                             if d = [] then (0, [], p)
                             else let (out, ins) = bloat bytes (sp_insert_lf p) d in done out (p\<lparr>sp_insert_lf := ins\<rparr>)))
                else if \<not> fd then (- 1, [], p)
                else (case read bytes of None \<Rightarrow> (- 1, [], p) | Some d \<Rightarrow> done d p)))"

definition child_process_terminated :: int where
  "child_process_terminated = - 1"

definition ssh_exec :: int where
  "ssh_exec = 1"

text \<open>\<open>cgi\<close>: what starting the process returns.\<close>

definition ssh_shell :: "int \<Rightarrow> 'r sshd_priv \<Rightarrow> int \<times> sshd_effect list" where
  "ssh_shell cgi p = (if cgi \<noteq> 0 then - 1 else 0, [Spawn_Shell [''/bin/bash'', ''-i'', ''-l''] (sp_env p)])"

section \<open>The server's key and its life\<close>

text \<open>The key file: \<open>None\<close> when it cannot be opened, and what reading or writing returns.\<close>

definition get_server_key :: "bool \<Rightarrow> (nat \<Rightarrow> byte list option) \<Rightarrow> nat \<Rightarrow> byte list" where
  "get_server_key opened read len = (if \<not> opened then [] else (case read len of None \<Rightarrow> [] | Some d \<Rightarrow> d))"

definition set_server_key :: "bool \<Rightarrow> (byte list \<Rightarrow> int) \<Rightarrow> byte list \<Rightarrow> nat" where
  "set_server_key opened write buf = (if \<not> opened then 0 else (let n = write buf in if n < 0 then 0 else nat n))"

text \<open>
  The data of the protocol on a virtual host: whether the base protocol was found, and the descriptor of the key file.
\<close>

record sshd_vhost =
  vh_base :: bool
  vh_privileged_fd :: int

datatype sshd_reason = Protocol_Init | Protocol_Destroy | Cert_Aging | Wait_Cancelled | Other_Reason nat

text \<open>
  \<open>callback_lws_sshd_demo1\<close>: memory for the data, opening the key file for reading and for creating, looking up the
  base protocol, and what its callback returns. The third component is the descriptor closed.
\<close>

definition sshd_callback ::
  "bool \<Rightarrow> int \<Rightarrow> int \<Rightarrow> bool \<Rightarrow> (nat \<Rightarrow> int) \<Rightarrow> sshd_reason \<Rightarrow> sshd_vhost option \<Rightarrow> int \<times> sshd_vhost option \<times> int option" where
  "sshd_callback mem open_read open_create base_found base reason vhd =
     (case reason of
        Protocol_Init \<Rightarrow>
          (if \<not> mem then (0, vhd, None)
           else (0, Some \<lparr>vh_base = False, vh_privileged_fd = (if open_read = - 1 then open_create else open_read)\<rparr>, None))
      | Protocol_Destroy \<Rightarrow> (0, vhd, map_option vh_privileged_fd vhd)
      | Cert_Aging \<Rightarrow> (0, vhd, None)
      | Wait_Cancelled \<Rightarrow> (0, vhd, None)
      | Other_Reason k \<Rightarrow>
          (case vhd of
             None \<Rightarrow> (0, None, None)
           | Some v \<Rightarrow>
               (let v = (if \<not> vh_base v then v\<lparr>vh_base := base_found\<rparr> else v)
                in if vh_base v then (base k, Some v, None) else (0, Some v, None))))"

text \<open>\<open>lws_create_sshd_context\<close>: whether the context and the virtual host could be made; the port is fixed.\<close>

definition create_sshd_context :: "bool \<Rightarrow> (int \<Rightarrow> bool) \<Rightarrow> int option" where
  "create_sshd_context ctx vhost = (if \<not> ctx then None else if \<not> vhost 2200 then None else Some 2200)"


section \<open>Facts about the translation of line ends\<close>

text \<open>What the translation is to be: a carriage return after every line feed.\<close>

definition lf_cr :: "byte list \<Rightarrow> byte list" where
  "lf_cr xs = concat (map (\<lambda>b. if b = 0x0a then [b, 0x0d] else [b]) xs)"

definition pending :: "bool \<Rightarrow> byte list" where
  "pending ins = (if ins then [0x0d] else [])"

lemma bloat_loop_spec: "bloat_loop ins bs = (out, ins') \<Longrightarrow> out @ pending ins' = pending ins @ lf_cr bs"
proof (induction bs arbitrary: ins out ins')
  case (Cons b bs)
  obtain o1 i1 where "bloat_loop (b = 0x0a) bs = (o1, i1)" by fastforce
  with Cons.prems Cons.IH[OF this] show ?case by (auto simp: lf_cr_def pending_def split: if_splits)
qed (simp add: lf_cr_def)

lemma bloat_spec: "bloat bytes ins bs = (out, ins') \<Longrightarrow> out @ pending ins' = pending ins @ lf_cr bs"
  by (auto simp: bloat_def pending_def split: prod.splits if_splits dest!: bloat_loop_spec)

lemma bloat_loop_length:
  "bloat_loop ins bs = (out, ins') \<Longrightarrow> bs \<noteq> [] \<Longrightarrow> length out + (if ins then 0 else 1) \<le> 2 * length bs"
proof (induction bs arbitrary: ins out ins')
  case (Cons b bs)
  obtain o1 i1 where o1: "bloat_loop (b = 0x0a) bs = (o1, i1)" by fastforce
  show ?case
  proof (cases "bs = []")
    case True
    with Cons.prems show ?thesis by (auto split: if_splits)
  next
    case False
    with Cons.prems o1 Cons.IH[OF o1] show ?thesis by (auto split: if_splits)
  qed
qed simp

text \<open>Pieces of output, each with the room there was for it.\<close>

fun bloat_run :: "(nat \<times> byte list) list \<Rightarrow> bool \<Rightarrow> byte list \<times> bool" where
  "bloat_run [] ins = ([], ins)"
| "bloat_run ((bytes, d) # ds) ins =
     (let (out, ins) = bloat bytes ins d; (out', ins) = bloat_run ds ins in (out @ out', ins))"

lemma lf_cr_append [simp]: "lf_cr (xs @ ys) = lf_cr xs @ lf_cr ys"
  by (simp add: lf_cr_def)

text \<open>Encoded terminal modes.\<close>

definition mode_bytes :: "byte \<times> 32 word \<Rightarrow> byte list" where
  "mode_bytes m = (case m of (opc, arg) \<Rightarrow>
     [opc, ucast (drop_bit 24 arg), ucast (drop_bit 16 arg), ucast (drop_bit 8 arg), ucast arg])"

lemma mode_arg_bytes:
  "mode_arg (ucast (drop_bit 24 arg)) (ucast (drop_bit 16 arg)) (ucast (drop_bit 8 arg)) (ucast arg) = arg"
  unfolding mode_arg_def
proof (rule bit_word_eqI)
  fix n assume "n < LENGTH(32)"
  then consider "n < 8" | "8 \<le> n \<and> n < 16" | "16 \<le> n \<and> n < 24" | "24 \<le> n \<and> n < 32" by fastforce
  then show "bit (or (or (or (push_bit 24 (ucast (ucast (drop_bit 24 arg) :: byte))) (push_bit 16 (ucast (ucast (drop_bit 16 arg) :: byte))))
      (push_bit 8 (ucast (ucast (drop_bit 8 arg) :: byte)))) (ucast (ucast arg :: byte)) :: 32 word) n = bit arg n"
    by cases (auto simp: bit_simps)
qed

definition mode_listed :: "byte \<times> 32 word \<Rightarrow> bool" where
  "mode_listed m \<longleftrightarrow> fst m \<noteq> 0 \<and> unat (fst m) < 160"

lemma pty_modes_append:
  "list_all mode_listed ms \<Longrightarrow> pty_modes (concat (map mode_bytes ms) @ rest) p = pty_modes rest (fold (\<lambda>(opc, arg). set_mode opc arg) ms p)"
  by (induction ms arbitrary: p) (auto simp: mode_bytes_def mode_listed_def mode_arg_bytes)

lemma authorized_key_start:
  "take 7 authorized_key = ''ssh-rsa''" "take (Suc 0) (drop 7 authorized_key) = '' ''"
  "take (Suc (Suc (Suc (Suc (Suc (Suc (Suc 0))))))) authorized_key = ''ssh-rsa''"
  "take (Suc 0) (drop (Suc (Suc (Suc (Suc (Suc (Suc (Suc 0))))))) authorized_key) = '' ''"
  "drop (Suc (Suc (Suc (Suc (Suc (Suc (Suc (Suc 0)))))))) authorized_key = drop 8 authorized_key"
  by (simp_all add: authorized_key_def)

section \<open>Properties\<close>


text \<open>
  the translated output fits into the free part of the ring it was read for, except when there is room for one byte
  only while a carriage return is pending: then two bytes are written.
\<close>

theorem output_fits:
  assumes "d \<noteq> []" and "0 < bytes" and "length d \<le> bloat_count bytes"
  shows "length (fst (bloat bytes ins d)) \<le> bytes \<longleftrightarrow> \<not> (bytes = 1 \<and> ins)"
proof -
  obtain out ins' where b: "bloat_loop ins d = (out, ins')" by fastforce
  note len = bloat_loop_length[OF b assms(1)]
  show ?thesis
  proof (cases "bytes = 1")
    case True
    then have "length d = 1" using assms by (cases d) (auto simp: bloat_count_def)
    then obtain c where "d = [c]" by (auto simp: length_Suc_conv)
    with True show ?thesis by (simp add: bloat_def)
  next
    case False
    then have "2 * length d \<le> bytes" using assms by (simp add: bloat_count_def) linarith
    then have "length out \<le> bytes" using len by (simp split: if_splits)
    then show ?thesis using False b by (simp add: bloat_def)
  qed
qed

theorem output_fits_witness:
  "length (fst (bloat 2 True [0x0a])) \<le> 2 \<and> \<not> length (fst (bloat 1 (snd (bloat 1 False [0x0a])) [0x41])) \<le> 1"
  using output_fits[of "[0x0a]" 2 True] output_fits[of "[0x41]" 1 True] by (simp add: bloat_count_def bloat_def)

text \<open>
  a key is authorized when it is the beginning of the authorized key, of any length, not only when it is that key.
\<close>

theorem prefix_key_accepted:
  assumes "b64 (drop 8 authorized_key) 2048 = Some ps"
  shows "is_pubkey_authorized True True b64 authorized_key type peer = 0 \<longleftrightarrow> type = ''ssh-rsa'' \<and> (\<exists>n. peer = take n ps)"
proof -
  have "length ''ssh-rsa'' = 7" by simp
  then have "is_pubkey_authorized True True b64 authorized_key ''ssh-rsa'' peer =
      (if length peer > length ps then 2 else if peer \<noteq> take (length peer) ps then 2 else 0)"
    unfolding is_pubkey_authorized_def by (simp only: assms) (simp add: assms authorized_key_start)
  moreover have "is_pubkey_authorized True True b64 authorized_key type peer \<noteq> 0" if "type \<noteq> ''ssh-rsa''"
    using that by (simp add: is_pubkey_authorized_def)
  moreover have "length peer \<le> length ps \<and> peer = take (length peer) ps \<longleftrightarrow> (\<exists>n. peer = take n ps)"
    by (auto simp: min_def)
  ultimately show ?thesis by (cases "type = ''ssh-rsa''") (auto simp: not_less)
qed

theorem prefix_key_accepted_witness:
  "is_pubkey_authorized True True (\<lambda>_ _. Some [0, 0, 0, 7]) authorized_key ''ssh-rsa'' [] = 0 \<and>
   is_pubkey_authorized True True (\<lambda>_ _. Some [0, 0, 0, 7]) authorized_key ''ssh-rsa'' [0, 0] = 0"
proof -
  have "\<exists>n. [] = take n [0, 0, 0, 7 :: byte]" "\<exists>n. [0, 0] = take n [0, 0, 0, 7 :: byte]"
    by (auto intro: exI[of _ 0] exI[of _ 2])
  then show ?thesis
    using prefix_key_accepted[of "\<lambda>_ _. Some [0, 0, 0, 7]"] by blast
qed

text \<open>
  the encoded terminal modes up to their end set the flags of the channel in their order, whatever follows.
\<close>

theorem modes_applied:
  assumes "list_all mode_listed ms"
  shows "pty_req True term (concat (map mode_bytes ms) @ 0 # junk) p =
    Some (0, fold (\<lambda>(opc, arg). set_mode opc arg) ms (p\<lparr>sp_env := (''TERM'', term) # sp_env p\<rparr>))"
  by (simp add: pty_req_def env_add_def pty_modes_append[OF assms])

definition demo_priv :: "nat sshd_priv" where
  "demo_priv = \<lparr>sp_env = [], sp_stdout = 0, sp_stderr = 0, sp_wsi_stdout = None, sp_wsi_stderr = None,
     sp_bloat = False, sp_echo = False, sp_cr_to_nl = False, sp_insert_lf = False\<rparr>"

theorem modes_applied_witness:
  "pty_req True ''xterm'' [72, 0, 0, 0, 1, 53, 0, 0, 0, 1, 0, 9] demo_priv =
     Some (0, demo_priv\<lparr>sp_env := [(''TERM'', ''xterm'')], sp_bloat := True\<rparr>)"
proof -
  have ok: "list_all mode_listed [(SSHMO_ONLCR, 1), (SSHMO_ECHO, 1)]"
    by (simp add: mode_listed_def SSHMO_ONLCR_def SSHMO_ECHO_def)
  show ?thesis
    using modes_applied[OF ok, of "''xterm''" "[9]" demo_priv]
    by (simp add: mode_bytes_def SSHMO_ONLCR_def SSHMO_ECHO_def SSHMO_ICRNL_def set_mode_def demo_priv_def)
qed

text \<open>
  of input that begins with a carriage return only a line feed reaches the process; the rest of it is lost.
\<close>

theorem input_after_return_lost:
  assumes "\<not> sp_echo p" and "write [0x0a] = 1"
  shows "ssh_rx x True write (0x0d # rest) p = (0, [Write_Stdin [0x0a]], p)"
  using assms by (simp add: ssh_rx_def echo_to_def)

definition demo_ring :: "nat ring_lib" where
  "demo_ring = \<lparr>rg_create = Some 0, rg_waiting = id, rg_insert = (\<lambda>bs r. (length bs, r + length bs)),
     rg_consume = (\<lambda>n r. (replicate (min n r) 0, r - n)), rg_range = (\<lambda>r. Some (1023 - r)), rg_put = (\<lambda>bs r. r + length bs)\<rparr>"

theorem input_after_return_lost_witness:
  "ssh_rx demo_ring True (\<lambda>bs. int (length bs)) [0x0d, 0x6c, 0x73, 0x0d] demo_priv = (0, [Write_Stdin [0x0a]], demo_priv)"
  by (rule input_after_return_lost) (simp_all add: demo_priv_def)

end
