(* ===== verification/Settings_File.thy ===== *)
theory Settings_File
  imports Proto_Events
begin

text \<open>
  \<^verbatim>\<open>src/src/utils/properties.h\<close>: settings kept in a JSON file, with a second file of defaults. The state is the file
  system and the two names; reading and printing JSON are parameters. A pair of \<open>None\<close> and a state is an exception that
  escapes after what was done.
\<close>

section \<open>State\<close>

record props_env =
  pe_parse :: "string \<Rightarrow> json option"
  pe_dump :: "json \<Rightarrow> string"
  pe_writable :: "string \<Rightarrow> bool"

record props =
  pr_file :: string
  pr_default :: string
  pr_fs :: "string \<Rightarrow> string option"

section \<open>Files\<close>

text \<open>The file as such, when the document is replaced and not merged; a missing or damaged file is the null document.\<close>

definition load_json_file :: "props_env \<Rightarrow> string \<Rightarrow> props \<Rightarrow> json option" where
  "load_json_file e path s = (case pr_fs s path of None \<Rightarrow> Some JNull | Some text \<Rightarrow> pe_parse e text)"

text \<open>\<open>__load\<close>: a damaged file other than that of the defaults is replaced by the defaults.\<close>

definition props_load :: "props_env \<Rightarrow> string \<Rightarrow> props \<Rightarrow> json" where
  "props_load e path s =
     (case load_json_file e path s of
        Some j \<Rightarrow> j
      | None \<Rightarrow>
          (if path \<noteq> pr_default s then (case load_json_file e (pr_default s) s of Some j \<Rightarrow> j | None \<Rightarrow> JNull) else JNull))"

definition props_store :: "props_env \<Rightarrow> string \<Rightarrow> json \<Rightarrow> props \<Rightarrow> bool \<times> props" where
  "props_store e path j s =
     (if pe_writable e path then (True, s\<lparr>pr_fs := (pr_fs s)(path \<mapsto> pe_dump e j)\<rparr>) else (False, s))"

text \<open>\<open>__props_file_reset\<close>\<close>

definition props_file_reset :: "props_env \<Rightarrow> props \<Rightarrow> props" where
  "props_file_reset e s = snd (props_store e (pr_file s) (props_load e (pr_default s) s) s)"

section \<open>Keys\<close>

text \<open>\<open>j[key] = val\<close> throws unless the document is an object or null.\<close>

fun can_set :: "json \<Rightarrow> bool" where
  "can_set (JObj kvs) = True"
| "can_set JNull = True"
| "can_set j = False"

definition props_set_in :: "props_env \<Rightarrow> string \<Rightarrow> string \<Rightarrow> string \<Rightarrow> props \<Rightarrow> bool option \<times> props" where
  "props_set_in e key val path s =
     (let j = props_load e path s in
      if \<not> can_set j then (None, s)
      else let (ok, s) = props_store e path (json_set key (JStr val) j) s in (Some ok, s))"

definition props_get_in :: "props_env \<Rightarrow> string \<Rightarrow> string \<Rightarrow> props \<Rightarrow> string option" where
  "props_get_in e key path s =
     (case json_at key (props_load e path s) of None \<Rightarrow> Some [] | Some x \<Rightarrow> dec_str x)"

text \<open>The keys \<open>items\<close> goes through.\<close>

fun item_keys :: "json \<Rightarrow> string list" where
  "item_keys (JObj kvs) = map fst kvs"
| "item_keys (JArr xs) = map (\<lambda>i. nat_string i) [0..<length xs]"
| "item_keys JNull = []"
| "item_keys j = [[]]"

text \<open>The loop of \<open>_apply_defaults_if_needed\<close>; an exception ends it, and does not escape.\<close>

fun apply_keys :: "props_env \<Rightarrow> bool \<Rightarrow> json \<Rightarrow> string list \<Rightarrow> props \<Rightarrow> props" where
  "apply_keys e force j [] s = s"
| "apply_keys e force j (key # keys) s =
     (case props_get_in e key (pr_file s) s of
        None \<Rightarrow> s
      | Some v \<Rightarrow>
          (case props_get_in e key (pr_default s) s of
             None \<Rightarrow> s
           | Some default_val \<Rightarrow>
               (if force \<or> json_at key j = None then
                  (case props_set_in e key default_val (pr_file s) s of
                     (None, s) \<Rightarrow> s
                   | (Some _, s) \<Rightarrow> apply_keys e force j keys s)
                else apply_keys e force j keys s)))"

definition apply_defaults_if_needed :: "props_env \<Rightarrow> bool \<Rightarrow> props \<Rightarrow> props" where
  "apply_defaults_if_needed e force s =
     (let j = props_load e (pr_default s) s in apply_keys e force j (item_keys j) s)"

section \<open>The public operations\<close>

definition set_props_filepath :: "string \<Rightarrow> props \<Rightarrow> props" where
  "set_props_filepath file s = s\<lparr>pr_file := file\<rparr>"

definition set_default_props_filepath :: "props_env \<Rightarrow> string \<Rightarrow> props \<Rightarrow> unit option \<times> props" where
  "set_default_props_filepath e file s =
     (let s = s\<lparr>pr_default := file\<rparr> in
      case props_get_in e ''version'' (pr_file s) s of
        None \<Rightarrow> (None, s)
      | Some ver \<Rightarrow>
          (case props_get_in e ''version'' (pr_default s) s of
             None \<Rightarrow> (None, s)
           | Some default_ver \<Rightarrow> (Some (), apply_defaults_if_needed e (ver \<noteq> default_ver) s)))"

definition props_set :: "props_env \<Rightarrow> string \<Rightarrow> string \<Rightarrow> props \<Rightarrow> unit option \<times> props" where
  "props_set e key val s =
     (case props_set_in e key val (pr_file s) s of
        (None, s) \<Rightarrow> (None, s)
      | (Some True, s) \<Rightarrow> (Some (), s)
      | (Some False, s) \<Rightarrow>
          (let s = apply_defaults_if_needed e False s in
           case props_set_in e key val (pr_file s) s of (None, s) \<Rightarrow> (None, s) | (Some _, s) \<Rightarrow> (Some (), s)))"

definition props_get :: "props_env \<Rightarrow> string \<Rightarrow> props \<Rightarrow> string option" where
  "props_get e key s = props_get_in e key (pr_file s) s"

definition props_reset :: "props_env \<Rightarrow> string \<Rightarrow> string \<Rightarrow> props \<Rightarrow> bool option \<times> props" where
  "props_reset e file dflt s =
     (let s = set_props_filepath file s in
      case set_default_props_filepath e (if dflt \<noteq> [] then dflt else file @ ''.default'') s of
        (None, s) \<Rightarrow> (None, s)
      | (Some _, s) \<Rightarrow>
          (let (ok, s) = props_store e file (props_load e file s) s in (Some ok, s)))"

section \<open>Facts\<close>

text \<open>An object all of whose members are strings.\<close>

fun string_object :: "json \<Rightarrow> bool" where
  "string_object (JObj kvs) = list_all (\<lambda>(k, x). \<exists>v. x = JStr v) kvs"
| "string_object JNull = True"
| "string_object j = False"

lemma string_object_at: "string_object j \<Longrightarrow> json_at k j = Some x \<Longrightarrow> \<exists>v. x = JStr v"
  by (cases j) (auto simp: list_all_iff dest!: map_of_SomeD)

lemma string_object_can_set: "string_object j \<Longrightarrow> can_set j"
  by (cases j) auto

lemma string_members_update:
  "list_all (\<lambda>(k, x). \<exists>v. x = JStr v) kvs \<Longrightarrow> list_all (\<lambda>(k, x). \<exists>v. x = JStr v) (AList.update k (JStr v) kvs)"
  by (induction kvs) auto

lemma string_object_set: "string_object j \<Longrightarrow> string_object (json_set k (JStr v) j)"
  by (cases j) (simp_all add: string_members_update)

text \<open>What is relied on of the JSON library: a printed object of strings reads back.\<close>

definition json_io_ok :: "props_env \<Rightarrow> bool" where
  "json_io_ok e \<longleftrightarrow> (\<forall>j. string_object j \<longrightarrow> pe_parse e (pe_dump e j) = Some j)"

lemma can_set_json_set [simp]: "can_set (json_set k x j)"
  by (cases j) simp_all

lemma load_store_same [simp]:
  "json_io_ok e \<Longrightarrow> pe_writable e path \<Longrightarrow> string_object j \<Longrightarrow> props_load e path (snd (props_store e path j s)) = j"
  by (simp add: props_load_def load_json_file_def props_store_def json_io_ok_def)

lemma load_store_default:
  "path \<noteq> pr_default s \<Longrightarrow> props_load e (pr_default s) (snd (props_store e path j s)) = props_load e (pr_default s) s"
  by (simp add: props_load_def load_json_file_def props_store_def)

lemma store_names [simp]:
  "pr_file (snd (props_store e path j s)) = pr_file s" "pr_default (snd (props_store e path j s)) = pr_default s"
  by (simp_all add: props_store_def)

text \<open>Setting a key, when the file can be written and holds strings.\<close>

lemma set_in_spec:
  assumes "json_io_ok e" "pe_writable e path" "string_object (props_load e path s)"
  shows "\<exists>s'. props_set_in e key val path s = (Some True, s') \<and>
    props_load e path s' = json_set key (JStr val) (props_load e path s) \<and> pr_file s' = pr_file s \<and> pr_default s' = pr_default s \<and>
    (path \<noteq> pr_default s \<longrightarrow> props_load e (pr_default s) s' = props_load e (pr_default s) s)"
proof -
  let ?j = "json_set key (JStr val) (props_load e path s)"
  obtain s1 where s1: "props_store e path ?j s = (True, s1)" using assms(2) by (simp add: props_store_def)
  then have "props_set_in e key val path s = (Some True, s1)"
    using string_object_can_set[OF assms(3)] by (simp add: props_set_in_def Let_def)
  moreover have "string_object ?j" using assms(3) by (rule string_object_set)
  moreover have "s1 = snd (props_store e path ?j s)" using s1 by simp
  ultimately show ?thesis using assms by (auto simp: load_store_default)
qed

lemma get_in_string: "string_object (props_load e path s) \<Longrightarrow> \<exists>v. props_get_in e key path s = Some v"
  by (auto simp: props_get_in_def split: option.splits dest!: string_object_at)

text \<open>Applying the defaults to some of their keys, without force and with it.\<close>

lemma apply_keys_idle:
  assumes "string_object (props_load e (pr_file s) s)" "string_object (props_load e (pr_default s) s)"
    and "\<forall>k\<in>set keys. json_at k j \<noteq> None"
  shows "apply_keys e False j keys s = s"
  using assms(3)
proof (induction keys)
  case (Cons k keys)
  obtain v d where "props_get_in e k (pr_file s) s = Some v" "props_get_in e k (pr_default s) s = Some d"
    using get_in_string[OF assms(1)] get_in_string[OF assms(2)] by blast
  with Cons show ?case by (auto simp del: not_None_eq)
qed simp

lemma apply_keys_force:
  assumes "json_io_ok e" "pe_writable e (pr_file s)" "pr_file s \<noteq> pr_default s"
    and "string_object (props_load e (pr_file s) s)" "string_object (props_load e (pr_default s) s)"
  shows "let s' = apply_keys e True j keys s in pr_file s' = pr_file s \<and> pr_default s' = pr_default s \<and>
    props_load e (pr_default s) s' = props_load e (pr_default s) s \<and>
    (\<forall>k. props_get_in e k (pr_file s) s' =
       (if k \<in> set keys then props_get_in e k (pr_default s) s else props_get_in e k (pr_file s) s))"
  using assms(2-)
proof (induction keys arbitrary: s)
  case (Cons k keys)
  obtain v d where v: "props_get_in e k (pr_file s) s = Some v" and d: "props_get_in e k (pr_default s) s = Some d"
    using get_in_string[OF Cons.prems(3)] get_in_string[OF Cons.prems(4)] by blast
  obtain s1 where s1: "props_set_in e k d (pr_file s) s = (Some True, s1)"
    "props_load e (pr_file s) s1 = json_set k (JStr d) (props_load e (pr_file s) s)" "pr_file s1 = pr_file s"
    "pr_default s1 = pr_default s" "props_load e (pr_default s) s1 = props_load e (pr_default s) s"
    using set_in_spec[OF assms(1) Cons.prems(1) Cons.prems(3), of k d] Cons.prems(2) by auto
  have get: "props_get_in e k' (pr_file s) s1 = (if k' = k then Some d else props_get_in e k' (pr_file s) s)"
    and same: "props_get_in e k' (pr_default s) s1 = props_get_in e k' (pr_default s) s" for k'
    using s1 by (simp_all add: props_get_in_def)
  have "string_object (props_load e (pr_file s1) s1)" "string_object (props_load e (pr_default s1) s1)"
    using s1 Cons.prems by (simp_all add: string_object_set)
  then have IH: "let s' = apply_keys e True j keys s1 in pr_file s' = pr_file s1 \<and> pr_default s' = pr_default s1 \<and>
      props_load e (pr_default s1) s' = props_load e (pr_default s1) s1 \<and>
      (\<forall>k'. props_get_in e k' (pr_file s1) s' =
         (if k' \<in> set keys then props_get_in e k' (pr_default s1) s1 else props_get_in e k' (pr_file s1) s1))"
    using Cons.prems s1(3,4) by (intro Cons.IH) simp_all
  have "apply_keys e True j (k # keys) s = apply_keys e True j keys s1" using v d s1(1) by simp
  with IH d show ?case by (simp add: Let_def s1(3-5) get same)
qed simp

lemma item_keys_at: "k \<in> set (item_keys (JObj kvs)) \<longleftrightarrow> json_at k (JObj kvs) \<noteq> None"
  by (force simp: map_of_eq_None_iff)

section \<open>Concrete data\<close>

text \<open>A way to print objects of strings that can be read back: each character is preceded by a dash.\<close>

definition dashed :: "string \<Rightarrow> string" where
  "dashed s = concat (map (\<lambda>c. [CHR ''-'', c]) s)"

fun undashed :: "string \<Rightarrow> string \<times> string" where
  "undashed (d # c # s) = (if d = CHR ''-'' then (let (a, r) = undashed s in (c # a, r)) else ([], c # s))"
| "undashed s = ([], [])"

fun read_members :: "nat \<Rightarrow> string \<Rightarrow> (string \<times> json) list" where
  "read_members 0 s = []"
| "read_members (Suc n) s = (let (k, r) = undashed s; (v, r) = undashed r in (k, JStr v) # read_members n r)"

definition print_members :: "(string \<times> json) list \<Rightarrow> string" where
  "print_members kvs = concat (map (\<lambda>(k, x). dashed k @ ''='' @ dashed (the (dec_str x)) @ '';'') kvs)"

definition demo_env :: props_env where
  "demo_env = \<lparr>pe_parse = (\<lambda>s. if s = [] then Some JNull else
       if hd s = CHR ''{'' then Some (JObj (read_members (length (takeWhile (\<lambda>c. c = CHR ''.'') (tl s))) (tl (dropWhile (\<lambda>c. c = CHR ''.'') (tl s)))))
       else None),
     pe_dump = (\<lambda>j. case j of JObj kvs \<Rightarrow> ''{'' @ replicate (length kvs) (CHR ''.'') @ '':'' @ print_members kvs | _ \<Rightarrow> []),
     pe_writable = (\<lambda>f. f = ''p'')\<rparr>"

lemma undashed_dashed: "c \<noteq> CHR ''-'' \<Longrightarrow> undashed (dashed s @ c # r) = (s, r)"
proof (induction s)
  case Nil
  then show ?case by (cases r) (simp_all add: dashed_def)
qed (simp add: dashed_def)

lemma read_print: "list_all (\<lambda>(k, x). \<exists>v. x = JStr v) kvs \<Longrightarrow> read_members (length kvs) (print_members kvs @ r) = kvs"
  by (induction kvs) (auto simp: print_members_def undashed_dashed)

lemma marks:
  "takeWhile (\<lambda>c. c = CHR ''.'') (replicate n CHR ''.'' @ CHR '':'' # s) = replicate n CHR ''.''"
  "dropWhile (\<lambda>c. c = CHR ''.'') (replicate n CHR ''.'' @ CHR '':'' # s) = CHR '':'' # s"
  by (induction n) simp_all

lemma demo_env_ok: "json_io_ok demo_env"
  unfolding json_io_ok_def
proof (intro allI impI)
  fix j assume "string_object j"
  then show "pe_parse demo_env (pe_dump demo_env j) = Some j"
  proof (cases j)
    case (JObj kvs)
    with \<open>string_object j\<close> read_print[of kvs "[]"] show ?thesis
      by (simp add: demo_env_def marks)
  qed (simp_all add: demo_env_def)
qed

definition demo_props :: "json \<Rightarrow> json \<Rightarrow> props" where
  "demo_props cur dflt = \<lparr>pr_file = ''p'', pr_default = ''d'',
     pr_fs = (\<lambda>f. if f = ''p'' then Some (pe_dump demo_env cur) else if f = ''d'' then Some (pe_dump demo_env dflt) else None)\<rparr>"

lemma demo_load [simp]:
  "string_object cur \<Longrightarrow> props_load demo_env ''p'' (demo_props cur dflt) = cur"
  "string_object dflt \<Longrightarrow> props_load demo_env ''d'' (demo_props cur dflt) = dflt"
  using demo_env_ok by (simp_all add: props_load_def load_json_file_def demo_props_def json_io_ok_def)

lemma demo_file: "pr_file (demo_props cur dflt) = ''p''"
  by (simp add: demo_props_def)

lemma demo_writable: "pe_writable demo_env ''p''"
  by (simp add: demo_env_def)

section \<open>Properties\<close>

text \<open>
  when the version of the defaults is that of the settings, naming the file of defaults changes nothing: a default
  that the settings lack is not taken over.
\<close>

theorem missing_defaults_ignored:
  assumes "string_object (props_load e (pr_file s) (s\<lparr>pr_default := d\<rparr>))"
    and "props_load e d (s\<lparr>pr_default := d\<rparr>) = JObj kvs" and "string_object (JObj kvs)"
    and "props_get_in e ''version'' (pr_file s) (s\<lparr>pr_default := d\<rparr>) = props_get_in e ''version'' d (s\<lparr>pr_default := d\<rparr>)"
  shows "set_default_props_filepath e d s = (Some (), s\<lparr>pr_default := d\<rparr>)"
proof -
  let ?s = "s\<lparr>pr_default := d\<rparr>"
  have str: "string_object (props_load e (pr_file ?s) ?s)" "string_object (props_load e (pr_default ?s) ?s)"
    using assms(1-3) by simp_all
  obtain v where v: "props_get_in e ''version'' (pr_file s) ?s = Some v" "props_get_in e ''version'' d ?s = Some v"
    using get_in_string[OF str(1), of "''version''"] assms(4) by auto
  have "apply_keys e False (JObj kvs) (item_keys (JObj kvs)) ?s = ?s"
    by (rule apply_keys_idle[OF str]) (use item_keys_at in blast)
  with v assms(2) show ?thesis by (simp add: set_default_props_filepath_def apply_defaults_if_needed_def Let_def)
qed

definition demo_one :: json where
  "demo_one = JObj [(''version'', JStr ''1'')]"

definition demo_defaults :: "string \<Rightarrow> json" where
  "demo_defaults v = JObj [(''version'', JStr v), (''host'', JStr ''cloud'')]"

theorem missing_defaults_ignored_witness:
  "set_default_props_filepath demo_env ''d'' (demo_props demo_one (demo_defaults ''1'')) =
     (Some (), demo_props demo_one (demo_defaults ''1'')) \<and>
   props_get demo_env ''host'' (demo_props demo_one (demo_defaults ''1'')) = Some []"
proof -
  let ?s = "demo_props demo_one (demo_defaults ''1'')"
  have s: "?s\<lparr>pr_default := ''d''\<rparr> = ?s" "pr_file ?s = ''p''" by (simp_all add: demo_props_def)
  have str: "string_object demo_one" "string_object (demo_defaults ''1'')" by (simp_all add: demo_one_def demo_defaults_def)
  note load = demo_load(1)[OF str(1)] demo_load(2)[OF str(2)]
  have "set_default_props_filepath demo_env ''d'' ?s = (Some (), ?s\<lparr>pr_default := ''d''\<rparr>)"
    by (rule missing_defaults_ignored[where kvs = "[(''version'', JStr ''1''), (''host'', JStr ''cloud'')]"])
      (simp_all add: s load str props_get_in_def, simp_all add: demo_one_def demo_defaults_def)
  then show ?thesis by (simp add: s load props_get_def props_get_in_def) (simp add: demo_one_def)
qed

text \<open>
  when the versions differ every default replaces the value of its key, and the other settings stay.
\<close>

theorem new_defaults_replace:
  assumes "json_io_ok e" and "pe_writable e (pr_file s)" and "pr_file s \<noteq> d"
    and "string_object (props_load e (pr_file s) (s\<lparr>pr_default := d\<rparr>))"
    and "props_load e d (s\<lparr>pr_default := d\<rparr>) = JObj kvs" and "string_object (JObj kvs)"
    and "props_get_in e ''version'' (pr_file s) (s\<lparr>pr_default := d\<rparr>) \<noteq> props_get_in e ''version'' d (s\<lparr>pr_default := d\<rparr>)"
  shows "\<exists>s'. set_default_props_filepath e d s = (Some (), s') \<and>
    (\<forall>k. props_get e k s' = (case map_of kvs k of Some x \<Rightarrow> dec_str x | None \<Rightarrow> props_get e k (s\<lparr>pr_default := d\<rparr>)))"
proof -
  let ?s = "s\<lparr>pr_default := d\<rparr>"
  have str: "string_object (props_load e (pr_file ?s) ?s)" "string_object (props_load e (pr_default ?s) ?s)"
    using assms(4-6) by simp_all
  obtain v w where v: "props_get_in e ''version'' (pr_file s) ?s = Some v" "props_get_in e ''version'' d ?s = Some w" "v \<noteq> w"
    using get_in_string[OF str(1), of "''version''"] get_in_string[OF str(2), of "''version''"] assms(7) by auto
  let ?s' = "apply_keys e True (JObj kvs) (item_keys (JObj kvs)) ?s"
  have "set_default_props_filepath e d s = (Some (), ?s')"
    using v assms(5) by (simp add: set_default_props_filepath_def apply_defaults_if_needed_def Let_def)
  moreover have "props_get e k ?s' = (case map_of kvs k of Some x \<Rightarrow> dec_str x | None \<Rightarrow> props_get e k ?s)" for k
  proof -
    have "pr_file ?s' = pr_file s \<and> props_get_in e k (pr_file s) ?s' =
        (if k \<in> set (item_keys (JObj kvs)) then props_get_in e k d ?s else props_get_in e k (pr_file s) ?s)"
      using apply_keys_force[OF assms(1) _ _ str, of "JObj kvs" "item_keys (JObj kvs)"] assms(2,3) by (simp add: Let_def)
    moreover have "k \<in> set (item_keys (JObj kvs)) \<longleftrightarrow> map_of kvs k \<noteq> None" by (subst item_keys_at) simp
    ultimately show ?thesis
      using assms(5) by (cases "map_of kvs k") (simp_all add: props_get_def props_get_in_def)
  qed
  ultimately show ?thesis by blast
qed

theorem new_defaults_replace_witness:
  "\<exists>s'. set_default_props_filepath demo_env ''d'' (demo_props demo_one (demo_defaults ''2'')) = (Some (), s') \<and>
     props_get demo_env ''host'' s' = Some ''cloud''"
proof -
  let ?s = "demo_props demo_one (demo_defaults ''2'')"
  have s: "?s\<lparr>pr_default := ''d''\<rparr> = ?s" "pr_file ?s = ''p''" by (simp_all add: demo_props_def)
  have str: "string_object demo_one" "string_object (demo_defaults ''2'')" by (simp_all add: demo_one_def demo_defaults_def)
  note load = demo_load(1)[OF str(1)] demo_load(2)[OF str(2)]
  have w: "pe_writable demo_env ''p''" by (simp add: demo_env_def)
  have "\<exists>s'. set_default_props_filepath demo_env ''d'' ?s = (Some (), s') \<and>
      (\<forall>k. props_get demo_env k s' = (case map_of [(''version'', JStr ''2''), (''host'', JStr ''cloud'')] k of
         Some x \<Rightarrow> dec_str x | None \<Rightarrow> props_get demo_env k (?s\<lparr>pr_default := ''d''\<rparr>)))"
    by (rule new_defaults_replace[OF demo_env_ok])
      (simp_all add: s load str w props_get_in_def, simp_all add: demo_one_def demo_defaults_def)
  then obtain s' where "set_default_props_filepath demo_env ''d'' ?s = (Some (), s')"
      "props_get demo_env ''host'' s' = (case map_of [(''version'', JStr ''2''), (''host'', JStr ''cloud'')] ''host'' of
         Some x \<Rightarrow> dec_str x | None \<Rightarrow> props_get demo_env ''host'' (?s\<lparr>pr_default := ''d''\<rparr>))"
    by blast
  then show ?thesis by simp
qed

text \<open>
  a setting that was set is read back, and no other setting changes.
\<close>

theorem settings_kept:
  assumes "json_io_ok e" and "pe_writable e (pr_file s)" and "string_object (props_load e (pr_file s) s)"
  shows "\<exists>s'. props_set e key val s = (Some (), s') \<and> props_get e k s' = (if k = key then Some val else props_get e k s)"
proof -
  obtain s' where "props_set_in e key val (pr_file s) s = (Some True, s')" "pr_file s' = pr_file s"
      "props_load e (pr_file s) s' = json_set key (JStr val) (props_load e (pr_file s) s)"
    using set_in_spec[OF assms, of key val] by blast
  then show ?thesis by (simp add: props_set_def props_get_def props_get_in_def)
qed

theorem settings_kept_witness:
  "\<exists>s'. props_set demo_env ''host'' ''h'' (demo_props demo_one demo_one) = (Some (), s') \<and> props_get demo_env ''host'' s' = Some ''h''"
proof -
  have "string_object demo_one" by (simp add: demo_one_def)
  then show ?thesis
    using settings_kept[OF demo_env_ok, of "demo_props demo_one demo_one" "''host''" "''h''" "''host''"]
    by (simp add: demo_file demo_writable)
qed

end
