(* ===== verification/Proto_Commands.thy ===== *)
theory Proto_Commands
  imports Proto_Events
begin

text \<open>
  The commands of the agent protocol, \<^verbatim>\<open>src/src/agent-proto/command/*.h\<close>: every command extends
  \<open>base_command\<close>, whose message id a constructor takes from a counter (the argument \<open>n\<close>); a command
  that also derives from a protocol object holds that object as its first field.
\<close>

text \<open>The texts of \<open>stream_reason\<close>: its table names one constant twice.\<close>

lemma stream_reason_null [json_rt]:
  "enum_ok stream_reason_table e \<Longrightarrow> enum_to stream_reason_table e = JNull \<longleftrightarrow> e = SR_INVALID"
  by (cases e) (simp_all add: enum_ok_def enum_to_def enum_from_def stream_reason_table_def)

record base_command =
  bc_cmd :: string
  bc_msgid :: int
  bc_cam_id :: int
  bc_refid :: int
  bc_orig_cmd :: string

definition base_command_default :: "int \<Rightarrow> base_command" where
  "base_command_default n = \<lparr>bc_cmd = unset_string, bc_msgid = n, bc_cam_id = UnsetInt,
     bc_refid = UnsetInt, bc_orig_cmd = unset_string\<rparr>"

definition base_command_fields :: "json_num \<Rightarrow> 'a base_command_scheme field list" where
  "base_command_fields num =
     [str_field ''cmd'' bc_cmd bc_cmd_update,
      int_field num ''msgid'' bc_msgid bc_msgid_update,
      int_field num ''cam_id'' bc_cam_id bc_cam_id_update,
      int_field num ''refid'' bc_refid bc_refid_update,
      str_field ''orig_cmd'' bc_orig_cmd bc_orig_cmd_update]"

definition base_command_wf :: "'a base_command_scheme \<Rightarrow> bool" where
  "base_command_wf t \<longleftrightarrow> int_ok (bc_msgid t) \<and>
     int_ok (bc_cam_id t) \<and>
     int_ok (bc_refid t) \<and>
     bc_msgid t \<noteq> UnsetInt \<and>
     bc_cmd t \<noteq> unset_string"

interpretation base_command: struct_codec "base_command_fields num" "base_command_default n" "\<lambda>t. num_ok num \<and> base_command_wf t" for num n
  by unfold_locales
    (auto simp: base_command_fields_def base_command_default_def base_command_wf_def json_rt num_okD
      list_all_iff intro!: base_command.equality)

datatype done_status =
    DS_OK
  | DS_CM_ERROR
  | DS_SYSTEM_ERROR
  | DS_NOT_SUPPORTED
  | DS_INVALID_PARAM
  | DS_MISSED_PARAM
  | DS_TOO_MANY
  | DS_RETRY
  | DS_INVALID

definition done_status_table :: "(done_status \<times> json) list" where
  "done_status_table =
     [(DS_OK, JStr ''OK''),
      (DS_CM_ERROR, JStr ''CM_ERROR''),
      (DS_SYSTEM_ERROR, JStr ''SYSTEM_ERROR''),
      (DS_NOT_SUPPORTED, JStr ''NOT_SUPPORTED''),
      (DS_INVALID_PARAM, JStr ''INVALID_PARAM''),
      (DS_MISSED_PARAM, JStr ''MISSED_PARAM''),
      (DS_TOO_MANY, JStr ''TOO_MANY''),
      (DS_RETRY, JStr ''RETRY''),
      (DS_INVALID, JNull)]"

lemma done_status_enum [json_rt, simp]:
  "enum_ok done_status_table e" "enum_to done_status_table e = JNull \<longleftrightarrow> e = DS_INVALID"
  "enum_from done_status_table (enum_to done_status_table e) = e"
  by (cases e; simp add: enum_ok_def enum_to_def enum_from_def done_status_table_def)+

record done_cmd = base_command +
  dc_status :: done_status

definition done_cmd_default :: "int \<Rightarrow> done_cmd" where
  "done_cmd_default n = base_command.extend (base_command_default n)
     \<lparr>dc_status = DS_INVALID\<rparr>"

definition done_cmd_fields :: "json_num \<Rightarrow> 'a done_cmd_scheme field list" where
  "done_cmd_fields num =
     base_command_fields num @
     [enum_field done_status_table ''status'' dc_status dc_status_update]"

definition done_cmd_wf :: "'a done_cmd_scheme \<Rightarrow> bool" where
  "done_cmd_wf t \<longleftrightarrow> base_command_wf t"

interpretation done_cmd: struct_codec "done_cmd_fields num" "done_cmd_default n" "\<lambda>t. num_ok num \<and> done_cmd_wf t" for num n
  by unfold_locales
    (auto simp: done_cmd_fields_def base_command_fields_def done_cmd_default_def
      base_command_default_def done_cmd_wf_def base_command_wf_def base_command.defs json_rt num_okD
      list_all_iff intro!: done_cmd.equality)

datatype upload_category =
    UC_RECORD
  | UC_SNAPSHOT
  | UC_FILE_META
  | UC_INVALID

definition upload_category_table :: "(upload_category \<times> json) list" where
  "upload_category_table =
     [(UC_RECORD, JStr ''record''),
      (UC_SNAPSHOT, JStr ''snapshot''),
      (UC_FILE_META, JStr ''file_meta''),
      (UC_INVALID, JNull)]"

lemma upload_category_enum [json_rt, simp]:
  "enum_ok upload_category_table e" "enum_to upload_category_table e = JNull \<longleftrightarrow> e = UC_INVALID"
  "enum_from upload_category_table (enum_to upload_category_table e) = e"
  by (cases e; simp add: enum_ok_def enum_to_def enum_from_def upload_category_table_def)+

datatype media_type =
    MT_MP4
  | MT_JPEG
  | MT_INVALID

definition media_type_table :: "(media_type \<times> json) list" where
  "media_type_table =
     [(MT_MP4, JStr ''mp4''),
      (MT_JPEG, JStr ''jpg''),
      (MT_INVALID, JNull)]"

lemma media_type_enum [json_rt, simp]:
  "enum_ok media_type_table e" "enum_to media_type_table e = JNull \<longleftrightarrow> e = MT_INVALID"
  "enum_from media_type_table (enum_to media_type_table e) = e"
  by (cases e; simp add: enum_ok_def enum_to_def enum_from_def media_type_table_def)+

record get_direct_upload_url = base_command +
  gduu_category :: upload_category
  gduu_type :: media_type
  gduu_stream_id :: string
  gduu_file_time :: string
  gduu_duration :: int
  gduu_size :: int
  gduu_width :: int
  gduu_height :: int
  gduu_memorycard_sync_ticket :: string
  gduu_duration_us :: int

definition get_direct_upload_url_default :: "int \<Rightarrow> get_direct_upload_url" where
  "get_direct_upload_url_default n = base_command.extend ((base_command_default n)\<lparr>bc_cmd := ''get_direct_upload_url''\<rparr>)
     \<lparr>gduu_category = UC_INVALID,
     gduu_type = MT_INVALID,
     gduu_stream_id = unset_string,
     gduu_file_time = unset_string,
     gduu_duration = UnsetInt,
     gduu_size = UnsetInt,
     gduu_width = UnsetInt,
     gduu_height = UnsetInt,
     gduu_memorycard_sync_ticket = [],
     gduu_duration_us = 0\<rparr>"

definition get_direct_upload_url_fields :: "json_num \<Rightarrow> 'a get_direct_upload_url_scheme field list" where
  "get_direct_upload_url_fields num =
     base_command_fields num @
     [enum_field upload_category_table ''category'' gduu_category gduu_category_update,
      enum_field media_type_table ''type'' gduu_type gduu_type_update,
      str_field ''stream_id'' gduu_stream_id gduu_stream_id_update,
      str_field ''file_time'' gduu_file_time gduu_file_time_update,
      int_field num ''duration'' gduu_duration gduu_duration_update,
      int_field num ''size'' gduu_size gduu_size_update,
      int_field num ''width'' gduu_width gduu_width_update,
      int_field num ''height'' gduu_height gduu_height_update]"

definition get_direct_upload_url_wf :: "'a get_direct_upload_url_scheme \<Rightarrow> bool" where
  "get_direct_upload_url_wf t \<longleftrightarrow> base_command_wf t \<and>
     int_ok (gduu_duration t) \<and>
     int_ok (gduu_size t) \<and>
     int_ok (gduu_width t) \<and>
     int_ok (gduu_height t) \<and>
     gduu_memorycard_sync_ticket t = [] \<and>
     gduu_duration_us t = 0"

interpretation get_direct_upload_url: struct_codec "get_direct_upload_url_fields num" "get_direct_upload_url_default n" "\<lambda>t. num_ok num \<and> get_direct_upload_url_wf t" for num n
  by unfold_locales
    (auto simp: get_direct_upload_url_fields_def base_command_fields_def
      get_direct_upload_url_default_def base_command_default_def get_direct_upload_url_wf_def
      base_command_wf_def base_command.defs json_rt num_okD list_all_iff intro!:
      get_direct_upload_url.equality)

record audio_detection_conf = base_command +
  adc2_audio_detection_config :: audio_detection_config

definition audio_detection_conf_default :: "int \<Rightarrow> audio_detection_conf" where
  "audio_detection_conf_default n = base_command.extend ((base_command_default n)\<lparr>bc_cmd := ''audio_detection_conf''\<rparr>)
     \<lparr>adc2_audio_detection_config = audio_detection_config_default\<rparr>"

definition audio_detection_conf_fields :: "json_num \<Rightarrow> 'a audio_detection_conf_scheme field list" where
  "audio_detection_conf_fields num =
     base_command_fields num @
     map (lift_field adc2_audio_detection_config adc2_audio_detection_config_update) (audio_detection_config_fields num)"

definition audio_detection_conf_wf :: "'a audio_detection_conf_scheme \<Rightarrow> bool" where
  "audio_detection_conf_wf t \<longleftrightarrow> base_command_wf t \<and>
     audio_detection_config_wf (adc2_audio_detection_config t)"

interpretation audio_detection_conf: struct_codec "audio_detection_conf_fields num" "audio_detection_conf_default n" "\<lambda>t. num_ok num \<and> audio_detection_conf_wf t" for num n
  by (unfold_locales,
    simp add: audio_detection_conf_fields_def base_command_fields_def
      audio_detection_config_fields_def,
    auto simp: audio_detection_conf_fields_def base_command_fields_def
      audio_detection_conf_default_def base_command_default_def audio_detection_conf_wf_def
      base_command_wf_def base_command.defs fold_own_take_lift audio_detection_config.restores
      json_rt num_okD list_all_iff intro!: audio_detection_conf.equality)

type_synonym get_audio_detection = base_command

definition get_audio_detection_default :: "int \<Rightarrow> get_audio_detection" where
  "get_audio_detection_default n = (base_command_default n)\<lparr>bc_cmd := ''get_audio_detection''\<rparr>"

definition get_audio_detection_fields :: "json_num \<Rightarrow> 'a base_command_scheme field list" where
  "get_audio_detection_fields num =
     base_command_fields num"

definition get_audio_detection_wf :: "'a base_command_scheme \<Rightarrow> bool" where
  "get_audio_detection_wf t \<longleftrightarrow> base_command_wf t"

interpretation get_audio_detection: struct_codec "get_audio_detection_fields num" "get_audio_detection_default n" "\<lambda>t. num_ok num \<and> get_audio_detection_wf t" for num n
  by unfold_locales
    (auto simp: get_audio_detection_fields_def base_command_fields_def
      get_audio_detection_default_def base_command_default_def get_audio_detection_wf_def
      base_command_wf_def base_command.defs json_rt num_okD list_all_iff intro!:
      base_command.equality)

record set_audio_detection = base_command +
  sad_audio_detection_config :: audio_detection_config

definition set_audio_detection_default :: "int \<Rightarrow> set_audio_detection" where
  "set_audio_detection_default n = base_command.extend ((base_command_default n)\<lparr>bc_cmd := ''set_audio_detection''\<rparr>)
     \<lparr>sad_audio_detection_config = audio_detection_config_default\<rparr>"

definition set_audio_detection_fields :: "json_num \<Rightarrow> 'a set_audio_detection_scheme field list" where
  "set_audio_detection_fields num =
     base_command_fields num @
     map (lift_field sad_audio_detection_config sad_audio_detection_config_update) (audio_detection_config_fields num)"

definition set_audio_detection_wf :: "'a set_audio_detection_scheme \<Rightarrow> bool" where
  "set_audio_detection_wf t \<longleftrightarrow> base_command_wf t \<and>
     audio_detection_config_wf (sad_audio_detection_config t)"

interpretation set_audio_detection: struct_codec "set_audio_detection_fields num" "set_audio_detection_default n" "\<lambda>t. num_ok num \<and> set_audio_detection_wf t" for num n
  by (unfold_locales,
    simp add: set_audio_detection_fields_def base_command_fields_def
      audio_detection_config_fields_def,
    auto simp: set_audio_detection_fields_def base_command_fields_def
      set_audio_detection_default_def base_command_default_def set_audio_detection_wf_def
      base_command_wf_def base_command.defs fold_own_take_lift audio_detection_config.restores
      json_rt num_okD list_all_iff intro!: set_audio_detection.equality)

record audio_file_play = base_command +
  afp_url :: string

definition audio_file_play_default :: "int \<Rightarrow> audio_file_play" where
  "audio_file_play_default n = base_command.extend ((base_command_default n)\<lparr>bc_cmd := ''audio_file_play''\<rparr>)
     \<lparr>afp_url = []\<rparr>"

definition audio_file_play_fields :: "json_num \<Rightarrow> 'a audio_file_play_scheme field list" where
  "audio_file_play_fields num =
     base_command_fields num @
     [str_field ''url'' afp_url afp_url_update]"

definition audio_file_play_wf :: "'a audio_file_play_scheme \<Rightarrow> bool" where
  "audio_file_play_wf t \<longleftrightarrow> base_command_wf t \<and>
     (afp_url t) \<noteq> unset_string"

interpretation audio_file_play: struct_codec "audio_file_play_fields num" "audio_file_play_default n" "\<lambda>t. num_ok num \<and> audio_file_play_wf t" for num n
  by unfold_locales
    (auto simp: audio_file_play_fields_def base_command_fields_def audio_file_play_default_def
      base_command_default_def audio_file_play_wf_def base_command_wf_def base_command.defs json_rt
      num_okD list_all_iff intro!: audio_file_play.equality)

record backward_start = base_command +
  bs_url :: string

definition backward_start_default :: "int \<Rightarrow> backward_start" where
  "backward_start_default n = base_command.extend ((base_command_default n)\<lparr>bc_cmd := ''backward_start''\<rparr>)
     \<lparr>bs_url = []\<rparr>"

definition backward_start_fields :: "json_num \<Rightarrow> 'a backward_start_scheme field list" where
  "backward_start_fields num =
     base_command_fields num @
     [str_field ''url'' bs_url bs_url_update]"

definition backward_start_wf :: "'a backward_start_scheme \<Rightarrow> bool" where
  "backward_start_wf t \<longleftrightarrow> base_command_wf t \<and>
     (bs_url t) \<noteq> unset_string"

interpretation backward_start: struct_codec "backward_start_fields num" "backward_start_default n" "\<lambda>t. num_ok num \<and> backward_start_wf t" for num n
  by unfold_locales
    (auto simp: backward_start_fields_def base_command_fields_def backward_start_default_def
      base_command_default_def backward_start_wf_def base_command_wf_def base_command.defs json_rt
      num_okD list_all_iff intro!: backward_start.equality)

record backward_stop = base_command +
  bs2_url :: string

definition backward_stop_default :: "int \<Rightarrow> backward_stop" where
  "backward_stop_default n = base_command.extend ((base_command_default n)\<lparr>bc_cmd := ''backward_stop''\<rparr>)
     \<lparr>bs2_url = unset_string\<rparr>"

definition backward_stop_fields :: "json_num \<Rightarrow> 'a backward_stop_scheme field list" where
  "backward_stop_fields num =
     base_command_fields num @
     [str_field ''url'' bs2_url bs2_url_update]"

definition backward_stop_wf :: "'a backward_stop_scheme \<Rightarrow> bool" where
  "backward_stop_wf t \<longleftrightarrow> base_command_wf t"

interpretation backward_stop: struct_codec "backward_stop_fields num" "backward_stop_default n" "\<lambda>t. num_ok num \<and> backward_stop_wf t" for num n
  by unfold_locales
    (auto simp: backward_stop_fields_def base_command_fields_def backward_stop_default_def
      base_command_default_def backward_stop_wf_def base_command_wf_def base_command.defs json_rt
      num_okD list_all_iff intro!: backward_stop.equality)

datatype bye_reason =
    BR_ERROR
  | BR_SYSTEM_ERROR
  | BR_INVALID_USER
  | BR_AUTH_FAILURE
  | BR_CONN_CONFLICT
  | BR_RECONNECT
  | BR_SHUTDOWN
  | BR_DELETED
  | BR_CONN_CLOSE
  | BR_INVALID

definition bye_reason_table :: "(bye_reason \<times> json) list" where
  "bye_reason_table =
     [(BR_ERROR, JStr ''ERROR''),
      (BR_SYSTEM_ERROR, JStr ''SYSTEM_ERROR''),
      (BR_INVALID_USER, JStr ''INVALID_USER''),
      (BR_AUTH_FAILURE, JStr ''AUTH_FAILURE''),
      (BR_CONN_CONFLICT, JStr ''CONN_CONFLICT''),
      (BR_RECONNECT, JStr ''RECONNECT''),
      (BR_SHUTDOWN, JStr ''SHUTDOWN''),
      (BR_DELETED, JStr ''DELETED''),
      (BR_CONN_CLOSE, JStr ''CONN_CLOSE''),
      (BR_INVALID, JNull)]"

lemma bye_reason_enum [json_rt, simp]:
  "enum_ok bye_reason_table e" "enum_to bye_reason_table e = JNull \<longleftrightarrow> e = BR_INVALID"
  "enum_from bye_reason_table (enum_to bye_reason_table e) = e"
  by (cases e; simp add: enum_ok_def enum_to_def enum_from_def bye_reason_table_def)+

record bye = base_command +
  bye_reason :: bye_reason
  bye_retry :: int

definition bye_default :: "int \<Rightarrow> bye" where
  "bye_default n = base_command.extend ((base_command_default n)\<lparr>bc_cmd := ''bye''\<rparr>)
     \<lparr>bye_reason = BR_INVALID,
     bye_retry = UnsetInt\<rparr>"

definition bye_fields :: "json_num \<Rightarrow> 'a bye_scheme field list" where
  "bye_fields num =
     base_command_fields num @
     [enum_field bye_reason_table ''reason'' bye_reason bye_reason_update,
      int_field num ''retry'' bye_retry bye_retry_update]"

definition bye_wf :: "'a bye_scheme \<Rightarrow> bool" where
  "bye_wf t \<longleftrightarrow> base_command_wf t \<and>
     int_ok (bye_retry t)"

interpretation bye: struct_codec "bye_fields num" "bye_default n" "\<lambda>t. num_ok num \<and> bye_wf t" for num n
  by unfold_locales
    (auto simp: bye_fields_def base_command_fields_def bye_default_def base_command_default_def
      bye_wf_def base_command_wf_def base_command.defs json_rt num_okD list_all_iff intro!:
      bye.equality)

type_synonym cam_get_log = base_command

definition cam_get_log_default :: "int \<Rightarrow> cam_get_log" where
  "cam_get_log_default n = (base_command_default n)\<lparr>bc_cmd := ''cam_get_log''\<rparr>"

definition cam_get_log_fields :: "json_num \<Rightarrow> 'a base_command_scheme field list" where
  "cam_get_log_fields num =
     base_command_fields num"

definition cam_get_log_wf :: "'a base_command_scheme \<Rightarrow> bool" where
  "cam_get_log_wf t \<longleftrightarrow> base_command_wf t"

interpretation cam_get_log: struct_codec "cam_get_log_fields num" "cam_get_log_default n" "\<lambda>t. num_ok num \<and> cam_get_log_wf t" for num n
  by unfold_locales
    (auto simp: cam_get_log_fields_def base_command_fields_def cam_get_log_default_def
      base_command_default_def cam_get_log_wf_def base_command_wf_def base_command.defs json_rt
      num_okD list_all_iff intro!: base_command.equality)

record cam_hello = base_command +
  ch_path :: string
  ch_media_uri :: string
  ch_backward_uri :: string
  ch_mode :: string
  ch_activity :: bool

definition cam_hello_default :: "int \<Rightarrow> cam_hello" where
  "cam_hello_default n = base_command.extend ((base_command_default n)\<lparr>bc_cmd := ''cam_hello''\<rparr>)
     \<lparr>ch_path = unset_string,
     ch_media_uri = unset_string,
     ch_backward_uri = unset_string,
     ch_mode = unset_string,
     ch_activity = False\<rparr>"

definition cam_hello_fields :: "json_num \<Rightarrow> 'a cam_hello_scheme field list" where
  "cam_hello_fields num =
     base_command_fields num @
     [str_field ''path'' ch_path ch_path_update,
      str_field ''media_uri'' ch_media_uri ch_media_uri_update,
      str_field ''backward_uri'' ch_backward_uri ch_backward_uri_update,
      str_field ''mode'' ch_mode ch_mode_update]"

definition cam_hello_wf :: "'a cam_hello_scheme \<Rightarrow> bool" where
  "cam_hello_wf t \<longleftrightarrow> base_command_wf t \<and>
     ch_activity t = False"

interpretation cam_hello: struct_codec "cam_hello_fields num" "cam_hello_default n" "\<lambda>t. num_ok num \<and> cam_hello_wf t" for num n
  by unfold_locales
    (auto simp: cam_hello_fields_def base_command_fields_def cam_hello_default_def
      base_command_default_def cam_hello_wf_def base_command_wf_def base_command.defs json_rt
      num_okD list_all_iff intro!: cam_hello.equality)

record cam_wifi_list = base_command +
  cwl_wifi_config :: wifi_config

definition cam_wifi_list_default :: "int \<Rightarrow> cam_wifi_list" where
  "cam_wifi_list_default n = base_command.extend ((base_command_default n)\<lparr>bc_cmd := ''cam_wifi_list''\<rparr>)
     \<lparr>cwl_wifi_config = wifi_config_default\<rparr>"

definition cam_wifi_list_fields :: "json_num \<Rightarrow> 'a cam_wifi_list_scheme field list" where
  "cam_wifi_list_fields num =
     base_command_fields num @
     map (lift_field cwl_wifi_config cwl_wifi_config_update) (wifi_config_fields num)"

definition cam_wifi_list_wf :: "'a cam_wifi_list_scheme \<Rightarrow> bool" where
  "cam_wifi_list_wf t \<longleftrightarrow> base_command_wf t \<and>
     wifi_config_wf (cwl_wifi_config t)"

interpretation cam_wifi_list: struct_codec "cam_wifi_list_fields num" "cam_wifi_list_default n" "\<lambda>t. num_ok num \<and> cam_wifi_list_wf t" for num n
  by (unfold_locales,
    simp add: cam_wifi_list_fields_def base_command_fields_def wifi_config_fields_def,
    auto simp: cam_wifi_list_fields_def base_command_fields_def cam_wifi_list_default_def
      base_command_default_def cam_wifi_list_wf_def base_command_wf_def base_command.defs
      fold_own_take_lift wifi_config.restores json_rt num_okD list_all_iff intro!:
      cam_wifi_list.equality)

type_synonym cam_list_wifi = base_command

definition cam_list_wifi_default :: "int \<Rightarrow> cam_list_wifi" where
  "cam_list_wifi_default n = (base_command_default n)\<lparr>bc_cmd := ''cam_list_wifi''\<rparr>"

definition cam_list_wifi_fields :: "json_num \<Rightarrow> 'a base_command_scheme field list" where
  "cam_list_wifi_fields num =
     base_command_fields num"

definition cam_list_wifi_wf :: "'a base_command_scheme \<Rightarrow> bool" where
  "cam_list_wifi_wf t \<longleftrightarrow> base_command_wf t"

interpretation cam_list_wifi: struct_codec "cam_list_wifi_fields num" "cam_list_wifi_default n" "\<lambda>t. num_ok num \<and> cam_list_wifi_wf t" for num n
  by unfold_locales
    (auto simp: cam_list_wifi_fields_def base_command_fields_def cam_list_wifi_default_def
      base_command_default_def cam_list_wifi_wf_def base_command_wf_def base_command.defs json_rt
      num_okD list_all_iff intro!: base_command.equality)

record get_cam_memorycard_timeline = base_command +
  gcmt_request_id :: string
  gcmt_start :: string
  gcmt_end :: string

definition get_cam_memorycard_timeline_default :: "int \<Rightarrow> get_cam_memorycard_timeline" where
  "get_cam_memorycard_timeline_default n = base_command.extend ((base_command_default n)\<lparr>bc_cmd := ''get_cam_memorycard_timeline''\<rparr>)
     \<lparr>gcmt_request_id = unset_string,
     gcmt_start = unset_string,
     gcmt_end = unset_string\<rparr>"

definition get_cam_memorycard_timeline_fields :: "json_num \<Rightarrow> 'a get_cam_memorycard_timeline_scheme field list" where
  "get_cam_memorycard_timeline_fields num =
     base_command_fields num @
     [str_field ''request_id'' gcmt_request_id gcmt_request_id_update,
      str_field ''start'' gcmt_start gcmt_start_update,
      str_field ''end'' gcmt_end gcmt_end_update]"

definition get_cam_memorycard_timeline_wf :: "'a get_cam_memorycard_timeline_scheme \<Rightarrow> bool" where
  "get_cam_memorycard_timeline_wf t \<longleftrightarrow> base_command_wf t"

interpretation get_cam_memorycard_timeline: struct_codec "get_cam_memorycard_timeline_fields num" "get_cam_memorycard_timeline_default n" "\<lambda>t. num_ok num \<and> get_cam_memorycard_timeline_wf t" for num n
  by unfold_locales
    (auto simp: get_cam_memorycard_timeline_fields_def base_command_fields_def
      get_cam_memorycard_timeline_default_def base_command_default_def
      get_cam_memorycard_timeline_wf_def base_command_wf_def base_command.defs json_rt num_okD
      list_all_iff intro!: get_cam_memorycard_timeline.equality)

datatype memorycard_sync_status =
    MCSS_INVALID
  | MCSS_DONE
  | MCSS_PENDING
  | MCSS_ERROR
  | MCSS_CANCELED
  | MCSS_TOO_MANY_REQUESTS

definition memorycard_sync_status_table :: "(memorycard_sync_status \<times> json) list" where
  "memorycard_sync_status_table =
     [(MCSS_INVALID, JNull),
      (MCSS_DONE, JStr ''done''),
      (MCSS_PENDING, JStr ''pending''),
      (MCSS_ERROR, JStr ''error''),
      (MCSS_CANCELED, JStr ''canceled''),
      (MCSS_TOO_MANY_REQUESTS, JStr ''too_many_requests'')]"

lemma memorycard_sync_status_enum [json_rt, simp]:
  "enum_ok memorycard_sync_status_table e" "enum_to memorycard_sync_status_table e = JNull \<longleftrightarrow> e = MCSS_INVALID"
  "enum_from memorycard_sync_status_table (enum_to memorycard_sync_status_table e) = e"
  by (cases e; simp add: enum_ok_def enum_to_def enum_from_def memorycard_sync_status_table_def)+

record memorycard_timeline_data =
  mtd_start :: string
  mtd_end :: string

definition memorycard_timeline_data_default :: "memorycard_timeline_data" where
  "memorycard_timeline_data_default = \<lparr>mtd_start = unset_string,
     mtd_end = unset_string\<rparr>"

definition memorycard_timeline_data_fields :: "json_num \<Rightarrow> 'a memorycard_timeline_data_scheme field list" where
  "memorycard_timeline_data_fields num =
     [str_field ''start'' mtd_start mtd_start_update,
      str_field ''end'' mtd_end mtd_end_update]"

definition memorycard_timeline_data_wf :: "'a memorycard_timeline_data_scheme \<Rightarrow> bool" where
  "memorycard_timeline_data_wf t \<longleftrightarrow> True"

interpretation memorycard_timeline_data: struct_codec "memorycard_timeline_data_fields num" memorycard_timeline_data_default "\<lambda>t. num_ok num \<and> memorycard_timeline_data_wf t" for num
  by unfold_locales
    (auto simp: memorycard_timeline_data_fields_def memorycard_timeline_data_default_def
      memorycard_timeline_data_wf_def json_rt num_okD list_all_iff intro!:
      memorycard_timeline_data.equality)

record cam_memorycard_timeline = base_command +
  cmt_request_id :: string
  cmt_data :: "memorycard_timeline_data list"
  cmt_start :: string
  cmt_end :: string

definition cam_memorycard_timeline_default :: "int \<Rightarrow> cam_memorycard_timeline" where
  "cam_memorycard_timeline_default n = base_command.extend ((base_command_default n)\<lparr>bc_cmd := ''cam_memorycard_timeline''\<rparr>)
     \<lparr>cmt_request_id = unset_string,
     cmt_data = [],
     cmt_start = unset_string,
     cmt_end = unset_string\<rparr>"

definition cam_memorycard_timeline_fields :: "json_num \<Rightarrow> 'a cam_memorycard_timeline_scheme field list" where
  "cam_memorycard_timeline_fields num =
     base_command_fields num @
     [str_field ''request_id'' cmt_request_id cmt_request_id_update,
      val_field (enc_list (struct_to_json (memorycard_timeline_data_fields num))) (dec_list (dec_struct (memorycard_timeline_data_fields num) memorycard_timeline_data_default)) ''data'' cmt_data cmt_data_update,
      str_field ''start'' cmt_start cmt_start_update,
      str_field ''end'' cmt_end cmt_end_update]"

definition cam_memorycard_timeline_wf :: "'a cam_memorycard_timeline_scheme \<Rightarrow> bool" where
  "cam_memorycard_timeline_wf t \<longleftrightarrow> base_command_wf t \<and>
     list_all (\<lambda>y. memorycard_timeline_data_wf y) ((cmt_data t))"

interpretation cam_memorycard_timeline: struct_codec "cam_memorycard_timeline_fields num" "cam_memorycard_timeline_default n" "\<lambda>t. num_ok num \<and> cam_memorycard_timeline_wf t" for num n
  by unfold_locales
    (auto simp: cam_memorycard_timeline_fields_def base_command_fields_def
      cam_memorycard_timeline_default_def base_command_default_def cam_memorycard_timeline_wf_def
      base_command_wf_def base_command.defs memorycard_timeline_data.roundtrip_list json_rt num_okD
      list_all_iff intro!: cam_memorycard_timeline.equality)

record cam_memorycard_synchronize = base_command +
  cms_request_id :: string
  cms_start :: string
  cms_end :: string
  cms_exclude_overlap :: alter_bool
  cms_cancel_requests :: "string list"

definition cam_memorycard_synchronize_default :: "int \<Rightarrow> cam_memorycard_synchronize" where
  "cam_memorycard_synchronize_default n = base_command.extend ((base_command_default n)\<lparr>bc_cmd := ''cam_memorycard_synchronize''\<rparr>)
     \<lparr>cms_request_id = unset_string,
     cms_start = unset_string,
     cms_end = unset_string,
     cms_exclude_overlap = B_INVALID,
     cms_cancel_requests = []\<rparr>"

definition cam_memorycard_synchronize_fields :: "json_num \<Rightarrow> 'a cam_memorycard_synchronize_scheme field list" where
  "cam_memorycard_synchronize_fields num =
     base_command_fields num @
     [str_field ''request_id'' cms_request_id cms_request_id_update,
      str_field ''start'' cms_start cms_start_update,
      str_field ''end'' cms_end cms_end_update,
      alter_field ''exclude_overlap'' cms_exclude_overlap cms_exclude_overlap_update,
      val_field (enc_list JStr) (dec_list dec_str) ''cancel_requests'' cms_cancel_requests cms_cancel_requests_update]"

definition cam_memorycard_synchronize_wf :: "'a cam_memorycard_synchronize_scheme \<Rightarrow> bool" where
  "cam_memorycard_synchronize_wf t \<longleftrightarrow> base_command_wf t"

interpretation cam_memorycard_synchronize: struct_codec "cam_memorycard_synchronize_fields num" "cam_memorycard_synchronize_default n" "\<lambda>t. num_ok num \<and> cam_memorycard_synchronize_wf t" for num n
  by unfold_locales
    (auto simp: cam_memorycard_synchronize_fields_def base_command_fields_def
      cam_memorycard_synchronize_default_def base_command_default_def
      cam_memorycard_synchronize_wf_def base_command_wf_def base_command.defs json_rt num_okD
      list_all_iff intro!: cam_memorycard_synchronize.equality)

record cam_memorycard_synchronize_status = base_command +
  cmss_request_id :: string
  cmss_progress :: int
  cmss_status :: memorycard_sync_status

definition cam_memorycard_synchronize_status_default :: "int \<Rightarrow> cam_memorycard_synchronize_status" where
  "cam_memorycard_synchronize_status_default n = base_command.extend ((base_command_default n)\<lparr>bc_cmd := ''cam_memorycard_synchronize_status''\<rparr>)
     \<lparr>cmss_request_id = unset_string,
     cmss_progress = UnsetInt,
     cmss_status = MCSS_INVALID\<rparr>"

definition cam_memorycard_synchronize_status_fields :: "json_num \<Rightarrow> 'a cam_memorycard_synchronize_status_scheme field list" where
  "cam_memorycard_synchronize_status_fields num =
     base_command_fields num @
     [str_field ''request_id'' cmss_request_id cmss_request_id_update,
      int_field num ''progress'' cmss_progress cmss_progress_update,
      enum_field memorycard_sync_status_table ''status'' cmss_status cmss_status_update]"

definition cam_memorycard_synchronize_status_wf :: "'a cam_memorycard_synchronize_status_scheme \<Rightarrow> bool" where
  "cam_memorycard_synchronize_status_wf t \<longleftrightarrow> base_command_wf t \<and>
     int_ok (cmss_progress t)"

interpretation cam_memorycard_synchronize_status: struct_codec "cam_memorycard_synchronize_status_fields num" "cam_memorycard_synchronize_status_default n" "\<lambda>t. num_ok num \<and> cam_memorycard_synchronize_status_wf t" for num n
  by unfold_locales
    (auto simp: cam_memorycard_synchronize_status_fields_def base_command_fields_def
      cam_memorycard_synchronize_status_default_def base_command_default_def
      cam_memorycard_synchronize_status_wf_def base_command_wf_def base_command.defs json_rt num_okD
      list_all_iff intro!: cam_memorycard_synchronize_status.equality)

record cam_memorycard_synchronize_cancel = base_command +
  cmsc_request_id :: string

definition cam_memorycard_synchronize_cancel_default :: "int \<Rightarrow> cam_memorycard_synchronize_cancel" where
  "cam_memorycard_synchronize_cancel_default n = base_command.extend ((base_command_default n)\<lparr>bc_cmd := ''cam_memorycard_synchronize_cancel''\<rparr>)
     \<lparr>cmsc_request_id = unset_string\<rparr>"

definition cam_memorycard_synchronize_cancel_fields :: "json_num \<Rightarrow> 'a cam_memorycard_synchronize_cancel_scheme field list" where
  "cam_memorycard_synchronize_cancel_fields num =
     base_command_fields num @
     [str_field ''request_id'' cmsc_request_id cmsc_request_id_update]"

definition cam_memorycard_synchronize_cancel_wf :: "'a cam_memorycard_synchronize_cancel_scheme \<Rightarrow> bool" where
  "cam_memorycard_synchronize_cancel_wf t \<longleftrightarrow> base_command_wf t"

interpretation cam_memorycard_synchronize_cancel: struct_codec "cam_memorycard_synchronize_cancel_fields num" "cam_memorycard_synchronize_cancel_default n" "\<lambda>t. num_ok num \<and> cam_memorycard_synchronize_cancel_wf t" for num n
  by unfold_locales
    (auto simp: cam_memorycard_synchronize_cancel_fields_def base_command_fields_def
      cam_memorycard_synchronize_cancel_default_def base_command_default_def
      cam_memorycard_synchronize_cancel_wf_def base_command_wf_def base_command.defs json_rt num_okD
      list_all_iff intro!: cam_memorycard_synchronize_cancel.equality)

record cam_memorycard_recording = base_command +
  cmr_stream_id :: string
  cmr_enabled :: alter_bool

definition cam_memorycard_recording_default :: "int \<Rightarrow> cam_memorycard_recording" where
  "cam_memorycard_recording_default n = base_command.extend ((base_command_default n)\<lparr>bc_cmd := ''cam_memorycard_recording''\<rparr>)
     \<lparr>cmr_stream_id = unset_string,
     cmr_enabled = B_INVALID\<rparr>"

definition cam_memorycard_recording_fields :: "json_num \<Rightarrow> 'a cam_memorycard_recording_scheme field list" where
  "cam_memorycard_recording_fields num =
     base_command_fields num @
     [str_field ''stream_id'' cmr_stream_id cmr_stream_id_update,
      alter_field ''enabled'' cmr_enabled cmr_enabled_update]"

definition cam_memorycard_recording_wf :: "'a cam_memorycard_recording_scheme \<Rightarrow> bool" where
  "cam_memorycard_recording_wf t \<longleftrightarrow> base_command_wf t"

interpretation cam_memorycard_recording: struct_codec "cam_memorycard_recording_fields num" "cam_memorycard_recording_default n" "\<lambda>t. num_ok num \<and> cam_memorycard_recording_wf t" for num n
  by unfold_locales
    (auto simp: cam_memorycard_recording_fields_def base_command_fields_def
      cam_memorycard_recording_default_def base_command_default_def cam_memorycard_recording_wf_def
      base_command_wf_def base_command.defs json_rt num_okD list_all_iff intro!:
      cam_memorycard_recording.equality)

record cam_ptz = base_command +
  cp_ptz_command :: ptz_command

definition cam_ptz_default :: "int \<Rightarrow> cam_ptz" where
  "cam_ptz_default n = base_command.extend ((base_command_default n)\<lparr>bc_cmd := ''cam_ptz''\<rparr>)
     \<lparr>cp_ptz_command = ptz_command_default\<rparr>"

definition cam_ptz_fields :: "json_num \<Rightarrow> 'a cam_ptz_scheme field list" where
  "cam_ptz_fields num =
     base_command_fields num @
     map (lift_field cp_ptz_command cp_ptz_command_update) (ptz_command_fields num)"

definition cam_ptz_wf :: "'a cam_ptz_scheme \<Rightarrow> bool" where
  "cam_ptz_wf t \<longleftrightarrow> base_command_wf t \<and>
     ptz_command_wf (cp_ptz_command t)"

interpretation cam_ptz: struct_codec "cam_ptz_fields num" "cam_ptz_default n" "\<lambda>t. num_ok num \<and> cam_ptz_wf t" for num n
  by (unfold_locales,
    simp add: cam_ptz_fields_def base_command_fields_def ptz_command_fields_def,
    auto simp: cam_ptz_fields_def base_command_fields_def cam_ptz_default_def
      base_command_default_def cam_ptz_wf_def base_command_wf_def base_command.defs
      fold_own_take_lift ptz_command.restores json_rt num_okD list_all_iff intro!: cam_ptz.equality)

record cam_ptz_preset = base_command +
  cpp_ptz_preset :: ptz_preset

definition cam_ptz_preset_default :: "int \<Rightarrow> cam_ptz_preset" where
  "cam_ptz_preset_default n = base_command.extend ((base_command_default n)\<lparr>bc_cmd := ''cam_ptz_preset''\<rparr>)
     \<lparr>cpp_ptz_preset = ptz_preset_default\<rparr>"

definition cam_ptz_preset_fields :: "json_num \<Rightarrow> 'a cam_ptz_preset_scheme field list" where
  "cam_ptz_preset_fields num =
     base_command_fields num @
     map (lift_field cpp_ptz_preset cpp_ptz_preset_update) (ptz_preset_fields num)"

definition cam_ptz_preset_wf :: "'a cam_ptz_preset_scheme \<Rightarrow> bool" where
  "cam_ptz_preset_wf t \<longleftrightarrow> base_command_wf t \<and>
     ptz_preset_wf (cpp_ptz_preset t)"

interpretation cam_ptz_preset: struct_codec "cam_ptz_preset_fields num" "cam_ptz_preset_default n" "\<lambda>t. num_ok num \<and> cam_ptz_preset_wf t" for num n
  by (unfold_locales,
    simp add: cam_ptz_preset_fields_def base_command_fields_def ptz_preset_fields_def,
    auto simp: cam_ptz_preset_fields_def base_command_fields_def cam_ptz_preset_default_def
      base_command_default_def cam_ptz_preset_wf_def base_command_wf_def base_command.defs
      fold_own_take_lift ptz_preset.restores json_rt num_okD list_all_iff intro!:
      cam_ptz_preset.equality)

record cam_ptz_preset_created = base_command +
  cppc_token :: string

definition cam_ptz_preset_created_default :: "int \<Rightarrow> cam_ptz_preset_created" where
  "cam_ptz_preset_created_default n = base_command.extend ((base_command_default n)\<lparr>bc_cmd := ''cam_ptz_preset_created''\<rparr>)
     \<lparr>cppc_token = unset_string\<rparr>"

definition cam_ptz_preset_created_fields :: "json_num \<Rightarrow> 'a cam_ptz_preset_created_scheme field list" where
  "cam_ptz_preset_created_fields num =
     base_command_fields num @
     [str_field ''token'' cppc_token cppc_token_update]"

definition cam_ptz_preset_created_wf :: "'a cam_ptz_preset_created_scheme \<Rightarrow> bool" where
  "cam_ptz_preset_created_wf t \<longleftrightarrow> base_command_wf t"

interpretation cam_ptz_preset_created: struct_codec "cam_ptz_preset_created_fields num" "cam_ptz_preset_created_default n" "\<lambda>t. num_ok num \<and> cam_ptz_preset_created_wf t" for num n
  by unfold_locales
    (auto simp: cam_ptz_preset_created_fields_def base_command_fields_def
      cam_ptz_preset_created_default_def base_command_default_def cam_ptz_preset_created_wf_def
      base_command_wf_def base_command.defs json_rt num_okD list_all_iff intro!:
      cam_ptz_preset_created.equality)

record cam_register = base_command +
  cr_ip :: string
  cr_uuid :: string
  cr_brand :: string
  cr_model :: string
  cr_sn :: string
  cr_raw_messaging :: bool
  cr_version :: string
  cr_type :: string

definition cam_register_default :: "int \<Rightarrow> cam_register" where
  "cam_register_default n = base_command.extend ((base_command_default n)\<lparr>bc_cmd := ''cam_register''\<rparr>)
     \<lparr>cr_ip = unset_string,
     cr_uuid = unset_string,
     cr_brand = unset_string,
     cr_model = unset_string,
     cr_sn = unset_string,
     cr_raw_messaging = False,
     cr_version = unset_string,
     cr_type = []\<rparr>"

definition cam_register_fields :: "json_num \<Rightarrow> 'a cam_register_scheme field list" where
  "cam_register_fields num =
     base_command_fields num @
     [str_field ''ip'' cr_ip cr_ip_update,
      str_field ''uuid'' cr_uuid cr_uuid_update,
      str_field ''brand'' cr_brand cr_brand_update,
      str_field ''model'' cr_model cr_model_update,
      str_field ''sn'' cr_sn cr_sn_update,
      bool_field ''raw_messaging'' cr_raw_messaging cr_raw_messaging_update,
      str_field ''version'' cr_version cr_version_update,
      str_field ''type'' cr_type cr_type_update]"

definition cam_register_wf :: "'a cam_register_scheme \<Rightarrow> bool" where
  "cam_register_wf t \<longleftrightarrow> base_command_wf t \<and>
     (cr_type t) \<noteq> unset_string"

interpretation cam_register: struct_codec "cam_register_fields num" "cam_register_default n" "\<lambda>t. num_ok num \<and> cam_register_wf t" for num n
  by unfold_locales
    (auto simp: cam_register_fields_def base_command_fields_def cam_register_default_def
      base_command_default_def cam_register_wf_def base_command_wf_def base_command.defs json_rt
      num_okD list_all_iff intro!: cam_register.equality)

record cam_set_current_wifi = base_command +
  cscw_wifi_network :: wifi_network

definition cam_set_current_wifi_default :: "int \<Rightarrow> cam_set_current_wifi" where
  "cam_set_current_wifi_default n = base_command.extend ((base_command_default n)\<lparr>bc_cmd := ''cam_set_current_wifi''\<rparr>)
     \<lparr>cscw_wifi_network = wifi_network_default\<rparr>"

definition cam_set_current_wifi_fields :: "json_num \<Rightarrow> 'a cam_set_current_wifi_scheme field list" where
  "cam_set_current_wifi_fields num =
     base_command_fields num @
     map (lift_field cscw_wifi_network cscw_wifi_network_update) (wifi_network_fields num)"

definition cam_set_current_wifi_wf :: "'a cam_set_current_wifi_scheme \<Rightarrow> bool" where
  "cam_set_current_wifi_wf t \<longleftrightarrow> base_command_wf t \<and>
     wifi_network_wf (cscw_wifi_network t)"

interpretation cam_set_current_wifi: struct_codec "cam_set_current_wifi_fields num" "cam_set_current_wifi_default n" "\<lambda>t. num_ok num \<and> cam_set_current_wifi_wf t" for num n
  by (unfold_locales,
    simp add: cam_set_current_wifi_fields_def base_command_fields_def wifi_network_fields_def,
    auto simp: cam_set_current_wifi_fields_def base_command_fields_def
      cam_set_current_wifi_default_def base_command_default_def cam_set_current_wifi_wf_def
      base_command_wf_def base_command.defs fold_own_take_lift wifi_network.restores json_rt num_okD
      list_all_iff intro!: cam_set_current_wifi.equality)

record cam_trigger_event = base_command +
  cte_event :: string
  cte_time :: double
  cte_meta :: json

definition cam_trigger_event_default :: "int \<Rightarrow> cam_trigger_event" where
  "cam_trigger_event_default n = base_command.extend ((base_command_default n)\<lparr>bc_cmd := ''cam_trigger_event''\<rparr>)
     \<lparr>cte_event = unset_string,
     cte_time = UnsetDouble,
     cte_meta = JNull\<rparr>"

definition cam_trigger_event_fields :: "json_num \<Rightarrow> 'a cam_trigger_event_scheme field list" where
  "cam_trigger_event_fields num =
     base_command_fields num @
     [str_field ''event'' cte_event cte_event_update,
      double_field num ''time'' cte_time cte_time_update,
      json_field ''meta'' cte_meta cte_meta_update]"

definition cam_trigger_event_wf :: "'a cam_trigger_event_scheme \<Rightarrow> bool" where
  "cam_trigger_event_wf t \<longleftrightarrow> base_command_wf t \<and>
     (cte_meta t) \<noteq> JArr []"

interpretation cam_trigger_event: struct_codec "cam_trigger_event_fields num" "cam_trigger_event_default n" "\<lambda>t. num_ok num \<and> cam_trigger_event_wf t" for num n
  by unfold_locales
    (auto simp: cam_trigger_event_fields_def base_command_fields_def cam_trigger_event_default_def
      base_command_default_def cam_trigger_event_wf_def base_command_wf_def base_command.defs
      json_rt num_okD list_all_iff intro!: cam_trigger_event.equality)

type_synonym cam_update_preview = base_command

definition cam_update_preview_default :: "int \<Rightarrow> cam_update_preview" where
  "cam_update_preview_default n = (base_command_default n)\<lparr>bc_cmd := ''cam_update_preview''\<rparr>"

definition cam_update_preview_fields :: "json_num \<Rightarrow> 'a base_command_scheme field list" where
  "cam_update_preview_fields num =
     base_command_fields num"

definition cam_update_preview_wf :: "'a base_command_scheme \<Rightarrow> bool" where
  "cam_update_preview_wf t \<longleftrightarrow> base_command_wf t"

interpretation cam_update_preview: struct_codec "cam_update_preview_fields num" "cam_update_preview_default n" "\<lambda>t. num_ok num \<and> cam_update_preview_wf t" for num n
  by unfold_locales
    (auto simp: cam_update_preview_fields_def base_command_fields_def cam_update_preview_default_def
      base_command_default_def cam_update_preview_wf_def base_command_wf_def base_command.defs
      json_rt num_okD list_all_iff intro!: base_command.equality)

record cam_upgrade_firmware = base_command +
  cuf_url :: string

definition cam_upgrade_firmware_default :: "int \<Rightarrow> cam_upgrade_firmware" where
  "cam_upgrade_firmware_default n = base_command.extend ((base_command_default n)\<lparr>bc_cmd := ''cam_upgrade_firmware''\<rparr>)
     \<lparr>cuf_url = []\<rparr>"

definition cam_upgrade_firmware_fields :: "json_num \<Rightarrow> 'a cam_upgrade_firmware_scheme field list" where
  "cam_upgrade_firmware_fields num =
     base_command_fields num @
     [str_field ''url'' cuf_url cuf_url_update]"

definition cam_upgrade_firmware_wf :: "'a cam_upgrade_firmware_scheme \<Rightarrow> bool" where
  "cam_upgrade_firmware_wf t \<longleftrightarrow> base_command_wf t \<and>
     (cuf_url t) \<noteq> unset_string"

interpretation cam_upgrade_firmware: struct_codec "cam_upgrade_firmware_fields num" "cam_upgrade_firmware_default n" "\<lambda>t. num_ok num \<and> cam_upgrade_firmware_wf t" for num n
  by unfold_locales
    (auto simp: cam_upgrade_firmware_fields_def base_command_fields_def
      cam_upgrade_firmware_default_def base_command_default_def cam_upgrade_firmware_wf_def
      base_command_wf_def base_command.defs json_rt num_okD list_all_iff intro!:
      cam_upgrade_firmware.equality)

record configure = base_command +
  con_pwd :: string
  con_uuid :: string
  con_connid :: string
  con_tz :: string
  con_server :: string

definition configure_default :: "int \<Rightarrow> configure" where
  "configure_default n = base_command.extend ((base_command_default n)\<lparr>bc_cmd := ''configure''\<rparr>)
     \<lparr>con_pwd = unset_string,
     con_uuid = unset_string,
     con_connid = unset_string,
     con_tz = unset_string,
     con_server = unset_string\<rparr>"

definition configure_fields :: "json_num \<Rightarrow> 'a configure_scheme field list" where
  "configure_fields num =
     base_command_fields num @
     [str_field ''pwd'' con_pwd con_pwd_update,
      str_field ''uuid'' con_uuid con_uuid_update,
      str_field ''connid'' con_connid con_connid_update,
      str_field ''tz'' con_tz con_tz_update,
      str_field ''server'' con_server con_server_update]"

definition configure_wf :: "'a configure_scheme \<Rightarrow> bool" where
  "configure_wf t \<longleftrightarrow> base_command_wf t"

interpretation configure: struct_codec "configure_fields num" "configure_default n" "\<lambda>t. num_ok num \<and> configure_wf t" for num n
  by unfold_locales
    (auto simp: configure_fields_def base_command_fields_def configure_default_def
      base_command_default_def configure_wf_def base_command_wf_def base_command.defs json_rt
      num_okD list_all_iff intro!: configure.equality)

record direct_upload_url_base =
  duub_category :: upload_category
  duub_status :: string
  duub_url :: string
  duub_expire :: string
  duub_headers :: "(string \<times> string) list"

definition direct_upload_url_base_default :: "direct_upload_url_base" where
  "direct_upload_url_base_default = \<lparr>duub_category = UC_INVALID,
     duub_status = unset_string,
     duub_url = unset_string,
     duub_expire = unset_string,
     duub_headers = []\<rparr>"

definition direct_upload_url_base_fields :: "json_num \<Rightarrow> 'a direct_upload_url_base_scheme field list" where
  "direct_upload_url_base_fields num =
     [enum_field upload_category_table ''category'' duub_category duub_category_update,
      str_field ''status'' duub_status duub_status_update,
      str_field ''url'' duub_url duub_url_update,
      str_field ''expire'' duub_expire duub_expire_update,
      val_field enc_str_map dec_str_map ''headers'' duub_headers duub_headers_update]"

definition direct_upload_url_base_wf :: "'a direct_upload_url_base_scheme \<Rightarrow> bool" where
  "direct_upload_url_base_wf t \<longleftrightarrow> True"

interpretation direct_upload_url_base: struct_codec "direct_upload_url_base_fields num" direct_upload_url_base_default "\<lambda>t. num_ok num \<and> direct_upload_url_base_wf t" for num
  by unfold_locales
    (auto simp: direct_upload_url_base_fields_def direct_upload_url_base_default_def
      direct_upload_url_base_wf_def json_rt num_okD list_all_iff intro!:
      direct_upload_url_base.equality)

record direct_upload_url = base_command +
  duu_direct_upload_url_base :: direct_upload_url_base
  duu_event_id :: int
  duu_extra :: "direct_upload_url_base list"

definition direct_upload_url_default :: "int \<Rightarrow> direct_upload_url" where
  "direct_upload_url_default n = base_command.extend ((base_command_default n)\<lparr>bc_cmd := ''direct_upload_url''\<rparr>)
     \<lparr>duu_direct_upload_url_base = direct_upload_url_base_default,
     duu_event_id = UnsetInt,
     duu_extra = []\<rparr>"

definition direct_upload_url_fields :: "json_num \<Rightarrow> 'a direct_upload_url_scheme field list" where
  "direct_upload_url_fields num =
     base_command_fields num @
     map (lift_field duu_direct_upload_url_base duu_direct_upload_url_base_update) (direct_upload_url_base_fields num) @
     [val_field (enc_list (struct_to_json (direct_upload_url_base_fields num))) (dec_list (dec_struct (direct_upload_url_base_fields num) direct_upload_url_base_default)) ''extra'' duu_extra duu_extra_update]"

definition direct_upload_url_wf :: "'a direct_upload_url_scheme \<Rightarrow> bool" where
  "direct_upload_url_wf t \<longleftrightarrow> base_command_wf t \<and>
     direct_upload_url_base_wf (duu_direct_upload_url_base t) \<and>
     duu_event_id t = UnsetInt \<and>
     list_all (\<lambda>y. direct_upload_url_base_wf y) ((duu_extra t))"

interpretation direct_upload_url: struct_codec "direct_upload_url_fields num" "direct_upload_url_default n" "\<lambda>t. num_ok num \<and> direct_upload_url_wf t" for num n
  by (unfold_locales,
    simp add: direct_upload_url_fields_def base_command_fields_def
      direct_upload_url_base_fields_def,
    auto simp: direct_upload_url_fields_def base_command_fields_def direct_upload_url_default_def
      base_command_default_def direct_upload_url_wf_def base_command_wf_def base_command.defs
      fold_own_take_lift direct_upload_url_base.restores direct_upload_url_base.roundtrip_list
      json_rt num_okD list_all_iff intro!: direct_upload_url.equality)

record cam_audio_conf = base_command +
  cac_audio_config :: audio_config

definition cam_audio_conf_default :: "int \<Rightarrow> cam_audio_conf" where
  "cam_audio_conf_default n = base_command.extend ((base_command_default n)\<lparr>bc_cmd := ''cam_audio_conf''\<rparr>)
     \<lparr>cac_audio_config = audio_config_default\<rparr>"

definition cam_audio_conf_fields :: "json_num \<Rightarrow> 'a cam_audio_conf_scheme field list" where
  "cam_audio_conf_fields num =
     base_command_fields num @
     map (lift_field cac_audio_config cac_audio_config_update) (audio_config_fields num)"

definition cam_audio_conf_wf :: "'a cam_audio_conf_scheme \<Rightarrow> bool" where
  "cam_audio_conf_wf t \<longleftrightarrow> base_command_wf t \<and>
     audio_config_wf (cac_audio_config t)"

interpretation cam_audio_conf: struct_codec "cam_audio_conf_fields num" "cam_audio_conf_default n" "\<lambda>t. num_ok num \<and> cam_audio_conf_wf t" for num n
  by (unfold_locales,
    simp add: cam_audio_conf_fields_def base_command_fields_def audio_config_fields_def,
    auto simp: cam_audio_conf_fields_def base_command_fields_def cam_audio_conf_default_def
      base_command_default_def cam_audio_conf_wf_def base_command_wf_def base_command.defs
      fold_own_take_lift audio_config.restores json_rt num_okD list_all_iff intro!:
      cam_audio_conf.equality)

type_synonym get_cam_audio_conf = base_command

definition get_cam_audio_conf_default :: "int \<Rightarrow> get_cam_audio_conf" where
  "get_cam_audio_conf_default n = (base_command_default n)\<lparr>bc_cmd := ''get_cam_audio_conf''\<rparr>"

definition get_cam_audio_conf_fields :: "json_num \<Rightarrow> 'a base_command_scheme field list" where
  "get_cam_audio_conf_fields num =
     base_command_fields num"

definition get_cam_audio_conf_wf :: "'a base_command_scheme \<Rightarrow> bool" where
  "get_cam_audio_conf_wf t \<longleftrightarrow> base_command_wf t"

interpretation get_cam_audio_conf: struct_codec "get_cam_audio_conf_fields num" "get_cam_audio_conf_default n" "\<lambda>t. num_ok num \<and> get_cam_audio_conf_wf t" for num n
  by unfold_locales
    (auto simp: get_cam_audio_conf_fields_def base_command_fields_def get_cam_audio_conf_default_def
      base_command_default_def get_cam_audio_conf_wf_def base_command_wf_def base_command.defs
      json_rt num_okD list_all_iff intro!: base_command.equality)

record cam_events_conf = base_command +
  cec_events_config :: events_config

definition cam_events_conf_default :: "int \<Rightarrow> cam_events_conf" where
  "cam_events_conf_default n = base_command.extend ((base_command_default n)\<lparr>bc_cmd := ''cam_events_conf''\<rparr>)
     \<lparr>cec_events_config = events_config_default\<rparr>"

definition cam_events_conf_fields :: "json_num \<Rightarrow> 'a cam_events_conf_scheme field list" where
  "cam_events_conf_fields num =
     base_command_fields num @
     map (lift_field cec_events_config cec_events_config_update) (events_config_fields num)"

definition cam_events_conf_wf :: "'a cam_events_conf_scheme \<Rightarrow> bool" where
  "cam_events_conf_wf t \<longleftrightarrow> base_command_wf t \<and>
     events_config_wf (cec_events_config t)"

interpretation cam_events_conf: struct_codec "cam_events_conf_fields num" "cam_events_conf_default n" "\<lambda>t. num_ok num \<and> cam_events_conf_wf t" for num n
  by (unfold_locales,
    simp add: cam_events_conf_fields_def base_command_fields_def events_config_fields_def,
    auto simp: cam_events_conf_fields_def base_command_fields_def cam_events_conf_default_def
      base_command_default_def cam_events_conf_wf_def base_command_wf_def base_command.defs
      fold_own_take_lift events_config.restores json_rt num_okD list_all_iff intro!:
      cam_events_conf.equality)

type_synonym get_cam_events = base_command

definition get_cam_events_default :: "int \<Rightarrow> get_cam_events" where
  "get_cam_events_default n = (base_command_default n)\<lparr>bc_cmd := ''get_cam_events''\<rparr>"

definition get_cam_events_fields :: "json_num \<Rightarrow> 'a base_command_scheme field list" where
  "get_cam_events_fields num =
     base_command_fields num"

definition get_cam_events_wf :: "'a base_command_scheme \<Rightarrow> bool" where
  "get_cam_events_wf t \<longleftrightarrow> base_command_wf t"

interpretation get_cam_events: struct_codec "get_cam_events_fields num" "get_cam_events_default n" "\<lambda>t. num_ok num \<and> get_cam_events_wf t" for num n
  by unfold_locales
    (auto simp: get_cam_events_fields_def base_command_fields_def get_cam_events_default_def
      base_command_default_def get_cam_events_wf_def base_command_wf_def base_command.defs json_rt
      num_okD list_all_iff intro!: base_command.equality)

record cam_status = base_command +
  cs_ip :: string
  cs_activity :: bool
  cs_streaming :: bool
  cs_status_led :: bool

definition cam_status_default :: "int \<Rightarrow> cam_status" where
  "cam_status_default n = base_command.extend ((base_command_default n)\<lparr>bc_cmd := ''cam_status''\<rparr>)
     \<lparr>cs_ip = unset_string,
     cs_activity = False,
     cs_streaming = False,
     cs_status_led = False\<rparr>"

definition cam_status_fields :: "json_num \<Rightarrow> 'a cam_status_scheme field list" where
  "cam_status_fields num =
     base_command_fields num @
     [str_field ''ip'' cs_ip cs_ip_update,
      bool_field ''activity'' cs_activity cs_activity_update,
      bool_field ''streaming'' cs_streaming cs_streaming_update,
      bool_field ''status_led'' cs_status_led cs_status_led_update]"

definition cam_status_wf :: "'a cam_status_scheme \<Rightarrow> bool" where
  "cam_status_wf t \<longleftrightarrow> base_command_wf t"

interpretation cam_status: struct_codec "cam_status_fields num" "cam_status_default n" "\<lambda>t. num_ok num \<and> cam_status_wf t" for num n
  by unfold_locales
    (auto simp: cam_status_fields_def base_command_fields_def cam_status_default_def
      base_command_default_def cam_status_wf_def base_command_wf_def base_command.defs json_rt
      num_okD list_all_iff intro!: cam_status.equality)

type_synonym get_cam_status = base_command

definition get_cam_status_default :: "int \<Rightarrow> get_cam_status" where
  "get_cam_status_default n = (base_command_default n)\<lparr>bc_cmd := ''get_cam_status''\<rparr>"

definition get_cam_status_fields :: "json_num \<Rightarrow> 'a base_command_scheme field list" where
  "get_cam_status_fields num =
     base_command_fields num"

definition get_cam_status_wf :: "'a base_command_scheme \<Rightarrow> bool" where
  "get_cam_status_wf t \<longleftrightarrow> base_command_wf t"

interpretation get_cam_status: struct_codec "get_cam_status_fields num" "get_cam_status_default n" "\<lambda>t. num_ok num \<and> get_cam_status_wf t" for num n
  by unfold_locales
    (auto simp: get_cam_status_fields_def base_command_fields_def get_cam_status_default_def
      base_command_default_def get_cam_status_wf_def base_command_wf_def base_command.defs json_rt
      num_okD list_all_iff intro!: base_command.equality)

record cam_video_conf = base_command +
  cvc_video_config :: video_config

definition cam_video_conf_default :: "int \<Rightarrow> cam_video_conf" where
  "cam_video_conf_default n = base_command.extend ((base_command_default n)\<lparr>bc_cmd := ''cam_video_conf''\<rparr>)
     \<lparr>cvc_video_config = video_config_default\<rparr>"

definition cam_video_conf_fields :: "json_num \<Rightarrow> 'a cam_video_conf_scheme field list" where
  "cam_video_conf_fields num =
     base_command_fields num @
     map (lift_field cvc_video_config cvc_video_config_update) (video_config_fields num)"

definition cam_video_conf_wf :: "'a cam_video_conf_scheme \<Rightarrow> bool" where
  "cam_video_conf_wf t \<longleftrightarrow> base_command_wf t \<and>
     video_config_wf (cvc_video_config t)"

interpretation cam_video_conf: struct_codec "cam_video_conf_fields num" "cam_video_conf_default n" "\<lambda>t. num_ok num \<and> cam_video_conf_wf t" for num n
  by (unfold_locales,
    simp add: cam_video_conf_fields_def base_command_fields_def video_config_fields_def,
    auto simp: cam_video_conf_fields_def base_command_fields_def cam_video_conf_default_def
      base_command_default_def cam_video_conf_wf_def base_command_wf_def base_command.defs
      fold_own_take_lift video_config.restores json_rt num_okD list_all_iff intro!:
      cam_video_conf.equality)

type_synonym get_cam_video_conf = base_command

definition get_cam_video_conf_default :: "int \<Rightarrow> get_cam_video_conf" where
  "get_cam_video_conf_default n = (base_command_default n)\<lparr>bc_cmd := ''get_cam_video_conf''\<rparr>"

definition get_cam_video_conf_fields :: "json_num \<Rightarrow> 'a base_command_scheme field list" where
  "get_cam_video_conf_fields num =
     base_command_fields num"

definition get_cam_video_conf_wf :: "'a base_command_scheme \<Rightarrow> bool" where
  "get_cam_video_conf_wf t \<longleftrightarrow> base_command_wf t"

interpretation get_cam_video_conf: struct_codec "get_cam_video_conf_fields num" "get_cam_video_conf_default n" "\<lambda>t. num_ok num \<and> get_cam_video_conf_wf t" for num n
  by unfold_locales
    (auto simp: get_cam_video_conf_fields_def base_command_fields_def get_cam_video_conf_default_def
      base_command_default_def get_cam_video_conf_wf_def base_command_wf_def base_command.defs
      json_rt num_okD list_all_iff intro!: base_command.equality)

record motion_detection_conf = base_command +
  mdc3_motion_detection_config :: motion_detection_config

definition motion_detection_conf_default :: "int \<Rightarrow> motion_detection_conf" where
  "motion_detection_conf_default n = base_command.extend ((base_command_default n)\<lparr>bc_cmd := ''motion_detection_conf''\<rparr>)
     \<lparr>mdc3_motion_detection_config = motion_detection_config_default\<rparr>"

definition motion_detection_conf_fields :: "json_num \<Rightarrow> 'a motion_detection_conf_scheme field list" where
  "motion_detection_conf_fields num =
     base_command_fields num @
     map (lift_field mdc3_motion_detection_config mdc3_motion_detection_config_update) (motion_detection_config_fields num)"

definition motion_detection_conf_wf :: "'a motion_detection_conf_scheme \<Rightarrow> bool" where
  "motion_detection_conf_wf t \<longleftrightarrow> base_command_wf t \<and>
     motion_detection_config_wf (mdc3_motion_detection_config t)"

interpretation motion_detection_conf: struct_codec "motion_detection_conf_fields num" "motion_detection_conf_default n" "\<lambda>t. num_ok num \<and> motion_detection_conf_wf t" for num n
  by (unfold_locales,
    simp add: motion_detection_conf_fields_def base_command_fields_def
      motion_detection_config_fields_def,
    auto simp: motion_detection_conf_fields_def base_command_fields_def
      motion_detection_conf_default_def base_command_default_def motion_detection_conf_wf_def
      base_command_wf_def base_command.defs fold_own_take_lift motion_detection_config.restores
      json_rt num_okD list_all_iff intro!: motion_detection_conf.equality)

type_synonym get_motion_detection = base_command

definition get_motion_detection_default :: "int \<Rightarrow> get_motion_detection" where
  "get_motion_detection_default n = (base_command_default n)\<lparr>bc_cmd := ''get_motion_detection''\<rparr>"

definition get_motion_detection_fields :: "json_num \<Rightarrow> 'a base_command_scheme field list" where
  "get_motion_detection_fields num =
     base_command_fields num"

definition get_motion_detection_wf :: "'a base_command_scheme \<Rightarrow> bool" where
  "get_motion_detection_wf t \<longleftrightarrow> base_command_wf t"

interpretation get_motion_detection: struct_codec "get_motion_detection_fields num" "get_motion_detection_default n" "\<lambda>t. num_ok num \<and> get_motion_detection_wf t" for num n
  by unfold_locales
    (auto simp: get_motion_detection_fields_def base_command_fields_def
      get_motion_detection_default_def base_command_default_def get_motion_detection_wf_def
      base_command_wf_def base_command.defs json_rt num_okD list_all_iff intro!:
      base_command.equality)

record osd_conf = base_command +
  oc3_osd_config :: osd_config

definition osd_conf_default :: "int \<Rightarrow> osd_conf" where
  "osd_conf_default n = base_command.extend ((base_command_default n)\<lparr>bc_cmd := ''osd_conf''\<rparr>)
     \<lparr>oc3_osd_config = osd_config_default\<rparr>"

definition osd_conf_fields :: "json_num \<Rightarrow> 'a osd_conf_scheme field list" where
  "osd_conf_fields num =
     base_command_fields num @
     map (lift_field oc3_osd_config oc3_osd_config_update) (osd_config_fields num)"

definition osd_conf_wf :: "'a osd_conf_scheme \<Rightarrow> bool" where
  "osd_conf_wf t \<longleftrightarrow> base_command_wf t \<and>
     osd_config_wf (oc3_osd_config t)"

interpretation osd_conf: struct_codec "osd_conf_fields num" "osd_conf_default n" "\<lambda>t. num_ok num \<and> osd_conf_wf t" for num n
  by (unfold_locales,
    simp add: osd_conf_fields_def base_command_fields_def osd_config_fields_def,
    auto simp: osd_conf_fields_def base_command_fields_def osd_conf_default_def
      base_command_default_def osd_conf_wf_def base_command_wf_def base_command.defs
      fold_own_take_lift osd_config.restores json_rt num_okD list_all_iff intro!: osd_conf.equality)

type_synonym get_osd_conf = base_command

definition get_osd_conf_default :: "int \<Rightarrow> get_osd_conf" where
  "get_osd_conf_default n = (base_command_default n)\<lparr>bc_cmd := ''get_osd_conf''\<rparr>"

definition get_osd_conf_fields :: "json_num \<Rightarrow> 'a base_command_scheme field list" where
  "get_osd_conf_fields num =
     base_command_fields num"

definition get_osd_conf_wf :: "'a base_command_scheme \<Rightarrow> bool" where
  "get_osd_conf_wf t \<longleftrightarrow> base_command_wf t"

interpretation get_osd_conf: struct_codec "get_osd_conf_fields num" "get_osd_conf_default n" "\<lambda>t. num_ok num \<and> get_osd_conf_wf t" for num n
  by unfold_locales
    (auto simp: get_osd_conf_fields_def base_command_fields_def get_osd_conf_default_def
      base_command_default_def get_osd_conf_wf_def base_command_wf_def base_command.defs json_rt
      num_okD list_all_iff intro!: base_command.equality)

record cam_ptz_conf = base_command +
  cpc_ptz_config :: ptz_config

definition cam_ptz_conf_default :: "int \<Rightarrow> cam_ptz_conf" where
  "cam_ptz_conf_default n = base_command.extend ((base_command_default n)\<lparr>bc_cmd := ''cam_ptz_conf''\<rparr>)
     \<lparr>cpc_ptz_config = ptz_config_default\<rparr>"

definition cam_ptz_conf_fields :: "json_num \<Rightarrow> 'a cam_ptz_conf_scheme field list" where
  "cam_ptz_conf_fields num =
     base_command_fields num @
     map (lift_field cpc_ptz_config cpc_ptz_config_update) (ptz_config_fields num)"

definition cam_ptz_conf_wf :: "'a cam_ptz_conf_scheme \<Rightarrow> bool" where
  "cam_ptz_conf_wf t \<longleftrightarrow> base_command_wf t \<and>
     ptz_config_wf (cpc_ptz_config t)"

interpretation cam_ptz_conf: struct_codec "cam_ptz_conf_fields num" "cam_ptz_conf_default n" "\<lambda>t. num_ok num \<and> cam_ptz_conf_wf t" for num n
  by (unfold_locales,
    simp add: cam_ptz_conf_fields_def base_command_fields_def ptz_config_fields_def,
    auto simp: cam_ptz_conf_fields_def base_command_fields_def cam_ptz_conf_default_def
      base_command_default_def cam_ptz_conf_wf_def base_command_wf_def base_command.defs
      fold_own_take_lift ptz_config.restores json_rt num_okD list_all_iff intro!:
      cam_ptz_conf.equality)

type_synonym get_ptz_conf = base_command

definition get_ptz_conf_default :: "int \<Rightarrow> get_ptz_conf" where
  "get_ptz_conf_default n = (base_command_default n)\<lparr>bc_cmd := ''get_ptz_conf''\<rparr>"

definition get_ptz_conf_fields :: "json_num \<Rightarrow> 'a base_command_scheme field list" where
  "get_ptz_conf_fields num =
     base_command_fields num"

definition get_ptz_conf_wf :: "'a base_command_scheme \<Rightarrow> bool" where
  "get_ptz_conf_wf t \<longleftrightarrow> base_command_wf t"

interpretation get_ptz_conf: struct_codec "get_ptz_conf_fields num" "get_ptz_conf_default n" "\<lambda>t. num_ok num \<and> get_ptz_conf_wf t" for num n
  by unfold_locales
    (auto simp: get_ptz_conf_fields_def base_command_fields_def get_ptz_conf_default_def
      base_command_default_def get_ptz_conf_wf_def base_command_wf_def base_command.defs json_rt
      num_okD list_all_iff intro!: base_command.equality)

record stream_by_event_conf = base_command +
  sbec3_stream_by_event_config :: stream_by_event_config

definition stream_by_event_conf_default :: "int \<Rightarrow> stream_by_event_conf" where
  "stream_by_event_conf_default n = base_command.extend ((base_command_default n)\<lparr>bc_cmd := ''stream_by_event_conf''\<rparr>)
     \<lparr>sbec3_stream_by_event_config = stream_by_event_config_default\<rparr>"

definition stream_by_event_conf_fields :: "json_num \<Rightarrow> 'a stream_by_event_conf_scheme field list" where
  "stream_by_event_conf_fields num =
     base_command_fields num @
     map (lift_field sbec3_stream_by_event_config sbec3_stream_by_event_config_update) (stream_by_event_config_fields num)"

definition stream_by_event_conf_wf :: "'a stream_by_event_conf_scheme \<Rightarrow> bool" where
  "stream_by_event_conf_wf t \<longleftrightarrow> base_command_wf t \<and>
     stream_by_event_config_wf (sbec3_stream_by_event_config t)"

interpretation stream_by_event_conf: struct_codec "stream_by_event_conf_fields num" "stream_by_event_conf_default n" "\<lambda>t. num_ok num \<and> stream_by_event_conf_wf t" for num n
  by (unfold_locales,
    simp add: stream_by_event_conf_fields_def base_command_fields_def
      stream_by_event_config_fields_def,
    auto simp: stream_by_event_conf_fields_def base_command_fields_def
      stream_by_event_conf_default_def base_command_default_def stream_by_event_conf_wf_def
      base_command_wf_def base_command.defs fold_own_take_lift stream_by_event_config.restores
      json_rt num_okD list_all_iff intro!: stream_by_event_conf.equality)

type_synonym get_stream_by_event = base_command

definition get_stream_by_event_default :: "int \<Rightarrow> get_stream_by_event" where
  "get_stream_by_event_default n = (base_command_default n)\<lparr>bc_cmd := ''get_stream_by_event''\<rparr>"

definition get_stream_by_event_fields :: "json_num \<Rightarrow> 'a base_command_scheme field list" where
  "get_stream_by_event_fields num =
     base_command_fields num"

definition get_stream_by_event_wf :: "'a base_command_scheme \<Rightarrow> bool" where
  "get_stream_by_event_wf t \<longleftrightarrow> base_command_wf t"

interpretation get_stream_by_event: struct_codec "get_stream_by_event_fields num" "get_stream_by_event_default n" "\<lambda>t. num_ok num \<and> get_stream_by_event_wf t" for num n
  by unfold_locales
    (auto simp: get_stream_by_event_fields_def base_command_fields_def
      get_stream_by_event_default_def base_command_default_def get_stream_by_event_wf_def
      base_command_wf_def base_command.defs json_rt num_okD list_all_iff intro!:
      base_command.equality)

record stream_caps_cmd = base_command +
  scc_stream_caps :: stream_caps

definition stream_caps_cmd_default :: "int \<Rightarrow> stream_caps_cmd" where
  "stream_caps_cmd_default n = base_command.extend ((base_command_default n)\<lparr>bc_cmd := ''stream_caps''\<rparr>)
     \<lparr>scc_stream_caps = stream_caps_default\<rparr>"

definition stream_caps_cmd_fields :: "json_num \<Rightarrow> 'a stream_caps_cmd_scheme field list" where
  "stream_caps_cmd_fields num =
     base_command_fields num @
     map (lift_field scc_stream_caps scc_stream_caps_update) (stream_caps_fields num)"

definition stream_caps_cmd_wf :: "'a stream_caps_cmd_scheme \<Rightarrow> bool" where
  "stream_caps_cmd_wf t \<longleftrightarrow> base_command_wf t \<and>
     stream_caps_wf (scc_stream_caps t)"

interpretation stream_caps_cmd: struct_codec "stream_caps_cmd_fields num" "stream_caps_cmd_default n" "\<lambda>t. num_ok num \<and> stream_caps_cmd_wf t" for num n
  by (unfold_locales,
    simp add: stream_caps_cmd_fields_def base_command_fields_def stream_caps_fields_def,
    auto simp: stream_caps_cmd_fields_def base_command_fields_def stream_caps_cmd_default_def
      base_command_default_def stream_caps_cmd_wf_def base_command_wf_def base_command.defs
      fold_own_take_lift stream_caps.restores json_rt num_okD list_all_iff intro!:
      stream_caps_cmd.equality)

record get_stream_caps = base_command +
  gsc_video_es :: "string list"
  gsc_audio_es :: "string list"

definition get_stream_caps_default :: "int \<Rightarrow> get_stream_caps" where
  "get_stream_caps_default n = base_command.extend ((base_command_default n)\<lparr>bc_cmd := ''get_stream_caps''\<rparr>)
     \<lparr>gsc_video_es = [unset_string],
     gsc_audio_es = [unset_string]\<rparr>"

definition get_stream_caps_fields :: "json_num \<Rightarrow> 'a get_stream_caps_scheme field list" where
  "get_stream_caps_fields num =
     base_command_fields num @
     [val_field (enc_list JStr) (dec_list dec_str) ''video_es'' gsc_video_es gsc_video_es_update,
      val_field (enc_list JStr) (dec_list dec_str) ''audio_es'' gsc_audio_es gsc_audio_es_update]"

definition get_stream_caps_wf :: "'a get_stream_caps_scheme \<Rightarrow> bool" where
  "get_stream_caps_wf t \<longleftrightarrow> base_command_wf t"

interpretation get_stream_caps: struct_codec "get_stream_caps_fields num" "get_stream_caps_default n" "\<lambda>t. num_ok num \<and> get_stream_caps_wf t" for num n
  by unfold_locales
    (auto simp: get_stream_caps_fields_def base_command_fields_def get_stream_caps_default_def
      base_command_default_def get_stream_caps_wf_def base_command_wf_def base_command.defs json_rt
      num_okD list_all_iff intro!: get_stream_caps.equality)

record stream_config_cmd = base_command +
  scc2_stream_config :: stream_config

definition stream_config_cmd_default :: "int \<Rightarrow> stream_config_cmd" where
  "stream_config_cmd_default n = base_command.extend ((base_command_default n)\<lparr>bc_cmd := ''stream_config''\<rparr>)
     \<lparr>scc2_stream_config = stream_config_default\<rparr>"

definition stream_config_cmd_fields :: "json_num \<Rightarrow> 'a stream_config_cmd_scheme field list" where
  "stream_config_cmd_fields num =
     base_command_fields num @
     map (lift_field scc2_stream_config scc2_stream_config_update) (stream_config_fields num)"

definition stream_config_cmd_wf :: "'a stream_config_cmd_scheme \<Rightarrow> bool" where
  "stream_config_cmd_wf t \<longleftrightarrow> base_command_wf t \<and>
     stream_config_wf (scc2_stream_config t)"

interpretation stream_config_cmd: struct_codec "stream_config_cmd_fields num" "stream_config_cmd_default n" "\<lambda>t. num_ok num \<and> stream_config_cmd_wf t" for num n
  by (unfold_locales,
    simp add: stream_config_cmd_fields_def base_command_fields_def stream_config_fields_def,
    auto simp: stream_config_cmd_fields_def base_command_fields_def stream_config_cmd_default_def
      base_command_default_def stream_config_cmd_wf_def base_command_wf_def base_command.defs
      fold_own_take_lift stream_config.restores json_rt num_okD list_all_iff intro!:
      stream_config_cmd.equality)

record get_stream_config = base_command +
  gsc2_video_es :: "string list"
  gsc2_audio_es :: "string list"

definition get_stream_config_default :: "int \<Rightarrow> get_stream_config" where
  "get_stream_config_default n = base_command.extend ((base_command_default n)\<lparr>bc_cmd := ''get_stream_config''\<rparr>)
     \<lparr>gsc2_video_es = [unset_string],
     gsc2_audio_es = [unset_string]\<rparr>"

definition get_stream_config_fields :: "json_num \<Rightarrow> 'a get_stream_config_scheme field list" where
  "get_stream_config_fields num =
     base_command_fields num @
     [val_field (enc_list JStr) (dec_list dec_str) ''video_es'' gsc2_video_es gsc2_video_es_update,
      val_field (enc_list JStr) (dec_list dec_str) ''audio_es'' gsc2_audio_es gsc2_audio_es_update]"

definition get_stream_config_wf :: "'a get_stream_config_scheme \<Rightarrow> bool" where
  "get_stream_config_wf t \<longleftrightarrow> base_command_wf t"

interpretation get_stream_config: struct_codec "get_stream_config_fields num" "get_stream_config_default n" "\<lambda>t. num_ok num \<and> get_stream_config_wf t" for num n
  by unfold_locales
    (auto simp: get_stream_config_fields_def base_command_fields_def get_stream_config_default_def
      base_command_default_def get_stream_config_wf_def base_command_wf_def base_command.defs
      json_rt num_okD list_all_iff intro!: get_stream_config.equality)

record supported_streams = base_command +
  ss_supported_streams_config :: supported_streams_config

definition supported_streams_default :: "int \<Rightarrow> supported_streams" where
  "supported_streams_default n = base_command.extend ((base_command_default n)\<lparr>bc_cmd := ''supported_streams''\<rparr>)
     \<lparr>ss_supported_streams_config = supported_streams_config_default\<rparr>"

definition supported_streams_fields :: "json_num \<Rightarrow> 'a supported_streams_scheme field list" where
  "supported_streams_fields num =
     base_command_fields num @
     map (lift_field ss_supported_streams_config ss_supported_streams_config_update) (supported_streams_config_fields num)"

definition supported_streams_wf :: "'a supported_streams_scheme \<Rightarrow> bool" where
  "supported_streams_wf t \<longleftrightarrow> base_command_wf t \<and>
     supported_streams_config_wf (ss_supported_streams_config t)"

interpretation supported_streams: struct_codec "supported_streams_fields num" "supported_streams_default n" "\<lambda>t. num_ok num \<and> supported_streams_wf t" for num n
  by (unfold_locales,
    simp add: supported_streams_fields_def base_command_fields_def
      supported_streams_config_fields_def,
    auto simp: supported_streams_fields_def base_command_fields_def supported_streams_default_def
      base_command_default_def supported_streams_wf_def base_command_wf_def base_command.defs
      fold_own_take_lift supported_streams_config.restores json_rt num_okD list_all_iff intro!:
      supported_streams.equality)

type_synonym get_supported_streams = base_command

definition get_supported_streams_default :: "int \<Rightarrow> get_supported_streams" where
  "get_supported_streams_default n = (base_command_default n)\<lparr>bc_cmd := ''get_supported_streams''\<rparr>"

definition get_supported_streams_fields :: "json_num \<Rightarrow> 'a base_command_scheme field list" where
  "get_supported_streams_fields num =
     base_command_fields num"

definition get_supported_streams_wf :: "'a base_command_scheme \<Rightarrow> bool" where
  "get_supported_streams_wf t \<longleftrightarrow> base_command_wf t"

interpretation get_supported_streams: struct_codec "get_supported_streams_fields num" "get_supported_streams_default n" "\<lambda>t. num_ok num \<and> get_supported_streams_wf t" for num n
  by unfold_locales
    (auto simp: get_supported_streams_fields_def base_command_fields_def
      get_supported_streams_default_def base_command_default_def get_supported_streams_wf_def
      base_command_wf_def base_command.defs json_rt num_okD list_all_iff intro!:
      base_command.equality)

datatype hello_status =
    HS_OK
  | HS_INVALID

definition hello_status_table :: "(hello_status \<times> json) list" where
  "hello_status_table =
     [(HS_OK, JStr ''OK''),
      (HS_INVALID, JNull)]"

lemma hello_status_enum [json_rt, simp]:
  "enum_ok hello_status_table e" "enum_to hello_status_table e = JNull \<longleftrightarrow> e = HS_INVALID"
  "enum_from hello_status_table (enum_to hello_status_table e) = e"
  by (cases e; simp add: enum_ok_def enum_to_def enum_from_def hello_status_table_def)+

record hello = base_command +
  hel_status :: hello_status
  hel_ca :: string
  hel_sid :: string
  hel_upload_uri :: string
  hel_upload_url :: string
  hel_media_server :: string
  hel_connid :: string

definition hello_default :: "int \<Rightarrow> hello" where
  "hello_default n = base_command.extend ((base_command_default n)\<lparr>bc_cmd := ''hello''\<rparr>)
     \<lparr>hel_status = HS_INVALID,
     hel_ca = unset_string,
     hel_sid = unset_string,
     hel_upload_uri = unset_string,
     hel_upload_url = unset_string,
     hel_media_server = unset_string,
     hel_connid = unset_string\<rparr>"

definition hello_fields :: "json_num \<Rightarrow> 'a hello_scheme field list" where
  "hello_fields num =
     base_command_fields num @
     [str_field ''ca'' hel_ca hel_ca_update,
      str_field ''sid'' hel_sid hel_sid_update,
      str_field ''upload_uri'' hel_upload_uri hel_upload_uri_update,
      str_field ''upload_url'' hel_upload_url hel_upload_url_update,
      str_field ''media_server'' hel_media_server hel_media_server_update,
      str_field ''connid'' hel_connid hel_connid_update]"

definition hello_wf :: "'a hello_scheme \<Rightarrow> bool" where
  "hello_wf t \<longleftrightarrow> base_command_wf t \<and>
     hel_status t = HS_INVALID"

interpretation hello: struct_codec "hello_fields num" "hello_default n" "\<lambda>t. num_ok num \<and> hello_wf t" for num n
  by unfold_locales
    (auto simp: hello_fields_def base_command_fields_def hello_default_def base_command_default_def
      hello_wf_def base_command_wf_def base_command.defs json_rt num_okD list_all_iff intro!:
      hello.equality)

record raw_message = base_command +
  rm_client_id :: string
  rm_message :: string

definition raw_message_default :: "int \<Rightarrow> raw_message" where
  "raw_message_default n = base_command.extend ((base_command_default n)\<lparr>bc_cmd := ''raw_message''\<rparr>)
     \<lparr>rm_client_id = unset_string,
     rm_message = unset_string\<rparr>"

definition raw_message_fields :: "json_num \<Rightarrow> 'a raw_message_scheme field list" where
  "raw_message_fields num =
     base_command_fields num @
     [str_field ''client_id'' rm_client_id rm_client_id_update,
      str_field ''message'' rm_message rm_message_update]"

definition raw_message_wf :: "'a raw_message_scheme \<Rightarrow> bool" where
  "raw_message_wf t \<longleftrightarrow> base_command_wf t"

interpretation raw_message: struct_codec "raw_message_fields num" "raw_message_default n" "\<lambda>t. num_ok num \<and> raw_message_wf t" for num n
  by unfold_locales
    (auto simp: raw_message_fields_def base_command_fields_def raw_message_default_def
      base_command_default_def raw_message_wf_def base_command_wf_def base_command.defs json_rt
      num_okD list_all_iff intro!: raw_message.equality)

record raw_message_client_connected = base_command +
  rmcc_client_id :: string

definition raw_message_client_connected_default :: "int \<Rightarrow> raw_message_client_connected" where
  "raw_message_client_connected_default n = base_command.extend ((base_command_default n)\<lparr>bc_cmd := ''raw_message_client_connected''\<rparr>)
     \<lparr>rmcc_client_id = unset_string\<rparr>"

definition raw_message_client_connected_fields :: "json_num \<Rightarrow> 'a raw_message_client_connected_scheme field list" where
  "raw_message_client_connected_fields num =
     base_command_fields num @
     [str_field ''client_id'' rmcc_client_id rmcc_client_id_update]"

definition raw_message_client_connected_wf :: "'a raw_message_client_connected_scheme \<Rightarrow> bool" where
  "raw_message_client_connected_wf t \<longleftrightarrow> base_command_wf t"

interpretation raw_message_client_connected: struct_codec "raw_message_client_connected_fields num" "raw_message_client_connected_default n" "\<lambda>t. num_ok num \<and> raw_message_client_connected_wf t" for num n
  by unfold_locales
    (auto simp: raw_message_client_connected_fields_def base_command_fields_def
      raw_message_client_connected_default_def base_command_default_def
      raw_message_client_connected_wf_def base_command_wf_def base_command.defs json_rt num_okD
      list_all_iff intro!: raw_message_client_connected.equality)

record raw_message_client_disconnected = base_command +
  rmcd_client_id :: string

definition raw_message_client_disconnected_default :: "int \<Rightarrow> raw_message_client_disconnected" where
  "raw_message_client_disconnected_default n = base_command.extend ((base_command_default n)\<lparr>bc_cmd := ''raw_message_client_disconnected''\<rparr>)
     \<lparr>rmcd_client_id = unset_string\<rparr>"

definition raw_message_client_disconnected_fields :: "json_num \<Rightarrow> 'a raw_message_client_disconnected_scheme field list" where
  "raw_message_client_disconnected_fields num =
     base_command_fields num @
     [str_field ''client_id'' rmcd_client_id rmcd_client_id_update]"

definition raw_message_client_disconnected_wf :: "'a raw_message_client_disconnected_scheme \<Rightarrow> bool" where
  "raw_message_client_disconnected_wf t \<longleftrightarrow> base_command_wf t"

interpretation raw_message_client_disconnected: struct_codec "raw_message_client_disconnected_fields num" "raw_message_client_disconnected_default n" "\<lambda>t. num_ok num \<and> raw_message_client_disconnected_wf t" for num n
  by unfold_locales
    (auto simp: raw_message_client_disconnected_fields_def base_command_fields_def
      raw_message_client_disconnected_default_def base_command_default_def
      raw_message_client_disconnected_wf_def base_command_wf_def base_command.defs json_rt num_okD
      list_all_iff intro!: raw_message_client_disconnected.equality)

record register_cmd = base_command +
  rc_ver :: string
  rc_tz :: string
  rc_vendor :: string
  rc_pwd :: string
  rc_prev_sid :: string
  rc_reg_token :: string
  rc_media_protocols :: "string list"

definition register_cmd_default :: "int \<Rightarrow> register_cmd" where
  "register_cmd_default n = base_command.extend ((base_command_default n)\<lparr>bc_cmd := ''register''\<rparr>)
     \<lparr>rc_ver = unset_string,
     rc_tz = unset_string,
     rc_vendor = unset_string,
     rc_pwd = unset_string,
     rc_prev_sid = unset_string,
     rc_reg_token = unset_string,
     rc_media_protocols = []\<rparr>"

definition register_cmd_fields :: "json_num \<Rightarrow> 'a register_cmd_scheme field list" where
  "register_cmd_fields num =
     base_command_fields num @
     [str_field ''ver'' rc_ver rc_ver_update,
      str_field ''tz'' rc_tz rc_tz_update,
      str_field ''vendor'' rc_vendor rc_vendor_update,
      str_field ''pwd'' rc_pwd rc_pwd_update,
      str_field ''prev_sid'' rc_prev_sid rc_prev_sid_update,
      str_field ''reg_token'' rc_reg_token rc_reg_token_update,
      val_field (enc_list JStr) (dec_list dec_str) ''media_protocols'' rc_media_protocols rc_media_protocols_update]"

definition register_cmd_wf :: "'a register_cmd_scheme \<Rightarrow> bool" where
  "register_cmd_wf t \<longleftrightarrow> base_command_wf t"

interpretation register_cmd: struct_codec "register_cmd_fields num" "register_cmd_default n" "\<lambda>t. num_ok num \<and> register_cmd_wf t" for num n
  by unfold_locales
    (auto simp: register_cmd_fields_def base_command_fields_def register_cmd_default_def
      base_command_default_def register_cmd_wf_def base_command_wf_def base_command.defs json_rt
      num_okD list_all_iff intro!: register_cmd.equality)

record report_problem = base_command +
  rp_reason :: string

definition report_problem_default :: "int \<Rightarrow> report_problem" where
  "report_problem_default n = base_command.extend ((base_command_default n)\<lparr>bc_cmd := ''report_problem''\<rparr>)
     \<lparr>rp_reason = []\<rparr>"

definition report_problem_fields :: "json_num \<Rightarrow> 'a report_problem_scheme field list" where
  "report_problem_fields num =
     base_command_fields num @
     [str_field ''reason'' rp_reason rp_reason_update]"

definition report_problem_wf :: "'a report_problem_scheme \<Rightarrow> bool" where
  "report_problem_wf t \<longleftrightarrow> base_command_wf t \<and>
     (rp_reason t) \<noteq> unset_string"

interpretation report_problem: struct_codec "report_problem_fields num" "report_problem_default n" "\<lambda>t. num_ok num \<and> report_problem_wf t" for num n
  by unfold_locales
    (auto simp: report_problem_fields_def base_command_fields_def report_problem_default_def
      base_command_default_def report_problem_wf_def base_command_wf_def base_command.defs json_rt
      num_okD list_all_iff intro!: report_problem.equality)

record set_cam_audio_conf = base_command +
  scac_audio_config :: audio_config

definition set_cam_audio_conf_default :: "int \<Rightarrow> set_cam_audio_conf" where
  "set_cam_audio_conf_default n = base_command.extend ((base_command_default n)\<lparr>bc_cmd := ''set_cam_audio_conf''\<rparr>)
     \<lparr>scac_audio_config = audio_config_default\<rparr>"

definition set_cam_audio_conf_fields :: "json_num \<Rightarrow> 'a set_cam_audio_conf_scheme field list" where
  "set_cam_audio_conf_fields num =
     base_command_fields num @
     map (lift_field scac_audio_config scac_audio_config_update) (audio_config_fields num)"

definition set_cam_audio_conf_wf :: "'a set_cam_audio_conf_scheme \<Rightarrow> bool" where
  "set_cam_audio_conf_wf t \<longleftrightarrow> base_command_wf t \<and>
     audio_config_wf (scac_audio_config t)"

interpretation set_cam_audio_conf: struct_codec "set_cam_audio_conf_fields num" "set_cam_audio_conf_default n" "\<lambda>t. num_ok num \<and> set_cam_audio_conf_wf t" for num n
  by (unfold_locales,
    simp add: set_cam_audio_conf_fields_def base_command_fields_def audio_config_fields_def,
    auto simp: set_cam_audio_conf_fields_def base_command_fields_def set_cam_audio_conf_default_def
      base_command_default_def set_cam_audio_conf_wf_def base_command_wf_def base_command.defs
      fold_own_take_lift audio_config.restores json_rt num_okD list_all_iff intro!:
      set_cam_audio_conf.equality)

record set_cam_events = base_command +
  sce_events_config :: events_config

definition set_cam_events_default :: "int \<Rightarrow> set_cam_events" where
  "set_cam_events_default n = base_command.extend ((base_command_default n)\<lparr>bc_cmd := ''set_cam_events''\<rparr>)
     \<lparr>sce_events_config = events_config_default\<rparr>"

definition set_cam_events_fields :: "json_num \<Rightarrow> 'a set_cam_events_scheme field list" where
  "set_cam_events_fields num =
     base_command_fields num @
     map (lift_field sce_events_config sce_events_config_update) (events_config_fields num)"

definition set_cam_events_wf :: "'a set_cam_events_scheme \<Rightarrow> bool" where
  "set_cam_events_wf t \<longleftrightarrow> base_command_wf t \<and>
     events_config_wf (sce_events_config t)"

interpretation set_cam_events: struct_codec "set_cam_events_fields num" "set_cam_events_default n" "\<lambda>t. num_ok num \<and> set_cam_events_wf t" for num n
  by (unfold_locales,
    simp add: set_cam_events_fields_def base_command_fields_def events_config_fields_def,
    auto simp: set_cam_events_fields_def base_command_fields_def set_cam_events_default_def
      base_command_default_def set_cam_events_wf_def base_command_wf_def base_command.defs
      fold_own_take_lift events_config.restores json_rt num_okD list_all_iff intro!:
      set_cam_events.equality)

record set_cam_parameter = base_command +
  scp_status_led :: bool
  scp_activity :: bool

definition set_cam_parameter_default :: "int \<Rightarrow> set_cam_parameter" where
  "set_cam_parameter_default n = base_command.extend ((base_command_default n)\<lparr>bc_cmd := ''set_cam_parameter''\<rparr>)
     \<lparr>scp_status_led = False,
     scp_activity = False\<rparr>"

definition set_cam_parameter_fields :: "json_num \<Rightarrow> 'a set_cam_parameter_scheme field list" where
  "set_cam_parameter_fields num =
     base_command_fields num @
     [bool_field ''status_led'' scp_status_led scp_status_led_update,
      bool_field ''activity'' scp_activity scp_activity_update]"

definition set_cam_parameter_wf :: "'a set_cam_parameter_scheme \<Rightarrow> bool" where
  "set_cam_parameter_wf t \<longleftrightarrow> base_command_wf t"

interpretation set_cam_parameter: struct_codec "set_cam_parameter_fields num" "set_cam_parameter_default n" "\<lambda>t. num_ok num \<and> set_cam_parameter_wf t" for num n
  by unfold_locales
    (auto simp: set_cam_parameter_fields_def base_command_fields_def set_cam_parameter_default_def
      base_command_default_def set_cam_parameter_wf_def base_command_wf_def base_command.defs
      json_rt num_okD list_all_iff intro!: set_cam_parameter.equality)

record set_cam_video_conf = base_command +
  scvc_video_config :: video_config

definition set_cam_video_conf_default :: "int \<Rightarrow> set_cam_video_conf" where
  "set_cam_video_conf_default n = base_command.extend ((base_command_default n)\<lparr>bc_cmd := ''set_cam_video_conf''\<rparr>)
     \<lparr>scvc_video_config = video_config_default\<rparr>"

definition set_cam_video_conf_fields :: "json_num \<Rightarrow> 'a set_cam_video_conf_scheme field list" where
  "set_cam_video_conf_fields num =
     base_command_fields num @
     map (lift_field scvc_video_config scvc_video_config_update) (video_config_fields num)"

definition set_cam_video_conf_wf :: "'a set_cam_video_conf_scheme \<Rightarrow> bool" where
  "set_cam_video_conf_wf t \<longleftrightarrow> base_command_wf t \<and>
     video_config_wf (scvc_video_config t)"

interpretation set_cam_video_conf: struct_codec "set_cam_video_conf_fields num" "set_cam_video_conf_default n" "\<lambda>t. num_ok num \<and> set_cam_video_conf_wf t" for num n
  by (unfold_locales,
    simp add: set_cam_video_conf_fields_def base_command_fields_def video_config_fields_def,
    auto simp: set_cam_video_conf_fields_def base_command_fields_def set_cam_video_conf_default_def
      base_command_default_def set_cam_video_conf_wf_def base_command_wf_def base_command.defs
      fold_own_take_lift video_config.restores json_rt num_okD list_all_iff intro!:
      set_cam_video_conf.equality)

record set_motion_detection = base_command +
  smd_motion_detection_config :: motion_detection_config

definition set_motion_detection_default :: "int \<Rightarrow> set_motion_detection" where
  "set_motion_detection_default n = base_command.extend ((base_command_default n)\<lparr>bc_cmd := ''set_motion_detection''\<rparr>)
     \<lparr>smd_motion_detection_config = motion_detection_config_default\<rparr>"

definition set_motion_detection_fields :: "json_num \<Rightarrow> 'a set_motion_detection_scheme field list" where
  "set_motion_detection_fields num =
     base_command_fields num @
     map (lift_field smd_motion_detection_config smd_motion_detection_config_update) (motion_detection_config_fields num)"

definition set_motion_detection_wf :: "'a set_motion_detection_scheme \<Rightarrow> bool" where
  "set_motion_detection_wf t \<longleftrightarrow> base_command_wf t \<and>
     motion_detection_config_wf (smd_motion_detection_config t)"

interpretation set_motion_detection: struct_codec "set_motion_detection_fields num" "set_motion_detection_default n" "\<lambda>t. num_ok num \<and> set_motion_detection_wf t" for num n
  by (unfold_locales,
    simp add: set_motion_detection_fields_def base_command_fields_def
      motion_detection_config_fields_def,
    auto simp: set_motion_detection_fields_def base_command_fields_def
      set_motion_detection_default_def base_command_default_def set_motion_detection_wf_def
      base_command_wf_def base_command.defs fold_own_take_lift motion_detection_config.restores
      json_rt num_okD list_all_iff intro!: set_motion_detection.equality)

record set_osd_conf = base_command +
  soc_osd_config :: osd_config

definition set_osd_conf_default :: "int \<Rightarrow> set_osd_conf" where
  "set_osd_conf_default n = base_command.extend ((base_command_default n)\<lparr>bc_cmd := ''set_osd_conf''\<rparr>)
     \<lparr>soc_osd_config = osd_config_default\<rparr>"

definition set_osd_conf_fields :: "json_num \<Rightarrow> 'a set_osd_conf_scheme field list" where
  "set_osd_conf_fields num =
     base_command_fields num @
     map (lift_field soc_osd_config soc_osd_config_update) (osd_config_fields num)"

definition set_osd_conf_wf :: "'a set_osd_conf_scheme \<Rightarrow> bool" where
  "set_osd_conf_wf t \<longleftrightarrow> base_command_wf t \<and>
     osd_config_wf (soc_osd_config t)"

interpretation set_osd_conf: struct_codec "set_osd_conf_fields num" "set_osd_conf_default n" "\<lambda>t. num_ok num \<and> set_osd_conf_wf t" for num n
  by (unfold_locales,
    simp add: set_osd_conf_fields_def base_command_fields_def osd_config_fields_def,
    auto simp: set_osd_conf_fields_def base_command_fields_def set_osd_conf_default_def
      base_command_default_def set_osd_conf_wf_def base_command_wf_def base_command.defs
      fold_own_take_lift osd_config.restores json_rt num_okD list_all_iff intro!:
      set_osd_conf.equality)

record set_stream_by_event = base_command +
  ssbe_stream_by_event_config :: stream_by_event_config

definition set_stream_by_event_default :: "int \<Rightarrow> set_stream_by_event" where
  "set_stream_by_event_default n = base_command.extend ((base_command_default n)\<lparr>bc_cmd := ''set_stream_by_event''\<rparr>)
     \<lparr>ssbe_stream_by_event_config = stream_by_event_config_default\<rparr>"

definition set_stream_by_event_fields :: "json_num \<Rightarrow> 'a set_stream_by_event_scheme field list" where
  "set_stream_by_event_fields num =
     base_command_fields num @
     map (lift_field ssbe_stream_by_event_config ssbe_stream_by_event_config_update) (stream_by_event_config_fields num)"

definition set_stream_by_event_wf :: "'a set_stream_by_event_scheme \<Rightarrow> bool" where
  "set_stream_by_event_wf t \<longleftrightarrow> base_command_wf t \<and>
     stream_by_event_config_wf (ssbe_stream_by_event_config t)"

interpretation set_stream_by_event: struct_codec "set_stream_by_event_fields num" "set_stream_by_event_default n" "\<lambda>t. num_ok num \<and> set_stream_by_event_wf t" for num n
  by (unfold_locales,
    simp add: set_stream_by_event_fields_def base_command_fields_def
      stream_by_event_config_fields_def,
    auto simp: set_stream_by_event_fields_def base_command_fields_def
      set_stream_by_event_default_def base_command_default_def set_stream_by_event_wf_def
      base_command_wf_def base_command.defs fold_own_take_lift stream_by_event_config.restores
      json_rt num_okD list_all_iff intro!: set_stream_by_event.equality)

record set_stream_config = base_command +
  ssc3_stream_config :: stream_config

definition set_stream_config_default :: "int \<Rightarrow> set_stream_config" where
  "set_stream_config_default n = base_command.extend ((base_command_default n)\<lparr>bc_cmd := ''set_stream_config''\<rparr>)
     \<lparr>ssc3_stream_config = stream_config_default\<rparr>"

definition set_stream_config_fields :: "json_num \<Rightarrow> 'a set_stream_config_scheme field list" where
  "set_stream_config_fields num =
     base_command_fields num @
     map (lift_field ssc3_stream_config ssc3_stream_config_update) (stream_config_fields num)"

definition set_stream_config_wf :: "'a set_stream_config_scheme \<Rightarrow> bool" where
  "set_stream_config_wf t \<longleftrightarrow> base_command_wf t \<and>
     stream_config_wf (ssc3_stream_config t)"

interpretation set_stream_config: struct_codec "set_stream_config_fields num" "set_stream_config_default n" "\<lambda>t. num_ok num \<and> set_stream_config_wf t" for num n
  by (unfold_locales,
    simp add: set_stream_config_fields_def base_command_fields_def stream_config_fields_def,
    auto simp: set_stream_config_fields_def base_command_fields_def set_stream_config_default_def
      base_command_default_def set_stream_config_wf_def base_command_wf_def base_command.defs
      fold_own_take_lift stream_config.restores json_rt num_okD list_all_iff intro!:
      set_stream_config.equality)

record stream_start = base_command +
  ss2_reason :: stream_reason
  ss2_stream_id :: string
  ss2_publish_session_id :: int
  ss2_storage_direct_recording :: alter_bool

definition stream_start_default :: "int \<Rightarrow> stream_start" where
  "stream_start_default n = base_command.extend ((base_command_default n)\<lparr>bc_cmd := ''stream_start''\<rparr>)
     \<lparr>ss2_reason = SR_INVALID,
     ss2_stream_id = unset_string,
     ss2_publish_session_id = UnsetInt,
     ss2_storage_direct_recording = B_INVALID\<rparr>"

definition stream_start_fields :: "json_num \<Rightarrow> 'a stream_start_scheme field list" where
  "stream_start_fields num =
     base_command_fields num @
     [enum_field stream_reason_table ''reason'' ss2_reason ss2_reason_update,
      str_field ''stream_id'' ss2_stream_id ss2_stream_id_update,
      int_field num ''publish_session_id'' ss2_publish_session_id ss2_publish_session_id_update,
      alter_field ''storage_direct_recording'' ss2_storage_direct_recording ss2_storage_direct_recording_update]"

definition stream_start_wf :: "'a stream_start_scheme \<Rightarrow> bool" where
  "stream_start_wf t \<longleftrightarrow> base_command_wf t \<and>
     enum_ok stream_reason_table ((ss2_reason t)) \<and>
     int_ok (ss2_publish_session_id t)"

interpretation stream_start: struct_codec "stream_start_fields num" "stream_start_default n" "\<lambda>t. num_ok num \<and> stream_start_wf t" for num n
  by unfold_locales
    (auto simp: stream_start_fields_def base_command_fields_def stream_start_default_def
      base_command_default_def stream_start_wf_def base_command_wf_def base_command.defs json_rt
      num_okD list_all_iff intro!: stream_start.equality)

record stream_stop = base_command +
  ss3_reason :: stream_reason
  ss3_stream_id :: string

definition stream_stop_default :: "int \<Rightarrow> stream_stop" where
  "stream_stop_default n = base_command.extend ((base_command_default n)\<lparr>bc_cmd := ''stream_stop''\<rparr>)
     \<lparr>ss3_reason = SR_INVALID,
     ss3_stream_id = unset_string\<rparr>"

definition stream_stop_fields :: "json_num \<Rightarrow> 'a stream_stop_scheme field list" where
  "stream_stop_fields num =
     base_command_fields num @
     [enum_field stream_reason_table ''reason'' ss3_reason ss3_reason_update,
      str_field ''stream_id'' ss3_stream_id ss3_stream_id_update]"

definition stream_stop_wf :: "'a stream_stop_scheme \<Rightarrow> bool" where
  "stream_stop_wf t \<longleftrightarrow> base_command_wf t \<and>
     enum_ok stream_reason_table ((ss3_reason t))"

interpretation stream_stop: struct_codec "stream_stop_fields num" "stream_stop_default n" "\<lambda>t. num_ok num \<and> stream_stop_wf t" for num n
  by unfold_locales
    (auto simp: stream_stop_fields_def base_command_fields_def stream_stop_default_def
      base_command_default_def stream_stop_wf_def base_command_wf_def base_command.defs json_rt
      num_okD list_all_iff intro!: stream_stop.equality)

end
