(* ===== verification/Uploader.thy ===== *)
theory Uploader
  imports Proto_Commands
begin

text \<open>
  \<^verbatim>\<open>segmented_uploader\<close> of \<^verbatim>\<open>src/src/agent/upload.h\<close>: the segmenters that cut a recording into upload
  windows, the loop that picks the current one, skips what the cloud already has and plans uploads,
  cancellation by ticket and the progress reports. The streams' \<^verbatim>\<open>record_get_list\<close>, the cloud timeline
  and the clock are arguments. Both callbacks of the uploader are set, as the manager sets them, and
  logging is left out. \<^verbatim>\<open>std::sort\<close> is the stable sort by the same key.
\<close>

section \<open>Segmenters\<close>

text \<open>
  \<open>struct segmenter\<close>, a period with its upload window. Segmenters are shared objects: the uploader's
  list, the delayed starts and the callbacks of running uploads refer to the same one, so they live
  in a store and are named by their address. \<open>provider\<close> names the stream that exports recordings.
\<close>

type_synonym seg_id = nat

record segmenter = period +
  cur_seg_start :: time
  cur_seg_stop :: time
  last_processed_time :: time
  pre :: duration
  post :: duration
  step :: duration
  delay :: duration
  processed :: bool
  canceled :: bool
  finished :: bool
  realtime :: bool
  provider :: nat
  ticket :: string
  uploads_planned :: nat
  uploads_done :: nat
  uploads_failed :: nat

definition seg_intersects :: "segmenter \<Rightarrow> segmenter \<Rightarrow> bool" where
  "seg_intersects s r =
     (let b1 = p_begin s - pre s; b2 = p_begin r - pre r;
          e1 = (if p_end s \<noteq> time_null then p_end s + step s else time_max);
          e2 = (if p_end r \<noteq> time_null then p_end r + step r else time_max)
      in if b1 \<le> e2 \<and> e1 \<ge> b2 then True else False)"

text \<open>What a stream exports: the part of \<open>video_clip_info\<close> that the uploader reads.\<close>

record clip =
  tp_start :: time
  tp_stop :: time
  clip_data :: "byte list"

definition no_clip :: clip where
  "no_clip = \<lparr>tp_start = time_null, tp_stop = time_null, clip_data = []\<rparr>"

definition has_times :: "clip \<Rightarrow> bool" where
  "has_times c \<longleftrightarrow> tp_stop c \<noteq> time_null \<and> tp_start c \<noteq> time_null"

record sync_status =
  ss_request_id :: string
  ss_progress :: nat
  ss_status :: memorycard_sync_status

text \<open>The request handed to \<open>direct_upload_cb_\<close>; \<open>dq_seg\<close> is the segmenter its callbacks capture.\<close>

record direct_request =
  dq_file_time :: time
  dq_duration :: int
  dq_duration_us :: int
  dq_size :: nat
  dq_provider :: nat
  dq_ticket :: string
  dq_seg :: seg_id

section \<open>The uploader's state\<close>

text \<open>
  \<open>sent\<close> and \<open>requested\<close> log the calls of the two callbacks, \<open>queried\<close> the windows a stream was
  asked for, \<open>pending\<close> the requests whose \<open>on_finished\<close> has not been called yet.
\<close>

record uploader =
  store :: "seg_id \<Rightarrow> segmenter"
  segmenters :: "seg_id list"
  canceled_tickets :: "string list"
  scheduled :: "seg_id list"
  sent :: "sync_status list"
  requested :: "direct_request list"
  queried :: "(seg_id \<times> time \<times> time) list"
  pending :: "seg_id list"
  loop_active :: bool
  loop_delay :: int

definition upd_seg :: "seg_id \<Rightarrow> (segmenter \<Rightarrow> segmenter) \<Rightarrow> uploader \<Rightarrow> uploader" where
  "upd_seg i f u = u\<lparr>store := (store u)(i := f (store u i))\<rparr>"

section \<open>Progress reports\<close>

definition uploads_complete :: "segmenter \<Rightarrow> bool" where
  "uploads_complete s \<longleftrightarrow> uploads_planned s = uploads_done s + uploads_failed s"

text \<open>\<open>__send_timeline_synchronization_status\<close>\<close>

definition send_sync_status :: "nat \<Rightarrow> seg_id \<Rightarrow> uploader \<Rightarrow> uploader" where
  "send_sync_status progress i u =
     (let s = store u i in
      if ticket s = [] then u
      else
        let t = ticket s;
            s1 = s\<lparr>canceled := canceled s \<or> t \<in> set (canceled_tickets u)\<rparr>;
            (status, prog, s2) =
              (if canceled s1 then (MCSS_CANCELED, min 100 progress, s1)
               else if processed s1 \<and> uploads_complete s1
               then (if uploads_done s1 = 0 then MCSS_ERROR else MCSS_DONE, 100, s1\<lparr>ticket := []\<rparr>)
               else (MCSS_PENDING, min 100 progress, s1))
        in u\<lparr>store := (store u)(i := s2),
             canceled_tickets := filter (\<lambda>x. x \<noteq> t) (canceled_tickets u),
             sent := sent u @ [\<lparr>ss_request_id = t, ss_progress = prog, ss_status = status\<rparr>]\<rparr>)"

text \<open>
  The \<open>on_finished\<close> callback of a request, and the request leaving the manager's queues. \<open>None\<close> is
  the integer division by zero that an upload nobody planned would cause.
\<close>

definition on_finished :: "seg_id \<Rightarrow> bool \<Rightarrow> uploader \<Rightarrow> uploader option" where
  "on_finished i ok u =
     (let s = store u i;
          s1 = s\<lparr>uploads_done := uploads_done s + (if ok then 1 else 0),
                 uploads_failed := uploads_failed s + (if ok then 0 else 1)\<rparr>;
          s2 = s1\<lparr>finished := processed s1 \<and> uploads_complete s1\<rparr>;
          u' = u\<lparr>store := (store u)(i := s2), pending := remove1 i (pending u)\<rparr>
      in if ticket s2 = [] then Some u'
         else if processed s2 then
           (if uploads_planned s2 = 0 then None
            else Some (send_sync_status
                   ((uploads_done s2 + uploads_failed s2) * 100 div uploads_planned s2) i u'))
         else Some (send_sync_status 0 i u'))"

section \<open>One step of a segmenter\<close>

text \<open>
  \<open>__segment_step\<close>. \<open>records\<close> is the streams' \<open>record_get_list\<close>, \<open>t1\<close> and \<open>t2\<close> the two clock readings
  that reach the state. The three parts below are the preamble with its early returns, the choice of
  the next window, and the request.
\<close>

definition closed_limit :: "segmenter \<Rightarrow> time" where
  "closed_limit s = p_end s + post s"

definition clip_window :: "segmenter \<Rightarrow> segmenter" where
  "clip_window s =
     (if \<not> period_is_open s \<and> cur_seg_stop s > closed_limit s
      then s\<lparr>cur_seg_stop := closed_limit s\<rparr> else s)"

definition next_delay :: "time \<Rightarrow> clip \<Rightarrow> segmenter \<Rightarrow> duration" where
  "next_delay t1 c s =
     (if realtime s then
        let extra_time_adj = (t1 - last_processed_time s) - delay s;
            d = (if step s > extra_time_adj then step s - extra_time_adj else 0)
        in (if cur_seg_stop s < tp_stop c then d + (tp_stop c - cur_seg_stop s) else d)
      else 0)"

definition next_start :: "clip \<Rightarrow> segmenter \<Rightarrow> time" where
  "next_start c s =
     (if has_times c then
        (if tp_stop c - tp_start c > seconds 600 then cur_seg_stop s else tp_stop c)
      else cur_seg_stop s)"

definition advance_window :: "time \<Rightarrow> time \<Rightarrow> clip \<Rightarrow> segmenter \<Rightarrow> segmenter" where
  "advance_window t1 t2 c s =
     (let s1 = s\<lparr>delay := next_delay t1 c s, last_processed_time := t2\<rparr>;
          s2 = s1\<lparr>cur_seg_start := next_start c s1\<rparr>;
          s3 = s2\<lparr>cur_seg_stop := cur_seg_start s2 + step s2\<rparr>
      in if p_end s3 \<noteq> time_null \<and> closed_limit s3 \<le> cur_seg_start s3
         then s3\<lparr>processed := True\<rparr> else s3)"

definition request_upload :: "clip \<Rightarrow> seg_id \<Rightarrow> uploader \<Rightarrow> uploader" where
  "request_upload c i u =
     (let s = store u i in
      u\<lparr>store := (store u)(i := s\<lparr>uploads_planned := uploads_planned s + 1\<rparr>),
        pending := i # pending u,
        requested := requested u @ [\<lparr>dq_file_time = tp_start c,
          dq_duration = to_milliseconds (tp_stop c - tp_start c),
          dq_duration_us = to_microseconds (tp_stop c - tp_start c),
          dq_size = length (clip_data c), dq_provider = provider s,
          dq_ticket = ticket s, dq_seg = i\<rparr>]\<rparr>)"

definition segment_step ::
  "(nat \<Rightarrow> time \<Rightarrow> time \<Rightarrow> clip list) \<Rightarrow> time \<Rightarrow> time \<Rightarrow> seg_id \<Rightarrow> uploader \<Rightarrow> bool \<times> uploader" where
  "segment_step records t1 t2 i u =
     (let s = store u i in
      if \<not> processed s \<and> \<not> canceled s then
        let s = clip_window s; u = upd_seg i (\<lambda>_. s) u in
        if \<not> period_is_open s \<and> cur_seg_start s \<ge> closed_limit s then
          let u = upd_seg i (\<lambda>s. s\<lparr>processed := True\<rparr>) u in
          (False,
           if uploads_planned (store u i) = 0
           then send_sync_status 0 i (upd_seg i (\<lambda>s. s\<lparr>finished := True\<rparr>) u) else u)
        else if cur_seg_start s = cur_seg_stop s then
          (False, upd_seg i (\<lambda>s. s\<lparr>cur_seg_stop := cur_seg_start s + step s\<rparr>) u)
        else
          let clips = records (provider s) (cur_seg_start s) (cur_seg_stop s);
              c = (case clips of [] \<Rightarrow> no_clip | c # _ \<Rightarrow> c);
              u = u\<lparr>queried := queried u @ [(i, cur_seg_start s, cur_seg_stop s)]\<rparr>;
              u = upd_seg i (advance_window t1 t2 c) u;
              u = (if has_times c then request_upload c i u
                   else if processed (store u i) \<and> uploads_planned (store u i) = 0
                   then send_sync_status 0 i (upd_seg i (\<lambda>s. s\<lparr>finished := True\<rparr>) u)
                   else u)
          in (processed (store u i) \<or> canceled (store u i), u)
      else (processed s \<or> canceled s, u))"

text \<open>\<open>__segmenter_finalize\<close>\<close>

definition segmenter_finalize :: "seg_id \<Rightarrow> time \<Rightarrow> uploader \<Rightarrow> uploader" where
  "segmenter_finalize i stop u = upd_seg i (\<lambda>s. s\<lparr>p_end := stop\<rparr>) u"

section \<open>Skipping what the cloud already has\<close>

text \<open>The body of the loop over slices in \<open>__check_clip_segment\<close>; the flag is \<open>break\<close>.\<close>

definition trim_window :: "period \<Rightarrow> segmenter \<Rightarrow> segmenter" where
  "trim_window sl s =
     (if cur_seg_start s \<ge> p_begin sl then s\<lparr>cur_seg_start := p_end sl\<rparr>
      else s\<lparr>cur_seg_stop := p_begin sl\<rparr>)"

fun check_slices :: "seg_id \<Rightarrow> period list \<Rightarrow> bool \<Rightarrow> uploader \<Rightarrow> bool \<times> uploader" where
  "check_slices i [] upload u = (upload, u)"
| "check_slices i (sl # sls) upload u =
     (let s = store u i in
      if period_intersects sl (make_period (cur_seg_start s) (cur_seg_stop s)) then
        let s1 = trim_window sl s;
            full = cur_seg_stop s1 \<le> cur_seg_start s1;
            s2 = (if full then s1\<lparr>cur_seg_stop := cur_seg_start s1 + step s1\<rparr> else s1);
            upload1 = (if full then False else upload)
        in if cur_seg_start s2 > closed_limit s2 then
             let u1 = upd_seg i (\<lambda>_. s2\<lparr>processed := True, finished := True\<rparr>) u in
             (False, if uploads_planned s2 = 0 then send_sync_status 100 i u1 else u1)
           else check_slices i sls upload1 (upd_seg i (\<lambda>_. s2) u)
      else check_slices i sls upload u)"

definition check_clip_segment ::
  "(time \<Rightarrow> time \<Rightarrow> period list) \<Rightarrow> seg_id \<Rightarrow> uploader \<Rightarrow> bool \<times> uploader" where
  "check_clip_segment slices i u =
     (let s = store u i in check_slices i (slices (cur_seg_start s) (cur_seg_stop s)) True u)"

section \<open>The list of segmenters\<close>

text \<open>\<open>remove_if\<close> with the counter \<open>to_free\<close> that the predicate decrements.\<close>

fun purge_loop :: "(seg_id \<Rightarrow> bool) \<Rightarrow> nat \<Rightarrow> seg_id list \<Rightarrow> seg_id list" where
  "purge_loop need_free to_free [] = []"
| "purge_loop need_free to_free (i # is) =
     (if need_free i \<and> to_free > 0 then purge_loop need_free (to_free - 1) is
      else i # purge_loop need_free to_free is)"

definition purge_segmenters :: "bool \<Rightarrow> bool \<Rightarrow> nat \<Rightarrow> uploader \<Rightarrow> uploader" where
  "purge_segmenters fin proc num u =
     (let to_free = min num (length (segmenters u));
          need_free = (\<lambda>i. (fin \<and> finished (store u i)) \<or>
                            (\<not> fin \<and> (proc \<and> processed (store u i))) \<or> (\<not> fin \<and> \<not> proc))
      in if to_free > 0 then u\<lparr>segmenters := purge_loop need_free to_free (segmenters u)\<rparr> else u)"

definition seg_begin :: "uploader \<Rightarrow> seg_id \<Rightarrow> time" where
  "seg_begin u i = p_begin (store u i)"

text \<open>\<open>__get_current\<close>\<close>

definition get_current :: "uploader \<Rightarrow> seg_id option \<times> uploader" where
  "get_current u =
     (if segmenters u = [] then (None, u)
      else
        let segs = sort_key (seg_begin u) (filter (\<lambda>i. \<not> canceled (store u i)) (segmenters u));
            done_part = takeWhile (\<lambda>i. processed (store u i)) segs;
            num_finished = length (filter (\<lambda>i. finished (store u i)) done_part);
            rest = dropWhile (\<lambda>i. processed (store u i)) segs
        in (case rest of [] \<Rightarrow> None | i # _ \<Rightarrow> Some i,
            purge_segmenters True True (num_finished div 2) (u\<lparr>segmenters := segs\<rparr>)))"

text \<open>\<open>__dump_segmenters\<close>: its \<open>assert(finished <= processed)\<close>.\<close>

definition dump_assert :: "uploader \<Rightarrow> bool" where
  "dump_assert u \<longleftrightarrow>
     length (filter (\<lambda>i. finished (store u i)) (segmenters u))
       \<le> length (filter (\<lambda>i. processed (store u i)) (segmenters u))"

text \<open>The loop of \<open>__adjust_segmenters_current_to_finished\<close> for the current segmenter \<open>c\<close>.\<close>

fun adjust_loop :: "seg_id \<Rightarrow> seg_id list \<Rightarrow> uploader \<Rightarrow> bool \<times> uploader" where
  "adjust_loop c [] u = (False, u)"
| "adjust_loop c (j # js) u =
     (let s = store u c; r = store u j in
      if c \<noteq> j \<and> processed r \<and> seg_intersects s r \<and> cur_seg_start s < cur_seg_start r then
        let s1 = s\<lparr>cur_seg_start := cur_seg_start r, cur_seg_stop := cur_seg_start r + step s\<rparr>
        in if \<not> period_is_open s1 \<and> cur_seg_start s1 \<ge> closed_limit s1
           then (True, send_sync_status 100 c
                  (upd_seg c (\<lambda>_. s1\<lparr>processed := True, finished := True\<rparr>) u))
           else adjust_loop c js (upd_seg c (\<lambda>_. s1) u)
      else adjust_loop c js u)"

text \<open>\<open>None\<close> is the failed assertion.\<close>

definition adjust_current :: "uploader \<Rightarrow> (bool \<times> uploader) option" where
  "adjust_current u =
     (case get_current u of
        (None, u1) \<Rightarrow> Some (False, u1)
      | (Some c, u1) \<Rightarrow> if dump_assert u1 then Some (adjust_loop c (segmenters u1) u1) else None)"

text \<open>\<open>while (__adjust_segmenters_current_to_finished());\<close>\<close>

partial_function (option) adjust_all :: "uploader \<Rightarrow> uploader option" where
  "adjust_all u =
     (case adjust_current u of
        None \<Rightarrow> None
      | Some (again, u1) \<Rightarrow> if again then adjust_all u1 else Some u1)"

text \<open>\<open>__async_loop\<close>\<close>

definition async_loop ::
  "(nat \<Rightarrow> time \<Rightarrow> time \<Rightarrow> clip list) \<Rightarrow> (time \<Rightarrow> time \<Rightarrow> period list) \<Rightarrow> time \<Rightarrow> time \<Rightarrow>
   uploader \<Rightarrow> uploader option" where
  "async_loop records slices t1 t2 u =
     (case adjust_all u of
        None \<Rightarrow> None
      | Some u1 \<Rightarrow>
          let (d, u2) =
            (if segmenters u1 \<noteq> [] then
               (case get_current u1 of
                  (None, u2) \<Rightarrow> (seconds 1, u2)
                | (Some i, u2) \<Rightarrow>
                    let (upload, u3) = check_clip_segment slices i u2;
                        u4 = (if upload then snd (segment_step records t1 t2 i u3) else u3)
                    in (if \<not> processed (store u4 i) then delay (store u4 i) else seconds 1, u4))
             else (seconds 1, u1))
          in Some (u2\<lparr>loop_active := True, loop_delay := to_milliseconds d\<rparr>))"

section \<open>Cancelling, enqueuing, starting and stopping\<close>

definition ticket_match :: "string \<Rightarrow> uploader \<Rightarrow> seg_id \<Rightarrow> bool" where
  "ticket_match t u i \<longleftrightarrow> t = ticket (store u i) \<and> \<not> canceled (store u i)"

definition cancel_one :: "seg_id \<Rightarrow> uploader \<Rightarrow> uploader" where
  "cancel_one i u =
     (let u1 = upd_seg i (\<lambda>s. s\<lparr>canceled := True, finished := True, processed := True\<rparr>) u;
          u2 = u1\<lparr>scheduled := filter (\<lambda>j. j \<noteq> i) (scheduled u1)\<rparr>
      in send_sync_status 100 i u2)"

partial_function (option) cancel_loop :: "string \<Rightarrow> uploader \<Rightarrow> uploader option" where
  "cancel_loop t u =
     (case find (ticket_match t u) (segmenters u) of
        None \<Rightarrow> Some u
      | Some i \<Rightarrow> cancel_loop t (cancel_one i u))"

text \<open>\<open>__segmenter_cancel_by_ticket\<close>\<close>

definition cancel_by_ticket :: "string \<Rightarrow> uploader \<Rightarrow> uploader option" where
  "cancel_by_ticket t u =
     (if t \<noteq> [] then
        map_option (\<lambda>u1. u1\<lparr>canceled_tickets := canceled_tickets u1 @ [t]\<rparr>) (cancel_loop t u)
      else Some u)"

text \<open>\<open>__segmenter_enqueue\<close>\<close>

definition segmenter_enqueue :: "seg_id \<Rightarrow> uploader \<Rightarrow> uploader" where
  "segmenter_enqueue i u =
     u\<lparr>scheduled := filter (\<lambda>j. j \<noteq> i) (scheduled u),
       segmenters := sort_key (seg_begin u) (segmenters u @ [i])\<rparr>"

definition schedule_upload :: "seg_id \<Rightarrow> uploader \<Rightarrow> uploader" where
  "schedule_upload i u = u\<lparr>scheduled := List.insert i (scheduled u)\<rparr>"

definition uploader_start :: "uploader \<Rightarrow> uploader" where
  "uploader_start u = u\<lparr>loop_active := True, loop_delay := 1\<rparr>"

definition uploader_stop :: "uploader \<Rightarrow> uploader" where
  "uploader_stop u =
     purge_segmenters False False (length (segmenters u)) (u\<lparr>scheduled := [], loop_active := False\<rparr>)"

section \<open>The invariant\<close>

text \<open>
  Of one segmenter with \<open>n\<close> uploads under way: finished only when processed, and every planned upload
  is done, failed or under way.
\<close>

definition seg_ok :: "nat \<Rightarrow> segmenter \<Rightarrow> bool" where
  "seg_ok n s \<longleftrightarrow> (finished s \<longrightarrow> processed s) \<and>
     uploads_planned s = uploads_done s + uploads_failed s + n"

definition status_ok :: "sync_status \<Rightarrow> bool" where
  "status_ok st \<longleftrightarrow> ss_progress st \<le> 100 \<and>
     (ss_status st \<in> {MCSS_DONE, MCSS_ERROR} \<longrightarrow> ss_progress st = 100)"

definition uploader_inv :: "uploader \<Rightarrow> bool" where
  "uploader_inv u \<longleftrightarrow> (\<forall>i. seg_ok (count_list (pending u) i) (store u i)) \<and>
     (\<forall>st \<in> set (sent u). status_ok st)"

lemma uploader_invD:
  assumes "uploader_inv u"
  shows "finished (store u i) \<Longrightarrow> processed (store u i)"
    and "uploads_planned (store u i) =
           uploads_done (store u i) + uploads_failed (store u i) + count_list (pending u) i"
    and "seg_ok (count_list (pending u) i) (store u i)"
  using assms by (auto simp: uploader_inv_def seg_ok_def)

lemma uploader_inv_upd [queue_inv]:
  "uploader_inv u \<Longrightarrow> seg_ok (count_list (pending u) i) (f (store u i)) \<Longrightarrow> uploader_inv (upd_seg i f u)"
  by (simp add: uploader_inv_def upd_seg_def)

text \<open>Fields the invariant does not read.\<close>

lemma uploader_inv_frame [simp]:
  "uploader_inv (u\<lparr>segmenters := x1\<rparr>) = uploader_inv u"
  "uploader_inv (u\<lparr>scheduled := x2\<rparr>) = uploader_inv u"
  "uploader_inv (u\<lparr>queried := x3\<rparr>) = uploader_inv u"
  "uploader_inv (u\<lparr>canceled_tickets := x4\<rparr>) = uploader_inv u"
  "uploader_inv (u\<lparr>requested := x5\<rparr>) = uploader_inv u"
  "uploader_inv (u\<lparr>loop_active := x6\<rparr>) = uploader_inv u"
  "uploader_inv (u\<lparr>loop_delay := x7\<rparr>) = uploader_inv u"
  by (simp_all add: uploader_inv_def)

lemma upd_seg_fields [simp]:
  "segmenters (upd_seg i f u) = segmenters u"
  "scheduled (upd_seg i f u) = scheduled u"
  "canceled_tickets (upd_seg i f u) = canceled_tickets u"
  "pending (upd_seg i f u) = pending u"
  "sent (upd_seg i f u) = sent u"
  "requested (upd_seg i f u) = requested u"
  "queried (upd_seg i f u) = queried u"
  "store (upd_seg i f u) = (store u)(i := f (store u i))"
  by (simp_all add: upd_seg_def)

lemma send_sync_status_fields [simp]:
  "segmenters (send_sync_status p i u) = segmenters u"
  "scheduled (send_sync_status p i u) = scheduled u"
  "pending (send_sync_status p i u) = pending u"
  "requested (send_sync_status p i u) = requested u"
  "queried (send_sync_status p i u) = queried u"
  by (auto simp: send_sync_status_def Let_def split: prod.splits)

text \<open>A report changes nothing of a segmenter but its ticket and the canceled flag.\<close>

lemma send_sync_status_flags [simp]:
  "processed (store (send_sync_status p i u) j) = processed (store u j)"
  "finished (store (send_sync_status p i u) j) = finished (store u j)"
  "uploads_planned (store (send_sync_status p i u) j) = uploads_planned (store u j)"
  "uploads_done (store (send_sync_status p i u) j) = uploads_done (store u j)"
  "uploads_failed (store (send_sync_status p i u) j) = uploads_failed (store u j)"
  "cur_seg_start (store (send_sync_status p i u) j) = cur_seg_start (store u j)"
  "cur_seg_stop (store (send_sync_status p i u) j) = cur_seg_stop (store u j)"
  "p_begin (store (send_sync_status p i u) j) = p_begin (store u j)"
  "p_end (store (send_sync_status p i u) j) = p_end (store u j)"
  "post (store (send_sync_status p i u) j) = post (store u j)"
  "step (store (send_sync_status p i u) j) = step (store u j)"
  by (simp_all add: send_sync_status_def Let_def)

lemma send_sync_status_other [simp]: "j \<noteq> i \<Longrightarrow> store (send_sync_status p i u) j = store u j"
  by (simp add: send_sync_status_def Let_def)

lemma canceled_send [simp]:
  "canceled (store u j) \<Longrightarrow> canceled (store (send_sync_status p i u) j)"
  by (auto simp: send_sync_status_def Let_def)

lemma send_sync_status_sent:
  "sent (send_sync_status p i u) = sent u \<or>
   (\<exists>st. sent (send_sync_status p i u) = sent u @ [st] \<and> status_ok st)"
  by (auto simp: send_sync_status_def Let_def status_ok_def)

lemma uploader_inv_send [queue_inv]:
  assumes "uploader_inv u"
  shows "uploader_inv (send_sync_status p i u)"
  using assms send_sync_status_sent [of p i u]
  by (auto simp: uploader_inv_def seg_ok_def)

lemma uploader_inv_request [queue_inv]:
  "uploader_inv u \<Longrightarrow> uploader_inv (request_upload c i u)"
  by (auto simp: uploader_inv_def request_upload_def seg_ok_def Let_def)

lemma count_list_remove1:
  "count_list (remove1 x xs) y = count_list xs y - (if x = y then 1 else 0)"
  by (induction xs) (auto simp: count_list_0_iff)

text \<open>An upload under way that ends: the callback returns and keeps the invariant.\<close>

lemma on_finished_inv:
  assumes inv: "uploader_inv u" and i: "i \<in> set (pending u)"
  shows "\<exists>u'. on_finished i ok u = Some u' \<and> uploader_inv u'"
proof -
  have n: "0 < count_list (pending u) i"
    using i by (simp add: count_list_0_iff neq0_conv [symmetric] del: neq0_conv)
  let ?s = "store u i"
  define s1 where "s1 = ?s\<lparr>uploads_done := uploads_done ?s + (if ok then 1 else 0),
                           uploads_failed := uploads_failed ?s + (if ok then 0 else 1)\<rparr>"
  define u' where "u' = u\<lparr>store := (store u)(i := s1\<lparr>finished := processed s1 \<and> uploads_complete s1\<rparr>),
                          pending := remove1 i (pending u)\<rparr>"
  have "uploader_inv u'"
    using inv n by (auto simp: uploader_inv_def u'_def s1_def seg_ok_def count_list_remove1)
  moreover have "uploads_planned s1 \<noteq> 0"
    using uploader_invD(2) [OF inv, of i] n by (simp add: s1_def)
  moreover have "on_finished i ok u =
      (if ticket s1 = [] then Some u'
       else if processed s1 then
         (if uploads_planned s1 = 0 then None
          else Some (send_sync_status
                 ((uploads_done s1 + uploads_failed s1) * 100 div uploads_planned s1) i u'))
       else Some (send_sync_status 0 i u'))"
    by (simp add: on_finished_def Let_def s1_def u'_def)
  ultimately show ?thesis
    by (auto intro: uploader_inv_send)
qed

lemma seg_ok_window [simp]:
  "seg_ok n (s\<lparr>cur_seg_start := a\<rparr>) = seg_ok n s"
  "seg_ok n (s\<lparr>cur_seg_stop := b\<rparr>) = seg_ok n s"
  "seg_ok n (s\<lparr>p_end := e\<rparr>) = seg_ok n s"
  "seg_ok n s \<Longrightarrow> seg_ok n (s\<lparr>processed := True\<rparr>)"
  "seg_ok n (s\<lparr>processed := True, finished := True\<rparr>) = seg_ok n (s\<lparr>processed := True\<rparr>)"
  by (auto simp: seg_ok_def)

lemma seg_ok_clip_window [simp]: "seg_ok n (clip_window s) = seg_ok n s"
  by (simp add: clip_window_def)

lemma seg_ok_trim_window [simp]: "seg_ok n (trim_window sl s) = seg_ok n s"
  by (simp add: trim_window_def)

lemma seg_ok_advance_window [simp]: "seg_ok n s \<Longrightarrow> seg_ok n (advance_window t1 t2 c s)"
  by (simp add: advance_window_def Let_def seg_ok_def)

lemma uploader_inv_finish [queue_inv]:
  "uploader_inv u \<Longrightarrow> processed (store u i) \<Longrightarrow> uploader_inv (upd_seg i (\<lambda>s. s\<lparr>finished := True\<rparr>) u)"
  by (auto simp: uploader_inv_def seg_ok_def)

lemma segment_step_inv:
  assumes "uploader_inv u"
  shows "uploader_inv (snd (segment_step records t1 t2 i u))"
  using assms uploader_invD(3) [OF assms, of i]
  by (auto simp: segment_step_def Let_def intro!: queue_inv)

lemma check_slices_inv:
  "uploader_inv u \<Longrightarrow> uploader_inv (snd (check_slices i sls b u))"
proof (induction sls arbitrary: b u)
  case (Cons sl sls)
  have "seg_ok (count_list (pending u) i) (store u i)"
    using Cons.prems by (rule uploader_invD)
  then show ?case
    using Cons.prems by (auto simp: Let_def intro!: queue_inv Cons.IH)
qed simp

lemma check_clip_segment_inv: "uploader_inv u \<Longrightarrow> uploader_inv (snd (check_clip_segment slices i u))"
  by (simp add: check_clip_segment_def Let_def check_slices_inv)

lemma purge_store [simp]: "store (purge_segmenters f p n u) = store u"
  by (simp add: purge_segmenters_def Let_def)

lemma purge_inv [simp]: "uploader_inv (purge_segmenters f p n u) = uploader_inv u"
  by (simp add: purge_segmenters_def Let_def)

lemma get_current_inv [simp]: "uploader_inv (snd (get_current u)) = uploader_inv u"
  by (simp add: get_current_def Let_def)

lemma get_current_store [simp]: "store (snd (get_current u)) = store u"
  by (simp add: get_current_def Let_def)

lemma adjust_loop_inv: "uploader_inv u \<Longrightarrow> uploader_inv (snd (adjust_loop c js u))"
proof (induction js arbitrary: u)
  case (Cons j js)
  have "seg_ok (count_list (pending u) c) (store u c)"
    using Cons.prems by (rule uploader_invD)
  then show ?case
    using Cons.prems by (auto simp: Let_def intro!: queue_inv Cons.IH)
qed simp

text \<open>The assertion of \<open>__dump_segmenters\<close> follows from the invariant.\<close>

lemma length_filter_mono:
  "(\<And>x. P x \<Longrightarrow> Q x) \<Longrightarrow> length (filter P xs) \<le> length (filter Q xs)"
  by (induction xs) (auto intro: le_SucI)

lemma dump_assert_inv: "uploader_inv u \<Longrightarrow> dump_assert u"
  unfolding dump_assert_def by (intro length_filter_mono) (rule uploader_invD)


section \<open>The current segmenter\<close>

lemma purge_loop_subset: "set (purge_loop P n is) \<subseteq> set is"
  by (induction P n "is" rule: purge_loop.induct) auto

lemma purge_loop_keeps: "i \<in> set is \<Longrightarrow> \<not> P i \<Longrightarrow> i \<in> set (purge_loop P n is)"
  by (induction P n "is" rule: purge_loop.induct) auto

lemma purge_loop_length:
  "length (purge_loop P n is) = length is - min n (length (filter P is))"
proof (induction P n "is" rule: purge_loop.induct)
  case (2 P n i "is")
  then show ?case
    by (auto simp: min_def intro!: Suc_diff_le [symmetric] elim: order_trans)
qed simp

lemma purge_loop_filter: "filter (\<lambda>i. \<not> P i) (purge_loop P n is) = filter (\<lambda>i. \<not> P i) is"
  by (induction P n "is" rule: purge_loop.induct) auto

lemma purge_segmenters_set: "set (segmenters (purge_segmenters f p n u)) \<subseteq> set (segmenters u)"
  by (simp add: purge_segmenters_def Let_def purge_loop_subset)

lemma get_current_subset: "set (segmenters (snd (get_current u))) \<subseteq> set (segmenters u)"
proof (cases "segmenters u = []")
  case False
  then show ?thesis
    using purge_segmenters_set by (fastforce simp: get_current_def Let_def)
qed (simp add: get_current_def)

lemma sorted_dropWhile_key: "sorted (map f xs) \<Longrightarrow> sorted (map f (dropWhile P xs))"
  by (simp add: sorted_map)

lemma dropWhile_head:
  assumes "sorted (map f xs)" "dropWhile P xs = y # ys"
  shows "y \<in> set xs" "\<not> P y" "\<And>x. x \<in> set xs \<Longrightarrow> \<not> P x \<Longrightarrow> f y \<le> f x"
proof -
  show y: "y \<in> set xs" using assms(2) by (metis list.set_intros(1) set_dropWhileD)
  show "\<not> P y" using assms(2) by (metis dropWhile_eq_Cons_conv)
  fix x assume x: "x \<in> set xs" "\<not> P x"
  then have "x \<in> set (dropWhile P xs)"
    by (metis UnE set_append set_takeWhileD takeWhile_dropWhile_id)
  moreover have "sorted (map f (y # ys))"
    using sorted_dropWhile_key [OF assms(1)] assms(2) by metis
  ultimately show "f y \<le> f x" using assms(2) by auto
qed

lemma get_current_some:
  assumes "fst (get_current u) = Some i"
  shows "i \<in> set (segmenters u)" "\<not> canceled (store u i)" "\<not> processed (store u i)"
    "\<And>j. j \<in> set (segmenters u) \<Longrightarrow> \<not> canceled (store u j) \<Longrightarrow> \<not> processed (store u j) \<Longrightarrow>
        seg_begin u i \<le> seg_begin u j"
proof -
  let ?segs = "sort_key (seg_begin u) (filter (\<lambda>i. \<not> canceled (store u i)) (segmenters u))"
  obtain ys where ys: "dropWhile (\<lambda>i. processed (store u i)) ?segs = i # ys"
    using assms by (auto simp: get_current_def Let_def split: if_splits list.splits)
  have s: "sorted (map (seg_begin u) ?segs)" by simp
  note h = dropWhile_head [OF s ys]
  show "i \<in> set (segmenters u)" "\<not> canceled (store u i)" using h(1) by auto
  show "\<not> processed (store u i)" using h(2) .
  show "seg_begin u i \<le> seg_begin u j"
    if "j \<in> set (segmenters u)" "\<not> canceled (store u j)" "\<not> processed (store u j)" for j
    using h(3) [of j] that by simp
qed

lemma get_current_none:
  assumes "fst (get_current u) = None" "j \<in> set (segmenters u)" "\<not> canceled (store u j)"
  shows "processed (store u j)"
  using assms by (force simp: get_current_def Let_def split: if_splits list.splits)

lemma get_current_keeps:
  assumes "j \<in> set (segmenters u)" "\<not> canceled (store u j)" "\<not> finished (store u j)"
  shows "j \<in> set (segmenters (snd (get_current u)))"
  using assms by (auto simp: get_current_def Let_def purge_segmenters_def intro!: purge_loop_keeps)

section \<open>The adjustment loop ends\<close>

lemma adjust_loop_fields [simp]:
  "segmenters (snd (adjust_loop c js u)) = segmenters u"
  "j \<noteq> c \<Longrightarrow> store (snd (adjust_loop c js u)) j = store u j"
  by (induction c js u rule: adjust_loop.induct) (simp_all add: Let_def)

lemma adjust_loop_processed: "fst (adjust_loop c js u) \<Longrightarrow> processed (store (snd (adjust_loop c js u)) c)"
  by (induction c js u rule: adjust_loop.induct) (auto simp: Let_def split: if_splits)

lemma seg_intersects_window [simp]:
  "seg_intersects (s\<lparr>cur_seg_start := a, cur_seg_stop := b\<rparr>) r = seg_intersects s r"
  by (simp add: seg_intersects_def)

lemma adjust_loop_mono: "cur_seg_start (store u c) \<le> cur_seg_start (store (snd (adjust_loop c js u)) c)"
proof (induction c js u rule: adjust_loop.induct)
  case (2 c j js u)
  then show ?case by (auto simp: Let_def intro: order_trans [OF less_imp_le])
qed simp

lemma adjust_loop_ahead:
  assumes "\<not> fst (adjust_loop c js u)" "j \<in> set js" "j \<noteq> c" "processed (store u j)"
    "seg_intersects (store u c) (store u j)"
  shows "cur_seg_start (store u j) \<le> cur_seg_start (store (snd (adjust_loop c js u)) c)"
  using assms
proof (induction c js u rule: adjust_loop.induct)
  case (2 c k js u)
  show ?case
  proof (cases "j = k")
    case True
    with 2 show ?thesis
      using adjust_loop_mono [of u c js]
        adjust_loop_mono [of "upd_seg c (\<lambda>_. (store u c)\<lparr>cur_seg_start := cur_seg_start (store u k),
          cur_seg_stop := cur_seg_start (store u k) + step (store u c)\<rparr>) u" c js]
      by (auto simp: Let_def split: if_splits)
  next
    case False
    with 2 show ?thesis by (auto simp: Let_def split: if_splits)
  qed
qed simp

definition unprocessed :: "uploader \<Rightarrow> seg_id set" where
  "unprocessed u = {i \<in> set (segmenters u). \<not> processed (store u i)}"

lemma finite_unprocessed [simp]: "finite (unprocessed u)"
  by (simp add: unprocessed_def)

lemma adjust_current_step:
  assumes inv: "uploader_inv u"
  obtains again u1 where "adjust_current u = Some (again, u1)" "uploader_inv u1"
    "again \<Longrightarrow> unprocessed u1 \<subset> unprocessed u"
proof (cases "get_current u")
  case (Pair r u1)
  have inv1: "uploader_inv u1" using inv Pair get_current_inv [of u] by simp
  have st: "store u1 = store u" using Pair get_current_store [of u] by simp
  have sub: "set (segmenters u1) \<subseteq> set (segmenters u)" using Pair get_current_subset [of u] by simp
  show thesis
  proof (cases r)
    case None
    with Pair inv1 that [of False u1] show thesis by (simp add: adjust_current_def)
  next
    case (Some c)
    obtain again u2 where l: "adjust_loop c (segmenters u1) u1 = (again, u2)" by fastforce
    have c: "c \<in> unprocessed u"
      using get_current_some [of u c] Pair Some by (simp add: unprocessed_def)
    have "unprocessed u2 \<subset> unprocessed u" if again
    proof -
      have "c \<notin> unprocessed u2"
        using adjust_loop_processed [of c "segmenters u1" u1] l that by (simp add: unprocessed_def)
      moreover have "j \<in> unprocessed u" if "j \<in> unprocessed u2" for j
        using that c sub st adjust_loop_fields(1) [of c "segmenters u1" u1]
          adjust_loop_fields(2) [of j c "segmenters u1" u1] l
        by (cases "j = c") (auto simp: unprocessed_def)
      ultimately show ?thesis using c by blast
    qed
    then show thesis
      using that [of again u2] Pair Some l dump_assert_inv [OF inv1] adjust_loop_inv [OF inv1, of c "segmenters u1"]
      by (simp add: adjust_current_def)
  qed
qed

lemma adjust_all_returns:
  assumes "uploader_inv u"
  shows "\<exists>u'. adjust_all u = Some u' \<and> uploader_inv u'"
  using assms
proof (induction "card (unprocessed u)" arbitrary: u rule: less_induct)
  case less
  obtain again u1 where s: "adjust_current u = Some (again, u1)" "uploader_inv u1"
    "again \<Longrightarrow> unprocessed u1 \<subset> unprocessed u"
    using adjust_current_step [OF less.prems] by metis
  show ?case
  proof (cases again)
    case True
    then have "card (unprocessed u1) < card (unprocessed u)"
      using s(3) by (intro psubset_card_mono) auto
    from less.hyps [OF this s(2)] True s(1) show ?thesis
      by (subst adjust_all.simps) simp
  next
    case False
    with s show ?thesis by (subst adjust_all.simps) simp
  qed
qed

lemma async_loop_returns:
  assumes "uploader_inv u"
  shows "\<exists>u'. async_loop records slices t1 t2 u = Some u' \<and> uploader_inv u'"
proof -
  obtain u1 where u1: "adjust_all u = Some u1" "uploader_inv u1"
    using adjust_all_returns [OF assms] by blast
  obtain r u2 where g: "get_current u1 = (r, u2)" by fastforce
  have u2: "uploader_inv u2" using u1(2) get_current_inv [of u1] g by simp
  have "uploader_inv (snd (check_clip_segment slices i u2))" for i
    using u2 by (rule check_clip_segment_inv)
  then show ?thesis
    using u1 u2 g by (auto simp: async_loop_def Let_def split: prod.splits option.splits)
       (metis segment_step_inv snd_conv)+
qed

section \<open>Cancelling\<close>

definition matching :: "string \<Rightarrow> uploader \<Rightarrow> seg_id set" where
  "matching t u = {i \<in> set (segmenters u). ticket_match t u i}"

definition cancel_seg :: "segmenter \<Rightarrow> segmenter" where
  "cancel_seg s = s\<lparr>canceled := True, finished := True, processed := True\<rparr>"

lemma cancel_one_fields:
  assumes "ticket (store u i) \<noteq> []"
  shows "store (cancel_one i u) = (store u)(i := cancel_seg (store u i))"
    "segmenters (cancel_one i u) = segmenters u"
    "pending (cancel_one i u) = pending u"
    "sent (cancel_one i u) = sent u @ [\<lparr>ss_request_id = ticket (store u i), ss_progress = 100,
                                         ss_status = MCSS_CANCELED\<rparr>]"
  using assms
  by (simp_all add: cancel_one_def send_sync_status_def Let_def upd_seg_def cancel_seg_def)
     (cases "store u i", simp)

lemma cancel_one_inv: "uploader_inv u \<Longrightarrow> uploader_inv (cancel_one i u)"
  using uploader_invD(3) [of u i] by (auto simp: cancel_one_def Let_def seg_ok_def intro!: queue_inv)

lemma finite_matching [simp]: "finite (matching t u)"
  by (simp add: matching_def)

lemma matching_cancel_one:
  assumes "i \<in> matching t u" "t \<noteq> []"
  shows "matching t (cancel_one i u) = matching t u - {i}"
  using assms by (auto simp: matching_def ticket_match_def cancel_one_fields cancel_seg_def split: if_splits)

text \<open>
  The loop over \<open>find_if\<close> ends, and what it does: every matching segmenter is canceled, processed and
  finished, one report is sent for each, and nothing else changes.
\<close>

definition canceled_report :: "string \<Rightarrow> sync_status" where
  "canceled_report t = \<lparr>ss_request_id = t, ss_progress = 100, ss_status = MCSS_CANCELED\<rparr>"

definition cancel_result :: "string \<Rightarrow> uploader \<Rightarrow> uploader \<Rightarrow> bool" where
  "cancel_result t u u' \<longleftrightarrow> segmenters u' = segmenters u \<and> pending u' = pending u \<and>
     (\<forall>i. store u' i = (if i \<in> matching t u then cancel_seg (store u i) else store u i)) \<and>
     sent u' = sent u @ replicate (card (matching t u)) (canceled_report t)"

lemma cancel_result_step:
  assumes i: "i \<in> matching t u" and t: "t \<noteq> []" and r: "cancel_result t (cancel_one i u) u'"
  shows "cancel_result t u u'"
proof -
  have tk: "ticket (store u i) = t" using i by (simp add: matching_def ticket_match_def)
  with t have ne: "ticket (store u i) \<noteq> []" by simp
  note f = cancel_one_fields [OF ne] and m = matching_cancel_one [OF i t]
  have "card (matching t u) = Suc (card (matching t u - {i}))"
    using i by (intro card.remove) auto
  then have "sent u' = sent u @ replicate (card (matching t u)) (canceled_report t)"
    using r by (simp add: cancel_result_def m f(4) tk canceled_report_def)
  moreover have "store u' j = (if j \<in> matching t u then cancel_seg (store u j) else store u j)" for j
    using r i by (cases "j = i") (simp_all add: cancel_result_def m f(1))
  ultimately show ?thesis
    using r by (simp add: cancel_result_def f(2,3))
qed

lemma cancel_loop_returns:
  assumes t: "t \<noteq> []"
  shows "\<exists>u'. cancel_loop t u = Some u' \<and> cancel_result t u u' \<and> (uploader_inv u \<longrightarrow> uploader_inv u')"
proof (induction "card (matching t u)" arbitrary: u)
  case 0
  then have "matching t u = {}" by simp
  then have "find (ticket_match t u) (segmenters u) = None"
    by (auto simp: matching_def find_None_iff)
  with \<open>matching t u = {}\<close> show ?case
    by (subst cancel_loop.simps) (simp add: cancel_result_def)
next
  case (Suc n)
  from Suc.hyps(2) have "matching t u \<noteq> {}" by auto
  then obtain i where f: "find (ticket_match t u) (segmenters u) = Some i"
    by (cases "find (ticket_match t u) (segmenters u)") (auto simp: matching_def find_None_iff)
  then have i: "i \<in> matching t u"
    by (auto simp: matching_def find_Some_iff)
  have n: "n = card (matching t (cancel_one i u))"
    using Suc.hyps(2) i by (simp add: matching_cancel_one [OF i t])
  have s: "cancel_loop t u = cancel_loop t (cancel_one i u)"
    using f by (subst cancel_loop.simps) simp
  from Suc.hyps(1) [OF n] show ?case
    unfolding s using cancel_result_step [OF i t] cancel_one_inv [of u i] by blast
qed

lemma cancel_by_ticket_returns:
  assumes "uploader_inv u"
  shows "\<exists>u'. cancel_by_ticket t u = Some u' \<and> uploader_inv u'"
  using cancel_loop_returns [of t u] assms by (cases "t = []") (auto simp: cancel_by_ticket_def)

section \<open>The uploader as a transition system\<close>

text \<open>
  A segmenter as \<open>make_shared\<close> leaves it, whatever its window; and the edits a client makes to one it
  shares with the uploader: borders, window, provider, but no flag and no counter.
\<close>

definition fresh_seg :: "segmenter \<Rightarrow> bool" where
  "fresh_seg s \<longleftrightarrow> \<not> processed s \<and> \<not> canceled s \<and> \<not> finished s \<and>
     uploads_planned s = 0 \<and> uploads_done s = 0 \<and> uploads_failed s = 0"

definition client_edit :: "segmenter \<Rightarrow> segmenter \<Rightarrow> bool" where
  "client_edit s s' \<longleftrightarrow> processed s' = processed s \<and> canceled s' = canceled s \<and> finished s' = finished s \<and>
     uploads_planned s' = uploads_planned s \<and> uploads_done s' = uploads_done s \<and>
     uploads_failed s' = uploads_failed s"

inductive ustep :: "uploader \<Rightarrow> uploader \<Rightarrow> bool" where
  ustep_new: "i \<notin> set (segmenters u) \<union> set (scheduled u) \<union> set (pending u) \<Longrightarrow> fresh_seg s \<Longrightarrow>
     ustep u (upd_seg i (\<lambda>_. s) u)"
| ustep_edit: "client_edit (store u i) s \<Longrightarrow> ustep u (upd_seg i (\<lambda>_. s) u)"
| ustep_schedule: "ustep u (schedule_upload i u)"
| ustep_enqueue: "i \<in> set (scheduled u) \<Longrightarrow> ustep u (segmenter_enqueue i u)"
| ustep_loop: "loop_active u \<Longrightarrow> async_loop records slices t1 t2 u = Some u' \<Longrightarrow> ustep u u'"
| ustep_finished: "i \<in> set (pending u) \<Longrightarrow> on_finished i ok u = Some u' \<Longrightarrow> ustep u u'"
| ustep_cancel: "cancel_by_ticket t u = Some u' \<Longrightarrow> ustep u u'"
| ustep_finalize: "ustep u (segmenter_finalize i stop u)"
| ustep_start: "ustep u (uploader_start u)"
| ustep_stop: "ustep u (uploader_stop u)"

definition uploader_init :: "uploader \<Rightarrow> bool" where
  "uploader_init u \<longleftrightarrow> segmenters u = [] \<and> canceled_tickets u = [] \<and> scheduled u = [] \<and> sent u = [] \<and>
     requested u = [] \<and> queried u = [] \<and> pending u = [] \<and> \<not> loop_active u \<and> (\<forall>i. fresh_seg (store u i))"

definition uploader_reachable :: "uploader \<Rightarrow> bool" where
  "uploader_reachable u \<longleftrightarrow> (\<exists>u0. uploader_init u0 \<and> ustep\<^sup>*\<^sup>* u0 u)"

lemma uploader_inv_init: "uploader_init u \<Longrightarrow> uploader_inv u"
  by (simp add: uploader_init_def uploader_inv_def fresh_seg_def seg_ok_def)

lemma uploader_inv_step: "ustep u u' \<Longrightarrow> uploader_inv u \<Longrightarrow> uploader_inv u'"
proof (induction rule: ustep.induct)
  case (ustep_new i u s)
  then show ?case
    by (auto intro!: uploader_inv_upd simp: seg_ok_def fresh_seg_def count_list_0_iff)
next
  case (ustep_edit u i s)
  then show ?case
    using uploader_invD(3) [of u i] by (auto intro!: uploader_inv_upd simp: seg_ok_def client_edit_def)
next
  case (ustep_loop u records slices t1 t2 u')
  then show ?case using async_loop_returns [of u records slices t1 t2] by auto
next
  case (ustep_finished i u ok u')
  then show ?case using on_finished_inv [of u i ok] by auto
next
  case (ustep_cancel t u u')
  then show ?case using cancel_by_ticket_returns [of u t] by auto
next
  case (ustep_finalize u i stop)
  then show ?case
    using uploader_invD(3) [of u i] by (auto simp: segmenter_finalize_def intro!: uploader_inv_upd)
qed (simp_all add: schedule_upload_def segmenter_enqueue_def uploader_start_def uploader_stop_def)

lemma uploader_inv_steps: "ustep\<^sup>*\<^sup>* u u' \<Longrightarrow> uploader_inv u \<Longrightarrow> uploader_inv u'"
  by (induction rule: rtranclp_induct) (auto intro: uploader_inv_step)

lemma uploader_inv_reachable: "uploader_reachable u \<Longrightarrow> uploader_inv u"
  by (auto simp: uploader_reachable_def intro: uploader_inv_steps uploader_inv_init)

section \<open>Windows\<close>

lemma clip_window_fields [simp]:
  "cur_seg_start (clip_window s) = cur_seg_start s" "p_end (clip_window s) = p_end s"
  "closed_limit (clip_window s) = closed_limit s" "step (clip_window s) = step s" "post (clip_window s) = post s"
  "period_is_open (clip_window s) = period_is_open s"
  by (simp_all add: clip_window_def closed_limit_def period_is_open_def)

lemma clip_window_stop:
  "\<not> period_is_open s \<Longrightarrow> cur_seg_stop (clip_window s) = min (cur_seg_stop s) (closed_limit s)"
  by (simp add: clip_window_def closed_limit_def)

lemma request_upload_fields [simp]:
  "queried (request_upload c i u) = queried u"
  "store (request_upload c i u) = (store u)(i := (store u i)\<lparr>uploads_planned := uploads_planned (store u i) + 1\<rparr>)"
  by (simp_all add: request_upload_def Let_def)

text \<open>A step asks the stream for one window at most, and of a closed segmenter never past its end.\<close>

lemma segment_step_query:
  "queried (snd (segment_step records t1 t2 i u)) = queried u \<or>
   (\<exists>a b. queried (snd (segment_step records t1 t2 i u)) = queried u @ [(i, a, b)] \<and>
     a = cur_seg_start (store u i) \<and> a \<noteq> b \<and>
     (p_end (store u i) = time_null \<and> b = cur_seg_stop (store u i) \<or>
      p_end (store u i) \<noteq> time_null \<and> b = min (cur_seg_stop (store u i)) (closed_limit (store u i)) \<and>
      a < closed_limit (store u i)))"
proof (cases "period_is_open (store u i)")
  case True
  then have "clip_window (store u i) = store u i" by (simp add: clip_window_def)
  with True show ?thesis
    by (simp add: segment_step_def Let_def period_is_open_def)
next
  case False
  then show ?thesis
    by (simp add: segment_step_def Let_def clip_window_stop) (simp add: period_is_open_def)
qed

section \<open>A closed segmenter is processed to its end\<close>

definition window_wf :: "segmenter \<Rightarrow> bool" where
  "window_wf s \<longleftrightarrow> p_end s \<noteq> time_null \<and> 0 < step s \<and> cur_seg_start s \<le> cur_seg_stop s"

text \<open>What a stream promises: a clip it exports for a window ends after the window's start.\<close>

definition exports_forward :: "(nat \<Rightarrow> time \<Rightarrow> time \<Rightarrow> clip list) \<Rightarrow> bool" where
  "exports_forward records \<longleftrightarrow>
     (\<forall>p a b. a < b \<longrightarrow> (case records p a b of [] \<Rightarrow> True | c # _ \<Rightarrow> has_times c \<longrightarrow> a < tp_stop c))"

definition window_left :: "segmenter \<Rightarrow> nat" where
  "window_left s = 2 * nat (closed_limit s - cur_seg_start s) +
     (if cur_seg_start s = cur_seg_stop s then 1 else 0)"

lemma next_start_forward:
  assumes "cur_seg_start s < cur_seg_stop s" "has_times c \<Longrightarrow> cur_seg_start s < tp_stop c"
  shows "cur_seg_start s < next_start c s"
  using assms by (auto simp: next_start_def)

lemma advance_window_progress:
  fixes t1 t2 :: time
  assumes "window_wf s" "cur_seg_start s < cur_seg_stop s" "cur_seg_start s < closed_limit s"
    "has_times c \<Longrightarrow> cur_seg_start s < tp_stop c"
  defines "s' \<equiv> advance_window t1 t2 c s"
  shows "window_wf s'" "window_left s' < window_left s"
proof -
  let ?s1 = "s\<lparr>delay := next_delay t1 c s, last_processed_time := t2\<rparr>"
  have "cur_seg_start s < next_start c ?s1"
    using next_start_forward [of ?s1 c] assms by simp
  then show "window_wf s'" "window_left s' < window_left s"
    using assms by (auto simp: s'_def advance_window_def Let_def window_wf_def window_left_def closed_limit_def)
qed

lemma window_wf_planned [simp]:
  "window_wf (s\<lparr>uploads_planned := n\<rparr>) = window_wf s" "window_left (s\<lparr>uploads_planned := n\<rparr>) = window_left s"
  "window_wf (s\<lparr>finished := f\<rparr>) = window_wf s" "window_left (s\<lparr>finished := f\<rparr>) = window_left s"
  by (simp_all add: window_wf_def window_left_def closed_limit_def)

lemma advance_window_canceled [simp]: "canceled (advance_window t1 t2 c s) = canceled s"
  by (simp add: advance_window_def Let_def)

lemma segment_step_progress:
  fixes t1 t2 :: time
  assumes f: "exports_forward records" and s: "\<not> processed (store u i)" "\<not> canceled (store u i)"
    "window_wf (store u i)"
  defines "s' \<equiv> store (snd (segment_step records t1 t2 i u)) i"
  shows "processed s' \<or> window_wf s' \<and> \<not> canceled s' \<and> window_left s' < window_left (store u i)"
proof -
  let ?s = "store u i" and ?c = "clip_window (store u i)"
  have o: "\<not> period_is_open ?s" using s by (simp add: window_wf_def period_is_open_def)
  note stop = clip_window_stop [OF o]
  have cc: "canceled ?c = canceled ?s" "processed ?c = processed ?s" "provider ?c = provider ?s"
    by (simp_all add: clip_window_def)
  show ?thesis
  proof (cases "cur_seg_start ?s \<ge> closed_limit ?s")
    case True
    then show ?thesis using s o by (simp add: s'_def segment_step_def Let_def)
  next
    case lt: False
    show ?thesis
    proof (cases "cur_seg_start ?s = cur_seg_stop ?c")
      case True
      then have e: "cur_seg_start ?s = cur_seg_stop ?s" using stop lt by simp
      show ?thesis
        using True lt s o e
        by (simp add: s'_def segment_step_def Let_def cc window_wf_def window_left_def closed_limit_def)
    next
      case False
      have w: "window_wf ?c" "cur_seg_start ?c < cur_seg_stop ?c" "cur_seg_start ?c < closed_limit ?c"
        using s stop lt False by (auto simp: window_wf_def min_def split: if_splits)
      define c where "c = (case records (provider ?s) (cur_seg_start ?s) (cur_seg_stop ?c) of
                             [] \<Rightarrow> no_clip | c # _ \<Rightarrow> c)"
      have "has_times c \<longrightarrow> cur_seg_start ?c < tp_stop c"
        using f [unfolded exports_forward_def, rule_format, OF w(2), of "provider ?s"]
        by (auto simp: c_def no_clip_def has_times_def split: list.splits)
      then have a: "window_wf (advance_window t1 t2 c ?c)"
        "window_left (advance_window t1 t2 c ?c) < window_left ?c"
        using advance_window_progress [of ?c c t1 t2] w by auto
      have "window_left ?c \<le> window_left ?s"
        using False lt stop by (simp add: window_left_def)
      then show ?thesis
        using a s o lt False unfolding s'_def
        by (simp add: segment_step_def Let_def cc c_def [symmetric])
    qed
  qed
qed

text \<open>A run of steps of one segmenter, the stream and the clock free to answer differently each time.\<close>

primrec seg_run ::
  "seg_id \<Rightarrow> (nat \<Rightarrow> nat \<Rightarrow> time \<Rightarrow> time \<Rightarrow> clip list) \<Rightarrow> (nat \<Rightarrow> time \<times> time) \<Rightarrow> uploader \<Rightarrow> nat \<Rightarrow> uploader" where
  "seg_run i recs clock u 0 = u"
| "seg_run i recs clock u (Suc n) =
     snd (segment_step (recs n) (fst (clock n)) (snd (clock n)) i (seg_run i recs clock u n))"

lemma seg_run_measure:
  assumes "\<And>n. exports_forward (recs n)" "\<not> processed (store u i)" "\<not> canceled (store u i)" "window_wf (store u i)"
  shows "(\<exists>m \<le> n. processed (store (seg_run i recs clock u m) i)) \<or>
     (\<not> canceled (store (seg_run i recs clock u n) i) \<and> window_wf (store (seg_run i recs clock u n) i) \<and>
      n + window_left (store (seg_run i recs clock u n) i) \<le> window_left (store u i))"
proof (induction n)
  case (Suc n)
  show ?case
  proof (cases "\<exists>m \<le> n. processed (store (seg_run i recs clock u m) i)")
    case True
    then show ?thesis using le_Suc_eq by blast
  next
    case False
    with Suc have IH: "\<not> canceled (store (seg_run i recs clock u n) i)" "window_wf (store (seg_run i recs clock u n) i)"
      "n + window_left (store (seg_run i recs clock u n) i) \<le> window_left (store u i)"
      "\<not> processed (store (seg_run i recs clock u n) i)" by auto
    show ?thesis
      using segment_step_progress [OF assms(1) IH(4,1,2), of n "fst (clock n)" "snd (clock n)"] IH(3)
      by (auto simp: le_Suc_eq)
  qed
qed (use assms in simp)

lemma segmenter_processed:
  assumes "\<And>n. exports_forward (recs n)" "\<not> processed (store u i)" "\<not> canceled (store u i)" "window_wf (store u i)"
  shows "\<exists>n \<le> Suc (window_left (store u i)). processed (store (seg_run i recs clock u n) i)"
  using seg_run_measure [OF assms, where n = "Suc (window_left (store u i))" and clock = clock] by auto

section \<open>A segmenter whose event is still going on\<close>

text \<open>
  An open segmenter's end is null, so \<open>end + post\<close> is far in the past: the first slice on the cloud
  that meets its window makes \<open>__check_clip_segment\<close> finish it.
\<close>

lemma check_slices_open:
  assumes "p_end (store u i) = time_null" "post (store u i) < cur_seg_start (store u i)"
    "p_end sl \<noteq> time_null"
    "period_intersects sl (make_period (cur_seg_start (store u i)) (cur_seg_stop (store u i)))"
  shows "fst (check_slices i (sl # sls) b u) = False"
    "processed (store (snd (check_slices i (sl # sls) b u)) i)"
    "finished (store (snd (check_slices i (sl # sls) b u)) i)"
proof -
  let ?s = "trim_window sl (store u i)"
  have "cur_seg_start (store u i) < p_end sl"
    using assms(3,4) by (auto simp: period_intersects_def Let_def split: if_splits)
  then have "closed_limit ?s < cur_seg_start ?s"
    using assms(1,2) by (simp add: trim_window_def closed_limit_def time_null_def)
  then show "fst (check_slices i (sl # sls) b u) = False"
    "processed (store (snd (check_slices i (sl # sls) b u)) i)"
    "finished (store (snd (check_slices i (sl # sls) b u)) i)"
    using assms(4) by (simp_all add: Let_def closed_limit_def)
qed

section \<open>Properties\<close>

text \<open>A concrete uploader for the instances below: one closed segmenter of ten seconds with a ticket.\<close>

definition demo_segmenter :: segmenter where
  "demo_segmenter = \<lparr>p_begin = 10, p_end = 20, cur_seg_start = 8, cur_seg_stop = 14,
     last_processed_time = 0, pre = 2, post = 2, step = 4, delay = 0, processed = False,
     canceled = False, finished = False, realtime = False, provider = 0, ticket = ''t1'',
     uploads_planned = 0, uploads_done = 0, uploads_failed = 0\<rparr>"

definition demo_uploader :: uploader where
  "demo_uploader = \<lparr>store = (\<lambda>_. demo_segmenter), segmenters = [], canceled_tickets = [],
     scheduled = [], sent = [], requested = [], queried = [], pending = [],
     loop_active = False, loop_delay = 0\<rparr>"

definition demo_running :: uploader where
  "demo_running = segmenter_enqueue 0 (schedule_upload 0 (uploader_start demo_uploader))"

lemma demo_running_reachable: "uploader_reachable demo_running"
proof -
  have "uploader_init demo_uploader"
    by (simp add: uploader_init_def demo_uploader_def fresh_seg_def demo_segmenter_def)
  moreover have "ustep demo_uploader (uploader_start demo_uploader)"
    "ustep (uploader_start demo_uploader) (schedule_upload 0 (uploader_start demo_uploader))"
    "ustep (schedule_upload 0 (uploader_start demo_uploader)) demo_running"
    unfolding demo_running_def
    by (rule ustep_start, rule ustep_schedule, rule ustep_enqueue) (simp add: schedule_upload_def)
  ultimately show ?thesis
    unfolding uploader_reachable_def by (meson rtranclp.rtrancl_into_rtrancl rtranclp.rtrancl_refl)
qed

text \<open>
  C1: in every reachable state the uploader keeps going: the assertion of \<open>__dump_segmenters\<close> holds, a
  pass of \<open>__async_loop\<close> returns (its inner \<open>while\<close> ends and the assertion does not fail) whatever the
  streams, the cloud and the clock answer, the callback of an upload under way returns (its division
  is not by zero) and cancelling any ticket returns.
\<close>

theorem uploader_never_stuck:
  assumes "uploader_reachable u"
  shows "dump_assert u \<and>
    (\<forall>records slices t1 t2. \<exists>u'. async_loop records slices t1 t2 u = Some u') \<and>
    (\<forall>i ok. i \<in> set (pending u) \<longrightarrow> (\<exists>u'. on_finished i ok u = Some u')) \<and>
    (\<forall>t. \<exists>u'. cancel_by_ticket t u = Some u')"
  using uploader_inv_reachable [OF assms] dump_assert_inv async_loop_returns on_finished_inv
    cancel_by_ticket_returns by meson

theorem uploader_never_stuck_witness:
  "dump_assert demo_running \<and> (\<exists>u'. async_loop (\<lambda>p a b. []) (\<lambda>a b. []) 1 2 demo_running = Some u')"
  using uploader_never_stuck [OF demo_running_reachable] by blast



text \<open>
  every synchronization report ever sent has a progress of at most 100, and the reports that
  close a ticket, DONE and ERROR, have exactly 100.
\<close>

theorem reports_well_formed:
  assumes "uploader_reachable u" and "st \<in> set (sent u)"
  shows "ss_progress st \<le> 100 \<and> (ss_status st \<in> {MCSS_DONE, MCSS_ERROR} \<longrightarrow> ss_progress st = 100)"
  using uploader_inv_reachable [OF assms(1)] assms(2)
  by (auto simp: uploader_inv_def status_ok_def)

definition demo_canceled :: uploader where
  "demo_canceled = the (cancel_by_ticket ''t1'' demo_running)"

lemma demo_canceled_reachable: "uploader_reachable demo_canceled"
proof -
  obtain u' where u': "cancel_by_ticket ''t1'' demo_running = Some u'"
    using uploader_inv_reachable [OF demo_running_reachable] cancel_by_ticket_returns by blast
  then have "ustep demo_running demo_canceled"
    by (auto intro: ustep_cancel simp: demo_canceled_def)
  then show ?thesis
    using demo_running_reachable unfolding uploader_reachable_def
    by (meson rtranclp.rtrancl_into_rtrancl)
qed

lemma demo_canceled_sent: "sent demo_canceled = [canceled_report ''t1'']"
proof -
  have "matching ''t1'' demo_running = {0}"
    by (auto simp: matching_def ticket_match_def demo_running_def segmenter_enqueue_def
        schedule_upload_def uploader_start_def demo_uploader_def demo_segmenter_def)
  moreover have "sent demo_running = []"
    by (simp add: demo_running_def segmenter_enqueue_def schedule_upload_def uploader_start_def
        demo_uploader_def)
  ultimately show ?thesis
    using cancel_loop_returns [of "''t1''" demo_running]
    by (auto simp: demo_canceled_def cancel_by_ticket_def cancel_result_def)
qed

theorem reports_well_formed_witness: "ss_progress (canceled_report ''t1'') \<le> 100"
  using reports_well_formed [OF demo_canceled_reachable, of "canceled_report ''t1''"] demo_canceled_sent
  by simp

text \<open>
  cancelling a ticket returns; every segmenter in the list that carries the ticket and was not
  canceled before becomes canceled, processed and finished, every other segmenter is untouched, and
  exactly one CANCELED report with progress 100 is sent for each of them.
\<close>

theorem cancel_by_ticket_spec:
  assumes "t \<noteq> []"
  shows "\<exists>u'. cancel_by_ticket t u = Some u' \<and> segmenters u' = segmenters u \<and> pending u' = pending u \<and>
    (\<forall>i. store u' i =
       (if i \<in> set (segmenters u) \<and> ticket_match t u i
        then (store u i)\<lparr>canceled := True, finished := True, processed := True\<rparr> else store u i)) \<and>
    sent u' = sent u @ replicate (card {i \<in> set (segmenters u). ticket_match t u i})
      \<lparr>ss_request_id = t, ss_progress = 100, ss_status = MCSS_CANCELED\<rparr>"
  using cancel_loop_returns [OF assms, of u] assms
  by (auto simp: cancel_by_ticket_def cancel_result_def matching_def cancel_seg_def canceled_report_def)

theorem cancel_by_ticket_spec_witness:
  "\<exists>u'. cancel_by_ticket ''t1'' demo_running = Some u' \<and> canceled (store u' 0)"
  using cancel_by_ticket_spec [of "''t1''" demo_running]
  by (auto simp: ticket_match_def demo_running_def segmenter_enqueue_def schedule_upload_def
      uploader_start_def demo_uploader_def demo_segmenter_def)

text \<open>
  \<open>__get_current\<close> returns a segmenter of the list that is neither canceled nor processed and that
  no other such segmenter precedes; it returns none only when all are canceled or processed. It drops
  from the list only canceled or finished segmenters and changes none of them.
\<close>

theorem get_current_spec:
  "case get_current u of (r, u') \<Rightarrow> store u' = store u \<and>
    {i \<in> set (segmenters u). \<not> canceled (store u i) \<and> \<not> finished (store u i)} \<subseteq> set (segmenters u') \<and>
    set (segmenters u') \<subseteq> set (segmenters u) \<and>
    (case r of
       None \<Rightarrow> \<forall>j. j \<in> set (segmenters u) \<longrightarrow> canceled (store u j) \<or> processed (store u j)
     | Some i \<Rightarrow> i \<in> set (segmenters u) \<and> \<not> canceled (store u i) \<and> \<not> processed (store u i) \<and>
         (\<forall>j. j \<in> set (segmenters u) \<and> \<not> canceled (store u j) \<and> \<not> processed (store u j) \<longrightarrow>
            p_begin (store u i) \<le> p_begin (store u j)))"
proof (cases "get_current u")
  case (Pair r u')
  then have st: "store u' = store u" and sub: "set (segmenters u') \<subseteq> set (segmenters u)"
    and keep: "\<And>j. j \<in> set (segmenters u) \<Longrightarrow> \<not> canceled (store u j) \<Longrightarrow> \<not> finished (store u j) \<Longrightarrow>
      j \<in> set (segmenters u')"
    using get_current_store [of u] get_current_subset [of u] get_current_keeps [of _ u] by simp_all
  show ?thesis
  proof (cases r)
    case None
    then have "\<And>j. j \<in> set (segmenters u) \<Longrightarrow> canceled (store u j) \<or> processed (store u j)"
      using get_current_none [of u] Pair by fastforce
    with None Pair st sub keep show ?thesis by auto
  next
    case (Some i)
    with Pair st sub keep get_current_some [of u i] show ?thesis by (auto simp: seg_begin_def)
  qed
qed

theorem get_current_spec_witness: "fst (get_current demo_running) = Some 0"
  using get_current_spec [of demo_running]
  by (auto simp: demo_running_def segmenter_enqueue_def schedule_upload_def
      uploader_start_def demo_uploader_def demo_segmenter_def split: option.splits prod.splits)

text \<open>
  one step of a segmenter asks the stream for at most one window. The window starts where the
  segmenter stands and is not empty, and for a closed segmenter it begins before \<open>end + post\<close> and does
  not reach past it.
\<close>

theorem segment_step_window:
  assumes "(j, a, b) \<in> set (queried (snd (segment_step records t1 t2 i u)))"
    and "(j, a, b) \<notin> set (queried u)"
  shows "j = i \<and> a = cur_seg_start (store u i) \<and> a \<noteq> b \<and>
    (p_end (store u i) \<noteq> time_null \<longrightarrow> a < closed_limit (store u i) \<and> b \<le> closed_limit (store u i))"
  using segment_step_query [of records t1 t2 i u] assms by auto

theorem segment_step_window_witness:
  "(0, 8, 14) \<in> set (queried (snd (segment_step (\<lambda>p a b. []) 1 2 0 demo_running))) \<and>
   14 \<le> closed_limit (store demo_running 0)"
  using segment_step_window [of 0 8 14 "\<lambda>p a b. []" 1 2 0 demo_running]
  by (simp add: segment_step_def Let_def demo_running_def segmenter_enqueue_def schedule_upload_def
      uploader_start_def demo_uploader_def demo_segmenter_def clip_window_def closed_limit_def
      period_is_open_def time_null_def upd_seg_def no_clip_def has_times_def advance_window_def next_start_def)

text \<open>
  C5: a closed segmenter with a positive step, stepped again and again, is processed after finitely
  many steps, whatever the clock and whether or not each window has a recording, as long as a clip
  exported for a window ends after the window's start.
\<close>

theorem segmenter_completes:
  assumes "\<And>n. exports_forward (recs n)" and "\<not> processed (store u i)" and "\<not> canceled (store u i)"
    and "p_end (store u i) \<noteq> time_null" and "0 < step (store u i)"
    and "cur_seg_start (store u i) \<le> cur_seg_stop (store u i)"
  shows "\<exists>n. processed (store (seg_run i recs clock u n) i)"
  using segmenter_processed [of recs u i clock] assms by (auto simp: window_wf_def)

theorem segmenter_completes_witness:
  "\<exists>n. processed (store (seg_run 0 (\<lambda>n p a b. []) (\<lambda>n. (0, 0)) demo_running n) 0)"
  by (rule segmenter_completes)
     (simp_all add: exports_forward_def demo_running_def segmenter_enqueue_def schedule_upload_def
      uploader_start_def demo_uploader_def demo_segmenter_def time_null_def)

text \<open>
  a pass of \<open>__adjust_segmenters_current_to_finished\<close> over the current segmenter that reports no
  change of the list leaves it no earlier than any processed segmenter it intersects, and changes no
  other segmenter.
\<close>

theorem adjust_catches_up:
  assumes "adjust_loop c js u = (False, u')" and "j \<in> set js" and "j \<noteq> c" and "processed (store u j)"
    and "seg_intersects (store u c) (store u j)"
  shows "cur_seg_start (store u' j) \<le> cur_seg_start (store u' c) \<and> store u' j = store u j"
  using adjust_loop_ahead [of c js u j] adjust_loop_fields(2) [of j c js u] assms by auto

definition demo_overlap :: uploader where
  "demo_overlap = demo_uploader\<lparr>segmenters := [0, 1], store := (\<lambda>i. if i = 0
     then demo_segmenter\<lparr>processed := True, cur_seg_start := 15\<rparr> else demo_segmenter)\<rparr>"

theorem adjust_catches_up_witness:
  "15 \<le> cur_seg_start (store (snd (adjust_loop 1 [0, 1] demo_overlap)) 1)"
  using adjust_catches_up [of 1 "[0, 1]" demo_overlap "snd (adjust_loop 1 [0, 1] demo_overlap)" 0]
  by (simp add: Let_def demo_overlap_def demo_uploader_def demo_segmenter_def seg_intersects_def
      time_null_def period_is_open_def closed_limit_def)

text \<open>
  while a stateful event goes on its segmenter's end is null, and then one slice on the cloud that
  meets the window makes \<open>__check_clip_segment\<close> mark the segmenter processed and finished, so the rest
  of the event is never uploaded.
\<close>

theorem open_segmenter_dropped:
  assumes "p_end (store u i) = time_null" and "post (store u i) < cur_seg_start (store u i)"
    and "p_end sl \<noteq> time_null"
    and "period_intersects sl (make_period (cur_seg_start (store u i)) (cur_seg_stop (store u i)))"
    and "slices (cur_seg_start (store u i)) (cur_seg_stop (store u i)) = sl # sls"
  shows "fst (check_clip_segment slices i u) = False \<and>
    processed (store (snd (check_clip_segment slices i u)) i) \<and>
    finished (store (snd (check_clip_segment slices i u)) i)"
  using check_slices_open [OF assms(1-4)] assms(5) by (simp add: check_clip_segment_def Let_def)

theorem open_segmenter_dropped_witness:
  "processed (store (snd (check_clip_segment (\<lambda>a b. [make_period 7 9]) 0
     (upd_seg 0 (\<lambda>s. s\<lparr>p_end := time_null\<rparr>) demo_running))) 0)"
  using open_segmenter_dropped [of "upd_seg 0 (\<lambda>s. s\<lparr>p_end := time_null\<rparr>) demo_running" 0
      "make_period 7 9" "\<lambda>a b. [make_period 7 9]" "[]"]
  by (simp add: demo_running_def segmenter_enqueue_def schedule_upload_def uploader_start_def
      demo_uploader_def demo_segmenter_def make_period_def period_intersects_def time_null_def time_max_def)

end
