(* ===== verification/Timers.thy ===== *)
theory Timers
  imports Vxg_Prelude
begin

text \<open>
  Timed callbacks: \<^verbatim>\<open>lws_common\<close> of \<^verbatim>\<open>src/src/net/lws_common.h\<close> over \<^verbatim>\<open>timed_cb\<close> of
  \<^verbatim>\<open>src/src/net/transport.h\<close>, and the locked \<^verbatim>\<open>Queue\<close> of the same header. The libwebsockets timer
  list is the set of armed timers; when an armed timer fires is up to the library.
\<close>

section \<open>State and operations\<close>

datatype timed_cb_state = PENDING | TRIGGERED | CANCELED

type_synonym cb_id = nat

text \<open>
  \<open>cbs\<close> holds the shared \<open>timed_cb\<close> objects by address, \<open>next_cb\<close> is the next free address,
  \<open>armed\<close> the entries of the library's timer list, \<open>current\<close> the callback being run and \<open>called\<close> the
  callbacks run so far.
\<close>

record 'cb timed_cb =
  tc_cb :: 'cb
  tc_state :: timed_cb_state

record 'cb lws_common =
  lws_context :: bool
  lws_running :: bool
  cbs :: "cb_id \<Rightarrow> 'cb timed_cb option"
  next_cb :: cb_id
  scheduled_callbacks :: "cb_id list"
  armed :: "cb_id list"
  current :: "cb_id option"
  called :: "cb_id list"

definition cb_state :: "'cb lws_common \<Rightarrow> cb_id \<Rightarrow> timed_cb_state option" where
  "cb_state s i = map_option tc_state (cbs s i)"

definition set_cb_state :: "cb_id \<Rightarrow> timed_cb_state \<Rightarrow> 'cb lws_common \<Rightarrow> 'cb lws_common" where
  "set_cb_state i st s = s\<lparr>cbs := (cbs s)(i := map_option (\<lambda>t. t\<lparr>tc_state := st\<rparr>) (cbs s i))\<rparr>"

text \<open>\<open>_cleanup\<close>\<close>

definition timers_cleanup :: "'cb lws_common \<Rightarrow> 'cb lws_common" where
  "timers_cleanup s =
     s\<lparr>scheduled_callbacks := filter (\<lambda>i. cb_state s i = Some PENDING) (scheduled_callbacks s)\<rparr>"

text \<open>\<open>_cancel_timed_cb\<close>\<close>

definition cancel_cb :: "cb_id \<Rightarrow> 'cb lws_common \<Rightarrow> 'cb lws_common" where
  "cancel_cb i s =
     (if cb_state s i = Some PENDING \<and> lws_context s
      then set_cb_state i CANCELED (s\<lparr>armed := filter (\<lambda>j. j \<noteq> i) (armed s)\<rparr>) else s)"

text \<open>\<open>cancel_timed_cb\<close>; \<open>None\<close> is the null pointer.\<close>

definition cancel_timed_cb :: "cb_id option \<Rightarrow> 'cb lws_common \<Rightarrow> 'cb lws_common" where
  "cancel_timed_cb c s =
     (case c of None \<Rightarrow> s | Some i \<Rightarrow> if lws_running s then cancel_cb i s else s)"

text \<open>\<open>schedule_timed_cb\<close>: a callback without a context is kept but never armed.\<close>

definition schedule_timed_cb :: "'cb \<Rightarrow> 'cb lws_common \<Rightarrow> cb_id option \<times> 'cb lws_common" where
  "schedule_timed_cb cb s =
     (let s1 = timers_cleanup s; i = next_cb s1;
          s2 = s1\<lparr>cbs := (cbs s1)(i \<mapsto> \<lparr>tc_cb = cb, tc_state = PENDING\<rparr>), next_cb := Suc i,
                  scheduled_callbacks := scheduled_callbacks s1 @ [i]\<rparr>
      in if lws_context s2 then (Some i, s2\<lparr>armed := i # armed s2\<rparr>) else (None, s2))"

text \<open>
  \<open>_sul_cb\<close> up to the call of the callback, and what it does after the call. The library has taken the
  entry off its list before it calls.
\<close>

definition sul_cb_enter :: "cb_id \<Rightarrow> 'cb lws_common \<Rightarrow> 'cb lws_common" where
  "sul_cb_enter i s =
     (let s1 = s\<lparr>armed := filter (\<lambda>j. j \<noteq> i) (armed s)\<rparr> in
      if cb_state s i = Some PENDING then s1\<lparr>called := called s1 @ [i], current := Some i\<rparr> else s1)"

definition sul_cb_leave :: "'cb lws_common \<Rightarrow> 'cb lws_common" where
  "sul_cb_leave s =
     (case current s of
        None \<Rightarrow> s
      | Some i \<Rightarrow>
          let s1 = s\<lparr>current := None\<rparr> in
          if cb_state s1 i = Some PENDING then set_cb_state i TRIGGERED s1 else s1)"

text \<open>\<open>stop\<close>\<close>

definition timers_stop :: "'cb lws_common \<Rightarrow> 'cb lws_common" where
  "timers_stop s = timers_cleanup (fold cancel_cb (scheduled_callbacks s) s)"

section \<open>The message queue\<close>

text \<open>
  \<open>Queue<T>\<close>: each operation holds the lock throughout, so it is one step. \<open>pop\<close> returns \<open>None\<close> when
  the wait times out on an empty queue; \<open>drain\<close> hands every element to \<open>f\<close> in order.
\<close>

definition tq_push :: "'a \<Rightarrow> 'a list \<Rightarrow> 'a list" where
  "tq_push t q = q @ [t]"

definition tq_pop :: "'a list \<Rightarrow> ('a \<times> 'a list) option" where
  "tq_pop q = (case q of [] \<Rightarrow> None | t # q' \<Rightarrow> Some (t, q'))"

definition tq_flush :: "'a list \<Rightarrow> 'a list" where
  "tq_flush q = []"

definition tq_size :: "'a list \<Rightarrow> nat" where
  "tq_size q = length q"

fun tq_drain :: "('a \<Rightarrow> 's \<Rightarrow> 's) \<Rightarrow> 'a list \<Rightarrow> 's \<Rightarrow> 'a list \<times> 's" where
  "tq_drain f [] s = ([], s)"
| "tq_drain f (t # q) s = tq_drain f q (f t s)"

section \<open>Transitions\<close>

inductive tstep :: "'cb lws_common \<Rightarrow> 'cb lws_common \<Rightarrow> bool" where
  tstep_schedule: "tstep s (snd (schedule_timed_cb cb s))"
| tstep_cancel: "tstep s (cancel_timed_cb c s)"
| tstep_enter: "i \<in> set (armed s) \<Longrightarrow> current s = None \<Longrightarrow> tstep s (sul_cb_enter i s)"
| tstep_leave: "tstep s (sul_cb_leave s)"
| tstep_stop: "tstep s (timers_stop s)"
| tstep_run: "tstep s (s\<lparr>lws_running := r\<rparr>)"

definition timers_init :: "'cb lws_common \<Rightarrow> bool" where
  "timers_init s \<longleftrightarrow> cbs s = Map.empty \<and> scheduled_callbacks s = [] \<and> armed s = [] \<and>
     current s = None \<and> called s = []"

definition timers_reachable :: "'cb lws_common \<Rightarrow> bool" where
  "timers_reachable s \<longleftrightarrow> (\<exists>s0. timers_init s0 \<and> tstep\<^sup>*\<^sup>* s0 s)"

text \<open>
  Armed timers are pending and owned by \<open>scheduled_callbacks\<close>, so the library never holds a pointer to a
  freed timer; a callback that has been called is the running one or no longer pending, and none was
  called twice.
\<close>

definition timers_inv :: "'cb lws_common \<Rightarrow> bool" where
  "timers_inv s \<longleftrightarrow>
     (\<forall>i. cb_state s i \<noteq> None \<longrightarrow> i < next_cb s) \<and>
     (\<forall>i \<in> set (armed s). cb_state s i = Some PENDING \<and> i \<in> set (scheduled_callbacks s) \<and> i \<notin> set (called s)) \<and>
     (\<forall>i \<in> set (called s). i < next_cb s \<and> (current s = Some i \<or> cb_state s i \<noteq> Some PENDING)) \<and>
     (\<forall>i. current s = Some i \<longrightarrow> i \<in> set (called s)) \<and>
     distinct (called s)"

lemma cb_state_fields [simp]:
  "cb_state (s\<lparr>armed := x1\<rparr>) i = cb_state s i" "cb_state (s\<lparr>called := x2\<rparr>) i = cb_state s i"
  "cb_state (s\<lparr>current := x3\<rparr>) i = cb_state s i" "cb_state (s\<lparr>scheduled_callbacks := x4\<rparr>) i = cb_state s i"
  "cb_state (s\<lparr>lws_running := x5\<rparr>) i = cb_state s i" "cb_state (s\<lparr>next_cb := x6\<rparr>) i = cb_state s i"
  by (simp_all add: cb_state_def)

lemma cb_state_set [simp]:
  "cb_state (set_cb_state i st s) j = (if j = i \<and> cb_state s i \<noteq> None then Some st else cb_state s j)"
  by (auto simp: cb_state_def set_cb_state_def option.map_comp comp_def)

lemma set_cb_state_fields [simp]:
  "armed (set_cb_state i st s) = armed s" "called (set_cb_state i st s) = called s"
  "current (set_cb_state i st s) = current s" "next_cb (set_cb_state i st s) = next_cb s"
  "scheduled_callbacks (set_cb_state i st s) = scheduled_callbacks s"
  "lws_context (set_cb_state i st s) = lws_context s"
  "(cbs (set_cb_state i st s) j = None) = (cbs s j = None)"
  by (simp_all add: set_cb_state_def)

lemma cancel_cb_up [simp]:
  "lws_context (cancel_cb i s) = lws_context s" "lws_running (cancel_cb i s) = lws_running s"
  by (simp_all add: cancel_cb_def set_cb_state_def)

lemma timers_inv_cleanup: "timers_inv s \<Longrightarrow> timers_inv (timers_cleanup s)"
  by (simp add: timers_inv_def timers_cleanup_def)

lemma timers_inv_cancel: "timers_inv s \<Longrightarrow> timers_inv (cancel_cb i s)"
  by (auto simp: timers_inv_def cancel_cb_def)

lemma timers_inv_schedule: "timers_inv s \<Longrightarrow> timers_inv (snd (schedule_timed_cb cb s))"
proof -
  assume "timers_inv s"
  then have "timers_inv (timers_cleanup s)" by (rule timers_inv_cleanup)
  moreover have "next_cb (timers_cleanup s) = next_cb s" by (simp add: timers_cleanup_def)
  ultimately show ?thesis
    unfolding schedule_timed_cb_def Let_def
    by (auto simp: timers_inv_def cb_state_def less_Suc_eq)
qed

lemma timers_inv_enter: "timers_inv s \<Longrightarrow> i \<in> set (armed s) \<Longrightarrow> current s = None \<Longrightarrow> timers_inv (sul_cb_enter i s)"
  by (auto simp: timers_inv_def sul_cb_enter_def Let_def cb_state_def)

lemma timers_inv_leave: "timers_inv s \<Longrightarrow> timers_inv (sul_cb_leave s)"
  by (auto simp: timers_inv_def sul_cb_leave_def Let_def split: option.splits)

lemma timers_inv_stop: "timers_inv s \<Longrightarrow> timers_inv (timers_stop s)"
proof -
  assume "timers_inv s"
  then have "timers_inv (fold cancel_cb is s)" for "is"
    by (induction "is" arbitrary: s) (simp_all add: timers_inv_cancel)
  then show ?thesis by (simp add: timers_stop_def timers_inv_cleanup)
qed

lemma timers_inv_step: "tstep s s' \<Longrightarrow> timers_inv s \<Longrightarrow> timers_inv s'"
proof (induction rule: tstep.induct)
  case (tstep_cancel s c)
  then show ?case by (simp add: cancel_timed_cb_def timers_inv_cancel split: option.splits)
next
  case (tstep_run s r)
  then show ?case by (simp add: timers_inv_def)
qed (simp_all add: timers_inv_schedule timers_inv_enter timers_inv_leave timers_inv_stop)

lemma timers_inv_reachable: "timers_reachable s \<Longrightarrow> timers_inv s"
proof -
  have "tstep\<^sup>*\<^sup>* s0 s \<Longrightarrow> timers_inv s0 \<Longrightarrow> timers_inv s" for s0
    by (induction rule: rtranclp_induct) (auto intro: timers_inv_step)
  moreover have "timers_init s0 \<Longrightarrow> timers_inv s0" for s0
    by (simp add: timers_init_def timers_inv_def cb_state_def)
  ultimately show "timers_reachable s \<Longrightarrow> timers_inv s" by (auto simp: timers_reachable_def)
qed

text \<open>A canceled timer stays canceled and is never called again.\<close>

lemma canceled_stays:
  assumes "tstep s s'" "timers_inv s" "cb_state s i = Some CANCELED"
  shows "cb_state s' i = Some CANCELED \<and> count_list (called s') i = count_list (called s) i"
  using assms
proof (induction rule: tstep.induct)
  case (tstep_schedule s cb)
  then have "i < next_cb s" by (auto simp: timers_inv_def cb_state_def)
  then show ?case
    using tstep_schedule by (auto simp: schedule_timed_cb_def timers_cleanup_def cb_state_def Let_def)
next
  case (tstep_cancel s c)
  then show ?case by (auto simp: cancel_timed_cb_def cancel_cb_def split: option.splits)
next
  case (tstep_enter j s)
  then show ?case by (auto simp: sul_cb_enter_def timers_inv_def Let_def)
next
  case (tstep_leave s)
  then show ?case by (auto simp: sul_cb_leave_def Let_def split: option.splits)
next
  case (tstep_stop s)
  have "cb_state s i = Some CANCELED \<Longrightarrow> cb_state (fold cancel_cb is s) i = Some CANCELED \<and>
      called (fold cancel_cb is s) = called s" for "is" and s :: "'a lws_common"
    by (induction "is" arbitrary: s) (auto simp: cancel_cb_def)
  then show ?case using tstep_stop by (simp add: timers_stop_def timers_cleanup_def)
next
  case (tstep_run s r)
  then show ?case by simp
qed

lemma canceled_stays_all:
  assumes "tstep\<^sup>*\<^sup>* s s'" "timers_inv s" "cb_state s i = Some CANCELED"
  shows "cb_state s' i = Some CANCELED \<and> count_list (called s') i = count_list (called s) i"
proof -
  have "tstep\<^sup>*\<^sup>* s s' \<Longrightarrow> timers_inv s' \<and> cb_state s' i = Some CANCELED \<and>
      count_list (called s') i = count_list (called s) i"
    by (induction rule: rtranclp_induct) (use assms(2,3) canceled_stays timers_inv_step in \<open>auto, fastforce+\<close>)
  with assms(1) show ?thesis by simp
qed

section \<open>The interface\<close>

text \<open>
  What a client of \<open>timed_callback\<close> relies on: scheduling with a context yields a fresh pending timer and
  leaves the others alone, cancelling a pending one makes it canceled for good.
\<close>

locale timed_callback =
  fixes sched :: "'cb \<Rightarrow> 's \<Rightarrow> cb_id option \<times> 's"
    and cncl :: "cb_id option \<Rightarrow> 's \<Rightarrow> 's"
    and st :: "'s \<Rightarrow> cb_id \<Rightarrow> timed_cb_state option"
    and up :: "'s \<Rightarrow> bool"
    and inv :: "'s \<Rightarrow> bool"
  assumes sched_fresh: "inv s \<Longrightarrow> up s \<Longrightarrow> sched cb s = (r, s') \<Longrightarrow>
      \<exists>i. r = Some i \<and> st s i = None \<and> st s' i = Some PENDING \<and> (\<forall>j. j \<noteq> i \<longrightarrow> st s' j = st s j)"
    and sched_inv: "inv s \<Longrightarrow> up s \<Longrightarrow> sched cb s = (r, s') \<Longrightarrow> inv s' \<and> up s'"
    and cncl_pending: "inv s \<Longrightarrow> up s \<Longrightarrow> st s i = Some PENDING \<Longrightarrow>
      st (cncl (Some i) s) i = Some CANCELED \<and> (\<forall>j. j \<noteq> i \<longrightarrow> st (cncl (Some i) s) j = st s j)"
    and cncl_inv: "inv s \<Longrightarrow> up s \<Longrightarrow> inv (cncl c s) \<and> up (cncl c s)"
begin

text \<open>Rescheduling: replace the timer one holds by a new one; the old one is dead, the new one pending.\<close>

lemma reschedule:
  assumes "inv s" "up s" "st s i = Some PENDING" "sched cb (cncl (Some i) s) = (r, s')"
  shows "\<exists>j. r = Some j \<and> j \<noteq> i \<and> st s' j = Some PENDING \<and> st s' i = Some CANCELED"
proof -
  have c: "st (cncl (Some i) s) i = Some CANCELED" using cncl_pending [OF assms(1-3)] by blast
  have u: "inv (cncl (Some i) s)" "up (cncl (Some i) s)" using cncl_inv [OF assms(1,2)] by blast+
  obtain j where j: "r = Some j" "st (cncl (Some i) s) j = None" "st s' j = Some PENDING"
    "\<forall>k. k \<noteq> j \<longrightarrow> st s' k = st (cncl (Some i) s) k"
    using sched_fresh [OF u assms(4)] by blast
  with c have "j \<noteq> i" by auto
  with j c show ?thesis by auto
qed

end

interpretation lws: timed_callback schedule_timed_cb cancel_timed_cb cb_state
  "\<lambda>s. lws_context s \<and> lws_running s" timers_inv
proof
  fix s s' :: "'a lws_common" and cb r
  assume i: "timers_inv s" and u: "lws_context s \<and> lws_running s" and s: "schedule_timed_cb cb s = (r, s')"
  show "timers_inv s' \<and> (lws_context s' \<and> lws_running s')"
    using timers_inv_schedule [OF i, of cb] u s
    by (auto simp: schedule_timed_cb_def timers_cleanup_def Let_def)
  have "cb_state s (next_cb s) = None" using i unfolding timers_inv_def by (metis less_irrefl)
  then show "\<exists>i. r = Some i \<and> cb_state s i = None \<and> cb_state s' i = Some PENDING \<and>
      (\<forall>j. j \<noteq> i \<longrightarrow> cb_state s' j = cb_state s j)"
    using u s by (auto simp: schedule_timed_cb_def timers_cleanup_def Let_def cb_state_def)
next
  fix s :: "'a lws_common" and i c
  assume i: "timers_inv s" and u: "lws_context s \<and> lws_running s"
  show "timers_inv (cancel_timed_cb c s) \<and> (lws_context (cancel_timed_cb c s) \<and> lws_running (cancel_timed_cb c s))"
    using i u by (simp add: cancel_timed_cb_def timers_inv_cancel split: option.splits)
  assume "cb_state s i = Some PENDING"
  then show "cb_state (cancel_timed_cb (Some i) s) i = Some CANCELED \<and>
      (\<forall>j. j \<noteq> i \<longrightarrow> cb_state (cancel_timed_cb (Some i) s) j = cb_state s j)"
    using u by (simp add: cancel_timed_cb_def cancel_cb_def)
qed

section \<open>Armed tasks\<close>

text \<open>
  A client that keeps at most one timer for a purpose reads the timers as the list of armed tasks. While
  the transport runs, scheduling adds a task under an id never used before, cancelling and firing remove
  one.
\<close>

definition tasks :: "'cb lws_common \<Rightarrow> (cb_id \<times> 'cb option) list" where
  "tasks l = map (\<lambda>i. (i, map_option tc_cb (cbs l i))) (armed l)"

definition timers_up :: "'cb lws_common \<Rightarrow> bool" where
  "timers_up l \<longleftrightarrow> timers_inv l \<and> lws_context l \<and> lws_running l"

locale timer_tasks =
  fixes ok :: "'s \<Rightarrow> bool"
    and idle :: "'s \<Rightarrow> bool"
    and ts :: "'s \<Rightarrow> (cb_id \<times> 'cb option) list"
    and issued :: "'s \<Rightarrow> cb_id set"
    and sched :: "'cb \<Rightarrow> 's \<Rightarrow> cb_id option \<times> 's"
    and cncl :: "cb_id option \<Rightarrow> 's \<Rightarrow> 's"
    and enter :: "cb_id \<Rightarrow> 's \<Rightarrow> 's"
    and leave :: "'s \<Rightarrow> 's"
  assumes ts_issued: "ok s \<Longrightarrow> fst ` set (ts s) \<subseteq> issued s"
    and sched_task: "ok s \<Longrightarrow> \<exists>i. fst (sched t s) = Some i \<and> i \<notin> issued s \<and>
      ts (snd (sched t s)) = (i, Some t) # ts s \<and> issued (snd (sched t s)) = insert i (issued s)"
    and sched_ok: "ok s \<Longrightarrow> ok (snd (sched t s)) \<and> idle (snd (sched t s)) = idle s"
    and cncl_task: "ok s \<Longrightarrow> ts (cncl (Some i) s) = filter (\<lambda>p. fst p \<noteq> i) (ts s)"
    and cncl_none: "cncl None s = s"
    and cncl_ok: "ok s \<Longrightarrow> ok (cncl r s) \<and> idle (cncl r s) = idle s \<and> issued (cncl r s) = issued s"
    and enter_task: "ok s \<Longrightarrow> idle s \<Longrightarrow> i \<in> fst ` set (ts s) \<Longrightarrow> ok (enter i s) \<and>
      ts (enter i s) = filter (\<lambda>p. fst p \<noteq> i) (ts s) \<and> issued (enter i s) = issued s"
    and leave_task: "ok s \<Longrightarrow> ok (leave s) \<and> idle (leave s) \<and> ts (leave s) = ts s \<and> issued (leave s) = issued s"
begin

definition ids :: "'cb \<Rightarrow> 's \<Rightarrow> cb_id list" where
  "ids t s = map fst (filter (\<lambda>p. snd p = Some t) (ts s))"

text \<open>\<open>r\<close> refers to the only armed timer for \<open>t\<close>.\<close>

definition sole :: "'cb \<Rightarrow> cb_id option \<Rightarrow> 's \<Rightarrow> bool" where
  "sole t r s \<longleftrightarrow> (\<exists>i. r = Some i \<and> ids t s = [i])"

lemma ids_issued: "ok s \<Longrightarrow> set (ids t s) \<subseteq> issued s"
  using ts_issued [of s] by (auto simp: ids_def)

lemma ids_other: "ok s \<Longrightarrow> t' \<noteq> t \<Longrightarrow> ids t (snd (sched t' s)) = ids t s"
  using sched_task [of s t'] by (auto simp: ids_def)

lemma ids_cncl: "ok s \<Longrightarrow> ids t (cncl (Some i) s) = filter (\<lambda>j. j \<noteq> i) (ids t s)"
  by (simp add: ids_def cncl_task filter_map comp_def conj_commute)

lemma ids_enter: "ok s \<Longrightarrow> idle s \<Longrightarrow> i \<in> fst ` set (ts s) \<Longrightarrow> ids t (enter i s) = filter (\<lambda>j. j \<noteq> i) (ids t s)"
  using enter_task [of s i] by (simp add: ids_def filter_map comp_def conj_commute)

lemma ids_leave: "ok s \<Longrightarrow> ids t (leave s) = ids t s"
  using leave_task [of s] by (simp add: ids_def)

lemma ids_in_tasks: "i \<in> set (ids t s) \<Longrightarrow> i \<in> fst ` set (ts s)"
  by (auto simp: ids_def)

lemma arm: "ok s \<Longrightarrow> ids t s = [] \<Longrightarrow> sole t (fst (sched t s)) (snd (sched t s))"
  using sched_task [of s t] by (auto simp: sole_def ids_def)

lemma disarm: "ok s \<Longrightarrow> sole t r s \<Longrightarrow> ids t (cncl r s) = []"
  by (auto simp: sole_def ids_cncl)

lemma ids_cncl_other:
  assumes "ok s" "\<And>i. r = Some i \<Longrightarrow> i \<notin> set (ids t s)" shows "ids t (cncl r s) = ids t s"
proof (cases r)
  case (Some i)
  then show ?thesis using assms by (auto simp: ids_cncl filter_id_conv)
qed (simp add: cncl_none)

text \<open>A task that schedules itself again when it runs keeps exactly one timer.\<close>

lemma rearm:
  assumes "ok s" "idle s" "ids t s = [i]"
  shows "sole t (fst (sched t (enter i s))) (leave (snd (sched t (enter i s))))"
proof -
  have i: "i \<in> fst ` set (ts s)" using ids_in_tasks [of i t s] assms(3) by simp
  have e: "ok (enter i s)" using enter_task [OF assms(1,2) i] by blast
  have "ids t (enter i s) = []" by (simp add: ids_enter [OF assms(1,2) i] assms(3))
  then have "sole t (fst (sched t (enter i s))) (snd (sched t (enter i s)))" using arm e by blast
  then show ?thesis using ids_leave sched_ok [OF e] by (simp add: sole_def)
qed

end

lemma timers_up_below: "timers_up l \<Longrightarrow> i \<in> set (armed l) \<Longrightarrow> i < next_cb l"
  unfolding timers_up_def timers_inv_def by (metis option.distinct(1))

lemma tasks_state [simp]: "tasks (set_cb_state i st l) = tasks l" "lws_running (set_cb_state i st l) = lws_running l"
  by (simp_all add: tasks_def set_cb_state_def option.map_comp comp_def)

lemma tasks_armed: "tasks (l\<lparr>armed := filter P (armed l)\<rparr>) = filter (\<lambda>p. P (fst p)) (tasks l)"
  by (simp add: tasks_def filter_map comp_def)

lemma tasks_fields [simp]:
  "tasks (l\<lparr>called := x1\<rparr>) = tasks l" "tasks (l\<lparr>current := x2\<rparr>) = tasks l"
  by (simp_all add: tasks_def)

lemma fst_tasks [simp]: "fst ` set (tasks l) = set (armed l)"
  by (auto simp: tasks_def image_image)

lemma tasks_not_armed: "i \<notin> set (armed l) \<Longrightarrow> filter (\<lambda>p. fst p \<noteq> i) (tasks l) = tasks l"
  by (auto simp: tasks_def filter_id_conv)

interpretation lws_tasks: timer_tasks timers_up "\<lambda>l. current l = None" tasks "\<lambda>l. {..<next_cb l}"
  schedule_timed_cb cancel_timed_cb sul_cb_enter sul_cb_leave
proof
  fix s :: "'a lws_common" and t
  assume up: "timers_up s"
  then show "fst ` set (tasks s) \<subseteq> {..<next_cb s}" using timers_up_below by auto
  have l: "lws_context (timers_cleanup s)" "lws_running (timers_cleanup s)" "armed (timers_cleanup s) = armed s"
    "next_cb (timers_cleanup s) = next_cb s" "cbs (timers_cleanup s) = cbs s" "current (timers_cleanup s) = current s"
    using up by (simp_all add: timers_cleanup_def timers_up_def)
  show "\<exists>i. fst (schedule_timed_cb t s) = Some i \<and> i \<notin> {..<next_cb s} \<and>
      tasks (snd (schedule_timed_cb t s)) = (i, Some t) # tasks s \<and>
      {..<next_cb (snd (schedule_timed_cb t s))} = insert i {..<next_cb s}"
    using timers_up_below [OF up]
    by (auto simp: schedule_timed_cb_def Let_def l tasks_def lessThan_Suc)
  show "timers_up (snd (schedule_timed_cb t s)) \<and> (current (snd (schedule_timed_cb t s)) = None) = (current s = None)"
    using up timers_inv_schedule [of s t] by (simp add: timers_up_def schedule_timed_cb_def Let_def l)
next
  fix s :: "'a lws_common" and i
  assume up: "timers_up s"
  have "i \<notin> set (armed s)" if "cb_state s i \<noteq> Some PENDING"
    using up that by (auto simp: timers_up_def timers_inv_def)
  then show "tasks (cancel_timed_cb (Some i) s) = filter (\<lambda>p. fst p \<noteq> i) (tasks s)"
    using up by (auto simp: cancel_timed_cb_def cancel_cb_def timers_up_def tasks_armed tasks_not_armed)
next
  fix s :: "'a lws_common" and r
  assume up: "timers_up s"
  have "current (cancel_cb i s) = current s \<and> next_cb (cancel_cb i s) = next_cb s" for i
    by (simp add: cancel_cb_def)
  with up show "timers_up (cancel_timed_cb r s) \<and> (current (cancel_timed_cb r s) = None) = (current s = None) \<and>
      {..<next_cb (cancel_timed_cb r s)} = {..<next_cb s}"
    using timers_inv_cancel [of s] by (simp add: timers_up_def cancel_timed_cb_def split: option.split)
next
  fix s :: "'a lws_common" and i
  assume "timers_up s" "current s = None" "i \<in> fst ` set (tasks s)"
  then show "timers_up (sul_cb_enter i s) \<and> tasks (sul_cb_enter i s) = filter (\<lambda>p. fst p \<noteq> i) (tasks s) \<and>
      {..<next_cb (sul_cb_enter i s)} = {..<next_cb s}"
    using timers_inv_enter [of s i] by (simp add: timers_up_def sul_cb_enter_def Let_def tasks_armed)
next
  fix s :: "'a lws_common"
  assume "timers_up s"
  then show "timers_up (sul_cb_leave s) \<and> current (sul_cb_leave s) = None \<and> tasks (sul_cb_leave s) = tasks s \<and>
      {..<next_cb (sul_cb_leave s)} = {..<next_cb s}"
    using timers_inv_leave [of s]
    by (auto simp: sul_cb_leave_def Let_def timers_up_def split: option.split)
qed (simp add: cancel_timed_cb_def)

section \<open>Properties\<close>

text \<open>
  in every reachable state an armed timer is pending and still owned by the list of scheduled
  callbacks, so the timer library never holds a freed timer, and no callback has run more than once.
\<close>

theorem timers_safe:
  assumes "timers_reachable s"
  shows "(\<forall>i \<in> set (armed s). cb_state s i = Some PENDING \<and> i \<in> set (scheduled_callbacks s)) \<and>
    distinct (called s)"
  using timers_inv_reachable [OF assms] by (auto simp: timers_inv_def)

definition demo_timers :: "nat lws_common" where
  "demo_timers = \<lparr>lws_context = True, lws_running = True, cbs = Map.empty, next_cb = 0,
     scheduled_callbacks = [], armed = [], current = None, called = []\<rparr>"

lemma demo_scheduled_reachable: "timers_reachable (snd (schedule_timed_cb 5 demo_timers))"
proof -
  have "timers_init demo_timers" by (simp add: demo_timers_def timers_init_def)
  moreover have "tstep demo_timers (snd (schedule_timed_cb 5 demo_timers))" by (rule tstep_schedule)
  ultimately show ?thesis unfolding timers_reachable_def by blast
qed

theorem timers_safe_witness:
  "cb_state (snd (schedule_timed_cb 5 demo_timers)) 0 = Some PENDING \<and>
   armed (snd (schedule_timed_cb 5 demo_timers)) = [0]"
proof -
  have "armed (snd (schedule_timed_cb 5 demo_timers)) = [0]"
    by (simp add: schedule_timed_cb_def demo_timers_def timers_cleanup_def)
  then show ?thesis using timers_safe [OF demo_scheduled_reachable] by simp
qed

text \<open>
  C20: cancelling a pending timer that is not running, on a running transport with a context, keeps its
  callback from ever being called, whatever happens afterwards.
\<close>

theorem cancel_prevents_call:
  assumes "timers_reachable s" and "lws_context s" and "lws_running s"
    and "cb_state s i = Some PENDING" and "current s \<noteq> Some i"
    and "tstep\<^sup>*\<^sup>* (cancel_timed_cb (Some i) s) s'"
  shows "i \<notin> set (called s')"
proof -
  have inv: "timers_inv s" using assms(1) by (rule timers_inv_reachable)
  then have "i \<notin> set (called s)" using assms(4,5) unfolding timers_inv_def by blast
  then have "i \<notin> set (called (cancel_timed_cb (Some i) s))"
    by (simp add: cancel_timed_cb_def cancel_cb_def)
  moreover have "cb_state (cancel_timed_cb (Some i) s) i = Some CANCELED"
    using lws.cncl_pending [OF inv] assms(2-4) by blast
  moreover have "timers_inv (cancel_timed_cb (Some i) s)"
    using lws.cncl_inv [OF inv] assms(2,3) by blast
  ultimately show ?thesis
    using canceled_stays_all [OF assms(6)] by (metis count_list_0_iff)
qed

theorem cancel_prevents_call_witness:
  "0 \<notin> set (called (sul_cb_enter 0 (cancel_timed_cb (Some 0) (snd (schedule_timed_cb 5 demo_timers)))))"
proof -
  let ?s = "snd (schedule_timed_cb 5 demo_timers)"
  have "0 \<notin> set (called (cancel_timed_cb (Some 0) ?s))"
    by (rule cancel_prevents_call [OF demo_scheduled_reachable])
       (simp_all add: schedule_timed_cb_def demo_timers_def timers_cleanup_def cb_state_def)
  then show ?thesis
    by (simp add: sul_cb_enter_def schedule_timed_cb_def demo_timers_def timers_cleanup_def cb_state_def
        cancel_timed_cb_def cancel_cb_def set_cb_state_def Let_def)
qed

end
