(* ===== verification/Event_State.thy ===== *)
theory Event_State
  imports Uploader Timers Proto_Events
begin

text \<open>
  \<^verbatim>\<open>manager::event_state\<close> of \<^verbatim>\<open>src/src/agent/manager.h\<close>: the state of one event, which emulates its duration
  on the cloud by periodic dummy events and delivers its video through the uploader or as a stream.
  The segmenter it shares with the uploader is an address of the uploader's store; callbacks handed
  to the timers are tasks. The conversions of times from and to doubles are the library's.
\<close>

section \<open>State\<close>

datatype stream_delivery_mode = SDM_NONE | SDM_UPLOAD | SDM_STREAM

text \<open>Tasks on the timers of the HTTP transport, which all events share; an event is known by its name.\<close>

datatype etask = Event_Kick string | Start_Stream nat | Stop_Stream string | Other_Task

record event_state =
  es_start :: time
  es_stop :: time
  es_active :: bool
  es_stateful :: bool
  es_need_clip :: bool
  es_need_snapshot :: bool
  es_internal_hidden :: bool
  es_kick :: event_object
  es_conf :: event_config
  es_bound :: bool
  es_stream_cbs :: bool
  es_segmenter :: seg_id
  es_kicker :: "cb_id option"
  es_stop_pending :: "cb_id option"
  es_mode :: stream_delivery_mode
  es_pre_ms :: int
  es_post_ms :: int

text \<open>
  \<open>es_bound\<close> says that the state was constructed with its transport and uploader, \<open>es_stream_cbs\<close> that it was
  given the callbacks for streams. Streams are numbered from one, provider zero is the null pointer.
  What an event state works on: its name, the uploader, the timers of the HTTP transport, the next address of a
  segmenter, the finalizations it has scheduled, the events it has notified, and whether a null pointer
  has been dereferenced.
\<close>

record event_ctx =
  ev_name :: string
  ev_state :: event_state
  ev_up :: uploader
  ev_timers :: "etask lws_common"
  ev_next_seg :: seg_id
  ev_finalize :: "(seg_id \<times> time) list"
  ev_notified :: "event_object list"
  ev_fault :: bool

record event_env =
  ee_from_double :: "double \<Rightarrow> time"
  ee_to_double :: "time \<Rightarrow> double"
  ee_upload_step :: duration
  ee_upload_delay :: duration

definition event_kick_period :: duration where
  "event_kick_period = seconds 10"

definition upd_ev :: "(event_state \<Rightarrow> event_state) \<Rightarrow> event_ctx \<Rightarrow> event_ctx" where
  "upd_ev f c = c\<lparr>ev_state := f (ev_state c)\<rparr>"

definition ev_schedule :: "etask \<Rightarrow> event_ctx \<Rightarrow> cb_id option \<times> event_ctx" where
  "ev_schedule t c = (case schedule_timed_cb t (ev_timers c) of (i, l) \<Rightarrow> (i, c\<lparr>ev_timers := l\<rparr>))"

definition ev_cancel :: "cb_id option \<Rightarrow> event_ctx \<Rightarrow> event_ctx" where
  "ev_cancel i c = c\<lparr>ev_timers := cancel_timed_cb i (ev_timers c)\<rparr>"

section \<open>Dummy events\<close>

definition event_kick :: "event_env \<Rightarrow> event_ctx \<Rightarrow> event_ctx" where
  "event_kick e c =
     (let k = es_kick (ev_state c);
          k = k\<lparr>eo_time := ee_to_double e (ee_from_double e (eo_time k) + event_kick_period),
                eo_status := ES_OK, eo_state_dummy := True\<rparr>;
          (i, c) = ev_schedule (Event_Kick (ev_name c)) (upd_ev (\<lambda>s. s\<lparr>es_kick := k\<rparr>) c);
          c = upd_ev (\<lambda>s. s\<lparr>es_kicker := i\<rparr>) c
      in c\<lparr>ev_notified := ev_notified c @ [k]\<rparr>)"

definition start_periodic_event_kicker :: "event_ctx \<Rightarrow> event_ctx" where
  "start_periodic_event_kicker c =
     (let (i, c) = ev_schedule (Event_Kick (ev_name c)) c in upd_ev (\<lambda>s. s\<lparr>es_kicker := i\<rparr>) c)"

definition stop_periodic_event_kicker :: "event_ctx \<Rightarrow> event_ctx" where
  "stop_periodic_event_kicker c = ev_cancel (es_kicker (ev_state c)) c"

section \<open>Delivery\<close>

text \<open>\<open>finalize_upload\<close> schedules \<open>__segmenter_finalize\<close> on the uploader's own thread.\<close>

definition start_delivery :: "event_ctx \<Rightarrow> event_ctx" where
  "start_delivery c =
     (case es_mode (ev_state c) of
        SDM_UPLOAD \<Rightarrow> (if es_bound (ev_state c) then c\<lparr>ev_up := schedule_upload (es_segmenter (ev_state c)) (ev_up c)\<rparr>
          else c\<lparr>ev_fault := True\<rparr>)
      | SDM_STREAM \<Rightarrow> if \<not> es_stream_cbs (ev_state c) then c
          else if provider (store (ev_up c) (es_segmenter (ev_state c))) = 0 then c\<lparr>ev_fault := True\<rparr>
          else snd (ev_schedule (Start_Stream (provider (store (ev_up c) (es_segmenter (ev_state c))))) c)
      | SDM_NONE \<Rightarrow> c)"

definition stop_delivery :: "time \<Rightarrow> event_ctx \<Rightarrow> event_ctx" where
  "stop_delivery now c =
     (case es_mode (ev_state c) of
        SDM_UPLOAD \<Rightarrow>
          let c = (if es_stop (ev_state c) = time_null then upd_ev (\<lambda>s. s\<lparr>es_stop := now\<rparr>) c else c)
          in if es_bound (ev_state c)
             then c\<lparr>ev_finalize := ev_finalize c @ [(es_segmenter (ev_state c), es_stop (ev_state c))]\<rparr>
             else c\<lparr>ev_fault := True\<rparr>
      | SDM_STREAM \<Rightarrow>
          if es_stream_cbs (ev_state c) \<and> provider (store (ev_up c) (es_segmenter (ev_state c))) \<noteq> 0
          then let (i, c) = ev_schedule (Stop_Stream (ev_name c)) c
               in upd_ev (\<lambda>s. s\<lparr>es_stop_pending := i\<rparr>) c
          else c
      | SDM_NONE \<Rightarrow> c)"

text \<open>The task that \<open>_stop_stream_delivery\<close> schedules also forgets its timer.\<close>

definition stop_stream_task :: "event_ctx \<Rightarrow> event_ctx" where
  "stop_stream_task c = upd_ev (\<lambda>s. s\<lparr>es_stop_pending := None\<rparr>) c"

section \<open>Life cycle\<close>

definition segmenter_default :: segmenter where
  "segmenter_default = \<lparr>p_begin = time_null, p_end = time_max, cur_seg_start = 0, cur_seg_stop = 0,
     last_processed_time = 0, pre = 0, post = 0, step = 0, delay = 0, processed = False, canceled = False,
     finished = False, realtime = True, provider = 0, ticket = [], uploads_planned = 0, uploads_done = 0,
     uploads_failed = 0\<rparr>"

definition segment_reset :: "event_ctx \<Rightarrow> event_ctx" where
  "segment_reset c =
     (let i = ev_next_seg c in
      upd_ev (\<lambda>s. s\<lparr>es_segmenter := i\<rparr>)
        (c\<lparr>ev_up := upd_seg i (\<lambda>_. segmenter_default) (ev_up c), ev_next_seg := Suc i\<rparr>))"

definition event_state_new :: "event_config \<Rightarrow> bool \<Rightarrow> event_state" where
  "event_state_new conf scb =
     \<lparr>es_start = time_null, es_stop = time_max, es_active = False, es_stateful = ec_statefull (evc_caps conf),
      es_need_clip = ec_stream (evc_caps conf), es_need_snapshot = ec_snapshot (evc_caps conf),
      es_internal_hidden = ec_internal_hidden (evc_caps conf), es_kick = event_object_default, es_conf = conf,
      es_bound = True, es_stream_cbs = scb, es_segmenter = 0, es_kicker = None, es_stop_pending = None, es_mode = SDM_NONE, es_pre_ms = 5000,
      es_post_ms = 5000\<rparr>"

definition event_state_default :: event_state where
  "event_state_default = (event_state_new event_config_default False)\<lparr>es_bound := False\<rparr>"

text \<open>The part of \<open>start\<close> before the segmenter: the times, the delay and whether uploads keep pace.\<close>

definition start_times :: "event_env \<Rightarrow> event_object \<Rightarrow> event_ctx \<Rightarrow> duration \<times> bool \<times> event_ctx" where
  "start_times e event c =
     (let t = ee_from_double e (eo_time event) in
      if es_stateful (ev_state c) then
        (let c = upd_ev (\<lambda>s. s\<lparr>es_active := True, es_start := t, es_stop := time_null,
                     es_kick := (es_kick s)\<lparr>eo_event := eo_event event,
                       eo_custom_event_name := eo_custom_event_name event, eo_time := eo_time event\<rparr>\<rparr>) c
         in (ee_upload_delay e, True,
             if \<not> es_internal_hidden (ev_state c) then start_periodic_event_kicker c else c))
      else
        (let c = upd_ev (\<lambda>s. s\<lparr>es_start := t, es_stop := t\<rparr>) c; t_end = ee_from_double e (eo_time_end event)
         in if t_end \<noteq> time_null then (0, False, upd_ev (\<lambda>s. s\<lparr>es_stop := t_end\<rparr>) c)
            else (ee_upload_delay e, True, c)))"

definition start_segmenter :: "event_env \<Rightarrow> time \<Rightarrow> duration \<Rightarrow> duration \<Rightarrow> nat \<Rightarrow> string \<Rightarrow> duration \<Rightarrow> bool \<Rightarrow>
    event_state \<Rightarrow> segmenter \<Rightarrow> segmenter" where
  "start_segmenter e now pr po seg_provider upload_token dl rt s g =
     g\<lparr>p_begin := es_start s, p_end := es_stop s, cur_seg_start := es_start s - pr, step := ee_upload_step e,
       cur_seg_stop := min (es_start s + ee_upload_step e)
         (if es_stop s \<noteq> time_null then es_stop s + po else time_max),
       processed := False, pre := pr, post := po, provider := seg_provider, ticket := upload_token,
       realtime := rt, delay := dl, last_processed_time := now\<rparr>"

definition event_start :: "event_env \<Rightarrow> time \<Rightarrow> stream_delivery_mode \<Rightarrow> event_object \<Rightarrow> duration \<Rightarrow> duration \<Rightarrow> nat \<Rightarrow>
    string \<Rightarrow> event_ctx \<Rightarrow> event_ctx" where
  "event_start e now mode event pr po seg_provider upload_token c =
     (let (dl, rt, c) = start_times e event c;
          c = upd_ev (\<lambda>s. s\<lparr>es_mode := mode, es_pre_ms := to_milliseconds pr, es_post_ms := to_milliseconds po\<rparr>) c;
          c = segment_reset c;
          s = ev_state c;
          c = c\<lparr>ev_up := upd_seg (es_segmenter s) (start_segmenter e now pr po seg_provider upload_token dl rt s)
                  (ev_up c)\<rparr>
      in start_delivery c)"

definition event_stop :: "time \<Rightarrow> time \<Rightarrow> event_ctx \<Rightarrow> event_ctx" where
  "event_stop now t c =
     (let c = (if es_stateful (ev_state c) then
                 let c = upd_ev (\<lambda>s. s\<lparr>es_stop := t, es_active := False\<rparr>) c
                 in if \<not> es_internal_hidden (ev_state c) then stop_periodic_event_kicker c else c
               else c);
          i = es_segmenter (ev_state c);
          c = (if p_end (store (ev_up c) i) = time_null
               then c\<lparr>ev_up := upd_seg i (\<lambda>g. g\<lparr>p_end := t\<rparr>) (ev_up c)\<rparr> else c)
      in stop_delivery now c)"

definition update_delivery_mode :: "time \<Rightarrow> time \<Rightarrow> stream_delivery_mode \<Rightarrow> nat \<Rightarrow> event_ctx \<Rightarrow> event_ctx" where
  "update_delivery_mode now1 now2 mode seg_provider c =
     (if mode \<noteq> es_mode (ev_state c) then
        (let c = upd_ev (\<lambda>s. s\<lparr>es_mode := mode\<rparr>) (stop_delivery now1 c);
             i = es_segmenter (ev_state c);
             c = c\<lparr>ev_up := upd_seg i (\<lambda>g. g\<lparr>provider := seg_provider, p_begin := now2, cur_seg_start := now2\<rparr>) (ev_up c)\<rparr>;
             c = (if es_stop_pending (ev_state c) \<noteq> None
                  then upd_ev (\<lambda>s. s\<lparr>es_stop_pending := None\<rparr>) (ev_cancel (es_stop_pending (ev_state c)) c) else c)
         in start_delivery c)
      else c)"

text \<open>The destructor; a default-constructed state has no event and does nothing.\<close>

definition event_destroy :: "time \<Rightarrow> time \<Rightarrow> event_ctx \<Rightarrow> event_ctx" where
  "event_destroy now1 now2 c =
     (if evc_event (es_conf (ev_state c)) = ET_INVALID then c else
      let c = (if es_stateful (ev_state c) then stop_periodic_event_kicker c else c);
          c = (if es_start (ev_state c) \<noteq> time_null \<and> es_stateful (ev_state c) \<and> es_stop (ev_state c) = time_null
               then upd_ev (\<lambda>s. s\<lparr>es_stop := now1\<rparr>) c else c)
      in stop_delivery now2 c)"

text \<open>
  Assigning a new state to an old one swaps them; \<open>swap\<close> exchanges neither the times nor the activity
  nor the mode of delivery.
\<close>

definition event_state_swap :: "event_state \<Rightarrow> event_state \<Rightarrow> event_state" where
  "event_state_swap l r = l\<lparr>es_kicker := es_kicker r, es_segmenter := es_segmenter r, es_stateful := es_stateful r,
     es_need_clip := es_need_clip r, es_need_snapshot := es_need_snapshot r,
     es_internal_hidden := es_internal_hidden r, es_bound := es_bound r, es_stream_cbs := es_stream_cbs r, es_conf := es_conf r\<rparr>"

section \<open>The uploader's view\<close>

text \<open>Addresses not yet handed out are unknown to the uploader.\<close>

definition ev_fresh :: "event_ctx \<Rightarrow> bool" where
  "ev_fresh c \<longleftrightarrow> (\<forall>i \<ge> ev_next_seg c. i \<notin> set (segmenters (ev_up c)) \<union> set (scheduled (ev_up c)) \<union> set (pending (ev_up c)))"

lemma upd_ev_simps [simp]:
  "ev_up (upd_ev f c) = ev_up c" "ev_timers (upd_ev f c) = ev_timers c" "ev_next_seg (upd_ev f c) = ev_next_seg c"
  "ev_state (upd_ev f c) = f (ev_state c)" "ev_finalize (upd_ev f c) = ev_finalize c" "ev_name (upd_ev f c) = ev_name c"
  by (simp_all add: upd_ev_def)

lemma ev_schedule_simps [simp]:
  "ev_up (snd (ev_schedule t c)) = ev_up c" "ev_next_seg (snd (ev_schedule t c)) = ev_next_seg c"
  "ev_name (snd (ev_schedule t c)) = ev_name c"
  "ev_state (snd (ev_schedule t c)) = ev_state c"
  "ev_timers (snd (ev_schedule t c)) = snd (schedule_timed_cb t (ev_timers c))"
  "fst (ev_schedule t c) = fst (schedule_timed_cb t (ev_timers c))"
  by (simp_all add: ev_schedule_def split: prod.splits)

lemma ev_cancel_simps [simp]:
  "ev_up (ev_cancel i c) = ev_up c" "ev_next_seg (ev_cancel i c) = ev_next_seg c" "ev_name (ev_cancel i c) = ev_name c"
  "ev_state (ev_cancel i c) = ev_state c" "ev_timers (ev_cancel i c) = cancel_timed_cb i (ev_timers c)"
  by (simp_all add: ev_cancel_def)

lemma stop_delivery_up [simp]:
  "ev_up (stop_delivery now c) = ev_up c" "ev_next_seg (stop_delivery now c) = ev_next_seg c"
  by (simp_all add: stop_delivery_def Let_def split_beta split: stream_delivery_mode.split)

lemma start_periodic_up [simp]:
  "ev_up (start_periodic_event_kicker c) = ev_up c" "ev_next_seg (start_periodic_event_kicker c) = ev_next_seg c"
  by (simp_all add: start_periodic_event_kicker_def split_beta)

lemma stop_periodic_up [simp]:
  "ev_up (stop_periodic_event_kicker c) = ev_up c" "ev_state (stop_periodic_event_kicker c) = ev_state c"
  by (simp_all add: stop_periodic_event_kicker_def)

lemma start_times_up [simp]:
  "ev_up (snd (snd (start_times e event c))) = ev_up c" "ev_next_seg (snd (snd (start_times e event c))) = ev_next_seg c"
  by (simp_all add: start_times_def Let_def)

lemma start_delivery_steps: "ustep\<^sup>*\<^sup>* (ev_up c) (ev_up (start_delivery c))"
  by (auto simp: start_delivery_def intro: ustep_schedule split: stream_delivery_mode.split)

lemma start_segmenter_edit:
  "\<not> processed g \<Longrightarrow> client_edit g (start_segmenter e now pr po p tok dl rt s g)"
  by (simp add: client_edit_def start_segmenter_def)

lemma event_start_steps:
  assumes "ev_fresh c"
  shows "ustep\<^sup>*\<^sup>* (ev_up c) (ev_up (event_start e now mode event pr po p tok c))"
proof -
  define d where "d = snd (snd (start_times e event c))"
  obtain dl rt where st: "start_times e event c = (dl, rt, d)" by (metis d_def prod.collapse)
  define c1 where "c1 = segment_reset
    (upd_ev (\<lambda>s. s\<lparr>es_mode := mode, es_pre_ms := to_milliseconds pr, es_post_ms := to_milliseconds po\<rparr>) d)"
  let ?i = "ev_next_seg c"
  have i: "es_segmenter (ev_state c1) = ?i" "ev_up c1 = upd_seg ?i (\<lambda>_. segmenter_default) (ev_up c)"
    by (simp_all add: c1_def segment_reset_def Let_def d_def)
  define c2 where "c2 = c1\<lparr>ev_up := upd_seg ?i (start_segmenter e now pr po p tok dl rt (ev_state c1)) (ev_up c1)\<rparr>"
  have one: "ustep (ev_up c) (ev_up c1)"
    unfolding i using assms
    by (intro ustep_new) (auto simp: ev_fresh_def fresh_seg_def segmenter_default_def)
  have two: "ustep (ev_up c1) (ev_up c2)"
  proof -
    have "\<not> processed (store (ev_up c1) ?i)" by (simp add: i segmenter_default_def)
    from ustep_edit [OF start_segmenter_edit [OF this]] show ?thesis
      by (simp add: c2_def upd_seg_def)
  qed
  have "event_start e now mode event pr po p tok c = start_delivery c2"
    by (simp add: event_start_def st Let_def c1_def [symmetric] c2_def i(1))
  then show ?thesis
    using one two start_delivery_steps [of c2] by (metis converse_rtranclp_into_rtranclp)
qed

lemma event_stop_steps: "ustep\<^sup>*\<^sup>* (ev_up c) (ev_up (event_stop now t c))"
proof -
  have "ustep u (upd_seg i (\<lambda>g. g\<lparr>p_end := t\<rparr>) u)" for i u
    using ustep_edit [of u i "(store u i)\<lparr>p_end := t\<rparr>"] by (simp add: client_edit_def upd_seg_def)
  then show ?thesis by (auto simp: event_stop_def Let_def)
qed

lemma update_delivery_mode_steps: "ustep\<^sup>*\<^sup>* (ev_up c) (ev_up (update_delivery_mode now1 now2 mode p c))"
proof (cases "mode = es_mode (ev_state c)")
  case False
  define d where "d = upd_ev (\<lambda>s. s\<lparr>es_mode := mode\<rparr>) (stop_delivery now1 c)"
  define d1 where "d1 = d\<lparr>ev_up := upd_seg (es_segmenter (ev_state d))
    (\<lambda>g. g\<lparr>provider := p, p_begin := now2, cur_seg_start := now2\<rparr>) (ev_up d)\<rparr>"
  define d2 where "d2 = (if es_stop_pending (ev_state d1) \<noteq> None
    then upd_ev (\<lambda>s. s\<lparr>es_stop_pending := None\<rparr>) (ev_cancel (es_stop_pending (ev_state d1)) d1) else d1)"
  have "ustep u (upd_seg i (\<lambda>g. g\<lparr>provider := p, p_begin := now2, cur_seg_start := now2\<rparr>) u)" for i u
    using ustep_edit [of u i "(store u i)\<lparr>provider := p, p_begin := now2, cur_seg_start := now2\<rparr>"]
    by (simp add: client_edit_def upd_seg_def)
  then have "ustep (ev_up c) (ev_up d2)" by (simp add: d_def d1_def d2_def)
  moreover have "update_delivery_mode now1 now2 mode p c = start_delivery d2"
    using False by (simp add: update_delivery_mode_def Let_def d_def d1_def d2_def)
  ultimately show ?thesis using start_delivery_steps [of d2] by (metis converse_rtranclp_into_rtranclp)
qed (simp add: update_delivery_mode_def)

section \<open>The timers of dummy events\<close>

abbreviation kick_ids :: "string \<Rightarrow> etask lws_common \<Rightarrow> cb_id list" where
  "kick_ids n \<equiv> lws_tasks.ids (Event_Kick n)"

text \<open>
  While a stateful, visible event is active exactly one timer for dummy events is armed and the event
  refers to it; otherwise none is. The timer that stops a stream is another one.
\<close>

definition kick_inv :: "event_ctx \<Rightarrow> bool" where
  "kick_inv c \<longleftrightarrow> timers_up (ev_timers c) \<and> current (ev_timers c) = None \<and>
     (es_active (ev_state c) \<longrightarrow> es_stateful (ev_state c)) \<and>
     (if es_active (ev_state c) \<and> \<not> es_internal_hidden (ev_state c)
      then lws_tasks.sole (Event_Kick (ev_name c)) (es_kicker (ev_state c)) (ev_timers c) else kick_ids (ev_name c) (ev_timers c) = []) \<and>
     (\<forall>i. es_stop_pending (ev_state c) = Some i \<longrightarrow> i < next_cb (ev_timers c) \<and> i \<notin> set (kick_ids (ev_name c) (ev_timers c)))"

text \<open>
  What happens to an event: it is started (a stateful one only when it is not active), stopped, its mode
  changes, a timer of its own or of somebody else fires, the uploader moves (nobody uses a segmenter before
  it is allocated), somebody else schedules a callback.
\<close>

inductive kstep :: "event_ctx \<Rightarrow> event_ctx \<Rightarrow> bool" where
  kstep_start: "\<not> es_active (ev_state c) \<Longrightarrow> kstep c (event_start e now mode event pr po p tok c)"
| kstep_stop: "kstep c (event_stop now t c)"
| kstep_mode: "kstep c (update_delivery_mode now1 now2 mode p c)"
| kstep_kick: "i \<in> set (kick_ids (ev_name c) (ev_timers c)) \<Longrightarrow>
    d = event_kick e (c\<lparr>ev_timers := sul_cb_enter i (ev_timers c)\<rparr>) \<Longrightarrow>
    kstep c (d\<lparr>ev_timers := sul_cb_leave (ev_timers d)\<rparr>)"
| kstep_stop_stream: "i \<in> set (lws_tasks.ids (Stop_Stream (ev_name c)) (ev_timers c)) \<Longrightarrow>
    d = stop_stream_task (c\<lparr>ev_timers := sul_cb_enter i (ev_timers c)\<rparr>) \<Longrightarrow>
    kstep c (d\<lparr>ev_timers := sul_cb_leave (ev_timers d)\<rparr>)"
| kstep_other: "t \<noteq> Event_Kick (ev_name c) \<Longrightarrow> i \<in> set (lws_tasks.ids t (ev_timers c)) \<Longrightarrow>
    kstep c (c\<lparr>ev_timers := sul_cb_leave (sul_cb_enter i (ev_timers c))\<rparr>)"
| kstep_uploader: "ustep (ev_up c) u \<Longrightarrow> ev_fresh (c\<lparr>ev_up := u\<rparr>) \<Longrightarrow> kstep c (c\<lparr>ev_up := u\<rparr>)"
| kstep_schedule: "kstep c (c\<lparr>ev_timers := snd (schedule_timed_cb Other_Task (ev_timers c))\<rparr>)"

text \<open>The part of the invariant that a change of the other fields or of the other timers keeps.\<close>

lemma kick_inv_frame:
  assumes "kick_inv c" "ev_timers d = ev_timers c" "ev_name d = ev_name c"
    "es_active (ev_state d) = es_active (ev_state c)" "es_stateful (ev_state d) = es_stateful (ev_state c)"
    "es_internal_hidden (ev_state d) = es_internal_hidden (ev_state c)" "es_kicker (ev_state d) = es_kicker (ev_state c)"
    "es_stop_pending (ev_state d) = es_stop_pending (ev_state c)"
  shows "kick_inv d"
  using assms by (simp add: kick_inv_def)

lemma kick_inv_up [simp]: "kick_inv (c\<lparr>ev_up := u\<rparr>) = kick_inv c"
  by (simp add: kick_inv_def)

lemma next_cb_schedule [simp]: "next_cb (snd (schedule_timed_cb t l)) = Suc (next_cb l)"
  by (simp add: schedule_timed_cb_def timers_cleanup_def Let_def)

lemma kick_ids_below: "timers_up l \<Longrightarrow> i \<in> set (kick_ids n l) \<Longrightarrow> i < next_cb l"
  using lws_tasks.ids_issued [of l] by auto

lemma fst_schedule: "timers_up l \<Longrightarrow> fst (schedule_timed_cb t l) = Some (next_cb l)"
  by (simp add: schedule_timed_cb_def timers_cleanup_def Let_def timers_up_def)

lemma kick_inv_schedule:
  assumes "kick_inv c" "t \<noteq> Event_Kick (ev_name c)"
  shows "kick_inv (snd (ev_schedule t c))"
    "kick_inv (upd_ev (\<lambda>s. s\<lparr>es_stop_pending := fst (schedule_timed_cb t (ev_timers c))\<rparr>) (snd (ev_schedule t c)))"
proof -
  have up: "timers_up (ev_timers c)" using assms by (simp add: kick_inv_def)
  note k = lws_tasks.sched_ok [OF up, of t] lws_tasks.ids_other [OF up assms(2)] fst_schedule [OF up]
  show "kick_inv (snd (ev_schedule t c))"
    using assms k by (auto simp: kick_inv_def lws_tasks.sole_def)
  show "kick_inv (upd_ev (\<lambda>s. s\<lparr>es_stop_pending := fst (schedule_timed_cb t (ev_timers c))\<rparr>) (snd (ev_schedule t c)))"
    using assms k kick_ids_below [OF up] by (auto simp: kick_inv_def lws_tasks.sole_def)
qed

lemma kick_inv_start_delivery: "kick_inv c \<Longrightarrow> kick_inv (start_delivery c)"
  by (auto simp: start_delivery_def kick_inv_schedule intro: kick_inv_frame split: stream_delivery_mode.split)

lemma kick_inv_stop_delivery: "kick_inv c \<Longrightarrow> kick_inv (stop_delivery now c)"
  by (auto simp: stop_delivery_def Let_def split_beta kick_inv_schedule intro: kick_inv_frame
      split: stream_delivery_mode.split)

lemma kick_inv_activate:
  assumes "kick_inv c" "\<not> es_active (ev_state c)" "es_stateful (ev_state c)"
    "ev_timers d = ev_timers c" "ev_name d = ev_name c" "ev_state d = (ev_state c)\<lparr>es_active := True, es_start := x, es_stop := y, es_kick := z\<rparr>"
  shows "kick_inv (if \<not> es_internal_hidden (ev_state d) then start_periodic_event_kicker d else d)"
proof (cases "es_internal_hidden (ev_state c)")
  case True
  then show ?thesis using assms by (simp add: kick_inv_def)
next
  case False
  have up: "timers_up (ev_timers c)" and no: "kick_ids (ev_name c) (ev_timers c) = []" using assms by (simp_all add: kick_inv_def)
  have s: "lws_tasks.sole (Event_Kick (ev_name c)) (fst (schedule_timed_cb (Event_Kick (ev_name c)) (ev_timers c)))
      (snd (schedule_timed_cb (Event_Kick (ev_name c)) (ev_timers c)))"
    by (rule lws_tasks.arm [OF up no])
  then have "kick_ids (ev_name c) (snd (schedule_timed_cb (Event_Kick (ev_name c)) (ev_timers c))) = [next_cb (ev_timers c)]"
    by (simp add: lws_tasks.sole_def fst_schedule [OF up])
  then show ?thesis
    using False assms s lws_tasks.sched_ok [OF up, of "Event_Kick (ev_name c)"]
    by (auto simp: start_periodic_event_kicker_def split_beta kick_inv_def)
qed

lemma kick_inv_start_times:
  assumes "kick_inv c" "\<not> es_active (ev_state c)"
  shows "kick_inv (snd (snd (start_times e event c)))"
proof (cases "es_stateful (ev_state c)")
  case True
  let ?d = "upd_ev (\<lambda>s. s\<lparr>es_active := True, es_start := ee_from_double e (eo_time event), es_stop := time_null,
     es_kick := (es_kick s)\<lparr>eo_event := eo_event event, eo_custom_event_name := eo_custom_event_name event,
       eo_time := eo_time event\<rparr>\<rparr>) c"
  have "kick_inv (if \<not> es_internal_hidden (ev_state ?d) then start_periodic_event_kicker ?d else ?d)"
    by (rule kick_inv_activate [OF assms True]) simp_all
  then show ?thesis using True by (simp add: start_times_def Let_def)
next
  case False
  then show ?thesis using assms by (auto simp: start_times_def Let_def intro: kick_inv_frame)
qed

lemma kick_inv_start:
  assumes "kick_inv c" "\<not> es_active (ev_state c)"
  shows "kick_inv (event_start e now mode event pr po p tok c)"
  unfolding event_start_def Let_def split_beta
  by (rule kick_inv_start_delivery, rule kick_inv_frame [OF kick_inv_start_times [OF assms, of e event]])
     (simp_all add: segment_reset_def Let_def)

lemma kick_inv_stop:
  assumes "kick_inv c" shows "kick_inv (event_stop now t c)"
proof -
  have up: "timers_up (ev_timers c)" using assms by (simp add: kick_inv_def)
  define d where "d = (if es_stateful (ev_state c) then
                 let c = upd_ev (\<lambda>s. s\<lparr>es_stop := t, es_active := False\<rparr>) c
                 in if \<not> es_internal_hidden (ev_state c) then stop_periodic_event_kicker c else c
               else c)"
  have x: "kick_ids (ev_name c) (cancel_timed_cb (es_kicker (ev_state c)) (ev_timers c)) = []"
    if "\<not> es_internal_hidden (ev_state c)" 
    using assms that lws_tasks.disarm [OF up] lws_tasks.ids_cncl_other [OF up, of "es_kicker (ev_state c)" "Event_Kick (ev_name c)"]
    by (cases "es_active (ev_state c)") (auto simp: kick_inv_def)
  have nx: "next_cb (cancel_timed_cb r (ev_timers c)) = next_cb (ev_timers c)" for r
    using lws_tasks.cncl_ok [OF up, of r] by simp
  have "kick_inv d"
  proof (cases "es_stateful (ev_state c) \<and> \<not> es_internal_hidden (ev_state c)")
    case True
    then show ?thesis using assms x lws_tasks.cncl_ok [OF up, of "es_kicker (ev_state c)"] nx
      by (simp add: d_def Let_def stop_periodic_event_kicker_def kick_inv_def)
  next
    case False
    then show ?thesis using assms by (auto simp: d_def Let_def kick_inv_def)
  qed
  moreover have "event_stop now t c = stop_delivery now
      (if p_end (store (ev_up d) (es_segmenter (ev_state d))) = time_null
       then d\<lparr>ev_up := upd_seg (es_segmenter (ev_state d)) (\<lambda>g. g\<lparr>p_end := t\<rparr>) (ev_up d)\<rparr> else d)"
    by (simp only: event_stop_def Let_def d_def)
  ultimately show ?thesis by (simp add: kick_inv_stop_delivery)
qed

lemma kick_inv_cancel_pending:
  assumes "kick_inv c"
  shows "kick_inv (upd_ev (\<lambda>s. s\<lparr>es_stop_pending := None\<rparr>) (ev_cancel (es_stop_pending (ev_state c)) c))"
proof -
  have up: "timers_up (ev_timers c)" using assms by (simp add: kick_inv_def)
  have "kick_ids (ev_name c) (cancel_timed_cb (es_stop_pending (ev_state c)) (ev_timers c)) = kick_ids (ev_name c) (ev_timers c)"
    using assms by (intro lws_tasks.ids_cncl_other [OF up]) (auto simp: kick_inv_def)
  then show ?thesis using assms lws_tasks.cncl_ok [OF up, of "es_stop_pending (ev_state c)"]
    by (auto simp: kick_inv_def lws_tasks.sole_def)
qed

lemma kick_inv_mode:
  assumes "kick_inv c" shows "kick_inv (update_delivery_mode now1 now2 mode p c)"
proof -
  define d where "d = upd_ev (\<lambda>s. s\<lparr>es_mode := mode\<rparr>) (stop_delivery now1 c)"
  define d1 where "d1 = d\<lparr>ev_up := upd_seg (es_segmenter (ev_state d))
    (\<lambda>g. g\<lparr>provider := p, p_begin := now2, cur_seg_start := now2\<rparr>) (ev_up d)\<rparr>"
  have "kick_inv d1"
    by (rule kick_inv_frame [OF kick_inv_stop_delivery [OF assms, of now1]]) (simp_all add: d_def d1_def)
  then have "kick_inv (start_delivery (if es_stop_pending (ev_state d1) \<noteq> None
    then upd_ev (\<lambda>s. s\<lparr>es_stop_pending := None\<rparr>) (ev_cancel (es_stop_pending (ev_state d1)) d1) else d1))"
    by (intro kick_inv_start_delivery) (auto dest: kick_inv_cancel_pending)
  moreover have "update_delivery_mode now1 now2 mode p c = start_delivery (if es_stop_pending (ev_state d1) \<noteq> None
    then upd_ev (\<lambda>s. s\<lparr>es_stop_pending := None\<rparr>) (ev_cancel (es_stop_pending (ev_state d1)) d1) else d1)"
    if "mode \<noteq> es_mode (ev_state c)"
    using that by (simp only: update_delivery_mode_def Let_def d_def d1_def) simp
  ultimately show ?thesis using assms by (cases "mode = es_mode (ev_state c)") (simp_all add: update_delivery_mode_def)
qed

lemma kick_inv_fire:
  assumes "kick_inv c" "t \<noteq> Event_Kick (ev_name c)" "i \<in> set (lws_tasks.ids t (ev_timers c))"
  shows "kick_inv (c\<lparr>ev_timers := sul_cb_leave (sul_cb_enter i (ev_timers c))\<rparr>)"
proof -
  let ?l = "ev_timers c"
  have up: "timers_up ?l" and idle: "current ?l = None" using assms(1) by (simp_all add: kick_inv_def)
  have i: "i \<in> fst ` set (tasks ?l)" using lws_tasks.ids_in_tasks [OF assms(3)] .
  note e = lws_tasks.enter_task [OF up idle i]
  then have e_up: "timers_up (sul_cb_enter i ?l)" by blast
  have "i \<notin> set (kick_ids (ev_name c) ?l)" using assms(2,3) by (auto simp: lws_tasks.ids_def tasks_def)
  then have "kick_ids (ev_name c) (sul_cb_leave (sul_cb_enter i ?l)) = kick_ids (ev_name c) ?l"
    by (auto simp: lws_tasks.ids_leave [OF e_up] lws_tasks.ids_enter [OF up idle i] filter_id_conv)
  moreover have "next_cb (sul_cb_leave (sul_cb_enter i ?l)) = next_cb ?l"
    using e lws_tasks.leave_task [OF e_up] by simp
  ultimately show ?thesis
    using assms(1) lws_tasks.leave_task [OF e_up] by (auto simp: kick_inv_def lws_tasks.sole_def)
qed

lemma kick_inv_kick:
  assumes "kick_inv c" "i \<in> set (kick_ids (ev_name c) (ev_timers c))"
    "d = event_kick e (c\<lparr>ev_timers := sul_cb_enter i (ev_timers c)\<rparr>)"
  shows "kick_inv (d\<lparr>ev_timers := sul_cb_leave (ev_timers d)\<rparr>)"
proof -
  let ?l = "ev_timers c" and ?m = "sul_cb_enter i (ev_timers c)"
  have up: "timers_up ?l" and idle: "current ?l = None" using assms(1) by (simp_all add: kick_inv_def)
  have act: "es_active (ev_state c)" "\<not> es_internal_hidden (ev_state c)" and k: "kick_ids (ev_name c) ?l = [i]"
    using assms(1,2) by (auto simp: kick_inv_def lws_tasks.sole_def split: if_splits)
  have i: "i \<in> fst ` set (tasks ?l)" using lws_tasks.ids_in_tasks [OF assms(2)] .
  note e = lws_tasks.enter_task [OF up idle i]
  then have e_up: "timers_up ?m" by blast
  have s: "lws_tasks.sole (Event_Kick (ev_name c)) (fst (schedule_timed_cb (Event_Kick (ev_name c)) ?m)) (sul_cb_leave (snd (schedule_timed_cb (Event_Kick (ev_name c)) ?m)))"
    by (rule lws_tasks.rearm [OF up idle k])
  have d: "ev_timers d = snd (schedule_timed_cb (Event_Kick (ev_name c)) ?m)" "es_kicker (ev_state d) = fst (schedule_timed_cb (Event_Kick (ev_name c)) ?m)"
    "es_active (ev_state d) = es_active (ev_state c)" "es_stateful (ev_state d) = es_stateful (ev_state c)"
    "es_internal_hidden (ev_state d) = es_internal_hidden (ev_state c)"
    "es_stop_pending (ev_state d) = es_stop_pending (ev_state c)" "ev_name d = ev_name c"
    by (simp_all add: assms(3) event_kick_def Let_def split_beta)
  have sched: "timers_up (ev_timers d)" using lws_tasks.sched_ok [OF e_up] by (simp add: d)
  note lv = lws_tasks.leave_task [OF this]
  have "next_cb (sul_cb_leave (ev_timers d)) = Suc (next_cb ?l)" using lv e by (simp add: d)
  moreover have "kick_ids (ev_name c) (sul_cb_leave (ev_timers d)) = [next_cb ?l]"
    using s e by (simp add: lws_tasks.sole_def d fst_schedule [OF e_up])
  ultimately show ?thesis using assms(1) act s d lv by (auto simp: kick_inv_def)
qed

lemma kick_inv_step: "kstep c d \<Longrightarrow> kick_inv c \<Longrightarrow> kick_inv d"
proof (induction rule: kstep.induct)
  case (kstep_stop_stream i c d)
  have "kick_inv (c\<lparr>ev_timers := sul_cb_leave (sul_cb_enter i (ev_timers c))\<rparr>)"
    using kick_inv_fire [OF kstep_stop_stream(3) _ kstep_stop_stream(1)] by simp
  then show ?case by (auto simp: kick_inv_def kstep_stop_stream(2) stop_stream_task_def split: if_splits)
next
  case (kstep_schedule c)
  then show ?case using kick_inv_schedule(1) [of c Other_Task] by (simp add: ev_schedule_def split_beta)
qed (simp_all add: kick_inv_start kick_inv_stop kick_inv_mode kick_inv_fire kick_inv_kick)

section \<open>Reachable states\<close>

text \<open>The addresses in use have been handed out, the event's own among them.\<close>

definition ev_wf :: "event_ctx \<Rightarrow> bool" where
  "ev_wf c \<longleftrightarrow> ev_fresh c \<and> es_segmenter (ev_state c) < ev_next_seg c"

definition event_init :: "event_ctx \<Rightarrow> bool" where
  "event_init c \<longleftrightarrow> (\<exists>conf b. ev_state b = event_state_new conf True \<and> ev_timers b = ev_timers c \<and> c = segment_reset b) \<and>
     uploader_reachable (ev_up c) \<and> ev_fresh c \<and> timers_up (ev_timers c) \<and> current (ev_timers c) = None \<and>
     kick_ids (ev_name c) (ev_timers c) = []"

definition event_reachable :: "event_ctx \<Rightarrow> bool" where
  "event_reachable c \<longleftrightarrow> (\<exists>c0. event_init c0 \<and> kstep\<^sup>*\<^sup>* c0 c)"

lemma ev_fresh_schedule:
  "ev_fresh c \<Longrightarrow> i < ev_next_seg c \<Longrightarrow> ev_fresh (c\<lparr>ev_up := schedule_upload i (ev_up c)\<rparr>)"
  by (auto simp: ev_fresh_def schedule_upload_def)

lemma ev_wf_cong:
  assumes "ev_wf c" "segmenters (ev_up d) = segmenters (ev_up c)" "scheduled (ev_up d) = scheduled (ev_up c)"
    "pending (ev_up d) = pending (ev_up c)" "ev_next_seg c \<le> ev_next_seg d" "es_segmenter (ev_state d) < ev_next_seg d"
  shows "ev_wf d"
  using assms by (auto simp: ev_wf_def ev_fresh_def)

lemma ev_wf_start_delivery: "ev_wf c \<Longrightarrow> ev_wf (start_delivery c)"
  by (auto simp: start_delivery_def ev_wf_def ev_fresh_def schedule_upload_def split: stream_delivery_mode.split)

lemma ev_seg_simps [simp]:
  "es_segmenter (ev_state (stop_delivery now c)) = es_segmenter (ev_state c)"
  "es_segmenter (ev_state (stop_periodic_event_kicker c)) = es_segmenter (ev_state c)"
  "ev_next_seg (stop_periodic_event_kicker c) = ev_next_seg c"
  by (simp_all add: stop_delivery_def stop_periodic_event_kicker_def Let_def split_beta split: stream_delivery_mode.split)

lemma ev_wf_start: "ev_wf c \<Longrightarrow> ev_wf (event_start e now mode event pr po p tok c)"
  unfolding event_start_def Let_def split_beta
  by (rule ev_wf_start_delivery, erule ev_wf_cong) (simp_all add: segment_reset_def Let_def)

lemma ev_wf_stop: "ev_wf c \<Longrightarrow> ev_wf (event_stop now t c)"
  by (frule ev_wf_cong [where d = "event_stop now t c"]) (auto simp: event_stop_def Let_def ev_wf_def)

lemma ev_wf_mode:
  assumes "ev_wf c" shows "ev_wf (update_delivery_mode now1 now2 mode p c)"
proof (cases "mode = es_mode (ev_state c)")
  case False
  from assms have lt: "es_segmenter (ev_state c) < ev_next_seg c" by (simp add: ev_wf_def)
  from False show ?thesis
    unfolding update_delivery_mode_def Let_def
    by (simp only: if_True not_False_eq_True, intro ev_wf_start_delivery ev_wf_cong [OF assms]) (simp_all add: lt)
qed (simp add: assms update_delivery_mode_def)

lemma ev_wf_step: "kstep c d \<Longrightarrow> ev_wf c \<Longrightarrow> ev_wf d"
proof (induction rule: kstep.induct)
  case (kstep_kick i c d e)
  then show ?case by (simp add: ev_wf_def ev_fresh_def event_kick_def Let_def split_beta)
next
  case (kstep_stop_stream i c d)
  then show ?case by (simp add: ev_wf_def ev_fresh_def stop_stream_task_def)
qed (simp_all add: ev_wf_start ev_wf_stop ev_wf_mode, simp_all add: ev_wf_def ev_fresh_def)

lemma kstep_ustep: "kstep c d \<Longrightarrow> ev_wf c \<Longrightarrow> ustep\<^sup>*\<^sup>* (ev_up c) (ev_up d)"
proof (induction rule: kstep.induct)
  case (kstep_start c e now mode event pr po p tok)
  then show ?case using event_start_steps by (simp add: ev_wf_def)
qed (auto simp: event_stop_steps update_delivery_mode_steps event_kick_def stop_stream_task_def Let_def split_beta)

lemma event_reachable_inv:
  assumes "event_reachable c"
  shows "kick_inv c \<and> ev_wf c \<and> uploader_reachable (ev_up c)"
proof -
  obtain c0 where i: "event_init c0" and s: "kstep\<^sup>*\<^sup>* c0 c" using assms by (auto simp: event_reachable_def)
  have i0: "kick_inv c0 \<and> ev_wf c0 \<and> uploader_reachable (ev_up c0)"
    using i by (auto simp: event_init_def kick_inv_def ev_wf_def event_state_new_def segment_reset_def Let_def)
  from s show ?thesis
  proof (induction rule: rtranclp_induct)
    case (step y z)
    then show ?case
      using kick_inv_step [of y z] ev_wf_step [of y z] kstep_ustep [of y z]
      unfolding uploader_reachable_def by (meson rtranclp_trans)
  qed (rule i0)
qed

section \<open>Properties\<close>

text \<open>A device with one stateful event on a running transport and an idle uploader.\<close>

definition demo_event_env :: event_env where
  "demo_event_env = \<lparr>ee_from_double = (\<lambda>d. seconds (uint d)), ee_to_double = (\<lambda>t. of_int (t div 1000000000)),
     ee_upload_step = seconds 15, ee_upload_delay = 0\<rparr>"

definition demo_event_conf :: "bool \<Rightarrow> event_config" where
  "demo_event_conf stateful = \<lparr>evc_event = ET_MOTION, evc_custom_event_name = unset_string, evc_active = True,
     evc_stream = True, evc_snapshot = False, evc_period = UnsetInt,
     evc_caps = event_caps_default\<lparr>ec_statefull := stateful\<rparr>\<rparr>"

definition demo_event_ctx :: "bool \<Rightarrow> event_ctx" where
  "demo_event_ctx stateful = segment_reset \<lparr>ev_name = ''motion'', ev_state = event_state_new (demo_event_conf stateful) True, ev_up = demo_uploader,
     ev_timers = \<lparr>lws_context = True, lws_running = True, cbs = Map.empty, next_cb = 0,
       scheduled_callbacks = [], armed = [], current = None, called = []\<rparr>,
     ev_next_seg = 0, ev_finalize = [], ev_notified = [], ev_fault = False\<rparr>"

definition demo_started :: "bool \<Rightarrow> event_ctx" where
  "demo_started stateful = event_start demo_event_env 0 SDM_UPLOAD (event_object_default\<lparr>eo_event := ET_MOTION, eo_time := 100,
     eo_time_end := 0\<rparr>) 0 0 0 [] (demo_event_ctx stateful)"

lemma demo_event_init: "event_init (demo_event_ctx b)"
proof -
  have "uploader_init demo_uploader"
    by (simp add: uploader_init_def demo_uploader_def fresh_seg_def demo_segmenter_def)
  moreover have "ustep demo_uploader (upd_seg 0 (\<lambda>_. segmenter_default) demo_uploader)"
    by (rule ustep_new) (simp_all add: demo_uploader_def fresh_seg_def segmenter_default_def)
  ultimately have up: "uploader_reachable (upd_seg 0 (\<lambda>_. segmenter_default) demo_uploader)"
    unfolding uploader_reachable_def by blast
  define b0 where "b0 = \<lparr>ev_name = ''motion'', ev_state = event_state_new (demo_event_conf b) True, ev_up = demo_uploader,
     ev_timers = \<lparr>lws_context = True, lws_running = True, cbs = Map.empty, next_cb = 0,
       scheduled_callbacks = [], armed = [], current = None, called = []\<rparr>,
     ev_next_seg = 0, ev_finalize = [], ev_notified = [], ev_fault = False\<rparr>"
  have b0: "ev_state b0 = event_state_new (demo_event_conf b) True" "ev_timers b0 = ev_timers (demo_event_ctx b)"
      "demo_event_ctx b = segment_reset b0"
    by (simp_all add: b0_def demo_event_ctx_def segment_reset_def Let_def)
  have rest: "ev_fresh (demo_event_ctx b) \<and> timers_up (ev_timers (demo_event_ctx b)) \<and>
      current (ev_timers (demo_event_ctx b)) = None \<and> kick_ids (ev_name (demo_event_ctx b)) (ev_timers (demo_event_ctx b)) = [] \<and>
      ev_up (demo_event_ctx b) = upd_seg 0 (\<lambda>_. segmenter_default) demo_uploader"
    by (simp add: demo_event_ctx_def segment_reset_def Let_def upd_ev_def ev_fresh_def demo_uploader_def
        timers_up_def timers_inv_def lws_tasks.ids_def tasks_def cb_state_def upd_seg_def)
  show ?thesis
    unfolding event_init_def using b0 rest up by (intro conjI exI [of _ "demo_event_conf b"] exI [of _ b0]) simp_all
qed

lemma demo_started_reachable: "event_reachable (demo_started b)"
proof -
  have "\<not> es_active (ev_state (demo_event_ctx b))"
    by (simp add: demo_event_ctx_def segment_reset_def Let_def event_state_new_def)
  from kstep_start [OF this] show ?thesis
    unfolding event_reachable_def demo_started_def using demo_event_init by blast
qed

text \<open>
  C7: an event drives the uploader only through the uploader's own operations: whatever sequence of
  starts, stops, changes of the delivery mode, timers and steps of the uploader an event goes through,
  the uploader is in one of its reachable states and the event's segmenter is one that has been allocated.
\<close>

theorem event_drives_uploader:
  assumes "event_reachable c"
  shows "uploader_reachable (ev_up c) \<and> es_segmenter (ev_state c) < ev_next_seg c"
  using event_reachable_inv [OF assms] by (simp add: ev_wf_def)

theorem event_drives_uploader_witness:
  "uploader_reachable (ev_up (demo_started True)) \<and>
   es_segmenter (ev_state (demo_started True)) < ev_next_seg (demo_started True)"
  by (rule event_drives_uploader [OF demo_started_reachable])

text \<open>The armed timers that will send a dummy event.\<close>

definition armed_kicks :: "string \<Rightarrow> etask lws_common \<Rightarrow> cb_id list" where
  "armed_kicks n l = filter (\<lambda>i. map_option tc_cb (cbs l i) = Some (Event_Kick n)) (armed l)"

lemma kick_ids_armed: "kick_ids n l = armed_kicks n l"
  by (simp add: lws_tasks.ids_def tasks_def armed_kicks_def filter_map comp_def)

text \<open>
  C12: while a stateful, visible event is active exactly one timer for dummy events is armed, the one the
  event refers to and will cancel; when it is inactive or hidden none is armed, so no dummy event follows
  its end.
\<close>

theorem one_kick_timer:
  assumes "event_reachable c"
  shows "armed_kicks (ev_name c) (ev_timers c) =
    (if es_active (ev_state c) \<and> \<not> es_internal_hidden (ev_state c) then [the (es_kicker (ev_state c))] else [])"
  using event_reachable_inv [OF assms]
  by (auto simp: kick_inv_def kick_ids_armed lws_tasks.sole_def split: if_splits)

theorem one_kick_timer_witness: "armed_kicks (ev_name (demo_started True)) (ev_timers (demo_started True)) = [0]"
  unfolding one_kick_timer [OF demo_started_reachable]
  by (simp add: demo_started_def event_start_def demo_event_ctx_def segment_reset_def Let_def event_state_new_def
      demo_event_conf_def start_times_def start_periodic_event_kicker_def ev_schedule_def split_beta
      start_delivery_def schedule_timed_cb_def timers_cleanup_def event_caps_default_def)

text \<open>
  a clip of an event without a state is uploaded to its end: starting such an event in upload mode hands its
  segmenter to the uploader, and that segmenter, advanced with any clock on streams that export
  forward, is processed after finitely many steps.
\<close>

theorem stateless_event_completes:
  assumes "es_bound (ev_state c)" and "\<not> es_stateful (ev_state c)" and "\<And>n. exports_forward (recs n)"
    and "d = event_start e now SDM_UPLOAD event pr po p tok c" and "i = es_segmenter (ev_state d)"
    and "0 \<le> pr" and "0 \<le> po" and "0 < ee_upload_step e"
    and "t = ee_from_double e (eo_time event)" and "t \<noteq> time_null"
    and "ee_from_double e (eo_time_end event) = time_null \<or> t \<le> ee_from_double e (eo_time_end event)"
    and "t \<le> time_max"
  shows "i \<in> set (scheduled (ev_up d)) \<and> (\<exists>n. processed (store (seg_run i recs clock (ev_up d) n) i))"
proof -
  have s: "i \<in> set (scheduled (ev_up d)) \<and> \<not> processed (store (ev_up d) i) \<and> \<not> canceled (store (ev_up d) i) \<and>
      window_wf (store (ev_up d) i)"
    using assms by (auto simp: event_start_def start_times_def Let_def segment_reset_def start_delivery_def schedule_upload_def
        start_segmenter_def window_wf_def segmenter_default_def)
  then show ?thesis using segmenter_processed [of recs "ev_up d" i clock] assms(3) by blast
qed

theorem stateless_event_completes_witness:
  "\<exists>n. processed (store (seg_run 1 (\<lambda>n p a b. []) (\<lambda>n. (0, 0)) (ev_up (demo_started False)) n) 1)"
proof -
  have "es_bound (ev_state (demo_event_ctx False))" "\<not> es_stateful (ev_state (demo_event_ctx False))" and i: "1 = es_segmenter (ev_state (demo_started False))"
    by (simp_all add: demo_event_ctx_def segment_reset_def Let_def event_state_new_def demo_event_conf_def event_caps_default_def
        demo_started_def event_start_def start_times_def start_delivery_def)
  from stateless_event_completes [OF this(1,2) _ demo_started_def i, of "\<lambda>n p a b. []" _ "\<lambda>n. (0, 0)"]
  show ?thesis
    by (simp add: exports_forward_def demo_event_env_def seconds_def time_null_def time_max_def)
qed

end
