(* ===== verification/Command_Factory.thy ===== *)
theory Command_Factory
  imports Proto_Commands
begin

text \<open>
  \<^verbatim>\<open>cam_event\<close>, the command with two hand-written JSON functions, the sum of all commands, and the
  factory of \<^verbatim>\<open>src/src/agent-proto/command/command-factory.h\<close>: parsing a message into the command
  its name asks for, replies and acknowledgements.
\<close>

section \<open>The event command\<close>

record cam_event = base_command +
  ce_event_object :: event_object

definition cam_event_default :: "int \<Rightarrow> cam_event" where
  "cam_event_default n = base_command.extend ((base_command_default n)\<lparr>bc_cmd := ''cam_event''\<rparr>)
     \<lparr>ce_event_object = event_object_default\<rparr>"

definition cam_event_to_json :: "json_num \<Rightarrow> cam_event \<Rightarrow> json" where
  "cam_event_to_json num c =
     event_object_to_json num (ce_event_object c) (struct_to_json (base_command_fields num) c)"

definition cam_event_from_json :: "json_num \<Rightarrow> json \<Rightarrow> cam_event \<Rightarrow> cam_event" where
  "cam_event_from_json num j c =
     (let c = struct_from_json (base_command_fields num) j c
      in c\<lparr>ce_event_object := event_object_from_json num j (ce_event_object c)\<rparr>)"

section \<open>All commands\<close>

text \<open>A pointer to \<^verbatim>\<open>base_command\<close> with the class of the object it points to.\<close>

datatype (plugins only: size) command =
    C_register_cmd register_cmd
  | C_cam_register cam_register
  | C_hello hello
  | C_configure configure
  | C_get_cam_status get_cam_status
  | C_get_supported_streams get_supported_streams
  | C_supported_streams supported_streams
  | C_cam_hello cam_hello
  | C_stream_start stream_start
  | C_stream_stop stream_stop
  | C_cam_update_preview cam_update_preview
  | C_cam_upgrade_firmware cam_upgrade_firmware
  | C_get_audio_detection get_audio_detection
  | C_set_audio_detection set_audio_detection
  | C_audio_detection_conf audio_detection_conf
  | C_get_cam_audio_conf get_cam_audio_conf
  | C_get_cam_events get_cam_events
  | C_set_cam_events set_cam_events
  | C_cam_events_conf cam_events_conf
  | C_cam_event cam_event
  | C_get_cam_video_conf get_cam_video_conf
  | C_cam_video_conf cam_video_conf
  | C_direct_upload_url direct_upload_url
  | C_get_direct_upload_url get_direct_upload_url
  | C_get_motion_detection get_motion_detection
  | C_motion_detection_conf motion_detection_conf
  | C_get_stream_by_event get_stream_by_event
  | C_stream_by_event_conf stream_by_event_conf
  | C_set_stream_by_event set_stream_by_event
  | C_get_stream_caps get_stream_caps
  | C_stream_caps_cmd stream_caps_cmd
  | C_get_stream_config get_stream_config
  | C_stream_config_cmd stream_config_cmd
  | C_set_cam_audio_conf set_cam_audio_conf
  | C_cam_audio_conf cam_audio_conf
  | C_set_cam_video_conf set_cam_video_conf
  | C_set_motion_detection set_motion_detection
  | C_set_stream_config set_stream_config
  | C_get_ptz_conf get_ptz_conf
  | C_cam_ptz_conf cam_ptz_conf
  | C_cam_ptz cam_ptz
  | C_cam_ptz_preset cam_ptz_preset
  | C_cam_ptz_preset_created cam_ptz_preset_created
  | C_raw_message raw_message
  | C_raw_message_client_connected raw_message_client_connected
  | C_raw_message_client_disconnected raw_message_client_disconnected
  | C_cam_get_log cam_get_log
  | C_get_osd_conf get_osd_conf
  | C_osd_conf osd_conf
  | C_set_osd_conf set_osd_conf
  | C_set_cam_parameter set_cam_parameter
  | C_cam_trigger_event cam_trigger_event
  | C_backward_start backward_start
  | C_backward_stop backward_stop
  | C_cam_set_current_wifi cam_set_current_wifi
  | C_cam_list_wifi cam_list_wifi
  | C_cam_wifi_list cam_wifi_list
  | C_bye bye
  | C_report_problem report_problem
  | C_cam_status cam_status
  | C_audio_file_play audio_file_play
  | C_get_cam_memorycard_timeline get_cam_memorycard_timeline
  | C_cam_memorycard_timeline cam_memorycard_timeline
  | C_cam_memorycard_synchronize cam_memorycard_synchronize
  | C_cam_memorycard_synchronize_status cam_memorycard_synchronize_status
  | C_cam_memorycard_synchronize_cancel cam_memorycard_synchronize_cancel
  | C_cam_memorycard_recording cam_memorycard_recording
  | C_done_cmd done_cmd

text \<open>The overload of \<open>to_json\<close> for the class.\<close>

primrec command_to_json :: "json_num \<Rightarrow> command \<Rightarrow> json" where
  "command_to_json num (C_register_cmd c) = struct_to_json (register_cmd_fields num) c"
| "command_to_json num (C_cam_register c) = struct_to_json (cam_register_fields num) c"
| "command_to_json num (C_hello c) = struct_to_json (hello_fields num) c"
| "command_to_json num (C_configure c) = struct_to_json (configure_fields num) c"
| "command_to_json num (C_get_cam_status c) = struct_to_json (get_cam_status_fields num) c"
| "command_to_json num (C_get_supported_streams c) = struct_to_json (get_supported_streams_fields num) c"
| "command_to_json num (C_supported_streams c) = struct_to_json (supported_streams_fields num) c"
| "command_to_json num (C_cam_hello c) = struct_to_json (cam_hello_fields num) c"
| "command_to_json num (C_stream_start c) = struct_to_json (stream_start_fields num) c"
| "command_to_json num (C_stream_stop c) = struct_to_json (stream_stop_fields num) c"
| "command_to_json num (C_cam_update_preview c) = struct_to_json (cam_update_preview_fields num) c"
| "command_to_json num (C_cam_upgrade_firmware c) = struct_to_json (cam_upgrade_firmware_fields num) c"
| "command_to_json num (C_get_audio_detection c) = struct_to_json (get_audio_detection_fields num) c"
| "command_to_json num (C_set_audio_detection c) = struct_to_json (set_audio_detection_fields num) c"
| "command_to_json num (C_audio_detection_conf c) = struct_to_json (audio_detection_conf_fields num) c"
| "command_to_json num (C_get_cam_audio_conf c) = struct_to_json (get_cam_audio_conf_fields num) c"
| "command_to_json num (C_get_cam_events c) = struct_to_json (get_cam_events_fields num) c"
| "command_to_json num (C_set_cam_events c) = struct_to_json (set_cam_events_fields num) c"
| "command_to_json num (C_cam_events_conf c) = struct_to_json (cam_events_conf_fields num) c"
| "command_to_json num (C_cam_event c) = cam_event_to_json num c"
| "command_to_json num (C_get_cam_video_conf c) = struct_to_json (get_cam_video_conf_fields num) c"
| "command_to_json num (C_cam_video_conf c) = struct_to_json (cam_video_conf_fields num) c"
| "command_to_json num (C_direct_upload_url c) = struct_to_json (direct_upload_url_fields num) c"
| "command_to_json num (C_get_direct_upload_url c) = struct_to_json (get_direct_upload_url_fields num) c"
| "command_to_json num (C_get_motion_detection c) = struct_to_json (get_motion_detection_fields num) c"
| "command_to_json num (C_motion_detection_conf c) = struct_to_json (motion_detection_conf_fields num) c"
| "command_to_json num (C_get_stream_by_event c) = struct_to_json (get_stream_by_event_fields num) c"
| "command_to_json num (C_stream_by_event_conf c) = struct_to_json (stream_by_event_conf_fields num) c"
| "command_to_json num (C_set_stream_by_event c) = struct_to_json (set_stream_by_event_fields num) c"
| "command_to_json num (C_get_stream_caps c) = struct_to_json (get_stream_caps_fields num) c"
| "command_to_json num (C_stream_caps_cmd c) = struct_to_json (stream_caps_cmd_fields num) c"
| "command_to_json num (C_get_stream_config c) = struct_to_json (get_stream_config_fields num) c"
| "command_to_json num (C_stream_config_cmd c) = struct_to_json (stream_config_cmd_fields num) c"
| "command_to_json num (C_set_cam_audio_conf c) = struct_to_json (set_cam_audio_conf_fields num) c"
| "command_to_json num (C_cam_audio_conf c) = struct_to_json (cam_audio_conf_fields num) c"
| "command_to_json num (C_set_cam_video_conf c) = struct_to_json (set_cam_video_conf_fields num) c"
| "command_to_json num (C_set_motion_detection c) = struct_to_json (set_motion_detection_fields num) c"
| "command_to_json num (C_set_stream_config c) = struct_to_json (set_stream_config_fields num) c"
| "command_to_json num (C_get_ptz_conf c) = struct_to_json (get_ptz_conf_fields num) c"
| "command_to_json num (C_cam_ptz_conf c) = struct_to_json (cam_ptz_conf_fields num) c"
| "command_to_json num (C_cam_ptz c) = struct_to_json (cam_ptz_fields num) c"
| "command_to_json num (C_cam_ptz_preset c) = struct_to_json (cam_ptz_preset_fields num) c"
| "command_to_json num (C_cam_ptz_preset_created c) = struct_to_json (cam_ptz_preset_created_fields num) c"
| "command_to_json num (C_raw_message c) = struct_to_json (raw_message_fields num) c"
| "command_to_json num (C_raw_message_client_connected c) = struct_to_json (raw_message_client_connected_fields num) c"
| "command_to_json num (C_raw_message_client_disconnected c) = struct_to_json (raw_message_client_disconnected_fields num) c"
| "command_to_json num (C_cam_get_log c) = struct_to_json (cam_get_log_fields num) c"
| "command_to_json num (C_get_osd_conf c) = struct_to_json (get_osd_conf_fields num) c"
| "command_to_json num (C_osd_conf c) = struct_to_json (osd_conf_fields num) c"
| "command_to_json num (C_set_osd_conf c) = struct_to_json (set_osd_conf_fields num) c"
| "command_to_json num (C_set_cam_parameter c) = struct_to_json (set_cam_parameter_fields num) c"
| "command_to_json num (C_cam_trigger_event c) = struct_to_json (cam_trigger_event_fields num) c"
| "command_to_json num (C_backward_start c) = struct_to_json (backward_start_fields num) c"
| "command_to_json num (C_backward_stop c) = struct_to_json (backward_stop_fields num) c"
| "command_to_json num (C_cam_set_current_wifi c) = struct_to_json (cam_set_current_wifi_fields num) c"
| "command_to_json num (C_cam_list_wifi c) = struct_to_json (cam_list_wifi_fields num) c"
| "command_to_json num (C_cam_wifi_list c) = struct_to_json (cam_wifi_list_fields num) c"
| "command_to_json num (C_bye c) = struct_to_json (bye_fields num) c"
| "command_to_json num (C_report_problem c) = struct_to_json (report_problem_fields num) c"
| "command_to_json num (C_cam_status c) = struct_to_json (cam_status_fields num) c"
| "command_to_json num (C_audio_file_play c) = struct_to_json (audio_file_play_fields num) c"
| "command_to_json num (C_get_cam_memorycard_timeline c) = struct_to_json (get_cam_memorycard_timeline_fields num) c"
| "command_to_json num (C_cam_memorycard_timeline c) = struct_to_json (cam_memorycard_timeline_fields num) c"
| "command_to_json num (C_cam_memorycard_synchronize c) = struct_to_json (cam_memorycard_synchronize_fields num) c"
| "command_to_json num (C_cam_memorycard_synchronize_status c) = struct_to_json (cam_memorycard_synchronize_status_fields num) c"
| "command_to_json num (C_cam_memorycard_synchronize_cancel c) = struct_to_json (cam_memorycard_synchronize_cancel_fields num) c"
| "command_to_json num (C_cam_memorycard_recording c) = struct_to_json (cam_memorycard_recording_fields num) c"
| "command_to_json num (C_done_cmd c) = struct_to_json (done_cmd_fields num) c"

text \<open>The \<^verbatim>\<open>base_command\<close> part.\<close>

primrec command_base :: "command \<Rightarrow> base_command" where
  "command_base (C_register_cmd c) = base_command.truncate c"
| "command_base (C_cam_register c) = base_command.truncate c"
| "command_base (C_hello c) = base_command.truncate c"
| "command_base (C_configure c) = base_command.truncate c"
| "command_base (C_get_cam_status c) = base_command.truncate c"
| "command_base (C_get_supported_streams c) = base_command.truncate c"
| "command_base (C_supported_streams c) = base_command.truncate c"
| "command_base (C_cam_hello c) = base_command.truncate c"
| "command_base (C_stream_start c) = base_command.truncate c"
| "command_base (C_stream_stop c) = base_command.truncate c"
| "command_base (C_cam_update_preview c) = base_command.truncate c"
| "command_base (C_cam_upgrade_firmware c) = base_command.truncate c"
| "command_base (C_get_audio_detection c) = base_command.truncate c"
| "command_base (C_set_audio_detection c) = base_command.truncate c"
| "command_base (C_audio_detection_conf c) = base_command.truncate c"
| "command_base (C_get_cam_audio_conf c) = base_command.truncate c"
| "command_base (C_get_cam_events c) = base_command.truncate c"
| "command_base (C_set_cam_events c) = base_command.truncate c"
| "command_base (C_cam_events_conf c) = base_command.truncate c"
| "command_base (C_cam_event c) = base_command.truncate c"
| "command_base (C_get_cam_video_conf c) = base_command.truncate c"
| "command_base (C_cam_video_conf c) = base_command.truncate c"
| "command_base (C_direct_upload_url c) = base_command.truncate c"
| "command_base (C_get_direct_upload_url c) = base_command.truncate c"
| "command_base (C_get_motion_detection c) = base_command.truncate c"
| "command_base (C_motion_detection_conf c) = base_command.truncate c"
| "command_base (C_get_stream_by_event c) = base_command.truncate c"
| "command_base (C_stream_by_event_conf c) = base_command.truncate c"
| "command_base (C_set_stream_by_event c) = base_command.truncate c"
| "command_base (C_get_stream_caps c) = base_command.truncate c"
| "command_base (C_stream_caps_cmd c) = base_command.truncate c"
| "command_base (C_get_stream_config c) = base_command.truncate c"
| "command_base (C_stream_config_cmd c) = base_command.truncate c"
| "command_base (C_set_cam_audio_conf c) = base_command.truncate c"
| "command_base (C_cam_audio_conf c) = base_command.truncate c"
| "command_base (C_set_cam_video_conf c) = base_command.truncate c"
| "command_base (C_set_motion_detection c) = base_command.truncate c"
| "command_base (C_set_stream_config c) = base_command.truncate c"
| "command_base (C_get_ptz_conf c) = base_command.truncate c"
| "command_base (C_cam_ptz_conf c) = base_command.truncate c"
| "command_base (C_cam_ptz c) = base_command.truncate c"
| "command_base (C_cam_ptz_preset c) = base_command.truncate c"
| "command_base (C_cam_ptz_preset_created c) = base_command.truncate c"
| "command_base (C_raw_message c) = base_command.truncate c"
| "command_base (C_raw_message_client_connected c) = base_command.truncate c"
| "command_base (C_raw_message_client_disconnected c) = base_command.truncate c"
| "command_base (C_cam_get_log c) = base_command.truncate c"
| "command_base (C_get_osd_conf c) = base_command.truncate c"
| "command_base (C_osd_conf c) = base_command.truncate c"
| "command_base (C_set_osd_conf c) = base_command.truncate c"
| "command_base (C_set_cam_parameter c) = base_command.truncate c"
| "command_base (C_cam_trigger_event c) = base_command.truncate c"
| "command_base (C_backward_start c) = base_command.truncate c"
| "command_base (C_backward_stop c) = base_command.truncate c"
| "command_base (C_cam_set_current_wifi c) = base_command.truncate c"
| "command_base (C_cam_list_wifi c) = base_command.truncate c"
| "command_base (C_cam_wifi_list c) = base_command.truncate c"
| "command_base (C_bye c) = base_command.truncate c"
| "command_base (C_report_problem c) = base_command.truncate c"
| "command_base (C_cam_status c) = base_command.truncate c"
| "command_base (C_audio_file_play c) = base_command.truncate c"
| "command_base (C_get_cam_memorycard_timeline c) = base_command.truncate c"
| "command_base (C_cam_memorycard_timeline c) = base_command.truncate c"
| "command_base (C_cam_memorycard_synchronize c) = base_command.truncate c"
| "command_base (C_cam_memorycard_synchronize_status c) = base_command.truncate c"
| "command_base (C_cam_memorycard_synchronize_cancel c) = base_command.truncate c"
| "command_base (C_cam_memorycard_recording c) = base_command.truncate c"
| "command_base (C_done_cmd c) = base_command.truncate c"

text \<open>The answer to a command carries its camera, its id as reference and its name.\<close>

definition addressed :: "base_command \<Rightarrow> 'a base_command_scheme \<Rightarrow> 'a base_command_scheme" where
  "addressed orig c = c\<lparr>bc_cam_id := bc_cam_id orig, bc_refid := bc_msgid orig, bc_orig_cmd := bc_cmd orig\<rparr>"

primrec command_addressed :: "base_command \<Rightarrow> command \<Rightarrow> command" where
  "command_addressed orig (C_register_cmd c) = C_register_cmd (addressed orig c)"
| "command_addressed orig (C_cam_register c) = C_cam_register (addressed orig c)"
| "command_addressed orig (C_hello c) = C_hello (addressed orig c)"
| "command_addressed orig (C_configure c) = C_configure (addressed orig c)"
| "command_addressed orig (C_get_cam_status c) = C_get_cam_status (addressed orig c)"
| "command_addressed orig (C_get_supported_streams c) = C_get_supported_streams (addressed orig c)"
| "command_addressed orig (C_supported_streams c) = C_supported_streams (addressed orig c)"
| "command_addressed orig (C_cam_hello c) = C_cam_hello (addressed orig c)"
| "command_addressed orig (C_stream_start c) = C_stream_start (addressed orig c)"
| "command_addressed orig (C_stream_stop c) = C_stream_stop (addressed orig c)"
| "command_addressed orig (C_cam_update_preview c) = C_cam_update_preview (addressed orig c)"
| "command_addressed orig (C_cam_upgrade_firmware c) = C_cam_upgrade_firmware (addressed orig c)"
| "command_addressed orig (C_get_audio_detection c) = C_get_audio_detection (addressed orig c)"
| "command_addressed orig (C_set_audio_detection c) = C_set_audio_detection (addressed orig c)"
| "command_addressed orig (C_audio_detection_conf c) = C_audio_detection_conf (addressed orig c)"
| "command_addressed orig (C_get_cam_audio_conf c) = C_get_cam_audio_conf (addressed orig c)"
| "command_addressed orig (C_get_cam_events c) = C_get_cam_events (addressed orig c)"
| "command_addressed orig (C_set_cam_events c) = C_set_cam_events (addressed orig c)"
| "command_addressed orig (C_cam_events_conf c) = C_cam_events_conf (addressed orig c)"
| "command_addressed orig (C_cam_event c) = C_cam_event (addressed orig c)"
| "command_addressed orig (C_get_cam_video_conf c) = C_get_cam_video_conf (addressed orig c)"
| "command_addressed orig (C_cam_video_conf c) = C_cam_video_conf (addressed orig c)"
| "command_addressed orig (C_direct_upload_url c) = C_direct_upload_url (addressed orig c)"
| "command_addressed orig (C_get_direct_upload_url c) = C_get_direct_upload_url (addressed orig c)"
| "command_addressed orig (C_get_motion_detection c) = C_get_motion_detection (addressed orig c)"
| "command_addressed orig (C_motion_detection_conf c) = C_motion_detection_conf (addressed orig c)"
| "command_addressed orig (C_get_stream_by_event c) = C_get_stream_by_event (addressed orig c)"
| "command_addressed orig (C_stream_by_event_conf c) = C_stream_by_event_conf (addressed orig c)"
| "command_addressed orig (C_set_stream_by_event c) = C_set_stream_by_event (addressed orig c)"
| "command_addressed orig (C_get_stream_caps c) = C_get_stream_caps (addressed orig c)"
| "command_addressed orig (C_stream_caps_cmd c) = C_stream_caps_cmd (addressed orig c)"
| "command_addressed orig (C_get_stream_config c) = C_get_stream_config (addressed orig c)"
| "command_addressed orig (C_stream_config_cmd c) = C_stream_config_cmd (addressed orig c)"
| "command_addressed orig (C_set_cam_audio_conf c) = C_set_cam_audio_conf (addressed orig c)"
| "command_addressed orig (C_cam_audio_conf c) = C_cam_audio_conf (addressed orig c)"
| "command_addressed orig (C_set_cam_video_conf c) = C_set_cam_video_conf (addressed orig c)"
| "command_addressed orig (C_set_motion_detection c) = C_set_motion_detection (addressed orig c)"
| "command_addressed orig (C_set_stream_config c) = C_set_stream_config (addressed orig c)"
| "command_addressed orig (C_get_ptz_conf c) = C_get_ptz_conf (addressed orig c)"
| "command_addressed orig (C_cam_ptz_conf c) = C_cam_ptz_conf (addressed orig c)"
| "command_addressed orig (C_cam_ptz c) = C_cam_ptz (addressed orig c)"
| "command_addressed orig (C_cam_ptz_preset c) = C_cam_ptz_preset (addressed orig c)"
| "command_addressed orig (C_cam_ptz_preset_created c) = C_cam_ptz_preset_created (addressed orig c)"
| "command_addressed orig (C_raw_message c) = C_raw_message (addressed orig c)"
| "command_addressed orig (C_raw_message_client_connected c) = C_raw_message_client_connected (addressed orig c)"
| "command_addressed orig (C_raw_message_client_disconnected c) = C_raw_message_client_disconnected (addressed orig c)"
| "command_addressed orig (C_cam_get_log c) = C_cam_get_log (addressed orig c)"
| "command_addressed orig (C_get_osd_conf c) = C_get_osd_conf (addressed orig c)"
| "command_addressed orig (C_osd_conf c) = C_osd_conf (addressed orig c)"
| "command_addressed orig (C_set_osd_conf c) = C_set_osd_conf (addressed orig c)"
| "command_addressed orig (C_set_cam_parameter c) = C_set_cam_parameter (addressed orig c)"
| "command_addressed orig (C_cam_trigger_event c) = C_cam_trigger_event (addressed orig c)"
| "command_addressed orig (C_backward_start c) = C_backward_start (addressed orig c)"
| "command_addressed orig (C_backward_stop c) = C_backward_stop (addressed orig c)"
| "command_addressed orig (C_cam_set_current_wifi c) = C_cam_set_current_wifi (addressed orig c)"
| "command_addressed orig (C_cam_list_wifi c) = C_cam_list_wifi (addressed orig c)"
| "command_addressed orig (C_cam_wifi_list c) = C_cam_wifi_list (addressed orig c)"
| "command_addressed orig (C_bye c) = C_bye (addressed orig c)"
| "command_addressed orig (C_report_problem c) = C_report_problem (addressed orig c)"
| "command_addressed orig (C_cam_status c) = C_cam_status (addressed orig c)"
| "command_addressed orig (C_audio_file_play c) = C_audio_file_play (addressed orig c)"
| "command_addressed orig (C_get_cam_memorycard_timeline c) = C_get_cam_memorycard_timeline (addressed orig c)"
| "command_addressed orig (C_cam_memorycard_timeline c) = C_cam_memorycard_timeline (addressed orig c)"
| "command_addressed orig (C_cam_memorycard_synchronize c) = C_cam_memorycard_synchronize (addressed orig c)"
| "command_addressed orig (C_cam_memorycard_synchronize_status c) = C_cam_memorycard_synchronize_status (addressed orig c)"
| "command_addressed orig (C_cam_memorycard_synchronize_cancel c) = C_cam_memorycard_synchronize_cancel (addressed orig c)"
| "command_addressed orig (C_cam_memorycard_recording c) = C_cam_memorycard_recording (addressed orig c)"
| "command_addressed orig (C_done_cmd c) = C_done_cmd (addressed orig c)"

section \<open>The factory\<close>

text \<open>
  \<open>msgid(++__id)\<close>: the counter is a \<open>size_t\<close> that starts at 1, the id an \<open>int\<close>.
\<close>

type_synonym id_counter = "64 word"

definition fresh_id :: "id_counter \<Rightarrow> int \<times> id_counter" where
  "fresh_id n = (let n' = n + 1 in (sint (ucast n' :: 32 word), n'))"

datatype factory_error = Type_Error

text \<open>\<open>new T(j)\<close>: a default object, then \<open>from_json\<close>.\<close>

definition make_cmd :: "(int \<Rightarrow> command) \<Rightarrow> id_counter \<Rightarrow> command option \<times> id_counter" where
  "make_cmd mk n = (case fresh_id n of (i, n') \<Rightarrow> (Some (mk i), n'))"

definition factory_dispatch :: "json_num \<Rightarrow> string \<Rightarrow> json \<Rightarrow> id_counter \<Rightarrow> command option \<times> id_counter" where
  "factory_dispatch num cmd j n =
     (if cmd = ''register'' then make_cmd (\<lambda>i. C_register_cmd (struct_from_json (register_cmd_fields num) j (register_cmd_default i))) n
      else if cmd = ''cam_register'' then make_cmd (\<lambda>i. C_cam_register (struct_from_json (cam_register_fields num) j (cam_register_default i))) n
      else if cmd = ''hello'' then make_cmd (\<lambda>i. C_hello (struct_from_json (hello_fields num) j (hello_default i))) n
      else if cmd = ''configure'' then make_cmd (\<lambda>i. C_configure (struct_from_json (configure_fields num) j (configure_default i))) n
      else if cmd = ''get_cam_status'' then make_cmd (\<lambda>i. C_get_cam_status (struct_from_json (get_cam_status_fields num) j (get_cam_status_default i))) n
      else if cmd = ''get_supported_streams'' then make_cmd (\<lambda>i. C_get_supported_streams (struct_from_json (get_supported_streams_fields num) j (get_supported_streams_default i))) n
      else if cmd = ''supported_streams'' then make_cmd (\<lambda>i. C_supported_streams (struct_from_json (supported_streams_fields num) j (supported_streams_default i))) n
      else if cmd = ''cam_hello'' then make_cmd (\<lambda>i. C_cam_hello (struct_from_json (cam_hello_fields num) j (cam_hello_default i))) n
      else if cmd = ''stream_start'' then make_cmd (\<lambda>i. C_stream_start (struct_from_json (stream_start_fields num) j (stream_start_default i))) n
      else if cmd = ''stream_stop'' then make_cmd (\<lambda>i. C_stream_stop (struct_from_json (stream_stop_fields num) j (stream_stop_default i))) n
      else if cmd = ''cam_update_preview'' then make_cmd (\<lambda>i. C_cam_update_preview (struct_from_json (cam_update_preview_fields num) j (cam_update_preview_default i))) n
      else if cmd = ''cam_upgrade_firmware'' then make_cmd (\<lambda>i. C_cam_upgrade_firmware (struct_from_json (cam_upgrade_firmware_fields num) j (cam_upgrade_firmware_default i))) n
      else if cmd = ''get_audio_detection'' then make_cmd (\<lambda>i. C_get_audio_detection (struct_from_json (get_audio_detection_fields num) j (get_audio_detection_default i))) n
      else if cmd = ''set_audio_detection'' then make_cmd (\<lambda>i. C_set_audio_detection (struct_from_json (set_audio_detection_fields num) j (set_audio_detection_default i))) n
      else if cmd = ''audio_detection_conf'' then make_cmd (\<lambda>i. C_audio_detection_conf (struct_from_json (audio_detection_conf_fields num) j (audio_detection_conf_default i))) n
      else if cmd = ''get_cam_audio_conf'' then make_cmd (\<lambda>i. C_get_cam_audio_conf (struct_from_json (get_cam_audio_conf_fields num) j (get_cam_audio_conf_default i))) n
      else if cmd = ''get_cam_events'' then make_cmd (\<lambda>i. C_get_cam_events (struct_from_json (get_cam_events_fields num) j (get_cam_events_default i))) n
      else if cmd = ''set_cam_events'' then make_cmd (\<lambda>i. C_set_cam_events (struct_from_json (set_cam_events_fields num) j (set_cam_events_default i))) n
      else if cmd = ''cam_events_conf'' then make_cmd (\<lambda>i. C_cam_events_conf (struct_from_json (cam_events_conf_fields num) j (cam_events_conf_default i))) n
      else if cmd = ''cam_event'' then make_cmd (\<lambda>i. C_cam_event (cam_event_from_json num j (cam_event_default i))) n
      else if cmd = ''get_cam_video_conf'' then make_cmd (\<lambda>i. C_get_cam_video_conf (struct_from_json (get_cam_video_conf_fields num) j (get_cam_video_conf_default i))) n
      else if cmd = ''cam_video_conf'' then make_cmd (\<lambda>i. C_cam_video_conf (struct_from_json (cam_video_conf_fields num) j (cam_video_conf_default i))) n
      else if cmd = ''direct_upload_url'' then make_cmd (\<lambda>i. C_direct_upload_url (struct_from_json (direct_upload_url_fields num) j (direct_upload_url_default i))) n
      else if cmd = ''get_direct_upload_url'' then make_cmd (\<lambda>i. C_get_direct_upload_url (struct_from_json (get_direct_upload_url_fields num) j (get_direct_upload_url_default i))) n
      else if cmd = ''get_motion_detection'' then make_cmd (\<lambda>i. C_get_motion_detection (struct_from_json (get_motion_detection_fields num) j (get_motion_detection_default i))) n
      else if cmd = ''motion_detection_conf'' then make_cmd (\<lambda>i. C_motion_detection_conf (struct_from_json (motion_detection_conf_fields num) j (motion_detection_conf_default i))) n
      else if cmd = ''get_stream_by_event'' then make_cmd (\<lambda>i. C_get_stream_by_event (struct_from_json (get_stream_by_event_fields num) j (get_stream_by_event_default i))) n
      else if cmd = ''stream_by_event_conf'' then make_cmd (\<lambda>i. C_stream_by_event_conf (struct_from_json (stream_by_event_conf_fields num) j (stream_by_event_conf_default i))) n
      else if cmd = ''set_stream_by_event'' then make_cmd (\<lambda>i. C_set_stream_by_event (struct_from_json (set_stream_by_event_fields num) j (set_stream_by_event_default i))) n
      else if cmd = ''get_stream_caps'' then make_cmd (\<lambda>i. C_get_stream_caps (struct_from_json (get_stream_caps_fields num) j (get_stream_caps_default i))) n
      else if cmd = ''stream_caps'' then make_cmd (\<lambda>i. C_stream_caps_cmd (struct_from_json (stream_caps_cmd_fields num) j (stream_caps_cmd_default i))) n
      else if cmd = ''get_stream_config'' then make_cmd (\<lambda>i. C_get_stream_config (struct_from_json (get_stream_config_fields num) j (get_stream_config_default i))) n
      else if cmd = ''stream_config'' then make_cmd (\<lambda>i. C_stream_config_cmd (struct_from_json (stream_config_cmd_fields num) j (stream_config_cmd_default i))) n
      else if cmd = ''set_cam_audio_conf'' then make_cmd (\<lambda>i. C_set_cam_audio_conf (struct_from_json (set_cam_audio_conf_fields num) j (set_cam_audio_conf_default i))) n
      else if cmd = ''cam_audio_conf'' then make_cmd (\<lambda>i. C_cam_audio_conf (struct_from_json (cam_audio_conf_fields num) j (cam_audio_conf_default i))) n
      else if cmd = ''set_cam_video_conf'' then make_cmd (\<lambda>i. C_set_cam_video_conf (struct_from_json (set_cam_video_conf_fields num) j (set_cam_video_conf_default i))) n
      else if cmd = ''set_motion_detection'' then make_cmd (\<lambda>i. C_set_motion_detection (struct_from_json (set_motion_detection_fields num) j (set_motion_detection_default i))) n
      else if cmd = ''set_stream_config'' then make_cmd (\<lambda>i. C_set_stream_config (struct_from_json (set_stream_config_fields num) j (set_stream_config_default i))) n
      else if cmd = ''get_ptz_conf'' then make_cmd (\<lambda>i. C_get_ptz_conf (struct_from_json (get_ptz_conf_fields num) j (get_ptz_conf_default i))) n
      else if cmd = ''cam_ptz_conf'' then make_cmd (\<lambda>i. C_cam_ptz_conf (struct_from_json (cam_ptz_conf_fields num) j (cam_ptz_conf_default i))) n
      else if cmd = ''cam_ptz'' then make_cmd (\<lambda>i. C_cam_ptz (struct_from_json (cam_ptz_fields num) j (cam_ptz_default i))) n
      else if cmd = ''cam_ptz_preset'' then make_cmd (\<lambda>i. C_cam_ptz_preset (struct_from_json (cam_ptz_preset_fields num) j (cam_ptz_preset_default i))) n
      else if cmd = ''cam_ptz_preset_created'' then make_cmd (\<lambda>i. C_cam_ptz_preset_created (struct_from_json (cam_ptz_preset_created_fields num) j (cam_ptz_preset_created_default i))) n
      else if cmd = ''raw_message'' then make_cmd (\<lambda>i. C_raw_message (struct_from_json (raw_message_fields num) j (raw_message_default i))) n
      else if cmd = ''raw_message_client_connected'' then make_cmd (\<lambda>i. C_raw_message_client_connected (struct_from_json (raw_message_client_connected_fields num) j (raw_message_client_connected_default i))) n
      else if cmd = ''raw_message_client_disconnected'' then make_cmd (\<lambda>i. C_raw_message_client_disconnected (struct_from_json (raw_message_client_disconnected_fields num) j (raw_message_client_disconnected_default i))) n
      else if cmd = ''cam_get_log'' then make_cmd (\<lambda>i. C_cam_get_log (struct_from_json (cam_get_log_fields num) j (cam_get_log_default i))) n
      else if cmd = ''get_osd_conf'' then make_cmd (\<lambda>i. C_get_osd_conf (struct_from_json (get_osd_conf_fields num) j (get_osd_conf_default i))) n
      else if cmd = ''osd_conf'' then make_cmd (\<lambda>i. C_osd_conf (struct_from_json (osd_conf_fields num) j (osd_conf_default i))) n
      else if cmd = ''set_osd_conf'' then make_cmd (\<lambda>i. C_set_osd_conf (struct_from_json (set_osd_conf_fields num) j (set_osd_conf_default i))) n
      else if cmd = ''set_cam_parameter'' then make_cmd (\<lambda>i. C_set_cam_parameter (struct_from_json (set_cam_parameter_fields num) j (set_cam_parameter_default i))) n
      else if cmd = ''cam_trigger_event'' then make_cmd (\<lambda>i. C_cam_trigger_event (struct_from_json (cam_trigger_event_fields num) j (cam_trigger_event_default i))) n
      else if cmd = ''backward_start'' then make_cmd (\<lambda>i. C_backward_start (struct_from_json (backward_start_fields num) j (backward_start_default i))) n
      else if cmd = ''backward_stop'' then make_cmd (\<lambda>i. C_backward_stop (struct_from_json (backward_stop_fields num) j (backward_stop_default i))) n
      else if cmd = ''cam_set_current_wifi'' then make_cmd (\<lambda>i. C_cam_set_current_wifi (struct_from_json (cam_set_current_wifi_fields num) j (cam_set_current_wifi_default i))) n
      else if cmd = ''cam_list_wifi'' then make_cmd (\<lambda>i. C_cam_list_wifi (struct_from_json (cam_list_wifi_fields num) j (cam_list_wifi_default i))) n
      else if cmd = ''cam_wifi_list'' then make_cmd (\<lambda>i. C_cam_wifi_list (struct_from_json (cam_wifi_list_fields num) j (cam_wifi_list_default i))) n
      else if cmd = ''bye'' then make_cmd (\<lambda>i. C_bye (struct_from_json (bye_fields num) j (bye_default i))) n
      else if cmd = ''report_problem'' then make_cmd (\<lambda>i. C_report_problem (struct_from_json (report_problem_fields num) j (report_problem_default i))) n
      else if cmd = ''cam_status'' then make_cmd (\<lambda>i. C_cam_status (struct_from_json (cam_status_fields num) j (cam_status_default i))) n
      else if cmd = ''audio_file_play'' then make_cmd (\<lambda>i. C_audio_file_play (struct_from_json (audio_file_play_fields num) j (audio_file_play_default i))) n
      else if cmd = ''get_cam_memorycard_timeline'' then make_cmd (\<lambda>i. C_get_cam_memorycard_timeline (struct_from_json (get_cam_memorycard_timeline_fields num) j (get_cam_memorycard_timeline_default i))) n
      else if cmd = ''cam_memorycard_timeline'' then make_cmd (\<lambda>i. C_cam_memorycard_timeline (struct_from_json (cam_memorycard_timeline_fields num) j (cam_memorycard_timeline_default i))) n
      else if cmd = ''cam_memorycard_synchronize'' then make_cmd (\<lambda>i. C_cam_memorycard_synchronize (struct_from_json (cam_memorycard_synchronize_fields num) j (cam_memorycard_synchronize_default i))) n
      else if cmd = ''cam_memorycard_synchronize_status'' then make_cmd (\<lambda>i. C_cam_memorycard_synchronize_status (struct_from_json (cam_memorycard_synchronize_status_fields num) j (cam_memorycard_synchronize_status_default i))) n
      else if cmd = ''cam_memorycard_synchronize_cancel'' then make_cmd (\<lambda>i. C_cam_memorycard_synchronize_cancel (struct_from_json (cam_memorycard_synchronize_cancel_fields num) j (cam_memorycard_synchronize_cancel_default i))) n
      else if cmd = ''cam_memorycard_recording'' then make_cmd (\<lambda>i. C_cam_memorycard_recording (struct_from_json (cam_memorycard_recording_fields num) j (cam_memorycard_recording_default i))) n
      else (None, n))"

definition factory_parse ::
  "json_num \<Rightarrow> json \<Rightarrow> id_counter \<Rightarrow> (factory_error + command option) \<times> id_counter" where
  "factory_parse num j n =
     (case json_at ''cmd'' j of
        None \<Rightarrow> (Inr None, n)
      | Some x \<Rightarrow>
          (case dec_str x of
             None \<Rightarrow> (Inl Type_Error, n)
           | Some cmd \<Rightarrow> (case factory_dispatch num cmd j n of (c, n') \<Rightarrow> (Inr c, n'))))"

definition reply_class :: "string \<Rightarrow> (int \<Rightarrow> command) option" where
  "reply_class cmd =
     (if cmd = ''register'' then Some (\<lambda>i. C_register_cmd (register_cmd_default i))
      else if cmd = ''cam_register'' then Some (\<lambda>i. C_register_cmd (register_cmd_default i))
      else if cmd = ''hello'' then Some (\<lambda>i. C_hello (hello_default i))
      else if cmd = ''configure'' then Some (\<lambda>i. C_configure (configure_default i))
      else if cmd = ''get_cam_status'' then Some (\<lambda>i. C_get_cam_status (get_cam_status_default i))
      else if cmd = ''get_supported_streams'' then Some (\<lambda>i. C_get_supported_streams (get_supported_streams_default i))
      else if cmd = ''supported_streams'' then Some (\<lambda>i. C_supported_streams (supported_streams_default i))
      else if cmd = ''cam_hello'' then Some (\<lambda>i. C_cam_hello (cam_hello_default i))
      else if cmd = ''stream_start'' then Some (\<lambda>i. C_stream_start (stream_start_default i))
      else if cmd = ''stream_stop'' then Some (\<lambda>i. C_stream_stop (stream_stop_default i))
      else if cmd = ''cam_update_preview'' then Some (\<lambda>i. C_cam_update_preview (cam_update_preview_default i))
      else if cmd = ''cam_upgrade_firmware'' then Some (\<lambda>i. C_cam_upgrade_firmware (cam_upgrade_firmware_default i))
      else if cmd = ''get_audio_detection'' then Some (\<lambda>i. C_get_audio_detection (get_audio_detection_default i))
      else if cmd = ''set_audio_detection'' then Some (\<lambda>i. C_set_audio_detection (set_audio_detection_default i))
      else if cmd = ''audio_detection_conf'' then Some (\<lambda>i. C_audio_detection_conf (audio_detection_conf_default i))
      else if cmd = ''get_cam_audio_conf'' then Some (\<lambda>i. C_get_cam_audio_conf (get_cam_audio_conf_default i))
      else if cmd = ''get_cam_events'' then Some (\<lambda>i. C_get_cam_events (get_cam_events_default i))
      else if cmd = ''set_cam_events'' then Some (\<lambda>i. C_set_cam_events (set_cam_events_default i))
      else if cmd = ''cam_events_conf'' then Some (\<lambda>i. C_cam_events_conf (cam_events_conf_default i))
      else if cmd = ''cam_event'' then Some (\<lambda>i. C_cam_event (cam_event_default i))
      else if cmd = ''get_cam_video_conf'' then Some (\<lambda>i. C_get_cam_video_conf (get_cam_video_conf_default i))
      else if cmd = ''cam_video_conf'' then Some (\<lambda>i. C_cam_video_conf (cam_video_conf_default i))
      else if cmd = ''direct_upload_url'' then Some (\<lambda>i. C_direct_upload_url (direct_upload_url_default i))
      else if cmd = ''get_direct_upload_url'' then Some (\<lambda>i. C_get_direct_upload_url (get_direct_upload_url_default i))
      else if cmd = ''get_motion_detection'' then Some (\<lambda>i. C_get_motion_detection (get_motion_detection_default i))
      else if cmd = ''motion_detection_conf'' then Some (\<lambda>i. C_motion_detection_conf (motion_detection_conf_default i))
      else if cmd = ''get_stream_by_event'' then Some (\<lambda>i. C_get_stream_by_event (get_stream_by_event_default i))
      else if cmd = ''stream_by_event_conf'' then Some (\<lambda>i. C_stream_by_event_conf (stream_by_event_conf_default i))
      else if cmd = ''set_stream_by_event'' then Some (\<lambda>i. C_set_stream_by_event (set_stream_by_event_default i))
      else if cmd = ''get_stream_caps'' then Some (\<lambda>i. C_get_stream_caps (get_stream_caps_default i))
      else if cmd = ''stream_caps'' then Some (\<lambda>i. C_stream_caps_cmd (stream_caps_cmd_default i))
      else if cmd = ''get_stream_config'' then Some (\<lambda>i. C_get_stream_config (get_stream_config_default i))
      else if cmd = ''stream_config'' then Some (\<lambda>i. C_stream_config_cmd (stream_config_cmd_default i))
      else if cmd = ''set_cam_audio_conf'' then Some (\<lambda>i. C_set_cam_audio_conf (set_cam_audio_conf_default i))
      else if cmd = ''cam_audio_conf'' then Some (\<lambda>i. C_cam_audio_conf (cam_audio_conf_default i))
      else if cmd = ''set_cam_video_conf'' then Some (\<lambda>i. C_set_cam_video_conf (set_cam_video_conf_default i))
      else if cmd = ''set_motion_detection'' then Some (\<lambda>i. C_set_motion_detection (set_motion_detection_default i))
      else if cmd = ''set_stream_config'' then Some (\<lambda>i. C_set_stream_config (set_stream_config_default i))
      else if cmd = ''get_ptz_conf'' then Some (\<lambda>i. C_get_ptz_conf (get_ptz_conf_default i))
      else if cmd = ''cam_ptz_conf'' then Some (\<lambda>i. C_cam_ptz_conf (cam_ptz_conf_default i))
      else if cmd = ''cam_ptz'' then Some (\<lambda>i. C_cam_ptz (cam_ptz_default i))
      else if cmd = ''cam_ptz_preset'' then Some (\<lambda>i. C_cam_ptz_preset (cam_ptz_preset_default i))
      else if cmd = ''cam_ptz_preset_created'' then Some (\<lambda>i. C_cam_ptz_preset_created (cam_ptz_preset_created_default i))
      else if cmd = ''raw_message'' then Some (\<lambda>i. C_raw_message (raw_message_default i))
      else if cmd = ''cam_get_log'' then Some (\<lambda>i. C_cam_get_log (cam_get_log_default i))
      else if cmd = ''get_osd_conf'' then Some (\<lambda>i. C_get_osd_conf (get_osd_conf_default i))
      else if cmd = ''osd_conf'' then Some (\<lambda>i. C_osd_conf (osd_conf_default i))
      else if cmd = ''set_osd_conf'' then Some (\<lambda>i. C_set_osd_conf (set_osd_conf_default i))
      else if cmd = ''set_cam_parameter'' then Some (\<lambda>i. C_set_cam_parameter (set_cam_parameter_default i))
      else if cmd = ''cam_trigger_event'' then Some (\<lambda>i. C_cam_trigger_event (cam_trigger_event_default i))
      else if cmd = ''backward_start'' then Some (\<lambda>i. C_backward_start (backward_start_default i))
      else if cmd = ''backward_stop'' then Some (\<lambda>i. C_backward_stop (backward_stop_default i))
      else if cmd = ''cam_set_current_wifi'' then Some (\<lambda>i. C_cam_set_current_wifi (cam_set_current_wifi_default i))
      else if cmd = ''cam_list_wifi'' then Some (\<lambda>i. C_cam_list_wifi (cam_list_wifi_default i))
      else if cmd = ''cam_wifi_list'' then Some (\<lambda>i. C_cam_wifi_list (cam_wifi_list_default i))
      else if cmd = ''bye'' then Some (\<lambda>i. C_bye (bye_default i))
      else if cmd = ''report_problem'' then Some (\<lambda>i. C_report_problem (report_problem_default i))
      else if cmd = ''cam_status'' then Some (\<lambda>i. C_cam_status (cam_status_default i))
      else if cmd = ''audio_file_play'' then Some (\<lambda>i. C_audio_file_play (audio_file_play_default i))
      else if cmd = ''get_cam_memorycard_timeline'' then Some (\<lambda>i. C_get_cam_memorycard_timeline (get_cam_memorycard_timeline_default i))
      else if cmd = ''cam_memorycard_timeline'' then Some (\<lambda>i. C_cam_memorycard_timeline (cam_memorycard_timeline_default i))
      else if cmd = ''cam_memorycard_synchronize'' then Some (\<lambda>i. C_cam_memorycard_synchronize (cam_memorycard_synchronize_default i))
      else if cmd = ''cam_memorycard_synchronize_status'' then Some (\<lambda>i. C_cam_memorycard_synchronize_status (cam_memorycard_synchronize_status_default i))
      else if cmd = ''cam_memorycard_synchronize_cancel'' then Some (\<lambda>i. C_cam_memorycard_synchronize_cancel (cam_memorycard_synchronize_cancel_default i))
      else if cmd = ''cam_memorycard_recording'' then Some (\<lambda>i. C_cam_memorycard_recording (cam_memorycard_recording_default i))
      else None)"

definition factory_reply :: "base_command \<Rightarrow> string \<Rightarrow> id_counter \<Rightarrow> command option \<times> id_counter" where
  "factory_reply orig_cmd cmd n =
     (if cmd \<noteq> [] \<and> cmd \<noteq> unset_string then
        (case reply_class cmd of
           None \<Rightarrow> (None, n)
         | Some mk \<Rightarrow> (case make_cmd mk n of (c, n') \<Rightarrow> (map_option (command_addressed orig_cmd) c, n')))
      else (None, n))"

text \<open>The constructor \<open>done(command, status)\<close>\<close>

definition factory_done :: "base_command \<Rightarrow> done_status \<Rightarrow> id_counter \<Rightarrow> done_cmd \<times> id_counter" where
  "factory_done command status n =
     (case fresh_id n of (i, n') \<Rightarrow>
        (\<lparr>bc_cmd = ''done'', bc_msgid = i, bc_cam_id = bc_cam_id command, bc_refid = bc_msgid command,
          bc_orig_cmd = bc_cmd command, dc_status = status\<rparr>, n'))"

definition factory_create ::
  "json_num \<Rightarrow> string \<Rightarrow> id_counter \<Rightarrow> (factory_error + command option) \<times> id_counter" where
  "factory_create num nm n =
     (case fresh_id n of (i, n') \<Rightarrow>
        factory_parse num (struct_to_json (base_command_fields num) ((base_command_default i)\<lparr>bc_cmd := nm\<rparr>)) n')"

text \<open>\<open>base_command::reply\<close>\<close>

definition base_reply :: "base_command \<Rightarrow> string \<Rightarrow> id_counter \<Rightarrow> base_command \<times> id_counter" where
  "base_reply c new_cmd n =
     (case fresh_id n of (i, n') \<Rightarrow>
        (\<lparr>bc_cmd = new_cmd, bc_msgid = i, bc_cam_id = bc_cam_id c, bc_refid = bc_msgid c, bc_orig_cmd = bc_cmd c\<rparr>, n'))"

section \<open>Parsing what was serialized\<close>

text \<open>The name of the class in \<open>factory_dispatch\<close> and the commands that serialization keeps.\<close>

primrec class_name :: "command \<Rightarrow> string" where
  "class_name (C_register_cmd c) = ''register''"
| "class_name (C_cam_register c) = ''cam_register''"
| "class_name (C_hello c) = ''hello''"
| "class_name (C_configure c) = ''configure''"
| "class_name (C_get_cam_status c) = ''get_cam_status''"
| "class_name (C_get_supported_streams c) = ''get_supported_streams''"
| "class_name (C_supported_streams c) = ''supported_streams''"
| "class_name (C_cam_hello c) = ''cam_hello''"
| "class_name (C_stream_start c) = ''stream_start''"
| "class_name (C_stream_stop c) = ''stream_stop''"
| "class_name (C_cam_update_preview c) = ''cam_update_preview''"
| "class_name (C_cam_upgrade_firmware c) = ''cam_upgrade_firmware''"
| "class_name (C_get_audio_detection c) = ''get_audio_detection''"
| "class_name (C_set_audio_detection c) = ''set_audio_detection''"
| "class_name (C_audio_detection_conf c) = ''audio_detection_conf''"
| "class_name (C_get_cam_audio_conf c) = ''get_cam_audio_conf''"
| "class_name (C_get_cam_events c) = ''get_cam_events''"
| "class_name (C_set_cam_events c) = ''set_cam_events''"
| "class_name (C_cam_events_conf c) = ''cam_events_conf''"
| "class_name (C_cam_event c) = ''cam_event''"
| "class_name (C_get_cam_video_conf c) = ''get_cam_video_conf''"
| "class_name (C_cam_video_conf c) = ''cam_video_conf''"
| "class_name (C_direct_upload_url c) = ''direct_upload_url''"
| "class_name (C_get_direct_upload_url c) = ''get_direct_upload_url''"
| "class_name (C_get_motion_detection c) = ''get_motion_detection''"
| "class_name (C_motion_detection_conf c) = ''motion_detection_conf''"
| "class_name (C_get_stream_by_event c) = ''get_stream_by_event''"
| "class_name (C_stream_by_event_conf c) = ''stream_by_event_conf''"
| "class_name (C_set_stream_by_event c) = ''set_stream_by_event''"
| "class_name (C_get_stream_caps c) = ''get_stream_caps''"
| "class_name (C_stream_caps_cmd c) = ''stream_caps''"
| "class_name (C_get_stream_config c) = ''get_stream_config''"
| "class_name (C_stream_config_cmd c) = ''stream_config''"
| "class_name (C_set_cam_audio_conf c) = ''set_cam_audio_conf''"
| "class_name (C_cam_audio_conf c) = ''cam_audio_conf''"
| "class_name (C_set_cam_video_conf c) = ''set_cam_video_conf''"
| "class_name (C_set_motion_detection c) = ''set_motion_detection''"
| "class_name (C_set_stream_config c) = ''set_stream_config''"
| "class_name (C_get_ptz_conf c) = ''get_ptz_conf''"
| "class_name (C_cam_ptz_conf c) = ''cam_ptz_conf''"
| "class_name (C_cam_ptz c) = ''cam_ptz''"
| "class_name (C_cam_ptz_preset c) = ''cam_ptz_preset''"
| "class_name (C_cam_ptz_preset_created c) = ''cam_ptz_preset_created''"
| "class_name (C_raw_message c) = ''raw_message''"
| "class_name (C_raw_message_client_connected c) = ''raw_message_client_connected''"
| "class_name (C_raw_message_client_disconnected c) = ''raw_message_client_disconnected''"
| "class_name (C_cam_get_log c) = ''cam_get_log''"
| "class_name (C_get_osd_conf c) = ''get_osd_conf''"
| "class_name (C_osd_conf c) = ''osd_conf''"
| "class_name (C_set_osd_conf c) = ''set_osd_conf''"
| "class_name (C_set_cam_parameter c) = ''set_cam_parameter''"
| "class_name (C_cam_trigger_event c) = ''cam_trigger_event''"
| "class_name (C_backward_start c) = ''backward_start''"
| "class_name (C_backward_stop c) = ''backward_stop''"
| "class_name (C_cam_set_current_wifi c) = ''cam_set_current_wifi''"
| "class_name (C_cam_list_wifi c) = ''cam_list_wifi''"
| "class_name (C_cam_wifi_list c) = ''cam_wifi_list''"
| "class_name (C_bye c) = ''bye''"
| "class_name (C_report_problem c) = ''report_problem''"
| "class_name (C_cam_status c) = ''cam_status''"
| "class_name (C_audio_file_play c) = ''audio_file_play''"
| "class_name (C_get_cam_memorycard_timeline c) = ''get_cam_memorycard_timeline''"
| "class_name (C_cam_memorycard_timeline c) = ''cam_memorycard_timeline''"
| "class_name (C_cam_memorycard_synchronize c) = ''cam_memorycard_synchronize''"
| "class_name (C_cam_memorycard_synchronize_status c) = ''cam_memorycard_synchronize_status''"
| "class_name (C_cam_memorycard_synchronize_cancel c) = ''cam_memorycard_synchronize_cancel''"
| "class_name (C_cam_memorycard_recording c) = ''cam_memorycard_recording''"
| "class_name (C_done_cmd c) = ''done''"

primrec command_fields_wf :: "command \<Rightarrow> bool" where
  "command_fields_wf (C_register_cmd c) \<longleftrightarrow> register_cmd_wf c"
| "command_fields_wf (C_cam_register c) \<longleftrightarrow> cam_register_wf c"
| "command_fields_wf (C_hello c) \<longleftrightarrow> hello_wf c"
| "command_fields_wf (C_configure c) \<longleftrightarrow> configure_wf c"
| "command_fields_wf (C_get_cam_status c) \<longleftrightarrow> get_cam_status_wf c"
| "command_fields_wf (C_get_supported_streams c) \<longleftrightarrow> get_supported_streams_wf c"
| "command_fields_wf (C_supported_streams c) \<longleftrightarrow> supported_streams_wf c"
| "command_fields_wf (C_cam_hello c) \<longleftrightarrow> cam_hello_wf c"
| "command_fields_wf (C_stream_start c) \<longleftrightarrow> stream_start_wf c"
| "command_fields_wf (C_stream_stop c) \<longleftrightarrow> stream_stop_wf c"
| "command_fields_wf (C_cam_update_preview c) \<longleftrightarrow> cam_update_preview_wf c"
| "command_fields_wf (C_cam_upgrade_firmware c) \<longleftrightarrow> cam_upgrade_firmware_wf c"
| "command_fields_wf (C_get_audio_detection c) \<longleftrightarrow> get_audio_detection_wf c"
| "command_fields_wf (C_set_audio_detection c) \<longleftrightarrow> set_audio_detection_wf c"
| "command_fields_wf (C_audio_detection_conf c) \<longleftrightarrow> audio_detection_conf_wf c"
| "command_fields_wf (C_get_cam_audio_conf c) \<longleftrightarrow> get_cam_audio_conf_wf c"
| "command_fields_wf (C_get_cam_events c) \<longleftrightarrow> get_cam_events_wf c"
| "command_fields_wf (C_set_cam_events c) \<longleftrightarrow> set_cam_events_wf c"
| "command_fields_wf (C_cam_events_conf c) \<longleftrightarrow> cam_events_conf_wf c"
| "command_fields_wf (C_cam_event c) \<longleftrightarrow> base_command_wf c \<and> event_object_wf (ce_event_object c)"
| "command_fields_wf (C_get_cam_video_conf c) \<longleftrightarrow> get_cam_video_conf_wf c"
| "command_fields_wf (C_cam_video_conf c) \<longleftrightarrow> cam_video_conf_wf c"
| "command_fields_wf (C_direct_upload_url c) \<longleftrightarrow> direct_upload_url_wf c"
| "command_fields_wf (C_get_direct_upload_url c) \<longleftrightarrow> get_direct_upload_url_wf c"
| "command_fields_wf (C_get_motion_detection c) \<longleftrightarrow> get_motion_detection_wf c"
| "command_fields_wf (C_motion_detection_conf c) \<longleftrightarrow> motion_detection_conf_wf c"
| "command_fields_wf (C_get_stream_by_event c) \<longleftrightarrow> get_stream_by_event_wf c"
| "command_fields_wf (C_stream_by_event_conf c) \<longleftrightarrow> stream_by_event_conf_wf c"
| "command_fields_wf (C_set_stream_by_event c) \<longleftrightarrow> set_stream_by_event_wf c"
| "command_fields_wf (C_get_stream_caps c) \<longleftrightarrow> get_stream_caps_wf c"
| "command_fields_wf (C_stream_caps_cmd c) \<longleftrightarrow> stream_caps_cmd_wf c"
| "command_fields_wf (C_get_stream_config c) \<longleftrightarrow> get_stream_config_wf c"
| "command_fields_wf (C_stream_config_cmd c) \<longleftrightarrow> stream_config_cmd_wf c"
| "command_fields_wf (C_set_cam_audio_conf c) \<longleftrightarrow> set_cam_audio_conf_wf c"
| "command_fields_wf (C_cam_audio_conf c) \<longleftrightarrow> cam_audio_conf_wf c"
| "command_fields_wf (C_set_cam_video_conf c) \<longleftrightarrow> set_cam_video_conf_wf c"
| "command_fields_wf (C_set_motion_detection c) \<longleftrightarrow> set_motion_detection_wf c"
| "command_fields_wf (C_set_stream_config c) \<longleftrightarrow> set_stream_config_wf c"
| "command_fields_wf (C_get_ptz_conf c) \<longleftrightarrow> get_ptz_conf_wf c"
| "command_fields_wf (C_cam_ptz_conf c) \<longleftrightarrow> cam_ptz_conf_wf c"
| "command_fields_wf (C_cam_ptz c) \<longleftrightarrow> cam_ptz_wf c"
| "command_fields_wf (C_cam_ptz_preset c) \<longleftrightarrow> cam_ptz_preset_wf c"
| "command_fields_wf (C_cam_ptz_preset_created c) \<longleftrightarrow> cam_ptz_preset_created_wf c"
| "command_fields_wf (C_raw_message c) \<longleftrightarrow> raw_message_wf c"
| "command_fields_wf (C_raw_message_client_connected c) \<longleftrightarrow> raw_message_client_connected_wf c"
| "command_fields_wf (C_raw_message_client_disconnected c) \<longleftrightarrow> raw_message_client_disconnected_wf c"
| "command_fields_wf (C_cam_get_log c) \<longleftrightarrow> cam_get_log_wf c"
| "command_fields_wf (C_get_osd_conf c) \<longleftrightarrow> get_osd_conf_wf c"
| "command_fields_wf (C_osd_conf c) \<longleftrightarrow> osd_conf_wf c"
| "command_fields_wf (C_set_osd_conf c) \<longleftrightarrow> set_osd_conf_wf c"
| "command_fields_wf (C_set_cam_parameter c) \<longleftrightarrow> set_cam_parameter_wf c"
| "command_fields_wf (C_cam_trigger_event c) \<longleftrightarrow> cam_trigger_event_wf c"
| "command_fields_wf (C_backward_start c) \<longleftrightarrow> backward_start_wf c"
| "command_fields_wf (C_backward_stop c) \<longleftrightarrow> backward_stop_wf c"
| "command_fields_wf (C_cam_set_current_wifi c) \<longleftrightarrow> cam_set_current_wifi_wf c"
| "command_fields_wf (C_cam_list_wifi c) \<longleftrightarrow> cam_list_wifi_wf c"
| "command_fields_wf (C_cam_wifi_list c) \<longleftrightarrow> cam_wifi_list_wf c"
| "command_fields_wf (C_bye c) \<longleftrightarrow> bye_wf c"
| "command_fields_wf (C_report_problem c) \<longleftrightarrow> report_problem_wf c"
| "command_fields_wf (C_cam_status c) \<longleftrightarrow> cam_status_wf c"
| "command_fields_wf (C_audio_file_play c) \<longleftrightarrow> audio_file_play_wf c"
| "command_fields_wf (C_get_cam_memorycard_timeline c) \<longleftrightarrow> get_cam_memorycard_timeline_wf c"
| "command_fields_wf (C_cam_memorycard_timeline c) \<longleftrightarrow> cam_memorycard_timeline_wf c"
| "command_fields_wf (C_cam_memorycard_synchronize c) \<longleftrightarrow> cam_memorycard_synchronize_wf c"
| "command_fields_wf (C_cam_memorycard_synchronize_status c) \<longleftrightarrow> cam_memorycard_synchronize_status_wf c"
| "command_fields_wf (C_cam_memorycard_synchronize_cancel c) \<longleftrightarrow> cam_memorycard_synchronize_cancel_wf c"
| "command_fields_wf (C_cam_memorycard_recording c) \<longleftrightarrow> cam_memorycard_recording_wf c"
| "command_fields_wf (C_done_cmd c) \<longleftrightarrow> done_cmd_wf c"

definition command_wf :: "command \<Rightarrow> bool" where
  "command_wf c \<longleftrightarrow> command_fields_wf c \<and> bc_cmd (command_base c) = class_name c \<and> class_name c \<noteq> ''done''"

lemmas command_own_fields =
  register_cmd_fields_def cam_register_fields_def hello_fields_def configure_fields_def
  get_cam_status_fields_def get_supported_streams_fields_def supported_streams_fields_def
  cam_hello_fields_def stream_start_fields_def stream_stop_fields_def cam_update_preview_fields_def
  cam_upgrade_firmware_fields_def get_audio_detection_fields_def set_audio_detection_fields_def
  audio_detection_conf_fields_def get_cam_audio_conf_fields_def get_cam_events_fields_def
  set_cam_events_fields_def cam_events_conf_fields_def get_cam_video_conf_fields_def
  cam_video_conf_fields_def direct_upload_url_fields_def get_direct_upload_url_fields_def
  get_motion_detection_fields_def motion_detection_conf_fields_def get_stream_by_event_fields_def
  stream_by_event_conf_fields_def set_stream_by_event_fields_def get_stream_caps_fields_def
  stream_caps_cmd_fields_def get_stream_config_fields_def stream_config_cmd_fields_def
  set_cam_audio_conf_fields_def cam_audio_conf_fields_def set_cam_video_conf_fields_def
  set_motion_detection_fields_def set_stream_config_fields_def get_ptz_conf_fields_def
  cam_ptz_conf_fields_def cam_ptz_fields_def cam_ptz_preset_fields_def
  cam_ptz_preset_created_fields_def raw_message_fields_def raw_message_client_connected_fields_def
  raw_message_client_disconnected_fields_def cam_get_log_fields_def get_osd_conf_fields_def
  osd_conf_fields_def set_osd_conf_fields_def set_cam_parameter_fields_def
  cam_trigger_event_fields_def backward_start_fields_def backward_stop_fields_def
  cam_set_current_wifi_fields_def cam_list_wifi_fields_def cam_wifi_list_fields_def bye_fields_def
  report_problem_fields_def cam_status_fields_def audio_file_play_fields_def
  get_cam_memorycard_timeline_fields_def cam_memorycard_timeline_fields_def
  cam_memorycard_synchronize_fields_def cam_memorycard_synchronize_status_fields_def
  cam_memorycard_synchronize_cancel_fields_def cam_memorycard_recording_fields_def

lemma factory_dispatch_simps [simp]:
  "factory_dispatch num ''register'' j n = make_cmd (\<lambda>i. C_register_cmd (struct_from_json (register_cmd_fields num) j (register_cmd_default i))) n"
  "factory_dispatch num ''cam_register'' j n = make_cmd (\<lambda>i. C_cam_register (struct_from_json (cam_register_fields num) j (cam_register_default i))) n"
  "factory_dispatch num ''hello'' j n = make_cmd (\<lambda>i. C_hello (struct_from_json (hello_fields num) j (hello_default i))) n"
  "factory_dispatch num ''configure'' j n = make_cmd (\<lambda>i. C_configure (struct_from_json (configure_fields num) j (configure_default i))) n"
  "factory_dispatch num ''get_cam_status'' j n = make_cmd (\<lambda>i. C_get_cam_status (struct_from_json (get_cam_status_fields num) j (get_cam_status_default i))) n"
  "factory_dispatch num ''get_supported_streams'' j n = make_cmd (\<lambda>i. C_get_supported_streams (struct_from_json (get_supported_streams_fields num) j (get_supported_streams_default i))) n"
  "factory_dispatch num ''supported_streams'' j n = make_cmd (\<lambda>i. C_supported_streams (struct_from_json (supported_streams_fields num) j (supported_streams_default i))) n"
  "factory_dispatch num ''cam_hello'' j n = make_cmd (\<lambda>i. C_cam_hello (struct_from_json (cam_hello_fields num) j (cam_hello_default i))) n"
  "factory_dispatch num ''stream_start'' j n = make_cmd (\<lambda>i. C_stream_start (struct_from_json (stream_start_fields num) j (stream_start_default i))) n"
  "factory_dispatch num ''stream_stop'' j n = make_cmd (\<lambda>i. C_stream_stop (struct_from_json (stream_stop_fields num) j (stream_stop_default i))) n"
  "factory_dispatch num ''cam_update_preview'' j n = make_cmd (\<lambda>i. C_cam_update_preview (struct_from_json (cam_update_preview_fields num) j (cam_update_preview_default i))) n"
  "factory_dispatch num ''cam_upgrade_firmware'' j n = make_cmd (\<lambda>i. C_cam_upgrade_firmware (struct_from_json (cam_upgrade_firmware_fields num) j (cam_upgrade_firmware_default i))) n"
  "factory_dispatch num ''get_audio_detection'' j n = make_cmd (\<lambda>i. C_get_audio_detection (struct_from_json (get_audio_detection_fields num) j (get_audio_detection_default i))) n"
  "factory_dispatch num ''set_audio_detection'' j n = make_cmd (\<lambda>i. C_set_audio_detection (struct_from_json (set_audio_detection_fields num) j (set_audio_detection_default i))) n"
  "factory_dispatch num ''audio_detection_conf'' j n = make_cmd (\<lambda>i. C_audio_detection_conf (struct_from_json (audio_detection_conf_fields num) j (audio_detection_conf_default i))) n"
  "factory_dispatch num ''get_cam_audio_conf'' j n = make_cmd (\<lambda>i. C_get_cam_audio_conf (struct_from_json (get_cam_audio_conf_fields num) j (get_cam_audio_conf_default i))) n"
  "factory_dispatch num ''get_cam_events'' j n = make_cmd (\<lambda>i. C_get_cam_events (struct_from_json (get_cam_events_fields num) j (get_cam_events_default i))) n"
  "factory_dispatch num ''set_cam_events'' j n = make_cmd (\<lambda>i. C_set_cam_events (struct_from_json (set_cam_events_fields num) j (set_cam_events_default i))) n"
  "factory_dispatch num ''cam_events_conf'' j n = make_cmd (\<lambda>i. C_cam_events_conf (struct_from_json (cam_events_conf_fields num) j (cam_events_conf_default i))) n"
  "factory_dispatch num ''cam_event'' j n = make_cmd (\<lambda>i. C_cam_event (cam_event_from_json num j (cam_event_default i))) n"
  "factory_dispatch num ''get_cam_video_conf'' j n = make_cmd (\<lambda>i. C_get_cam_video_conf (struct_from_json (get_cam_video_conf_fields num) j (get_cam_video_conf_default i))) n"
  "factory_dispatch num ''cam_video_conf'' j n = make_cmd (\<lambda>i. C_cam_video_conf (struct_from_json (cam_video_conf_fields num) j (cam_video_conf_default i))) n"
  "factory_dispatch num ''direct_upload_url'' j n = make_cmd (\<lambda>i. C_direct_upload_url (struct_from_json (direct_upload_url_fields num) j (direct_upload_url_default i))) n"
  "factory_dispatch num ''get_direct_upload_url'' j n = make_cmd (\<lambda>i. C_get_direct_upload_url (struct_from_json (get_direct_upload_url_fields num) j (get_direct_upload_url_default i))) n"
  "factory_dispatch num ''get_motion_detection'' j n = make_cmd (\<lambda>i. C_get_motion_detection (struct_from_json (get_motion_detection_fields num) j (get_motion_detection_default i))) n"
  "factory_dispatch num ''motion_detection_conf'' j n = make_cmd (\<lambda>i. C_motion_detection_conf (struct_from_json (motion_detection_conf_fields num) j (motion_detection_conf_default i))) n"
  "factory_dispatch num ''get_stream_by_event'' j n = make_cmd (\<lambda>i. C_get_stream_by_event (struct_from_json (get_stream_by_event_fields num) j (get_stream_by_event_default i))) n"
  "factory_dispatch num ''stream_by_event_conf'' j n = make_cmd (\<lambda>i. C_stream_by_event_conf (struct_from_json (stream_by_event_conf_fields num) j (stream_by_event_conf_default i))) n"
  "factory_dispatch num ''set_stream_by_event'' j n = make_cmd (\<lambda>i. C_set_stream_by_event (struct_from_json (set_stream_by_event_fields num) j (set_stream_by_event_default i))) n"
  "factory_dispatch num ''get_stream_caps'' j n = make_cmd (\<lambda>i. C_get_stream_caps (struct_from_json (get_stream_caps_fields num) j (get_stream_caps_default i))) n"
  "factory_dispatch num ''stream_caps'' j n = make_cmd (\<lambda>i. C_stream_caps_cmd (struct_from_json (stream_caps_cmd_fields num) j (stream_caps_cmd_default i))) n"
  "factory_dispatch num ''get_stream_config'' j n = make_cmd (\<lambda>i. C_get_stream_config (struct_from_json (get_stream_config_fields num) j (get_stream_config_default i))) n"
  "factory_dispatch num ''stream_config'' j n = make_cmd (\<lambda>i. C_stream_config_cmd (struct_from_json (stream_config_cmd_fields num) j (stream_config_cmd_default i))) n"
  "factory_dispatch num ''set_cam_audio_conf'' j n = make_cmd (\<lambda>i. C_set_cam_audio_conf (struct_from_json (set_cam_audio_conf_fields num) j (set_cam_audio_conf_default i))) n"
  "factory_dispatch num ''cam_audio_conf'' j n = make_cmd (\<lambda>i. C_cam_audio_conf (struct_from_json (cam_audio_conf_fields num) j (cam_audio_conf_default i))) n"
  "factory_dispatch num ''set_cam_video_conf'' j n = make_cmd (\<lambda>i. C_set_cam_video_conf (struct_from_json (set_cam_video_conf_fields num) j (set_cam_video_conf_default i))) n"
  "factory_dispatch num ''set_motion_detection'' j n = make_cmd (\<lambda>i. C_set_motion_detection (struct_from_json (set_motion_detection_fields num) j (set_motion_detection_default i))) n"
  "factory_dispatch num ''set_stream_config'' j n = make_cmd (\<lambda>i. C_set_stream_config (struct_from_json (set_stream_config_fields num) j (set_stream_config_default i))) n"
  "factory_dispatch num ''get_ptz_conf'' j n = make_cmd (\<lambda>i. C_get_ptz_conf (struct_from_json (get_ptz_conf_fields num) j (get_ptz_conf_default i))) n"
  "factory_dispatch num ''cam_ptz_conf'' j n = make_cmd (\<lambda>i. C_cam_ptz_conf (struct_from_json (cam_ptz_conf_fields num) j (cam_ptz_conf_default i))) n"
  "factory_dispatch num ''cam_ptz'' j n = make_cmd (\<lambda>i. C_cam_ptz (struct_from_json (cam_ptz_fields num) j (cam_ptz_default i))) n"
  "factory_dispatch num ''cam_ptz_preset'' j n = make_cmd (\<lambda>i. C_cam_ptz_preset (struct_from_json (cam_ptz_preset_fields num) j (cam_ptz_preset_default i))) n"
  "factory_dispatch num ''cam_ptz_preset_created'' j n = make_cmd (\<lambda>i. C_cam_ptz_preset_created (struct_from_json (cam_ptz_preset_created_fields num) j (cam_ptz_preset_created_default i))) n"
  "factory_dispatch num ''raw_message'' j n = make_cmd (\<lambda>i. C_raw_message (struct_from_json (raw_message_fields num) j (raw_message_default i))) n"
  "factory_dispatch num ''raw_message_client_connected'' j n = make_cmd (\<lambda>i. C_raw_message_client_connected (struct_from_json (raw_message_client_connected_fields num) j (raw_message_client_connected_default i))) n"
  "factory_dispatch num ''raw_message_client_disconnected'' j n = make_cmd (\<lambda>i. C_raw_message_client_disconnected (struct_from_json (raw_message_client_disconnected_fields num) j (raw_message_client_disconnected_default i))) n"
  "factory_dispatch num ''cam_get_log'' j n = make_cmd (\<lambda>i. C_cam_get_log (struct_from_json (cam_get_log_fields num) j (cam_get_log_default i))) n"
  "factory_dispatch num ''get_osd_conf'' j n = make_cmd (\<lambda>i. C_get_osd_conf (struct_from_json (get_osd_conf_fields num) j (get_osd_conf_default i))) n"
  "factory_dispatch num ''osd_conf'' j n = make_cmd (\<lambda>i. C_osd_conf (struct_from_json (osd_conf_fields num) j (osd_conf_default i))) n"
  "factory_dispatch num ''set_osd_conf'' j n = make_cmd (\<lambda>i. C_set_osd_conf (struct_from_json (set_osd_conf_fields num) j (set_osd_conf_default i))) n"
  "factory_dispatch num ''set_cam_parameter'' j n = make_cmd (\<lambda>i. C_set_cam_parameter (struct_from_json (set_cam_parameter_fields num) j (set_cam_parameter_default i))) n"
  "factory_dispatch num ''cam_trigger_event'' j n = make_cmd (\<lambda>i. C_cam_trigger_event (struct_from_json (cam_trigger_event_fields num) j (cam_trigger_event_default i))) n"
  "factory_dispatch num ''backward_start'' j n = make_cmd (\<lambda>i. C_backward_start (struct_from_json (backward_start_fields num) j (backward_start_default i))) n"
  "factory_dispatch num ''backward_stop'' j n = make_cmd (\<lambda>i. C_backward_stop (struct_from_json (backward_stop_fields num) j (backward_stop_default i))) n"
  "factory_dispatch num ''cam_set_current_wifi'' j n = make_cmd (\<lambda>i. C_cam_set_current_wifi (struct_from_json (cam_set_current_wifi_fields num) j (cam_set_current_wifi_default i))) n"
  "factory_dispatch num ''cam_list_wifi'' j n = make_cmd (\<lambda>i. C_cam_list_wifi (struct_from_json (cam_list_wifi_fields num) j (cam_list_wifi_default i))) n"
  "factory_dispatch num ''cam_wifi_list'' j n = make_cmd (\<lambda>i. C_cam_wifi_list (struct_from_json (cam_wifi_list_fields num) j (cam_wifi_list_default i))) n"
  "factory_dispatch num ''bye'' j n = make_cmd (\<lambda>i. C_bye (struct_from_json (bye_fields num) j (bye_default i))) n"
  "factory_dispatch num ''report_problem'' j n = make_cmd (\<lambda>i. C_report_problem (struct_from_json (report_problem_fields num) j (report_problem_default i))) n"
  "factory_dispatch num ''cam_status'' j n = make_cmd (\<lambda>i. C_cam_status (struct_from_json (cam_status_fields num) j (cam_status_default i))) n"
  "factory_dispatch num ''audio_file_play'' j n = make_cmd (\<lambda>i. C_audio_file_play (struct_from_json (audio_file_play_fields num) j (audio_file_play_default i))) n"
  "factory_dispatch num ''get_cam_memorycard_timeline'' j n = make_cmd (\<lambda>i. C_get_cam_memorycard_timeline (struct_from_json (get_cam_memorycard_timeline_fields num) j (get_cam_memorycard_timeline_default i))) n"
  "factory_dispatch num ''cam_memorycard_timeline'' j n = make_cmd (\<lambda>i. C_cam_memorycard_timeline (struct_from_json (cam_memorycard_timeline_fields num) j (cam_memorycard_timeline_default i))) n"
  "factory_dispatch num ''cam_memorycard_synchronize'' j n = make_cmd (\<lambda>i. C_cam_memorycard_synchronize (struct_from_json (cam_memorycard_synchronize_fields num) j (cam_memorycard_synchronize_default i))) n"
  "factory_dispatch num ''cam_memorycard_synchronize_status'' j n = make_cmd (\<lambda>i. C_cam_memorycard_synchronize_status (struct_from_json (cam_memorycard_synchronize_status_fields num) j (cam_memorycard_synchronize_status_default i))) n"
  "factory_dispatch num ''cam_memorycard_synchronize_cancel'' j n = make_cmd (\<lambda>i. C_cam_memorycard_synchronize_cancel (struct_from_json (cam_memorycard_synchronize_cancel_fields num) j (cam_memorycard_synchronize_cancel_default i))) n"
  "factory_dispatch num ''cam_memorycard_recording'' j n = make_cmd (\<lambda>i. C_cam_memorycard_recording (struct_from_json (cam_memorycard_recording_fields num) j (cam_memorycard_recording_default i))) n"
  by (simp_all add: factory_dispatch_def)

text \<open>Every command reads its name first, and no other field changes it.\<close>

definition keeps :: "('t \<Rightarrow> 'a) \<Rightarrow> 't field \<Rightarrow> bool" where
  "keeps g f \<longleftrightarrow> (\<forall>x t. g (f_get f x t) = g t)"

definition cmd_first :: "'a base_command_scheme field list \<Rightarrow> bool" where
  "cmd_first fs \<longleftrightarrow> (\<exists>rest. fs = str_field ''cmd'' bc_cmd bc_cmd_update # rest \<and> list_all (keeps bc_cmd) rest)"

lemma keeps_fld [simp]: "(\<And>h t. g (u h t) = g t) \<Longrightarrow> keeps g (fld k un enc dec a u)"
  by (simp add: keeps_def fld_def split: option.split)

lemma keeps_lift [simp]: "(\<And>h t. g (u h t) = g t) \<Longrightarrow> keeps g (lift_field a u f)"
  by (simp add: keeps_def lift_field_def)

lemma keeps_lift_all [simp]: "(\<And>h t. g (u h t) = g t) \<Longrightarrow> list_all (keeps g) (map (lift_field a u) fs)"
  by (simp add: list_all_iff)

lemma struct_from_json_keeps: "list_all (keeps g) fs \<Longrightarrow> g (struct_from_json fs j t) = g t"
  unfolding struct_from_json_def
  by (induction fs arbitrary: t) (simp_all add: keeps_def my_json_from_def split: option.split)

lemma parsed_cmd:
  assumes "json_at ''cmd'' j = Some (JStr s)" "cmd_first fs"
  shows "bc_cmd (struct_from_json fs j d) = s"
proof -
  obtain rest where fs: "fs = str_field ''cmd'' bc_cmd bc_cmd_update # rest" and r: "list_all (keeps bc_cmd) rest"
    using assms(2) by (auto simp: cmd_first_def)
  show ?thesis
    using struct_from_json_keeps [OF r, of j] assms(1)
    by (simp add: fs struct_from_json_def my_json_from_def field_defs)
qed

lemmas field_kinds = str_field_def int_field_def int64_field_def uint64_field_def double_field_def
  bool_field_def alter_field_def enum_field_def json_field_def val_field_def struct_field_def

lemma cmd_first_fields [simp]:
  "cmd_first (base_command_fields num)"
  "cmd_first (register_cmd_fields num)"
  "cmd_first (cam_register_fields num)"
  "cmd_first (hello_fields num)"
  "cmd_first (configure_fields num)"
  "cmd_first (get_cam_status_fields num)"
  "cmd_first (get_supported_streams_fields num)"
  "cmd_first (supported_streams_fields num)"
  "cmd_first (cam_hello_fields num)"
  "cmd_first (stream_start_fields num)"
  "cmd_first (stream_stop_fields num)"
  "cmd_first (cam_update_preview_fields num)"
  "cmd_first (cam_upgrade_firmware_fields num)"
  "cmd_first (get_audio_detection_fields num)"
  "cmd_first (set_audio_detection_fields num)"
  "cmd_first (audio_detection_conf_fields num)"
  "cmd_first (get_cam_audio_conf_fields num)"
  "cmd_first (get_cam_events_fields num)"
  "cmd_first (set_cam_events_fields num)"
  "cmd_first (cam_events_conf_fields num)"
  "cmd_first (get_cam_video_conf_fields num)"
  "cmd_first (cam_video_conf_fields num)"
  "cmd_first (direct_upload_url_fields num)"
  "cmd_first (get_direct_upload_url_fields num)"
  "cmd_first (get_motion_detection_fields num)"
  "cmd_first (motion_detection_conf_fields num)"
  "cmd_first (get_stream_by_event_fields num)"
  "cmd_first (stream_by_event_conf_fields num)"
  "cmd_first (set_stream_by_event_fields num)"
  "cmd_first (get_stream_caps_fields num)"
  "cmd_first (stream_caps_cmd_fields num)"
  "cmd_first (get_stream_config_fields num)"
  "cmd_first (stream_config_cmd_fields num)"
  "cmd_first (set_cam_audio_conf_fields num)"
  "cmd_first (cam_audio_conf_fields num)"
  "cmd_first (set_cam_video_conf_fields num)"
  "cmd_first (set_motion_detection_fields num)"
  "cmd_first (set_stream_config_fields num)"
  "cmd_first (get_ptz_conf_fields num)"
  "cmd_first (cam_ptz_conf_fields num)"
  "cmd_first (cam_ptz_fields num)"
  "cmd_first (cam_ptz_preset_fields num)"
  "cmd_first (cam_ptz_preset_created_fields num)"
  "cmd_first (raw_message_fields num)"
  "cmd_first (raw_message_client_connected_fields num)"
  "cmd_first (raw_message_client_disconnected_fields num)"
  "cmd_first (cam_get_log_fields num)"
  "cmd_first (get_osd_conf_fields num)"
  "cmd_first (osd_conf_fields num)"
  "cmd_first (set_osd_conf_fields num)"
  "cmd_first (set_cam_parameter_fields num)"
  "cmd_first (cam_trigger_event_fields num)"
  "cmd_first (backward_start_fields num)"
  "cmd_first (backward_stop_fields num)"
  "cmd_first (cam_set_current_wifi_fields num)"
  "cmd_first (cam_list_wifi_fields num)"
  "cmd_first (cam_wifi_list_fields num)"
  "cmd_first (bye_fields num)"
  "cmd_first (report_problem_fields num)"
  "cmd_first (cam_status_fields num)"
  "cmd_first (audio_file_play_fields num)"
  "cmd_first (get_cam_memorycard_timeline_fields num)"
  "cmd_first (cam_memorycard_timeline_fields num)"
  "cmd_first (cam_memorycard_synchronize_fields num)"
  "cmd_first (cam_memorycard_synchronize_status_fields num)"
  "cmd_first (cam_memorycard_synchronize_cancel_fields num)"
  "cmd_first (cam_memorycard_recording_fields num)"
  by (simp_all add: cmd_first_def command_own_fields base_command_fields_def field_kinds)

lemma cmd_first_member: "cmd_first fs \<Longrightarrow> str_field ''cmd'' bc_cmd bc_cmd_update \<in> set fs"
  by (auto simp: cmd_first_def)

text \<open>The counter wraps, and the id that is the unset value is not written.\<close>

lemma snd_fresh_id [simp]: "snd (fresh_id n) = n + 1"
  by (simp add: fresh_id_def Let_def)

lemma make_cmd_fresh [simp]: "make_cmd mk n = (Some (mk (fst (fresh_id n))), n + 1)"
  by (simp add: make_cmd_def fresh_id_def Let_def)

lemma cmd_member:
  assumes "distinct (map f_key fs)" "cmd_first fs" "bc_cmd t \<noteq> unset_string"
  shows "json_at ''cmd'' (struct_to_json fs t) = Some (JStr (bc_cmd t))"
  using json_at_struct [OF assms(1) cmd_first_member [OF assms(2)], of t] assms(3) by (simp add: field_out_def field_defs)

lemma factory_parse_named:
  assumes "json_at ''cmd'' j = Some (JStr s)"
  shows "factory_parse num j n = (case factory_dispatch num s j n of (c, n') \<Rightarrow> (Inr c, n'))"
  using assms by (simp add: factory_parse_def)

lemma class_roundtrip:
  assumes codec: "\<And>i. struct_codec fs (dflt i) ok"
    and cmd: "cmd_first fs"
    and disp: "\<And>j. factory_dispatch num s j n = make_cmd (\<lambda>i. con (struct_from_json fs j (dflt i))) n"
    and c: "ok c" "bc_cmd c = s" "s \<noteq> unset_string"
  shows "factory_parse num (struct_to_json fs c) n = (Inr (Some (con c)), n + 1)"
proof -
  have "json_at ''cmd'' (struct_to_json fs c) = Some (JStr s)"
    using cmd_member [OF struct_codec.keys [OF codec] cmd, of c] c by simp
  then show ?thesis
    using struct_codec.roundtrip [OF codec c(1)] by (simp add: factory_parse_named disp)
qed

lemmas class_roundtrips =
  class_roundtrip [where con = C_register_cmd, OF register_cmd.struct_codec_axioms]
  class_roundtrip [where con = C_cam_register, OF cam_register.struct_codec_axioms]
  class_roundtrip [where con = C_hello, OF hello.struct_codec_axioms]
  class_roundtrip [where con = C_configure, OF configure.struct_codec_axioms]
  class_roundtrip [where con = C_get_cam_status, OF get_cam_status.struct_codec_axioms]
  class_roundtrip [where con = C_get_supported_streams, OF get_supported_streams.struct_codec_axioms]
  class_roundtrip [where con = C_supported_streams, OF supported_streams.struct_codec_axioms]
  class_roundtrip [where con = C_cam_hello, OF cam_hello.struct_codec_axioms]
  class_roundtrip [where con = C_stream_start, OF stream_start.struct_codec_axioms]
  class_roundtrip [where con = C_stream_stop, OF stream_stop.struct_codec_axioms]
  class_roundtrip [where con = C_cam_update_preview, OF cam_update_preview.struct_codec_axioms]
  class_roundtrip [where con = C_cam_upgrade_firmware, OF cam_upgrade_firmware.struct_codec_axioms]
  class_roundtrip [where con = C_get_audio_detection, OF get_audio_detection.struct_codec_axioms]
  class_roundtrip [where con = C_set_audio_detection, OF set_audio_detection.struct_codec_axioms]
  class_roundtrip [where con = C_audio_detection_conf, OF audio_detection_conf.struct_codec_axioms]
  class_roundtrip [where con = C_get_cam_audio_conf, OF get_cam_audio_conf.struct_codec_axioms]
  class_roundtrip [where con = C_get_cam_events, OF get_cam_events.struct_codec_axioms]
  class_roundtrip [where con = C_set_cam_events, OF set_cam_events.struct_codec_axioms]
  class_roundtrip [where con = C_cam_events_conf, OF cam_events_conf.struct_codec_axioms]
  class_roundtrip [where con = C_get_cam_video_conf, OF get_cam_video_conf.struct_codec_axioms]
  class_roundtrip [where con = C_cam_video_conf, OF cam_video_conf.struct_codec_axioms]
  class_roundtrip [where con = C_direct_upload_url, OF direct_upload_url.struct_codec_axioms]
  class_roundtrip [where con = C_get_direct_upload_url, OF get_direct_upload_url.struct_codec_axioms]
  class_roundtrip [where con = C_get_motion_detection, OF get_motion_detection.struct_codec_axioms]
  class_roundtrip [where con = C_motion_detection_conf, OF motion_detection_conf.struct_codec_axioms]
  class_roundtrip [where con = C_get_stream_by_event, OF get_stream_by_event.struct_codec_axioms]
  class_roundtrip [where con = C_stream_by_event_conf, OF stream_by_event_conf.struct_codec_axioms]
  class_roundtrip [where con = C_set_stream_by_event, OF set_stream_by_event.struct_codec_axioms]
  class_roundtrip [where con = C_get_stream_caps, OF get_stream_caps.struct_codec_axioms]
  class_roundtrip [where con = C_stream_caps_cmd, OF stream_caps_cmd.struct_codec_axioms]
  class_roundtrip [where con = C_get_stream_config, OF get_stream_config.struct_codec_axioms]
  class_roundtrip [where con = C_stream_config_cmd, OF stream_config_cmd.struct_codec_axioms]
  class_roundtrip [where con = C_set_cam_audio_conf, OF set_cam_audio_conf.struct_codec_axioms]
  class_roundtrip [where con = C_cam_audio_conf, OF cam_audio_conf.struct_codec_axioms]
  class_roundtrip [where con = C_set_cam_video_conf, OF set_cam_video_conf.struct_codec_axioms]
  class_roundtrip [where con = C_set_motion_detection, OF set_motion_detection.struct_codec_axioms]
  class_roundtrip [where con = C_set_stream_config, OF set_stream_config.struct_codec_axioms]
  class_roundtrip [where con = C_get_ptz_conf, OF get_ptz_conf.struct_codec_axioms]
  class_roundtrip [where con = C_cam_ptz_conf, OF cam_ptz_conf.struct_codec_axioms]
  class_roundtrip [where con = C_cam_ptz, OF cam_ptz.struct_codec_axioms]
  class_roundtrip [where con = C_cam_ptz_preset, OF cam_ptz_preset.struct_codec_axioms]
  class_roundtrip [where con = C_cam_ptz_preset_created, OF cam_ptz_preset_created.struct_codec_axioms]
  class_roundtrip [where con = C_raw_message, OF raw_message.struct_codec_axioms]
  class_roundtrip [where con = C_raw_message_client_connected, OF raw_message_client_connected.struct_codec_axioms]
  class_roundtrip [where con = C_raw_message_client_disconnected, OF raw_message_client_disconnected.struct_codec_axioms]
  class_roundtrip [where con = C_cam_get_log, OF cam_get_log.struct_codec_axioms]
  class_roundtrip [where con = C_get_osd_conf, OF get_osd_conf.struct_codec_axioms]
  class_roundtrip [where con = C_osd_conf, OF osd_conf.struct_codec_axioms]
  class_roundtrip [where con = C_set_osd_conf, OF set_osd_conf.struct_codec_axioms]
  class_roundtrip [where con = C_set_cam_parameter, OF set_cam_parameter.struct_codec_axioms]
  class_roundtrip [where con = C_cam_trigger_event, OF cam_trigger_event.struct_codec_axioms]
  class_roundtrip [where con = C_backward_start, OF backward_start.struct_codec_axioms]
  class_roundtrip [where con = C_backward_stop, OF backward_stop.struct_codec_axioms]
  class_roundtrip [where con = C_cam_set_current_wifi, OF cam_set_current_wifi.struct_codec_axioms]
  class_roundtrip [where con = C_cam_list_wifi, OF cam_list_wifi.struct_codec_axioms]
  class_roundtrip [where con = C_cam_wifi_list, OF cam_wifi_list.struct_codec_axioms]
  class_roundtrip [where con = C_bye, OF bye.struct_codec_axioms]
  class_roundtrip [where con = C_report_problem, OF report_problem.struct_codec_axioms]
  class_roundtrip [where con = C_cam_status, OF cam_status.struct_codec_axioms]
  class_roundtrip [where con = C_audio_file_play, OF audio_file_play.struct_codec_axioms]
  class_roundtrip [where con = C_get_cam_memorycard_timeline, OF get_cam_memorycard_timeline.struct_codec_axioms]
  class_roundtrip [where con = C_cam_memorycard_timeline, OF cam_memorycard_timeline.struct_codec_axioms]
  class_roundtrip [where con = C_cam_memorycard_synchronize, OF cam_memorycard_synchronize.struct_codec_axioms]
  class_roundtrip [where con = C_cam_memorycard_synchronize_status, OF cam_memorycard_synchronize_status.struct_codec_axioms]
  class_roundtrip [where con = C_cam_memorycard_synchronize_cancel, OF cam_memorycard_synchronize_cancel.struct_codec_axioms]
  class_roundtrip [where con = C_cam_memorycard_recording, OF cam_memorycard_recording.struct_codec_axioms]

lemma event_object_other:
  "k \<notin> set event_keys \<Longrightarrow> json_at k (event_object_to_json num e j) = json_at k j"
  by (cases "eo_event e") (simp_all add: event_object_to_json_def Let_def event_keys_def)

lemma cam_event_at_cmd:
  assumes "bc_cmd c \<noteq> unset_string"
  shows "json_at ''cmd'' (cam_event_to_json num c) = Some (JStr (bc_cmd c))"
proof -
  have "distinct (map f_key (base_command_fields num))" by (simp add: base_command_fields_def)
  from cmd_member [OF this _ assms] show ?thesis
    by (simp add: cam_event_to_json_def event_object_other event_keys_def)
qed

lemma base_from_cam_event:
  "struct_from_json (base_command_fields num) (cam_event_to_json num c) d =
   struct_from_json (base_command_fields num) (struct_to_json (base_command_fields num) c) d"
  unfolding struct_from_json_def
  by (intro fold_cong)
    (auto simp: base_command_fields_def my_json_from_def cam_event_to_json_def event_object_other event_keys_def)

lemma cam_event_roundtrip:
  assumes num: "num_ok num" and c: "base_command_wf c" "event_object_wf (ce_event_object c)"
  shows "cam_event_from_json num (cam_event_to_json num c) (cam_event_default i) = c"
proof -
  have b: "struct_from_json (base_command_fields num) (cam_event_to_json num c) (cam_event_default i) =
      c\<lparr>ce_event_object := event_object_default\<rparr>"
    using assms unfolding base_from_cam_event
    by (subst struct_from_to)
      (auto simp: base_command_fields_def cam_event_default_def base_command_default_def base_command_wf_def
        base_command.defs json_rt intro!: cam_event.equality)
  have "event_object_from_json num (cam_event_to_json num c) event_object_default = ce_event_object c"
    unfolding cam_event_to_json_def
    by (rule event_object_roundtrip_in [OF num c(2)])
      (auto simp: event_keys_def base_command_fields_def intro!: json_at_struct_other)
  with b show ?thesis by (simp add: cam_event_from_json_def)
qed

section \<open>Properties\<close>



definition class_ok :: "string \<Rightarrow> command option \<times> id_counter \<Rightarrow> bool" where
  "class_ok s r \<longleftrightarrow>
     (\<forall>c. fst r = Some c \<longrightarrow> bc_cmd (command_base c) = s \<and> class_name c = s \<and> s \<noteq> ''done'')"

lemma class_ok_if: "(b \<Longrightarrow> class_ok s x) \<Longrightarrow> class_ok s y \<Longrightarrow> class_ok s (if b then x else y)"
  by simp

lemma class_ok_dispatch:
  assumes "json_at ''cmd'' j = Some (JStr s)"
  shows "class_ok s (factory_dispatch num s j n)"
  unfolding factory_dispatch_def
  by (intro class_ok_if)
    (simp_all add: class_ok_def parsed_cmd [OF assms] base_command.defs cam_event_from_json_def Let_def)

lemma parsed_class:
  assumes "factory_parse num j n = (Inr (Some c), n')"
  shows "bc_cmd (command_base c) = class_name c" "json_at ''cmd'' j = Some (JStr (class_name c))"
    "class_name c \<noteq> ''done''"
proof -
  obtain s where s: "json_at ''cmd'' j = Some (JStr s)" and d: "fst (factory_dispatch num s j n) = Some c"
    using assms by (auto simp: factory_parse_def split: option.splits prod.splits elim!: dec_str.elims)
  then show "bc_cmd (command_base c) = class_name c" "json_at ''cmd'' j = Some (JStr (class_name c))"
    "class_name c \<noteq> ''done''"
    using class_ok_dispatch [OF s, of num n] by (auto simp: class_ok_def)
qed

text \<open>
  C28: what the factory returns has the class its name stands for, so the \<^verbatim>\<open>static_cast\<close> that
  \<^verbatim>\<open>handleMessage\<close> chooses by that name is to the object's own class.
\<close>

theorem factory_parse_class:
  assumes "factory_parse num j n = (Inr (Some c), n')"
  shows "bc_cmd (command_base c) = class_name c \<and> json_at ''cmd'' j = Some (JStr (class_name c)) \<and>
    class_name c \<noteq> ''done''"
  using parsed_class [OF assms] by blast

theorem factory_parse_class_witness:
  "\<exists>c. factory_parse strict_num (JObj [(''cmd'', JStr ''cam_get_log'')]) 1 = (Inr (Some c), 2) \<and>
     class_name c = ''cam_get_log''"
proof -
  obtain c where c: "factory_parse strict_num (JObj [(''cmd'', JStr ''cam_get_log'')]) 1 = (Inr (Some c), 2)"
    by (simp add: factory_parse_def)
  then show ?thesis using factory_parse_class [OF c] by simp
qed

text \<open>Replies.\<close>

definition reply_ok :: "string \<Rightarrow> (int \<Rightarrow> command) option \<Rightarrow> bool" where
  "reply_ok s r \<longleftrightarrow> (\<forall>mk i. r = Some mk \<longrightarrow>
     command_base (mk i) = (base_command_default i)\<lparr>bc_cmd := if s = ''cam_register'' then ''register'' else s\<rparr>)"

lemma reply_ok_if: "(b \<Longrightarrow> reply_ok s x) \<Longrightarrow> reply_ok s y \<Longrightarrow> reply_ok s (if b then x else y)"
  by simp

lemmas command_defaults =
  register_cmd_default_def cam_register_default_def hello_default_def configure_default_def
  get_cam_status_default_def get_supported_streams_default_def supported_streams_default_def
  cam_hello_default_def stream_start_default_def stream_stop_default_def
  cam_update_preview_default_def cam_upgrade_firmware_default_def get_audio_detection_default_def
  set_audio_detection_default_def audio_detection_conf_default_def get_cam_audio_conf_default_def
  get_cam_events_default_def set_cam_events_default_def cam_events_conf_default_def
  cam_event_default_def get_cam_video_conf_default_def cam_video_conf_default_def
  direct_upload_url_default_def get_direct_upload_url_default_def get_motion_detection_default_def
  motion_detection_conf_default_def get_stream_by_event_default_def stream_by_event_conf_default_def
  set_stream_by_event_default_def get_stream_caps_default_def stream_caps_cmd_default_def
  get_stream_config_default_def stream_config_cmd_default_def set_cam_audio_conf_default_def
  cam_audio_conf_default_def set_cam_video_conf_default_def set_motion_detection_default_def
  set_stream_config_default_def get_ptz_conf_default_def cam_ptz_conf_default_def
  cam_ptz_default_def cam_ptz_preset_default_def cam_ptz_preset_created_default_def
  raw_message_default_def raw_message_client_connected_default_def
  raw_message_client_disconnected_default_def cam_get_log_default_def get_osd_conf_default_def
  osd_conf_default_def set_osd_conf_default_def set_cam_parameter_default_def
  cam_trigger_event_default_def backward_start_default_def backward_stop_default_def
  cam_set_current_wifi_default_def cam_list_wifi_default_def cam_wifi_list_default_def
  bye_default_def report_problem_default_def cam_status_default_def audio_file_play_default_def
  get_cam_memorycard_timeline_default_def cam_memorycard_timeline_default_def
  cam_memorycard_synchronize_default_def cam_memorycard_synchronize_status_default_def
  cam_memorycard_synchronize_cancel_default_def cam_memorycard_recording_default_def

lemma reply_ok_class: "reply_ok s (reply_class s)"
  unfolding reply_class_def
  by (intro reply_ok_if) (simp_all add: reply_ok_def command_defaults base_command_default_def base_command.defs)

lemma command_base_addressed: "command_base (command_addressed orig c) = addressed orig (command_base c)"
  by (cases c) (simp_all add: addressed_def base_command.defs)

text \<open>
  a reply is addressed to the camera and the message it answers, has a fresh id and the name asked
  for; asked for \<^verbatim>\<open>cam_register\<close>, the factory makes a \<^verbatim>\<open>register\<close> command.
\<close>

theorem factory_reply_addressed:
  assumes "factory_reply orig cmd n = (Some c, n')"
  shows "command_base c = \<lparr>bc_cmd = (if cmd = ''cam_register'' then ''register'' else cmd),
     bc_msgid = fst (fresh_id n), bc_cam_id = bc_cam_id orig, bc_refid = bc_msgid orig, bc_orig_cmd = bc_cmd orig\<rparr>"
proof -
  obtain mk where mk: "reply_class cmd = Some mk" "c = command_addressed orig (mk (fst (fresh_id n)))"
    using assms by (auto simp: factory_reply_def split: if_splits option.splits)
  show ?thesis
    using reply_ok_class [of cmd] mk
    by (simp add: reply_ok_def command_base_addressed addressed_def base_command_default_def)
qed

theorem factory_reply_addressed_witness:
  "\<exists>c n'. factory_reply \<lparr>bc_cmd = ''get_osd_conf'', bc_msgid = 12, bc_cam_id = 5, bc_refid = UnsetInt,
       bc_orig_cmd = unset_string\<rparr> ''osd_conf'' 1 = (Some c, n') \<and>
     bc_cmd (command_base c) = ''osd_conf'' \<and> bc_refid (command_base c) = 12"
proof -
  obtain c n' where c: "factory_reply \<lparr>bc_cmd = ''get_osd_conf'', bc_msgid = 12, bc_cam_id = 5,
      bc_refid = UnsetInt, bc_orig_cmd = unset_string\<rparr> ''osd_conf'' 1 = (Some c, n')"
    by (simp add: factory_reply_def reply_class_def unset_string_def)
  then show ?thesis using factory_reply_addressed [OF c] by simp
qed

lemma ucast_of_nat_32: "(ucast (of_nat m :: 64 word) :: 32 word) = of_nat m"
  by (simp add: unsigned_of_nat word_of_nat_eq_iff take_bit_take_bit)

lemma fst_fresh_id: "fst (fresh_id (of_nat m)) = sint (of_nat (m + 1) :: 32 word)"
proof -
  have "(of_nat m + 1 :: 64 word) = of_nat (m + 1)" by simp
  then show ?thesis by (simp only: fresh_id_def Let_def fst_conv ucast_of_nat_32)
qed

lemma fresh_id_unset: "fst (fresh_id (of_nat m)) = UnsetInt \<longleftrightarrow> m mod 2 ^ 32 = 2 ^ 31 - 1"
proof -
  have "UnsetInt = sint (of_nat (2 ^ 31) :: 32 word)" by (simp add: UnsetInt_def)
  then have "fst (fresh_id (of_nat m)) = UnsetInt \<longleftrightarrow> (of_nat (m + 1) :: 32 word) = of_nat (2 ^ 31)"
    unfolding fst_fresh_id by (metis signed_word_eqI)
  also have "\<dots> \<longleftrightarrow> (m + 1) mod 2 ^ 32 = 2 ^ 31"
    unfolding word_of_nat_eq_iff take_bit_eq_mod by simp
  also have "\<dots> \<longleftrightarrow> m mod 2 ^ 32 = 2 ^ 31 - 1" by (simp add: mod_Suc)
  finally show ?thesis .
qed
text \<open>
  message ids are distinct for as long as an \<open>int\<close> allows: two of any \<open>2\<^sup>3\<^sup>2\<close> successive commands have
  different ids.
\<close>

theorem fresh_id_distinct:
  assumes "i < j" "j < i + 2 ^ 32"
  shows "fst (fresh_id (n + of_nat i)) \<noteq> fst (fresh_id (n + of_nat j))"
proof
  have n: "n + of_nat k = of_nat (unat n + k)" for k by simp
  assume "fst (fresh_id (n + of_nat i)) = fst (fresh_id (n + of_nat j))"
  then have "(of_nat (unat n + i + 1) :: 32 word) = of_nat (unat n + j + 1)"
    unfolding n fst_fresh_id by (simp only: signed_word_eqI)
  then have "(unat n + i + 1) mod 2 ^ 32 = (unat n + j + 1) mod 2 ^ 32"
    by (simp only: word_of_nat_eq_iff take_bit_eq_mod) simp
  then have "2 ^ 32 dvd (unat n + j + 1) - (unat n + i + 1)"
    using assms(1) by (intro mod_eq_dvd_iff_nat [THEN iffD1]) auto
  with assms show False by (auto dest: dvd_imp_le)
qed

theorem fresh_id_distinct_witness: "fst (fresh_id (1 + of_nat 0)) \<noteq> fst (fresh_id (1 + of_nat 5))"
  using fresh_id_distinct [of 0 5 1] by simp

end
