(* ===== verification/Uri.thy ===== *)
theory Uri
  imports Vxg_Prelude
begin

text \<open>
  \<^verbatim>\<open>Uri::Parse\<close> of \<^verbatim>\<open>src/src/cloud/Uri.h\<close>. Iterators are positions of the string; a range whose end is
  before its start, which the standard algorithms and constructors must not be given, is an error.
\<close>

section \<open>The parser\<close>

record uri =
  QueryString :: string
  Path :: string
  Protocol :: string
  Host :: string
  Port :: string

definition empty_uri :: uri where
  "empty_uri = \<lparr>QueryString = [], Path = [], Protocol = [], Host = [], Port = []\<rparr>"

datatype uri_error = Reversed_Range

text \<open>\<open>std::find(a, b, c)\<close> and \<open>std::string(a, b)\<close>\<close>

definition find_in :: "string \<Rightarrow> nat \<Rightarrow> nat \<Rightarrow> char \<Rightarrow> nat" where
  "find_in s a b c = a + length (takeWhile (\<lambda>x. x \<noteq> c) (take (b - a) (drop a s)))"

definition slice :: "string \<Rightarrow> nat \<Rightarrow> nat \<Rightarrow> string" where
  "slice s a b = take (b - a) (drop a s)"

definition c_string :: "string \<Rightarrow> string" where
  "c_string s = takeWhile (\<lambda>x. x \<noteq> CHR 0x00) s"

text \<open>The protocol and the position behind it.\<close>

definition uri_protocol :: "string \<Rightarrow> string \<times> nat" where
  "uri_protocol u =
     (let protocolEnd = find_in u 0 (length u) (CHR '':'') in
      if protocolEnd \<noteq> length u then
        (let prot = c_string (drop protocolEnd u) in
         if length prot > 3 \<and> take 3 prot = ''://'' then (slice u 0 protocolEnd, protocolEnd + 3) else ([], 0))
      else ([], 0))"

definition uri_parse :: "string \<Rightarrow> uri_error + uri" where
  "uri_parse u =
     (if u = [] then Inr empty_uri else
      let uriEnd = length u;
          queryStart = find_in u 0 uriEnd (CHR ''?'');
          protocolEnd = snd (uri_protocol u);
          hostStart = protocolEnd;
          pathStart = find_in u hostStart uriEnd (CHR ''/'');
          portEnd = (if pathStart \<noteq> uriEnd then pathStart else queryStart);
          hostEnd = find_in u protocolEnd portEnd (CHR '':'')
      in if portEnd < protocolEnd \<or> pathStart \<noteq> uriEnd \<and> queryStart < pathStart then Inl Reversed_Range
         else Inr \<lparr>QueryString = (if queryStart \<noteq> uriEnd then slice u queryStart uriEnd else []),
                   Path = (if pathStart \<noteq> uriEnd then slice u pathStart queryStart else []),
                   Protocol = fst (uri_protocol u),
                   Host = slice u hostStart hostEnd,
                   Port = (if hostEnd \<noteq> uriEnd \<and> u ! hostEnd = CHR '':'' then slice u (hostEnd + 1) portEnd
                           else [])\<rparr>)"

section \<open>Parsing what is well formed\<close>

definition uri_print :: "uri \<Rightarrow> string" where
  "uri_print r = Protocol r @ ''://'' @ Host r @ (if Port r = [] then [] else CHR '':'' # Port r) @ Path r @ QueryString r"

definition plain :: "string \<Rightarrow> bool" where
  "plain s \<longleftrightarrow> set s \<inter> {CHR ''/'', CHR ''?'', CHR '':''} = {}"

definition uri_wf :: "uri \<Rightarrow> bool" where
  "uri_wf r \<longleftrightarrow> plain (Protocol r) \<and> plain (Host r) \<and> plain (Port r) \<and> Host r \<noteq> [] \<and> hd (Host r) \<noteq> CHR 0x00 \<and>
     (Path r = [] \<or> hd (Path r) = CHR ''/'') \<and> CHR ''?'' \<notin> set (Path r) \<and>
     (QueryString r = [] \<or> hd (QueryString r) = CHR ''?'') \<and>
     (Path r = [] \<longrightarrow> CHR ''/'' \<notin> set (QueryString r))"

lemma find_in_append:
  assumes "a = length p" "c \<notin> set m" "b = length p + length m + k" "k \<le> length z"
    "k = 0 \<or> hd z = c"
  shows "find_in (p @ m @ z) a b c = length p + length m"
proof -
  have "take (b - a) (drop a (p @ m @ z)) = m @ take k z" using assms by simp
  moreover have "takeWhile (\<lambda>x. x \<noteq> c) (m @ take k z) = m"
    using assms by (cases z; cases k) (auto simp: takeWhile_append)
  ultimately show ?thesis using assms(1) by (simp add: find_in_def)
qed

lemma slice_append [simp]: "a = length p \<Longrightarrow> b = length p + length m \<Longrightarrow> slice (p @ m @ z) a b = m"
  by (simp add: slice_def)

lemma uri_protocol_print:
  assumes "uri_wf r"
  shows "uri_protocol (uri_print r) = (Protocol r, length (Protocol r) + 3)"
proof -
  let ?rest = "Host r @ (if Port r = [] then [] else CHR '':'' # Port r) @ Path r @ QueryString r"
  have "find_in ([] @ Protocol r @ CHR '':'' # ''//'' @ ?rest) 0 (length (uri_print r)) (CHR '':'') =
      length ([]::string) + length (Protocol r)"
    using assms by (intro find_in_append [where k = "length (''://'' @ ?rest)"])
      (auto simp: uri_wf_def plain_def uri_print_def)
  then have e: "find_in (uri_print r) 0 (length (uri_print r)) (CHR '':'') = length (Protocol r)"
    by (simp add: uri_print_def)
  obtain x xs where h: "Host r = x # xs" "x \<noteq> CHR 0x00" using assms by (cases "Host r") (auto simp: uri_wf_def)
  have "slice (uri_print r) 0 (length (Protocol r)) = Protocol r"
    by (simp add: slice_def uri_print_def)
  then show ?thesis using e h by (simp add: uri_protocol_def Let_def c_string_def uri_print_def)
qed

lemma uri_positions:
  assumes wf: "uri_wf r"
  defines "u \<equiv> uri_print r" and "p \<equiv> Protocol r @ ''://''"
    and "hp \<equiv> Host r @ (if Port r = [] then [] else CHR '':'' # Port r)"
  shows "find_in u 0 (length u) (CHR ''?'') = length (p @ hp @ Path r)"
    "find_in u (length p) (length u) (CHR ''/'') = (if Path r = [] then length u else length (p @ hp))"
    "find_in u (length p) (length (p @ hp)) (CHR '':'') = length (p @ Host r)"
proof -
  have "find_in ([] @ (p @ hp @ Path r) @ QueryString r) 0 (length u) (CHR ''?'') =
      length ([]::string) + length (p @ hp @ Path r)"
    using wf by (intro find_in_append [where k = "length (QueryString r)"])
      (auto simp: uri_wf_def plain_def u_def uri_print_def p_def hp_def)
  then show "find_in u 0 (length u) (CHR ''?'') = length (p @ hp @ Path r)"
    by (simp add: u_def uri_print_def p_def hp_def)
  show "find_in u (length p) (length u) (CHR ''/'') = (if Path r = [] then length u else length (p @ hp))"
  proof (cases "Path r = []")
    case True
    have "find_in (p @ (hp @ QueryString r) @ []) (length p) (length u) (CHR ''/'') =
        length p + length (hp @ QueryString r)"
      using wf True by (intro find_in_append [where k = 0])
        (auto simp: uri_wf_def plain_def u_def uri_print_def p_def hp_def)
    with True show ?thesis by (simp add: u_def uri_print_def p_def hp_def)
  next
    case False
    have "find_in (p @ hp @ (Path r @ QueryString r)) (length p) (length u) (CHR ''/'') = length p + length hp"
      using wf False by (intro find_in_append [where k = "length (Path r @ QueryString r)"])
        (auto simp: uri_wf_def plain_def u_def uri_print_def p_def hp_def)
    with False show ?thesis by (simp add: u_def uri_print_def p_def hp_def)
  qed
  have "find_in (p @ Host r @ (drop (length (Host r)) hp @ Path r @ QueryString r)) (length p) (length (p @ hp))
      (CHR '':'') = length p + length (Host r)"
    using wf by (intro find_in_append [where k = "length hp - length (Host r)"])
      (auto simp: uri_wf_def plain_def hp_def)
  then show "find_in u (length p) (length (p @ hp)) (CHR '':'') = length (p @ Host r)"
    by (simp add: u_def uri_print_def p_def hp_def split: if_splits)
qed

text \<open>Parsing the text of a well-formed URI gives back its parts.\<close>

lemma uri_roundtrip:
  assumes "uri_wf r"
  shows "uri_parse (uri_print r) = Inr r"
proof -
  let ?u = "uri_print r" and ?p = "Protocol r @ ''://''"
    and ?hp = "Host r @ (if Port r = [] then [] else CHR '':'' # Port r)"
  note pos = uri_positions [OF assms]
  have u: "?u = ?p @ ?hp @ Path r @ QueryString r" by (simp add: uri_print_def)
  have ne: "?u \<noteq> []" by (simp add: uri_print_def)
  have pe: "snd (uri_protocol ?u) = length ?p" "fst (uri_protocol ?u) = Protocol r"
    using uri_protocol_print [OF assms] by simp_all
  have port: "(if length (?p @ Host r) \<noteq> length ?u \<and> ?u ! length (?p @ Host r) = CHR '':''
      then slice ?u (length (?p @ Host r) + 1) (length (?p @ ?hp)) else []) = Port r"
  proof (cases "Port r = []")
    case True
    have "?u = (?p @ Host r) @ Path r @ QueryString r" using True by (simp add: uri_print_def)
    then have "?u ! length (?p @ Host r) = (Path r @ QueryString r) ! 0" by (simp only: nth_append_length_plus [of _ _ 0, simplified])
    moreover have "Path r @ QueryString r \<noteq> [] \<Longrightarrow> (Path r @ QueryString r) ! 0 \<noteq> CHR '':''"
      using assms by (cases "Path r"; cases "QueryString r") (auto simp: uri_wf_def)
    ultimately show ?thesis using True by (auto simp: uri_print_def)
  next
    case False
    then have v: "?u = (?p @ Host r @ '':'') @ Port r @ Path r @ QueryString r" by (simp add: uri_print_def)
    have "slice ?u (length (?p @ Host r) + 1) (length (?p @ ?hp)) = Port r"
      unfolding v by (rule slice_append) (use False in simp_all)
    then show ?thesis using False by (simp add: uri_print_def nth_append)
  qed
  have host: "slice ?u (length ?p) (length (?p @ Host r)) = Host r"
    unfolding u append_assoc [of "Host r"] by (rule slice_append) simp_all
  have path: "slice ?u (length (?p @ ?hp)) (length (?p @ ?hp @ Path r)) = Path r"
    unfolding u append_assoc [of ?p ?hp, symmetric] by (rule slice_append) simp_all
  have "?u = (?p @ ?hp @ Path r) @ QueryString r @ []" by (simp add: u)
  then have query: "slice ?u (length (?p @ ?hp @ Path r)) (length ?u) = QueryString r"
    by (metis slice_append length_append append_Nil2)
  show ?thesis
  proof (cases "Path r = []")
    case True
    then have q: "find_in ?u 0 (length ?u) (CHR ''?'') = length (?p @ ?hp)" using pos(1) by simp
    have s: "find_in ?u (length ?p) (length ?u) (CHR ''/'') = length ?u" using pos(2) True by simp
    show ?thesis
      unfolding uri_parse_def Let_def pe q s using ne pos(3) host port query True
      by (auto simp: uri_print_def)
  next
    case False
    then have s: "find_in ?u (length ?p) (length ?u) (CHR ''/'') = length (?p @ ?hp)" using pos(2) by simp
    have l: "length (?p @ ?hp) \<noteq> length ?u" using False by (simp add: u)
    show ?thesis
      unfolding uri_parse_def Let_def pe pos(1) s using ne pos(3) host port path query False l
      by (auto simp: u)
  qed
qed

text \<open>A query that contains a slash where there is no path: the range of the path is reversed.\<close>

lemma uri_slash_in_query:
  assumes "plain p" "plain h" "h \<noteq> []" "hd h \<noteq> CHR 0x00" "CHR ''/'' \<in> set q"
  shows "uri_parse (p @ ''://'' @ h @ ''?'' @ q) = Inl Reversed_Range"
proof -
  let ?u = "p @ ''://'' @ h @ ''?'' @ q"
  obtain q1 q2 where q: "q = q1 @ CHR ''/'' # q2" "CHR ''/'' \<notin> set q1"
    using split_list_first [OF assms(5)] by blast
  have "find_in ([] @ p @ (''://'' @ h @ ''?'' @ q)) 0 (length ?u) (CHR '':'') = length ([]::string) + length p"
    using assms by (intro find_in_append [where k = "length (''://'' @ h @ ''?'' @ q)"]) (auto simp: plain_def)
  then have e: "find_in ?u 0 (length ?u) (CHR '':'') = length p" by simp
  obtain x xs where h: "h = x # xs" "x \<noteq> CHR 0x00" using assms(3,4) by (cases h) auto
  have pe: "snd (uri_protocol ?u) = length (p @ ''://'')"
    unfolding uri_protocol_def e using h by (simp add: Let_def c_string_def)
  have "find_in ([] @ (p @ ''://'' @ h) @ (''?'' @ q)) 0 (length ?u) (CHR ''?'') =
      length ([]::string) + length (p @ ''://'' @ h)"
    using assms by (intro find_in_append [where k = "length (''?'' @ q)"]) (auto simp: plain_def)
  then have qs: "find_in ?u 0 (length ?u) (CHR ''?'') = length (p @ ''://'' @ h)" by simp
  have "find_in ((p @ ''://'') @ (h @ ''?'' @ q1) @ (CHR ''/'' # q2)) (length (p @ ''://'')) (length ?u) (CHR ''/'') =
      length (p @ ''://'') + length (h @ ''?'' @ q1)"
    using assms(2) q by (intro find_in_append [where k = "length (CHR ''/'' # q2)"]) (auto simp: plain_def)
  then have ps: "find_in ?u (length (p @ ''://'')) (length ?u) (CHR ''/'') = length (p @ ''://'' @ h @ ''?'' @ q1)"
    by (simp add: q)
  show ?thesis unfolding uri_parse_def Let_def pe qs ps by (simp add: q)
qed

end
