(* ===== verification/Manager_Config.thy ===== *)
theory Manager_Config
  imports Proto_Events Uri "HOL-Library.Monad_Syntax"
begin

text \<open>
  \<^verbatim>\<open>manager_config\<close> of \<^verbatim>\<open>src/src/agent/manager-config.h\<close>, the settings of the agent's connection, with
  the profile of \<^verbatim>\<open>src/src/utils/profile.h\<close> it starts from and the registration token of
  \<^verbatim>\<open>src/src/cloud/CloudRegToken.h\<close>.
\<close>

section \<open>The profile\<close>

text \<open>
  \<open>debug_stats\<close> without the time of its construction. Its upload counters are unsigned and wrap around at
  zero; the speeds are doubles computed elsewhere.
\<close>

record debug_stats =
  motion_events :: int
  records_uploaded :: int
  records_upload_failed :: int
  records_uploading :: nat
  records_upload_queued :: int
  records_last_upload_speed_KBps :: double
  snapshots_uploading :: nat
  snapshots_upload_failed :: int
  snapshots_uploaded :: int
  snapshots_capture_failed :: int
  snapshot_last_upload_speed_KBps :: double
  file_meta_uploading :: nat
  file_meta_upload_failed :: int
  file_meta_uploaded :: int
  file_meta_capture_failed :: int
  file_meta_last_upload_speed_KBps :: double
  cloud_reconnects :: int
  uptime :: nat
  ram_usage_overall_percents :: nat
  ram_usage_agent_percents :: nat
  cpu_usage_overall_percents :: nat
  cpu_usage_agent_percents :: nat

definition debug_stats_default :: debug_stats where
  "debug_stats_default =
     \<lparr>motion_events = 0, records_uploaded = 0, records_upload_failed = 0, records_uploading = 0,
      records_upload_queued = 0, records_last_upload_speed_KBps = 0, snapshots_uploading = 0,
      snapshots_upload_failed = 0, snapshots_uploaded = 0, snapshots_capture_failed = 0,
      snapshot_last_upload_speed_KBps = 0, file_meta_uploading = 0, file_meta_upload_failed = 0,
      file_meta_uploaded = 0, file_meta_capture_failed = 0, file_meta_last_upload_speed_KBps = 0,
      cloud_reconnects = 0, uptime = 0, ram_usage_overall_percents = 0, ram_usage_agent_percents = 0,
      cpu_usage_overall_percents = 0, cpu_usage_agent_percents = 0\<rparr>"

text \<open>\<open>--\<close> on a \<open>size_t\<close>\<close>

definition dec_size :: "nat \<Rightarrow> nat" where
  "dec_size n = (if n = 0 then 2 ^ 64 - 1 else n - 1)"

text \<open>The reflected members in the order of the macro; a counter at the unset value of its type is left out.\<close>

definition stat_int :: "string \<Rightarrow> int \<Rightarrow> json \<Rightarrow> json" where
  "stat_int k v j = (if v = UnsetInt then j else json_set k (JInt v) j)"

definition stat_size :: "string \<Rightarrow> nat \<Rightarrow> json \<Rightarrow> json" where
  "stat_size k v j = json_set k (JInt (int v)) j"

definition stat_double :: "string \<Rightarrow> double \<Rightarrow> json \<Rightarrow> json" where
  "stat_double k v j = (if v = UnsetDouble then j else json_set k (JFloat v) j)"

definition debug_stats_to_json :: "debug_stats \<Rightarrow> json" where
  "debug_stats_to_json s =
     fold (\<lambda>f j. f j)
       [stat_int ''motion_events'' (motion_events s), stat_int ''snapshots_uploaded'' (snapshots_uploaded s),
        stat_int ''snapshots_capture_failed'' (snapshots_capture_failed s),
        stat_int ''records_uploaded'' (records_uploaded s),
        stat_int ''snapshots_upload_failed'' (snapshots_upload_failed s),
        stat_int ''records_upload_failed'' (records_upload_failed s),
        stat_int ''records_upload_queued'' (records_upload_queued s),
        stat_size ''records_uploading'' (records_uploading s),
        stat_size ''snapshots_uploading'' (snapshots_uploading s),
        stat_double ''records_last_upload_speed_KBps'' (records_last_upload_speed_KBps s),
        stat_double ''snapshot_last_upload_speed_KBps'' (snapshot_last_upload_speed_KBps s),
        stat_size ''file_meta_uploading'' (file_meta_uploading s),
        stat_int ''file_meta_upload_failed'' (file_meta_upload_failed s),
        stat_int ''file_meta_uploaded'' (file_meta_uploaded s),
        stat_int ''file_meta_capture_failed'' (file_meta_capture_failed s),
        stat_double ''file_meta_last_upload_speed_KBps'' (file_meta_last_upload_speed_KBps s),
        stat_int ''cloud_reconnects'' (cloud_reconnects s), stat_size ''uptime'' (uptime s),
        stat_size ''ram_usage_overall_percents'' (ram_usage_overall_percents s),
        stat_size ''ram_usage_agent_percents'' (ram_usage_agent_percents s),
        stat_size ''cpu_usage_overall_percents'' (cpu_usage_overall_percents s),
        stat_size ''cpu_usage_agent_percents'' (cpu_usage_agent_percents s)] JNull"

record profile =
  pf_device_vendor :: string
  pf_device_model :: string
  pf_device_serial :: string
  pf_device_fw_version :: string
  pf_device_type :: string
  pf_agent_version :: string
  pf_raw_messaging :: bool
  pf_insecure_cloud_channel :: bool
  pf_allow_invalid_ssl_certs :: bool
  pf_default_snapshot_width :: int
  pf_default_snapshot_height :: int
  pf_attach_qos_report_to_motion :: bool
  pf_send_qos_report_as_separate_event :: bool
  pf_send_qos_report_period_sec :: nat
  pf_record_by_event_upload_step :: duration
  pf_max_upload_speed :: nat
  pf_max_concurent_video_uploads :: nat
  pf_max_video_uploads_queue_lateness :: duration
  pf_max_concurent_snapshot_uploads :: nat
  pf_max_concurent_file_meta_uploads :: nat
  pf_default_pre_record_time :: duration
  pf_default_post_record_time :: duration
  pf_continuation_kick_snapshot :: bool
  pf_max_memorycard_sync_request_duration :: duration
  pf_delay_between_event_and_records_upload_start :: duration
  pf_cm_registration_sid :: string
  pf_device_ipaddr :: string

definition profile_default :: profile where
  "profile_default =
     \<lparr>pf_device_vendor = ''noname'', pf_device_model = ''nomodel'', pf_device_serial = ''noserial'',
      pf_device_fw_version = ''noversion'', pf_device_type = ''notype'', pf_agent_version = ''noversion'',
      pf_raw_messaging = False, pf_insecure_cloud_channel = True, pf_allow_invalid_ssl_certs = False,
      pf_default_snapshot_width = 800, pf_default_snapshot_height = 600, pf_attach_qos_report_to_motion = False,
      pf_send_qos_report_as_separate_event = False, pf_send_qos_report_period_sec = 600,
      pf_record_by_event_upload_step = seconds 15, pf_max_upload_speed = 0, pf_max_concurent_video_uploads = 2,
      pf_max_video_uploads_queue_lateness = seconds 1800, pf_max_concurent_snapshot_uploads = 4,
      pf_max_concurent_file_meta_uploads = 6, pf_default_pre_record_time = seconds 10,
      pf_default_post_record_time = seconds 10, pf_continuation_kick_snapshot = True,
      pf_max_memorycard_sync_request_duration = seconds 60,
      pf_delay_between_event_and_records_upload_start = seconds 60,
      pf_cm_registration_sid = [], pf_device_ipaddr = ''127.0.0.1''\<rparr>"

section \<open>The registration token\<close>

record CloudRegToken =
  mToken :: string
  mExpire :: string
  mType :: string
  mStatus :: string
  mRtmpPublish :: string
  mCmngrID :: int

definition CloudRegToken_empty :: CloudRegToken where
  "CloudRegToken_empty = \<lparr>mToken = [], mExpire = [], mType = [], mStatus = [], mRtmpPublish = [], mCmngrID = 0\<rparr>"

definition reg_isEmpty :: "CloudRegToken \<Rightarrow> bool" where
  "reg_isEmpty t \<longleftrightarrow> mToken t = []"

text \<open>
  The constructor from JSON: a member that is there with another type throws (\<open>None\<close>). \<open>mCmngrID\<close> is
  not initialised on this path; \<open>junk\<close> is what is there.
\<close>

definition opt_member :: "(json \<Rightarrow> 'a option) \<Rightarrow> string \<Rightarrow> json \<Rightarrow> 'a \<Rightarrow> 'a option" where
  "opt_member dec k j old = (case json_at k j of None \<Rightarrow> Some old | Some x \<Rightarrow> dec x)"

definition CloudRegToken_of_json :: "json_num \<Rightarrow> int \<Rightarrow> json \<Rightarrow> CloudRegToken option" where
  "CloudRegToken_of_json num junk j =
     do {
       tok \<leftarrow> opt_member dec_str ''token'' j [];
       ex \<leftarrow> opt_member dec_str ''expire'' j [];
       cid \<leftarrow> opt_member (as_int64 num) ''cmngr_id'' j junk;
       st \<leftarrow> opt_member dec_str ''status'' j [];
       rtmp \<leftarrow> opt_member dec_str ''rtmp'' j [];
       Some \<lparr>mToken = tok, mExpire = ex, mType = [], mStatus = st, mRtmpPublish = rtmp, mCmngrID = cid\<rparr>
     }"

section \<open>The connection settings\<close>

record manager_config =
  upload_url :: string
  media_server :: string
  cam_path :: string
  mc_ca :: string
  mc_sid :: string
  mc_pwd :: string
  mc_uuid :: string
  conn_id :: string
  mc_cam_id :: int
  reg_token :: CloudRegToken
  backward_url :: string
  mc_activity :: bool
  mc_streaming :: bool
  mc_status_led :: bool
  device_ipaddr :: string
  agent_version :: string
  device_brand :: string
  device_model :: string
  device_serial :: string
  device_fw_version :: string
  mc_timezone :: string
  device_vendor :: string
  device_type :: string
  proxy_socks5_uri :: string
  proxy_socks4_uri :: string
  mc_protocol :: string
  default_server_address :: string
  server_address :: string
  reconnect_server_address :: string
  mc_port :: int
  ssl_disabled :: bool
  mc_access_token :: access_token

text \<open>Protocol and port go together.\<close>

definition set_channel :: "bool \<Rightarrow> manager_config \<Rightarrow> manager_config" where
  "set_channel insecure c =
     (if \<not> insecure then c\<lparr>mc_protocol := ''wss://'', mc_port := 8883\<rparr>
      else c\<lparr>mc_protocol := ''ws://'', mc_port := 8888\<rparr>)"

definition manager_config_new :: "profile \<Rightarrow> manager_config" where
  "manager_config_new p =
     set_channel (pf_insecure_cloud_channel p)
     \<lparr>upload_url = [], media_server = [], cam_path = [], mc_ca = [], mc_sid = [], mc_pwd = [], mc_uuid = [],
      conn_id = [], mc_cam_id = 0, reg_token = CloudRegToken_empty, backward_url = [], mc_activity = False,
      mc_streaming = False, mc_status_led = False, device_ipaddr = pf_device_ipaddr p,
      agent_version = pf_agent_version p, device_brand = pf_device_vendor p, device_model = pf_device_model p,
      device_serial = pf_device_serial p, device_fw_version = pf_device_fw_version p, mc_timezone = ''UTC'',
      device_vendor = pf_device_vendor p, device_type = pf_device_type p, proxy_socks5_uri = [],
      proxy_socks4_uri = [], mc_protocol = ''ws://'',
      default_server_address = ''cam.skyvr.videoexpertsgroup.com'',
      server_address = ''cam.skyvr.videoexpertsgroup.com'', reconnect_server_address = [], mc_port = 8888,
      ssl_disabled = pf_insecure_cloud_channel p, mc_access_token = access_token_default\<rparr>"

definition set_cm_address :: "string \<Rightarrow> manager_config \<Rightarrow> manager_config" where
  "set_cm_address url c =
     (let c = set_channel (ssl_disabled c) c
      in if url = [] then c\<lparr>server_address := default_server_address c\<rparr> else c\<lparr>server_address := url\<rparr>)"

definition set_reconnect_address :: "string \<Rightarrow> manager_config \<Rightarrow> manager_config" where
  "set_reconnect_address v c = c\<lparr>reconnect_server_address := v\<rparr>"

definition get_address :: "manager_config \<Rightarrow> string" where
  "get_address c =
     (let address = (if reconnect_server_address c = [] then server_address c else reconnect_server_address c);
          noPort = (string_find address '':'' 0 = None);
          port = (if noPort then '':'' @ int_string (mc_port c) else [])
      in if \<not> reg_isEmpty (reg_token c)
         then mc_protocol c @ address @ port @ ''/ctl/NEW/'' @ mToken (reg_token c) @ ''/''
         else if conn_id c \<noteq> [] then mc_protocol c @ address @ port @ ''/ctl/'' @ conn_id c @ ''/''
         else [])"

datatype url_type = UT_UNKNOWN | UT_UPLOAD_RECORD | UT_UPLOAD_PREVIEW | UT_UPLOAD_TEXT | UT_STREAM_LIVE
  | UT_STREAM_BACKWARD

text \<open>\<open>std::string::rfind\<close>: the last occurrence.\<close>

definition string_rfind :: "string \<Rightarrow> string \<Rightarrow> nat option" where
  "string_rfind s pat =
     (let is = filter (\<lambda>i. take (length pat) (drop i s) = pat) [0..<Suc (length s)]
      in if is = [] then None else Some (last is))"

definition buildUrl :: "string \<Rightarrow> url_type \<Rightarrow> string \<Rightarrow> string \<Rightarrow> manager_config \<Rightarrow> string" where
  "buildUrl now t stream_name publish_session_id c =
     (let rtmp_proto = (if string_rfind (media_server c) ''rtmp'' = Some 0 then []
                        else if ssl_disabled c then ''rtmp://'' else ''rtmps://'')
      in case t of
           UT_STREAM_LIVE \<Rightarrow>
             rtmp_proto @ media_server c @ ''/'' @ cam_path c @ stream_name @ ''?sid='' @ mc_sid c @
             (if publish_session_id \<noteq> [] then ''&psid='' @ publish_session_id else []) @
             (if proxy_socks4_uri c \<noteq> [] then '' socks='' @ proxy_socks4_uri c else [])
         | UT_STREAM_BACKWARD \<Rightarrow> backward_url c
         | UT_UPLOAD_PREVIEW \<Rightarrow>
             upload_url c @ ''/'' @ cam_path c @ ''?sid='' @ mc_sid c @ ''&cat=preview&type=jpg&start='' @ now
         | UT_UPLOAD_TEXT \<Rightarrow>
             upload_url c @ ''/'' @ cam_path c @ ''?sid='' @ mc_sid c @ ''&cat=log&type=txt&start='' @ now
         | _ \<Rightarrow> [])"

section \<open>Properties\<close>

lemma string_find_char: "string_find s [c] 0 = None \<longleftrightarrow> c \<notin> set s"
proof -
  have "find_from s [c] k = None \<longleftrightarrow> c \<notin> set s" for k by (induction s arbitrary: k) auto
  then show ?thesis by (simp add: string_find_def)
qed

lemma default_ports: "int_string 8883 = ''8883''" "int_string 8888 = ''8888''"
  by (simp_all add: int_string_def) (simp_all add: char_of_def bit_Suc_0_iff)

text \<open>
  the address the agent connects to, read back by the URI parser, is the configured server with the
  protocol and the default port of the channel, and the path of the registration token or, without
  one, of the connection id.
\<close>

theorem get_address_uri:
  fixes c :: manager_config
  defines "tok \<equiv> mToken (reg_token c)"
  defines "path \<equiv> (if tok \<noteq> [] then ''/ctl/NEW/'' @ tok @ ''/'' else ''/ctl/'' @ conn_id c @ ''/'')"
  assumes "plain url" "url \<noteq> []" "hd url \<noteq> CHR 0x00" "reconnect_server_address c = []"
    and "tok \<noteq> [] \<or> conn_id c \<noteq> []" "CHR ''?'' \<notin> set path"
  shows "uri_parse (get_address (set_cm_address url c)) =
     Inr \<lparr>QueryString = [], Path = path, Protocol = (if ssl_disabled c then ''ws'' else ''wss''), Host = url,
          Port = (if ssl_disabled c then ''8888'' else ''8883'')\<rparr>"
proof -
  let ?r = "\<lparr>QueryString = [], Path = path, Protocol = (if ssl_disabled c then ''ws'' else ''wss''), Host = url,
    Port = (if ssl_disabled c then ''8888'' else ''8883'')\<rparr>"
  have nc: "string_find url '':'' 0 = None" using assms(3) by (simp add: plain_def string_find_char)
  have a: "get_address (set_cm_address url c) =
      mc_protocol (set_channel (ssl_disabled c) c) @ url @ '':'' @ int_string (mc_port (set_channel (ssl_disabled c) c)) @ path"
    using assms(4,6,7) nc
    by (auto simp: get_address_def set_cm_address_def set_channel_def Let_def path_def tok_def reg_isEmpty_def)
  have "get_address (set_cm_address url c) = uri_print ?r"
    unfolding a by (cases "ssl_disabled c") (simp_all add: set_channel_def default_ports uri_print_def)
  moreover have "uri_wf ?r"
    using assms(3-5,8) by (simp add: uri_wf_def plain_def path_def)
  ultimately show ?thesis using uri_roundtrip [of ?r] by simp
qed

theorem get_address_uri_witness:
  "uri_parse (get_address (set_cm_address ''cam.host'' ((manager_config_new profile_default)\<lparr>conn_id := ''c1''\<rparr>))) =
   Inr \<lparr>QueryString = [], Path = ''/ctl/c1/'', Protocol = ''ws'', Host = ''cam.host'', Port = ''8888''\<rparr>"
  using get_address_uri [of "''cam.host''" "(manager_config_new profile_default)\<lparr>conn_id := ''c1''\<rparr>"]
  by (simp add: manager_config_new_def profile_default_def set_channel_def CloudRegToken_empty_def plain_def)

lemma sorted_last_greatest: "sorted xs \<Longrightarrow> (x::nat) \<in> set xs \<Longrightarrow> x \<le> last xs"
  by (induction xs) auto

lemma rfind_later:
  assumes "take (length pat) (drop i s) = pat" "i \<le> length s" "0 < i"
  shows "string_rfind s pat \<noteq> Some 0"
proof
  let ?is = "filter (\<lambda>i. take (length pat) (drop i s) = pat) [0..<Suc (length s)]"
  assume "string_rfind s pat = Some 0"
  then have l: "?is \<noteq> []" "last ?is = 0" by (simp_all add: string_rfind_def Let_def split: if_splits)
  have "i \<in> set ?is" using assms by (auto simp: le_less)
  moreover have "sorted ?is" by (rule sorted_wrt_filter) (rule sorted_upt)
  ultimately have "i \<le> last ?is" by (simp only: sorted_last_greatest)
  with l assms(3) show False by simp
qed

text \<open>
  a media server given with its \<^verbatim>\<open>rtmp\<close> scheme whose name contains \<^verbatim>\<open>rtmp\<close> once more gets a second
  scheme in front of the first: the test looks at the last occurrence.
\<close>

theorem live_url_double_scheme:
  assumes "media_server c = ''rtmp://'' @ host" "take 4 (drop i host) = ''rtmp''"
  shows "\<exists>r. buildUrl now UT_STREAM_LIVE s ps c =
    (if ssl_disabled c then ''rtmp://'' else ''rtmps://'') @ ''rtmp://'' @ host @ r"
proof -
  have "i < length host" using assms(2) by (cases "i < length host") simp_all
  then have "string_rfind (media_server c) ''rtmp'' \<noteq> Some 0"
    using assms by (intro rfind_later [where i = "length ''rtmp://'' + i"]) (simp_all only: drop_append, simp_all add: numeral_eq_Suc)
  then show ?thesis by (simp add: buildUrl_def Let_def assms(1))
qed

theorem live_url_double_scheme_witness:
  "\<exists>r. buildUrl [] UT_STREAM_LIVE [] [] ((manager_config_new profile_default)\<lparr>media_server := ''rtmp://rtmp.a''\<rparr>) =
    ''rtmp://rtmp://rtmp.a'' @ r"
  using live_url_double_scheme [of "(manager_config_new profile_default)\<lparr>media_server := ''rtmp://rtmp.a''\<rparr>"
    "''rtmp.a''" 0 "[]" "[]" "[]"]
  by (simp add: manager_config_new_def profile_default_def set_channel_def)

end
