(* ===== verification/Websocket.thy ===== *)
theory Websocket
  imports Timers Json_Codec
begin

text \<open>
  \<^verbatim>\<open>websocket\<close> of \<^verbatim>\<open>src/src/net/websockets.cc\<close> over \<^verbatim>\<open>worker\<close> of \<^verbatim>\<open>src/src/net/transport.h\<close>: the queues of
  messages, tasks and connection requests, the callback that libwebsockets calls with its reasons, and
  the thread that handles what was received. Messages are JSON documents, their text is the JSON
  library's. A callback of the client works on the socket and the client's own state \<open>'s\<close>.
\<close>

section \<open>State\<close>

text \<open>
  \<open>run_on_rx_thread\<close> is given a task: draining the received messages, reporting a disconnection, or a
  callback of the client.
\<close>

datatype 'cb rx_task = Drain_Rx | Disconnected | Rx_Call 'cb

record 'cb websocket =
  ws_timers :: "'cb lws_common"
  ws_wsi :: bool
  ws_close :: bool
  ws_ssl :: bool
  ws_tx_q :: "json list"
  ws_rx_q :: "json list"
  ws_rx_tasks :: "'cb rx_task list"
  ws_requests :: "string list"

type_synonym ('cb, 's) ws_client = "'cb websocket \<times> 's"

record ('cb, 's) ws_callbacks =
  connected_cb :: "(('cb, 's) ws_client \<Rightarrow> ('cb, 's) ws_client) option"
  disconnected_cb :: "(('cb, 's) ws_client \<Rightarrow> ('cb, 's) ws_client) option"
  error_cb :: "(string \<Rightarrow> ('cb, 's) ws_client \<Rightarrow> ('cb, 's) ws_client) option"
  message_cb :: "(json \<Rightarrow> ('cb, 's) ws_client \<Rightarrow> ('cb, 's) ws_client) option"
  handle_cb :: "(json \<Rightarrow> ('cb, 's) ws_client \<Rightarrow> ('cb, 's) ws_client) option"
  call_cb :: "'cb \<Rightarrow> ('cb, 's) ws_client \<Rightarrow> ('cb, 's) ws_client"

section \<open>Operations of the client\<close>

definition ws_send :: "json \<Rightarrow> 'cb websocket \<Rightarrow> bool \<times> 'cb websocket" where
  "ws_send m w = (lws_context (ws_timers w) \<and> ws_wsi w, w\<lparr>ws_tx_q := ws_tx_q w @ [m]\<rparr>)"

definition ws_connect :: "string \<Rightarrow> 'cb websocket \<Rightarrow> bool \<times> 'cb websocket" where
  "ws_connect uri w = (True, w\<lparr>ws_requests := ws_requests w @ [uri]\<rparr>)"

definition ws_disconnect :: "'cb websocket \<Rightarrow> bool \<times> 'cb websocket" where
  "ws_disconnect w = (lws_context (ws_timers w) \<and> ws_wsi w, w\<lparr>ws_close := True\<rparr>)"

definition ws_schedule :: "'cb \<Rightarrow> 'cb websocket \<Rightarrow> cb_id option \<times> 'cb websocket" where
  "ws_schedule cb w =
     (case schedule_timed_cb cb (ws_timers w) of (t, l) \<Rightarrow> (t, w\<lparr>ws_timers := l\<rparr>))"

definition ws_cancel :: "cb_id option \<Rightarrow> 'cb websocket \<Rightarrow> 'cb websocket" where
  "ws_cancel t w = w\<lparr>ws_timers := cancel_timed_cb t (ws_timers w)\<rparr>"

definition drain_rx :: "'cb websocket \<Rightarrow> 'cb websocket" where
  "drain_rx w = w\<lparr>ws_rx_tasks := ws_rx_tasks w @ [Drain_Rx]\<rparr>"

definition run_disconnected :: "'cb websocket \<Rightarrow> 'cb websocket" where
  "run_disconnected w = w\<lparr>ws_rx_tasks := ws_rx_tasks w @ [Disconnected]\<rparr>"

definition run_on_rx_thread :: "'cb \<Rightarrow> 'cb websocket \<Rightarrow> 'cb websocket" where
  "run_on_rx_thread t w = w\<lparr>ws_rx_tasks := ws_rx_tasks w @ [Rx_Call t]\<rparr>"

text \<open>
  \<open>stop\<close>: the threads are ended, the received messages dropped, the timers cancelled, then the context.
\<close>

definition ws_stop :: "'cb websocket \<Rightarrow> 'cb websocket" where
  "ws_stop w =
     (let w = w\<lparr>ws_timers := (ws_timers w)\<lparr>lws_running := False\<rparr>, ws_rx_q := tq_flush (ws_rx_q w)\<rparr>;
          w = w\<lparr>ws_timers := timers_stop (ws_timers w)\<rparr>
      in w\<lparr>ws_timers := (ws_timers w)\<lparr>lws_context := False\<rparr>\<rparr>)"

section \<open>The library's callback\<close>

text \<open>
  \<open>parse_uri\<close> is \<open>lws_parse_uri\<close>: whether the protocol is \<^verbatim>\<open>wss\<close>, or no result; \<open>connects\<close> whether
  \<open>lws_client_connect_via_info\<close> returns a connection.
\<close>

record lws_env =
  parse_uri :: "string \<Rightarrow> bool option"
  connects :: "string \<Rightarrow> bool"

definition ws_do_connect :: "lws_env \<Rightarrow> string \<Rightarrow> 'cb websocket \<Rightarrow> bool \<times> 'cb websocket" where
  "ws_do_connect e uri w =
     (if \<not> lws_context (ws_timers w) then (False, w)
      else case parse_uri e uri of
             None \<Rightarrow> (False, w)
           | Some wss \<Rightarrow> (connects e uri, w\<lparr>ws_ssl := wss, ws_close := False, ws_wsi := connects e uri\<rparr>))"

datatype lws_reason =
    CLIENT_CONNECTION_ERROR string
  | CLIENT_ESTABLISHED
  | CLIENT_RECEIVE json
  | CLIENT_WRITEABLE
  | CLIENT_CLOSED
  | EVENT_WAIT_CANCELLED
  | WSI_DESTROY
  | Other_Reason

definition opt_call :: "('a \<Rightarrow> 'a) option \<Rightarrow> 'a \<Rightarrow> 'a" where
  "opt_call f x = (case f of None \<Rightarrow> x | Some g \<Rightarrow> g x)"

definition on_ws :: "('cb websocket \<Rightarrow> 'cb websocket) \<Rightarrow> ('cb, 's) ws_client \<Rightarrow> ('cb, 's) ws_client" where
  "on_ws f c = (f (fst c), snd c)"

text \<open>The effect of one reason: the client's state and the message written to the socket, if any.\<close>

fun lws_callback :: "lws_env \<Rightarrow> ('cb, 's) ws_callbacks \<Rightarrow> lws_reason \<Rightarrow> ('cb, 's) ws_client \<Rightarrow>
    json option \<times> ('cb, 's) ws_client" where
  "lws_callback e b (CLIENT_CONNECTION_ERROR msg) c =
     (let c = (if message_cb b = None then on_ws drain_rx c else c);
          c = opt_call (map_option (\<lambda>f. f msg) (error_cb b)) c
      in (None, on_ws (\<lambda>w. w\<lparr>ws_wsi := False, ws_close := True\<rparr>) c))"
| "lws_callback e b CLIENT_ESTABLISHED c =
     (None, opt_call (connected_cb b) (on_ws (\<lambda>w. w\<lparr>ws_wsi := True\<rparr>) c))"
| "lws_callback e b (CLIENT_RECEIVE m) c =
     (None, case message_cb b of
              None \<Rightarrow> on_ws (\<lambda>w. w\<lparr>ws_rx_q := tq_push m (ws_rx_q w)\<rparr>) c
            | Some f \<Rightarrow> f m c)"
| "lws_callback e b CLIENT_WRITEABLE c =
     (case ws_tx_q (fst c) of
        [] \<Rightarrow> (None, c)
      | m # q \<Rightarrow> (Some m, on_ws (\<lambda>w. w\<lparr>ws_tx_q := q\<rparr>) c))"
| "lws_callback e b CLIENT_CLOSED c =
     (let c = (if message_cb b = None then on_ws drain_rx c else c);
          c = (if ws_wsi (fst c) \<and> disconnected_cb b \<noteq> None then on_ws run_disconnected c else c)
      in (None, on_ws (\<lambda>w. w\<lparr>ws_wsi := False\<rparr>) c))"
| "lws_callback e b EVENT_WAIT_CANCELLED c =
     (case ws_requests (fst c) of
        [] \<Rightarrow> (None, c)
      | uri # _ \<Rightarrow>
          let r = ws_do_connect e uri (fst c); c = (snd r, snd c);
              c = (if fst r then c else
                   let c = opt_call (map_option (\<lambda>f. f ''Connection failed'') (error_cb b)) c;
                       c = (if disconnected_cb b \<noteq> None
                            then on_ws (\<lambda>w. (run_disconnected w)\<lparr>ws_close := True\<rparr>) c else c)
                   in on_ws (\<lambda>w. w\<lparr>ws_wsi := False\<rparr>) c)
          in (None, on_ws (\<lambda>w. w\<lparr>ws_requests := tl (ws_requests w)\<rparr>) c))"
| "lws_callback e b WSI_DESTROY c =
     (let c = on_ws (\<lambda>w. w\<lparr>ws_close := True\<rparr>) c in
      (None, if ws_wsi (fst c) then
               let c = on_ws (\<lambda>w. w\<lparr>ws_wsi := False\<rparr>) c;
                   c = (if message_cb b = None then on_ws drain_rx c else c)
               in if disconnected_cb b \<noteq> None then on_ws run_disconnected c
                  else opt_call (map_option (\<lambda>f. f ''Connection failed'') (error_cb b)) c
             else c))"
| "lws_callback e b Other_Reason c = (None, c)"

text \<open>\<open>-1\<close> closes the connection; the events pipe always returns \<open>0\<close>.\<close>

definition lws_callback_ret :: "lws_reason \<Rightarrow> 'cb websocket \<Rightarrow> int" where
  "lws_callback_ret r w = (if r \<noteq> EVENT_WAIT_CANCELLED \<and> ws_close w then -1 else 0)"

section \<open>The receiving thread\<close>

fun rx_run_task :: "('cb, 's) ws_callbacks \<Rightarrow> 'cb rx_task \<Rightarrow> ('cb, 's) ws_client \<Rightarrow> ('cb, 's) ws_client" where
  "rx_run_task b Drain_Rx c =
     (case handle_cb b of
        None \<Rightarrow> on_ws (\<lambda>w. w\<lparr>ws_rx_q := []\<rparr>) c
      | Some h \<Rightarrow> snd (tq_drain h (ws_rx_q (fst c)) (on_ws (\<lambda>w. w\<lparr>ws_rx_q := []\<rparr>) c)))"
| "rx_run_task b Disconnected c = opt_call (disconnected_cb b) c"
| "rx_run_task b (Rx_Call t) c = call_cb b t c"

text \<open>One round of \<open>rx_handle_\<close>.\<close>

definition rx_pop_message :: "('cb, 's) ws_callbacks \<Rightarrow> ('cb, 's) ws_client \<Rightarrow> ('cb, 's) ws_client" where
  "rx_pop_message b c =
     (case tq_pop (ws_rx_q (fst c)) of
        None \<Rightarrow> c
      | Some (m, q) \<Rightarrow> opt_call (map_option (\<lambda>h. h m) (handle_cb b)) (on_ws (\<lambda>w. w\<lparr>ws_rx_q := q\<rparr>) c))"

definition rx_pop_task :: "('cb, 's) ws_callbacks \<Rightarrow> ('cb, 's) ws_client \<Rightarrow> ('cb, 's) ws_client" where
  "rx_pop_task b c =
     (case tq_pop (ws_rx_tasks (fst c)) of
        None \<Rightarrow> c
      | Some (t, q) \<Rightarrow> rx_run_task b t (on_ws (\<lambda>w. w\<lparr>ws_rx_tasks := q\<rparr>) c))"

definition rx_round :: "('cb, 's) ws_callbacks \<Rightarrow> ('cb, 's) ws_client \<Rightarrow> ('cb, 's) ws_client" where
  "rx_round b c = rx_pop_task b (rx_pop_message b c)"

section \<open>Properties\<close>

text \<open>Queued messages are written in order: the callback takes from the front of the queue only.\<close>

definition queues_only :: "(('cb, 's) ws_client \<Rightarrow> ('cb, 's) ws_client) \<Rightarrow> bool" where
  "queues_only f \<longleftrightarrow> (\<forall>c. \<exists>sent. ws_tx_q (fst (f c)) = ws_tx_q (fst c) @ sent)"

lemma queues_onlyD: "queues_only f \<Longrightarrow> \<exists>sent. ws_tx_q (fst (f c)) = ws_tx_q (fst c) @ sent"
  unfolding queues_only_def by blast

lemma tx_q_opt_call:
  "(\<And>f. g = Some f \<Longrightarrow> queues_only f) \<Longrightarrow> \<exists>sent. ws_tx_q (fst (opt_call g c)) = ws_tx_q (fst c) @ sent"
  by (cases g) (simp_all add: opt_call_def queues_onlyD)

definition callbacks_queue :: "('cb, 's) ws_callbacks \<Rightarrow> bool" where
  "callbacks_queue b \<longleftrightarrow>
     (\<forall>f. connected_cb b = Some f \<longrightarrow> queues_only f) \<and> (\<forall>f. disconnected_cb b = Some f \<longrightarrow> queues_only f) \<and>
     (\<forall>f m. error_cb b = Some f \<longrightarrow> queues_only (f m)) \<and> (\<forall>f m. message_cb b = Some f \<longrightarrow> queues_only (f m)) \<and>
     (\<forall>f m. handle_cb b = Some f \<longrightarrow> queues_only (f m))"

lemma on_ws_simps [simp]: "fst (on_ws f c) = f (fst c)" "snd (on_ws f c) = snd c"
  by (simp_all add: on_ws_def)

lemma tx_q_simps [simp]: "ws_tx_q (drain_rx w) = ws_tx_q w" "ws_tx_q (run_disconnected w) = ws_tx_q w"
  by (simp_all add: drain_rx_def run_disconnected_def)

lemma tx_q_do_connect [simp]: "ws_tx_q (snd (ws_do_connect e uri w)) = ws_tx_q w"
  by (simp add: ws_do_connect_def split: option.split)

lemma tx_q_error:
  "callbacks_queue b \<Longrightarrow>
   \<exists>sent. ws_tx_q (fst (opt_call (map_option (\<lambda>f. f m) (error_cb b)) c)) = ws_tx_q (fst c) @ sent"
  by (rule tx_q_opt_call) (auto simp: callbacks_queue_def)

lemma lws_callback_tx:
  assumes "callbacks_queue b" "lws_callback e b r c = (out, c')"
  shows "\<exists>sent. (case out of None \<Rightarrow> [] | Some m \<Rightarrow> [m]) @ ws_tx_q (fst c') = ws_tx_q (fst c) @ sent"
proof (cases r)
  case (CLIENT_CONNECTION_ERROR msg)
  then show ?thesis
    using assms(2) tx_q_error [OF assms(1), of msg "if message_cb b = None then on_ws drain_rx c else c"]
    by (auto simp: Let_def split: if_splits)
next
  case CLIENT_ESTABLISHED
  have "\<exists>sent. ws_tx_q (fst (opt_call (connected_cb b) x)) = ws_tx_q (fst x) @ sent" for x
    using assms(1) by (intro tx_q_opt_call) (auto simp: callbacks_queue_def)
  from this [of "on_ws (\<lambda>w. w\<lparr>ws_wsi := True\<rparr>) c"] show ?thesis
    using CLIENT_ESTABLISHED assms(2) by auto
next
  case (CLIENT_RECEIVE m)
  then show ?thesis using assms by (auto simp: callbacks_queue_def queues_onlyD split: option.splits)
next
  case CLIENT_WRITEABLE
  then show ?thesis using assms(2) by (auto split: list.splits)
next
  case CLIENT_CLOSED
  then show ?thesis using assms(2) by (auto simp: Let_def split: if_splits)
next
  case EVENT_WAIT_CANCELLED
  show ?thesis
  proof (cases "ws_requests (fst c)")
    case Nil
    then show ?thesis using EVENT_WAIT_CANCELLED assms(2) by simp
  next
    case (Cons uri us)
    then show ?thesis
      using EVENT_WAIT_CANCELLED assms(2)
        tx_q_error [OF assms(1), of "''Connection failed''" "(snd (ws_do_connect e uri (fst c)), snd c)"]
      by (auto simp: Let_def split: if_splits)
  qed
next
  case WSI_DESTROY
  then show ?thesis
    using assms(2) tx_q_error [OF assms(1), of "''Connection failed''"
        "if message_cb b = None then on_ws drain_rx (on_ws (\<lambda>w. w\<lparr>ws_wsi := False\<rparr>) (on_ws (\<lambda>w. w\<lparr>ws_close := True\<rparr>) c))
         else on_ws (\<lambda>w. w\<lparr>ws_wsi := False\<rparr>) (on_ws (\<lambda>w. w\<lparr>ws_close := True\<rparr>) c)"]
    by (auto simp: Let_def split: if_splits)
next
  case Other_Reason
  then show ?thesis using assms(2) by simp
qed

text \<open>What the messages already received do with the two queues of the receiving thread.\<close>

definition set_rx :: "json list \<Rightarrow> 'cb rx_task list \<Rightarrow> ('cb, 's) ws_client \<Rightarrow> ('cb, 's) ws_client" where
  "set_rx q ts c = on_ws (\<lambda>w. w\<lparr>ws_rx_q := q, ws_rx_tasks := ts\<rparr>) c"

definition leaves_rx :: "(('cb, 's) ws_client \<Rightarrow> ('cb, 's) ws_client) \<Rightarrow> bool" where
  "leaves_rx f \<longleftrightarrow> (\<forall>q ts c. f (set_rx q ts c) = set_rx q ts (f c))"

lemma leaves_rxD: "leaves_rx f \<Longrightarrow> f (set_rx q ts c) = set_rx q ts (f c)"
  unfolding leaves_rx_def by blast

lemma tq_drain_fold: "snd (tq_drain f q s) = fold f q s"
  by (induction q arbitrary: s) simp_all

lemma set_rx_simps [simp]:
  "set_rx q ts (set_rx q' ts' c) = set_rx q ts c" "ws_rx_q (fst (set_rx q ts c)) = q"
  "ws_rx_tasks (fst (set_rx q ts c)) = ts"
  "on_ws (\<lambda>w. w\<lparr>ws_rx_q := q2\<rparr>) (set_rx q ts c) = set_rx q2 ts c"
  "on_ws (\<lambda>w. w\<lparr>ws_rx_tasks := ts2\<rparr>) (set_rx q ts c) = set_rx q ts2 c"
  by (simp_all add: set_rx_def on_ws_def)

lemma leaves_rx_fold: "(\<And>m. leaves_rx (h m)) \<Longrightarrow> fold h ms (set_rx q ts c) = set_rx q ts (fold h ms c)"
  by (induction ms arbitrary: c) (simp_all add: leaves_rxD)


definition log_callbacks :: "(nat, json list) ws_callbacks" where
  "log_callbacks = \<lparr>connected_cb = None, disconnected_cb = Some (\<lambda>c. (fst c, snd c @ [JNull])), error_cb = None,
     message_cb = None, handle_cb = Some (\<lambda>m c. (fst c, snd c @ [m])), call_cb = (\<lambda>_ c. c)\<rparr>"


end
