(* ===== verification/Command_Handler.thy ===== *)
theory Command_Handler
  imports Command_Factory Manager_Config Websocket
begin

text \<open>
  \<^verbatim>\<open>command_handler\<close> of \<^verbatim>\<open>src/src/agent-proto/command-handler.cc\<close>: connecting and registering, one
  function per command of the cloud, the dispatch of a received message and the acknowledgements. The
  pure virtual functions are the record \<open>upcalls\<close>; they may change the whole object. The text of a
  message and its exceptions are the JSON library's, the date conversions the date library's.
\<close>

section \<open>State\<close>

text \<open>
  \<open>'k\<close> names a callback; what is handed to the transport's timers and to its receiving thread is one of
  three tasks, the last one the derived class's own.
\<close>

datatype 'k htask = Try_Connect | Ack_Timeout 'k | Client_Task 'k

record 'k command_ack =
  ack_cb :: "'k option"
  timeout_cb :: "cb_id option"

record ('k, 'e) handler =
  registered :: bool
  bye_reason_st :: bye_reason
  bye_retry_st :: int
  hello_received :: bool
  acks :: "(int \<times> 'k command_ack) list"
  h_ws :: "'k htask websocket"
  reconnect_timer :: "cb_id option"
  cm_config :: manager_config
  msg_ids :: id_counter
  h_profile :: profile
  h_env :: 'e

text \<open>The libraries: number conversions, the current time as text, dates as text and as a double.\<close>

record henv =
  he_num :: json_num
  he_now :: string
  he_from_iso_packed :: "string \<Rightarrow> time"
  he_from_double :: "double \<Rightarrow> time"

section \<open>The virtual functions\<close>

record ('k, 'h) upcalls =
  run_task :: "'k \<Rightarrow> 'h \<Rightarrow> 'h"
  run_ack :: "'k \<Rightarrow> bool \<Rightarrow> command option \<Rightarrow> 'h \<Rightarrow> 'h"
  on_closed :: "int \<Rightarrow> bye_reason \<Rightarrow> 'h \<Rightarrow> 'h"
  on_prepared :: "'h \<Rightarrow> 'h"
  on_registered :: "string \<Rightarrow> 'h \<Rightarrow> 'h"
  on_get_stream_config :: "stream_config \<Rightarrow> 'h \<Rightarrow> bool \<times> stream_config \<times> 'h"
  on_set_stream_config :: "stream_config \<Rightarrow> 'h \<Rightarrow> bool \<times> 'h"
  on_get_motion_detection_config :: "motion_detection_config \<Rightarrow> 'h \<Rightarrow> bool \<times> motion_detection_config \<times> 'h"
  on_set_motion_detection_config :: "motion_detection_config \<Rightarrow> 'h \<Rightarrow> bool \<times> 'h"
  on_get_cam_video_config :: "video_config \<Rightarrow> 'h \<Rightarrow> bool \<times> video_config \<times> 'h"
  on_set_cam_video_config :: "video_config \<Rightarrow> 'h \<Rightarrow> bool \<times> 'h"
  on_get_cam_events_config :: "events_config \<Rightarrow> 'h \<Rightarrow> bool \<times> events_config \<times> 'h"
  on_set_cam_events_config :: "events_config \<Rightarrow> 'h \<Rightarrow> bool \<times> 'h"
  on_get_cam_audio_config :: "audio_config \<Rightarrow> 'h \<Rightarrow> bool \<times> audio_config \<times> 'h"
  on_set_cam_audio_config :: "audio_config \<Rightarrow> 'h \<Rightarrow> bool \<times> 'h"
  on_get_ptz_config :: "ptz_config \<Rightarrow> 'h \<Rightarrow> bool \<times> ptz_config \<times> 'h"
  on_cam_ptz :: "ptz_command \<Rightarrow> 'h \<Rightarrow> bool \<times> 'h"
  on_cam_ptz_preset :: "ptz_preset \<Rightarrow> 'h \<Rightarrow> bool \<times> ptz_preset \<times> 'h"
  on_get_osd_config :: "osd_config \<Rightarrow> 'h \<Rightarrow> bool \<times> osd_config \<times> 'h"
  on_set_osd_config :: "osd_config \<Rightarrow> 'h \<Rightarrow> bool \<times> 'h"
  on_get_wifi_config :: "wifi_config \<Rightarrow> 'h \<Rightarrow> bool \<times> wifi_config \<times> 'h"
  on_set_wifi_config :: "wifi_network \<Rightarrow> 'h \<Rightarrow> bool \<times> 'h"
  on_stream_start :: "string \<Rightarrow> int \<Rightarrow> stream_reason \<Rightarrow> 'h \<Rightarrow> bool \<times> 'h"
  on_stream_stop :: "string \<Rightarrow> stream_reason \<Rightarrow> 'h \<Rightarrow> bool \<times> 'h"
  on_get_stream_caps :: "stream_caps \<Rightarrow> 'h \<Rightarrow> bool \<times> stream_caps \<times> 'h"
  on_get_supported_streams :: "supported_streams_config \<Rightarrow> 'h \<Rightarrow> bool \<times> supported_streams_config \<times> 'h"
  on_direct_upload_url :: "direct_upload_url_base \<Rightarrow> int \<Rightarrow> int \<Rightarrow> 'h \<Rightarrow> bool \<times> 'h"
  on_get_timezone :: "string \<Rightarrow> 'h \<Rightarrow> bool \<times> string \<times> 'h"
  on_set_timezone :: "string \<Rightarrow> 'h \<Rightarrow> bool \<times> 'h"
  on_get_cam_memorycard_timeline :: "cam_memorycard_timeline \<Rightarrow> 'h \<Rightarrow> bool \<times> cam_memorycard_timeline \<times> 'h"
  on_cam_memorycard_synchronize :: "cam_memorycard_synchronize_status \<Rightarrow> time \<Rightarrow> time \<Rightarrow> 'h \<Rightarrow>
    bool \<times> cam_memorycard_synchronize_status \<times> 'h"
  on_cam_memorycard_synchronize_cancel :: "string \<Rightarrow> 'h \<Rightarrow> bool \<times> 'h"
  on_cam_memorycard_recording :: "string \<Rightarrow> bool \<Rightarrow> 'h \<Rightarrow> bool \<times> 'h"
  on_trigger_event :: "string \<Rightarrow> json \<Rightarrow> time \<Rightarrow> 'h \<Rightarrow> bool \<times> 'h"
  on_audio_file_play :: "string \<Rightarrow> 'h \<Rightarrow> bool \<times> 'h"
  on_start_backward :: "string \<Rightarrow> 'h \<Rightarrow> bool \<times> 'h"
  on_stop_backward :: "string \<Rightarrow> 'h \<Rightarrow> bool \<times> 'h"
  on_raw_message :: "string \<Rightarrow> string \<Rightarrow> 'h \<Rightarrow> bool \<times> string \<times> 'h"
  on_set_stream_by_event :: "stream_by_event_config \<Rightarrow> 'h \<Rightarrow> bool \<times> 'h"
  on_get_stream_by_event :: "stream_by_event_config \<Rightarrow> 'h \<Rightarrow> bool \<times> stream_by_event_config \<times> 'h"
  on_update_preview :: "string \<Rightarrow> 'h \<Rightarrow> bool \<times> 'h"
  on_cam_upgrade_firmware :: "string \<Rightarrow> 'h \<Rightarrow> bool \<times> 'h"
  on_set_audio_detection :: "audio_detection_config \<Rightarrow> 'h \<Rightarrow> bool \<times> 'h"
  on_get_audio_detection :: "audio_detection_config \<Rightarrow> 'h \<Rightarrow> bool \<times> audio_detection_config \<times> 'h"
  on_get_log :: "'h \<Rightarrow> bool \<times> 'h"
  on_set_activity :: "bool \<Rightarrow> 'h \<Rightarrow> bool \<times> 'h"

section \<open>Sending\<close>

definition json_empty :: "json \<Rightarrow> bool" where
  "json_empty j \<longleftrightarrow> j = JNull \<or> j = JArr [] \<or> j = JObj []"

definition send_text :: "json \<Rightarrow> ('k, 'e) handler \<Rightarrow> bool \<times> ('k, 'e) handler" where
  "send_text m h = (case ws_send m (h_ws h) of (ok, w) \<Rightarrow> (ok, h\<lparr>h_ws := w\<rparr>))"

definition send_command :: "json \<Rightarrow> ('k, 'e) handler \<Rightarrow> bool \<times> ('k, 'e) handler" where
  "send_command m h = (if json_empty m then (False, h) else send_text m h)"

text \<open>The overload for \<^verbatim>\<open>const base_command*\<close> converts the static type.\<close>

definition send_base_command ::
  "json_num \<Rightarrow> 'a base_command_scheme \<Rightarrow> ('k, 'e) handler \<Rightarrow> bool \<times> ('k, 'e) handler" where
  "send_base_command num c h = send_text (struct_to_json (base_command_fields num) c) h"

text \<open>\<open>json(*factory::done(c, status))\<close>\<close>

definition reply_done :: "json_num \<Rightarrow> 'a base_command_scheme \<Rightarrow> done_status \<Rightarrow> ('k, 'e) handler \<Rightarrow>
    json \<times> ('k, 'e) handler" where
  "reply_done num c status h =
     (case factory_done (base_command.truncate c) status (msg_ids h) of (d, n) \<Rightarrow>
        (struct_to_json (done_cmd_fields num) d, h\<lparr>msg_ids := n\<rparr>))"

text \<open>
  \<open>dynamic_pointer_cast<T>(factory::reply(c, name))\<close> for the class \<open>T\<close> of that name, and
  \<open>dynamic_pointer_cast<T>(factory::create(name))\<close>.
\<close>

definition reply_to :: "(int \<Rightarrow> 'b base_command_scheme) \<Rightarrow> 'a base_command_scheme \<Rightarrow> ('k, 'e) handler \<Rightarrow>
    'b base_command_scheme \<times> ('k, 'e) handler" where
  "reply_to dflt c h =
     (case fresh_id (msg_ids h) of (i, n) \<Rightarrow>
        (addressed (base_command.truncate c) (dflt i), h\<lparr>msg_ids := n\<rparr>))"

definition create_as :: "json_num \<Rightarrow> 'b base_command_scheme field list \<Rightarrow> (int \<Rightarrow> 'b base_command_scheme) \<Rightarrow>
    string \<Rightarrow> ('k, 'e) handler \<Rightarrow> 'b base_command_scheme \<times> ('k, 'e) handler" where
  "create_as num fs dflt nm h =
     (case fresh_id (msg_ids h) of (i, n) \<Rightarrow> case fresh_id n of (i', n') \<Rightarrow>
        (struct_from_json fs
           (struct_to_json (base_command_fields num) ((base_command_default i)\<lparr>bc_cmd := nm\<rparr>)) (dflt i'),
         h\<lparr>msg_ids := n'\<rparr>))"

section \<open>Connecting\<close>

definition reset_reconnect_timer :: "('k, 'e) handler \<Rightarrow> ('k, 'e) handler" where
  "reset_reconnect_timer h =
     (case reconnect_timer h of
        None \<Rightarrow> h
      | Some t \<Rightarrow> h\<lparr>h_ws := ws_cancel (Some t) (h_ws h), reconnect_timer := None\<rparr>)"

definition try_connect :: "('k, 'e) handler \<Rightarrow> bool \<times> ('k, 'e) handler" where
  "try_connect h = (case ws_connect (get_address (cm_config h)) (h_ws h) of (ok, w) \<Rightarrow> (ok, h\<lparr>h_ws := w\<rparr>))"

definition reconnect :: "('k, 'e) handler \<Rightarrow> ('k, 'e) handler" where
  "reconnect h =
     (case reconnect_timer h of
        None \<Rightarrow>
          (case ws_schedule Try_Connect (snd (ws_disconnect (h_ws h))) of (t, w) \<Rightarrow>
             h\<lparr>h_ws := w, reconnect_timer := t\<rparr>)
      | Some _ \<Rightarrow> h)"

definition do_register ::
  "henv \<Rightarrow> ('k, ('k, 'e) handler) upcalls \<Rightarrow> ('k, 'e) handler \<Rightarrow> bool \<times> ('k, 'e) handler" where
  "do_register v u h =
     (let num = he_num v;
          (command, h) = create_as num (register_cmd_fields num) register_cmd_default ''register'' h;
          (_, tz, h) = on_get_timezone u (mc_timezone (cm_config h)) h;
          cfg = (cm_config h)\<lparr>mc_timezone := tz\<rparr>;
          h = h\<lparr>cm_config := cfg\<rparr>;
          command = command\<lparr>rc_ver := agent_version cfg, rc_tz := mc_timezone cfg, rc_vendor := device_vendor cfg\<rparr>;
          command = (if mc_pwd cfg \<noteq> [] then command\<lparr>rc_pwd := mc_pwd cfg\<rparr> else command);
          command = (if mc_sid cfg \<noteq> [] then command\<lparr>rc_prev_sid := mc_sid cfg\<rparr>
                     else if pf_cm_registration_sid (h_profile h) \<noteq> []
                     then command\<lparr>rc_prev_sid := pf_cm_registration_sid (h_profile h)\<rparr> else command);
          command = (if \<not> reg_isEmpty (reg_token cfg) then command\<lparr>rc_reg_token := mToken (reg_token cfg)\<rparr>
                     else command);
          command = command\<lparr>rc_media_protocols := rc_media_protocols command @
                       [if ws_ssl (h_ws h) then ''rtmps'' else ''rtmp'']\<rparr>
      in send_command (struct_to_json (register_cmd_fields num) command) h)"

definition do_cam_register ::
  "henv \<Rightarrow> ('k, ('k, 'e) handler) upcalls \<Rightarrow> ('k, 'e) handler \<Rightarrow> bool \<times> ('k, 'e) handler" where
  "do_cam_register v u h =
     (if \<not> registered h then
        (let num = he_num v;
             (command, h) = create_as num (cam_register_fields num) cam_register_default ''cam_register'' h;
             cfg = cm_config h;
             command = command\<lparr>cr_ip := device_ipaddr cfg, cr_uuid := mc_uuid cfg, cr_brand := device_brand cfg,
               cr_model := device_model cfg, cr_sn := device_serial cfg,
               cr_raw_messaging := pf_raw_messaging (h_profile h), cr_version := device_fw_version cfg,
               cr_type := device_type cfg\<rparr>;
             h = on_registered u (mc_sid cfg) h;
             (ok, h) = send_command (struct_to_json (cam_register_fields num) command) h
         in (ok, h\<lparr>registered := ok\<rparr>))
      else (True, h))"

text \<open>The message is sent as a \<^verbatim>\<open>base_command\<close>.\<close>

definition do_bye :: "henv \<Rightarrow> string \<Rightarrow> ('k, 'e) handler \<Rightarrow> bool \<times> ('k, 'e) handler" where
  "do_bye v reason h =
     (case fresh_id (msg_ids h) of (i, n) \<Rightarrow>
        send_base_command (he_num v) ((bye_default i)\<lparr>bye_reason := enum_from bye_reason_table (JStr reason)\<rparr>)
          (h\<lparr>msg_ids := n\<rparr>))"

definition on_connected ::
  "henv \<Rightarrow> ('k, ('k, 'e) handler) upcalls \<Rightarrow> ('k, 'e) handler \<Rightarrow> ('k, 'e) handler" where
  "on_connected v u h =
     snd (do_register v u (reset_reconnect_timer
       (h\<lparr>hello_received := False, registered := False, bye_reason_st := BR_INVALID\<rparr>)))"

definition on_error :: "('k, ('k, 'e) handler) upcalls \<Rightarrow> ('k, 'e) handler \<Rightarrow> ('k, 'e) handler" where
  "on_error u h =
     on_closed u (-1) BR_CONN_CLOSE ((reset_reconnect_timer h)\<lparr>hello_received := False, registered := False\<rparr>)"

definition on_disconnected :: "('k, ('k, 'e) handler) upcalls \<Rightarrow> ('k, 'e) handler \<Rightarrow> ('k, 'e) handler" where
  "on_disconnected u h =
     (let h = (reset_reconnect_timer h)\<lparr>hello_received := False, registered := False\<rparr>
      in if bye_reason_st h \<noteq> BR_INVALID then on_closed u (-1) (bye_reason_st h) h
         else on_closed u (-1) BR_CONN_CLOSE h)"

section \<open>Acknowledgements\<close>

definition handle_command_ack :: "('k, ('k, 'e) handler) upcalls \<Rightarrow> command \<Rightarrow> ('k, 'e) handler \<Rightarrow> ('k, 'e) handler" where
  "handle_command_ack u c h =
     (let refid = bc_refid (command_base c) in
      case map_of (acks h) refid of
        None \<Rightarrow> h
      | Some a \<Rightarrow>
          let h = (if timeout_cb a \<noteq> None then h\<lparr>h_ws := ws_cancel (timeout_cb a) (h_ws h)\<rparr> else h);
              h = (case ack_cb a of None \<Rightarrow> h | Some k \<Rightarrow> run_ack u k False (Some c) h)
          in h\<lparr>acks := AList.delete refid (acks h)\<rparr>)"

definition send_command_wait_ack ::
  "json_num \<Rightarrow> json \<Rightarrow> 'k \<Rightarrow> ('k, 'e) handler \<Rightarrow> (factory_error + bool) \<times> ('k, 'e) handler" where
  "send_command_wait_ack num m k h =
     (case ws_schedule (Ack_Timeout k) (h_ws h) of (t, w) \<Rightarrow>
        let h = h\<lparr>h_ws := w\<rparr> in
        case Option.bind (json_at ''msgid'' m) (as_int num) of
          None \<Rightarrow> (Inl Type_Error, h)
        | Some i \<Rightarrow>
            let h = h\<lparr>acks := AList.update i \<lparr>ack_cb = Some k, timeout_cb = t\<rparr> (acks h)\<rparr>;
                (ok, h) = send_command m h
            in (Inr ok, h))"

text \<open>A timer of the handler.\<close>

fun run_htask :: "('k, ('k, 'e) handler) upcalls \<Rightarrow> 'k htask \<Rightarrow> ('k, 'e) handler \<Rightarrow> ('k, 'e) handler" where
  "run_htask u Try_Connect h = snd (try_connect h)"
| "run_htask u (Ack_Timeout k) h = run_ack u k True None h"
| "run_htask u (Client_Task k) h = run_task u k h"

text \<open>
  \<open>_flush_command_acks\<close>: the iterator starts at the entry with the least key and the loop does not
  advance it; \<open>None\<close> is a loop that does not end.
\<close>

definition flush_ack :: "('k, ('k, 'e) handler) upcalls \<Rightarrow> 'k command_ack \<Rightarrow> ('k, 'e) handler \<Rightarrow> ('k, 'e) handler" where
  "flush_ack u a h =
     (let h = (if timeout_cb a \<noteq> None then h\<lparr>h_ws := ws_cancel (timeout_cb a) (h_ws h)\<rparr> else h)
      in case ack_cb a of None \<Rightarrow> h | Some k \<Rightarrow> run_ack u k True None h)"

partial_function (option) flush_loop ::
  "('k, ('k, 'e) handler) upcalls \<Rightarrow> 'k command_ack option \<Rightarrow> ('k, 'e) handler \<Rightarrow> ('k, 'e) handler option" where
  "flush_loop u it h = (case it of None \<Rightarrow> Some h | Some a \<Rightarrow> flush_loop u it (flush_ack u a h))"

definition flush_command_acks ::
  "('k, ('k, 'e) handler) upcalls \<Rightarrow> ('k, 'e) handler \<Rightarrow> ('k, 'e) handler option" where
  "flush_command_acks u h =
     flush_loop u (if acks h = [] then None else map_of (acks h) (Min (set (map fst (acks h))))) h"

section \<open>The commands of the cloud\<close>

definition handle_hello :: "henv \<Rightarrow> ('k, ('k, 'e) handler) upcalls \<Rightarrow> hello \<Rightarrow> ('k, 'e) handler \<Rightarrow> json \<times> ('k, 'e) handler" where
  "handle_hello v u c h =
     (let cfg = cm_config h;
          cfg = (if hel_ca c \<noteq> unset_string then cfg\<lparr>mc_ca := hel_ca c\<rparr> else cfg);
          p = (if hel_sid c \<noteq> unset_string then (h_profile h)\<lparr>pf_cm_registration_sid := hel_sid c\<rparr> else h_profile h);
          cfg = (if hel_sid c \<noteq> unset_string then cfg\<lparr>mc_sid := hel_sid c\<rparr> else cfg);
          cfg = (if hel_upload_url c \<noteq> unset_string then cfg\<lparr>upload_url := hel_upload_url c\<rparr> else cfg);
          cfg = (if hel_upload_uri c \<noteq> unset_string then cfg\<lparr>upload_url := hel_upload_uri c\<rparr> else cfg);
          cfg = (if hel_media_server c \<noteq> unset_string then cfg\<lparr>media_server := hel_media_server c\<rparr> else cfg);
          cfg = (if hel_connid c \<noteq> unset_string then cfg\<lparr>conn_id := hel_connid c\<rparr> else cfg);
          (_, h) = do_cam_register v u (h\<lparr>cm_config := cfg, h_profile := p\<rparr>)
      in reply_done (he_num v) c DS_OK h)"

definition handle_configure :: "henv \<Rightarrow> ('k, ('k, 'e) handler) upcalls \<Rightarrow> configure \<Rightarrow> ('k, 'e) handler \<Rightarrow> json \<times> ('k, 'e) handler" where
  "handle_configure v u c h =
     (let cfg = cm_config h;
          cfg = (if con_pwd c \<noteq> unset_string then cfg\<lparr>mc_pwd := con_pwd c\<rparr> else cfg);
          cfg = (if con_uuid c \<noteq> unset_string then cfg\<lparr>mc_uuid := con_uuid c\<rparr> else cfg);
          cfg = (if con_connid c \<noteq> unset_string then cfg\<lparr>conn_id := con_connid c\<rparr> else cfg);
          h = h\<lparr>cm_config := cfg\<rparr>;
          h = (if con_tz c \<noteq> unset_string
               then snd (on_set_timezone u (con_tz c) (h\<lparr>cm_config := (cm_config h)\<lparr>mc_timezone := con_tz c\<rparr>\<rparr>)) else h);
          h = (if con_server c \<noteq> unset_string
               then h\<lparr>cm_config := (cm_config h)\<lparr>reconnect_server_address := con_server c\<rparr>\<rparr> else h)
      in reply_done (he_num v) c DS_OK h)"

definition handle_get_cam_status :: "henv \<Rightarrow> get_cam_status \<Rightarrow> ('k, 'e) handler \<Rightarrow> json \<times> ('k, 'e) handler" where
  "handle_get_cam_status v c h =
     (let (r, h) = reply_to cam_status_default c h; cfg = cm_config h
      in (struct_to_json (cam_status_fields (he_num v))
            (r\<lparr>cs_ip := device_ipaddr cfg, cs_activity := mc_activity cfg, cs_streaming := mc_streaming cfg,
               cs_status_led := False\<rparr>), h))"

definition handle_get_supported_streams :: "henv \<Rightarrow> ('k, ('k, 'e) handler) upcalls \<Rightarrow> get_supported_streams \<Rightarrow> ('k, 'e) handler \<Rightarrow> json \<times> ('k, 'e) handler" where
  "handle_get_supported_streams v u c h =
     (let num = he_num v; (r, h) = reply_to supported_streams_default c h; (ok, cfg, h) = on_get_supported_streams u supported_streams_config_default h
      in if \<not> ok then reply_done num c DS_CM_ERROR h
         else (struct_to_json (supported_streams_fields num) (r\<lparr>ss_supported_streams_config := cfg\<rparr>), h))"

definition handle_cam_hello :: "henv \<Rightarrow> ('k, ('k, 'e) handler) upcalls \<Rightarrow> cam_hello \<Rightarrow> ('k, 'e) handler \<Rightarrow> json \<times> ('k, 'e) handler" where
  "handle_cam_hello v u c h =
     (let i = snd (fresh_id (msg_ids h)); h = h\<lparr>msg_ids := i\<rparr>; cfg = cm_config h;
          cfg = (if bc_cam_id c \<noteq> UnsetInt then cfg\<lparr>mc_cam_id := bc_cam_id c\<rparr> else cfg);
          cfg = (if ch_media_uri c \<noteq> unset_string then cfg\<lparr>media_server := ch_media_uri c\<rparr> else cfg);
          cfg = (if ch_path c \<noteq> unset_string then cfg\<lparr>cam_path := ch_path c\<rparr> else cfg);
          cfg = cfg\<lparr>mc_activity := ch_activity c\<rparr>;
          (_, h) = on_set_activity u (ch_activity c) (h\<lparr>cm_config := cfg\<rparr>);
          h = on_prepared u (h\<lparr>hello_received := True\<rparr>)
      in reply_done (he_num v) c DS_OK h)"

text \<open>No reply: these two return an empty document.\<close>

definition handle_bye :: "bye \<Rightarrow> ('k, 'e) handler \<Rightarrow> ('k, 'e) handler" where
  "handle_bye c h =
     h\<lparr>bye_reason_st := bye_reason c, bye_retry_st := (if bye_retry c \<noteq> UnsetInt then bye_retry c else 0),
       hello_received := False\<rparr>"

definition handle_report_problem :: "report_problem \<Rightarrow> ('k, 'e) handler \<Rightarrow> ('k, 'e) handler" where
  "handle_report_problem c h = h"

definition handle_stream_start :: "henv \<Rightarrow> ('k, ('k, 'e) handler) upcalls \<Rightarrow> stream_start \<Rightarrow> ('k, 'e) handler \<Rightarrow> json \<times> ('k, 'e) handler" where
  "handle_stream_start v u c h =
     (let num = he_num v;
          streamId = (if ss2_stream_id c \<noteq> unset_string then ss2_stream_id c else []);
          publishSessionID = (if ss2_publish_session_id c \<noteq> UnsetInt then ss2_publish_session_id c else -1);
          reason = ss2_reason c;
          reason = (if reason = SR_RECORD \<and> ss2_storage_direct_recording c = B_TRUE then SR_RECORD_DIRECT else reason);
          (ok, h) = on_stream_start u streamId publishSessionID reason h
      in if \<not> ok then reply_done num c DS_CM_ERROR h else reply_done num c DS_OK h)"

definition handle_stream_stop :: "henv \<Rightarrow> ('k, ('k, 'e) handler) upcalls \<Rightarrow> stream_stop \<Rightarrow> ('k, 'e) handler \<Rightarrow> json \<times> ('k, 'e) handler" where
  "handle_stream_stop v u c h =
     (let num = he_num v;
          streamId = (if ss3_stream_id c \<noteq> unset_string then ss3_stream_id c else []);
          (ok, h) = on_stream_stop u streamId (ss3_reason c) h
      in if \<not> ok then reply_done num c DS_CM_ERROR h else reply_done num c DS_OK h)"

definition handle_get_cam_events :: "henv \<Rightarrow> ('k, ('k, 'e) handler) upcalls \<Rightarrow> get_cam_events \<Rightarrow> ('k, 'e) handler \<Rightarrow> json \<times> ('k, 'e) handler" where
  "handle_get_cam_events v u c h =
     (let num = he_num v; (r, h) = reply_to cam_events_conf_default c h; (ok, cfg, h) = on_get_cam_events_config u events_config_default h
      in if \<not> ok then reply_done num c DS_CM_ERROR h
         else (struct_to_json (cam_events_conf_fields num) (r\<lparr>cec_events_config := cfg\<rparr>), h))"

definition handle_set_cam_events :: "henv \<Rightarrow> ('k, ('k, 'e) handler) upcalls \<Rightarrow> set_cam_events \<Rightarrow> ('k, 'e) handler \<Rightarrow> json \<times> ('k, 'e) handler" where
  "handle_set_cam_events v u c h =
     (let num = he_num v; (ok, h) = on_set_cam_events_config u (sce_events_config c) h
      in if \<not> ok then reply_done num c DS_CM_ERROR h else reply_done num c DS_OK h)"

text \<open>The extra objects of \<^verbatim>\<open>direct_upload_url\<close> in order.\<close>

fun upload_extra :: "('k, ('k, 'e) handler) upcalls \<Rightarrow> int \<Rightarrow> int \<Rightarrow> direct_upload_url_base list \<Rightarrow>
    ('k, 'e) handler \<Rightarrow> ('k, 'e) handler" where
  "upload_extra u event_id ref_id [] h = h"
| "upload_extra u event_id ref_id (d # ds) h =
     upload_extra u event_id ref_id ds
       (if duub_status d = ''OK'' then snd (on_direct_upload_url u d event_id ref_id h) else h)"

definition handle_direct_upload_url :: "henv \<Rightarrow> ('k, ('k, 'e) handler) upcalls \<Rightarrow> direct_upload_url \<Rightarrow> ('k, 'e) handler \<Rightarrow> json \<times> ('k, 'e) handler" where
  "handle_direct_upload_url v u c h =
     (let num = he_num v; b = duu_direct_upload_url_base c in
      if duub_status b = unset_string \<or> duub_url b = unset_string \<or> duub_status b \<noteq> ''OK''
      then reply_done num c DS_MISSED_PARAM h
      else
        let h = snd (on_direct_upload_url u b (duu_event_id c) (bc_refid c) h);
            h = upload_extra u (duu_event_id c) (bc_refid c) (duu_extra c) h
        in reply_done num c DS_OK h)"

definition handle_get_motion_detection :: "henv \<Rightarrow> ('k, ('k, 'e) handler) upcalls \<Rightarrow> get_motion_detection \<Rightarrow> ('k, 'e) handler \<Rightarrow> json \<times> ('k, 'e) handler" where
  "handle_get_motion_detection v u c h =
     (let num = he_num v; (r, h) = reply_to motion_detection_conf_default c h; (ok, cfg, h) = on_get_motion_detection_config u motion_detection_config_default h
      in if \<not> ok then reply_done num c DS_SYSTEM_ERROR h
         else (struct_to_json (motion_detection_conf_fields num) (r\<lparr>mdc3_motion_detection_config := cfg\<rparr>), h))"

definition handle_get_stream_caps :: "henv \<Rightarrow> ('k, ('k, 'e) handler) upcalls \<Rightarrow> get_stream_caps \<Rightarrow> ('k, 'e) handler \<Rightarrow> json \<times> ('k, 'e) handler" where
  "handle_get_stream_caps v u c h =
     (let num = he_num v; (r, h) = reply_to stream_caps_cmd_default c h;
          caps = \<lparr>sc_caps_video = map (\<lambda>vs. caps_video_object_default
                     \<lparr>cvo_streams := cvo_streams caps_video_object_default @ [vs]\<rparr>) (gsc_video_es c),
                   sc_caps_audio = map (\<lambda>as. caps_audio_object_default
                     \<lparr>cao_streams := cao_streams caps_audio_object_default @ [as]\<rparr>) (gsc_audio_es c)\<rparr>;
          (ok, caps, h) = on_get_stream_caps u caps h
      in if \<not> ok then reply_done num c DS_CM_ERROR h
         else (struct_to_json (stream_caps_cmd_fields num) (r\<lparr>scc_stream_caps := caps\<rparr>), h))"

definition handle_cam_update_preview :: "henv \<Rightarrow> ('k, ('k, 'e) handler) upcalls \<Rightarrow> cam_update_preview \<Rightarrow> ('k, 'e) handler \<Rightarrow> json \<times> ('k, 'e) handler" where
  "handle_cam_update_preview v u c h =
     (let num = he_num v;
          (ok, h) = on_update_preview u (buildUrl (he_now v) UT_UPLOAD_PREVIEW [] [] (cm_config h)) h
      in if \<not> ok then reply_done num c DS_CM_ERROR h else reply_done num c DS_OK h)"

definition handle_cam_upgrade_firmware :: "henv \<Rightarrow> ('k, ('k, 'e) handler) upcalls \<Rightarrow> cam_upgrade_firmware \<Rightarrow> ('k, 'e) handler \<Rightarrow> json \<times> ('k, 'e) handler" where
  "handle_cam_upgrade_firmware v u c h =
     (let num = he_num v; (ok, h) = on_cam_upgrade_firmware u (cuf_url c) h
      in if \<not> ok then reply_done num c DS_CM_ERROR h else reply_done num c DS_OK h)"

definition handle_get_audio_detection :: "henv \<Rightarrow> ('k, ('k, 'e) handler) upcalls \<Rightarrow> get_audio_detection \<Rightarrow> ('k, 'e) handler \<Rightarrow> json \<times> ('k, 'e) handler" where
  "handle_get_audio_detection v u c h =
     (let num = he_num v; (r, h) = reply_to audio_detection_conf_default c h; (ok, cfg, h) = on_get_audio_detection u audio_detection_config_default h
      in if \<not> ok then reply_done num c DS_NOT_SUPPORTED h
         else (struct_to_json (audio_detection_conf_fields num) (r\<lparr>adc2_audio_detection_config := cfg\<rparr>), h))"

definition handle_set_audio_detection :: "henv \<Rightarrow> ('k, ('k, 'e) handler) upcalls \<Rightarrow> set_audio_detection \<Rightarrow> ('k, 'e) handler \<Rightarrow> json \<times> ('k, 'e) handler" where
  "handle_set_audio_detection v u c h =
     (let num = he_num v; (ok, h) = on_set_audio_detection u (sad_audio_detection_config c) h
      in if \<not> ok then reply_done num c DS_NOT_SUPPORTED h else reply_done num c DS_OK h)"

definition handle_get_stream_by_event :: "henv \<Rightarrow> ('k, ('k, 'e) handler) upcalls \<Rightarrow> get_stream_by_event \<Rightarrow> ('k, 'e) handler \<Rightarrow> json \<times> ('k, 'e) handler" where
  "handle_get_stream_by_event v u c h =
     (let num = he_num v; (r, h) = reply_to stream_by_event_conf_default c h; (ok, cfg, h) = on_get_stream_by_event u stream_by_event_config_default h
      in if \<not> ok then reply_done num c DS_CM_ERROR h
         else (struct_to_json (stream_by_event_conf_fields num) (r\<lparr>sbec3_stream_by_event_config := cfg\<rparr>), h))"

definition handle_set_stream_by_event :: "henv \<Rightarrow> ('k, ('k, 'e) handler) upcalls \<Rightarrow> set_stream_by_event \<Rightarrow> ('k, 'e) handler \<Rightarrow> json \<times> ('k, 'e) handler" where
  "handle_set_stream_by_event v u c h =
     (let num = he_num v; (ok, h) = on_set_stream_by_event u (ssbe_stream_by_event_config c) h
      in if \<not> ok then reply_done num c DS_CM_ERROR h else reply_done num c DS_OK h)"

definition handle_get_stream_config :: "henv \<Rightarrow> ('k, ('k, 'e) handler) upcalls \<Rightarrow> get_stream_config \<Rightarrow> ('k, 'e) handler \<Rightarrow> json \<times> ('k, 'e) handler" where
  "handle_get_stream_config v u c h =
     (let num = he_num v; (r, h) = reply_to stream_config_cmd_default c h;
          config = \<lparr>sc2_video = map (\<lambda>vs. video_stream_config_default\<lparr>vsc_stream := vs\<rparr>) (gsc2_video_es c),
                     sc2_audio = map (\<lambda>as. audio_stream_config_default\<lparr>asc_stream := as\<rparr>) (gsc2_audio_es c)\<rparr>;
          (ok, config, h) = on_get_stream_config u config h
      in if ok then (struct_to_json (stream_config_cmd_fields num) (r\<lparr>scc2_stream_config := config\<rparr>), h)
         else reply_done num c DS_SYSTEM_ERROR h)"

definition handle_set_stream_config :: "henv \<Rightarrow> ('k, ('k, 'e) handler) upcalls \<Rightarrow> set_stream_config \<Rightarrow> ('k, 'e) handler \<Rightarrow> json \<times> ('k, 'e) handler" where
  "handle_set_stream_config v u c h =
     (let num = he_num v; (ok, h) = on_set_stream_config u (ssc3_stream_config c) h
      in if \<not> ok then reply_done num c DS_INVALID_PARAM h else reply_done num c DS_OK h)"

definition handle_get_cam_audio_conf :: "henv \<Rightarrow> ('k, ('k, 'e) handler) upcalls \<Rightarrow> get_cam_audio_conf \<Rightarrow> ('k, 'e) handler \<Rightarrow> json \<times> ('k, 'e) handler" where
  "handle_get_cam_audio_conf v u c h =
     (let num = he_num v; (r, h) = reply_to cam_audio_conf_default c h; (ok, cfg, h) = on_get_cam_audio_config u audio_config_default h
      in if \<not> ok then reply_done num c DS_SYSTEM_ERROR h
         else (struct_to_json (cam_audio_conf_fields num) (r\<lparr>cac_audio_config := cfg\<rparr>), h))"

definition handle_set_cam_audio_conf :: "henv \<Rightarrow> ('k, ('k, 'e) handler) upcalls \<Rightarrow> set_cam_audio_conf \<Rightarrow> ('k, 'e) handler \<Rightarrow> json \<times> ('k, 'e) handler" where
  "handle_set_cam_audio_conf v u c h =
     (let num = he_num v; (ok, h) = on_set_cam_audio_config u (scac_audio_config c) h
      in if \<not> ok then reply_done num c DS_INVALID_PARAM h else reply_done num c DS_OK h)"

definition handle_get_cam_video_conf :: "henv \<Rightarrow> ('k, ('k, 'e) handler) upcalls \<Rightarrow> get_cam_video_conf \<Rightarrow> ('k, 'e) handler \<Rightarrow> json \<times> ('k, 'e) handler" where
  "handle_get_cam_video_conf v u c h =
     (let num = he_num v; (r, h) = reply_to cam_video_conf_default c h; (ok, cfg, h) = on_get_cam_video_config u video_config_default h
      in if \<not> ok then reply_done num c DS_SYSTEM_ERROR h
         else (struct_to_json (cam_video_conf_fields num) (r\<lparr>cvc_video_config := cfg\<rparr>), h))"

definition handle_set_cam_video_conf :: "henv \<Rightarrow> ('k, ('k, 'e) handler) upcalls \<Rightarrow> set_cam_video_conf \<Rightarrow> ('k, 'e) handler \<Rightarrow> json \<times> ('k, 'e) handler" where
  "handle_set_cam_video_conf v u c h =
     (let num = he_num v; (ok, h) = on_set_cam_video_config u (scvc_video_config c) h
      in if \<not> ok then reply_done num c DS_INVALID_PARAM h else reply_done num c DS_OK h)"

definition handle_set_motion_detection :: "henv \<Rightarrow> ('k, ('k, 'e) handler) upcalls \<Rightarrow> set_motion_detection \<Rightarrow> ('k, 'e) handler \<Rightarrow> json \<times> ('k, 'e) handler" where
  "handle_set_motion_detection v u c h =
     (let num = he_num v; (ok, h) = on_set_motion_detection_config u (smd_motion_detection_config c) h
      in if \<not> ok then reply_done num c DS_INVALID_PARAM h else reply_done num c DS_OK h)"

definition handle_get_ptz_conf :: "henv \<Rightarrow> ('k, ('k, 'e) handler) upcalls \<Rightarrow> get_ptz_conf \<Rightarrow> ('k, 'e) handler \<Rightarrow> json \<times> ('k, 'e) handler" where
  "handle_get_ptz_conf v u c h =
     (let num = he_num v; (r, h) = reply_to cam_ptz_conf_default c h; (ok, cfg, h) = on_get_ptz_config u ptz_config_default h
      in if \<not> ok then reply_done num c DS_NOT_SUPPORTED h
         else (struct_to_json (cam_ptz_conf_fields num) (r\<lparr>cpc_ptz_config := cfg\<rparr>), h))"

definition handle_cam_ptz :: "henv \<Rightarrow> ('k, ('k, 'e) handler) upcalls \<Rightarrow> cam_ptz \<Rightarrow> ('k, 'e) handler \<Rightarrow> json \<times> ('k, 'e) handler" where
  "handle_cam_ptz v u c h =
     (let num = he_num v; (ok, h) = on_cam_ptz u (cp_ptz_command c) h
      in if \<not> ok then reply_done num c DS_SYSTEM_ERROR h else reply_done num c DS_OK h)"

definition handle_cam_ptz_preset :: "henv \<Rightarrow> ('k, ('k, 'e) handler) upcalls \<Rightarrow> cam_ptz_preset \<Rightarrow> ('k, 'e) handler \<Rightarrow> json \<times> ('k, 'e) handler" where
  "handle_cam_ptz_preset v u c h =
     (let num = he_num v; (ok, preset, h) = on_cam_ptz_preset u (cpp_ptz_preset c) h
      in if \<not> ok then reply_done num c DS_SYSTEM_ERROR h
         else if pp_action preset = PA_CREATE \<and> pp_token preset \<noteq> unset_string
         then (case reply_to cam_ptz_preset_created_default c h of (r, h) \<Rightarrow>
                 (struct_to_json (cam_ptz_preset_created_fields num) (r\<lparr>cppc_token := pp_token preset\<rparr>), h))
         else reply_done num c DS_OK h)"

definition handle_raw_message :: "henv \<Rightarrow> ('k, ('k, 'e) handler) upcalls \<Rightarrow> raw_message \<Rightarrow> ('k, 'e) handler \<Rightarrow> json \<times> ('k, 'e) handler" where
  "handle_raw_message v u c h =
     (let num = he_num v;
          h = (if rm_message c \<noteq> unset_string then
                 (case on_raw_message u (rm_client_id c) (rm_message c) h of (ok, message, h) \<Rightarrow>
                    if ok \<and> message \<noteq> [] then
                      (let (r, h) = create_as num (raw_message_fields num) raw_message_default ''raw_message'' h
                       in snd (send_command (struct_to_json (raw_message_fields num)
                            (r\<lparr>rm_client_id := rm_client_id c, rm_message := message\<rparr>)) h))
                    else h)
               else h)
      in reply_done num c DS_OK h)"

definition handle_raw_message_client_connected :: "henv \<Rightarrow> raw_message_client_connected \<Rightarrow> ('k, 'e) handler \<Rightarrow> json \<times> ('k, 'e) handler" where
  "handle_raw_message_client_connected v c h =
     reply_done (he_num v) c DS_OK h"

definition handle_raw_message_client_disconnected :: "henv \<Rightarrow> raw_message_client_disconnected \<Rightarrow> ('k, 'e) handler \<Rightarrow> json \<times> ('k, 'e) handler" where
  "handle_raw_message_client_disconnected v c h =
     reply_done (he_num v) c DS_OK h"

definition handle_cam_get_log :: "henv \<Rightarrow> ('k, ('k, 'e) handler) upcalls \<Rightarrow> cam_get_log \<Rightarrow> ('k, 'e) handler \<Rightarrow> json \<times> ('k, 'e) handler" where
  "handle_cam_get_log v u c h =
     (let num = he_num v; (ok, h) = on_get_log u h
      in if \<not> ok then reply_done num c DS_CM_ERROR h else reply_done num c DS_OK h)"

definition handle_get_osd_conf :: "henv \<Rightarrow> ('k, ('k, 'e) handler) upcalls \<Rightarrow> get_osd_conf \<Rightarrow> ('k, 'e) handler \<Rightarrow> json \<times> ('k, 'e) handler" where
  "handle_get_osd_conf v u c h =
     (let num = he_num v; (r, h) = reply_to osd_conf_default c h; (ok, cfg, h) = on_get_osd_config u osd_config_default h
      in if \<not> ok then reply_done num c DS_CM_ERROR h
         else (struct_to_json (osd_conf_fields num) (r\<lparr>oc3_osd_config := cfg\<rparr>), h))"

definition handle_set_osd_conf :: "henv \<Rightarrow> ('k, ('k, 'e) handler) upcalls \<Rightarrow> set_osd_conf \<Rightarrow> ('k, 'e) handler \<Rightarrow> json \<times> ('k, 'e) handler" where
  "handle_set_osd_conf v u c h =
     (let num = he_num v; (ok, h) = on_set_osd_config u (soc_osd_config c) h
      in if \<not> ok then reply_done num c DS_INVALID_PARAM h else reply_done num c DS_OK h)"

definition handle_set_cam_parameter :: "henv \<Rightarrow> ('k, ('k, 'e) handler) upcalls \<Rightarrow> set_cam_parameter \<Rightarrow> ('k, 'e) handler \<Rightarrow> json \<times> ('k, 'e) handler" where
  "handle_set_cam_parameter v u c h =
     reply_done (he_num v) c DS_OK (snd (on_set_activity u (scp_activity c) h))"

definition handle_cam_trigger_event :: "henv \<Rightarrow> ('k, ('k, 'e) handler) upcalls \<Rightarrow> cam_trigger_event \<Rightarrow> ('k, 'e) handler \<Rightarrow> json \<times> ('k, 'e) handler" where
  "handle_cam_trigger_event v u c h =
     (let num = he_num v;
          event = (if cte_event c \<noteq> unset_string then cte_event c else []);
          t = (if cte_time c \<noteq> UnsetDouble then he_from_double v (cte_time c) else time_null);
          meta = (if \<not> json_unset (cte_meta c) then cte_meta c else JNull)
      in if event = [] then reply_done num c DS_INVALID_PARAM h
         else (case on_trigger_event u event meta t h of (ok, h) \<Rightarrow>
                 if \<not> ok then reply_done num c DS_INVALID_PARAM h else reply_done num c DS_OK h))"

definition handle_backward_start :: "henv \<Rightarrow> ('k, ('k, 'e) handler) upcalls \<Rightarrow> backward_start \<Rightarrow> ('k, 'e) handler \<Rightarrow> json \<times> ('k, 'e) handler" where
  "handle_backward_start v u c h =
     (let num = he_num v in
      if bs_url c = unset_string then reply_done num c DS_MISSED_PARAM h
      else (case on_start_backward u (bs_url c) h of (ok, h) \<Rightarrow>
              if \<not> ok then reply_done num c DS_SYSTEM_ERROR h else reply_done num c DS_OK h))"

definition handle_backward_stop :: "henv \<Rightarrow> ('k, ('k, 'e) handler) upcalls \<Rightarrow> backward_stop \<Rightarrow> ('k, 'e) handler \<Rightarrow> json \<times> ('k, 'e) handler" where
  "handle_backward_stop v u c h =
     reply_done (he_num v) c DS_OK (snd (on_stop_backward u (bs2_url c) h))"

text \<open>The reply of the failure is built and dropped: there is no \<open>return\<close> in front of it.\<close>

definition handle_cam_set_current_wifi :: "henv \<Rightarrow> ('k, ('k, 'e) handler) upcalls \<Rightarrow> cam_set_current_wifi \<Rightarrow> ('k, 'e) handler \<Rightarrow> json \<times> ('k, 'e) handler" where
  "handle_cam_set_current_wifi v u c h =
     (let num = he_num v; (ok, h) = on_set_wifi_config u (cscw_wifi_network c) h;
          h = (if \<not> ok then snd (reply_done num c DS_SYSTEM_ERROR h) else h)
      in reply_done num c DS_OK h)"

definition handle_cam_list_wifi :: "henv \<Rightarrow> ('k, ('k, 'e) handler) upcalls \<Rightarrow> cam_list_wifi \<Rightarrow> ('k, 'e) handler \<Rightarrow> json \<times> ('k, 'e) handler" where
  "handle_cam_list_wifi v u c h =
     (let num = he_num v; (r, h) = reply_to cam_wifi_list_default c h; (ok, cfg, h) = on_get_wifi_config u wifi_config_default h
      in if \<not> ok then reply_done num c DS_SYSTEM_ERROR h
         else (struct_to_json (cam_wifi_list_fields num) (r\<lparr>cwl_wifi_config := cfg\<rparr>), h))"

definition handle_audio_file_play :: "henv \<Rightarrow> ('k, ('k, 'e) handler) upcalls \<Rightarrow> audio_file_play \<Rightarrow> ('k, 'e) handler \<Rightarrow> json \<times> ('k, 'e) handler" where
  "handle_audio_file_play v u c h =
     (let num = he_num v in
      if afp_url c = unset_string then reply_done num c DS_MISSED_PARAM h
      else (case on_audio_file_play u (afp_url c) h of (ok, h) \<Rightarrow>
              if \<not> ok then reply_done num c DS_SYSTEM_ERROR h else reply_done num c DS_OK h))"

definition handle_get_cam_memorycard_timeline :: "henv \<Rightarrow> ('k, ('k, 'e) handler) upcalls \<Rightarrow> get_cam_memorycard_timeline \<Rightarrow> ('k, 'e) handler \<Rightarrow> json \<times> ('k, 'e) handler" where
  "handle_get_cam_memorycard_timeline v u c h =
     (let num = he_num v; (tl, h) = reply_to cam_memorycard_timeline_default c h;
          tl = tl\<lparr>cmt_request_id := gcmt_request_id c, cmt_start := gcmt_start c, cmt_end := gcmt_end c\<rparr>;
          (ok, tl, h) = on_get_cam_memorycard_timeline u tl h
      in if \<not> ok then reply_done num c DS_CM_ERROR h
         else (struct_to_json (cam_memorycard_timeline_fields num) tl, h))"

definition handle_cam_memorycard_synchronize :: "henv \<Rightarrow> ('k, ('k, 'e) handler) upcalls \<Rightarrow> cam_memorycard_synchronize \<Rightarrow> ('k, 'e) handler \<Rightarrow> json \<times> ('k, 'e) handler" where
  "handle_cam_memorycard_synchronize v u c h =
     (let num = he_num v; (st, h) = reply_to cam_memorycard_synchronize_status_default c h;
          st = st\<lparr>cmss_request_id := cms_request_id c\<rparr>;
          h = fold (\<lambda>r h. snd (on_cam_memorycard_synchronize_cancel u r h)) (cms_cancel_requests c) h;
          (ok, st, h) = on_cam_memorycard_synchronize u st (he_from_iso_packed v (cms_start c))
                          (he_from_iso_packed v (cms_end c)) h
      in if \<not> ok then reply_done num c DS_CM_ERROR h
         else (struct_to_json (cam_memorycard_synchronize_status_fields num) (st\<lparr>cmss_status := MCSS_PENDING\<rparr>), h))"

definition handle_cam_memorycard_synchronize_cancel :: "henv \<Rightarrow> ('k, ('k, 'e) handler) upcalls \<Rightarrow> cam_memorycard_synchronize_cancel \<Rightarrow> ('k, 'e) handler \<Rightarrow> json \<times> ('k, 'e) handler" where
  "handle_cam_memorycard_synchronize_cancel v u c h =
     (let (_, h) = reply_to cam_memorycard_synchronize_status_default c h;
          (_, h) = on_cam_memorycard_synchronize_cancel u (cmsc_request_id c) h
      in reply_done (he_num v) c DS_OK h)"

definition handle_cam_memorycard_recording :: "henv \<Rightarrow> ('k, ('k, 'e) handler) upcalls \<Rightarrow> cam_memorycard_recording \<Rightarrow> ('k, 'e) handler \<Rightarrow> json \<times> ('k, 'e) handler" where
  "handle_cam_memorycard_recording v u c h =
     reply_done (he_num v) c DS_OK
       (snd (on_cam_memorycard_recording u (cmr_stream_id c) (bool_of_alter (cmr_enabled c)) h))"

section \<open>Dispatch\<close>

text \<open>
  The chain of comparisons of \<^verbatim>\<open>handleMessage\<close>, by the class of the object, which is the one its name
  stands for; the replies to three commands are dropped, and other classes are not handled.
\<close>

primrec handle_named :: "henv \<Rightarrow> ('k, ('k, 'e) handler) upcalls \<Rightarrow> command \<Rightarrow> ('k, 'e) handler \<Rightarrow>
    json \<times> ('k, 'e) handler" where
  "handle_named v u (C_register_cmd c) h = (JNull, h)"
| "handle_named v u (C_cam_register c) h = (JNull, h)"
| "handle_named v u (C_hello c) h = handle_hello v u c h"
| "handle_named v u (C_configure c) h = handle_configure v u c h"
| "handle_named v u (C_get_cam_status c) h = handle_get_cam_status v c h"
| "handle_named v u (C_get_supported_streams c) h = handle_get_supported_streams v u c h"
| "handle_named v u (C_supported_streams c) h = (JNull, h)"
| "handle_named v u (C_cam_hello c) h = handle_cam_hello v u c h"
| "handle_named v u (C_stream_start c) h = handle_stream_start v u c h"
| "handle_named v u (C_stream_stop c) h = handle_stream_stop v u c h"
| "handle_named v u (C_cam_update_preview c) h = handle_cam_update_preview v u c h"
| "handle_named v u (C_cam_upgrade_firmware c) h = handle_cam_upgrade_firmware v u c h"
| "handle_named v u (C_get_audio_detection c) h = handle_get_audio_detection v u c h"
| "handle_named v u (C_set_audio_detection c) h = handle_set_audio_detection v u c h"
| "handle_named v u (C_audio_detection_conf c) h = (JNull, h)"
| "handle_named v u (C_get_cam_audio_conf c) h = handle_get_cam_audio_conf v u c h"
| "handle_named v u (C_get_cam_events c) h = handle_get_cam_events v u c h"
| "handle_named v u (C_set_cam_events c) h = handle_set_cam_events v u c h"
| "handle_named v u (C_cam_events_conf c) h = (JNull, h)"
| "handle_named v u (C_cam_event c) h = (JNull, h)"
| "handle_named v u (C_get_cam_video_conf c) h = handle_get_cam_video_conf v u c h"
| "handle_named v u (C_cam_video_conf c) h = (JNull, h)"
| "handle_named v u (C_direct_upload_url c) h = handle_direct_upload_url v u c h"
| "handle_named v u (C_get_direct_upload_url c) h = (JNull, h)"
| "handle_named v u (C_get_motion_detection c) h = handle_get_motion_detection v u c h"
| "handle_named v u (C_motion_detection_conf c) h = (JNull, h)"
| "handle_named v u (C_get_stream_by_event c) h = handle_get_stream_by_event v u c h"
| "handle_named v u (C_stream_by_event_conf c) h = (JNull, h)"
| "handle_named v u (C_set_stream_by_event c) h = handle_set_stream_by_event v u c h"
| "handle_named v u (C_get_stream_caps c) h = handle_get_stream_caps v u c h"
| "handle_named v u (C_stream_caps_cmd c) h = (JNull, h)"
| "handle_named v u (C_get_stream_config c) h = handle_get_stream_config v u c h"
| "handle_named v u (C_stream_config_cmd c) h = (JNull, h)"
| "handle_named v u (C_set_cam_audio_conf c) h = handle_set_cam_audio_conf v u c h"
| "handle_named v u (C_cam_audio_conf c) h = (JNull, h)"
| "handle_named v u (C_set_cam_video_conf c) h = handle_set_cam_video_conf v u c h"
| "handle_named v u (C_set_motion_detection c) h = handle_set_motion_detection v u c h"
| "handle_named v u (C_set_stream_config c) h = handle_set_stream_config v u c h"
| "handle_named v u (C_get_ptz_conf c) h = handle_get_ptz_conf v u c h"
| "handle_named v u (C_cam_ptz_conf c) h = (JNull, h)"
| "handle_named v u (C_cam_ptz c) h = handle_cam_ptz v u c h"
| "handle_named v u (C_cam_ptz_preset c) h = handle_cam_ptz_preset v u c h"
| "handle_named v u (C_cam_ptz_preset_created c) h = (JNull, h)"
| "handle_named v u (C_raw_message c) h = handle_raw_message v u c h"
| "handle_named v u (C_raw_message_client_connected c) h = handle_raw_message_client_connected v c h"
| "handle_named v u (C_raw_message_client_disconnected c) h = handle_raw_message_client_disconnected v c h"
| "handle_named v u (C_cam_get_log c) h = handle_cam_get_log v u c h"
| "handle_named v u (C_get_osd_conf c) h = handle_get_osd_conf v u c h"
| "handle_named v u (C_osd_conf c) h = (JNull, h)"
| "handle_named v u (C_set_osd_conf c) h = handle_set_osd_conf v u c h"
| "handle_named v u (C_set_cam_parameter c) h = handle_set_cam_parameter v u c h"
| "handle_named v u (C_cam_trigger_event c) h = handle_cam_trigger_event v u c h"
| "handle_named v u (C_backward_start c) h = handle_backward_start v u c h"
| "handle_named v u (C_backward_stop c) h = handle_backward_stop v u c h"
| "handle_named v u (C_cam_set_current_wifi c) h = handle_cam_set_current_wifi v u c h"
| "handle_named v u (C_cam_list_wifi c) h = handle_cam_list_wifi v u c h"
| "handle_named v u (C_cam_wifi_list c) h = (JNull, h)"
| "handle_named v u (C_bye c) h = (JNull, handle_bye c h)"
| "handle_named v u (C_report_problem c) h = (JNull, handle_report_problem c h)"
| "handle_named v u (C_cam_status c) h = (JNull, h)"
| "handle_named v u (C_audio_file_play c) h = (JNull, snd (handle_audio_file_play v u c h))"
| "handle_named v u (C_get_cam_memorycard_timeline c) h = handle_get_cam_memorycard_timeline v u c h"
| "handle_named v u (C_cam_memorycard_timeline c) h = (JNull, h)"
| "handle_named v u (C_cam_memorycard_synchronize c) h = handle_cam_memorycard_synchronize v u c h"
| "handle_named v u (C_cam_memorycard_synchronize_status c) h = (JNull, h)"
| "handle_named v u (C_cam_memorycard_synchronize_cancel c) h = handle_cam_memorycard_synchronize_cancel v u c h"
| "handle_named v u (C_cam_memorycard_recording c) h = handle_cam_memorycard_recording v u c h"
| "handle_named v u (C_done_cmd c) h = (JNull, h)"

definition handle_command :: "henv \<Rightarrow> ('k, ('k, 'e) handler) upcalls \<Rightarrow> command \<Rightarrow> ('k, 'e) handler \<Rightarrow>
    ('k, 'e) handler" where
  "handle_command v u c h =
     (let b = command_base c;
          (response, h) =
            (if bc_cam_id b \<noteq> UnsetInt \<and> mc_cam_id (cm_config h) \<noteq> 0 \<and> bc_cam_id b \<noteq> mc_cam_id (cm_config h)
             then reply_done (he_num v) b DS_CM_ERROR h
             else handle_named v u c (handle_command_ack u c h))
      in snd (send_command response h))"

definition handle_message :: "henv \<Rightarrow> ('k, ('k, 'e) handler) upcalls \<Rightarrow> json \<Rightarrow> ('k, 'e) handler \<Rightarrow>
    (factory_error + unit) \<times> ('k, 'e) handler" where
  "handle_message v u m h =
     (case factory_parse (he_num v) m (msg_ids h) of
        (Inl e, n) \<Rightarrow> (Inl e, h\<lparr>msg_ids := n\<rparr>)
      | (Inr None, n) \<Rightarrow> (Inr (), h\<lparr>msg_ids := n\<rparr>)
      | (Inr (Some c), n) \<Rightarrow> (Inr (), handle_command v u c (h\<lparr>msg_ids := n\<rparr>)))"

section \<open>Answers\<close>

text \<open>A document that answers a command: addressed to its camera, its id and its name.\<close>

definition answers :: "'a base_command_scheme \<Rightarrow> json \<Rightarrow> bool" where
  "answers c r \<longleftrightarrow>
     json_at ''orig_cmd'' r = Some (JStr (bc_cmd c)) \<and>
     json_at ''refid'' r = (if bc_msgid c = UnsetInt then None else Some (JInt (bc_msgid c))) \<and>
     json_at ''cam_id'' r = (if bc_cam_id c = UnsetInt then None else Some (JInt (bc_cam_id c)))"

lemma answers_struct:
  assumes k: "distinct (map f_key fs)" and b: "set (base_command_fields num) \<subseteq> set fs"
    and "bc_refid r = bc_msgid c" "bc_orig_cmd r = bc_cmd c" "bc_cam_id r = bc_cam_id c" "bc_cmd c \<noteq> unset_string"
  shows "answers c (struct_to_json fs r)"
proof -
  have "int_field num ''cam_id'' bc_cam_id bc_cam_id_update \<in> set fs"
    "int_field num ''refid'' bc_refid bc_refid_update \<in> set fs"
    "str_field ''orig_cmd'' bc_orig_cmd bc_orig_cmd_update \<in> set fs"
    using b by (auto simp: base_command_fields_def)
  from this [THEN json_at_struct [OF k, of _ r]] show ?thesis
    using assms(3-6) by (simp add: answers_def field_out_def field_defs)
qed

lemma addressed_simps [simp]:
  "bc_cmd (addressed o1 c) = bc_cmd c" "bc_msgid (addressed o1 c) = bc_msgid c"
  "bc_cam_id (addressed o1 c) = bc_cam_id o1" "bc_refid (addressed o1 c) = bc_msgid o1"
  "bc_orig_cmd (addressed o1 c) = bc_cmd o1"
  by (simp_all add: addressed_def)

lemma truncate_simps [simp]:
  "bc_cmd (base_command.truncate c) = bc_cmd c" "bc_msgid (base_command.truncate c) = bc_msgid c"
  "bc_cam_id (base_command.truncate c) = bc_cam_id c" "bc_refid (base_command.truncate c) = bc_refid c"
  "bc_orig_cmd (base_command.truncate c) = bc_orig_cmd c"
  by (simp_all add: base_command.defs)

lemma truncate_base: "base_command.truncate b = (b :: base_command)"
  by (simp add: base_command.defs)

lemma answers_truncate [simp]: "answers (base_command.truncate c) r = answers c r"
  by (simp add: answers_def)

lemma reply_to_eq [simp]:
  "reply_to dflt c h = (addressed (base_command.truncate c) (dflt (fst (fresh_id (msg_ids h)))), h\<lparr>msg_ids := msg_ids h + 1\<rparr>)"
  by (simp add: reply_to_def split: prod.split) (metis fst_conv snd_conv snd_fresh_id)

text \<open>\<open>reply_to\<close> and \<open>create_as\<close> are the factory's functions followed by the cast, which succeeds.\<close>

lemma reply_to_factory:
  "factory_reply (base_command.truncate c) ''supported_streams'' (msg_ids h) =
     (case reply_to supported_streams_default c h of (r, h) \<Rightarrow> (Some (C_supported_streams r), msg_ids h))"
  "factory_reply (base_command.truncate c) ''cam_status'' (msg_ids h) =
     (case reply_to cam_status_default c h of (r, h) \<Rightarrow> (Some (C_cam_status r), msg_ids h))"
  "factory_reply (base_command.truncate c) ''cam_events_conf'' (msg_ids h) =
     (case reply_to cam_events_conf_default c h of (r, h) \<Rightarrow> (Some (C_cam_events_conf r), msg_ids h))"
  "factory_reply (base_command.truncate c) ''motion_detection_conf'' (msg_ids h) =
     (case reply_to motion_detection_conf_default c h of (r, h) \<Rightarrow> (Some (C_motion_detection_conf r), msg_ids h))"
  "factory_reply (base_command.truncate c) ''stream_caps'' (msg_ids h) =
     (case reply_to stream_caps_cmd_default c h of (r, h) \<Rightarrow> (Some (C_stream_caps_cmd r), msg_ids h))"
  "factory_reply (base_command.truncate c) ''audio_detection_conf'' (msg_ids h) =
     (case reply_to audio_detection_conf_default c h of (r, h) \<Rightarrow> (Some (C_audio_detection_conf r), msg_ids h))"
  "factory_reply (base_command.truncate c) ''stream_by_event_conf'' (msg_ids h) =
     (case reply_to stream_by_event_conf_default c h of (r, h) \<Rightarrow> (Some (C_stream_by_event_conf r), msg_ids h))"
  "factory_reply (base_command.truncate c) ''stream_config'' (msg_ids h) =
     (case reply_to stream_config_cmd_default c h of (r, h) \<Rightarrow> (Some (C_stream_config_cmd r), msg_ids h))"
  "factory_reply (base_command.truncate c) ''cam_audio_conf'' (msg_ids h) =
     (case reply_to cam_audio_conf_default c h of (r, h) \<Rightarrow> (Some (C_cam_audio_conf r), msg_ids h))"
  "factory_reply (base_command.truncate c) ''cam_video_conf'' (msg_ids h) =
     (case reply_to cam_video_conf_default c h of (r, h) \<Rightarrow> (Some (C_cam_video_conf r), msg_ids h))"
  "factory_reply (base_command.truncate c) ''cam_ptz_conf'' (msg_ids h) =
     (case reply_to cam_ptz_conf_default c h of (r, h) \<Rightarrow> (Some (C_cam_ptz_conf r), msg_ids h))"
  "factory_reply (base_command.truncate c) ''cam_ptz_preset_created'' (msg_ids h) =
     (case reply_to cam_ptz_preset_created_default c h of (r, h) \<Rightarrow> (Some (C_cam_ptz_preset_created r), msg_ids h))"
  "factory_reply (base_command.truncate c) ''osd_conf'' (msg_ids h) =
     (case reply_to osd_conf_default c h of (r, h) \<Rightarrow> (Some (C_osd_conf r), msg_ids h))"
  "factory_reply (base_command.truncate c) ''cam_wifi_list'' (msg_ids h) =
     (case reply_to cam_wifi_list_default c h of (r, h) \<Rightarrow> (Some (C_cam_wifi_list r), msg_ids h))"
  "factory_reply (base_command.truncate c) ''cam_memorycard_timeline'' (msg_ids h) =
     (case reply_to cam_memorycard_timeline_default c h of (r, h) \<Rightarrow> (Some (C_cam_memorycard_timeline r), msg_ids h))"
  "factory_reply (base_command.truncate c) ''cam_memorycard_synchronize_status'' (msg_ids h) =
     (case reply_to cam_memorycard_synchronize_status_default c h of (r, h) \<Rightarrow> (Some (C_cam_memorycard_synchronize_status r), msg_ids h))"
  by (simp_all add: factory_reply_def reply_class_def unset_string_def)

lemma create_as_factory:
  assumes "nm \<noteq> unset_string" "\<And>j n. factory_dispatch num nm j n = make_cmd (\<lambda>i. con (struct_from_json fs j (dflt i))) n"
  shows "factory_create num nm (msg_ids h) = (case create_as num fs dflt nm h of (r, h) \<Rightarrow> (Inr (Some (con r)), msg_ids h))"
proof -
  have "json_at ''cmd'' (struct_to_json (base_command_fields num) ((base_command_default i)\<lparr>bc_cmd := nm\<rparr>)) =
      Some (JStr nm)" for i
    using cmd_member [of "base_command_fields num" "(base_command_default i)\<lparr>bc_cmd := nm\<rparr>"] assms(1)
      base_command.keys [of num] by simp
  then show ?thesis
    by (simp add: factory_create_def create_as_def factory_parse_named assms(2) fresh_id_def Let_def)
qed

lemma reply_done_eq:
  "reply_done num c st h =
     (struct_to_json (done_cmd_fields num)
        \<lparr>bc_cmd = ''done'', bc_msgid = fst (fresh_id (msg_ids h)), bc_cam_id = bc_cam_id c, bc_refid = bc_msgid c,
         bc_orig_cmd = bc_cmd c, dc_status = st\<rparr>, h\<lparr>msg_ids := msg_ids h + 1\<rparr>)"
  by (simp add: reply_done_def factory_done_def split: prod.split) (metis fst_conv snd_conv snd_fresh_id)

lemma answers_reply_done:
  "bc_cmd c \<noteq> unset_string \<Longrightarrow> answers c (fst (reply_done num c st h))"
  unfolding reply_done_eq fst_conv
  by (rule answers_struct [where num = num]) (simp_all add: done_cmd_fields_def base_command_fields_def)

text \<open>The classes that are answered, and the two functions that are handed the whole reply.\<close>

definition answered_commands :: "string list" where
  "answered_commands =
     [''hello'', ''configure'', ''get_cam_status'', ''get_supported_streams'', ''cam_hello'', ''stream_start'',
      ''stream_stop'', ''cam_update_preview'', ''cam_upgrade_firmware'', ''get_audio_detection'',
      ''set_audio_detection'', ''get_cam_audio_conf'', ''get_cam_events'', ''get_cam_video_conf'',
      ''direct_upload_url'', ''get_motion_detection'', ''get_stream_by_event'', ''set_stream_by_event'',
      ''get_stream_caps'', ''get_stream_config'', ''set_cam_audio_conf'', ''set_cam_events'',
      ''set_cam_video_conf'', ''set_motion_detection'', ''set_stream_config'', ''get_ptz_conf'', ''cam_ptz'',
      ''cam_ptz_preset'', ''raw_message'', ''raw_message_client_connected'', ''raw_message_client_disconnected'',
      ''cam_get_log'', ''get_osd_conf'', ''set_osd_conf'', ''set_cam_parameter'', ''cam_trigger_event'',
      ''backward_start'', ''backward_stop'', ''cam_set_current_wifi'', ''cam_list_wifi'',
      ''get_cam_memorycard_timeline'', ''cam_memorycard_synchronize'', ''cam_memorycard_synchronize_cancel'',
      ''cam_memorycard_recording'']"

definition keeps_reply :: "('k, 'h) upcalls \<Rightarrow> bool" where
  "keeps_reply u \<longleftrightarrow>
     (\<forall>t h. base_command.truncate (fst (snd (on_get_cam_memorycard_timeline u t h))) = base_command.truncate t) \<and>
     (\<forall>s a b h. base_command.truncate (fst (snd (on_cam_memorycard_synchronize u s a b h))) = base_command.truncate s)"

lemma answers_if:
  "(b \<Longrightarrow> answers c (fst x)) \<Longrightarrow> (\<not> b \<Longrightarrow> answers c (fst y)) \<Longrightarrow> answers c (fst (if b then x else y))"
  by simp

lemma answers_prod: "(\<And>a b. x = (a, b) \<Longrightarrow> answers c (fst (f a b))) \<Longrightarrow> answers c (fst (case x of (a, b) \<Rightarrow> f a b))"
  by (cases x) simp

lemmas answers_rules = answers_if answers_prod answers_reply_done

lemma base_in_reply:
  "set (base_command_fields num) \<subseteq> set (supported_streams_fields num)"
  "set (base_command_fields num) \<subseteq> set (cam_status_fields num)"
  "set (base_command_fields num) \<subseteq> set (cam_events_conf_fields num)"
  "set (base_command_fields num) \<subseteq> set (motion_detection_conf_fields num)"
  "set (base_command_fields num) \<subseteq> set (stream_caps_cmd_fields num)"
  "set (base_command_fields num) \<subseteq> set (audio_detection_conf_fields num)"
  "set (base_command_fields num) \<subseteq> set (stream_by_event_conf_fields num)"
  "set (base_command_fields num) \<subseteq> set (stream_config_cmd_fields num)"
  "set (base_command_fields num) \<subseteq> set (cam_audio_conf_fields num)"
  "set (base_command_fields num) \<subseteq> set (cam_video_conf_fields num)"
  "set (base_command_fields num) \<subseteq> set (cam_ptz_conf_fields num)"
  "set (base_command_fields num) \<subseteq> set (cam_ptz_preset_created_fields num)"
  "set (base_command_fields num) \<subseteq> set (osd_conf_fields num)"
  "set (base_command_fields num) \<subseteq> set (cam_wifi_list_fields num)"
  "set (base_command_fields num) \<subseteq> set (cam_memorycard_timeline_fields num)"
  "set (base_command_fields num) \<subseteq> set (cam_memorycard_synchronize_status_fields num)"
  by (simp_all add: command_own_fields subset_iff)

lemmas reply_answers =
  answers_struct [OF supported_streams.keys base_in_reply(1)]
  answers_struct [OF cam_status.keys base_in_reply(2)]
  answers_struct [OF cam_events_conf.keys base_in_reply(3)]
  answers_struct [OF motion_detection_conf.keys base_in_reply(4)]
  answers_struct [OF stream_caps_cmd.keys base_in_reply(5)]
  answers_struct [OF audio_detection_conf.keys base_in_reply(6)]
  answers_struct [OF stream_by_event_conf.keys base_in_reply(7)]
  answers_struct [OF stream_config_cmd.keys base_in_reply(8)]
  answers_struct [OF cam_audio_conf.keys base_in_reply(9)]
  answers_struct [OF cam_video_conf.keys base_in_reply(10)]
  answers_struct [OF cam_ptz_conf.keys base_in_reply(11)]
  answers_struct [OF cam_ptz_preset_created.keys base_in_reply(12)]
  answers_struct [OF osd_conf.keys base_in_reply(13)]
  answers_struct [OF cam_wifi_list.keys base_in_reply(14)]
  answers_struct [OF cam_memorycard_timeline.keys base_in_reply(15)]
  answers_struct [OF cam_memorycard_synchronize_status.keys base_in_reply(16)]

lemmas handler_defs =
  handle_hello_def
  handle_configure_def
  handle_get_cam_status_def
  handle_get_supported_streams_def
  handle_cam_hello_def
  handle_stream_start_def
  handle_stream_stop_def
  handle_get_cam_events_def
  handle_set_cam_events_def
  handle_direct_upload_url_def
  handle_get_motion_detection_def
  handle_get_stream_caps_def
  handle_cam_update_preview_def
  handle_cam_upgrade_firmware_def
  handle_get_audio_detection_def
  handle_set_audio_detection_def
  handle_get_stream_by_event_def
  handle_set_stream_by_event_def
  handle_get_stream_config_def
  handle_set_stream_config_def
  handle_get_cam_audio_conf_def
  handle_set_cam_audio_conf_def
  handle_get_cam_video_conf_def
  handle_set_cam_video_conf_def
  handle_set_motion_detection_def
  handle_get_ptz_conf_def
  handle_cam_ptz_def
  handle_cam_ptz_preset_def
  handle_raw_message_def
  handle_raw_message_client_connected_def
  handle_raw_message_client_disconnected_def
  handle_cam_get_log_def
  handle_get_osd_conf_def
  handle_set_osd_conf_def
  handle_set_cam_parameter_def
  handle_cam_trigger_event_def
  handle_backward_start_def
  handle_backward_stop_def
  handle_cam_set_current_wifi_def
  handle_cam_list_wifi_def
  handle_cam_memorycard_synchronize_cancel_def
  handle_cam_memorycard_recording_def

lemma handler_answers:
  "bc_cmd c0 \<noteq> unset_string \<Longrightarrow> answers c0 (fst (handle_hello v u c0 h))"
  "bc_cmd c1 \<noteq> unset_string \<Longrightarrow> answers c1 (fst (handle_configure v u c1 h))"
  "bc_cmd c2 \<noteq> unset_string \<Longrightarrow> answers c2 (fst (handle_get_cam_status v c2 h))"
  "bc_cmd c3 \<noteq> unset_string \<Longrightarrow> answers c3 (fst (handle_get_supported_streams v u c3 h))"
  "bc_cmd c4 \<noteq> unset_string \<Longrightarrow> answers c4 (fst (handle_cam_hello v u c4 h))"
  "bc_cmd c5 \<noteq> unset_string \<Longrightarrow> answers c5 (fst (handle_stream_start v u c5 h))"
  "bc_cmd c6 \<noteq> unset_string \<Longrightarrow> answers c6 (fst (handle_stream_stop v u c6 h))"
  "bc_cmd c7 \<noteq> unset_string \<Longrightarrow> answers c7 (fst (handle_get_cam_events v u c7 h))"
  "bc_cmd c8 \<noteq> unset_string \<Longrightarrow> answers c8 (fst (handle_set_cam_events v u c8 h))"
  "bc_cmd c9 \<noteq> unset_string \<Longrightarrow> answers c9 (fst (handle_direct_upload_url v u c9 h))"
  "bc_cmd c10 \<noteq> unset_string \<Longrightarrow> answers c10 (fst (handle_get_motion_detection v u c10 h))"
  "bc_cmd c11 \<noteq> unset_string \<Longrightarrow> answers c11 (fst (handle_get_stream_caps v u c11 h))"
  "bc_cmd c12 \<noteq> unset_string \<Longrightarrow> answers c12 (fst (handle_cam_update_preview v u c12 h))"
  "bc_cmd c13 \<noteq> unset_string \<Longrightarrow> answers c13 (fst (handle_cam_upgrade_firmware v u c13 h))"
  "bc_cmd c14 \<noteq> unset_string \<Longrightarrow> answers c14 (fst (handle_get_audio_detection v u c14 h))"
  "bc_cmd c15 \<noteq> unset_string \<Longrightarrow> answers c15 (fst (handle_set_audio_detection v u c15 h))"
  "bc_cmd c16 \<noteq> unset_string \<Longrightarrow> answers c16 (fst (handle_get_stream_by_event v u c16 h))"
  "bc_cmd c17 \<noteq> unset_string \<Longrightarrow> answers c17 (fst (handle_set_stream_by_event v u c17 h))"
  "bc_cmd c18 \<noteq> unset_string \<Longrightarrow> answers c18 (fst (handle_get_stream_config v u c18 h))"
  "bc_cmd c19 \<noteq> unset_string \<Longrightarrow> answers c19 (fst (handle_set_stream_config v u c19 h))"
  "bc_cmd c20 \<noteq> unset_string \<Longrightarrow> answers c20 (fst (handle_get_cam_audio_conf v u c20 h))"
  "bc_cmd c21 \<noteq> unset_string \<Longrightarrow> answers c21 (fst (handle_set_cam_audio_conf v u c21 h))"
  "bc_cmd c22 \<noteq> unset_string \<Longrightarrow> answers c22 (fst (handle_get_cam_video_conf v u c22 h))"
  "bc_cmd c23 \<noteq> unset_string \<Longrightarrow> answers c23 (fst (handle_set_cam_video_conf v u c23 h))"
  "bc_cmd c24 \<noteq> unset_string \<Longrightarrow> answers c24 (fst (handle_set_motion_detection v u c24 h))"
  "bc_cmd c25 \<noteq> unset_string \<Longrightarrow> answers c25 (fst (handle_get_ptz_conf v u c25 h))"
  "bc_cmd c26 \<noteq> unset_string \<Longrightarrow> answers c26 (fst (handle_cam_ptz v u c26 h))"
  "bc_cmd c27 \<noteq> unset_string \<Longrightarrow> answers c27 (fst (handle_cam_ptz_preset v u c27 h))"
  "bc_cmd c28 \<noteq> unset_string \<Longrightarrow> answers c28 (fst (handle_raw_message v u c28 h))"
  "bc_cmd c29 \<noteq> unset_string \<Longrightarrow> answers c29 (fst (handle_raw_message_client_connected v c29 h))"
  "bc_cmd c30 \<noteq> unset_string \<Longrightarrow> answers c30 (fst (handle_raw_message_client_disconnected v c30 h))"
  "bc_cmd c31 \<noteq> unset_string \<Longrightarrow> answers c31 (fst (handle_cam_get_log v u c31 h))"
  "bc_cmd c32 \<noteq> unset_string \<Longrightarrow> answers c32 (fst (handle_get_osd_conf v u c32 h))"
  "bc_cmd c33 \<noteq> unset_string \<Longrightarrow> answers c33 (fst (handle_set_osd_conf v u c33 h))"
  "bc_cmd c34 \<noteq> unset_string \<Longrightarrow> answers c34 (fst (handle_set_cam_parameter v u c34 h))"
  "bc_cmd c35 \<noteq> unset_string \<Longrightarrow> answers c35 (fst (handle_cam_trigger_event v u c35 h))"
  "bc_cmd c36 \<noteq> unset_string \<Longrightarrow> answers c36 (fst (handle_backward_start v u c36 h))"
  "bc_cmd c37 \<noteq> unset_string \<Longrightarrow> answers c37 (fst (handle_backward_stop v u c37 h))"
  "bc_cmd c38 \<noteq> unset_string \<Longrightarrow> answers c38 (fst (handle_cam_set_current_wifi v u c38 h))"
  "bc_cmd c39 \<noteq> unset_string \<Longrightarrow> answers c39 (fst (handle_cam_list_wifi v u c39 h))"
  "bc_cmd c40 \<noteq> unset_string \<Longrightarrow> answers c40 (fst (handle_cam_memorycard_synchronize_cancel v u c40 h))"
  "bc_cmd c41 \<noteq> unset_string \<Longrightarrow> answers c41 (fst (handle_cam_memorycard_recording v u c41 h))"
  unfolding handler_defs Let_def
  by (auto intro!: answers_rules reply_answers)

lemma truncate_eqD:
  "base_command.truncate r = base_command.truncate c \<Longrightarrow>
   bc_cmd r = bc_cmd c \<and> bc_cam_id r = bc_cam_id c \<and> bc_refid r = bc_refid c \<and> bc_orig_cmd r = bc_orig_cmd c"
  by (simp add: base_command.defs)

lemma timeline_answers:
  assumes "keeps_reply u" "bc_cmd c \<noteq> unset_string"
  shows "answers c (fst (handle_get_cam_memorycard_timeline v u c h))"
proof -
  have "base_command.truncate (fst (snd (on_get_cam_memorycard_timeline u t h'))) = base_command.truncate t" for t h'
    using assms(1) by (simp add: keeps_reply_def)
  note t = this [THEN truncate_eqD]
  show ?thesis
    unfolding handle_get_cam_memorycard_timeline_def Let_def split_beta
    using assms(2) by (auto simp: t intro!: answers_rules reply_answers)
qed

lemma synchronize_answers:
  assumes "keeps_reply u" "bc_cmd c \<noteq> unset_string"
  shows "answers c (fst (handle_cam_memorycard_synchronize v u c h))"
proof -
  have "base_command.truncate (fst (snd (on_cam_memorycard_synchronize u s a b h'))) = base_command.truncate s"
    for s a b h'
    using assms(1) by (simp add: keeps_reply_def)
  note t = this [THEN truncate_eqD]
  show ?thesis
    unfolding handle_cam_memorycard_synchronize_def Let_def split_beta
    using assms(2) by (auto simp: t intro!: answers_rules reply_answers)
qed

lemma handle_named_answers:
  assumes "bc_cmd (command_base c) = class_name c" "class_name c \<in> set answered_commands" "keeps_reply u"
  shows "answers (command_base c) (fst (handle_named v u c h))"
  using assms
  by (cases c)
    (simp_all add: answered_commands_def handler_answers timeline_answers synchronize_answers unset_string_def)

lemma answers_not_empty: "answers c r \<Longrightarrow> \<not> json_empty r"
  by (auto simp: answers_def json_empty_def)

lemma send_command_tx:
  "\<not> json_empty m \<Longrightarrow> ws_tx_q (h_ws (snd (send_command m h))) = ws_tx_q (h_ws h) @ [m]"
  by (simp add: send_command_def send_text_def ws_send_def)

lemma answered_named: "class_name c \<in> set answered_commands \<Longrightarrow> class_name c \<noteq> unset_string"
  by (auto simp: answered_commands_def unset_string_def)

text \<open>An agent whose functions all fail and change nothing, for the examples.\<close>

definition null_upcalls :: "('k, 'h) upcalls" where
  "null_upcalls =
     \<lparr>run_task = (\<lambda>_ h. h), run_ack = (\<lambda>_ _ _ h. h), on_closed = (\<lambda>_ _ h. h),
      on_prepared = (\<lambda>h. h), on_registered = (\<lambda>_ h. h),
      on_get_stream_config = (\<lambda>x h. (False, x, h)),
      on_set_stream_config = (\<lambda>_ h. (False, h)),
      on_get_motion_detection_config = (\<lambda>x h. (False, x, h)),
      on_set_motion_detection_config = (\<lambda>_ h. (False, h)),
      on_get_cam_video_config = (\<lambda>x h. (False, x, h)),
      on_set_cam_video_config = (\<lambda>_ h. (False, h)),
      on_get_cam_events_config = (\<lambda>x h. (False, x, h)),
      on_set_cam_events_config = (\<lambda>_ h. (False, h)),
      on_get_cam_audio_config = (\<lambda>x h. (False, x, h)),
      on_set_cam_audio_config = (\<lambda>_ h. (False, h)),
      on_get_ptz_config = (\<lambda>x h. (False, x, h)), on_cam_ptz = (\<lambda>_ h. (False, h)),
      on_cam_ptz_preset = (\<lambda>x h. (False, x, h)), on_get_osd_config = (\<lambda>x h. (False, x, h)),
      on_set_osd_config = (\<lambda>_ h. (False, h)), on_get_wifi_config = (\<lambda>x h. (False, x, h)),
      on_set_wifi_config = (\<lambda>_ h. (False, h)), on_stream_start = (\<lambda>_ _ _ h. (False, h)),
      on_stream_stop = (\<lambda>_ _ h. (False, h)), on_get_stream_caps = (\<lambda>x h. (False, x, h)),
      on_get_supported_streams = (\<lambda>x h. (False, x, h)),
      on_direct_upload_url = (\<lambda>_ _ _ h. (False, h)),
      on_get_timezone = (\<lambda>x h. (False, x, h)), on_set_timezone = (\<lambda>_ h. (False, h)),
      on_get_cam_memorycard_timeline = (\<lambda>x h. (False, x, h)),
      on_cam_memorycard_synchronize = (\<lambda>x _ _ h. (False, x, h)),
      on_cam_memorycard_synchronize_cancel = (\<lambda>_ h. (False, h)),
      on_cam_memorycard_recording = (\<lambda>_ _ h. (False, h)),
      on_trigger_event = (\<lambda>_ _ _ h. (False, h)), on_audio_file_play = (\<lambda>_ h. (False, h)),
      on_start_backward = (\<lambda>_ h. (False, h)), on_stop_backward = (\<lambda>_ h. (False, h)),
      on_raw_message = (\<lambda>_ x h. (False, x, h)),
      on_set_stream_by_event = (\<lambda>_ h. (False, h)),
      on_get_stream_by_event = (\<lambda>x h. (False, x, h)),
      on_update_preview = (\<lambda>_ h. (False, h)), on_cam_upgrade_firmware = (\<lambda>_ h. (False, h)),
      on_set_audio_detection = (\<lambda>_ h. (False, h)),
      on_get_audio_detection = (\<lambda>x h. (False, x, h)), on_get_log = (\<lambda>h. (False, h)),
      on_set_activity = (\<lambda>_ h. (False, h))\<rparr>"

definition demo_henv :: henv where
  "demo_henv = \<lparr>he_num = strict_num, he_now = [], he_from_iso_packed = \<lambda>_. 0, he_from_double = \<lambda>_. 0\<rparr>"

definition demo_handler :: "(nat, unit) handler" where
  "demo_handler = \<lparr>registered = False, bye_reason_st = BR_INVALID, bye_retry_st = 0, hello_received = False, acks = [],
     h_ws = \<lparr>ws_timers = \<lparr>lws_context = True, lws_running = True, cbs = Map.empty, next_cb = 0,
       scheduled_callbacks = [], armed = [], current = None, called = []\<rparr>, ws_wsi = True, ws_close = False,
       ws_ssl = False, ws_tx_q = [], ws_rx_q = [], ws_rx_tasks = [], ws_requests = []\<rparr>,
     reconnect_timer = None, cm_config = (manager_config_new profile_default)\<lparr>mc_cam_id := 5\<rparr>, msg_ids = 1,
     h_profile = profile_default, h_env = ()\<rparr>"

definition demo_message :: "int \<Rightarrow> json" where
  "demo_message cam = JObj [(''cmd'', JStr ''cam_get_log''), (''msgid'', JInt 9), (''cam_id'', JInt cam)]"

lemma demo_parse:
  "factory_parse (he_num demo_henv) (demo_message cam) (msg_ids demo_handler) =
   (Inr (Some (C_cam_get_log (struct_from_json (cam_get_log_fields strict_num) (demo_message cam)
      (cam_get_log_default 2)))), 2)"
  by (simp add: factory_parse_def demo_message_def demo_henv_def demo_handler_def fresh_id_def Let_def)

lemma demo_command:
  "int_ok cam \<Longrightarrow> struct_from_json (cam_get_log_fields strict_num) (demo_message cam) (cam_get_log_default 2) =
   \<lparr>bc_cmd = ''cam_get_log'', bc_msgid = 9, bc_cam_id = cam, bc_refid = UnsetInt, bc_orig_cmd = unset_string\<rparr>"
  by (simp add: struct_from_json_def cam_get_log_fields_def base_command_fields_def my_json_from_def demo_message_def
      field_defs cam_get_log_default_def base_command_default_def strict_num_def int_ok_def)

section \<open>Properties\<close>



text \<open>
  a command for another camera changes nothing: it is answered with an error, and neither the
  acknowledgements nor any function of the agent see it.
\<close>

theorem wrong_camera_rejected:
  assumes "factory_parse (he_num v) m (msg_ids h) = (Inr (Some c), n)"
    and "bc_cam_id (command_base c) \<noteq> UnsetInt" "mc_cam_id (cm_config h) \<noteq> 0"
    and "bc_cam_id (command_base c) \<noteq> mc_cam_id (cm_config h)"
  shows "handle_message v u m h = (Inr (), h\<lparr>msg_ids := n + 1, h_ws := (h_ws h)\<lparr>ws_tx_q := ws_tx_q (h_ws h) @
    [struct_to_json (done_cmd_fields (he_num v)) (fst (factory_done (command_base c) DS_CM_ERROR n))]\<rparr>\<rparr>)"
proof -
  have cmd: "bc_cmd (command_base c) = class_name c" and dn: "class_name c \<noteq> unset_string"
    using parsed_class(1) [OF assms(1)] by (simp, cases c) (simp_all add: unset_string_def)
  let ?r = "reply_done (he_num v) (command_base c) DS_CM_ERROR (h\<lparr>msg_ids := n\<rparr>)"
  have "answers (command_base c) (fst ?r)" by (rule answers_reply_done) (simp add: cmd dn)
  then have e: "\<not> json_empty (fst ?r)" by (rule answers_not_empty)
  have f: "fst ?r = struct_to_json (done_cmd_fields (he_num v)) (fst (factory_done (command_base c) DS_CM_ERROR n))"
    by (simp add: reply_done_def split_beta truncate_base)
  have "handle_message v u m h = (Inr (), snd (send_command (fst ?r) (snd ?r)))"
    using assms by (simp add: handle_message_def handle_command_def Let_def split_beta)
  also have "\<dots> = (Inr (), (snd ?r)\<lparr>h_ws := (h_ws h)\<lparr>ws_tx_q := ws_tx_q (h_ws h) @ [fst ?r]\<rparr>\<rparr>)"
    using e by (simp add: send_command_def send_text_def ws_send_def reply_done_eq)
  also have "\<dots> = (Inr (), h\<lparr>msg_ids := n + 1, h_ws := (h_ws h)\<lparr>ws_tx_q := ws_tx_q (h_ws h) @ [fst ?r]\<rparr>\<rparr>)"
    by (simp add: reply_done_eq)
  finally show ?thesis by (simp add: f)
qed

theorem wrong_camera_rejected_witness:
  "acks (snd (handle_message demo_henv null_upcalls (demo_message 6) demo_handler)) = [] \<and>
   length (ws_tx_q (h_ws (snd (handle_message demo_henv null_upcalls (demo_message 6) demo_handler)))) = 1"
proof -
  have "bc_cam_id (command_base (C_cam_get_log (struct_from_json (cam_get_log_fields strict_num) (demo_message 6)
      (cam_get_log_default 2)))) = 6"
    by (simp add: demo_command int_ok_def)
  then show ?thesis
    using wrong_camera_rejected [OF demo_parse, of 6 null_upcalls]
    by (simp add: UnsetInt_def) (simp add: demo_handler_def manager_config_new_def set_channel_def)
qed

text \<open>
  a request that timed out stays among the acknowledgements, so a late reply runs its callback a
  second time, now as answered.
\<close>

theorem late_reply_acked_twice:
  assumes "send_command_wait_ack num m k h = (Inr ok, h1)" "json_at ''msgid'' m = Some (JInt i)"
    and "as_int num (JInt i) = Some i" "bc_refid (command_base c) = i"
    and "acks (run_htask u (Ack_Timeout k) h1) = acks h1"
  shows "\<exists>h3. handle_command_ack u c (run_htask u (Ack_Timeout k) h1) =
    (let h4 = run_ack u k False (Some c) h3 in h4\<lparr>acks := AList.delete i (acks h4)\<rparr>)"
proof -
  obtain t where "map_of (acks h1) i = Some \<lparr>ack_cb = Some k, timeout_cb = t\<rparr>"
    using assms(1-3)
    by (auto simp: send_command_wait_ack_def Let_def send_command_def send_text_def ws_send_def update_conv'
        split: prod.splits if_splits)
  then show ?thesis
    using assms(4,5) by (auto simp: handle_command_ack_def Let_def)
qed

theorem late_reply_acked_twice_witness:
  "\<exists>h3. handle_command_ack null_upcalls (C_bye ((bye_default 3)\<lparr>bc_refid := 9\<rparr>)) (run_htask null_upcalls (Ack_Timeout 4)
     (snd (send_command_wait_ack strict_num (demo_message 5) 4 demo_handler))) =
    (let h4 = run_ack null_upcalls 4 False (Some (C_bye ((bye_default 3)\<lparr>bc_refid := 9\<rparr>))) h3
     in h4\<lparr>acks := AList.delete 9 (acks h4)\<rparr>)"
proof -
  obtain ok h1 where s: "send_command_wait_ack strict_num (demo_message 5) 4 demo_handler = (Inr ok, h1)"
    by (simp add: send_command_wait_ack_def Let_def demo_message_def strict_num_def int_ok_def split_beta)
  have "json_at ''msgid'' (demo_message 5) = Some (JInt 9)" by (simp add: demo_message_def)
  from late_reply_acked_twice [OF s this, of "C_bye ((bye_default 3)\<lparr>bc_refid := 9\<rparr>)" null_upcalls] s show ?thesis
    by (simp add: strict_num_def int_ok_def null_upcalls_def)
qed

lemma flush_loop_some: "flush_loop u it h = Some y \<Longrightarrow> it = None"
  by (rule flush_loop.raw_induct [where P = "\<lambda>u it h y. it = None"]) (auto split: option.splits)

lemma flush_loop_stuck: "flush_loop u (Some a) h = None"
  using flush_loop_some by fastforce

text \<open>
  flushing the acknowledgements returns exactly when there are none: the loop does not advance.
\<close>

theorem flush_command_acks_returns:
  "flush_command_acks u h \<noteq> None \<longleftrightarrow> acks h = []"
proof (cases "acks h = []")
  case True
  then show ?thesis by (simp add: flush_command_acks_def flush_loop.simps)
next
  case False
  let ?k = "Min (set (map fst (acks h)))"
  have "?k \<in> set (map fst (acks h))" using False by (intro Min_in) simp_all
  then obtain a where "map_of (acks h) ?k = Some a" by (metis list.set_map map_of_eq_None_iff not_None_eq)
  then show ?thesis using False by (simp add: flush_command_acks_def flush_loop_stuck)
qed

lemma status_reply_done: "json_at ''status'' (fst (reply_done num c DS_OK h)) = Some (JStr ''OK'')"
  by (simp add: reply_done_eq struct_to_json_def done_cmd_fields_def base_command_fields_def json_at_my_json_to
      field_out_def field_defs never_def enum_to_def done_status_table_def)

text \<open>
  setting the wireless network is reported as a success even when the device refused it.
\<close>

theorem set_wifi_always_ok:
  "json_at ''status'' (fst (handle_cam_set_current_wifi v u c h)) = Some (JStr ''OK'')"
  by (simp add: handle_cam_set_current_wifi_def Let_def split_beta status_reply_done)

end
