(* ===== verification/Manager_State.thy ===== *)
theory Manager_State
  imports Event_State Command_Handler Ordered_Map
begin

text \<open>
  The state of \<^verbatim>\<open>manager\<close> of \<^verbatim>\<open>src/src/agent/manager.h\<close>, what it is given by the application and the
  callbacks it hands to the transports. The media streams, the event streams and the callback object are
  the application's own classes: their virtual functions are the record \<open>device\<close> over the application's
  state \<open>'d\<close>, which also holds the clock. Streams and event streams are numbered from one, the order of the vectors.
\<close>

section \<open>The application\<close>

record 'd device =
  clock_now :: "'d \<Rightarrow> time \<times> 'd"
  clock_utc :: "'d \<Rightarrow> double \<times> 'd"
  cloud_name :: "nat \<Rightarrow> string"
  stream_start :: "nat \<Rightarrow> 'd \<Rightarrow> bool \<times> 'd"
  stream_stop :: "nat \<Rightarrow> 'd \<Rightarrow> 'd"
  start_sink :: "nat \<Rightarrow> string \<Rightarrow> 'd \<Rightarrow> bool \<times> 'd"
  stop_sink :: "nat \<Rightarrow> 'd \<Rightarrow> 'd"
  record_needs_source :: "nat \<Rightarrow> bool"
  start_record :: "nat \<Rightarrow> 'd \<Rightarrow> bool \<times> 'd"
  stop_record :: "nat \<Rightarrow> 'd \<Rightarrow> 'd"
  record_get_list :: "nat \<Rightarrow> time \<Rightarrow> time \<Rightarrow> bool \<Rightarrow> 'd \<Rightarrow> clip list \<times> 'd"
  record_export :: "nat \<Rightarrow> time \<Rightarrow> time \<Rightarrow> 'd \<Rightarrow> clip \<times> 'd"
  get_snapshot :: "nat \<Rightarrow> snapshot_info_object \<Rightarrow> 'd \<Rightarrow> bool \<times> snapshot_info_object \<times> 'd"
  dv_get_stream_caps :: "nat \<Rightarrow> stream_caps \<Rightarrow> 'd \<Rightarrow> bool \<times> stream_caps \<times> 'd"
  get_supported_stream :: "nat \<Rightarrow> supported_stream_config \<Rightarrow> 'd \<Rightarrow> bool \<times> supported_stream_config \<times> 'd"
  dv_get_stream_config :: "nat \<Rightarrow> stream_config \<Rightarrow> 'd \<Rightarrow> bool \<times> stream_config \<times> 'd"
  dv_set_stream_config :: "nat \<Rightarrow> stream_config \<Rightarrow> 'd \<Rightarrow> bool \<times> 'd"
  evs_name :: "nat \<Rightarrow> string"
  evs_start :: "nat \<Rightarrow> 'd \<Rightarrow> 'd"
  evs_stop :: "nat \<Rightarrow> 'd \<Rightarrow> 'd"
  evs_get_events :: "nat \<Rightarrow> event_config list \<Rightarrow> 'd \<Rightarrow> bool \<times> event_config list \<times> 'd"
  evs_set_events :: "nat \<Rightarrow> event_config list \<Rightarrow> 'd \<Rightarrow> 'd"
  evs_trigger_event :: "nat \<Rightarrow> event_object \<Rightarrow> 'd \<Rightarrow> bool \<times> 'd"
  evs_set_trigger_recording :: "nat \<Rightarrow> bool \<Rightarrow> int \<Rightarrow> int \<Rightarrow> 'd \<Rightarrow> 'd"
  cb_on_bye :: "bye_reason \<Rightarrow> 'd \<Rightarrow> 'd"
  cb_on_registered :: "string \<Rightarrow> 'd \<Rightarrow> 'd"
  cb_on_raw_msg :: "string \<Rightarrow> string \<Rightarrow> 'd \<Rightarrow> bool \<times> string \<times> 'd"
  cb_on_get_log :: "string \<Rightarrow> 'd \<Rightarrow> bool \<times> string \<times> 'd"
  cb_on_start_backward_audio :: "string \<Rightarrow> 'd \<Rightarrow> bool \<times> 'd"
  cb_on_stop_backward_audio :: "string \<Rightarrow> 'd \<Rightarrow> bool \<times> 'd"
  cb_on_get_cam_video_config :: "video_config \<Rightarrow> 'd \<Rightarrow> bool \<times> video_config \<times> 'd"
  cb_on_set_cam_video_config :: "video_config \<Rightarrow> 'd \<Rightarrow> bool \<times> 'd"
  cb_on_get_cam_audio_config :: "audio_config \<Rightarrow> 'd \<Rightarrow> bool \<times> audio_config \<times> 'd"
  cb_on_set_cam_audio_config :: "audio_config \<Rightarrow> 'd \<Rightarrow> bool \<times> 'd"
  cb_on_get_ptz_config :: "ptz_config \<Rightarrow> 'd \<Rightarrow> bool \<times> ptz_config \<times> 'd"
  cb_on_cam_ptz :: "ptz_command \<Rightarrow> 'd \<Rightarrow> bool \<times> 'd"
  cb_on_cam_ptz_preset :: "ptz_preset \<Rightarrow> 'd \<Rightarrow> bool \<times> ptz_preset \<times> 'd"
  cb_on_get_osd_config :: "osd_config \<Rightarrow> 'd \<Rightarrow> bool \<times> osd_config \<times> 'd"
  cb_on_set_osd_config :: "osd_config \<Rightarrow> 'd \<Rightarrow> bool \<times> 'd"
  cb_on_get_wifi_config :: "wifi_config \<Rightarrow> 'd \<Rightarrow> bool \<times> wifi_config \<times> 'd"
  cb_on_set_wifi_config :: "wifi_network \<Rightarrow> 'd \<Rightarrow> bool \<times> 'd"
  cb_on_get_motion_detection_config :: "motion_detection_config \<Rightarrow> 'd \<Rightarrow> bool \<times> motion_detection_config \<times> 'd"
  cb_on_set_motion_detection_config :: "motion_detection_config \<Rightarrow> 'd \<Rightarrow> bool \<times> 'd"
  cb_on_get_cam_events_config :: "events_config \<Rightarrow> 'd \<Rightarrow> bool \<times> events_config \<times> 'd"
  cb_on_set_cam_events_config :: "events_config \<Rightarrow> 'd \<Rightarrow> bool \<times> 'd"
  cb_on_get_timezone :: "string \<Rightarrow> 'd \<Rightarrow> bool \<times> string \<times> 'd"
  cb_on_set_timezone :: "string \<Rightarrow> 'd \<Rightarrow> bool \<times> 'd"
  cb_on_get_memorycard_info :: "memorycard_info_object \<Rightarrow> 'd \<Rightarrow> bool \<times> memorycard_info_object \<times> 'd"
  cb_on_cam_upgrade_firmware :: "string \<Rightarrow> 'd \<Rightarrow> 'd"
  cb_on_audio_file_play :: "string \<Rightarrow> string \<Rightarrow> 'd \<Rightarrow> 'd"
  cb_on_trigger_event :: "event_object \<Rightarrow> 'd \<Rightarrow> bool \<times> event_object \<times> 'd"
  cb_on_set_audio_detection :: "audio_detection_config \<Rightarrow> 'd \<Rightarrow> bool \<times> 'd"
  cb_on_get_audio_detection :: "audio_detection_config \<Rightarrow> 'd \<Rightarrow> bool \<times> audio_detection_config \<times> 'd"

text \<open>The libraries: those of the command handler, the date library and the speed of an upload as a double.\<close>

record menv =
  me_h :: henv
  me_to_double :: "time \<Rightarrow> double"
  me_to_iso_packed :: "time \<Rightarrow> string"
  me_parse :: "string \<Rightarrow> json option"

section \<open>Callbacks\<close>

text \<open>
  A direct upload with its two callbacks: those of the segmenter it belongs to, or the default ones,
  which do nothing and are never canceled.
\<close>

record direct_upload =
  du_cmd :: get_direct_upload_url
  du_seg :: "seg_id option"

text \<open>Closures handed to the websocket's timers, acknowledgements and receiving thread.\<close>

datatype mtask =
    Ack_Upload direct_upload
  | Ack_Event int bool bool
  | Trigger_Periodic event_config
  | Start_Providers
  | Start_On_Rx string int stream_reason
  | Stop_On_Rx string stream_reason
  | Stop_All_On_Rx nat

text \<open>Closures on the timers of the direct uploads.\<close>

datatype dtask = Upload_Sync | Enqueue_Upload direct_upload | Cancel_Ticket string

text \<open>HTTP requests with their response callbacks.\<close>

datatype media_kind = Snapshot_Media | Record_Media | Meta_Media | No_Media

datatype http_job =
    Upload_Job media_kind "seg_id option"
  | Preview_Job
  | Firmware_Job
  | Log_Job
  | Audio_Job string

record http_request =
  rq_url :: string
  rq_method :: string
  rq_body :: "byte list"
  rq_headers :: "(string \<times> string) list"
  rq_job :: http_job

section \<open>State\<close>

record recording_status =
  rs_permanent :: bool
  rs_by_event :: bool
  rs_direct_upload :: bool
  rs_started :: bool
  rs_stream_id :: string
  rs_last_start_time :: time
  rs_external_stop_count :: nat

definition recording_status_default :: recording_status where
  "recording_status_default = \<lparr>rs_permanent = False, rs_by_event = False, rs_direct_upload = False, rs_started = False,
     rs_stream_id = [], rs_last_start_time = 0, rs_external_stop_count = 0\<rparr>"

text \<open>
  \<open>m_finalize\<close> and \<open>m_cancels\<close> are the finalizations and cancellations scheduled on the uploader's thread,
  \<open>m_http_requests\<close> the requests under way, \<open>m_cur_upload\<close> the callbacks that an acknowledgement has put
  into the command being handled, \<open>m_fault\<close> that a null pointer was dereferenced or an exception left
  the manager.
\<close>

record 'd mgr =
  m_svcp_url :: string
  m_events_config :: events_config
  m_snapshots :: "(int \<times> snapshot_info_object) list"
  m_records :: "(int \<times> clip) list"
  m_meta_files :: "(int \<times> file_meta_info_object) list"
  m_http_timers :: "etask lws_common"
  m_http_requests :: "http_request list"
  m_du_timers :: "dtask lws_common"
  m_streams :: "nat list"
  m_event_streams :: "nat list"
  m_active_sinks :: int
  m_record_event_depth :: int
  m_record_by_event :: bool
  m_stream_by_event :: bool
  m_continuos_direct_record :: bool
  m_pre_record_time :: int
  m_post_record_time :: int
  m_record_stream :: "nat option"
  m_live_stream :: "nat option"
  m_snapshot_stream :: "nat option"
  m_preview_uploading :: bool
  m_timed_cb_direct_uploader :: "cb_id option"
  m_memorycard_info :: memorycard_info_object
  m_video_q :: "direct_upload list"
  m_snapshot_q :: "direct_upload list"
  m_periodic_events :: "(string \<times> cb_id option) list"
  m_uploader :: uploader
  m_next_seg :: seg_id
  m_finalize :: "(seg_id \<times> time) list"
  m_cancels :: "string list"
  m_events_states :: "(string \<times> event_state) list"
  m_event_streams_configs :: "(string \<times> event_config list) list"
  m_recording :: "nat \<Rightarrow> recording_status"
  m_auto_reconnect :: bool
  m_stats :: debug_stats
  m_cur_upload :: "seg_id option option"
  m_dev :: 'd
  m_fault :: bool

type_synonym 'd agent = "(mtask, 'd mgr) handler"

definition upd_m :: "('d mgr \<Rightarrow> 'd mgr) \<Rightarrow> 'd agent \<Rightarrow> 'd agent" where
  "upd_m f h = h\<lparr>h_env := f (h_env h)\<rparr>"

definition fault :: "'d agent \<Rightarrow> 'd agent" where
  "fault h = upd_m (\<lambda>m. m\<lparr>m_fault := True\<rparr>) h"

definition upd_stats :: "(debug_stats \<Rightarrow> debug_stats) \<Rightarrow> 'd agent \<Rightarrow> 'd agent" where
  "upd_stats f h = upd_m (\<lambda>m. m\<lparr>m_stats := f (m_stats m)\<rparr>) h"

definition upd_rec :: "nat \<Rightarrow> (recording_status \<Rightarrow> recording_status) \<Rightarrow> 'd agent \<Rightarrow> 'd agent" where
  "upd_rec s f h = upd_m (\<lambda>m. m\<lparr>m_recording := (m_recording m)(s := f (m_recording m s))\<rparr>) h"

text \<open>A call of the application that changes its state only, without and with a result.\<close>

definition dev_do :: "('d \<Rightarrow> 'd) \<Rightarrow> 'd agent \<Rightarrow> 'd agent" where
  "dev_do f h = upd_m (\<lambda>m. m\<lparr>m_dev := f (m_dev m)\<rparr>) h"

definition dev_call :: "('d \<Rightarrow> 'a \<times> 'd) \<Rightarrow> 'd agent \<Rightarrow> 'a \<times> 'd agent" where
  "dev_call f h = (case f (m_dev (h_env h)) of (x, d) \<Rightarrow> (x, upd_m (\<lambda>m. m\<lparr>m_dev := d\<rparr>) h))"

definition dev_call2 :: "('d \<Rightarrow> 'a \<times> 'b \<times> 'd) \<Rightarrow> 'd agent \<Rightarrow> 'a \<times> 'b \<times> 'd agent" where
  "dev_call2 f h = (case f (m_dev (h_env h)) of (x, y, d) \<Rightarrow> (x, y, upd_m (\<lambda>m. m\<lparr>m_dev := d\<rparr>) h))"

section \<open>The states of the events\<close>

text \<open>\<open>events_states_[n]\<close> followed by an operation of the event's state; a missing entry is constructed by default.\<close>

definition event_env_of :: "menv \<Rightarrow> profile \<Rightarrow> event_env" where
  "event_env_of e p = \<lparr>ee_from_double = he_from_double (me_h e), ee_to_double = me_to_double e,
     ee_upload_step = pf_record_by_event_upload_step p,
     ee_upload_delay = pf_delay_between_event_and_records_upload_start p\<rparr>"

definition ctx_of :: "string \<Rightarrow> event_state \<Rightarrow> 'd mgr \<Rightarrow> event_ctx" where
  "ctx_of n s m = \<lparr>ev_name = n, ev_state = s, ev_up = m_uploader m, ev_timers = m_http_timers m, ev_next_seg = m_next_seg m,
     ev_finalize = m_finalize m, ev_notified = [], ev_fault = m_fault m\<rparr>"

definition put_ctx :: "event_ctx \<Rightarrow> 'd mgr \<Rightarrow> 'd mgr" where
  "put_ctx c m = m\<lparr>m_events_states := map_put (ev_name c) (ev_state c) (m_events_states m), m_uploader := ev_up c,
     m_http_timers := ev_timers c, m_next_seg := ev_next_seg c, m_finalize := ev_finalize c, m_fault := ev_fault c\<rparr>"

definition event_at :: "string \<Rightarrow> 'd mgr \<Rightarrow> event_ctx" where
  "event_at n m =
     (case map_of (m_events_states m) n of
        Some s \<Rightarrow> ctx_of n s m
      | None \<Rightarrow> segment_reset (ctx_of n event_state_default m))"

definition on_event :: "string \<Rightarrow> (event_ctx \<Rightarrow> event_ctx) \<Rightarrow> 'd agent \<Rightarrow> 'd agent" where
  "on_event n f h = upd_m (\<lambda>m. put_ctx (f (event_at n m)) m) h"

text \<open>Assigning a newly constructed state swaps it with the old one, whose destructor then runs on what was swapped out.\<close>

definition lookup_stream :: "'d device \<Rightarrow> string \<Rightarrow> 'd mgr \<Rightarrow> nat option" where
  "lookup_stream d n m = List.find (\<lambda>s. cloud_name d s = n) (m_streams m)"

definition provider_of :: "nat option \<Rightarrow> nat" where
  "provider_of s = (case s of None \<Rightarrow> 0 | Some i \<Rightarrow> i)"

definition lookup_event_stream :: "'d device \<Rightarrow> string \<Rightarrow> 'd mgr \<Rightarrow> nat option" where
  "lookup_event_stream d n m = List.find (\<lambda>s. n = evs_name d s) (m_event_streams m)"

fun lookup_event_stream_by_event :: "event_object \<Rightarrow> (string \<times> event_config list) list \<Rightarrow> string option" where
  "lookup_event_stream_by_event ev [] = None"
| "lookup_event_stream_by_event ev ((n, cs) # kvs) =
     (if \<exists>c \<in> set cs. eo_event ev = evc_event c \<and> eo_custom_event_name ev = evc_custom_event_name c
      then Some n else lookup_event_stream_by_event ev kvs)"

end
