(* ===== verification/Manager_Upload.thy ===== *)
theory Manager_Upload
  imports Manager_State
begin

text \<open>
  Direct uploads of \<^verbatim>\<open>src/src/agent/manager.cc\<close>: the uploader's requests are queued, a periodic pass asks
  the cloud for upload URLs within the limits of the profile, the cloud's reply starts an HTTP request
  whose response reports back to the uploader.
\<close>

section \<open>The callbacks of an upload\<close>

definition upload_canceled :: "seg_id option \<Rightarrow> 'd mgr \<Rightarrow> bool" where
  "upload_canceled seg m = (case seg of None \<Rightarrow> False | Some i \<Rightarrow> canceled (store (m_uploader m) i))"

definition du_schedule :: "dtask \<Rightarrow> 'd agent \<Rightarrow> cb_id option \<times> 'd agent" where
  "du_schedule t h = (case schedule_timed_cb t (m_du_timers (h_env h)) of (i, l) \<Rightarrow> (i, upd_m (\<lambda>m. m\<lparr>m_du_timers := l\<rparr>) h))"

definition schedule_direct_upload :: "direct_upload \<Rightarrow> 'd agent \<Rightarrow> bool \<times> 'd agent" where
  "schedule_direct_upload x h =
     (let x = x\<lparr>du_cmd := (du_cmd x)\<lparr>bc_cam_id := mc_cam_id (cm_config h)\<rparr>\<rparr> in
      if upload_canceled (du_seg x) (h_env h) then (False, h)
      else (True, snd (du_schedule (Enqueue_Upload x) h)))"

text \<open>
  What the uploader hands to its two callbacks, which are the manager's: a progress report is sent, a
  request scheduled.
\<close>

definition send_report :: "menv \<Rightarrow> sync_status \<Rightarrow> 'd agent \<Rightarrow> 'd agent" where
  "send_report e r h =
     (case fresh_id (msg_ids h) of (i, n) \<Rightarrow>
        let num = he_num (me_h e);
            c = (cam_memorycard_synchronize_status_default i)
              \<lparr>bc_cam_id := at_camid (mc_access_token (cm_config h)), cmss_progress := int (ss_progress r),
               cmss_request_id := ss_request_id r, cmss_status := ss_status r\<rparr>
        in snd (send_command (struct_to_json (cam_memorycard_synchronize_status_fields num) c) (h\<lparr>msg_ids := n\<rparr>)))"

definition send_request :: "menv \<Rightarrow> 'd device \<Rightarrow> direct_request \<Rightarrow> 'd agent \<Rightarrow> 'd agent" where
  "send_request e d r h =
     (case fresh_id (msg_ids h) of (i, n) \<Rightarrow>
        let c = (get_direct_upload_url_default i)
              \<lparr>gduu_category := UC_RECORD, gduu_type := MT_MP4, gduu_file_time := me_to_iso_packed e (dq_file_time r),
               gduu_duration := to_int32 (dq_duration r), gduu_duration_us := dq_duration_us r * 1000,
               gduu_size := to_int32 (int (dq_size r)), gduu_stream_id := cloud_name d (dq_provider r),
               gduu_memorycard_sync_ticket := dq_ticket r\<rparr>
        in snd (schedule_direct_upload \<lparr>du_cmd = c, du_seg = Some (dq_seg r)\<rparr> (h\<lparr>msg_ids := n\<rparr>)))"

definition set_uploader :: "menv \<Rightarrow> 'd device \<Rightarrow> uploader \<Rightarrow> 'd agent \<Rightarrow> 'd agent" where
  "set_uploader e d u h =
     (let old = m_uploader (h_env h);
          h = upd_m (\<lambda>m. m\<lparr>m_uploader := u\<rparr>) h;
          h = fold (send_report e) (drop (length (sent old)) (sent u)) h
      in fold (send_request e d) (drop (length (requested old)) (requested u)) h)"

definition finish_upload :: "menv \<Rightarrow> 'd device \<Rightarrow> seg_id option \<Rightarrow> bool \<Rightarrow> 'd agent \<Rightarrow> 'd agent" where
  "finish_upload e d seg ok h =
     (case seg of
        None \<Rightarrow> h
      | Some i \<Rightarrow>
          (case on_finished i ok (m_uploader (h_env h)) of
             None \<Rightarrow> fault h
           | Some u \<Rightarrow> set_uploader e d u h))"

section \<open>The queue\<close>

text \<open>The bodies of the tasks on the timers of the direct uploads.\<close>

definition enqueue_upload :: "direct_upload \<Rightarrow> 'd mgr \<Rightarrow> 'd mgr" where
  "enqueue_upload x m =
     (case gduu_category (du_cmd x) of
        UC_RECORD \<Rightarrow> m\<lparr>m_video_q := m_video_q m @ [x]\<rparr>
      | UC_SNAPSHOT \<Rightarrow> m\<lparr>m_snapshot_q := m_snapshot_q m @ [x]\<rparr>
      | _ \<Rightarrow> m)"

definition cancel_queued :: "string \<Rightarrow> 'd mgr \<Rightarrow> 'd mgr" where
  "cancel_queued t m =
     m\<lparr>m_video_q := filter (\<lambda>x. \<not> (gduu_memorycard_sync_ticket (du_cmd x) \<noteq> [] \<and>
         t = gduu_memorycard_sync_ticket (du_cmd x))) (m_video_q m)\<rparr>"

definition cancel_direct_uploads_by_ticket :: "string \<Rightarrow> 'd agent \<Rightarrow> 'd agent" where
  "cancel_direct_uploads_by_ticket t h = snd (du_schedule (Cancel_Ticket t) h)"

text \<open>\<open>_update_direct_upload_queue_latency\<close>: what is left of the queue; the clock is read for every element.\<close>

fun drop_late :: "menv \<Rightarrow> 'd device \<Rightarrow> direct_upload list \<Rightarrow> 'd agent \<Rightarrow> direct_upload list \<times> 'd agent" where
  "drop_late e d [] h = ([], h)"
| "drop_late e d (x # xs) h =
     (let (now, h) = dev_call (clock_now d) h;
          late = (he_from_iso_packed (me_h e) (gduu_file_time (du_cmd x)) <
                    now - pf_max_video_uploads_queue_lateness (h_profile h) \<and>
                  gduu_memorycard_sync_ticket (du_cmd x) = []);
          h = (if late then upd_stats (\<lambda>s. s\<lparr>records_upload_failed := records_upload_failed s + 1\<rparr>)
                 (finish_upload e d (du_seg x) False h) else h);
          (q, h) = drop_late e d xs h
      in (if late then q else x # q, h))"

definition update_direct_upload_queue_latency :: "menv \<Rightarrow> 'd device \<Rightarrow> 'd agent \<Rightarrow> 'd agent" where
  "update_direct_upload_queue_latency e d h =
     (let (q, h) = drop_late e d (m_video_q (h_env h)) h in upd_m (\<lambda>m. m\<lparr>m_video_q := q\<rparr>) h)"

section \<open>Asking for an upload URL\<close>

definition export_window :: "menv \<Rightarrow> get_direct_upload_url \<Rightarrow> time \<times> time" where
  "export_window e c =
     (let b = he_from_iso_packed (me_h e) (gduu_file_time c);
          du = (if gduu_duration_us c = 0 then gduu_duration c * 1000000 else gduu_duration_us c)
      in (b, b + du))"

definition request_direct_upload_video :: "menv \<Rightarrow> 'd device \<Rightarrow> direct_upload \<Rightarrow> 'd agent \<Rightarrow> bool \<times> 'd agent" where
  "request_direct_upload_video e d x h =
     (case lookup_stream d (gduu_stream_id (du_cmd x)) (h_env h) of
        None \<Rightarrow> (False, finish_upload e d (du_seg x) False h)
      | Some s \<Rightarrow>
          let (b, en) = export_window e (du_cmd x);
              (c, h) = dev_call (record_export d s b en) h
          in if clip_data c \<noteq> [] \<and> has_times c then
               let x = x\<lparr>du_cmd := (du_cmd x)\<lparr>gduu_size := to_int32 (int (length (clip_data c)))\<rparr>\<rparr>;
                   h = upd_m (\<lambda>m. m\<lparr>m_records := AList.update (bc_msgid (du_cmd x)) c (m_records m)\<rparr>) h;
                   num = he_num (me_h e)
               in (case send_command_wait_ack num (struct_to_json (get_direct_upload_url_fields num) (du_cmd x))
                          (Ack_Upload x) h of
                     (Inl _, h) \<Rightarrow> (True, fault h)
                   | (Inr _, h) \<Rightarrow> (True, h))
             else (False, finish_upload e d (du_seg x) False
                     (upd_stats (\<lambda>s. s\<lparr>records_upload_failed := records_upload_failed s + 1\<rparr>) h)))"

text \<open>The loop of \<open>direct_upload_sync_cb\<close> over the queue, which nothing in its body extends.\<close>

definition room_for_upload :: "'d agent \<Rightarrow> bool" where
  "room_for_upload h \<longleftrightarrow>
     records_uploading (m_stats (h_env h)) < pf_max_concurent_video_uploads (h_profile h) \<and>
     length (m_records (h_env h)) < pf_max_concurent_video_uploads (h_profile h)"

fun sync_loop :: "menv \<Rightarrow> 'd device \<Rightarrow> direct_upload list \<Rightarrow> 'd agent \<Rightarrow> 'd agent" where
  "sync_loop e d [] h = h"
| "sync_loop e d (x # q) h =
     (if room_for_upload h then
        let h = upd_m (\<lambda>m. m\<lparr>m_video_q := q\<rparr>) h in
        if upload_canceled (du_seg x) (h_env h) then sync_loop e d q h
        else if gduu_category (du_cmd x) = UC_RECORD then
          (case request_direct_upload_video e d x h of (ok, h) \<Rightarrow> if ok then h else sync_loop e d q h)
        else sync_loop e d q h
      else h)"

definition direct_upload_sync_cb :: "menv \<Rightarrow> 'd device \<Rightarrow> 'd agent \<Rightarrow> 'd agent" where
  "direct_upload_sync_cb e d h =
     (let h = update_direct_upload_queue_latency e d h;
          h = upd_stats (\<lambda>s. s\<lparr>records_upload_queued := int (length (m_video_q (h_env h)))\<rparr>) h;
          h = (if registered h then sync_loop e d (m_video_q (h_env h)) h else h);
          (t, h) = du_schedule Upload_Sync h
      in upd_m (\<lambda>m. m\<lparr>m_timed_cb_direct_uploader := t\<rparr>) h)"

fun run_dtask :: "menv \<Rightarrow> 'd device \<Rightarrow> dtask \<Rightarrow> 'd agent \<Rightarrow> 'd agent" where
  "run_dtask e d Upload_Sync h = direct_upload_sync_cb e d h"
| "run_dtask e d (Enqueue_Upload x) h = upd_m (enqueue_upload x) h"
| "run_dtask e d (Cancel_Ticket t) h = upd_m (cancel_queued t) h"

text \<open>
  The acknowledgement of a request. A timeout drops the record; a reply with status OK gives the reply the
  upload's callbacks (nobody reads them when the reply has no URL); the null pointer of a failed cast is
  dereferenced.
\<close>

definition ack_upload :: "menv \<Rightarrow> 'd device \<Rightarrow> direct_upload \<Rightarrow> bool \<Rightarrow> command option \<Rightarrow> 'd agent \<Rightarrow> 'd agent" where
  "ack_upload e d x timedout c h =
     (if timedout then
        upd_stats (\<lambda>s. s\<lparr>records_upload_failed := records_upload_failed s + 1\<rparr>)
          (upd_m (\<lambda>m. m\<lparr>m_records := AList.delete (bc_msgid (du_cmd x)) (m_records m)\<rparr>)
             (finish_upload e d (du_seg x) False h))
      else
        case c of
          Some (C_direct_upload_url r) \<Rightarrow>
            (let b = duu_direct_upload_url_base r in
             if duub_status b = ''OK'' then
               (if duub_url b \<noteq> unset_string then upd_m (\<lambda>m. m\<lparr>m_cur_upload := Some (du_seg x)\<rparr>) h else h)
             else finish_upload e d (du_seg x) False h)
        | _ \<Rightarrow> fault h)"

section \<open>The upload\<close>

text \<open>What is uploaded for a reply: the kind of the media, its data and the state without the entry.\<close>

definition category_allows :: "upload_category \<Rightarrow> upload_category \<Rightarrow> bool" where
  "category_allows c k \<longleftrightarrow> c = UC_INVALID \<or> c = k"

definition waiting :: "(int \<times> 'a) list \<Rightarrow> int \<Rightarrow> upload_category \<Rightarrow> upload_category \<Rightarrow> bool" where
  "waiting xs refid cat k \<longleftrightarrow> map_of xs refid \<noteq> None \<and> category_allows cat k"

definition media_for :: "upload_category \<Rightarrow> int \<Rightarrow> bool \<Rightarrow> 'd mgr \<Rightarrow> media_kind \<times> byte list \<times> 'd mgr" where
  "media_for cat refid cancel m =
     (if waiting (m_snapshots m) refid cat UC_SNAPSHOT then
        let data = sio_image_data (the (map_of (m_snapshots m) refid)) in
        (Snapshot_Media, data,
         m\<lparr>m_snapshots := AList.delete refid (m_snapshots m),
           m_stats := (m_stats m)\<lparr>snapshots_uploading :=
             snapshots_uploading (m_stats m) + (if data \<noteq> [] then 1 else 0)\<rparr>\<rparr>)
      else if waiting (m_records m) refid cat UC_RECORD then
        let data = clip_data (the (map_of (m_records m) refid)) in
        (Record_Media, data,
         m\<lparr>m_records := AList.delete refid (m_records m),
           m_stats := (m_stats m)\<lparr>records_uploading :=
             records_uploading (m_stats m) + (if data \<noteq> [] \<and> \<not> cancel then 1 else 0)\<rparr>\<rparr>)
      else if waiting (m_meta_files m) refid cat UC_FILE_META then
        let data = map of_char (fmio_data (the (map_of (m_meta_files m) refid))) in
        (Meta_Media, data,
         m\<lparr>m_meta_files := AList.delete refid (m_meta_files m),
           m_stats := (m_stats m)\<lparr>file_meta_uploading :=
             file_meta_uploading (m_stats m) + (if data \<noteq> [] then 1 else 0)\<rparr>\<rparr>)
      else (No_Media, [], m))"

definition http_make :: "http_request \<Rightarrow> 'd agent \<Rightarrow> bool \<times> 'd agent" where
  "http_make r h = (True, upd_m (\<lambda>m. m\<lparr>m_http_requests := m_http_requests m @ [r]\<rparr>) h)"

definition mgr_on_direct_upload_url :: "menv \<Rightarrow> 'd device \<Rightarrow> direct_upload_url_base \<Rightarrow> int \<Rightarrow> int \<Rightarrow> 'd agent \<Rightarrow> bool \<times> 'd agent" where
  "mgr_on_direct_upload_url e d b event_id refid h =
     (let seg = (case m_cur_upload (h_env h) of None \<Rightarrow> None | Some s \<Rightarrow> s);
          h = upd_m (\<lambda>m. m\<lparr>m_cur_upload := None\<rparr>) h;
          cancel = upload_canceled seg (h_env h);
          (k, data, m) = media_for (duub_category b) refid cancel (h_env h);
          h = h\<lparr>h_env := m\<rparr>
      in if data \<noteq> [] \<and> \<not> cancel then
           http_make \<lparr>rq_url = duub_url b, rq_method = ''PUT'', rq_body = data,
             rq_headers = filter (\<lambda>p. fst p \<noteq> ''Content-Length'') (duub_headers b), rq_job = Upload_Job k seg\<rparr> h
         else (False, finish_upload e d seg False h))"

text \<open>The response to an upload; \<open>speed\<close> is its speed as a double.\<close>

definition count_response :: "media_kind \<Rightarrow> bool \<Rightarrow> double \<Rightarrow> debug_stats \<Rightarrow> debug_stats" where
  "count_response k ok speed s =
     (case k of
        Snapshot_Media \<Rightarrow>
          let s = s\<lparr>snapshots_uploading := dec_size (snapshots_uploading s)\<rparr>
          in if ok then s\<lparr>snapshots_uploaded := snapshots_uploaded s + 1, snapshot_last_upload_speed_KBps := speed\<rparr>
             else s\<lparr>snapshots_upload_failed := snapshots_upload_failed s + 1\<rparr>
      | Record_Media \<Rightarrow>
          let s = s\<lparr>records_uploading := dec_size (records_uploading s)\<rparr>
          in if ok then s\<lparr>records_uploaded := records_uploaded s + 1, records_last_upload_speed_KBps := speed\<rparr>
             else s\<lparr>records_upload_failed := records_upload_failed s + 1\<rparr>
      | Meta_Media \<Rightarrow>
          let s = s\<lparr>file_meta_uploading := dec_size (file_meta_uploading s)\<rparr>
          in if ok then s\<lparr>file_meta_uploaded := file_meta_uploaded s + 1\<rparr>
             else s\<lparr>file_meta_upload_failed := file_meta_upload_failed s + 1\<rparr>
      | No_Media \<Rightarrow> s)"

text \<open>The response callback of a request under way.\<close>

definition http_response :: "menv \<Rightarrow> 'd device \<Rightarrow> http_request \<Rightarrow> string \<Rightarrow> int \<Rightarrow> double \<Rightarrow> 'd agent \<Rightarrow> 'd agent" where
  "http_response e d r resp code speed h =
     (let h = upd_m (\<lambda>m. m\<lparr>m_http_requests := remove1 r (m_http_requests m)\<rparr>) h in
      case rq_job r of
        Upload_Job k seg \<Rightarrow> upd_stats (count_response k (code = 200) speed) (finish_upload e d seg (code = 200) h)
      | Preview_Job \<Rightarrow> upd_m (\<lambda>m. m\<lparr>m_preview_uploading := False\<rparr>) h
      | Firmware_Job \<Rightarrow> if code = 200 then dev_do (cb_on_cam_upgrade_firmware d resp) h else h
      | Log_Job \<Rightarrow> h
      | Audio_Job f \<Rightarrow> if code = 200 then dev_do (cb_on_audio_file_play d resp f) h else h)"

end
