(* ===== verification/Manager_Events.thy ===== *)
theory Manager_Events
  imports Manager_Upload
begin

text \<open>
  Recording and events of \<^verbatim>\<open>src/src/agent/manager.cc\<close>: when a stream records, how an event of the
  application is checked, delivered and sent to the cloud, and the periodic events.
\<close>

section \<open>Recording\<close>

definition recording :: "nat \<Rightarrow> 'd agent \<Rightarrow> recording_status" where
  "recording s h = m_recording (h_env h) s"

definition recording_wanted :: "recording_status \<Rightarrow> bool" where
  "recording_wanted r \<longleftrightarrow> rs_permanent r \<or> rs_by_event r \<or> rs_direct_upload r"

definition start_recording :: "'d device \<Rightarrow> nat \<Rightarrow> 'd agent \<Rightarrow> bool \<times> 'd agent" where
  "start_recording d s h =
     (if mio2_status (m_memorycard_info (h_env h)) \<noteq> MCS_NORMAL then (False, h)
      else
        let h = (if recording_wanted (recording s h) \<and> \<not> rs_started (recording s h) then
                   let (ok, h) = dev_call (start_record d s) h;
                       h = upd_rec s (\<lambda>r. r\<lparr>rs_started := rs_started r \<or> ok\<rparr>) h;
                       (t, h) = dev_call (clock_now d) h
                   in upd_rec s (\<lambda>r. r\<lparr>rs_last_start_time := t\<rparr>) h
                 else h)
        in (rs_started (recording s h), h))"

definition stop_recording :: "'d device \<Rightarrow> nat \<Rightarrow> bool \<Rightarrow> 'd agent \<Rightarrow> bool \<times> 'd agent" where
  "stop_recording d s force h =
     (let h = (if \<not> recording_wanted (recording s h) \<and> rs_started (recording s h) \<or> force
               then upd_rec s (\<lambda>r. r\<lparr>rs_started := False\<rparr>) (dev_do (stop_record d s) h) else h)
      in (\<not> rs_started (recording s h), h))"

section \<open>The record event\<close>

definition notify_record_event :: "menv \<Rightarrow> 'd device \<Rightarrow> string \<Rightarrow> bool \<Rightarrow> 'd agent \<Rightarrow> bool \<times> 'd agent" where
  "notify_record_event e d stream_id on h =
     (case fresh_id (msg_ids h) of (i, n) \<Rightarrow>
        let h = h\<lparr>msg_ids := n\<rparr> in
        if \<not> on \<and> m_record_event_depth (h_env h) = 0 then (False, h)
        else
          let h = upd_m (\<lambda>m. m\<lparr>m_record_event_depth := m_record_event_depth m + (if on then 1 else -1)\<rparr>) h;
              depth = m_record_event_depth (h_env h)
          in if on \<and> depth = 1 \<or> \<not> on \<and> depth = 0 then
               let (t, h) = dev_call (clock_now d) h;
                   ev = event_object_default\<lparr>eo_event := ET_RECORD, eo_time := me_to_double e t, eo_status := ES_OK,
                          eo_record_info := \<lparr>rio_on = alter_bool_of on, rio_stream_id = stream_id\<rparr>\<rparr>;
                   c = (cam_event_default i)\<lparr>ce_event_object := ev, bc_cam_id := mc_cam_id (cm_config h)\<rparr>
               in send_command (cam_event_to_json (he_num (me_h e)) c) h
             else (False, h))"

section \<open>Delivery\<close>

definition current_delivery_mode :: "'d mgr \<Rightarrow> stream_delivery_mode" where
  "current_delivery_mode m =
     (if m_record_by_event m \<and> m_record_stream m \<noteq> None then SDM_UPLOAD
      else if m_stream_by_event m \<and> m_record_stream m \<noteq> None then SDM_STREAM
      else SDM_NONE)"

definition ms :: "int \<Rightarrow> duration" where
  "ms n = n * 1000000"

definition start_event :: "menv \<Rightarrow> 'd device \<Rightarrow> string \<Rightarrow> stream_delivery_mode \<Rightarrow> event_object \<Rightarrow> duration \<Rightarrow> duration \<Rightarrow>
    string \<Rightarrow> 'd agent \<Rightarrow> 'd agent" where
  "start_event e d n mode ev pr po tok h =
     (let (now, h) = dev_call (clock_now d) h
      in on_event n (event_start (event_env_of e (h_profile h)) now mode ev pr po
           (provider_of (m_record_stream (h_env h))) tok) h)"

text \<open>The clock is read only when the event's own end is not known.\<close>

definition stop_event :: "'d device \<Rightarrow> string \<Rightarrow> time \<Rightarrow> 'd agent \<Rightarrow> 'd agent" where
  "stop_event d n t h =
     (let (now, h) = (if t = time_null then dev_call (clock_now d) h else (t, h)) in on_event n (event_stop now t) h)"

definition switch_delivery :: "'d device \<Rightarrow> string \<Rightarrow> stream_delivery_mode \<Rightarrow> 'd agent \<Rightarrow> 'd agent" where
  "switch_delivery d n mode h =
     (let s = ev_state (event_at n (h_env h)) in
      if mode \<noteq> es_mode s then
        let (now1, h) = (if es_mode s = SDM_UPLOAD \<and> es_stop s = time_null then dev_call (clock_now d) h else (0, h));
            (now2, h) = dev_call (clock_now d) h
        in on_event n (update_delivery_mode now1 now2 mode (provider_of (m_record_stream (h_env h)))) h
      else h)"

definition handle_stream_stateful_event :: "menv \<Rightarrow> 'd device \<Rightarrow> event_object \<Rightarrow> stream_delivery_mode \<Rightarrow> 'd agent \<Rightarrow>
    bool \<times> 'd agent" where
  "handle_stream_stateful_event e d ev mode h =
     (case event_name ev of
        None \<Rightarrow> (False, fault h)
      | Some n \<Rightarrow>
          let h = on_event n id h; s = ev_state (event_at n (h_env h)); t = he_from_double (me_h e) (eo_time ev) in
          if eo_active ev = es_active s then (False, h)
          else if \<not> es_active s \<and> es_start s = t then (False, h)
          else if t = time_null then (False, h)
          else
            let h = (if n = ''motion'' then upd_stats (\<lambda>s. s\<lparr>motion_events := motion_events s + 1\<rparr>) h else h)
            in (True,
                if eo_active ev
                then start_event e d n mode ev (ms (m_pre_record_time (h_env h))) (ms (m_post_record_time (h_env h))) [] h
                else stop_event d n t h))"

definition handle_stream_stateless_event :: "menv \<Rightarrow> 'd device \<Rightarrow> event_object \<Rightarrow> stream_delivery_mode \<Rightarrow> 'd agent \<Rightarrow>
    bool \<times> 'd agent" where
  "handle_stream_stateless_event e d ev mode h =
     (case event_name ev of
        None \<Rightarrow> (False, fault h)
      | Some n \<Rightarrow>
          if he_from_double (me_h e) (eo_time ev) = time_null then (False, h)
          else (True, start_event e d n mode ev (ms (m_pre_record_time (h_env h))) (ms (m_post_record_time (h_env h)))
                        (eo_upload_token ev) h))"

section \<open>Attachments\<close>

definition snapshot_queue_full :: "'d agent \<Rightarrow> bool" where
  "snapshot_queue_full h \<longleftrightarrow>
     snapshots_uploading (m_stats (h_env h)) \<ge> pf_max_concurent_snapshot_uploads (h_profile h) \<or>
     length (m_snapshots (h_env h)) > pf_max_concurent_snapshot_uploads (h_profile h)"

definition handle_event_snapshot :: "menv \<Rightarrow> 'd device \<Rightarrow> event_object \<Rightarrow> 'd agent \<Rightarrow> bool \<times> event_object \<times> 'd agent" where
  "handle_event_snapshot e d ev h =
     (if snapshot_queue_full h
      then (False, ev, upd_stats (\<lambda>s. s\<lparr>snapshots_upload_failed := snapshots_upload_failed s + 1\<rparr>) h)
      else if sio_size (eo_snapshot_info ev) = UnsetInt \<or> sio_image_data (eo_snapshot_info ev) = [] then
        let i = eo_snapshot_info ev;
            i = i\<lparr>sio_width := if sio_width i = UnsetInt then pf_default_snapshot_width (h_profile h) else sio_width i,
                  sio_height := if sio_height i = UnsetInt then pf_default_snapshot_height (h_profile h) else sio_height i\<rparr>
        in (case m_snapshot_stream (h_env h) of
              None \<Rightarrow> (False, ev\<lparr>eo_snapshot_info := i\<rparr>,
                upd_stats (\<lambda>s. s\<lparr>snapshots_capture_failed := snapshots_capture_failed s + 1\<rparr>) h)
            | Some s \<Rightarrow>
                let (ok, i, h) = dev_call2 (get_snapshot d s i) h
                in if \<not> ok then (False, ev\<lparr>eo_snapshot_info := i\<rparr>,
                     upd_stats (\<lambda>s. s\<lparr>snapshots_capture_failed := snapshots_capture_failed s + 1\<rparr>) h)
                   else (True, ev\<lparr>eo_snapshot_info :=
                     i\<lparr>sio_image_time := me_to_iso_packed e (he_from_double (me_h e) (eo_time ev))\<rparr>\<rparr>, h))
      else (False, ev, h))"

definition meta_queue_full :: "'d agent \<Rightarrow> bool" where
  "meta_queue_full h \<longleftrightarrow>
     file_meta_uploading (m_stats (h_env h)) \<ge> pf_max_concurent_file_meta_uploads (h_profile h) \<or>
     length (m_meta_files (h_env h)) > pf_max_concurent_file_meta_uploads (h_profile h)"

definition handle_event_meta_file :: "event_object \<Rightarrow> 'd agent \<Rightarrow> bool \<times> event_object \<times> 'd agent" where
  "handle_event_meta_file ev h =
     (if eo_meta_file ev = unset_string then (False, ev, h)
      else if meta_queue_full h
      then (False, ev, upd_stats (\<lambda>s. s\<lparr>file_meta_upload_failed := file_meta_upload_failed s + 1\<rparr>) h)
      else (True, ev\<lparr>eo_file_meta_info := \<lparr>fmio_size = to_int32 (int (length (eo_meta_file ev))),
              fmio_data = eo_meta_file ev\<rparr>\<rparr>, h))"

section \<open>Notifying an event\<close>

text \<open>A memory card event also says whether the device records; a recording stopped behind the manager's back is restarted.\<close>

definition memorycard_event :: "'d device \<Rightarrow> event_object \<Rightarrow> 'd agent \<Rightarrow> event_object \<times> 'd agent" where
  "memorycard_event d ev h =
     (let (ev, h) =
            (if mio2_status (eo_memorycard_info ev) = MCS_INVALID then
               let (ok, info, h) = dev_call2 (cb_on_get_memorycard_info d (m_memorycard_info (h_env h))) h;
                   h = upd_m (\<lambda>m. m\<lparr>m_memorycard_info := info\<rparr>) h
               in (if ok then ev\<lparr>eo_memorycard_info := info\<rparr> else ev, h)
             else (ev, h));
          info = eo_memorycard_info ev
      in case m_record_stream (h_env h) of
           None \<Rightarrow> (ev, h)
         | Some s \<Rightarrow>
             if mio2_status info = MCS_NORMAL \<and> mio2_recording_status info \<noteq> B_INVALID then
               let on = bool_of_alter (mio2_recording_status info);
                   force = rs_started (recording s h) \<and> \<not> on;
                   h = (if force then upd_rec s (\<lambda>r. r\<lparr>rs_external_stop_count := rs_external_stop_count r + 1\<rparr>) h else h);
                   h = upd_rec s (\<lambda>r. r\<lparr>rs_started := on\<rparr>) h;
                   h = (if force then snd (stop_recording d s True h) else h)
               in (ev, snd (start_recording d s h))
             else (ev, h))"

text \<open>The checks by type; \<open>None\<close> is an event that is not sent.\<close>

definition check_event_info :: "'d device \<Rightarrow> event_object \<Rightarrow> 'd agent \<Rightarrow> event_object option \<times> 'd agent" where
  "check_event_info d ev h =
     (case eo_event ev of
        ET_MOTION \<Rightarrow>
          (Some (if pf_attach_qos_report_to_motion (h_profile h)
                 then ev\<lparr>eo_meta := debug_stats_to_json (m_stats (h_env h))\<rparr> else ev), h)
      | ET_WIFI \<Rightarrow>
          (let w = eo_wifi_info ev in
           (if wio_state w = WNS_INVALID \<or> wn_ssid w = unset_string \<or> wn_encryption w \<notin> set (wn_encryption_caps w)
            then None else Some ev, h))
      | ET_MEMORYCARD \<Rightarrow> (case memorycard_event d ev h of (ev, h) \<Rightarrow> (Some ev, h))
      | _ \<Rightarrow> (Some ev, h))"

text \<open>\<open>uploader_->cancel_upload\<close> schedules the cancellation on the uploader's thread.\<close>

definition cancel_upload :: "string \<Rightarrow> 'd agent \<Rightarrow> 'd agent" where
  "cancel_upload t h = upd_m (\<lambda>m. m\<lparr>m_cancels := m_cancels m @ [t]\<rparr>) h"

definition create_cam_event :: "json_num \<Rightarrow> 'd agent \<Rightarrow> cam_event \<times> 'd agent" where
  "create_cam_event num h =
     (case fresh_id (msg_ids h) of (i, n) \<Rightarrow> case fresh_id n of (i', n') \<Rightarrow>
        (cam_event_from_json num
           (struct_to_json (base_command_fields num) ((base_command_default i)\<lparr>bc_cmd := ''cam_event''\<rparr>))
           (cam_event_default i'),
         h\<lparr>msg_ids := n'\<rparr>))"

text \<open>The delivery of the event's video; \<open>Some b\<close> is an early return of \<open>b\<close>.\<close>

definition deliver_event :: "menv \<Rightarrow> 'd device \<Rightarrow> event_config \<Rightarrow> event_object \<Rightarrow> 'd agent \<Rightarrow> bool option \<times> 'd agent" where
  "deliver_event e d conf ev h =
     (if ec_stream (evc_caps conf) \<and> evc_stream conf \<and> \<not> eo_state_dummy ev then
        let mode = current_delivery_mode (h_env h) in
        if ec_statefull (evc_caps conf) then
          (case handle_stream_stateful_event e d ev mode h of (ok, h) \<Rightarrow>
             (if \<not> ok then Some False else if \<not> eo_active ev then Some True else None, h))
        else (None, snd (handle_stream_stateless_event e d ev mode h))
      else (None, h))"

definition wants_snapshot :: "profile \<Rightarrow> event_config \<Rightarrow> event_object \<Rightarrow> bool" where
  "wants_snapshot p conf ev \<longleftrightarrow>
     evc_snapshot conf \<and>
     (ec_statefull (evc_caps conf) \<and> eo_active ev \<or> \<not> ec_statefull (evc_caps conf) \<or>
      pf_continuation_kick_snapshot p \<and> eo_state_dummy ev)"

text \<open>The attachments, which wait for their upload URLs under the command's message id, and the command itself.\<close>

definition attach_and_send :: "menv \<Rightarrow> 'd device \<Rightarrow> event_config \<Rightarrow> cam_event \<Rightarrow> event_object \<Rightarrow> 'd agent \<Rightarrow> bool \<times> 'd agent" where
  "attach_and_send e d conf c ev h =
     (let (snap, ev, h) = (if wants_snapshot (h_profile h) conf ev then handle_event_snapshot e d ev h else (False, ev, h));
          h = (if snap then upd_m (\<lambda>m. m\<lparr>m_snapshots := AList.update (bc_msgid c) (eo_snapshot_info ev) (m_snapshots m)\<rparr>) h
               else h);
          (meta, ev, h) = (if \<not> eo_state_dummy ev then handle_event_meta_file ev h else (False, ev, h));
          h = (if meta then upd_m (\<lambda>m. m\<lparr>m_meta_files := AList.update (bc_msgid c) (eo_file_meta_info ev) (m_meta_files m)\<rparr>) h
               else h)
      in if ec_internal_hidden (evc_caps conf) then (False, h)
         else
           let c = c\<lparr>ce_event_object := ev\<lparr>eo_status := ES_OK\<rparr>, bc_cam_id := mc_cam_id (cm_config h)\<rparr>;
               num = he_num (me_h e); j = cam_event_to_json num c
           in if snap \<or> meta then
                (case send_command_wait_ack num j (Ack_Event (bc_msgid c) snap meta) h of
                   (Inl _, h) \<Rightarrow> (False, fault h)
                 | (Inr ok, h) \<Rightarrow> (ok, h))
              else send_command j h)"

text \<open>An event without a name throws: whichever way it takes, its name is asked for.\<close>

definition notify_event :: "menv \<Rightarrow> 'd device \<Rightarrow> event_object \<Rightarrow> 'd agent \<Rightarrow> bool \<times> 'd agent" where
  "notify_event e d ev h =
     (let (c, h) = create_cam_event (he_num (me_h e)) h in
      if \<not> registered h then (False, h)
      else if event_name ev = None then (False, fault h)
      else
        case get_event_config ev (esc_events (m_events_config (h_env h))) of
          None \<Rightarrow> (False, h)
        | Some conf \<Rightarrow>
            if \<not> evc_active conf \<and> \<not> eo_state_dummy ev then (False, h)
            else
              (case check_event_info d ev h of
                 (None, h) \<Rightarrow> (False, h)
               | (Some ev, h) \<Rightarrow>
                   let h = (if eo_upload_canceler ev \<and> eo_upload_token ev \<noteq> []
                            then cancel_direct_uploads_by_ticket (eo_upload_token ev) (cancel_upload (eo_upload_token ev) h)
                            else h)
                   in (case deliver_event e d conf ev h of
                         (Some r, h) \<Rightarrow> (r, h)
                       | (None, h) \<Rightarrow> attach_and_send e d conf c ev h)))"

text \<open>The acknowledgement of an event with attachments.\<close>

definition ack_event :: "int \<Rightarrow> bool \<Rightarrow> bool \<Rightarrow> bool \<Rightarrow> 'd agent \<Rightarrow> 'd agent" where
  "ack_event i snap meta timedout h =
     (if timedout then
        let h = (if snap then upd_m (\<lambda>m. m\<lparr>m_snapshots := AList.delete i (m_snapshots m)\<rparr>) h else h);
            h = (if meta then upd_m (\<lambda>m. m\<lparr>m_meta_files := AList.delete i (m_meta_files m)\<rparr>) h else h)
        in upd_stats (\<lambda>s. s\<lparr>snapshots_upload_failed := snapshots_upload_failed s + (if snap then 1 else 0),
                           file_meta_upload_failed := file_meta_upload_failed s + (if meta then 1 else 0)\<rparr>) h
      else h)"

section \<open>Periodic events\<close>

definition mtask_schedule :: "mtask \<Rightarrow> 'd agent \<Rightarrow> cb_id option \<times> 'd agent" where
  "mtask_schedule t h = (case ws_schedule (Client_Task t) (h_ws h) of (i, w) \<Rightarrow> (i, h\<lparr>h_ws := w\<rparr>))"

definition put_periodic :: "string \<Rightarrow> cb_id option \<Rightarrow> 'd agent \<Rightarrow> 'd agent" where
  "put_periodic n i h = upd_m (\<lambda>m. m\<lparr>m_periodic_events := map_put n i (m_periodic_events m)\<rparr>) h"

definition trigger_periodic_event :: "menv \<Rightarrow> 'd device \<Rightarrow> event_config \<Rightarrow> 'd agent \<Rightarrow> 'd agent" where
  "trigger_periodic_event e d conf h =
     (let (t, h) = dev_call (clock_utc d) h;
          ev = event_object_default\<lparr>eo_event := evc_event conf, eo_custom_event_name := evc_custom_event_name conf,
                 eo_time := t, eo_status := ES_OK,
                 eo_meta := if evc_custom_event_name conf = ''qos-report'' then debug_stats_to_json (m_stats (h_env h))
                            else eo_meta event_object_default\<rparr>;
          (_, h) = notify_event e d ev h
      in if ec_periodic (evc_caps conf) then
           (case config_name conf of
              None \<Rightarrow> fault h
            | Some n \<Rightarrow> let (i, h) = mtask_schedule (Trigger_Periodic conf) h in put_periodic n i h)
         else h)"

definition schedule_periodic_event :: "event_config \<Rightarrow> 'd agent \<Rightarrow> 'd agent" where
  "schedule_periodic_event conf h =
     (if ec_periodic (evc_caps conf) \<and> evc_active conf then
        (if evc_period conf = 0 then h
         else
           case config_name conf of
             None \<Rightarrow> fault h
           | Some n \<Rightarrow>
               let (i, h) = mtask_schedule (Trigger_Periodic conf) h in
               if i = None then h
               else
                 let h = (case map_of (m_periodic_events (h_env h)) n of
                            Some (Some j) \<Rightarrow> h\<lparr>h_ws := ws_cancel (Some j) (h_ws h)\<rparr>
                          | _ \<Rightarrow> h)
                 in put_periodic n i h)
      else h)"

definition cancel_periodic_event :: "event_config \<Rightarrow> 'd agent \<Rightarrow> 'd agent" where
  "cancel_periodic_event conf h =
     (case config_name conf of
        None \<Rightarrow> fault h
      | Some n \<Rightarrow>
          (case map_of (m_periodic_events (h_env h)) n of
             None \<Rightarrow> h
           | Some i \<Rightarrow>
               upd_m (\<lambda>m. m\<lparr>m_periodic_events := AList.delete n (m_periodic_events m)\<rparr>)
                 (h\<lparr>h_ws := ws_cancel i (h_ws h)\<rparr>)))"

definition schedule_periodic_events :: "event_config list \<Rightarrow> 'd agent \<Rightarrow> 'd agent" where
  "schedule_periodic_events cs h = fold schedule_periodic_event (filter (\<lambda>c. ec_periodic (evc_caps c)) cs) h"

definition cancel_periodic_events :: "event_config list \<Rightarrow> 'd agent \<Rightarrow> 'd agent" where
  "cancel_periodic_events cs h = fold cancel_periodic_event cs h"

end
