(* ===== verification/Manager_Streams.thy ===== *)
theory Manager_Streams
  imports Manager_Events
begin

text \<open>
  Configuration of the events and control of the streams in \<^verbatim>\<open>src/src/agent/manager.cc\<close>: loading and
  updating event configurations, the states of the events, starting and stopping live, recorded and
  event-driven streams.
\<close>

section \<open>Event configurations\<close>

text \<open>One new configuration applied to a list: the first entry of that name gets the settings, or it is appended.\<close>

fun update_event_config :: "event_config \<Rightarrow> event_config list \<Rightarrow> bool \<times> event_config list" where
  "update_event_config new [] = (True, [new])"
| "update_event_config new (c # cs) =
     (if name_eq new c then
        let c = c\<lparr>evc_active := evc_active new\<rparr> in
        if caps_eq new c then
          (True, c\<lparr>evc_period := evc_period new, evc_snapshot := evc_snapshot new \<and> evc_snapshot c,
                   evc_stream := evc_stream new \<and> evc_stream c\<rparr> # cs)
        else (False, c # cs)
      else (case update_event_config new cs of (ok, cs') \<Rightarrow> (ok, c # cs')))"

fun update_events_configs :: "event_config list \<Rightarrow> event_config list \<Rightarrow> bool \<times> event_config list" where
  "update_events_configs [] dest = (True, dest)"
| "update_events_configs (new # ns) dest =
     (case update_event_config new dest of
        (ok, dest) \<Rightarrow> if ok then update_events_configs ns dest else (False, dest))"

definition update_event_stream_configs :: "string \<Rightarrow> event_config list \<Rightarrow> 'd agent \<Rightarrow> bool \<times> 'd agent" where
  "update_event_stream_configs n new h =
     (case map_of (m_event_streams_configs (h_env h)) n of
        None \<Rightarrow> (True, upd_m (\<lambda>m. m\<lparr>m_event_streams_configs := map_put n new (m_event_streams_configs m)\<rparr>) h)
      | Some old \<Rightarrow>
          (case update_events_configs new old of (ok, cs) \<Rightarrow>
             (ok, upd_m (\<lambda>m. m\<lparr>m_event_streams_configs := map_put n cs (m_event_streams_configs m)\<rparr>) h)))"

definition qos_event_config :: "profile \<Rightarrow> event_config" where
  "qos_event_config p =
     event_config_default\<lparr>evc_event := ET_CUSTOM, evc_custom_event_name := ''qos-report'', evc_active := True,
       evc_period := to_int32 (int (pf_send_qos_report_period_sec p)), evc_snapshot := False, evc_stream := False,
       evc_caps := event_caps_default\<lparr>ec_periodic := True, ec_trigger := False, ec_stream := False, ec_snapshot := False\<rparr>\<rparr>"

definition append_internal_custom_events :: "profile \<Rightarrow> events_config \<Rightarrow> events_config" where
  "append_internal_custom_events p c =
     (if pf_send_qos_report_as_separate_event p then
        let q = qos_event_config p in
        if \<not> (\<exists>x \<in> set (esc_events c). name_eq q x) then c\<lparr>esc_events := esc_events c @ [q]\<rparr>
        else c\<lparr>esc_events := snd (update_events_configs [q] (esc_events c))\<rparr>
      else c)"

section \<open>The states of the events\<close>

text \<open>\<open>clear\<close> runs the destructors; the clock is read when an event without end has to be ended.\<close>

definition destroy_event :: "'d device \<Rightarrow> event_state \<Rightarrow> string \<Rightarrow> 'd agent \<Rightarrow> 'd agent" where
  "destroy_event d s n h =
     (let (now, h) = (if evc_event (es_conf s) \<noteq> ET_INVALID \<and> es_stop s = time_null \<and>
              (es_start s \<noteq> time_null \<and> es_stateful s \<or> es_mode s = SDM_UPLOAD) then dev_call (clock_now d) h else (0, h));
          c = event_destroy now now (ctx_of n s (h_env h))
      in upd_m (\<lambda>m. m\<lparr>m_http_timers := ev_timers c, m_finalize := ev_finalize c, m_fault := ev_fault c\<rparr>) h)"

text \<open>
  \<open>events_states_[n] = event_state(...)\<close>: the entry is swapped with the new state, which is then
  destroyed with what it got.
\<close>

definition assign_event :: "'d device \<Rightarrow> string \<Rightarrow> event_config \<Rightarrow> bool \<Rightarrow> 'd agent \<Rightarrow> 'd agent" where
  "assign_event d n conf scb h =
     (let h = on_event n id h;
          c = segment_reset (ctx_of n (event_state_new conf scb) (h_env h));
          new = ev_state c;
          old = ev_state (event_at n (h_env h));
          h = upd_m (put_ctx (c\<lparr>ev_state := event_state_swap old new\<rparr>)) h
      in destroy_event d (event_state_swap new old) n h)"

definition hidden_conf :: "bool \<Rightarrow> event_config" where
  "hidden_conf stateful =
     event_config_default\<lparr>evc_caps := event_caps_default\<lparr>ec_stream := True, ec_statefull := stateful, ec_internal_hidden := True\<rparr>\<rparr>"

definition assign_conf :: "'d device \<Rightarrow> event_config \<Rightarrow> 'd agent \<Rightarrow> 'd agent" where
  "assign_conf d conf h = (case config_name conf of None \<Rightarrow> fault h | Some n \<Rightarrow> assign_event d n conf True h)"

definition init_events_states :: "'d device \<Rightarrow> event_config list \<Rightarrow> 'd agent \<Rightarrow> 'd agent" where
  "init_events_states d cs h =
     (let h = fold (\<lambda>(n, s). destroy_event d s n) (m_events_states (h_env h)) h;
          h = upd_m (\<lambda>m. m\<lparr>m_events_states := []\<rparr>) h;
          h = fold (assign_conf d) cs h;
          h = assign_event d ''timeline-sync'' (hidden_conf False) False h
      in assign_event d ''direct-upload-recording'' (hidden_conf True) False h)"

text \<open>
  \<open>_load_events_configs\<close> works on \<open>events_config_\<close>. The names of a stream's events are joined for the log;
  an event without a name is the JSON null there, which throws.
\<close>

definition set_events_config :: "events_config \<Rightarrow> 'd agent \<Rightarrow> 'd agent" where
  "set_events_config c h = upd_m (\<lambda>m. m\<lparr>m_events_config := c\<rparr>) h"

definition load_stream_events :: "'d device \<Rightarrow> nat \<Rightarrow> 'd agent \<Rightarrow> 'd agent" where
  "load_stream_events d s h =
     (let (ok, evs, h) = dev_call2 (evs_get_events d s []) h in
      if ok \<and> (\<exists>c \<in> set evs. config_name c = None) then fault h
      else if ok then
        (case update_event_stream_configs (evs_name d s) evs h of (ok, h) \<Rightarrow>
           if ok then
             let c = m_events_config (h_env h)
             in set_events_config (c\<lparr>esc_events := snd (update_events_configs evs (esc_events c))\<rparr>) h
           else h)
      else h)"

definition load_events_configs :: "'d device \<Rightarrow> 'd agent \<Rightarrow> 'd agent" where
  "load_events_configs d h =
     (let (ok, c, h) = dev_call2 (cb_on_get_cam_events_config d (m_events_config (h_env h))) h;
          c = (if ok then c else events_config_default);
          h = set_events_config (append_internal_custom_events (h_profile h) c) h;
          h = fold (load_stream_events d) (m_event_streams (h_env h)) h
      in if m_events_states (h_env h) = [] then init_events_states d (esc_events (m_events_config (h_env h))) h else h)"

section \<open>Storage\<close>

definition update_storage_status :: "menv \<Rightarrow> 'd device \<Rightarrow> 'd agent \<Rightarrow> bool \<times> 'd agent" where
  "update_storage_status e d h =
     (let (ok, info, h) = dev_call2 (cb_on_get_memorycard_info d (m_memorycard_info (h_env h))) h;
          h = upd_m (\<lambda>m. m\<lparr>m_memorycard_info := info\<rparr>) h
      in if ok then
           let (t, h) = dev_call (clock_utc d) h;
               ev = event_object_default\<lparr>eo_event := ET_MEMORYCARD, eo_time := t, eo_memorycard_info := info\<rparr>;
               h = (case m_record_stream (h_env h) of
                      None \<Rightarrow> h
                    | Some s \<Rightarrow> if mio2_recording_status info \<noteq> B_INVALID
                                then upd_rec s (\<lambda>r. r\<lparr>rs_started := bool_of_alter (mio2_recording_status info)\<rparr>) h else h);
               (_, h) = notify_event e d ev h
           in (mio2_status (m_memorycard_info (h_env h)) = MCS_NORMAL, h)
         else (False, h))"

section \<open>Stopping\<close>

text \<open>The end of \<open>on_stream_stop\<close>: a source without sinks is stopped.\<close>

definition stop_unused_source :: "'d device \<Rightarrow> nat \<Rightarrow> 'd agent \<Rightarrow> 'd agent" where
  "stop_unused_source d s h =
     (let m = h_env h in
      if m_active_sinks m = 0 \<and>
         (\<not> m_record_by_event m \<or> (case m_record_stream m of None \<Rightarrow> False | Some r \<Rightarrow> \<not> record_needs_source d r))
      then dev_do (stream_stop d s) h else h)"

definition drop_sink :: "'d device \<Rightarrow> nat \<Rightarrow> 'd agent \<Rightarrow> 'd agent" where
  "drop_sink d s h =
     (if m_active_sinks (h_env h) = 0 then h
      else
        let h = upd_m (\<lambda>m. m\<lparr>m_active_sinks := m_active_sinks m - 1\<rparr>) h
        in if m_active_sinks (h_env h) = 0 then dev_do (stop_sink d s) h else h)"

definition stop_record_stream :: "menv \<Rightarrow> 'd device \<Rightarrow> nat \<Rightarrow> 'd agent \<Rightarrow> 'd agent" where
  "stop_record_stream e d s h =
     drop_sink d s (if m_stream_by_event (h_env h) then snd (notify_record_event e d (cloud_name d s) False h) else h)"

text \<open>\<open>on_stream_stop(name, SR_RECORD)\<close> for a known stream\<close>

definition stop_record_reason :: "menv \<Rightarrow> 'd device \<Rightarrow> nat \<Rightarrow> 'd agent \<Rightarrow> 'd agent" where
  "stop_record_reason e d s h =
     stop_unused_source d s
       (if m_continuos_direct_record (h_env h) then
          let (now, h) = dev_call (clock_now d) h;
              h = stop_event d ''direct-upload-recording'' now h;
              h = upd_m (\<lambda>m. m\<lparr>m_continuos_direct_record := False\<rparr>) h;
              h = upd_rec s (\<lambda>r. r\<lparr>rs_direct_upload := False\<rparr>) h
          in snd (stop_recording d s False h)
        else stop_record_stream e d s h)"

definition needs_switch :: "event_state \<Rightarrow> bool" where
  "needs_switch s \<longleftrightarrow> es_stateful s \<and> es_active s \<and> es_need_clip s"

definition stop_streamed_event :: "menv \<Rightarrow> 'd device \<Rightarrow> nat \<Rightarrow> string \<Rightarrow> 'd agent \<Rightarrow> 'd agent" where
  "stop_streamed_event e d s n h =
     (let st = ev_state (event_at n (h_env h)) in
      if es_stateful st \<and> (es_active st \<or> es_stop_pending st \<noteq> None) \<and> es_need_clip st
      then stop_record_reason e d s (switch_delivery d n SDM_NONE h) else h)"

definition stop_by_event :: "menv \<Rightarrow> 'd device \<Rightarrow> nat \<Rightarrow> 'd agent \<Rightarrow> 'd agent" where
  "stop_by_event e d s h =
     (if \<not> m_record_by_event (h_env h) \<and> \<not> m_stream_by_event (h_env h) \<or> m_record_stream (h_env h) \<noteq> Some s then h
      else
        let h = (if m_stream_by_event (h_env h)
                 then fold (stop_streamed_event e d s) (map fst (m_events_states (h_env h))) h else h);
            h = (if m_record_event_depth (h_env h) \<noteq> 0
                 then stop_record_reason e d s (upd_m (\<lambda>m. m\<lparr>m_record_event_depth := 1\<rparr>) h) else h);
            h = upd_m (\<lambda>m. m\<lparr>m_record_by_event := False, m_stream_by_event := False\<rparr>) h;
            h = fold (\<lambda>es h. dev_do (evs_set_trigger_recording d es False (m_pre_record_time (h_env h))
                  (m_post_record_time (h_env h))) h) (m_event_streams (h_env h)) h;
            h = upd_rec s (\<lambda>r. r\<lparr>rs_by_event := False\<rparr>) h
        in snd (stop_recording d s False h))"

definition mgr_on_stream_stop :: "menv \<Rightarrow> 'd device \<Rightarrow> string \<Rightarrow> stream_reason \<Rightarrow> 'd agent \<Rightarrow> bool \<times> 'd agent" where
  "mgr_on_stream_stop e d n reason h =
     (case lookup_stream d n (h_env h) of
        None \<Rightarrow> (False, h)
      | Some s \<Rightarrow>
          (case reason of
             SR_LIVE \<Rightarrow> (True, stop_unused_source d s (drop_sink d s h))
           | SR_RECORD \<Rightarrow> (True, stop_record_reason e d s h)
           | SR_SERVER_BY_EVENT \<Rightarrow> (True, stop_unused_source d s (stop_record_stream e d s h))
           | SR_RECORD_BY_EVENT \<Rightarrow> (True, stop_unused_source d s (stop_by_event e d s h))
           | _ \<Rightarrow> (False, h)))"

definition stop_for_all_reasons :: "menv \<Rightarrow> 'd device \<Rightarrow> nat \<Rightarrow> 'd agent \<Rightarrow> 'd agent" where
  "stop_for_all_reasons e d s h =
     fold (\<lambda>r h. snd (mgr_on_stream_stop e d (cloud_name d s) r h)) [SR_LIVE, SR_RECORD, SR_RECORD_BY_EVENT, SR_SERVER_BY_EVENT] h"

definition rx_call :: "mtask \<Rightarrow> 'd agent \<Rightarrow> 'd agent" where
  "rx_call t h = h\<lparr>h_ws := run_on_rx_thread (Client_Task t) (h_ws h)\<rparr>"

definition stop_stream :: "menv \<Rightarrow> 'd device \<Rightarrow> bool \<Rightarrow> nat \<Rightarrow> 'd agent \<Rightarrow> 'd agent" where
  "stop_stream e d sync s h = (if \<not> sync then rx_call (Stop_All_On_Rx s) h else stop_for_all_reasons e d s h)"

definition stop_all_streams :: "menv \<Rightarrow> 'd device \<Rightarrow> bool \<Rightarrow> 'd agent \<Rightarrow> 'd agent" where
  "stop_all_streams e d sync h =
     (let h = (case m_record_stream (h_env h) of
                 None \<Rightarrow> h
               | Some s \<Rightarrow> snd (stop_recording d s False (upd_rec s (\<lambda>r. r\<lparr>rs_by_event := False\<rparr>) h)))
      in fold (stop_stream e d sync) (m_streams (h_env h)) h)"

definition stop_active_event :: "'d device \<Rightarrow> time \<Rightarrow> string \<Rightarrow> 'd agent \<Rightarrow> 'd agent" where
  "stop_active_event d now n h = (if needs_switch (ev_state (event_at n (h_env h))) then stop_event d n now h else h)"

definition stop_all_event_streams :: "'d device \<Rightarrow> 'd agent \<Rightarrow> 'd agent" where
  "stop_all_event_streams d h =
     (let h = fold (\<lambda>s. dev_do (evs_stop d s)) (m_event_streams (h_env h)) h;
          (now, h) = dev_call (clock_now d) h
      in fold (stop_active_event d now) (map fst (m_events_states (h_env h))) h)"

section \<open>Starting\<close>

definition add_sink :: "'d device \<Rightarrow> nat \<Rightarrow> string \<Rightarrow> 'd agent \<Rightarrow> bool \<times> 'd agent" where
  "add_sink d s url h =
     (if m_active_sinks (h_env h) = 0 then
        let (ok, h) = dev_call (start_sink d s url) h
        in (ok, upd_m (\<lambda>m. m\<lparr>m_active_sinks := m_active_sinks m + (if ok then 1 else 0)\<rparr>) h)
      else (True, h))"

definition start_live :: "'d device \<Rightarrow> nat \<Rightarrow> string \<Rightarrow> 'd agent \<Rightarrow> bool \<times> 'd agent" where
  "start_live d s url h =
     (let (ok, h) = dev_call (stream_start d s) h in
      if \<not> ok then (False, h)
      else
        let (ok, h) = add_sink d s url h
        in (ok, if ok then upd_m (\<lambda>m. m\<lparr>m_live_stream := Some s\<rparr>) h else h))"

definition start_record_stream :: "menv \<Rightarrow> 'd device \<Rightarrow> nat \<Rightarrow> string \<Rightarrow> 'd agent \<Rightarrow> bool \<times> 'd agent" where
  "start_record_stream e d s url h =
     (let (ok, h) = dev_call (stream_start d s) h in
      if \<not> ok then (False, h)
      else
        let h = (if m_stream_by_event (h_env h) then snd (notify_record_event e d (cloud_name d s) True h) else h);
            (ok, h) = add_sink d s url h
        in (ok, if ok then upd_m (\<lambda>m. m\<lparr>m_record_stream := Some s\<rparr>) h else h))"

definition switch_active_event :: "'d device \<Rightarrow> string \<Rightarrow> 'd agent \<Rightarrow> 'd agent" where
  "switch_active_event d n h =
     (if needs_switch (ev_state (event_at n (h_env h))) then switch_delivery d n (current_delivery_mode (h_env h)) h else h)"

text \<open>\<open>None\<close> is the early return when the source does not start.\<close>

definition begin_by_event :: "menv \<Rightarrow> 'd device \<Rightarrow> nat \<Rightarrow> 'd agent \<Rightarrow> bool \<times> 'd agent" where
  "begin_by_event e d s h =
     (let (ok, h) = (if record_needs_source d s then dev_call (stream_start d s) h else (True, h)) in
      if \<not> ok then (False, h)
      else
        let h = fold (\<lambda>es h. dev_do (evs_set_trigger_recording d es True (m_pre_record_time (h_env h))
                  (m_post_record_time (h_env h))) h) (m_event_streams (h_env h)) h;
            h = snd (start_recording d s h)
        in (True, upd_m (\<lambda>m. m\<lparr>m_record_stream := Some s, m_record_by_event := True\<rparr>) h))"

definition start_by_event :: "menv \<Rightarrow> 'd device \<Rightarrow> nat \<Rightarrow> string \<Rightarrow> 'd agent \<Rightarrow> bool \<times> 'd agent" where
  "start_by_event e d s n h =
     (if m_event_streams (h_env h) = [] then (False, h)
      else
        let (storage, h) = update_storage_status e d h;
            h = upd_rec s (\<lambda>r. r\<lparr>rs_by_event := True, rs_stream_id := n\<rparr>) h;
            (ok, h) = (if storage then begin_by_event e d s h
                       else (True, upd_m (\<lambda>m. m\<lparr>m_stream_by_event := True, m_record_stream := Some s\<rparr>) h))
        in if \<not> ok then (False, h)
           else (True, fold (switch_active_event d) (map fst (m_events_states (h_env h))) h))"

definition start_direct :: "menv \<Rightarrow> 'd device \<Rightarrow> nat \<Rightarrow> string \<Rightarrow> 'd agent \<Rightarrow> bool \<times> 'd agent" where
  "start_direct e d s url h =
     (let (storage, h) = update_storage_status e d h in
      if storage then
        let h = upd_m (\<lambda>m. m\<lparr>m_continuos_direct_record := True\<rparr>) h;
            h = upd_rec s (\<lambda>r. r\<lparr>rs_direct_upload := True\<rparr>) h;
            h = upd_m (\<lambda>m. m\<lparr>m_record_stream := Some s\<rparr>) h;
            h = snd (start_recording d s h);
            (now, h) = dev_call (clock_now d) h;
            ev = event_object_default\<lparr>eo_event := ET_CUSTOM, eo_custom_event_name := ''direct-upload-recording'',
                   eo_time := me_to_double e now\<rparr>
        in (True, start_event e d ''direct-upload-recording'' SDM_UPLOAD ev 0 0 [] h)
      else start_record_stream e d s url h)"

definition publish_url :: "menv \<Rightarrow> string \<Rightarrow> int \<Rightarrow> 'd agent \<Rightarrow> string" where
  "publish_url e n psid h =
     buildUrl (he_now (me_h e)) UT_STREAM_LIVE n (if psid \<ge> 0 then int_string psid else []) (cm_config h)"

definition mgr_on_stream_start :: "menv \<Rightarrow> 'd device \<Rightarrow> string \<Rightarrow> int \<Rightarrow> stream_reason \<Rightarrow> 'd agent \<Rightarrow> bool \<times> 'd agent" where
  "mgr_on_stream_start e d n psid reason h =
     (case lookup_stream d n (h_env h) of
        None \<Rightarrow> (False, h)
      | Some s \<Rightarrow>
          (case reason of
             SR_LIVE \<Rightarrow> start_live d s (publish_url e n psid h) h
           | SR_SERVER_BY_EVENT \<Rightarrow>
               if m_event_streams (h_env h) = [] then (False, h) else start_record_stream e d s (publish_url e n psid h) h
           | SR_RECORD \<Rightarrow> start_record_stream e d s (publish_url e n psid h) h
           | SR_RECORD_BY_EVENT \<Rightarrow> start_by_event e d s n h
           | SR_RECORD_DIRECT \<Rightarrow> start_direct e d s (publish_url e n psid h) h
           | SR_INVALID \<Rightarrow> (False, h)))"

section \<open>The commands for event configurations\<close>

definition start_event_streams :: "'d device \<Rightarrow> 'd agent \<Rightarrow> 'd agent" where
  "start_event_streams d h = fold (\<lambda>s. dev_do (evs_start d s)) (m_event_streams (h_env h)) h"

definition mgr_on_get_cam_events_config :: "'d device \<Rightarrow> events_config \<Rightarrow> 'd agent \<Rightarrow> bool \<times> events_config \<times> 'd agent" where
  "mgr_on_get_cam_events_config d _ h =
     (let h = cancel_periodic_events (esc_events (m_events_config (h_env h))) h;
          h = stop_all_event_streams d h;
          h = (if esc_events (m_events_config (h_env h)) = [] then load_events_configs d h else h);
          c = m_events_config (h_env h);
          c = c\<lparr>esc_events := filter (\<lambda>x. \<not> ec_internal_hidden (evc_caps x)) (esc_events c)\<rparr>
      in (True, c, snd (mtask_schedule Start_Providers h)))"

text \<open>The task that the previous one schedules.\<close>

definition start_providers :: "menv \<Rightarrow> 'd device \<Rightarrow> 'd agent \<Rightarrow> 'd agent" where
  "start_providers e d h =
     (let h = schedule_periodic_events (esc_events (m_events_config (h_env h))) h;
          h = (if esc_enabled (m_events_config (h_env h)) then start_event_streams d h else h)
      in snd (update_storage_status e d h))"

definition set_stream_events :: "'d device \<Rightarrow> event_config list \<Rightarrow> nat \<Rightarrow> 'd agent \<Rightarrow> 'd agent" where
  "set_stream_events d new s h =
     (let h = snd (update_event_stream_configs (evs_name d s) new h)
      in dev_do (evs_set_events d s (the (map_of (m_event_streams_configs (h_env h)) (evs_name d s)))) h)"

definition mgr_on_set_cam_events_config :: "menv \<Rightarrow> 'd device \<Rightarrow> events_config \<Rightarrow> 'd agent \<Rightarrow> bool \<times> 'd agent" where
  "mgr_on_set_cam_events_config e d new h =
     (let h = cancel_periodic_events (esc_events (m_events_config (h_env h))) h;
          h = stop_all_event_streams d h;
          h = (if esc_events (m_events_config (h_env h)) = [] then load_events_configs d h else h);
          h = fold (set_stream_events d (esc_events new)) (m_event_streams (h_env h)) h;
          c = m_events_config (h_env h);
          h = set_events_config \<lparr>esc_enabled = esc_enabled new,
                esc_events = snd (update_events_configs (esc_events new) (esc_events c))\<rparr> h;
          h = snd (update_storage_status e d h);
          h = (if m_events_states (h_env h) = [] then init_events_states d (esc_events (m_events_config (h_env h))) h else h);
          h = (if esc_enabled new then start_event_streams d h else h);
          h = schedule_periodic_events (esc_events (m_events_config (h_env h))) h
      in dev_call (cb_on_set_cam_events_config d (m_events_config (h_env h))) h)"

end
