(* ===== verification/Manager.thy ===== *)
theory Manager
  imports Manager_Streams
begin

text \<open>
  The rest of \<^verbatim>\<open>manager\<close> of \<^verbatim>\<open>src/src/agent/manager.cc\<close>: the access token, closing and reconnecting, the
  functions the command handler calls, and the whole agent as a transition system over the transports,
  the timers, the uploader's thread and the application.
\<close>

section \<open>The access token\<close>

text \<open>The defaults are options of the build.\<close>

record token_defaults =
  td_api :: string
  td_api_p :: int
  td_api_sp :: int
  td_cam :: string
  td_cam_p :: int
  td_cam_sp :: int

definition normalize_access_token :: "token_defaults \<Rightarrow> access_token \<Rightarrow> access_token" where
  "normalize_access_token td t =
     (let t = (if at_api t = unset_string then t\<lparr>at_api := td_api td\<rparr>
               else if at_cam t = unset_string then t\<lparr>at_cam := at_api t\<rparr> else t);
          t = (if at_api_p t = UnsetInt then t\<lparr>at_api_p := td_api_p td\<rparr> else t);
          t = (if at_api_sp t = UnsetInt then t\<lparr>at_api_sp := td_api_sp td\<rparr> else t);
          t = (if at_cam t = unset_string then t\<lparr>at_cam := td_cam td\<rparr> else t);
          t = (if at_cam_p t = UnsetInt then t\<lparr>at_cam_p := td_cam_p td\<rparr> else t)
      in if at_cam_sp t = UnsetInt then t\<lparr>at_cam_sp := td_cam_sp td\<rparr> else t)"

text \<open>\<open>uint16_t svcp_port\<close>\<close>

definition svcp_port :: "bool \<Rightarrow> access_token \<Rightarrow> int" where
  "svcp_port insecure t =
     (if \<not> insecure then (if at_cam_sp t > 0 then at_cam_sp t mod 2 ^ 16 else 8883)
      else if at_cam_p t > 0 then at_cam_p t mod 2 ^ 16 else 8888)"

definition svcp_url :: "bool \<Rightarrow> access_token \<Rightarrow> uri_error + string" where
  "svcp_url insecure t =
     (let host = (if at_cam t = [] then at_api t else at_cam t) in
      if host \<noteq> [] then
        Inr ((if insecure then ''http://'' else ''https://'') @ host @ '':'' @ int_string (svcp_port insecure t))
      else case uri_parse (at_svcp t) of
             Inl x \<Rightarrow> Inl x
           | Inr u \<Rightarrow> Inr (''http://'' @ Host u @ '':8888''))"

text \<open>\<open>CloudShareConnection::openSync\<close> as far as \<open>getCMAddress\<close> reads it; \<open>atoi\<close> is the C library's.\<close>

definition c_atoi :: "string \<Rightarrow> int" where
  "c_atoi s =
     (let s = dropWhile (\<lambda>c. c \<in> {CHR '' '', CHR 0x09, CHR 0x0A, CHR 0x0B, CHR 0x0C, CHR 0x0D}) s;
          neg = (s \<noteq> [] \<and> hd s = CHR ''-'');
          s = (if s \<noteq> [] \<and> hd s \<in> {CHR ''-'', CHR ''+''} then tl s else s);
          digits = takeWhile (\<lambda>c. CHR ''0'' \<le> c \<and> c \<le> CHR ''9'') s;
          v = foldl (\<lambda>n c. 10 * n + (int (of_char c) - 48)) 0 digits
      in if neg then - v else v)"

definition cm_address :: "string \<Rightarrow> uri_error + string" where
  "cm_address baseurl =
     (let url = (if length baseurl > 1 \<and> last baseurl = CHR ''/'' then butlast baseurl else baseurl) in
      case uri_parse url of
        Inl x \<Rightarrow> Inl x
      | Inr u \<Rightarrow>
          let port = c_atoi (Port u);
              host = Host u @ '':'' @ int_string (if port = 0 then 8888 else port)
          in Inr (if string_find host ''cam.skyvr.videoexpertsgroup.com'' 0 = None then host else []))"

text \<open>\<open>set_token\<close>; \<open>junk\<close> is the uninitialised member of the registration token. An exception leaves it.\<close>

definition set_token :: "menv \<Rightarrow> int \<Rightarrow> access_token \<Rightarrow> 'd agent \<Rightarrow> bool \<times> 'd agent" where
  "set_token e junk t h =
     (case svcp_url (pf_insecure_cloud_channel (h_profile h)) t of
        Inl _ \<Rightarrow> (False, fault h)
      | Inr url \<Rightarrow>
          let h = upd_m (\<lambda>m. m\<lparr>m_svcp_url := url\<rparr>) h in
          (case (cm_address url,
                 Option.bind (me_parse e (''{\"token\" : \"'' @ at_token t @ ''\"}''))
                   (CloudRegToken_of_json (he_num (me_h e)) junk)) of
             (Inr addr, Some tok) \<Rightarrow>
               let c = set_cm_address addr ((cm_config h)\<lparr>reg_token := tok\<rparr>);
                   c = (if pc3_socks5 (at_proxy t) \<noteq> unset_string
                        then c\<lparr>proxy_socks5_uri := pc3_socks5 (at_proxy t)\<rparr> else c);
                   c = (if pc3_socks4 (at_proxy t) \<noteq> unset_string
                        then c\<lparr>proxy_socks4_uri := pc3_socks4 (at_proxy t)\<rparr> else c)
               in (True, h\<lparr>cm_config := c\<lparr>mc_access_token := t\<rparr>\<rparr>)
           | _ \<Rightarrow> (False, fault h)))"

definition set_streams :: "nat list \<Rightarrow> 'd agent \<Rightarrow> 'd agent" where
  "set_streams ss h =
     upd_m (\<lambda>m. case ss of
                  [] \<Rightarrow> m\<lparr>m_streams := ss\<rparr>
                | s # _ \<Rightarrow> m\<lparr>m_streams := ss, m_snapshot_stream := Some s, m_record_stream := Some s\<rparr>) h"

definition set_event_streams :: "nat list \<Rightarrow> 'd agent \<Rightarrow> 'd agent" where
  "set_event_streams ss h = upd_m (\<lambda>m. m\<lparr>m_event_streams := ss\<rparr>) h"

definition set_packed_token :: "menv \<Rightarrow> token_defaults \<Rightarrow> int \<Rightarrow> string \<Rightarrow> 'd agent \<Rightarrow> bool \<times> 'd agent" where
  "set_packed_token e td junk s h =
     (case token_parse (he_num (me_h e)) (\<lambda>b. me_parse e (map (char_of \<circ> unat) b)) s of
        None \<Rightarrow> (False, h)
      | Some t \<Rightarrow> set_token e junk (normalize_access_token td t) h)"

text \<open>The constructed object and its transports, before anything is started; \<open>x\<close> is the application.\<close>

definition timers_new :: "'cb lws_common" where
  "timers_new = \<lparr>lws_context = False, lws_running = False, cbs = Map.empty, next_cb = 0, scheduled_callbacks = [],
     armed = [], current = None, called = []\<rparr>"

definition uploader_new :: uploader where
  "uploader_new = \<lparr>store = (\<lambda>_. segmenter_default), segmenters = [], canceled_tickets = [], scheduled = [], sent = [],
     requested = [], queried = [], pending = [], loop_active = False, loop_delay = 0\<rparr>"

definition mgr_new :: "profile \<Rightarrow> 'd \<Rightarrow> 'd mgr" where
  "mgr_new p x =
     \<lparr>m_svcp_url = [], m_events_config = events_config_default\<lparr>esc_events := []\<rparr>, m_snapshots = [], m_records = [],
      m_meta_files = [], m_http_timers = timers_new, m_http_requests = [], m_du_timers = timers_new, m_streams = [],
      m_event_streams = [], m_active_sinks = 0, m_record_event_depth = 0, m_record_by_event = False,
      m_stream_by_event = False, m_continuos_direct_record = False,
      m_pre_record_time = to_milliseconds (pf_default_pre_record_time p),
      m_post_record_time = to_milliseconds (pf_default_post_record_time p), m_record_stream = None,
      m_live_stream = None, m_snapshot_stream = None, m_preview_uploading = False, m_timed_cb_direct_uploader = None,
      m_memorycard_info = memorycard_info_object_default, m_video_q = [], m_snapshot_q = [], m_periodic_events = [],
      m_uploader = uploader_new, m_next_seg = 0, m_finalize = [], m_cancels = [], m_events_states = [],
      m_event_streams_configs = [], m_recording = (\<lambda>_. recording_status_default), m_auto_reconnect = True,
      m_stats = debug_stats_default, m_cur_upload = None, m_dev = x, m_fault = False\<rparr>"

definition manager_new :: "profile \<Rightarrow> id_counter \<Rightarrow> 'd \<Rightarrow> 'd agent" where
  "manager_new p n x =
     \<lparr>registered = False, bye_reason_st = BR_INVALID, bye_retry_st = 0, hello_received = False, acks = [],
      h_ws = \<lparr>ws_timers = timers_new, ws_wsi = False, ws_close = False, ws_ssl = False, ws_tx_q = [], ws_rx_q = [],
        ws_rx_tasks = [], ws_requests = []\<rparr>,
      reconnect_timer = None, cm_config = manager_config_new p, msg_ids = n, h_profile = p, h_env = mgr_new p x\<rparr>"

text \<open>\<open>create\<close>: the exception of \<open>set_token\<close> is \<open>Inl\<close>, \<open>None\<close> the null pointer.\<close>

definition manager_create :: "menv \<Rightarrow> token_defaults \<Rightarrow> int \<Rightarrow> profile \<Rightarrow> id_counter \<Rightarrow> 'd \<Rightarrow> access_token option \<Rightarrow>
    nat list \<Rightarrow> nat list \<Rightarrow> unit + 'd agent option" where
  "manager_create e td junk p n x tok ss es =
     (case tok of
        None \<Rightarrow> Inr None
      | Some t \<Rightarrow>
          (case set_token e junk (normalize_access_token td t) (manager_new p n x) of (ok, h) \<Rightarrow>
             if m_fault (h_env h) then Inl ()
             else if \<not> ok then Inr None
             else Inr (Some (set_event_streams es (set_streams ss h)))))"

section \<open>Starting, stopping, closing\<close>

definition timers_down :: "'cb lws_common \<Rightarrow> 'cb lws_common" where
  "timers_down l = (timers_stop (l\<lparr>lws_running := False\<rparr>))\<lparr>lws_context := False\<rparr>"

definition mgr_start :: "'d agent \<Rightarrow> bool \<times> 'd agent" where
  "mgr_start h =
     (let up = (\<lambda>l. l\<lparr>lws_context := True, lws_running := True\<rparr>);
          h = upd_m (\<lambda>m. m\<lparr>m_http_timers := (m_http_timers m)\<lparr>lws_context := True, lws_running := True\<rparr>,
                m_du_timers := (m_du_timers m)\<lparr>lws_context := True, lws_running := True\<rparr>\<rparr>) h;
          h = h\<lparr>h_ws := (h_ws h)\<lparr>ws_timers := up (ws_timers (h_ws h))\<rparr>\<rparr>;
          h = snd (try_connect h);
          (t, h) = du_schedule Upload_Sync h
      in (True, upd_m (\<lambda>m. m\<lparr>m_timed_cb_direct_uploader := t, m_uploader := uploader_start (m_uploader m)\<rparr>) h))"

definition mgr_stop :: "menv \<Rightarrow> 'd device \<Rightarrow> 'd agent \<Rightarrow> 'd agent" where
  "mgr_stop e d h =
     (let h = stop_all_event_streams d (h\<lparr>hello_received := False, registered := False\<rparr>);
          h = upd_m (\<lambda>m. m\<lparr>m_uploader := uploader_stop (m_uploader m),
                m_du_timers := cancel_timed_cb (m_timed_cb_direct_uploader m) (m_du_timers m),
                m_timed_cb_direct_uploader := None\<rparr>) h;
          h = h\<lparr>h_ws := ws_stop (snd (ws_disconnect (h_ws h)))\<rparr>;
          h = upd_m (\<lambda>m. m\<lparr>m_du_timers := timers_down (m_du_timers m), m_http_timers := timers_down (m_http_timers m)\<rparr>) h
      in stop_all_streams e d True h)"

definition mgr_on_closed :: "menv \<Rightarrow> 'd device \<Rightarrow> int \<Rightarrow> bye_reason \<Rightarrow> 'd agent \<Rightarrow> 'd agent" where
  "mgr_on_closed e d error reason h =
     (let h = stop_all_event_streams d (stop_all_streams e d False h);
          h = (if reason = BR_CONN_CLOSE
               then upd_stats (\<lambda>s. s\<lparr>cloud_reconnects := cloud_reconnects s + 1\<rparr>) h else h);
          h = dev_do (cb_on_bye d reason) h
      in if reason \<noteq> BR_AUTH_FAILURE \<and> (reason = BR_RECONNECT \<or> m_auto_reconnect (h_env h)) then
           reconnect (if reason = BR_RECONNECT then h
                      else h\<lparr>cm_config := (cm_config h)\<lparr>reconnect_server_address := []\<rparr>\<rparr>)
         else h)"

section \<open>Settings of the streams\<close>

definition mgr_on_get_stream_config :: "'d device \<Rightarrow> stream_config \<Rightarrow> 'd agent \<Rightarrow> bool \<times> stream_config \<times> 'd agent" where
  "mgr_on_get_stream_config d c h =
     (case fold (\<lambda>s (r, c, h). case dev_call2 (dv_get_stream_config d s c) h of (ok, c, h) \<Rightarrow> (r \<or> ok, c, h))
             (m_streams (h_env h)) (True, c, h) of (r, c, h) \<Rightarrow> (r, c, h))"

definition last_match :: "('a \<Rightarrow> bool) \<Rightarrow> 'a \<Rightarrow> 'a list \<Rightarrow> 'a" where
  "last_match P dflt xs = (case filter P xs of [] \<Rightarrow> dflt | ys \<Rightarrow> last ys)"

text \<open>Whether a new setting concerns an elementary stream of this stream and differs from the current one.\<close>

definition video_changed :: "supported_stream_config \<Rightarrow> stream_config \<Rightarrow> video_stream_config \<Rightarrow> bool" where
  "video_changed es cur v \<longleftrightarrow> ssc_video es = vsc_stream v \<and>
     \<not> video_config_eq v (last_match (\<lambda>c. vsc_stream c = vsc_stream v) video_stream_config_default (sc2_video cur))"

definition audio_changed :: "supported_stream_config \<Rightarrow> stream_config \<Rightarrow> audio_stream_config \<Rightarrow> bool" where
  "audio_changed es cur a \<longleftrightarrow> ssc_audio es = asc_stream a \<and>
     \<not> audio_config_eq a (last_match (\<lambda>c. asc_stream c = asc_stream a) audio_stream_config_default (sc2_audio cur))"

definition current_stream_conf :: "'d device \<Rightarrow> nat \<Rightarrow> 'd agent \<Rightarrow> supported_stream_config \<times> stream_config \<times> 'd agent" where
  "current_stream_conf d s h =
     (let (ok, es, h) = dev_call2 (get_supported_stream d s supported_stream_config_default) h in
      if ok then
        let cur = \<lparr>sc2_video = (if ssc_video es \<noteq> unset_string
                      then [video_stream_config_default\<lparr>vsc_stream := ssc_video es\<rparr>] else []),
                   sc2_audio = (if ssc_audio es \<noteq> unset_string
                      then [audio_stream_config_default\<lparr>asc_stream := ssc_audio es\<rparr>] else [])\<rparr>;
            (_, cur, h) = dev_call2 (dv_get_stream_config d s cur) h
        in (es, cur, h)
      else (es, \<lparr>sc2_video = [], sc2_audio = []\<rparr>, h))"

text \<open>Recording is stopped and started again, whatever wants it.\<close>

definition restart_recording :: "'d device \<Rightarrow> nat \<Rightarrow> 'd agent \<Rightarrow> 'd agent" where
  "restart_recording d s h =
     (let permanent = rs_permanent (recording s h);
          h = upd_rec s (\<lambda>r. r\<lparr>rs_by_event := False, rs_permanent := False\<rparr>) h;
          h = snd (stop_recording d s False h);
          h = upd_rec s (\<lambda>r. r\<lparr>rs_permanent := permanent\<rparr>) h
      in snd (start_recording d s h))"

definition apply_stream_config :: "menv \<Rightarrow> 'd device \<Rightarrow> stream_config \<Rightarrow> nat \<Rightarrow> bool \<times> 'd agent \<Rightarrow> bool \<times> 'd agent" where
  "apply_stream_config e d new s =
     (\<lambda>(r, h).
        let (es, cur, h) = current_stream_conf d s h in
        if (\<exists>v \<in> set (sc2_video new). video_changed es cur v) \<or> (\<exists>a \<in> set (sc2_audio new). audio_changed es cur a) then
          let (ok, h) = dev_call (dv_set_stream_config d s new) h; r = (r \<or> ok) in
          if r then
            let m = h_env h;
                again = (m_record_stream m = Some s \<and> (m_record_by_event m \<or> m_stream_by_event m));
                h = stop_stream e d False s h;
                h = (if m_record_stream (h_env h) = Some s then restart_recording d s h else h)
            in (r, if again then rx_call (Start_On_Rx (cloud_name d s) 0 SR_RECORD_BY_EVENT) h else h)
          else (r, h)
        else (r, h))"

definition mgr_on_set_stream_config :: "menv \<Rightarrow> 'd device \<Rightarrow> stream_config \<Rightarrow> 'd agent \<Rightarrow> bool \<times> 'd agent" where
  "mgr_on_set_stream_config e d new h = fold (apply_stream_config e d new) (m_streams (h_env h)) (True, h)"

definition mgr_on_get_stream_caps :: "'d device \<Rightarrow> stream_caps \<Rightarrow> 'd agent \<Rightarrow> bool \<times> stream_caps \<times> 'd agent" where
  "mgr_on_get_stream_caps d c h =
     fold (\<lambda>s (r, c, h). case dev_call2 (dv_get_stream_caps d s c) h of (ok, c, h) \<Rightarrow> (r \<or> ok, c, h))
       (m_streams (h_env h)) (True, c, h)"

text \<open>The loop of \<open>on_get_supported_streams\<close>, which returns at the first stream without an answer.\<close>

fun supported_loop :: "'d device \<Rightarrow> nat list \<Rightarrow> supported_streams_config \<Rightarrow> 'd agent \<Rightarrow>
    bool \<times> supported_streams_config \<times> 'd agent" where
  "supported_loop d [] c h = (True, c, h)"
| "supported_loop d (s # ss) c h =
     (let (ok, x, h) = dev_call2 (get_supported_stream d s supported_stream_config_default) h in
      if \<not> ok then (False, c, h)
      else if ssc_id x \<noteq> unset_string then
        supported_loop d ss
          (c\<lparr>ssc2_streams := ssc2_streams c @ [x],
             ssc2_video_es := ssc2_video_es c @ (if ssc_video x \<noteq> unset_string then [ssc_video x] else []),
             ssc2_audio_es := ssc2_audio_es c @ (if ssc_audio x \<noteq> unset_string then [ssc_audio x] else [])\<rparr>) h
      else supported_loop d ss c h)"

definition mgr_on_get_supported_streams :: "'d device \<Rightarrow> supported_streams_config \<Rightarrow> 'd agent \<Rightarrow>
    bool \<times> supported_streams_config \<times> 'd agent" where
  "mgr_on_get_supported_streams d c h =
     (case supported_loop d (m_streams (h_env h)) c h of (ok, c, h) \<Rightarrow>
        if \<not> ok then (False, c, h)
        else (True, c\<lparr>ssc2_video_es := remdups_adj (sort (ssc2_video_es c)),
                      ssc2_audio_es := remdups_adj (sort (ssc2_audio_es c))\<rparr>, h))"

definition mgr_on_set_stream_by_event :: "'d device \<Rightarrow> stream_by_event_config \<Rightarrow> 'd agent \<Rightarrow> bool \<times> 'd agent" where
  "mgr_on_set_stream_by_event d c h =
     (let h = upd_m (\<lambda>m. m\<lparr>m_pre_record_time := sbec2_pre_event c, m_post_record_time := sbec2_post_event c\<rparr>) h
      in case lookup_stream d (sbec2_stream_id c) (h_env h) of
           None \<Rightarrow> (False, h)
         | Some s \<Rightarrow> (True, upd_m (\<lambda>m. m\<lparr>m_record_stream := Some s\<rparr>) h))"

definition mgr_on_get_stream_by_event :: "'d device \<Rightarrow> stream_by_event_config \<Rightarrow> 'd agent \<Rightarrow> bool \<times> stream_by_event_config \<times> 'd agent" where
  "mgr_on_get_stream_by_event d c h =
     (case m_streams (h_env h) of
        [] \<Rightarrow> (False, c, h)
      | s0 # _ \<Rightarrow>
          let h = (if m_record_stream (h_env h) = None then upd_m (\<lambda>m. m\<lparr>m_record_stream := Some s0\<rparr>) h else h);
              m = h_env h; limit = to_int32 (to_milliseconds (pf_default_pre_record_time (h_profile h)))
          in (True, c\<lparr>sbec2_stream_id := cloud_name d (the (m_record_stream m)), sbec2_pre_event := to_int32 (m_pre_record_time m),
                      sbec2_post_event := to_int32 (m_post_record_time m),
                      sbec2_caps := (sbec2_caps c)\<lparr>sbec_post_event_max := limit, sbec_pre_event_max := limit\<rparr>\<rparr>, h))"

section \<open>Requests over HTTP\<close>

definition mgr_on_update_preview :: "'d device \<Rightarrow> string \<Rightarrow> 'd agent \<Rightarrow> bool \<times> 'd agent" where
  "mgr_on_update_preview d url h =
     (case m_snapshot_stream (h_env h) of
        None \<Rightarrow> (False, h)
      | Some s \<Rightarrow>
          if m_preview_uploading (h_env h) then (False, h)
          else
            let i = snapshot_info_object_default\<lparr>sio_width := pf_default_snapshot_width (h_profile h),
                      sio_height := pf_default_snapshot_height (h_profile h)\<rparr>;
                (ok, i, h) = dev_call2 (get_snapshot d s i) h
            in if \<not> ok then (False, h)
               else http_make \<lparr>rq_url = url, rq_method = ''POST'', rq_body = sio_image_data i, rq_headers = [],
                      rq_job = Preview_Job\<rparr> (upd_m (\<lambda>m. m\<lparr>m_preview_uploading := True\<rparr>) h))"

definition mgr_on_cam_upgrade_firmware :: "string \<Rightarrow> 'd agent \<Rightarrow> bool \<times> 'd agent" where
  "mgr_on_cam_upgrade_firmware url h =
     http_make \<lparr>rq_url = url, rq_method = ''GET'', rq_body = [], rq_headers = [], rq_job = Firmware_Job\<rparr> h"

definition mgr_on_get_log :: "menv \<Rightarrow> 'd device \<Rightarrow> 'd agent \<Rightarrow> bool \<times> 'd agent" where
  "mgr_on_get_log e d h =
     (let (_, log, h) = dev_call2 (cb_on_get_log d []) h
      in http_make \<lparr>rq_url = buildUrl (he_now (me_h e)) UT_UPLOAD_TEXT [] [] (cm_config h), rq_method = ''POST'',
           rq_body = map of_char log, rq_headers = [], rq_job = Log_Job\<rparr> h)"

text \<open>The last element of an empty vector is undefined.\<close>

definition mgr_on_audio_file_play :: "string \<Rightarrow> 'd agent \<Rightarrow> bool \<times> 'd agent" where
  "mgr_on_audio_file_play url h =
     (case uri_parse url of
        Inl _ \<Rightarrow> (False, fault h)
      | Inr u \<Rightarrow>
          if \<not> (string_endswith url ''.au'' \<or> string_endswith url ''.wav'' \<or> string_endswith url ''.mp3'') then (False, h)
          else
            let parts = string_split (Path u) (CHR ''/'') in
            if parts = [] then (False, fault h)
            else http_make \<lparr>rq_url = url, rq_method = ''GET'', rq_body = [], rq_headers = [],
                   rq_job = Audio_Job (last parts)\<rparr> h)"

section \<open>The remaining commands\<close>

definition mgr_on_trigger_event :: "menv \<Rightarrow> 'd device \<Rightarrow> string \<Rightarrow> json \<Rightarrow> time \<Rightarrow> 'd agent \<Rightarrow> bool \<times> 'd agent" where
  "mgr_on_trigger_event e d n meta t h =
     (let ev = event_object_from_json (he_num (me_h e)) (json_set ''event'' (JStr n) JNull) event_object_default;
          ev = ev\<lparr>eo_meta := meta, eo_time := me_to_double e t\<rparr>
      in case get_event_config ev (esc_events (m_events_config (h_env h))) of
           None \<Rightarrow> (False, h)
         | Some conf \<Rightarrow>
             if ec_trigger (evc_caps conf) \<and> evc_active conf then
               (case Option.bind (lookup_event_stream_by_event ev (m_event_streams_configs (h_env h)))
                       (\<lambda>s. lookup_event_stream d s (h_env h)) of
                  Some s \<Rightarrow> dev_call (evs_trigger_event d s ev) h
                | None \<Rightarrow>
                    let (ok, ev, h) = dev_call2 (cb_on_trigger_event d ev) h
                    in if ok then notify_event e d ev h else (False, h))
             else (False, h))"

definition mgr_on_start_backward :: "menv \<Rightarrow> 'd device \<Rightarrow> string \<Rightarrow> 'd agent \<Rightarrow> bool \<times> 'd agent" where
  "mgr_on_start_backward e d url h =
     (let h = h\<lparr>cm_config := (cm_config h)\<lparr>backward_url := url\<rparr>\<rparr>
      in dev_call (cb_on_start_backward_audio d (buildUrl (he_now (me_h e)) UT_STREAM_BACKWARD [] [] (cm_config h))) h)"

definition mgr_on_get_cam_memorycard_timeline :: "menv \<Rightarrow> 'd device \<Rightarrow> cam_memorycard_timeline \<Rightarrow> 'd agent \<Rightarrow>
    bool \<times> cam_memorycard_timeline \<times> 'd agent" where
  "mgr_on_get_cam_memorycard_timeline e d c h =
     (case m_record_stream (h_env h) of
        None \<Rightarrow> (False, c, h)
      | Some s \<Rightarrow>
          let (rs, h) = dev_call (record_get_list d s (he_from_iso_packed (me_h e) (cmt_start c))
                          (he_from_iso_packed (me_h e) (cmt_end c)) False) h
          in (True, c\<lparr>cmt_data := cmt_data c @ map (\<lambda>r. \<lparr>mtd_start = me_to_iso_packed e (tp_start r),
                        mtd_end = me_to_iso_packed e (tp_stop r)\<rparr>) rs\<rparr>, h))"

definition mgr_on_cam_memorycard_synchronize :: "menv \<Rightarrow> 'd device \<Rightarrow> cam_memorycard_synchronize_status \<Rightarrow> time \<Rightarrow> time \<Rightarrow>
    'd agent \<Rightarrow> bool \<times> cam_memorycard_synchronize_status \<times> 'd agent" where
  "mgr_on_cam_memorycard_synchronize e d c t1 t2 h =
     (let ev = event_object_default\<lparr>eo_event := ET_CUSTOM, eo_custom_event_name := ''timeline-sync'',
                 eo_time := me_to_double e t1, eo_time_end := me_to_double e t2, eo_upload_token := cmss_request_id c\<rparr>
      in (True, c, start_event e d ''timeline-sync'' SDM_UPLOAD ev 0 0 (cmss_request_id c) h))"

definition mgr_on_cam_memorycard_recording :: "'d device \<Rightarrow> string \<Rightarrow> bool \<Rightarrow> 'd agent \<Rightarrow> bool \<times> 'd agent" where
  "mgr_on_cam_memorycard_recording d n on h =
     (False,
      case lookup_stream d n (h_env h) of
        None \<Rightarrow> h
      | Some s \<Rightarrow>
          let h = upd_rec s (\<lambda>r. r\<lparr>rs_permanent := on, rs_stream_id := n\<rparr>) h
          in if on then snd (start_recording d s h) else snd (stop_recording d s False h))"

section \<open>The virtual functions of the command handler\<close>

fun run_mtask :: "menv \<Rightarrow> 'd device \<Rightarrow> mtask \<Rightarrow> 'd agent \<Rightarrow> 'd agent" where
  "run_mtask e d (Trigger_Periodic c) h = trigger_periodic_event e d c h"
| "run_mtask e d Start_Providers h = start_providers e d h"
| "run_mtask e d (Start_On_Rx n psid r) h = snd (mgr_on_stream_start e d n psid r h)"
| "run_mtask e d (Stop_On_Rx n r) h = snd (mgr_on_stream_stop e d n r h)"
| "run_mtask e d (Stop_All_On_Rx s) h = stop_for_all_reasons e d s h"
| "run_mtask e d (Ack_Upload x) h = h"
| "run_mtask e d (Ack_Event i s m) h = h"

fun run_mack :: "menv \<Rightarrow> 'd device \<Rightarrow> mtask \<Rightarrow> bool \<Rightarrow> command option \<Rightarrow> 'd agent \<Rightarrow> 'd agent" where
  "run_mack e d (Ack_Upload x) timedout c h = ack_upload e d x timedout c h"
| "run_mack e d (Ack_Event i s m) timedout c h = ack_event i s m timedout h"
| "run_mack e d _ timedout c h = h"

definition manager_upcalls :: "menv \<Rightarrow> 'd device \<Rightarrow> (mtask, 'd agent) upcalls" where
  "manager_upcalls e d =
     \<lparr>run_task = run_mtask e d, run_ack = run_mack e d,
      on_closed = mgr_on_closed e d, on_prepared = (\<lambda>h. h), on_registered = (\<lambda>sid. dev_do (cb_on_registered d sid)),
      on_get_stream_config = mgr_on_get_stream_config d, on_set_stream_config = mgr_on_set_stream_config e d,
      on_get_motion_detection_config = (\<lambda>c. dev_call2 (cb_on_get_motion_detection_config d c)),
      on_set_motion_detection_config = (\<lambda>c. dev_call (cb_on_set_motion_detection_config d c)),
      on_get_cam_video_config = (\<lambda>c. dev_call2 (cb_on_get_cam_video_config d c)),
      on_set_cam_video_config = (\<lambda>c. dev_call (cb_on_set_cam_video_config d c)),
      on_get_cam_events_config = mgr_on_get_cam_events_config d, on_set_cam_events_config = mgr_on_set_cam_events_config e d,
      on_get_cam_audio_config = (\<lambda>c. dev_call2 (cb_on_get_cam_audio_config d c)),
      on_set_cam_audio_config = (\<lambda>c. dev_call (cb_on_set_cam_audio_config d c)),
      on_get_ptz_config = (\<lambda>c. dev_call2 (cb_on_get_ptz_config d c)),
      on_cam_ptz = (\<lambda>c. dev_call (cb_on_cam_ptz d c)),
      on_cam_ptz_preset = (\<lambda>c. dev_call2 (cb_on_cam_ptz_preset d c)),
      on_get_osd_config = (\<lambda>c. dev_call2 (cb_on_get_osd_config d c)),
      on_set_osd_config = (\<lambda>c. dev_call (cb_on_set_osd_config d c)),
      on_get_wifi_config = (\<lambda>c. dev_call2 (cb_on_get_wifi_config d c)),
      on_set_wifi_config = (\<lambda>c. dev_call (cb_on_set_wifi_config d c)),
      on_stream_start = mgr_on_stream_start e d, on_stream_stop = mgr_on_stream_stop e d,
      on_get_stream_caps = mgr_on_get_stream_caps d, on_get_supported_streams = mgr_on_get_supported_streams d,
      on_direct_upload_url = mgr_on_direct_upload_url e d,
      on_get_timezone = (\<lambda>z. dev_call2 (cb_on_get_timezone d z)), on_set_timezone = (\<lambda>z. dev_call (cb_on_set_timezone d z)),
      on_get_cam_memorycard_timeline = mgr_on_get_cam_memorycard_timeline e d,
      on_cam_memorycard_synchronize = mgr_on_cam_memorycard_synchronize e d,
      on_cam_memorycard_synchronize_cancel = (\<lambda>t h. (True, cancel_upload t h)),
      on_cam_memorycard_recording = mgr_on_cam_memorycard_recording d,
      on_trigger_event = mgr_on_trigger_event e d, on_audio_file_play = mgr_on_audio_file_play,
      on_start_backward = mgr_on_start_backward e d, on_stop_backward = (\<lambda>url. dev_call (cb_on_stop_backward_audio d url)),
      on_raw_message = (\<lambda>c x. dev_call2 (cb_on_raw_msg d c x)),
      on_set_stream_by_event = mgr_on_set_stream_by_event d, on_get_stream_by_event = mgr_on_get_stream_by_event d,
      on_update_preview = mgr_on_update_preview d, on_cam_upgrade_firmware = mgr_on_cam_upgrade_firmware,
      on_set_audio_detection = (\<lambda>c. dev_call (cb_on_set_audio_detection d c)),
      on_get_audio_detection = (\<lambda>c. dev_call2 (cb_on_get_audio_detection d c)),
      on_get_log = mgr_on_get_log e d, on_set_activity = (\<lambda>b h. (False, h))\<rparr>"

section \<open>The agent\<close>

text \<open>A timer of an event fires: a dummy event is notified, a stream started or stopped on the receiving thread.\<close>

fun run_etask :: "menv \<Rightarrow> 'd device \<Rightarrow> etask \<Rightarrow> 'd agent \<Rightarrow> 'd agent" where
  "run_etask e d (Event_Kick n) h =
     (let c = event_kick (event_env_of e (h_profile h)) (event_at n (h_env h));
          h = upd_m (put_ctx c) h
      in fold (\<lambda>ev h. snd (notify_event e d ev h)) (ev_notified c) h)"
| "run_etask e d (Start_Stream p) h = rx_call (Start_On_Rx (cloud_name d p) (-1) SR_RECORD) h"
| "run_etask e d (Stop_Stream n) h =
     (let c = event_at n (h_env h); p = provider (store (ev_up c) (es_segmenter (ev_state c)))
      in on_event n stop_stream_task (rx_call (Stop_On_Rx (cloud_name d p) SR_RECORD) h))"
| "run_etask e d Other_Task h = h"

definition fire_http_timer :: "menv \<Rightarrow> 'd device \<Rightarrow> cb_id \<Rightarrow> 'd agent \<Rightarrow> 'd agent" where
  "fire_http_timer e d i h =
     (let t = map_option tc_cb (cbs (m_http_timers (h_env h)) i);
          h = upd_m (\<lambda>m. m\<lparr>m_http_timers := sul_cb_enter i (m_http_timers m)\<rparr>) h;
          h = (case t of None \<Rightarrow> h | Some t \<Rightarrow> run_etask e d t h)
      in upd_m (\<lambda>m. m\<lparr>m_http_timers := sul_cb_leave (m_http_timers m)\<rparr>) h)"

definition fire_du_timer :: "menv \<Rightarrow> 'd device \<Rightarrow> cb_id \<Rightarrow> 'd agent \<Rightarrow> 'd agent" where
  "fire_du_timer e d i h =
     (let t = map_option tc_cb (cbs (m_du_timers (h_env h)) i);
          h = upd_m (\<lambda>m. m\<lparr>m_du_timers := sul_cb_enter i (m_du_timers m)\<rparr>) h;
          h = (case t of None \<Rightarrow> h | Some t \<Rightarrow> run_dtask e d t h)
      in upd_m (\<lambda>m. m\<lparr>m_du_timers := sul_cb_leave (m_du_timers m)\<rparr>) h)"

definition fire_ws_timer :: "menv \<Rightarrow> 'd device \<Rightarrow> cb_id \<Rightarrow> 'd agent \<Rightarrow> 'd agent" where
  "fire_ws_timer e d i h =
     (let t = map_option tc_cb (cbs (ws_timers (h_ws h)) i);
          h = h\<lparr>h_ws := (h_ws h)\<lparr>ws_timers := sul_cb_enter i (ws_timers (h_ws h))\<rparr>\<rparr>;
          h = (case t of None \<Rightarrow> h | Some t \<Rightarrow> run_htask (manager_upcalls e d) t h)
      in h\<lparr>h_ws := (h_ws h)\<lparr>ws_timers := sul_cb_leave (ws_timers (h_ws h))\<rparr>\<rparr>)"

text \<open>One step of the agent: a message, a task of the receiving thread, a timer, a response, the uploader's thread, the application.\<close>

inductive astep :: "menv \<Rightarrow> 'd device \<Rightarrow> 'd agent \<Rightarrow> 'd agent \<Rightarrow> bool" for e d where
  astep_message: "handle_message (me_h e) (manager_upcalls e d) m h = (r, h') \<Longrightarrow> astep e d h h'"
| astep_connected: "astep e d h (on_connected (me_h e) (manager_upcalls e d) h)"
| astep_error: "astep e d h (on_error (manager_upcalls e d) h)"
| astep_disconnected: "astep e d h (on_disconnected (manager_upcalls e d) h)"
| astep_rx: "astep e d h (run_htask (manager_upcalls e d) t h)"
| astep_ws_timer: "astep e d h (fire_ws_timer e d i h)"
| astep_http_timer: "astep e d h (fire_http_timer e d i h)"
| astep_du_timer: "astep e d h (fire_du_timer e d i h)"
| astep_response: "r \<in> set (m_http_requests (h_env h)) \<Longrightarrow> astep e d h (http_response e d r resp code speed h)"
| astep_uploader: "async_loop recs slices t1 t2 (m_uploader (h_env h)) = Some u \<Longrightarrow> astep e d h (set_uploader e d u h)"
| astep_enqueue: "astep e d h (upd_m (\<lambda>m. m\<lparr>m_uploader := segmenter_enqueue i (m_uploader m)\<rparr>) h)"
| astep_finalize: "m_finalize (h_env h) = (i, t) # fs \<Longrightarrow>
    astep e d h (upd_m (\<lambda>m. m\<lparr>m_finalize := fs, m_uploader := segmenter_finalize i t (m_uploader m)\<rparr>) h)"
| astep_cancel: "m_cancels (h_env h) = t # ts \<Longrightarrow> cancel_by_ticket t (m_uploader (h_env h)) = Some u \<Longrightarrow>
    astep e d h (set_uploader e d u (upd_m (\<lambda>m. m\<lparr>m_cancels := ts\<rparr>) h))"
| astep_notify: "astep e d h (snd (notify_event e d ev h))"
| astep_device: "astep e d h (dev_do f h)"
| astep_start: "astep e d h (snd (mgr_start h))"
| astep_stop: "astep e d h (mgr_stop e d h)"

text \<open>The states of a created manager; the uploader is created by the first start.\<close>

definition agent_reachable :: "menv \<Rightarrow> 'd device \<Rightarrow> 'd agent \<Rightarrow> bool" where
  "agent_reachable e d h \<longleftrightarrow>
     (\<exists>td junk p n x tok ss es h0. manager_create e td junk p n x tok ss es = Inr (Some h0) \<and> (astep e d)\<^sup>*\<^sup>* h0 h)"

end
