(* ===== verification/Handler_Invariant.thy ===== *)
theory Handler_Invariant
  imports Command_Handler
begin

text \<open>
  What the command handler does to a property of the whole object: if the property does not depend on the
  handler's own members and every virtual function keeps it, then so does every entry point of the handler.
\<close>

section \<open>The interface\<close>

locale handler_invariant =
  fixes u :: "('k, ('k, 'e) handler) upcalls"
    and J :: "('k, 'e) handler \<Rightarrow> bool"
  assumes registered_free [simp]: "J (h\<lparr>registered := y_registered\<rparr>) = J h"
    and bye_reason_st_free [simp]: "J (h\<lparr>bye_reason_st := y_bye_reason_st\<rparr>) = J h"
    and bye_retry_st_free [simp]: "J (h\<lparr>bye_retry_st := y_bye_retry_st\<rparr>) = J h"
    and hello_received_free [simp]: "J (h\<lparr>hello_received := y_hello_received\<rparr>) = J h"
    and acks_free [simp]: "J (h\<lparr>acks := y_acks\<rparr>) = J h"
    and h_ws_free [simp]: "J (h\<lparr>h_ws := y_h_ws\<rparr>) = J h"
    and reconnect_timer_free [simp]: "J (h\<lparr>reconnect_timer := y_reconnect_timer\<rparr>) = J h"
    and cm_config_free [simp]: "J (h\<lparr>cm_config := y_cm_config\<rparr>) = J h"
    and msg_ids_free [simp]: "J (h\<lparr>msg_ids := y_msg_ids\<rparr>) = J h"
    and sid_free [simp]: "J (h\<lparr>h_profile := (h_profile h)\<lparr>pf_cm_registration_sid := y\<rparr>\<rparr>) = J h"
    and run_task_keeps [simp]: "J h \<Longrightarrow> J (run_task u x1_rt24 h)"
    and run_ack_keeps [simp]: "J h \<Longrightarrow> J (run_ack u x1_ra25 x2_ra25 x3_ra25 h)"
    and on_closed_keeps [simp]: "J h \<Longrightarrow> J (on_closed u x1_oc26 x2_oc26 h)"
    and on_prepared_keeps [simp]: "J h \<Longrightarrow> J (on_prepared u h)"
    and on_registered_keeps [simp]: "J h \<Longrightarrow> J (on_registered u x1_or28 h)"
    and on_get_stream_config_keeps [simp]: "J h \<Longrightarrow> J (snd (snd (on_get_stream_config u x1_ogsc29 h)))"
    and on_set_stream_config_keeps [simp]: "J h \<Longrightarrow> J (snd (on_set_stream_config u x1_ossc30 h))"
    and on_get_motion_detection_config_keeps [simp]: "J h \<Longrightarrow> J (snd (snd (on_get_motion_detection_config u x1_ogmdc31 h)))"
    and on_set_motion_detection_config_keeps [simp]: "J h \<Longrightarrow> J (snd (on_set_motion_detection_config u x1_osmdc32 h))"
    and on_get_cam_video_config_keeps [simp]: "J h \<Longrightarrow> J (snd (snd (on_get_cam_video_config u x1_ogcvc33 h)))"
    and on_set_cam_video_config_keeps [simp]: "J h \<Longrightarrow> J (snd (on_set_cam_video_config u x1_oscvc34 h))"
    and on_get_cam_events_config_keeps [simp]: "J h \<Longrightarrow> J (snd (snd (on_get_cam_events_config u x1_ogcec35 h)))"
    and on_set_cam_events_config_keeps [simp]: "J h \<Longrightarrow> J (snd (on_set_cam_events_config u x1_oscec36 h))"
    and on_get_cam_audio_config_keeps [simp]: "J h \<Longrightarrow> J (snd (snd (on_get_cam_audio_config u x1_ogcac37 h)))"
    and on_set_cam_audio_config_keeps [simp]: "J h \<Longrightarrow> J (snd (on_set_cam_audio_config u x1_oscac38 h))"
    and on_get_ptz_config_keeps [simp]: "J h \<Longrightarrow> J (snd (snd (on_get_ptz_config u x1_ogpc39 h)))"
    and on_cam_ptz_keeps [simp]: "J h \<Longrightarrow> J (snd (on_cam_ptz u x1_ocp40 h))"
    and on_cam_ptz_preset_keeps [simp]: "J h \<Longrightarrow> J (snd (snd (on_cam_ptz_preset u x1_ocpp41 h)))"
    and on_get_osd_config_keeps [simp]: "J h \<Longrightarrow> J (snd (snd (on_get_osd_config u x1_ogoc42 h)))"
    and on_set_osd_config_keeps [simp]: "J h \<Longrightarrow> J (snd (on_set_osd_config u x1_osoc43 h))"
    and on_get_wifi_config_keeps [simp]: "J h \<Longrightarrow> J (snd (snd (on_get_wifi_config u x1_ogwc44 h)))"
    and on_set_wifi_config_keeps [simp]: "J h \<Longrightarrow> J (snd (on_set_wifi_config u x1_oswc45 h))"
    and on_stream_start_keeps [simp]: "J h \<Longrightarrow> J (snd (on_stream_start u x1_oss46 x2_oss46 x3_oss46 h))"
    and on_stream_stop_keeps [simp]: "J h \<Longrightarrow> J (snd (on_stream_stop u x1_oss47 x2_oss47 h))"
    and on_get_stream_caps_keeps [simp]: "J h \<Longrightarrow> J (snd (snd (on_get_stream_caps u x1_ogsc48 h)))"
    and on_get_supported_streams_keeps [simp]: "J h \<Longrightarrow> J (snd (snd (on_get_supported_streams u x1_ogss49 h)))"
    and on_direct_upload_url_keeps [simp]: "J h \<Longrightarrow> J (snd (on_direct_upload_url u x1_oduu50 x2_oduu50 x3_oduu50 h))"
    and on_get_timezone_keeps [simp]: "J h \<Longrightarrow> J (snd (snd (on_get_timezone u x1_ogt51 h)))"
    and on_set_timezone_keeps [simp]: "J h \<Longrightarrow> J (snd (on_set_timezone u x1_ost52 h))"
    and on_get_cam_memorycard_timeline_keeps [simp]: "J h \<Longrightarrow> J (snd (snd (on_get_cam_memorycard_timeline u x1_ogcmt53 h)))"
    and on_cam_memorycard_synchronize_keeps [simp]: "J h \<Longrightarrow> J (snd (snd (on_cam_memorycard_synchronize u x1_ocms54 x2_ocms54 x3_ocms54 h)))"
    and on_cam_memorycard_synchronize_cancel_keeps [simp]: "J h \<Longrightarrow> J (snd (on_cam_memorycard_synchronize_cancel u x1_ocmsc55 h))"
    and on_cam_memorycard_recording_keeps [simp]: "J h \<Longrightarrow> J (snd (on_cam_memorycard_recording u x1_ocmr56 x2_ocmr56 h))"
    and on_trigger_event_keeps [simp]: "J h \<Longrightarrow> J (snd (on_trigger_event u x1_ote57 x2_ote57 x3_ote57 h))"
    and on_audio_file_play_keeps [simp]: "J h \<Longrightarrow> J (snd (on_audio_file_play u x1_oafp58 h))"
    and on_start_backward_keeps [simp]: "J h \<Longrightarrow> J (snd (on_start_backward u x1_osb59 h))"
    and on_stop_backward_keeps [simp]: "J h \<Longrightarrow> J (snd (on_stop_backward u x1_osb60 h))"
    and on_raw_message_keeps [simp]: "J h \<Longrightarrow> J (snd (snd (on_raw_message u x1_orm61 x2_orm61 h)))"
    and on_set_stream_by_event_keeps [simp]: "J h \<Longrightarrow> J (snd (on_set_stream_by_event u x1_ossbe62 h))"
    and on_get_stream_by_event_keeps [simp]: "J h \<Longrightarrow> J (snd (snd (on_get_stream_by_event u x1_ogsbe63 h)))"
    and on_update_preview_keeps [simp]: "J h \<Longrightarrow> J (snd (on_update_preview u x1_oup64 h))"
    and on_cam_upgrade_firmware_keeps [simp]: "J h \<Longrightarrow> J (snd (on_cam_upgrade_firmware u x1_ocuf65 h))"
    and on_set_audio_detection_keeps [simp]: "J h \<Longrightarrow> J (snd (on_set_audio_detection u x1_osad66 h))"
    and on_get_audio_detection_keeps [simp]: "J h \<Longrightarrow> J (snd (snd (on_get_audio_detection u x1_ogad67 h)))"
    and on_get_log_keeps [simp]: "J h \<Longrightarrow> J (snd (on_get_log u h))"
    and on_set_activity_keeps [simp]: "J h \<Longrightarrow> J (snd (on_set_activity u x1_osa69 h))"
begin

lemma sending_keeps [simp]:
  "J (snd (send_text m h)) = J h" "J (snd (send_command m h)) = J h" "J (snd (send_base_command num c h)) = J h"
  "J (snd (reply_done num c1 st h)) = J h" "J (snd (reply_to dflt c1 h)) = J h" "J (snd (create_as num fs dflt' nm h)) = J h"
  by (simp_all add: send_text_def send_command_def send_base_command_def reply_done_def reply_to_def create_as_def split_beta)

lemma connecting_keeps [simp]:
  "J (reset_reconnect_timer h) = J h" "J (snd (try_connect h)) = J h" "J (reconnect h) = J h"
  by (simp_all add: reset_reconnect_timer_def try_connect_def reconnect_def split_beta split: option.split)

lemma registering_keeps [simp]:
  "J h \<Longrightarrow> J (snd (do_register v u h))" "J h \<Longrightarrow> J (snd (do_cam_register v u h))" "J h \<Longrightarrow> J (snd (do_bye v reason h))"
  by (simp_all add: do_register_def do_cam_register_def do_bye_def Let_def split_beta)

lemma connection_keeps:
  "J h \<Longrightarrow> J (on_connected v u h)" "J h \<Longrightarrow> J (on_error u h)" "J h \<Longrightarrow> J (on_disconnected u h)"
  by (simp_all add: on_connected_def on_error_def on_disconnected_def Let_def)

lemma ack_keeps [simp]: "J h \<Longrightarrow> J (handle_command_ack u c h)"
  by (simp add: handle_command_ack_def Let_def split: option.split)

lemma wait_ack_keeps [simp]: "J (snd (send_command_wait_ack num m k h)) = J h"
  by (simp add: send_command_wait_ack_def Let_def split_beta split: option.split)

lemma run_htask_keeps: "J h \<Longrightarrow> J (run_htask u t h)"
  by (cases t) simp_all

lemma upload_extra_keeps [simp]: "J h \<Longrightarrow> J (upload_extra u i r ds h)"
  by (induction ds arbitrary: h) simp_all

lemma fold_cancel_keeps [simp]: "J h \<Longrightarrow> J (fold (\<lambda>r h. snd (on_cam_memorycard_synchronize_cancel u r h)) rs h)"
  by (induction rs arbitrary: h) simp_all

lemma hello_profile_keeps [simp]:
  "J (h\<lparr>cm_config := cfg', h_profile := (h_profile h)\<lparr>pf_cm_registration_sid := sid'\<rparr>\<rparr>) = J h"
  using sid_free [where h = "h\<lparr>cm_config := cfg'\<rparr>" and y = sid'] by simp

lemma handle_hello_keeps [simp]: "J h \<Longrightarrow> J (snd (handle_hello v u c h))"
  by (simp add: handle_hello_def Let_def split_beta)

lemma handle_configure_keeps [simp]: "J h \<Longrightarrow> J (snd (handle_configure v u c h))"
  by (simp add: handle_configure_def Let_def split_beta)

lemma handle_get_cam_status_keeps [simp]: "J h \<Longrightarrow> J (snd (handle_get_cam_status v c h))"
  by (simp add: handle_get_cam_status_def Let_def split_beta)

lemma handle_get_supported_streams_keeps [simp]: "J h \<Longrightarrow> J (snd (handle_get_supported_streams v u c h))"
  by (simp add: handle_get_supported_streams_def Let_def split_beta)

lemma handle_cam_hello_keeps [simp]: "J h \<Longrightarrow> J (snd (handle_cam_hello v u c h))"
  by (simp add: handle_cam_hello_def Let_def split_beta)

lemma handle_bye_keeps [simp]: "J h \<Longrightarrow> J (handle_bye c h)"
  by (simp add: handle_bye_def Let_def split_beta)

lemma handle_report_problem_keeps [simp]: "J h \<Longrightarrow> J (handle_report_problem c h)"
  by (simp add: handle_report_problem_def Let_def split_beta)

lemma handle_stream_start_keeps [simp]: "J h \<Longrightarrow> J (snd (handle_stream_start v u c h))"
  by (simp add: handle_stream_start_def Let_def split_beta)

lemma handle_stream_stop_keeps [simp]: "J h \<Longrightarrow> J (snd (handle_stream_stop v u c h))"
  by (simp add: handle_stream_stop_def Let_def split_beta)

lemma handle_get_cam_events_keeps [simp]: "J h \<Longrightarrow> J (snd (handle_get_cam_events v u c h))"
  by (simp add: handle_get_cam_events_def Let_def split_beta)

lemma handle_set_cam_events_keeps [simp]: "J h \<Longrightarrow> J (snd (handle_set_cam_events v u c h))"
  by (simp add: handle_set_cam_events_def Let_def split_beta)

lemma handle_direct_upload_url_keeps [simp]: "J h \<Longrightarrow> J (snd (handle_direct_upload_url v u c h))"
  by (simp add: handle_direct_upload_url_def Let_def split_beta)

lemma handle_get_motion_detection_keeps [simp]: "J h \<Longrightarrow> J (snd (handle_get_motion_detection v u c h))"
  by (simp add: handle_get_motion_detection_def Let_def split_beta)

lemma handle_get_stream_caps_keeps [simp]: "J h \<Longrightarrow> J (snd (handle_get_stream_caps v u c h))"
  by (simp add: handle_get_stream_caps_def Let_def split_beta)

lemma handle_cam_update_preview_keeps [simp]: "J h \<Longrightarrow> J (snd (handle_cam_update_preview v u c h))"
  by (simp add: handle_cam_update_preview_def Let_def split_beta)

lemma handle_cam_upgrade_firmware_keeps [simp]: "J h \<Longrightarrow> J (snd (handle_cam_upgrade_firmware v u c h))"
  by (simp add: handle_cam_upgrade_firmware_def Let_def split_beta)

lemma handle_get_audio_detection_keeps [simp]: "J h \<Longrightarrow> J (snd (handle_get_audio_detection v u c h))"
  by (simp add: handle_get_audio_detection_def Let_def split_beta)

lemma handle_set_audio_detection_keeps [simp]: "J h \<Longrightarrow> J (snd (handle_set_audio_detection v u c h))"
  by (simp add: handle_set_audio_detection_def Let_def split_beta)

lemma handle_get_stream_by_event_keeps [simp]: "J h \<Longrightarrow> J (snd (handle_get_stream_by_event v u c h))"
  by (simp add: handle_get_stream_by_event_def Let_def split_beta)

lemma handle_set_stream_by_event_keeps [simp]: "J h \<Longrightarrow> J (snd (handle_set_stream_by_event v u c h))"
  by (simp add: handle_set_stream_by_event_def Let_def split_beta)

lemma handle_get_stream_config_keeps [simp]: "J h \<Longrightarrow> J (snd (handle_get_stream_config v u c h))"
  by (simp add: handle_get_stream_config_def Let_def split_beta)

lemma handle_set_stream_config_keeps [simp]: "J h \<Longrightarrow> J (snd (handle_set_stream_config v u c h))"
  by (simp add: handle_set_stream_config_def Let_def split_beta)

lemma handle_get_cam_audio_conf_keeps [simp]: "J h \<Longrightarrow> J (snd (handle_get_cam_audio_conf v u c h))"
  by (simp add: handle_get_cam_audio_conf_def Let_def split_beta)

lemma handle_set_cam_audio_conf_keeps [simp]: "J h \<Longrightarrow> J (snd (handle_set_cam_audio_conf v u c h))"
  by (simp add: handle_set_cam_audio_conf_def Let_def split_beta)

lemma handle_get_cam_video_conf_keeps [simp]: "J h \<Longrightarrow> J (snd (handle_get_cam_video_conf v u c h))"
  by (simp add: handle_get_cam_video_conf_def Let_def split_beta)

lemma handle_set_cam_video_conf_keeps [simp]: "J h \<Longrightarrow> J (snd (handle_set_cam_video_conf v u c h))"
  by (simp add: handle_set_cam_video_conf_def Let_def split_beta)

lemma handle_set_motion_detection_keeps [simp]: "J h \<Longrightarrow> J (snd (handle_set_motion_detection v u c h))"
  by (simp add: handle_set_motion_detection_def Let_def split_beta)

lemma handle_get_ptz_conf_keeps [simp]: "J h \<Longrightarrow> J (snd (handle_get_ptz_conf v u c h))"
  by (simp add: handle_get_ptz_conf_def Let_def split_beta)

lemma handle_cam_ptz_keeps [simp]: "J h \<Longrightarrow> J (snd (handle_cam_ptz v u c h))"
  by (simp add: handle_cam_ptz_def Let_def split_beta)

lemma handle_cam_ptz_preset_keeps [simp]: "J h \<Longrightarrow> J (snd (handle_cam_ptz_preset v u c h))"
  by (simp add: handle_cam_ptz_preset_def Let_def split_beta)

lemma handle_raw_message_keeps [simp]: "J h \<Longrightarrow> J (snd (handle_raw_message v u c h))"
  by (simp add: handle_raw_message_def Let_def split_beta)

lemma handle_raw_message_client_connected_keeps [simp]: "J h \<Longrightarrow> J (snd (handle_raw_message_client_connected v c h))"
  by (simp add: handle_raw_message_client_connected_def Let_def split_beta)

lemma handle_raw_message_client_disconnected_keeps [simp]: "J h \<Longrightarrow> J (snd (handle_raw_message_client_disconnected v c h))"
  by (simp add: handle_raw_message_client_disconnected_def Let_def split_beta)

lemma handle_cam_get_log_keeps [simp]: "J h \<Longrightarrow> J (snd (handle_cam_get_log v u c h))"
  by (simp add: handle_cam_get_log_def Let_def split_beta)

lemma handle_get_osd_conf_keeps [simp]: "J h \<Longrightarrow> J (snd (handle_get_osd_conf v u c h))"
  by (simp add: handle_get_osd_conf_def Let_def split_beta)

lemma handle_set_osd_conf_keeps [simp]: "J h \<Longrightarrow> J (snd (handle_set_osd_conf v u c h))"
  by (simp add: handle_set_osd_conf_def Let_def split_beta)

lemma handle_set_cam_parameter_keeps [simp]: "J h \<Longrightarrow> J (snd (handle_set_cam_parameter v u c h))"
  by (simp add: handle_set_cam_parameter_def Let_def split_beta)

lemma handle_cam_trigger_event_keeps [simp]: "J h \<Longrightarrow> J (snd (handle_cam_trigger_event v u c h))"
  by (simp add: handle_cam_trigger_event_def Let_def split_beta)

lemma handle_backward_start_keeps [simp]: "J h \<Longrightarrow> J (snd (handle_backward_start v u c h))"
  by (simp add: handle_backward_start_def Let_def split_beta)

lemma handle_backward_stop_keeps [simp]: "J h \<Longrightarrow> J (snd (handle_backward_stop v u c h))"
  by (simp add: handle_backward_stop_def Let_def split_beta)

lemma handle_cam_set_current_wifi_keeps [simp]: "J h \<Longrightarrow> J (snd (handle_cam_set_current_wifi v u c h))"
  by (simp add: handle_cam_set_current_wifi_def Let_def split_beta)

lemma handle_cam_list_wifi_keeps [simp]: "J h \<Longrightarrow> J (snd (handle_cam_list_wifi v u c h))"
  by (simp add: handle_cam_list_wifi_def Let_def split_beta)

lemma handle_audio_file_play_keeps [simp]: "J h \<Longrightarrow> J (snd (handle_audio_file_play v u c h))"
  by (simp add: handle_audio_file_play_def Let_def split_beta)

lemma handle_get_cam_memorycard_timeline_keeps [simp]: "J h \<Longrightarrow> J (snd (handle_get_cam_memorycard_timeline v u c h))"
  by (simp add: handle_get_cam_memorycard_timeline_def Let_def split_beta)

lemma handle_cam_memorycard_synchronize_keeps [simp]: "J h \<Longrightarrow> J (snd (handle_cam_memorycard_synchronize v u c h))"
  by (simp add: handle_cam_memorycard_synchronize_def Let_def split_beta)

lemma handle_cam_memorycard_synchronize_cancel_keeps [simp]: "J h \<Longrightarrow> J (snd (handle_cam_memorycard_synchronize_cancel v u c h))"
  by (simp add: handle_cam_memorycard_synchronize_cancel_def Let_def split_beta)

lemma handle_cam_memorycard_recording_keeps [simp]: "J h \<Longrightarrow> J (snd (handle_cam_memorycard_recording v u c h))"
  by (simp add: handle_cam_memorycard_recording_def Let_def split_beta)

lemma handle_named_keeps [simp]: "J h \<Longrightarrow> J (snd (handle_named v u c h))"
  by (cases c) simp_all

lemma handle_command_keeps [simp]: "J h \<Longrightarrow> J (handle_command v u c h)"
  by (simp add: handle_command_def Let_def split_beta)

lemma handle_message_keeps: "J h \<Longrightarrow> J (snd (handle_message v u m h))"
  by (simp add: handle_message_def split: prod.splits sum.splits option.splits)

end

end
