(* ===== verification/Manager_Invariant.thy ===== *)
theory Manager_Invariant
  imports Manager Handler_Invariant
begin

text \<open>
  Two invariants of the whole agent, over every message, timer, response, task and call of the
  application: the sink of the live stream is started at most once, and the uploads of records stay within
  the limit of the profile. Both read a small part of the state, \<open>slots\<close> and \<open>sinks\<close>; an operation either
  leaves the part alone or keeps the invariant, and the command handler adds nothing of its own.
\<close>


section \<open>What the invariants read\<close>

definition record_job :: "http_request \<Rightarrow> bool" where
  "record_job r \<longleftrightarrow> (case rq_job r of Upload_Job k _ \<Rightarrow> k = Record_Media | _ \<Rightarrow> False)"

definition record_jobs :: "'d agent \<Rightarrow> nat" where
  "record_jobs h = length (filter record_job (m_http_requests (h_env h)))"

definition slots :: "'d agent \<Rightarrow> (int \<times> clip) list \<times> nat \<times> nat \<times> nat" where
  "slots h = (m_records (h_env h), records_uploading (m_stats (h_env h)), record_jobs h, pf_max_concurent_video_uploads (h_profile h))"

definition sinks :: "'d agent \<Rightarrow> int \<times> int" where
  "sinks h = (m_active_sinks (h_env h), m_record_event_depth (h_env h))"

definition slots_ok :: "(int \<times> clip) list \<times> nat \<times> nat \<times> nat \<Rightarrow> bool" where
  "slots_ok = (\<lambda>(recs, up, jobs, limit). up = jobs \<and> length recs \<le> limit \<and> length recs + up \<le> 2 * limit - 1)"

definition sinks_ok :: "int \<times> int \<Rightarrow> bool" where
  "sinks_ok = (\<lambda>(active, depth). (active = 0 \<or> active = 1) \<and> 0 \<le> depth)"

definition agent_inv :: "'d agent \<Rightarrow> bool" where
  "agent_inv h \<longleftrightarrow> slots_ok (slots h) \<and> sinks_ok (sinks h)"

lemmas view_defs = slots_def sinks_def record_jobs_def

lemma fold_slots [simp]: "(\<And>x h. slots (f x h) = slots h) \<Longrightarrow> slots (fold f xs h) = slots h"
  by (induction xs arbitrary: h) simp_all

lemma fold_sinks [simp]: "(\<And>x h. sinks (f x h) = sinks h) \<Longrightarrow> sinks (fold f xs h) = sinks h"
  by (induction xs arbitrary: h) simp_all

lemma fold_sinks_ok [simp]: "(\<And>x h. sinks_ok (sinks h) \<Longrightarrow> sinks_ok (sinks (f x h))) \<Longrightarrow> sinks_ok (sinks h) \<Longrightarrow>
    sinks_ok (sinks (fold f xs h))"
  by (induction xs arbitrary: h) simp_all

section \<open>Operations that change neither\<close>

lemma base_views [simp]:
  "slots (fault h) = slots h" "sinks (fault h) = sinks h"
  "slots (dev_do f h) = slots h" "sinks (dev_do f h) = sinks h"
  "slots (upd_rec s g h) = slots h" "sinks (upd_rec s g h) = sinks h"
  by (simp_all add: view_defs fault_def dev_do_def upd_rec_def upd_m_def)

lemma dev_call_views [simp]:
  "slots (snd (dev_call f h)) = slots h" "sinks (snd (dev_call f h)) = sinks h"
  "slots (snd (snd (dev_call2 g h))) = slots h" "sinks (snd (snd (dev_call2 g h))) = sinks h"
  by (simp_all add: view_defs dev_call_def dev_call2_def upd_m_def split_beta)

lemma handler_views [simp]:
  "slots (h\<lparr>registered := b\<rparr>) = slots h" "sinks (h\<lparr>registered := b\<rparr>) = sinks h"
  "slots (h\<lparr>hello_received := b\<rparr>) = slots h" "sinks (h\<lparr>hello_received := b\<rparr>) = sinks h"
  "slots (h\<lparr>bye_reason_st := r\<rparr>) = slots h" "sinks (h\<lparr>bye_reason_st := r\<rparr>) = sinks h"
  "slots (h\<lparr>bye_retry_st := i\<rparr>) = slots h" "sinks (h\<lparr>bye_retry_st := i\<rparr>) = sinks h"
  "slots (h\<lparr>acks := a\<rparr>) = slots h" "sinks (h\<lparr>acks := a\<rparr>) = sinks h"
  "slots (h\<lparr>h_ws := w\<rparr>) = slots h" "sinks (h\<lparr>h_ws := w\<rparr>) = sinks h"
  "slots (h\<lparr>reconnect_timer := t\<rparr>) = slots h" "sinks (h\<lparr>reconnect_timer := t\<rparr>) = sinks h"
  "slots (h\<lparr>cm_config := c\<rparr>) = slots h" "sinks (h\<lparr>cm_config := c\<rparr>) = sinks h"
  "slots (h\<lparr>msg_ids := n\<rparr>) = slots h" "sinks (h\<lparr>msg_ids := n\<rparr>) = sinks h"
  "slots (h\<lparr>h_profile := (h_profile h)\<lparr>pf_cm_registration_sid := sid\<rparr>\<rparr>) = slots h"
  "sinks (h\<lparr>h_profile := p\<rparr>) = sinks h"
  by (simp_all add: view_defs)

lemma sending_views [simp]:
  "slots (snd (send_text m h)) = slots h" "sinks (snd (send_text m h)) = sinks h"
  "slots (snd (send_command m h)) = slots h" "sinks (snd (send_command m h)) = sinks h"
  "slots (snd (send_command_wait_ack num m k h)) = slots h" "sinks (snd (send_command_wait_ack num m k h)) = sinks h"
  by (simp_all add: send_text_def send_command_def send_command_wait_ack_def Let_def split_beta split: option.split)

lemma upd_m_views [simp]:
  "(\<And>m. m_records (f m) = m_records m) \<Longrightarrow> (\<And>m. records_uploading (m_stats (f m)) = records_uploading (m_stats m)) \<Longrightarrow>
   (\<And>m. m_http_requests (f m) = m_http_requests m) \<Longrightarrow> slots (upd_m f h) = slots h"
  "(\<And>m. m_active_sinks (g m) = m_active_sinks m) \<Longrightarrow> (\<And>m. m_record_event_depth (g m) = m_record_event_depth m) \<Longrightarrow>
   sinks (upd_m g h) = sinks h"
  by (simp_all add: view_defs upd_m_def)

lemma stats_views [simp]:
  "(\<And>s. records_uploading (f s) = records_uploading s) \<Longrightarrow> slots (upd_stats f h) = slots h"
  "sinks (upd_stats g h) = sinks h"
  by (simp_all add: upd_stats_def)

lemma put_ctx_views [simp]:
  "m_records (put_ctx c m) = m_records m" "m_stats (put_ctx c m) = m_stats m" "m_http_requests (put_ctx c m) = m_http_requests m"
  "m_active_sinks (put_ctx c m) = m_active_sinks m" "m_record_event_depth (put_ctx c m) = m_record_event_depth m"
  by (simp_all add: put_ctx_def)

lemma on_event_views [simp]: "slots (on_event n f h) = slots h" "sinks (on_event n f h) = sinks h"
  by (simp_all add: on_event_def)

subsection \<open>Uploads\<close>

lemma scheduling_views [simp]:
  "slots (snd (du_schedule t h)) = slots h" "sinks (snd (du_schedule t h)) = sinks h"
  "slots (snd (schedule_direct_upload x h)) = slots h" "sinks (snd (schedule_direct_upload x h)) = sinks h"
  by (simp_all add: du_schedule_def schedule_direct_upload_def Let_def split_beta)

lemma reporting_views [simp]:
  "slots (send_report e r h) = slots h" "sinks (send_report e r h) = sinks h"
  "slots (send_request e d q h) = slots h" "sinks (send_request e d q h) = sinks h"
  by (simp_all add: send_report_def send_request_def Let_def split_beta)

lemma uploader_views [simp]:
  "slots (set_uploader e d u h) = slots h" "sinks (set_uploader e d u h) = sinks h"
  "slots (finish_upload e d seg ok h) = slots h" "sinks (finish_upload e d seg ok h) = sinks h"
  by (simp_all add: set_uploader_def finish_upload_def Let_def split: option.split)

lemma drop_late_views [simp]: "slots (snd (drop_late e d xs h)) = slots h" "sinks (snd (drop_late e d xs h)) = sinks h"
  by (induction xs arbitrary: h) (simp_all add: Let_def split_beta)

lemma latency_views [simp]:
  "slots (update_direct_upload_queue_latency e d h) = slots h" "sinks (update_direct_upload_queue_latency e d h) = sinks h"
  by (simp_all add: update_direct_upload_queue_latency_def split_beta)

lemma queue_views [simp]:
  "slots (upd_m (enqueue_upload x) h) = slots h" "sinks (upd_m (enqueue_upload x) h) = sinks h"
  "slots (upd_m (cancel_queued t) h) = slots h" "sinks (upd_m (cancel_queued t) h) = sinks h"
  "slots (cancel_direct_uploads_by_ticket t h) = slots h" "sinks (cancel_direct_uploads_by_ticket t h) = sinks h"
  by (auto simp: enqueue_upload_def cancel_queued_def cancel_direct_uploads_by_ticket_def split: upload_category.split)

subsection \<open>Events\<close>

lemma recording_views [simp]:
  "slots (snd (start_recording d s h)) = slots h" "sinks (snd (start_recording d s h)) = sinks h"
  "slots (snd (stop_recording d s b h)) = slots h" "sinks (snd (stop_recording d s b h)) = sinks h"
  by (simp_all add: start_recording_def stop_recording_def Let_def split_beta)

lemma delivery_views [simp]:
  "slots (start_event e d n md ev pr po tok h) = slots h" "sinks (start_event e d n md ev pr po tok h) = sinks h"
  "slots (stop_event d n t h) = slots h" "sinks (stop_event d n t h) = sinks h"
  "slots (switch_delivery d n md h) = slots h" "sinks (switch_delivery d n md h) = sinks h"
  by (simp_all add: start_event_def stop_event_def switch_delivery_def Let_def split_beta)

lemma stateful_views [simp]:
  "slots (snd (handle_stream_stateful_event e d ev md h)) = slots h"
  "sinks (snd (handle_stream_stateful_event e d ev md h)) = sinks h"
  "slots (snd (handle_stream_stateless_event e d ev md h)) = slots h"
  "sinks (snd (handle_stream_stateless_event e d ev md h)) = sinks h"
  by (simp_all add: handle_stream_stateful_event_def handle_stream_stateless_event_def Let_def split: option.split)

lemma attachment_views [simp]:
  "slots (snd (snd (handle_event_snapshot e d ev h))) = slots h" "sinks (snd (snd (handle_event_snapshot e d ev h))) = sinks h"
  "slots (snd (snd (handle_event_meta_file ev h))) = slots h" "sinks (snd (snd (handle_event_meta_file ev h))) = sinks h"
  by (simp_all add: handle_event_snapshot_def handle_event_meta_file_def Let_def split_beta split: option.split)

lemma memorycard_views [simp]:
  "slots (snd (memorycard_event d ev h)) = slots h" "sinks (snd (memorycard_event d ev h)) = sinks h"
  by (simp_all add: memorycard_event_def Let_def split_beta split: option.split)

lemma check_views [simp]:
  "slots (snd (check_event_info d ev h)) = slots h" "sinks (snd (check_event_info d ev h)) = sinks h"
  by (simp_all add: check_event_info_def Let_def split_beta split: event_type.split)

lemma deliver_views [simp]:
  "slots (snd (deliver_event e d conf ev h)) = slots h" "sinks (snd (deliver_event e d conf ev h)) = sinks h"
  by (simp_all add: deliver_event_def Let_def split_beta)

lemma attach_views [simp]:
  "slots (snd (attach_and_send e d conf c ev h)) = slots h" "sinks (snd (attach_and_send e d conf c ev h)) = sinks h"
  by (simp_all add: attach_and_send_def Let_def split_beta split: sum.split)

lemma notify_views [simp]:
  "slots (cancel_upload t h) = slots h" "sinks (cancel_upload t h) = sinks h"
  "slots (snd (create_cam_event num h)) = slots h" "sinks (snd (create_cam_event num h)) = sinks h"
  "slots (snd (notify_event e d ev h)) = slots h" "sinks (snd (notify_event e d ev h)) = sinks h"
  by (simp_all add: notify_event_def cancel_upload_def create_cam_event_def Let_def split_beta split: option.split)

lemma ack_event_views [simp]: "slots (ack_event i s m b h) = slots h" "sinks (ack_event i s m b h) = sinks h"
  by (simp_all add: ack_event_def Let_def)

lemma periodic_views [simp]:
  "slots (snd (mtask_schedule t h)) = slots h" "sinks (snd (mtask_schedule t h)) = sinks h"
  "slots (put_periodic n i h) = slots h" "sinks (put_periodic n i h) = sinks h"
  "slots (schedule_periodic_event conf h) = slots h" "sinks (schedule_periodic_event conf h) = sinks h"
  "slots (cancel_periodic_event conf h) = slots h" "sinks (cancel_periodic_event conf h) = sinks h"
  by (simp_all add: mtask_schedule_def put_periodic_def schedule_periodic_event_def cancel_periodic_event_def Let_def
      split_beta split: option.split)

lemma trigger_views [simp]:
  "slots (trigger_periodic_event e d conf h) = slots h" "sinks (trigger_periodic_event e d conf h) = sinks h"
  "slots (schedule_periodic_events cs h) = slots h" "sinks (schedule_periodic_events cs h) = sinks h"
  "slots (cancel_periodic_events cs h) = slots h" "sinks (cancel_periodic_events cs h) = sinks h"
  by (simp_all add: trigger_periodic_event_def schedule_periodic_events_def cancel_periodic_events_def Let_def
      split_beta split: option.split)

subsection \<open>Configurations\<close>

lemma config_views [simp]:
  "slots (snd (update_event_stream_configs n new h)) = slots h" "sinks (snd (update_event_stream_configs n new h)) = sinks h"
  "slots (set_events_config c h) = slots h" "sinks (set_events_config c h) = sinks h"
  by (simp_all add: update_event_stream_configs_def set_events_config_def split_beta split: option.split)

lemma states_views [simp]:
  "slots (destroy_event d s n h) = slots h" "sinks (destroy_event d s n h) = sinks h"
  "slots (assign_event d n conf b h) = slots h" "sinks (assign_event d n conf b h) = sinks h"
  "slots (assign_conf d conf h) = slots h" "sinks (assign_conf d conf h) = sinks h"
  by (simp_all add: destroy_event_def assign_event_def assign_conf_def Let_def split_beta split: option.split)

lemma init_views [simp]:
  "slots (init_events_states d cs h) = slots h" "sinks (init_events_states d cs h) = sinks h"
  by (simp_all add: init_events_states_def Let_def split_beta)

lemma load_views [simp]:
  "slots (load_stream_events d s h) = slots h" "sinks (load_stream_events d s h) = sinks h"
  "slots (load_events_configs d h) = slots h" "sinks (load_events_configs d h) = sinks h"
  by (simp_all add: load_stream_events_def load_events_configs_def Let_def split_beta)

lemma storage_views [simp]:
  "slots (snd (update_storage_status e d h)) = slots h" "sinks (snd (update_storage_status e d h)) = sinks h"
  by (simp_all add: update_storage_status_def Let_def split_beta split: option.split)

lemma event_streams_views [simp]:
  "slots (stop_active_event d now n h) = slots h" "sinks (stop_active_event d now n h) = sinks h"
  "slots (stop_all_event_streams d h) = slots h" "sinks (stop_all_event_streams d h) = sinks h"
  "slots (start_event_streams d h) = slots h" "sinks (start_event_streams d h) = sinks h"
  "slots (start_providers e d h) = slots h" "sinks (start_providers e d h) = sinks h"
  by (simp_all add: stop_active_event_def stop_all_event_streams_def start_event_streams_def start_providers_def Let_def split_beta)

lemma cam_events_views [simp]:
  "slots (snd (snd (mgr_on_get_cam_events_config d c h))) = slots h"
  "sinks (snd (snd (mgr_on_get_cam_events_config d c h))) = sinks h"
  "slots (set_stream_events d new s h) = slots h" "sinks (set_stream_events d new s h) = sinks h"
  "slots (snd (mgr_on_set_cam_events_config e d c h)) = slots h"
  "sinks (snd (mgr_on_set_cam_events_config e d c h)) = sinks h"
  by (simp_all add: mgr_on_get_cam_events_config_def set_stream_events_def mgr_on_set_cam_events_config_def Let_def split_beta)

section \<open>The sinks\<close>

lemma notify_record_views [simp]:
  "slots (snd (notify_record_event e d n on h)) = slots h"
  "sinks_ok (sinks h) \<Longrightarrow> sinks_ok (sinks (snd (notify_record_event e d n on h)))"
  by (simp_all add: notify_record_event_def Let_def split_beta) (auto simp: sinks_def sinks_ok_def upd_m_def)

lemma drop_sink_views [simp]:
  "slots (drop_sink d s h) = slots h" "sinks_ok (sinks h) \<Longrightarrow> sinks_ok (sinks (drop_sink d s h))"
  by (simp_all add: drop_sink_def Let_def) (auto simp: sinks_def sinks_ok_def upd_m_def)

lemma add_sink_views [simp]:
  "slots (snd (add_sink d s url h)) = slots h" "sinks_ok (sinks h) \<Longrightarrow> sinks_ok (sinks (snd (add_sink d s url h)))"
  by (simp_all add: add_sink_def Let_def split_beta)
    (auto simp: sinks_def sinks_ok_def upd_m_def dev_call_def split_beta)

lemma set_depth_views [simp]:
  "sinks_ok (sinks h) \<Longrightarrow> sinks_ok (sinks (upd_m (\<lambda>m. m\<lparr>m_record_event_depth := 1\<rparr>) h))"
  by (simp add: sinks_def sinks_ok_def upd_m_def)

lemma stop_source_views [simp]:
  "slots (stop_unused_source d s h) = slots h" "sinks (stop_unused_source d s h) = sinks h"
  by (simp_all add: stop_unused_source_def Let_def)

lemma stop_record_views [simp]:
  "slots (stop_record_stream e d s h) = slots h" "sinks_ok (sinks h) \<Longrightarrow> sinks_ok (sinks (stop_record_stream e d s h))"
  "slots (stop_record_reason e d s h) = slots h" "sinks_ok (sinks h) \<Longrightarrow> sinks_ok (sinks (stop_record_reason e d s h))"
  by (simp_all add: stop_record_stream_def stop_record_reason_def Let_def split_beta)

lemma stop_by_event_views [simp]:
  "slots (stop_streamed_event e d s n h) = slots h" "sinks_ok (sinks h) \<Longrightarrow> sinks_ok (sinks (stop_streamed_event e d s n h))"
  "slots (stop_by_event e d s h) = slots h" "sinks_ok (sinks h) \<Longrightarrow> sinks_ok (sinks (stop_by_event e d s h))"
  by (simp_all add: stop_streamed_event_def stop_by_event_def Let_def split_beta)

lemma stream_stop_views [simp]:
  "slots (snd (mgr_on_stream_stop e d n r h)) = slots h"
  "sinks_ok (sinks h) \<Longrightarrow> sinks_ok (sinks (snd (mgr_on_stream_stop e d n r h)))"
  by (simp_all add: mgr_on_stream_stop_def split: option.split stream_reason.split)

lemma stop_all_views [simp]:
  "slots (rx_call t h) = slots h" "sinks (rx_call t h) = sinks h"
  "slots (stop_for_all_reasons e d s h) = slots h" "sinks_ok (sinks h) \<Longrightarrow> sinks_ok (sinks (stop_for_all_reasons e d s h))"
  "slots (stop_stream e d b s h) = slots h" "sinks_ok (sinks h) \<Longrightarrow> sinks_ok (sinks (stop_stream e d b s h))"
  "slots (stop_all_streams e d b h) = slots h" "sinks_ok (sinks h) \<Longrightarrow> sinks_ok (sinks (stop_all_streams e d b h))"
  by (simp_all add: rx_call_def stop_for_all_reasons_def stop_stream_def stop_all_streams_def Let_def split_beta split: option.split)

lemma start_stream_views [simp]:
  "slots (snd (start_live d s url h)) = slots h" "sinks_ok (sinks h) \<Longrightarrow> sinks_ok (sinks (snd (start_live d s url h)))"
  "slots (snd (start_record_stream e d s url h)) = slots h"
  "sinks_ok (sinks h) \<Longrightarrow> sinks_ok (sinks (snd (start_record_stream e d s url h)))"
  by (simp_all add: start_live_def start_record_stream_def Let_def split_beta)

lemma start_by_event_views [simp]:
  "slots (switch_active_event d n h) = slots h" "sinks (switch_active_event d n h) = sinks h"
  "slots (snd (begin_by_event e d s h)) = slots h" "sinks (snd (begin_by_event e d s h)) = sinks h"
  "slots (snd (start_by_event e d s n h)) = slots h" "sinks (snd (start_by_event e d s n h)) = sinks h"
  by (simp_all add: switch_active_event_def begin_by_event_def start_by_event_def Let_def split_beta)

lemma stream_start_views [simp]:
  "slots (snd (start_direct e d s url h)) = slots h" "sinks_ok (sinks h) \<Longrightarrow> sinks_ok (sinks (snd (start_direct e d s url h)))"
  "slots (snd (mgr_on_stream_start e d n psid r h)) = slots h"
  "sinks_ok (sinks h) \<Longrightarrow> sinks_ok (sinks (snd (mgr_on_stream_start e d n psid r h)))"
  by (simp_all add: start_direct_def mgr_on_stream_start_def Let_def split_beta split: option.split stream_reason.split)

section \<open>The upload slots\<close>

lemma length_update_le: "length (AList.update k v xs) \<le> Suc (length xs)"
  by (induction xs) auto

lemma length_delete_le: "length (AList.delete k xs) \<le> length xs"
  by (simp add: AList.delete_eq)

lemma length_delete_less: "map_of xs k \<noteq> None \<Longrightarrow> length (AList.delete k xs) < length xs"
  by (auto simp: AList.delete_eq map_of_eq_None_iff intro!: length_filter_less)

lemma http_make_views [simp]:
  "\<not> record_job r \<Longrightarrow> slots (snd (http_make r h)) = slots h" "sinks (snd (http_make r h)) = sinks h"
  by (simp_all add: http_make_def) (simp add: view_defs upd_m_def)

lemma request_slots:
  assumes "slots_ok (slots h)" "room_for_upload h"
  shows "slots_ok (slots (snd (request_direct_upload_video e d x h)))"
proof -
  have room: "slots_ok (slots (upd_m (\<lambda>m. m\<lparr>m_records := AList.update k c (m_records m)\<rparr>) (snd (dev_call f h))))" for k c and f :: "'a \<Rightarrow> clip \<times> 'a"
    using assms length_update_le [of k c "m_records (h_env h)"]
    by (auto simp: slots_ok_def view_defs room_for_upload_def upd_m_def dev_call_def split_beta)
  then show ?thesis using assms
    by (auto simp: request_direct_upload_video_def Let_def split_beta split: option.split sum.split)
qed

lemma request_sinks [simp]: "sinks (snd (request_direct_upload_video e d x h)) = sinks h"
  by (simp add: request_direct_upload_video_def Let_def split_beta split: option.split sum.split)

lemma room_upd_q [simp]: "room_for_upload (upd_m (\<lambda>m. m\<lparr>m_video_q := q\<rparr>) h) = room_for_upload h"
  by (simp add: room_for_upload_def upd_m_def)

lemma sync_loop_slots [simp]: "slots_ok (slots h) \<Longrightarrow> slots_ok (slots (sync_loop e d q h))"
proof (induction q arbitrary: h)
  case (Cons x q)
  then have "room_for_upload h \<Longrightarrow> slots_ok (slots (snd (request_direct_upload_video e d x (upd_m (\<lambda>m. m\<lparr>m_video_q := q\<rparr>) h))))"
    by (intro request_slots) simp_all
  then show ?case using Cons by (simp add: Let_def split_beta)
qed simp

lemma sync_loop_sinks [simp]: "sinks (sync_loop e d q h) = sinks h"
  by (induction q arbitrary: h) (simp_all add: Let_def split_beta)

lemma sync_views [simp]:
  "slots_ok (slots h) \<Longrightarrow> slots_ok (slots (direct_upload_sync_cb e d h))" "sinks (direct_upload_sync_cb e d h) = sinks h"
  by (simp_all add: direct_upload_sync_cb_def Let_def split_beta)

lemma run_dtask_inv [simp]: "agent_inv h \<Longrightarrow> agent_inv (run_dtask e d t h)"
  by (cases t) (simp_all add: agent_inv_def)

lemma ack_upload_inv [simp]: "agent_inv h \<Longrightarrow> agent_inv (ack_upload e d x b c h)"
proof -
  assume *: "agent_inv h"
  have "slots_ok (slots (upd_m (\<lambda>m. m\<lparr>m_records := AList.delete k (m_records m)\<rparr>) h'))" if "slots_ok (slots h')" for k and h' :: "'a agent"
    using that length_delete_le [of k "m_records (h_env h')"] by (simp add: slots_ok_def view_defs upd_m_def)
  with * show ?thesis
    by (simp add: ack_upload_def agent_inv_def Let_def split: option.split command.split)
qed

lemma direct_upload_url_inv [simp]:
  assumes "agent_inv h" shows "agent_inv (snd (mgr_on_direct_upload_url e d b i r h))"
proof -
  define h1 where "h1 = upd_m (\<lambda>m. m\<lparr>m_cur_upload := None\<rparr>) h"
  define seg where "seg = (case m_cur_upload (h_env h) of None \<Rightarrow> None | Some s \<Rightarrow> s)"
  define cancel where "cancel = upload_canceled seg (h_env h1)"
  obtain k data m where m: "media_for (duub_category b) r cancel (h_env h1) = (k, data, m)" by (cases "media_for (duub_category b) r cancel (h_env h1)")
  have 1: "agent_inv h1" using assms by (simp add: h1_def agent_inv_def)
  have eq: "mgr_on_direct_upload_url e d b i r h =
      (if data \<noteq> [] \<and> \<not> cancel then
         http_make \<lparr>rq_url = duub_url b, rq_method = ''PUT'', rq_body = data,
           rq_headers = filter (\<lambda>p. fst p \<noteq> ''Content-Length'') (duub_headers b), rq_job = Upload_Job k seg\<rparr> (h1\<lparr>h_env := m\<rparr>)
       else (False, finish_upload e d seg False (h1\<lparr>h_env := m\<rparr>)))"
    using m by (simp add: mgr_on_direct_upload_url_def Let_def h1_def seg_def cancel_def)
  have sinks: "sinks (h1\<lparr>h_env := m\<rparr>) = sinks h1"
    using m by (auto simp: media_for_def sinks_def Let_def split: if_splits)
  show ?thesis
  proof (cases "data \<noteq> [] \<and> \<not> cancel \<and> k = Record_Media")
    case True
    then have w: "map_of (m_records (h_env h1)) r \<noteq> None"
      and mr: "m = (h_env h1)\<lparr>m_records := AList.delete r (m_records (h_env h1)), m_stats := (m_stats (h_env h1))\<lparr>records_uploading := Suc (records_uploading (m_stats (h_env h1)))\<rparr>\<rparr>"
      using m by (auto simp: media_for_def waiting_def Let_def split: if_splits)
    have "slots_ok (slots (snd (http_make x (h1\<lparr>h_env := m\<rparr>))))" if "record_job x" for x
      using 1 that length_delete_less [OF w] by (simp add: mr http_make_def agent_inv_def slots_ok_def view_defs upd_m_def)
    then show ?thesis using True 1 sinks
      by (simp add: eq agent_inv_def record_job_def)
  next
    case False
    have "slots_ok (slots (h1\<lparr>h_env := m\<rparr>))"
      using m 1 False length_delete_le [of r "m_records (h_env h1)"]
      by (auto simp: media_for_def agent_inv_def slots_ok_def view_defs Let_def split: if_splits)
    then show ?thesis using False 1 sinks
      by (auto simp: eq agent_inv_def record_job_def)
  qed
qed

lemma filter_remove1_length:
  "x \<in> set xs \<Longrightarrow> length (filter P (remove1 x xs)) = length (filter P xs) - (if P x then 1 else 0)"
  by (simp add: filter_remove1 length_remove1)

lemma http_response_inv [simp]:
  assumes "agent_inv h" "r \<in> set (m_http_requests (h_env h))"
  shows "agent_inv (http_response e d r resp code speed h)"
proof (cases "record_job r")
  case True
  then obtain seg where job: "rq_job r = Upload_Job Record_Media seg" by (auto simp: record_job_def split: http_job.splits)
  define h1 where "h1 = finish_upload e d seg (code = 200) (upd_m (\<lambda>m. m\<lparr>m_http_requests := remove1 r (m_http_requests m)\<rparr>) h)"
  have s: "slots h1 = (fst (slots h), fst (snd (slots h)), record_jobs h - 1, snd (snd (snd (slots h))))" and "sinks h1 = sinks h"
    using True assms(2) by (simp_all add: h1_def) (simp add: view_defs upd_m_def filter_remove1_length)
  moreover have pos: "0 < record_jobs h" using True assms(2) by (auto simp: record_jobs_def filter_empty_conv)
  moreover have "slots (upd_stats (count_response Record_Media b speed) h1) = (fst (slots h1), dec_size (fst (snd (slots h1))), snd (snd (slots h1)))" for b
    by (simp add: upd_stats_def upd_m_def view_defs count_response_def Let_def)
  ultimately have "slots_ok (slots (upd_stats (count_response Record_Media (code = 200) speed) h1))"
    using assms(1) by (auto simp: agent_inv_def slots_ok_def dec_size_def slots_def)
  then show ?thesis using assms(1) \<open>sinks h1 = sinks h\<close>
    by (simp add: http_response_def job agent_inv_def h1_def)
next
  case False
  then have "slots (upd_m (\<lambda>m. m\<lparr>m_http_requests := remove1 r (m_http_requests m)\<rparr>) h) = slots h"
    using assms(2) by (simp add: view_defs upd_m_def filter_remove1_length)
  moreover have "k \<noteq> Record_Media \<Longrightarrow> records_uploading (count_response k b speed s) = records_uploading s" for k b s
    by (cases k) (simp_all add: count_response_def Let_def)
  ultimately show ?thesis using assms(1) False
    by (auto simp: http_response_def agent_inv_def Let_def record_job_def split: http_job.splits)
qed

section \<open>The virtual functions\<close>

text \<open>The streams answer one after another.\<close>

lemma ask_views [simp]:
  fixes f :: "nat \<Rightarrow> 'c \<Rightarrow> 'd \<Rightarrow> bool \<times> 'c \<times> 'd"
  defines "ask \<equiv> \<lambda>s (r, c, h). (r \<or> fst (dev_call2 (f s c) h), snd (dev_call2 (f s c) h))"
  shows "slots (snd (snd (fold ask xs t))) = slots (snd (snd t))" "sinks (snd (snd (fold ask xs t))) = sinks (snd (snd t))"
  by (induction xs arbitrary: t) (simp_all add: split_beta ask_def)

lemma stream_config_views [simp]:
  "slots (snd (snd (mgr_on_get_stream_config d c h))) = slots h" "sinks (snd (snd (mgr_on_get_stream_config d c h))) = sinks h"
  "slots (snd (snd (mgr_on_get_stream_caps d c2 h))) = slots h" "sinks (snd (snd (mgr_on_get_stream_caps d c2 h))) = sinks h"
  by (simp_all add: mgr_on_get_stream_config_def mgr_on_get_stream_caps_def split_beta)

lemma restart_views [simp]:
  "slots (restart_recording d s h) = slots h" "sinks (restart_recording d s h) = sinks h"
  "slots (snd (snd (current_stream_conf d s h))) = slots h" "sinks (snd (snd (current_stream_conf d s h))) = sinks h"
  by (simp_all add: restart_recording_def current_stream_conf_def Let_def split_beta)

lemma apply_config_views [simp]:
  "slots (snd (apply_stream_config e d new s t)) = slots (snd t)"
  "sinks_ok (sinks (snd t)) \<Longrightarrow> sinks_ok (sinks (snd (apply_stream_config e d new s t)))"
  by (simp_all add: apply_stream_config_def Let_def split_beta)

lemma set_config_views [simp]:
  "slots (snd (mgr_on_set_stream_config e d new h)) = slots h"
  "sinks_ok (sinks h) \<Longrightarrow> sinks_ok (sinks (snd (mgr_on_set_stream_config e d new h)))"
proof -
  have "slots (snd (fold (apply_stream_config e d new) ss t)) = slots (snd t)" for ss t
    by (induction ss arbitrary: t) simp_all
  then show "slots (snd (mgr_on_set_stream_config e d new h)) = slots h" by (simp add: mgr_on_set_stream_config_def)
  have "sinks_ok (sinks (snd t)) \<Longrightarrow> sinks_ok (sinks (snd (fold (apply_stream_config e d new) ss t)))" for ss t
    by (induction ss arbitrary: t) simp_all
  then show "sinks_ok (sinks h) \<Longrightarrow> sinks_ok (sinks (snd (mgr_on_set_stream_config e d new h)))"
    by (simp add: mgr_on_set_stream_config_def)
qed

lemma supported_views [simp]:
  "slots (snd (snd (supported_loop d ss c h))) = slots h" "sinks (snd (snd (supported_loop d ss c h))) = sinks h"
  "slots (snd (snd (mgr_on_get_supported_streams d c h))) = slots h"
  "sinks (snd (snd (mgr_on_get_supported_streams d c h))) = sinks h"
proof -
  show 1: "slots (snd (snd (supported_loop d ss c h))) = slots h" "sinks (snd (snd (supported_loop d ss c h))) = sinks h" for ss
    by (induction ss arbitrary: c h) (simp_all add: Let_def split_beta)
  show "slots (snd (snd (mgr_on_get_supported_streams d c h))) = slots h"
    "sinks (snd (snd (mgr_on_get_supported_streams d c h))) = sinks h"
    by (simp_all add: mgr_on_get_supported_streams_def split_beta 1)
qed

lemma by_event_config_views [simp]:
  "slots (snd (mgr_on_set_stream_by_event d c h)) = slots h" "sinks (snd (mgr_on_set_stream_by_event d c h)) = sinks h"
  "slots (snd (snd (mgr_on_get_stream_by_event d c h))) = slots h" "sinks (snd (snd (mgr_on_get_stream_by_event d c h))) = sinks h"
  by (simp_all add: mgr_on_set_stream_by_event_def mgr_on_get_stream_by_event_def Let_def split: option.split list.split)

lemma http_command_views [simp]:
  "slots (snd (mgr_on_update_preview d url h)) = slots h" "sinks (snd (mgr_on_update_preview d url h)) = sinks h"
  "slots (snd (mgr_on_cam_upgrade_firmware url h)) = slots h" "sinks (snd (mgr_on_cam_upgrade_firmware url h)) = sinks h"
  "slots (snd (mgr_on_get_log e d h)) = slots h" "sinks (snd (mgr_on_get_log e d h)) = sinks h"
  "slots (snd (mgr_on_audio_file_play url h)) = slots h" "sinks (snd (mgr_on_audio_file_play url h)) = sinks h"
  by (simp_all add: mgr_on_update_preview_def mgr_on_cam_upgrade_firmware_def mgr_on_get_log_def mgr_on_audio_file_play_def
      record_job_def Let_def split_beta split: option.split sum.split)

lemma command_views [simp]:
  "slots (snd (mgr_on_trigger_event e d n j t h)) = slots h" "sinks (snd (mgr_on_trigger_event e d n j t h)) = sinks h"
  "slots (snd (mgr_on_start_backward e d url h)) = slots h" "sinks (snd (mgr_on_start_backward e d url h)) = sinks h"
  "slots (snd (snd (mgr_on_get_cam_memorycard_timeline e d c h))) = slots h"
  "sinks (snd (snd (mgr_on_get_cam_memorycard_timeline e d c h))) = sinks h"
  "slots (snd (snd (mgr_on_cam_memorycard_synchronize e d c2 t1 t2 h))) = slots h"
  "sinks (snd (snd (mgr_on_cam_memorycard_synchronize e d c2 t1 t2 h))) = sinks h"
  "slots (snd (mgr_on_cam_memorycard_recording d n b h)) = slots h" "sinks (snd (mgr_on_cam_memorycard_recording d n b h)) = sinks h"
  by (simp_all add: mgr_on_trigger_event_def mgr_on_start_backward_def mgr_on_get_cam_memorycard_timeline_def
      mgr_on_cam_memorycard_synchronize_def mgr_on_cam_memorycard_recording_def Let_def split_beta split: option.split)

lemma reconnect_views [simp]:
  "slots (snd (try_connect h)) = slots h" "sinks (snd (try_connect h)) = sinks h"
  "slots (reconnect h) = slots h" "sinks (reconnect h) = sinks h"
  by (simp_all add: try_connect_def reconnect_def split_beta split: option.split)

lemma closed_views [simp]:
  "slots (mgr_on_closed e d err r h) = slots h" "sinks_ok (sinks h) \<Longrightarrow> sinks_ok (sinks (mgr_on_closed e d err r h))"
  by (simp_all add: mgr_on_closed_def Let_def)

lemma run_mtask_inv [simp]: "agent_inv h \<Longrightarrow> agent_inv (run_mtask e d t h)"
  by (cases t) (simp_all add: agent_inv_def)

lemma run_mack_inv [simp]: "agent_inv h \<Longrightarrow> agent_inv (run_mack e d t b c h)"
  by (cases t) (simp_all, simp_all add: agent_inv_def)

text \<open>Every virtual function keeps the invariant, so every message and every task of the handler does.\<close>

interpretation agent: handler_invariant "manager_upcalls e d" agent_inv for e d
  by unfold_locales (simp_all only: manager_upcalls_def upcalls.simps,
    simp_all add: agent_inv_def run_mtask_inv [unfolded agent_inv_def] run_mack_inv [unfolded agent_inv_def]
      direct_upload_url_inv [unfolded agent_inv_def])

section \<open>Every step\<close>

lemma run_etask_inv [simp]: "agent_inv h \<Longrightarrow> agent_inv (run_etask e d t h)"
  by (cases t) (simp_all add: agent_inv_def Let_def)

lemma fire_inv:
  assumes "agent_inv h"
  shows "agent_inv (fire_http_timer e d i h)" "agent_inv (fire_du_timer e d i h)" "agent_inv (fire_ws_timer e d i h)"
proof -
  have t: "agent_inv (upd_m (\<lambda>m. m\<lparr>m_http_timers := f (m_http_timers m)\<rparr>) h') = agent_inv h'"
    "agent_inv (upd_m (\<lambda>m. m\<lparr>m_du_timers := g (m_du_timers m)\<rparr>) h') = agent_inv h'" for f g and h' :: "'a agent"
    by (simp_all add: agent_inv_def)
  show "agent_inv (fire_http_timer e d i h)" "agent_inv (fire_du_timer e d i h)" "agent_inv (fire_ws_timer e d i h)"
    using assms by (simp_all add: fire_http_timer_def fire_du_timer_def fire_ws_timer_def Let_def t agent.run_htask_keeps
      split: option.split)
qed

lemma lifecycle_inv: "agent_inv h \<Longrightarrow> agent_inv (snd (mgr_start h))" "agent_inv h \<Longrightarrow> agent_inv (mgr_stop e d h)"
  by (simp_all add: mgr_start_def mgr_stop_def agent_inv_def Let_def split_beta)

lemma astep_inv: "astep e d h h' \<Longrightarrow> agent_inv h \<Longrightarrow> agent_inv h'"
proof (induction rule: astep.induct)
  case (astep_message m h r h')
  then show ?case using agent.handle_message_keeps [of h "me_h e" e d m] by simp
next
  case (astep_start h)
  then show ?case by (rule lifecycle_inv)
next
  case (astep_stop h)
  then show ?case by (rule lifecycle_inv)
qed (simp_all add: fire_inv agent.connection_keeps agent.run_htask_keeps, simp_all add: agent_inv_def)

lemma set_token_views [simp]:
  "slots (snd (set_token e junk t h)) = slots h" "sinks (snd (set_token e junk t h)) = sinks h"
  by (simp_all add: set_token_def Let_def split: sum.split option.split)

lemma new_inv: "agent_inv (manager_new p n x)"
  by (simp add: agent_inv_def view_defs slots_ok_def sinks_ok_def manager_new_def mgr_new_def debug_stats_default_def)

lemma create_result:
  "manager_create e td junk p n x tok ss es = Inr (Some h) \<Longrightarrow>
   h = set_event_streams es (set_streams ss (snd (set_token e junk (normalize_access_token td (the tok)) (manager_new p n x))))"
  by (cases tok) (simp_all add: manager_create_def split_beta split: if_split_asm)

lemma set_streams_inv: "agent_inv (set_event_streams es (set_streams ss h)) = agent_inv h"
  by (cases ss) (simp_all add: agent_inv_def set_event_streams_def set_streams_def)

lemma create_inv: "manager_create e td junk p n x tok ss es = Inr (Some h) \<Longrightarrow> agent_inv h"
proof -
  assume "manager_create e td junk p n x tok ss es = Inr (Some h)"
  from create_result [OF this] show ?thesis
    using new_inv [of p n x] by (simp only: set_streams_inv) (simp add: agent_inv_def)
qed

lemma astep_star_inv: "(astep e d)\<^sup>*\<^sup>* h0 h \<Longrightarrow> agent_inv h0 \<Longrightarrow> agent_inv h"
proof (induction rule: rtranclp_induct)
  case (step y z)
  show ?case by (rule astep_inv [OF step.hyps(2) step.IH [OF step.prems]])
qed

lemma agent_reachable_inv: "agent_reachable e d h \<Longrightarrow> agent_inv h"
  unfolding agent_reachable_def by (elim exE conjE) (rule astep_star_inv, assumption, rule create_inv, assumption)

end
