(* ===== verification/Manager_Correct.thy ===== *)
theory Manager_Correct
  imports Manager_Invariant
begin

text \<open>
  Properties of the manager: what reaches the cloud and what does not, how a record travels from the
  device to its upload, what happens when the cloud refuses, and the settings of streams and events.
\<close>

section \<open>A concrete agent\<close>

definition demo_clip :: "time \<Rightarrow> time \<Rightarrow> clip" where
  "demo_clip b e = \<lparr>tp_start = 5, tp_stop = 9, clip_data = [7]\<rparr>"

definition demo_device :: "unit device" where
  "demo_device =
   \<lparr>clock_now = (\<lambda>s. (1, s)), clock_utc = (\<lambda>s. (0, s)), cloud_name = (\<lambda>_. ''cam''),
    stream_start = (\<lambda>_ s. (True, s)), stream_stop = (\<lambda>_ s. s),
    start_sink = (\<lambda>_ _ s. (True, s)), stop_sink = (\<lambda>_ s. s), record_needs_source = (\<lambda>_. False),
    start_record = (\<lambda>_ s. (True, s)), stop_record = (\<lambda>_ s. s),
    record_get_list = (\<lambda>_ _ _ _ s. ([], s)), record_export = (\<lambda>_ b e s. (demo_clip b e, s)),
    get_snapshot = (\<lambda>_ x s. (True, x, s)), dv_get_stream_caps = (\<lambda>_ x s. (True, x, s)),
    get_supported_stream = (\<lambda>_ x s. (True, x, s)), dv_get_stream_config = (\<lambda>_ x s. (True, x, s)),
    dv_set_stream_config = (\<lambda>_ _ s. (True, s)), evs_name = (\<lambda>_. ''ev''), evs_start = (\<lambda>_ s. s),
    evs_stop = (\<lambda>_ s. s), evs_get_events = (\<lambda>_ x s. (True, x, s)),
    evs_set_events = (\<lambda>_ _ s. s), evs_trigger_event = (\<lambda>_ _ s. (True, s)),
    evs_set_trigger_recording = (\<lambda>_ _ _ _ s. s), cb_on_bye = (\<lambda>_ s. s),
    cb_on_registered = (\<lambda>_ s. s), cb_on_raw_msg = (\<lambda>_ x s. (True, x, s)),
    cb_on_get_log = (\<lambda>x s. (True, x, s)), cb_on_start_backward_audio = (\<lambda>_ s. (True, s)),
    cb_on_stop_backward_audio = (\<lambda>_ s. (True, s)), cb_on_get_cam_video_config = (\<lambda>x s. (True, x, s)),
    cb_on_set_cam_video_config = (\<lambda>_ s. (True, s)), cb_on_get_cam_audio_config = (\<lambda>x s. (True, x, s)),
    cb_on_set_cam_audio_config = (\<lambda>_ s. (True, s)), cb_on_get_ptz_config = (\<lambda>x s. (True, x, s)),
    cb_on_cam_ptz = (\<lambda>_ s. (True, s)), cb_on_cam_ptz_preset = (\<lambda>x s. (True, x, s)),
    cb_on_get_osd_config = (\<lambda>x s. (True, x, s)), cb_on_set_osd_config = (\<lambda>_ s. (True, s)),
    cb_on_get_wifi_config = (\<lambda>x s. (True, x, s)), cb_on_set_wifi_config = (\<lambda>_ s. (True, s)),
    cb_on_get_motion_detection_config = (\<lambda>x s. (True, x, s)),
    cb_on_set_motion_detection_config = (\<lambda>_ s. (True, s)),
    cb_on_get_cam_events_config = (\<lambda>x s. (True, x, s)),
    cb_on_set_cam_events_config = (\<lambda>_ s. (True, s)), cb_on_get_timezone = (\<lambda>x s. (True, x, s)),
    cb_on_set_timezone = (\<lambda>_ s. (True, s)), cb_on_get_memorycard_info = (\<lambda>x s. (True, x, s)),
    cb_on_cam_upgrade_firmware = (\<lambda>_ s. s), cb_on_audio_file_play = (\<lambda>_ _ s. s),
    cb_on_trigger_event = (\<lambda>x s. (True, x, s)), cb_on_set_audio_detection = (\<lambda>_ s. (True, s)),
    cb_on_get_audio_detection = (\<lambda>x s. (True, x, s))\<rparr>"

definition demo_menv :: menv where
  "demo_menv = \<lparr>me_h = demo_henv, me_to_double = (\<lambda>_. 0), me_to_iso_packed = (\<lambda>_. []), me_parse = (\<lambda>_. Some (JObj [(''token'', JStr ''t'')]))\<rparr>"

definition demo_agent :: "unit agent" where
  "demo_agent = set_streams [1] ((manager_new profile_default 1 ())\<lparr>registered := True\<rparr>)"

section \<open>Frames\<close>

lemma h_env_upd_m [simp]: "h_env (upd_m f h) = f (h_env h)" "registered (upd_m f h) = registered h"
  "h_profile (upd_m f h) = h_profile h" "msg_ids (upd_m f h) = msg_ids h"
  by (simp_all add: upd_m_def)

lemma h_env_fault [simp]: "h_env (fault h) = (h_env h)\<lparr>m_fault := True\<rparr>"
  by (simp add: fault_def)

lemma h_env_sending [simp]:
  "h_env (snd (send_text m h)) = h_env h" "h_env (snd (send_command m h)) = h_env h"
  "h_env (snd (send_command_wait_ack num m k h)) = h_env h"
  by (simp_all add: send_text_def send_command_def send_command_wait_ack_def Let_def split_beta split: option.split)

lemma h_env_report [simp]: "h_env (send_report e r h) = h_env h"
  by (simp add: send_report_def Let_def split_beta)

lemma h_env_schedule [simp]:
  "h_env (snd (du_schedule t h)) = (h_env h)\<lparr>m_du_timers := snd (schedule_timed_cb t (m_du_timers (h_env h)))\<rparr>"
  by (simp add: du_schedule_def split_beta)

lemma fold_report [simp]: "h_env (fold (send_report e) rs h) = h_env h"
  by (induction rs arbitrary: h) simp_all

text \<open>What the uploader's callbacks change: timers only.\<close>

lemma request_env: "\<exists>l. h_env (send_request e d r h) = (h_env h)\<lparr>m_du_timers := l\<rparr>"
proof -
  have same: "\<exists>l. m = m\<lparr>m_du_timers := l\<rparr>" for m :: "'a mgr"
    by (intro exI [where x = "m_du_timers m"]) simp
  show ?thesis
    by (auto simp: send_request_def schedule_direct_upload_def Let_def split_beta intro: same)
qed

lemma fold_request_env: "\<exists>l. h_env (fold (send_request e d) rs h) = (h_env h)\<lparr>m_du_timers := l\<rparr>"
proof (induction rs arbitrary: h)
  case Nil
  show ?case by (intro exI [where x = "m_du_timers (h_env h)"]) simp
next
  case (Cons r rs)
  obtain l where "h_env (send_request e d r h) = (h_env h)\<lparr>m_du_timers := l\<rparr>" using request_env by blast
  moreover obtain l' where "h_env (fold (send_request e d) rs (send_request e d r h)) =
      (h_env (send_request e d r h))\<lparr>m_du_timers := l'\<rparr>" using Cons.IH by blast
  ultimately show ?case by (intro exI [where x = l']) simp
qed

lemma set_uploader_env: "\<exists>l. h_env (set_uploader e d u h) = (h_env h)\<lparr>m_uploader := u, m_du_timers := l\<rparr>"
  using fold_request_env [of e d "drop (length (requested (m_uploader (h_env h)))) (requested u)"
      "fold (send_report e) (drop (length (sent (m_uploader (h_env h)))) (sent u)) (upd_m (\<lambda>m. m\<lparr>m_uploader := u\<rparr>) h)"]
  by (auto simp: set_uploader_def Let_def)

lemma set_uploader_frame [simp]:
  "m_uploader (h_env (set_uploader e d u h)) = u" "m_records (h_env (set_uploader e d u h)) = m_records (h_env h)"
  "m_snapshots (h_env (set_uploader e d u h)) = m_snapshots (h_env h)"
  "m_stats (h_env (set_uploader e d u h)) = m_stats (h_env h)"
  "m_http_requests (h_env (set_uploader e d u h)) = m_http_requests (h_env h)"
  using set_uploader_env [of e d u h] by auto

lemma finish_upload_frame [simp]:
  "m_records (h_env (finish_upload e d seg ok h)) = m_records (h_env h)"
  "m_stats (h_env (finish_upload e d seg ok h)) = m_stats (h_env h)"
  "m_http_requests (h_env (finish_upload e d seg ok h)) = m_http_requests (h_env h)"
  by (simp_all add: finish_upload_def split: option.split)

lemma request_stored:
  assumes "request_direct_upload_video e d x h = (True, h1)"
    and "lookup_stream d (gduu_stream_id (du_cmd x)) (h_env h) = Some s"
  defines "c \<equiv> fst (record_export d s (fst (export_window e (du_cmd x))) (snd (export_window e (du_cmd x))) (m_dev (h_env h)))"
  shows "clip_data c \<noteq> [] \<and> (\<exists>dv ft. h_env h1 = (h_env h)\<lparr>m_dev := dv,
     m_records := AList.update (bc_msgid (du_cmd x)) c (m_records (h_env h)), m_fault := ft\<rparr>)"
proof -
  let ?w = "export_window e (du_cmd x)" and ?g = "\<lambda>f. (f (h_env h))"
  define h0 where "h0 = upd_m (\<lambda>m. m\<lparr>m_records := AList.update (bc_msgid (du_cmd x)) c (m_records m)\<rparr>)
     (snd (dev_call (record_export d s (fst ?w) (snd ?w)) h))"
  have h0: "h_env h0 = (h_env h)\<lparr>m_dev := snd (record_export d s (fst ?w) (snd ?w) (m_dev (h_env h))),
     m_records := AList.update (bc_msgid (du_cmd x)) c (m_records (h_env h))\<rparr>"
    by (simp add: h0_def dev_call_def split_beta)
  have env: "h_env (snd (send_command_wait_ack num m k h0)) = h_env h0" for num m k by simp
  have c: "c = fst (dev_call (record_export d s (fst ?w) (snd ?w)) h)" by (simp add: c_def dev_call_def split_beta)
  have "clip_data c \<noteq> [] \<and> (h_env h1 = h_env h0 \<or> h_env h1 = (h_env h0)\<lparr>m_fault := True\<rparr>)"
    using assms(1,2) by (auto simp: request_direct_upload_video_def Let_def split_beta c [symmetric] h0_def [symmetric]
        env split: if_splits sum.splits prod.splits dest: arg_cong [where f = snd])
  moreover have "(h_env h)\<lparr>m_dev := dv, m_records := rs\<rparr> = (h_env h)\<lparr>m_dev := dv, m_records := rs, m_fault := m_fault (h_env h)\<rparr>" for dv rs
    by simp
  ultimately show ?thesis unfolding h0 by metis
qed

section \<open>The concrete agent\<close>

definition demo_token_defaults :: token_defaults where
  "demo_token_defaults = \<lparr>td_api = ''a'', td_api_p = 80, td_api_sp = 443, td_cam = ''a'', td_cam_p = 8888, td_cam_sp = 8883\<rparr>"

lemma demo_url:
  "\<exists>a. svcp_url True (normalize_access_token demo_token_defaults access_token_default) = Inr ''http://a:8888'' \<and>
     cm_address ''http://a:8888'' = Inr a"
proof -
  have "uri_parse ''http://a:8888'' = Inr \<lparr>QueryString = [], Path = [], Protocol = ''http'', Host = ''a'', Port = ''8888''\<rparr>"
    using uri_roundtrip [of "\<lparr>QueryString = [], Path = [], Protocol = ''http'', Host = ''a'', Port = ''8888''\<rparr>"]
    by (simp add: uri_wf_def plain_def uri_print_def)
  then have "\<exists>a. cm_address ''http://a:8888'' = Inr a" by (simp add: cm_address_def Let_def)
  then show ?thesis
    by (simp add: svcp_url_def svcp_port_def normalize_access_token_def demo_token_defaults_def access_token_default_def default_ports unset_string_def)
qed

lemma set_token_ok:
  assumes "svcp_url (pf_insecure_cloud_channel (h_profile h)) t = Inr url" "cm_address url = Inr a"
    "Option.bind (me_parse e (''{\"token\" : \"'' @ at_token t @ ''\"}'')) (CloudRegToken_of_json (he_num (me_h e)) junk) = Some tok"
  shows "\<exists>c. set_token e junk t h = (True, (upd_m (\<lambda>m. m\<lparr>m_svcp_url := url\<rparr>) h)\<lparr>cm_config := c\<rparr>)"
  using assms by (simp add: set_token_def Let_def) blast

lemma demo_created:
  "\<exists>c url. manager_create demo_menv demo_token_defaults 0 profile_default 1 () (Some access_token_default) [1] [2] =
     Inr (Some (set_event_streams [2] (set_streams [1] ((upd_m (\<lambda>m. m\<lparr>m_svcp_url := url\<rparr>)
       (manager_new profile_default 1 ()))\<lparr>cm_config := c\<rparr>))))"
proof -
  let ?t = "normalize_access_token demo_token_defaults access_token_default" and ?h = "manager_new profile_default 1 ()"
  obtain a where "svcp_url True ?t = Inr ''http://a:8888''" "cm_address ''http://a:8888'' = Inr a" using demo_url by blast
  moreover have "pf_insecure_cloud_channel (h_profile ?h)" by (simp add: manager_new_def profile_default_def)
  moreover have "Option.bind (me_parse demo_menv (''{\"token\" : \"'' @ at_token ?t @ ''\"}''))
      (CloudRegToken_of_json (he_num (me_h demo_menv)) 0) = Some (CloudRegToken_empty\<lparr>mToken := ''t''\<rparr>)"
    by (simp add: demo_menv_def CloudRegToken_of_json_def opt_member_def CloudRegToken_empty_def)
  ultimately obtain c where "set_token demo_menv 0 ?t ?h = (True, (upd_m (\<lambda>m. m\<lparr>m_svcp_url := ''http://a:8888''\<rparr>) ?h)\<lparr>cm_config := c\<rparr>)"
    using set_token_ok [of ?h ?t "''http://a:8888''" a demo_menv 0] by auto
  then show ?thesis
    by (intro exI [where x = c] exI [where x = "''http://a:8888''"])
      (simp add: manager_create_def, simp add: manager_new_def mgr_new_def)
qed

text \<open>A reachable state with a live stream.\<close>

lemma demo_live:
  "\<exists>h. agent_reachable demo_menv demo_device h \<and> m_active_sinks (h_env h) = 1 \<and> m_streams (h_env h) = [1]"
proof -
  obtain h0 where c: "manager_create demo_menv demo_token_defaults 0 profile_default 1 () (Some access_token_default) [1] [2] = Inr (Some h0)"
    and s: "m_streams (h_env h0) = [1]" "m_active_sinks (h_env h0) = 0"
    using demo_created by (auto simp: set_event_streams_def set_streams_def manager_new_def mgr_new_def)
  define h where "h = run_htask (manager_upcalls demo_menv demo_device) (Client_Task (Start_On_Rx ''cam'' (- 1) SR_LIVE)) h0"
  have "astep demo_menv demo_device h0 h" unfolding h_def by (rule astep_rx)
  then have "agent_reachable demo_menv demo_device h" using c unfolding agent_reachable_def by blast
  moreover have "m_active_sinks (h_env h) = 1 \<and> m_streams (h_env h) = [1]"
    using s by (simp add: h_def manager_upcalls_def mgr_on_stream_start_def lookup_stream_def demo_device_def start_live_def
        add_sink_def dev_call_def)
  ultimately show ?thesis by blast
qed

section \<open>Properties\<close>



text \<open>
  C2: in every reachable state the counter of record uploads is the number of uploads under way, at most
  the limit of the profile are waiting for an upload URL, and both together stay below twice the limit.
\<close>

theorem record_uploads_bounded:
  assumes "agent_reachable e d h"
  shows "records_uploading (m_stats (h_env h)) = record_jobs h \<and>
    length (m_records (h_env h)) \<le> pf_max_concurent_video_uploads (h_profile h) \<and>
    length (m_records (h_env h)) + record_jobs h \<le> 2 * pf_max_concurent_video_uploads (h_profile h) - 1"
  using agent_reachable_inv [OF assms] by (auto simp: agent_inv_def slots_ok_def slots_def)

theorem record_uploads_bounded_witness:
  "\<exists>h. agent_reachable demo_menv demo_device h \<and> m_active_sinks (h_env h) = 1 \<and>
     records_uploading (m_stats (h_env h)) = record_jobs h"
  using demo_live record_uploads_bounded by blast

text \<open>
  C30: an event is not sent, and nothing but the message counter changes, when the agent is not registered,
  when no configuration has the event's name, or when the event is switched off and not a dummy that only
  continues another.
\<close>

theorem notify_event_gated:
  assumes "event_name ev \<noteq> None"
    and "\<not> registered h \<or> get_event_config ev (esc_events (m_events_config (h_env h))) = None \<or>
      (\<exists>conf. get_event_config ev (esc_events (m_events_config (h_env h))) = Some conf \<and> \<not> evc_active conf \<and> \<not> eo_state_dummy ev)"
  shows "notify_event e d ev h = (False, h\<lparr>msg_ids := msg_ids h + 2\<rparr>)"
  using assms by (auto simp: notify_event_def create_cam_event_def fresh_id_def Let_def)

theorem notify_event_gated_witness:
  "notify_event demo_menv demo_device (event_object_default\<lparr>eo_event := ET_MOTION\<rparr>) demo_agent =
   (False, demo_agent\<lparr>msg_ids := msg_ids demo_agent + 2\<rparr>)"
proof (rule notify_event_gated)
  show "event_name (event_object_default\<lparr>eo_event := ET_MOTION\<rparr>) \<noteq> None"
    by (simp add: event_name_def event_type_table_def enum_to_def)
  have "esc_events (m_events_config (h_env demo_agent)) = []"
    by (simp add: demo_agent_def set_streams_def manager_new_def mgr_new_def)
  then show "\<not> registered demo_agent \<or> get_event_config (event_object_default\<lparr>eo_event := ET_MOTION\<rparr>)
      (esc_events (m_events_config (h_env demo_agent))) = None \<or>
    (\<exists>conf. get_event_config (event_object_default\<lparr>eo_event := ET_MOTION\<rparr>) (esc_events (m_events_config (h_env demo_agent))) =
      Some conf \<and> \<not> evc_active conf \<and> \<not> eo_state_dummy (event_object_default\<lparr>eo_event := ET_MOTION\<rparr>))"
    by simp
qed

text \<open>
  C3: a record the cloud asks for travels unchanged: after the request, a positive reply with a URL puts
  exactly the exported clip, to that URL, with the reply's headers but the length, and the slot moves from
  waiting to under way; a response of 200 then counts the upload as done.
\<close>

theorem record_travels:
  fixes ev_id code :: int
  assumes request: "request_direct_upload_video e d x h = (True, h1)"
    and stream: "lookup_stream d (gduu_stream_id (du_cmd x)) (h_env h) = Some s"
    and clip: "fst (record_export d s (fst (export_window e (du_cmd x))) (snd (export_window e (du_cmd x))) (m_dev (h_env h))) = c"
    and reply: "duu_direct_upload_url_base r = b" "duub_status b = ''OK''" "duub_url b \<noteq> unset_string" "duub_category b = UC_RECORD"
    and live: "\<not> upload_canceled (du_seg x) (h_env h1)"
    and h2: "h2 = snd (mgr_on_direct_upload_url e d b ev_id (bc_msgid (du_cmd x))
      (ack_upload e d x False (Some (C_direct_upload_url r)) h1))"
    and q: "q = \<lparr>rq_url = duub_url b, rq_method = ''PUT'', rq_body = clip_data c,
      rq_headers = filter (\<lambda>p. fst p \<noteq> ''Content-Length'') (duub_headers b), rq_job = Upload_Job Record_Media (du_seg x)\<rparr>"
  shows "m_http_requests (h_env h2) = m_http_requests (h_env h) @ [q] \<and> clip_data c \<noteq> [] \<and>
    map_of (m_records (h_env h2)) (bc_msgid (du_cmd x)) = None \<and>
    records_uploading (m_stats (h_env h2)) = records_uploading (m_stats (h_env h)) + 1 \<and>
    records_uploaded (m_stats (h_env (http_response e d q resp 200 speed h2))) = records_uploaded (m_stats (h_env h)) + 1"
proof -
  obtain dv ft where h1: "h_env h1 = (h_env h)\<lparr>m_dev := dv, m_records := AList.update (bc_msgid (du_cmd x)) c (m_records (h_env h)),
      m_fault := ft\<rparr>" and data: "clip_data c \<noteq> []"
    using request_stored [OF request stream] clip by blast
  define m where "m = (h_env h1)\<lparr>m_cur_upload := None\<rparr>"
  have "\<not> upload_canceled (du_seg x) m" using live by (auto simp: m_def upload_canceled_def split: option.splits)
  moreover have "media_for UC_RECORD (bc_msgid (du_cmd x)) False m = (Record_Media, clip_data c,
      m\<lparr>m_records := AList.delete (bc_msgid (du_cmd x)) (m_records m),
        m_stats := (m_stats m)\<lparr>records_uploading := records_uploading (m_stats m) + 1\<rparr>\<rparr>)"
    using data by (simp add: media_for_def waiting_def category_allows_def m_def h1 update_conv)
  ultimately have "h_env h2 = m\<lparr>m_records := AList.delete (bc_msgid (du_cmd x)) (m_records m),
      m_stats := (m_stats m)\<lparr>records_uploading := records_uploading (m_stats m) + 1\<rparr>,
      m_http_requests := m_http_requests m @ [q]\<rparr>"
    using reply data by (simp add: h2 q mgr_on_direct_upload_url_def ack_upload_def Let_def http_make_def m_def)
  then show ?thesis using data
    by (simp add: m_def h1 q http_response_def upd_stats_def count_response_def Let_def AList.delete_conv)
qed

text \<open>The reply of the cloud to a request for an upload, for the instance below.\<close>

definition demo_upload :: direct_upload where
  "demo_upload = \<lparr>du_cmd = (get_direct_upload_url_default 4)\<lparr>gduu_stream_id := ''cam''\<rparr>, du_seg = None\<rparr>"

definition demo_reply :: "string \<Rightarrow> direct_upload_url" where
  "demo_reply st = (direct_upload_url_default 5)\<lparr>duu_direct_upload_url_base :=
     direct_upload_url_base_default\<lparr>duub_status := st, duub_url := ''http://u'', duub_category := UC_RECORD\<rparr>\<rparr>"

lemma demo_simps [simp]:
  "duub_status (duu_direct_upload_url_base (demo_reply st)) = st"
  "duub_url (duu_direct_upload_url_base (demo_reply st)) = ''http://u''"
  "duub_category (duu_direct_upload_url_base (demo_reply st)) = UC_RECORD"
  "duub_headers (duu_direct_upload_url_base (demo_reply st)) = []"
  "bc_msgid (du_cmd demo_upload) = 4" "du_seg demo_upload = None" "gduu_stream_id (du_cmd demo_upload) = ''cam''"
  "record_export demo_device s b en x = (\<lparr>tp_start = 5, tp_stop = 9, clip_data = [7]\<rparr>, x)"
  "cloud_name demo_device s = ''cam''" "m_streams (h_env demo_agent) = [1]"
  by (simp_all add: demo_reply_def direct_upload_url_base_default_def demo_upload_def get_direct_upload_url_default_def
      base_command_default_def base_command.defs demo_device_def demo_clip_def demo_agent_def set_streams_def)

lemma demo_request:
  "\<exists>h1. request_direct_upload_video demo_menv demo_device demo_upload demo_agent = (True, h1)"
  by (simp add: request_direct_upload_video_def lookup_stream_def
      export_window_def dev_call_def has_times_def time_null_def Let_def split_beta split: sum.split)

theorem record_travels_witness:
  "\<exists>h1. request_direct_upload_video demo_menv demo_device demo_upload demo_agent = (True, h1) \<and>
    m_http_requests (h_env (snd (mgr_on_direct_upload_url demo_menv demo_device
      (duu_direct_upload_url_base (demo_reply ''OK'')) 0 4
      (ack_upload demo_menv demo_device demo_upload False (Some (C_direct_upload_url (demo_reply ''OK''))) h1)))) =
    m_http_requests (h_env demo_agent) @ [\<lparr>rq_url = ''http://u'', rq_method = ''PUT'', rq_body = [7], rq_headers = [],
      rq_job = Upload_Job Record_Media None\<rparr>]"
proof -
  obtain h1 where h1: "request_direct_upload_video demo_menv demo_device demo_upload demo_agent = (True, h1)"
    using demo_request by blast
  have "lookup_stream demo_device (gduu_stream_id (du_cmd demo_upload)) (h_env demo_agent) = Some 1"
    by (simp add: lookup_stream_def)
  from record_travels [OF h1 this refl refl _ _ _ _ refl refl, of "demo_reply ''OK''" 0] h1
  show ?thesis by (simp add: unset_string_def upload_canceled_def)
qed

text \<open>
  C35: when the cloud refuses an upload, the waiting record is never dropped: the reply leaves it in place,
  and as soon as the limit of the profile is reached the queue of uploads is not served any more.
\<close>

theorem refused_upload_leaks:
  assumes "request_direct_upload_video e d x h = (True, h1)"
    and "duub_status (duu_direct_upload_url_base r) \<noteq> ''OK''"
    and "h2 = ack_upload e d x False (Some (C_direct_upload_url r)) h1"
  shows "map_of (m_records (h_env h2)) (bc_msgid (du_cmd x)) \<noteq> None \<and>
    (pf_max_concurent_video_uploads (h_profile h2) \<le> length (m_records (h_env h2)) \<longrightarrow> sync_loop e d q h2 = h2)"
proof -
  obtain s where "lookup_stream d (gduu_stream_id (du_cmd x)) (h_env h) = Some s"
    using assms(1) by (auto simp: request_direct_upload_video_def split: option.splits)
  from request_stored [OF assms(1) this] have "map_of (m_records (h_env h1)) (bc_msgid (du_cmd x)) \<noteq> None"
    by (auto simp: update_conv)
  moreover have "pf_max_concurent_video_uploads (h_profile h2) \<le> length (m_records (h_env h2)) \<Longrightarrow> sync_loop e d q h2 = h2"
    by (cases q) (simp_all add: room_for_upload_def)
  ultimately show ?thesis using assms(2,3) by (simp add: ack_upload_def Let_def)
qed

theorem refused_upload_leaks_witness:
  "\<exists>h1. request_direct_upload_video demo_menv demo_device demo_upload demo_agent = (True, h1) \<and>
    map_of (m_records (h_env (ack_upload demo_menv demo_device demo_upload False
      (Some (C_direct_upload_url (demo_reply ''ERROR''))) h1))) 4 \<noteq> None"
proof -
  obtain h1 where h1: "request_direct_upload_video demo_menv demo_device demo_upload demo_agent = (True, h1)" using demo_request by blast
  from refused_upload_leaks [OF this _ refl, of "demo_reply ''ERROR''"] h1 show ?thesis by simp
qed

lemma finish_upload_failed:
  assumes "ticket (store (m_uploader (h_env h)) i) = []"
  shows "uploads_failed (store (m_uploader (h_env (finish_upload e d (Some i) False h))) i) =
      uploads_failed (store (m_uploader (h_env h)) i) + 1"
    "ticket (store (m_uploader (h_env (finish_upload e d (Some i) False h))) i) = []"
  using assms by (simp_all add: finish_upload_def on_finished_def Let_def)

text \<open>
  a reply that arrives after its request timed out is counted again: the segmenter of the one upload gets
  two failures.
\<close>

theorem late_reply_fails_twice:
  assumes "du_seg x = Some i" "ticket (store (m_uploader (h_env h)) i) = []"
    and "duub_status (duu_direct_upload_url_base r) \<noteq> ''OK''"
  shows "uploads_failed (store (m_uploader (h_env (ack_upload e d x False (Some (C_direct_upload_url r))
      (ack_upload e d x True None h)))) i) = uploads_failed (store (m_uploader (h_env h)) i) + 2"
proof -
  define h1 where "h1 = ack_upload e d x True None h"
  have "uploads_failed (store (m_uploader (h_env h1)) i) = uploads_failed (store (m_uploader (h_env h)) i) + 1"
    "ticket (store (m_uploader (h_env h1)) i) = []"
    using assms finish_upload_failed by (simp_all add: h1_def ack_upload_def upd_stats_def)
  then show ?thesis unfolding h1_def [symmetric]
    using assms finish_upload_failed [of h1] by (simp add: ack_upload_def Let_def)
qed

theorem late_reply_fails_twice_witness:
  "uploads_failed (store (m_uploader (h_env (ack_upload demo_menv demo_device (demo_upload\<lparr>du_seg := Some 3\<rparr>) False
     (Some (C_direct_upload_url (demo_reply ''ERROR''))) (ack_upload demo_menv demo_device (demo_upload\<lparr>du_seg := Some 3\<rparr>) True None
       demo_agent)))) 3) = uploads_failed (store (m_uploader (h_env demo_agent)) 3) + 2"
  by (rule late_reply_fails_twice)
    (simp_all add: demo_agent_def set_streams_def manager_new_def mgr_new_def uploader_new_def segmenter_default_def)

lemma update_event_config_kept:
  "update_event_config new dest = (ok, dest') \<Longrightarrow> length dest \<le> length dest' \<and>
   (\<forall>i < length dest. name_eq (dest' ! i) (dest ! i) \<and> evc_caps (dest' ! i) = evc_caps (dest ! i) \<and>
     (evc_snapshot (dest' ! i) \<longrightarrow> evc_snapshot (dest ! i)) \<and> (evc_stream (dest' ! i) \<longrightarrow> evc_stream (dest ! i)))"
proof (induction new dest arbitrary: dest' rule: update_event_config.induct)
  case (2 new c cs)
  then show ?case by (auto simp: Let_def name_eq_def nth_Cons' split: if_splits prod.splits)
qed simp

text \<open>
  new settings for the events keep every event that was there, its name and its capabilities, in place, and can
  switch its snapshots and its video off but never on again.
\<close>

theorem events_only_switched_off:
  assumes "update_events_configs new dest = (ok, dest')"
  shows "length dest \<le> length dest' \<and>
   (\<forall>i < length dest. name_eq (dest' ! i) (dest ! i) \<and> evc_caps (dest' ! i) = evc_caps (dest ! i) \<and>
     (evc_snapshot (dest' ! i) \<longrightarrow> evc_snapshot (dest ! i)) \<and> (evc_stream (dest' ! i) \<longrightarrow> evc_stream (dest ! i)))"
  using assms
proof (induction new dest arbitrary: dest' rule: update_events_configs.induct)
  case (2 new ns dest)
  then show ?case
    by (auto split: prod.splits if_splits dest!: update_event_config_kept simp: name_eq_def) (meson order.trans less_le_trans)+
qed (simp add: name_eq_def)

theorem events_only_switched_off_witness:
  "\<not> evc_stream (snd (update_events_configs [event_config_default\<lparr>evc_stream := True\<rparr>] [event_config_default]) ! 0)"
proof -
  let ?u = "update_events_configs [event_config_default\<lparr>evc_stream := True\<rparr>] [event_config_default]"
  have "evc_stream (snd ?u ! 0) \<longrightarrow> evc_stream event_config_default"
    using events_only_switched_off [of "[event_config_default\<lparr>evc_stream := True\<rparr>]" "[event_config_default]" "fst ?u" "snd ?u"]
    by simp
  then show ?thesis by (simp add: event_config_default_def)
qed

lemma flags_frame [simp]:
  "m_record_by_event (h_env (snd (stop_recording d s b h))) = m_record_by_event (h_env h)"
  "m_stream_by_event (h_env (snd (stop_recording d s b h))) = m_stream_by_event (h_env h)"
  "m_record_by_event (h_env (stop_unused_source d s h)) = m_record_by_event (h_env h)"
  "m_stream_by_event (h_env (stop_unused_source d s h)) = m_stream_by_event (h_env h)"
  by (simp_all add: stop_recording_def stop_unused_source_def dev_do_def upd_rec_def Let_def)

lemma fold_flags [simp]:
  "(\<And>x h. m_record_by_event (h_env (f x h)) = m_record_by_event (h_env h)) \<Longrightarrow>
     m_record_by_event (h_env (fold f xs h)) = m_record_by_event (h_env h)"
  "(\<And>x h. m_stream_by_event (h_env (g x h)) = m_stream_by_event (h_env h)) \<Longrightarrow>
     m_stream_by_event (h_env (fold g xs h)) = m_stream_by_event (h_env h)"
  by (induction xs arbitrary: h) simp_all

text \<open>
  stopping a stream that records by event leaves that mode, whatever events are being delivered: no
  event that starts later is uploaded or streamed.
\<close>

theorem stop_by_event_ends:
  assumes "lookup_stream d n (h_env h) = Some s" "m_record_stream (h_env h) = Some s"
  shows "fst (mgr_on_stream_stop e d n SR_RECORD_BY_EVENT h) \<and>
    current_delivery_mode (h_env (snd (mgr_on_stream_stop e d n SR_RECORD_BY_EVENT h))) = SDM_NONE"
proof -
  have "\<not> m_record_by_event (h_env (stop_by_event e d s h)) \<and> \<not> m_stream_by_event (h_env (stop_by_event e d s h))"
    using assms(2) by (simp add: stop_by_event_def Let_def upd_rec_def dev_do_def)
  then show ?thesis using assms(1) by (simp add: mgr_on_stream_stop_def current_delivery_mode_def)
qed

theorem stop_by_event_ends_witness:
  "current_delivery_mode (h_env (snd (mgr_on_stream_stop demo_menv demo_device ''cam'' SR_RECORD_BY_EVENT
     (upd_m (\<lambda>m. m\<lparr>m_record_by_event := True\<rparr>) demo_agent)))) = SDM_NONE"
proof -
  have "lookup_stream demo_device ''cam'' (h_env (upd_m (\<lambda>m. m\<lparr>m_record_by_event := True\<rparr>) demo_agent)) = Some 1"
    "m_record_stream (h_env (upd_m (\<lambda>m. m\<lparr>m_record_by_event := True\<rparr>) demo_agent)) = Some 1"
    by (simp_all add: lookup_stream_def demo_agent_def set_streams_def demo_device_def)
  from stop_by_event_ends [OF this] show ?thesis by blast
qed

lemma normalize_fields:
  "at_api (normalize_access_token td t) = (if at_api t = unset_string then td_api td else at_api t)"
  "at_cam (normalize_access_token td t) =
     (if at_cam t \<noteq> unset_string then at_cam t else if at_api t \<noteq> unset_string then at_api t else td_cam td)"
  "at_api_p (normalize_access_token td t) = (if at_api_p t = UnsetInt then td_api_p td else at_api_p t)"
  "at_api_sp (normalize_access_token td t) = (if at_api_sp t = UnsetInt then td_api_sp td else at_api_sp t)"
  "at_cam_p (normalize_access_token td t) = (if at_cam_p t = UnsetInt then td_cam_p td else at_cam_p t)"
  "at_cam_sp (normalize_access_token td t) = (if at_cam_sp t = UnsetInt then td_cam_sp td else at_cam_sp t)"
  by (simp_all add: normalize_access_token_def Let_def)

lemma normalize_idle:
  "at_api t \<noteq> unset_string \<Longrightarrow> at_cam t \<noteq> unset_string \<Longrightarrow> UnsetInt \<notin> {at_api_p t, at_api_sp t, at_cam_p t, at_cam_sp t} \<Longrightarrow>
   normalize_access_token td t = t"
  by (simp add: normalize_access_token_def Let_def)

text \<open>
  normalising an access token leaves no address and no port unset, keeps those that are set, and does nothing
  the second time.
\<close>

theorem normalize_access_token_complete:
  fixes t :: access_token
  assumes "td_api td \<noteq> unset_string" "td_cam td \<noteq> unset_string"
    and "UnsetInt \<notin> {td_api_p td, td_api_sp td, td_cam_p td, td_cam_sp td}"
  defines "t' \<equiv> normalize_access_token td t"
  shows "at_api t' \<noteq> unset_string \<and> at_cam t' \<noteq> unset_string \<and>
    UnsetInt \<notin> {at_api_p t', at_api_sp t', at_cam_p t', at_cam_sp t'} \<and>
    (at_cam t \<noteq> unset_string \<longrightarrow> at_cam t' = at_cam t) \<and> (at_api t \<noteq> unset_string \<longrightarrow> at_api t' = at_api t) \<and>
    normalize_access_token td t' = t'"
  proof -
  have "at_api t' \<noteq> unset_string" "at_cam t' \<noteq> unset_string" "UnsetInt \<notin> {at_api_p t', at_api_sp t', at_cam_p t', at_cam_sp t'}"
    using assms(1-3) by (simp_all add: t'_def normalize_fields)
  then show ?thesis using normalize_idle [of t' td] by (simp add: t'_def normalize_fields)
qed

theorem normalize_access_token_complete_witness:
  "at_cam (normalize_access_token demo_token_defaults (access_token_default\<lparr>at_api := ''b''\<rparr>)) \<noteq> unset_string \<and>
   at_api (normalize_access_token demo_token_defaults (access_token_default\<lparr>at_api := ''b''\<rparr>)) = ''b''"
  using normalize_access_token_complete [of demo_token_defaults "access_token_default\<lparr>at_api := ''b''\<rparr>"]
  by (simp add: demo_token_defaults_def unset_string_def UnsetInt_def)

lemma sorted_remdups: "remdups_adj (sort (xs :: 'a::linorder list)) = sorted_list_of_set (set xs)"
proof -
  have "sorted ys \<Longrightarrow> distinct (remdups_adj ys)" for ys :: "'a list"
    by (induction ys rule: remdups_adj.induct) (auto simp: le_less)
  then have "distinct (remdups_adj (sort xs))" by simp
  then show ?thesis
    using sorted_list_of_set.idem_if_sorted_distinct [of "remdups_adj (sort xs)"] by (simp add: sorted_remdups_adj)
qed

lemma supported_loop_spec:
  "supported_loop d ss c h = (True, c', h') \<Longrightarrow>
   (\<exists>new. ssc2_streams c' = ssc2_streams c @ new \<and>
     ssc2_video_es c' = ssc2_video_es c @ filter (\<lambda>v. v \<noteq> unset_string) (map ssc_video new) \<and>
     ssc2_audio_es c' = ssc2_audio_es c @ filter (\<lambda>v. v \<noteq> unset_string) (map ssc_audio new))"
proof (induction ss arbitrary: c h)
  case (Cons s ss)
  obtain x h1 where x: "dev_call2 (get_supported_stream d s supported_stream_config_default) h = (True, x, h1)"
    using Cons.prems by (cases "dev_call2 (get_supported_stream d s supported_stream_config_default) h") (auto split: if_splits)
  show ?case
  proof (cases "ssc_id x = unset_string")
    case True
    then show ?thesis using Cons x by simp
  next
    case False
    let ?c = "c\<lparr>ssc2_streams := ssc2_streams c @ [x],
             ssc2_video_es := ssc2_video_es c @ (if ssc_video x \<noteq> unset_string then [ssc_video x] else []),
             ssc2_audio_es := ssc2_audio_es c @ (if ssc_audio x \<noteq> unset_string then [ssc_audio x] else [])\<rparr>"
    obtain new where "ssc2_streams c' = ssc2_streams ?c @ new"
      "ssc2_video_es c' = ssc2_video_es ?c @ filter (\<lambda>v. v \<noteq> unset_string) (map ssc_video new)"
      "ssc2_audio_es c' = ssc2_audio_es ?c @ filter (\<lambda>v. v \<noteq> unset_string) (map ssc_audio new)"
      using Cons.IH [of ?c h1] Cons.prems x False by auto
    then show ?thesis by (intro exI [where x = "x # new"]) simp
  qed
qed simp

text \<open>
  the elementary streams the agent reports are those of its streams, each once and in order: sorting
  and dropping neighbours that are equal is the sorted enumeration of the set.
\<close>

theorem supported_streams_enumerated:
  assumes "mgr_on_get_supported_streams d c h = (True, c', h')" "ssc2_streams c = []" "ssc2_video_es c = []" "ssc2_audio_es c = []"
  shows "ssc2_video_es c' = sorted_list_of_set (ssc_video ` set (ssc2_streams c') - {unset_string}) \<and>
    ssc2_audio_es c' = sorted_list_of_set (ssc_audio ` set (ssc2_streams c') - {unset_string})"
proof -
  obtain c1 where l: "supported_loop d (m_streams (h_env h)) c h = (True, c1, h')"
    and c': "c' = c1\<lparr>ssc2_video_es := remdups_adj (sort (ssc2_video_es c1)), ssc2_audio_es := remdups_adj (sort (ssc2_audio_es c1))\<rparr>"
    using assms(1) by (auto simp: mgr_on_get_supported_streams_def split: prod.splits if_splits)
  have "{x \<in> f ` S. x \<noteq> unset_string} = f ` S - {unset_string}" for f and S :: "supported_stream_config set" by auto
  then show ?thesis using supported_loop_spec [OF l] assms(2-) by (auto simp: c' sorted_remdups)
qed

theorem supported_streams_enumerated_witness:
  "\<exists>c' h'. mgr_on_get_supported_streams demo_device supported_streams_config_default demo_agent = (True, c', h') \<and>
     ssc2_video_es c' = sorted_list_of_set (ssc_video ` set (ssc2_streams c') - {unset_string})"
proof -
  obtain c' h' where "mgr_on_get_supported_streams demo_device supported_streams_config_default demo_agent = (True, c', h')"
    by (simp add: mgr_on_get_supported_streams_def dev_call2_def demo_device_def supported_stream_config_default_def)
  with supported_streams_enumerated [OF this] show ?thesis by (auto simp: supported_streams_config_default_def)
qed

lemma start_unbound_faults:
  "\<not> es_bound (ev_state c) \<Longrightarrow> ev_fault (event_start e now SDM_UPLOAD ev pr po p tok c)"
proof -
  assume *: "\<not> es_bound (ev_state c)"
  have "es_bound (ev_state (snd (snd (start_times e ev c)))) = es_bound (ev_state c)"
    by (simp add: start_times_def Let_def start_periodic_event_kicker_def split_beta)
  then show ?thesis using * by (simp add: event_start_def segment_reset_def start_delivery_def Let_def split_beta)
qed

lemma destroy_states [simp]: "m_events_states (h_env (destroy_event d s n h)) = m_events_states (h_env h)"
  by (simp add: destroy_event_def dev_call_def Let_def split_beta)

lemma assign_states: "map_of (m_events_states (h_env (assign_event d n conf b h))) k = None \<longleftrightarrow>
    k \<noteq> n \<and> map_of (m_events_states (h_env h)) k = None"
  by (simp add: assign_event_def on_event_def put_ctx_def event_at_def ctx_of_def segment_reset_def upd_ev_def Let_def split: option.split)

text \<open>
  a request to synchronize the memory card that arrives before the events were loaded dereferences the null
  uploader of a default constructed event; once they are loaded the entry is there.
\<close>

theorem synchronize_needs_events:
  "(map_of (m_events_states (h_env h)) ''timeline-sync'' = None \<longrightarrow>
     m_fault (h_env (snd (snd (mgr_on_cam_memorycard_synchronize e d c t1 t2 h))))) \<and>
   map_of (m_events_states (h_env (init_events_states d cs h))) ''timeline-sync'' \<noteq> None"
proof -
  have "m_events_states (h_env (snd (dev_call f h))) = m_events_states (h_env h)" for f :: "'a \<Rightarrow> time \<times> 'a"
    by (simp add: dev_call_def split_beta)
  then have "map_of (m_events_states (h_env h)) ''timeline-sync'' = None \<longrightarrow>
     m_fault (h_env (snd (snd (mgr_on_cam_memorycard_synchronize e d c t1 t2 h))))"
    by (simp add: mgr_on_cam_memorycard_synchronize_def start_event_def on_event_def put_ctx_def event_at_def ctx_of_def
        Let_def split_beta start_unbound_faults segment_reset_def upd_ev_def event_state_default_def)
  moreover have "map_of (m_events_states (h_env (init_events_states d cs h))) ''timeline-sync'' \<noteq> None"
    by (simp add: init_events_states_def Let_def assign_states)
  ultimately show ?thesis by blast
qed

theorem synchronize_needs_events_witness:
  "m_fault (h_env (snd (snd (mgr_on_cam_memorycard_synchronize demo_menv demo_device
     (cam_memorycard_synchronize_status_default 1) 1 2 demo_agent))))"
proof -
  have "map_of (m_events_states (h_env demo_agent)) ''timeline-sync'' = None"
    by (simp add: demo_agent_def set_streams_def manager_new_def mgr_new_def)
  then show ?thesis using synchronize_needs_events by blast
qed

end
