(* ===== verification/Ff_Buffer.thy ===== *)
theory Ff_Buffer
  imports Vxg_Prelude
begin

text \<open>
  Media in memory: the callbacks that \<^verbatim>\<open>src/src/streamer/ffmpeg_common.h\<close> gives to FFmpeg instead of a file, and what
  opening and closing do to the buffer. FFmpeg's calls of them are any sequence.
\<close>

section \<open>The callbacks\<close>

text \<open>\<open>struct buffer_data\<close>, with the contents of the shared buffer.\<close>

record buffer_data =
  bd_pos :: int
  bd_max_write_pos :: int
  bd_user_buffer :: "byte list"

datatype whence = SEEK_SET | SEEK_CUR | SEEK_END | AVSEEK_SIZE | OTHER_WHENCE

definition ff_seek :: "int \<Rightarrow> whence \<Rightarrow> buffer_data \<Rightarrow> int \<times> buffer_data" where
  "ff_seek offset whence bd =
     (let size = int (length (bd_user_buffer bd)) in
      case whence of
        SEEK_SET \<Rightarrow> (offset, bd\<lparr>bd_pos := offset\<rparr>)
      | SEEK_CUR \<Rightarrow> (bd_pos bd + offset, bd\<lparr>bd_pos := bd_pos bd + offset\<rparr>)
      | SEEK_END \<Rightarrow> (size + offset, bd\<lparr>bd_pos := size + offset\<rparr>)
      | AVSEEK_SIZE \<Rightarrow> (size, bd)
      | OTHER_WHENCE \<Rightarrow> (- 1, bd))"

definition AVERROR_ENOMEM :: int where
  "AVERROR_ENOMEM = - 12"

definition AVERROR_EOF :: int where
  "AVERROR_EOF = - 541478725"

text \<open>\<open>resize\<close> of a vector.\<close>

definition resize :: "nat \<Rightarrow> byte list \<Rightarrow> byte list" where
  "resize n xs = take n xs @ replicate (n - length xs) 0"

text \<open>\<open>memcpy\<close> to a position; \<open>None\<close> when it leaves the memory of the vector.\<close>

definition copy_to :: "int \<Rightarrow> byte list \<Rightarrow> byte list \<Rightarrow> byte list option" where
  "copy_to pos buf xs =
     (if buf = [] then Some xs
      else if 0 \<le> pos \<and> nat pos + length buf \<le> length xs
      then Some (take (nat pos) xs @ buf @ drop (nat pos + length buf) xs)
      else None)"

text \<open>
  \<open>mem\<close>: whether there is memory for a vector of that size. The sum of the position and the size is that of
  \<^verbatim>\<open>size_t\<close>.
\<close>

definition ff_write_packet :: "(nat \<Rightarrow> bool) \<Rightarrow> byte list \<Rightarrow> buffer_data \<Rightarrow> (int \<times> buffer_data) option" where
  "ff_write_packet mem buf bd =
     (let size = length (bd_user_buffer bd);
          grow = ((bd_pos bd + int (length buf)) mod 2 ^ 64 > int size);
          new_size = max (2 * size) 4096
      in if grow \<and> \<not> mem new_size then Some (AVERROR_ENOMEM, bd)
         else
           (case copy_to (bd_pos bd) buf (if grow then resize new_size (bd_user_buffer bd) else bd_user_buffer bd) of
              None \<Rightarrow> None
            | Some xs \<Rightarrow>
                (let pos = bd_pos bd + int (length buf)
                 in Some (int (length buf), bd\<lparr>bd_user_buffer := xs, bd_pos := pos, bd_max_write_pos := max (bd_max_write_pos bd) pos\<rparr>))))"

text \<open>The bytes read, or the error; \<open>None\<close> when memory outside the vector is read.\<close>

definition ff_read_packet :: "nat \<Rightarrow> buffer_data \<Rightarrow> ((int + byte list) \<times> buffer_data) option" where
  "ff_read_packet buf_size bd =
     (let size = length (bd_user_buffer bd);
          n = nat (min (int buf_size) ((int size - bd_pos bd) mod 2 ^ 64))
      in if n = 0 then Some (Inl AVERROR_EOF, bd)
         else if 0 \<le> bd_pos bd \<and> nat (bd_pos bd) + n \<le> size
         then Some (Inr (take n (drop (nat (bd_pos bd)) (bd_user_buffer bd))), bd\<lparr>bd_pos := bd_pos bd + int n\<rparr>)
         else None)"

section \<open>Opening and closing\<close>

text \<open>The parts of \<open>_ff_open_output\<close>, \<open>_ff_open_input\<close> and \<open>_ff_close_output\<close> about the buffer.\<close>

definition buffer_data_new :: buffer_data where
  "buffer_data_new = \<lparr>bd_pos = 0, bd_max_write_pos = 0, bd_user_buffer = []\<rparr>"

definition mem_open_output :: "byte list \<Rightarrow> buffer_data \<Rightarrow> buffer_data" where
  "mem_open_output user_buffer bd = bd\<lparr>bd_pos := 0, bd_user_buffer := user_buffer\<rparr>"

definition mem_open_input :: "byte list \<Rightarrow> buffer_data \<Rightarrow> buffer_data" where
  "mem_open_input input_buffer bd = bd\<lparr>bd_pos := 0, bd_max_write_pos := 0, bd_user_buffer := input_buffer\<rparr>"

definition mem_close_output :: "buffer_data \<Rightarrow> byte list" where
  "mem_close_output bd = resize (nat (bd_max_write_pos bd)) (bd_user_buffer bd)"

section \<open>A file\<close>

text \<open>What the muxer expects of its output: a file with a position. Only moves to written places are considered.\<close>

datatype io_op = Put "byte list" | Move int whence

definition overwrite :: "nat \<Rightarrow> byte list \<Rightarrow> byte list \<Rightarrow> byte list" where
  "overwrite p d xs = take p xs @ d @ drop (p + length d) xs"

definition file_move :: "int \<Rightarrow> nat \<times> byte list \<Rightarrow> (nat \<times> byte list) option" where
  "file_move pos f = (if 0 \<le> pos \<and> pos \<le> int (length (snd f)) then Some (nat pos, snd f) else None)"

text \<open>\<open>limit\<close> is the size of FFmpeg's buffer, the longest piece it writes.\<close>

fun file_op :: "nat \<Rightarrow> io_op \<Rightarrow> nat \<times> byte list \<Rightarrow> (nat \<times> byte list) option" where
  "file_op limit (Put d) (p, xs) = (if length d \<le> limit then Some (p + length d, overwrite p d xs) else None)"
| "file_op limit (Move off SEEK_SET) f = file_move off f"
| "file_op limit (Move off SEEK_CUR) f = file_move (int (fst f) + off) f"
| "file_op limit (Move off _) f = None"

fun file_run :: "nat \<Rightarrow> io_op list \<Rightarrow> nat \<times> byte list \<Rightarrow> (nat \<times> byte list) option" where
  "file_run limit [] f = Some f"
| "file_run limit (c # cs) f = Option.bind (file_op limit c f) (file_run limit cs)"

text \<open>The same calls on the buffer.\<close>

fun io_step :: "(nat \<Rightarrow> bool) \<Rightarrow> io_op \<Rightarrow> buffer_data \<Rightarrow> buffer_data option" where
  "io_step mem (Put d) bd = map_option snd (ff_write_packet mem d bd)"
| "io_step mem (Move off w) bd = Some (snd (ff_seek off w bd))"

fun io_run :: "(nat \<Rightarrow> bool) \<Rightarrow> io_op list \<Rightarrow> buffer_data \<Rightarrow> buffer_data option" where
  "io_run mem [] bd = Some bd"
| "io_run mem (c # cs) bd = Option.bind (io_step mem c bd) (io_run mem cs)"

text \<open>Reading pieces of the given sizes, up to the first end of the file.\<close>

fun read_run :: "nat list \<Rightarrow> buffer_data \<Rightarrow> byte list option" where
  "read_run [] bd = Some []"
| "read_run (n # ns) bd =
     (case ff_read_packet n bd of
        None \<Rightarrow> None
      | Some (Inl e, bd) \<Rightarrow> Some []
      | Some (Inr d, bd) \<Rightarrow> map_option ((@) d) (read_run ns bd))"

section \<open>The buffer represents the file\<close>

lemma length_overwrite: "p \<le> length xs \<Longrightarrow> length (overwrite p d xs) = max (length xs) (p + length d)"
  by (simp add: overwrite_def)

text \<open>
  \<open>m\<close> is the highest position before: the written part is followed by zeros, and the vector is empty or as large as
  the longest piece.
\<close>

definition buffer_rep :: "int \<Rightarrow> nat \<times> byte list \<Rightarrow> buffer_data \<Rightarrow> bool" where
  "buffer_rep m f bd \<longleftrightarrow>
     fst f \<le> length (snd f) \<and> bd_pos bd = int (fst f) \<and> bd_max_write_pos bd = max m (int (length (snd f))) \<and>
     (\<exists>k. bd_user_buffer bd = snd f @ replicate k 0) \<and> (bd_user_buffer bd = [] \<or> 4096 \<le> length (bd_user_buffer bd))"

lemma copy_overwrite:
  assumes "p \<le> length xs" "p + length d \<le> length xs + k"
  shows "\<exists>j. copy_to (int p) d (xs @ replicate k 0) = Some (overwrite p d xs @ replicate j 0)"
proof (cases "d = []")
  case True
  then show ?thesis by (auto simp: copy_to_def overwrite_def)
next
  case False
  have "drop (p + length d) (xs @ replicate k 0) = drop (p + length d) xs @ replicate (k - (p + length d - length xs)) 0"
    by simp
  with False assms show ?thesis by (auto simp: copy_to_def overwrite_def nat_int)
qed

lemma write_rep:
  assumes rep: "buffer_rep m (p, xs) bd" and mem: "\<And>n. mem n" and d: "length d \<le> 4096" and m: "0 \<le> m"
    and small: "int (p + length d) < 2 ^ 64"
  shows "\<exists>bd'. ff_write_packet mem d bd = Some (int (length d), bd') \<and> buffer_rep m (p + length d, overwrite p d xs) bd'"
proof -
  obtain k where k: "bd_user_buffer bd = xs @ replicate k 0" and p: "p \<le> length xs" "bd_pos bd = int p"
    and mx: "bd_max_write_pos bd = max m (int (length xs))" and ne: "bd_user_buffer bd = [] \<or> 4096 \<le> length (bd_user_buffer bd)"
    using rep by (auto simp: buffer_rep_def)
  let ?size = "length (bd_user_buffer bd)"
  have md: "(int p + int (length d)) mod 2 ^ 64 = int p + int (length d)"
    using small by (intro mod_pos_pos_trivial) auto
  define grow where "grow = (int p + int (length d) > int ?size)"
  define buf where "buf = (if grow then resize (max (2 * ?size) 4096) (bd_user_buffer bd) else bd_user_buffer bd)"
  obtain j where j: "buf = xs @ replicate j 0" "p + length d \<le> length xs + j" "buf = [] \<or> 4096 \<le> length buf"
  proof (cases grow)
    case True
    have "buf = bd_user_buffer bd @ replicate (max (2 * ?size) 4096 - ?size) 0"
      using True by (simp add: buf_def resize_def)
    then have "buf = xs @ replicate (k + (max (2 * ?size) 4096 - ?size)) 0"
      by (simp only: k replicate_add append_assoc)
    moreover have "p + length d \<le> max (2 * ?size) 4096" using p(1) k ne d by auto
    moreover have "?size \<le> max (2 * ?size) 4096" by simp
    ultimately show thesis using that[of "k + (max (2 * ?size) 4096 - ?size)"] k by simp
  next
    case False
    then show thesis using that[of k] k ne by (simp add: buf_def grow_def)
  qed
  obtain i where i: "copy_to (int p) d buf = Some (overwrite p d xs @ replicate i 0)"
    using copy_overwrite[OF p(1) j(2)] j(1) by auto
  have len: "length (overwrite p d xs @ replicate i 0) = length buf"
    using i by (auto simp: copy_to_def split: if_splits dest: arg_cong[of _ _ length])
  let ?ys = "overwrite p d xs @ replicate i 0"
  have ne': "?ys = [] \<or> 4096 \<le> length ?ys" using j(3) len by auto
  let ?bd = "bd\<lparr>bd_user_buffer := ?ys, bd_pos := int p + int (length d),
    bd_max_write_pos := max (bd_max_write_pos bd) (int p + int (length d))\<rparr>"
  have "ff_write_packet mem d bd = Some (int (length d), ?bd)"
    using i mem unfolding ff_write_packet_def Let_def p(2) md by (simp add: buf_def grow_def)
  moreover have "buffer_rep m (p + length d, overwrite p d xs) ?bd"
    using ne' p(1) mx by (auto simp: buffer_rep_def length_overwrite simp del: append_is_Nil_conv)
  ultimately show ?thesis by blast
qed

lemma move_rep:
  "buffer_rep m f bd \<Longrightarrow> file_move pos f = Some f' \<Longrightarrow> buffer_rep m f' (bd\<lparr>bd_pos := pos\<rparr>)"
  by (auto simp: buffer_rep_def file_move_def split: if_splits)

lemma file_op_grows: "file_op limit c (p, xs) = Some (p', xs') \<Longrightarrow> p \<le> length xs \<Longrightarrow> length xs \<le> length xs' \<and> p' \<le> length xs'"
  by (induction limit c "(p, xs)" rule: file_op.induct) (auto simp: length_overwrite file_move_def split: if_splits)

lemma io_step_rep:
  assumes "buffer_rep m (p, xs) bd" "\<And>n. mem n" "0 \<le> m" "file_op 4096 c (p, xs) = Some (p', xs')" "int (length xs') < 2 ^ 64"
  shows "\<exists>bd'. io_step mem c bd = Some bd' \<and> buffer_rep m (p', xs') bd'"
proof (cases c)
  case (Put d)
  have "p \<le> length xs" using assms(1) by (simp add: buffer_rep_def)
  then have "int (p + length d) < 2 ^ 64" using assms(4,5) Put by (auto simp: length_overwrite split: if_splits)
  with write_rep[where mem = mem, OF assms(1) assms(2) _ assms(3), of d] assms(4) Put show ?thesis by (auto split: if_splits)
next
  case (Move off w)
  have "bd_pos bd = int p" using assms(1) by (simp add: buffer_rep_def)
  with Move assms(1,4) show ?thesis by (cases w) (auto simp: ff_seek_def Let_def dest: move_rep)
qed

lemma file_run_grows:
  "file_run limit ops f = Some f' \<Longrightarrow> fst f \<le> length (snd f) \<Longrightarrow> length (snd f) \<le> length (snd f')"
proof (induction ops arbitrary: f)
  case (Cons c ops)
  obtain p xs where f: "f = (p, xs)" by fastforce
  then obtain p1 xs1 where "file_op limit c (p, xs) = Some (p1, xs1)" "file_run limit ops (p1, xs1) = Some f'"
    using Cons.prems(1) by (auto simp: bind_eq_Some_conv)
  then show ?case using file_op_grows Cons.IH Cons.prems(2) f by fastforce
qed simp

lemma resize_padded: "resize (max n (length xs)) (xs @ replicate k 0) = xs @ replicate (n - length xs) 0"
proof -
  have "resize (max n (length xs)) (xs @ replicate k 0) =
      xs @ replicate (min k (max n (length xs) - length xs) + (max n (length xs) - (length xs + k))) 0"
    by (simp add: resize_def replicate_add min.commute)
  also have "min k (max n (length xs) - length xs) + (max n (length xs) - (length xs + k)) = n - length xs"
    by (simp add: min_def max_def)
  finally show ?thesis .
qed

lemma read_from:
  assumes "int (length xs) < 2 ^ 64" and "0 \<notin> set ns"
  shows "p \<le> length xs \<Longrightarrow> bd_pos bd = int p \<Longrightarrow> bd_user_buffer bd = xs \<Longrightarrow>
    read_run ns bd = Some (take (sum_list ns) (drop p xs))"
  using assms(2)
proof (induction ns arbitrary: p bd)
  case (Cons n ns)
  have md: "(int (length xs) - int p) mod 2 ^ 64 = int (length xs - p)"
    using Cons.prems(1) assms(1) by (subst mod_pos_pos_trivial) auto
  define k where "k = min n (length xs - p)"
  have "nat (min (int n) (int (length xs - p))) = k" by (simp add: k_def)
  then have packet: "ff_read_packet n bd = (if k = 0 then Some (Inl AVERROR_EOF, bd)
      else Some (Inr (take k (drop p xs)), bd\<lparr>bd_pos := int (p + k)\<rparr>))"
    using Cons.prems(1-3) unfolding ff_read_packet_def Let_def Cons.prems(2,3) md by (auto simp: k_def)
  show ?case
  proof (cases "k = 0")
    case True
    then have "p = length xs" using Cons.prems(1,4) by (auto simp: k_def)
    with True packet show ?thesis by simp
  next
    case False
    have "read_run ns (bd\<lparr>bd_pos := int (p + k)\<rparr>) = Some (take (sum_list ns) (drop (p + k) xs))"
      using Cons.prems by (intro Cons.IH) (auto simp: k_def)
    moreover have "take k (drop p xs) @ take (sum_list ns) (drop (p + k) xs) = take (n + sum_list ns) (drop p xs)"
      by (cases "n \<le> length xs - p") (auto simp: k_def min_def take_add add.commute)
    ultimately show ?thesis using False packet by simp
  qed
qed simp

lemma io_run_rep:
  assumes "\<And>n. mem n" "0 \<le> m"
  shows "buffer_rep m f bd \<Longrightarrow> file_run 4096 ops f = Some f' \<Longrightarrow> int (length (snd f')) < 2 ^ 64 \<Longrightarrow>
    \<exists>bd'. io_run mem ops bd = Some bd' \<and> buffer_rep m f' bd' \<and> length (snd f) \<le> length (snd f')"
proof (induction ops arbitrary: f bd)
  case Nil
  then show ?case by simp
next
  case (Cons c ops)
  obtain p xs where f: "f = (p, xs)" by fastforce
  obtain p1 xs1 where f1: "file_op 4096 c (p, xs) = Some (p1, xs1)" and rest: "file_run 4096 ops (p1, xs1) = Some f'"
    using Cons.prems(2) f by (auto simp: bind_eq_Some_conv)
  have le: "length xs \<le> length xs1" and "p1 \<le> length xs1"
    using file_op_grows[OF f1] Cons.prems(1) f by (auto simp: buffer_rep_def)
  have mono: "length xs1 \<le> length (snd f')"
    using file_run_grows[OF rest] \<open>p1 \<le> length xs1\<close> by simp
  then have "int (length xs1) < 2 ^ 64" using Cons.prems(3) by linarith
  then obtain bd1 where bd1: "io_step mem c bd = Some bd1" "buffer_rep m (p1, xs1) bd1"
    using io_step_rep[where mem = mem, OF Cons.prems(1)[unfolded f] assms f1] by blast
  obtain bd2 where "io_run mem ops bd1 = Some bd2 \<and> buffer_rep m f' bd2"
    using Cons.IH[OF bd1(2) rest Cons.prems(3)] by blast
  with bd1 le mono f show ?case by auto
qed

lemma memory_output:
  assumes "\<And>n. mem n" and "0 \<le> bd_max_write_pos bd"
    and "file_run 4096 ops (0, []) = Some (p, xs)" and "int (length xs) < 2 ^ 64"
  shows "\<exists>bd'. io_run mem ops (mem_open_output [] bd) = Some bd' \<and>
    mem_close_output bd' = xs @ replicate (nat (bd_max_write_pos bd) - length xs) 0"
proof -
  have "buffer_rep (bd_max_write_pos bd) (0, []) (mem_open_output [] bd)"
    using assms(2) by (simp add: buffer_rep_def mem_open_output_def)
  then obtain bd' where run: "io_run mem ops (mem_open_output [] bd) = Some bd'" and rep: "buffer_rep (bd_max_write_pos bd) (p, xs) bd'"
    using io_run_rep[where mem = mem, OF assms(1,2) _ assms(3)] assms(4) by auto
  obtain k where k: "bd_user_buffer bd' = xs @ replicate k 0"
    and m: "nat (bd_max_write_pos bd') = max (nat (bd_max_write_pos bd)) (length xs)"
    using rep assms(2) by (auto simp: buffer_rep_def)
  have "mem_close_output bd' = xs @ replicate (nat (bd_max_write_pos bd) - length xs) 0"
    unfolding mem_close_output_def m k by (rule resize_padded)
  with run show ?thesis by blast
qed

section \<open>What the muxer gets\<close>

text \<open>
  a muxer that writes pieces of at most 4096 bytes and moves only to places it has written gets exactly what it
  would have written to a file, and no memory outside the buffer is touched. The result is padded with zeros up to the
  highest position that the same object reached in an earlier output, because that position is not reset.
\<close>

theorem memory_output_is_file:
  assumes "\<And>n. mem n" and "0 \<le> bd_max_write_pos bd"
    and "file_run 4096 ops (0, []) = Some (p, xs)" and "int (length xs) < 2 ^ 64"
  shows "\<exists>bd'. io_run mem ops (mem_open_output [] bd) = Some bd' \<and>
    mem_close_output bd' = xs @ replicate (nat (bd_max_write_pos bd) - length xs) 0"
  using assms by (rule memory_output)

theorem memory_output_is_file_witness:
  "map_option mem_close_output (io_run (\<lambda>_. True) [Put [1, 2, 3], Move 1 SEEK_SET, Put [7]] (mem_open_output [] buffer_data_new)) =
     Some [1, 7, 3] \<and>
   map_option mem_close_output (io_run (\<lambda>_. True) [Put [9]] (mem_open_output [] (buffer_data_new\<lparr>bd_max_write_pos := 3\<rparr>))) =
     Some [9, 0, 0]"
  using memory_output_is_file[of "\<lambda>_. True" buffer_data_new "[Put [1, 2, 3], Move 1 SEEK_SET, Put [7]]" 2 "[1, 7, 3]"]
    memory_output_is_file[of "\<lambda>_. True" "buffer_data_new\<lparr>bd_max_write_pos := 3\<rparr>" "[Put [9]]" 1 "[9]"]
  by (auto simp: buffer_data_new_def file_move_def overwrite_def eval_nat_numeral simp del: io_run.simps)

text \<open>
  what is read in pieces of any sizes is the contents of the buffer, from its beginning and up to its end.
\<close>

theorem memory_input_read:
  assumes "int (length xs) < 2 ^ 64" and "0 \<notin> set ns"
  shows "read_run ns (mem_open_input xs bd) = Some (take (sum_list ns) xs)"
  using read_from[OF assms, of 0] by (simp add: mem_open_input_def)

theorem memory_input_read_witness: "read_run [2, 4, 5, 1] (mem_open_input [1, 2, 3, 4, 5, 6, 7] buffer_data_new) = Some [1, 2, 3, 4, 5, 6, 7]"
  using memory_input_read[of "[1, 2, 3, 4, 5, 6, 7]" "[2, 4, 5, 1]" buffer_data_new] by simp

text \<open>
  the vector is doubled once and not until the piece fits: a piece that is longer than what is left, twice the size
  and the smallest size considered, is written behind the end of the vector. A user buffer of less than 4096 bytes that
  is not empty is enough for that, with a piece of FFmpeg's size.
\<close>

theorem memory_output_overrun:
  assumes "\<And>n. mem n" and "length xs < p + length d" and "max (2 * length xs) 4096 < p + length d" and "p + length d < 2 ^ 64"
    and "d \<noteq> []"
  shows "io_run mem [Move (int p) SEEK_SET, Put d] (mem_open_output xs bd) = None"
  using assms by (auto simp: mem_open_output_def ff_seek_def ff_write_packet_def copy_to_def resize_def Let_def)

theorem memory_output_overrun_witness:
  "io_run (\<lambda>_. True) [Move 1 SEEK_SET, Put (replicate 4096 7)] (mem_open_output [0, 0] buffer_data_new) = None"
  using memory_output_overrun[of "\<lambda>_. True" "[0, 0]" 1 "replicate 4096 7" buffer_data_new] by simp

end
