(* ===== verification/Ff_Output.thy ===== *)
theory Ff_Output
  imports Complex_Main Media_Graph Time_Period Ff_Buffer
begin

text \<open>
  The sink that writes media with FFmpeg: the output half of \<^verbatim>\<open>src/src/streamer/ffmpeg_common.h\<close> and
  \<^verbatim>\<open>ffmpeg_sink.cc\<close>. The functions of FFmpeg are the record \<open>ff_lib\<close> over a state \<open>'w\<close> of their own; the object is a
  state of the application in the sense of \<open>Media_Graph\<close>.
\<close>

section \<open>Data of FFmpeg\<close>

datatype codec_id =
    AV_CODEC_ID_NONE | AV_CODEC_ID_H264 | AV_CODEC_ID_AAC | AV_CODEC_ID_PCM_ALAW | AV_CODEC_ID_PCM_MULAW | OTHER_CODEC nat

datatype av_media_type = AVMEDIA_TYPE_UNKNOWN | AVMEDIA_TYPE_VIDEO | AVMEDIA_TYPE_AUDIO | AVMEDIA_TYPE_DATA | AVMEDIA_TYPE_SUBTITLE

type_synonym options = "string \<rightharpoonup> string"

record av_stream =
  st_codec_type :: av_media_type
  st_codec_id :: codec_id
  st_width :: int
  st_height :: int
  st_bit_rate :: int
  st_sample_rate :: int
  st_channels :: int
  st_extradata :: "byte list"
  st_time_base :: "int \<times> int"

text \<open>A stream as \<^verbatim>\<open>avformat_new_stream\<close> makes it.\<close>

definition stream_blank :: av_stream where
  "stream_blank = \<lparr>st_codec_type = AVMEDIA_TYPE_UNKNOWN, st_codec_id = AV_CODEC_ID_NONE, st_width = 0, st_height = 0,
     st_bit_rate = 0, st_sample_rate = 0, st_channels = 0, st_extradata = [], st_time_base = (0, 0)\<rparr>"

record av_packet =
  pk_pts :: int
  pk_dts :: int
  pk_duration :: int
  pk_data :: "byte list"
  pk_stream :: nat
  pk_key :: bool

definition AV_NOPTS_VALUE :: int where
  "AV_NOPTS_VALUE = - (2 ^ 63)"

text \<open>A container: whether it opens its files itself, allows equal timestamps, and what it says of a codec.\<close>

record out_format =
  of_nofile :: bool
  of_nonstrict :: bool
  of_query :: "codec_id \<Rightarrow> int"

record format_ctx =
  fc_oformat :: out_format
  fc_streams :: "av_stream list"
  fc_pb :: bool
  fc_custom_io :: bool

text \<open>
  What writing gives includes the pieces and moves for the output in memory. The header may change the time bases of
  the streams; both openings take the options they know. The interrupt callback of the object is the first argument.
\<close>

record 'w ff_lib =
  fl_alloc_output :: "string option \<Rightarrow> string option \<Rightarrow> 'w \<Rightarrow> out_format option \<times> 'w"
  fl_new_stream :: "'w \<Rightarrow> bool \<times> 'w"
  fl_malloc :: "nat \<Rightarrow> 'w \<Rightarrow> bool \<times> 'w"
  fl_avio_open :: "string \<Rightarrow> options \<Rightarrow> 'w \<Rightarrow> int \<times> options \<times> 'w"
  fl_avio_alloc :: "'w \<Rightarrow> bool \<times> 'w"
  fl_write_header :: "av_stream list \<Rightarrow> options \<Rightarrow> 'w \<Rightarrow> int \<times> (int \<times> int) list \<times> options \<times> io_op list \<times> 'w"
  fl_write_frame :: "bool \<Rightarrow> av_packet \<Rightarrow> 'w \<Rightarrow> int \<times> io_op list \<times> 'w"
  fl_write_trailer :: "'w \<Rightarrow> io_op list \<times> 'w"
  fl_rescale :: "int \<times> int \<Rightarrow> int \<times> int \<Rightarrow> int \<Rightarrow> int"
  fl_memory :: "nat \<Rightarrow> bool"

section \<open>State\<close>

text \<open>The timestamps of an output stream: last and first ones.\<close>

record ts_row =
  ts_last_dts :: int
  ts_last_pts :: int
  ts_first_dts :: int
  ts_first_pts :: int

definition ts_row_new :: ts_row where
  "ts_row_new = \<lparr>ts_last_dts = AV_NOPTS_VALUE, ts_last_pts = AV_NOPTS_VALUE, ts_first_dts = AV_NOPTS_VALUE, ts_first_pts = AV_NOPTS_VALUE\<rparr>"

text \<open>
  \<open>fk_bd\<close> holds the contents of the user's buffer while it is open. \<open>fk_fault\<close>: a null pointer or memory outside a
  buffer was used. The rest are histories: the packets given to the muxer, headers and trailers, the output in memory
  since it was opened, and the buffers handed back.
\<close>

record 'w ff_sink =
  fk_world :: 'w
  fk_ctx :: "format_ctx option"
  fk_url :: string
  fk_fmt :: string
  fk_options :: options
  fk_user_buffer :: "byte list option"
  fk_bd :: buffer_data
  fk_avio :: bool
  fk_interrupted :: bool
  fk_video_index :: int
  fk_audio_index :: int
  fk_data_index :: int
  fk_need_trailer :: bool
  fk_rows :: "ts_row list option"
  fk_key_received :: bool
  fk_fault :: bool
  fk_written :: "av_packet list"
  fk_headers :: nat
  fk_trailers :: nat
  fk_io :: "io_op list"
  fk_buffers :: "byte list list"

definition ff_sink_new :: "'w \<Rightarrow> 'w ff_sink" where
  "ff_sink_new w = \<lparr>fk_world = w, fk_ctx = None, fk_url = [], fk_fmt = [], fk_options = Map.empty, fk_user_buffer = None,
     fk_bd = buffer_data_new, fk_avio = False, fk_interrupted = False, fk_video_index = - 1, fk_audio_index = - 1,
     fk_data_index = - 1, fk_need_trailer = False, fk_rows = None, fk_key_received = False, fk_fault = False,
     fk_written = [], fk_headers = 0, fk_trailers = 0, fk_io = [], fk_buffers = []\<rparr>"

definition ff_fail :: "'w ff_sink \<Rightarrow> 'w ff_sink" where
  "ff_fail k = k\<lparr>fk_fault := True\<rparr>"

text \<open>FFmpeg's calls of the callbacks, when the output is in memory.\<close>

definition run_io :: "'w ff_lib \<Rightarrow> io_op list \<Rightarrow> 'w ff_sink \<Rightarrow> 'w ff_sink" where
  "run_io l ops k =
     (if fk_avio k then
        (case io_run (fl_memory l) ops (fk_bd k) of
           None \<Rightarrow> ff_fail (k\<lparr>fk_io := fk_io k @ ops\<rparr>)
         | Some bd \<Rightarrow> k\<lparr>fk_bd := bd, fk_io := fk_io k @ ops\<rparr>)
      else k)"

section \<open>Codecs\<close>

fun VideoCodec_to_AVCodecID :: "video_codec \<Rightarrow> codec_id" where
  "VideoCodec_to_AVCodecID VC_H264 = AV_CODEC_ID_H264"
| "VideoCodec_to_AVCodecID _ = AV_CODEC_ID_NONE"

fun AudioCodec_to_AVCodecID :: "audio_codec \<Rightarrow> codec_id" where
  "AudioCodec_to_AVCodecID AC_AAC = AV_CODEC_ID_AAC"
| "AudioCodec_to_AVCodecID AC_G711_A = AV_CODEC_ID_PCM_ALAW"
| "AudioCodec_to_AVCodecID AC_G711_U = AV_CODEC_ID_PCM_MULAW"
| "AudioCodec_to_AVCodecID _ = AV_CODEC_ID_NONE"

section \<open>Timestamps\<close>

text \<open>Arithmetic of \<^verbatim>\<open>int64_t\<close>, as the hardware does it.\<close>

definition s64 :: "int \<Rightarrow> int" where
  "s64 x = (x + 2 ^ 63) mod 2 ^ 64 - 2 ^ 63"

definition stamped :: "av_media_type \<Rightarrow> bool" where
  "stamped t \<longleftrightarrow> t = AVMEDIA_TYPE_AUDIO \<or> t = AVMEDIA_TYPE_VIDEO \<or> t = AVMEDIA_TYPE_SUBTITLE"

text \<open>The three parts of \<open>_check_fix_ts\<close>: a DTS behind the PTS, a DTS that is too small, and the shift to zero.\<close>

definition fix_order :: "ts_row \<Rightarrow> av_packet \<Rightarrow> av_packet" where
  "fix_order r p =
     (if pk_dts p \<noteq> AV_NOPTS_VALUE \<and> pk_pts p \<noteq> AV_NOPTS_VALUE \<and> pk_dts p > pk_pts p then
        (let last = s64 (ts_last_dts r + 1);
             guess = s64 (pk_pts p + pk_dts p + ts_last_dts r + 1 - min (min (pk_pts p) (pk_dts p)) last
                          - max (max (pk_pts p) (pk_dts p)) last)
         in p\<lparr>pk_pts := guess, pk_dts := guess\<rparr>)
      else p)"

definition fix_dts :: "bool \<Rightarrow> av_media_type \<Rightarrow> ts_row \<Rightarrow> av_packet \<Rightarrow> av_packet" where
  "fix_dts nonstrict t r p =
     (if stamped t \<and> pk_dts p \<noteq> AV_NOPTS_VALUE \<and> ts_last_dts r \<noteq> AV_NOPTS_VALUE then
        (let m = s64 (ts_last_dts r + (if nonstrict then 0 else 1)) in
         if pk_dts p < m
         then p\<lparr>pk_pts := (if pk_pts p \<ge> pk_dts p then max (pk_pts p) m else pk_pts p), pk_dts := m\<rparr>
         else p)
      else p)"

definition shift_ts :: "ts_row \<Rightarrow> av_packet \<Rightarrow> av_packet \<times> ts_row" where
  "shift_ts r p =
     (let r = (if pk_pts p \<noteq> AV_NOPTS_VALUE \<and> ts_first_pts r = AV_NOPTS_VALUE then r\<lparr>ts_first_pts := pk_pts p\<rparr> else r);
          r = (if pk_dts p \<noteq> AV_NOPTS_VALUE \<and> ts_first_dts r = AV_NOPTS_VALUE then r\<lparr>ts_first_dts := pk_dts p\<rparr> else r);
          p = (if ts_first_pts r \<noteq> AV_NOPTS_VALUE then p\<lparr>pk_pts := s64 (pk_pts p - ts_first_pts r)\<rparr> else p);
          p = (if ts_first_dts r \<noteq> AV_NOPTS_VALUE then p\<lparr>pk_dts := s64 (pk_dts p - ts_first_dts r)\<rparr> else p)
      in (p, r\<lparr>ts_last_dts := pk_dts p, ts_last_pts := pk_pts p\<rparr>))"

definition check_fix_ts :: "bool \<Rightarrow> av_media_type \<Rightarrow> ts_row \<Rightarrow> av_packet \<Rightarrow> av_packet \<times> ts_row" where
  "check_fix_ts nonstrict t r p = shift_ts r (fix_dts nonstrict t r (fix_order r p))"

section \<open>Opening and closing\<close>

definition ff_alloc_output_context :: "'w ff_lib \<Rightarrow> 'w ff_sink \<Rightarrow> bool \<times> 'w ff_sink" where
  "ff_alloc_output_context l k =
     (let (f, w) = (if fk_user_buffer k = None
                    then fl_alloc_output l (if fk_fmt k = [] then None else Some (fk_fmt k)) (Some (fk_url k)) (fk_world k)
                    else fl_alloc_output l (Some (fk_fmt k)) None (fk_world k));
          k = k\<lparr>fk_world := w\<rparr>
      in case f of
           None \<Rightarrow> (False, k\<lparr>fk_ctx := None\<rparr>)
         | Some fmt \<Rightarrow>
             (True, k\<lparr>fk_ctx := Some \<lparr>fc_oformat = fmt, fc_streams = [], fc_pb = False, fc_custom_io = False\<rparr>,
                fk_interrupted := False, fk_need_trailer := False\<rparr>))"

definition ff_free_output_context :: "'w ff_sink \<Rightarrow> 'w ff_sink" where
  "ff_free_output_context k = k\<lparr>fk_ctx := None\<rparr>"

text \<open>The end of \<open>_ff_open_output\<close>: the header.\<close>

definition ff_write_header :: "'w ff_lib \<Rightarrow> format_ctx \<Rightarrow> 'w ff_sink \<Rightarrow> bool \<times> 'w ff_sink" where
  "ff_write_header l c k =
     (let (rc, bases, opts, ops, w) = fl_write_header l (fc_streams c) (fk_options k) (fk_world k);
          streams = map2 (\<lambda>s b. s\<lparr>st_time_base := b\<rparr>) (fc_streams c) bases;
          k = run_io l ops (k\<lparr>fk_world := w, fk_options := opts, fk_ctx := Some (c\<lparr>fc_streams := streams\<rparr>)\<rparr>)
      in if rc < 0 then (False, k) else (True, k\<lparr>fk_need_trailer := True, fk_headers := fk_headers k + 1\<rparr>))"

definition ff_open_output :: "'w ff_lib \<Rightarrow> 'w ff_sink \<Rightarrow> bool \<times> 'w ff_sink" where
  "ff_open_output l k =
     (case fk_ctx k of
        None \<Rightarrow> (False, ff_fail k)
      | Some c \<Rightarrow>
          (if fc_streams c = [] then (False, k)
           else
             (let k = k\<lparr>fk_rows := Some (replicate (length (fc_streams c)) ts_row_new)\<rparr> in
              case fk_user_buffer k of
                None \<Rightarrow>
                  (if of_nofile (fc_oformat c) then ff_write_header l c k
                   else
                     (let (rc, opts, w) = fl_avio_open l (fk_url k) (fk_options k) (fk_world k);
                          k = k\<lparr>fk_options := opts, fk_world := w\<rparr>
                      in if rc \<noteq> 0 then (False, k) else ff_write_header l (c\<lparr>fc_pb := True\<rparr>) k))
              | Some buf \<Rightarrow>
                  (let (ok, w) = fl_malloc l 4096 (fk_world k); k = k\<lparr>fk_world := w\<rparr> in
                   if \<not> ok then (False, k)
                   else
                     (let (ok, w) = fl_avio_alloc l (fk_world k);
                          k = k\<lparr>fk_world := w, fk_bd := mem_open_output buf (fk_bd k), fk_io := [], fk_avio := ok\<rparr>
                      in if \<not> ok then (False, k)
                         else ff_write_header l (c\<lparr>fc_pb := True, fc_custom_io := True\<rparr>) k)))))"

definition ff_close_output :: "'w ff_lib \<Rightarrow> 'w ff_sink \<Rightarrow> 'w ff_sink" where
  "ff_close_output l k =
     (let k = (case fk_ctx k of
                 None \<Rightarrow> k
               | Some c \<Rightarrow>
                   (let k = (if fk_need_trailer k \<and> \<not> of_nofile (fc_oformat c) then
                               (let (ops, w) = fl_write_trailer l (fk_world k)
                                in run_io l ops (k\<lparr>fk_need_trailer := False, fk_world := w, fk_trailers := fk_trailers k + 1\<rparr>))
                             else k)
                    in if \<not> of_nofile (fc_oformat c) \<and> fk_user_buffer k = None
                       then k\<lparr>fk_ctx := Some (c\<lparr>fc_pb := False\<rparr>)\<rparr> else k));
          k = (case fk_user_buffer k of
                 None \<Rightarrow> k
               | Some buf \<Rightarrow>
                   k\<lparr>fk_buffers := fk_buffers k @
                      [resize (nat (bd_max_write_pos (fk_bd k))) (if fk_avio k then bd_user_buffer (fk_bd k) else buf)]\<rparr>)
      in k\<lparr>fk_avio := False, fk_user_buffer := None, fk_rows := None\<rparr>)"

text \<open>\<open>duration\<close>; \<open>rnd\<close> rounds to a \<^verbatim>\<open>double\<close>.\<close>

definition q2d :: "(rat \<Rightarrow> rat) \<Rightarrow> int \<times> int \<Rightarrow> rat" where
  "q2d rnd tb = rnd (of_int (fst tb) / of_int (snd tb))"

definition stream_time :: "(rat \<Rightarrow> rat) \<Rightarrow> ts_row \<Rightarrow> av_stream \<Rightarrow> rat" where
  "stream_time rnd r s = rnd (rnd (of_int (s64 (ts_last_pts r - ts_first_pts r))) * q2d rnd (st_time_base s))"

fun max_time :: "rat \<Rightarrow> rat list \<Rightarrow> rat" where
  "max_time m [] = m"
| "max_time m (t # ts) = max_time (max t m) ts"

definition ff_duration :: "(rat \<Rightarrow> rat) \<Rightarrow> 'w ff_sink \<Rightarrow> duration option" where
  "ff_duration rnd k =
     (case (fk_ctx k, fk_rows k) of
        (Some c, Some rows) \<Rightarrow>
          Some (milliseconds (let t = rnd (max_time 0 (map2 (stream_time rnd) rows (fc_streams c)) * 1000)
                              in if t < 0 then \<lceil>t\<rceil> else \<lfloor>t\<rfloor>))
      | (Some c, None) \<Rightarrow> if fc_streams c = [] then Some 0 else None
      | _ \<Rightarrow> None)"


section \<open>The sink\<close>

definition info_codec :: "stream_info \<Rightarrow> codec_id" where
  "info_codec info =
     (case si_type info of
        ST_VIDEO \<Rightarrow> VideoCodec_to_AVCodecID (vi_codec (si_video info))
      | ST_AUDIO \<Rightarrow> AudioCodec_to_AVCodecID (ai_codec (si_audio info))
      | _ \<Rightarrow> AV_CODEC_ID_NONE)"

text \<open>The new stream without its extra data; a stream of another type stays blank.\<close>

definition stream_of_info :: "codec_id \<Rightarrow> stream_info \<Rightarrow> av_stream" where
  "stream_of_info codec_id info =
     (case si_type info of
        ST_VIDEO \<Rightarrow>
          (let v = si_video info in
           stream_blank\<lparr>st_codec_id := codec_id, st_codec_type := AVMEDIA_TYPE_VIDEO, st_width := vi_width v,
             st_height := vi_height v, st_bit_rate := vi_bitrate v, st_time_base := vi_timebase v\<rparr>)
      | ST_AUDIO \<Rightarrow>
          (let a = si_audio info in
           stream_blank\<lparr>st_codec_id := codec_id, st_codec_type := AVMEDIA_TYPE_AUDIO, st_sample_rate := ai_samplerate a,
             st_channels := ai_channels a, st_bit_rate := ai_bitrate a, st_time_base := ai_timebase a\<rparr>)
      | ST_DATA \<Rightarrow> stream_blank\<lparr>st_codec_type := AVMEDIA_TYPE_DATA\<rparr>
      | _ \<Rightarrow> stream_blank)"

definition info_extradata :: "stream_info \<Rightarrow> byte list" where
  "info_extradata info =
     (case si_type info of ST_VIDEO \<Rightarrow> vi_extradata (si_video info) | ST_AUDIO \<Rightarrow> ai_extradata (si_audio info) | _ \<Rightarrow> [])"

definition set_stream_index :: "av_media_type \<Rightarrow> int \<Rightarrow> 'w ff_sink \<Rightarrow> 'w ff_sink" where
  "set_stream_index t i k =
     (case t of
        AVMEDIA_TYPE_AUDIO \<Rightarrow> k\<lparr>fk_audio_index := i\<rparr>
      | AVMEDIA_TYPE_VIDEO \<Rightarrow> k\<lparr>fk_video_index := i\<rparr>
      | AVMEDIA_TYPE_DATA \<Rightarrow> k\<lparr>fk_data_index := i\<rparr>
      | _ \<Rightarrow> k)"

definition ff_add_stream :: "'w ff_lib \<Rightarrow> stream_info \<Rightarrow> 'w ff_sink \<Rightarrow> bool \<times> 'w ff_sink" where
  "ff_add_stream l info k =
     (case fk_ctx k of
        None \<Rightarrow> (False, ff_fail k)
      | Some c \<Rightarrow>
          (let codec = info_codec info in
           if codec \<noteq> AV_CODEC_ID_NONE \<and> of_query (fc_oformat c) codec \<noteq> 1 then (False, k)
           else
             (let (ok, w) = fl_new_stream l (fk_world k); k = k\<lparr>fk_world := w\<rparr> in
              if \<not> ok then (False, k)
              else
                (let s = stream_of_info codec info; i = int (length (fc_streams c));
                     add = (\<lambda>s k. k\<lparr>fk_ctx := Some (c\<lparr>fc_streams := fc_streams c @ [s]\<rparr>)\<rparr>);
                     extra = info_extradata info
                 in if extra = [] then (True, set_stream_index (st_codec_type s) i (add s k))
                    else
                      (let (ok, w) = fl_malloc l (length extra + 64) (fk_world k); k = k\<lparr>fk_world := w\<rparr> in
                       if \<not> ok then (False, add s k)
                       else (True, set_stream_index (st_codec_type s) i (add (s\<lparr>st_extradata := extra\<rparr>) k)))))))"

definition ff_negotiate :: "'w ff_lib \<Rightarrow> stream_info list \<Rightarrow> 'w ff_sink \<Rightarrow> bool \<times> 'w ff_sink" where
  "ff_negotiate l infos k =
     (if infos = [] then (False, k)
      else ff_open_output l ((fold (\<lambda>i k. snd (ff_add_stream l i k)) infos k)\<lparr>fk_key_received := False\<rparr>))"

definition ff_init_format :: "'w ff_lib \<Rightarrow> string \<Rightarrow> string \<Rightarrow> byte list option \<Rightarrow> 'w ff_sink \<Rightarrow> bool \<times> 'w ff_sink" where
  "ff_init_format l url fmt data_buffer k =
     ff_alloc_output_context l (k\<lparr>fk_url := url, fk_fmt := fmt, fk_user_buffer := data_buffer\<rparr>)"

definition ff_init :: "'w ff_lib \<Rightarrow> string \<Rightarrow> 'w ff_sink \<Rightarrow> bool \<times> 'w ff_sink" where
  "ff_init l url k = ff_alloc_output_context l (k\<lparr>fk_url := url\<rparr>)"

definition ff_finit :: "'w ff_lib \<Rightarrow> 'w ff_sink \<Rightarrow> bool \<times> 'w ff_sink" where
  "ff_finit l k = (True, ff_free_output_context (ff_close_output l k))"

text \<open>Which stream a frame goes to: \<open>None\<close> for a frame that is not written at all.\<close>

definition frame_stream :: "media_frame \<Rightarrow> 'w ff_sink \<Rightarrow> int option \<times> 'w ff_sink" where
  "frame_stream f k =
     (if mf_type f \<in> {VIDEO, VIDEO_AVC_SPS, VIDEO_AVC_PPS, VIDEO_SEQ_HDR} then
        (if \<not> fk_key_received k then
           (if \<not> mf_is_key f then (None, k) else (Some (fk_video_index k), k\<lparr>fk_key_received := True\<rparr>))
         else (Some (fk_video_index k), k))
      else if mf_type f \<in> {AUDIO, AUDIO_SEQ_HDR} then (Some (fk_audio_index k), k)
      else if mf_type f = DATA then (Some (fk_data_index k), k)
      else (None, k))"

definition frame_packet :: "'w ff_lib \<Rightarrow> nat \<Rightarrow> av_stream \<Rightarrow> media_frame \<Rightarrow> av_packet" where
  "frame_packet l i s f =
     (let rescale = (\<lambda>t. if t = AV_NOPTS_VALUE then t else fl_rescale l (mf_timescale f) (st_time_base s) t)
      in \<lparr>pk_pts = rescale (if mf_pts f = NO_PTS then AV_NOPTS_VALUE else mf_pts f),
          pk_dts = rescale (if mf_dts f = NO_PTS then AV_NOPTS_VALUE else mf_dts f),
          pk_duration = (if mf_duration f > 0 then fl_rescale l (mf_timescale f) (st_time_base s) (mf_duration f) else mf_duration f),
          pk_data = take (mf_len f) (mf_data f), pk_stream = i, pk_key = mf_is_key f\<rparr>)"

definition AVERROR_EINVAL :: int where
  "AVERROR_EINVAL = - 22"

text \<open>The result is that of \<open>process\<close>; \<open>false\<close> reports a fatal error, which also ends the stream in the queue.\<close>

definition ff_process :: "'w ff_lib \<Rightarrow> media_frame option \<Rightarrow> 'w ff_sink \<Rightarrow> bool \<times> 'w ff_sink" where
  "ff_process l frame k =
     (case frame of
        None \<Rightarrow> (False, k)
      | Some f \<Rightarrow>
          (case frame_stream f k of
             (None, k) \<Rightarrow> (True, k)
           | (Some index, k) \<Rightarrow>
               (if index = - 1 then (True, k)
                else
                  (let i = nat index in
                   case (fk_ctx k, fk_rows k) of
                     (Some c, Some rows) \<Rightarrow>
                       (if i < length (fc_streams c) \<and> i < length rows then
                          (let s = fc_streams c ! i;
                               (p, r) = check_fix_ts (of_nonstrict (fc_oformat c)) (st_codec_type s) (rows ! i) (frame_packet l i s f);
                               (rc, ops, w) = fl_write_frame l (fk_interrupted k) p (fk_world k);
                               k = run_io l ops (k\<lparr>fk_rows := Some (rows[i := r]), fk_world := w, fk_written := fk_written k @ [p]\<rparr>)
                           in (\<not> (rc < 0 \<and> rc \<noteq> AVERROR_EINVAL), k))
                        else (True, ff_fail k))
                   | _ \<Rightarrow> (True, ff_fail k)))))"

text \<open>\<open>error\<close>: whether it marks the end of the stream.\<close>

fun ff_error :: "stream_error \<Rightarrow> 'w ff_sink \<Rightarrow> bool \<times> 'w ff_sink" where
  "ff_error E_EOS k = (True, k)"
| "ff_error E_FATAL k = (True, k\<lparr>fk_interrupted := True\<rparr>)"
| "ff_error E_NONE k = (False, k)"

text \<open>\<open>stop\<close>; the argument is the stopping of the thread, which may process frames until it ends.\<close>

definition ff_stop :: "('w ff_sink \<Rightarrow> 'w ff_sink) \<Rightarrow> 'w ff_sink \<Rightarrow> 'w ff_sink" where
  "ff_stop isink_stop k = (isink_stop (k\<lparr>fk_interrupted := True\<rparr>))\<lparr>fk_interrupted := False\<rparr>"

text \<open>The methods as those of a sink of the media graph.\<close>

definition ffmpeg_sink :: "'w ff_lib \<Rightarrow> 'w ff_sink sink_ops" where
  "ffmpeg_sink l =
     \<lparr>so_name = ''ffmpeg-sink'', so_init = ff_init l, so_finit = ff_finit l, so_process = (\<lambda>f. ff_process l (Some f)),
      so_droppable = False, so_negotiate = ff_negotiate l, so_error = ff_error, so_eos_cb = None\<rparr>"

section \<open>Sinks for protocols\<close>

text \<open>\<^verbatim>\<open>rtmp_sink.h\<close>; the argument of \<open>error\<close> is the callback of the application.\<close>

definition rtmp_init :: "'w ff_lib \<Rightarrow> string \<Rightarrow> 'w ff_sink \<Rightarrow> bool \<times> 'w ff_sink" where
  "rtmp_init l url k = ff_init_format l url ''flv'' None k"

definition rtmp_negotiate :: "'w ff_lib \<Rightarrow> stream_info list \<Rightarrow> 'w ff_sink \<Rightarrow> bool \<times> 'w ff_sink" where
  "rtmp_negotiate l infos k = ff_negotiate l (filter (\<lambda>i. si_type i \<noteq> ST_DATA) infos) k"

definition rtmp_error :: "(stream_error \<Rightarrow> 'w ff_sink \<Rightarrow> 'w ff_sink) option \<Rightarrow> stream_error \<Rightarrow> 'w ff_sink \<Rightarrow> bool \<times> 'w ff_sink" where
  "rtmp_error error_cb e k =
     ff_error E_FATAL (if e = E_EOS then k else (case error_cb of None \<Rightarrow> k | Some cb \<Rightarrow> cb e k))"

definition rtmp_sink :: "'w ff_lib \<Rightarrow> (stream_error \<Rightarrow> 'w ff_sink \<Rightarrow> 'w ff_sink) option \<Rightarrow> 'w ff_sink sink_ops" where
  "rtmp_sink l error_cb = (ffmpeg_sink l)\<lparr>so_name := ''rtmp-sink'', so_init := rtmp_init l, so_droppable := True,
     so_negotiate := rtmp_negotiate l, so_error := rtmp_error error_cb\<rparr>"

text \<open>\<^verbatim>\<open>ffmpeg_http_sink.h\<close>: the last audio codec with a name decides.\<close>

definition http_content_type :: "audio_codec \<Rightarrow> string option" where
  "http_content_type c =
     (case c of
        AC_G711_U \<Rightarrow> Some ''audio/basic''
      | AC_AAC \<Rightarrow> Some ''audio/aac''
      | AC_OPUS \<Rightarrow> Some ''audio/opus''
      | AC_LPCM \<Rightarrow> Some ''audio/lpcm''
      | AC_G726 \<Rightarrow> Some ''audio/G726-24''
      | _ \<Rightarrow> None)"

fun last_content_type :: "stream_info list \<Rightarrow> string \<Rightarrow> string" where
  "last_content_type [] t = t"
| "last_content_type (i # is) t =
     last_content_type is (case http_content_type (ai_codec (si_audio i)) of None \<Rightarrow> t | Some t' \<Rightarrow> t')"

definition http_sink_init :: "'w ff_lib \<Rightarrow> string \<Rightarrow> 'w ff_sink \<Rightarrow> bool \<times> 'w ff_sink" where
  "http_sink_init l url k = ff_init_format l url ''mulaw'' None k"

definition http_sink_negotiate :: "'w ff_lib \<Rightarrow> stream_info list \<Rightarrow> 'w ff_sink \<Rightarrow> bool \<times> 'w ff_sink" where
  "http_sink_negotiate l infos k =
     (let audio = filter (\<lambda>i. si_type i = ST_AUDIO) infos; t = last_content_type audio [] in
      if t = [] then (False, k)
      else ff_negotiate l audio
             (k\<lparr>fk_options := [''content_type'' \<mapsto> t, ''multiple_requests'' \<mapsto> ''1'', ''chunked_post'' \<mapsto> ''0'', ''reconnect'' \<mapsto> ''1'']\<rparr>))"

text \<open>An error of the source stops the sink, whatever it is.\<close>

definition http_sink_error :: "('w ff_sink \<Rightarrow> 'w ff_sink) \<Rightarrow> stream_error \<Rightarrow> 'w ff_sink \<Rightarrow> 'w ff_sink" where
  "http_sink_error isink_stop e k = ff_stop isink_stop k"

text \<open>\<^verbatim>\<open>ffmpeg_segmented_sink.h\<close>: \<open>now\<close> is the time in seconds as text; the duration given to the constructor is not used.\<close>

definition segmented_options :: "string \<Rightarrow> string \<Rightarrow> string \<Rightarrow> options" where
  "segmented_options format storage_path now =
     [''segment_format'' \<mapsto> format, ''segment_list_type'' \<mapsto> ''csv'', ''segment_list'' \<mapsto> storage_path @ ''segments_list.csv'',
      ''segment_list_size'' \<mapsto> ''10'', ''segment_time'' \<mapsto> ''10'', ''segment_wrap'' \<mapsto> ''10'', ''output_ts_offset'' \<mapsto> now,
      ''segment_list_flags'' \<mapsto> ''cache+live'', ''segment_save_cur_idx'' \<mapsto> ''1'']"

definition segmented_init :: "'w ff_lib \<Rightarrow> string \<Rightarrow> string \<Rightarrow> string \<Rightarrow> 'w ff_sink \<Rightarrow> bool \<times> 'w ff_sink" where
  "segmented_init l format now storage_path k =
     ff_init_format l (storage_path @ ''%d.mp4'') ''segment'' None (k\<lparr>fk_options := segmented_options format storage_path now\<rparr>)"


section \<open>Facts about timestamps\<close>

lemma s64_id [simp]: "- (2 ^ 63) \<le> x \<Longrightarrow> x < 2 ^ 63 \<Longrightarrow> s64 x = x"
  by (simp add: s64_def)

fun fix_run :: "bool \<Rightarrow> av_media_type \<Rightarrow> ts_row \<Rightarrow> av_packet list \<Rightarrow> av_packet list" where
  "fix_run ns t r [] = []"
| "fix_run ns t r (p # ps) = fst (check_fix_ts ns t r p) # fix_run ns t (snd (check_fix_ts ns t r p)) ps"

text \<open>The rows of a stream that began with a packet at the given times.\<close>

definition row_at :: "int \<Rightarrow> int \<Rightarrow> int \<Rightarrow> int \<Rightarrow> ts_row" where
  "row_at f g d p = \<lparr>ts_last_dts = d, ts_last_pts = p, ts_first_dts = f, ts_first_pts = g\<rparr>"

text \<open>Times that are in order, not negative and small.\<close>

definition in_order :: "av_packet \<Rightarrow> bool" where
  "in_order p \<longleftrightarrow> 0 \<le> pk_dts p \<and> pk_dts p \<le> pk_pts p \<and> pk_pts p < 2 ^ 62"

lemma fix_order_id: "in_order p \<Longrightarrow> fix_order r p = p"
  by (simp add: fix_order_def in_order_def)

lemma first_packet:
  assumes "in_order p"
  shows "check_fix_ts ns t ts_row_new p = (p\<lparr>pk_pts := 0, pk_dts := 0\<rparr>, row_at (pk_dts p) (pk_pts p) 0 0)"
  using assms
  by (simp add: check_fix_ts_def fix_order_id fix_dts_def shift_ts_def ts_row_new_def row_at_def in_order_def AV_NOPTS_VALUE_def Let_def)

lemma later_packet:
  assumes "in_order p" "0 \<le> d" "d < pk_dts p" "0 \<le> f" "f < 2 ^ 62" "0 \<le> g" "g < 2 ^ 62"
  shows "check_fix_ts ns t (row_at f g d e) p =
    (p\<lparr>pk_pts := pk_pts p - g, pk_dts := pk_dts p - f\<rparr>, row_at f g (pk_dts p - f) (pk_pts p - g))"
proof -
  have m: "s64 (d + (if ns then 0 else 1)) = d + (if ns then 0 else 1)"
    using assms by (intro s64_id) (auto simp: in_order_def)
  have "fix_dts ns t (row_at f g d e) p = p"
    using assms m by (simp add: fix_dts_def row_at_def Let_def)
  then show ?thesis
    using assms by (simp add: check_fix_ts_def fix_order_id shift_ts_def row_at_def in_order_def AV_NOPTS_VALUE_def Let_def)
qed

lemma shifted_run:
  assumes "0 < f" "f < 2 ^ 62" "0 \<le> g" "g < 2 ^ 62" "\<forall>p\<in>set ps. in_order p \<and> f \<le> pk_dts p \<and> pk_dts p < 2 * f"
  shows "0 \<le> d \<Longrightarrow> d < f \<Longrightarrow>
    fix_run ns t (row_at f g d e) ps = map (\<lambda>p. p\<lparr>pk_pts := pk_pts p - g, pk_dts := pk_dts p - f\<rparr>) ps"
  using assms(5)
proof (induction ps arbitrary: d e)
  case (Cons p ps)
  have "check_fix_ts ns t (row_at f g d e) p =
      (p\<lparr>pk_pts := pk_pts p - g, pk_dts := pk_dts p - f\<rparr>, row_at f g (pk_dts p - f) (pk_pts p - g))"
    using Cons.prems assms by (intro later_packet) auto
  with Cons show ?case by simp
qed simp

text \<open>With times that begin at zero the repair works: the DTS grow and stay behind the PTS.\<close>

definition stamps :: "av_packet \<Rightarrow> bool" where
  "stamps p \<longleftrightarrow> 0 \<le> pk_dts p \<and> pk_dts p < 2 ^ 62 \<and> 0 \<le> pk_pts p \<and> pk_pts p < 2 ^ 62"

lemma repaired_packet:
  assumes "stamps p" "stamped t" "0 \<le> d" "d < 2 ^ 62 + 2 ^ 61"
  shows "\<exists>q. check_fix_ts ns t (row_at 0 0 d e) p = (q, row_at 0 0 (pk_dts q) (pk_pts q)) \<and>
    (if ns then d \<le> pk_dts q else d < pk_dts q) \<and> pk_dts q \<le> pk_pts q \<and> pk_dts q \<le> max (2 ^ 62) (d + 1)"
proof -
  have [simp]: "s64 (d + 1) = d + 1" "s64 d = d" using assms by (simp_all)
  define o1 where "o1 = fix_order (row_at 0 0 d e) p"
  have o1: "0 \<le> pk_dts o1" "pk_dts o1 \<le> pk_pts o1" "pk_pts o1 < 2 ^ 62 + 2 ^ 61 + 1" "pk_dts o1 \<le> max (2 ^ 62) (d + 1)"
  proof -
    show "0 \<le> pk_dts o1" "pk_dts o1 \<le> pk_pts o1" "pk_pts o1 < 2 ^ 62 + 2 ^ 61 + 1" "pk_dts o1 \<le> max (2 ^ 62) (d + 1)"
      using assms unfolding o1_def fix_order_def stamps_def row_at_def Let_def AV_NOPTS_VALUE_def by (auto simp: min_def max_def)
  qed
  define o2 where "o2 = fix_dts ns t (row_at 0 0 d e) o1"
  have o2: "(if ns then d \<le> pk_dts o2 else d < pk_dts o2)" "pk_dts o2 \<le> pk_pts o2" "pk_dts o2 \<le> max (2 ^ 62) (d + 1)"
      "0 \<le> pk_dts o2" "pk_pts o2 < 2 ^ 63"
    using o1 assms unfolding o2_def fix_dts_def row_at_def Let_def by (auto simp: AV_NOPTS_VALUE_def)
  have "check_fix_ts ns t (row_at 0 0 d e) p = shift_ts (row_at 0 0 d e) o2" by (simp add: check_fix_ts_def o1_def o2_def)
  also have "\<dots> = (o2, row_at 0 0 (pk_dts o2) (pk_pts o2))"
    using o2 by (simp add: shift_ts_def row_at_def AV_NOPTS_VALUE_def Let_def)
  finally have "check_fix_ts ns t (row_at 0 0 d e) p = (o2, row_at 0 0 (pk_dts o2) (pk_pts o2))" .
  with o2 show ?thesis by blast
qed

lemma repaired_run:
  assumes "stamped t"
  shows "list_all stamps ps \<Longrightarrow> 0 \<le> d \<Longrightarrow> d \<le> 2 ^ 62 + n \<Longrightarrow> n + int (length ps) < 2 ^ 61 \<Longrightarrow> 0 \<le> n \<Longrightarrow>
    sorted_wrt (\<lambda>x y. if ns then x \<le> y else x < y) (d # map pk_dts (fix_run ns t (row_at 0 0 d e) ps)) \<and>
    list_all (\<lambda>q. pk_dts q \<le> pk_pts q) (fix_run ns t (row_at 0 0 d e) ps)"
proof (induction ps arbitrary: d e n)
  case (Cons p ps)
  obtain q where q: "check_fix_ts ns t (row_at 0 0 d e) p = (q, row_at 0 0 (pk_dts q) (pk_pts q))"
    and lt: "if ns then d \<le> pk_dts q else d < pk_dts q" and le: "pk_dts q \<le> pk_pts q" "pk_dts q \<le> max (2 ^ 62) (d + 1)"
    using repaired_packet[OF _ assms, of p d ns e] Cons.prems by auto
  have "0 \<le> pk_dts q" "pk_dts q \<le> 2 ^ 62 + (n + 1)" "n + 1 + int (length ps) < 2 ^ 61"
    using lt le Cons.prems by (auto split: if_splits)
  from Cons.IH[OF _ this(1,2,3)] Cons.prems q lt le(1) show ?case
    by (cases ns) (auto dest!: bspec intro: order_trans less_trans)
qed simp

section \<open>Runs of the sink\<close>

definition ff_frames :: "'w ff_lib \<Rightarrow> media_frame list \<Rightarrow> 'w ff_sink \<Rightarrow> 'w ff_sink" where
  "ff_frames l fs k = fold (\<lambda>f k. snd (ff_process l (Some f) k)) fs k"

lemma ff_frames_simps [simp]:
  "ff_frames l [] k = k" "ff_frames l (f # fs) k = ff_frames l fs (snd (ff_process l (Some f) k))"
  by (simp_all add: ff_frames_def)

lemma run_io_frame [simp]:
  "fk_ctx (run_io l ops k) = fk_ctx k" "fk_rows (run_io l ops k) = fk_rows k" "fk_written (run_io l ops k) = fk_written k"
  "fk_key_received (run_io l ops k) = fk_key_received k" "fk_video_index (run_io l ops k) = fk_video_index k"
  "fk_audio_index (run_io l ops k) = fk_audio_index k" "fk_data_index (run_io l ops k) = fk_data_index k"
  "fk_headers (run_io l ops k) = fk_headers k" "fk_trailers (run_io l ops k) = fk_trailers k"
  "fk_need_trailer (run_io l ops k) = fk_need_trailer k" "fk_user_buffer (run_io l ops k) = fk_user_buffer k"
  "fk_avio (run_io l ops k) = fk_avio k" "fk_buffers (run_io l ops k) = fk_buffers k"
  "fk_world (run_io l ops k) = fk_world k" "fk_options (run_io l ops k) = fk_options k"
  "fk_interrupted (run_io l ops k) = fk_interrupted k"
  "fk_io (run_io l ops k) = (if fk_avio k then fk_io k @ ops else fk_io k)"
  by (simp_all add: run_io_def ff_fail_def split: option.splits)

text \<open>A sink with one open video stream that has received a key frame.\<close>

definition video_open :: "'w ff_sink \<Rightarrow> nat \<Rightarrow> format_ctx \<Rightarrow> ts_row list \<Rightarrow> bool" where
  "video_open k i c rows \<longleftrightarrow> fk_ctx k = Some c \<and> fk_rows k = Some rows \<and> fk_video_index k = int i \<and> i < length (fc_streams c) \<and>
     i < length rows \<and> fk_key_received k"

lemma process_video:
  assumes "video_open k i c rows" "mf_type f = VIDEO"
  shows "let (q, r) = check_fix_ts (of_nonstrict (fc_oformat c)) (st_codec_type (fc_streams c ! i)) (rows ! i)
           (frame_packet l i (fc_streams c ! i) f); k' = snd (ff_process l (Some f) k)
     in video_open k' i c (rows[i := r]) \<and> fk_written k' = fk_written k @ [q]"
  using assms by (auto simp: ff_process_def frame_stream_def video_open_def Let_def split: prod.splits)

lemma video_run:
  "video_open k i c rows \<Longrightarrow> list_all (\<lambda>f. mf_type f = VIDEO) fs \<Longrightarrow>
    fk_written (ff_frames l fs k) = fk_written k @
      fix_run (of_nonstrict (fc_oformat c)) (st_codec_type (fc_streams c ! i)) (rows ! i)
        (map (frame_packet l i (fc_streams c ! i)) fs)"
proof (induction fs arbitrary: k rows)
  case (Cons f fs)
  obtain q r where qr: "check_fix_ts (of_nonstrict (fc_oformat c)) (st_codec_type (fc_streams c ! i)) (rows ! i)
      (frame_packet l i (fc_streams c ! i) f) = (q, r)" by fastforce
  have "video_open (snd (ff_process l (Some f) k)) i c (rows[i := r])"
    and w: "fk_written (snd (ff_process l (Some f) k)) = fk_written k @ [q]"
    using process_video[OF Cons.prems(1), of f l] Cons.prems(2) qr by (auto simp: Let_def)
  from Cons.IH[OF this(1)] Cons.prems w qr show ?case by (simp add: video_open_def)
qed simp


text \<open>The row of a stream after its packets.\<close>

fun fix_row :: "bool \<Rightarrow> av_media_type \<Rightarrow> ts_row \<Rightarrow> av_packet list \<Rightarrow> ts_row" where
  "fix_row ns t r [] = r"
| "fix_row ns t r (p # ps) = fix_row ns t (snd (check_fix_ts ns t r p)) ps"

lemma video_run_open:
  "video_open k i c rows \<Longrightarrow> list_all (\<lambda>f. mf_type f = VIDEO) fs \<Longrightarrow>
    video_open (ff_frames l fs k) i c
      (rows[i := fix_row (of_nonstrict (fc_oformat c)) (st_codec_type (fc_streams c ! i)) (rows ! i)
        (map (frame_packet l i (fc_streams c ! i)) fs)])"
proof (induction fs arbitrary: k rows)
  case (Cons f fs)
  obtain q r where qr: "check_fix_ts (of_nonstrict (fc_oformat c)) (st_codec_type (fc_streams c ! i)) (rows ! i)
      (frame_packet l i (fc_streams c ! i) f) = (q, r)" by fastforce
  have "video_open (snd (ff_process l (Some f) k)) i c (rows[i := r])"
    using process_video[OF Cons.prems(1), of f l] Cons.prems(2) qr by (auto simp: Let_def)
  from Cons.IH[OF this] Cons.prems qr show ?case by (simp add: video_open_def)
qed simp

lemma shifted_row:
  assumes "0 < f" "f < 2 ^ 62" "0 \<le> g" "g < 2 ^ 62" "\<forall>p\<in>set ps. in_order p \<and> f \<le> pk_dts p \<and> pk_dts p < 2 * f"
  shows "0 \<le> d \<Longrightarrow> d < f \<Longrightarrow>
    \<exists>d'. fix_row ns t (row_at f g d e) ps = row_at f g d' (if ps = [] then e else pk_pts (last ps) - g)"
  using assms(5)
proof (induction ps arbitrary: d e)
  case (Cons p ps)
  have "check_fix_ts ns t (row_at f g d e) p =
      (p\<lparr>pk_pts := pk_pts p - g, pk_dts := pk_dts p - f\<rparr>, row_at f g (pk_dts p - f) (pk_pts p - g))"
    using Cons.prems assms by (intro later_packet) auto
  moreover have "0 \<le> pk_dts p - f" "pk_dts p - f < f" using Cons.prems(3) by auto
  ultimately show ?case using Cons.IH[of "pk_dts p - f" "pk_pts p - g"] Cons.prems(3) by (cases ps) auto
qed auto

text \<open>An open sink in which the kinds of frames have streams of their own.\<close>

definition index_ok :: "nat \<Rightarrow> int \<Rightarrow> bool" where
  "index_ok n i \<longleftrightarrow> i = - 1 \<or> 0 \<le> i \<and> i < int n"

definition sink_open :: "'w ff_sink \<Rightarrow> bool" where
  "sink_open k \<longleftrightarrow> (\<exists>c rows. fk_ctx k = Some c \<and> fk_rows k = Some rows \<and> length rows = length (fc_streams c) \<and>
     index_ok (length rows) (fk_video_index k) \<and> index_ok (length rows) (fk_audio_index k) \<and>
     index_ok (length rows) (fk_data_index k)) \<and>
     0 \<le> fk_video_index k \<and> fk_audio_index k \<noteq> fk_video_index k \<and> fk_data_index k \<noteq> fk_video_index k"

definition video_packets :: "'w ff_sink \<Rightarrow> av_packet list \<Rightarrow> av_packet list" where
  "video_packets k ps = filter (\<lambda>p. int (pk_stream p) = fk_video_index k) ps"

lemma video_packets_simps [simp]:
  "video_packets k [] = []" "video_packets k (ps @ qs) = video_packets k ps @ video_packets k qs"
  by (simp_all add: video_packets_def)

lemma shift_ts_stream [simp]: "pk_stream (fst (shift_ts r p)) = pk_stream p" "pk_key (fst (shift_ts r p)) = pk_key p"
  by (simp_all add: shift_ts_def Let_def)

lemma fix_dts_stream [simp]: "pk_stream (fix_dts ns t r p) = pk_stream p" "pk_key (fix_dts ns t r p) = pk_key p"
  by (simp_all add: fix_dts_def Let_def)

lemma fix_order_stream [simp]: "pk_stream (fix_order r p) = pk_stream p" "pk_key (fix_order r p) = pk_key p"
  by (simp_all add: fix_order_def Let_def)

lemma packet_stream [simp]: "pk_stream (fst (check_fix_ts ns t r p)) = pk_stream p" "pk_key (fst (check_fix_ts ns t r p)) = pk_key p"
  by (simp_all add: check_fix_ts_def)

lemma frame_packet_stream [simp]: "pk_stream (frame_packet l i s f) = i" "pk_key (frame_packet l i s f) = mf_is_key f"
  by (simp_all add: frame_packet_def Let_def)

lemma process_step:
  assumes "sink_open k" "ff_process l (Some f) k = (ok, k')"
  shows "\<exists>ws. fk_written k' = fk_written k @ ws \<and> fk_video_index k' = fk_video_index k \<and> sink_open k' \<and>
    (fk_key_received k \<longrightarrow> fk_key_received k') \<and>
    (if fk_key_received k then True else if fk_key_received k' then \<exists>p. video_packets k ws = [p] \<and> pk_key p else video_packets k ws = [])"
proof -
  obtain c rows where c: "fk_ctx k = Some c" "fk_rows k = Some rows" "length rows = length (fc_streams c)"
    and idx: "index_ok (length rows) (fk_video_index k)" "index_ok (length rows) (fk_audio_index k)" "index_ok (length rows) (fk_data_index k)"
      "0 \<le> fk_video_index k" "fk_audio_index k \<noteq> fk_video_index k" "fk_data_index k \<noteq> fk_video_index k"
    using assms(1) by (auto simp: sink_open_def)
  obtain r k1 where r: "frame_stream f k = (r, k1)" by fastforce
  define b where "b = fk_key_received k1"
  have k1: "k1 = k\<lparr>fk_key_received := b\<rparr>" and b: "fk_key_received k \<longrightarrow> b"
    and new: "b \<and> \<not> fk_key_received k \<longrightarrow> r = Some (fk_video_index k) \<and> mf_is_key f"
    and old: "r = Some (fk_video_index k) \<longrightarrow> b"
    and i: "\<And>i. r = Some i \<Longrightarrow> index_ok (length rows) i"
    using r idx by (auto simp: b_def frame_stream_def split: if_splits)
  show ?thesis
  proof (cases "r = None \<or> r = Some (- 1)")
    case True
    then have "k' = k1" using assms(2) r by (auto simp: ff_process_def)
    with True k1 b new idx c assms(1) show ?thesis by (auto simp: sink_open_def intro!: exI[of _ "[]"])
  next
    case False
    then obtain i where i: "r = Some i" "0 \<le> i" "nat i < length rows" using i by (auto simp: index_ok_def nat_less_iff)
    define pr where "pr = check_fix_ts (of_nonstrict (fc_oformat c)) (st_codec_type (fc_streams c ! nat i)) (rows ! nat i)
      (frame_packet l (nat i) (fc_streams c ! nat i) f)"
    have k': "fk_written k' = fk_written k @ [fst pr] \<and> fk_video_index k' = fk_video_index k \<and> fk_audio_index k' = fk_audio_index k \<and>
        fk_data_index k' = fk_data_index k \<and> fk_key_received k' = b \<and> fk_ctx k' = Some c \<and> fk_rows k' = Some (rows[nat i := snd pr])"
      using assms(2) r k1 i c by (auto simp: ff_process_def Let_def pr_def split: prod.splits)
    have "int (pk_stream (fst pr)) = i" "pk_key (fst pr) = mf_is_key f" using i(2) by (simp_all add: pr_def)
    with k' b new old i(1) idx c(3) show ?thesis
      by (auto simp: sink_open_def video_packets_def intro!: exI[of _ "[fst pr]"])
  qed
qed

lemma frames_key_first:
  "sink_open k \<Longrightarrow> \<exists>ws. fk_written (ff_frames l fs k) = fk_written k @ ws \<and>
    (fk_key_received k \<or> video_packets k ws = [] \<or> pk_key (hd (video_packets k ws)))"
proof (induction fs arbitrary: k)
  case (Cons f fs)
  obtain ok k1 where k1: "ff_process l (Some f) k = (ok, k1)" by fastforce
  obtain ws where ws: "fk_written k1 = fk_written k @ ws" "fk_video_index k1 = fk_video_index k" "sink_open k1"
      "fk_key_received k \<longrightarrow> fk_key_received k1"
      "if fk_key_received k then True else if fk_key_received k1 then \<exists>p. video_packets k ws = [p] \<and> pk_key p else video_packets k ws = []"
    using process_step[OF Cons.prems k1] by blast
  have vp: "video_packets k1 = video_packets k" by (rule ext) (simp add: video_packets_def ws(2))
  obtain vs where "fk_written (ff_frames l fs k1) = fk_written k1 @ vs"
      "fk_key_received k1 \<or> video_packets k vs = [] \<or> pk_key (hd (video_packets k vs))"
    using Cons.IH[OF ws(3)] vp by auto
  then show ?case
    using k1 ws(1,4,5) by (auto split: if_splits intro!: exI[of _ "ws @ vs"])
qed (auto intro!: exI[of _ "[]"])


section \<open>Opening, closing and the output in memory\<close>

lemma write_header_frame:
  "ff_write_header l c k = (ok, k') \<Longrightarrow> fk_key_received k' = fk_key_received k \<and> fk_written k' = fk_written k \<and>
     fk_user_buffer k' = fk_user_buffer k \<and> fk_avio k' = fk_avio k \<and> fk_buffers k' = fk_buffers k \<and>
     fk_trailers k' = fk_trailers k \<and> fk_audio_index k' = fk_audio_index k \<and> fk_rows k' = fk_rows k \<and>
     (\<exists>ss. fk_ctx k' = Some (c\<lparr>fc_streams := ss\<rparr>) \<and> length ss \<le> length (fc_streams c)) \<and>
     (if ok then fk_headers k' = fk_headers k + 1 \<and> fk_need_trailer k'
      else fk_headers k' = fk_headers k \<and> fk_need_trailer k' = fk_need_trailer k)"
  by (auto simp: ff_write_header_def Let_def split: prod.splits if_splits)

lemma open_output_frame:
  assumes "ff_open_output l k = (ok, k')"
  shows "fk_key_received k' = fk_key_received k" "fk_written k' = fk_written k" "fk_user_buffer k' = fk_user_buffer k"
    "fk_buffers k' = fk_buffers k" "fk_trailers k' = fk_trailers k" "fk_audio_index k' = fk_audio_index k"
    "if ok then fk_headers k' = fk_headers k + 1 \<and> fk_need_trailer k'
      else fk_headers k' = fk_headers k \<and> fk_need_trailer k' = fk_need_trailer k"
    "fk_ctx k = Some c \<Longrightarrow> \<exists>c'. fk_ctx k' = Some c' \<and> fc_oformat c' = fc_oformat c \<and> length (fc_streams c') \<le> length (fc_streams c)"
  using assms
  by (auto simp: ff_open_output_def Let_def ff_fail_def split: option.splits if_splits prod.splits dest!: write_header_frame)

lemma add_stream_frame:
  assumes "ff_add_stream l info k = (ok, k')"
  shows "fk_written k' = fk_written k" "fk_user_buffer k' = fk_user_buffer k" "fk_buffers k' = fk_buffers k"
    "fk_trailers k' = fk_trailers k" "fk_headers k' = fk_headers k" "fk_need_trailer k' = fk_need_trailer k" "fk_bd k' = fk_bd k"
    "si_type info \<noteq> ST_AUDIO \<Longrightarrow> fk_audio_index k' = fk_audio_index k"
    "fk_ctx k = Some c \<Longrightarrow> \<exists>c'. fk_ctx k' = Some c' \<and> fc_oformat c' = fc_oformat c \<and> length (fc_streams c') \<le> length (fc_streams c) + 1"
  using assms
  by (auto simp: ff_add_stream_def Let_def ff_fail_def set_stream_index_def stream_of_info_def stream_blank_def
      split: option.splits if_splits prod.splits av_media_type.splits stream_type.splits)

definition add_streams :: "'w ff_lib \<Rightarrow> stream_info list \<Rightarrow> 'w ff_sink \<Rightarrow> 'w ff_sink" where
  "add_streams l infos k = fold (\<lambda>i k. snd (ff_add_stream l i k)) infos k"

lemma add_streams_simps [simp]:
  "add_streams l [] k = k" "add_streams l (i # is) k = add_streams l is (snd (ff_add_stream l i k))"
  by (simp_all add: add_streams_def)

lemma add_streams_frame:
  "fk_written (add_streams l infos k) = fk_written k" "fk_user_buffer (add_streams l infos k) = fk_user_buffer k"
  "fk_buffers (add_streams l infos k) = fk_buffers k" "fk_trailers (add_streams l infos k) = fk_trailers k"
  "fk_headers (add_streams l infos k) = fk_headers k" "fk_need_trailer (add_streams l infos k) = fk_need_trailer k"
  "fk_bd (add_streams l infos k) = fk_bd k"
  "list_all (\<lambda>i. si_type i \<noteq> ST_AUDIO) infos \<Longrightarrow> fk_audio_index (add_streams l infos k) = fk_audio_index k"
  by (induction infos arbitrary: k) (simp_all add: add_stream_frame[OF surjective_pairing])

lemma add_streams_count:
  "fk_ctx k = Some c \<Longrightarrow> \<exists>c'. fk_ctx (add_streams l infos k) = Some c' \<and> length (fc_streams c') \<le> length (fc_streams c) + length infos"
proof (induction infos arbitrary: k c)
  case (Cons i infos)
  obtain c1 where "fk_ctx (snd (ff_add_stream l i k)) = Some c1" "length (fc_streams c1) \<le> length (fc_streams c) + 1"
    using add_stream_frame(9)[OF surjective_pairing Cons.prems] by blast
  with Cons.IH[OF this(1)] show ?case by fastforce
qed simp

lemma negotiate_open:
  "ff_negotiate l infos k = (if infos = [] then (False, k) else ff_open_output l ((add_streams l infos k)\<lparr>fk_key_received := False\<rparr>))"
  by (simp add: ff_negotiate_def add_streams_def)

lemma negotiate_frame:
  assumes "ff_negotiate l infos k = (ok, k')"
  shows "fk_written k' = fk_written k \<and> fk_user_buffer k' = fk_user_buffer k \<and> fk_buffers k' = fk_buffers k \<and>
    fk_trailers k' = fk_trailers k \<and> (ok \<longrightarrow> \<not> fk_key_received k') \<and>
    (if ok then fk_headers k' = fk_headers k + 1 \<and> fk_need_trailer k'
     else fk_headers k' = fk_headers k \<and> fk_need_trailer k' = fk_need_trailer k)"
proof (cases "infos = []")
  case False
  then have h: "ff_open_output l ((add_streams l infos k)\<lparr>fk_key_received := False\<rparr>) = (ok, k')"
    using assms by (simp add: negotiate_open)
  show ?thesis
    using open_output_frame(1-5,7)[OF h] by (simp add: add_streams_frame split: if_splits)
qed (use assms in \<open>auto simp: negotiate_open\<close>)

text \<open>The output in memory is what the calls so far made of the user's buffer.\<close>

definition mem_inv :: "byte list \<Rightarrow> buffer_data \<Rightarrow> 'w ff_lib \<Rightarrow> 'w ff_sink \<Rightarrow> bool" where
  "mem_inv buf bd l k \<longleftrightarrow> fk_user_buffer k = Some buf \<and> fk_avio k \<and>
     (\<forall>bd'. io_run (fl_memory l) (fk_io k) (mem_open_output buf bd) = Some bd' \<longrightarrow> fk_bd k = bd')"

lemma io_run_append: "io_run mem (xs @ ys) bd = Option.bind (io_run mem xs bd) (io_run mem ys)"
  by (induction xs arbitrary: bd) (auto simp: bind_eq_Some_conv split: bind_splits)

lemma run_io_inv: "mem_inv buf bd l k \<Longrightarrow> mem_inv buf bd l (run_io l ops k)"
  by (auto simp: mem_inv_def run_io_def ff_fail_def io_run_append bind_eq_Some_conv split: option.splits)

lemma mem_inv_cong:
  "mem_inv buf bd l k \<Longrightarrow> fk_user_buffer k' = fk_user_buffer k \<Longrightarrow> fk_avio k' = fk_avio k \<Longrightarrow> fk_io k' = fk_io k \<Longrightarrow>
     fk_bd k' = fk_bd k \<Longrightarrow> mem_inv buf bd l k'"
  by (simp add: mem_inv_def)

lemma write_header_inv:
  assumes "mem_inv buf bd l k" "ff_write_header l c k = (ok, k')"
  shows "mem_inv buf bd l k'"
proof -
  obtain rc bases opts ops w where h: "fl_write_header l (fc_streams c) (fk_options k) (fk_world k) = (rc, bases, opts, ops, w)"
    by (metis prod_cases5)
  define k1 where "k1 = run_io l ops (k\<lparr>fk_world := w, fk_options := opts,
    fk_ctx := Some (c\<lparr>fc_streams := map2 (\<lambda>s b. s\<lparr>st_time_base := b\<rparr>) (fc_streams c) bases\<rparr>)\<rparr>)"
  have "mem_inv buf bd l k1" unfolding k1_def by (rule run_io_inv, rule mem_inv_cong[OF assms(1)]) simp_all
  then show ?thesis
    using assms(2) h by (auto simp: ff_write_header_def Let_def k1_def[symmetric] split: if_splits elim!: mem_inv_cong)
qed

lemma open_output_inv:
  assumes "ff_open_output l k = (True, k')" "fk_user_buffer k = Some buf"
  shows "mem_inv buf (fk_bd k) l k'"
proof -
  obtain k1 c where k1: "ff_write_header l c k1 = (True, k')" "fk_user_buffer k1 = Some buf" "fk_avio k1" "fk_io k1 = []"
      "fk_bd k1 = mem_open_output buf (fk_bd k)"
    using assms by (auto simp: ff_open_output_def Let_def split: option.splits if_splits prod.splits)
  then have "mem_inv buf (fk_bd k) l k1" by (simp add: mem_inv_def)
  then show ?thesis using k1(1) by (rule write_header_inv)
qed

lemma frame_stream_frame: "\<exists>r b. frame_stream f k = (r, k\<lparr>fk_key_received := b\<rparr>)"
  by (cases k) (auto simp: frame_stream_def)

lemma process_inv:
  assumes "mem_inv buf bd l k"
  shows "mem_inv buf bd l (snd (ff_process l (Some f) k))"
proof -
  obtain r b where r: "frame_stream f k = (r, k\<lparr>fk_key_received := b\<rparr>)"
    using frame_stream_frame by blast
  have k1: "mem_inv buf bd l (k\<lparr>fk_key_received := b\<rparr>)" by (rule mem_inv_cong[OF assms]) simp_all
  show ?thesis
    using assms r k1
    by (auto simp: ff_process_def Let_def ff_fail_def split: option.splits prod.splits intro!: run_io_inv elim!: mem_inv_cong)
qed

lemma frames_inv: "mem_inv buf bd l k \<Longrightarrow> mem_inv buf bd l (ff_frames l fs k)"
  by (induction fs arbitrary: k) (auto simp: process_inv)


text \<open>Closing hands back the buffer.\<close>

lemma finit_buffers:
  assumes "mem_inv buf bd l k"
  shows "\<exists>k1. mem_inv buf bd l k1 \<and> fk_io k1 = fk_io (snd (ff_finit l k)) \<and>
    fk_buffers (snd (ff_finit l k)) = fk_buffers k @ [mem_close_output (fk_bd k1)]"
proof -
  have close: "mem_inv buf bd l k1 \<Longrightarrow> fk_buffers k1 = fk_buffers k \<Longrightarrow> ?thesis"
    if "ff_close_output l k = k1\<lparr>fk_buffers := fk_buffers k @ [mem_close_output (fk_bd k1)], fk_avio := False, fk_user_buffer := None,
        fk_rows := None\<rparr>" for k1
    using that by (auto simp: ff_finit_def ff_free_output_context_def intro!: exI[of _ k1])
  show ?thesis
  proof (cases "fk_ctx k")
    case None
    show ?thesis
      by (rule close[of k]) (use assms None in \<open>auto simp: ff_close_output_def mem_inv_def mem_close_output_def\<close>)
  next
    case (Some c)
    obtain ops w where t: "fl_write_trailer l (fk_world k) = (ops, w)" by fastforce
    define k1 where "k1 = (if fk_need_trailer k \<and> \<not> of_nofile (fc_oformat c)
      then run_io l ops (k\<lparr>fk_need_trailer := False, fk_world := w, fk_trailers := fk_trailers k + 1\<rparr>) else k)"
    have "mem_inv buf bd l (k\<lparr>fk_need_trailer := False, fk_world := w, fk_trailers := fk_trailers k + 1\<rparr>)"
      by (rule mem_inv_cong[OF assms]) simp_all
    then have k1: "mem_inv buf bd l k1" using assms by (auto simp: k1_def intro: run_io_inv)
    show ?thesis
      by (rule close[of k1])
        (use k1 assms Some t in \<open>auto simp: ff_close_output_def mem_inv_def mem_close_output_def k1_def Let_def\<close>)
  qed
qed

section \<open>Concrete data\<close>

text \<open>A container in one file with a byte of header and one of trailer, which is written over the header.\<close>

definition demo_lib :: "unit ff_lib" where
  "demo_lib = \<lparr>fl_alloc_output = (\<lambda>_ _ w. (Some \<lparr>of_nofile = False, of_nonstrict = False, of_query = (\<lambda>_. 1)\<rparr>, w)),
     fl_new_stream = (\<lambda>w. (True, w)), fl_malloc = (\<lambda>_ w. (True, w)), fl_avio_open = (\<lambda>_ o' w. (0, o', w)),
     fl_avio_alloc = (\<lambda>w. (True, w)), fl_write_header = (\<lambda>ss o' w. (0, map st_time_base ss, o', [Put [1]], w)),
     fl_write_frame = (\<lambda>_ p w. (0, [Put (pk_data p)], w)), fl_write_trailer = (\<lambda>w. ([Move 0 SEEK_SET, Put [9]], w)),
     fl_rescale = (\<lambda>_ _ t. t), fl_memory = (\<lambda>_. True)\<rparr>"

definition demo_info :: stream_info where
  "demo_info = \<lparr>si_type = ST_VIDEO, si_video = \<lparr>vi_codec = VC_H264, vi_width = 640, vi_height = 480, vi_framerate = (25, 1),
       vi_bitrate = 0, vi_timebase = (1, 1000), vi_extradata = []\<rparr>,
     si_audio = \<lparr>ai_codec = AC_UNKNOWN, ai_channels = 0, ai_samplerate = 0, ai_bitrate = 0, ai_timebase = (1, 1000), ai_extradata = []\<rparr>\<rparr>"

definition demo_sink :: "unit ff_sink" where
  "demo_sink = (snd (ff_negotiate demo_lib [demo_info] (snd (ff_init demo_lib ''a.mp4'' (ff_sink_new ())))))\<lparr>fk_key_received := True\<rparr>"

definition video_frame :: "int \<Rightarrow> int \<Rightarrow> media_frame" where
  "video_frame pts dts = \<lparr>mf_data = [7], mf_len = 1, mf_pts = pts, mf_dts = dts, mf_duration = 40, mf_is_key = True, mf_type = VIDEO,
     mf_timescale = (1, 1000), mf_time_realtime = 0\<rparr>"

definition demo_stream :: av_stream where
  "demo_stream = stream_blank\<lparr>st_codec_id := AV_CODEC_ID_H264, st_codec_type := AVMEDIA_TYPE_VIDEO, st_width := 640,
     st_height := 480, st_time_base := (1, 1000)\<rparr>"

definition demo_ctx :: format_ctx where
  "demo_ctx = \<lparr>fc_oformat = \<lparr>of_nofile = False, of_nonstrict = False, of_query = (\<lambda>_. 1)\<rparr>, fc_streams = [demo_stream],
     fc_pb = True, fc_custom_io = False\<rparr>"

lemmas demo_eval = demo_lib_def demo_info_def ff_init_def ff_alloc_output_context_def ff_sink_new_def ff_negotiate_def
  ff_add_stream_def info_codec_def stream_of_info_def stream_blank_def info_extradata_def set_stream_index_def ff_open_output_def
  ff_write_header_def

lemma demo_open: "video_open demo_sink 0 demo_ctx [ts_row_new]" and demo_written: "fk_written demo_sink = []"
  by (simp_all add: video_open_def demo_sink_def demo_ctx_def demo_stream_def demo_eval)

definition demo_av_packet :: "int \<Rightarrow> int \<Rightarrow> av_packet" where
  "demo_av_packet pts dts = \<lparr>pk_pts = pts, pk_dts = dts, pk_duration = 40, pk_data = [7], pk_stream = 0, pk_key = True\<rparr>"

lemma demo_frame_packet: "frame_packet demo_lib 0 s (video_frame pts dts) = demo_av_packet pts dts"
  by (auto simp: frame_packet_def video_frame_def demo_lib_def demo_av_packet_def NO_PTS_def AV_NOPTS_VALUE_def)

section \<open>What the sink writes\<close>



text \<open>
  the timestamps of a stream of video that begins at zero are repaired: whatever the frames bring, the DTS written
  grow, strictly unless the container allows equal ones, and no PTS lies before its DTS.
\<close>

theorem dts_increase_from_zero:
  assumes "video_open k i c rows" and "rows ! i = ts_row_new" and "list_all (\<lambda>f. mf_type f = VIDEO) fs"
    and "map (frame_packet l i (fc_streams c ! i)) fs = p0 # ps" and "stamped (st_codec_type (fc_streams c ! i))"
    and "pk_dts p0 = 0" and "pk_pts p0 = 0" and "list_all stamps ps" and "length ps < 2 ^ 61"
  shows "\<exists>qs. fk_written (ff_frames l fs k) = fk_written k @ qs \<and> length qs = length fs \<and>
    sorted_wrt (\<lambda>x y. if of_nonstrict (fc_oformat c) then x \<le> y else x < y) (map pk_dts qs) \<and>
    list_all (\<lambda>q. pk_dts q \<le> pk_pts q) qs"
proof -
  let ?run = "fix_run (of_nonstrict (fc_oformat c)) (st_codec_type (fc_streams c ! i))"
  have first: "?run ts_row_new (p0 # ps) = p0\<lparr>pk_pts := 0, pk_dts := 0\<rparr> # ?run (row_at 0 0 0 0) ps"
    using first_packet[of p0] assms(6,7) by (simp add: in_order_def)
  have "int (length ps) < 2 ^ 61" using assms(9) by (metis of_nat_less_iff of_nat_numeral of_nat_power)
  then have run: "sorted_wrt (\<lambda>x y. if of_nonstrict (fc_oformat c) then x \<le> y else x < y) (0 # map pk_dts (?run (row_at 0 0 0 0) ps)) \<and>
      list_all (\<lambda>q. pk_dts q \<le> pk_pts q) (?run (row_at 0 0 0 0) ps)"
    using repaired_run[OF assms(5,8), of 0 0] by simp
  have len: "length (?run r ps) = length ps" for r ps by (induction ps arbitrary: r) simp_all
  have fs: "length fs = Suc (length ps)" using arg_cong[OF assms(4), of length] by simp
  show ?thesis
    using video_run[OF assms(1,3), of l] run first assms(2,4) len fs
    by (intro exI[of _ "?run ts_row_new (p0 # ps)"]) (simp split del: if_split, auto split: if_splits)
qed

theorem dts_increase_from_zero_witness:
  "fk_written (ff_frames demo_lib [video_frame 0 0, video_frame 40 40, video_frame 30 30] demo_sink) =
     [demo_av_packet 0 0, demo_av_packet 40 40, demo_av_packet 41 41] \<and>
   (\<exists>qs. fk_written (ff_frames demo_lib [video_frame 0 0, video_frame 40 40, video_frame 30 30] demo_sink) = qs \<and>
     sorted_wrt (<) (map pk_dts qs))"
proof
  show "fk_written (ff_frames demo_lib [video_frame 0 0, video_frame 40 40, video_frame 30 30] demo_sink) =
     [demo_av_packet 0 0, demo_av_packet 40 40, demo_av_packet 41 41]"
    using video_run[OF demo_open, of "[video_frame 0 0, video_frame 40 40, video_frame 30 30]" demo_lib]
    by (simp add: demo_written demo_frame_packet)
      (simp add: video_frame_def demo_av_packet_def demo_ctx_def demo_stream_def stream_blank_def check_fix_ts_def fix_order_def
        fix_dts_def shift_ts_def ts_row_new_def AV_NOPTS_VALUE_def stamped_def Let_def)
  show "\<exists>qs. fk_written (ff_frames demo_lib [video_frame 0 0, video_frame 40 40, video_frame 30 30] demo_sink) = qs \<and>
     sorted_wrt (<) (map pk_dts qs)"
    using dts_increase_from_zero[OF demo_open, of "[video_frame 0 0, video_frame 40 40, video_frame 30 30]" demo_lib
        "demo_av_packet 0 0" "[demo_av_packet 40 40, demo_av_packet 30 30]"]
    by (simp add: demo_frame_packet demo_written)
      (auto simp: video_frame_def demo_av_packet_def demo_ctx_def demo_stream_def stream_blank_def stamped_def stamps_def)
qed


text \<open>
  the duration of a video stream that begins at a time after zero is zero as long as it has not run twice that
  time, because the first timestamp is subtracted once more from the shifted one.
\<close>

theorem duration_forgets_offset:
  assumes "mono rnd" and "rnd 0 = 0" and "video_open k 0 c [ts_row_new]" and "fc_streams c = [s]"
    and "0 \<le> fst (st_time_base s)" and "0 \<le> snd (st_time_base s)" and "list_all (\<lambda>f. mf_type f = VIDEO) fs"
    and "map (frame_packet l 0 s) fs = p0 # ps" and "in_order p0" and "0 < pk_dts p0"
    and "\<forall>p\<in>set ps. in_order p \<and> pk_dts p0 \<le> pk_dts p \<and> pk_dts p < 2 * pk_dts p0 \<and> pk_pts p \<le> 2 * pk_pts p0"
  shows "ff_duration rnd (ff_frames l fs k) = Some 0"
proof -
  let ?ns = "of_nonstrict (fc_oformat c)" and ?t = "st_codec_type s"
  obtain d e where row: "fix_row ?ns ?t ts_row_new (p0 # ps) = row_at (pk_dts p0) (pk_pts p0) d e"
    and e: "e = (if ps = [] then 0 else pk_pts (last ps) - pk_pts p0)"
    using shifted_row[OF assms(10), of "pk_pts p0" ps 0 ?ns ?t 0] first_packet[OF assms(9), of ?ns ?t] assms(9,10,11)
    by (auto simp: in_order_def)
  have eb: "- (2 ^ 62) < e" "e \<le> pk_pts p0" "0 \<le> pk_pts p0" "pk_pts p0 < 2 ^ 62"
  proof -
    have "in_order (last ps) \<and> pk_pts (last ps) \<le> 2 * pk_pts p0" if "ps \<noteq> []" using assms(11) that by simp
    with assms(9) e show "- (2 ^ 62) < e" "e \<le> pk_pts p0" "0 \<le> pk_pts p0" "pk_pts p0 < 2 ^ 62"
      by (auto simp: in_order_def)
  qed
  have open': "video_open (ff_frames l fs k) 0 c [row_at (pk_dts p0) (pk_pts p0) d e]"
    using video_run_open[OF assms(3,7), of l] assms(4,8) row by simp
  have "s64 (e - pk_pts p0) \<le> 0" using eb by (subst s64_id) auto
  then have "rnd (of_int (s64 (e - pk_pts p0))) \<le> 0"
    using monoD[OF assms(1), of "of_int (s64 (e - pk_pts p0))" 0] assms(2) by simp
  moreover have "0 \<le> q2d rnd (st_time_base s)"
    using monoD[OF assms(1), of 0 "of_int (fst (st_time_base s)) / of_int (snd (st_time_base s))"] assms(2,5,6)
    by (simp add: q2d_def)
  ultimately have "rnd (of_int (s64 (e - pk_pts p0))) * q2d rnd (st_time_base s) \<le> 0" by (rule mult_nonpos_nonneg)
  then have "stream_time rnd (row_at (pk_dts p0) (pk_pts p0) d e) s \<le> 0"
    using monoD[OF assms(1), of "rnd (of_int (s64 (e - pk_pts p0))) * q2d rnd (st_time_base s)" 0] assms(2)
    by (simp add: stream_time_def row_at_def)
  then have "max_time 0 [stream_time rnd (row_at (pk_dts p0) (pk_pts p0) d e) s] = 0" by (simp add: max_def)
  with open' assms(2,4) show ?thesis by (simp add: ff_duration_def video_open_def milliseconds_def)
qed

theorem duration_forgets_offset_witness:
  "ff_duration id (ff_frames demo_lib [video_frame 5000 5000, video_frame 6000 6000, video_frame 9000 9000] demo_sink) = Some 0"
  using duration_forgets_offset[OF _ _ demo_open, of id demo_stream "[video_frame 5000 5000, video_frame 6000 6000, video_frame 9000 9000]"
      demo_lib "demo_av_packet 5000 5000" "[demo_av_packet 6000 6000, demo_av_packet 9000 9000]"]
  by (simp add: demo_frame_packet mono_def) (simp add: demo_ctx_def demo_stream_def video_frame_def demo_av_packet_def in_order_def)

text \<open>
  after the streams were negotiated, the first packet of video that is written is a key frame, whatever frames
  come, of all kinds.
\<close>

theorem video_starts_with_key:
  assumes "ff_negotiate l infos k0 = (True, k)" and "sink_open k"
  shows "\<exists>ws. fk_written (ff_frames l fs k) = fk_written k0 @ ws \<and>
    (video_packets k ws = [] \<or> pk_key (hd (video_packets k ws)))"
  using frames_key_first[OF assms(2), of l fs] negotiate_frame[OF assms(1)] by auto

theorem video_starts_with_key_witness:
  "\<exists>ws. fk_written (ff_frames demo_lib [(video_frame 0 0)\<lparr>mf_is_key := False\<rparr>, video_frame 40 40]
      (snd (ff_negotiate demo_lib [demo_info] (snd (ff_init demo_lib ''a.mp4'' (ff_sink_new ())))))) = ws \<and>
    (video_packets demo_sink ws = [] \<or> pk_key (hd (video_packets demo_sink ws)))"
proof -
  let ?k = "ff_negotiate demo_lib [demo_info] (snd (ff_init demo_lib ''a.mp4'' (ff_sink_new ())))"
  have n: "?k = (True, snd ?k)" and "sink_open (snd ?k)" and "video_packets (snd ?k) = video_packets demo_sink"
    by (auto simp: demo_eval sink_open_def index_ok_def demo_sink_def video_packets_def intro!: ext)
  moreover have "fk_written (snd (ff_init demo_lib ''a.mp4'' (ff_sink_new ()))) = []" by (simp add: demo_eval)
  ultimately show ?thesis using video_starts_with_key[OF n, of "[(video_frame 0 0)\<lparr>mf_is_key := False\<rparr>, video_frame 40 40]"] by simp
qed

section \<open>Headers and trailers\<close>

datatype sink_call =
    Call_Init string
  | Call_Init_Format string string "byte list option"
  | Call_Negotiate "stream_info list"
  | Call_Process "media_frame option"
  | Call_Finit

fun do_call :: "'w ff_lib \<Rightarrow> sink_call \<Rightarrow> 'w ff_sink \<Rightarrow> 'w ff_sink" where
  "do_call l (Call_Init url) k = snd (ff_init l url k)"
| "do_call l (Call_Init_Format url fmt buf) k = snd (ff_init_format l url fmt buf k)"
| "do_call l (Call_Negotiate infos) k = snd (ff_negotiate l infos k)"
| "do_call l (Call_Process f) k = snd (ff_process l f k)"
| "do_call l Call_Finit k = snd (ff_finit l k)"

definition trailer_inv :: "'w ff_sink \<Rightarrow> bool" where
  "trailer_inv k \<longleftrightarrow> (if fk_need_trailer k then fk_trailers k < fk_headers k else fk_trailers k \<le> fk_headers k)"

lemma process_trailer:
  "fk_need_trailer (snd (ff_process l f k)) = fk_need_trailer k \<and> fk_trailers (snd (ff_process l f k)) = fk_trailers k \<and>
     fk_headers (snd (ff_process l f k)) = fk_headers k"
proof (cases f)
  case (Some g)
  obtain r b where "frame_stream g k = (r, k\<lparr>fk_key_received := b\<rparr>)" using frame_stream_frame by blast
  with Some show ?thesis by (auto simp: ff_process_def Let_def ff_fail_def split: option.splits prod.splits)
qed (simp add: ff_process_def)

lemma call_trailer: "trailer_inv k \<Longrightarrow> trailer_inv (do_call l c k)"
proof (cases c)
  case (Call_Negotiate infos)
  assume "trailer_inv k"
  with negotiate_frame[OF surjective_pairing, of l infos k] Call_Negotiate show ?thesis
    by (auto simp: trailer_inv_def split: if_splits)
next
  case (Call_Process f)
  assume "trailer_inv k"
  with Call_Process show ?thesis by (simp add: trailer_inv_def process_trailer)
next
  case Call_Finit
  assume "trailer_inv k"
  with Call_Finit show ?thesis
    by (auto simp: trailer_inv_def ff_finit_def ff_free_output_context_def ff_close_output_def Let_def split: option.splits prod.splits)
qed (auto simp: trailer_inv_def ff_init_def ff_init_format_def ff_alloc_output_context_def Let_def split: option.splits prod.splits if_splits)

text \<open>
  in every sequence of calls there are never more trailers than headers, and closing an output whose header was
  written writes exactly one trailer, unless the container opens its files itself: then it writes none.
\<close>

theorem trailer_follows_header:
  assumes "k = fold (do_call l) calls (ff_sink_new w)"
  shows "fk_trailers k \<le> fk_headers k \<and>
    (case fk_ctx k of
       None \<Rightarrow> fk_trailers (snd (ff_finit l k)) = fk_trailers k
     | Some c \<Rightarrow> fk_trailers (snd (ff_finit l k)) = fk_trailers k + (if fk_need_trailer k \<and> \<not> of_nofile (fc_oformat c) then 1 else 0))"
proof -
  have "trailer_inv k0 \<Longrightarrow> trailer_inv (fold (do_call l) calls k0)" for k0
    by (induction calls arbitrary: k0) (auto intro: call_trailer)
  then have "trailer_inv k" using assms by (simp add: trailer_inv_def ff_sink_new_def)
  then have "fk_trailers k \<le> fk_headers k" by (auto simp: trailer_inv_def split: if_splits)
  moreover have "case fk_ctx k of
       None \<Rightarrow> fk_trailers (snd (ff_finit l k)) = fk_trailers k
     | Some c \<Rightarrow> fk_trailers (snd (ff_finit l k)) = fk_trailers k + (if fk_need_trailer k \<and> \<not> of_nofile (fc_oformat c) then 1 else 0)"
    by (auto simp: ff_finit_def ff_free_output_context_def ff_close_output_def Let_def split: option.splits prod.splits)
  ultimately show ?thesis by blast
qed

theorem trailer_follows_header_witness:
  "fk_trailers (snd (ff_finit demo_lib (fold (do_call demo_lib) [Call_Init ''a.mp4'', Call_Negotiate [demo_info]] (ff_sink_new ())))) = 1"
  using trailer_follows_header[OF refl, of demo_lib "[Call_Init ''a.mp4'', Call_Negotiate [demo_info]]" "()"]
  by (auto simp: demo_eval)


lemma demo_io:
  assumes "fk_ctx k = Some (demo_ctx\<lparr>fc_custom_io := True\<rparr>)" "fk_rows k = Some [ts_row_new]" "fk_video_index k = 0"
    "fk_avio k" "fk_need_trailer k" "\<not> fk_key_received k"
  shows "fk_io (snd (ff_finit demo_lib (ff_frames demo_lib [video_frame 0 0] k))) = fk_io k @ [Put [7], Move 0 SEEK_SET, Put [9]]"
proof -
  obtain q r where q: "check_fix_ts False AVMEDIA_TYPE_VIDEO ts_row_new (demo_av_packet 0 0) = (q, r)" by fastforce
  have d: "pk_data q = [7]"
    using arg_cong[OF q, of "\<lambda>x. pk_data (fst x)"]
    by (simp add: check_fix_ts_def shift_ts_def fix_dts_def fix_order_def demo_av_packet_def Let_def split: if_splits)
  define k1 where "k1 = snd (ff_process demo_lib (Some (video_frame 0 0)) k)"
  have t: "mf_type (video_frame 0 0) = VIDEO" "mf_is_key (video_frame 0 0)" by (simp_all add: video_frame_def)
  have w: "fl_write_frame demo_lib b p w = (0, [Put (pk_data p)], w)" "fl_write_trailer demo_lib w = ([Move 0 SEEK_SET, Put [9]], w)" for b p w
    by (simp_all add: demo_lib_def)
  have "fk_io k1 = fk_io k @ [Put [7]] \<and> fk_ctx k1 = fk_ctx k \<and> fk_avio k1 \<and> fk_need_trailer k1"
    using assms t q d demo_frame_packet[of demo_stream 0 0]
    by (simp add: k1_def ff_process_def frame_stream_def Let_def demo_ctx_def w) (simp add: demo_stream_def stream_blank_def w)
  then show ?thesis
    using assms(1) w(2) by (auto simp: k1_def[symmetric] ff_finit_def ff_close_output_def ff_free_output_context_def Let_def demo_ctx_def split: option.splits)
qed



section \<open>Using a sink again\<close>

text \<open>
  the numbers of the streams outlive the output they belong to: a sink that had a stream of audio and is opened again
  without one uses an audio frame to reach behind the streams it has.
\<close>

theorem stale_stream_index:
  assumes "fk_audio_index k = int i" and "ff_init l url (snd (ff_finit l k)) = (True, k1)"
    and "ff_negotiate l infos k1 = (True, k2)" and "list_all (\<lambda>s. si_type s \<noteq> ST_AUDIO) infos" and "length infos \<le> i"
    and "mf_type f = AUDIO"
  shows "fk_fault (snd (ff_process l (Some f) k2))"
proof -
  have a: "fk_audio_index (snd (ff_finit l k)) = int i"
    using assms(1) by (auto simp: ff_finit_def ff_free_output_context_def ff_close_output_def Let_def split: option.splits prod.splits)
  obtain c where c: "fk_ctx k1 = Some c" "fc_streams c = []" "fk_audio_index k1 = int i"
    using assms(2) a by (auto simp: ff_init_def ff_alloc_output_context_def Let_def split: option.splits prod.splits if_splits)
  have h: "ff_open_output l ((add_streams l infos k1)\<lparr>fk_key_received := False\<rparr>) = (True, k2)"
    using assms(3) by (auto simp: negotiate_open split: if_splits)
  obtain c1 where c1: "fk_ctx (add_streams l infos k1) = Some c1" "length (fc_streams c1) \<le> length infos"
    using add_streams_count[OF c(1), of l infos] c(2) by auto
  obtain c2 where "fk_ctx k2 = Some c2" "length (fc_streams c2) \<le> length infos"
    using open_output_frame(8)[OF h, of c1] c1 by auto
  moreover have "fk_audio_index k2 = int i"
    using open_output_frame(6)[OF h] c(3) add_streams_frame(8)[OF assms(4), of l k1] by simp
  ultimately show ?thesis
    using assms(5,6) by (auto simp: ff_process_def frame_stream_def Let_def ff_fail_def split: option.splits)
qed

theorem stale_stream_index_witness:
  "fk_fault (snd (ff_process demo_lib (Some ((video_frame 0 0)\<lparr>mf_type := AUDIO\<rparr>))
     (snd (ff_negotiate demo_lib [demo_info] (snd (ff_init demo_lib ''b.mp4'' (snd (ff_finit demo_lib (demo_sink\<lparr>fk_audio_index := 1\<rparr>)))))))))"
proof -
  let ?s = "snd (ff_finit demo_lib (demo_sink\<lparr>fk_audio_index := 1\<rparr>))"
  let ?i = "snd (ff_init demo_lib ''b.mp4'' ?s)"
  have "fst (ff_init demo_lib ''b.mp4'' s)" for s by (simp add: ff_init_def ff_alloc_output_context_def demo_lib_def Let_def)
  then have i: "ff_init demo_lib ''b.mp4'' ?s = (True, ?i)" by (simp add: prod_eq_iff)
  have u: "fk_user_buffer ?s = None" by (simp add: ff_finit_def ff_free_output_context_def ff_close_output_def Let_def split: option.splits prod.splits)
  have "fst (ff_negotiate demo_lib [demo_info] (snd (ff_init demo_lib ''b.mp4'' s)))" if "fk_user_buffer s = None" for s
    using that by (simp add: demo_eval Let_def)
  then have n: "ff_negotiate demo_lib [demo_info] ?i = (True, snd (ff_negotiate demo_lib [demo_info] ?i))"
    using u by (simp add: prod_eq_iff)
  show ?thesis
    using stale_stream_index[of "demo_sink\<lparr>fk_audio_index := 1\<rparr>" 1, OF _ i n, of "(video_frame 0 0)\<lparr>mf_type := AUDIO\<rparr>"]
    by (simp add: demo_info_def)
qed

end
