(* ===== verification/Ff_Input.thy ===== *)
theory Ff_Input
  imports Ff_Output
begin

text \<open>
  The source that reads media with FFmpeg: the input half of \<^verbatim>\<open>src/src/streamer/ffmpeg_common.h\<close>,
  \<^verbatim>\<open>ffmpeg_source.cc\<close> and the sources for protocols, \<^verbatim>\<open>rtsp_source.h\<close> and \<^verbatim>\<open>rtmp_source.h\<close>. As in \<open>Ff_Output\<close>
  the functions of FFmpeg are a record.
\<close>

section \<open>State\<close>

text \<open>
  An opened input: whether its format opens files itself, its streams, and the time of the packet read last.
  A packet that was read: without data its pointer is null.
\<close>

record in_ctx =
  ic_nofile :: bool
  ic_streams :: "av_stream list"
  ic_last_timestamp :: int

text \<open>
  Opening gives the streams; reading a packet or an error, and the time. The filter \<^verbatim>\<open>dump_extra\<close> puts the extra data of a
  stream before the data of a packet.
\<close>

record 'w in_lib =
  il_alloc :: "'w \<Rightarrow> bool \<times> 'w"
  il_malloc :: "nat \<Rightarrow> 'w \<Rightarrow> bool \<times> 'w"
  il_avio_alloc :: "'w \<Rightarrow> bool \<times> 'w"
  il_open :: "string option \<Rightarrow> string option \<Rightarrow> options \<Rightarrow> 'w \<Rightarrow> int \<times> in_ctx \<times> 'w"
  il_find_stream_info :: "in_ctx \<Rightarrow> 'w \<Rightarrow> int \<times> in_ctx \<times> 'w"
  il_bitstream_filter :: "'w \<Rightarrow> bool \<times> 'w"
  il_read_frame :: "bool \<Rightarrow> 'w \<Rightarrow> (int + av_packet) \<times> int \<times> 'w"
  il_dump_extra :: "av_stream \<Rightarrow> byte list \<Rightarrow> byte list"

text \<open>The last field is a history: the errors reported to the sinks.\<close>

record 'w ff_source =
  fs_world :: 'w
  fs_ctx :: "in_ctx option"
  fs_video_index :: int
  fs_audio_index :: int
  fs_data_index :: int
  fs_bsf :: bool
  fs_interrupted :: bool
  fs_extradata :: "nat \<rightharpoonup> byte list"
  fs_user_buffer :: "byte list option"
  fs_bd :: buffer_data
  fs_avio :: bool
  fs_fault :: bool
  fs_errors :: "stream_error list"

definition ff_source_new :: "'w \<Rightarrow> 'w ff_source" where
  "ff_source_new w = \<lparr>fs_world = w, fs_ctx = None, fs_video_index = - 1, fs_audio_index = - 1, fs_data_index = - 1, fs_bsf = False,
     fs_interrupted = False, fs_extradata = Map.empty, fs_user_buffer = None, fs_bd = buffer_data_new, fs_avio = False,
     fs_fault = False, fs_errors = []\<rparr>"

section \<open>Codecs\<close>

fun AVCodecID_to_VideoCodec :: "codec_id \<Rightarrow> video_codec" where
  "AVCodecID_to_VideoCodec AV_CODEC_ID_H264 = VC_H264"
| "AVCodecID_to_VideoCodec _ = VC_UNKNOWN"

fun AVCodecID_to_AudioCodec :: "codec_id \<Rightarrow> audio_codec" where
  "AVCodecID_to_AudioCodec AV_CODEC_ID_AAC = AC_AAC"
| "AVCodecID_to_AudioCodec AV_CODEC_ID_PCM_ALAW = AC_G711_A"
| "AVCodecID_to_AudioCodec AV_CODEC_ID_PCM_MULAW = AC_G711_U"
| "AVCodecID_to_AudioCodec _ = AC_UNKNOWN"

section \<open>Opening and closing\<close>

definition known_video :: "av_stream \<Rightarrow> bool" where
  "known_video s \<longleftrightarrow> st_codec_type s = AVMEDIA_TYPE_VIDEO \<and> AVCodecID_to_VideoCodec (st_codec_id s) \<noteq> VC_UNKNOWN"

definition known_audio :: "av_stream \<Rightarrow> bool" where
  "known_audio s \<longleftrightarrow> st_codec_type s = AVMEDIA_TYPE_AUDIO \<and> AVCodecID_to_AudioCodec (st_codec_id s) \<noteq> AC_UNKNOWN"

definition is_data_stream :: "av_stream \<Rightarrow> bool" where
  "is_data_stream s \<longleftrightarrow> st_codec_type s = AVMEDIA_TYPE_DATA"

text \<open>The loop over the streams, from the stream \<open>i\<close> on.\<close>

fun scan_streams :: "nat \<Rightarrow> av_stream list \<Rightarrow> 'w ff_source \<Rightarrow> 'w ff_source" where
  "scan_streams i [] k = k"
| "scan_streams i (s # ss) k =
     (let k = (if known_video s then k\<lparr>fs_video_index := int i\<rparr> else k);
          k = (if known_audio s then k\<lparr>fs_audio_index := int i\<rparr> else k);
          k = (if is_data_stream s then k\<lparr>fs_data_index := int i\<rparr> else k);
          k = (if st_extradata s \<noteq> [] then k\<lparr>fs_extradata := (fs_extradata k)(i \<mapsto> st_extradata s)\<rparr> else k)
      in scan_streams (Suc i) ss k)"

definition ff_open_parsers :: "'w in_lib \<Rightarrow> 'w ff_source \<Rightarrow> 'w ff_source" where
  "ff_open_parsers l k =
     (if fs_video_index k \<noteq> - 1 then (let (ok, w) = il_bitstream_filter l (fs_world k) in k\<lparr>fs_bsf := ok, fs_world := w\<rparr>) else k)"

definition ff_close_parsers :: "'w ff_source \<Rightarrow> 'w ff_source" where
  "ff_close_parsers k = k\<lparr>fs_bsf := False\<rparr>"

text \<open>The end of \<open>_ff_open_input\<close>, once the input is open.\<close>

definition ff_find_streams :: "'w in_lib \<Rightarrow> in_ctx \<Rightarrow> 'w ff_source \<Rightarrow> bool \<times> 'w ff_source" where
  "ff_find_streams l c k =
     (let (rc, c, w) = il_find_stream_info l c (fs_world k); k = k\<lparr>fs_world := w, fs_ctx := Some c\<rparr> in
      if rc < 0 then (False, k) else (True, ff_open_parsers l (scan_streams 0 (ic_streams c) k)))"

definition ff_open_input :: "'w in_lib \<Rightarrow> string \<Rightarrow> options \<Rightarrow> string \<Rightarrow> byte list option \<Rightarrow> 'w ff_source \<Rightarrow> bool \<times> 'w ff_source" where
  "ff_open_input l url opts fmt input_buffer k =
     (let (ok, w) = il_alloc l (fs_world k); k = k\<lparr>fs_world := w\<rparr> in
      if \<not> ok then (False, k\<lparr>fs_ctx := None\<rparr>)
      else
        (let k = k\<lparr>fs_ctx := Some \<lparr>ic_nofile = False, ic_streams = [], ic_last_timestamp = 0\<rparr>, fs_interrupted := False\<rparr> in
         case input_buffer of
           None \<Rightarrow>
             (let (rc, c, w) = il_open l (Some url) (if fmt = [] then None else Some fmt) opts (fs_world k); k = k\<lparr>fs_world := w\<rparr>
              in if rc \<noteq> 0 then (False, k\<lparr>fs_ctx := None\<rparr>) else ff_find_streams l c k)
         | Some buf \<Rightarrow>
             (let (ok, w) = il_malloc l 4096 (fs_world k); k = k\<lparr>fs_world := w, fs_user_buffer := Some buf\<rparr> in
              if \<not> ok then (False, k)
              else
                (let (ok, w) = il_avio_alloc l (fs_world k);
                     k = k\<lparr>fs_world := w, fs_bd := mem_open_input buf (fs_bd k), fs_avio := ok\<rparr>
                 in if \<not> ok then (False, k)
                    else
                      (let (rc, c, w) = il_open l None None Map.empty (fs_world k); k = k\<lparr>fs_world := w\<rparr>
                       in if rc < 0 then (False, k\<lparr>fs_ctx := None\<rparr>) else ff_find_streams l c k)))))"

definition ff_close_input :: "'w ff_source \<Rightarrow> 'w ff_source" where
  "ff_close_input k = (ff_close_parsers k)\<lparr>fs_ctx := None, fs_avio := False, fs_user_buffer := None\<rparr>"

section \<open>The source\<close>

definition source_init_options :: "'w in_lib \<Rightarrow> string \<Rightarrow> options \<Rightarrow> string \<Rightarrow> 'w ff_source \<Rightarrow> bool \<times> 'w ff_source" where
  "source_init_options l url opts fmt k = ff_open_input l url opts fmt None k"

definition source_init_memory :: "'w in_lib \<Rightarrow> byte list \<Rightarrow> options \<Rightarrow> string \<Rightarrow> 'w ff_source \<Rightarrow> bool \<times> 'w ff_source" where
  "source_init_memory l buf opts fmt k = ff_open_input l [] opts fmt (Some buf) k"

definition source_init_url :: "'w in_lib \<Rightarrow> string \<Rightarrow> 'w ff_source \<Rightarrow> bool \<times> 'w ff_source" where
  "source_init_url l url k = source_init_options l url Map.empty [] k"

definition source_finit :: "'w ff_source \<Rightarrow> 'w ff_source" where
  "source_finit k = ff_close_input k"

text \<open>The description of a stream; \<open>junk\<close> is what the fields hold that are not set.\<close>

definition info_of_stream :: "stream_info \<Rightarrow> av_stream \<Rightarrow> stream_info option" where
  "info_of_stream junk s =
     (case st_codec_type s of
        AVMEDIA_TYPE_VIDEO \<Rightarrow>
          (if AVCodecID_to_VideoCodec (st_codec_id s) = VC_UNKNOWN then None
           else Some (junk\<lparr>si_type := ST_VIDEO, si_video := (si_video junk)\<lparr>vi_codec := AVCodecID_to_VideoCodec (st_codec_id s),
                  vi_width := st_width s, vi_height := st_height s, vi_bitrate := st_bit_rate s, vi_timebase := st_time_base s,
                  vi_extradata := st_extradata s\<rparr>\<rparr>))
      | AVMEDIA_TYPE_AUDIO \<Rightarrow>
          (if AVCodecID_to_AudioCodec (st_codec_id s) = AC_UNKNOWN then None
           else Some (junk\<lparr>si_type := ST_AUDIO, si_audio := (si_audio junk)\<lparr>ai_codec := AVCodecID_to_AudioCodec (st_codec_id s),
                  ai_channels := st_channels s, ai_bitrate := st_bit_rate s, ai_samplerate := st_sample_rate s,
                  ai_timebase := st_time_base s, ai_extradata := st_extradata s\<rparr>\<rparr>))
      | AVMEDIA_TYPE_DATA \<Rightarrow> Some (junk\<lparr>si_type := ST_DATA\<rparr>)
      | _ \<Rightarrow> None)"

definition source_negotiate :: "stream_info \<Rightarrow> 'w ff_source \<Rightarrow> stream_info list" where
  "source_negotiate junk k =
     (case fs_ctx k of None \<Rightarrow> [] | Some c \<Rightarrow> List.map_filter (info_of_stream junk) (ic_streams c))"

text \<open>What of the extra data comes before the data of a video packet.\<close>

definition video_data :: "'w in_lib \<Rightarrow> bool \<Rightarrow> av_stream \<Rightarrow> av_packet \<Rightarrow> byte list" where
  "video_data l bsf s p =
     (if bsf \<and> pk_key p then il_dump_extra l s (pk_data p)
      else if pk_key p \<and> length (pk_data p) > 4 \<and> and (pk_data p ! 4) 0x1f \<noteq> 0x7 \<and> st_extradata s \<noteq> [] \<and> hd (st_extradata s) \<noteq> 1
      then st_extradata s @ pk_data p
      else pk_data p)"

definition packet_frame :: "'w in_lib \<Rightarrow> 'w ff_source \<Rightarrow> in_ctx \<Rightarrow> av_packet \<Rightarrow> media_frame" where
  "packet_frame l k c p =
     (let s = ic_streams c ! pk_stream p; i = int (pk_stream p);
          (t, d) = (if i = fs_audio_index k then (AUDIO, pk_data p)
                    else if i = fs_video_index k then (VIDEO, video_data l (fs_bsf k) s p)
                    else (DATA, pk_data p))
      in \<lparr>mf_data = d, mf_len = length d, mf_pts = pk_pts p, mf_dts = pk_dts p, mf_duration = pk_duration p, mf_is_key = pk_key p,
          mf_type = t, mf_timescale = st_time_base s, mf_time_realtime = ic_last_timestamp c\<rparr>)"

definition ff_pull_frame :: "'w in_lib \<Rightarrow> 'w ff_source \<Rightarrow> media_frame option \<times> 'w ff_source" where
  "ff_pull_frame l k =
     (case fs_ctx k of
        None \<Rightarrow> (None, k\<lparr>fs_fault := True\<rparr>)
      | Some c \<Rightarrow>
          (let (r, t, w) = il_read_frame l (fs_interrupted k) (fs_world k);
               c = c\<lparr>ic_last_timestamp := t\<rparr>; k = k\<lparr>fs_world := w, fs_ctx := Some c\<rparr>
           in case r of
                Inl e \<Rightarrow> (None, k\<lparr>fs_errors := fs_errors k @ [if \<not> ic_nofile c then E_EOS else E_FATAL]\<rparr>)
              | Inr p \<Rightarrow>
                  (if int (pk_stream p) \<in> {fs_video_index k, fs_audio_index k, fs_data_index k}
                   then (Some (packet_frame l k c p), k) else (None, k))))"

text \<open>\<open>stop\<close>; the argument is the stopping of the thread.\<close>

definition ff_source_stop :: "('w ff_source \<Rightarrow> 'w ff_source) \<Rightarrow> 'w ff_source \<Rightarrow> 'w ff_source" where
  "ff_source_stop isource_stop k = isource_stop (k\<lparr>fs_interrupted := True\<rparr>)"

definition ffmpeg_source :: "'w in_lib \<Rightarrow> stream_info \<Rightarrow> 'w ff_source source_ops" where
  "ffmpeg_source l junk = \<lparr>sr_mode = PULL, sr_init = source_init_url l, sr_finit = source_finit,
     sr_negotiate = (\<lambda>k. (source_negotiate junk k, k)), sr_pull = ff_pull_frame l\<rparr>"

section \<open>RTSP\<close>

text \<open>\<open>rs_timeout\<close> counts seconds.\<close>

record rtsp_source =
  rs_over_tcp :: bool
  rs_transport :: string
  rs_media_types :: "frame_type list"
  rs_timeout_s :: int
  rs_ffmpeg_opts :: options

definition DEFAULT_TIMEOUT_SEC :: int where
  "DEFAULT_TIMEOUT_SEC = 5"

definition rtsp_source_bool :: "bool \<Rightarrow> frame_type list \<Rightarrow> rtsp_source" where
  "rtsp_source_bool rtp_over_tcp media_types =
     \<lparr>rs_over_tcp = rtp_over_tcp, rs_transport = ''tcp'', rs_media_types = media_types, rs_timeout_s = DEFAULT_TIMEOUT_SEC,
      rs_ffmpeg_opts = Map.empty\<rparr>"

definition rtsp_source_transport :: "string \<Rightarrow> frame_type list \<Rightarrow> options \<Rightarrow> int \<Rightarrow> rtsp_source" where
  "rtsp_source_transport rtp_transport media_types opts timeout =
     \<lparr>rs_over_tcp = True, rs_transport = rtp_transport, rs_media_types = media_types,
      rs_timeout_s = (if timeout = 0 then DEFAULT_TIMEOUT_SEC else timeout), rs_ffmpeg_opts = opts\<rparr>"

fun media_type_name :: "frame_type \<Rightarrow> string" where
  "media_type_name VIDEO = ''video''"
| "media_type_name AUDIO = ''audio''"
| "media_type_name DATA = ''data''"
| "media_type_name _ = []"

text \<open>The loop over the types, with its counter and the number of types.\<close>

fun media_types_loop :: "nat \<Rightarrow> nat \<Rightarrow> frame_type list \<Rightarrow> string" where
  "media_types_loop n i [] = []"
| "media_types_loop n i (t # ts) =
     (let name = media_type_name t
      in (if name \<noteq> [] then name @ (if i < n - 1 then ''+'' else []) else []) @ media_types_loop n (Suc i) ts)"

definition media_types_str :: "frame_type list \<Rightarrow> string" where
  "media_types_str ts = media_types_loop (length ts) 0 ts"

definition s32 :: "int \<Rightarrow> int" where
  "s32 x = (x + 2 ^ 31) mod 2 ^ 32 - 2 ^ 31"

definition contains :: "string \<Rightarrow> string \<Rightarrow> bool" where
  "contains s sub \<longleftrightarrow> (\<exists>i\<in>{0..length s}. take (length sub) (drop i s) = sub)"

definition rtsp_timeout :: "rtsp_source \<Rightarrow> int" where
  "rtsp_timeout r =
     (let t = s32 (rs_timeout_s r * (if contains (rs_transport r) ''udp'' then 1000 else 1000000));
          sparse = (DATA \<in> set (rs_media_types r) \<and> length (rs_media_types r) = 1)
      in if sparse then s32 (t * 10) else t)"

text \<open>\<open>num\<close> prints a number; \<open>old_options\<close> is a constant of the FFmpeg that is compiled in.\<close>

definition rtsp_options :: "bool \<Rightarrow> (int \<Rightarrow> string) \<Rightarrow> rtsp_source \<Rightarrow> options" where
  "rtsp_options old_options num r =
     (let opts = (rs_ffmpeg_opts r)(''recv_buffer_size'' \<mapsto> ''4194304'', ''recv_buffer'' \<mapsto> ''4194304'', ''buffer_size'' \<mapsto> ''4194304'',
            ''max_delay'' \<mapsto> ''150000'', ''fflags'' \<mapsto> ''+discardcorrupt'', ''skip_idct'' \<mapsto> ''any'');
          opts = (if rs_transport r \<noteq> [] then opts(''rtsp_transport'' \<mapsto> rs_transport r)
                  else if rs_over_tcp r then opts(''rtsp_transport'' \<mapsto> ''async_tcp'') else opts);
          types = media_types_str (rs_media_types r);
          opts = (if types \<noteq> [] then opts(''allowed_media_types'' \<mapsto> types) else opts)
      in opts((if old_options then ''stimeout'' else ''timeout'') \<mapsto> num (rtsp_timeout r)))"

definition rtsp_init :: "'w in_lib \<Rightarrow> bool \<Rightarrow> (int \<Rightarrow> string) \<Rightarrow> rtsp_source \<Rightarrow> string \<Rightarrow> 'w ff_source \<Rightarrow> bool \<times> 'w ff_source" where
  "rtsp_init l old_options num r url k = source_init_options l url (rtsp_options old_options num r) [] k"

section \<open>RTMP\<close>

definition rtmp_options :: "bool \<Rightarrow> options" where
  "rtmp_options rtp_over_tcp =
     (let opts = [''stimeout'' \<mapsto> ''10000000'', ''analyzeduration'' \<mapsto> ''500000'']
      in if rtp_over_tcp then opts(''rtsp_transport'' \<mapsto> ''tcp'') else opts)"

definition rtmp_source_init :: "'w in_lib \<Rightarrow> string \<Rightarrow> 'w ff_source \<Rightarrow> bool \<times> 'w ff_source" where
  "rtmp_source_init l url k = source_init_options l url (rtmp_options True) ''flv'' k"


section \<open>Which streams are read\<close>

text \<open>The number of the last stream with a property, or the default.\<close>

fun last_index :: "('a \<Rightarrow> bool) \<Rightarrow> nat \<Rightarrow> 'a list \<Rightarrow> int \<Rightarrow> int" where
  "last_index P i [] d = d"
| "last_index P i (x # xs) d = last_index P (Suc i) xs (if P x then int i else d)"

lemma last_index_nth:
  "last_index P i xs d = d \<and> (\<forall>x\<in>set xs. \<not> P x) \<or>
     (\<exists>j<length xs. last_index P i xs d = int (i + j) \<and> P (xs ! j) \<and> (\<forall>m<length xs. j < m \<longrightarrow> \<not> P (xs ! m)))"
proof (induction xs arbitrary: i d)
  case (Cons x xs)
  show ?case
  proof (cases "\<forall>y\<in>set xs. \<not> P y")
    case True
    then have *: "last_index P (Suc i) xs e = e" for e
      using Cons.IH[of "Suc i" e] by (meson nth_mem)
    show ?thesis
    proof (cases "P x")
      case True
      with * \<open>\<forall>y\<in>set xs. \<not> P y\<close> show ?thesis by (auto intro!: exI[of _ 0] simp: nth_Cons split: nat.splits)
    qed (use * True in auto)
  next
    case False
    then obtain j where "j < length xs" "last_index P (Suc i) xs (if P x then int i else d) = int (Suc i + j)" "P (xs ! j)"
        "\<forall>m<length xs. j < m \<longrightarrow> \<not> P (xs ! m)"
      using Cons.IH[of "Suc i" "if P x then int i else d"] by (auto simp del: last_index.simps)
    then show ?thesis by (auto intro!: exI[of _ "Suc j"] simp: nth_Cons split: nat.splits)
  qed
qed simp

lemma scan_streams_indices:
  "fs_video_index (scan_streams i ss k) = last_index known_video i ss (fs_video_index k)"
  "fs_audio_index (scan_streams i ss k) = last_index known_audio i ss (fs_audio_index k)"
  "fs_data_index (scan_streams i ss k) = last_index is_data_stream i ss (fs_data_index k)"
  "fs_ctx (scan_streams i ss k) = fs_ctx k"
  by (induction i ss k rule: scan_streams.induct) (simp_all add: Let_def)

definition indexed :: "int \<Rightarrow> int \<Rightarrow> int \<Rightarrow> in_ctx \<Rightarrow> 'w ff_source \<Rightarrow> bool" where
  "indexed v a d c k \<longleftrightarrow> fs_ctx k = Some c \<and> fs_video_index k = last_index known_video 0 (ic_streams c) v \<and>
     fs_audio_index k = last_index known_audio 0 (ic_streams c) a \<and> fs_data_index k = last_index is_data_stream 0 (ic_streams c) d"

lemma find_streams_indexed:
  "ff_find_streams l c0 k = (True, k') \<Longrightarrow> \<exists>c. indexed (fs_video_index k) (fs_audio_index k) (fs_data_index k) c k'"
  by (auto simp: ff_find_streams_def ff_open_parsers_def indexed_def scan_streams_indices Let_def split: prod.splits if_splits)

lemma open_indexed:
  assumes "ff_open_input l url opts fmt buf k = (True, k')"
  shows "\<exists>c. indexed (fs_video_index k) (fs_audio_index k) (fs_data_index k) c k'"
proof -
  obtain c0 k1 where "ff_find_streams l c0 k1 = (True, k')" "fs_video_index k1 = fs_video_index k"
      "fs_audio_index k1 = fs_audio_index k" "fs_data_index k1 = fs_data_index k"
    using assms by (auto simp: ff_open_input_def Let_def split: prod.splits option.splits if_splits)
  with find_streams_indexed show ?thesis by metis
qed

fun ff_pulls :: "'w in_lib \<Rightarrow> nat \<Rightarrow> 'w ff_source \<Rightarrow> 'w ff_source" where
  "ff_pulls l 0 k = k"
| "ff_pulls l (Suc n) k = ff_pulls l n (snd (ff_pull_frame l k))"

lemma pull_indexed: "indexed v a d c k \<Longrightarrow> \<exists>c'. ic_streams c' = ic_streams c \<and> indexed v a d c' (snd (ff_pull_frame l k))"
  by (auto simp: ff_pull_frame_def indexed_def Let_def split: prod.splits sum.splits)

lemma pulls_indexed: "indexed v a d c k \<Longrightarrow> \<exists>c'. ic_streams c' = ic_streams c \<and> indexed v a d c' (ff_pulls l n k)"
proof (induction n arbitrary: k c)
  case (Suc n)
  from pull_indexed[OF Suc.prems, of l] Suc.IH show ?case by fastforce
qed auto

lemma last_index_valid:
  assumes "last_index P 0 xs (- 1) = int i"
  shows "i < length xs \<and> P (xs ! i) \<and> (\<forall>m<length xs. i < m \<longrightarrow> \<not> P (xs ! m))"
  using assms last_index_nth[of P 0 xs "- 1"] by auto

section \<open>Concrete data\<close>

text \<open>Two streams of video and one of audio; the packets go around them.\<close>

definition demo_audio :: av_stream where
  "demo_audio = stream_blank\<lparr>st_codec_type := AVMEDIA_TYPE_AUDIO, st_codec_id := AV_CODEC_ID_AAC, st_time_base := (1, 8000)\<rparr>"

definition demo_in_ctx :: in_ctx where
  "demo_in_ctx = \<lparr>ic_nofile = False, ic_streams = [demo_stream, demo_stream, demo_audio], ic_last_timestamp = 0\<rparr>"

definition demo_in_lib :: "nat in_lib" where
  "demo_in_lib = \<lparr>il_alloc = (\<lambda>w. (True, w)), il_malloc = (\<lambda>_ w. (True, w)), il_avio_alloc = (\<lambda>w. (True, w)),
     il_open = (\<lambda>_ _ _ w. (0, demo_in_ctx, w)), il_find_stream_info = (\<lambda>c w. (0, c, w)), il_bitstream_filter = (\<lambda>w. (True, w)),
     il_read_frame = (\<lambda>_ w. (Inr ((demo_av_packet (int w) (int w))\<lparr>pk_stream := w mod 3\<rparr>), 0, w + 1)),
     il_dump_extra = (\<lambda>s d. st_extradata s @ d)\<rparr>"

definition demo_source :: "nat \<Rightarrow> nat ff_source" where
  "demo_source w = (ff_source_new w)\<lparr>fs_ctx := Some demo_in_ctx, fs_video_index := 1, fs_audio_index := 2, fs_bsf := True\<rparr>"

lemma demo_source_open: "ff_open_input demo_in_lib ''a.mp4'' Map.empty [] None (ff_source_new w) = (True, demo_source w)"
  by (simp add: ff_open_input_def ff_find_streams_def ff_open_parsers_def demo_in_lib_def demo_source_def ff_source_new_def demo_in_ctx_def
      known_video_def known_audio_def is_data_stream_def demo_stream_def demo_audio_def stream_blank_def Let_def)

section \<open>What the sinks get\<close>



text \<open>
  of several streams of video only the last one is read, but all of them are announced to the sinks, which then wait
  for streams that never come.
\<close>

theorem announced_without_frames:
  assumes "ff_open_input l url opts fmt buf (ff_source_new w) = (True, k)" and "fs_ctx k = Some c"
    and "i < j" and "j < length (ic_streams c)" and "known_video (ic_streams c ! i)" and "known_video (ic_streams c ! j)"
    and "il_read_frame l (fs_interrupted k) (fs_world k) = (Inr p, t, w')" and "pk_stream p = i"
  shows "fst (ff_pull_frame l k) = None \<and> 2 \<le> length (filter (\<lambda>s. si_type s = ST_VIDEO) (source_negotiate junk k))"
proof
  have idx: "indexed (- 1) (- 1) (- 1) c k" using open_indexed[OF assms(1)] assms(2) by (auto simp: ff_source_new_def indexed_def)
  have "fs_video_index k \<noteq> int i"
    using idx last_index_valid[of known_video "ic_streams c" i] assms(3-6) by (auto simp: indexed_def)
  moreover have "fs_audio_index k \<noteq> int i"
    using idx last_index_valid[of known_audio "ic_streams c" i] assms(5) by (auto simp: indexed_def known_video_def known_audio_def)
  moreover have "fs_data_index k \<noteq> int i"
    using idx last_index_valid[of is_data_stream "ic_streams c" i] assms(5) by (auto simp: indexed_def known_video_def is_data_stream_def)
  ultimately show "fst (ff_pull_frame l k) = None" using assms(2,7,8) by (auto simp: ff_pull_frame_def Let_def)
  have count: "length (filter (\<lambda>s. si_type s = ST_VIDEO) (List.map_filter (info_of_stream junk) ss)) = length (filter known_video ss)" for ss
    by (induction ss) (auto simp: List.map_filter_simps info_of_stream_def known_video_def split: av_media_type.splits option.splits)
  obtain ys zs where eq: "ic_streams c = ys @ ic_streams c ! j # zs" and ys: "ys = take j (ic_streams c)"
    using id_take_nth_drop[OF assms(4)] by blast
  have "ic_streams c ! i \<in> set ys" using assms(3,4) by (auto simp: ys in_set_conv_nth)
  then have "filter known_video ys \<noteq> []" using assms(5) by (auto simp: filter_empty_conv)
  then have "1 \<le> length (filter known_video ys)" by (cases "filter known_video ys") auto
  moreover have "length (filter known_video (ic_streams c)) = Suc (length (filter known_video ys) + length (filter known_video zs))"
    using arg_cong[OF eq, of "\<lambda>xs. length (filter known_video xs)"] assms(6) by simp
  ultimately have "2 \<le> length (filter known_video (ic_streams c))" by linarith
  then show "2 \<le> length (filter (\<lambda>s. si_type s = ST_VIDEO) (source_negotiate junk k))"
    using assms(2) by (simp add: source_negotiate_def count)
qed


theorem announced_without_frames_witness:
  "fst (ff_pull_frame demo_in_lib (demo_source 0)) = None \<and>
   2 \<le> length (filter (\<lambda>s. si_type s = ST_VIDEO) (source_negotiate demo_info (demo_source 0)))"
proof (rule announced_without_frames[OF demo_source_open, where i = 0 and j = 1])
  show "fs_ctx (demo_source 0) = Some demo_in_ctx" by (simp add: demo_source_def)
  show "il_read_frame demo_in_lib (fs_interrupted (demo_source 0)) (fs_world (demo_source 0)) = (Inr (demo_av_packet 0 0), 0, 1)"
    by (simp add: demo_in_lib_def demo_source_def ff_source_new_def demo_av_packet_def)
qed (simp_all add: demo_av_packet_def demo_in_ctx_def known_video_def demo_stream_def stream_blank_def)

section \<open>From a source to a sink\<close>

text \<open>What a stream of a kind does not use is blank.\<close>

definition plain_stream :: "av_stream \<Rightarrow> bool" where
  "plain_stream s \<longleftrightarrow>
     (known_video s \<and> st_sample_rate s = 0 \<and> st_channels s = 0) \<or>
     (known_audio s \<and> st_width s = 0 \<and> st_height s = 0)"



section \<open>RTSP options\<close>

text \<open>
  the flag of the constructor that asks for RTP over TCP or not has no effect: the transport is TCP, because the name of
  the transport has a default and goes first.
\<close>

theorem rtp_over_tcp_ignored:
  "rtsp_options old num (rtsp_source_bool b ts) = rtsp_options old num (rtsp_source_bool True ts) \<and>
   rtsp_options old num (rtsp_source_bool b ts) ''rtsp_transport'' = Some ''tcp''"
proof -
  have d: "rtsp_timeout (rtsp_source_bool b ts) = rtsp_timeout (rtsp_source_bool True ts)"
    by (simp add: rtsp_timeout_def rtsp_source_bool_def)
  show ?thesis using d by (simp add: rtsp_options_def Let_def) (simp add: rtsp_source_bool_def)
qed

text \<open>
  C37: the timeout given to FFmpeg is the asked one, in milliseconds for UDP and microseconds otherwise and ten times as
  long for metadata alone, exactly as long as it fits an \<open>int\<close>; a longer one becomes another number.
\<close>

theorem rtsp_timeout_exact:
  fixes r :: rtsp_source
  defines "unit \<equiv> (if contains (rs_transport r) ''udp'' then 1000 else 1000000)"
    and "factor \<equiv> (if DATA \<in> set (rs_media_types r) \<and> length (rs_media_types r) = 1 then 10 else 1)"
  assumes "0 \<le> rs_timeout_s r"
  shows "rtsp_timeout r = rs_timeout_s r * unit * factor \<longleftrightarrow> rs_timeout_s r * unit * factor < 2 ^ 31"
proof -
  have range: "- (2 ^ 31) \<le> s32 x" "s32 x < 2 ^ 31" for x
    using pos_mod_bound[of "2 ^ 32" "x + 2 ^ 31"] pos_mod_sign[of "2 ^ 32" "x + 2 ^ 31"] by (simp_all add: s32_def)
  have keep: "s32 x = x" if "0 \<le> x" "x < 2 ^ 31" for x using that by (simp add: s32_def)
  have u: "0 \<le> rs_timeout_s r * unit" using assms(3) by (simp add: unit_def)
  show ?thesis
  proof (cases "factor = 1")
    case True
    then have "rtsp_timeout r = s32 (rs_timeout_s r * unit)" by (auto simp: rtsp_timeout_def unit_def factor_def Let_def split: if_splits)
    then show ?thesis using range[of "rs_timeout_s r * unit"] keep[OF u] True by auto
  next
    case False
    then have f: "factor = 10" by (simp add: factor_def split: if_splits)
    then have t: "rtsp_timeout r = s32 (s32 (rs_timeout_s r * unit) * 10)"
      by (auto simp: rtsp_timeout_def unit_def factor_def Let_def split: if_splits)
    show ?thesis
    proof
      assume "rtsp_timeout r = rs_timeout_s r * unit * factor"
      then show "rs_timeout_s r * unit * factor < 2 ^ 31" using range(2) t by metis
    next
      assume lt: "rs_timeout_s r * unit * factor < 2 ^ 31"
      then have "rs_timeout_s r * unit < 2 ^ 31" using u unfolding f by linarith
      then have "s32 (rs_timeout_s r * unit) = rs_timeout_s r * unit" using u by (intro keep)
      then show "rtsp_timeout r = rs_timeout_s r * unit * factor" using t f lt u keep[of "rs_timeout_s r * unit * 10"] by simp
    qed
  qed
qed

theorem rtsp_timeout_exact_witness:
  "rtsp_timeout (rtsp_source_transport ''tcp'' [DATA] Map.empty 214) = 2140000000 \<and>
   rtsp_timeout (rtsp_source_transport ''tcp'' [DATA] Map.empty 215) \<noteq> 2150000000"
proof -
  have "\<not> contains ''tcp'' ''udp''" by (simp add: contains_def atLeastAtMost_upt upt_rec)
  then show ?thesis
    using rtsp_timeout_exact[of "rtsp_source_transport ''tcp'' [DATA] Map.empty 214"]
      rtsp_timeout_exact[of "rtsp_source_transport ''tcp'' [DATA] Map.empty 215"]
    by (simp add: rtsp_source_transport_def)
qed

end
