(* ===== verification/Cloud_Api.thy ===== *)
theory Cloud_Api
  imports Manager
begin

text \<open>
  The REST client of \<^verbatim>\<open>src/src/cloud\<close>: the query strings of \<^verbatim>\<open>CloudHelpers.h\<close>, the calls of \<^verbatim>\<open>CloudAPI.h\<close> and
  opening a connection in \<^verbatim>\<open>CloudShareConnection.h\<close>. No request is sent by this code; the addresses it makes are the
  result.
\<close>

section \<open>Query strings\<close>

text \<open>A number printed in upper-case hexadecimal digits, with the width two and zeros to fill it.\<close>

fun hex_digits :: "nat \<Rightarrow> string" where
  "hex_digits n = (if n < 16 then [upper_hex n] else hex_digits (n div 16) @ [upper_hex (n mod 16)])"

declare hex_digits.simps [simp del]

definition setw2 :: "string \<Rightarrow> string" where
  "setw2 s = replicate (2 - length s) CHR ''0'' @ s"

definition url_encode :: "string \<Rightarrow> string" where
  "url_encode value =
     concat (map (\<lambda>c. if is_alnum c \<or> c = CHR ''-'' \<or> c = CHR ''_'' \<or> c = CHR ''.'' \<or> c = CHR ''~'' then [c]
       else CHR ''%'' # setw2 (hex_digits (of_char c))) value)"

text \<open>The loop over the parameters; \<open>i\<close> counts those written.\<close>

fun query_loop :: "nat \<Rightarrow> (string \<times> string) list \<Rightarrow> string" where
  "query_loop i [] = []"
| "query_loop i ((k, v) # ps) =
     (if length (url_encode k) > 0
      then (if i \<noteq> 0 then ''&'' else []) @ url_encode k @ ''='' @ url_encode v @ query_loop (i + 1) ps
      else query_loop i ps)"

definition prepareHttpGetQuery :: "(string \<times> string) list \<Rightarrow> string" where
  "prepareHttpGetQuery ps = query_loop 0 ps"

section \<open>Calls\<close>

text \<open>\<open>CloudToken\<close>: the three members that make it empty.\<close>

record cloud_token =
  ct_token :: string
  ct_expire :: string
  ct_type :: string

definition token_isEmpty :: "cloud_token \<Rightarrow> bool" where
  "token_isEmpty t \<longleftrightarrow> ct_token t = [] \<or> ct_expire t = [] \<or> ct_type t = []"

definition token_reset :: "cloud_token \<Rightarrow> cloud_token" where
  "token_reset t = t\<lparr>ct_token := [], ct_expire := [], ct_type := []\<rparr>"

text \<open>The last field is a history: the requests that were written to the log.\<close>

record cloud_api =
  ca_protocol :: string
  ca_host :: string
  ca_prefix_path :: string
  ca_token :: cloud_token
  ca_share_token :: string
  ca_cm_address :: string
  ca_logged :: "(string \<times> string) list"

definition cloud_api_new :: cloud_api where
  "cloud_api_new = \<lparr>ca_protocol = ''http'', ca_host = [], ca_prefix_path = [], ca_token = \<lparr>ct_token = [], ct_expire = [], ct_type = []\<rparr>,
     ca_share_token = [], ca_cm_address = [], ca_logged = []\<rparr>"

definition makeURL :: "string \<Rightarrow> cloud_api \<Rightarrow> string" where
  "makeURL endPoint a = ca_protocol a @ ''://'' @ ca_host a @ ca_prefix_path a @ endPoint"

definition usedShareToken :: "cloud_api \<Rightarrow> bool" where
  "usedShareToken a \<longleftrightarrow> length (ca_share_token a) > 0"

definition with_share_token :: "cloud_api \<Rightarrow> (string \<times> string) list \<Rightarrow> (string \<times> string) list" where
  "with_share_token a ps = (if usedShareToken a then ps @ [(''token'', ca_share_token a)] else ps)"

definition executeGetRequest2 :: "string \<Rightarrow> (string \<times> string) list \<Rightarrow> cloud_api \<Rightarrow> (int \<times> string) \<times> cloud_api" where
  "executeGetRequest2 endPoint ps a =
     (let url = makeURL (endPoint @ ''?'' @ prepareHttpGetQuery (with_share_token a ps)) a
      in ((402, ''Not implemented''), a\<lparr>ca_logged := ca_logged a @ [(''GET'', url)]\<rparr>))"

definition execute_with_data :: "string \<Rightarrow> string \<Rightarrow> cloud_api \<Rightarrow> (int \<times> string) \<times> cloud_api" where
  "execute_with_data method endPoint a =
     (let ps = with_share_token a [];
          url = makeURL (endPoint @ (if ps \<noteq> [] then ''?'' @ prepareHttpGetQuery ps else [])) a
      in ((402, ''Not implemented''), a\<lparr>ca_logged := ca_logged a @ [(method, url)]\<rparr>))"

definition executePostRequest2 :: "string \<Rightarrow> string \<Rightarrow> cloud_api \<Rightarrow> (int \<times> string) \<times> cloud_api" where
  "executePostRequest2 endPoint json_data a = execute_with_data ''POST'' endPoint a"

definition executePutRequest2 :: "string \<Rightarrow> string \<Rightarrow> cloud_api \<Rightarrow> (int \<times> string) \<times> cloud_api" where
  "executePutRequest2 endPoint json_data a = execute_with_data ''PUT'' endPoint a"

definition CAMERA :: "int \<Rightarrow> string" where
  "CAMERA cameraID = ''/api/v2/cameras/'' @ int_string cameraID @ ''/''"

definition CMNGRS_RESET :: "int \<Rightarrow> string" where
  "CMNGRS_RESET cmngrsID = ''/api/v2/cmngrs/'' @ int_string cmngrsID @ ''/reset/''"

definition getCamera :: "int \<Rightarrow> cloud_api \<Rightarrow> (int \<times> string) \<times> cloud_api" where
  "getCamera i a = executeGetRequest2 (CAMERA i) [] a"

text \<open>\<open>parse\<close> makes a registration token of the text of a response.\<close>

definition resetCameraManager :: "(string \<Rightarrow> CloudRegToken) \<Rightarrow> int \<Rightarrow> cloud_api \<Rightarrow> CloudRegToken \<times> cloud_api" where
  "resetCameraManager parse cmngrsID a =
     (if token_isEmpty (ca_token a) \<and> \<not> usedShareToken a then (CloudRegToken_empty, a)
      else
        (let (p, a) = executePostRequest2 (CMNGRS_RESET cmngrsID) [] a
         in (if fst p \<noteq> 200 then CloudRegToken_empty else parse (snd p), a)))"

section \<open>Connections\<close>

record share_connection =
  sc_api :: cloud_api
  sc_opened :: bool

definition share_connection_new :: share_connection where
  "share_connection_new = \<lparr>sc_api = cloud_api_new, sc_opened = False\<rparr>"

text \<open>\<open>openSync\<close>; the address is changed for the caller, too.\<close>

definition openSync :: "string \<Rightarrow> string \<Rightarrow> share_connection \<Rightarrow> uri_error + (string \<times> share_connection)" where
  "openSync share_token baseurl c =
     (let baseurl = (if length baseurl > 1 \<and> last baseurl = CHR ''/'' then butlast baseurl else baseurl) in
      case uri_parse baseurl of
        Inl x \<Rightarrow> Inl x
      | Inr uri \<Rightarrow>
          (let mPort = c_atoi (Port uri);
               mHost = Host uri @ '':'' @ int_string (if mPort = 0 then 8888 else mPort);
               a = (sc_api c)\<lparr>ca_host := mHost, ca_protocol := Protocol uri, ca_prefix_path := Path uri, ca_share_token := share_token\<rparr>;
               a = (if string_find mHost ''cam.skyvr.videoexpertsgroup.com'' 0 = None then a\<lparr>ca_cm_address := mHost\<rparr> else a)
           in Inr (baseurl, c\<lparr>sc_api := a, sc_opened := True\<rparr>)))"

section \<open>Encoding\<close>

lemma hex_byte: "n < 256 \<Longrightarrow> setw2 (hex_digits n) = [upper_hex (n div 16), upper_hex (n mod 16)]"
  by (cases "n < 16") (auto simp: setw2_def hex_digits.simps upper_hex_def)

lemma of_char_byte: "(of_char c :: nat) < 256"
  by simp

lemma url_encode_eq: "url_encode s = string_urlencode s"
  by (simp only: url_encode_def string_urlencode_def url_safe_def hex_byte [OF of_char_byte])

lemma encode_nil [simp]: "string_urlencode s = [] \<longleftrightarrow> s = []"
  by (cases s) (auto simp: string_urlencode_def)

lemma encode_clean: "CHR ''&'' \<notin> set (string_urlencode s)" "CHR ''='' \<notin> set (string_urlencode s)"
  by (auto dest!: urlencode_alphabet simp: url_safe_def is_alnum_def)

text \<open>Reading a query the way a server does: fields at each \<open>&\<close>, names before the first \<open>=\<close>.\<close>

definition query_field :: "string \<Rightarrow> (string_error, string) result \<times> (string_error, string) result" where
  "query_field f =
     (string_urldecode (takeWhile (\<lambda>c. c \<noteq> CHR ''='') f), string_urldecode (drop 1 (dropWhile (\<lambda>c. c \<noteq> CHR ''='') f)))"

definition query_params :: "string \<Rightarrow> ((string_error, string) result \<times> (string_error, string) result) list" where
  "query_params q = map query_field (string_split q CHR ''&'')"

definition query_pair :: "string \<times> string \<Rightarrow> string" where
  "query_pair p = string_urlencode (fst p) @ ''='' @ string_urlencode (snd p)"

lemma query_field_pair: "query_field (query_pair p) = (Inr (fst p), Inr (snd p))"
proof -
  have "takeWhile (\<lambda>c. c \<noteq> CHR ''='') (string_urlencode (fst p)) = string_urlencode (fst p)"
    using encode_clean(2) [of "fst p"] by (auto simp: takeWhile_eq_all_conv)
  then show ?thesis
    using encode_clean(2) [of "fst p"]
    by (simp add: query_field_def query_pair_def takeWhile_append dropWhile_append urldecode_urlencode)
qed

lemma query_pair_clean: "CHR ''&'' \<notin> set (query_pair p)" "query_pair p \<noteq> []"
  using encode_clean(1) by (auto simp: query_pair_def)

lemma split_single:
  assumes "d \<notin> set a" "a \<noteq> []"
  shows "string_split a d = [a]"
proof -
  have "takeWhile (\<lambda>c. c \<noteq> d) a = a" "dropWhile (\<lambda>c. c \<noteq> d) a = []"
    using assms(1) by (auto simp: takeWhile_eq_all_conv)
  with assms(2) show ?thesis
    by (subst string_split.simps) (simp add: string_split.simps [of "[]"] del: dropWhile_eq_Nil_conv)
qed

lemma split_cons: "d \<notin> set a \<Longrightarrow> string_split (a @ d # b) d = a # string_split b d"
  by (subst string_split.simps) (auto simp: takeWhile_append dropWhile_append)

fun ampersands :: "string list \<Rightarrow> string" where
  "ampersands [] = []"
| "ampersands [f] = f"
| "ampersands (f # fs) = f @ CHR ''&'' # ampersands fs"

lemma split_ampersands:
  "list_all (\<lambda>f. CHR ''&'' \<notin> set f \<and> f \<noteq> []) fs \<Longrightarrow> string_split (ampersands fs) CHR ''&'' = fs"
  by (induction fs rule: ampersands.induct) (simp_all add: string_split.simps [of "[]"] split_single split_cons)

lemma ampersands_cons: "ampersands (f # fs) = f @ concat (map ((#) CHR ''&'') fs)"
  by (induction fs arbitrary: f) auto

lemma query_loop_eq:
  "query_loop i ps =
     (let fs = map query_pair (filter (\<lambda>p. fst p \<noteq> []) ps)
      in if i = 0 then ampersands fs else concat (map ((#) CHR ''&'') fs))"
  by (induction ps arbitrary: i) (auto simp: url_encode_eq query_pair_def Let_def ampersands_cons simp del: ampersands.simps(3) split: prod.splits)

text \<open>
  C24: The query string is no more than its parameters: a server that splits it at each ampersand, each field at its first
  equals sign, and decodes the two halves finds the parameters in their order, those with an empty name left out.
  Whatever characters a name or a value has, none of them ends a field.\<close>

theorem query_roundtrip:
  "query_params (prepareHttpGetQuery ps) = map (\<lambda>(k, v). (Inr k, Inr v)) (filter (\<lambda>(k, v). k \<noteq> []) ps)"
proof -
  have "list_all (\<lambda>f. CHR ''&'' \<notin> set f \<and> f \<noteq> []) (map query_pair (filter (\<lambda>p. fst p \<noteq> []) ps))"
    by (auto simp: list_all_iff query_pair_clean)
  then show ?thesis
    by (auto simp: query_params_def prepareHttpGetQuery_def query_loop_eq Let_def split_ampersands query_field_pair
      case_prod_unfold intro!: map_cong)
qed

section \<open>Opening\<close>

lemma openSync_address:
  "map_sum id (\<lambda>(u, c). ca_cm_address (sc_api c)) (openSync t url share_connection_new) = cm_address url"
  by (auto simp: openSync_def cm_address_def Let_def share_connection_new_def cloud_api_new_def split: sum.splits)

text \<open>
  What the manager takes the address of the cloud from is opening a connection: reading the address back from a new
  connection that has been opened gives, for every URL and every share token, the manager's address or its fault. The
  opened connection also has the share token, and every address it makes begins with the protocol and path of the URL.\<close>

theorem open_gives_address:
  "map_sum id (\<lambda>(u, c). ca_cm_address (sc_api c)) (openSync t url share_connection_new) = cm_address url \<and>
   (case openSync t url share_connection_new of
      Inl x \<Rightarrow> cm_address url = Inl x
    | Inr (u, c) \<Rightarrow> sc_opened c \<and> ca_share_token (sc_api c) = t \<and>
        (\<exists>r. uri_parse u = Inr r \<and>
           makeURL p (sc_api c) = Protocol r @ ''://'' @ ca_host (sc_api c) @ Path r @ p))"
  using openSync_address [of t url]
  by (auto simp: openSync_def makeURL_def Let_def split: sum.splits)

text \<open>
  No request is sent: each call writes one address and answers 402, so that resetting a camera manager gives the
  empty token whatever the server would have sent, with a share token or without. Where neither token is known the
  address is not even made.\<close>

theorem reset_never_answers:
  "fst (resetCameraManager parse i a) = CloudRegToken_empty \<and>
   ca_logged (snd (resetCameraManager parse i a)) =
     ca_logged a @ (if token_isEmpty (ca_token a) \<and> \<not> usedShareToken a then []
       else [(''POST'', makeURL (CMNGRS_RESET i @ (if usedShareToken a then ''?token='' @ string_urlencode (ca_share_token a) else [])) a)]) \<and>
   fst (getCamera i a) = (402, ''Not implemented'')"
  by (auto simp: resetCameraManager_def executePostRequest2_def execute_with_data_def with_share_token_def makeURL_def
    usedShareToken_def prepareHttpGetQuery_def url_encode_eq getCamera_def executeGetRequest2_def Let_def
    string_urlencode_def url_safe_def is_alnum_def)

end
