(* ===== verification/Rest_Api.thy ===== *)
theory Rest_Api
  imports Http
begin

text \<open>
  \<^verbatim>\<open>src/src/platform/rest-api.h\<close>: the client for devices that have their settings behind HTTP requests. A parser makes
  settings of the text of a response; the requests go through the transport of \<open>Http\<close>, which is the parameter
  \<open>perform\<close> here: what \<open>make_blocked\<close> returns for a request and what it leaves in it.
\<close>

section \<open>The parser\<close>

type_synonym kv_list = "(string \<times> string) list"

definition trim :: "string \<Rightarrow> string" where
  "trim s = filter (\<lambda>c. c \<noteq> CHR 0x0A \<and> c \<noteq> CHR 0x0D \<and> c \<noteq> CHR 0x27) s"

text \<open>A line without an equals sign is skipped; the value is all that follows the first one.\<close>

definition kv_process :: "string \<Rightarrow> kv_list" where
  "kv_process raw =
     fold (\<lambda>line results.
         let k = takeWhile (\<lambda>c. c \<noteq> CHR ''='') line in
         if line = k then results
         else map_put k (trim (drop 1 (dropWhile (\<lambda>c. c \<noteq> CHR ''='') line))) results)
       (string_split raw CHR 0x0A) []"

fun kv_reverse_process :: "kv_list \<Rightarrow> string" where
  "kv_reverse_process [] = []"
| "kv_reverse_process [(k, v)] = k @ ''='' @ v"
| "kv_reverse_process ((k, v) # kvs) = k @ ''='' @ v @ ''&'' @ kv_reverse_process kvs"

section \<open>Requests\<close>

text \<open>\<open>rh_parse\<close> is the parser given to the constructor, if any. The last field is a history: the requests performed.\<close>

record rest_http =
  rh_base_uri :: string
  rh_auth :: auth_context
  rh_headers :: kv_list
  rh_parse :: "(string \<Rightarrow> kv_list) option"
  rh_performed :: "hreq list"

definition rest_http_new :: "string \<Rightarrow> auth_context \<Rightarrow> (string \<Rightarrow> kv_list) option \<Rightarrow> rest_http" where
  "rest_http_new base auth p =
     \<lparr>rh_base_uri = base, rh_auth = auth, rh_headers = [], rh_parse = p, rh_performed = []\<rparr>"

definition rest_reset :: "string \<Rightarrow> auth_context \<Rightarrow> rest_http \<Rightarrow> rest_http" where
  "rest_reset base auth h = h\<lparr>rh_base_uri := base, rh_auth := auth, rh_headers := []\<rparr>"

definition rest_reset_basic :: "string \<Rightarrow> string \<Rightarrow> string \<Rightarrow> rest_http \<Rightarrow> rest_http" where
  "rest_reset_basic base user pass h =
     rest_reset base \<lparr>ac_type = AUTH_BASIC, ac_username = user, ac_password = pass\<rparr> h"

type_synonym perform = "hreq \<Rightarrow> bool \<times> hreq"

text \<open>The types of content that are not parsed.\<close>

definition binary_content :: "hreq \<Rightarrow> bool" where
  "binary_content r =
     (case map_of (hq_response_headers r) ''content-type'' of
        None \<Rightarrow> False
      | Some t \<Rightarrow> t = ''application/octet-stream'' \<or> t = ''application/http'' \<or>
          string_startswith t ''image'' \<or> string_startswith t ''video'')"

definition body_text :: "byte list \<Rightarrow> string" where
  "body_text bs = map (\<lambda>b. char_of (unat b)) bs"

definition text_body :: "string \<Rightarrow> byte list" where
  "text_body s = map of_char s"

definition with_headers :: "kv_list \<Rightarrow> hreq \<Rightarrow> hreq" where
  "with_headers kvs r = fold (\<lambda>(k, v). set_header k v) kvs r"

definition rest_request :: "perform \<Rightarrow> string \<Rightarrow> string \<Rightarrow> rest_http \<Rightarrow> kv_list \<times> rest_http" where
  "rest_request perform path method h =
     (let req = (with_headers (rh_headers h) (hreq_new (rh_base_uri h @ path) method [] 30))\<lparr>hq_auth := rh_auth h\<rparr>;
          h = h\<lparr>rh_performed := rh_performed h @ [req]\<rparr>;
          (ok, req) = perform req
      in (if ok then
            (if hq_status req = 200 then
               (if binary_content req then []
                else (case rh_parse h of Some p \<Rightarrow> p (body_text (hq_response_body req)) | None \<Rightarrow> []))
             else [])
          else [], h))"

record multipart_context =
  mp_multipart :: bool
  mp_field_name :: string
  mp_filename :: string

definition default_multipart_context :: multipart_context where
  "default_multipart_context = \<lparr>mp_multipart = False, mp_field_name = [], mp_filename = []\<rparr>"

text \<open>\<open>request_raw\<close>; the code it accepts only decides what is logged.\<close>

definition request_raw ::
  "perform \<Rightarrow> string \<Rightarrow> string \<Rightarrow> string \<Rightarrow> string \<Rightarrow> multipart_context \<Rightarrow> kv_list \<Rightarrow> rest_http \<Rightarrow> hreq \<times> rest_http" where
  "request_raw perform path method body mime mp headers h =
     (let req = with_headers headers (with_headers (rh_headers h)
                  (hreq_new (rh_base_uri h @ path) method (text_body body) 30));
          req = (if mime \<noteq> [] then
                   (if \<not> mp_multipart mp then set_header ''Content-Type'' mime req else req\<lparr>hq_content_type := mime\<rparr>)
                 else req);
          req = req\<lparr>hq_auth := rh_auth h\<rparr>;
          req = (if mp_multipart mp
                 then req\<lparr>hq_multipart := True, hq_form_field := mp_field_name mp, hq_filename := mp_filename mp\<rparr>
                 else req);
          h = h\<lparr>rh_performed := rh_performed h @ [req]\<rparr>;
          (ok, req) = perform req
      in (if ok then req else req\<lparr>hq_status := -1\<rparr>, h))"

definition rest_get_list :: "perform \<Rightarrow> string \<Rightarrow> string \<Rightarrow> string list \<Rightarrow> rest_http \<Rightarrow> kv_list \<times> rest_http" where
  "rest_get_list perform path method klist h =
     rest_request perform (path @ concat (map (\<lambda>k. k @ ''&'') klist)) method h"

text \<open>A key that the response does not have reads as the empty string.\<close>

definition rest_get :: "perform \<Rightarrow> string \<Rightarrow> string \<Rightarrow> string \<Rightarrow> rest_http \<Rightarrow> string \<times> rest_http" where
  "rest_get perform path method k h =
     (let (kvs, h) = rest_request perform (path @ k) method h
      in (case map_of kvs k of Some v \<Rightarrow> v | None \<Rightarrow> [], h))"

definition rest_set :: "perform \<Rightarrow> string \<Rightarrow> string \<Rightarrow> string \<Rightarrow> string \<Rightarrow> rest_http \<Rightarrow> rest_http" where
  "rest_set perform path method k v h =
     (if (method = ''POST'' \<or> method = ''PUT'') \<and> k \<noteq> []
      then snd (request_raw perform path method (k @ ''='' @ v) [] default_multipart_context [] h)
      else snd (rest_request perform (path @ k @ ''='' @ v) method h))"

definition rest_set_map :: "perform \<Rightarrow> string \<Rightarrow> string \<Rightarrow> kv_list \<Rightarrow> rest_http \<Rightarrow> rest_http" where
  "rest_set_map perform path method kvmap h =
     (let kparams = concat (map (\<lambda>(k, v). k @ ''='' @ v @ ''&'') kvmap) in
      if (method = ''POST'' \<or> method = ''PUT'') \<and> kparams \<noteq> []
      then snd (request_raw perform path method kparams [] default_multipart_context [] h)
      else snd (rest_request perform (path @ kparams) method h))"

section \<open>What a device prints\<close>

text \<open>Settings as the comment of the parser has them: each value in quotes, lines that end with CR LF.\<close>

definition kv_line :: "string \<times> string \<Rightarrow> string" where
  "kv_line kv = fst kv @ ''='' @ [CHR 0x27] @ snd kv @ [CHR 0x27, CHR 0x0D, CHR 0x0A]"

definition kv_clean :: "string \<times> string \<Rightarrow> bool" where
  "kv_clean kv \<longleftrightarrow> CHR ''='' \<notin> set (fst kv) \<and> CHR 0x0A \<notin> set (fst kv) \<and>
     list_all (\<lambda>c. c \<noteq> CHR 0x0A \<and> c \<noteq> CHR 0x0D \<and> c \<noteq> CHR 0x27) (snd kv)"

lemma split_line: "d \<notin> set a \<Longrightarrow> string_split (a @ d # b) d = a # string_split b d"
  by (subst string_split.simps) (auto simp: takeWhile_append dropWhile_append)

lemma split_lines:
  "list_all kv_clean kvs \<Longrightarrow>
   string_split (concat (map kv_line kvs)) CHR 0x0A = map (\<lambda>kv. butlast (kv_line kv)) kvs"
proof (induction kvs)
  case (Cons kv kvs)
  have "string_split ((fst kv @ ''='' @ [CHR 0x27] @ snd kv @ [CHR 0x27, CHR 0x0D]) @ CHR 0x0A # concat (map kv_line kvs))
      CHR 0x0A = (fst kv @ ''='' @ [CHR 0x27] @ snd kv @ [CHR 0x27, CHR 0x0D]) # string_split (concat (map kv_line kvs)) CHR 0x0A"
    by (rule split_line) (use Cons.prems in \<open>auto simp: kv_clean_def list_all_iff\<close>)
  moreover have "concat (map kv_line (kv # kvs)) =
      (fst kv @ ''='' @ [CHR 0x27] @ snd kv @ [CHR 0x27, CHR 0x0D]) @ CHR 0x0A # concat (map kv_line kvs)"
    "butlast (kv_line kv) = fst kv @ ''='' @ [CHR 0x27] @ snd kv @ [CHR 0x27, CHR 0x0D]"
    by (simp_all add: kv_line_def butlast_append)
  ultimately show ?case using Cons by simp
qed (simp add: string_split.simps)

lemma takeWhile_key: "CHR ''='' \<notin> set k \<Longrightarrow> takeWhile (\<lambda>c. c \<noteq> CHR ''='') (k @ CHR ''='' # v) = k"
  and dropWhile_key: "CHR ''='' \<notin> set k \<Longrightarrow> dropWhile (\<lambda>c. c \<noteq> CHR ''='') (k @ CHR ''='' # v) = CHR ''='' # v"
  by (auto simp: takeWhile_append dropWhile_append)

lemma trim_clean: "list_all (\<lambda>c. c \<noteq> CHR 0x0A \<and> c \<noteq> CHR 0x0D \<and> c \<noteq> CHR 0x27) v \<Longrightarrow> trim v = v"
  by (simp add: trim_def filter_id_conv list_all_iff)

lemma process_lines:
  assumes "list_all kv_clean kvs"
  shows "kv_process (concat (map kv_line kvs)) = fold (\<lambda>(k, v). map_put k v) kvs []"
proof -
  have "fold (\<lambda>line results.
         let k = takeWhile (\<lambda>c. c \<noteq> CHR ''='') line in
         if line = k then results
         else map_put k (trim (drop 1 (dropWhile (\<lambda>c. c \<noteq> CHR ''='') line))) results)
       (map (\<lambda>kv. butlast (kv_line kv)) kvs) rs = fold (\<lambda>(k, v). map_put k v) kvs rs" for rs
    using assms
  proof (induction kvs arbitrary: rs)
    case (Cons kv kvs)
    obtain k v where kv: "kv = (k, v)" by (cases kv)
    have c: "CHR ''='' \<notin> set k" "trim (CHR 0x27 # v @ [CHR 0x27, CHR 0x0D]) = v"
      using Cons.prems trim_clean [of v] by (auto simp: kv kv_clean_def trim_def)
    have "butlast (kv_line kv) = k @ CHR ''='' # CHR 0x27 # v @ [CHR 0x27, CHR 0x0D]"
      by (simp add: kv kv_line_def butlast_append)
    with Cons c show ?case by (simp add: kv takeWhile_key dropWhile_key Let_def)
  qed simp
  then show ?thesis by (simp add: kv_process_def split_lines [OF assms])
qed

lemma map_put_last: "list_all (\<lambda>x. fst x < k) xs \<Longrightarrow> map_put k v xs = xs @ [(k, v)]"
  by (induction xs) auto

lemma fold_put_sorted:
  "sorted_wrt (<) (map fst (xs @ kvs)) \<Longrightarrow> fold (\<lambda>(k, v). map_put k v) kvs xs = xs @ kvs"
proof (induction kvs arbitrary: xs)
  case (Cons kv kvs)
  obtain k v where kv: "kv = (k, v)" by (cases kv)
  have "list_all (\<lambda>x. fst x < k) xs"
    using Cons.prems by (auto simp: kv sorted_wrt_append list_all_iff)
  then have "map_put k v xs = xs @ [(k, v)]" by (rule map_put_last)
  with Cons.IH [of "xs @ [kv]"] Cons.prems show ?case by (simp add: kv)
qed simp

section \<open>Properties\<close>

text \<open>
  The parser reads what a device prints: settings printed one to a line as \<open>k='v'\<close> come back as they were, in
  the order of their keys, for keys without an equals sign or a line end and values without a quote or a line end.\<close>

theorem settings_roundtrip:
  assumes "sorted_wrt (<) (map fst kvs)" "list_all kv_clean kvs"
  shows "kv_process (concat (map kv_line kvs)) = kvs"
  using process_lines [OF assms(2)] fold_put_sorted [of "[]" kvs] assms(1) by simp

theorem settings_roundtrip_witness:
  "kv_process (concat (map kv_line [(''codec'', ''h264''), (''fps'', [])])) = [(''codec'', ''h264''), (''fps'', [])]"
  by (rule settings_roundtrip) (simp_all add: kv_clean_def)

text \<open>
  What the parser writes it does not read: the text of \<open>reverse_process\<close>, settings joined by ampersands, is one
  line, which reads as one setting that has the first key and the rest of the text as its value. Only a single setting
  without quotes or line ends comes back.\<close>

theorem written_settings_misread:
  assumes "CHR ''='' \<notin> set k" "list_all (\<lambda>(k, v). CHR 0x0A \<notin> set k \<and> CHR 0x0A \<notin> set v) ((k, v) # kvs)"
  shows "kv_process (kv_reverse_process ((k, v) # kvs)) =
    [(k, trim (v @ (if kvs = [] then [] else ''&'' @ kv_reverse_process kvs)))]"
proof -
  let ?r = "kv_reverse_process ((k, v) # kvs)"
  let ?v = "v @ (if kvs = [] then [] else ''&'' @ kv_reverse_process kvs)"
  have r: "?r = k @ CHR ''='' # ?v" by (cases kvs) auto
  have "CHR 0x0A \<notin> set (kv_reverse_process xs)" if "list_all (\<lambda>(k, v). CHR 0x0A \<notin> set k \<and> CHR 0x0A \<notin> set v) xs" for xs
    using that by (induction xs rule: kv_reverse_process.induct) auto
  from this [OF assms(2)] have n: "CHR 0x0A \<notin> set ?r" .
  have "takeWhile (\<lambda>c. c \<noteq> CHR 0x0A) ?r = ?r" "dropWhile (\<lambda>c. c \<noteq> CHR 0x0A) ?r = []"
    using n by (auto simp: takeWhile_eq_all_conv)
  moreover have "?r \<noteq> []" by (simp only: r) simp
  ultimately have "string_split ?r CHR 0x0A = [?r]"
    by (subst string_split.simps) (simp add: string_split.simps [of "[]"] del: dropWhile_eq_Nil_conv kv_reverse_process.simps)
  then show ?thesis
    by (simp only: kv_process_def r) (simp add: takeWhile_key [OF assms(1)] dropWhile_key [OF assms(1)] Let_def)
qed

theorem written_settings_misread_witness:
  "kv_process (kv_reverse_process [(''a'', ''1''), (''b'', ''2'')]) = [(''a'', ''1&b=2'')]"
  using written_settings_misread [of "''a''" "''1''" "[(''b'', ''2'')]"] by (simp add: trim_def)

text \<open>
  A setting is only read from a response that has it as text: reading it gives the empty string when the transport
  fails, when the status is not 200, and when the content is binary, an image or a video. Every reading performs
  exactly one request, to the address followed by the key as it is given.\<close>

theorem setting_from_text_only:
  "\<exists>req. rest_get perform path method k h =
      (if fst (perform req) \<and> hq_status (snd (perform req)) = 200 \<and> \<not> binary_content (snd (perform req))
       then (case rh_parse h of
               None \<Rightarrow> []
             | Some p \<Rightarrow> case map_of (p (body_text (hq_response_body (snd (perform req))))) k of None \<Rightarrow> [] | Some v \<Rightarrow> v)
       else [], h\<lparr>rh_performed := rh_performed h @ [req]\<rparr>) \<and>
     hq_url req = rh_base_uri h @ path @ k \<and> hq_method req = method \<and> hq_request_body req = [] \<and> hq_auth req = rh_auth h"
proof -
  have "hq_url (with_headers kvs r) = hq_url r" "hq_method (with_headers kvs r) = hq_method r"
    "hq_request_body (with_headers kvs r) = hq_request_body r" for kvs r
    by (induction kvs arbitrary: r) (auto simp: with_headers_def set_header_def)
  then show ?thesis
    by (intro exI [where x = "(with_headers (rh_headers h) (hreq_new (rh_base_uri h @ path @ k) method [] 30))\<lparr>hq_auth := rh_auth h\<rparr>"])
      (auto simp: rest_get_def rest_request_def Let_def hreq_new_def split: prod.splits option.splits)
qed

end
