(* ===== verification/Keyboard_Events.thy ===== *)
theory Keyboard_Events
  imports Proto_Events Ordered_Map
begin

text \<open>
  \<^verbatim>\<open>src/src/platform/keyboard-event-stream.h\<close>: the event stream of the examples, which makes an event of each
  command typed on the terminal. The events given to \<open>notify\<close> are results; the time of an event and what the terminal
  has to read are parameters.
\<close>

section \<open>Reading a command\<close>

text \<open>
  One round of \<open>_get_cmd\<close>: whether it is interrupted before it, and what the terminal gives: no input
  (\<open>None\<close>), input that cannot be read (\<open>Some None\<close>), or a character.
\<close>

type_synonym kb_round = "bool \<times> char option option"

text \<open>The command, and \<open>None\<close> while it waits. \<open>intr\<close> is the flag after the loop.\<close>

fun get_cmd :: "bool \<Rightarrow> kb_round list \<Rightarrow> string \<Rightarrow> string option" where
  "get_cmd intr [] cmd = None"
| "get_cmd intr ((stopped, inp) # rs) cmd =
     (if stopped then Some (if intr then [] else cmd)
      else
        (case inp of
           Some (Some ch) \<Rightarrow>
             (if ch = CHR 0x0A then Some (if intr then [] else cmd) else get_cmd intr rs (cmd @ [ch]))
         | _ \<Rightarrow> get_cmd intr rs cmd))"

text \<open>
  \<open>__getline_async\<close>, with the characters \<open>readsome\<close> has, and the line so far that it keeps between calls. The
  result has the characters left in the stream.
\<close>

fun getline_async :: "char \<Rightarrow> string \<Rightarrow> string \<Rightarrow> bool \<times> string \<times> string \<times> string" where
  "getline_async delim [] so_far = (False, [], so_far, [])"
| "getline_async delim (c # cs) so_far =
     (if c = delim then (True, so_far, [], cs) else getline_async delim cs (so_far @ [c]))"

section \<open>Commands and events\<close>

record kb_mapping =
  kb_cmd :: string
  kb_config :: event_config
  kb_state :: bool

definition get_mapping_by_cmd :: "string \<Rightarrow> (string \<times> kb_mapping) list \<Rightarrow> kb_mapping option" where
  "get_mapping_by_cmd cmd ms = map_option snd (find (\<lambda>(_, m). kb_cmd m = cmd) ms)"

fun toggle_mapping_state_by_cmd :: "string \<Rightarrow> (string \<times> kb_mapping) list \<Rightarrow> (string \<times> kb_mapping) list" where
  "toggle_mapping_state_by_cmd cmd [] = []"
| "toggle_mapping_state_by_cmd cmd ((k, m) # ms) =
     (if kb_cmd m = cmd
      then (k, if ec_statefull (evc_caps (kb_config m)) then m\<lparr>kb_state := \<not> kb_state m\<rparr> else m) # ms
      else (k, m) # toggle_mapping_state_by_cmd cmd ms)"

definition event_from_mapping :: "double \<Rightarrow> kb_mapping \<Rightarrow> event_object" where
  "event_from_mapping now m =
     event_object_default\<lparr>eo_event := evc_event (kb_config m),
       eo_custom_event_name := evc_custom_event_name (kb_config m), eo_time := now,
       eo_active := ec_statefull (evc_caps (kb_config m)) \<and> kb_state m\<rparr>"

text \<open>What \<open>__keyboard_routine\<close> does with a command it has read.\<close>

definition keyboard_command ::
  "double \<Rightarrow> string \<Rightarrow> (string \<times> kb_mapping) list \<Rightarrow> event_object list \<times> (string \<times> kb_mapping) list" where
  "keyboard_command now cmd ms =
     (if cmd \<noteq> [] then
        (let ms = toggle_mapping_state_by_cmd cmd ms in
         case get_mapping_by_cmd cmd ms of
           Some m \<Rightarrow> ([event_from_mapping now m], ms)
         | None \<Rightarrow> ([], ms))
      else ([], ms))"

section \<open>The event stream\<close>

record kb_stream =
  ks_mappings :: "(string \<times> kb_mapping) list"
  ks_running :: bool
  ks_interrupt :: bool
  ks_thread :: bool

definition keyboard_conf :: event_config where
  "keyboard_conf =
     event_config_default\<lparr>evc_event := ET_CUSTOM, evc_custom_event_name := ''keyboard-cmd-m'', evc_active := True,
       evc_stream := True, evc_snapshot := True,
       evc_caps := event_caps_default\<lparr>ec_periodic := False, ec_snapshot := True, ec_statefull := True, ec_stream := True,
         ec_trigger := True\<rparr>\<rparr>"

definition kb_stream_new :: kb_stream where
  "kb_stream_new =
     \<lparr>ks_mappings = map_put ''keyboard-cmd-m'' \<lparr>kb_cmd = ''m'', kb_config = keyboard_conf, kb_state = False\<rparr> [],
      ks_running = False, ks_interrupt = False, ks_thread = False\<rparr>"

definition kb_get_events :: "kb_stream \<Rightarrow> event_config list \<Rightarrow> bool \<times> event_config list" where
  "kb_get_events s cs =
     (True, fold (\<lambda>(_, m) cs. if \<exists>ec \<in> set cs. name_eq (kb_config m) ec then cs else cs @ [kb_config m]) (ks_mappings s) cs)"

definition start_kb_thread :: "kb_stream \<Rightarrow> kb_stream" where
  "start_kb_thread s = s\<lparr>ks_running := True, ks_interrupt := False, ks_thread := True\<rparr>"

definition stop_kb_thread :: "kb_stream \<Rightarrow> kb_stream" where
  "stop_kb_thread s = s\<lparr>ks_running := False, ks_interrupt := True, ks_thread := False\<rparr>"

definition kb_start :: "double \<Rightarrow> kb_stream \<Rightarrow> (bool \<times> event_object list) \<times> kb_stream" where
  "kb_start now s = ((True, map (\<lambda>(_, m). event_from_mapping now m) (ks_mappings s)), start_kb_thread s)"

definition kb_stop :: "kb_stream \<Rightarrow> kb_stream" where
  "kb_stop s = stop_kb_thread s"

text \<open>The thread: each command, with the time at which it was read, while it runs.\<close>

fun keyboard_routine :: "(double \<times> string) list \<Rightarrow> kb_stream \<Rightarrow> event_object list \<times> kb_stream" where
  "keyboard_routine [] s = ([], s)"
| "keyboard_routine ((now, cmd) # cs) s =
     (if ks_running s then
        (let (evs, ms) = keyboard_command now cmd (ks_mappings s);
             (evs', s) = keyboard_routine cs (s\<lparr>ks_mappings := ms\<rparr>)
         in (evs @ evs', s))
      else ([], s))"

section \<open>Facts\<close>

lemma get_toggled:
  "get_mapping_by_cmd cmd (toggle_mapping_state_by_cmd c ms) =
     (if cmd = c then map_option (\<lambda>m. if ec_statefull (evc_caps (kb_config m)) then m\<lparr>kb_state := \<not> kb_state m\<rparr> else m)
        (get_mapping_by_cmd cmd ms)
      else get_mapping_by_cmd cmd ms)"
  by (induction c ms rule: toggle_mapping_state_by_cmd.induct) (auto simp: get_mapping_by_cmd_def)

text \<open>The activity of the events that \<open>n\<close> commands give, from the state \<open>b\<close> of their mapping.\<close>

fun alternating :: "nat \<Rightarrow> bool \<Rightarrow> bool list" where
  "alternating 0 b = []"
| "alternating (Suc n) b = (\<not> b) # alternating n (\<not> b)"

definition events_of :: "kb_mapping \<Rightarrow> event_object list \<Rightarrow> event_object list" where
  "events_of m evs = filter (\<lambda>e. eo_event e = evc_event (kb_config m) \<and> eo_custom_event_name e = evc_custom_event_name (kb_config m)) evs"

definition own_name :: "string \<Rightarrow> kb_mapping \<Rightarrow> (string \<times> kb_mapping) list \<Rightarrow> bool" where
  "own_name cmd m ms \<longleftrightarrow>
     (\<forall>(_, m') \<in> set ms. name_eq (kb_config m') (kb_config m) \<longrightarrow> kb_cmd m' = cmd)"

lemma own_name_toggle: "own_name cmd m ms \<Longrightarrow> own_name cmd m (toggle_mapping_state_by_cmd c ms)"
  by (induction c ms rule: toggle_mapping_state_by_cmd.induct) (auto simp: own_name_def)

lemma get_mapping_in: "get_mapping_by_cmd c ms = Some m \<Longrightarrow> kb_cmd m = c \<and> (\<exists>k. (k, m) \<in> set ms)"
  by (auto simp: get_mapping_by_cmd_def find_Some_iff) (metis nth_mem)

lemma own_name_command: "own_name cmd m ms \<Longrightarrow> own_name cmd m (snd (keyboard_command now c ms))"
  by (auto simp: keyboard_command_def Let_def own_name_toggle split: option.splits)

lemma own_name_state [simp]: "own_name cmd (m\<lparr>kb_state := b\<rparr>) ms = own_name cmd m ms"
  by (simp add: own_name_def)

lemma events_of_state [simp]: "events_of (m\<lparr>kb_state := b\<rparr>) evs = events_of m evs"
  by (simp add: events_of_def)

lemma command_events:
  assumes "get_mapping_by_cmd cmd ms = Some m" "cmd \<noteq> []" "ec_statefull (evc_caps (kb_config m))" "own_name cmd m ms"
  shows "events_of m (fst (keyboard_command now c ms)) =
      (if c = cmd then [event_from_mapping now (m\<lparr>kb_state := \<not> kb_state m\<rparr>)] else [])"
    and "get_mapping_by_cmd cmd (snd (keyboard_command now c ms)) =
      Some (if c = cmd then m\<lparr>kb_state := \<not> kb_state m\<rparr> else m)"
proof -
  show "events_of m (fst (keyboard_command now c ms)) =
      (if c = cmd then [event_from_mapping now (m\<lparr>kb_state := \<not> kb_state m\<rparr>)] else [])"
  proof (cases "c = cmd")
    case True
    then show ?thesis using assms
      by (simp add: keyboard_command_def Let_def get_toggled events_of_def event_from_mapping_def)
  next
    case False
    have "\<not> name_eq (kb_config m') (kb_config m)" if "get_mapping_by_cmd c (toggle_mapping_state_by_cmd c ms) = Some m'" for m'
      using get_mapping_in [OF that] own_name_toggle [OF assms(4), of c] False by (auto simp: own_name_def)
    then show ?thesis using False
      by (auto simp: keyboard_command_def Let_def events_of_def event_from_mapping_def name_eq_def split: option.splits)
  qed
  show "get_mapping_by_cmd cmd (snd (keyboard_command now c ms)) =
      Some (if c = cmd then m\<lparr>kb_state := \<not> kb_state m\<rparr> else m)"
    using assms by (auto simp: keyboard_command_def Let_def get_toggled split: option.splits)
qed

lemma keyboard_alternates:
  assumes "get_mapping_by_cmd cmd (ks_mappings s) = Some m" "cmd \<noteq> []" "ec_statefull (evc_caps (kb_config m))"
    "own_name cmd m (ks_mappings s)" "ks_running s"
  shows "map eo_active (events_of m (fst (keyboard_routine cs s))) =
      alternating (length (filter (\<lambda>(_, c). c = cmd) cs)) (kb_state m) \<and>
    map eo_time (events_of m (fst (keyboard_routine cs s))) = map fst (filter (\<lambda>(_, c). c = cmd) cs)"
  using assms
proof (induction cs arbitrary: s m)
  case Nil
  then show ?case by (simp add: events_of_def)
next
  case (Cons x cs)
  obtain now c where x: "x = (now, c)" by (cases x)
  let ?p = "keyboard_command now c (ks_mappings s)"
  let ?m = "if c = cmd then m\<lparr>kb_state := \<not> kb_state m\<rparr> else m"
  note step = command_events [OF Cons.prems(1,2,3,4), of now c]
  have own: "own_name cmd ?m (snd ?p)"
    using own_name_command [OF Cons.prems(4), of now c] by auto
  have "map eo_active (events_of ?m (fst (keyboard_routine cs (s\<lparr>ks_mappings := snd ?p\<rparr>)))) =
      alternating (length (filter (\<lambda>(_, c). c = cmd) cs)) (kb_state ?m) \<and>
    map eo_time (events_of ?m (fst (keyboard_routine cs (s\<lparr>ks_mappings := snd ?p\<rparr>)))) = map fst (filter (\<lambda>(_, c). c = cmd) cs)"
    by (rule Cons.IH) (use Cons.prems step own in auto)
  moreover have "events_of m (fst (keyboard_routine (x # cs) s)) =
      events_of m (fst ?p) @ events_of m (fst (keyboard_routine cs (s\<lparr>ks_mappings := snd ?p\<rparr>)))"
    using Cons.prems(5) by (simp add: x events_of_def split: prod.splits)
  ultimately show ?case
    using step(1) Cons.prems(3) by (cases "c = cmd") (simp_all add: x event_from_mapping_def)
qed

lemma command_configs: "map (\<lambda>(_, m). kb_config m) (snd (keyboard_command now c ms)) = map (\<lambda>(_, m). kb_config m) ms"
proof -
  have "map (\<lambda>(_, m). kb_config m) (toggle_mapping_state_by_cmd c ms) = map (\<lambda>(_, m). kb_config m) ms"
    by (induction c ms rule: toggle_mapping_state_by_cmd.induct) auto
  then show ?thesis by (auto simp: keyboard_command_def Let_def split: option.splits)
qed

lemma routine_names:
  assumes "map (\<lambda>(_, m). kb_config m) (ks_mappings s) = [conf]"
  shows "\<forall>e \<in> set (fst (keyboard_routine cs s)). eo_event e = evc_event conf \<and>
    eo_custom_event_name e = evc_custom_event_name conf"
  using assms
proof (induction cs arbitrary: s)
  case (Cons x cs)
  obtain now c where x: "x = (now, c)" by (cases x)
  let ?p = "keyboard_command now c (ks_mappings s)"
  have "\<forall>e \<in> set (fst (keyboard_routine cs (s\<lparr>ks_mappings := snd ?p\<rparr>))). eo_event e = evc_event conf \<and>
      eo_custom_event_name e = evc_custom_event_name conf"
    by (rule Cons.IH) (simp add: command_configs Cons.prems)
  moreover have "\<forall>e \<in> set (fst ?p). eo_event e = evc_event conf \<and> eo_custom_event_name e = evc_custom_event_name conf"
  proof -
    have "kb_config m = conf" if "get_mapping_by_cmd c (toggle_mapping_state_by_cmd c (ks_mappings s)) = Some m" for m
      using get_mapping_in [OF that] command_configs [of now c "ks_mappings s"] Cons.prems
      by (auto simp: keyboard_command_def Let_def get_mapping_by_cmd_def map_eq_Cons_conv split: if_splits option.splits)
    then show ?thesis by (auto simp: keyboard_command_def Let_def event_from_mapping_def split: option.splits)
  qed
  ultimately show ?case by (auto simp: x split: prod.splits)
qed simp

lemma events_of_all:
  "\<forall>e \<in> set evs. eo_event e = evc_event (kb_config m) \<and> eo_custom_event_name e = evc_custom_event_name (kb_config m) \<Longrightarrow>
   events_of m evs = evs"
  by (simp add: events_of_def filter_id_conv)

text \<open>What is typed up to the end of a line, whatever rounds have no input between.\<close>

definition typed :: "kb_round list \<Rightarrow> string" where
  "typed rs = concat (map (\<lambda>(_, inp). case inp of Some (Some c) \<Rightarrow> [c] | _ \<Rightarrow> []) rs)"

lemma get_cmd_line:
  assumes "list_all (\<lambda>r. \<not> fst r \<and> snd r \<noteq> Some (Some CHR 0x0A)) rs"
  shows "get_cmd intr (rs @ (False, Some (Some CHR 0x0A)) # rest) cmd = Some (if intr then [] else cmd @ typed rs)"
    and "get_cmd intr (rs @ (True, inp) # rest) cmd = Some (if intr then [] else cmd @ typed rs)"
    and "get_cmd intr rs cmd = None"
  using assms by (induction rs arbitrary: cmd) (auto simp: typed_def split: option.splits)

lemma name_eq_refl [simp]: "name_eq c c"
  by (simp add: name_eq_def)

lemma add_configs:
  fixes ms :: "(string \<times> kb_mapping) list"
  defines "f \<equiv> \<lambda>(_ :: string, m) cs. if \<exists>ec \<in> set cs. name_eq (kb_config m) ec then cs else cs @ [kb_config m]"
  shows "take (length cs) (fold f ms cs) = cs \<and> set cs \<subseteq> set (fold f ms cs) \<and>
    list_all (\<lambda>(_, m). \<exists>ec \<in> set (fold f ms cs). name_eq (kb_config m) ec) ms"
proof (induction ms arbitrary: cs)
  case (Cons x ms)
  obtain k m where x: "x = (k, m)" by (cases x)
  let ?cs = "f x cs"
  have a: "\<exists>ec \<in> set ?cs. name_eq (kb_config m) ec" "take (length cs) ?cs = cs" "set cs \<subseteq> set ?cs"
    by (auto simp: f_def x)
  have b: "take (length ?cs) (fold f ms ?cs) = ?cs" "set ?cs \<subseteq> set (fold f ms ?cs)"
    using Cons.IH [of ?cs] by auto
  have "length cs \<le> length ?cs" by (auto simp: f_def x)
  then have "take (length cs) (fold f ms ?cs) = take (length cs) (take (length ?cs) (fold f ms ?cs))"
    by (simp add: min_def)
  then have "take (length cs) (fold f ms ?cs) = cs" using a(2) b(1) by simp
  with a b Cons.IH [of ?cs] show ?case by (auto simp: x)
qed simp

lemma add_configs_again:
  "list_all (\<lambda>(_, m). \<exists>ec \<in> set cs. name_eq (kb_config m) ec) ms \<Longrightarrow>
   fold (\<lambda>(_, m) cs. if \<exists>ec \<in> set cs. name_eq (kb_config m) ec then cs else cs @ [kb_config m]) ms cs = cs"
  by (induction ms) auto

section \<open>Properties\<close>

text \<open>
  A stateful event of the keyboard never reports the same state twice: whatever is typed, its events are as many
  as the times its command was typed, at those times, and they alternate, beginning with the opposite of the state that
  \<open>start\<close> reports first, which is inactive for a new stream. Other commands give no event.\<close>

theorem keyboard_events_alternate:
  "let (r, s) = kb_start t0 kb_stream_new; (evs, s) = keyboard_routine cs s;
       typed_m = filter (\<lambda>(_, c). c = ''m'') cs
   in r = (True, [event_from_mapping t0 \<lparr>kb_cmd = ''m'', kb_config = keyboard_conf, kb_state = False\<rparr>]) \<and>
      map eo_active (snd r @ evs) = False # alternating (length typed_m) False \<and>
      map eo_time evs = map fst typed_m \<and>
      list_all (\<lambda>e. eo_event e = ET_CUSTOM \<and> eo_custom_event_name e = ''keyboard-cmd-m'') evs"
proof -
  let ?m = "\<lparr>kb_cmd = ''m'', kb_config = keyboard_conf, kb_state = False\<rparr>"
  let ?s = "snd (kb_start t0 kb_stream_new)"
  have ms: "ks_mappings ?s = [(''keyboard-cmd-m'', ?m)]" "ks_running ?s"
    by (simp_all add: kb_start_def start_kb_thread_def kb_stream_new_def)
  have *: "map eo_active (events_of ?m (fst (keyboard_routine cs ?s))) =
      alternating (length (filter (\<lambda>(_, c). c = ''m'') cs)) (kb_state ?m) \<and>
    map eo_time (events_of ?m (fst (keyboard_routine cs ?s))) = map fst (filter (\<lambda>(_, c). c = ''m'') cs)"
    by (rule keyboard_alternates)
      (simp_all add: ms get_mapping_by_cmd_def keyboard_conf_def event_caps_default_def own_name_def)
  have all: "\<forall>e \<in> set (fst (keyboard_routine cs ?s)). eo_event e = ET_CUSTOM \<and> eo_custom_event_name e = ''keyboard-cmd-m''"
    using routine_names [of ?s keyboard_conf cs] by (simp add: ms keyboard_conf_def)
  have "events_of ?m (fst (keyboard_routine cs ?s)) = fst (keyboard_routine cs ?s)"
    by (rule events_of_all) (use all in \<open>simp add: keyboard_conf_def\<close>)
  then show ?thesis
    using * all by (auto simp: kb_start_def kb_stream_new_def Let_def event_from_mapping_def list_all_iff split: prod.splits)
qed

text \<open>
  The configurations are added once: a list that has them is not changed, so that asking again changes nothing, and
  whatever was in the list stays, at its place. This is what the interface asks of an event stream and the ONVIF stream
  does not do.\<close>

theorem configs_added_once:
  "let cs' = snd (kb_get_events s cs)
   in take (length cs) cs' = cs \<and> snd (kb_get_events s cs') = cs' \<and>
      list_all (\<lambda>(_, m). \<exists>ec \<in> set cs'. name_eq (kb_config m) ec) (ks_mappings s)"
  using add_configs [of cs "ks_mappings s"] add_configs_again [of "snd (kb_get_events s cs)" "ks_mappings s"]
  by (simp add: kb_get_events_def Let_def)

end
