(* ===== verification/Spec2Isabelle.thy ===== *)
theory Spec2Isabelle
  imports Motion_Map Http Media_Stream Multifrag Recording Onvif_Events Reverse_Tunnel Sshd Settings_File Manager_Correct Ff_Input Cloud_Api Rest_Api Keyboard_Events
begin

text \<open>
  A verification library for the VXG embedded cloud SDK, the agent that connects a camera to the VXG cloud.

  \<^bold>\<open>The program and its model.\<close> The agent is one object, the manager, over a stack of parts; \<^verbatim>\<open>src/\<close> is short
  for \<^verbatim>\<open>src/src/\<close>.

  \<^item> \<^verbatim>\<open>utils/\<close>: \<open>Packbits\<close> (\<^verbatim>\<open>packbits.c\<close>), \<open>Base64\<close> (\<^verbatim>\<open>base64.cc\<close>), \<open>Motion_Map\<close> (motion grids), \<open>Strings_Util\<close> and
    \<open>Time_Format\<close> (\<^verbatim>\<open>utils.cc\<close>). Bytes are \<^typ>\<open>8 word\<close>; reads and writes outside a buffer are error values.
  \<^item> \<^verbatim>\<open>agent/timeline.h\<close>: \<open>Time_Period\<close>, \<open>Timeline\<close> (merging periods) and \<open>Storage\<close> (the two timed storages with
    \<^verbatim>\<open>cloud/cloud_api_v2.h\<close> and \<^verbatim>\<open>cloud_api_v4.h\<close>). A time point is an integer of nanoseconds.
  \<^item> \<^verbatim>\<open>agent/upload.h\<close>: \<open>Uploader\<close>, the planner that turns events into segments, segments into windows and windows
    into uploads. A segmenter is an entry of a store, a shared pointer its number.
  \<^item> \<^verbatim>\<open>agent-proto/\<close>: \<open>Json_Codec\<close> (reflection of structures to JSON, with the values that stand for an unset member),
    \<open>Proto_Caps\<close>, \<open>Proto_Config\<close>, \<open>Proto_Events\<close> and \<open>Proto_Commands\<close> (a record for each class), \<open>Command_Factory\<close>
    (\<^verbatim>\<open>command-factory.h\<close>), \<open>Command_Handler\<close> (\<^verbatim>\<open>command-handler.cc\<close>: one function for each handler, the dispatch and
    the acknowledgements). \<open>Handler_Invariant\<close> is the interface of the handler to a derived class: an invariant that
    every virtual function keeps, every entry point of the handler keeps.
  \<^item> \<^verbatim>\<open>net/\<close>: \<open>Timers\<close> (\<^verbatim>\<open>lws_common.h\<close>, timed callbacks), \<open>Websocket\<close> (\<^verbatim>\<open>websockets.cc\<close>, \<^verbatim>\<open>transport.h\<close>), \<open>Http\<close>
    (\<^verbatim>\<open>http.cc\<close>). libwebsockets is an argument: a record of the answers of its functions, and step relations in which
    it calls back.
  \<^item> \<open>Uri\<close> and \<open>Manager_Config\<close>: \<^verbatim>\<open>cloud/Uri.h\<close>, \<^verbatim>\<open>agent/manager-config.h\<close>, \<^verbatim>\<open>utils/profile.h\<close>.
  \<^item> \<^verbatim>\<open>agent/manager.h\<close>: \<open>Event_State\<close>, the state of one event with its timers and its use of the uploader.
  \<^item> \<^verbatim>\<open>agent/manager.cc\<close>: \<open>Manager_State\<close>, \<open>Manager_Upload\<close>, \<open>Manager_Events\<close>, \<open>Manager_Streams\<close> and \<open>Manager\<close>, in the
    order of the source. The application is the record \<open>device\<close> of the functions of \<^verbatim>\<open>callback.h\<close>, \<^verbatim>\<open>stream.h\<close> and
    \<^verbatim>\<open>event-stream.h\<close>, which change an abstract state; \<open>agent_reachable\<close> are the states of the whole agent under every
    order of messages, timers, responses, tasks and calls of the application.
  \<^item> \<^verbatim>\<open>streamer/\<close>: \<open>Media_Queue\<close> and \<open>Media_Graph\<close> (\<^verbatim>\<open>base_streamer.h\<close>: queues, the threads of sources and sinks),
    \<open>Media_Stream\<close> (\<^verbatim>\<open>stream.h\<close>), \<open>Multifrag\<close> (\<^verbatim>\<open>multifrag_sink.cc\<close>) and \<open>Recording\<close> (\<^verbatim>\<open>recroding_stream.h\<close>).
    Threads are program counters; every interleaving of their steps is a run.

  \<^bold>\<open>What is shown.\<close> Codecs and the protocol: round trips with exact bounds, and that the factory makes the class the
  handlers cast to. The uploader: its assertion holds, its loops return, its counters add up, a closed segmenter is
  processed; the state of an event drives it only in ways that keep this. The timers: a cancelled callback is not
  called. The handler: each command is answered once. The agent: its record uploads stay within the limits of the
  profile, the sink of the live stream is started once, events are sent only as configured, a record reaches the URL
  the cloud gave for it. HTTP: bodies are sent whole, requests answered once. Streaming: frames arrive in order under
  every interleaving, queues are bounded, threads are never overwritten, fragments follow the timestamps. Theorems of
  kind \<^emph>\<open>error\<close> show behaviour of the code that its authors will not have wanted; each has a run that ends there.

  \<^bold>\<open>Reading conventions.\<close> A failure is \<open>Inl\<close> or \<open>None\<close>; a null pointer that is dereferenced, an escaping exception or
  another fault of the agent sets the flag that \<open>fault\<close> sets. Maps of the source with string keys are association
  lists in the order of the keys (\<open>Ordered_Map\<close>). Values the source reads from outside (the clock, the device, replies)
  are arguments. Machine integers are kept at their width where the source depends on it (message numbers, JSON
  integers, sizes); the remaining counters and the time stamps of media are exact integers.

  \<^bold>\<open>Loops.\<close> The loops of the source are structural recursions or functions with a measure. Where the code
  has no bound of its own (the line breaks of base64, the flushing of acknowledgements, the paged listing of the cloud
  storage, the retries of the uploader) the loop is a \<open>partial_function\<close> whose \<open>None\<close> is a loop that does not return,
  and theorems say when it does: \<open>uploader_never_stuck\<close> for the uploader, \<open>flush_command_acks_returns\<close> and
  the theorems of \<open>Storage\<close> for the others.

  \<^bold>\<open>Assumptions.\<close> The numbers of JSON are read and printed by a record \<open>json_num\<close> that is assumed to be exact for the
  values of the round trips. A response of the transport to the agent comes once for each request, which
  \<open>http_responds_once\<close> shows for a library that does not report an error before it refuses a connection. The uploader
  exists once the manager was started. Delays of timers are not measured: any armed timer may fire. Methods that hold
  a lock are one step.

  \<^bold>\<open>Not modelled.\<close> Logging (\<^verbatim>\<open>loguru\<close>, \<^verbatim>\<open>logging.h\<close>) decides nothing. The adapters to FFmpeg, RTMP and ONVIF
  (\<^verbatim>\<open>streamer/ffmpeg_*\<close>, \<^verbatim>\<open>rtmp_*\<close>, \<^verbatim>\<open>rtsp_*\<close>, \<^verbatim>\<open>onvif_*\<close>) consist of calls into those libraries; the sinks and sources they
  implement are parameters of \<open>Media_Graph\<close>. The SSH server and the tunnels (\<^verbatim>\<open>net/lws-sshd.c\<close>, \<^verbatim>\<open>net/sshd.cc\<close>,
  \<^verbatim>\<open>platform/\<close>) handle sockets and processes. \<^verbatim>\<open>cloud/CloudAPI.h\<close> with its helpers is used for one address only, which
  \<open>Manager_Config\<close> and \<open>Manager\<close> model. Text of times that goes through the date library is a parameter. Everything
  under \<^verbatim>\<open>subprojects/\<close> is third-party code, patched; the tests and examples are not part of the library.
\<close>

end
